(* ===== verification/Prelude.thy ===== *)
theory Prelude
  imports Main "HOL-Library.Char_ord" "HOL-Library.List_Lexorder" "HOL-Library.Product_Lexorder"
    "HOL-Library.Multiset" "HOL-Library.AList"
begin

text \<open>
  The parts of the Go language and of its standard library that the modelled packages use, and
  the generic facts about them.

  \<^item> A Go \<open>string\<close> and a \<open>[]byte\<close> are a list of bytes, Isabelle's \<open>string\<close>; Go's \<open><\<close> on strings
    is the byte-wise lexicographic order, which is the order of \<open>List_Lexorder\<close> over \<open>Char_ord\<close>.
  \<^item> An \<open>error\<close> result is a \<open>go_error option\<close> (\<open>None\<close> is \<open>nil\<close>); a pair of a value and an
    \<open>error\<close> is the sum \<open>go_error + 'a\<close>. An error keeps its code, its stage and the structured
    context fields of the package's \<open>errCode\<close>; the human-readable text is dropped.
  \<^item> \<open>sort.SliceStable\<close> is \<open>slice_stable\<close>, insertion sort by the comparator the source passes; the
    locales \<open>strict_weak_order\<close> and \<open>keyed_order\<close> say what it yields.
  \<^item> A Go map that is only filled and then read by sorted key is an association list updated by
    \<open>AList.update\<close>.
\<close>

section \<open>Collections of facts\<close>

named_theorems result_simps \<open>rewriting of results of fallible operations\<close>
named_theorems order_defs \<open>comparators and their keys\<close>

section \<open>Errors and results\<close>

datatype go_error = GoError (error_code: string) (error_stage: string) (error_fields: "string list")

type_synonym 'a result = "go_error + 'a"

definition rbind :: "'a result \<Rightarrow> ('a \<Rightarrow> 'b result) \<Rightarrow> 'b result" where
  "rbind m k = (case m of Inl e \<Rightarrow> Inl e | Inr x \<Rightarrow> k x)"

text \<open>\<open>if err := m; err != nil { return err }\<close> followed by \<open>k\<close>.\<close>

definition rcheck :: "go_error option \<Rightarrow> 'b result \<Rightarrow> 'b result" where
  "rcheck m k = (case m of Some e \<Rightarrow> Inl e | None \<Rightarrow> k)"

definition echeck :: "go_error option \<Rightarrow> go_error option \<Rightarrow> go_error option" where
  "echeck m k = (case m of Some e \<Rightarrow> Some e | None \<Rightarrow> k)"

text \<open>A \<open>for\<close> loop whose body returns the first error.\<close>

fun first_error :: "('a \<Rightarrow> go_error option) \<Rightarrow> 'a list \<Rightarrow> go_error option" where
  "first_error f [] = None"
| "first_error f (x # xs) = (case f x of Some e \<Rightarrow> Some e | None \<Rightarrow> first_error f xs)"

text \<open>A \<open>for\<close> loop that appends \<open>f x\<close> to a slice and stops at the first error.\<close>

fun map_result :: "('a \<Rightarrow> 'b result) \<Rightarrow> 'a list \<Rightarrow> 'b list result" where
  "map_result f [] = Inr []"
| "map_result f (x # xs) = rbind (f x) (\<lambda>y. rbind (map_result f xs) (\<lambda>ys. Inr (y # ys)))"

lemma rbind_simps [simp]:
  "rbind (Inl e) k = Inl e"
  "rbind (Inr x) k = k x"
  by (simp_all add: rbind_def)

lemma rbind_eq_Inr [result_simps]:
  "rbind m k = Inr y \<longleftrightarrow> (\<exists>x. m = Inr x \<and> k x = Inr y)"
  by (cases m) auto

lemma rcheck_simps [simp]:
  "rcheck None k = k"
  "rcheck (Some e) k = Inl e"
  by (simp_all add: rcheck_def)

lemma rcheck_eq_Inr [result_simps]:
  "rcheck m k = Inr y \<longleftrightarrow> m = None \<and> k = Inr y"
  by (cases m) auto

lemma echeck_simps [simp]:
  "echeck None k = k"
  "echeck (Some e) k = Some e"
  by (simp_all add: echeck_def)

lemma echeck_eq_None [result_simps]:
  "echeck m k = None \<longleftrightarrow> m = None \<and> k = None"
  by (cases m) auto

lemma if_Inl_eq_Inr [result_simps]:
  "(if c then Inl e else r) = Inr y \<longleftrightarrow> \<not> c \<and> r = Inr y"
  by simp

lemma if_Some_eq_None [result_simps]:
  "(if c then Some e else r) = None \<longleftrightarrow> \<not> c \<and> r = None"
  by simp

lemma first_error_None [result_simps]:
  "first_error f xs = None \<longleftrightarrow> (\<forall>x\<in>set xs. f x = None)"
  by (induction xs) (auto split: option.splits)

lemma map_result_Inr_length:
  "map_result f xs = Inr ys \<Longrightarrow> length ys = length xs"
  by (induction xs arbitrary: ys) (auto simp: result_simps)

lemma map_result_Inr_nth:
  "map_result f xs = Inr ys \<Longrightarrow> i < length xs \<Longrightarrow> f (xs ! i) = Inr (ys ! i)"
proof (induction xs arbitrary: ys i)
  case Nil
  then show ?case by simp
next
  case (Cons x xs)
  then show ?case by (cases i) (auto simp: result_simps)
qed

lemma map_result_Inr_set:
  "map_result f xs = Inr ys \<Longrightarrow> y \<in> set ys \<Longrightarrow> \<exists>x\<in>set xs. f x = Inr y"
  by (induction xs arbitrary: ys) (auto simp: result_simps)

lemma map_result_total:
  "(\<And>x. x \<in> set xs \<Longrightarrow> f x = Inr (g x)) \<Longrightarrow> map_result f xs = Inr (map g xs)"
  by (induction xs) auto

section \<open>Integers\<close>

text \<open>The value of an \<open>int64\<close> result: Go wraps around in two's complement.\<close>

definition signed64 :: "int \<Rightarrow> int" where
  "signed64 v = (v + 2 ^ 63) mod 2 ^ 64 - 2 ^ 63"

lemma signed64_id [simp]: "- (2 ^ 63) \<le> v \<Longrightarrow> v < 2 ^ 63 \<Longrightarrow> signed64 v = v"
  by (simp add: signed64_def)

lemma signed64_range: "- (2 ^ 63) \<le> signed64 v \<and> signed64 v < 2 ^ 63"
proof -
  have "(v + 2 ^ 63) mod 2 ^ 64 < (2 :: int) ^ 64" by (rule pos_mod_bound) simp
  then show ?thesis by (simp add: signed64_def)
qed

section \<open>Contexts\<close>

text \<open>
  \<open>ctx.Err()\<close> is polled at the points the source polls it; \<open>ctx i\<close> is the answer of the poll
  with number \<open>i\<close>.
\<close>

datatype ctx_error = DeadlineExceeded | Canceled

type_synonym go_context = "nat \<Rightarrow> ctx_error option"

definition live :: go_context where
  "live = (\<lambda>_. None)"

lemma live_apply [simp]: "live i = None"
  by (simp add: live_def)

section \<open>Strings\<close>

abbreviation NUL :: char where "NUL \<equiv> CHR 0x00"

definition has_prefix :: "string \<Rightarrow> string \<Rightarrow> bool" where
  "has_prefix s p \<longleftrightarrow> take (length p) s = p"

definition lower_hex_char :: "char \<Rightarrow> bool" where
  "lower_hex_char c \<longleftrightarrow> CHR ''0'' \<le> c \<and> c \<le> CHR ''9'' \<or> CHR ''a'' \<le> c \<and> c \<le> CHR ''f''"

definition isLowerHex :: "string \<Rightarrow> nat \<Rightarrow> bool" where
  "isLowerHex s n \<longleftrightarrow> length s = n \<and> list_all lower_hex_char s"

definition control_char :: "char \<Rightarrow> bool" where
  "control_char c \<longleftrightarrow> of_char c < (0x20 :: nat) \<or> of_char c = (0x7f :: nat)"

definition hasControl :: "string \<Rightarrow> bool" where
  "hasControl s \<longleftrightarrow> list_ex control_char s"

text \<open>\<open>strings.Join(xs, "\\x00")\<close>.\<close>

fun join_nul :: "string list \<Rightarrow> string" where
  "join_nul [] = []"
| "join_nul [x] = x"
| "join_nul (x # y # ys) = x @ NUL # join_nul (y # ys)"

definition first :: "string list \<Rightarrow> string" where
  "first xs = (case xs of [] \<Rightarrow> [] | x # _ \<Rightarrow> x)"

lemma first_simps [simp]: "first [] = []" "first (x # xs) = x"
  by (simp_all add: first_def)

text \<open>\<open>utf8.ValidString\<close>: the well-formed byte sequences of the Unicode standard.\<close>

definition cont_byte :: "char \<Rightarrow> bool" where
  "cont_byte c \<longleftrightarrow> (0x80 :: nat) \<le> of_char c \<and> of_char c \<le> (0xBF :: nat)"

definition byte_in :: "nat \<Rightarrow> nat \<Rightarrow> char \<Rightarrow> bool" where
  "byte_in lo hi c \<longleftrightarrow> lo \<le> of_char c \<and> of_char c \<le> hi"

fun validString :: "string \<Rightarrow> bool" where
  "validString [] = True"
| "validString (a # s) =
     (if byte_in 0 0x7F a then validString s
      else case s of
        [] \<Rightarrow> False
      | b # s1 \<Rightarrow>
         if byte_in 0xC2 0xDF a then cont_byte b \<and> validString s1
         else (case s1 of
            [] \<Rightarrow> False
          | c # s2 \<Rightarrow>
             if byte_in 0xE0 0xE0 a then byte_in 0xA0 0xBF b \<and> cont_byte c \<and> validString s2
             else if byte_in 0xED 0xED a then byte_in 0x80 0x9F b \<and> cont_byte c \<and> validString s2
             else if byte_in 0xE1 0xEF a then cont_byte b \<and> cont_byte c \<and> validString s2
             else (case s2 of
                [] \<Rightarrow> False
              | d # s3 \<Rightarrow>
                 if byte_in 0xF0 0xF0 a
                 then byte_in 0x90 0xBF b \<and> cont_byte c \<and> cont_byte d \<and> validString s3
                 else if byte_in 0xF1 0xF3 a
                 then cont_byte b \<and> cont_byte c \<and> cont_byte d \<and> validString s3
                 else if byte_in 0xF4 0xF4 a
                 then byte_in 0x80 0x8F b \<and> cont_byte c \<and> cont_byte d \<and> validString s3
                 else False)))"

text \<open>\<open>strings.Split(s, sep)\<close> for a one-byte separator, and \<open>strings.Join\<close>.\<close>

fun split_on :: "char \<Rightarrow> string \<Rightarrow> string list" where
  "split_on sep [] = [[]]"
| "split_on sep (c # cs) =
     (if c = sep then [] # split_on sep cs
      else case split_on sep cs of [] \<Rightarrow> [[c]] | w # ws \<Rightarrow> (c # w) # ws)"

fun join_with :: "string \<Rightarrow> string list \<Rightarrow> string" where
  "join_with sep [] = []"
| "join_with sep [x] = x"
| "join_with sep (x # y # ys) = x @ sep @ join_with sep (y # ys)"

text \<open>
  \<open>path.Clean\<close>: empty and \<open>.\<close> elements are dropped, an inner \<open>..\<close> eats the element before it, a
  \<open>..\<close> at the start of a rooted path is dropped, the empty result is \<open>.\<close>. The accumulator holds the
  elements kept so far, last first.
\<close>

fun clean_elems :: "bool \<Rightarrow> string list \<Rightarrow> string list \<Rightarrow> string list" where
  "clean_elems rooted acc [] = rev acc"
| "clean_elems rooted acc (x # xs) =
     (if x = [] \<or> x = ''.'' then clean_elems rooted acc xs
      else if x = ''..'' then
        (case acc of
           [] \<Rightarrow> if rooted then clean_elems rooted [] xs else clean_elems rooted [''..''] xs
         | a # as \<Rightarrow> if a = ''..'' then clean_elems rooted (''..'' # acc) xs
                     else clean_elems rooted as xs)
      else clean_elems rooted (x # acc) xs)"

definition path_clean :: "string \<Rightarrow> string" where
  "path_clean p =
     (let rooted = has_prefix p ''/''; es = clean_elems rooted [] (split_on (CHR ''/'') p)
      in if rooted then ''/'' @ join_with ''/'' es
         else if es = [] then ''.'' else join_with ''/'' es)"

subsection \<open>Decimal numbers\<close>

text \<open>The loop of \<open>itoa\<close>: digits are put in front until the value is zero.\<close>

fun itoa_loop :: "nat \<Rightarrow> string \<Rightarrow> string" where
  "itoa_loop v b = (if v = 0 then b else itoa_loop (v div 10) (char_of (48 + v mod 10) # b))"

declare itoa_loop.simps [simp del]

definition itoa :: "nat \<Rightarrow> string" where
  "itoa v = (if v = 0 then ''0'' else itoa_loop v [])"

definition digit_char :: "char \<Rightarrow> bool" where
  "digit_char c \<longleftrightarrow> CHR ''0'' \<le> c \<and> c \<le> CHR ''9''"

fun atoi_acc :: "nat \<Rightarrow> string \<Rightarrow> nat" where
  "atoi_acc a [] = a"
| "atoi_acc a (c # cs) = atoi_acc (10 * a + (of_char c - 48)) cs"

lemma of_char_digit [simp]:
  assumes "d < 10"
  shows "of_char (char_of (48 + d :: nat)) = 48 + d"
  using assms by (simp add: of_char_of)

lemma itoa_loop_append: "itoa_loop v (b @ c) = itoa_loop v b @ c"
proof (induction v b rule: itoa_loop.induct)
  case (1 v b)
  show ?case
  proof (cases "v = 0")
    case True
    then show ?thesis by (simp add: itoa_loop.simps)
  next
    case False
    with "1" show ?thesis by (simp add: itoa_loop.simps [of v])
  qed
qed

lemma atoi_itoa_loop: "atoi_acc a (itoa_loop v b) = atoi_acc (a * 10 ^ length (itoa_loop v []) + v) b"
proof (induction v b arbitrary: a rule: itoa_loop.induct)
  case (1 v b)
  show ?case
  proof (cases "v = 0")
    case True
    then show ?thesis by (simp add: itoa_loop.simps)
  next
    case False
    let ?c = "char_of (48 + v mod 10)"
    have len: "length (itoa_loop v []) = Suc (length (itoa_loop (v div 10) []))"
      using False itoa_loop_append [of "v div 10" "[]" "[?c]"] by (simp add: itoa_loop.simps [of v])
    have "atoi_acc a (itoa_loop v b) = atoi_acc a (itoa_loop (v div 10) (?c # b))"
      using False by (simp add: itoa_loop.simps [of v])
    also have "\<dots> = atoi_acc (a * 10 ^ length (itoa_loop (v div 10) []) + v div 10) (?c # b)"
      using "1" False by blast
    also have "\<dots> = atoi_acc (a * 10 ^ length (itoa_loop v []) + v) b"
    proof -
      have "of_char ?c = 48 + v mod 10" by (rule of_char_digit) simp
      moreover have "10 * (v div 10) + v mod 10 = v" by simp
      ultimately show ?thesis
        by (simp add: len algebra_simps)
    qed
    finally show ?thesis .
  qed
qed

text \<open>Reading the decimal text back gives the number, so \<open>itoa\<close> is injective.\<close>

lemma atoi_itoa: "atoi_acc 0 (itoa v) = v"
  by (simp add: itoa_def atoi_itoa_loop)

lemma itoa_inject [simp]: "itoa v = itoa w \<longleftrightarrow> v = w"
  by (metis atoi_itoa)

lemma digit_char_of: "d < 10 \<Longrightarrow> digit_char (char_of (48 + d :: nat))"
  by (simp add: digit_char_def less_eq_char_def of_char_of)

lemma itoa_loop_digits: "list_all digit_char b \<Longrightarrow> list_all digit_char (itoa_loop v b)"
proof (induction v b rule: itoa_loop.induct)
  case (1 v b)
  show ?case
  proof (cases "v = 0")
    case True
    with "1.prems" show ?thesis by (simp add: itoa_loop.simps)
  next
    case False
    have "list_all digit_char (char_of (48 + v mod 10) # b)"
      using "1.prems" digit_char_of [of "v mod 10"] by simp
    with "1.IH" False show ?thesis by (subst itoa_loop.simps) simp
  qed
qed

lemma itoa_digits: "list_all digit_char (itoa v)"
  by (simp add: itoa_def itoa_loop_digits) (simp add: digit_char_def)

lemma NUL_notin_itoa [simp]: "NUL \<notin> set (itoa v)"
proof -
  have "\<not> digit_char NUL" by (simp add: digit_char_def less_eq_char_def)
  then show ?thesis using itoa_digits [of v] by (auto simp: list_all_iff)
qed

subsection \<open>Keys joined with a separator\<close>

text \<open>
  A key \<open>x \<parallel> NUL \<parallel> rest\<close> determines \<open>x\<close> and \<open>rest\<close> when \<open>x\<close> holds no NUL.
\<close>

lemma nul_split_inject:
  "NUL \<notin> set x \<Longrightarrow> NUL \<notin> set x' \<Longrightarrow>
   x @ NUL # y = x' @ NUL # y' \<longleftrightarrow> x = x' \<and> y = y'"
proof (induction x arbitrary: x')
  case Nil
  then show ?case by (cases x') auto
next
  case (Cons c x)
  then show ?case by (cases x') auto
qed

section \<open>Stable sorting by a comparator\<close>

fun insert_stable :: "('a \<Rightarrow> 'a \<Rightarrow> bool) \<Rightarrow> 'a \<Rightarrow> 'a list \<Rightarrow> 'a list" where
  "insert_stable lt x [] = [x]"
| "insert_stable lt x (y # ys) = (if lt y x then y # insert_stable lt x ys else x # y # ys)"

text \<open>\<open>sort.SliceStable(xs, lt)\<close>.\<close>

definition slice_stable :: "('a \<Rightarrow> 'a \<Rightarrow> bool) \<Rightarrow> 'a list \<Rightarrow> 'a list" where
  "slice_stable lt xs = foldr (insert_stable lt) xs []"

lemma slice_stable_simps [simp]:
  "slice_stable lt [] = []"
  "slice_stable lt (x # xs) = insert_stable lt x (slice_stable lt xs)"
  by (simp_all add: slice_stable_def)

lemma mset_insert_stable [simp]: "mset (insert_stable lt x xs) = add_mset x (mset xs)"
  by (induction xs) auto

lemma mset_slice_stable [simp]: "mset (slice_stable lt xs) = mset xs"
  by (induction xs) auto

lemma set_slice_stable [simp]: "set (slice_stable lt xs) = set xs"
  by (metis mset_slice_stable set_mset_mset)

lemma length_slice_stable [simp]: "length (slice_stable lt xs) = length xs"
  by (metis mset_slice_stable size_mset)

lemma distinct_slice_stable [simp]: "distinct (slice_stable lt xs) = distinct xs"
  by (metis distinct_count_atmost_1 mset_slice_stable set_slice_stable)

lemma insert_stable_cong:
  "(\<And>y. y \<in> set xs \<Longrightarrow> lt y x = lt' y x) \<Longrightarrow> insert_stable lt x xs = insert_stable lt' x xs"
  by (induction xs) auto

lemma slice_stable_cong:
  "(\<And>x y. x \<in> set xs \<Longrightarrow> y \<in> set xs \<Longrightarrow> lt x y = lt' x y)
   \<Longrightarrow> slice_stable lt xs = slice_stable lt' xs"
proof (induction xs)
  case (Cons x xs)
  then have "slice_stable lt xs = slice_stable lt' xs" by simp
  moreover have "insert_stable lt x (slice_stable lt' xs) = insert_stable lt' x (slice_stable lt' xs)"
    using Cons.prems by (intro insert_stable_cong) simp
  ultimately show ?case by simp
qed simp

text \<open>What \<open>sort.SliceStable\<close> demands of its comparator.\<close>

locale strict_weak_order =
  fixes lt :: "'a \<Rightarrow> 'a \<Rightarrow> bool"
  assumes irrefl: "\<not> lt x x"
    and trans: "lt x y \<Longrightarrow> lt y z \<Longrightarrow> lt x z"
    and neg_trans: "lt x z \<Longrightarrow> lt x y \<or> lt y z"
begin

definition tied :: "'a \<Rightarrow> 'a \<Rightarrow> bool" where
  "tied x y \<longleftrightarrow> \<not> lt x y \<and> \<not> lt y x"

lemma asym: "lt x y \<Longrightarrow> \<not> lt y x"
  using irrefl trans by blast

lemma sorted_insert_stable:
  "sorted_wrt (\<lambda>a b. \<not> lt b a) xs \<Longrightarrow> sorted_wrt (\<lambda>a b. \<not> lt b a) (insert_stable lt x xs)"
proof (induction xs)
  case Nil
  then show ?case by simp
next
  case (Cons y ys)
  have elems: "set (insert_stable lt x ys) = insert x (set ys)"
    by (metis mset_insert_stable set_mset_add_mset_insert set_mset_mset)
  show ?case
  proof (cases "lt y x")
    case True
    with Cons elems show ?thesis by (auto dest: asym)
  next
    case False
    with Cons.prems show ?thesis using neg_trans by auto
  qed
qed

lemma sorted_slice_stable: "sorted_wrt (\<lambda>a b. \<not> lt b a) (slice_stable lt xs)"
  by (induction xs) (auto intro: sorted_insert_stable)

lemma filter_tied_insert_stable:
  "filter (tied a) (insert_stable lt x xs) = filter (tied a) (x # xs)"
proof (induction xs)
  case Nil
  then show ?case by simp
next
  case (Cons y ys)
  have "lt y x \<Longrightarrow> \<not> (tied a x \<and> tied a y)"
    unfolding tied_def using neg_trans by blast
  with Cons show ?case by auto
qed

text \<open>Elements the comparator does not separate keep their order.\<close>

lemma slice_stable_stable: "filter (tied a) (slice_stable lt xs) = filter (tied a) xs"
  by (induction xs) (simp_all add: filter_tied_insert_stable)

lemma insert_stable_least:
  "(\<And>y. y \<in> set xs \<Longrightarrow> \<not> lt y x) \<Longrightarrow> insert_stable lt x xs = x # xs"
  by (cases xs) auto

text \<open>A list that is in order already is left alone.\<close>

lemma slice_stable_id:
  "sorted_wrt (\<lambda>a b. \<not> lt b a) xs \<Longrightarrow> slice_stable lt xs = xs"
  by (induction xs) (auto intro: insert_stable_least)

lemma slice_stable_idem [simp]: "slice_stable lt (slice_stable lt xs) = slice_stable lt xs"
  by (rule slice_stable_id) (rule sorted_slice_stable)

end

text \<open>A comparator that compares a key, the form of every comparator of the modelled packages.\<close>

locale keyed_order =
  fixes lt :: "'a \<Rightarrow> 'a \<Rightarrow> bool" and key :: "'a \<Rightarrow> 'k :: linorder"
  assumes less_key: "lt x y \<longleftrightarrow> key x < key y"
begin

sublocale strict_weak_order lt
  by unfold_locales (auto simp: less_key)

lemma insert_stable_insort: "insert_stable lt x xs = insort_key key x xs"
  by (induction xs) (auto simp: less_key)

lemma slice_stable_sort_key: "slice_stable lt xs = sort_key key xs"
  by (induction xs) (simp_all add: insert_stable_insort)

text \<open>
  When no two elements share a key, the input order does not matter: every sorting algorithm,
  the unstable \<open>sort.Slice\<close> too, yields this list.
\<close>

lemma slice_unique:
  assumes "mset ys = mset xs" and "inj_on key (set xs)"
  shows "slice_stable lt ys = slice_stable lt xs"
proof -
  have "inj_on key (set ys)"
    using assms by (metis set_mset_mset)
  then have "sort_key key ys = sort_key key xs"
    using assms(1) by (intro sort_key_inj_key_eq) simp_all
  then show ?thesis by (simp add: slice_stable_sort_key)
qed

end

end
