(* ===== verification/Encoding.thy ===== *)
theory Encoding
  imports Prelude
begin

text \<open>
  The byte encodings that the digests of Glassroot are taken over.

  Every package has its own copy of the writers \<open>writeU64\<close>, \<open>writeI64\<close>, \<open>writeBool\<close>,
  \<open>writeString\<close>, \<open>writeStrings\<close> (\<open>compare/digest.go\<close>, \<open>policy/digest.go\<close>, \<open>observe/digest.go\<close>,
  \<open>waiver/digest.go\<close>, \<open>githubapp/digest.go\<close>, \<open>githubinbox/digest.go\<close>); they are one function
  each. A writer is modelled by the bytes it appends to the hash. The locale
  \<open>prefix_code\<close> is the law all of them obey: what was written can be read back from the front of
  the stream, so a sequence of writes determines its values. The hash itself is the
  argument \<open>sha\<close> of the digest functions, from a byte string to the lower-case hexadecimal
  text of its digest; the theory \<open>Sha256\<close> has the interface and the function the program uses.
\<close>

section \<open>Writers\<close>

text \<open>The \<open>n\<close> low bytes of a value, most significant first.\<close>

fun be_bytes :: "nat \<Rightarrow> nat \<Rightarrow> string" where
  "be_bytes 0 v = []"
| "be_bytes (Suc n) v = be_bytes n (v div 256) @ [char_of v]"

definition writeU64 :: "nat \<Rightarrow> string" where
  "writeU64 v = be_bytes 8 v"

definition writeI64 :: "int \<Rightarrow> string" where
  "writeI64 v = writeU64 (nat (v mod 2 ^ 64))"

definition writeBool :: "bool \<Rightarrow> string" where
  "writeBool b = (if b then [char_of (1 :: nat)] else [char_of (0 :: nat)])"

definition writeString :: "string \<Rightarrow> string" where
  "writeString s = writeU64 (length s) @ s"

definition writeStrings :: "string list \<Rightarrow> string" where
  "writeStrings xs = writeU64 (length xs) @ concat (map writeString xs)"

definition u64_range :: "nat \<Rightarrow> bool" where
  "u64_range v \<longleftrightarrow> v < 2 ^ 64"

definition i64_range :: "int \<Rightarrow> bool" where
  "i64_range v \<longleftrightarrow> - (2 ^ 63) \<le> v \<and> v < 2 ^ 63"

text \<open>A Go string or slice has at most \<open>2 ^ 63 - 1\<close> elements.\<close>

definition go_len :: "'a list \<Rightarrow> bool" where
  "go_len s \<longleftrightarrow> length s < 2 ^ 63"

section \<open>Unique readability\<close>

locale prefix_code =
  fixes enc :: "'a \<Rightarrow> string" and ok :: "'a \<Rightarrow> bool"
  assumes readable: "ok x \<Longrightarrow> ok y \<Longrightarrow> enc x @ r = enc y @ s \<Longrightarrow> x = y \<and> r = s"
begin

lemma enc_append_iff: "ok x \<Longrightarrow> ok y \<Longrightarrow> enc x @ r = enc y @ s \<longleftrightarrow> x = y \<and> r = s"
  using readable by blast

lemma enc_inject: "ok x \<Longrightarrow> ok y \<Longrightarrow> enc x = enc y \<Longrightarrow> x = y"
  using readable [of x y "[]" "[]"] by simp

lemma enc_eq: "ok x \<Longrightarrow> ok y \<Longrightarrow> enc x = enc y \<longleftrightarrow> x = y"
  using enc_inject by blast

lemma concat_readable:
  assumes "length xs = length ys" and "list_all ok xs" and "list_all ok ys"
    and "concat (map enc xs) @ r = concat (map enc ys) @ s"
  shows "xs = ys \<and> r = s"
  using assms
proof (induction xs ys rule: list_induct2)
  case Nil
  then show ?case by simp
next
  case (Cons x xs y ys)
  then have "enc x @ (concat (map enc xs) @ r) = enc y @ (concat (map enc ys) @ s)"
    by simp
  then have "x = y" and "concat (map enc xs) @ r = concat (map enc ys) @ s"
    using Cons.prems readable [of x y] by auto
  with Cons show ?case by simp
qed

end

lemma length_be_bytes [simp]: "length (be_bytes n v) = n"
  by (induction n arbitrary: v) auto

lemma length_writeU64 [simp]: "length (writeU64 v) = 8"
  by (simp add: writeU64_def)

text \<open>The bytes, read big-endian, are the value modulo \<open>256 ^ n\<close>.\<close>

definition read_be :: "string \<Rightarrow> nat" where
  "read_be s = foldl (\<lambda>a c. 256 * a + of_char c) 0 s"

lemma read_be_bytes: "read_be (be_bytes n v) = v mod 256 ^ n"
proof (induction n arbitrary: v)
  case 0
  then show ?case by (simp add: read_be_def)
next
  case (Suc n)
  have "read_be (be_bytes (Suc n) v) = 256 * read_be (be_bytes n (v div 256)) + v mod 256"
    by (simp add: read_be_def)
  also have "\<dots> = v mod 256 ^ Suc n"
    by (simp add: Suc.IH mod_mult2_eq)
  finally show ?case .
qed

lemma read_writeU64: "read_be (writeU64 v) = v mod 2 ^ 64"
  by (simp add: writeU64_def read_be_bytes)

interpretation u64: prefix_code writeU64 u64_range
proof
  fix x y :: nat and r s :: string
  assume "u64_range x" "u64_range y" and eq: "writeU64 x @ r = writeU64 y @ s"
  from eq have "writeU64 x = writeU64 y" and "r = s"
    by (auto simp: append_eq_append_conv)
  moreover from this have "x mod 2 ^ 64 = y mod 2 ^ 64"
    by (metis read_writeU64)
  ultimately show "x = y \<and> r = s"
    using \<open>u64_range x\<close> \<open>u64_range y\<close> by (simp add: u64_range_def)
qed

interpretation i64: prefix_code writeI64 i64_range
proof
  fix x y :: int and r s :: string
  assume rng: "i64_range x" "i64_range y" and eq: "writeI64 x @ r = writeI64 y @ s"
  have "u64_range (nat (v mod 2 ^ 64))" for v :: int
    by (simp add: u64_range_def nat_less_iff)
  with eq have "nat (x mod 2 ^ 64) = nat (y mod 2 ^ 64)" and "r = s"
    using u64.readable unfolding writeI64_def by blast+
  then have "x mod 2 ^ 64 = y mod 2 ^ 64"
    by (metis eq_nat_nat_iff pos_mod_sign zero_less_numeral zero_less_power)
  then obtain q where "x - y = 2 ^ 64 * q"
    by (auto simp: mod_eq_dvd_iff dvd_def)
  moreover have "\<bar>x - y\<bar> < 2 ^ 64"
    using rng by (auto simp: i64_range_def)
  ultimately have "x = y"
    by (cases "q = 0") (auto simp: abs_mult)
  with \<open>r = s\<close> show "x = y \<and> r = s" by simp
qed

interpretation boolean: prefix_code writeBool "\<lambda>_. True"
  by unfold_locales (auto simp: writeBool_def split: if_splits)

interpretation str: prefix_code writeString go_len
proof
  fix x y r s :: string
  assume "go_len x" "go_len y" and "writeString x @ r = writeString y @ s"
  then have "writeU64 (length x) @ (x @ r) = writeU64 (length y) @ (y @ s)"
    and "u64_range (length x)" "u64_range (length y)"
    by (simp_all add: writeString_def go_len_def u64_range_def)
  then have "length x = length y" and "x @ r = y @ s"
    using u64.readable by blast+
  then show "x = y \<and> r = s" by simp
qed

interpretation strs: prefix_code writeStrings "\<lambda>xs. go_len xs \<and> list_all go_len xs"
proof
  fix x y :: "string list" and r s :: string
  assume ok: "go_len x \<and> list_all go_len x" "go_len y \<and> list_all go_len y"
    and "writeStrings x @ r = writeStrings y @ s"
  then have "writeU64 (length x) @ (concat (map writeString x) @ r)
      = writeU64 (length y) @ (concat (map writeString y) @ s)"
    and "u64_range (length x)" "u64_range (length y)"
    by (simp_all add: writeStrings_def go_len_def u64_range_def)
  then have "length x = length y"
    and "concat (map writeString x) @ r = concat (map writeString y) @ s"
    using u64.readable by blast+
  then show "x = y \<and> r = s"
    using str.concat_readable ok by blast
qed

text \<open>A counted list of readable values and an optional readable value are readable.\<close>

definition writeList :: "('a \<Rightarrow> string) \<Rightarrow> 'a list \<Rightarrow> string" where
  "writeList enc xs = writeU64 (length xs) @ concat (map enc xs)"

definition writeOption :: "('a \<Rightarrow> string) \<Rightarrow> 'a option \<Rightarrow> string" where
  "writeOption enc x = (case x of Some y \<Rightarrow> writeBool True @ enc y | None \<Rightarrow> writeBool False)"

context prefix_code
begin

lemma list_readable:
  assumes ok: "go_len xs \<and> list_all ok xs" "go_len ys \<and> list_all ok ys"
    and eq: "writeList enc xs @ r = writeList enc ys @ s"
  shows "xs = ys \<and> r = s"
proof -
  from eq have "writeU64 (length xs) @ (concat (map enc xs) @ r)
      = writeU64 (length ys) @ (concat (map enc ys) @ s)"
    by (simp add: writeList_def)
  moreover have "u64_range (length xs)" "u64_range (length ys)"
    using ok by (simp_all add: go_len_def u64_range_def)
  ultimately have "length xs = length ys"
    and "concat (map enc xs) @ r = concat (map enc ys) @ s"
    using u64.readable by blast+
  with ok show ?thesis using concat_readable by blast
qed

lemma list_append_iff:
  "go_len xs \<and> list_all ok xs \<Longrightarrow> go_len ys \<and> list_all ok ys \<Longrightarrow>
   writeList enc xs @ r = writeList enc ys @ s \<longleftrightarrow> xs = ys \<and> r = s"
  using list_readable by blast

lemma option_readable:
  assumes "pred_option ok x" "pred_option ok y"
    and "writeOption enc x @ r = writeOption enc y @ s"
  shows "x = y \<and> r = s"
  using assms
  by (cases x; cases y) (auto simp: writeOption_def boolean.enc_append_iff dest: readable)

lemma option_append_iff:
  "pred_option ok x \<Longrightarrow> pred_option ok y \<Longrightarrow>
   writeOption enc x @ r = writeOption enc y @ s \<longleftrightarrow> x = y \<and> r = s"
  using option_readable by blast

end

end
