(* ===== verification/Sha256.thy ===== *)
theory Sha256
  imports Encoding "HOL-Library.Word"
begin

text \<open>
  SHA-256 (FIPS 180-4), the hash of Go's \<open>crypto/sha256\<close>, with the lower-case hexadecimal text of
  \<open>encoding/hex\<close>. The digest functions of the model take the hash as their argument \<open>sha\<close>;
  the locale \<open>hex_digest\<close> is what they rely on, and \<open>sha256_hex\<close> is its instance.
\<close>

section \<open>SHA-256\<close>

unbundle bit_operations_syntax

type_synonym w32 = "32 word"

definition sha256_K :: "w32 list" where
  "sha256_K = [
   1116352408, 1899447441, 3049323471, 3921009573, 961987163, 1508970993,
   2453635748, 2870763221, 3624381080, 310598401, 607225278, 1426881987,
   1925078388, 2162078206, 2614888103, 3248222580, 3835390401, 4022224774,
   264347078, 604807628, 770255983, 1249150122, 1555081692, 1996064986,
   2554220882, 2821834349, 2952996808, 3210313671, 3336571891, 3584528711,
   113926993, 338241895, 666307205, 773529912, 1294757372, 1396182291,
   1695183700, 1986661051, 2177026350, 2456956037, 2730485921, 2820302411,
   3259730800, 3345764771, 3516065817, 3600352804, 4094571909, 275423344,
   430227734, 506948616, 659060556, 883997877, 958139571, 1322822218,
   1537002063, 1747873779, 1955562222, 2024104815, 2227730452, 2361852424,
   2428436474, 2756734187, 3204031479, 3329325298]"

definition sha256_init :: "w32 list" where
  "sha256_init = [1779033703, 3144134277, 1013904242, 2773480762, 1359893119, 2600822924,
     528734635, 1541459225]"

definition rotr :: "nat \<Rightarrow> w32 \<Rightarrow> w32" where
  "rotr n x = (drop_bit n x) OR (push_bit (32 - n) x)"

definition big0 :: "w32 \<Rightarrow> w32" where "big0 x = rotr 2 x XOR rotr 13 x XOR rotr 22 x"
definition big1 :: "w32 \<Rightarrow> w32" where "big1 x = rotr 6 x XOR rotr 11 x XOR rotr 25 x"
definition small0 :: "w32 \<Rightarrow> w32" where "small0 x = rotr 7 x XOR rotr 18 x XOR drop_bit 3 x"
definition small1 :: "w32 \<Rightarrow> w32" where "small1 x = rotr 17 x XOR rotr 19 x XOR drop_bit 10 x"
definition choice32 :: "w32 \<Rightarrow> w32 \<Rightarrow> w32 \<Rightarrow> w32" where
  "choice32 x y z = (x AND y) XOR (NOT x AND z)"
definition majority32 :: "w32 \<Rightarrow> w32 \<Rightarrow> w32 \<Rightarrow> w32" where
  "majority32 x y z = (x AND y) XOR (x AND z) XOR (y AND z)"

text \<open>Padding to a multiple of 64 bytes: a one bit, zeros, the length in bits.\<close>

definition sha256_pad :: "string \<Rightarrow> string" where
  "sha256_pad m = m @ char_of (0x80 :: nat) # replicate ((119 - length m mod 64) mod 64) NUL
     @ writeU64 (8 * length m)"

fun word_of_bytes :: "string \<Rightarrow> w32" where
  "word_of_bytes bs = foldl (\<lambda>a c. 256 * a + of_nat (of_char c)) 0 bs"

fun chunks :: "nat \<Rightarrow> 'a list \<Rightarrow> 'a list list" where
  "chunks n xs = (if n = 0 \<or> xs = [] then [] else take n xs # chunks n (drop n xs))"

declare chunks.simps [simp del]

text \<open>
  The message schedule, as a window of sixteen words: the head is the word of this round, and
  the word sixteen rounds ahead is appended.
\<close>

definition schedule_step :: "w32 list \<Rightarrow> w32 list" where
  "schedule_step ws = (case ws of
     [w0, w1, w2, w3, w4, w5, w6, w7, w8, w9, w10, w11, w12, w13, w14, w15] \<Rightarrow>
       [w1, w2, w3, w4, w5, w6, w7, w8, w9, w10, w11, w12, w13, w14, w15,
        small1 w14 + w9 + small0 w1 + w0]
   | _ \<Rightarrow> ws)"

definition sha256_round :: "w32 \<Rightarrow> w32 \<Rightarrow> w32 list \<Rightarrow> w32 list" where
  "sha256_round k w st = (case st of
     [a, b, c, d, e, f, g, h] \<Rightarrow>
       let t1 = h + big1 e + choice32 e f g + k + w; t2 = big0 a + majority32 a b c
       in [t1 + t2, a, b, c, d + t1, e, f, g]
   | _ \<Rightarrow> st)"

fun sha256_rounds :: "w32 list \<Rightarrow> w32 list \<Rightarrow> w32 list \<Rightarrow> w32 list" where
  "sha256_rounds [] ws st = st"
| "sha256_rounds (k # ks) ws st =
     sha256_rounds ks (schedule_step ws) (sha256_round k (case ws of [] \<Rightarrow> 0 | w # _ \<Rightarrow> w) st)"

definition sha256_block :: "w32 list \<Rightarrow> string \<Rightarrow> w32 list" where
  "sha256_block st blk =
     map2 (+) st (sha256_rounds sha256_K (map word_of_bytes (chunks 4 blk)) st)"

definition sha256_words :: "string \<Rightarrow> w32 list" where
  "sha256_words m = foldl sha256_block sha256_init (chunks 64 (sha256_pad m))"

definition hex_digit :: "nat \<Rightarrow> char" where
  "hex_digit d = (if d < 10 then char_of (48 + d) else char_of (87 + d))"

text \<open>\<open>hex.EncodeToString\<close> of the 32 bytes of the state.\<close>

definition hex_word :: "w32 \<Rightarrow> string" where
  "hex_word w = map (\<lambda>i. hex_digit (unat (drop_bit i w AND 15))) [28, 24, 20, 16, 12, 8, 4, 0]"

definition sha256_hex :: "string \<Rightarrow> string" where
  "sha256_hex m = concat (map hex_word (sha256_words m))"

section \<open>The hash interface\<close>

locale hex_digest =
  fixes sha :: "string \<Rightarrow> string"
  assumes sha_hex: "isLowerHex (sha s) 64"

lemma hex_digit_lower: "d < 16 \<Longrightarrow> lower_hex_char (hex_digit d)"
  by (auto simp: hex_digit_def lower_hex_char_def less_eq_char_def)

lemma hex_word_hex: "isLowerHex (hex_word w) 8"
proof -
  have "unat (x AND 15) < 16" for x :: w32
  proof -
    have "unat (x AND 15) \<le> unat (15 :: w32)"
      by (rule word_and_le1 [THEN word_le_nat_alt [THEN iffD1]])
    then show ?thesis by simp
  qed
  then show ?thesis
    by (auto simp: isLowerHex_def hex_word_def list_all_iff intro: hex_digit_lower)
qed

lemma length_sha256_round [simp]: "length (sha256_round k w st) = length st"
  by (auto simp: sha256_round_def Let_def split: list.split)

lemma length_sha256_rounds [simp]: "length (sha256_rounds ks ws st) = length st"
  by (induction ks ws st rule: sha256_rounds.induct) auto

lemma length_sha256_words [simp]: "length (sha256_words m) = 8"
proof -
  have "length (foldl sha256_block st blks) = length st" for st blks
    by (induction blks arbitrary: st) (auto simp: sha256_block_def)
  then show ?thesis by (simp add: sha256_words_def sha256_init_def)
qed

lemma concat_hex:
  "(\<And>w. w \<in> set ws \<Longrightarrow> isLowerHex (f w) n) \<Longrightarrow> isLowerHex (concat (map f ws)) (n * length ws)"
  by (induction ws) (auto simp: isLowerHex_def list_all_iff)

interpretation sha256: hex_digest sha256_hex
proof
  fix s
  have "isLowerHex (concat (map hex_word (sha256_words s))) (8 * length (sha256_words s))"
    by (rule concat_hex) (rule hex_word_hex)
  then show "isLowerHex (sha256_hex s) 64"
    by (simp add: sha256_hex_def)
qed

text \<open>The test vector of the standard, computed by the kernel.\<close>

lemma sha256_abc:
  "sha256_hex ''abc'' = ''ba7816bf8f01cfea414140de5dae2223b00361a396177a9cb410ff61f20015ad''"
  by code_simp

end
