(* ===== verification/Model.thy ===== *)
theory Model
  imports Prelude
begin

text \<open>
  The data-only wire structures of \<open>internal/model\<close> that comparison, policy and waiver
  application use. A Go string type with named constants stays a string, because the code
  receives such values from outside and validates them at run time; the constants are
  abbreviations. A pointer that may be nil is an \<open>option\<close>; a nil slice and an empty slice are
  both \<open>[]\<close>; an \<open>int64\<close> or \<open>int\<close> is an \<open>int\<close>, an unsigned integer a \<open>nat\<close>. The field
  \<open>F\<close> of a struct is the selector \<open><prefix>_F\<close>.
\<close>

section \<open>Common values\<close>

type_synonym Digest = string

abbreviation RevisionKindBase :: string where "RevisionKindBase \<equiv> ''base''"
abbreviation RevisionKindHead :: string where "RevisionKindHead \<equiv> ''head''"

record Limitation =
  lim_ID :: string
  lim_Summary :: string
  lim_Details :: string

record EnvEntry =
  env_Name :: string
  env_Value :: string

record EvidenceRef =
  er_Digest :: Digest
  er_EventIDs :: "string list"
  er_BundlePath :: "string option"
  er_EventStreamDigest :: Digest
  er_EventStreamPath :: string
  er_EventSequence :: nat
  er_Revision :: string
  er_ScenarioID :: string
  er_Repetition :: nat

record CommitRef =
  cr_Kind :: string
  cr_Repository :: string
  cr_Ref :: string
  cr_CommitID :: string
  cr_ObjectFormat :: string
  cr_TreeID :: string
  cr_TreeDigest :: Digest

definition zeroCommit :: CommitRef where
  "zeroCommit = \<lparr>cr_Kind = [], cr_Repository = [], cr_Ref = [], cr_CommitID = [], cr_ObjectFormat = [],
     cr_TreeID = [], cr_TreeDigest = []\<rparr>"

record RunnerCapabilities =
  rc_Name :: string
  rc_Version :: string
  rc_IsolationTier :: string
  rc_FreshKernel :: bool
  rc_BrokeredNetwork :: bool
  rc_ExecutesTargetCode :: bool
  rc_SyntheticEvidence :: bool
  rc_EnforcesNetworkDeny :: bool
  rc_ProcessEventCollection :: bool
  rc_FilesystemEventCollection :: bool
  rc_SyscallEventCollection :: bool
  rc_ArtifactHashing :: bool
  rc_SnapshotSupport :: bool

definition zeroRunner :: RunnerCapabilities where
  "zeroRunner = \<lparr>rc_Name = [], rc_Version = [], rc_IsolationTier = [], rc_FreshKernel = False,
     rc_BrokeredNetwork = False, rc_ExecutesTargetCode = False, rc_SyntheticEvidence = False,
     rc_EnforcesNetworkDeny = False, rc_ProcessEventCollection = False,
     rc_FilesystemEventCollection = False, rc_SyscallEventCollection = False,
     rc_ArtifactHashing = False, rc_SnapshotSupport = False\<rparr>"

section \<open>Observation sources and kinds\<close>

abbreviation ObservationSourceHostObserved :: string where
  "ObservationSourceHostObserved \<equiv> ''host-observed''"
abbreviation ObservationSourceNetworkBrokerObserved :: string where
  "ObservationSourceNetworkBrokerObserved \<equiv> ''network-broker-observed''"
abbreviation ObservationSourceSandboxRuntimeObserved :: string where
  "ObservationSourceSandboxRuntimeObserved \<equiv> ''sandbox-runtime-observed''"
abbreviation ObservationSourceGuestAgentReported :: string where
  "ObservationSourceGuestAgentReported \<equiv> ''guest-agent-reported''"
abbreviation ObservationSourceWorkloadReported :: string where
  "ObservationSourceWorkloadReported \<equiv> ''workload-reported''"
abbreviation ObservationSourceStaticAnalysisDerived :: string where
  "ObservationSourceStaticAnalysisDerived \<equiv> ''static-analysis-derived''"
abbreviation ObservationSourceModelInferred :: string where
  "ObservationSourceModelInferred \<equiv> ''model-inferred''"
abbreviation ObservationSourceSyntheticTestGenerated :: string where
  "ObservationSourceSyntheticTestGenerated \<equiv> ''synthetic-test-generated''"

definition ObservationSources :: "string list" where
  "ObservationSources = [ObservationSourceHostObserved, ObservationSourceNetworkBrokerObserved,
     ObservationSourceSandboxRuntimeObserved, ObservationSourceGuestAgentReported,
     ObservationSourceWorkloadReported, ObservationSourceStaticAnalysisDerived,
     ObservationSourceModelInferred, ObservationSourceSyntheticTestGenerated]"

definition ObservationKinds :: "string list" where
  "ObservationKinds = [''process-start'', ''process-exit'', ''filesystem-create'', ''filesystem-read'',
     ''filesystem-write'', ''filesystem-delete'', ''filesystem-rename'', ''filesystem-chmod'',
     ''dns-query'', ''network-connection'', ''artifact-activity'', ''scenario-started'',
     ''scenario-completed'', ''observer-warning'', ''unsupported-observation'', ''resource-limit'']"

section \<open>Observation events\<close>

record ProcessObservation =
  po_Operation :: string
  po_ProcessID :: int
  po_ParentProcessID :: "int option"
  po_ExecutablePath :: string
  po_Arguments :: "string list"
  po_Environment :: "EnvEntry list"
  po_ExitCode :: "int option"
  po_DurationMillis :: int

record FilesystemObservation =
  fo_Operation :: string
  fo_Path :: string
  fo_OldPath :: string
  fo_Mode :: string
  fo_Digest :: Digest
  fo_SizeBytes :: int
  fo_Executable :: bool
  fo_Truncated :: bool

record NetworkObservation =
  no_Operation :: string
  no_Protocol :: string
  no_QueryName :: string
  no_DestinationHost :: string
  no_DestinationPort :: int
  no_ResolvedAddresses :: "string list"
  no_Result :: string
  no_DurationMillis :: int

record ArtifactObservation =
  ao_Operation :: string
  ao_ArtifactID :: string
  ao_Path :: string
  ao_Digest :: Digest
  ao_SizeBytes :: int
  ao_Executable :: bool
  ao_SourceEventIDs :: "string list"

record ScenarioObservation =
  so_Status :: string
  so_Message :: string
  so_DurationMillis :: int

record ObserverWarningObservation =
  ow_Code :: string
  ow_Message :: string
  ow_Unsupported :: bool
  ow_Limitations :: "Limitation list"

record ResourceLimitObservation =
  rl_LimitKind :: string
  rl_LimitValue :: int
  rl_Unit :: string
  rl_ObservedValue :: int
  rl_Exceeded :: bool

text \<open>\<open>ObservedAt\<close> is the instant in nanoseconds since the Unix epoch.\<close>

record ObservationEvent =
  ev_ID :: string
  ev_RunID :: string
  ev_Revision :: string
  ev_ScenarioID :: string
  ev_Repetition :: nat
  ev_SequenceNumber :: int
  ev_ObservedAt :: int
  ev_Source :: string
  ev_Kind :: string
  ev_Process :: "ProcessObservation option"
  ev_Filesystem :: "FilesystemObservation option"
  ev_Network :: "NetworkObservation option"
  ev_Artifact :: "ArtifactObservation option"
  ev_Scenario :: "ScenarioObservation option"
  ev_ObserverWarning :: "ObserverWarningObservation option"
  ev_ResourceLimit :: "ResourceLimitObservation option"

section \<open>Run plans\<close>

record RunPlanEnvironment =
  rpe_Image :: string
  rpe_ImageDigest :: string
  rpe_Workdir :: string

record ComparisonPlan =
  cpl_IgnoreFields :: "string list"
  cpl_Repetitions :: int

record ExpectedArtifactSpec =
  ea_LogicalPath :: string
  ea_Required :: bool
  ea_MaxSizeBytes :: int

record CollectionPlan =
  col_FilesystemRoots :: "string list"
  col_FilesystemContents :: string
  col_Artifacts :: "ExpectedArtifactSpec list"
  col_LogMaxBytesPerStream :: int

record PolicyPlan =
  ppl_Profile :: string

record RunPlanConfig =
  rg_Source :: string
  rg_Path :: string
  rg_Digest :: Digest
  rg_SizeBytes :: int
  rg_ObjectID :: string

record ResourceLimits =
  rsl_CPU :: int
  rsl_TimeoutMillis :: int
  rsl_MemoryBytes :: int
  rsl_DiskBytes :: int
  rsl_CPUMillis :: int
  rsl_ProcessCount :: int

record NetworkAllowRule =
  nr_Protocol :: string
  nr_Host :: string
  nr_Port :: int

record NetworkPolicy =
  nwp_Mode :: string
  nwp_Allowed :: "NetworkAllowRule list"

record Command =
  cm_Argv :: "string list"
  cm_WorkingDirectory :: string
  cm_Environment :: "EnvEntry list"
  cm_TimeoutMillis :: int

record ScenarioPlan =
  sp_ID :: string
  sp_Name :: string
  sp_Shell :: string
  sp_Run :: string
  sp_Repetitions :: int
  sp_Command :: Command
  sp_ResourceLimits :: ResourceLimits
  sp_NetworkPolicy :: NetworkPolicy
  sp_ExpectedArtifacts :: "ExpectedArtifactSpec list"

text \<open>
  \<open>SourceSummary\<close>, \<open>SourceLimitation\<close> and \<open>RunPlanPlatform\<close> have the fields of \<open>SourceSummary\<close>,
  \<open>SourceLimitation\<close> and \<open>PlatformConstraints\<close> of \<open>internal/pipeline\<close>, which copies them one by one: the
  model has one record for both.
\<close>

record SourceSummary =
  ss_DirectoryCount :: int
  ss_RegularFileCount :: int
  ss_ExecutableFileCount :: int
  ss_SymlinkCount :: int
  ss_GitlinkCount :: int
  ss_LFSPointerCount :: int
  ss_TotalMaterializedFileBytes :: int
  ss_SkippedEntryCount :: int

record SourceLimitation =
  sl_Code :: string
  sl_Path :: string
  sl_Summary :: string

record RevisionPlan =
  rv_Kind :: string
  rv_Commit :: CommitRef
  rv_ObjectFormat :: string
  rv_TreeID :: string
  rv_MaterializedTreeDigest :: Digest
  rv_MaterializationManifestDigest :: Digest
  rv_SourceSummary :: "SourceSummary option"
  rv_SourceLimitations :: "SourceLimitation list"
  rv_ScenarioIDs :: "string list"

record PlatformConstraints =
  pc_MaxCPU :: int
  pc_MaxMemoryBytes :: int
  pc_MaxDiskBytes :: int
  pc_MaxProcessCount :: int
  pc_MaxGlobalTimeoutMillis :: int
  pc_MaxScenarioTimeoutMillis :: int
  pc_MaxScenarioCount :: int
  pc_MaxRepetitions :: int
  pc_MaxFilesystemRootCount :: int
  pc_MaxArtifactCount :: int
  pc_MaxArtifactBytes :: int
  pc_MaxLogBytesPerStream :: int
  pc_MaxPlanJSONBytes :: int
  pc_RequiredNetworkMode :: string

text \<open>\<open>CreatedAt\<close> is the instant in nanoseconds since the Unix epoch; the planner stores it in UTC.\<close>

record RunPlan =
  rp_SchemaVersion :: string
  rp_ID :: string
  rp_RunID :: string
  rp_CreatedAt :: int
  rp_PipelineName :: string
  rp_Configuration :: "RunPlanConfig option"
  rp_ExecutionEnvironment :: "RunPlanEnvironment option"
  rp_Base :: CommitRef
  rp_Head :: CommitRef
  rp_Revisions :: "RevisionPlan list"
  rp_Scenarios :: "ScenarioPlan list"
  rp_Runner :: RunnerCapabilities
  rp_ResourceLimits :: ResourceLimits
  rp_NetworkPolicy :: NetworkPolicy
  rp_Environment :: "EnvEntry list"
  rp_Collection :: "CollectionPlan option"
  rp_Comparison :: "ComparisonPlan option"
  rp_Policy :: "PolicyPlan option"
  rp_Platform :: "PlatformConstraints option"
  rp_Limitations :: "Limitation list"

abbreviation SchemaVersionRunPlanV1Alpha1 :: string where
  "SchemaVersionRunPlanV1Alpha1 \<equiv> ''glassroot.dev/run-plan/v1alpha1''"
abbreviation NetworkModeDeny :: string where "NetworkModeDeny \<equiv> ''deny''"

section \<open>Comparison documents\<close>

abbreviation DeltaKindAdded :: string where "DeltaKindAdded \<equiv> ''added''"
abbreviation DeltaKindRemoved :: string where "DeltaKindRemoved \<equiv> ''removed''"
abbreviation DeltaKindModified :: string where "DeltaKindModified \<equiv> ''modified''"
abbreviation DeltaKindCountChanged :: string where "DeltaKindCountChanged \<equiv> ''count-changed''"
abbreviation DeltaKindOrderChanged :: string where "DeltaKindOrderChanged \<equiv> ''order-changed''"
abbreviation DeltaKindStabilityChanged :: string where
  "DeltaKindStabilityChanged \<equiv> ''stability-changed''"
abbreviation DeltaKindCoverageChanged :: string where
  "DeltaKindCoverageChanged \<equiv> ''coverage-changed''"

abbreviation BasisCompleteObservation :: string where
  "BasisCompleteObservation \<equiv> ''complete-observation''"
abbreviation BasisSingleSample :: string where "BasisSingleSample \<equiv> ''single-sample''"
abbreviation BasisRepetitionVariable :: string where
  "BasisRepetitionVariable \<equiv> ''repetition-variable''"
abbreviation BasisCoverageLimited :: string where "BasisCoverageLimited \<equiv> ''coverage-limited''"
abbreviation BasisAmbiguousCorrelation :: string where
  "BasisAmbiguousCorrelation \<equiv> ''ambiguous-correlation''"

abbreviation CoverageAssessmentComplete :: string where
  "CoverageAssessmentComplete \<equiv> ''complete''"
abbreviation CoverageAssessmentPartial :: string where
  "CoverageAssessmentPartial \<equiv> ''partial''"
abbreviation CoverageAssessmentNone :: string where "CoverageAssessmentNone \<equiv> ''none''"

abbreviation RepeatabilityStable :: string where "RepeatabilityStable \<equiv> ''stable''"
abbreviation RepeatabilityVariable :: string where "RepeatabilityVariable \<equiv> ''variable''"
abbreviation RepeatabilitySingleSample :: string where
  "RepeatabilitySingleSample \<equiv> ''single-sample''"
abbreviation RepeatabilityNotAssessable :: string where
  "RepeatabilityNotAssessable \<equiv> ''not-assessable''"

record RepetitionOccurrence =
  ro_Repetition :: nat
  ro_Coverage :: string
  ro_CountKnown :: bool
  ro_Count :: int

record OccurrenceProfile =
  op_PlannedRepetitionCount :: int
  op_Repetitions :: "RepetitionOccurrence list"
  op_CompleteRepetitionCount :: int
  op_IncompleteRepetitionCount :: int
  op_MinimumKnownCount :: int
  op_MaximumKnownCount :: int
  op_TotalKnownCount :: int
  op_Coverage :: string
  op_Repeatability :: string

record AttemptCoverage =
  ac_AttemptID :: string
  ac_Revision :: string
  ac_Repetition :: nat
  ac_Coverage :: string

record ScenarioComparison =
  sc_ScenarioID :: string
  sc_BaseRepetitions :: "AttemptCoverage list"
  sc_HeadRepetitions :: "AttemptCoverage list"
  sc_Coverage :: string
  sc_RepeatabilityNotes :: "Limitation list"
  sc_Limitations :: "Limitation list"

record DeltaSummary =
  ds_TotalRecords :: int
  ds_Added :: int
  ds_Removed :: int
  ds_Modified :: int
  ds_CountChanged :: int
  ds_OrderChanged :: int
  ds_StabilityChanged :: int
  ds_CoverageChanged :: int

record DeltaNormalizedPath =
  dp_Namespace :: string
  dp_RootIndex :: nat
  dp_Relative :: string
  dp_Literal :: string
  dp_Display :: string

record DeltaProcessFact =
  dpf_Operation :: string
  dpf_StableID :: string
  dpf_ParentStableID :: string
  dpf_ParentRelation :: string
  dpf_Executable :: DeltaNormalizedPath
  dpf_Arguments :: "string list"
  dpf_Environment :: "EnvEntry list"
  dpf_ExitCode :: "int option"
  dpf_DurationMillis :: int

record DeltaFilesystemFact =
  dff_Operation :: string
  dff_Path :: DeltaNormalizedPath
  dff_OldPath :: "DeltaNormalizedPath option"
  dff_Mode :: string
  dff_Digest :: Digest
  dff_SizeBytes :: int
  dff_Executable :: bool
  dff_Truncated :: bool

record DeltaNetworkFact =
  dnf_Operation :: string
  dnf_Protocol :: string
  dnf_QueryName :: string
  dnf_DestinationHost :: string
  dnf_DestinationPort :: int
  dnf_ResolvedAddresses :: "string list"
  dnf_Result :: string
  dnf_DurationMillis :: int

record DeltaArtifactFact =
  daf_Operation :: string
  daf_ArtifactID :: string
  daf_Path :: DeltaNormalizedPath
  daf_Digest :: Digest
  daf_SizeBytes :: int
  daf_Executable :: bool
  daf_SourceEventIDs :: "string list"

record DeltaScenarioFact =
  dsf_Status :: string
  dsf_Message :: string
  dsf_DurationMillis :: int

record DeltaWarningFact =
  dwf_Code :: string
  dwf_Message :: string
  dwf_Unsupported :: bool
  dwf_Limitations :: "Limitation list"

record DeltaResourceFact =
  drf_LimitKind :: string
  drf_LimitValue :: int
  drf_Unit :: string
  drf_ObservedValue :: int
  drf_Exceeded :: bool

record DeltaFactSnapshot =
  snap_ID :: string
  snap_SemanticDigest :: Digest
  snap_Kind :: string
  snap_Source :: string
  snap_Process :: "DeltaProcessFact option"
  snap_Filesystem :: "DeltaFilesystemFact option"
  snap_Network :: "DeltaNetworkFact option"
  snap_Artifact :: "DeltaArtifactFact option"
  snap_Scenario :: "DeltaScenarioFact option"
  snap_Warning :: "DeltaWarningFact option"
  snap_Resource :: "DeltaResourceFact option"
  snap_Evidence :: "EvidenceRef list"
  snap_Limitations :: "Limitation list"

record DeltaRecord =
  dr_ID :: string
  dr_Kind :: string
  dr_Summary :: string
  dr_BaseObserved :: bool
  dr_HeadObserved :: bool
  dr_Evidence :: "EvidenceRef list"
  dr_ScenarioIDs :: "string list"
  dr_Limitations :: "Limitation list"
  dr_FactKind :: string
  dr_Source :: string
  dr_AnchorDigest :: Digest
  dr_Basis :: string
  dr_ChangedFields :: "string list"
  dr_BaseOccurrence :: OccurrenceProfile
  dr_HeadOccurrence :: OccurrenceProfile
  dr_BaseFacts :: "DeltaFactSnapshot list"
  dr_HeadFacts :: "DeltaFactSnapshot list"
  dr_BaseEvidence :: "EvidenceRef list"
  dr_HeadEvidence :: "EvidenceRef list"
  dr_BaseSemanticDigests :: "Digest list"
  dr_HeadSemanticDigests :: "Digest list"

record EvidenceContext =
  ec_SyntheticEvidence :: bool
  ec_ExecutesTargetCode :: bool

record ComparisonProfile =
  cp_Version :: string
  cp_RequiredNormalizationProfile :: string
  cp_ExactSemanticMatchAlgorithm :: string
  cp_TypedAnchorAlgorithm :: string
  cp_RepetitionAssessmentAlgorithm :: string
  cp_OrderAssessmentAlgorithm :: string
  cp_AbsencePolicy :: string
  cp_IncludedFactKinds :: "string list"

text \<open>The comparator leaves \<open>Base\<close> and \<open>Head\<close> of the document at their zero value.\<close>

record BehavioralDelta =
  bd_SchemaVersion :: string
  bd_ID :: string
  bd_RunID :: string
  bd_Base :: CommitRef
  bd_Head :: CommitRef
  bd_PlanDigest :: Digest
  bd_ManifestDigest :: Digest
  bd_ManifestVerificationMode :: string
  bd_ExecutionComplete :: bool
  bd_EvidenceComplete :: bool
  bd_EvidenceContext :: EvidenceContext
  bd_ComparisonProfile :: ComparisonProfile
  bd_NormalizationProfileVersion :: string
  bd_ScenarioIDs :: "string list"
  bd_ScenarioComparisons :: "ScenarioComparison list"
  bd_Summary :: DeltaSummary
  bd_Records :: "DeltaRecord list"
  bd_Limitations :: "Limitation list"

abbreviation SchemaVersionBehavioralDeltaV1Alpha1 :: string where
  "SchemaVersionBehavioralDeltaV1Alpha1 \<equiv> ''glassroot.dev/behavioral-delta/v1alpha1''"
abbreviation SchemaVersionFindingV1Alpha1 :: string where
  "SchemaVersionFindingV1Alpha1 \<equiv> ''glassroot.dev/finding/v1alpha1''"

section \<open>Findings\<close>

abbreviation SeverityInfo :: string where "SeverityInfo \<equiv> ''info''"
abbreviation SeverityLow :: string where "SeverityLow \<equiv> ''low''"
abbreviation SeverityMedium :: string where "SeverityMedium \<equiv> ''medium''"
abbreviation SeverityHigh :: string where "SeverityHigh \<equiv> ''high''"
abbreviation SeverityCritical :: string where "SeverityCritical \<equiv> ''critical''"

abbreviation ConfidenceLow :: string where "ConfidenceLow \<equiv> ''low''"
abbreviation ConfidenceMedium :: string where "ConfidenceMedium \<equiv> ''medium''"
abbreviation ConfidenceHigh :: string where "ConfidenceHigh \<equiv> ''high''"

abbreviation DispositionPassed :: string where "DispositionPassed \<equiv> ''passed''"
abbreviation DispositionRequiresReview :: string where
  "DispositionRequiresReview \<equiv> ''requires-review''"
abbreviation DispositionFailed :: string where "DispositionFailed \<equiv> ''failed''"
abbreviation DispositionWaived :: string where "DispositionWaived \<equiv> ''waived''"

text \<open>\<open>Finding.Waivers\<close> is written by no modelled operation and stays empty.\<close>

record FindingWaiver =
  fw_ID :: string
  fw_RuleID :: string
  fw_Scope :: string
  fw_Reason :: string
  fw_Owner :: string
  fw_ExpiresAt :: "int option"
  fw_Evidence :: "EvidenceRef list"

record Finding =
  fi_SchemaVersion :: string
  fi_ID :: string
  fi_RuleID :: string
  fi_RuleVersion :: string
  fi_Title :: string
  fi_Severity :: string
  fi_Confidence :: string
  fi_Disposition :: string
  fi_Summary :: string
  fi_DeltaRecordIDs :: "string list"
  fi_Evidence :: "EvidenceRef list"
  fi_ScenarioIDs :: "string list"
  fi_BaseObserved :: bool
  fi_HeadObserved :: bool
  fi_Waived :: bool
  fi_Waivers :: "FindingWaiver list"
  fi_Limitations :: "Limitation list"

section \<open>Shared helpers\<close>

text \<open>
  \<open>validDigest\<close>, the same function in \<open>compare\<close> and \<open>policy\<close>: \<open>sha256:\<close> and 64 lower-case
  hexadecimal digits. The source ranges over runes; a byte of a multi-byte rune is neither a
  digit nor a letter from a to f, so the byte-wise test agrees.
\<close>

definition validDigest :: "Digest \<Rightarrow> bool" where
  "validDigest s \<longleftrightarrow> length s = 71 \<and> has_prefix s ''sha256:'' \<and> list_all lower_hex_char (drop 7 s)"

lemma validDigest_sha: "isLowerHex h 64 \<Longrightarrow> validDigest (''sha256:'' @ h)"
  by (simp add: validDigest_def isLowerHex_def has_prefix_def)

text \<open>\<open>sortLimitations\<close>, the same function in \<open>observe\<close>, \<open>compare\<close> and \<open>policy\<close>.\<close>

definition limitationLess :: "Limitation \<Rightarrow> Limitation \<Rightarrow> bool" where
  "limitationLess a b =
     (if lim_ID a \<noteq> lim_ID b then lim_ID a < lim_ID b
      else if lim_Summary a \<noteq> lim_Summary b then lim_Summary a < lim_Summary b
      else lim_Details a < lim_Details b)"

definition sortLimitations :: "Limitation list \<Rightarrow> Limitation list" where
  "sortLimitations xs = slice_stable limitationLess xs"

interpretation limitation_order: keyed_order limitationLess
  "\<lambda>l. (lim_ID l, lim_Summary l, lim_Details l)"
  by unfold_locales (auto simp: limitationLess_def less_prod_def')

text \<open>The three fields are all of a limitation, so the order of the input is irrelevant.\<close>

lemma sortLimitations_order_irrelevant:
  "mset ys = mset xs \<Longrightarrow> sortLimitations ys = sortLimitations xs"
  unfolding sortLimitations_def
  by (rule limitation_order.slice_unique) (auto simp: inj_on_def Limitation.equality)

end
