(* ===== verification/Observe.thy ===== *)
theory Observe
  imports Model Encoding
begin

text \<open>
  \<open>internal/observe\<close>: observed events of one attempt become normalized facts. The theory has
  the data of a trace set, the normalization profile built from the run plan, lexical path
  normalization against the trusted roots (\<open>path.go\<close>), process identities that do not depend
  on numeric process ids and source-relative time (\<open>process.go\<close>), the encoding under the semantic
  digest (\<open>digest.go\<close>), and \<open>normalizeEvent\<close>, which puts them together. The walk over the event
  stream of an evidence bundle is modelled by its callback (\<open>walkEvent\<close>); opening the bundle and the document assembled from it
  are not part of the theory: they belong to the evidence reader.
\<close>

section \<open>Data\<close>

abbreviation PathNamespaceWorkdirRoot :: string where
  "PathNamespaceWorkdirRoot \<equiv> ''workdir-root''"
abbreviation PathNamespaceCollectionRoot :: string where
  "PathNamespaceCollectionRoot \<equiv> ''collection-root''"
abbreviation PathNamespaceAbsoluteUnmapped :: string where
  "PathNamespaceAbsoluteUnmapped \<equiv> ''absolute-unmapped''"
abbreviation PathNamespaceRelative :: string where "PathNamespaceRelative \<equiv> ''relative''"
abbreviation PathNamespaceOpaqueInvalid :: string where
  "PathNamespaceOpaqueInvalid \<equiv> ''opaque-invalid''"

abbreviation CoverageComplete :: string where "CoverageComplete \<equiv> ''complete''"
abbreviation CoverageIncomplete :: string where "CoverageIncomplete \<equiv> ''incomplete''"
abbreviation CoverageNotStarted :: string where "CoverageNotStarted \<equiv> ''not-started''"

abbreviation TraceSetSchemaV1Alpha1 :: string where
  "TraceSetSchemaV1Alpha1 \<equiv> ''glassroot.dev/normalized-trace/v1alpha1''"
abbreviation ProfileVersionV1Alpha1 :: string where
  "ProfileVersionV1Alpha1 \<equiv> ''glassroot.dev/normalization-profile/v1alpha1''"
abbreviation ProcessIdentityAlgorithmV1 :: string where
  "ProcessIdentityAlgorithmV1 \<equiv> ''glassroot.dev/normalized-process-id/v1''"
abbreviation TimestampAlgorithmV1 :: string where
  "TimestampAlgorithmV1 \<equiv> ''glassroot.dev/source-relative-timestamp/v1''"
abbreviation PathRootAlgorithmV1 :: string where
  "PathRootAlgorithmV1 \<equiv> ''glassroot.dev/rooted-posix-path/v1''"
abbreviation IgnoreFieldEventTimestamp :: string where
  "IgnoreFieldEventTimestamp \<equiv> ''event.timestamp''"
abbreviation IgnoreFieldProcessPID :: string where "IgnoreFieldProcessPID \<equiv> ''process.pid''"

record PathRootAlias =
  pra_Namespace :: string
  pra_RootIndex :: nat
  pra_Root :: string
  pra_Alias :: string

record NormalizationProfile =
  np_Version :: string
  np_IgnoreFields :: "string list"
  np_ProcessIdentityAlgorithm :: string
  np_TimestampAlgorithm :: string
  np_PathRootAlgorithm :: string
  np_RootAliases :: "PathRootAlias list"

record ManifestVerification =
  mv_Mode :: string
  mv_ManifestDigest :: Digest
  mv_ExpectedManifestDigestSupplied :: bool
  mv_ExpectedManifestDigestMatched :: bool
  mv_InternallyConsistent :: bool
  mv_Limitations :: "Limitation list"

record NormalizedTiming =
  nt_SourceRelativeNanos :: int
  nt_IncludedInSemanticDigest :: bool
  nt_ClockRegression :: bool

record NormalizedPath =
  pa_Namespace :: string
  pa_RootIndex :: nat
  pa_Relative :: string
  pa_Literal :: string
  pa_Display :: string

record ProcessFact =
  pf_Operation :: string
  pf_StableID :: string
  pf_ParentStableID :: string
  pf_ParentRelation :: string
  pf_Executable :: NormalizedPath
  pf_Arguments :: "string list"
  pf_Environment :: "EnvEntry list"
  pf_ExitCode :: "int option"
  pf_DurationMillis :: int

record FilesystemFact =
  ff_Operation :: string
  ff_Path :: NormalizedPath
  ff_OldPath :: "NormalizedPath option"
  ff_Mode :: string
  ff_Digest :: Digest
  ff_SizeBytes :: int
  ff_Executable :: bool
  ff_Truncated :: bool

record NetworkFact =
  nf_Operation :: string
  nf_Protocol :: string
  nf_QueryName :: string
  nf_DestinationHost :: string
  nf_DestinationPort :: int
  nf_ResolvedAddresses :: "string list"
  nf_Result :: string
  nf_DurationMillis :: int

record ArtifactFact =
  af_Operation :: string
  af_ArtifactID :: string
  af_Path :: NormalizedPath
  af_Digest :: Digest
  af_SizeBytes :: int
  af_Executable :: bool
  af_SourceEventIDs :: "string list"

record ScenarioFact =
  sf_Status :: string
  sf_Message :: string
  sf_DurationMillis :: int

record WarningFact =
  wf_Code :: string
  wf_Message :: string
  wf_Unsupported :: bool
  wf_Limitations :: "Limitation list"

record ResourceFact =
  rf_LimitKind :: string
  rf_LimitValue :: int
  rf_Unit :: string
  rf_ObservedValue :: int
  rf_Exceeded :: bool

record RawEvidenceReference =
  rer_EventStreamDigest :: Digest
  rer_EventStreamPath :: string
  rer_EventID :: string
  rer_EventSequence :: nat
  rer_Revision :: string
  rer_ScenarioID :: string
  rer_Repetition :: nat

record Fact =
  fa_ID :: string
  fa_SemanticDigest :: Digest
  fa_Kind :: string
  fa_Source :: string
  fa_Timing :: NormalizedTiming
  fa_Process :: "ProcessFact option"
  fa_Filesystem :: "FilesystemFact option"
  fa_Network :: "NetworkFact option"
  fa_Artifact :: "ArtifactFact option"
  fa_Scenario :: "ScenarioFact option"
  fa_Warning :: "WarningFact option"
  fa_Resource :: "ResourceFact option"
  fa_Evidence :: "RawEvidenceReference list"
  fa_Limitations :: "Limitation list"

record AttemptTrace =
  at_AttemptID :: string
  at_Ordinal :: nat
  at_Revision :: string
  at_ScenarioID :: string
  at_Repetition :: nat
  at_Coverage :: string
  at_Result :: string
  at_Events :: string
  at_Stdout :: string
  at_Stderr :: string
  at_Artifacts :: string
  at_FirstEventSequence :: nat
  at_LastEventSequence :: nat
  at_AcceptedEventCount :: nat
  at_Facts :: "Fact list"
  at_Limitations :: "Limitation list"

record TraceSetDocument =
  ts_SchemaVersion :: string
  ts_Profile :: NormalizationProfile
  ts_PlanDigest :: Digest
  ts_ManifestDigest :: Digest
  ts_RunID :: string
  ts_ManifestVerification :: ManifestVerification
  ts_ExecutionComplete :: bool
  ts_EvidenceComplete :: bool
  ts_EvidenceContext :: EvidenceContext
  ts_Attempts :: "AttemptTrace list"
  ts_Limitations :: "Limitation list"

section \<open>Path normalization\<close>

definition rootMatch :: "string \<Rightarrow> string \<Rightarrow> bool" where
  "rootMatch value root \<longleftrightarrow>
     \<not> (root = [] \<or> \<not> has_prefix root ''/'') \<and> (value = root \<or> has_prefix value (root @ ''/''))"

text \<open>Longer roots first, then the workdir, then the lower root index.\<close>

definition rootLess :: "PathRootAlias \<Rightarrow> PathRootAlias \<Rightarrow> bool" where
  "rootLess a b =
     (if length (pra_Root a) \<noteq> length (pra_Root b) then length (pra_Root a) > length (pra_Root b)
      else if pra_Namespace a \<noteq> pra_Namespace b then pra_Namespace a = PathNamespaceWorkdirRoot
      else pra_RootIndex a < pra_RootIndex b)"

definition trim_slash :: "string \<Rightarrow> string" where
  "trim_slash s = (if has_prefix s ''/'' then drop 1 s else s)"

definition normalizeObservedPath :: "string \<Rightarrow> PathRootAlias list \<Rightarrow> NormalizedPath" where
  "normalizeObservedPath value roots =
     (let p = \<lparr>pa_Namespace = PathNamespaceOpaqueInvalid, pa_RootIndex = 0, pa_Relative = [],
               pa_Literal = value, pa_Display = value\<rparr>
      in if value = [] \<or> \<not> validString value \<or> NUL \<in> set value \<or> CHR 0x5C \<in> set value \<or> hasControl value
         then p\<lparr>pa_Display := ''<invalid>''\<rparr>
         else if has_prefix value ''/'' then
           (case List.find (\<lambda>r. rootMatch value (pra_Root r)) (slice_stable rootLess roots) of
              Some best \<Rightarrow>
                let bestRel = (if value = pra_Root best then []
                               else trim_slash (drop (length (pra_Root best)) value))
                in p\<lparr>pa_Namespace := pra_Namespace best, pa_RootIndex := pra_RootIndex best,
                     pa_Relative := bestRel,
                     pa_Display := pra_Alias best @ (if bestRel \<noteq> [] then ''/'' @ bestRel else [])\<rparr>
            | None \<Rightarrow> p\<lparr>pa_Namespace := PathNamespaceAbsoluteUnmapped, pa_Display := value\<rparr>)
         else if path_clean value \<noteq> value \<or> has_prefix value ''../'' \<or> value = ''..''
         then p\<lparr>pa_Display := ''<invalid>''\<rparr>
         else p\<lparr>pa_Namespace := PathNamespaceRelative, pa_Relative := value, pa_Display := value\<rparr>)"

section \<open>The normalization profile\<close>

abbreviation MaxPathRoots :: nat where "MaxPathRoots \<equiv> 32"

definition observeErr :: "string \<Rightarrow> string \<Rightarrow> string \<Rightarrow> string \<Rightarrow> go_error" where
  "observeErr code stage attempt field = GoError code stage [attempt, field]"

definition observe_validateProfile :: "NormalizationProfile \<Rightarrow> go_error option" where
  "observe_validateProfile p =
     (if np_Version p \<noteq> ProfileVersionV1Alpha1
         \<or> np_ProcessIdentityAlgorithm p \<noteq> ProcessIdentityAlgorithmV1
         \<or> np_TimestampAlgorithm p \<noteq> TimestampAlgorithmV1
         \<or> np_PathRootAlgorithm p \<noteq> PathRootAlgorithmV1
      then Some (observeErr ''invalid-normalization-profile'' ''profile'' [] ''version'')
      else echeck
        (first_error (\<lambda>f. if f = IgnoreFieldEventTimestamp \<or> f = IgnoreFieldProcessPID then None
           else Some (observeErr ''unsupported-ignore-field'' ''profile'' [] f)) (np_IgnoreFields p))
        (if length (np_RootAliases p) > MaxPathRoots
         then Some (observeErr ''invalid-normalization-profile'' ''profile'' [] ''rootAliases'')
         else None))"

text \<open>The loop over the collection roots, with the roots seen so far and the next index.\<close>

fun collectionAliases :: "string list \<Rightarrow> nat \<Rightarrow> string list \<Rightarrow> PathRootAlias list" where
  "collectionAliases seen idx [] = []"
| "collectionAliases seen idx (root # rest) =
     (if root \<in> set seen then collectionAliases seen idx rest
      else \<lparr>pra_Namespace = PathNamespaceCollectionRoot, pra_RootIndex = idx, pra_Root = root,
             pra_Alias = ''@root'' @ itoa idx\<rparr>
           # collectionAliases (root # seen) (idx + 1) rest)"

definition profileFromPlan :: "RunPlan \<Rightarrow> NormalizationProfile result" where
  "profileFromPlan plan =
     (let workdir = (case rp_ExecutionEnvironment plan of
            None \<Rightarrow> []
          | Some e \<Rightarrow> if rpe_Workdir e \<noteq> []
              then [\<lparr>pra_Namespace = PathNamespaceWorkdirRoot, pra_RootIndex = 0,
                     pra_Root = rpe_Workdir e, pra_Alias = ''@workdir''\<rparr>]
              else []);
          p = \<lparr>np_Version = ProfileVersionV1Alpha1,
               np_IgnoreFields = (case rp_Comparison plan of None \<Rightarrow> [] | Some c \<Rightarrow> cpl_IgnoreFields c),
               np_ProcessIdentityAlgorithm = ProcessIdentityAlgorithmV1,
               np_TimestampAlgorithm = TimestampAlgorithmV1,
               np_PathRootAlgorithm = PathRootAlgorithmV1,
               np_RootAliases = workdir @ (case rp_Collection plan of
                   None \<Rightarrow> []
                 | Some c \<Rightarrow> collectionAliases (map pra_Root workdir) 1 (col_FilesystemRoots c))\<rparr>
      in rcheck (observe_validateProfile p) (Inr p))"

definition includeTiming :: "NormalizationProfile \<Rightarrow> bool" where
  "includeTiming p \<longleftrightarrow> IgnoreFieldEventTimestamp \<notin> set (np_IgnoreFields p)"

section \<open>Process identity and time\<close>

text \<open>The limits of a normalizer, each an \<open>int64\<close>.\<close>

record ObserveLimits =
  ol_MaxAttempts :: int
  ol_MaxFactsPerAttempt :: int
  ol_MaxFactsPerTraceSet :: int
  ol_MaxEvidenceRefsPerFact :: int
  ol_MaxEvidenceRefsTotal :: int
  ol_MaxProcessGenerationsPerAttempt :: int
  ol_MaxActiveProcessesPerAttempt :: int
  ol_MaxNormalizedStringBytes :: int
  ol_MaxNormalizedArguments :: int
  ol_MaxNormalizedArgumentBytes :: int
  ol_MaxPathRoots :: int
  ol_MaxLimitationsPerAttempt :: int
  ol_MaxLimitationsTotal :: int

definition observe_DefaultLimits :: ObserveLimits where
  "observe_DefaultLimits = \<lparr>ol_MaxAttempts = 1280, ol_MaxFactsPerAttempt = 10000,
     ol_MaxFactsPerTraceSet = 100000, ol_MaxEvidenceRefsPerFact = 16,
     ol_MaxEvidenceRefsTotal = 200000, ol_MaxProcessGenerationsPerAttempt = 10000,
     ol_MaxActiveProcessesPerAttempt = 10000, ol_MaxNormalizedStringBytes = 64 * 1024,
     ol_MaxNormalizedArguments = 4096, ol_MaxNormalizedArgumentBytes = 256 * 1024,
     ol_MaxPathRoots = 32, ol_MaxLimitationsPerAttempt = 1000, ol_MaxLimitationsTotal = 10000\<rparr>"

definition observe_zeroLimits :: ObserveLimits where
  "observe_zeroLimits = \<lparr>ol_MaxAttempts = 0, ol_MaxFactsPerAttempt = 0,
     ol_MaxFactsPerTraceSet = 0, ol_MaxEvidenceRefsPerFact = 0, ol_MaxEvidenceRefsTotal = 0,
     ol_MaxProcessGenerationsPerAttempt = 0, ol_MaxActiveProcessesPerAttempt = 0,
     ol_MaxNormalizedStringBytes = 0, ol_MaxNormalizedArguments = 0,
     ol_MaxNormalizedArgumentBytes = 0, ol_MaxPathRoots = 0, ol_MaxLimitationsPerAttempt = 0,
     ol_MaxLimitationsTotal = 0\<rparr>"

definition observe_validateLimits :: "ObserveLimits \<Rightarrow> ObserveLimits result" where
  "observe_validateLimits l =
     (if l = observe_zeroLimits then Inl (observeErr ''invalid-limits'' ''limits'' [] ''zero'')
      else rcheck
        (first_error
          (\<lambda>(v, mx, name). if v \<le> 0 \<or> v > mx
             then Some (observeErr ''invalid-limits'' ''limits'' [] name) else None)
          [(ol_MaxAttempts l, 1280, ''maxAttempts''),
           (ol_MaxFactsPerAttempt l, 10000, ''maxFactsPerAttempt''),
           (ol_MaxFactsPerTraceSet l, 100000, ''maxFactsPerTraceSet''),
           (ol_MaxEvidenceRefsPerFact l, 16, ''maxEvidenceRefsPerFact''),
           (ol_MaxEvidenceRefsTotal l, 200000, ''maxEvidenceRefsTotal''),
           (ol_MaxProcessGenerationsPerAttempt l, 10000, ''maxProcessGenerations''),
           (ol_MaxActiveProcessesPerAttempt l, 10000, ''maxActiveProcesses''),
           (ol_MaxNormalizedStringBytes l, 64 * 1024, ''maxStringBytes''),
           (ol_MaxNormalizedArguments l, 4096, ''maxArguments''),
           (ol_MaxNormalizedArgumentBytes l, 256 * 1024, ''maxArgumentBytes''),
           (ol_MaxPathRoots l, 32, ''maxPathRoots''),
           (ol_MaxLimitationsPerAttempt l, 1000, ''maxAttemptLimitations''),
           (ol_MaxLimitationsTotal l, 10000, ''maxLimitations'')])
        (Inr l))"

record processGeneration =
  pg_pid :: int
  pg_stable :: string
  pg_parent :: string
  pg_parentRelation :: string
  pg_seed :: string

text \<open>
  \<open>active\<close> and \<open>occurrence\<close> are Go maps: association lists with distinct keys, whose length is the
  map's \<open>len\<close>.
\<close>

record processNamespace =
  pn_active :: "(int \<times> processGeneration) list"
  pn_occurrence :: "(string \<times> nat) list"
  pn_generations :: nat

record timeNamespace =
  tn_origin :: int
  tn_last :: int

record attemptState =
  as_profile :: NormalizationProfile
  as_planDigest :: Digest
  as_attemptID :: string
  as_attemptKey :: RawEvidenceReference
  as_limits :: ObserveLimits
  as_process :: "string \<rightharpoonup> processNamespace"
  as_time :: "string \<rightharpoonup> timeNamespace"

definition emptyNamespace :: processNamespace where
  "emptyNamespace = \<lparr>pn_active = [], pn_occurrence = [], pn_generations = 0\<rparr>"

definition newAttemptState ::
  "NormalizationProfile \<Rightarrow> Digest \<Rightarrow> string \<Rightarrow> RawEvidenceReference \<Rightarrow> ObserveLimits \<Rightarrow> attemptState" where
  "newAttemptState profile planDigest attemptID ref limits =
     \<lparr>as_profile = profile, as_planDigest = planDigest, as_attemptID = attemptID,
      as_attemptKey = ref, as_limits = limits,
      as_process = Map.empty, as_time = Map.empty\<rparr>"

definition ns_of :: "attemptState \<Rightarrow> string \<Rightarrow> processNamespace" where
  "ns_of s src = (case as_process s src of None \<Rightarrow> emptyNamespace | Some n \<Rightarrow> n)"

definition mkLimitation :: "string \<Rightarrow> string \<Rightarrow> Limitation" where
  "mkLimitation i t = \<lparr>lim_ID = i, lim_Summary = t, lim_Details = []\<rparr>"

text \<open>
  A time namespace exists from the first event of a source on, and has its origin set from then
  on, so the flag \<open>originSet\<close> of the source is the presence of the namespace. \<open>UnixNano\<close> gives the instant as an
  \<open>int64\<close>, which wraps around outside the years 1678 to 2262.
\<close>

definition unixNano :: "int \<Rightarrow> int" where
  "unixNano t = signed64 t"

definition normalizeTiming ::
  "attemptState \<Rightarrow> ObservationEvent \<Rightarrow> NormalizedTiming \<times> Limitation list \<times> attemptState" where
  "normalizeTiming s ev =
     (let tn = unixNano (ev_ObservedAt ev);
          ns = (case as_time s (ev_Source ev) of
                  None \<Rightarrow> \<lparr>tn_origin = tn, tn_last = tn\<rparr> | Some n \<Rightarrow> n);
          rel = signed64 (tn - tn_origin ns);
          lim = (if tn < tn_last ns
                 then [mkLimitation ''clock-regression''
                        ''Observation timestamp moved backward within one source clock.'']
                 else [])
      in (\<lparr>nt_SourceRelativeNanos = rel, nt_IncludedInSemanticDigest = includeTiming (as_profile s),
           nt_ClockRegression = (lim \<noteq> [])\<rparr>,
          lim,
          s\<lparr>as_time := (as_time s)(ev_Source ev \<mapsto> ns\<lparr>tn_last := tn\<rparr>)\<rparr>))"

text \<open>\<open>fmt.Sprint\<close> of a slice of strings and of a slice of environment entries.\<close>

definition sprintStrings :: "string list \<Rightarrow> string" where
  "sprintStrings xs = ''['' @ join_with '' '' xs @ '']''"

definition sprintEnv :: "EnvEntry list \<Rightarrow> string" where
  "sprintEnv xs =
     ''['' @ join_with '' '' (map (\<lambda>e. ''{'' @ env_Name e @ '' '' @ env_Value e @ ''}'') xs) @ '']''"

abbreviation processIDDomain :: string where
  "processIDDomain \<equiv> ''glassroot.dev/normalized-process-id/v1'' @ [NUL]"

definition processID :: "(string \<Rightarrow> string) \<Rightarrow> string list \<Rightarrow> string" where
  "processID sha parts = ''proc-'' @ sha (processIDDomain @ concat (map writeString parts))"

text \<open>The parent of a starting process: its stable identity, the relation, the limitation.\<close>

definition parentOf ::
  "processNamespace \<Rightarrow> ProcessObservation \<Rightarrow> string \<times> string \<times> Limitation list" where
  "parentOf ns p =
     (case po_ParentProcessID p of
        None \<Rightarrow> ([], ''root'', [])
      | Some pp \<Rightarrow>
          if pp = 0 then ([], ''root'', [])
          else (case map_of (pn_active ns) pp of
                  Some parent \<Rightarrow> (pg_stable parent, ''known-parent'', [])
                | None \<Rightarrow> (''proc-unresolved-parent'', ''unresolved-parent'',
                     [mkLimitation ''unresolved-parent''
                        ''A process start referenced a parent PID without an active generation.''])))"

definition processSeed :: "string list \<Rightarrow> string" where
  "processSeed parts = join_nul parts"

definition processParts ::
  "string \<Rightarrow> string \<Rightarrow> string \<Rightarrow> string \<Rightarrow> ProcessObservation \<Rightarrow> string list" where
  "processParts src parentID relation display p =
     [src, parentID, relation, display, sprintStrings (po_Arguments p), sprintEnv (po_Environment p)]"

definition processStart ::
  "(string \<Rightarrow> string) \<Rightarrow> attemptState \<Rightarrow> string \<Rightarrow> ProcessObservation option
   \<Rightarrow> (ProcessFact \<times> Limitation list \<times> attemptState) result" where
  "processStart sha s src po =
     (case po of
        None \<Rightarrow> Inl (observeErr ''invalid-observation-payload'' ''process'' (as_attemptID s) ''process'')
      | Some p \<Rightarrow>
         let ns = ns_of s src;
             reuse = (if map_of (pn_active ns) (po_ProcessID p) \<noteq> None
                      then [mkLimitation ''active-pid-reuse''
                              ''A process start reused an active PID within one observer source.'']
                      else []);
             (parentID, relation, plim) = parentOf ns p;
             exe = normalizeObservedPath (po_ExecutablePath p) (np_RootAliases (as_profile s));
             parts = processParts src parentID relation (pa_Display exe) p;
             seed = processSeed parts;
             occ = (case map_of (pn_occurrence ns) seed of None \<Rightarrow> 0 | Some k \<Rightarrow> k) + 1;
             ns1 = ns\<lparr>pn_occurrence := AList.update seed occ (pn_occurrence ns),
                      pn_generations := pn_generations ns + 1\<rparr>
         in if int (pn_generations ns1) > ol_MaxProcessGenerationsPerAttempt (as_limits s)
               \<or> int (length (pn_active ns1) + 1) > ol_MaxActiveProcessesPerAttempt (as_limits s)
            then Inl (observeErr ''process-limit'' ''process'' (as_attemptID s) ''count'')
            else
              let stable = processID sha (parts @ [itoa occ]);
                  gen = \<lparr>pg_pid = po_ProcessID p, pg_stable = stable, pg_parent = parentID,
                         pg_parentRelation = relation, pg_seed = seed\<rparr>;
                  ns2 = ns1\<lparr>pn_active := AList.update (po_ProcessID p) gen (pn_active ns1)\<rparr>
              in Inr (\<lparr>pf_Operation = po_Operation p, pf_StableID = stable,
                       pf_ParentStableID = parentID, pf_ParentRelation = relation,
                       pf_Executable = exe, pf_Arguments = po_Arguments p,
                       pf_Environment = po_Environment p, pf_ExitCode = po_ExitCode p,
                       pf_DurationMillis = po_DurationMillis p\<rparr>,
                      reuse @ plim,
                      s\<lparr>as_process := (as_process s)(src \<mapsto> ns2)\<rparr>))"

definition processExit ::
  "attemptState \<Rightarrow> string \<Rightarrow> ProcessObservation option
   \<Rightarrow> (ProcessFact \<times> Limitation list \<times> attemptState) result" where
  "processExit s src po =
     (case po of
        None \<Rightarrow> Inl (observeErr ''invalid-observation-payload'' ''process'' (as_attemptID s) ''process'')
      | Some p \<Rightarrow>
         let ns = ns_of s src;
             (stable, parent, relation, lim, ns1) =
               (case map_of (pn_active ns) (po_ProcessID p) of
                  None \<Rightarrow> (''proc-unresolved-actor'', [], ''unresolved-actor'',
                      [mkLimitation ''unresolved-actor''
                         ''A process exit referenced a PID without an active generation.''], ns)
                | Some gen \<Rightarrow> (pg_stable gen, pg_parent gen, pg_parentRelation gen, [],
                      ns\<lparr>pn_active := AList.delete (po_ProcessID p) (pn_active ns)\<rparr>))
         in Inr (\<lparr>pf_Operation = po_Operation p, pf_StableID = stable,
                  pf_ParentStableID = parent, pf_ParentRelation = relation,
                  pf_Executable = normalizeObservedPath (po_ExecutablePath p)
                                    (np_RootAliases (as_profile s)),
                  pf_Arguments = po_Arguments p, pf_Environment = po_Environment p,
                  pf_ExitCode = po_ExitCode p, pf_DurationMillis = po_DurationMillis p\<rparr>,
                 lim,
                 s\<lparr>as_process := (as_process s)(src \<mapsto> ns1)\<rparr>))"

section \<open>The semantic digest\<close>

definition observe_writePath :: "NormalizedPath \<Rightarrow> string" where
  "observe_writePath p = writeString (pa_Namespace p) @ writeU64 (pa_RootIndex p)
     @ writeString (pa_Relative p)
     @ (if pa_Namespace p = PathNamespaceWorkdirRoot \<or> pa_Namespace p = PathNamespaceCollectionRoot
        then writeString [] else writeString (pa_Literal p))
     @ writeString (pa_Display p)"

definition observe_writeLimitation :: "Limitation \<Rightarrow> string" where
  "observe_writeLimitation x =
     writeString (lim_ID x) @ writeString (lim_Summary x) @ writeString (lim_Details x)"

definition observe_writeLimitations :: "Limitation list \<Rightarrow> string" where
  "observe_writeLimitations l = writeList observe_writeLimitation l"

definition observe_writeEnv :: "EnvEntry list \<Rightarrow> string" where
  "observe_writeEnv env = writeList (\<lambda>e. writeString (env_Name e) @ writeString (env_Value e)) env"

definition writeProcessFact :: "ProcessFact \<Rightarrow> string" where
  "writeProcessFact p = writeString (pf_Operation p) @ writeString (pf_StableID p)
     @ writeString (pf_ParentStableID p) @ writeString (pf_ParentRelation p)
     @ observe_writePath (pf_Executable p) @ writeStrings (pf_Arguments p)
     @ observe_writeEnv (pf_Environment p)
     @ writeOption writeI64 (pf_ExitCode p)
     @ writeI64 (pf_DurationMillis p)"

definition writeFilesystemFact :: "FilesystemFact \<Rightarrow> string" where
  "writeFilesystemFact f = writeString (ff_Operation f) @ observe_writePath (ff_Path f)
     @ writeOption observe_writePath (ff_OldPath f)
     @ writeString (ff_Mode f) @ writeString (ff_Digest f) @ writeI64 (ff_SizeBytes f)
     @ writeBool (ff_Executable f) @ writeBool (ff_Truncated f)"

definition writeNetworkFact :: "NetworkFact \<Rightarrow> string" where
  "writeNetworkFact n = writeString (nf_Operation n) @ writeString (nf_Protocol n)
     @ writeString (nf_QueryName n) @ writeString (nf_DestinationHost n)
     @ writeI64 (nf_DestinationPort n) @ writeStrings (nf_ResolvedAddresses n)
     @ writeString (nf_Result n) @ writeI64 (nf_DurationMillis n)"

definition writeArtifactFact :: "ArtifactFact \<Rightarrow> string" where
  "writeArtifactFact a = writeString (af_Operation a) @ writeString (af_ArtifactID a)
     @ observe_writePath (af_Path a) @ writeString (af_Digest a) @ writeI64 (af_SizeBytes a)
     @ writeBool (af_Executable a) @ writeStrings (af_SourceEventIDs a)"

definition writeScenarioFact :: "ScenarioFact \<Rightarrow> string" where
  "writeScenarioFact s =
     writeString (sf_Status s) @ writeString (sf_Message s) @ writeI64 (sf_DurationMillis s)"

definition writeWarningFact :: "WarningFact \<Rightarrow> string" where
  "writeWarningFact w = writeString (wf_Code w) @ writeString (wf_Message w)
     @ writeBool (wf_Unsupported w)
     @ observe_writeLimitations (slice_stable (\<lambda>a b. lim_ID a < lim_ID b) (wf_Limitations w))"

definition writeResourceFact :: "ResourceFact \<Rightarrow> string" where
  "writeResourceFact r = writeString (rf_LimitKind r) @ writeI64 (rf_LimitValue r)
     @ writeString (rf_Unit r) @ writeI64 (rf_ObservedValue r) @ writeBool (rf_Exceeded r)"

definition processKinds :: "string list" where
  "processKinds = [''process-start'', ''process-exit'']"
definition filesystemKinds :: "string list" where
  "filesystemKinds = [''filesystem-create'', ''filesystem-read'', ''filesystem-write'',
     ''filesystem-delete'', ''filesystem-rename'', ''filesystem-chmod'']"
definition networkKinds :: "string list" where
  "networkKinds = [''dns-query'', ''network-connection'']"
definition scenarioKinds :: "string list" where
  "scenarioKinds = [''scenario-started'', ''scenario-completed'']"
definition warningKinds :: "string list" where
  "warningKinds = [''observer-warning'', ''unsupported-observation'']"

text \<open>The \<open>switch\<close> of \<open>semanticDigest\<close>: the payload bytes, or the error of a missing payload.\<close>

definition writePayload :: "('a \<Rightarrow> string) \<Rightarrow> string \<Rightarrow> 'a option \<Rightarrow> string result" where
  "writePayload enc field payload =
     (case payload of
        None \<Rightarrow> Inl (observeErr ''invalid-observation-payload'' ''digest'' [] field)
      | Some x \<Rightarrow> Inr (enc x))"

definition semanticPayload :: "Fact \<Rightarrow> string result" where
  "semanticPayload f =
     (if fa_Kind f \<in> set processKinds then writePayload writeProcessFact ''process'' (fa_Process f)
      else if fa_Kind f \<in> set filesystemKinds
        then writePayload writeFilesystemFact ''filesystem'' (fa_Filesystem f)
      else if fa_Kind f \<in> set networkKinds
        then writePayload writeNetworkFact ''network'' (fa_Network f)
      else if fa_Kind f = ''artifact-activity''
        then writePayload writeArtifactFact ''artifact'' (fa_Artifact f)
      else if fa_Kind f \<in> set scenarioKinds
        then writePayload writeScenarioFact ''scenario'' (fa_Scenario f)
      else if fa_Kind f \<in> set warningKinds
        then writePayload writeWarningFact ''warning'' (fa_Warning f)
      else if fa_Kind f = ''resource-limit''
        then writePayload writeResourceFact ''resource'' (fa_Resource f)
      else Inl (observeErr ''unsupported-observation-kind'' ''digest'' [] (fa_Kind f)))"

abbreviation semanticDigestDomain :: string where
  "semanticDigestDomain \<equiv> ''glassroot.dev/normalized-observation/v1'' @ [NUL]"
abbreviation factIDDomain :: string where
  "factIDDomain \<equiv> ''glassroot.dev/normalized-fact-id/v1'' @ [NUL]"

definition writeTiming :: "NormalizedTiming \<Rightarrow> string" where
  "writeTiming t =
     (if nt_IncludedInSemanticDigest t
      then writeI64 (nt_SourceRelativeNanos t) @ writeBool (nt_ClockRegression t) else [])"

text \<open>The bytes that \<open>semanticDigest\<close> hashes.\<close>

definition semanticBytes :: "NormalizationProfile \<Rightarrow> Fact \<Rightarrow> string result" where
  "semanticBytes profile f =
     rbind (semanticPayload f) (\<lambda>payload.
       Inr (semanticDigestDomain @ writeString (np_Version profile) @ writeString (fa_Kind f)
            @ writeString (fa_Source f) @ writeTiming (fa_Timing f) @ payload))"

definition semanticDigest ::
  "(string \<Rightarrow> string) \<Rightarrow> NormalizationProfile \<Rightarrow> Fact \<Rightarrow> Digest result" where
  "semanticDigest sha profile f =
     rbind (semanticBytes profile f) (\<lambda>b. Inr (''sha256:'' @ sha b))"

definition factID ::
  "(string \<Rightarrow> string) \<Rightarrow> Digest \<Rightarrow> string \<Rightarrow> Digest \<Rightarrow> string list \<Rightarrow> string" where
  "factID sha planDigest attemptID semantic eventIDs =
     ''fact-'' @ sha (factIDDomain @ writeString planDigest @ writeString attemptID
                       @ writeString semantic @ writeStrings eventIDs)"

section \<open>Events to facts\<close>

definition validateSource :: "string \<Rightarrow> go_error option" where
  "validateSource s =
     (if s \<in> set ObservationSources then None
      else Some (observeErr ''invalid-observation-source'' ''event'' [] s))"

definition payloadCount :: "ObservationEvent \<Rightarrow> nat" where
  "payloadCount e = length (filter id
     [ev_Process e \<noteq> None, ev_Filesystem e \<noteq> None, ev_Network e \<noteq> None, ev_Artifact e \<noteq> None,
      ev_Scenario e \<noteq> None, ev_ObserverWarning e \<noteq> None, ev_ResourceLimit e \<noteq> None])"

definition requirePayload :: "'a option \<Rightarrow> string \<Rightarrow> go_error option" where
  "requirePayload payload field =
     (if payload = None
      then Some (observeErr ''invalid-observation-payload'' ''event'' [] field) else None)"

definition validateKindPayload :: "ObservationEvent \<Rightarrow> go_error option" where
  "validateKindPayload e =
     (if ev_Kind e \<notin> set ObservationKinds
      then Some (observeErr ''unsupported-observation-kind'' ''event'' [] (ev_Kind e))
      else if payloadCount e \<noteq> 1
      then Some (observeErr ''invalid-observation-payload'' ''event'' [] (ev_Kind e))
      else if ev_Kind e \<in> set processKinds then requirePayload (ev_Process e) ''process''
      else if ev_Kind e \<in> set filesystemKinds then requirePayload (ev_Filesystem e) ''filesystem''
      else if ev_Kind e \<in> set networkKinds then requirePayload (ev_Network e) ''network''
      else if ev_Kind e = ''artifact-activity'' then requirePayload (ev_Artifact e) ''artifact''
      else if ev_Kind e \<in> set scenarioKinds then requirePayload (ev_Scenario e) ''scenario''
      else if ev_Kind e \<in> set warningKinds then requirePayload (ev_ObserverWarning e) ''warning''
      else if ev_Kind e = ''resource-limit'' then requirePayload (ev_ResourceLimit e) ''resource''
      else None)"

definition filesystemFactOf :: "PathRootAlias list \<Rightarrow> FilesystemObservation \<Rightarrow> FilesystemFact" where
  "filesystemFactOf roots fs =
     \<lparr>ff_Operation = fo_Operation fs, ff_Path = normalizeObservedPath (fo_Path fs) roots,
      ff_OldPath = (if fo_OldPath fs \<noteq> [] then Some (normalizeObservedPath (fo_OldPath fs) roots) else None),
      ff_Mode = fo_Mode fs, ff_Digest = fo_Digest fs, ff_SizeBytes = fo_SizeBytes fs,
      ff_Executable = fo_Executable fs, ff_Truncated = fo_Truncated fs\<rparr>"

definition networkFactOf :: "NetworkObservation \<Rightarrow> NetworkFact" where
  "networkFactOf n =
     \<lparr>nf_Operation = no_Operation n, nf_Protocol = no_Protocol n, nf_QueryName = no_QueryName n,
      nf_DestinationHost = no_DestinationHost n, nf_DestinationPort = no_DestinationPort n,
      nf_ResolvedAddresses = no_ResolvedAddresses n, nf_Result = no_Result n,
      nf_DurationMillis = no_DurationMillis n\<rparr>"

definition artifactFactOf :: "PathRootAlias list \<Rightarrow> ArtifactObservation \<Rightarrow> ArtifactFact" where
  "artifactFactOf roots a =
     \<lparr>af_Operation = ao_Operation a, af_ArtifactID = ao_ArtifactID a,
      af_Path = normalizeObservedPath (ao_Path a) roots, af_Digest = ao_Digest a,
      af_SizeBytes = ao_SizeBytes a, af_Executable = ao_Executable a,
      af_SourceEventIDs = ao_SourceEventIDs a\<rparr>"

definition scenarioFactOf :: "ScenarioObservation \<Rightarrow> ScenarioFact" where
  "scenarioFactOf s =
     \<lparr>sf_Status = so_Status s, sf_Message = so_Message s, sf_DurationMillis = so_DurationMillis s\<rparr>"

definition warningFactOf :: "ObserverWarningObservation \<Rightarrow> WarningFact" where
  "warningFactOf w =
     \<lparr>wf_Code = ow_Code w, wf_Message = ow_Message w, wf_Unsupported = ow_Unsupported w,
      wf_Limitations = ow_Limitations w\<rparr>"

definition resourceFactOf :: "ResourceLimitObservation \<Rightarrow> ResourceFact" where
  "resourceFactOf r =
     \<lparr>rf_LimitKind = rl_LimitKind r, rf_LimitValue = rl_LimitValue r, rf_Unit = rl_Unit r,
      rf_ObservedValue = rl_ObservedValue r, rf_Exceeded = rl_Exceeded r\<rparr>"

definition newFact ::
  "ObservationEvent \<Rightarrow> NormalizedTiming \<Rightarrow> RawEvidenceReference \<Rightarrow> Limitation list \<Rightarrow> Fact" where
  "newFact e timing ref lims =
     \<lparr>fa_ID = [], fa_SemanticDigest = [], fa_Kind = ev_Kind e, fa_Source = ev_Source e,
      fa_Timing = timing, fa_Process = None, fa_Filesystem = None, fa_Network = None,
      fa_Artifact = None, fa_Scenario = None, fa_Warning = None, fa_Resource = None,
      fa_Evidence = [ref], fa_Limitations = lims\<rparr>"

text \<open>
  The \<open>switch\<close> of \<open>normalizeEvent\<close>. Reading a payload that is nil panics in Go; the branch is
  unreachable after \<open>validateKindPayload\<close> (\<open>payload_never_nil\<close> below), and the model leaves the
  payload of the fact empty there.
\<close>

definition buildFact ::
  "(string \<Rightarrow> string) \<Rightarrow> attemptState \<Rightarrow> ObservationEvent \<Rightarrow> Fact \<Rightarrow> (Fact \<times> attemptState) result" where
  "buildFact sha s e f =
     (let roots = np_RootAliases (as_profile s) in
      if ev_Kind e = ''process-start'' then
        rbind (processStart sha s (ev_Source e) (ev_Process e)) (\<lambda>(p, lim, s').
          Inr (f\<lparr>fa_Process := Some p, fa_Limitations := fa_Limitations f @ lim\<rparr>, s'))
      else if ev_Kind e = ''process-exit'' then
        rbind (processExit s (ev_Source e) (ev_Process e)) (\<lambda>(p, lim, s').
          Inr (f\<lparr>fa_Process := Some p, fa_Limitations := fa_Limitations f @ lim\<rparr>, s'))
      else if ev_Kind e \<in> set filesystemKinds then
        Inr (f\<lparr>fa_Filesystem := map_option (filesystemFactOf roots) (ev_Filesystem e)\<rparr>, s)
      else if ev_Kind e \<in> set networkKinds then
        Inr (f\<lparr>fa_Network := map_option networkFactOf (ev_Network e)\<rparr>, s)
      else if ev_Kind e = ''artifact-activity'' then
        Inr (f\<lparr>fa_Artifact := map_option (artifactFactOf roots) (ev_Artifact e)\<rparr>, s)
      else if ev_Kind e \<in> set scenarioKinds then
        Inr (f\<lparr>fa_Scenario := map_option scenarioFactOf (ev_Scenario e)\<rparr>, s)
      else if ev_Kind e \<in> set warningKinds then
        Inr (f\<lparr>fa_Warning := map_option warningFactOf (ev_ObserverWarning e),
               fa_Limitations := fa_Limitations f @
                 (case ev_ObserverWarning e of
                    Some w \<Rightarrow> if ow_Unsupported w
                      then [mkLimitation ''unsupported-observation''
                              ''An observer reported unsupported observation data.'']
                      else []
                  | None \<Rightarrow> [])\<rparr>, s)
      else if ev_Kind e = ''resource-limit'' then
        Inr (f\<lparr>fa_Resource := map_option resourceFactOf (ev_ResourceLimit e)\<rparr>, s)
      else Inl (observeErr ''unsupported-observation-kind'' ''event'' (as_attemptID s) (ev_Kind e)))"

text \<open>
  \<open>normalizeEvent\<close>. On an error the caller stops, so the state of a failed call is not part of the
  result.
\<close>

definition normalizeEvent ::
  "(string \<Rightarrow> string) \<Rightarrow> attemptState \<Rightarrow> ObservationEvent \<Rightarrow> RawEvidenceReference
   \<Rightarrow> (Fact \<times> attemptState) result" where
  "normalizeEvent sha s e ref =
     rcheck (validateSource (ev_Source e)) (
     rcheck (validateKindPayload e) (
     let (timing, tlim, s1) = normalizeTiming s e in
     rbind (buildFact sha s1 e (newFact e timing ref tlim)) (\<lambda>(f, s2).
     let f1 = f\<lparr>fa_Limitations := sortLimitations (fa_Limitations f)\<rparr> in
     rbind (semanticDigest sha (as_profile s) f1) (\<lambda>d.
     let f2 = f1\<lparr>fa_SemanticDigest := d\<rparr> in
     if int (length (fa_Evidence f2)) > ol_MaxEvidenceRefsPerFact (as_limits s)
     then Inl (observeErr ''evidence-reference-limit'' ''event'' (as_attemptID s) ''evidence'')
     else Inr (f2, s2)))))"

section \<open>The walk over the event stream\<close>

definition observe_contextErr :: "ctx_error \<Rightarrow> go_error" where
  "observe_contextErr e =
     (if e = DeadlineExceeded then observeErr ''normalization-timeout'' ''context'' [] ''deadline''
      else observeErr ''context-cancelled'' ''context'' [] ''cancelled'')"

text \<open>
  What the callback of \<open>WalkEvents\<close> closes over: the states by attempt id, the facts appended to
  the attempts so far, the two totals and the last sequence number.
\<close>

record walkState =
  wk_states :: "string \<rightharpoonup> attemptState"
  wk_facts :: "string \<Rightarrow> Fact list"
  wk_totalFacts :: nat
  wk_totalRefs :: nat
  wk_prior :: nat

definition attemptIDOf :: "ObservationEvent \<Rightarrow> string" where
  "attemptIDOf e =
     ''att-'' @ ev_Revision e @ ''-'' @ ev_ScenarioID e @ ''-r'' @ itoa (ev_Repetition e)"

definition walkEvent ::
  "(string \<Rightarrow> string) \<Rightarrow> Digest \<Rightarrow> ObserveLimits \<Rightarrow> ctx_error option \<Rightarrow> walkState \<Rightarrow> ObservationEvent
   \<Rightarrow> walkState result" where
  "walkEvent sha planDigest limits poll w e =
     rcheck (map_option observe_contextErr poll) (
     if ev_SequenceNumber e \<le> 0 then Inl (observeErr ''event-order'' ''events'' [] ''sequence'')
     else
     let seqn = nat (ev_SequenceNumber e); i = attemptIDOf e in
     if wk_prior w \<noteq> 0 \<and> seqn \<noteq> wk_prior w + 1
     then Inl (observeErr ''event-order'' ''events'' [] ''sequence'')
     else case wk_states w i of
       None \<Rightarrow> Inl (observeErr ''invalid-attempt-inventory'' ''events'' i ''attempt'')
     | Some st \<Rightarrow>
         rbind (normalizeEvent sha st e
                  ((as_attemptKey st)\<lparr>rer_EventID := ev_ID e, rer_EventSequence := seqn\<rparr>))
           (\<lambda>(f, st').
              let f' = f\<lparr>fa_ID := factID sha planDigest i (fa_SemanticDigest f) [ev_ID e]\<rparr>;
                  w' = w\<lparr>wk_states := (wk_states w)(i \<mapsto> st'),
                         wk_facts := (wk_facts w)(i := wk_facts w i @ [f']),
                         wk_totalFacts := wk_totalFacts w + 1,
                         wk_totalRefs := wk_totalRefs w + length (fa_Evidence f'),
                         wk_prior := seqn\<rparr>
              in if int (wk_totalFacts w') > ol_MaxFactsPerTraceSet limits
                 then Inl (observeErr ''fact-limit'' ''facts'' i ''count'')
                 else if int (wk_totalRefs w') > ol_MaxEvidenceRefsTotal limits
                 then Inl (observeErr ''evidence-reference-limit'' ''facts'' i ''evidence'')
                 else Inr w'))"

fun walkEvents ::
  "(string \<Rightarrow> string) \<Rightarrow> Digest \<Rightarrow> ObserveLimits \<Rightarrow> go_context \<Rightarrow> walkState \<Rightarrow> ObservationEvent list
   \<Rightarrow> walkState result" where
  "walkEvents sha planDigest limits ctx w [] = Inr w"
| "walkEvents sha planDigest limits ctx w (e # es) =
     rbind (walkEvent sha planDigest limits (ctx 0) w e)
       (\<lambda>w'. walkEvents sha planDigest limits (ctx \<circ> Suc) w' es)"

end
