(* ===== verification/Observe_Facts.thy ===== *)
theory Observe_Facts
  imports Observe
begin

text \<open>
  What normalization guarantees. Paths: the longest trusted root wins and the observed literal can be
  rebuilt. Process identities: never issued twice within an attempt, released at exit. The whole
  walk: one fact per event, contiguous sequence numbers, and facts that are invariant under
  renaming of process ids and under a shift of a source's clock. Digests: the bytes under a semantic
  digest determine the fact up to the literal of a rooted path.
\<close>

section \<open>Paths\<close>

text \<open>The key that \<open>rootLess\<close> compares on the two namespaces a profile can hold.\<close>

definition rootKey :: "PathRootAlias \<Rightarrow> int \<times> bool \<times> nat" where
  "rootKey r = (- int (length (pra_Root r)), pra_Namespace r \<noteq> PathNamespaceWorkdirRoot,
                pra_RootIndex r)"

definition rootNamespace :: "string \<Rightarrow> bool" where
  "rootNamespace n \<longleftrightarrow> n = PathNamespaceWorkdirRoot \<or> n = PathNamespaceCollectionRoot"

interpretation root_order: keyed_order "\<lambda>a b. rootKey a < rootKey b" rootKey
  by unfold_locales simp

lemma rootLess_rootKey:
  "rootNamespace (pra_Namespace a) \<Longrightarrow> rootNamespace (pra_Namespace b) \<Longrightarrow>
   rootLess a b \<longleftrightarrow> rootKey a < rootKey b"
  by (auto simp: rootLess_def rootKey_def rootNamespace_def less_prod_def')

lemma ordered_roots:
  assumes "\<forall>r\<in>set roots. rootNamespace (pra_Namespace r)"
  shows "sorted (map rootKey (slice_stable rootLess roots))"
proof -
  have "slice_stable rootLess roots = slice_stable (\<lambda>a b. rootKey a < rootKey b) roots"
    using assms by (intro slice_stable_cong) (auto simp: rootLess_rootKey)
  then show ?thesis by (simp add: root_order.slice_stable_sort_key)
qed

lemma find_sorted_least:
  "sorted (map key xs) \<Longrightarrow> List.find P xs = Some x \<Longrightarrow> y \<in> set xs \<Longrightarrow> P y \<Longrightarrow> key x \<le> key y"
  by (induction xs) (auto split: if_splits)

definition pathText :: "string \<Rightarrow> bool" where
  "pathText v \<longleftrightarrow> v \<noteq> [] \<and> validString v \<and> NUL \<notin> set v \<and> CHR 0x5C \<notin> set v \<and> \<not> hasControl v"

lemma rootMatch_rel:
  assumes "rootMatch v root"
  shows "v = root \<or> v = root @ ''/'' @ trim_slash (drop (length root) v)"
proof -
  have "v = root \<or> take (length root + 1) v = root @ ''/''"
    using assms by (auto simp: rootMatch_def has_prefix_def)
  then show ?thesis
  proof
    assume t: "take (length root + 1) v = root @ ''/''"
    have "v = take (length root + 1) v @ drop (length root + 1) v" by simp
    with t have "v = root @ ''/'' @ drop (length root + 1) v" by simp
    moreover from this have "drop (length root) v = ''/'' @ drop (length root + 1) v"
      by (metis append_eq_conv_conj)
    ultimately show ?thesis by (simp add: trim_slash_def has_prefix_def)
  qed simp
qed

lemma normalizeObservedPath_absolute:
  assumes "pathText v" and "has_prefix v ''/''"
    and ns: "\<forall>r\<in>set roots. rootNamespace (pra_Namespace r)"
  shows "(\<nexists>r. r \<in> set roots \<and> rootMatch v (pra_Root r)) \<and>
           normalizeObservedPath v roots =
             \<lparr>pa_Namespace = PathNamespaceAbsoluteUnmapped, pa_RootIndex = 0, pa_Relative = [],
              pa_Literal = v, pa_Display = v\<rparr>
       \<or> (\<exists>r\<in>set roots. rootMatch v (pra_Root r)
            \<and> (\<forall>r'\<in>set roots. rootMatch v (pra_Root r') \<longrightarrow> rootKey r \<le> rootKey r')
            \<and> pa_Namespace (normalizeObservedPath v roots) = pra_Namespace r
            \<and> pa_RootIndex (normalizeObservedPath v roots) = pra_RootIndex r
            \<and> pa_Literal (normalizeObservedPath v roots) = v
            \<and> (v = pra_Root r
               \<or> v = pra_Root r @ ''/'' @ pa_Relative (normalizeObservedPath v roots)))"
proof (cases "List.find (\<lambda>r. rootMatch v (pra_Root r)) (slice_stable rootLess roots)")
  case None
  then have "\<nexists>r. r \<in> set roots \<and> rootMatch v (pra_Root r)"
    by (auto simp: find_None_iff)
  with None assms show ?thesis
    by (simp add: normalizeObservedPath_def pathText_def)
next
  case (Some r)
  then have "r \<in> set roots" and "rootMatch v (pra_Root r)"
    using find_Some_iff by (metis nth_mem set_slice_stable)+
  moreover have "rootKey r \<le> rootKey r'"
    if "r' \<in> set roots" "rootMatch v (pra_Root r')" for r'
    using find_sorted_least [OF ordered_roots [OF ns] Some, of r'] that by simp
  ultimately show ?thesis
    using Some assms rootMatch_rel [of v "pra_Root r"]
    by (intro disjI2 bexI [of _ r]) (auto simp: normalizeObservedPath_def pathText_def Let_def)
qed

lemma collectionAliases_props:
  "r \<in> set (collectionAliases seen idx roots) \<Longrightarrow>
     pra_Namespace r = PathNamespaceCollectionRoot \<and> pra_Root r \<notin> set seen \<and> pra_Root r \<in> set roots"
  by (induction seen idx roots rule: collectionAliases.induct) (auto split: if_splits)

lemma collectionAliases_seen [simp]:
  "x \<notin> set (collectionAliases (pra_Root x # seen) idx roots)"
  using collectionAliases_props by fastforce

lemma collectionAliases_distinct: "distinct (map pra_Root (collectionAliases seen idx roots))"
proof (induction seen idx roots rule: collectionAliases.induct)
  case (2 seen idx root rest)
  then show ?case using collectionAliases_props by (auto simp: image_iff)
qed simp

text \<open>The aliases of a profile built from a plan: two namespaces, no root twice, at most 32.\<close>

lemma profileFromPlan_aliases:
  assumes "profileFromPlan plan = Inr p"
  shows "\<forall>r\<in>set (np_RootAliases p). rootNamespace (pra_Namespace r)"
    and "distinct (map pra_Root (np_RootAliases p))"
    and "length (np_RootAliases p) \<le> MaxPathRoots"
  using assms collectionAliases_distinct
  by (auto simp: profileFromPlan_def Let_def result_simps observe_validateProfile_def
        rootNamespace_def dest: collectionAliases_props split: option.splits if_splits)

section \<open>One event\<close>

text \<open>\<open>processStart\<close> and \<open>processExit\<close> change the process namespace of their source only.\<close>

definition same_attempt :: "attemptState \<Rightarrow> attemptState \<Rightarrow> bool" where
  "same_attempt s t \<longleftrightarrow> as_profile t = as_profile s \<and> as_planDigest t = as_planDigest s
     \<and> as_attemptID t = as_attemptID s \<and> as_attemptKey t = as_attemptKey s
     \<and> as_limits t = as_limits s"

lemma same_attempt_refl [simp]: "same_attempt s s"
  by (simp add: same_attempt_def)

lemma same_attempt_trans: "same_attempt s t \<Longrightarrow> same_attempt t u \<Longrightarrow> same_attempt s u"
  by (simp add: same_attempt_def)

lemma processStart_frame:
  "processStart sha s src po = Inr (p, lim, s') \<Longrightarrow> same_attempt s s' \<and> as_time s' = as_time s"
  by (auto simp: processStart_def Let_def same_attempt_def split: option.splits prod.splits if_splits)

lemma processExit_frame:
  "processExit s src po = Inr (p, lim, s') \<Longrightarrow> same_attempt s s' \<and> as_time s' = as_time s"
  by (auto simp: processExit_def Let_def same_attempt_def split: option.splits prod.splits)

lemma normalizeTiming_frame:
  "normalizeTiming s e = (t, lim, s') \<Longrightarrow> same_attempt s s' \<and> as_process s' = as_process s"
  by (auto simp: normalizeTiming_def Let_def same_attempt_def)

lemma buildFact_frame:
  assumes "buildFact sha s e f = Inr (f', s')"
  shows "same_attempt s s'" and "as_time s' = as_time s"
    and "fa_Evidence f' = fa_Evidence f" and "fa_Kind f' = fa_Kind f"
    and "fa_Source f' = fa_Source f" and "fa_Timing f' = fa_Timing f"
  using assms processStart_frame processExit_frame
  by (auto simp: buildFact_def Let_def result_simps split: if_splits prod.splits) (blast+)?

lemma normalizeEvent_elim:
  assumes "normalizeEvent sha s e ref = Inr (f, s')"
  obtains t lim s1 f0 where
    "ev_Source e \<in> set ObservationSources" "validateKindPayload e = None"
    "normalizeTiming s e = (t, lim, s1)"
    "buildFact sha s1 e (newFact e t ref lim) = Inr (f0, s')"
    "semanticDigest sha (as_profile s) (f0\<lparr>fa_Limitations := sortLimitations (fa_Limitations f0)\<rparr>)
       = Inr (fa_SemanticDigest f)"
    "f = f0\<lparr>fa_Limitations := sortLimitations (fa_Limitations f0),
            fa_SemanticDigest := fa_SemanticDigest f\<rparr>"
  using assms
  by (auto simp: normalizeEvent_def Let_def result_simps validateSource_def
        split: if_splits prod.splits)

lemma normalizeEvent_frame:
  assumes "normalizeEvent sha s e ref = Inr (f, s')"
  shows "same_attempt s s'" "fa_Evidence f = [ref]" "fa_Kind f = ev_Kind e" "fa_Source f = ev_Source e"
proof -
  obtain t lim s1 f0 where nt: "normalizeTiming s e = (t, lim, s1)"
    and bf: "buildFact sha s1 e (newFact e t ref lim) = Inr (f0, s')"
    and f: "f = f0\<lparr>fa_Limitations := sortLimitations (fa_Limitations f0),
                  fa_SemanticDigest := fa_SemanticDigest f\<rparr>"
    using assms by (rule normalizeEvent_elim)
  show "same_attempt s s'"
    using normalizeTiming_frame [OF nt] buildFact_frame(1) [OF bf] same_attempt_trans by blast
  have "fa_Evidence f0 = [ref]" "fa_Kind f0 = ev_Kind e" "fa_Source f0 = ev_Source e"
    using buildFact_frame [OF bf] by (simp_all add: newFact_def)
  then show "fa_Evidence f = [ref]" "fa_Kind f = ev_Kind e" "fa_Source f = ev_Source e"
    by (subst f, simp)+
qed

section \<open>The walk: one fact per event\<close>

lemma walkEvent_elim:
  assumes "walkEvent sha pd limits poll w e = Inr w'"
  obtains st f st' f' where
    "poll = None" "0 < ev_SequenceNumber e"
    "wk_prior w = 0 \<or> nat (ev_SequenceNumber e) = wk_prior w + 1"
    "wk_states w (attemptIDOf e) = Some st"
    "normalizeEvent sha st e ((as_attemptKey st)\<lparr>rer_EventID := ev_ID e,
        rer_EventSequence := nat (ev_SequenceNumber e)\<rparr>) = Inr (f, st')"
    "f' = f\<lparr>fa_ID := factID sha pd (attemptIDOf e) (fa_SemanticDigest f) [ev_ID e]\<rparr>"
    "w' = w\<lparr>wk_states := (wk_states w)(attemptIDOf e \<mapsto> st'),
            wk_facts := (wk_facts w)(attemptIDOf e := wk_facts w (attemptIDOf e) @ [f']),
            wk_totalFacts := wk_totalFacts w + 1,
            wk_totalRefs := wk_totalRefs w + length (fa_Evidence f'),
            wk_prior := nat (ev_SequenceNumber e)\<rparr>"
    "int (wk_totalFacts w') \<le> ol_MaxFactsPerTraceSet limits"
    "int (wk_totalRefs w') \<le> ol_MaxEvidenceRefsTotal limits"
  using assms
  by (auto simp: walkEvent_def Let_def result_simps split: option.splits if_splits prod.splits)

text \<open>What a fact of an attempt says of the event it came from.\<close>

definition fact_of_event :: "Fact \<Rightarrow> ObservationEvent \<Rightarrow> bool" where
  "fact_of_event f e \<longleftrightarrow> fa_Kind f = ev_Kind e \<and> fa_Source f = ev_Source e \<and>
     (\<exists>r. fa_Evidence f = [r] \<and> rer_EventID r = ev_ID e
        \<and> int (rer_EventSequence r) = ev_SequenceNumber e)"

definition attempt_events :: "string \<Rightarrow> ObservationEvent list \<Rightarrow> ObservationEvent list" where
  "attempt_events i es = filter (\<lambda>e. attemptIDOf e = i) es"

lemma walkEvent_step:
  assumes "walkEvent sha pd limits poll w e = Inr w'"
  shows "0 < ev_SequenceNumber e"
    and "wk_prior w = 0 \<or> nat (ev_SequenceNumber e) = wk_prior w + 1"
    and "wk_prior w' = nat (ev_SequenceNumber e)"
    and "wk_totalFacts w' = wk_totalFacts w + 1"
    and "wk_totalRefs w' = wk_totalRefs w + 1"
    and "int (wk_totalFacts w') \<le> ol_MaxFactsPerTraceSet limits"
    and "\<exists>f. fact_of_event f e
           \<and> wk_facts w' = (wk_facts w)(attemptIDOf e := wk_facts w (attemptIDOf e) @ [f])"
proof -
  obtain st f st' f' where pos: "0 < ev_SequenceNumber e"
    and prior: "wk_prior w = 0 \<or> nat (ev_SequenceNumber e) = wk_prior w + 1"
    and ne: "normalizeEvent sha st e ((as_attemptKey st)\<lparr>rer_EventID := ev_ID e,
        rer_EventSequence := nat (ev_SequenceNumber e)\<rparr>) = Inr (f, st')"
    and f': "f' = f\<lparr>fa_ID := factID sha pd (attemptIDOf e) (fa_SemanticDigest f) [ev_ID e]\<rparr>"
    and w': "w' = w\<lparr>wk_states := (wk_states w)(attemptIDOf e \<mapsto> st'),
            wk_facts := (wk_facts w)(attemptIDOf e := wk_facts w (attemptIDOf e) @ [f']),
            wk_totalFacts := wk_totalFacts w + 1,
            wk_totalRefs := wk_totalRefs w + length (fa_Evidence f'),
            wk_prior := nat (ev_SequenceNumber e)\<rparr>"
    and lim: "int (wk_totalFacts w') \<le> ol_MaxFactsPerTraceSet limits"
    using assms by (rule walkEvent_elim)
  note fr = normalizeEvent_frame [OF ne]
  have foe: "fact_of_event f' e"
    using fr(2-4) pos by (simp add: f' fact_of_event_def)
  show "0 < ev_SequenceNumber e" by (fact pos)
  show "wk_prior w = 0 \<or> nat (ev_SequenceNumber e) = wk_prior w + 1" by (fact prior)
  show "wk_prior w' = nat (ev_SequenceNumber e)" "wk_totalFacts w' = wk_totalFacts w + 1"
    "wk_totalRefs w' = wk_totalRefs w + 1"
    using fr(2) by (simp_all add: w' f')
  show "int (wk_totalFacts w') \<le> ol_MaxFactsPerTraceSet limits" by (fact lim)
  show "\<exists>f. fact_of_event f e
      \<and> wk_facts w' = (wk_facts w)(attemptIDOf e := wk_facts w (attemptIDOf e) @ [f])"
    using foe by (intro exI [of _ f']) (simp add: w')
qed

lemma walkEvents_facts:
  assumes "walkEvents sha pd limits ctx w es = Inr w'"
  shows "\<exists>fs. wk_facts w' i = wk_facts w i @ fs \<and> list_all2 fact_of_event fs (attempt_events i es)"
  using assms
proof (induction es arbitrary: w ctx)
  case Nil
  then show ?case by (simp add: attempt_events_def)
next
  case (Cons e es)
  then obtain w1 where w1: "walkEvent sha pd limits (ctx 0) w e = Inr w1"
    and rest: "walkEvents sha pd limits (ctx \<circ> Suc) w1 es = Inr w'"
    by (auto simp: result_simps)
  obtain f where "fact_of_event f e"
    and "wk_facts w1 = (wk_facts w)(attemptIDOf e := wk_facts w (attemptIDOf e) @ [f])"
    using walkEvent_step(7) [OF w1] by blast
  moreover obtain fs where "wk_facts w' i = wk_facts w1 i @ fs"
    and "list_all2 fact_of_event fs (attempt_events i es)"
    using Cons.IH [OF rest] by blast
  ultimately show ?case
    by (intro exI [of _ "(if attemptIDOf e = i then [f] else []) @ fs"])
       (auto simp: attempt_events_def)
qed

lemma walkEvents_totals:
  "walkEvents sha pd limits ctx w es = Inr w' \<Longrightarrow>
     wk_totalFacts w' = wk_totalFacts w + length es \<and> wk_totalRefs w' = wk_totalRefs w + length es"
proof (induction es arbitrary: w ctx)
  case (Cons e es)
  then show ?case using walkEvent_step(4,5) by (fastforce simp: result_simps)
qed simp

lemma walkEvents_sequence:
  assumes "walkEvents sha pd limits ctx w es = Inr w'" and "wk_prior w \<noteq> 0" and "k < length es"
  shows "ev_SequenceNumber (es ! k) = int (wk_prior w) + 1 + int k"
  using assms
proof (induction es arbitrary: w ctx k)
  case (Cons e es)
  then obtain w1 where w1: "walkEvent sha pd limits (ctx 0) w e = Inr w1"
    and rest: "walkEvents sha pd limits (ctx \<circ> Suc) w1 es = Inr w'"
    by (auto simp: result_simps)
  have "ev_SequenceNumber e = int (wk_prior w) + 1" and "wk_prior w1 = wk_prior w + 1"
    using walkEvent_step(1-3) [OF w1] \<open>wk_prior w \<noteq> 0\<close> by auto
  with Cons.IH [OF rest] Cons.prems show ?case by (cases k) auto
qed simp

section \<open>Process ids and clocks are erased\<close>

text \<open>
  A run of the same program has other process ids and other clock readings. \<open>rename_event \<pi> c\<close> is
  the event with every process id \<open>p\<close> replaced by \<open>\<pi> p\<close> and the clock of source \<open>s\<close> moved by \<open>c s\<close>;
  \<open>rename_state\<close> does the same to the state of an attempt.
\<close>

definition rename_process :: "(int \<Rightarrow> int) \<Rightarrow> ProcessObservation \<Rightarrow> ProcessObservation" where
  "rename_process \<pi> p = p\<lparr>po_ProcessID := \<pi> (po_ProcessID p),
     po_ParentProcessID := map_option \<pi> (po_ParentProcessID p)\<rparr>"

definition rename_event ::
  "(int \<Rightarrow> int) \<Rightarrow> (string \<Rightarrow> int) \<Rightarrow> ObservationEvent \<Rightarrow> ObservationEvent" where
  "rename_event \<pi> c e = e\<lparr>ev_ObservedAt := ev_ObservedAt e + c (ev_Source e),
     ev_Process := map_option (rename_process \<pi>) (ev_Process e)\<rparr>"

definition rename_active ::
  "(int \<Rightarrow> int) \<Rightarrow> (int \<times> processGeneration) list \<Rightarrow> (int \<times> processGeneration) list" where
  "rename_active \<pi> al = map (\<lambda>(k, g). (\<pi> k, g\<lparr>pg_pid := \<pi> (pg_pid g)\<rparr>)) al"

definition rename_ns :: "(int \<Rightarrow> int) \<Rightarrow> processNamespace \<Rightarrow> processNamespace" where
  "rename_ns \<pi> n = n\<lparr>pn_active := rename_active \<pi> (pn_active n)\<rparr>"

definition rename_time :: "int \<Rightarrow> timeNamespace \<Rightarrow> timeNamespace" where
  "rename_time d t = \<lparr>tn_origin = tn_origin t + d, tn_last = tn_last t + d\<rparr>"

definition rename_state :: "(int \<Rightarrow> int) \<Rightarrow> (string \<Rightarrow> int) \<Rightarrow> attemptState \<Rightarrow> attemptState" where
  "rename_state \<pi> c s = s\<lparr>as_process := (\<lambda>src. map_option (rename_ns \<pi>) (as_process s src)),
     as_time := (\<lambda>src. map_option (rename_time (c src)) (as_time s src))\<rparr>"

definition rename_walk :: "(int \<Rightarrow> int) \<Rightarrow> (string \<Rightarrow> int) \<Rightarrow> walkState \<Rightarrow> walkState" where
  "rename_walk \<pi> c w = w\<lparr>wk_states := (\<lambda>i. map_option (rename_state \<pi> c) (wk_states w i))\<rparr>"

lemma rename_active_lookup:
  "inj \<pi> \<Longrightarrow> map_of (rename_active \<pi> al) (\<pi> k)
     = map_option (\<lambda>g. g\<lparr>pg_pid := \<pi> (pg_pid g)\<rparr>) (map_of al k)"
  by (induction al) (auto simp: rename_active_def inj_eq)

lemma rename_active_update:
  "inj \<pi> \<Longrightarrow> AList.update (\<pi> k) (g\<lparr>pg_pid := \<pi> (pg_pid g)\<rparr>) (rename_active \<pi> al)
     = rename_active \<pi> (AList.update k g al)"
  by (induction al) (auto simp: rename_active_def inj_eq)

lemma rename_active_delete:
  "inj \<pi> \<Longrightarrow> AList.delete (\<pi> k) (rename_active \<pi> al) = rename_active \<pi> (AList.delete k al)"
  by (induction al) (auto simp: rename_active_def inj_eq AList.delete_eq)

lemma length_rename_active [simp]: "length (rename_active \<pi> al) = length al"
  by (simp add: rename_active_def)

lemma rename_ns_sel [simp]:
  "pn_active (rename_ns \<pi> n) = rename_active \<pi> (pn_active n)"
  "pn_occurrence (rename_ns \<pi> n) = pn_occurrence n"
  "pn_generations (rename_ns \<pi> n) = pn_generations n"
  by (simp_all add: rename_ns_def)

lemma rename_state_sel [simp]:
  "as_profile (rename_state \<pi> c s) = as_profile s"
  "as_attemptID (rename_state \<pi> c s) = as_attemptID s"
  "as_attemptKey (rename_state \<pi> c s) = as_attemptKey s"
  "as_limits (rename_state \<pi> c s) = as_limits s"
  "as_time (rename_state \<pi> c s) src = map_option (rename_time (c src)) (as_time s src)"
  by (simp_all add: rename_state_def)

lemma rename_process_sel [simp]:
  "po_ProcessID (rename_process \<pi> p) = \<pi> (po_ProcessID p)"
  "po_ParentProcessID (rename_process \<pi> p) = map_option \<pi> (po_ParentProcessID p)"
  "po_Operation (rename_process \<pi> p) = po_Operation p"
  "po_ExecutablePath (rename_process \<pi> p) = po_ExecutablePath p"
  "po_Arguments (rename_process \<pi> p) = po_Arguments p"
  "po_Environment (rename_process \<pi> p) = po_Environment p"
  "po_ExitCode (rename_process \<pi> p) = po_ExitCode p"
  "po_DurationMillis (rename_process \<pi> p) = po_DurationMillis p"
  by (simp_all add: rename_process_def)

lemma rename_event_sel [simp]:
  "ev_ID (rename_event \<pi> c e) = ev_ID e"
  "ev_Revision (rename_event \<pi> c e) = ev_Revision e"
  "ev_ScenarioID (rename_event \<pi> c e) = ev_ScenarioID e"
  "ev_Repetition (rename_event \<pi> c e) = ev_Repetition e"
  "ev_SequenceNumber (rename_event \<pi> c e) = ev_SequenceNumber e"
  "ev_ObservedAt (rename_event \<pi> c e) = ev_ObservedAt e + c (ev_Source e)"
  "ev_Source (rename_event \<pi> c e) = ev_Source e"
  "ev_Kind (rename_event \<pi> c e) = ev_Kind e"
  "ev_Process (rename_event \<pi> c e) = map_option (rename_process \<pi>) (ev_Process e)"
  "ev_Filesystem (rename_event \<pi> c e) = ev_Filesystem e"
  "ev_Network (rename_event \<pi> c e) = ev_Network e"
  "ev_Artifact (rename_event \<pi> c e) = ev_Artifact e"
  "ev_Scenario (rename_event \<pi> c e) = ev_Scenario e"
  "ev_ObserverWarning (rename_event \<pi> c e) = ev_ObserverWarning e"
  "ev_ResourceLimit (rename_event \<pi> c e) = ev_ResourceLimit e"
  by (simp_all add: rename_event_def)

lemma ns_of_rename: "ns_of (rename_state \<pi> c s) src = rename_ns \<pi> (ns_of s src)"
  by (simp add: ns_of_def rename_state_def rename_ns_def rename_active_def emptyNamespace_def
        split: option.splits)

lemma rename_state_process_upd:
  "(rename_state \<pi> c s)\<lparr>as_process := (as_process (rename_state \<pi> c s))(src \<mapsto> rename_ns \<pi> n)\<rparr>
     = rename_state \<pi> c (s\<lparr>as_process := (as_process s)(src \<mapsto> n)\<rparr>)"
  by (auto simp: rename_state_def fun_eq_iff)

lemma rename_state_time_upd:
  "(rename_state \<pi> c s)\<lparr>as_time := (as_time (rename_state \<pi> c s))(src \<mapsto> rename_time (c src) n)\<rparr>
     = rename_state \<pi> c (s\<lparr>as_time := (as_time s)(src \<mapsto> n)\<rparr>)"
  by (auto simp: rename_state_def fun_eq_iff)

lemma parentOf_rename:
  assumes "inj \<pi>" and "\<pi> 0 = 0"
  shows "parentOf (rename_ns \<pi> n) (rename_process \<pi> p) = parentOf n p"
proof -
  have "\<pi> x = 0 \<longleftrightarrow> x = 0" for x
    using assms inj_eq [of \<pi> x 0] by simp
  then show ?thesis
    using assms(1) by (simp add: parentOf_def rename_active_lookup split: option.splits)
qed

lemma rename_active_started:
  assumes "inj \<pi>"
  shows "AList.update (\<pi> k) \<lparr>pg_pid = \<pi> k, pg_stable = a, pg_parent = b, pg_parentRelation = r,
           pg_seed = d\<rparr> (rename_active \<pi> al)
     = rename_active \<pi> (AList.update k \<lparr>pg_pid = k, pg_stable = a, pg_parent = b,
           pg_parentRelation = r, pg_seed = d\<rparr> al)"
  using rename_active_update [OF assms, of k "\<lparr>pg_pid = k, pg_stable = a, pg_parent = b,
           pg_parentRelation = r, pg_seed = d\<rparr>"]
  by simp

lemma processStart_rename:
  assumes "inj \<pi>" and "\<pi> 0 = 0"
  shows "processStart sha (rename_state \<pi> c s) src (map_option (rename_process \<pi>) po)
    = map_sum id (\<lambda>(f, l, t). (f, l, rename_state \<pi> c t)) (processStart sha s src po)"
proof (cases po)
  case None
  then show ?thesis by (simp add: processStart_def)
next
  case (Some p)
  obtain pid rel pl where par: "parentOf (ns_of s src) p = (pid, rel, pl)"
    by (metis prod_cases3)
  show ?thesis
    unfolding Some
    by (simp add: processStart_def Let_def ns_of_rename parentOf_rename [OF assms] par
          rename_active_lookup [OF assms(1)] processParts_def rename_active_started [OF assms(1)])
       (auto simp: rename_state_def rename_ns_def fun_eq_iff)
qed

lemma processExit_rename:
  assumes "inj \<pi>"
  shows "processExit (rename_state \<pi> c s) src (map_option (rename_process \<pi>) po)
    = map_sum id (\<lambda>(f, l, t). (f, l, rename_state \<pi> c t)) (processExit s src po)"
proof (cases po)
  case None
  then show ?thesis by (simp add: processExit_def)
next
  case (Some p)
  show ?thesis
    unfolding Some
    by (cases "map_of (pn_active (ns_of s src)) (po_ProcessID p)";
        simp add: processExit_def Let_def ns_of_rename rename_active_lookup [OF assms]
          rename_active_delete [OF assms];
        simp add: rename_state_def rename_ns_def fun_eq_iff)
qed

text \<open>The instants that \<open>UnixNano\<close> can represent: those of the years 1678 to 2262.\<close>

definition representable :: "ObservationEvent \<Rightarrow> bool" where
  "representable e \<longleftrightarrow> i64_range (ev_ObservedAt e)"

lemma unixNano_representable: "representable e \<Longrightarrow> unixNano (ev_ObservedAt e) = ev_ObservedAt e"
  by (simp add: unixNano_def representable_def i64_range_def)

lemma normalizeTiming_rename:
  assumes "representable e" and "representable (rename_event \<pi> c e)"
  shows "normalizeTiming (rename_state \<pi> c s) (rename_event \<pi> c e)
     = (\<lambda>(t, l, s'). (t, l, rename_state \<pi> c s')) (normalizeTiming s e)"
  using unixNano_representable [OF assms(1)] unixNano_representable [OF assms(2)]
  by (cases "as_time s (ev_Source e)")
     (auto simp: normalizeTiming_def Let_def rename_time_def rename_state_def fun_eq_iff)

lemma buildFact_rename:
  assumes "inj \<pi>" and "\<pi> 0 = 0"
  shows "buildFact sha (rename_state \<pi> c s) (rename_event \<pi> c e) f
    = map_sum id (\<lambda>(f, t). (f, rename_state \<pi> c t)) (buildFact sha s e f)"
proof -
  have bind: "rbind (map_sum id g r) k = rbind r (\<lambda>x. k (g x))"
    "map_sum id h (rbind r k') = rbind r (\<lambda>x. map_sum id h (k' x))"
    for g :: "'x \<Rightarrow> 'y" and r k and h :: "'z \<Rightarrow> 'u" and k'
    by (cases r; simp)+
  show ?thesis
    by (simp add: buildFact_def Let_def processStart_rename [OF assms] processExit_rename [OF assms(1)]
          bind case_prod_unfold)
qed

lemma normalizeEvent_rename:
  assumes "inj \<pi>" and "\<pi> 0 = 0" and "representable e" and "representable (rename_event \<pi> c e)"
  shows "normalizeEvent sha (rename_state \<pi> c s) (rename_event \<pi> c e) ref
    = map_sum id (\<lambda>(f, t). (f, rename_state \<pi> c t)) (normalizeEvent sha s e ref)"
proof -
  have vk: "validateKindPayload (rename_event \<pi> c e) = validateKindPayload e"
    by (simp add: validateKindPayload_def payloadCount_def requirePayload_def)
  have nf: "newFact (rename_event \<pi> c e) = newFact e"
    by (simp add: newFact_def fun_eq_iff)
  obtain t l s1 where nt: "normalizeTiming s e = (t, l, s1)" by (metis prod_cases3)
  have bf: "buildFact sha (rename_state \<pi> c s1) (rename_event \<pi> c e) (newFact e t ref l)
      = map_sum id (\<lambda>(f, t). (f, rename_state \<pi> c t)) (buildFact sha s1 e (newFact e t ref l))"
    by (rule buildFact_rename [OF assms(1,2)])
  show ?thesis
    by (cases "validateSource (ev_Source e)"; cases "validateKindPayload e";
        cases "buildFact sha s1 e (newFact e t ref l)")
       (auto simp: normalizeEvent_def vk nf normalizeTiming_rename [OF assms(3,4)] nt bf Let_def rbind_def
          split: sum.splits)
qed

lemma walkEvent_rename:
  assumes "inj \<pi>" and "\<pi> 0 = 0" and "representable e" and "representable (rename_event \<pi> c e)"
  shows "walkEvent sha pd limits poll (rename_walk \<pi> c w) (rename_event \<pi> c e)
    = map_sum id (rename_walk \<pi> c) (walkEvent sha pd limits poll w e)"
proof -
  have i: "attemptIDOf (rename_event \<pi> c e) = attemptIDOf e"
    by (simp add: attemptIDOf_def)
  show ?thesis
  proof (cases "wk_states w (attemptIDOf e)")
    case None
    then show ?thesis
      by (cases poll) (simp_all add: walkEvent_def i Let_def rename_walk_def)
  next
    case (Some st)
    let ?ref = "(as_attemptKey st)\<lparr>rer_EventID := ev_ID e,
        rer_EventSequence := nat (ev_SequenceNumber e)\<rparr>"
    show ?thesis
      using Some normalizeEvent_rename [OF assms, of sha st ?ref]
      by (cases poll; cases "normalizeEvent sha st e ?ref")
         (auto simp: walkEvent_def i Let_def rename_walk_def fun_eq_iff)
  qed
qed

lemma walkEvents_rename:
  assumes "inj \<pi>" and "\<pi> 0 = 0" and "\<forall>e\<in>set es. representable e \<and> representable (rename_event \<pi> c e)"
  shows "walkEvents sha pd limits ctx (rename_walk \<pi> c w) (map (rename_event \<pi> c) es)
    = map_sum id (rename_walk \<pi> c) (walkEvents sha pd limits ctx w es)"
  using assms(3)
proof (induction es arbitrary: ctx w)
  case (Cons e es)
  then have "representable e" "representable (rename_event \<pi> c e)" by simp_all
  note step = walkEvent_rename [OF assms(1,2) this]
  show ?case
    using Cons.prems by (cases "walkEvent sha pd limits (ctx 0) w e") (simp_all add: step Cons.IH comp_def)
qed simp

section \<open>Process identities are issued once\<close>

text \<open>
  \<open>issued T s I\<close>: every identity in \<open>I\<close> was made by hashing a text of \<open>T\<close>, from parts and an occurrence number that the state
  already counts, so the number the next start uses for these parts is larger. \<open>counted n s\<close>: no such number is above \<open>n\<close>.
\<close>

definition processText :: "string list \<Rightarrow> string" where
  "processText parts = processIDDomain @ concat (map writeString parts)"

definition issued :: "(string \<Rightarrow> string) \<Rightarrow> string set \<Rightarrow> attemptState \<Rightarrow> string set \<Rightarrow> bool" where
  "issued sha T s I \<longleftrightarrow> (\<forall>d\<in>I. \<exists>src parts k c.
     d = processID sha (src # parts @ [itoa k]) \<and> length parts = 5 \<and> list_all go_len (src # parts)
     \<and> processText (src # parts @ [itoa k]) \<in> T
     \<and> map_of (pn_occurrence (ns_of s src)) (processSeed (src # parts)) = Some c \<and> k \<le> c)"

definition counted :: "nat \<Rightarrow> attemptState \<Rightarrow> bool" where
  "counted n s \<longleftrightarrow> (\<forall>src seed c. map_of (pn_occurrence (ns_of s src)) seed = Some c \<longrightarrow> c \<le> n)"

text \<open>The size of the strings a start fact is made of: what Go can hold.\<close>

definition go_process :: "ProcessFact \<Rightarrow> bool" where
  "go_process p \<longleftrightarrow> go_len (pf_ParentStableID p) \<and> go_len (pa_Display (pf_Executable p))
     \<and> go_len (sprintStrings (pf_Arguments p)) \<and> go_len (sprintEnv (pf_Environment p))"

lemma processID_inject:
  assumes "inj_on sha T" and "processText (ps @ [itoa k]) \<in> T" and "processText (qs @ [itoa m]) \<in> T"
    and "length ps = length qs" and "list_all go_len ps" and "list_all go_len qs"
    and "processID sha (ps @ [itoa k]) = processID sha (qs @ [itoa m])"
  shows "ps = qs \<and> k = m"
proof -
  have "processText (ps @ [itoa k]) = processText (qs @ [itoa m])"
    using inj_onD [OF assms(1) _ assms(2,3)] assms(7) by (simp add: processID_def processText_def)
  then have "concat (map writeString ps) @ writeString (itoa k)
      = concat (map writeString qs) @ writeString (itoa m)"
    by (simp add: processText_def)
  with assms(4-6) have "ps = qs" and "writeString (itoa k) = writeString (itoa m)"
    using str.concat_readable by blast+
  then show ?thesis by (simp add: writeString_def append_eq_append_conv)
qed

text \<open>What the identity of a start is made of, next to its source and the occurrence number.\<close>

definition startParts :: "ProcessFact \<Rightarrow> string list" where
  "startParts p = [pf_ParentStableID p, pf_ParentRelation p, pa_Display (pf_Executable p), sprintStrings (pf_Arguments p),
     sprintEnv (pf_Environment p)]"

lemma length_startParts: "length (startParts p) = 5"
  by (simp add: startParts_def)

lemma parentOf_relation_len: "parentOf n p = (pid, rel, l) \<Longrightarrow> go_len rel"
  by (auto simp: parentOf_def go_len_def split: option.splits if_splits)

lemma processStart_elim:
  assumes "processStart sha s src (Some p) = Inr (f, lim, s')"
  obtains parts occ n where
    "parts = startParts f" "go_process f \<longrightarrow> list_all go_len parts"
    "occ = (case map_of (pn_occurrence (ns_of s src)) (processSeed (src # parts)) of
              None \<Rightarrow> 0 | Some k \<Rightarrow> k) + 1"
    "pf_StableID f = processID sha (src # parts @ [itoa occ])"
    "pn_occurrence n = AList.update (processSeed (src # parts)) occ (pn_occurrence (ns_of s src))"
    "map_of (pn_active n) (po_ProcessID p) = Some \<lparr>pg_pid = po_ProcessID p,
        pg_stable = pf_StableID f, pg_parent = pf_ParentStableID f,
        pg_parentRelation = pf_ParentRelation f, pg_seed = processSeed (src # parts)\<rparr>"
    "s' = s\<lparr>as_process := (as_process s)(src \<mapsto> n)\<rparr>"
proof -
  obtain pid rel pl where par: "parentOf (ns_of s src) p = (pid, rel, pl)"
    by (metis prod_cases3)
  let ?exe = "normalizeObservedPath (po_ExecutablePath p) (np_RootAliases (as_profile s))"
  let ?parts = "[pid, rel, pa_Display ?exe, sprintStrings (po_Arguments p), sprintEnv (po_Environment p)]"
  show thesis
    using assms par parentOf_relation_len [OF par]
    by (intro that [where parts = ?parts and n = "the (as_process s' src)", OF _ _ refl])
       (auto simp: processStart_def Let_def processParts_def go_process_def startParts_def update_conv
          split: if_splits)
qed

lemma ns_of_upd:
  "ns_of (s\<lparr>as_process := (as_process s)(src \<mapsto> n)\<rparr>) src' = (if src' = src then n else ns_of s src')"
  by (simp add: ns_of_def)

lemma processStart_fresh:
  assumes "inj_on sha T" and iss: "issued sha T s I" and cnt: "counted m s" and "go_len src" and gp: "go_process f"
    and T: "\<And>k. 1 \<le> k \<Longrightarrow> k \<le> Suc m \<Longrightarrow> processText (src # startParts f @ [itoa k]) \<in> T"
    and st: "processStart sha s src (Some p) = Inr (f, lim, s')"
  shows "pf_StableID f \<notin> I" and "issued sha T s' (insert (pf_StableID f) I)" and "counted (Suc m) s'"
proof -
  obtain parts occ n where parts: "parts = startParts f" and "go_process f \<longrightarrow> list_all go_len parts"
    and occ: "occ = (case map_of (pn_occurrence (ns_of s src)) (processSeed (src # parts)) of
              None \<Rightarrow> 0 | Some k \<Rightarrow> k) + 1"
    and sid: "pf_StableID f = processID sha (src # parts @ [itoa occ])"
    and n: "pn_occurrence n = AList.update (processSeed (src # parts)) occ (pn_occurrence (ns_of s src))"
    and s': "s' = s\<lparr>as_process := (as_process s)(src \<mapsto> n)\<rparr>"
    using st by (rule processStart_elim)
  then have go: "list_all go_len (src # parts)" and len: "length parts = 5"
    using \<open>go_len src\<close> gp by (simp_all add: length_startParts)
  have small: "occ \<le> Suc m" using occ cnt by (auto simp: counted_def split: option.splits)
  have hashed: "processText ((src # parts) @ [itoa occ]) \<in> T" using T [of occ] occ small parts by simp
  show "pf_StableID f \<notin> I"
  proof
    assume "pf_StableID f \<in> I"
    then obtain src' parts' k c where
      eq: "processID sha ((src # parts) @ [itoa occ]) = processID sha ((src' # parts') @ [itoa k])"
      and "length parts' = 5" "list_all go_len (src' # parts')" and T': "processText ((src' # parts') @ [itoa k]) \<in> T"
      and c: "map_of (pn_occurrence (ns_of s src')) (processSeed (src' # parts')) = Some c" "k \<le> c"
      using iss unfolding issued_def sid by fastforce
    then have "src # parts = src' # parts' \<and> occ = k"
      using processID_inject [OF assms(1) hashed T' _ go _ eq] len by simp
    with c occ show False by simp
  qed
  show "issued sha T s' (insert (pf_StableID f) I)"
    unfolding issued_def
  proof
    fix d
    assume "d \<in> insert (pf_StableID f) I"
    then show "\<exists>src parts k c. d = processID sha (src # parts @ [itoa k]) \<and> length parts = 5
        \<and> list_all go_len (src # parts) \<and> processText (src # parts @ [itoa k]) \<in> T
        \<and> map_of (pn_occurrence (ns_of s' src)) (processSeed (src # parts)) = Some c \<and> k \<le> c"
    proof
      assume "d = pf_StableID f"
      then show ?thesis
        using sid len go hashed by (intro exI [of _ src] exI [of _ parts] exI [of _ occ])
          (simp add: s' ns_of_upd n update_conv)
    next
      assume "d \<in> I"
      then obtain src' parts' k c where *: "d = processID sha (src' # parts' @ [itoa k])"
        "length parts' = 5" "list_all go_len (src' # parts')" "processText (src' # parts' @ [itoa k]) \<in> T"
        "map_of (pn_occurrence (ns_of s src')) (processSeed (src' # parts')) = Some c" "k \<le> c"
        using iss unfolding issued_def by blast
      have "\<exists>c'. map_of (pn_occurrence (ns_of s' src')) (processSeed (src' # parts')) = Some c' \<and> k \<le> c'"
        using *(5,6) occ by (auto simp: s' ns_of_upd n update_conv)
      with * show ?thesis by blast
    qed
  qed
  show "counted (Suc m) s'"
    using cnt small by (auto simp: counted_def s' ns_of_upd n update_conv le_Suc_eq split: if_splits)
qed

lemma issued_frame:
  assumes "\<And>src. pn_occurrence (ns_of s' src) = pn_occurrence (ns_of s src)"
  shows "issued sha T s' I \<longleftrightarrow> issued sha T s I" and "counted n s' \<longleftrightarrow> counted n s"
  by (simp_all add: issued_def counted_def assms)

lemma processExit_occurrence:
  assumes "processExit s src po = Inr (f, lim, s')"
  shows "pn_occurrence (ns_of s' src') = pn_occurrence (ns_of s src')"
  using assms
  by (auto simp: processExit_def Let_def ns_of_upd split: option.splits)

lemma buildFact_occurrence:
  assumes "buildFact sha s e f = Inr (f', s')" and "ev_Kind e \<noteq> ''process-start''"
  shows "pn_occurrence (ns_of s' src) = pn_occurrence (ns_of s src)"
  using assms
  by (auto simp: buildFact_def Let_def result_simps dest: processExit_occurrence
        split: if_splits prod.splits)

lemma normalizeTiming_occurrence:
  "normalizeTiming s e = (t, lim, s') \<Longrightarrow> ns_of s' src = ns_of s src"
  using normalizeTiming_frame by (simp add: ns_of_def)

text \<open>The identities that the start facts of a trace carry.\<close>

definition start_ids :: "Fact list \<Rightarrow> string list" where
  "start_ids fs =
     map (\<lambda>f. pf_StableID (the (fa_Process f))) (filter (\<lambda>f. fa_Kind f = ''process-start'') fs)"

definition go_starts :: "Fact list \<Rightarrow> bool" where
  "go_starts fs \<longleftrightarrow>
     (\<forall>f\<in>set fs. fa_Kind f = ''process-start'' \<longrightarrow> go_process (the (fa_Process f)))"

text \<open>
  The texts that are hashed for the starts of a trace, or could be by their number: the parts of one of its start facts with
  an occurrence number up to the number of start facts.
\<close>

definition start_texts :: "Fact list \<Rightarrow> string set" where
  "start_texts fs = (\<lambda>(f, k). processText (fa_Source f # startParts (the (fa_Process f)) @ [itoa k]))
     ` ({f \<in> set fs. fa_Kind f = ''process-start''} \<times> {1..length (start_ids fs)})"

lemma start_texts_append: "start_texts fs \<subseteq> start_texts (fs @ gs)"
  unfolding start_texts_def by (rule image_mono) (auto simp: start_ids_def)

lemma source_len: "src \<in> set ObservationSources \<Longrightarrow> go_len src"
  by (auto simp: ObservationSources_def go_len_def)

lemma normalizeEvent_issued:
  assumes "inj_on sha T" and iss: "issued sha T s I" and cnt: "counted m s" and gp: "go_starts [f]"
    and T: "\<And>k. fa_Kind f = ''process-start'' \<Longrightarrow> 1 \<le> k \<Longrightarrow> k \<le> Suc m
      \<Longrightarrow> processText (fa_Source f # startParts (the (fa_Process f)) @ [itoa k]) \<in> T"
    and ne: "normalizeEvent sha s e ref = Inr (f, s')"
  shows "set (start_ids [f]) \<inter> I = {} \<and> issued sha T s' (set (start_ids [f]) \<union> I) \<and> counted (m + length (start_ids [f])) s'"
proof -
  obtain t lim s1 f0 where src: "ev_Source e \<in> set ObservationSources"
    and vk: "validateKindPayload e = None"
    and nt: "normalizeTiming s e = (t, lim, s1)"
    and bf: "buildFact sha s1 e (newFact e t ref lim) = Inr (f0, s')"
    and f: "f = f0\<lparr>fa_Limitations := sortLimitations (fa_Limitations f0),
                  fa_SemanticDigest := fa_SemanticDigest f\<rparr>"
    using ne by (rule normalizeEvent_elim)
  have iss1: "issued sha T s1 I" "counted m s1"
    using iss cnt issued_frame [of s1 s] by (simp_all add: normalizeTiming_occurrence [OF nt])
  have kind: "fa_Kind f = ev_Kind e" "fa_Source f = ev_Source e" and proc: "fa_Process f = fa_Process f0"
    using normalizeEvent_frame(3,4) [OF ne] by (simp, simp, subst f, simp)
  show ?thesis
  proof (cases "ev_Kind e = ''process-start''")
    case True
    then obtain p where p: "ev_Process e = Some p"
      using vk by (auto simp: validateKindPayload_def processKinds_def requirePayload_def
          split: if_splits)
    obtain pf pl where ps: "processStart sha s1 (ev_Source e) (Some p) = Inr (pf, pl, s')"
      and pf: "fa_Process f0 = Some pf"
      using bf True p by (auto simp: buildFact_def Let_def result_simps split: prod.splits)
    then have "go_process pf" using gp kind proc True by (simp add: go_starts_def)
    moreover have "processText (ev_Source e # startParts pf @ [itoa k]) \<in> T" if "1 \<le> k" "k \<le> Suc m" for k
      using T [OF _ that] kind proc pf True by simp
    ultimately show ?thesis
      using processStart_fresh [OF assms(1) iss1 source_len [OF src] _ _ ps] kind proc pf True
      by (simp add: start_ids_def)
  next
    case False
    then have "issued sha T s' I" "counted m s'"
      using iss1 buildFact_occurrence [OF bf] issued_frame [of s' s1] by simp_all
    then show ?thesis
      using False kind by (simp add: start_ids_def)
  qed
qed

definition ids_unique :: "(string \<Rightarrow> string) \<Rightarrow> string set \<Rightarrow> walkState \<Rightarrow> string \<Rightarrow> bool" where
  "ids_unique sha T w i \<longleftrightarrow> distinct (start_ids (wk_facts w i))
     \<and> (\<forall>st. wk_states w i = Some st \<longrightarrow> issued sha T st (set (start_ids (wk_facts w i)))
          \<and> counted (length (start_ids (wk_facts w i))) st)"

lemma start_ids_append [simp]: "start_ids (fs @ gs) = start_ids fs @ start_ids gs"
  by (simp add: start_ids_def)

lemma walkEvent_ids_unique:
  assumes "inj_on sha T" and "ids_unique sha T w i" and go: "go_starts (wk_facts w' i)"
    and T: "start_texts (wk_facts w' i) \<subseteq> T" and we: "walkEvent sha pd limits poll w e = Inr w'"
  shows "ids_unique sha T w' i"
proof -
  obtain st f st' f' where st: "wk_states w (attemptIDOf e) = Some st"
    and ne: "normalizeEvent sha st e ((as_attemptKey st)\<lparr>rer_EventID := ev_ID e,
        rer_EventSequence := nat (ev_SequenceNumber e)\<rparr>) = Inr (f, st')"
    and f': "f' = f\<lparr>fa_ID := factID sha pd (attemptIDOf e) (fa_SemanticDigest f) [ev_ID e]\<rparr>"
    and w': "w' = w\<lparr>wk_states := (wk_states w)(attemptIDOf e \<mapsto> st'),
            wk_facts := (wk_facts w)(attemptIDOf e := wk_facts w (attemptIDOf e) @ [f']),
            wk_totalFacts := wk_totalFacts w + 1,
            wk_totalRefs := wk_totalRefs w + length (fa_Evidence f'),
            wk_prior := nat (ev_SequenceNumber e)\<rparr>"
    using we by (rule walkEvent_elim)
  show ?thesis
  proof (cases "attemptIDOf e = i")
    case False
    with assms(2) show ?thesis by (simp add: ids_unique_def w')
  next
    case True
    let ?ids = "start_ids (wk_facts w i)"
    have known: "issued sha T st (set ?ids)" "counted (length ?ids) st" and d: "distinct ?ids"
      using assms(2) st True by (simp_all add: ids_unique_def)
    have "go_starts [f]" using go True by (simp add: w' go_starts_def f')
    moreover have "processText (fa_Source f # startParts (the (fa_Process f)) @ [itoa k]) \<in> T"
      if "fa_Kind f = ''process-start''" "1 \<le> k" "k \<le> Suc (length ?ids)" for k
    proof -
      have "f' \<in> {g \<in> set (wk_facts w' i). fa_Kind g = ''process-start''}" "length (start_ids (wk_facts w' i)) = Suc (length ?ids)"
        using True that(1) by (simp_all add: w' f' start_ids_def)
      then have "processText (fa_Source f' # startParts (the (fa_Process f')) @ [itoa k]) \<in> start_texts (wk_facts w' i)"
        unfolding start_texts_def using that(2,3) by (intro image_eqI [of _ _ "(f', k)"]) auto
      with T show ?thesis by (auto simp: f')
    qed
    ultimately have "set (start_ids [f]) \<inter> set ?ids = {} \<and> issued sha T st' (set (start_ids [f]) \<union> set ?ids)
        \<and> counted (length ?ids + length (start_ids [f])) st'"
      by (intro normalizeEvent_issued [OF assms(1) known _ _ ne]) blast+
    moreover have "start_ids [f'] = start_ids [f]" by (simp add: f' start_ids_def)
    ultimately show ?thesis
      using True d by (auto simp: ids_unique_def w' Un_commute start_ids_def)
  qed
qed

lemma walkEvents_ids_unique:
  assumes "inj_on sha T" and "ids_unique sha T w i" and "go_starts (wk_facts w' i)" and "start_texts (wk_facts w' i) \<subseteq> T"
    and "walkEvents sha pd limits ctx w es = Inr w'"
  shows "ids_unique sha T w' i"
  using assms(2-)
proof (induction es arbitrary: w ctx)
  case (Cons e es)
  then obtain w1 where w1: "walkEvent sha pd limits (ctx 0) w e = Inr w1"
    and rest: "walkEvents sha pd limits (ctx \<circ> Suc) w1 es = Inr w'"
    by (auto simp: result_simps)
  obtain fs where fs: "wk_facts w' i = wk_facts w1 i @ fs"
    using walkEvents_facts [OF rest] by blast
  then have "go_starts (wk_facts w1 i)" "start_texts (wk_facts w1 i) \<subseteq> T"
    using Cons.prems(2,3) start_texts_append [of "wk_facts w1 i" fs] by (auto simp: go_starts_def)
  with walkEvent_ids_unique [OF assms(1) Cons.prems(1) _ _ w1] show ?case
    using Cons.IH [OF _ Cons.prems(2,3) rest] by blast
qed simp

end
