(* ===== verification/Observe_Digest.thy ===== *)
theory Observe_Digest
  imports Observe
begin

text \<open>
  The bytes under a semantic digest. Every writer of \<open>observe/digest.go\<close> is a prefix code on the part
  of its argument that it keeps; the view of a fact is that part. Dropped are the observed literal
  of a path below a trusted root, the order of the limitations of a warning as far as their ids fix
  it, and the timing when the profile ignores it.
\<close>

section \<open>Views\<close>

definition path_view :: "NormalizedPath \<Rightarrow> NormalizedPath" where
  "path_view p =
     (if pa_Namespace p = PathNamespaceWorkdirRoot \<or> pa_Namespace p = PathNamespaceCollectionRoot
      then p\<lparr>pa_Literal := []\<rparr> else p)"

definition process_view :: "ProcessFact \<Rightarrow> ProcessFact" where
  "process_view p = p\<lparr>pf_Executable := path_view (pf_Executable p)\<rparr>"

definition filesystem_view :: "FilesystemFact \<Rightarrow> FilesystemFact" where
  "filesystem_view f = f\<lparr>ff_Path := path_view (ff_Path f), ff_OldPath := map_option path_view (ff_OldPath f)\<rparr>"

definition artifact_view :: "ArtifactFact \<Rightarrow> ArtifactFact" where
  "artifact_view a = a\<lparr>af_Path := path_view (af_Path a)\<rparr>"

definition warning_view :: "WarningFact \<Rightarrow> WarningFact" where
  "warning_view w =
     w\<lparr>wf_Limitations := slice_stable (\<lambda>a b. lim_ID a < lim_ID b) (wf_Limitations w)\<rparr>"

datatype payload = PayloadProcess ProcessFact | PayloadFilesystem FilesystemFact
  | PayloadNetwork NetworkFact | PayloadArtifact ArtifactFact | PayloadScenario ScenarioFact
  | PayloadWarning WarningFact | PayloadResource ResourceFact

definition payload_view :: "Fact \<Rightarrow> payload option" where
  "payload_view f =
     (if fa_Kind f \<in> set processKinds then map_option (PayloadProcess \<circ> process_view) (fa_Process f)
      else if fa_Kind f \<in> set filesystemKinds
        then map_option (PayloadFilesystem \<circ> filesystem_view) (fa_Filesystem f)
      else if fa_Kind f \<in> set networkKinds then map_option PayloadNetwork (fa_Network f)
      else if fa_Kind f = ''artifact-activity''
        then map_option (PayloadArtifact \<circ> artifact_view) (fa_Artifact f)
      else if fa_Kind f \<in> set scenarioKinds then map_option PayloadScenario (fa_Scenario f)
      else if fa_Kind f \<in> set warningKinds
        then map_option (PayloadWarning \<circ> warning_view) (fa_Warning f)
      else if fa_Kind f = ''resource-limit'' then map_option PayloadResource (fa_Resource f)
      else None)"

definition timing_view :: "NormalizedTiming \<Rightarrow> (int \<times> bool) option" where
  "timing_view t =
     (if nt_IncludedInSemanticDigest t then Some (nt_SourceRelativeNanos t, nt_ClockRegression t)
      else None)"

text \<open>What the semantic digest of a fact is about.\<close>

definition semantic_view ::
  "Fact \<Rightarrow> string \<times> string \<times> (int \<times> bool) option \<times> payload option" where
  "semantic_view f = (fa_Kind f, fa_Source f, timing_view (fa_Timing f), payload_view f)"

section \<open>Values of Go\<close>

text \<open>Lengths and integers are in the range of their Go type.\<close>

abbreviation go_strings :: "string list \<Rightarrow> bool" where
  "go_strings xs \<equiv> go_len xs \<and> list_all go_len xs"

definition go_path :: "NormalizedPath \<Rightarrow> bool" where
  "go_path p \<longleftrightarrow> go_len (pa_Namespace p) \<and> u64_range (pa_RootIndex p) \<and> go_len (pa_Relative p)
     \<and> go_len (pa_Literal p) \<and> go_len (pa_Display p)"

definition go_env :: "EnvEntry \<Rightarrow> bool" where
  "go_env e \<longleftrightarrow> go_len (env_Name e) \<and> go_len (env_Value e)"

definition go_limitation :: "Limitation \<Rightarrow> bool" where
  "go_limitation l \<longleftrightarrow> go_len (lim_ID l) \<and> go_len (lim_Summary l) \<and> go_len (lim_Details l)"

definition go_process_fact :: "ProcessFact \<Rightarrow> bool" where
  "go_process_fact p \<longleftrightarrow> go_len (pf_Operation p) \<and> go_len (pf_StableID p)
     \<and> go_len (pf_ParentStableID p) \<and> go_len (pf_ParentRelation p) \<and> go_path (pf_Executable p)
     \<and> go_strings (pf_Arguments p) \<and> go_len (pf_Environment p) \<and> list_all go_env (pf_Environment p)
     \<and> pred_option i64_range (pf_ExitCode p) \<and> i64_range (pf_DurationMillis p)"

definition go_filesystem_fact :: "FilesystemFact \<Rightarrow> bool" where
  "go_filesystem_fact f \<longleftrightarrow> go_len (ff_Operation f) \<and> go_path (ff_Path f)
     \<and> pred_option go_path (ff_OldPath f) \<and> go_len (ff_Mode f) \<and> go_len (ff_Digest f)
     \<and> i64_range (ff_SizeBytes f)"

definition go_network_fact :: "NetworkFact \<Rightarrow> bool" where
  "go_network_fact n \<longleftrightarrow> go_len (nf_Operation n) \<and> go_len (nf_Protocol n) \<and> go_len (nf_QueryName n)
     \<and> go_len (nf_DestinationHost n) \<and> i64_range (nf_DestinationPort n)
     \<and> go_strings (nf_ResolvedAddresses n) \<and> go_len (nf_Result n) \<and> i64_range (nf_DurationMillis n)"

definition go_artifact_fact :: "ArtifactFact \<Rightarrow> bool" where
  "go_artifact_fact a \<longleftrightarrow> go_len (af_Operation a) \<and> go_len (af_ArtifactID a) \<and> go_path (af_Path a)
     \<and> go_len (af_Digest a) \<and> i64_range (af_SizeBytes a) \<and> go_strings (af_SourceEventIDs a)"

definition go_scenario_fact :: "ScenarioFact \<Rightarrow> bool" where
  "go_scenario_fact s \<longleftrightarrow> go_len (sf_Status s) \<and> go_len (sf_Message s) \<and> i64_range (sf_DurationMillis s)"

definition go_warning_fact :: "WarningFact \<Rightarrow> bool" where
  "go_warning_fact w \<longleftrightarrow> go_len (wf_Code w) \<and> go_len (wf_Message w) \<and> go_len (wf_Limitations w)
     \<and> list_all go_limitation (wf_Limitations w)"

definition go_resource_fact :: "ResourceFact \<Rightarrow> bool" where
  "go_resource_fact r \<longleftrightarrow> go_len (rf_LimitKind r) \<and> i64_range (rf_LimitValue r) \<and> go_len (rf_Unit r)
     \<and> i64_range (rf_ObservedValue r)"

definition go_fact :: "Fact \<Rightarrow> bool" where
  "go_fact f \<longleftrightarrow> go_len (fa_Kind f) \<and> go_len (fa_Source f)
     \<and> i64_range (nt_SourceRelativeNanos (fa_Timing f))
     \<and> pred_option go_process_fact (fa_Process f) \<and> pred_option go_filesystem_fact (fa_Filesystem f)
     \<and> pred_option go_network_fact (fa_Network f) \<and> pred_option go_artifact_fact (fa_Artifact f)
     \<and> pred_option go_scenario_fact (fa_Scenario f) \<and> pred_option go_warning_fact (fa_Warning f)
     \<and> pred_option go_resource_fact (fa_Resource f)"

section \<open>Each writer determines the view of its argument\<close>

text \<open>A writer that reads its argument through a view, and is readable on views.\<close>

locale viewed_code =
  fixes enc :: "'a \<Rightarrow> string" and ok :: "'a \<Rightarrow> bool" and view :: "'a \<Rightarrow> 'a"
  assumes enc_view: "enc (view x) = enc x"
    and readable_view: "ok x \<Longrightarrow> ok y \<Longrightarrow> enc x @ r = enc y @ s \<Longrightarrow> view x = view y \<and> r = s"
begin

lemma enc_append_iff_view: "ok x \<Longrightarrow> ok y \<Longrightarrow> enc x @ r = enc y @ s \<longleftrightarrow> view x = view y \<and> r = s"
  using readable_view enc_view by metis

lemma enc_eq_iff: "ok x \<Longrightarrow> ok y \<Longrightarrow> enc x = enc y \<longleftrightarrow> view x = view y"
  using enc_append_iff_view [of x y "[]" "[]"] by simp

lemma option_append_iff:
  assumes "pred_option ok x" "pred_option ok y"
  shows "writeOption enc x @ r = writeOption enc y @ s \<longleftrightarrow> map_option view x = map_option view y \<and> r = s"
  using assms
  by (cases x; cases y)
     (auto simp: writeOption_def boolean.enc_append_iff enc_append_iff_view)

end

lemmas code_iffs = str.enc_append_iff u64.enc_append_iff i64.enc_append_iff boolean.enc_append_iff
  strs.enc_append_iff i64.option_append_iff u64.enc_eq

interpretation env_entry: prefix_code "\<lambda>e. writeString (env_Name e) @ writeString (env_Value e)" go_env
  by unfold_locales (auto simp: go_env_def code_iffs)

interpretation limitation: prefix_code observe_writeLimitation go_limitation
  by unfold_locales (auto simp: go_limitation_def observe_writeLimitation_def code_iffs)

interpretation path: viewed_code observe_writePath go_path path_view
proof
  show "observe_writePath (path_view x) = observe_writePath x" for x
    by (simp add: observe_writePath_def path_view_def)
next
  fix x y :: NormalizedPath and r s
  assume "go_path x" "go_path y" and "observe_writePath x @ r = observe_writePath y @ s"
  moreover have "go_len ([] :: string)" by (simp add: go_len_def)
  ultimately show "path_view x = path_view y \<and> r = s"
    by (auto simp: go_path_def observe_writePath_def code_iffs path_view_def split: if_splits)
qed

interpretation process_fact: viewed_code writeProcessFact go_process_fact process_view
  by unfold_locales
     (auto simp: go_process_fact_def writeProcessFact_def process_view_def observe_writeEnv_def
        path.enc_view code_iffs path.enc_append_iff_view env_entry.list_append_iff
        i64.enc_inject)

interpretation filesystem_fact: viewed_code writeFilesystemFact go_filesystem_fact filesystem_view
proof
  have "writeOption observe_writePath (map_option path_view p) = writeOption observe_writePath p" for p
    by (cases p) (simp_all add: writeOption_def path.enc_view)
  then show "writeFilesystemFact (filesystem_view x) = writeFilesystemFact x" for x
    by (simp add: writeFilesystemFact_def filesystem_view_def path.enc_view)
next
  fix x y :: FilesystemFact and r s
  assume "go_filesystem_fact x" "go_filesystem_fact y"
    and "writeFilesystemFact x @ r = writeFilesystemFact y @ s"
  then show "filesystem_view x = filesystem_view y \<and> r = s"
    by (auto simp: go_filesystem_fact_def writeFilesystemFact_def filesystem_view_def code_iffs
          path.enc_append_iff_view path.option_append_iff)
qed

interpretation network_fact: prefix_code writeNetworkFact go_network_fact
  by unfold_locales (auto simp: go_network_fact_def writeNetworkFact_def code_iffs)

interpretation artifact_fact: viewed_code writeArtifactFact go_artifact_fact artifact_view
  by unfold_locales
     (auto simp: go_artifact_fact_def writeArtifactFact_def artifact_view_def code_iffs
        path.enc_view path.enc_append_iff_view)

interpretation scenario_fact: prefix_code writeScenarioFact go_scenario_fact
  by unfold_locales (auto simp: go_scenario_fact_def writeScenarioFact_def code_iffs)

interpretation lim_id_order: keyed_order "\<lambda>a b. lim_ID a < lim_ID b" lim_ID
  by unfold_locales simp

interpretation warning_fact: viewed_code writeWarningFact go_warning_fact warning_view
proof
  show "writeWarningFact (warning_view x) = writeWarningFact x" for x
    by (simp add: writeWarningFact_def warning_view_def)
next
  fix x y :: WarningFact and r s
  assume "go_warning_fact x" "go_warning_fact y" and "writeWarningFact x @ r = writeWarningFact y @ s"
  then show "warning_view x = warning_view y \<and> r = s"
    by (auto simp: go_warning_fact_def writeWarningFact_def warning_view_def code_iffs
          observe_writeLimitations_def limitation.list_append_iff list_all_iff go_len_def)
qed

interpretation resource_fact: prefix_code writeResourceFact go_resource_fact
  by unfold_locales (auto simp: go_resource_fact_def writeResourceFact_def code_iffs)

section \<open>The digest preimage determines the view\<close>

lemma writePayload_Inr [result_simps]:
  "writePayload enc field p = Inr b \<longleftrightarrow> (\<exists>x. p = Some x \<and> b = enc x)"
  by (cases p) (auto simp: writePayload_def)

lemma semanticPayload_iff:
  assumes "go_fact f" "go_fact g" and "fa_Kind f = fa_Kind g"
    and "semanticPayload f = Inr b" "semanticPayload g = Inr c"
  shows "b = c \<longleftrightarrow> payload_view f = payload_view g"
proof -
  have f: "pred_option go_process_fact (fa_Process f)" "pred_option go_filesystem_fact (fa_Filesystem f)"
    "pred_option go_network_fact (fa_Network f)" "pred_option go_artifact_fact (fa_Artifact f)"
    "pred_option go_scenario_fact (fa_Scenario f)" "pred_option go_warning_fact (fa_Warning f)"
    "pred_option go_resource_fact (fa_Resource f)"
    using assms(1) by (simp_all add: go_fact_def)
  have g: "pred_option go_process_fact (fa_Process g)" "pred_option go_filesystem_fact (fa_Filesystem g)"
    "pred_option go_network_fact (fa_Network g)" "pred_option go_artifact_fact (fa_Artifact g)"
    "pred_option go_scenario_fact (fa_Scenario g)" "pred_option go_warning_fact (fa_Warning g)"
    "pred_option go_resource_fact (fa_Resource g)"
    using assms(2) by (simp_all add: go_fact_def)
  show ?thesis
    using assms(4,5) f g
    unfolding semanticPayload_def payload_view_def assms(3)
    by (split if_split_asm;
        auto simp: result_simps process_fact.enc_eq_iff filesystem_fact.enc_eq_iff
          network_fact.enc_eq artifact_fact.enc_eq_iff scenario_fact.enc_eq warning_fact.enc_eq_iff
          resource_fact.enc_eq split: if_split_asm)
qed

lemma semanticBytes_iff:
  assumes "go_fact f" "go_fact g" and "go_len (np_Version p)"
    and "nt_IncludedInSemanticDigest (fa_Timing f) = nt_IncludedInSemanticDigest (fa_Timing g)"
    and "semanticBytes p f = Inr b" "semanticBytes p g = Inr c"
  shows "b = c \<longleftrightarrow> semantic_view f = semantic_view g"
proof -
  obtain pf pg where pf: "semanticPayload f = Inr pf" and pg: "semanticPayload g = Inr pg"
    and b: "b = semanticDigestDomain @ writeString (np_Version p) @ writeString (fa_Kind f)
              @ writeString (fa_Source f) @ writeTiming (fa_Timing f) @ pf"
    and c: "c = semanticDigestDomain @ writeString (np_Version p) @ writeString (fa_Kind g)
              @ writeString (fa_Source g) @ writeTiming (fa_Timing g) @ pg"
    using assms(5,6) by (auto simp: semanticBytes_def result_simps)
  have timing: "writeTiming (fa_Timing f) @ pf = writeTiming (fa_Timing g) @ pg
      \<longleftrightarrow> timing_view (fa_Timing f) = timing_view (fa_Timing g) \<and> pf = pg"
    using assms(1,2,4)
    by (auto simp: writeTiming_def timing_view_def go_fact_def code_iffs)
  have "b = c \<longleftrightarrow> fa_Kind f = fa_Kind g \<and> fa_Source f = fa_Source g
      \<and> timing_view (fa_Timing f) = timing_view (fa_Timing g) \<and> pf = pg"
    using assms(1,2,3) timing by (simp add: b c code_iffs go_fact_def)
  also have "\<dots> \<longleftrightarrow> semantic_view f = semantic_view g"
    using semanticPayload_iff [OF assms(1,2) _ pf pg] by (auto simp: semantic_view_def)
  finally show ?thesis .
qed

end
