(* ===== verification/Observe_Props.thy ===== *)
theory Observe_Props
  imports Observe_Facts Observe_Digest
begin

text \<open>The properties of normalization, with the concrete inputs that witness their hypotheses.\<close>

section \<open>Example inputs\<close>

definition demoCommit :: "string \<Rightarrow> CommitRef" where
  "demoCommit kind = \<lparr>cr_Kind = kind, cr_Repository = ''r'', cr_Ref = [], cr_CommitID = ''c'',
     cr_ObjectFormat = ''sha1'', cr_TreeID = [], cr_TreeDigest = []\<rparr>"

definition demoPlan :: RunPlan where
  "demoPlan = \<lparr>rp_SchemaVersion = SchemaVersionRunPlanV1Alpha1, rp_ID = ''run-plan'', rp_RunID = ''run'',
     rp_CreatedAt = 1600000000000000000, rp_PipelineName = ''p'', rp_Configuration = None,
     rp_ExecutionEnvironment = Some \<lparr>rpe_Image = [], rpe_ImageDigest = [], rpe_Workdir = ''/work''\<rparr>,
     rp_Base = demoCommit ''base'', rp_Head = demoCommit ''head'', rp_Revisions = [], rp_Scenarios = [],
     rp_Runner = zeroRunner,
     rp_ResourceLimits = \<lparr>rsl_CPU = 1, rsl_TimeoutMillis = 1, rsl_MemoryBytes = 1, rsl_DiskBytes = 1,
       rsl_CPUMillis = 1000, rsl_ProcessCount = 1\<rparr>,
     rp_NetworkPolicy = \<lparr>nwp_Mode = NetworkModeDeny, nwp_Allowed = []\<rparr>, rp_Environment = [],
     rp_Collection = Some \<lparr>col_FilesystemRoots = [''/work'', ''/work/out'', ''/tmp''],
       col_FilesystemContents = [], col_Artifacts = [], col_LogMaxBytesPerStream = 1\<rparr>,
     rp_Comparison = None, rp_Policy = None, rp_Platform = None, rp_Limitations = []\<rparr>"

definition demoProfile :: NormalizationProfile where
  "demoProfile = \<lparr>np_Version = ProfileVersionV1Alpha1, np_IgnoreFields = [],
     np_ProcessIdentityAlgorithm = ProcessIdentityAlgorithmV1,
     np_TimestampAlgorithm = TimestampAlgorithmV1, np_PathRootAlgorithm = PathRootAlgorithmV1,
     np_RootAliases =
       [\<lparr>pra_Namespace = PathNamespaceWorkdirRoot, pra_RootIndex = 0, pra_Root = ''/work'',
         pra_Alias = ''@workdir''\<rparr>,
        \<lparr>pra_Namespace = PathNamespaceCollectionRoot, pra_RootIndex = 1, pra_Root = ''/work/out'',
         pra_Alias = ''@root1''\<rparr>,
        \<lparr>pra_Namespace = PathNamespaceCollectionRoot, pra_RootIndex = 2, pra_Root = ''/tmp'',
         pra_Alias = ''@root2''\<rparr>]\<rparr>"

lemma demoProfile_plan: "profileFromPlan demoPlan = Inr demoProfile"
  by code_simp

definition demoProcess :: "string \<Rightarrow> int \<Rightarrow> ProcessObservation" where
  "demoProcess opn pid = \<lparr>po_Operation = opn, po_ProcessID = pid, po_ParentProcessID = None,
     po_ExecutablePath = ''/work/x'', po_Arguments = [''x''], po_Environment = [],
     po_ExitCode = None, po_DurationMillis = 0\<rparr>"

definition demoEvent :: "string \<Rightarrow> int \<Rightarrow> string \<Rightarrow> int \<Rightarrow> ObservationEvent" where
  "demoEvent i n kind pid = \<lparr>ev_ID = i, ev_RunID = ''run'', ev_Revision = ''base'', ev_ScenarioID = ''s'',
     ev_Repetition = 1, ev_SequenceNumber = n, ev_ObservedAt = 100 * n,
     ev_Source = ObservationSourceHostObserved, ev_Kind = kind,
     ev_Process = Some (demoProcess ''p'' pid), ev_Filesystem = None, ev_Network = None,
     ev_Artifact = None, ev_Scenario = None, ev_ObserverWarning = None, ev_ResourceLimit = None\<rparr>"

definition demoRef :: RawEvidenceReference where
  "demoRef = \<lparr>rer_EventStreamDigest = [], rer_EventStreamPath = [], rer_EventID = [],
     rer_EventSequence = 0, rer_Revision = ''base'', rer_ScenarioID = ''s'', rer_Repetition = 1\<rparr>"

definition demoWalk :: walkState where
  "demoWalk = \<lparr>wk_states = [''att-base-s-r1'' \<mapsto>
       newAttemptState demoProfile ''pd'' ''att-base-s-r1'' demoRef observe_DefaultLimits],
     wk_facts = (\<lambda>_. []), wk_totalFacts = 0, wk_totalRefs = 0, wk_prior = 0\<rparr>"

definition demoEvents :: "ObservationEvent list" where
  "demoEvents = [demoEvent ''e1'' 7 ''process-start'' 41, demoEvent ''e2'' 8 ''process-exit'' 41,
     demoEvent ''e3'' 9 ''process-start'' 41]"

text \<open>The final state of the walk over the example events, with the identity as hash.\<close>

definition demoResult :: walkState where
  "demoResult = projr (walkEvents (\<lambda>s. s) ''pd'' observe_DefaultLimits live demoWalk demoEvents)"

lemma itoa_one: "itoa (Suc 0) = ''1''"
  by code_simp

lemmas demo_defs = demoEvents_def demoEvent_def demoWalk_def demoProcess_def attemptIDOf_def Let_def
  walkEvent_def normalizeEvent_def validateSource_def validateKindPayload_def ObservationSources_def
  ObservationKinds_def processKinds_def payloadCount_def requirePayload_def normalizeTiming_def unixNano_def
  newAttemptState_def buildFact_def processStart_def processExit_def ns_of_def emptyNamespace_def
  parentOf_def observe_DefaultLimits_def semanticDigest_def semanticBytes_def semanticPayload_def
  writePayload_def newFact_def itoa_one

lemma demo_run: "\<not> isl (walkEvents (\<lambda>s. s) ''pd'' observe_DefaultLimits live demoWalk demoEvents)"
  by (simp add: demo_defs)

lemma demoResult_walk:
  "walkEvents (\<lambda>s. s) ''pd'' observe_DefaultLimits live demoWalk demoEvents = Inr demoResult"
  using demo_run unfolding demoResult_def by (rule sum.collapse(2) [symmetric])

section \<open>Properties\<close>

text \<open>
  Path normalization picks the longest trusted root. For the root aliases of a plan and an
  absolute path without control characters: if no root contains the path, the path is reported as
  absolute and unmapped; otherwise the root chosen contains the path, is the longest one that does,
  and the observed path is that root, or that root followed by a slash and the reported relative
  part (so no component is cut in the middle).
\<close>

lemma observed_path_longest_root:
  assumes "profileFromPlan plan = Inr p" and "pathText v" and "has_prefix v ''/''"
  shows "(\<forall>r\<in>set (np_RootAliases p). \<not> rootMatch v (pra_Root r)) \<and>
           normalizeObservedPath v (np_RootAliases p) =
             \<lparr>pa_Namespace = PathNamespaceAbsoluteUnmapped, pa_RootIndex = 0, pa_Relative = [],
              pa_Literal = v, pa_Display = v\<rparr>
       \<or> (\<exists>r\<in>set (np_RootAliases p). rootMatch v (pra_Root r)
            \<and> (\<forall>r'\<in>set (np_RootAliases p). rootMatch v (pra_Root r') \<longrightarrow>
                 length (pra_Root r') \<le> length (pra_Root r))
            \<and> pa_Namespace (normalizeObservedPath v (np_RootAliases p)) = pra_Namespace r
            \<and> pa_RootIndex (normalizeObservedPath v (np_RootAliases p)) = pra_RootIndex r
            \<and> pa_Literal (normalizeObservedPath v (np_RootAliases p)) = v
            \<and> (v = pra_Root r
               \<or> v = pra_Root r @ ''/'' @ pa_Relative (normalizeObservedPath v (np_RootAliases p))))"
proof -
  have "length (pra_Root r') \<le> length (pra_Root r)" if "rootKey r \<le> rootKey r'" for r r'
    using that by (auto simp: rootKey_def less_eq_prod_def)
  then show ?thesis
    using normalizeObservedPath_absolute [OF assms(2,3) profileFromPlan_aliases(1) [OF assms(1)]]
    by blast
qed

lemma observed_path_longest_root_witness:
  "pathText ''/work/out/a'' \<and>
   (\<exists>r\<in>set (np_RootAliases demoProfile). rootMatch ''/work/out/a'' (pra_Root r)
      \<and> (\<forall>r'\<in>set (np_RootAliases demoProfile). rootMatch ''/work/out/a'' (pra_Root r') \<longrightarrow>
           length (pra_Root r') \<le> length (pra_Root r)))"
proof -
  have "pathText ''/work/out/a''" and "has_prefix ''/work/out/a'' ''/''"
    and "\<not> (\<forall>r\<in>set (np_RootAliases demoProfile). \<not> rootMatch ''/work/out/a'' (pra_Root r))"
    by code_simp+
  then show ?thesis
    using observed_path_longest_root [OF demoProfile_plan, of "''/work/out/a''"] by blast
qed

text \<open>
  C7. The walk makes exactly one fact per event. When the walk over the event stream succeeds from a
  fresh start, the facts of every attempt are, in order, the facts of that attempt's events (same
  kind, same source, and a single evidence reference that names the event and its sequence number),
  the sequence numbers are contiguous, and both totals are the number of events.
\<close>

theorem walk_one_fact_per_event:
  assumes "walkEvents sha pd limits ctx w es = Inr w'"
    and "wk_prior w = 0" and "wk_totalFacts w = 0" and "wk_totalRefs w = 0"
    and "\<And>i. wk_facts w i = []"
  shows "list_all2 fact_of_event (wk_facts w' i) (attempt_events i es)
    \<and> (\<forall>k < length es. ev_SequenceNumber (es ! k) = ev_SequenceNumber (es ! 0) + int k)
    \<and> wk_totalFacts w' = length es \<and> wk_totalRefs w' = length es"
proof -
  have "\<forall>k < length es. ev_SequenceNumber (es ! k) = ev_SequenceNumber (es ! 0) + int k"
  proof (cases es)
    case (Cons e rest)
    then obtain w1 where w1: "walkEvent sha pd limits (ctx 0) w e = Inr w1"
      and rest: "walkEvents sha pd limits (ctx \<circ> Suc) w1 rest = Inr w'"
      using assms(1) by (auto simp: result_simps)
    have "int (wk_prior w1) = ev_SequenceNumber e" "wk_prior w1 \<noteq> 0"
      using walkEvent_step(1,3) [OF w1] by auto
    then show ?thesis
      using walkEvents_sequence [OF rest] Cons by (auto simp: nth_Cons split: nat.splits)
  qed simp
  moreover have "list_all2 fact_of_event (wk_facts w' i) (attempt_events i es)"
    using walkEvents_facts [OF assms(1), of i] assms(5) by auto
  ultimately show ?thesis
    using walkEvents_totals [OF assms(1)] assms(3,4) by simp
qed

theorem walk_one_fact_per_event_witness:
  "list_all2 fact_of_event (wk_facts demoResult ''att-base-s-r1'') demoEvents
   \<and> wk_totalFacts demoResult = 3"
proof -
  have "attempt_events ''att-base-s-r1'' demoEvents = demoEvents" "length demoEvents = 3"
    by (simp_all add: attempt_events_def demo_defs)
  then show ?thesis
    using walk_one_fact_per_event [OF demoResult_walk, of "''att-base-s-r1''"]
    by (simp add: demoWalk_def)
qed

text \<open>
  C4. Normalization erases process ids and clock origins. Replacing every process id by \<open>\<pi>\<close> of it
  (any injective renaming that keeps 0, the id that means no parent) and moving the clock of every
  source by a constant changes nothing in the outcome: the same error, or the same facts, digests
  and totals. The times before and after the move must be instants that \<open>UnixNano\<close> can represent, which it documents as the
  condition for its result (the years 1678 to 2262); outside of them the difference of two times wraps around.
\<close>

theorem walk_erases_pids_and_clock_origin:
  assumes "inj \<pi>" and "\<pi> 0 = 0" and "\<And>i st. wk_states w i = Some st \<Longrightarrow>
      as_process st = Map.empty \<and> as_time st = Map.empty"
    and "\<forall>e\<in>set es. i64_range (ev_ObservedAt e) \<and> i64_range (ev_ObservedAt (rename_event \<pi> c e))"
  shows "map_sum id wk_facts (walkEvents sha pd limits ctx w (map (rename_event \<pi> c) es))
       = map_sum id wk_facts (walkEvents sha pd limits ctx w es)"
proof -
  have "map_option (rename_state \<pi> c) (wk_states w i) = wk_states w i" for i
    using assms(3) by (cases "wk_states w i") (auto simp: rename_state_def)
  then have "rename_walk \<pi> c w = w"
    by (simp add: rename_walk_def)
  moreover have "wk_facts (rename_walk \<pi> c w1) = wk_facts w1" for w1
    by (simp add: rename_walk_def)
  ultimately show ?thesis
    using walkEvents_rename [OF assms(1,2,4) [folded representable_def], of sha pd limits ctx w]
    by (cases "walkEvents sha pd limits ctx w es") simp_all
qed

theorem walk_erases_pids_and_clock_origin_witness:
  "map_sum id wk_facts (walkEvents (\<lambda>s. s) ''pd'' observe_DefaultLimits live demoWalk
       (map (rename_event (\<lambda>p. 3 * p) (\<lambda>_. 1000)) demoEvents))
   = map_sum id wk_facts (walkEvents (\<lambda>s. s) ''pd'' observe_DefaultLimits live demoWalk demoEvents)"
  by (rule walk_erases_pids_and_clock_origin)
     (auto simp: inj_def demoWalk_def newAttemptState_def demoEvents_def demoEvent_def i64_range_def split: if_splits)

text \<open>
  C5. A process identity is issued once. In a walk from fresh states, no two process-start facts of an attempt carry the same stable
  identity, whatever process ids the events reuse and however starts and exits interleave. The hash must have no collision
  among the finitely many texts of \<open>start_texts\<close>: the fields of a start fact of this attempt with an occurrence number up to the
  number of its start facts; every text that is hashed for an identity of the attempt is one of them.
\<close>

theorem process_identity_issued_once:
  assumes "walkEvents sha pd limits ctx w es = Inr w'"
    and "\<And>i. wk_facts w i = []" and "\<And>i st. wk_states w i = Some st \<Longrightarrow> as_process st = Map.empty"
    and "inj_on sha (start_texts (wk_facts w' i))" and "go_starts (wk_facts w' i)"
  shows "distinct (start_ids (wk_facts w' i))"
proof -
  have "pn_occurrence (ns_of st src) = []" if "wk_states w i = Some st" for st src
    using assms(3) [OF that] by (simp add: ns_of_def emptyNamespace_def)
  then have "ids_unique sha (start_texts (wk_facts w' i)) w i"
    using assms(2) by (simp add: ids_unique_def start_ids_def issued_def counted_def)
  then show ?thesis
    using walkEvents_ids_unique [OF assms(4) _ assms(5) subset_refl assms(1)] by (simp add: ids_unique_def)
qed

theorem process_identity_issued_once_witness:
  "length (start_ids (wk_facts demoResult ''att-base-s-r1'')) = 2
   \<and> distinct (start_ids (wk_facts demoResult ''att-base-s-r1''))"
proof -
  have path: "pa_Display (normalizeObservedPath ''/work/x'' (np_RootAliases demoProfile)) = ''@workdir/x''"
    by code_simp
  have "go_starts (wk_facts demoResult ''att-base-s-r1'')"
    by (simp add: go_starts_def demoResult_def demo_defs go_process_def path go_len_def
        sprintStrings_def sprintEnv_def)
  moreover have "length (start_ids (wk_facts demoResult ''att-base-s-r1'')) = 2"
    by (simp add: start_ids_def demoResult_def demo_defs)
  moreover have "as_process st = Map.empty" if "wk_states demoWalk i = Some st" for i st
    using that by (auto simp: demoWalk_def newAttemptState_def split: if_splits)
  moreover have "wk_facts demoWalk i = []" for i by (simp add: demoWalk_def)
  ultimately show ?thesis
    using process_identity_issued_once [OF demoResult_walk, of "''att-base-s-r1''"] by simp
qed

text \<open>
  An exit closes the generation its start opened. After a start, the exit of the same process id
  from the same source reports the identity and the parent of the start, adds no limitation, and leaves
  the process id without an active generation, so a second exit is reported as unresolved.
\<close>

lemma exit_reports_started_identity:
  assumes "processStart sha s src (Some p) = Inr (f, lim, s1)"
    and "po_ProcessID q = po_ProcessID p" and "po_ProcessID q2 = po_ProcessID p"
  shows "\<exists>g s2 g2 l2 s3. processExit s1 src (Some q) = Inr (g, [], s2)
     \<and> pf_StableID g = pf_StableID f \<and> pf_ParentStableID g = pf_ParentStableID f
     \<and> pf_ParentRelation g = pf_ParentRelation f
     \<and> processExit s2 src (Some q2) = Inr (g2, l2, s3) \<and> pf_StableID g2 = ''proc-unresolved-actor''"
proof -
  obtain parts n where
    act: "map_of (pn_active n) (po_ProcessID p) = Some \<lparr>pg_pid = po_ProcessID p,
        pg_stable = pf_StableID f, pg_parent = pf_ParentStableID f,
        pg_parentRelation = pf_ParentRelation f, pg_seed = processSeed (src # parts)\<rparr>"
    and s1: "s1 = s\<lparr>as_process := (as_process s)(src \<mapsto> n)\<rparr>"
    using assms(1) by (rule processStart_elim)
  have "ns_of s1 src = n" by (simp add: s1 ns_of_upd)
  then show ?thesis
    using act assms(2,3)
    by (auto simp: processExit_def Let_def ns_of_upd delete_conv map_of_delete)
qed

definition demoState :: attemptState where
  "demoState = newAttemptState demoProfile ''pd'' ''att-base-s-r1'' demoRef observe_DefaultLimits"

lemma exit_reports_started_identity_witness:
  "\<exists>f lim s1 g s2. processStart (\<lambda>s. s) demoState ''host-observed'' (Some (demoProcess ''start'' 41)) = Inr (f, lim, s1)
     \<and> processExit s1 ''host-observed'' (Some (demoProcess ''exit'' 41)) = Inr (g, [], s2)
     \<and> pf_StableID g = pf_StableID f"
proof -
  have "\<not> isl (processStart (\<lambda>s. s) demoState ''host-observed'' (Some (demoProcess ''start'' 41)))"
    by (simp add: demoState_def demo_defs)
  then obtain f lim s1 where
    "processStart (\<lambda>s. s) demoState ''host-observed'' (Some (demoProcess ''start'' 41)) = Inr (f, lim, s1)"
    by (metis isl_def sum.exhaust_sel prod_cases3)
  then show ?thesis
    using exit_reports_started_identity [of _ _ _ _ _ _ _ "demoProcess ''exit'' 41" "demoProcess ''exit'' 41"]
    by (fastforce simp: demoProcess_def)
qed

text \<open>
  C6. A semantic digest is taken over an injective encoding. Two facts normalized under the same
  profile have the same digest preimage exactly when they agree on kind, source, timing (when the
  profile keeps it) and on the whole typed payload, except for the observed literal of a path below
  a trusted root and the order of a warning's limitations among different ids.
\<close>

theorem semantic_preimage_injective:
  assumes "go_fact f" "go_fact g" and "go_len (np_Version p)"
    and "nt_IncludedInSemanticDigest (fa_Timing f) = nt_IncludedInSemanticDigest (fa_Timing g)"
    and "semanticBytes p f = Inr b" "semanticBytes p g = Inr c"
  shows "b = c \<longleftrightarrow> semantic_view f = semantic_view g"
  using assms by (rule semanticBytes_iff)

definition demoFact :: "string \<Rightarrow> Fact" where
  "demoFact status = \<lparr>fa_ID = [], fa_SemanticDigest = [], fa_Kind = ''scenario-started'',
     fa_Source = ObservationSourceHostObserved,
     fa_Timing = \<lparr>nt_SourceRelativeNanos = 5, nt_IncludedInSemanticDigest = True, nt_ClockRegression = False\<rparr>,
     fa_Process = None, fa_Filesystem = None, fa_Network = None, fa_Artifact = None,
     fa_Scenario = Some \<lparr>sf_Status = status, sf_Message = [], sf_DurationMillis = 1\<rparr>,
     fa_Warning = None, fa_Resource = None, fa_Evidence = [], fa_Limitations = []\<rparr>"

theorem semantic_preimage_injective_witness:
  "\<exists>b c. semanticBytes demoProfile (demoFact ''a'') = Inr b \<and> semanticBytes demoProfile (demoFact ''b'') = Inr c
     \<and> b \<noteq> c"
proof -
  have go: "go_fact (demoFact s)" if "length s < 5" for s
    using that by (simp add: go_fact_def demoFact_def go_len_def i64_range_def go_scenario_fact_def)
  obtain b c where "semanticBytes demoProfile (demoFact ''a'') = Inr b"
    "semanticBytes demoProfile (demoFact ''b'') = Inr c"
    by (simp add: semanticBytes_def semanticPayload_def writePayload_def demoFact_def processKinds_def
        filesystemKinds_def networkKinds_def scenarioKinds_def)
  moreover have "semantic_view (demoFact ''a'') \<noteq> semantic_view (demoFact ''b'')"
    by (simp add: semantic_view_def payload_view_def demoFact_def processKinds_def
        filesystemKinds_def networkKinds_def scenarioKinds_def)
  ultimately show ?thesis
    using semantic_preimage_injective [of "demoFact ''a''" "demoFact ''b''" demoProfile b c] go
    by (simp add: demoFact_def demoProfile_def go_len_def)
qed

end
