(* ===== verification/Compare.thy ===== *)
theory Compare
  imports Observe
begin

text \<open>
  \<open>internal/compare\<close>: the facts of the base and head repetitions of every scenario become a
  behavioral delta. Facts with the same semantic digest, kind and source form a variant; variants
  on both sides are compared by their occurrence profile, the rest are correlated by a typed anchor,
  and what is left is reported as added or removed, or as a coverage change when the other side was
  not observed completely.

  A variant is a pointer in the source, so that marking it as consumed is seen through both maps; the
  model keeps the variants of a side in an association list by key and marks them there. A
  Go map is read in sorted key order wherever the order matters. \<open>occurrenceEqual\<close> compares the
  JSON texts of two profiles, which is equality, since every field is an integer, a flag or a
  constant. \<open>cloneDelta\<close> is a JSON round trip, the identity on documents whose text is valid
  UTF-8, as decoded documents are.
\<close>

section \<open>Errors, limits, profile\<close>

definition compareErr :: "string \<Rightarrow> string \<Rightarrow> string \<Rightarrow> string \<Rightarrow> go_error" where
  "compareErr code stage scenario field = GoError code stage [scenario, field]"

definition compare_contextErr :: "ctx_error \<Rightarrow> go_error" where
  "compare_contextErr e =
     (if e = DeadlineExceeded then compareErr ''comparison-timeout'' ''context'' [] ''deadline''
      else compareErr ''context-cancelled'' ''context'' [] ''cancelled'')"

record CompareLimits =
  cl_MaxScenarios :: int
  cl_MaxAttempts :: int
  cl_MaxFactsPerAttempt :: int
  cl_MaxFactsTotal :: int
  cl_MaxDistinctSemanticVariants :: int
  cl_MaxDistinctAnchors :: int
  cl_MaxVariantsPerAnchor :: int
  cl_MaxDeltaRecords :: int
  cl_MaxChangedFieldsPerRecord :: int
  cl_MaxEvidenceRefsPerRecord :: int
  cl_MaxEvidenceRefsTotal :: int
  cl_MaxLimitationsPerRecord :: int
  cl_MaxLimitationsTotal :: int
  cl_MaxDeltaJSONBytes :: int

definition compare_DefaultLimits :: CompareLimits where
  "compare_DefaultLimits = \<lparr>cl_MaxScenarios = 64, cl_MaxAttempts = 1280, cl_MaxFactsPerAttempt = 10000,
     cl_MaxFactsTotal = 100000, cl_MaxDistinctSemanticVariants = 100000,
     cl_MaxDistinctAnchors = 100000, cl_MaxVariantsPerAnchor = 1024, cl_MaxDeltaRecords = 100000,
     cl_MaxChangedFieldsPerRecord = 128, cl_MaxEvidenceRefsPerRecord = 1024,
     cl_MaxEvidenceRefsTotal = 200000, cl_MaxLimitationsPerRecord = 1000,
     cl_MaxLimitationsTotal = 10000, cl_MaxDeltaJSONBytes = 64 * 1024 * 1024\<rparr>"

definition compare_zeroLimits :: CompareLimits where
  "compare_zeroLimits = \<lparr>cl_MaxScenarios = 0, cl_MaxAttempts = 0, cl_MaxFactsPerAttempt = 0,
     cl_MaxFactsTotal = 0, cl_MaxDistinctSemanticVariants = 0, cl_MaxDistinctAnchors = 0,
     cl_MaxVariantsPerAnchor = 0, cl_MaxDeltaRecords = 0, cl_MaxChangedFieldsPerRecord = 0,
     cl_MaxEvidenceRefsPerRecord = 0, cl_MaxEvidenceRefsTotal = 0, cl_MaxLimitationsPerRecord = 0,
     cl_MaxLimitationsTotal = 0, cl_MaxDeltaJSONBytes = 0\<rparr>"

definition compare_validateLimits :: "CompareLimits \<Rightarrow> CompareLimits result" where
  "compare_validateLimits l =
     (if l = compare_zeroLimits then Inl (compareErr ''invalid-limits'' ''limits'' [] ''zero'')
      else rcheck
        (first_error
          (\<lambda>(v, mx, name). if v \<le> 0 \<or> v > mx
             then Some (compareErr ''invalid-limits'' ''limits'' [] name) else None)
          [(cl_MaxScenarios l, 64, ''maxScenarios''), (cl_MaxAttempts l, 1280, ''maxAttempts''),
           (cl_MaxFactsPerAttempt l, 10000, ''maxFactsPerAttempt''),
           (cl_MaxFactsTotal l, 100000, ''maxFactsTotal''),
           (cl_MaxDistinctSemanticVariants l, 100000, ''maxVariants''),
           (cl_MaxDistinctAnchors l, 100000, ''maxAnchors''),
           (cl_MaxVariantsPerAnchor l, 1024, ''maxVariantsPerAnchor''),
           (cl_MaxDeltaRecords l, 100000, ''maxDeltaRecords''),
           (cl_MaxChangedFieldsPerRecord l, 128, ''maxChangedFields''),
           (cl_MaxEvidenceRefsPerRecord l, 1024, ''maxEvidenceRefsPerRecord''),
           (cl_MaxEvidenceRefsTotal l, 200000, ''maxEvidenceRefsTotal''),
           (cl_MaxLimitationsPerRecord l, 1000, ''maxLimitationsPerRecord''),
           (cl_MaxLimitationsTotal l, 10000, ''maxLimitationsTotal''),
           (cl_MaxDeltaJSONBytes l, 64 * 1024 * 1024, ''maxDeltaJsonBytes'')])
        (Inr l))"

abbreviation ComparisonProfileVersionV1Alpha1 :: string where
  "ComparisonProfileVersionV1Alpha1 \<equiv> ''glassroot.dev/comparison-profile/v1alpha1''"

definition SupportedFactKinds :: "string list" where
  "SupportedFactKinds = slice_stable (<) ObservationKinds"

definition comparisonProfile :: ComparisonProfile where
  "comparisonProfile = \<lparr>cp_Version = ComparisonProfileVersionV1Alpha1,
     cp_RequiredNormalizationProfile = ProfileVersionV1Alpha1,
     cp_ExactSemanticMatchAlgorithm = ''glassroot.dev/exact-semantic-multiset/v1'',
     cp_TypedAnchorAlgorithm = ''glassroot.dev/comparison-anchor/v1'',
     cp_RepetitionAssessmentAlgorithm = ''glassroot.dev/repetition-occurrence-profile/v1'',
     cp_OrderAssessmentAlgorithm = ''glassroot.dev/strict-semantic-sequence/v1'',
     cp_AbsencePolicy = ''glassroot.dev/unknown-is-not-absence/v1'',
     cp_IncludedFactKinds = SupportedFactKinds\<rparr>"

definition isSupportedFactKind :: "string \<Rightarrow> bool" where
  "isSupportedFactKind k \<longleftrightarrow> k \<in> set SupportedFactKinds"

definition isSupportedSource :: "string \<Rightarrow> bool" where
  "isSupportedSource s \<longleftrightarrow> s \<in> set ObservationSources"

section \<open>Validation of the trace document\<close>

definition factPayloadCount :: "Fact \<Rightarrow> nat" where
  "factPayloadCount f = length (filter id
     [fa_Process f \<noteq> None, fa_Filesystem f \<noteq> None, fa_Network f \<noteq> None, fa_Artifact f \<noteq> None,
      fa_Scenario f \<noteq> None, fa_Warning f \<noteq> None, fa_Resource f \<noteq> None])"

definition validateFactPayload :: "Fact \<Rightarrow> go_error option" where
  "validateFactPayload f =
     (if factPayloadCount f \<noteq> 1
      then Some (compareErr ''invalid-fact-payload'' ''facts'' [] (fa_Kind f)) else None)"

text \<open>The map \<open>seen\<close> of fact ids is threaded through: it is the set of ids seen so far.\<close>

definition validateFact :: "AttemptTrace \<Rightarrow> Fact \<Rightarrow> string set \<Rightarrow> (string set) result" where
  "validateFact a f seen =
     (if fa_ID f = [] then Inl (compareErr ''invalid-trace-set'' ''facts'' (at_ScenarioID a) ''id'')
      else if fa_ID f \<in> seen
      then Inl (compareErr ''duplicate-fact-id'' ''facts'' (at_ScenarioID a) (fa_ID f))
      else if \<not> validDigest (fa_SemanticDigest f)
      then Inl (compareErr ''invalid-semantic-digest'' ''facts'' (at_ScenarioID a) (fa_SemanticDigest f))
      else if \<not> isSupportedFactKind (fa_Kind f)
      then Inl (compareErr ''unsupported-fact-kind'' ''facts'' (at_ScenarioID a) (fa_Kind f))
      else if \<not> isSupportedSource (fa_Source f)
      then Inl (compareErr ''invalid-observation-source'' ''facts'' (at_ScenarioID a) (fa_Source f))
      else rcheck (validateFactPayload f)
       (if list_ex (\<lambda>r. rer_Revision r \<noteq> at_Revision a \<or> rer_ScenarioID r \<noteq> at_ScenarioID a
             \<or> rer_Repetition r \<noteq> at_Repetition a \<or> rer_EventID r = [] \<or> rer_EventSequence r = 0
             \<or> \<not> validDigest (rer_EventStreamDigest r) \<or> rer_EventStreamPath r = []) (fa_Evidence f)
        then Inl (compareErr ''evidence-reference-invalid'' ''facts'' (at_ScenarioID a) ''evidence'')
        else Inr (insert (fa_ID f) seen)))"

fun validateFacts :: "AttemptTrace \<Rightarrow> Fact list \<Rightarrow> string set \<Rightarrow> (string set) result" where
  "validateFacts a [] seen = Inr seen"
| "validateFacts a (f # fs) seen = rbind (validateFact a f seen) (validateFacts a fs)"

text \<open>The variables of the loop over the attempts.\<close>

record attemptScan =
  asc_attempts :: "string set"
  asc_coordinates :: "string set"
  asc_facts :: "string set"
  asc_factCount :: nat
  asc_sawHead :: bool

definition coordinateKey :: "AttemptTrace \<Rightarrow> string" where
  "coordinateKey a =
     at_Revision a @ NUL # at_ScenarioID a @ NUL # itoa (at_Repetition a)"

definition validateAttempt ::
  "CompareLimits \<Rightarrow> nat \<Rightarrow> AttemptTrace \<Rightarrow> attemptScan \<Rightarrow> attemptScan result" where
  "validateAttempt limits i a s =
     (if at_AttemptID a = [] \<or> at_ScenarioID a = [] \<or> at_Repetition a = 0
      then Inl (compareErr ''invalid-attempt-inventory'' ''attempts'' (at_ScenarioID a) ''identity'')
      else if at_AttemptID a \<in> asc_attempts s
      then Inl (compareErr ''duplicate-attempt'' ''attempts'' (at_ScenarioID a) (at_AttemptID a))
      else if coordinateKey a \<in> asc_coordinates s
      then Inl (compareErr ''duplicate-attempt'' ''attempts'' (at_ScenarioID a) ''coordinate'')
      else if at_Revision a \<noteq> RevisionKindHead \<and> at_Revision a = RevisionKindBase \<and> asc_sawHead s
      then Inl (compareErr ''invalid-attempt-inventory'' ''attempts'' (at_ScenarioID a) ''order'')
      else if at_Revision a \<noteq> RevisionKindHead \<and> at_Revision a \<noteq> RevisionKindBase
      then Inl (compareErr ''invalid-attempt-inventory'' ''attempts'' (at_ScenarioID a) ''revision'')
      else if int (length (at_Facts a)) > cl_MaxFactsPerAttempt limits
      then Inl (compareErr ''comparison-limit'' ''facts'' (at_ScenarioID a) ''count'')
      else if int (asc_factCount s + length (at_Facts a)) > cl_MaxFactsTotal limits
      then Inl (compareErr ''comparison-limit'' ''facts'' [] ''count'')
      else if i + 1 \<noteq> at_Ordinal a
      then Inl (compareErr ''invalid-attempt-inventory'' ''attempts'' (at_ScenarioID a) ''ordinal'')
      else rbind (validateFacts a (at_Facts a) (asc_facts s)) (\<lambda>seen.
        Inr \<lparr>asc_attempts = insert (at_AttemptID a) (asc_attempts s),
             asc_coordinates = insert (coordinateKey a) (asc_coordinates s),
             asc_facts = seen,
             asc_factCount = asc_factCount s + length (at_Facts a),
             asc_sawHead = (asc_sawHead s \<or> at_Revision a = RevisionKindHead)\<rparr>))"

fun validateAttempts ::
  "CompareLimits \<Rightarrow> nat \<Rightarrow> AttemptTrace list \<Rightarrow> attemptScan \<Rightarrow> attemptScan result" where
  "validateAttempts limits i [] s = Inr s"
| "validateAttempts limits i (a # as) s =
     rbind (validateAttempt limits i a s) (validateAttempts limits (i + 1) as)"

definition startScan :: attemptScan where
  "startScan = \<lparr>asc_attempts = {}, asc_coordinates = {}, asc_facts = {}, asc_factCount = 0,
     asc_sawHead = False\<rparr>"

definition validateTraceDocument :: "TraceSetDocument \<Rightarrow> CompareLimits \<Rightarrow> go_error option" where
  "validateTraceDocument doc limits =
     (if ts_SchemaVersion doc \<noteq> TraceSetSchemaV1Alpha1
         \<or> np_Version (ts_Profile doc) \<noteq> ProfileVersionV1Alpha1
      then Some (compareErr ''unsupported-normalization-profile'' ''input'' [] ''profile'')
      else if \<not> validDigest (ts_PlanDigest doc) \<or> \<not> validDigest (ts_ManifestDigest doc)
      then Some (compareErr ''invalid-trace-set'' ''input'' [] ''digest'')
      else if ts_RunID doc = [] then Some (compareErr ''invalid-trace-set'' ''input'' [] ''runId'')
      else if ts_Attempts doc = [] \<or> int (length (ts_Attempts doc)) > cl_MaxAttempts limits
      then Some (compareErr ''invalid-attempt-inventory'' ''attempts'' [] ''count'')
      else case validateAttempts limits 0 (ts_Attempts doc) startScan of
             Inl e \<Rightarrow> Some e | Inr _ \<Rightarrow> None)"

section \<open>Digests\<close>

abbreviation anchorDomain :: string where
  "anchorDomain \<equiv> ''glassroot.dev/comparison-anchor/v1'' @ [NUL]"
abbreviation recordIDDomain :: string where
  "recordIDDomain \<equiv> ''glassroot.dev/behavioral-delta-record-id/v1'' @ [NUL]"
abbreviation deltaJSONDomain :: string where
  "deltaJSONDomain \<equiv> ''glassroot.dev/behavioral-delta-json/v1'' @ [NUL]"

text \<open>\<open>digestBytes\<close>, the same function in \<open>compare\<close> and \<open>policy\<close>.\<close>

definition digestBytes :: "(string \<Rightarrow> string) \<Rightarrow> string \<Rightarrow> string \<Rightarrow> Digest" where
  "digestBytes sha domain data = ''sha256:'' @ sha (domain @ writeU64 (length data) @ data)"

definition anchorPayload :: "('a \<Rightarrow> string) \<Rightarrow> string \<Rightarrow> 'a option \<Rightarrow> string result" where
  "anchorPayload enc field payload =
     (case payload of
        None \<Rightarrow> Inl (compareErr ''invalid-fact-payload'' ''anchor'' [] field)
      | Some x \<Rightarrow> Inr (enc x))"

text \<open>\<open>writePath\<close> of \<open>compare/digest.go\<close> is the text of the one in \<open>observe/digest.go\<close>.\<close>

definition typedAnchorDigest :: "(string \<Rightarrow> string) \<Rightarrow> Fact \<Rightarrow> Digest result" where
  "typedAnchorDigest sha f =
     (let finish = (\<lambda>b. Inr (''sha256:'' @ sha (anchorDomain @ writeString (fa_Kind f)
                                @ writeString (fa_Source f) @ b))) in
      if fa_Kind f \<in> set processKinds then
        rbind (anchorPayload (\<lambda>p. writeString (pf_StableID p) @ writeString (pf_Operation p))
                ''process'' (fa_Process f)) finish
      else if fa_Kind f \<in> set filesystemKinds then
        rbind (anchorPayload (\<lambda>p. writeString (ff_Operation p) @ observe_writePath (ff_Path p))
                ''filesystem'' (fa_Filesystem f)) finish
      else if fa_Kind f \<in> set networkKinds then
        rbind (anchorPayload (\<lambda>p. writeString (nf_Operation p) @ writeString (nf_Protocol p)
                  @ writeString (nf_QueryName p) @ writeString (nf_DestinationHost p)
                  @ writeI64 (nf_DestinationPort p))
                ''network'' (fa_Network f)) finish
      else if fa_Kind f = ''artifact-activity'' then
        rbind (anchorPayload (\<lambda>p. observe_writePath (af_Path p)) ''artifact'' (fa_Artifact f)) finish
      else if fa_Kind f \<in> set scenarioKinds then
        rbind (anchorPayload (\<lambda>p. writeString (sf_Status p)) ''scenario'' (fa_Scenario f)) finish
      else if fa_Kind f \<in> set warningKinds then
        (case fa_Warning f of
           None \<Rightarrow> Inl (compareErr ''invalid-fact-payload'' ''anchor'' [] ''warning'')
         | Some w \<Rightarrow> if wf_Code w = [] then Inr [] else finish (writeString (wf_Code w)))
      else if fa_Kind f = ''resource-limit'' then
        rbind (anchorPayload (\<lambda>p. writeString (rf_LimitKind p)) ''resource'' (fa_Resource f)) finish
      else Inl (compareErr ''unsupported-fact-kind'' ''anchor'' [] (fa_Kind f)))"

definition writeRepetition :: "RepetitionOccurrence \<Rightarrow> string" where
  "writeRepetition r = writeU64 (ro_Repetition r) @ writeString (ro_Coverage r)
     @ writeBool (ro_CountKnown r) @ writeI64 (ro_Count r)"

definition writeOccurrence :: "OccurrenceProfile \<Rightarrow> string" where
  "writeOccurrence p = writeI64 (op_PlannedRepetitionCount p) @ writeI64 (op_CompleteRepetitionCount p)
     @ writeI64 (op_IncompleteRepetitionCount p) @ writeI64 (op_MinimumKnownCount p)
     @ writeI64 (op_MaximumKnownCount p) @ writeI64 (op_TotalKnownCount p)
     @ writeString (op_Coverage p) @ writeString (op_Repeatability p)
     @ writeList writeRepetition (op_Repetitions p)"

text \<open>The bytes that \<open>deltaRecordID\<close> hashes.\<close>

definition deltaRecordBytes :: "string \<Rightarrow> string \<Rightarrow> string \<Rightarrow> DeltaRecord \<Rightarrow> string" where
  "deltaRecordBytes profile normProfile scenario r = recordIDDomain @ writeString profile
     @ writeString normProfile @ writeString scenario @ writeString (dr_Kind r)
     @ writeString (dr_FactKind r) @ writeString (dr_Source r) @ writeString (dr_AnchorDigest r)
     @ writeStrings (dr_ChangedFields r) @ writeStrings (dr_BaseSemanticDigests r)
     @ writeStrings (dr_HeadSemanticDigests r) @ writeOccurrence (dr_BaseOccurrence r)
     @ writeOccurrence (dr_HeadOccurrence r) @ writeString (dr_Basis r)"

definition deltaRecordID ::
  "(string \<Rightarrow> string) \<Rightarrow> string \<Rightarrow> string \<Rightarrow> string \<Rightarrow> DeltaRecord \<Rightarrow> string" where
  "deltaRecordID sha profile normProfile scenario r =
     ''delta-'' @ sha (deltaRecordBytes profile normProfile scenario r)"

definition sortDigests :: "Digest list \<Rightarrow> Digest list" where
  "sortDigests xs = slice_stable (<) xs"

section \<open>Snapshots and evidence\<close>

definition pathSnap :: "NormalizedPath \<Rightarrow> DeltaNormalizedPath" where
  "pathSnap p = \<lparr>dp_Namespace = pa_Namespace p, dp_RootIndex = pa_RootIndex p,
     dp_Relative = pa_Relative p, dp_Literal = pa_Literal p, dp_Display = pa_Display p\<rparr>"

definition evidenceRefOf :: "RawEvidenceReference \<Rightarrow> EvidenceRef" where
  "evidenceRefOf r = \<lparr>er_Digest = rer_EventStreamDigest r, er_EventIDs = [rer_EventID r],
     er_BundlePath = Some (rer_EventStreamPath r), er_EventStreamDigest = rer_EventStreamDigest r,
     er_EventStreamPath = rer_EventStreamPath r, er_EventSequence = rer_EventSequence r,
     er_Revision = rer_Revision r, er_ScenarioID = rer_ScenarioID r,
     er_Repetition = rer_Repetition r\<rparr>"

definition compare_evidenceKey :: "EvidenceRef \<Rightarrow> string" where
  "compare_evidenceKey r =
     er_Revision r @ NUL # er_ScenarioID r @ NUL # itoa (er_Repetition r)
     @ NUL # itoa (er_EventSequence r) @ NUL # first (er_EventIDs r)"

text \<open>A map filled with \<open>seen[key(r)] = r\<close> and read back in sorted key order.\<close>

definition dedupe_by :: "('a \<Rightarrow> string) \<Rightarrow> 'a list \<Rightarrow> 'a list" where
  "dedupe_by key xs =
     (let seen = fold (\<lambda>r. AList.update (key r) r) xs []
      in map (\<lambda>k. the (map_of seen k)) (slice_stable (<) (map fst seen)))"

definition dedupeEvidence :: "EvidenceRef list \<Rightarrow> EvidenceRef list" where
  "dedupeEvidence xs = dedupe_by compare_evidenceKey xs"

definition evidenceRefs :: "Fact list \<Rightarrow> EvidenceRef list" where
  "evidenceRefs facts = dedupeEvidence (concat (map (\<lambda>f. map evidenceRefOf (fa_Evidence f)) facts))"

definition processSnap :: "ProcessFact \<Rightarrow> DeltaProcessFact" where
  "processSnap p = \<lparr>dpf_Operation = pf_Operation p, dpf_StableID = pf_StableID p,
     dpf_ParentStableID = pf_ParentStableID p, dpf_ParentRelation = pf_ParentRelation p,
     dpf_Executable = pathSnap (pf_Executable p), dpf_Arguments = pf_Arguments p,
     dpf_Environment = pf_Environment p, dpf_ExitCode = pf_ExitCode p,
     dpf_DurationMillis = pf_DurationMillis p\<rparr>"

definition filesystemSnap :: "FilesystemFact \<Rightarrow> DeltaFilesystemFact" where
  "filesystemSnap f = \<lparr>dff_Operation = ff_Operation f, dff_Path = pathSnap (ff_Path f),
     dff_OldPath = map_option pathSnap (ff_OldPath f), dff_Mode = ff_Mode f,
     dff_Digest = ff_Digest f, dff_SizeBytes = ff_SizeBytes f, dff_Executable = ff_Executable f,
     dff_Truncated = ff_Truncated f\<rparr>"

definition networkSnap :: "NetworkFact \<Rightarrow> DeltaNetworkFact" where
  "networkSnap n = \<lparr>dnf_Operation = nf_Operation n, dnf_Protocol = nf_Protocol n,
     dnf_QueryName = nf_QueryName n, dnf_DestinationHost = nf_DestinationHost n,
     dnf_DestinationPort = nf_DestinationPort n, dnf_ResolvedAddresses = nf_ResolvedAddresses n,
     dnf_Result = nf_Result n, dnf_DurationMillis = nf_DurationMillis n\<rparr>"

definition artifactSnap :: "ArtifactFact \<Rightarrow> DeltaArtifactFact" where
  "artifactSnap a = \<lparr>daf_Operation = af_Operation a, daf_ArtifactID = af_ArtifactID a,
     daf_Path = pathSnap (af_Path a), daf_Digest = af_Digest a, daf_SizeBytes = af_SizeBytes a,
     daf_Executable = af_Executable a, daf_SourceEventIDs = af_SourceEventIDs a\<rparr>"

definition snapshot :: "Fact \<Rightarrow> DeltaFactSnapshot" where
  "snapshot f = \<lparr>snap_ID = fa_ID f, snap_SemanticDigest = fa_SemanticDigest f, snap_Kind = fa_Kind f,
     snap_Source = fa_Source f,
     snap_Process = map_option processSnap (fa_Process f),
     snap_Filesystem = map_option filesystemSnap (fa_Filesystem f),
     snap_Network = map_option networkSnap (fa_Network f),
     snap_Artifact = map_option artifactSnap (fa_Artifact f),
     snap_Scenario = map_option (\<lambda>s. \<lparr>dsf_Status = sf_Status s, dsf_Message = sf_Message s,
        dsf_DurationMillis = sf_DurationMillis s\<rparr>) (fa_Scenario f),
     snap_Warning = map_option (\<lambda>w. \<lparr>dwf_Code = wf_Code w, dwf_Message = wf_Message w,
        dwf_Unsupported = wf_Unsupported w, dwf_Limitations = sortLimitations (wf_Limitations w)\<rparr>)
        (fa_Warning f),
     snap_Resource = map_option (\<lambda>r. \<lparr>drf_LimitKind = rf_LimitKind r, drf_LimitValue = rf_LimitValue r,
        drf_Unit = rf_Unit r, drf_ObservedValue = rf_ObservedValue r, drf_Exceeded = rf_Exceeded r\<rparr>)
        (fa_Resource f),
     snap_Evidence = evidenceRefs [f], snap_Limitations = sortLimitations (fa_Limitations f)\<rparr>"

definition snapshotLess :: "DeltaFactSnapshot \<Rightarrow> DeltaFactSnapshot \<Rightarrow> bool" where
  "snapshotLess a b =
     (if snap_SemanticDigest a \<noteq> snap_SemanticDigest b
      then snap_SemanticDigest a < snap_SemanticDigest b else snap_ID a < snap_ID b)"

definition snapshots :: "Fact list \<Rightarrow> DeltaFactSnapshot list" where
  "snapshots facts = slice_stable snapshotLess (map snapshot facts)"

section \<open>Scenario groups and variants\<close>

record scenarioGroup =
  sg_id :: string
  sg_base :: "AttemptTrace list"
  sg_head :: "AttemptTrace list"

definition addAttempt :: "AttemptTrace \<Rightarrow> scenarioGroup \<Rightarrow> scenarioGroup" where
  "addAttempt a g =
     (if at_Revision a = RevisionKindBase then g\<lparr>sg_base := sg_base g @ [a]\<rparr>
      else g\<lparr>sg_head := sg_head g @ [a]\<rparr>)"

text \<open>The index \<open>idx\<close> of the source is the position of the group with that id.\<close>

fun addToGroups :: "AttemptTrace \<Rightarrow> scenarioGroup list \<Rightarrow> scenarioGroup list" where
  "addToGroups a [] = [addAttempt a \<lparr>sg_id = at_ScenarioID a, sg_base = [], sg_head = []\<rparr>]"
| "addToGroups a (g # gs) =
     (if sg_id g = at_ScenarioID a then addAttempt a g # gs else g # addToGroups a gs)"

definition sortAttempts :: "AttemptTrace list \<Rightarrow> AttemptTrace list" where
  "sortAttempts = slice_stable (\<lambda>a b. at_Repetition a < at_Repetition b)"

definition groupScenarios :: "AttemptTrace list \<Rightarrow> scenarioGroup list" where
  "groupScenarios attempts =
     map (\<lambda>g. g\<lparr>sg_base := sortAttempts (sg_base g), sg_head := sortAttempts (sg_head g)\<rparr>)
       (fold addToGroups attempts [])"

record variant =
  va_key :: string
  va_kind :: string
  va_source :: string
  va_semantic :: Digest
  va_factsByRep :: "(nat \<times> Fact list) list"
  va_facts :: "Fact list"
  va_profile :: OccurrenceProfile
  va_anchor :: Digest
  va_consumed :: bool
  va_ambiguous :: bool

type_synonym variants = "(string \<times> variant) list"

definition variantKey :: "Fact \<Rightarrow> string" where
  "variantKey f = fa_SemanticDigest f @ NUL # fa_Kind f @ NUL # fa_Source f"

definition zeroOccurrence :: OccurrenceProfile where
  "zeroOccurrence = \<lparr>op_PlannedRepetitionCount = 0, op_Repetitions = [], op_CompleteRepetitionCount = 0,
     op_IncompleteRepetitionCount = 0, op_MinimumKnownCount = 0, op_MaximumKnownCount = 0,
     op_TotalKnownCount = 0, op_Coverage = [], op_Repeatability = []\<rparr>"

definition newVariant :: "Fact \<Rightarrow> variant" where
  "newVariant f = \<lparr>va_key = variantKey f, va_kind = fa_Kind f, va_source = fa_Source f,
     va_semantic = fa_SemanticDigest f, va_factsByRep = [], va_facts = [],
     va_profile = zeroOccurrence, va_anchor = [], va_consumed = False, va_ambiguous = False\<rparr>"

definition factsOfRep :: "variant \<Rightarrow> nat \<Rightarrow> Fact list" where
  "factsOfRep v r = (case map_of (va_factsByRep v) r of None \<Rightarrow> [] | Some fs \<Rightarrow> fs)"

definition addFact :: "nat \<Rightarrow> Fact \<Rightarrow> variants \<Rightarrow> variants" where
  "addFact rep f out =
     (let v = (case map_of out (variantKey f) of None \<Rightarrow> newVariant f | Some v \<Rightarrow> v);
          v' = v\<lparr>va_factsByRep := AList.update rep (factsOfRep v rep @ [f]) (va_factsByRep v),
                 va_facts := va_facts v @ [f]\<rparr>
      in AList.update (variantKey f) v' out)"

definition buildVariants :: "AttemptTrace list \<Rightarrow> variants" where
  "buildVariants attempts =
     fold (\<lambda>a out. fold (addFact (at_Repetition a)) (at_Facts a) out) attempts []"

section \<open>Occurrence profiles\<close>

record repetitionFacts =
  rpf_repetition :: nat
  rpf_coverage :: string
  rpf_facts :: nat

text \<open>The loop of \<open>buildOccurrenceProfile\<close>, with the flag \<open>minSet\<close>.\<close>

definition occurrenceStep ::
  "repetitionFacts \<Rightarrow> OccurrenceProfile \<times> bool \<Rightarrow> OccurrenceProfile \<times> bool" where
  "occurrenceStep r st =
     (let (out, minSet) = st in
      if rpf_coverage r = CoverageComplete then
        let count = int (rpf_facts r);
            ro = \<lparr>ro_Repetition = rpf_repetition r, ro_Coverage = CoverageAssessmentComplete,
                  ro_CountKnown = True, ro_Count = count\<rparr>;
            lower = (\<not> minSet \<or> count < op_MinimumKnownCount out)
        in (out\<lparr>op_CompleteRepetitionCount := op_CompleteRepetitionCount out + 1,
                op_TotalKnownCount := op_TotalKnownCount out + count,
                op_MinimumKnownCount := (if lower then count else op_MinimumKnownCount out),
                op_MaximumKnownCount := (if count > op_MaximumKnownCount out then count
                                         else op_MaximumKnownCount out),
                op_Repetitions := op_Repetitions out @ [ro]\<rparr>, minSet \<or> lower)
      else
        (out\<lparr>op_IncompleteRepetitionCount := op_IncompleteRepetitionCount out + 1,
             op_Repetitions := op_Repetitions out @
               [\<lparr>ro_Repetition = rpf_repetition r, ro_Coverage = CoverageAssessmentPartial,
                 ro_CountKnown = False, ro_Count = 0\<rparr>]\<rparr>, minSet))"

definition buildOccurrenceProfile :: "nat \<Rightarrow> repetitionFacts list \<Rightarrow> OccurrenceProfile" where
  "buildOccurrenceProfile planned reps =
     (let out = fst (fold occurrenceStep reps
                 (zeroOccurrence\<lparr>op_PlannedRepetitionCount := int planned\<rparr>, False));
          cov = (if op_CompleteRepetitionCount out = int planned then CoverageAssessmentComplete
                 else if op_CompleteRepetitionCount out > 0 then CoverageAssessmentPartial
                 else CoverageAssessmentNone);
          rep = (if cov \<noteq> CoverageAssessmentComplete \<or> op_CompleteRepetitionCount out = 0
                 then RepeatabilityNotAssessable
                 else if op_CompleteRepetitionCount out = 1 then RepeatabilitySingleSample
                 else if op_MinimumKnownCount out = op_MaximumKnownCount out then RepeatabilityStable
                 else RepeatabilityVariable)
      in out\<lparr>op_Coverage := cov, op_Repeatability := rep\<rparr>)"

definition repetitionOf :: "variant \<Rightarrow> AttemptTrace \<Rightarrow> repetitionFacts" where
  "repetitionOf v a = \<lparr>rpf_repetition = at_Repetition a, rpf_coverage = at_Coverage a,
     rpf_facts = length (factsOfRep v (at_Repetition a))\<rparr>"

definition profileForVariant :: "AttemptTrace list \<Rightarrow> variant \<Rightarrow> OccurrenceProfile" where
  "profileForVariant attempts v =
     buildOccurrenceProfile (length attempts) (map (repetitionOf v) attempts)"

definition emptyOccurrence :: OccurrenceProfile where
  "emptyOccurrence = zeroOccurrence\<lparr>op_Coverage := CoverageAssessmentNone,
     op_Repeatability := RepeatabilityNotAssessable\<rparr>"

definition occurrenceEqual :: "OccurrenceProfile \<Rightarrow> OccurrenceProfile \<Rightarrow> bool" where
  "occurrenceEqual a b \<longleftrightarrow> a = b"

section \<open>Records\<close>

definition firstScenario :: "string list \<Rightarrow> string" where
  "firstScenario ids = first ids"

definition zeroRecord :: DeltaRecord where
  "zeroRecord = \<lparr>dr_ID = [], dr_Kind = [], dr_Summary = [], dr_BaseObserved = False,
     dr_HeadObserved = False, dr_Evidence = [], dr_ScenarioIDs = [], dr_Limitations = [],
     dr_FactKind = [], dr_Source = [], dr_AnchorDigest = [], dr_Basis = [], dr_ChangedFields = [],
     dr_BaseOccurrence = zeroOccurrence, dr_HeadOccurrence = zeroOccurrence, dr_BaseFacts = [],
     dr_HeadFacts = [], dr_BaseEvidence = [], dr_HeadEvidence = [], dr_BaseSemanticDigests = [],
     dr_HeadSemanticDigests = []\<rparr>"

definition summaryFor :: "DeltaRecord \<Rightarrow> string" where
  "summaryFor r = dr_Kind r @ '' '' @ dr_FactKind r @ '' comparison for scenario ''
     @ firstScenario (dr_ScenarioIDs r)"

text \<open>A condition on the occurrence profile of a variant that is there.\<close>

definition profileHas :: "(OccurrenceProfile \<Rightarrow> bool) \<Rightarrow> variant option \<Rightarrow> bool" where
  "profileHas P v = (case v of None \<Rightarrow> False | Some x \<Rightarrow> P (va_profile x))"

definition recordBasis :: "variant option \<Rightarrow> variant option \<Rightarrow> string" where
  "recordBasis b h =
     (let has = (\<lambda>P. profileHas P b \<or> profileHas P h) in
      if has (\<lambda>p. op_Repeatability p = RepeatabilityVariable) then BasisRepetitionVariable
      else if has (\<lambda>p. op_Coverage p \<noteq> CoverageAssessmentComplete) then BasisCoverageLimited
      else if has (\<lambda>p. op_Repeatability p = RepeatabilitySingleSample) then BasisSingleSample
      else BasisCompleteObservation)"

definition withBase :: "variant \<Rightarrow> DeltaRecord \<Rightarrow> DeltaRecord" where
  "withBase b r = r\<lparr>dr_FactKind := va_kind b, dr_Source := va_source b, dr_AnchorDigest := va_anchor b,
     dr_BaseObserved := True, dr_BaseOccurrence := va_profile b, dr_BaseFacts := snapshots (va_facts b),
     dr_BaseEvidence := evidenceRefs (va_facts b), dr_BaseSemanticDigests := [va_semantic b],
     dr_Evidence := dr_Evidence r @ evidenceRefs (va_facts b)\<rparr>"

definition withHead :: "variant \<Rightarrow> DeltaRecord \<Rightarrow> DeltaRecord" where
  "withHead h r = r\<lparr>dr_FactKind := va_kind h, dr_Source := va_source h, dr_AnchorDigest := va_anchor h,
     dr_HeadObserved := True, dr_HeadOccurrence := va_profile h, dr_HeadFacts := snapshots (va_facts h),
     dr_HeadEvidence := evidenceRefs (va_facts h), dr_HeadSemanticDigests := [va_semantic h],
     dr_Evidence := dr_Evidence r @ evidenceRefs (va_facts h)\<rparr>"

definition makeRecord ::
  "(string \<Rightarrow> string) \<Rightarrow> string \<Rightarrow> string \<Rightarrow> string \<Rightarrow> variant option \<Rightarrow> variant option
   \<Rightarrow> string list \<Rightarrow> Limitation list \<Rightarrow> DeltaRecord" where
  "makeRecord sha normProfile scenario kind b h changed lim =
     (let r0 = zeroRecord\<lparr>dr_Kind := kind, dr_ScenarioIDs := [scenario],
                 dr_Limitations := sortLimitations lim, dr_ChangedFields := changed\<rparr>;
          r1 = (case b of None \<Rightarrow> r0 | Some v \<Rightarrow> withBase v r0);
          r2 = (case h of None \<Rightarrow> r1 | Some v \<Rightarrow> withHead v r1);
          r3 = (if b = None then r2\<lparr>dr_BaseOccurrence := emptyOccurrence\<rparr> else r2);
          r4 = (if h = None then r3\<lparr>dr_HeadOccurrence := emptyOccurrence\<rparr> else r3);
          r5 = r4\<lparr>dr_Basis := recordBasis b h,
                  dr_Evidence := dedupeEvidence (dr_Evidence r4),
                  dr_BaseEvidence := dedupeEvidence (dr_BaseEvidence r4),
                  dr_HeadEvidence := dedupeEvidence (dr_HeadEvidence r4)\<rparr>;
          r6 = r5\<lparr>dr_Summary := summaryFor r5,
                  dr_BaseSemanticDigests := sortDigests (dr_BaseSemanticDigests r5),
                  dr_HeadSemanticDigests := sortDigests (dr_HeadSemanticDigests r5)\<rparr>
      in r6\<lparr>dr_ID := deltaRecordID sha ComparisonProfileVersionV1Alpha1 normProfile scenario r6\<rparr>)"

definition basisForAbsence :: "bool \<Rightarrow> OccurrenceProfile \<Rightarrow> string" where
  "basisForAbsence otherComplete p =
     (if \<not> otherComplete \<or> op_Coverage p \<noteq> CoverageAssessmentComplete then BasisCoverageLimited
      else if op_Repeatability p = RepeatabilitySingleSample then BasisSingleSample
      else if op_Repeatability p = RepeatabilityVariable then BasisRepetitionVariable
      else BasisCompleteObservation)"

definition attemptsComplete :: "AttemptTrace list \<Rightarrow> bool" where
  "attemptsComplete at \<longleftrightarrow> at \<noteq> [] \<and> list_all (\<lambda>a. at_Coverage a = CoverageComplete) at"

definition ambiguityLimit :: "variant \<Rightarrow> Limitation list" where
  "ambiguityLimit v =
     (if va_ambiguous v
      then [mkLimitation ''ambiguous-correlation''
              ''Typed anchor matched multiple unmatched variants; no one-to-one modification was inferred.'']
      else [])"

text \<open>\<open>if c { fields = append(fields, name) }\<close>.\<close>

definition differs :: "bool \<Rightarrow> string \<Rightarrow> string list" where
  "differs c name = (if c then [name] else [])"

definition both :: "'a option \<Rightarrow> 'a option \<Rightarrow> ('a \<Rightarrow> 'a \<Rightarrow> string list) \<Rightarrow> string list" where
  "both x y f = (case (x, y) of (Some a, Some b) \<Rightarrow> f a b | _ \<Rightarrow> [])"

definition changedFields :: "Fact \<Rightarrow> Fact \<Rightarrow> string list" where
  "changedFields a b = slice_stable (<)
     (if fa_Kind a \<in> set filesystemKinds then
        both (fa_Filesystem a) (fa_Filesystem b) (\<lambda>x y.
          differs (ff_Digest x \<noteq> ff_Digest y) ''filesystem.digest''
          @ differs (ff_Mode x \<noteq> ff_Mode y) ''filesystem.mode''
          @ differs (ff_SizeBytes x \<noteq> ff_SizeBytes y) ''filesystem.sizeBytes''
          @ differs (ff_Executable x \<noteq> ff_Executable y) ''filesystem.executable''
          @ differs (ff_Truncated x \<noteq> ff_Truncated y) ''filesystem.truncated'')
      else if fa_Kind a = ''artifact-activity'' then
        both (fa_Artifact a) (fa_Artifact b) (\<lambda>x y.
          differs (af_Digest x \<noteq> af_Digest y) ''artifact.digest''
          @ differs (af_SizeBytes x \<noteq> af_SizeBytes y) ''artifact.sizeBytes''
          @ differs (af_Executable x \<noteq> af_Executable y) ''artifact.executable''
          @ differs (af_Operation x \<noteq> af_Operation y) ''artifact.operation'')
      else if fa_Kind a \<in> set networkKinds then
        both (fa_Network a) (fa_Network b) (\<lambda>x y.
          differs (nf_Result x \<noteq> nf_Result y) ''network.result''
          @ differs (nf_DurationMillis x \<noteq> nf_DurationMillis y) ''network.durationMillis''
          @ differs (join_nul (nf_ResolvedAddresses x) \<noteq> join_nul (nf_ResolvedAddresses y))
              ''network.resolvedAddresses'')
      else if fa_Kind a \<in> set scenarioKinds then
        both (fa_Scenario a) (fa_Scenario b) (\<lambda>x y.
          differs (sf_Status x \<noteq> sf_Status y) ''scenario.status''
          @ differs (sf_DurationMillis x \<noteq> sf_DurationMillis y) ''scenario.durationMillis''
          @ differs (sf_Message x \<noteq> sf_Message y) ''scenario.message'')
      else if fa_Kind a \<in> set warningKinds then
        both (fa_Warning a) (fa_Warning b) (\<lambda>x y.
          differs (wf_Message x \<noteq> wf_Message y) ''warning.message''
          @ differs (wf_Unsupported x \<noteq> wf_Unsupported y) ''warning.unsupported'')
      else if fa_Kind a = ''resource-limit'' then
        both (fa_Resource a) (fa_Resource b) (\<lambda>x y.
          differs (rf_LimitValue x \<noteq> rf_LimitValue y) ''resource.limitValue''
          @ differs (rf_ObservedValue x \<noteq> rf_ObservedValue y) ''resource.observedValue''
          @ differs (rf_Exceeded x \<noteq> rf_Exceeded y) ''resource.exceeded'')
      else if fa_Kind a \<in> set processKinds then
        both (fa_Process a) (fa_Process b) (\<lambda>x y.
          differs (pf_ExitCode x \<noteq> pf_ExitCode y) ''process.exitCode''
          @ differs (pf_DurationMillis x \<noteq> pf_DurationMillis y) ''process.durationMillis'')
      else [])"

section \<open>The order of facts\<close>

definition factSequence :: "AttemptTrace \<Rightarrow> Digest list" where
  "factSequence a = map fa_SemanticDigest (at_Facts a)"

definition stableSequences :: "AttemptTrace list \<Rightarrow> (Digest list) option" where
  "stableSequences at =
     (if length at < 2 then None
      else if list_all (\<lambda>a. at_Coverage a = CoverageComplete \<and> factSequence a = factSequence (hd at)) at
      then Some (factSequence (hd at)) else None)"

definition sameMultiset :: "Digest list \<Rightarrow> Digest list \<Rightarrow> bool" where
  "sameMultiset a b \<longleftrightarrow> sortDigests a = sortDigests b"

definition orderRecord :: "(string \<Rightarrow> string) \<Rightarrow> string \<Rightarrow> scenarioGroup \<Rightarrow> DeltaRecord option" where
  "orderRecord sha normProfile sg =
     (case (stableSequences (sg_base sg), stableSequences (sg_head sg)) of
        (Some b, Some h) \<Rightarrow>
          if b = [] \<or> h = [] \<or> \<not> sameMultiset b h \<or> b = h then None
          else
            let r = zeroRecord\<lparr>dr_Kind := DeltaKindOrderChanged, dr_ScenarioIDs := [sg_id sg],
                      dr_Basis := BasisCompleteObservation, dr_FactKind := ''sequence'',
                      dr_ChangedFields := [''sequence.order''], dr_BaseOccurrence := emptyOccurrence,
                      dr_HeadOccurrence := emptyOccurrence, dr_BaseSemanticDigests := b,
                      dr_HeadSemanticDigests := h,
                      dr_Summary := ''Complete repetitions contained the same semantic facts in a different stable order.''\<rparr>
            in Some (r\<lparr>dr_ID := deltaRecordID sha ComparisonProfileVersionV1Alpha1 normProfile (sg_id sg) r\<rparr>)
      | _ \<Rightarrow> None)"

section \<open>Comparing one scenario\<close>

text \<open>The first two loops: the occurrence profile and the anchor of every variant.\<close>

definition prepareVariant ::
  "(string \<Rightarrow> string) \<Rightarrow> AttemptTrace list \<Rightarrow> string \<times> variant \<Rightarrow> (string \<times> variant) result" where
  "prepareVariant sha attempts kv =
     (let v = (snd kv)\<lparr>va_profile := profileForVariant attempts (snd kv)\<rparr>
      in rbind (typedAnchorDigest sha (hd (va_facts v))) (\<lambda>a. Inr (fst kv, v\<lparr>va_anchor := a\<rparr>)))"

definition unionKeys :: "variants \<Rightarrow> variants \<Rightarrow> string list" where
  "unionKeys a b = slice_stable (<) (remdups (map fst a @ map fst b))"

definition unconsumed :: "variants \<Rightarrow> variant list" where
  "unconsumed vs = filter (\<lambda>v. \<not> va_consumed v) (map snd vs)"

text \<open>The variants listed under an anchor, and the sorted anchors of both sides.\<close>

definition anchored :: "variants \<Rightarrow> Digest \<Rightarrow> variant list" where
  "anchored vs a = filter (\<lambda>v. va_anchor v \<noteq> [] \<and> va_anchor v = a) (unconsumed vs)"

definition anchorsOf :: "variants \<Rightarrow> Digest list" where
  "anchorsOf vs = filter (\<lambda>a. a \<noteq> []) (map va_anchor (unconsumed vs))"

definition unionAnchorKeys :: "variants \<Rightarrow> variants \<Rightarrow> Digest list" where
  "unionAnchorKeys a b = slice_stable (<) (remdups (anchorsOf a @ anchorsOf b))"

definition mark :: "(variant \<Rightarrow> variant) \<Rightarrow> string list \<Rightarrow> variants \<Rightarrow> variants" where
  "mark f ks vs = map (\<lambda>(k, v). (k, if k \<in> set ks then f v else v)) vs"

abbreviation consume :: "string list \<Rightarrow> variants \<Rightarrow> variants" where
  "consume \<equiv> mark (\<lambda>v. v\<lparr>va_consumed := True\<rparr>)"

abbreviation ambiguate :: "string list \<Rightarrow> variants \<Rightarrow> variants" where
  "ambiguate \<equiv> mark (\<lambda>v. v\<lparr>va_ambiguous := True\<rparr>)"

definition sortedVariants :: "variants \<Rightarrow> variant list" where
  "sortedVariants vs = map (\<lambda>k. the (map_of vs k)) (slice_stable (<) (map fst vs))"

record matchState =
  ms_base :: variants
  ms_head :: variants
  ms_records :: "DeltaRecord list"

text \<open>One key that occurs on a side: consumed when it occurs on both.\<close>

definition exactStep ::
  "(string \<Rightarrow> string) \<Rightarrow> string \<Rightarrow> string \<Rightarrow> string \<Rightarrow> matchState \<Rightarrow> matchState" where
  "exactStep sha normProfile sid k st =
     (case (map_of (ms_base st) k, map_of (ms_head st) k) of
        (Some b, Some h) \<Rightarrow>
          let st' = st\<lparr>ms_base := consume [k] (ms_base st), ms_head := consume [k] (ms_head st)\<rparr> in
          if occurrenceEqual (va_profile b) (va_profile h) then st'
          else
            let kind = (if op_Repeatability (va_profile b) \<noteq> op_Repeatability (va_profile h)
                        then DeltaKindStabilityChanged else DeltaKindCountChanged)
            in st'\<lparr>ms_records := ms_records st
                     @ [makeRecord sha normProfile sid kind (Some b) (Some h) [] []]\<rparr>
      | _ \<Rightarrow> st)"

text \<open>
  One anchor. The lists under the anchor were filled before the loop: \<open>bs\<close> and \<open>hs\<close>.
\<close>

definition anchorStep ::
  "(string \<Rightarrow> string) \<Rightarrow> string \<Rightarrow> string \<Rightarrow> (Digest \<Rightarrow> variant list) \<Rightarrow> (Digest \<Rightarrow> variant list)
   \<Rightarrow> Digest \<Rightarrow> matchState \<Rightarrow> matchState" where
  "anchorStep sha normProfile sid anchorBase anchorHead a st =
     (let bs = anchorBase a; hs = anchorHead a in
      if length bs = 1 \<and> length hs = 1 \<and> va_kind (hd bs) = va_kind (hd hs)
         \<and> va_source (hd bs) = va_source (hd hs) then
        let b = hd bs; h = hd hs; changed = changedFields (hd (va_facts b)) (hd (va_facts h)) in
        if changed \<noteq> [] then
          st\<lparr>ms_base := consume [va_key b] (ms_base st), ms_head := consume [va_key h] (ms_head st),
             ms_records := ms_records st
               @ [makeRecord sha normProfile sid DeltaKindModified (Some b) (Some h) changed []]\<rparr>
        else st
      else if bs \<noteq> [] \<and> hs \<noteq> [] then
        st\<lparr>ms_base := ambiguate (map va_key bs) (ms_base st),
           ms_head := ambiguate (map va_key hs) (ms_head st)\<rparr>
      else st)"

definition removedRecord ::
  "(string \<Rightarrow> string) \<Rightarrow> string \<Rightarrow> string \<Rightarrow> bool \<Rightarrow> variant \<Rightarrow> DeltaRecord" where
  "removedRecord sha normProfile sid headComplete v =
     (makeRecord sha normProfile sid
        (if headComplete then DeltaKindRemoved else DeltaKindCoverageChanged)
        (Some v) None [] (ambiguityLimit v))
     \<lparr>dr_Basis := basisForAbsence headComplete (va_profile v)\<rparr>"

definition addedRecord ::
  "(string \<Rightarrow> string) \<Rightarrow> string \<Rightarrow> string \<Rightarrow> bool \<Rightarrow> variant \<Rightarrow> DeltaRecord" where
  "addedRecord sha normProfile sid baseComplete v =
     (makeRecord sha normProfile sid
        (if baseComplete then DeltaKindAdded else DeltaKindCoverageChanged)
        None (Some v) [] (ambiguityLimit v))
     \<lparr>dr_Basis := basisForAbsence baseComplete (va_profile v)\<rparr>"

text \<open>The exact and the anchor loop on the variants of both sides.\<close>

definition matchVariants ::
  "(string \<Rightarrow> string) \<Rightarrow> string \<Rightarrow> string \<Rightarrow> variants \<Rightarrow> variants \<Rightarrow> matchState" where
  "matchVariants sha normProfile sid base head =
     (let st1 = fold (exactStep sha normProfile sid) (unionKeys base head)
                  \<lparr>ms_base = base, ms_head = head, ms_records = []\<rparr>
      in fold (anchorStep sha normProfile sid (anchored (ms_base st1)) (anchored (ms_head st1)))
           (unionAnchorKeys (ms_base st1) (ms_head st1)) st1)"

definition compareScenario ::
  "(string \<Rightarrow> string) \<Rightarrow> string \<Rightarrow> scenarioGroup \<Rightarrow> (DeltaRecord list \<times> nat) result" where
  "compareScenario sha normProfile sg =
     rbind (map_result (prepareVariant sha (sg_base sg)) (buildVariants (sg_base sg))) (\<lambda>base.
     rbind (map_result (prepareVariant sha (sg_head sg)) (buildVariants (sg_head sg))) (\<lambda>head.
     let st = matchVariants sha normProfile (sg_id sg) base head;
         baseComplete = attemptsComplete (sg_base sg);
         headComplete = attemptsComplete (sg_head sg);
         removed = map (removedRecord sha normProfile (sg_id sg) headComplete)
                     (filter (\<lambda>v. \<not> va_consumed v) (sortedVariants (ms_base st)));
         added = map (addedRecord sha normProfile (sg_id sg) baseComplete)
                     (filter (\<lambda>v. \<not> va_consumed v) (sortedVariants (ms_head st)));
         order = (case orderRecord sha normProfile sg of
                    Some od \<Rightarrow> if dr_ID od \<noteq> [] then [od] else [] | None \<Rightarrow> []);
         records = ms_records st @ removed @ added @ order
     in Inr (records,
             sum_list (map (\<lambda>r. length (dr_BaseEvidence r) + length (dr_HeadEvidence r)) records))))"

section \<open>Comparing the document\<close>

definition attemptCoverageOf :: "AttemptTrace \<Rightarrow> AttemptCoverage" where
  "attemptCoverageOf a = \<lparr>ac_AttemptID = at_AttemptID a, ac_Revision = at_Revision a,
     ac_Repetition = at_Repetition a,
     ac_Coverage = (if at_Coverage a = CoverageComplete then CoverageAssessmentComplete
                    else if at_Coverage a = CoverageNotStarted then CoverageAssessmentNone
                    else CoverageAssessmentPartial)\<rparr>"

definition scenarioComparison :: "scenarioGroup \<Rightarrow> ScenarioComparison \<times> Limitation list" where
  "scenarioComparison sg =
     (let complete = attemptsComplete (sg_base sg) \<and> attemptsComplete (sg_head sg) in
      (\<lparr>sc_ScenarioID = sg_id sg, sc_BaseRepetitions = map attemptCoverageOf (sg_base sg),
        sc_HeadRepetitions = map attemptCoverageOf (sg_head sg),
        sc_Coverage = (if complete then CoverageAssessmentComplete
                       else if length (sg_base sg) + length (sg_head sg) > 0
                       then CoverageAssessmentPartial else CoverageAssessmentNone),
        sc_RepeatabilityNotes = [], sc_Limitations = []\<rparr>,
       if \<not> complete
       then [mkLimitation ''scenario-coverage-limited''
               ''At least one repetition has incomplete observation coverage.'']
       else []))"

definition coverageRecord ::
  "(string \<Rightarrow> string) \<Rightarrow> string \<Rightarrow> scenarioGroup \<Rightarrow> Limitation \<Rightarrow> DeltaRecord" where
  "coverageRecord sha normProfile sg lim =
     (let r = zeroRecord\<lparr>dr_Kind := DeltaKindCoverageChanged,
                dr_Summary := ''Scenario coverage limitation is explicit comparison data.'',
                dr_Basis := BasisCoverageLimited, dr_ScenarioIDs := [sg_id sg],
                dr_Limitations := [lim], dr_BaseOccurrence := emptyOccurrence,
                dr_HeadOccurrence := emptyOccurrence\<rparr>
      in r\<lparr>dr_ID := deltaRecordID sha ComparisonProfileVersionV1Alpha1 normProfile (sg_id sg) r\<rparr>)"

definition rankKind :: "string \<Rightarrow> nat" where
  "rankKind k =
     (if k = DeltaKindCoverageChanged then 0 else if k = DeltaKindStabilityChanged then 1
      else if k = DeltaKindAdded then 2 else if k = DeltaKindRemoved then 3
      else if k = DeltaKindModified then 4 else if k = DeltaKindCountChanged then 5
      else if k = DeltaKindOrderChanged then 6 else 9)"

definition recordLess :: "DeltaRecord \<Rightarrow> DeltaRecord \<Rightarrow> bool" where
  "recordLess a b =
     (if firstScenario (dr_ScenarioIDs a) \<noteq> firstScenario (dr_ScenarioIDs b)
      then firstScenario (dr_ScenarioIDs a) < firstScenario (dr_ScenarioIDs b)
      else if rankKind (dr_Kind a) \<noteq> rankKind (dr_Kind b)
      then rankKind (dr_Kind a) < rankKind (dr_Kind b)
      else if dr_FactKind a \<noteq> dr_FactKind b then dr_FactKind a < dr_FactKind b
      else if dr_Source a \<noteq> dr_Source b then dr_Source a < dr_Source b
      else if dr_AnchorDigest a \<noteq> dr_AnchorDigest b then dr_AnchorDigest a < dr_AnchorDigest b
      else dr_ID a < dr_ID b)"

definition sortRecords :: "DeltaRecord list \<Rightarrow> DeltaRecord list" where
  "sortRecords rs = slice_stable recordLess rs"

definition countKind :: "string \<Rightarrow> DeltaRecord list \<Rightarrow> int" where
  "countKind k rs = int (length (filter (\<lambda>r. dr_Kind r = k) rs))"

definition summarize :: "DeltaRecord list \<Rightarrow> DeltaSummary" where
  "summarize rs = \<lparr>ds_TotalRecords = int (length rs), ds_Added = countKind DeltaKindAdded rs,
     ds_Removed = countKind DeltaKindRemoved rs, ds_Modified = countKind DeltaKindModified rs,
     ds_CountChanged = countKind DeltaKindCountChanged rs,
     ds_OrderChanged = countKind DeltaKindOrderChanged rs,
     ds_StabilityChanged = countKind DeltaKindStabilityChanged rs,
     ds_CoverageChanged = countKind DeltaKindCoverageChanged rs\<rparr>"

text \<open>
  The loop over the scenario groups: records and scenario comparisons so far and the total of
  evidence references; \<open>ctx\<close> answers the polls of the remaining groups.
\<close>

fun compareGroups ::
  "(string \<Rightarrow> string) \<Rightarrow> CompareLimits \<Rightarrow> string \<Rightarrow> go_context \<Rightarrow> scenarioGroup list
   \<Rightarrow> DeltaRecord list \<Rightarrow> ScenarioComparison list \<Rightarrow> nat
   \<Rightarrow> (DeltaRecord list \<times> ScenarioComparison list) result" where
  "compareGroups sha limits norm ctx [] records scenarios totalRefs = Inr (records, scenarios)"
| "compareGroups sha limits norm ctx (sg # sgs) records scenarios totalRefs =
     rcheck (map_option compare_contextErr (ctx 0)) (
     let (sc, lims) = scenarioComparison sg;
         records1 = records @ map (coverageRecord sha norm sg) lims in
     rbind (compareScenario sha norm sg) (\<lambda>(recs, refs).
     let records2 = records1 @ recs; total = totalRefs + refs in
     if int total > cl_MaxEvidenceRefsTotal limits
     then Inl (compareErr ''evidence-reference-limit'' ''records'' (sg_id sg) ''evidence'')
     else if int (length records2) > cl_MaxDeltaRecords limits
     then Inl (compareErr ''delta-limit'' ''records'' (sg_id sg) ''count'')
     else compareGroups sha limits norm (ctx \<circ> Suc) sgs records2 (scenarios @ [sc]) total))"

definition fillID :: "(string \<Rightarrow> string) \<Rightarrow> string \<Rightarrow> DeltaRecord \<Rightarrow> DeltaRecord" where
  "fillID sha norm r =
     (if dr_ID r = []
      then r\<lparr>dr_ID := deltaRecordID sha ComparisonProfileVersionV1Alpha1 norm
                         (firstScenario (dr_ScenarioIDs r)) r\<rparr>
      else r)"

record FrozenDelta =
  fd_doc :: BehavioralDelta
  fd_json :: string
  fd_digest :: Digest

text \<open>The document, before it is serialized.\<close>

definition compareBody ::
  "(string \<Rightarrow> string) \<Rightarrow> CompareLimits \<Rightarrow> go_context \<Rightarrow> TraceSetDocument \<Rightarrow> BehavioralDelta result" where
  "compareBody sha limits ctx doc =
     rcheck (map_option compare_contextErr (ctx 0)) (
     rcheck (validateTraceDocument doc limits) (
     let norm = np_Version (ts_Profile doc); groups = groupScenarios (ts_Attempts doc) in
     rbind (compareGroups sha limits norm (ctx \<circ> Suc) groups [] [] 0) (\<lambda>(records, scenarios).
     let records1 = map (fillID sha norm) (sortRecords records) in
     Inr \<lparr>bd_SchemaVersion = SchemaVersionBehavioralDeltaV1Alpha1,
          bd_ID = ''delta-'' @ take 16 (drop 7 (ts_PlanDigest doc)), bd_RunID = ts_RunID doc,
          bd_Base = zeroCommit, bd_Head = zeroCommit,
          bd_PlanDigest = ts_PlanDigest doc, bd_ManifestDigest = ts_ManifestDigest doc,
          bd_ManifestVerificationMode = mv_Mode (ts_ManifestVerification doc),
          bd_ExecutionComplete = ts_ExecutionComplete doc,
          bd_EvidenceComplete = ts_EvidenceComplete doc,
          bd_EvidenceContext = ts_EvidenceContext doc, bd_ComparisonProfile = comparisonProfile,
          bd_NormalizationProfileVersion = norm, bd_ScenarioIDs = map sg_id groups,
          bd_ScenarioComparisons = scenarios, bd_Summary = summarize records1,
          bd_Records = records1, bd_Limitations = sortLimitations (ts_Limitations doc)\<rparr>)))"

text \<open>\<open>marshal\<close> is \<open>json.Marshal\<close>: the bytes, or an error.\<close>

definition compareDocument ::
  "(string \<Rightarrow> string) \<Rightarrow> (BehavioralDelta \<Rightarrow> string option) \<Rightarrow> CompareLimits \<Rightarrow> go_context
   \<Rightarrow> TraceSetDocument \<Rightarrow> FrozenDelta result" where
  "compareDocument sha marshal limits ctx doc =
     rbind (compareBody sha limits ctx doc) (\<lambda>delta.
     case marshal delta of
       None \<Rightarrow> Inl (compareErr ''serialization-failed'' ''freeze'' [] ''json'')
     | Some data \<Rightarrow>
         if int (length data) > cl_MaxDeltaJSONBytes limits
         then Inl (compareErr ''delta-too-large'' ''freeze'' [] ''json'')
         else Inr \<lparr>fd_doc = delta, fd_json = data, fd_digest = digestBytes sha deltaJSONDomain data\<rparr>)"

definition Compare ::
  "(string \<Rightarrow> string) \<Rightarrow> (BehavioralDelta \<Rightarrow> string option) \<Rightarrow> CompareLimits option \<Rightarrow> go_context
   \<Rightarrow> TraceSetDocument option \<Rightarrow> FrozenDelta result" where
  "Compare sha marshal c ctx traces =
     rcheck (map_option compare_contextErr (ctx 0))
     (case c of
        None \<Rightarrow> Inl (compareErr ''invalid-limits'' ''compare'' [] ''comparator'')
      | Some limits \<Rightarrow>
         (case traces of
            None \<Rightarrow> Inl (compareErr ''nil-trace-set'' ''input'' [] ''traceSet'')
          | Some doc \<Rightarrow> compareDocument sha marshal limits (ctx \<circ> Suc) doc))"

end
