(* ===== verification/Compare_Facts.thy ===== *)
theory Compare_Facts
  imports Compare
begin

text \<open>
  What the comparator guarantees: the occurrence profiles count what they say, the variants of a side
  partition its facts, every variant ends in exactly one of the outcomes of the matching, and
  absence is only claimed for a side that was observed completely.
\<close>

section \<open>Occurrence profiles\<close>

definition completeCounts :: "repetitionFacts list \<Rightarrow> int list" where
  "completeCounts reps =
     map (\<lambda>r. int (rpf_facts r)) (filter (\<lambda>r. rpf_coverage r = CoverageComplete) reps)"

text \<open>What the loop has computed after the repetitions \<open>reps\<close>.\<close>

definition profile_counts :: "repetitionFacts list \<Rightarrow> OccurrenceProfile \<Rightarrow> bool \<Rightarrow> bool" where
  "profile_counts reps out minSet \<longleftrightarrow>
     op_CompleteRepetitionCount out = int (length (completeCounts reps))
     \<and> op_CompleteRepetitionCount out + op_IncompleteRepetitionCount out = int (length reps)
     \<and> op_TotalKnownCount out = sum_list (completeCounts reps)
     \<and> op_MinimumKnownCount out = (if completeCounts reps = [] then 0 else Min (set (completeCounts reps)))
     \<and> op_MaximumKnownCount out = (if completeCounts reps = [] then 0 else Max (set (completeCounts reps)))
     \<and> minSet = (completeCounts reps \<noteq> [])
     \<and> map ro_Repetition (op_Repetitions out) = map rpf_repetition reps
     \<and> length (filter ro_CountKnown (op_Repetitions out)) = length (completeCounts reps)"

lemma completeCounts_nonneg: "c \<in> set (completeCounts reps) \<Longrightarrow> 0 \<le> c"
  by (auto simp: completeCounts_def)

lemma completeCounts_snoc:
  "completeCounts (reps @ [r]) =
     completeCounts reps @ (if rpf_coverage r = CoverageComplete then [int (rpf_facts r)] else [])"
  by (simp add: completeCounts_def)

lemma occurrenceStep_counts:
  assumes "profile_counts reps out minSet" and "occurrenceStep r (out, minSet) = (out', minSet')"
  shows "profile_counts (reps @ [r]) out' minSet'
    \<and> op_PlannedRepetitionCount out' = op_PlannedRepetitionCount out"
proof (cases "rpf_coverage r = CoverageComplete")
  case False
  with assms show ?thesis
    by (auto simp: profile_counts_def occurrenceStep_def completeCounts_snoc)
next
  case True
  let ?cs = "completeCounts reps" and ?x = "int (rpf_facts r)"
  have mx: "(if ?x > op_MaximumKnownCount out then ?x else op_MaximumKnownCount out)
      = Max (set (?cs @ [?x]))"
  proof (cases "?cs = []")
    case False
    then have "Max (set ?cs) = op_MaximumKnownCount out"
      using assms(1) by (simp add: profile_counts_def)
    with False Max_insert [of "set ?cs" ?x] show ?thesis by (simp only: max_def) simp
  qed (use assms(1) in \<open>simp add: profile_counts_def\<close>)
  have mn: "(if \<not> minSet \<or> ?x < op_MinimumKnownCount out then ?x else op_MinimumKnownCount out)
      = Min (set (?cs @ [?x]))"
  proof (cases "?cs = []")
    case False
    then have "Min (set ?cs) = op_MinimumKnownCount out" and minSet
      using assms(1) by (simp_all add: profile_counts_def)
    with False Min_insert [of "set ?cs" ?x] show ?thesis by (simp only: min_def) simp
  qed (use assms(1) in \<open>simp add: profile_counts_def\<close>)
  show ?thesis
    using assms True mx mn
    by (auto simp: profile_counts_def occurrenceStep_def completeCounts_snoc Let_def)
qed

lemma occurrenceFold_counts:
  "\<exists>out minSet. fold occurrenceStep reps (zeroOccurrence\<lparr>op_PlannedRepetitionCount := n\<rparr>, False) = (out, minSet)
     \<and> profile_counts reps out minSet \<and> op_PlannedRepetitionCount out = n"
proof (induction reps rule: rev_induct)
  case Nil
  then show ?case by (auto simp: profile_counts_def completeCounts_def zeroOccurrence_def)
next
  case (snoc r reps)
  then obtain out minSet where
    "fold occurrenceStep reps (zeroOccurrence\<lparr>op_PlannedRepetitionCount := n\<rparr>, False) = (out, minSet)"
    "profile_counts reps out minSet" "op_PlannedRepetitionCount out = n"
    by blast
  moreover obtain out' minSet' where "occurrenceStep r (out, minSet) = (out', minSet')"
    by fastforce
  ultimately show ?case
    using occurrenceStep_counts [of reps out minSet r out' minSet'] by simp
qed

lemma buildOccurrenceProfile_spec:
  fixes planned reps
  defines "p \<equiv> buildOccurrenceProfile planned reps" and "cs \<equiv> completeCounts reps"
  shows "op_PlannedRepetitionCount p = int planned"
    and "op_CompleteRepetitionCount p = int (length cs)"
    and "op_CompleteRepetitionCount p + op_IncompleteRepetitionCount p = int (length reps)"
    and "op_TotalKnownCount p = sum_list cs"
    and "op_MinimumKnownCount p = (if cs = [] then 0 else Min (set cs))"
    and "op_MaximumKnownCount p = (if cs = [] then 0 else Max (set cs))"
    and "map ro_Repetition (op_Repetitions p) = map rpf_repetition reps"
    and "op_Coverage p = (if length cs = planned then CoverageAssessmentComplete
           else if cs \<noteq> [] then CoverageAssessmentPartial else CoverageAssessmentNone)"
    and "op_Repeatability p =
           (if length cs \<noteq> planned \<or> cs = [] then RepeatabilityNotAssessable
            else if length cs = 1 then RepeatabilitySingleSample
            else if Min (set cs) = Max (set cs) then RepeatabilityStable else RepeatabilityVariable)"
proof -
  obtain out minSet where f:
    "fold occurrenceStep reps (zeroOccurrence\<lparr>op_PlannedRepetitionCount := int planned\<rparr>, False) = (out, minSet)"
    and c: "profile_counts reps out minSet" and pl: "op_PlannedRepetitionCount out = int planned"
    using occurrenceFold_counts by blast
  show "op_PlannedRepetitionCount p = int planned"
    "op_CompleteRepetitionCount p = int (length cs)"
    "op_CompleteRepetitionCount p + op_IncompleteRepetitionCount p = int (length reps)"
    "op_TotalKnownCount p = sum_list cs"
    "op_MinimumKnownCount p = (if cs = [] then 0 else Min (set cs))"
    "op_MaximumKnownCount p = (if cs = [] then 0 else Max (set cs))"
    "map ro_Repetition (op_Repetitions p) = map rpf_repetition reps"
    using c pl unfolding p_def cs_def buildOccurrenceProfile_def f profile_counts_def Let_def
    by simp_all
  show "op_Coverage p = (if length cs = planned then CoverageAssessmentComplete
      else if cs \<noteq> [] then CoverageAssessmentPartial else CoverageAssessmentNone)"
    using c unfolding p_def cs_def buildOccurrenceProfile_def f profile_counts_def Let_def by simp
  show "op_Repeatability p =
      (if length cs \<noteq> planned \<or> cs = [] then RepeatabilityNotAssessable
       else if length cs = 1 then RepeatabilitySingleSample
       else if Min (set cs) = Max (set cs) then RepeatabilityStable else RepeatabilityVariable)"
    using c unfolding p_def cs_def buildOccurrenceProfile_def f profile_counts_def Let_def by auto
qed

section \<open>Variants partition the facts of a side\<close>

definition tagged :: "AttemptTrace list \<Rightarrow> (nat \<times> Fact) list" where
  "tagged at = concat (map (\<lambda>a. map (Pair (at_Repetition a)) (at_Facts a)) at)"

definition allFacts :: "AttemptTrace list \<Rightarrow> Fact list" where
  "allFacts at = concat (map at_Facts at)"

lemma map_snd_tagged: "map snd (tagged at) = allFacts at"
  by (induction at) (simp_all add: tagged_def allFacts_def comp_def)

lemma buildVariants_tagged: "buildVariants at = fold (\<lambda>(r, f). addFact r f) (tagged at) []"
proof -
  have "fold (\<lambda>a out. fold (addFact (at_Repetition a)) (at_Facts a) out) at out
      = fold (\<lambda>(r, f). addFact r f) (tagged at) out" for out
    by (induction at arbitrary: out) (simp_all add: tagged_def fold_map comp_def)
  then show ?thesis by (simp add: buildVariants_def)
qed

text \<open>The variant of a key over the tagged facts seen so far.\<close>

definition is_variant_of :: "(nat \<times> Fact) list \<Rightarrow> string \<Rightarrow> variant \<Rightarrow> bool" where
  "is_variant_of rfs k v \<longleftrightarrow>
     (let ms = filter (\<lambda>(r, f). variantKey f = k) rfs in
      ms \<noteq> [] \<and> va_key v = k \<and> va_kind v = fa_Kind (snd (hd ms)) \<and> va_source v = fa_Source (snd (hd ms))
      \<and> va_semantic v = fa_SemanticDigest (snd (hd ms)) \<and> va_facts v = map snd ms
      \<and> (\<forall>r. factsOfRep v r = map snd (filter (\<lambda>(r', f). r' = r) ms))
      \<and> \<not> va_consumed v \<and> \<not> va_ambiguous v)"

definition variants_of :: "(nat \<times> Fact) list \<Rightarrow> variants \<Rightarrow> bool" where
  "variants_of rfs out \<longleftrightarrow> distinct (map fst out)
     \<and> (\<forall>k. case map_of out k of None \<Rightarrow> \<forall>(r, f)\<in>set rfs. variantKey f \<noteq> k
                                | Some v \<Rightarrow> is_variant_of rfs k v)"

lemma variants_of_None:
  "variants_of rfs out \<Longrightarrow> map_of out k = None \<longleftrightarrow> k \<notin> variantKey ` snd ` set rfs"
proof
  assume v: "variants_of rfs out" and n: "map_of out k = None"
  have "case map_of out k of None \<Rightarrow> \<forall>(r, f)\<in>set rfs. variantKey f \<noteq> k | Some v \<Rightarrow> is_variant_of rfs k v"
    using v unfolding variants_of_def by blast
  with n show "k \<notin> variantKey ` snd ` set rfs" by auto
next
  assume v: "variants_of rfs out" and n: "k \<notin> variantKey ` snd ` set rfs"
  have "case map_of out k of None \<Rightarrow> \<forall>(r, f)\<in>set rfs. variantKey f \<noteq> k | Some v \<Rightarrow> is_variant_of rfs k v"
    using v unfolding variants_of_def by blast
  with n show "map_of out k = None"
    by (force simp: is_variant_of_def filter_empty_conv Let_def split: option.splits)
qed

lemma variants_of_Some:
  assumes "variants_of rfs out" and "map_of out k = Some v"
  shows "is_variant_of rfs k v"
proof -
  have "case map_of out k of None \<Rightarrow> \<forall>(r, f)\<in>set rfs. variantKey f \<noteq> k | Some v \<Rightarrow> is_variant_of rfs k v"
    using assms(1) unfolding variants_of_def by blast
  with assms(2) show ?thesis by simp
qed

lemma factsOfRep_update:
  "factsOfRep (v\<lparr>va_factsByRep := AList.update r fs (va_factsByRep v), va_facts := gs\<rparr>) r'
     = (if r' = r then fs else factsOfRep v r')"
  by (simp add: factsOfRep_def update_conv)

lemma addFact_variants_of:
  assumes "variants_of rfs out"
  shows "variants_of (rfs @ [(r, f)]) (addFact r f out)"
proof -
  let ?k = "variantKey f"
  let ?v = "case map_of out ?k of None \<Rightarrow> newVariant f | Some v \<Rightarrow> v"
  let ?v' = "?v\<lparr>va_factsByRep := AList.update r (factsOfRep ?v r @ [f]) (va_factsByRep ?v),
                va_facts := va_facts ?v @ [f]\<rparr>"
  have out': "addFact r f out = AList.update ?k ?v' out"
    by (simp add: addFact_def Let_def)
  have dist: "distinct (map fst (addFact r f out))"
    using assms by (simp add: out' variants_of_def distinct_update)
  have none: "filter (\<lambda>(r, f). variantKey f = ?k) rfs = []" if "map_of out ?k = None"
  proof -
    have "?k \<notin> variantKey ` snd ` set rfs"
      using variants_of_None [OF assms] that by blast
    then show ?thesis unfolding filter_empty_conv by (auto simp: image_iff)
  qed
  have v': "is_variant_of (rfs @ [(r, f)]) ?k ?v'"
  proof (cases "map_of out ?k")
    case None
    have "factsOfRep (newVariant f) q = []" for q
      by (simp add: factsOfRep_def newVariant_def)
    with None none [OF None] show ?thesis
      by (simp add: is_variant_of_def factsOfRep_update newVariant_def) (simp add: factsOfRep_def)
  next
    case (Some v)
    then have "is_variant_of rfs ?k v"
      using variants_of_Some [OF assms] by blast
    with Some show ?thesis
      by (auto simp: is_variant_of_def factsOfRep_update Let_def hd_append)
  qed
  have other: "is_variant_of (rfs @ [(r, f)]) k v" if "is_variant_of rfs k v" "k \<noteq> ?k" for k v
    using that by (simp add: is_variant_of_def)
  show ?thesis
    unfolding variants_of_def
  proof (intro conjI allI)
    show "distinct (map fst (addFact r f out))" by (rule dist)
  next
    fix k
    show "case map_of (addFact r f out) k of
            None \<Rightarrow> \<forall>(r, g)\<in>set (rfs @ [(r, f)]). variantKey g \<noteq> k
          | Some v \<Rightarrow> is_variant_of (rfs @ [(r, f)]) k v"
    proof (cases "k = ?k")
      case True
      with v' show ?thesis by (simp add: out' update_conv)
    next
      case False
      then have "map_of (addFact r f out) k = map_of out k"
        by (simp add: out' update_conv)
      moreover have "case map_of out k of None \<Rightarrow> \<forall>(r, f)\<in>set rfs. variantKey f \<noteq> k
          | Some v \<Rightarrow> is_variant_of rfs k v"
        using assms unfolding variants_of_def by blast
      ultimately show ?thesis
        using False other by (auto split: option.splits)
    qed
  qed
qed

lemma buildVariants_variants_of: "variants_of (tagged at) (buildVariants at)"
proof -
  have "variants_of rfs (fold (\<lambda>(r, f). addFact r f) rfs [])" for rfs
  proof (induction rfs rule: rev_induct)
    case Nil
    show ?case by (simp add: variants_of_def)
  next
    case (snoc rf rfs)
    then show ?case using addFact_variants_of by (cases rf) simp
  qed
  then show ?thesis by (simp add: buildVariants_tagged)
qed

end
