(* ===== verification/Compare_Match.thy ===== *)
theory Compare_Match
  imports Compare_Facts
begin

text \<open>
  The two matching loops of \<open>compareScenario\<close> in closed form. Marking is a fold over keys and anchors
  that touches every variant at most once; the records of the exact loop are those of the keys on both
  sides, the records of the anchor loop those of the anchors that pair one variant with one.
\<close>

section \<open>Marking\<close>

lemma mark_Nil [simp]: "mark f [] vs = vs"
  by (simp add: mark_def)

lemma map_fst_mark [simp]: "map fst (mark f ks vs) = map fst vs"
  by (simp add: mark_def comp_def case_prod_unfold)

lemma map_of_mark: "map_of (mark f ks vs) k = map_option (if k \<in> set ks then f else id) (map_of vs k)"
  by (induction vs) (auto simp: mark_def)

lemma consume_consume: "consume ks (consume js vs) = consume (js @ ks) vs"
  by (auto simp: mark_def)

lemma ambiguate_ambiguate: "ambiguate ks (ambiguate js vs) = ambiguate (js @ ks) vs"
  by (auto simp: mark_def)

lemma consume_ambiguate: "consume ks (ambiguate js vs) = ambiguate js (consume ks vs)"
  by (auto simp: mark_def)

section \<open>The exact loop\<close>

definition onBoth :: "variants \<Rightarrow> variants \<Rightarrow> string \<Rightarrow> bool" where
  "onBoth base head k \<longleftrightarrow> k \<in> fst ` set base \<and> k \<in> fst ` set head"

definition exactRecords ::
  "(string \<Rightarrow> string) \<Rightarrow> string \<Rightarrow> string \<Rightarrow> variants \<Rightarrow> variants \<Rightarrow> string \<Rightarrow> DeltaRecord list" where
  "exactRecords sha norm sid base head k =
     (case (map_of base k, map_of head k) of
        (Some b, Some h) \<Rightarrow>
          if va_profile b = va_profile h then []
          else [makeRecord sha norm sid
                  (if op_Repeatability (va_profile b) \<noteq> op_Repeatability (va_profile h)
                   then DeltaKindStabilityChanged else DeltaKindCountChanged)
                  (Some b) (Some h) [] []]
      | _ \<Rightarrow> [])"

lemma onBoth_map_of: "onBoth base head k \<longleftrightarrow> map_of base k \<noteq> None \<and> map_of head k \<noteq> None"
  by (auto simp: onBoth_def map_of_eq_None_iff)

lemma exactStep_unmarked:
  assumes "k \<notin> set js"
  shows "exactStep sha norm sid k
      \<lparr>ms_base = consume js base, ms_head = consume js head, ms_records = rs\<rparr>
    = \<lparr>ms_base = consume (js @ filter (onBoth base head) [k]) base,
       ms_head = consume (js @ filter (onBoth base head) [k]) head,
       ms_records = rs @ exactRecords sha norm sid base head k\<rparr>"
  using assms
  by (auto simp: exactStep_def exactRecords_def occurrenceEqual_def map_of_mark onBoth_map_of
      consume_consume Let_def split: option.splits)

lemma exactFold:
  assumes "distinct (js @ ks)"
  shows "fold (exactStep sha norm sid) ks
      \<lparr>ms_base = consume (filter (onBoth base head) js) base,
       ms_head = consume (filter (onBoth base head) js) head, ms_records = rs\<rparr>
    = \<lparr>ms_base = consume (filter (onBoth base head) (js @ ks)) base,
       ms_head = consume (filter (onBoth base head) (js @ ks)) head,
       ms_records = rs @ concat (map (exactRecords sha norm sid base head) ks)\<rparr>"
  using assms
proof (induction ks arbitrary: js rs)
  case (Cons k ks)
  have "k \<notin> set (filter (onBoth base head) js)" using Cons.prems by auto
  from exactStep_unmarked [OF this] Cons.IH [of "js @ [k]"] Cons.prems show ?case
    by simp
qed simp

lemma distinct_unionKeys: "distinct (unionKeys a b)"
  by (simp add: unionKeys_def)

lemma set_unionKeys: "set (unionKeys a b) = fst ` set a \<union> fst ` set b"
  by (simp add: unionKeys_def)

definition sharedKeys :: "variants \<Rightarrow> variants \<Rightarrow> string list" where
  "sharedKeys base head = filter (onBoth base head) (unionKeys base head)"

lemma set_sharedKeys: "k \<in> set (sharedKeys base head) \<longleftrightarrow> onBoth base head k"
  by (auto simp: sharedKeys_def set_unionKeys onBoth_def)

section \<open>The anchor loop\<close>

text \<open>An anchor that pairs exactly one unmatched base variant with one of the head.\<close>

definition pairedBy ::
  "(Digest \<Rightarrow> variant list) \<Rightarrow> (Digest \<Rightarrow> variant list) \<Rightarrow> Digest \<Rightarrow> (variant \<times> variant) option" where
  "pairedBy ab ah a =
     (if length (ab a) = 1 \<and> length (ah a) = 1 \<and> va_kind (hd (ab a)) = va_kind (hd (ah a))
         \<and> va_source (hd (ab a)) = va_source (hd (ah a))
         \<and> changedFields (hd (va_facts (hd (ab a)))) (hd (va_facts (hd (ah a)))) \<noteq> []
      then Some (hd (ab a), hd (ah a)) else None)"

definition crowded :: "(Digest \<Rightarrow> variant list) \<Rightarrow> (Digest \<Rightarrow> variant list) \<Rightarrow> Digest \<Rightarrow> bool" where
  "crowded ab ah a \<longleftrightarrow> \<not> (length (ab a) = 1 \<and> length (ah a) = 1 \<and> va_kind (hd (ab a)) = va_kind (hd (ah a))
         \<and> va_source (hd (ab a)) = va_source (hd (ah a))) \<and> ab a \<noteq> [] \<and> ah a \<noteq> []"

definition pairKeys :: "('a \<Rightarrow> variant) \<Rightarrow> 'a option \<Rightarrow> string list" where
  "pairKeys sel p = (case p of None \<Rightarrow> [] | Some bh \<Rightarrow> [va_key (sel bh)])"

definition modifiedRecords ::
  "(string \<Rightarrow> string) \<Rightarrow> string \<Rightarrow> string \<Rightarrow> (variant \<times> variant) option \<Rightarrow> DeltaRecord list" where
  "modifiedRecords sha norm sid p =
     (case p of
        None \<Rightarrow> []
      | Some (b, h) \<Rightarrow> [makeRecord sha norm sid DeltaKindModified (Some b) (Some h)
                          (changedFields (hd (va_facts b)) (hd (va_facts h))) []])"

lemma anchorStep_closed:
  "anchorStep sha norm sid ab ah a st =
     st\<lparr>ms_base := ambiguate (if crowded ab ah a then map va_key (ab a) else [])
                     (consume (pairKeys fst (pairedBy ab ah a)) (ms_base st)),
        ms_head := ambiguate (if crowded ab ah a then map va_key (ah a) else [])
                     (consume (pairKeys snd (pairedBy ab ah a)) (ms_head st)),
        ms_records := ms_records st @ modifiedRecords sha norm sid (pairedBy ab ah a)\<rparr>"
  by (simp add: anchorStep_def pairedBy_def crowded_def pairKeys_def modifiedRecords_def Let_def)

lemma anchorFold:
  "fold (anchorStep sha norm sid ab ah) as st =
     st\<lparr>ms_base := ambiguate (concat (map (\<lambda>a. if crowded ab ah a then map va_key (ab a) else []) as))
                     (consume (concat (map (\<lambda>a. pairKeys fst (pairedBy ab ah a)) as)) (ms_base st)),
        ms_head := ambiguate (concat (map (\<lambda>a. if crowded ab ah a then map va_key (ah a) else []) as))
                     (consume (concat (map (\<lambda>a. pairKeys snd (pairedBy ab ah a)) as)) (ms_head st)),
        ms_records := ms_records st
          @ concat (map (\<lambda>a. modifiedRecords sha norm sid (pairedBy ab ah a)) as)\<rparr>"
proof (induction as arbitrary: st)
  case (Cons a as)
  show ?case
    unfolding fold_Cons comp_apply Cons.IH
    by (simp add: anchorStep_closed [of sha norm sid ab ah a st] consume_ambiguate
        ambiguate_ambiguate consume_consume)
qed simp

section \<open>Both loops\<close>

definition restBase :: "variants \<Rightarrow> variants \<Rightarrow> variants" where
  "restBase base head = consume (sharedKeys base head) base"

definition restHead :: "variants \<Rightarrow> variants \<Rightarrow> variants" where
  "restHead base head = consume (sharedKeys base head) head"

definition paired :: "variants \<Rightarrow> variants \<Rightarrow> Digest \<Rightarrow> (variant \<times> variant) option" where
  "paired base head = pairedBy (anchored (restBase base head)) (anchored (restHead base head))"

definition anchorKeys :: "variants \<Rightarrow> variants \<Rightarrow> Digest list" where
  "anchorKeys base head = unionAnchorKeys (restBase base head) (restHead base head)"

definition pairedKeys ::
  "(variant \<times> variant \<Rightarrow> variant) \<Rightarrow> variants \<Rightarrow> variants \<Rightarrow> string list" where
  "pairedKeys sel base head = concat (map (\<lambda>a. pairKeys sel (paired base head a)) (anchorKeys base head))"

lemma matchVariants_closed:
  obtains ambB ambH where
    "matchVariants sha norm sid base head =
      \<lparr>ms_base = ambiguate ambB (consume (sharedKeys base head @ pairedKeys fst base head) base),
       ms_head = ambiguate ambH (consume (sharedKeys base head @ pairedKeys snd base head) head),
       ms_records = concat (map (exactRecords sha norm sid base head) (unionKeys base head))
         @ concat (map (\<lambda>a. modifiedRecords sha norm sid (paired base head a)) (anchorKeys base head))\<rparr>"
proof -
  have st1: "fold (exactStep sha norm sid) (unionKeys base head)
      \<lparr>ms_base = base, ms_head = head, ms_records = []\<rparr>
    = \<lparr>ms_base = restBase base head, ms_head = restHead base head,
       ms_records = concat (map (exactRecords sha norm sid base head) (unionKeys base head))\<rparr>"
    using exactFold [of "[]" "unionKeys base head" sha norm sid base head "[]"] distinct_unionKeys
    by (simp add: restBase_def restHead_def sharedKeys_def)
  show thesis
    by (rule that, unfold matchVariants_def Let_def st1, simp add: anchorFold)
       (simp add: restBase_def restHead_def consume_consume pairedKeys_def paired_def anchorKeys_def)
qed

end
