(* ===== verification/Compare_Scenario.thy ===== *)
theory Compare_Scenario
  imports Compare_Match
begin

text \<open>
  One scenario. \<open>side\<close> says what the prepared variants of a side are, in terms of the facts of its
  attempts alone; the records of \<open>compareScenario\<close> are then characterized, and the accounting of
  facts and the treatment of absence follow.
\<close>

section \<open>The prepared variants of a side\<close>

lemma fst_map_of: "k \<in> fst ` set vs \<longleftrightarrow> map_of vs k \<noteq> None"
  by (simp add: map_of_eq_None_iff)

lemma fst_map_ofE:
  assumes "k \<in> fst ` set vs"
  obtains v where "map_of vs k = Some v"
  using assms unfolding fst_map_of by blast

definition keyCount :: "AttemptTrace list \<Rightarrow> string \<Rightarrow> AttemptTrace \<Rightarrow> repetitionFacts" where
  "keyCount at k a = \<lparr>rpf_repetition = at_Repetition a, rpf_coverage = at_Coverage a,
     rpf_facts = length (filter (\<lambda>(r, f). r = at_Repetition a \<and> variantKey f = k) (tagged at))\<rparr>"

definition keyProfile :: "AttemptTrace list \<Rightarrow> string \<Rightarrow> OccurrenceProfile" where
  "keyProfile at k = buildOccurrenceProfile (length at) (map (keyCount at k) at)"

definition keyFacts :: "AttemptTrace list \<Rightarrow> string \<Rightarrow> Fact list" where
  "keyFacts at k = filter (\<lambda>f. variantKey f = k) (allFacts at)"

definition side :: "(string \<Rightarrow> string) \<Rightarrow> AttemptTrace list \<Rightarrow> variants \<Rightarrow> bool" where
  "side sha at vs \<longleftrightarrow> distinct (map fst vs) \<and> fst ` set vs = variantKey ` set (allFacts at)
     \<and> (\<forall>k v. map_of vs k = Some v \<longrightarrow>
          va_key v = k \<and> va_facts v = keyFacts at k \<and> va_facts v \<noteq> []
          \<and> va_kind v = fa_Kind (hd (va_facts v)) \<and> va_source v = fa_Source (hd (va_facts v))
          \<and> va_semantic v = fa_SemanticDigest (hd (va_facts v)) \<and> va_profile v = keyProfile at k
          \<and> typedAnchorDigest sha (hd (va_facts v)) = Inr (va_anchor v)
          \<and> \<not> va_consumed v \<and> \<not> va_ambiguous v)"

lemma is_variant_of_facts:
  assumes "is_variant_of (tagged at) k v"
  shows "va_facts v = keyFacts at k" "va_facts v \<noteq> []" "va_key v = k"
    "va_kind v = fa_Kind (hd (va_facts v))" "va_source v = fa_Source (hd (va_facts v))"
    "va_semantic v = fa_SemanticDigest (hd (va_facts v))"
    "\<not> va_consumed v" "\<not> va_ambiguous v"
    "profileForVariant at v = keyProfile at k"
proof -
  let ?ms = "filter (\<lambda>(r, f). variantKey f = k) (tagged at)"
  have fs: "va_facts v = map snd ?ms" and ne: "?ms \<noteq> []"
    using assms by (simp_all add: is_variant_of_def Let_def)
  have "map snd ?ms = filter (\<lambda>f. variantKey f = k) (map snd (tagged at))"
    by (simp add: filter_map comp_def case_prod_unfold)
  then show "va_facts v = keyFacts at k"
    using fs by (simp add: keyFacts_def map_snd_tagged)
  show "va_facts v \<noteq> []" using fs ne by simp
  show "va_key v = k" "va_kind v = fa_Kind (hd (va_facts v))" "va_source v = fa_Source (hd (va_facts v))"
    "va_semantic v = fa_SemanticDigest (hd (va_facts v))" "\<not> va_consumed v" "\<not> va_ambiguous v"
    using assms fs ne by (simp_all add: is_variant_of_def Let_def hd_map)
  have "repetitionOf v a = keyCount at k a" for a
  proof -
    have "filter (\<lambda>(r', f). r' = at_Repetition a) ?ms
        = filter (\<lambda>(r, f). r = at_Repetition a \<and> variantKey f = k) (tagged at)"
      by (simp add: case_prod_unfold conj_commute)
    then show ?thesis
      using assms by (simp add: repetitionOf_def keyCount_def is_variant_of_def Let_def)
  qed
  then show "profileForVariant at v = keyProfile at k"
    by (simp add: profileForVariant_def keyProfile_def cong: map_cong)
qed

lemma prepareVariant_Inr:
  "prepareVariant sha at (k, v) = Inr kv \<Longrightarrow> \<exists>a. typedAnchorDigest sha (hd (va_facts v)) = Inr a
     \<and> kv = (k, v\<lparr>va_profile := profileForVariant at v, va_anchor := a\<rparr>)"
  by (auto simp: prepareVariant_def Let_def result_simps)

lemma prepared_keys:
  "map_result (prepareVariant sha at) vs = Inr ws \<Longrightarrow> map fst ws = map fst vs"
proof (induction vs arbitrary: ws)
  case (Cons kv vs)
  then show ?case
    by (cases kv) (auto simp: result_simps dest!: prepareVariant_Inr)
qed simp

lemma prepared_lookup:
  "map_result (prepareVariant sha at) vs = Inr ws \<Longrightarrow> map_of ws k = Some w \<Longrightarrow>
     \<exists>v a. map_of vs k = Some v \<and> typedAnchorDigest sha (hd (va_facts v)) = Inr a
       \<and> w = v\<lparr>va_profile := profileForVariant at v, va_anchor := a\<rparr>"
proof (induction vs arbitrary: ws)
  case (Cons kv vs)
  obtain j u where kv: "kv = (j, u)" by fastforce
  from Cons.prems(1) obtain x xs where x: "prepareVariant sha at (j, u) = Inr x"
    and xs: "map_result (prepareVariant sha at) vs = Inr xs" and ws: "ws = x # xs"
    by (auto simp: kv result_simps)
  obtain a where a: "typedAnchorDigest sha (hd (va_facts u)) = Inr a"
    and x': "x = (j, u\<lparr>va_profile := profileForVariant at u, va_anchor := a\<rparr>)"
    using prepareVariant_Inr [OF x] by blast
  show ?case
  proof (cases "k = j")
    case True
    with a x' Cons.prems(2) show ?thesis by (simp add: kv ws)
  next
    case False
    with x' Cons.prems(2) have "map_of xs k = Some w" by (simp add: ws)
    with Cons.IH [OF xs this] False show ?thesis by (simp add: kv)
  qed
qed simp

lemma prepared_side:
  assumes "map_result (prepareVariant sha at) (buildVariants at) = Inr vs"
  shows "side sha at vs"
proof -
  have vo: "variants_of (tagged at) (buildVariants at)" by (rule buildVariants_variants_of)
  have keys: "map fst vs = map fst (buildVariants at)" by (rule prepared_keys [OF assms])
  have img: "fst ` set vs = variantKey ` set (allFacts at)"
  proof -
    have snd_eq: "snd ` set (tagged at) = set (allFacts at)"
      using arg_cong [OF map_snd_tagged, of set at] by simp
    have "fst ` set vs = fst ` set (buildVariants at)"
      using arg_cong [OF keys, of set] by simp
    then have "k \<in> fst ` set vs \<longleftrightarrow> k \<in> variantKey ` snd ` set (tagged at)" for k
      using variants_of_None [OF vo, of k] by (simp only: fst_map_of not_not)
    then show ?thesis unfolding snd_eq by (rule set_eqI)
  qed
  have dist: "distinct (map fst vs)"
    using vo keys by (simp add: variants_of_def)
  have entry: "va_key w = k \<and> va_facts w = keyFacts at k \<and> va_facts w \<noteq> []
          \<and> va_kind w = fa_Kind (hd (va_facts w)) \<and> va_source w = fa_Source (hd (va_facts w))
          \<and> va_semantic w = fa_SemanticDigest (hd (va_facts w)) \<and> va_profile w = keyProfile at k
          \<and> typedAnchorDigest sha (hd (va_facts w)) = Inr (va_anchor w)
          \<and> \<not> va_consumed w \<and> \<not> va_ambiguous w" if kw: "map_of vs k = Some w" for k w
  proof -
    obtain v a where v: "map_of (buildVariants at) k = Some v"
      and a: "typedAnchorDigest sha (hd (va_facts v)) = Inr a"
      and w: "w = v\<lparr>va_profile := profileForVariant at v, va_anchor := a\<rparr>"
      using prepared_lookup [OF assms kw] by blast
    note vf = is_variant_of_facts [OF variants_of_Some [OF vo v]]
    show ?thesis
      using a vf(2,4-9) by (simp add: w vf(1,3))
  qed
  show ?thesis
    unfolding side_def by (rule conjI [OF dist conjI [OF img]]) (intro allI impI, erule entry)
qed

lemma side_keyFacts:
  assumes "side sha at vs" and "f \<in> set (allFacts at)"
  obtains v where "map_of vs (variantKey f) = Some v" "f \<in> set (va_facts v)" "va_key v = variantKey f"
proof -
  have "variantKey f \<in> fst ` set vs" using assms by (auto simp: side_def)
  then obtain v where v: "map_of vs (variantKey f) = Some v" by (rule fst_map_ofE)
  then have "va_key v = variantKey f" and "va_facts v = keyFacts at (variantKey f)"
    using assms(1) unfolding side_def by blast+
  moreover from this have "f \<in> set (va_facts v)"
    using assms(2) by (simp add: keyFacts_def)
  ultimately show thesis using that v by blast
qed

section \<open>What is left after the matching\<close>

text \<open>The unconsumed variants, in key order.\<close>

definition leftover :: "string list \<Rightarrow> variants \<Rightarrow> string list" where
  "leftover used vs = filter (\<lambda>k. k \<notin> set used) (slice_stable (<) (map fst vs))"

lemma sortedVariants_filter:
  assumes "distinct (map fst vs)" and "\<forall>k v. map_of vs k = Some v \<longrightarrow> \<not> va_consumed v"
  shows "filter (\<lambda>v. \<not> va_consumed v) (sortedVariants (ambiguate amb (consume used vs)))
    = map (\<lambda>k. the (map_of (ambiguate amb (consume used vs)) k)) (leftover used vs)"
proof -
  have "va_consumed (the (map_of (ambiguate amb (consume used vs)) k)) \<longleftrightarrow> k \<in> set used"
    if k: "k \<in> fst ` set vs" for k
  proof -
    obtain v where v: "map_of vs k = Some v" using k by (rule fst_map_ofE)
    with assms(2) have "\<not> va_consumed v" by blast
    with v show ?thesis by (simp add: map_of_mark)
  qed
  then have "filter ((\<lambda>v. \<not> va_consumed v) \<circ> (\<lambda>k. the (map_of (ambiguate amb (consume used vs)) k)))
      (slice_stable (<) (map fst vs)) = leftover used vs"
    unfolding leftover_def by (intro filter_cong) simp_all
  then show ?thesis
    unfolding sortedVariants_def map_fst_mark filter_map by simp
qed

lemma distinct_leftover: "distinct (map fst vs) \<Longrightarrow> distinct (leftover used vs)"
  by (simp add: leftover_def)

lemma set_leftover: "set (leftover used vs) = fst ` set vs - set used"
  by (auto simp: leftover_def)

section \<open>The records of a scenario\<close>

lemma makeRecord_fields [simp]:
  fixes sha norm sid kind b h changed lim
  defines "r \<equiv> makeRecord sha norm sid kind b h changed lim"
  shows "dr_Kind r = kind" "dr_ScenarioIDs r = [sid]" "dr_ChangedFields r = changed"
    "dr_BaseObserved r = (b \<noteq> None)" "dr_HeadObserved r = (h \<noteq> None)"
    "dr_BaseFacts r = (case b of None \<Rightarrow> [] | Some v \<Rightarrow> snapshots (va_facts v))"
    "dr_HeadFacts r = (case h of None \<Rightarrow> [] | Some v \<Rightarrow> snapshots (va_facts v))"
    "dr_BaseSemanticDigests r = (case b of None \<Rightarrow> [] | Some v \<Rightarrow> [va_semantic v])"
    "dr_HeadSemanticDigests r = (case h of None \<Rightarrow> [] | Some v \<Rightarrow> [va_semantic v])"
    "dr_BaseOccurrence r = (case b of None \<Rightarrow> emptyOccurrence | Some v \<Rightarrow> va_profile v)"
    "dr_HeadOccurrence r = (case h of None \<Rightarrow> emptyOccurrence | Some v \<Rightarrow> va_profile v)"
    "dr_Limitations r = sortLimitations lim"
  unfolding r_def
  by (cases b; cases h; simp add: makeRecord_def withBase_def withHead_def Let_def zeroRecord_def
      sortDigests_def)+

definition removedFor ::
  "(string \<Rightarrow> string) \<Rightarrow> string \<Rightarrow> scenarioGroup \<Rightarrow> variants \<Rightarrow> string \<Rightarrow> DeltaRecord" where
  "removedFor sha norm sg marked k =
     removedRecord sha norm (sg_id sg) (attemptsComplete (sg_head sg)) (the (map_of marked k))"

definition addedFor ::
  "(string \<Rightarrow> string) \<Rightarrow> string \<Rightarrow> scenarioGroup \<Rightarrow> variants \<Rightarrow> string \<Rightarrow> DeltaRecord" where
  "addedFor sha norm sg marked k =
     addedRecord sha norm (sg_id sg) (attemptsComplete (sg_base sg)) (the (map_of marked k))"

definition usedKeys ::
  "(variant \<times> variant \<Rightarrow> variant) \<Rightarrow> variants \<Rightarrow> variants \<Rightarrow> string list" where
  "usedKeys sel base head = sharedKeys base head @ pairedKeys sel base head"

text \<open>The records in closed form; \<open>ambB\<close> and \<open>ambH\<close> are the keys marked as ambiguous.\<close>

definition scenarioRecords ::
  "(string \<Rightarrow> string) \<Rightarrow> string \<Rightarrow> scenarioGroup \<Rightarrow> variants \<Rightarrow> variants \<Rightarrow> string list \<Rightarrow> string list
   \<Rightarrow> DeltaRecord list" where
  "scenarioRecords sha norm sg base head ambB ambH =
     concat (map (exactRecords sha norm (sg_id sg) base head) (unionKeys base head))
       @ concat (map (\<lambda>a. modifiedRecords sha norm (sg_id sg) (paired base head a)) (anchorKeys base head))
       @ map (removedFor sha norm sg (ambiguate ambB (consume (usedKeys fst base head) base)))
           (leftover (usedKeys fst base head) base)
       @ map (addedFor sha norm sg (ambiguate ambH (consume (usedKeys snd base head) head)))
           (leftover (usedKeys snd base head) head)
       @ (case orderRecord sha norm sg of Some od \<Rightarrow> [od] | None \<Rightarrow> [])"

lemma deltaRecordID_nonempty: "deltaRecordID sha p n s r \<noteq> []"
  by (simp add: deltaRecordID_def)

lemma orderRecord_ID: "orderRecord sha norm sg = Some od \<Longrightarrow> dr_ID od \<noteq> []"
  by (auto simp: orderRecord_def Let_def deltaRecordID_nonempty split: option.splits if_splits)

lemma compareScenario_elim:
  assumes "compareScenario sha norm sg = Inr (records, refs)"
  obtains base head ambB ambH where
    "side sha (sg_base sg) base" "side sha (sg_head sg) head"
    "records = scenarioRecords sha norm sg base head ambB ambH"
proof -
  obtain base head where
    b: "map_result (prepareVariant sha (sg_base sg)) (buildVariants (sg_base sg)) = Inr base"
    and h: "map_result (prepareVariant sha (sg_head sg)) (buildVariants (sg_head sg)) = Inr head"
    using assms by (auto simp: compareScenario_def result_simps)
  have sb: "side sha (sg_base sg) base" and sh: "side sha (sg_head sg) head"
    using prepared_side [OF b] prepared_side [OF h] by simp_all
  obtain ambB ambH where
    mv: "matchVariants sha norm (sg_id sg) base head =
      \<lparr>ms_base = ambiguate ambB (consume (usedKeys fst base head) base),
       ms_head = ambiguate ambH (consume (usedKeys snd base head) head),
       ms_records = concat (map (exactRecords sha norm (sg_id sg) base head) (unionKeys base head))
         @ concat (map (\<lambda>a. modifiedRecords sha norm (sg_id sg) (paired base head a)) (anchorKeys base head))\<rparr>"
    using matchVariants_closed unfolding usedKeys_def by blast
  have ord: "(case orderRecord sha norm sg of Some od \<Rightarrow> if dr_ID od \<noteq> [] then [od] else [] | None \<Rightarrow> [])
      = (case orderRecord sha norm sg of Some od \<Rightarrow> [od] | None \<Rightarrow> [])"
    using orderRecord_ID by (simp split: option.splits)
  have fb: "filter (\<lambda>v. \<not> va_consumed v) (sortedVariants (ambiguate ambB (consume (usedKeys fst base head) base)))
      = map (\<lambda>k. the (map_of (ambiguate ambB (consume (usedKeys fst base head) base)) k))
          (leftover (usedKeys fst base head) base)"
    using sb by (intro sortedVariants_filter) (auto simp: side_def)
  have fh: "filter (\<lambda>v. \<not> va_consumed v) (sortedVariants (ambiguate ambH (consume (usedKeys snd base head) head)))
      = map (\<lambda>k. the (map_of (ambiguate ambH (consume (usedKeys snd base head) head)) k))
          (leftover (usedKeys snd base head) head)"
    using sh by (intro sortedVariants_filter) (auto simp: side_def)
  have "records = scenarioRecords sha norm sg base head ambB ambH"
    using assms
    by (auto simp: scenarioRecords_def compareScenario_def b h mv Let_def fb fh ord
        removedFor_def [abs_def] addedFor_def [abs_def] comp_def)
  then show thesis by (rule that [OF sb sh])
qed

section \<open>Absence is claimed only after complete observation\<close>

lemma marked_lookup:
  assumes "map_of vs k = Some v"
  obtains w where "map_of (ambiguate amb (consume used vs)) k = Some w"
    "va_facts w = va_facts v" "va_kind w = va_kind v" "va_source w = va_source v"
    "va_semantic w = va_semantic v" "va_profile w = va_profile v" "va_anchor w = va_anchor v"
    "va_key w = va_key v"
  using assms by (simp add: map_of_mark)

lemma exactRecords_kind:
  "r \<in> set (exactRecords sha norm sid base head k) \<Longrightarrow>
     dr_Kind r = DeltaKindStabilityChanged \<or> dr_Kind r = DeltaKindCountChanged"
  by (auto simp: exactRecords_def split: option.splits if_splits)

lemma modifiedRecords_kind:
  "r \<in> set (modifiedRecords sha norm sid p) \<Longrightarrow> dr_Kind r = DeltaKindModified"
  by (auto simp: modifiedRecords_def split: option.splits)

lemma removedFor_fields [simp]:
  "dr_Kind (removedFor sha norm sg m k) =
     (if attemptsComplete (sg_head sg) then DeltaKindRemoved else DeltaKindCoverageChanged)"
  "dr_BaseFacts (removedFor sha norm sg m k) = snapshots (va_facts (the (map_of m k)))"
  "dr_HeadFacts (removedFor sha norm sg m k) = []"
  "dr_BaseSemanticDigests (removedFor sha norm sg m k) = [va_semantic (the (map_of m k))]"
  "dr_HeadSemanticDigests (removedFor sha norm sg m k) = []"
  "dr_ScenarioIDs (removedFor sha norm sg m k) = [sg_id sg]"
  "dr_BaseObserved (removedFor sha norm sg m k)" "\<not> dr_HeadObserved (removedFor sha norm sg m k)"
  by (simp_all add: removedFor_def removedRecord_def)

lemma addedFor_fields [simp]:
  "dr_Kind (addedFor sha norm sg m k) =
     (if attemptsComplete (sg_base sg) then DeltaKindAdded else DeltaKindCoverageChanged)"
  "dr_HeadFacts (addedFor sha norm sg m k) = snapshots (va_facts (the (map_of m k)))"
  "dr_BaseFacts (addedFor sha norm sg m k) = []"
  "dr_HeadSemanticDigests (addedFor sha norm sg m k) = [va_semantic (the (map_of m k))]"
  "dr_BaseSemanticDigests (addedFor sha norm sg m k) = []"
  "dr_ScenarioIDs (addedFor sha norm sg m k) = [sg_id sg]"
  "dr_HeadObserved (addedFor sha norm sg m k)" "\<not> dr_BaseObserved (addedFor sha norm sg m k)"
  by (simp_all add: addedFor_def addedRecord_def)

lemma orderRecord_fields:
  "orderRecord sha norm sg = Some od \<Longrightarrow> dr_Kind od = DeltaKindOrderChanged \<and> dr_BaseFacts od = []
     \<and> dr_HeadFacts od = [] \<and> dr_ScenarioIDs od = [sg_id sg] \<and> dr_BaseSemanticDigests od \<noteq> []
     \<and> dr_HeadSemanticDigests od \<noteq> []"
  by (auto simp: orderRecord_def Let_def zeroRecord_def split: option.splits if_splits)

lemma leftover_side:
  assumes "side sha at vs" and "k \<in> set (leftover used vs)"
  obtains v where "map_of vs k = Some v" "k \<in> variantKey ` set (allFacts at)" "k \<notin> set used"
    "va_facts v = keyFacts at k" "va_facts v \<noteq> []"
proof -
  have k: "k \<in> fst ` set vs" "k \<notin> set used" using assms(2) by (auto simp: set_leftover)
  then obtain v where v: "map_of vs k = Some v" by (elim fst_map_ofE)
  moreover have "fst ` set vs = variantKey ` set (allFacts at)"
    using assms(1) unfolding side_def by blast
  moreover have "va_facts v = keyFacts at k" "va_facts v \<noteq> []"
    using assms(1) v unfolding side_def by blast+
  ultimately show thesis using that k by blast
qed

lemma scenario_added_absent:
  assumes "compareScenario sha norm sg = Inr (records, refs)"
    and "r \<in> set records" and "dr_Kind r = DeltaKindAdded"
  shows "attemptsComplete (sg_base sg) \<and> (\<exists>k\<in>variantKey ` set (allFacts (sg_head sg)).
      k \<notin> variantKey ` set (allFacts (sg_base sg))
      \<and> dr_HeadFacts r = snapshots (keyFacts (sg_head sg) k) \<and> dr_BaseFacts r = [])"
proof -
  obtain base head ambB ambH where sb: "side sha (sg_base sg) base" and sh: "side sha (sg_head sg) head"
    and recs: "records = scenarioRecords sha norm sg base head ambB ambH"
    using assms(1) by (rule compareScenario_elim)
  let ?m = "ambiguate ambH (consume (usedKeys snd base head) head)"
  have "r \<in> addedFor sha norm sg ?m ` set (leftover (usedKeys snd base head) head)"
    using assms(2,3) unfolding recs scenarioRecords_def
    by (auto dest: exactRecords_kind modifiedRecords_kind orderRecord_fields [OF sym]
          split: if_splits option.splits)
  then obtain k where k: "k \<in> set (leftover (usedKeys snd base head) head)"
    and r: "r = addedFor sha norm sg ?m k" by blast
  obtain v where v: "map_of head k = Some v" "k \<in> variantKey ` set (allFacts (sg_head sg))"
    and ku: "k \<notin> set (usedKeys snd base head)" and vf: "va_facts v = keyFacts (sg_head sg) k"
    using sh k by (rule leftover_side)
  obtain w where w: "map_of ?m k = Some w" "va_facts w = va_facts v"
    using v(1) by (rule marked_lookup)
  have "k \<notin> variantKey ` set (allFacts (sg_base sg))"
  proof
    assume "k \<in> variantKey ` set (allFacts (sg_base sg))"
    then have "onBoth base head k"
      using sb sh v(2) by (simp add: onBoth_def side_def)
    with ku show False by (simp add: usedKeys_def set_sharedKeys)
  qed
  moreover have "attemptsComplete (sg_base sg)"
    using assms(3) by (simp add: r split: if_splits)
  ultimately show ?thesis using v(2) vf w by (auto simp: r)
qed

lemma scenario_removed_absent:
  assumes "compareScenario sha norm sg = Inr (records, refs)"
    and "r \<in> set records" and "dr_Kind r = DeltaKindRemoved"
  shows "attemptsComplete (sg_head sg) \<and> (\<exists>k\<in>variantKey ` set (allFacts (sg_base sg)).
      k \<notin> variantKey ` set (allFacts (sg_head sg))
      \<and> dr_BaseFacts r = snapshots (keyFacts (sg_base sg) k) \<and> dr_HeadFacts r = [])"
proof -
  obtain base head ambB ambH where sb: "side sha (sg_base sg) base" and sh: "side sha (sg_head sg) head"
    and recs: "records = scenarioRecords sha norm sg base head ambB ambH"
    using assms(1) by (rule compareScenario_elim)
  let ?m = "ambiguate ambB (consume (usedKeys fst base head) base)"
  have "r \<in> removedFor sha norm sg ?m ` set (leftover (usedKeys fst base head) base)"
    using assms(2,3) unfolding recs scenarioRecords_def
    by (auto dest: exactRecords_kind modifiedRecords_kind orderRecord_fields [OF sym]
          split: if_splits option.splits)
  then obtain k where k: "k \<in> set (leftover (usedKeys fst base head) base)"
    and r: "r = removedFor sha norm sg ?m k" by blast
  obtain v where v: "map_of base k = Some v" "k \<in> variantKey ` set (allFacts (sg_base sg))"
    and ku: "k \<notin> set (usedKeys fst base head)" and vf: "va_facts v = keyFacts (sg_base sg) k"
    using sb k by (rule leftover_side)
  obtain w where w: "map_of ?m k = Some w" "va_facts w = va_facts v"
    using v(1) by (rule marked_lookup)
  have "k \<notin> variantKey ` set (allFacts (sg_head sg))"
  proof
    assume "k \<in> variantKey ` set (allFacts (sg_head sg))"
    then have "onBoth base head k"
      using sb sh v(2) by (simp add: onBoth_def side_def)
    with ku show False by (simp add: usedKeys_def set_sharedKeys)
  qed
  moreover have "attemptsComplete (sg_head sg)"
    using assms(3) by (simp add: r split: if_splits)
  ultimately show ?thesis using v(2) vf w by (auto simp: r)
qed

section \<open>Every fact is accounted for once\<close>

lemma unconsumed_side:
  assumes "side sha at vs"
  shows "v \<in> set (unconsumed (consume ks vs)) \<longleftrightarrow> map_of vs (va_key v) = Some v \<and> va_key v \<notin> set ks"
proof -
  have dist: "distinct (map fst vs)"
    and key: "\<And>k w. map_of vs k = Some w \<Longrightarrow> va_key w = k"
    and fresh: "\<And>k w. map_of vs k = Some w \<Longrightarrow> \<not> va_consumed w"
    using assms unfolding side_def by blast+
  have mem: "(k, w) \<in> set (consume ks vs) \<longleftrightarrow>
      (\<exists>u. map_of vs k = Some u \<and> w = (if k \<in> set ks then u\<lparr>va_consumed := True\<rparr> else u))" for k w
  proof -
    have "(k, w) \<in> set (consume ks vs) \<longleftrightarrow> map_of (consume ks vs) k = Some w"
      using dist by (simp add: map_of_eq_Some_iff)
    then show ?thesis by (auto simp: map_of_mark)
  qed
  have "v \<in> set (unconsumed (consume ks vs)) \<longleftrightarrow> (\<exists>k. (k, v) \<in> set (consume ks vs)) \<and> \<not> va_consumed v"
    unfolding unconsumed_def by force
  also have "\<dots> \<longleftrightarrow> (\<exists>k. map_of vs k = Some v \<and> k \<notin> set ks)"
  proof -
    have "u\<lparr>va_consumed := True\<rparr> = v \<Longrightarrow> va_consumed v" for u by auto
    then show ?thesis unfolding mem by (auto dest: fresh split: if_splits)
  qed
  also have "\<dots> \<longleftrightarrow> map_of vs (va_key v) = Some v \<and> va_key v \<notin> set ks"
    using key by blast
  finally show ?thesis .
qed

lemma anchored_side:
  assumes "side sha at vs"
  shows "v \<in> set (anchored (consume ks vs) a) \<longleftrightarrow>
    map_of vs (va_key v) = Some v \<and> va_key v \<notin> set ks \<and> va_anchor v = a \<and> a \<noteq> []"
  using unconsumed_side [OF assms] by (auto simp: anchored_def)

lemma paired_Some:
  assumes "side sha bt base" and "side sha ht head" and "paired base head a = Some (b, h)"
  shows "map_of base (va_key b) = Some b" "map_of head (va_key h) = Some h"
    "va_key b \<notin> set (sharedKeys base head)" "va_key h \<notin> set (sharedKeys base head)"
    "va_anchor b = a" "va_anchor h = a" "a \<noteq> []" "a \<in> set (anchorKeys base head)"
    "changedFields (hd (va_facts b)) (hd (va_facts h)) \<noteq> []"
    "va_kind b = va_kind h" "va_source b = va_source h"
proof -
  have lb: "length (anchored (restBase base head) a) = 1" "b = hd (anchored (restBase base head) a)"
    and lh: "length (anchored (restHead base head) a) = 1" "h = hd (anchored (restHead base head) a)"
    and "changedFields (hd (va_facts b)) (hd (va_facts h)) \<noteq> []" "va_kind b = va_kind h"
      "va_source b = va_source h"
    using assms(3) by (auto simp: paired_def pairedBy_def split: if_splits)
  then show "changedFields (hd (va_facts b)) (hd (va_facts h)) \<noteq> []" "va_kind b = va_kind h"
    "va_source b = va_source h" by simp_all
  have "b \<in> set (anchored (restBase base head) a)" "h \<in> set (anchored (restHead base head) a)"
    using lb lh by (auto simp: length_Suc_conv)
  then show "map_of base (va_key b) = Some b" "map_of head (va_key h) = Some h"
    "va_key b \<notin> set (sharedKeys base head)" "va_key h \<notin> set (sharedKeys base head)"
    "va_anchor b = a" "va_anchor h = a" "a \<noteq> []"
    using anchored_side [OF assms(1)] anchored_side [OF assms(2)]
    unfolding restBase_def restHead_def by blast+
  have "b \<in> set (unconsumed (restBase base head))"
    using \<open>b \<in> set (anchored (restBase base head) a)\<close> by (simp add: anchored_def)
  then show "a \<in> set (anchorKeys base head)"
    using \<open>va_anchor b = a\<close> \<open>a \<noteq> []\<close>
    by (auto simp: anchorKeys_def unionAnchorKeys_def anchorsOf_def)
qed

lemma pairedKeys_iff:
  "k \<in> set (pairedKeys sel base head) \<longleftrightarrow>
     (\<exists>a\<in>set (anchorKeys base head). \<exists>p. paired base head a = Some p \<and> va_key (sel p) = k)"
proof -
  have "set (pairKeys sel p) = (\<lambda>q. va_key (sel q)) ` set_option p" for p
    by (cases p) (simp_all add: pairKeys_def)
  then show ?thesis by (auto simp: pairedKeys_def)
qed

lemma filter_concat_unique:
  assumes "distinct xs" and "x \<in> set xs" and "\<And>y. y \<in> set xs \<Longrightarrow> y \<noteq> x \<Longrightarrow> filter P (g y) = []"
  shows "filter P (concat (map g xs)) = filter P (g x)"
  using assms
proof (induction xs)
  case (Cons y ys)
  have none: "filter P (concat (map g ys)) = []" if "x \<notin> set ys"
    using Cons.prems(1,3) that by (fastforce simp: filter_concat filter_empty_conv)
  show ?case
  proof (cases "y = x")
    case True
    with Cons.prems(1) none show ?thesis by simp
  next
    case False
    with Cons show ?thesis by simp
  qed
qed simp

lemma filter_concat_none:
  "(\<And>y. y \<in> set xs \<Longrightarrow> filter P (g y) = []) \<Longrightarrow> filter P (concat (map g xs)) = []"
  by (induction xs) simp_all

lemma snapshot_key: "snapshot f = snapshot g \<Longrightarrow> variantKey f = variantKey g"
  by (simp add: snapshot_def variantKey_def)

lemma snapshot_in_snapshots:
  assumes "f \<in> set (allFacts at)"
  shows "snapshot f \<in> set (snapshots (keyFacts at k)) \<longleftrightarrow> variantKey f = k"
  using assms by (auto simp: snapshots_def keyFacts_def dest: snapshot_key)

lemma distinct_filter_eq:
  "distinct xs \<Longrightarrow> length (filter (\<lambda>y. y = x) xs) = (if x \<in> set xs then 1 else 0)"
  by (induction xs) auto

lemma paired_not_shared:
  assumes "side sha bt base" "side sha ht head"
  shows "k \<in> set (pairedKeys fst base head) \<Longrightarrow> k \<notin> set (sharedKeys base head)"
    and "k \<in> set (pairedKeys snd base head) \<Longrightarrow> k \<notin> set (sharedKeys base head)"
  using paired_Some(3,4) [OF assms] unfolding pairedKeys_iff by fastforce+

definition reportsBase :: "Fact \<Rightarrow> DeltaRecord \<Rightarrow> bool" where
  "reportsBase f r \<longleftrightarrow> snapshot f \<in> set (dr_BaseFacts r)"

lemma exact_reportsBase:
  assumes "side sha bt base" "side sha ht head" and f: "f \<in> set (allFacts bt)"
  shows "length (filter (reportsBase f)
      (concat (map (exactRecords sha norm sid base head) (unionKeys base head))))
    = (if variantKey f \<in> variantKey ` set (allFacts ht) \<and>
          keyProfile bt (variantKey f) \<noteq> keyProfile ht (variantKey f) then 1 else 0)"
proof -
  let ?k = "variantKey f"
  obtain b where b: "map_of base ?k = Some b" using assms(1) f by (rule side_keyFacts)
  have facts: "va_facts v = keyFacts bt k" "va_profile v = keyProfile bt k" if "map_of base k = Some v" for k v
    using assms(1) that unfolding side_def by blast+
  have hprof: "va_profile v = keyProfile ht k" if "map_of head k = Some v" for k v
    using assms(2) that unfolding side_def by blast
  have hdom: "map_of head k \<noteq> None \<longleftrightarrow> k \<in> variantKey ` set (allFacts ht)" for k
    using assms(2) unfolding fst_map_of [symmetric] side_def by simp
  have "filter (reportsBase f) (concat (map (exactRecords sha norm sid base head) (unionKeys base head)))
      = filter (reportsBase f) (exactRecords sha norm sid base head ?k)"
  proof (rule filter_concat_unique [OF distinct_unionKeys])
    show "?k \<in> set (unionKeys base head)"
      using b unfolding set_unionKeys fst_map_of Un_iff by simp
  next
    fix j
    assume "j \<noteq> ?k"
    then show "filter (reportsBase f) (exactRecords sha norm sid base head j) = []"
      using snapshot_in_snapshots [OF f, of j]
      by (auto simp: exactRecords_def reportsBase_def facts split: option.splits)
  qed
  moreover have "length (filter (reportsBase f) (exactRecords sha norm sid base head ?k))
      = (if ?k \<in> variantKey ` set (allFacts ht) \<and> keyProfile bt ?k \<noteq> keyProfile ht ?k then 1 else 0)"
    using b facts [OF b] hprof snapshot_in_snapshots [OF f, of ?k] hdom [of ?k]
    by (cases "map_of head ?k") (simp_all add: exactRecords_def reportsBase_def)
  ultimately show ?thesis by simp
qed

lemma modified_reportsBase:
  assumes sb: "side sha bt base" and sh: "side sha ht head" and f: "f \<in> set (allFacts bt)"
  shows "length (filter (reportsBase f)
      (concat (map (\<lambda>a. modifiedRecords sha norm sid (paired base head a)) (anchorKeys base head))))
    = (if variantKey f \<in> set (pairedKeys fst base head) then 1 else 0)"
proof -
  let ?k = "variantKey f"
  have rep: "filter (reportsBase f) (modifiedRecords sha norm sid (paired base head a))
      = (case paired base head a of None \<Rightarrow> []
         | Some (b, h) \<Rightarrow> if va_key b = ?k then modifiedRecords sha norm sid (paired base head a) else [])" for a
  proof (cases "paired base head a")
    case (Some p)
    obtain b h where p: "p = (b, h)" by fastforce
    have "map_of base (va_key b) = Some b" using paired_Some(1) [OF sb sh Some [unfolded p]] .
    then have "va_facts b = keyFacts bt (va_key b)" using sb unfolding side_def by blast
    then show ?thesis
      using snapshot_in_snapshots [OF f, of "va_key b"]
      by (auto simp: Some p modifiedRecords_def reportsBase_def)
  qed (simp add: modifiedRecords_def)
  show ?thesis
  proof (cases "?k \<in> set (pairedKeys fst base head)")
    case False
    then have "filter (reportsBase f) (modifiedRecords sha norm sid (paired base head a)) = []"
      if "a \<in> set (anchorKeys base head)" for a
      using that unfolding rep pairedKeys_iff by (auto split: option.splits)
    then show ?thesis using False by (simp add: filter_concat_none)
  next
    case True
    then obtain a b h where a: "a \<in> set (anchorKeys base head)" "paired base head a = Some (b, h)"
      and k: "va_key b = ?k" unfolding pairedKeys_iff by auto
    have "filter (reportsBase f) (concat (map (\<lambda>a. modifiedRecords sha norm sid (paired base head a))
        (anchorKeys base head))) = filter (reportsBase f) (modifiedRecords sha norm sid (paired base head a))"
    proof (rule filter_concat_unique)
      show "distinct (anchorKeys base head)" by (simp add: anchorKeys_def unionAnchorKeys_def)
      show "a \<in> set (anchorKeys base head)" by (fact a(1))
    next
      fix a'
      assume "a' \<noteq> a"
      have "va_key b' \<noteq> ?k" if "paired base head a' = Some (b', h')" for b' h'
      proof
        assume "va_key b' = ?k"
        then have "b' = b"
          using paired_Some(1) [OF sb sh that] paired_Some(1) [OF sb sh a(2)] k by simp
        then show False
          using paired_Some(5) [OF sb sh that] paired_Some(5) [OF sb sh a(2)] \<open>a' \<noteq> a\<close> by simp
      qed
      then show "filter (reportsBase f) (modifiedRecords sha norm sid (paired base head a')) = []"
        unfolding rep by (auto split: option.splits)
    qed
    also have "\<dots> = modifiedRecords sha norm sid (paired base head a)"
      using rep [of a] a(2) k by simp
    finally show ?thesis using True a(2) by (simp add: modifiedRecords_def)
  qed
qed

lemma removed_reportsBase:
  assumes sb: "side sha bt base" and f: "f \<in> set (allFacts bt)"
  shows "length (filter (reportsBase f)
      (map (removedFor sha norm sg (ambiguate amb (consume used base))) (leftover used base)))
    = (if variantKey f \<in> set used then 0 else 1)"
proof -
  let ?k = "variantKey f" and ?m = "ambiguate amb (consume used base)"
  have "reportsBase f (removedFor sha norm sg ?m k) \<longleftrightarrow> k = ?k" if k: "k \<in> set (leftover used base)" for k
  proof -
    obtain v where v: "map_of base k = Some v" "va_facts v = keyFacts bt k"
      using sb k by (rule leftover_side)
    obtain w where "map_of ?m k = Some w" "va_facts w = va_facts v"
      using v(1) by (rule marked_lookup)
    then show ?thesis
      using v(2) snapshot_in_snapshots [OF f, of k] by (auto simp: reportsBase_def)
  qed
  then have "filter (reportsBase f) (map (removedFor sha norm sg ?m) (leftover used base))
      = map (removedFor sha norm sg ?m) (filter (\<lambda>k. k = ?k) (leftover used base))"
    by (simp add: filter_map cong: filter_cong)
  moreover have "length (filter (\<lambda>k. k = ?k) (leftover used base)) = (if ?k \<in> set used then 0 else 1)"
  proof -
    have "?k \<in> fst ` set base" using sb f unfolding side_def by blast
    moreover have "distinct (leftover used base)"
      using sb distinct_leftover unfolding side_def by blast
    ultimately show ?thesis
      using distinct_filter_eq [of "leftover used base" ?k] by (simp add: set_leftover)
  qed
  ultimately show ?thesis by simp
qed

lemma base_accounting:
  assumes "compareScenario sha norm sg = Inr (records, refs)" and f: "f \<in> set (allFacts (sg_base sg))"
  shows "length (filter (reportsBase f) records) =
    (if variantKey f \<in> variantKey ` set (allFacts (sg_head sg))
        \<and> keyProfile (sg_base sg) (variantKey f) = keyProfile (sg_head sg) (variantKey f) then 0 else 1)"
proof -
  obtain base head ambB ambH where sb: "side sha (sg_base sg) base" and sh: "side sha (sg_head sg) head"
    and recs: "records = scenarioRecords sha norm sg base head ambB ambH"
    using assms(1) by (rule compareScenario_elim)
  have shared: "variantKey f \<in> set (sharedKeys base head) \<longleftrightarrow>
      variantKey f \<in> variantKey ` set (allFacts (sg_head sg))"
    using sb sh f by (auto simp: set_sharedKeys onBoth_def side_def)
  have rest: "filter (reportsBase f) (map (addedFor sha norm sg m) ks) = []"
    "filter (reportsBase f) (case orderRecord sha norm sg of Some od \<Rightarrow> [od] | None \<Rightarrow> []) = []" for m ks
    using orderRecord_fields by (auto simp: reportsBase_def filter_empty_conv split: option.splits)
  show ?thesis
    unfolding recs scenarioRecords_def filter_append length_append
      exact_reportsBase [OF sb sh f] modified_reportsBase [OF sb sh f] removed_reportsBase [OF sb f] rest
    using paired_not_shared(1) [OF sb sh, of "variantKey f"] shared by (simp add: usedKeys_def)
qed

text \<open>The same for the facts of the head side.\<close>

definition reportsHead :: "Fact \<Rightarrow> DeltaRecord \<Rightarrow> bool" where
  "reportsHead f r \<longleftrightarrow> snapshot f \<in> set (dr_HeadFacts r)"

lemma exact_reportsHead:
  assumes "side sha bt base" "side sha ht head" and f: "f \<in> set (allFacts ht)"
  shows "length (filter (reportsHead f)
      (concat (map (exactRecords sha norm sid base head) (unionKeys base head))))
    = (if variantKey f \<in> variantKey ` set (allFacts bt) \<and>
          keyProfile bt (variantKey f) \<noteq> keyProfile ht (variantKey f) then 1 else 0)"
proof -
  let ?k = "variantKey f"
  obtain b where b: "map_of head ?k = Some b" using assms(2) f by (rule side_keyFacts)
  have facts: "va_facts v = keyFacts ht k" "va_profile v = keyProfile ht k" if "map_of head k = Some v" for k v
    using assms(2) that unfolding side_def by blast+
  have hprof: "va_profile v = keyProfile bt k" if "map_of base k = Some v" for k v
    using assms(1) that unfolding side_def by blast
  have hdom: "map_of base k \<noteq> None \<longleftrightarrow> k \<in> variantKey ` set (allFacts bt)" for k
    using assms(1) unfolding fst_map_of [symmetric] side_def by simp
  have "filter (reportsHead f) (concat (map (exactRecords sha norm sid base head) (unionKeys base head)))
      = filter (reportsHead f) (exactRecords sha norm sid base head ?k)"
  proof (rule filter_concat_unique [OF distinct_unionKeys])
    show "?k \<in> set (unionKeys base head)"
      using b unfolding set_unionKeys fst_map_of Un_iff by simp
  next
    fix j
    assume "j \<noteq> ?k"
    then show "filter (reportsHead f) (exactRecords sha norm sid base head j) = []"
      using snapshot_in_snapshots [OF f, of j]
      by (auto simp: exactRecords_def reportsHead_def facts split: option.splits)
  qed
  moreover have "length (filter (reportsHead f) (exactRecords sha norm sid base head ?k))
      = (if ?k \<in> variantKey ` set (allFacts bt) \<and> keyProfile bt ?k \<noteq> keyProfile ht ?k then 1 else 0)"
    using b facts [OF b] hprof snapshot_in_snapshots [OF f, of ?k] hdom [of ?k]
    by (cases "map_of base ?k") (simp_all add: exactRecords_def reportsHead_def)
  ultimately show ?thesis by simp
qed

lemma modified_reportsHead:
  assumes sb: "side sha bt base" and sh: "side sha ht head" and f: "f \<in> set (allFacts ht)"
  shows "length (filter (reportsHead f)
      (concat (map (\<lambda>a. modifiedRecords sha norm sid (paired base head a)) (anchorKeys base head))))
    = (if variantKey f \<in> set (pairedKeys snd base head) then 1 else 0)"
proof -
  let ?k = "variantKey f"
  have rep: "filter (reportsHead f) (modifiedRecords sha norm sid (paired base head a))
      = (case paired base head a of None \<Rightarrow> []
         | Some (b, h) \<Rightarrow> if va_key h = ?k then modifiedRecords sha norm sid (paired base head a) else [])" for a
  proof (cases "paired base head a")
    case (Some p)
    obtain b h where p: "p = (b, h)" by fastforce
    have "map_of head (va_key h) = Some h" using paired_Some(2) [OF sb sh Some [unfolded p]] .
    then have "va_facts h = keyFacts ht (va_key h)" using sh unfolding side_def by blast
    then show ?thesis
      using snapshot_in_snapshots [OF f, of "va_key h"]
      by (auto simp: Some p modifiedRecords_def reportsHead_def)
  qed (simp add: modifiedRecords_def)
  show ?thesis
  proof (cases "?k \<in> set (pairedKeys snd base head)")
    case False
    then have "filter (reportsHead f) (modifiedRecords sha norm sid (paired base head a)) = []"
      if "a \<in> set (anchorKeys base head)" for a
      using that unfolding rep pairedKeys_iff by (auto split: option.splits)
    then show ?thesis using False by (simp add: filter_concat_none)
  next
    case True
    then obtain a b h where a: "a \<in> set (anchorKeys base head)" "paired base head a = Some (b, h)"
      and k: "va_key h = ?k" unfolding pairedKeys_iff by auto
    have "filter (reportsHead f) (concat (map (\<lambda>a. modifiedRecords sha norm sid (paired base head a))
        (anchorKeys base head))) = filter (reportsHead f) (modifiedRecords sha norm sid (paired base head a))"
    proof (rule filter_concat_unique)
      show "distinct (anchorKeys base head)" by (simp add: anchorKeys_def unionAnchorKeys_def)
      show "a \<in> set (anchorKeys base head)" by (fact a(1))
    next
      fix a'
      assume "a' \<noteq> a"
      have "va_key h' \<noteq> ?k" if "paired base head a' = Some (b', h')" for b' h'
      proof
        assume "va_key h' = ?k"
        then have "h' = h"
          using paired_Some(2) [OF sb sh that] paired_Some(2) [OF sb sh a(2)] k by simp
        then show False
          using paired_Some(6) [OF sb sh that] paired_Some(6) [OF sb sh a(2)] \<open>a' \<noteq> a\<close> by simp
      qed
      then show "filter (reportsHead f) (modifiedRecords sha norm sid (paired base head a')) = []"
        unfolding rep by (auto split: option.splits)
    qed
    also have "\<dots> = modifiedRecords sha norm sid (paired base head a)"
      using rep [of a] a(2) k by simp
    finally show ?thesis using True a(2) by (simp add: modifiedRecords_def)
  qed
qed

lemma added_reportsHead:
  assumes sh: "side sha ht head" and f: "f \<in> set (allFacts ht)"
  shows "length (filter (reportsHead f)
      (map (addedFor sha norm sg (ambiguate amb (consume used head))) (leftover used head)))
    = (if variantKey f \<in> set used then 0 else 1)"
proof -
  let ?k = "variantKey f" and ?m = "ambiguate amb (consume used head)"
  have "reportsHead f (addedFor sha norm sg ?m k) \<longleftrightarrow> k = ?k" if k: "k \<in> set (leftover used head)" for k
  proof -
    obtain v where v: "map_of head k = Some v" "va_facts v = keyFacts ht k"
      using sh k by (rule leftover_side)
    obtain w where "map_of ?m k = Some w" "va_facts w = va_facts v"
      using v(1) by (rule marked_lookup)
    then show ?thesis
      using v(2) snapshot_in_snapshots [OF f, of k] by (auto simp: reportsHead_def)
  qed
  then have "filter (reportsHead f) (map (addedFor sha norm sg ?m) (leftover used head))
      = map (addedFor sha norm sg ?m) (filter (\<lambda>k. k = ?k) (leftover used head))"
    by (simp add: filter_map cong: filter_cong)
  moreover have "length (filter (\<lambda>k. k = ?k) (leftover used head)) = (if ?k \<in> set used then 0 else 1)"
  proof -
    have "?k \<in> fst ` set head" using sh f unfolding side_def by blast
    moreover have "distinct (leftover used head)"
      using sh distinct_leftover unfolding side_def by blast
    ultimately show ?thesis
      using distinct_filter_eq [of "leftover used head" ?k] by (simp add: set_leftover)
  qed
  ultimately show ?thesis by simp
qed

lemma head_accounting:
  assumes "compareScenario sha norm sg = Inr (records, refs)" and f: "f \<in> set (allFacts (sg_head sg))"
  shows "length (filter (reportsHead f) records) =
    (if variantKey f \<in> variantKey ` set (allFacts (sg_base sg))
        \<and> keyProfile (sg_base sg) (variantKey f) = keyProfile (sg_head sg) (variantKey f) then 0 else 1)"
proof -
  obtain base head ambB ambH where sb: "side sha (sg_base sg) base" and sh: "side sha (sg_head sg) head"
    and recs: "records = scenarioRecords sha norm sg base head ambB ambH"
    using assms(1) by (rule compareScenario_elim)
  have shared: "variantKey f \<in> set (sharedKeys base head) \<longleftrightarrow>
      variantKey f \<in> variantKey ` set (allFacts (sg_base sg))"
    using sb sh f by (auto simp: set_sharedKeys onBoth_def side_def)
  have rest: "filter (reportsHead f) (map (removedFor sha norm sg m) ks) = []"
    "filter (reportsHead f) (case orderRecord sha norm sg of Some od \<Rightarrow> [od] | None \<Rightarrow> []) = []" for m ks
    using orderRecord_fields by (auto simp: reportsHead_def filter_empty_conv split: option.splits)
  show ?thesis
    unfolding recs scenarioRecords_def filter_append length_append
      exact_reportsHead [OF sb sh f] modified_reportsHead [OF sb sh f] added_reportsHead [OF sh f] rest
    using paired_not_shared(2) [OF sb sh, of "variantKey f"] shared by (simp add: usedKeys_def)
qed

end
