(* ===== verification/Compare_Document.thy ===== *)
theory Compare_Document
  imports Compare_Scenario
begin

text \<open>
  The whole document: what validation guarantees, the groups of attempts by scenario, and the list of
  records of the delta.
\<close>

section \<open>Groups\<close>

definition ofBase :: "string \<Rightarrow> AttemptTrace list \<Rightarrow> AttemptTrace list" where
  "ofBase sid at = filter (\<lambda>a. at_ScenarioID a = sid \<and> at_Revision a = RevisionKindBase) at"

definition ofHead :: "string \<Rightarrow> AttemptTrace list \<Rightarrow> AttemptTrace list" where
  "ofHead sid at = filter (\<lambda>a. at_ScenarioID a = sid \<and> at_Revision a \<noteq> RevisionKindBase) at"

lemma addToGroups_ids:
  "map sg_id (addToGroups a gs) =
     (if at_ScenarioID a \<in> set (map sg_id gs) then map sg_id gs else map sg_id gs @ [at_ScenarioID a])"
  by (induction gs) (auto simp: addAttempt_def)

lemma addToGroups_mem:
  assumes "distinct (map sg_id gs)" and "g \<in> set (addToGroups a gs)"
  shows "g \<in> set gs \<and> sg_id g \<noteq> at_ScenarioID a
     \<or> sg_id g = at_ScenarioID a \<and> (\<exists>g0. (g0 \<in> set gs \<and> sg_id g0 = at_ScenarioID a \<or>
           g0 = \<lparr>sg_id = at_ScenarioID a, sg_base = [], sg_head = []\<rparr>
           \<and> at_ScenarioID a \<notin> sg_id ` set gs)
         \<and> g = addAttempt a g0)"
  using assms
proof (induction gs)
  case Nil
  then show ?case by (auto simp: addAttempt_def)
next
  case (Cons g1 gs)
  show ?case
  proof (cases "sg_id g1 = at_ScenarioID a")
    case True
    have "sg_id g \<noteq> at_ScenarioID a" if "g \<in> set gs"
      using Cons.prems(1) True that by force
    with Cons.prems True show ?thesis by (auto simp: addAttempt_def)
  next
    case False
    show ?thesis
    proof (cases "g = g1")
      case True
      with False show ?thesis by simp
    next
      case g: False
      have "distinct (map sg_id gs)" "g \<in> set (addToGroups a gs)"
        using Cons.prems False g by simp_all
      from Cons.IH [OF this] show ?thesis
        using False by (elim disjE conjE exE) auto
    qed
  qed
qed

lemma groups_invariant:
  "distinct (map sg_id (fold addToGroups at [])) \<and>
   sg_id ` set (fold addToGroups at []) = at_ScenarioID ` set at \<and>
   (\<forall>g\<in>set (fold addToGroups at []). sg_base g = ofBase (sg_id g) at \<and> sg_head g = ofHead (sg_id g) at)"
proof (induction at rule: rev_induct)
  case (snoc a at)
  let ?gs = "fold addToGroups at []"
  have d: "distinct (map sg_id ?gs)" and ids: "sg_id ` set ?gs = at_ScenarioID ` set at"
    and inv: "\<And>g. g \<in> set ?gs \<Longrightarrow> sg_base g = ofBase (sg_id g) at \<and> sg_head g = ofHead (sg_id g) at"
    using snoc by blast+
  have "sg_base g = ofBase (sg_id g) (at @ [a]) \<and> sg_head g = ofHead (sg_id g) (at @ [a])"
    if g: "g \<in> set (addToGroups a ?gs)" for g
    using addToGroups_mem [OF d g]
  proof
    assume "g \<in> set ?gs \<and> sg_id g \<noteq> at_ScenarioID a"
    with inv [of g] show ?thesis by (simp add: ofBase_def ofHead_def eq_commute [of "at_ScenarioID a"])
  next
    assume "sg_id g = at_ScenarioID a \<and> (\<exists>g0. (g0 \<in> set ?gs \<and> sg_id g0 = at_ScenarioID a \<or>
           g0 = \<lparr>sg_id = at_ScenarioID a, sg_base = [], sg_head = []\<rparr>
           \<and> at_ScenarioID a \<notin> sg_id ` set ?gs)
         \<and> g = addAttempt a g0)"
    then obtain g0 where i: "sg_id g = at_ScenarioID a" and g0: "g = addAttempt a g0"
      and "g0 \<in> set ?gs \<and> sg_id g0 = at_ScenarioID a \<or>
           g0 = \<lparr>sg_id = at_ScenarioID a, sg_base = [], sg_head = []\<rparr>
           \<and> at_ScenarioID a \<notin> sg_id ` set ?gs"
      by blast
    then have "sg_base g0 = ofBase (at_ScenarioID a) at \<and> sg_head g0 = ofHead (at_ScenarioID a) at"
    proof (elim disjE conjE)
      assume new: "g0 = \<lparr>sg_id = at_ScenarioID a, sg_base = [], sg_head = []\<rparr>"
        and "at_ScenarioID a \<notin> sg_id ` set ?gs"
      then have "\<forall>x\<in>set at. at_ScenarioID x \<noteq> at_ScenarioID a" unfolding ids by (metis image_eqI)
      then show ?thesis
        by (auto simp: new ofBase_def ofHead_def filter_empty_conv)
    next
      assume "g0 \<in> set ?gs" "sg_id g0 = at_ScenarioID a"
      with inv [of g0] show ?thesis by simp
    qed
    then show ?thesis
      unfolding i by (simp add: g0 addAttempt_def ofBase_def ofHead_def)
  qed
  moreover have "distinct (map sg_id (addToGroups a ?gs))"
    using d by (simp add: addToGroups_ids)
  moreover have "sg_id ` set (addToGroups a ?gs) = at_ScenarioID ` set (at @ [a])"
    using arg_cong [OF addToGroups_ids, of set a ?gs] ids by (auto split: if_splits)
  ultimately show ?case by simp
qed simp

lemma groupScenarios_ids:
  "distinct (map sg_id (groupScenarios at))" "sg_id ` set (groupScenarios at) = at_ScenarioID ` set at"
  using groups_invariant [of at] by (simp_all add: groupScenarios_def comp_def image_image)

lemma groupScenarios_mem:
  "g \<in> set (groupScenarios at) \<Longrightarrow>
     sg_base g = sortAttempts (ofBase (sg_id g) at) \<and> sg_head g = sortAttempts (ofHead (sg_id g) at)"
  using groups_invariant [of at] by (auto simp: groupScenarios_def)

lemma set_sortAttempts [simp]: "set (sortAttempts at) = set at"
  by (simp add: sortAttempts_def)

lemma attemptsComplete_sort [simp]: "attemptsComplete (sortAttempts at) = attemptsComplete at"
proof -
  have "sortAttempts at = [] \<longleftrightarrow> at = []" by (metis set_empty set_sortAttempts)
  then show ?thesis by (simp add: attemptsComplete_def list_all_iff)
qed

section \<open>The list of records\<close>

text \<open>The records of one group, the coverage records first.\<close>

definition groupRecords ::
  "(string \<Rightarrow> string) \<Rightarrow> string \<Rightarrow> scenarioGroup \<Rightarrow> DeltaRecord list result" where
  "groupRecords sha norm sg = rbind (compareScenario sha norm sg) (\<lambda>(recs, refs).
     Inr (map (coverageRecord sha norm sg) (snd (scenarioComparison sg)) @ recs))"

lemma compareGroups_records:
  assumes "compareGroups sha limits norm ctx sgs rs0 scs0 n = Inr (rs, scs)"
  shows "\<exists>rss. map_result (groupRecords sha norm) sgs = Inr rss \<and> rs = rs0 @ concat rss
    \<and> scs = scs0 @ map (fst \<circ> scenarioComparison) sgs"
  using assms
proof (induction sgs arbitrary: ctx rs0 scs0 n)
  case (Cons sg sgs)
  obtain sc lims where sc: "scenarioComparison sg = (sc, lims)" by fastforce
  from Cons.prems obtain recs refs where cs: "compareScenario sha norm sg = Inr (recs, refs)"
    and rest: "compareGroups sha limits norm (ctx \<circ> Suc) sgs
        ((rs0 @ map (coverageRecord sha norm sg) lims) @ recs) (scs0 @ [sc]) (n + refs) = Inr (rs, scs)"
    by (auto simp: result_simps sc Let_def split: if_splits prod.splits)
  from Cons.IH [OF rest] show ?case
    by (auto simp: groupRecords_def cs sc)
qed simp

lemma fillID_id: "dr_ID r \<noteq> [] \<Longrightarrow> fillID sha norm r = r"
  by (simp add: fillID_def)

lemma makeRecord_ID: "dr_ID (makeRecord sha norm sid kind b h changed lim) \<noteq> []"
  by (simp add: makeRecord_def Let_def deltaRecordID_nonempty)

lemma scenario_ID_nonempty:
  assumes "compareScenario sha norm sg = Inr (records, refs)" and "r \<in> set records"
  shows "dr_ID r \<noteq> []"
proof -
  obtain base head ambB ambH where
    recs: "records = scenarioRecords sha norm sg base head ambB ambH"
    using assms(1) by (rule compareScenario_elim)
  show ?thesis
    using assms(2) makeRecord_ID orderRecord_ID unfolding recs scenarioRecords_def
    by (auto simp: exactRecords_def modifiedRecords_def removedFor_def removedRecord_def addedFor_def
        addedRecord_def split: option.splits if_splits)
qed

lemma group_ID_nonempty:
  assumes "groupRecords sha norm sg = Inr rs" and "r \<in> set rs"
  shows "dr_ID r \<noteq> []"
  using assms scenario_ID_nonempty
  by (fastforce simp: groupRecords_def result_simps coverageRecord_def Let_def deltaRecordID_nonempty)

lemma compareBody_elim:
  assumes "compareBody sha limits ctx doc = Inr delta"
  obtains rss where
    "validateTraceDocument doc limits = None"
    "map_result (groupRecords sha (np_Version (ts_Profile doc))) (groupScenarios (ts_Attempts doc)) = Inr rss"
    "bd_Records delta = sortRecords (concat rss)"
    "bd_Summary delta = summarize (bd_Records delta)"
    "bd_ScenarioIDs delta = map sg_id (groupScenarios (ts_Attempts doc))"
    "bd_ScenarioComparisons delta = map (fst \<circ> scenarioComparison) (groupScenarios (ts_Attempts doc))"
proof -
  let ?norm = "np_Version (ts_Profile doc)" and ?gs = "groupScenarios (ts_Attempts doc)"
  from assms obtain rs scs where v: "validateTraceDocument doc limits = None"
    and cg: "compareGroups sha limits ?norm (ctx \<circ> Suc) ?gs [] [] 0 = Inr (rs, scs)"
    and d: "bd_Records delta = map (fillID sha ?norm) (sortRecords rs)"
      "bd_Summary delta = summarize (bd_Records delta)" "bd_ScenarioIDs delta = map sg_id ?gs"
      "bd_ScenarioComparisons delta = scs"
    by (auto simp: compareBody_def result_simps Let_def split: prod.splits)
  obtain rss where rss: "map_result (groupRecords sha ?norm) ?gs = Inr rss" "rs = concat rss"
    and scs: "scs = map (fst \<circ> scenarioComparison) ?gs"
    using compareGroups_records [OF cg] by auto
  have "dr_ID r \<noteq> []" if r: "r \<in> set rs" for r
  proof -
    obtain ys where "ys \<in> set rss" "r \<in> set ys" using r rss(2) by auto
    then show ?thesis using map_result_Inr_set [OF rss(1)] group_ID_nonempty by blast
  qed
  then have "map (fillID sha ?norm) (sortRecords rs) = sortRecords rs"
    by (intro map_idI fillID_id) (simp add: sortRecords_def)
  then show thesis using that v rss d scs by simp
qed

lemma document_record_group:
  assumes "compareBody sha limits ctx doc = Inr delta" and "r \<in> set (bd_Records delta)"
  obtains sg recs refs where "sg \<in> set (groupScenarios (ts_Attempts doc))"
    "compareScenario sha (np_Version (ts_Profile doc)) sg = Inr (recs, refs)"
    "r \<in> set recs \<or> r \<in> coverageRecord sha (np_Version (ts_Profile doc)) sg ` set (snd (scenarioComparison sg))"
proof -
  let ?norm = "np_Version (ts_Profile doc)" and ?gs = "groupScenarios (ts_Attempts doc)"
  obtain rss where rss: "map_result (groupRecords sha ?norm) ?gs = Inr rss"
    and "bd_Records delta = sortRecords (concat rss)"
    using assms(1) by (rule compareBody_elim)
  with assms(2) obtain ys where "ys \<in> set rss" "r \<in> set ys" by (auto simp: sortRecords_def)
  then obtain sg where "sg \<in> set ?gs" "groupRecords sha ?norm sg = Inr ys"
    using map_result_Inr_set [OF rss] by blast
  with \<open>r \<in> set ys\<close> that show thesis by (force simp: groupRecords_def result_simps)
qed

section \<open>Kinds, order and summary\<close>

definition recordKey :: "DeltaRecord \<Rightarrow> string \<times> nat \<times> string \<times> string \<times> string \<times> string" where
  "recordKey r = (firstScenario (dr_ScenarioIDs r), rankKind (dr_Kind r), dr_FactKind r, dr_Source r,
     dr_AnchorDigest r, dr_ID r)"

interpretation record_order: keyed_order recordLess recordKey
  by unfold_locales (auto simp: recordLess_def recordKey_def less_prod_def')

definition deltaKinds :: "string list" where
  "deltaKinds = [DeltaKindAdded, DeltaKindRemoved, DeltaKindModified, DeltaKindCountChanged,
     DeltaKindOrderChanged, DeltaKindStabilityChanged, DeltaKindCoverageChanged]"

lemma scenario_kinds:
  assumes "compareScenario sha norm sg = Inr (records, refs)" and "r \<in> set records"
  shows "dr_Kind r \<in> set deltaKinds"
proof -
  obtain base head ambB ambH where
    recs: "records = scenarioRecords sha norm sg base head ambB ambH"
    using assms(1) by (rule compareScenario_elim)
  show ?thesis
    using assms(2) unfolding recs scenarioRecords_def deltaKinds_def
    by (auto dest: exactRecords_kind modifiedRecords_kind orderRecord_fields [OF sym]
        split: option.splits if_splits)
qed

lemma document_kinds:
  assumes "compareBody sha limits ctx doc = Inr delta" and "r \<in> set (bd_Records delta)"
  shows "dr_Kind r \<in> set deltaKinds"
proof -
  obtain sg recs refs where
    cs: "compareScenario sha (np_Version (ts_Profile doc)) sg = Inr (recs, refs)"
    and "r \<in> set recs \<or> r \<in> coverageRecord sha (np_Version (ts_Profile doc)) sg ` set (snd (scenarioComparison sg))"
    using assms by (rule document_record_group)
  then show ?thesis
    using scenario_kinds [OF cs] by (auto simp: coverageRecord_def Let_def deltaKinds_def)
qed

lemma count_by_kind:
  assumes "\<forall>r\<in>set rs. dr_Kind r \<in> set deltaKinds"
  shows "int (length rs) = ds_Added (summarize rs) + ds_Removed (summarize rs) + ds_Modified (summarize rs)
    + ds_CountChanged (summarize rs) + ds_OrderChanged (summarize rs)
    + ds_StabilityChanged (summarize rs) + ds_CoverageChanged (summarize rs)"
  using assms
proof (induction rs)
  case (Cons r rs)
  then show ?case by (auto simp: summarize_def countKind_def deltaKinds_def)
qed (simp add: summarize_def countKind_def)

section \<open>No two records describe the same change\<close>

type_synonym record_tag = "string \<times> string \<times> string \<times> string \<times> string list \<times> string list"

definition recordTag :: "DeltaRecord \<Rightarrow> record_tag" where
  "recordTag r = (firstScenario (dr_ScenarioIDs r), dr_Kind r, dr_FactKind r, dr_Source r,
     dr_BaseSemanticDigests r, dr_HeadSemanticDigests r)"

lemma side_key:
  assumes "side sha at vs" and "map_of vs k = Some v"
  shows "k = va_semantic v @ NUL # va_kind v @ NUL # va_source v"
proof -
  have v: "va_facts v = keyFacts at k" "va_facts v \<noteq> []" "va_kind v = fa_Kind (hd (va_facts v))"
    "va_source v = fa_Source (hd (va_facts v))" "va_semantic v = fa_SemanticDigest (hd (va_facts v))"
    using assms unfolding side_def by blast+
  then have "hd (va_facts v) \<in> set (keyFacts at k)" by (metis hd_in_set)
  then have "variantKey (hd (va_facts v)) = k" by (simp add: keyFacts_def)
  then show ?thesis using v(3-5) by (simp add: variantKey_def)
qed

lemma makeRecord_source [simp]:
  "dr_FactKind (makeRecord sha norm sid kind b h changed lim) =
     (case h of Some v \<Rightarrow> va_kind v | None \<Rightarrow> (case b of Some v \<Rightarrow> va_kind v | None \<Rightarrow> []))"
  "dr_Source (makeRecord sha norm sid kind b h changed lim) =
     (case h of Some v \<Rightarrow> va_source v | None \<Rightarrow> (case b of Some v \<Rightarrow> va_source v | None \<Rightarrow> []))"
  by (cases b; cases h; simp add: makeRecord_def withBase_def withHead_def Let_def zeroRecord_def)+

lemma distinct_map_concat:
  assumes "distinct xs" and "\<And>x. x \<in> set xs \<Longrightarrow> length (g x) \<le> 1"
    and "\<And>x y r s. x \<in> set xs \<Longrightarrow> y \<in> set xs \<Longrightarrow> r \<in> set (g x) \<Longrightarrow> s \<in> set (g y) \<Longrightarrow> t r = t s \<Longrightarrow> x = y"
  shows "distinct (map t (concat (map g xs)))"
  using assms
proof (induction xs)
  case (Cons x xs)
  have "distinct (map t (g x))"
    using Cons.prems(2) [of x] by (cases "g x") auto
  moreover have "distinct (map t (concat (map g xs)))"
    using Cons by (metis distinct.simps(2) list.set_intros(2))
  moreover have "t r \<noteq> t s" if "r \<in> set (g x)" "y \<in> set xs" "s \<in> set (g y)" for r y s
    using Cons.prems(1) Cons.prems(3) [of x y r s] that by auto
  ultimately show ?case by auto
qed simp

lemma tag_sides:
  "recordTag (makeRecord sha norm sid kind b h changed lim)
     = (sid, kind, (case h of Some v \<Rightarrow> va_kind v | None \<Rightarrow> (case b of Some v \<Rightarrow> va_kind v | None \<Rightarrow> [])),
        (case h of Some v \<Rightarrow> va_source v | None \<Rightarrow> (case b of Some v \<Rightarrow> va_source v | None \<Rightarrow> [])),
        (case b of None \<Rightarrow> [] | Some v \<Rightarrow> [va_semantic v]), (case h of None \<Rightarrow> [] | Some v \<Rightarrow> [va_semantic v]))"
  by (simp add: recordTag_def firstScenario_def)

lemma modifiedRecords_elim:
  assumes "r \<in> set (modifiedRecords sha norm sid p)"
  obtains b h where "p = Some (b, h)" "r = makeRecord sha norm sid DeltaKindModified (Some b) (Some h)
    (changedFields (hd (va_facts b)) (hd (va_facts h))) []"
proof (cases p)
  case (Some q)
  obtain b h where "q = (b, h)" by fastforce
  with Some assms that show thesis by (simp add: modifiedRecords_def)
qed (use assms in \<open>simp add: modifiedRecords_def\<close>)

lemma exact_tags:
  assumes "side sha bt base" "side sha ht head"
  shows "distinct (map recordTag (concat (map (exactRecords sha norm sid base head) (unionKeys base head))))"
proof (rule distinct_map_concat [OF distinct_unionKeys])
  show "length (exactRecords sha norm sid base head k) \<le> 1" for k
    by (simp add: exactRecords_def split: option.splits)
next
  fix k j r s
  assume "r \<in> set (exactRecords sha norm sid base head k)" "s \<in> set (exactRecords sha norm sid base head j)"
    and tag: "recordTag r = recordTag s"
  then obtain b b' h h' where "map_of base k = Some b" "map_of base j = Some b'"
    "map_of head k = Some h" "map_of head j = Some h'"
    "va_kind h = va_kind h'" "va_source h = va_source h'" "va_semantic h = va_semantic h'"
    by (auto simp: exactRecords_def recordTag_def split: option.splits if_splits)
  then show "k = j" using side_key [OF assms(2)] by metis
qed

lemma modified_tags:
  assumes sb: "side sha bt base" and sh: "side sha ht head"
  shows "distinct (map recordTag (concat (map (\<lambda>a. modifiedRecords sha norm sid (paired base head a))
      (anchorKeys base head))))"
proof (rule distinct_map_concat)
  show "distinct (anchorKeys base head)" by (simp add: anchorKeys_def unionAnchorKeys_def)
  show "length (modifiedRecords sha norm sid (paired base head a)) \<le> 1" for a
    by (simp add: modifiedRecords_def split: option.splits prod.splits)
next
  fix a a' r s
  assume r: "r \<in> set (modifiedRecords sha norm sid (paired base head a))"
    and s: "s \<in> set (modifiedRecords sha norm sid (paired base head a'))"
    and tag: "recordTag r = recordTag s"
  obtain b h where p: "paired base head a = Some (b, h)"
    and r': "r = makeRecord sha norm sid DeltaKindModified (Some b) (Some h)
      (changedFields (hd (va_facts b)) (hd (va_facts h))) []"
    using r by (rule modifiedRecords_elim)
  obtain b' h' where p': "paired base head a' = Some (b', h')"
    and s': "s = makeRecord sha norm sid DeltaKindModified (Some b') (Some h')
      (changedFields (hd (va_facts b')) (hd (va_facts h'))) []"
    using s by (rule modifiedRecords_elim)
  have eq: "va_kind h = va_kind h'" "va_source h = va_source h'" "va_semantic h = va_semantic h'"
    using tag unfolding r' s' tag_sides by simp_all
  have m: "map_of head (va_key h) = Some h" "map_of head (va_key h') = Some h'"
    using paired_Some(2) [OF sb sh p] paired_Some(2) [OF sb sh p'] by simp_all
  have "va_key h = va_key h'"
    using side_key [OF sh m(1)] side_key [OF sh m(2)] eq by simp
  then have "Some h = Some h'" unfolding m [symmetric] by (rule arg_cong)
  then have "h = h'" by simp
  then show "a = a'" using paired_Some(6) [OF sb sh p] paired_Some(6) [OF sb sh p'] by simp
qed

lemma leftover_tags:
  assumes "side sha at vs"
  shows "distinct (map recordTag (map (removedFor sha norm sg (ambiguate amb (consume used vs))) (leftover used vs)))"
    and "distinct (map recordTag (map (addedFor sha norm sg (ambiguate amb (consume used vs))) (leftover used vs)))"
proof -
  let ?m = "ambiguate amb (consume used vs)"
  have d: "distinct (leftover used vs)" using assms distinct_leftover unfolding side_def by blast
  have key: "k = va_semantic (the (map_of ?m k)) @ NUL # va_kind (the (map_of ?m k)) @ NUL # va_source (the (map_of ?m k))"
    if k: "k \<in> set (leftover used vs)" for k
  proof -
    obtain v where v: "map_of vs k = Some v" using assms k by (rule leftover_side)
    obtain w where "map_of ?m k = Some w" "va_kind w = va_kind v" "va_source w = va_source v"
      "va_semantic w = va_semantic v" using v by (rule marked_lookup)
    then show ?thesis using side_key [OF assms v] by simp
  qed
  have "inj_on (\<lambda>k. recordTag (removedFor sha norm sg ?m k)) (set (leftover used vs))"
    by (rule inj_onI, subst key, assumption, subst (2) key, assumption)
       (simp add: recordTag_def, simp add: removedFor_def removedRecord_def)
  then show "distinct (map recordTag (map (removedFor sha norm sg ?m) (leftover used vs)))"
    using d by (simp add: distinct_map comp_def)
  have "inj_on (\<lambda>k. recordTag (addedFor sha norm sg ?m k)) (set (leftover used vs))"
    by (rule inj_onI, subst key, assumption, subst (2) key, assumption)
       (simp add: recordTag_def, simp add: addedFor_def addedRecord_def)
  then show "distinct (map recordTag (map (addedFor sha norm sg ?m) (leftover used vs)))"
    using d by (simp add: distinct_map comp_def)
qed

text \<open>The last two components of the tag, by the part of the list a record comes from.\<close>

lemma part_tags:
  "r \<in> set (exactRecords sha norm sid base head k) \<Longrightarrow> \<exists>kd fk sr x y. recordTag r = (sid, kd, fk, sr, [x], [y])
     \<and> kd \<in> {DeltaKindStabilityChanged, DeltaKindCountChanged}"
  "r \<in> set (modifiedRecords sha norm sid p) \<Longrightarrow>
     \<exists>fk sr x y. recordTag r = (sid, DeltaKindModified, fk, sr, [x], [y])"
  "\<exists>kd fk sr x. recordTag (removedFor sha norm sg m k) = (sg_id sg, kd, fk, sr, [x], [])
     \<and> kd \<in> {DeltaKindRemoved, DeltaKindCoverageChanged}"
  "\<exists>kd fk sr y. recordTag (addedFor sha norm sg m k) = (sg_id sg, kd, fk, sr, [], [y])
     \<and> kd \<in> {DeltaKindAdded, DeltaKindCoverageChanged}"
  "orderRecord sha norm sg = Some od \<Longrightarrow>
     \<exists>fk sr x y. recordTag od = (sg_id sg, DeltaKindOrderChanged, fk, sr, x, y)"
  "\<exists>fk sr. recordTag (coverageRecord sha norm sg l) = (sg_id sg, DeltaKindCoverageChanged, fk, sr, [], [])"
proof -
  show "r \<in> set (exactRecords sha norm sid base head k) \<Longrightarrow> \<exists>kd fk sr x y. recordTag r = (sid, kd, fk, sr, [x], [y])
     \<and> kd \<in> {DeltaKindStabilityChanged, DeltaKindCountChanged}"
    by (cases "map_of base k"; cases "map_of head k")
       (auto simp: exactRecords_def tag_sides split: if_splits)
  show "r \<in> set (modifiedRecords sha norm sid p) \<Longrightarrow>
     \<exists>fk sr x y. recordTag r = (sid, DeltaKindModified, fk, sr, [x], [y])"
    by (elim modifiedRecords_elim) (simp add: tag_sides)
  show "\<exists>kd fk sr x. recordTag (removedFor sha norm sg m k) = (sg_id sg, kd, fk, sr, [x], [])
     \<and> kd \<in> {DeltaKindRemoved, DeltaKindCoverageChanged}"
    by (simp add: recordTag_def firstScenario_def)
  show "\<exists>kd fk sr y. recordTag (addedFor sha norm sg m k) = (sg_id sg, kd, fk, sr, [], [y])
     \<and> kd \<in> {DeltaKindAdded, DeltaKindCoverageChanged}"
    by (simp add: recordTag_def firstScenario_def)
  show "orderRecord sha norm sg = Some od \<Longrightarrow>
     \<exists>fk sr x y. recordTag od = (sg_id sg, DeltaKindOrderChanged, fk, sr, x, y)"
    using orderRecord_fields by (simp add: recordTag_def firstScenario_def)
  show "\<exists>fk sr. recordTag (coverageRecord sha norm sg l) = (sg_id sg, DeltaKindCoverageChanged, fk, sr, [], [])"
    by (simp add: recordTag_def firstScenario_def coverageRecord_def Let_def zeroRecord_def)
qed

lemma scenario_tags:
  assumes "compareScenario sha norm sg = Inr (records, refs)"
  shows "distinct (map recordTag records)"
    and "\<And>r. r \<in> set records \<Longrightarrow> fst (recordTag r) = sg_id sg
      \<and> (fst (snd (recordTag r)) = DeltaKindCoverageChanged \<longrightarrow> snd (snd (snd (snd (recordTag r)))) \<noteq> ([], []))"
proof -
  obtain base head ambB ambH where sb: "side sha (sg_base sg) base" and sh: "side sha (sg_head sg) head"
    and recs: "records = scenarioRecords sha norm sg base head ambB ambH"
    using assms by (rule compareScenario_elim)
  let ?mb = "ambiguate ambB (consume (usedKeys fst base head) base)"
  let ?mh = "ambiguate ambH (consume (usedKeys snd base head) head)"
  define A where "A = concat (map (exactRecords sha norm (sg_id sg) base head) (unionKeys base head))"
  define B where "B = concat (map (\<lambda>a. modifiedRecords sha norm (sg_id sg) (paired base head a)) (anchorKeys base head))"
  define C where "C = map (removedFor sha norm sg ?mb) (leftover (usedKeys fst base head) base)"
  define D where "D = map (addedFor sha norm sg ?mh) (leftover (usedKeys snd base head) head)"
  define E where "E = (case orderRecord sha norm sg of Some od \<Rightarrow> [od] | None \<Rightarrow> [])"
  have split: "records = A @ B @ C @ D @ E"
    unfolding recs scenarioRecords_def A_def B_def C_def D_def E_def ..
  have tA: "\<exists>kd fk sr x y. recordTag r = (sg_id sg, kd, fk, sr, [x], [y])
      \<and> kd \<in> {DeltaKindStabilityChanged, DeltaKindCountChanged}" if r: "r \<in> set A" for r
    using r part_tags(1) unfolding A_def by fastforce
  have tB: "\<exists>fk sr x y. recordTag r = (sg_id sg, DeltaKindModified, fk, sr, [x], [y])" if r: "r \<in> set B" for r
    using r part_tags(2) unfolding B_def by fastforce
  have tC: "\<exists>kd fk sr x. recordTag r = (sg_id sg, kd, fk, sr, [x], [])
      \<and> kd \<in> {DeltaKindRemoved, DeltaKindCoverageChanged}" if r: "r \<in> set C" for r
    using r part_tags(3) unfolding C_def by auto
  have tD: "\<exists>kd fk sr x. recordTag r = (sg_id sg, kd, fk, sr, [], [x])
      \<and> kd \<in> {DeltaKindAdded, DeltaKindCoverageChanged}" if r: "r \<in> set D" for r
    using r part_tags(4) unfolding D_def by auto
  have tE: "\<exists>fk sr x y. recordTag r = (sg_id sg, DeltaKindOrderChanged, fk, sr, x, y)" if r: "r \<in> set E" for r
    using r part_tags(5) unfolding E_def by (auto split: option.splits)
  have dist: "distinct (map recordTag A)" "distinct (map recordTag B)" "distinct (map recordTag C)"
    "distinct (map recordTag D)" "distinct (map recordTag E)"
    using exact_tags [OF sb sh] modified_tags [OF sb sh] leftover_tags(1) [OF sb] leftover_tags(2) [OF sh]
    unfolding A_def B_def C_def D_def E_def by (simp_all split: option.splits)
  have AB: "recordTag ` set A \<inter> recordTag ` set B = {}" by (fastforce dest: tA tB)
  have AC: "recordTag ` set A \<inter> recordTag ` set C = {}" by (fastforce dest: tA tC)
  have AD: "recordTag ` set A \<inter> recordTag ` set D = {}" by (fastforce dest: tA tD)
  have AE: "recordTag ` set A \<inter> recordTag ` set E = {}" by (fastforce dest: tA tE)
  have BC: "recordTag ` set B \<inter> recordTag ` set C = {}" by (fastforce dest: tB tC)
  have BD: "recordTag ` set B \<inter> recordTag ` set D = {}" by (fastforce dest: tB tD)
  have BE: "recordTag ` set B \<inter> recordTag ` set E = {}" by (fastforce dest: tB tE)
  have CD: "recordTag ` set C \<inter> recordTag ` set D = {}" by (fastforce dest: tC tD)
  have CE: "recordTag ` set C \<inter> recordTag ` set E = {}" by (fastforce dest: tC tE)
  have DE: "recordTag ` set D \<inter> recordTag ` set E = {}" by (fastforce dest: tD tE)
  show "distinct (map recordTag records)"
    unfolding split map_append distinct_append set_append set_map Int_Un_distrib
    using dist AB AC AD AE BC BD BE CD CE DE by simp
  show "fst (recordTag r) = sg_id sg \<and> (fst (snd (recordTag r)) = DeltaKindCoverageChanged \<longrightarrow>
      snd (snd (snd (snd (recordTag r)))) \<noteq> ([], []))" if "r \<in> set records" for r
  proof -
    from that consider "r \<in> set A" | "r \<in> set B" | "r \<in> set C" | "r \<in> set D" | "r \<in> set E"
      unfolding split by auto
    then show ?thesis by cases (auto dest: tA tB tC tD tE)
  qed
qed

lemma group_tags:
  assumes "groupRecords sha norm sg = Inr rs"
  shows "distinct (map recordTag rs)" and "\<And>r. r \<in> set rs \<Longrightarrow> fst (recordTag r) = sg_id sg"
proof -
  obtain recs refs where cs: "compareScenario sha norm sg = Inr (recs, refs)"
    and rs: "rs = map (coverageRecord sha norm sg) (snd (scenarioComparison sg)) @ recs"
    using assms by (auto simp: groupRecords_def result_simps)
  have cov: "fst (recordTag c) = sg_id sg \<and> fst (snd (recordTag c)) = DeltaKindCoverageChanged
      \<and> snd (snd (snd (snd (recordTag c)))) = ([], [])"
    if c: "c \<in> coverageRecord sha norm sg ` L" for c L
  proof -
    obtain l where l: "c = coverageRecord sha norm sg l" using c by blast
    obtain fk sr where "recordTag (coverageRecord sha norm sg l) = (sg_id sg, DeltaKindCoverageChanged, fk, sr, [], [])"
      using part_tags(6) by blast
    then show ?thesis by (simp add: l)
  qed
  have "length (snd (scenarioComparison sg)) \<le> 1"
    by (simp add: scenarioComparison_def Let_def)
  then have "distinct (map recordTag (map (coverageRecord sha norm sg) (snd (scenarioComparison sg))))"
    by (cases "snd (scenarioComparison sg)") simp_all
  moreover have "recordTag c \<noteq> recordTag r"
    if "c \<in> coverageRecord sha norm sg ` L" "r \<in> set recs" for c r L
    using cov [OF that(1)] scenario_tags(2) [OF cs that(2)] by auto
  then have "recordTag ` coverageRecord sha norm sg ` set (snd (scenarioComparison sg))
      \<inter> recordTag ` set recs = {}" by blast
  ultimately show "distinct (map recordTag rs)"
    using scenario_tags(1) [OF cs] unfolding rs
    by (simp only: map_append distinct_append set_map simp_thms)
  show "fst (recordTag r) = sg_id sg" if "r \<in> set rs" for r
    using that cov scenario_tags(2) [OF cs] unfolding rs by auto
qed

lemma groups_tags:
  "map_result (groupRecords sha norm) sgs = Inr rss \<Longrightarrow> distinct (map sg_id sgs) \<Longrightarrow>
     distinct (map recordTag (concat rss)) \<and> fst ` recordTag ` set (concat rss) \<subseteq> sg_id ` set sgs"
proof (induction sgs arbitrary: rss)
  case (Cons sg sgs)
  then obtain rs rss' where rs: "groupRecords sha norm sg = Inr rs"
    and rss': "map_result (groupRecords sha norm) sgs = Inr rss'" and rss: "rss = rs # rss'"
    by (auto simp: result_simps)
  have IH: "distinct (map recordTag (concat rss'))" "fst ` recordTag ` set (concat rss') \<subseteq> sg_id ` set sgs"
    using Cons.IH [OF rss'] Cons.prems by simp_all
  have "recordTag r \<noteq> recordTag r'" if "r \<in> set rs" "r' \<in> set (concat rss')" for r r'
  proof
    assume eq: "recordTag r = recordTag r'"
    have "fst (recordTag r') \<in> sg_id ` set sgs" using IH(2) that(2) by blast
    then show False
      using group_tags(2) [OF rs that(1)] eq Cons.prems(2) by simp
  qed
  then have "recordTag ` set rs \<inter> recordTag ` set (concat rss') = {}" by blast
  then have "distinct (map recordTag (rs @ concat rss'))"
    using group_tags(1) [OF rs] IH(1) by (simp only: map_append distinct_append set_map simp_thms)
  moreover have "fst ` recordTag ` set (rs @ concat rss') \<subseteq> sg_id ` set (sg # sgs)"
  proof -
    have "fst ` recordTag ` set rs \<subseteq> {sg_id sg}" using group_tags(2) [OF rs] by blast
    with IH(2) show ?thesis unfolding set_append image_Un list.set image_insert by blast
  qed
  ultimately show ?case by (simp add: rss)
qed simp

lemma document_tags:
  assumes "compareBody sha limits ctx doc = Inr delta"
  shows "distinct (map recordTag (bd_Records delta))"
proof -
  obtain rss where rss: "map_result (groupRecords sha (np_Version (ts_Profile doc)))
      (groupScenarios (ts_Attempts doc)) = Inr rss"
    and recs: "bd_Records delta = sortRecords (concat rss)"
    using assms by (rule compareBody_elim)
  have "distinct (map recordTag (concat rss))"
    using groups_tags [OF rss groupScenarios_ids(1)] by blast
  then show ?thesis
    by (simp add: recs sortRecords_def distinct_map)
qed

section \<open>Record identities\<close>

text \<open>An identity is the hash of the record, for the basis the record had when it was made.\<close>

definition identified :: "(string \<Rightarrow> string) \<Rightarrow> string \<Rightarrow> DeltaRecord \<Rightarrow> bool" where
  "identified sha norm r \<longleftrightarrow> (\<exists>b. dr_ID r = deltaRecordID sha ComparisonProfileVersionV1Alpha1 norm
     (firstScenario (dr_ScenarioIDs r)) (r\<lparr>dr_Basis := b\<rparr>))"

lemma deltaRecordID_ignores_ID [simp]:
  "deltaRecordID sha p n s (r\<lparr>dr_ID := i\<rparr>) = deltaRecordID sha p n s r"
  by (simp add: deltaRecordID_def deltaRecordBytes_def)

lemma identified_makeRecord: "identified sha norm (makeRecord sha norm sid kind b h changed lim)"
proof -
  let ?r = "makeRecord sha norm sid kind b h changed lim"
  obtain r6 where r6: "?r = r6\<lparr>dr_ID := deltaRecordID sha ComparisonProfileVersionV1Alpha1 norm sid r6\<rparr>"
    unfolding makeRecord_def Let_def by blast
  have "dr_ScenarioIDs ?r = [sid]" by simp
  then show ?thesis
    unfolding identified_def
    by (intro exI [of _ "dr_Basis r6"]) (simp add: r6 firstScenario_def)
qed

lemma identified_basis: "identified sha norm r \<Longrightarrow> identified sha norm (r\<lparr>dr_Basis := b\<rparr>)"
  by (auto simp: identified_def)

lemma scenario_identified:
  assumes "compareScenario sha norm sg = Inr (records, refs)" and "r \<in> set records"
  shows "identified sha norm r"
proof -
  obtain base head ambB ambH where
    recs: "records = scenarioRecords sha norm sg base head ambB ambH"
    using assms(1) by (rule compareScenario_elim)
  have order: "identified sha norm od" if "orderRecord sha norm sg = Some od" for od
    using that unfolding identified_def
    by (intro exI [of _ BasisCompleteObservation])
       (auto simp: orderRecord_def Let_def zeroRecord_def firstScenario_def deltaRecordID_def
          deltaRecordBytes_def split: option.splits if_splits)
  have exact: "identified sha norm q" if "q \<in> set (exactRecords sha norm sid base head k)" for q sid k
    using that identified_makeRecord
    by (cases "map_of base k"; cases "map_of head k") (auto simp: exactRecords_def split: if_splits)
  show ?thesis
    using assms(2) unfolding recs scenarioRecords_def
    by (auto simp: removedFor_def removedRecord_def addedFor_def addedRecord_def
        intro: identified_basis identified_makeRecord exact order elim!: modifiedRecords_elim
        split: option.splits)
qed

definition go_record :: "DeltaRecord \<Rightarrow> bool" where
  "go_record r \<longleftrightarrow> list_all go_len (dr_ScenarioIDs r) \<and> go_len (dr_Kind r) \<and> go_len (dr_FactKind r)
     \<and> go_len (dr_Source r) \<and> go_len (dr_AnchorDigest r)
     \<and> go_len (dr_ChangedFields r) \<and> list_all go_len (dr_ChangedFields r)
     \<and> go_len (dr_BaseSemanticDigests r) \<and> list_all go_len (dr_BaseSemanticDigests r)
     \<and> go_len (dr_HeadSemanticDigests r) \<and> list_all go_len (dr_HeadSemanticDigests r)"

lemma go_firstScenario: "go_record r \<Longrightarrow> go_len (firstScenario (dr_ScenarioIDs r))"
  by (cases "dr_ScenarioIDs r") (simp_all add: go_record_def firstScenario_def go_len_def)

lemma identified_tag:
  assumes "inj sha" and "go_len norm" and "go_record r" "go_record s"
    and "identified sha norm r" "identified sha norm s" and "dr_ID r = dr_ID s"
  shows "recordTag r = recordTag s"
proof -
  obtain b c where "deltaRecordID sha ComparisonProfileVersionV1Alpha1 norm
      (firstScenario (dr_ScenarioIDs r)) (r\<lparr>dr_Basis := b\<rparr>)
    = deltaRecordID sha ComparisonProfileVersionV1Alpha1 norm
      (firstScenario (dr_ScenarioIDs s)) (s\<lparr>dr_Basis := c\<rparr>)"
    using assms(5-7) unfolding identified_def by metis
  then have "deltaRecordBytes ComparisonProfileVersionV1Alpha1 norm
      (firstScenario (dr_ScenarioIDs r)) (r\<lparr>dr_Basis := b\<rparr>)
    = deltaRecordBytes ComparisonProfileVersionV1Alpha1 norm
      (firstScenario (dr_ScenarioIDs s)) (s\<lparr>dr_Basis := c\<rparr>)"
    using assms(1) by (simp add: deltaRecordID_def inj_eq)
  then show ?thesis
    using assms(2-4) go_firstScenario
    by (simp add: deltaRecordBytes_def str.enc_append_iff strs.enc_append_iff go_record_def recordTag_def)
qed

lemma document_identified:
  assumes "compareBody sha limits ctx doc = Inr delta" and "r \<in> set (bd_Records delta)"
  shows "identified sha (np_Version (ts_Profile doc)) r"
proof -
  let ?norm = "np_Version (ts_Profile doc)"
  obtain sg recs refs where cs: "compareScenario sha ?norm sg = Inr (recs, refs)"
    and r: "r \<in> set recs \<or> r \<in> coverageRecord sha ?norm sg ` set (snd (scenarioComparison sg))"
    using assms by (rule document_record_group)
  have "identified sha ?norm (coverageRecord sha ?norm sg l)" for l
    unfolding identified_def
    by (intro exI [of _ BasisCoverageLimited])
       (simp add: coverageRecord_def Let_def zeroRecord_def firstScenario_def deltaRecordID_def
          deltaRecordBytes_def)
  then show ?thesis using r scenario_identified [OF cs] by blast
qed

end
