(* ===== verification/Compare_Valid.thy ===== *)
theory Compare_Valid
  imports Compare_Document
begin

text \<open>
  What \<open>validateTraceDocument\<close> guarantees of an accepted document, the evidence lists, and a scenario
  whose two sides were observed alike.
\<close>

section \<open>Accepted documents\<close>

definition validRef :: "AttemptTrace \<Rightarrow> RawEvidenceReference \<Rightarrow> bool" where
  "validRef a r \<longleftrightarrow> rer_Revision r = at_Revision a \<and> rer_ScenarioID r = at_ScenarioID a
     \<and> rer_Repetition r = at_Repetition a \<and> rer_EventID r \<noteq> [] \<and> rer_EventSequence r \<noteq> 0
     \<and> validDigest (rer_EventStreamDigest r) \<and> rer_EventStreamPath r \<noteq> []"

definition validFact :: "AttemptTrace \<Rightarrow> Fact \<Rightarrow> bool" where
  "validFact a f \<longleftrightarrow> fa_ID f \<noteq> [] \<and> validDigest (fa_SemanticDigest f) \<and> isSupportedFactKind (fa_Kind f)
     \<and> isSupportedSource (fa_Source f) \<and> factPayloadCount f = 1 \<and> list_all (validRef a) (fa_Evidence f)"

lemma validateFact_Inr:
  "validateFact a f seen = Inr seen' \<longleftrightarrow> validFact a f \<and> fa_ID f \<notin> seen \<and> seen' = insert (fa_ID f) seen"
  by (auto simp: validateFact_def validFact_def validRef_def validateFactPayload_def result_simps
      list_all_iff list_ex_iff)

lemma validateFacts_Inr:
  "validateFacts a fs seen = Inr seen' \<Longrightarrow>
     list_all (validFact a) fs \<and> distinct (map fa_ID fs) \<and> seen \<inter> fa_ID ` set fs = {}
     \<and> seen' = seen \<union> fa_ID ` set fs"
proof (induction fs arbitrary: seen)
  case (Cons f fs)
  from Cons.prems have f: "validFact a f" "fa_ID f \<notin> seen"
    and fs: "validateFacts a fs (insert (fa_ID f) seen) = Inr seen'"
    by (auto simp: result_simps validateFact_Inr)
  from Cons.IH [OF fs] f show ?case by auto
qed simp

definition coordinate :: "AttemptTrace \<Rightarrow> string \<times> string \<times> nat" where
  "coordinate a = (at_Revision a, at_ScenarioID a, at_Repetition a)"

definition knownRevision :: "AttemptTrace \<Rightarrow> bool" where
  "knownRevision a \<longleftrightarrow> at_Revision a = RevisionKindBase \<or> at_Revision a = RevisionKindHead"

lemma itoa_suffix_inject:
  assumes "NUL \<notin> set x" "NUL \<notin> set y" and "s @ NUL # x = t @ NUL # y"
  shows "s = t \<and> x = y"
proof -
  have "rev x @ NUL # rev s = rev y @ NUL # rev t"
    using arg_cong [OF assms(3), of rev] by simp
  then show ?thesis using nul_split_inject [of "rev x" "rev y" "rev s" "rev t"] assms by simp
qed

lemma coordinateKey_inject:
  assumes "knownRevision a" "knownRevision b" and "coordinateKey a = coordinateKey b"
  shows "coordinate a = coordinate b"
proof -
  have "NUL \<notin> set (at_Revision a)" "NUL \<notin> set (at_Revision b)"
    using assms(1,2) by (auto simp: knownRevision_def)
  then have "at_Revision a = at_Revision b"
    and "at_ScenarioID a @ NUL # itoa (at_Repetition a) = at_ScenarioID b @ NUL # itoa (at_Repetition b)"
    using assms(3) nul_split_inject by (auto simp: coordinateKey_def)
  then show ?thesis
    using itoa_suffix_inject [of "itoa (at_Repetition a)" "itoa (at_Repetition b)"]
    by (simp add: coordinate_def)
qed

text \<open>The attempts after the scan state \<open>s\<close>, the next index being \<open>i\<close>.\<close>

definition scanned :: "CompareLimits \<Rightarrow> nat \<Rightarrow> AttemptTrace list \<Rightarrow> attemptScan \<Rightarrow> bool" where
  "scanned limits i as s \<longleftrightarrow>
     list_all (\<lambda>a. at_AttemptID a \<noteq> [] \<and> at_ScenarioID a \<noteq> [] \<and> at_Repetition a \<noteq> 0
        \<and> knownRevision a \<and> int (length (at_Facts a)) \<le> cl_MaxFactsPerAttempt limits
        \<and> list_all (validFact a) (at_Facts a)) as
     \<and> distinct (map at_AttemptID as) \<and> asc_attempts s \<inter> at_AttemptID ` set as = {}
     \<and> distinct (map coordinateKey as) \<and> asc_coordinates s \<inter> coordinateKey ` set as = {}
     \<and> distinct (map fa_ID (allFacts as)) \<and> asc_facts s \<inter> fa_ID ` set (allFacts as) = {}
     \<and> map at_Ordinal as = [i + 1..<i + 1 + length as]
     \<and> (\<exists>m. map at_Revision as = replicate m RevisionKindBase @ replicate (length as - m) RevisionKindHead
          \<and> m \<le> length as \<and> (asc_sawHead s \<longrightarrow> m = 0))
     \<and> (as \<noteq> [] \<longrightarrow> int (asc_factCount s + length (allFacts as)) \<le> cl_MaxFactsTotal limits)"

lemma validateAttempt_Inr:
  assumes "validateAttempt limits i a s = Inr s'"
  shows "at_AttemptID a \<noteq> []" "at_ScenarioID a \<noteq> []" "at_Repetition a \<noteq> 0"
    "at_AttemptID a \<notin> asc_attempts s" "coordinateKey a \<notin> asc_coordinates s" "knownRevision a"
    "asc_sawHead s \<longrightarrow> at_Revision a = RevisionKindHead"
    "int (length (at_Facts a)) \<le> cl_MaxFactsPerAttempt limits"
    "int (asc_factCount s + length (at_Facts a)) \<le> cl_MaxFactsTotal limits" "at_Ordinal a = i + 1"
    "validateFacts a (at_Facts a) (asc_facts s) = Inr (asc_facts s')"
    "asc_attempts s' = insert (at_AttemptID a) (asc_attempts s)"
    "asc_coordinates s' = insert (coordinateKey a) (asc_coordinates s)"
    "asc_factCount s' = asc_factCount s + length (at_Facts a)"
    "asc_sawHead s' = (asc_sawHead s \<or> at_Revision a = RevisionKindHead)"
  using assms
  by (auto simp: validateAttempt_def result_simps knownRevision_def split: if_splits)

lemma validateAttempts_scanned:
  "validateAttempts limits i as s = Inr s' \<Longrightarrow> scanned limits i as s"
proof (induction as arbitrary: i s)
  case Nil
  show ?case by (simp add: scanned_def allFacts_def)
next
  case (Cons a as)
  then obtain s1 where s1: "validateAttempt limits i a s = Inr s1"
    and rest: "validateAttempts limits (i + 1) as s1 = Inr s'"
    by (auto simp: result_simps)
  note va = validateAttempt_Inr [OF s1]
  note vf = validateFacts_Inr [OF va(11)]
  have IH: "scanned limits (i + 1) as s1" by (rule Cons.IH [OF rest])
  have facts: "allFacts (a # as) = at_Facts a @ allFacts as" by (simp add: allFacts_def)
  have ids: "distinct (map fa_ID (allFacts (a # as)))" "asc_facts s \<inter> fa_ID ` set (allFacts (a # as)) = {}"
    using IH vf unfolding facts scanned_def by auto
  obtain m where m: "map at_Revision as = replicate m RevisionKindBase @ replicate (length as - m) RevisionKindHead"
    "m \<le> length as" "asc_sawHead s1 \<longrightarrow> m = 0"
    using IH unfolding scanned_def by blast
  have rev: "\<exists>m. map at_Revision (a # as) =
      replicate m RevisionKindBase @ replicate (length (a # as) - m) RevisionKindHead
      \<and> m \<le> length (a # as) \<and> (asc_sawHead s \<longrightarrow> m = 0)"
  proof (cases "at_Revision a = RevisionKindHead")
    case True
    then have "m = 0" using m(3) va(15) by simp
    with m(1) True show ?thesis by (intro exI [of _ 0]) simp
  next
    case False
    then have "at_Revision a = RevisionKindBase" "\<not> asc_sawHead s"
      using va(6,7) by (auto simp: knownRevision_def)
    with m show ?thesis by (intro exI [of _ "Suc m"]) simp
  qed
  have total: "int (asc_factCount s + length (allFacts (a # as))) \<le> cl_MaxFactsTotal limits"
    using IH va(9,14) unfolding scanned_def facts by (cases as) (auto simp: allFacts_def)
  have ord: "map at_Ordinal (a # as) = [i + 1..<i + 1 + length (a # as)]"
  proof -
    have o: "map at_Ordinal as = [i + 1 + 1..<i + 1 + 1 + length as]"
      using IH unfolding scanned_def by blast
    have "[i + 1..<i + 1 + length (a # as)] = (i + 1) # [i + 1 + 1..<i + 1 + 1 + length as]"
      by (subst upt_conv_Cons) simp_all
    then show ?thesis by (simp only: list.map o va(10))
  qed
  have att: "distinct (map at_AttemptID (a # as))" "asc_attempts s \<inter> at_AttemptID ` set (a # as) = {}"
    "distinct (map coordinateKey (a # as))" "asc_coordinates s \<inter> coordinateKey ` set (a # as) = {}"
    using IH va(4,5,12,13) unfolding scanned_def by auto
  show ?case
    unfolding scanned_def
    using IH va(1-3,6,8) vf ids rev total ord att
    by (simp only: scanned_def list.pred_inject simp_thms)
qed

lemma validateTraceDocument_None:
  assumes "validateTraceDocument doc limits = None"
  shows "scanned limits 0 (ts_Attempts doc) startScan" "validDigest (ts_PlanDigest doc)"
    "validDigest (ts_ManifestDigest doc)" "ts_RunID doc \<noteq> []" "ts_Attempts doc \<noteq> []"
    "np_Version (ts_Profile doc) = ProfileVersionV1Alpha1"
  using assms validateAttempts_scanned
  by (auto simp: validateTraceDocument_def split: if_splits sum.splits)

lemma scanned_coordinates:
  assumes "scanned limits i as s"
  shows "distinct (map coordinate as)"
proof -
  have "inj_on coordinate (set as)"
  proof (rule inj_onI)
    fix a b
    assume ab: "a \<in> set as" "b \<in> set as" "coordinate a = coordinate b"
    then have "coordinateKey a = coordinateKey b" by (simp add: coordinate_def coordinateKey_def)
    moreover have "inj_on coordinateKey (set as)"
      using assms by (simp add: scanned_def distinct_map)
    ultimately show "a = b" using ab by (simp add: inj_on_eq_iff)
  qed
  moreover have "distinct as" using assms by (simp add: scanned_def distinct_map)
  ultimately show ?thesis by (simp add: distinct_map)
qed

section \<open>Lists without repeated keys\<close>

interpretation string_order: keyed_order "(<) :: string \<Rightarrow> string \<Rightarrow> bool" "\<lambda>x. x"
  by unfold_locales simp

lemma slice_stable_strings: "slice_stable (<) (xs :: string list) = sort xs"
  by (simp add: string_order.slice_stable_sort_key)

text \<open>The map that \<open>dedupe_by\<close> fills: every key once, each with an entry of that key.\<close>

lemma dedupe_map:
  fixes key :: "'a \<Rightarrow> string"
  defines "seen xs \<equiv> fold (\<lambda>r. AList.update (key r) r) xs []"
  shows "distinct (map fst (seen xs))" and "fst ` set (seen xs) = key ` set xs"
    and "map_of (seen xs) k = Some r \<Longrightarrow> key r = k \<and> r \<in> set xs"
proof -
  have "distinct (map fst (seen xs)) \<and> fst ` set (seen xs) = key ` set xs
      \<and> (\<forall>k r. map_of (seen xs) k = Some r \<longrightarrow> key r = k \<and> r \<in> set xs)"
  proof (induction xs rule: rev_induct)
    case Nil
    show ?case by (simp add: seen_def)
  next
    case (snoc x xs)
    have step: "seen (xs @ [x]) = AList.update (key x) x (seen xs)" by (simp add: seen_def)
    have "fst ` set (AList.update (key x) x (seen xs)) = insert (key x) (fst ` set (seen xs))"
      using arg_cong [OF update_keys, of set "key x" x "seen xs"] by (auto split: if_splits)
    moreover have "distinct (map fst (AList.update (key x) x (seen xs)))"
      using snoc by (simp add: distinct_update)
    ultimately show ?case
      using snoc unfolding step by (simp add: update_conv)
  qed
  then show "distinct (map fst (seen xs))" "fst ` set (seen xs) = key ` set xs"
    "map_of (seen xs) k = Some r \<Longrightarrow> key r = k \<and> r \<in> set xs" by blast+
qed

lemma dedupe_by_spec:
  "set (dedupe_by key xs) \<subseteq> set xs" "map key (dedupe_by key xs) = sorted_list_of_set (key ` set xs)"
proof -
  let ?seen = "fold (\<lambda>r. AList.update (key r) r) xs []"
  have found: "key (the (map_of ?seen k)) = k \<and> the (map_of ?seen k) \<in> set xs" if k: "k \<in> fst ` set ?seen" for k
  proof -
    obtain r where "map_of ?seen k = Some r" using k by (rule fst_map_ofE)
    then show ?thesis using dedupe_map(3) [of key xs k r] by simp
  qed
  show "set (dedupe_by key xs) \<subseteq> set xs"
    using found by (auto simp: dedupe_by_def Let_def)
  have "map key (dedupe_by key xs) = sort (map fst ?seen)"
    unfolding dedupe_by_def Let_def map_map
    by (subst map_idI) (use found in \<open>simp_all add: slice_stable_strings\<close>)
  also have "\<dots> = sorted_list_of_set (set (map fst ?seen))"
    using dedupe_map(1) [of key xs] by (simp only: sorted_list_of_set_sort_remdups distinct_remdups_id)
  finally show "map key (dedupe_by key xs) = sorted_list_of_set (key ` set xs)"
    using dedupe_map(2) [of key xs] by simp
qed

lemma dedupe_by_id:
  assumes "sorted (map key xs)" and "distinct (map key xs)"
  shows "dedupe_by key xs = xs"
proof -
  let ?seen = "fold (\<lambda>r. AList.update (key r) r) xs []"
  have "sorted_list_of_set (key ` set xs) = map key xs"
    using assms by (metis list.set_map sorted_list_of_set.idem_if_sorted_distinct)
  then have keys: "map key (dedupe_by key xs) = map key xs"
    by (simp only: dedupe_by_spec(2))
  moreover have "inj_on key (set (dedupe_by key xs) \<union> set xs)"
    using assms(2) dedupe_by_spec(1) [of key xs] by (simp add: distinct_map Un_absorb1)
  ultimately show ?thesis by (rule map_inj_on)
qed

lemma dedupe_by_idem [simp]: "dedupe_by key (dedupe_by key xs) = dedupe_by key xs"
  by (rule dedupe_by_id) (simp_all add: dedupe_by_spec(2))

section \<open>Sides that were observed alike\<close>

definition factView :: "Fact \<Rightarrow> string \<times> string \<times> string" where
  "factView f = (fa_SemanticDigest f, fa_Kind f, fa_Source f)"

text \<open>What one attempt shows of the behavior: its facts in order, up to identity and evidence.\<close>

definition attemptView :: "AttemptTrace \<Rightarrow> nat \<times> string \<times> (string \<times> string \<times> string) list" where
  "attemptView a = (at_Repetition a, at_Coverage a, map factView (at_Facts a))"

definition viewKey :: "string \<times> string \<times> string \<Rightarrow> string" where
  "viewKey v = (case v of (d, k, s) \<Rightarrow> d @ NUL # k @ NUL # s)"

lemma variantKey_view: "variantKey f = viewKey (factView f)"
  by (simp add: variantKey_def viewKey_def factView_def)

lemma tagged_view:
  "map (\<lambda>(r, f). (r, variantKey f)) (tagged at)
     = concat (map (\<lambda>(r, c, vs). map (\<lambda>v. (r, viewKey v)) vs) (map attemptView at))"
  by (induction at) (simp_all add: tagged_def attemptView_def variantKey_view comp_def)

lemma keyCount_view:
  "rpf_facts (keyCount at k a)
     = length (filter (\<lambda>x. x = (at_Repetition a, k)) (map (\<lambda>(r, f). (r, variantKey f)) (tagged at)))"
  by (simp add: keyCount_def filter_map comp_def case_prod_unfold)

lemma keyProfile_view:
  assumes "map attemptView bt = map attemptView ht"
  shows "keyProfile bt k = keyProfile ht k"
proof -
  have tag: "map (\<lambda>(r, f). (r, variantKey f)) (tagged bt) = map (\<lambda>(r, f). (r, variantKey f)) (tagged ht)"
    by (simp only: tagged_view assms)
  let ?g = "\<lambda>tg (r, c, vs). \<lparr>rpf_repetition = r, rpf_coverage = c,
      rpf_facts = length (filter (\<lambda>x. x = (r, k)) tg)\<rparr>"
  have "map (keyCount at k) at
      = map (?g (map (\<lambda>(r, f). (r, variantKey f)) (tagged at))) (map attemptView at)" for at
    using keyCount_view [of at k]
    by (auto simp: attemptView_def keyCount_def)
  then have "map (keyCount bt k) bt = map (keyCount ht k) ht"
    by (simp only: tag assms)
  moreover have "length bt = length ht" using assms by (metis length_map)
  ultimately show ?thesis by (simp add: keyProfile_def)
qed

lemma keys_view:
  assumes "map attemptView bt = map attemptView ht"
  shows "variantKey ` set (allFacts bt) = variantKey ` set (allFacts ht)"
proof -
  have keys: "variantKey ` set (allFacts at)
      = snd ` set (map (\<lambda>(r, f). (r, variantKey f)) (tagged at))" for at
  proof -
    have "snd ` set (tagged at) = set (allFacts at)"
      using arg_cong [OF map_snd_tagged, of set at] by simp
    moreover have "snd ` set (map (\<lambda>(r, f). (r, variantKey f)) (tagged at)) = variantKey ` snd ` set (tagged at)"
      by (simp add: image_image case_prod_unfold)
    ultimately show ?thesis by simp
  qed
  show ?thesis unfolding keys by (simp only: tagged_view assms)
qed

lemma stableSequences_view:
  assumes "map attemptView bt = map attemptView ht"
  shows "stableSequences bt = stableSequences ht"
proof -
  define S :: "(nat \<times> string \<times> (string \<times> string \<times> string) list) list \<Rightarrow> Digest list option" where
    "S vs = (if length vs < 2 then None
      else if list_all (\<lambda>(r, c, fs). c = CoverageComplete \<and> map fst fs = map fst (snd (snd (hd vs)))) vs
      then Some (map fst (snd (snd (hd vs)))) else None)" for vs
  have "stableSequences at = S (map attemptView at)" for at
    by (cases at) (simp_all add: S_def stableSequences_def attemptView_def factSequence_def
        list_all_iff comp_def factView_def)
  then show ?thesis by (simp only: assms)
qed

lemma attemptsComplete_view:
  assumes "map attemptView bt = map attemptView ht" and "attemptsComplete bt"
  shows "attemptsComplete ht"
proof -
  have "map at_Coverage at = map (fst \<circ> snd) (map attemptView at)" for at
    by (simp add: attemptView_def)
  then have "map at_Coverage bt = map at_Coverage ht" by (simp only: assms(1))
  moreover have "attemptsComplete at \<longleftrightarrow> map at_Coverage at \<noteq> [] \<and> set (map at_Coverage at) \<subseteq> {CoverageComplete}" for at
    by (auto simp: attemptsComplete_def list_all_iff)
  ultimately show ?thesis using assms(2) by (simp only: simp_thms)
qed

lemma observed_alike:
  assumes view: "map attemptView (sg_base sg) = map attemptView (sg_head sg)"
    and cs: "compareScenario sha norm sg = Inr (records, refs)"
  shows "records = []"
proof -
  obtain base head ambB ambH where sb: "side sha (sg_base sg) base" and sh: "side sha (sg_head sg) head"
    and recs: "records = scenarioRecords sha norm sg base head ambB ambH"
    using cs by (rule compareScenario_elim)
  have dom: "fst ` set base = fst ` set head"
    using sb sh keys_view [OF view] unfolding side_def by simp
  have prof: "va_profile b = va_profile h" if "map_of base k = Some b" "map_of head k = Some h" for k b h
    using that sb sh keyProfile_view [OF view] unfolding side_def by metis
  have shared: "set (sharedKeys base head) = fst ` set base" "set (sharedKeys base head) = fst ` set head"
    unfolding set_eq_iff set_sharedKeys onBoth_def using dom by simp_all
  have exact: "exactRecords sha norm (sg_id sg) base head k = []" for k
    using prof [of k] by (auto simp: exactRecords_def split: option.splits)
  have none: "unconsumed (consume ks vs) = []" if "side sha at vs" "set ks = fst ` set vs" for at vs ks
  proof -
    have "v \<notin> set (unconsumed (consume ks vs))" for v
      using unconsumed_side [OF that(1)] that(2) fst_map_of [of "va_key v" vs] by auto
    then show ?thesis by (metis list.set_intros(1) neq_Nil_conv)
  qed
  have "anchorKeys base head = []"
    using none [OF sb] none [OF sh] shared
    by (simp add: anchorKeys_def unionAnchorKeys_def anchorsOf_def restBase_def restHead_def)
  moreover have "leftover (usedKeys fst base head) base = []" "leftover (usedKeys snd base head) head = []"
    using shared by (simp_all add: set_empty [symmetric] set_leftover usedKeys_def Diff_eq_empty_iff
        del: set_empty)
  moreover have "orderRecord sha norm sg = None"
    using stableSequences_view [OF view] by (simp add: orderRecord_def split: option.splits)
  ultimately show ?thesis
    by (simp add: recs scenarioRecords_def exact)
qed

section \<open>Modified facts\<close>

lemma side_hd:
  assumes "side sha at vs" and "map_of vs k = Some v"
  shows "hd (va_facts v) \<in> set (allFacts at)" "variantKey (hd (va_facts v)) = k"
    "va_facts v = keyFacts at k" "typedAnchorDigest sha (hd (va_facts v)) = Inr (va_anchor v)"
    "fa_Kind (hd (va_facts v)) = va_kind v" "fa_Source (hd (va_facts v)) = va_source v"
proof -
  have v: "va_facts v = keyFacts at k" "va_facts v \<noteq> []"
    "typedAnchorDigest sha (hd (va_facts v)) = Inr (va_anchor v)"
    "va_kind v = fa_Kind (hd (va_facts v))" "va_source v = fa_Source (hd (va_facts v))"
    using assms unfolding side_def by blast+
  have "hd (va_facts v) \<in> set (keyFacts at k)" using hd_in_set [OF v(2)] v(1) by simp
  then show "hd (va_facts v) \<in> set (allFacts at)" "variantKey (hd (va_facts v)) = k"
    by (simp_all add: keyFacts_def)
  show "va_facts v = keyFacts at k" "typedAnchorDigest sha (hd (va_facts v)) = Inr (va_anchor v)"
    "fa_Kind (hd (va_facts v)) = va_kind v" "fa_Source (hd (va_facts v)) = va_source v"
    using v by simp_all
qed

lemma scenario_modified:
  assumes "compareScenario sha norm sg = Inr (records, refs)"
    and "r \<in> set records" and "dr_Kind r = DeltaKindModified"
  shows "\<exists>f\<in>set (allFacts (sg_base sg)). \<exists>g\<in>set (allFacts (sg_head sg)).
      variantKey f \<notin> variantKey ` set (allFacts (sg_head sg))
      \<and> variantKey g \<notin> variantKey ` set (allFacts (sg_base sg))
      \<and> typedAnchorDigest sha f = typedAnchorDigest sha g
      \<and> fa_Kind f = fa_Kind g \<and> fa_Source f = fa_Source g
      \<and> dr_ChangedFields r = changedFields f g \<and> changedFields f g \<noteq> []
      \<and> dr_BaseFacts r = snapshots (keyFacts (sg_base sg) (variantKey f))
      \<and> dr_HeadFacts r = snapshots (keyFacts (sg_head sg) (variantKey g))"
proof -
  obtain base head ambB ambH where sb: "side sha (sg_base sg) base" and sh: "side sha (sg_head sg) head"
    and recs: "records = scenarioRecords sha norm sg base head ambB ambH"
    using assms(1) by (rule compareScenario_elim)
  have "\<exists>a. r \<in> set (modifiedRecords sha norm (sg_id sg) (paired base head a))"
    using assms(2,3) unfolding recs scenarioRecords_def
    by (auto dest: exactRecords_kind orderRecord_fields [OF sym] split: option.splits if_splits)
  then obtain a b h where p: "paired base head a = Some (b, h)"
    and r: "r = makeRecord sha norm (sg_id sg) DeltaKindModified (Some b) (Some h)
      (changedFields (hd (va_facts b)) (hd (va_facts h))) []"
    by (auto elim: modifiedRecords_elim)
  note ps = paired_Some [OF sb sh p]
  note fb = side_hd [OF sb ps(1)] and fh = side_hd [OF sh ps(2)]
  have keys: "variantKey ` set (allFacts (sg_base sg)) = fst ` set base"
    "variantKey ` set (allFacts (sg_head sg)) = fst ` set head"
    using sb sh unfolding side_def by simp_all
  have "va_key b \<notin> fst ` set head" "va_key h \<notin> fst ` set base"
    using ps(1-4) unfolding set_sharedKeys onBoth_def fst_map_of by auto
  then show ?thesis
    using fb fh ps(5-11) unfolding keys
    by (intro bexI [of _ "hd (va_facts b)"] bexI [of _ "hd (va_facts h)"])
       (simp_all add: r)
qed

section \<open>From scenarios to the document\<close>

lemma set_allFacts_sort [simp]: "set (allFacts (sortAttempts at)) = set (allFacts at)"
  by (simp add: allFacts_def)

text \<open>The records of a scenario, picked from the records of all groups.\<close>

lemma filter_scenario:
  "map_result (groupRecords sha norm) sgs = Inr rss \<Longrightarrow> distinct (map sg_id sgs) \<Longrightarrow> sg \<in> set sgs \<Longrightarrow>
     groupRecords sha norm sg = Inr rs \<Longrightarrow>
     filter (\<lambda>r. firstScenario (dr_ScenarioIDs r) = sg_id sg) (concat rss) = rs"
proof (induction sgs arbitrary: rss)
  case (Cons g sgs)
  then obtain gs rss' where gs: "groupRecords sha norm g = Inr gs"
    and rss': "map_result (groupRecords sha norm) sgs = Inr rss'" and rss: "rss = gs # rss'"
    by (auto simp: result_simps)
  have own: "\<forall>r\<in>set gs. firstScenario (dr_ScenarioIDs r) = sg_id g"
    using group_tags(2) [OF gs] by (simp add: recordTag_def)
  show ?case
  proof (cases "g = sg")
    case True
    have "\<forall>r\<in>set (concat rss'). firstScenario (dr_ScenarioIDs r) \<noteq> sg_id sg"
    proof
      fix r
      assume "r \<in> set (concat rss')"
      moreover have "fst ` recordTag ` set (concat rss') \<subseteq> sg_id ` set sgs"
        using groups_tags [OF rss'] Cons.prems(2) by simp
      ultimately have "fst (recordTag r) \<in> sg_id ` set sgs" by blast
      then show "firstScenario (dr_ScenarioIDs r) \<noteq> sg_id sg"
        using Cons.prems(2) True by (auto simp: recordTag_def)
    qed
    then have "filter (\<lambda>r. firstScenario (dr_ScenarioIDs r) = sg_id sg) (concat rss') = []"
      by (simp only: filter_empty_conv)
    moreover have "gs = rs" using gs Cons.prems(4) True by simp
    ultimately show ?thesis using own True by (simp add: rss filter_id_conv)
  next
    case False
    then have "sg \<in> set sgs" "sg_id g \<noteq> sg_id sg" using Cons.prems(2,3) by force+
    then have "filter (\<lambda>r. firstScenario (dr_ScenarioIDs r) = sg_id sg) gs = []"
      using own by (auto simp: filter_empty_conv)
    with Cons.IH [OF rss'] Cons.prems(2,4) \<open>sg \<in> set sgs\<close> show ?thesis by (simp add: rss)
  qed
qed simp

lemma length_filter_sort: "length (filter P (sortRecords rs)) = length (filter P rs)"
  by (metis mset_filter mset_slice_stable size_mset sortRecords_def)

text \<open>The group of a scenario and its records within the document.\<close>

lemma document_scenario:
  assumes "compareBody sha limits ctx doc = Inr delta" and "a \<in> set (ts_Attempts doc)"
  obtains sg recs refs where "sg \<in> set (groupScenarios (ts_Attempts doc))" "sg_id sg = at_ScenarioID a"
    "sg_base sg = sortAttempts (ofBase (at_ScenarioID a) (ts_Attempts doc))"
    "sg_head sg = sortAttempts (ofHead (at_ScenarioID a) (ts_Attempts doc))"
    "compareScenario sha (np_Version (ts_Profile doc)) sg = Inr (recs, refs)"
    "\<forall>P. length (filter (\<lambda>r. firstScenario (dr_ScenarioIDs r) = at_ScenarioID a \<and> P r) (bd_Records delta))
       = length (filter P (map (coverageRecord sha (np_Version (ts_Profile doc)) sg)
                             (snd (scenarioComparison sg)) @ recs))"
proof -
  let ?norm = "np_Version (ts_Profile doc)" and ?gs = "groupScenarios (ts_Attempts doc)"
  obtain rss where rss: "map_result (groupRecords sha ?norm) ?gs = Inr rss"
    and recs: "bd_Records delta = sortRecords (concat rss)"
    using assms(1) by (rule compareBody_elim)
  have "at_ScenarioID a \<in> sg_id ` set ?gs"
    using assms(2) unfolding groupScenarios_ids(2) by blast
  then obtain sg where sg: "sg \<in> set ?gs" "sg_id sg = at_ScenarioID a" by auto
  obtain i where i: "i < length ?gs" "?gs ! i = sg" using sg(1) by (auto simp: in_set_conv_nth)
  obtain rs where rs: "groupRecords sha ?norm sg = Inr rs"
    using map_result_Inr_nth [OF rss i(1)] i(2) by blast
  obtain srecs refs where cs: "compareScenario sha ?norm sg = Inr (srecs, refs)"
    and rs': "rs = map (coverageRecord sha ?norm sg) (snd (scenarioComparison sg)) @ srecs"
    using rs by (auto simp: groupRecords_def result_simps)
  have pick: "filter (\<lambda>r. firstScenario (dr_ScenarioIDs r) = at_ScenarioID a) (concat rss) = rs"
    using filter_scenario [OF rss groupScenarios_ids(1) sg(1) rs] sg(2) by simp
  have count: "length (filter (\<lambda>r. firstScenario (dr_ScenarioIDs r) = at_ScenarioID a \<and> P r) (bd_Records delta))
      = length (filter P rs)" for P
  proof -
    have "filter (\<lambda>r. firstScenario (dr_ScenarioIDs r) = at_ScenarioID a \<and> P r) (concat rss)
        = filter P (filter (\<lambda>r. firstScenario (dr_ScenarioIDs r) = at_ScenarioID a) (concat rss))"
      by (simp only: filter_filter conj_commute)
    then show ?thesis by (simp only: recs length_filter_sort pick)
  qed
  show thesis
    using that [OF sg _ _ cs] groupScenarios_mem [OF sg(1)] count unfolding rs' sg(2) by blast
qed

end
