(* ===== verification/Compare_Props.thy ===== *)
theory Compare_Props
  imports Compare_Valid
begin

text \<open>The properties of the comparator, with the concrete document that witnesses their hypotheses.\<close>

section \<open>An example document\<close>

definition demoDigest :: Digest where
  "demoDigest = ''sha256:'' @ replicate 64 (CHR ''0'')"

lemma demoDigest_valid: "validDigest demoDigest"
  by code_simp

lemma NUL_demoDigest: "NUL \<notin> set demoDigest"
  by code_simp

definition startedFact :: "string \<Rightarrow> string \<Rightarrow> Fact" where
  "startedFact i who = \<lparr>fa_ID = i, fa_SemanticDigest = demoDigest, fa_Kind = ''scenario-started'',
     fa_Source = ObservationSourceHostObserved,
     fa_Timing = \<lparr>nt_SourceRelativeNanos = 0, nt_IncludedInSemanticDigest = False, nt_ClockRegression = False\<rparr>,
     fa_Process = None, fa_Filesystem = None, fa_Network = None, fa_Artifact = None,
     fa_Scenario = Some \<lparr>sf_Status = ''running'', sf_Message = [], sf_DurationMillis = 0\<rparr>,
     fa_Warning = None, fa_Resource = None,
     fa_Evidence = [\<lparr>rer_EventStreamDigest = demoDigest, rer_EventStreamPath = ''e'', rer_EventID = ''ev'',
        rer_EventSequence = 1, rer_Revision = who, rer_ScenarioID = ''s'', rer_Repetition = 1\<rparr>],
     fa_Limitations = []\<rparr>"

definition demoAttempt :: "string \<Rightarrow> nat \<Rightarrow> string \<Rightarrow> Fact list \<Rightarrow> AttemptTrace" where
  "demoAttempt who ord coverage facts = \<lparr>at_AttemptID = ''att-'' @ who, at_Ordinal = ord,
     at_Revision = who, at_ScenarioID = ''s'', at_Repetition = 1, at_Coverage = coverage,
     at_Result = [], at_Events = [], at_Stdout = [], at_Stderr = [], at_Artifacts = [],
     at_FirstEventSequence = 0, at_LastEventSequence = 0, at_AcceptedEventCount = 0,
     at_Facts = facts, at_Limitations = []\<rparr>"

definition traceProfile :: NormalizationProfile where
  "traceProfile = \<lparr>np_Version = ProfileVersionV1Alpha1, np_IgnoreFields = [],
     np_ProcessIdentityAlgorithm = [], np_TimestampAlgorithm = [], np_PathRootAlgorithm = [],
     np_RootAliases = []\<rparr>"

definition traceDocument :: "AttemptTrace list \<Rightarrow> TraceSetDocument" where
  "traceDocument attempts = \<lparr>ts_SchemaVersion = TraceSetSchemaV1Alpha1, ts_Profile = traceProfile,
     ts_PlanDigest = demoDigest, ts_ManifestDigest = demoDigest, ts_RunID = ''run'',
     ts_ManifestVerification = \<lparr>mv_Mode = [], mv_ManifestDigest = [],
        mv_ExpectedManifestDigestSupplied = False, mv_ExpectedManifestDigestMatched = False,
        mv_InternallyConsistent = True, mv_Limitations = []\<rparr>,
     ts_ExecutionComplete = True, ts_EvidenceComplete = True,
     ts_EvidenceContext = \<lparr>ec_SyntheticEvidence = False, ec_ExecutesTargetCode = True\<rparr>,
     ts_Attempts = attempts, ts_Limitations = []\<rparr>"

text \<open>The base shows nothing, the head one fact; both were observed completely.\<close>

definition demoDoc :: TraceSetDocument where
  "demoDoc = traceDocument [demoAttempt ''base'' 1 CoverageComplete [],
     demoAttempt ''head'' 2 CoverageComplete [startedFact ''f1'' ''head'']]"

lemmas validate_defs = validateTraceDocument_def validateAttempt_def validateFact_def
  validateFactPayload_def factPayloadCount_def isSupportedSource_def ObservationSources_def
  isSupportedFactKind_def SupportedFactKinds_def ObservationKinds_def startScan_def
  coordinateKey_def compare_DefaultLimits_def

lemmas doc_defs = demoDoc_def traceDocument_def traceProfile_def demoAttempt_def startedFact_def
  demoDigest_valid NUL_demoDigest

lemma demo_accepted: "validateTraceDocument demoDoc compare_DefaultLimits = None"
  by (simp add: validate_defs doc_defs)

definition demoBase :: "AttemptTrace list" where
  "demoBase = [demoAttempt ''base'' 1 CoverageComplete []]"

definition demoHead :: "AttemptTrace list" where
  "demoHead = [demoAttempt ''head'' 2 CoverageComplete [startedFact ''f1'' ''head'']]"

definition demoGroup :: scenarioGroup where
  "demoGroup = \<lparr>sg_id = ''s'', sg_base = demoBase, sg_head = demoHead\<rparr>"

lemma demo_group: "groupScenarios (ts_Attempts demoDoc) = [demoGroup]"
  by (simp add: groupScenarios_def addAttempt_def sortAttempts_def demoDoc_def traceDocument_def
      demoAttempt_def demoGroup_def demoBase_def demoHead_def)

definition demoVariant :: variant where
  "demoVariant =
     (let f = startedFact ''f1'' ''head'';
          v = (newVariant f)\<lparr>va_factsByRep := [(1, [f])], va_facts := [f]\<rparr>
      in v\<lparr>va_profile := profileForVariant demoHead v, va_anchor := projr (typedAnchorDigest (\<lambda>s. s) f)\<rparr>)"

definition demoKey :: string where
  "demoKey = variantKey (startedFact ''f1'' ''head'')"

lemma demo_prepared:
  "map_result (prepareVariant (\<lambda>s. s) demoHead) (buildVariants demoHead) = Inr [(demoKey, demoVariant)]"
  by (simp add: demoHead_def demoAttempt_def buildVariants_def addFact_def Let_def factsOfRep_def
      newVariant_def prepareVariant_def demoVariant_def demoKey_def)
     (simp add: startedFact_def typedAnchorDigest_def anchorPayload_def Let_def processKinds_def
      filesystemKinds_def networkKinds_def scenarioKinds_def)

lemma demoVariant_fields [simp]:
  "va_facts demoVariant = [startedFact ''f1'' ''head'']" "\<not> va_consumed demoVariant"
  "\<not> va_ambiguous demoVariant" "va_key demoVariant = demoKey"
  by (simp_all add: demoVariant_def Let_def newVariant_def demoKey_def)

lemma demo_matched:
  "matchVariants sha norm sid [] [(demoKey, demoVariant)] =
     \<lparr>ms_base = [], ms_head = [(demoKey, demoVariant)], ms_records = []\<rparr>"
  by (simp add: matchVariants_def unionKeys_def exactStep_def unionAnchorKeys_def anchorsOf_def
      unconsumed_def anchored_def anchorStep_def Let_def)

definition demoRecord :: DeltaRecord where
  "demoRecord = addedRecord (\<lambda>s. s) ProfileVersionV1Alpha1 ''s'' True demoVariant"

lemma demo_scenario:
  "compareScenario (\<lambda>s. s) ProfileVersionV1Alpha1
     demoGroup
   = Inr ([demoRecord], length (dr_BaseEvidence demoRecord) + length (dr_HeadEvidence demoRecord))"
proof -
  have empty: "buildVariants demoBase = []"
    by (simp add: buildVariants_def demoAttempt_def demoBase_def)
  have complete: "attemptsComplete demoBase" "length demoHead = 1" "length demoBase = 1"
    by (simp_all add: attemptsComplete_def demoAttempt_def demoHead_def demoBase_def)
  show ?thesis
    by (simp add: compareScenario_def demo_prepared empty demo_matched sortedVariants_def Let_def
        orderRecord_def stableSequences_def complete demoRecord_def demoGroup_def)
qed

lemma demo_evidence: "length (dr_BaseEvidence demoRecord) = 0" "length (dr_HeadEvidence demoRecord) = 1"
  by (simp_all add: demoRecord_def addedRecord_def makeRecord_def Let_def withHead_def zeroRecord_def
      dedupeEvidence_def evidenceRefs_def dedupe_by_def startedFact_def)

definition demoDelta :: BehavioralDelta where
  "demoDelta = projr (compareBody (\<lambda>s. s) compare_DefaultLimits live demoDoc)"

lemma demo_compare:
  "compareBody (\<lambda>s. s) compare_DefaultLimits live demoDoc = Inr demoDelta"
  "bd_Records demoDelta = [demoRecord]"
proof -
  have "scenarioComparison demoGroup = (fst (scenarioComparison demoGroup), [])"
    by (simp add: scenarioComparison_def Let_def attemptsComplete_def demoAttempt_def demoHead_def
        demoBase_def demoGroup_def)
  then have "\<exists>scs. compareGroups (\<lambda>s. s) compare_DefaultLimits ProfileVersionV1Alpha1 live
      [demoGroup] [] [] 0
      = Inr ([demoRecord], scs)"
    by (auto simp: demo_scenario demo_evidence compare_DefaultLimits_def split: prod.splits)
  then obtain scs where cg: "compareGroups (\<lambda>s. s) compare_DefaultLimits ProfileVersionV1Alpha1 live
      [demoGroup] [] [] 0
      = Inr ([demoRecord], scs)" ..
  have "dr_ID demoRecord \<noteq> []"
    by (simp add: demoRecord_def addedRecord_def makeRecord_ID)
  moreover have "live \<circ> Suc = live" by (simp add: live_def comp_def)
  moreover have "np_Version (ts_Profile demoDoc) = ProfileVersionV1Alpha1"
    by (simp add: demoDoc_def traceDocument_def traceProfile_def)
  ultimately have "\<exists>d. compareBody (\<lambda>s. s) compare_DefaultLimits live demoDoc = Inr d
      \<and> bd_Records d = [demoRecord]"
    using cg by (simp add: compareBody_def demo_accepted demo_group Let_def
        sortRecords_def fillID_def)
  then show "compareBody (\<lambda>s. s) compare_DefaultLimits live demoDoc = Inr demoDelta"
    "bd_Records demoDelta = [demoRecord]" by (auto simp: demoDelta_def)
qed

section \<open>Properties\<close>

text \<open>
  C2. Unknown is not absence. A record of the delta says that a fact was added only if every base
  attempt of its scenario was observed completely (and there is one) and no base attempt shows a
  fact with the same digest, kind and source; the record then holds exactly the head facts of one such
  key. The same holds for removed facts with the sides exchanged. An incomplete side can only lead to a
  coverage change.
\<close>

theorem unknown_is_not_absence:
  assumes "compareBody sha limits ctx doc = Inr delta" and "r \<in> set (bd_Records delta)"
  shows "(dr_Kind r = DeltaKindAdded \<longrightarrow>
      (let sid = firstScenario (dr_ScenarioIDs r); B = ofBase sid (ts_Attempts doc);
           H = ofHead sid (ts_Attempts doc)
       in attemptsComplete B \<and> (\<exists>k\<in>variantKey ` set (allFacts H). k \<notin> variantKey ` set (allFacts B)
            \<and> dr_HeadFacts r = snapshots (keyFacts (sortAttempts H) k) \<and> dr_BaseFacts r = []))) \<and>
    (dr_Kind r = DeltaKindRemoved \<longrightarrow>
      (let sid = firstScenario (dr_ScenarioIDs r); B = ofBase sid (ts_Attempts doc);
           H = ofHead sid (ts_Attempts doc)
       in attemptsComplete H \<and> (\<exists>k\<in>variantKey ` set (allFacts B). k \<notin> variantKey ` set (allFacts H)
            \<and> dr_BaseFacts r = snapshots (keyFacts (sortAttempts B) k) \<and> dr_HeadFacts r = [])))"
proof -
  obtain sg recs refs where sg: "sg \<in> set (groupScenarios (ts_Attempts doc))"
    and cs: "compareScenario sha (np_Version (ts_Profile doc)) sg = Inr (recs, refs)"
    and r: "r \<in> set recs \<or> r \<in> coverageRecord sha (np_Version (ts_Profile doc)) sg ` set (snd (scenarioComparison sg))"
    using assms by (rule document_record_group)
  note gm = groupScenarios_mem [OF sg]
  have cov: "dr_Kind (coverageRecord sha norm sg l) = DeltaKindCoverageChanged" for norm l
    by (simp add: coverageRecord_def Let_def)
  have sid: "firstScenario (dr_ScenarioIDs r) = sg_id sg" if "r \<in> set recs"
    using scenario_tags(2) [OF cs that] by (simp add: recordTag_def)
  have mem: "r \<in> set recs" if "dr_Kind r \<noteq> DeltaKindCoverageChanged"
    using r that cov by auto
  show ?thesis
  proof (intro conjI impI)
    assume k: "dr_Kind r = DeltaKindAdded"
    then have "r \<in> set recs" using mem by simp
    from scenario_added_absent [OF cs this k] sid [OF this] gm show "let sid = firstScenario (dr_ScenarioIDs r);
        B = ofBase sid (ts_Attempts doc); H = ofHead sid (ts_Attempts doc)
       in attemptsComplete B \<and> (\<exists>k\<in>variantKey ` set (allFacts H). k \<notin> variantKey ` set (allFacts B)
            \<and> dr_HeadFacts r = snapshots (keyFacts (sortAttempts H) k) \<and> dr_BaseFacts r = [])"
      by (simp add: Let_def)
  next
    assume k: "dr_Kind r = DeltaKindRemoved"
    then have "r \<in> set recs" using mem by simp
    from scenario_removed_absent [OF cs this k] sid [OF this] gm show "let sid = firstScenario (dr_ScenarioIDs r);
        B = ofBase sid (ts_Attempts doc); H = ofHead sid (ts_Attempts doc)
       in attemptsComplete H \<and> (\<exists>k\<in>variantKey ` set (allFacts B). k \<notin> variantKey ` set (allFacts H)
            \<and> dr_BaseFacts r = snapshots (keyFacts (sortAttempts B) k) \<and> dr_HeadFacts r = [])"
      by (simp add: Let_def)
  qed
qed

lemma demoRecord_fields:
  "dr_Kind demoRecord = DeltaKindAdded" "firstScenario (dr_ScenarioIDs demoRecord) = ''s''"
  by (simp_all add: demoRecord_def addedRecord_def firstScenario_def)

theorem unknown_is_not_absence_witness:
  "attemptsComplete (ofBase ''s'' (ts_Attempts demoDoc))
   \<and> (\<exists>k\<in>variantKey ` set (allFacts (ofHead ''s'' (ts_Attempts demoDoc))).
        k \<notin> variantKey ` set (allFacts (ofBase ''s'' (ts_Attempts demoDoc))))"
proof -
  have "demoRecord \<in> set (bd_Records demoDelta)" by (simp add: demo_compare(2))
  from unknown_is_not_absence [OF demo_compare(1) this] show ?thesis
    by (auto simp: demoRecord_fields Let_def)
qed

text \<open>
  C3. Every observed fact is accounted for exactly once. In the records of its scenario, the
  snapshot of a base fact appears in the base facts of exactly one record, unless the head shows the
  same key with the same occurrence profile: then it appears in none. The same holds for head facts.
\<close>

theorem facts_accounted_once:
  assumes "compareBody sha limits ctx doc = Inr delta" and "a \<in> set (ts_Attempts doc)"
    and "f \<in> set (at_Facts a)"
  shows "(at_Revision a = RevisionKindBase \<longrightarrow>
      length (filter (\<lambda>r. firstScenario (dr_ScenarioIDs r) = at_ScenarioID a \<and> snapshot f \<in> set (dr_BaseFacts r))
        (bd_Records delta)) =
      (let B = sortAttempts (ofBase (at_ScenarioID a) (ts_Attempts doc));
           H = sortAttempts (ofHead (at_ScenarioID a) (ts_Attempts doc))
       in if variantKey f \<in> variantKey ` set (allFacts H)
             \<and> keyProfile B (variantKey f) = keyProfile H (variantKey f) then 0 else 1)) \<and>
    (at_Revision a \<noteq> RevisionKindBase \<longrightarrow>
      length (filter (\<lambda>r. firstScenario (dr_ScenarioIDs r) = at_ScenarioID a \<and> snapshot f \<in> set (dr_HeadFacts r))
        (bd_Records delta)) =
      (let B = sortAttempts (ofBase (at_ScenarioID a) (ts_Attempts doc));
           H = sortAttempts (ofHead (at_ScenarioID a) (ts_Attempts doc))
       in if variantKey f \<in> variantKey ` set (allFacts B)
             \<and> keyProfile B (variantKey f) = keyProfile H (variantKey f) then 0 else 1))"
proof -
  obtain sg recs refs where
    base: "sg_base sg = sortAttempts (ofBase (at_ScenarioID a) (ts_Attempts doc))"
    and head: "sg_head sg = sortAttempts (ofHead (at_ScenarioID a) (ts_Attempts doc))"
    and cs: "compareScenario sha (np_Version (ts_Profile doc)) sg = Inr (recs, refs)"
    and count: "\<forall>P. length (filter (\<lambda>r. firstScenario (dr_ScenarioIDs r) = at_ScenarioID a \<and> P r) (bd_Records delta))
       = length (filter P (map (coverageRecord sha (np_Version (ts_Profile doc)) sg)
                             (snd (scenarioComparison sg)) @ recs))"
    using assms(1,2) by (rule document_scenario)
  have cov: "filter (reportsBase f) (map (coverageRecord sha norm sg) ls) = []"
    "filter (reportsHead f) (map (coverageRecord sha norm sg) ls) = []" for norm ls
    by (simp_all add: filter_empty_conv reportsBase_def reportsHead_def coverageRecord_def Let_def zeroRecord_def)
  have mem: "at_Revision a = RevisionKindBase \<Longrightarrow> f \<in> set (allFacts (sg_base sg))"
    "at_Revision a \<noteq> RevisionKindBase \<Longrightarrow> f \<in> set (allFacts (sg_head sg))"
    using assms(2,3) by (auto simp: base head allFacts_def ofBase_def ofHead_def)
  show ?thesis
    using count [rule_format, of "reportsBase f"] count [rule_format, of "reportsHead f"] cov
      base_accounting [OF cs mem(1)] head_accounting [OF cs mem(2)]
    unfolding filter_append base head by (simp add: reportsBase_def reportsHead_def Let_def)
qed

theorem facts_accounted_once_witness:
  "length (filter (\<lambda>r. firstScenario (dr_ScenarioIDs r) = ''s''
       \<and> snapshot (startedFact ''f1'' ''head'') \<in> set (dr_HeadFacts r)) (bd_Records demoDelta)) = 1"
proof -
  let ?a = "demoAttempt ''head'' 2 CoverageComplete [startedFact ''f1'' ''head'']"
  have mem: "?a \<in> set (ts_Attempts demoDoc)" "startedFact ''f1'' ''head'' \<in> set (at_Facts ?a)"
    by (simp_all add: demoDoc_def traceDocument_def demoAttempt_def)
  have "allFacts (sortAttempts (ofBase ''s'' (ts_Attempts demoDoc))) = []"
    by (simp add: allFacts_def ofBase_def demoDoc_def traceDocument_def demoAttempt_def sortAttempts_def)
  then show ?thesis
    using facts_accounted_once [OF demo_compare(1) mem] by (simp add: demoAttempt_def)
qed

text \<open>
  The identities of the records of a delta are distinct, provided that the hash has no collision
  and the strings of the records are short enough for their 64-bit length prefixes.
\<close>

lemma record_ids_distinct:
  assumes "compareBody sha limits ctx doc = Inr delta" and "inj sha"
    and "list_all go_record (bd_Records delta)"
  shows "distinct (map dr_ID (bd_Records delta))"
proof -
  have norm: "np_Version (ts_Profile doc) = ProfileVersionV1Alpha1"
    using assms(1) by (rule compareBody_elim) (simp add: validateTraceDocument_None(6))
  have "inj_on dr_ID (set (bd_Records delta))"
  proof (rule inj_onI)
    fix r s
    assume r: "r \<in> set (bd_Records delta)" and s: "s \<in> set (bd_Records delta)" and eq: "dr_ID r = dr_ID s"
    have "recordTag r = recordTag s"
      using assms(2,3) r s eq document_identified [OF assms(1)]
      by (intro identified_tag [of sha "np_Version (ts_Profile doc)"]) (simp_all add: norm list_all_iff go_len_def)
    then show "r = s"
      using document_tags [OF assms(1)] r s unfolding distinct_map inj_on_def by blast
  qed
  then show ?thesis
    using document_tags [OF assms(1)] unfolding distinct_map by blast
qed

lemma demo_go_record: "go_record demoRecord"
proof -
  have "length (va_anchor demoVariant) < 2 ^ 32"
    by (simp add: demoVariant_def Let_def newVariant_def startedFact_def typedAnchorDigest_def
        anchorPayload_def processKinds_def filesystemKinds_def networkKinds_def scenarioKinds_def writeString_def)
  moreover have "va_kind demoVariant = ''scenario-started''" "va_semantic demoVariant = demoDigest"
    "va_source demoVariant = ObservationSourceHostObserved"
    by (simp_all add: demoVariant_def Let_def newVariant_def startedFact_def)
  moreover have "length demoDigest = 71" by (simp add: demoDigest_def)
  ultimately show ?thesis
    by (simp add: go_record_def go_len_def demoRecord_def addedRecord_def makeRecord_def Let_def
        withHead_def zeroRecord_def sortDigests_def)
qed

lemma record_ids_distinct_witness:
  "distinct (map dr_ID (bd_Records demoDelta)) \<and> bd_Records demoDelta = [demoRecord]"
  using record_ids_distinct [OF demo_compare(1)] by (simp add: demo_compare(2) demo_go_record)

text \<open>
  The records of a delta are sorted by scenario, kind rank, fact kind, source, anchor and identity,
  and its summary is exact: the total is the number of records and the sum of the seven
  counts by kind, each of which is the number of records of that kind.
\<close>

lemma records_sorted_and_counted:
  assumes "compareBody sha limits ctx doc = Inr delta"
  shows "sorted (map recordKey (bd_Records delta)) \<and>
    ds_TotalRecords (bd_Summary delta) = int (length (bd_Records delta)) \<and>
    ds_TotalRecords (bd_Summary delta) =
      ds_Added (bd_Summary delta) + ds_Removed (bd_Summary delta) + ds_Modified (bd_Summary delta)
      + ds_CountChanged (bd_Summary delta) + ds_OrderChanged (bd_Summary delta)
      + ds_StabilityChanged (bd_Summary delta) + ds_CoverageChanged (bd_Summary delta) \<and>
    ds_Added (bd_Summary delta) = countKind DeltaKindAdded (bd_Records delta) \<and>
    ds_Removed (bd_Summary delta) = countKind DeltaKindRemoved (bd_Records delta)"
proof -
  obtain rss where recs: "bd_Records delta = sortRecords (concat rss)"
    and sum: "bd_Summary delta = summarize (bd_Records delta)"
    using assms by (rule compareBody_elim)
  have "sorted (map recordKey (bd_Records delta))"
    by (simp add: recs sortRecords_def record_order.slice_stable_sort_key)
  moreover have "\<forall>r\<in>set (bd_Records delta). dr_Kind r \<in> set deltaKinds"
    using document_kinds [OF assms] by blast
  ultimately show ?thesis
    using count_by_kind unfolding sum by (simp add: summarize_def)
qed

lemma records_sorted_and_counted_witness:
  "sorted (map recordKey (bd_Records demoDelta)) \<and> ds_TotalRecords (bd_Summary demoDelta) = 1
   \<and> ds_Added (bd_Summary demoDelta) = 1"
  using records_sorted_and_counted [OF demo_compare(1)]
  by (simp add: demo_compare(2) countKind_def demoRecord_fields)

text \<open>
  A scenario whose base and head attempts were all observed, each completely, and show the same
  facts (digest, kind and source) in the same order contributes no record to the delta: identities,
  evidence and limitations of the facts do not matter.
\<close>

lemma same_behavior_no_records:
  assumes "compareBody sha limits ctx doc = Inr delta" and "a \<in> set (ts_Attempts doc)"
    and "attemptsComplete (ofBase (at_ScenarioID a) (ts_Attempts doc))"
    and "map attemptView (sortAttempts (ofBase (at_ScenarioID a) (ts_Attempts doc)))
       = map attemptView (sortAttempts (ofHead (at_ScenarioID a) (ts_Attempts doc)))"
  shows "filter (\<lambda>r. firstScenario (dr_ScenarioIDs r) = at_ScenarioID a) (bd_Records delta) = []"
proof -
  obtain sg recs refs where
    base: "sg_base sg = sortAttempts (ofBase (at_ScenarioID a) (ts_Attempts doc))"
    and head: "sg_head sg = sortAttempts (ofHead (at_ScenarioID a) (ts_Attempts doc))"
    and cs: "compareScenario sha (np_Version (ts_Profile doc)) sg = Inr (recs, refs)"
    and count: "\<forall>P. length (filter (\<lambda>r. firstScenario (dr_ScenarioIDs r) = at_ScenarioID a \<and> P r) (bd_Records delta))
       = length (filter P (map (coverageRecord sha (np_Version (ts_Profile doc)) sg)
                             (snd (scenarioComparison sg)) @ recs))"
    using assms(1,2) by (rule document_scenario)
  have view: "map attemptView (sg_base sg) = map attemptView (sg_head sg)"
    using assms(4) by (simp only: base head)
  have recs: "recs = []" by (rule observed_alike [OF view cs])
  have "attemptsComplete (sg_head sg)"
    by (rule attemptsComplete_view [OF view]) (simp add: base assms(3))
  then have "snd (scenarioComparison sg) = []"
    using assms(3) by (simp add: scenarioComparison_def Let_def base)
  then show ?thesis
    using count [rule_format, of "\<lambda>_. True"] recs by simp
qed


definition quietDoc :: TraceSetDocument where
  "quietDoc = traceDocument [demoAttempt ''base'' 1 CoverageComplete [],
     demoAttempt ''head'' 2 CoverageComplete []]"

definition quietGroup :: scenarioGroup where
  "quietGroup = \<lparr>sg_id = ''s'', sg_base = demoBase, sg_head = [demoAttempt ''head'' 2 CoverageComplete []]\<rparr>"

lemma quiet_scenario: "compareScenario (\<lambda>s. s) norm quietGroup = Inr ([], 0)"
proof -
  have "buildVariants (sg_base quietGroup) = []" "buildVariants (sg_head quietGroup) = []"
    by (simp_all add: quietGroup_def buildVariants_def demoBase_def demoAttempt_def)
  moreover have "orderRecord (\<lambda>s. s) norm quietGroup = None"
    by (simp add: orderRecord_def stableSequences_def quietGroup_def demoBase_def)
  moreover have "matchVariants (\<lambda>s. s) norm sid [] [] = \<lparr>ms_base = [], ms_head = [], ms_records = []\<rparr>" for sid
    by (simp add: matchVariants_def unionKeys_def unionAnchorKeys_def anchorsOf_def unconsumed_def)
  ultimately show ?thesis
    by (simp add: compareScenario_def sortedVariants_def)
qed

lemma quiet_compare: "\<exists>d. compareBody (\<lambda>s. s) compare_DefaultLimits live quietDoc = Inr d"
proof -
  have "validateTraceDocument quietDoc compare_DefaultLimits = None"
    by (simp add: validate_defs quietDoc_def doc_defs)
  moreover have "groupScenarios (ts_Attempts quietDoc) = [quietGroup]"
    by (simp add: groupScenarios_def addAttempt_def sortAttempts_def quietDoc_def traceDocument_def
        demoAttempt_def quietGroup_def demoBase_def)
  moreover have "snd (scenarioComparison quietGroup) = []"
    by (simp add: scenarioComparison_def Let_def attemptsComplete_def demoAttempt_def quietGroup_def
        demoBase_def)
  ultimately show ?thesis
    by (cases "scenarioComparison quietGroup")
       (simp add: compareBody_def quiet_scenario compare_DefaultLimits_def Let_def)
qed

lemma same_behavior_no_records_witness:
  "\<exists>d. compareBody (\<lambda>s. s) compare_DefaultLimits live quietDoc = Inr d
     \<and> filter (\<lambda>r. firstScenario (dr_ScenarioIDs r) = ''s'') (bd_Records d) = []"
proof -
  let ?a = "demoAttempt ''base'' 1 CoverageComplete []"
  obtain d where d: "compareBody (\<lambda>s. s) compare_DefaultLimits live quietDoc = Inr d"
    using quiet_compare ..
  have "?a \<in> set (ts_Attempts quietDoc)" by (simp add: quietDoc_def traceDocument_def)
  moreover have "at_ScenarioID ?a = ''s''" by (simp add: demoAttempt_def)
  moreover have "ofBase ''s'' (ts_Attempts quietDoc) = [?a]"
    "ofHead ''s'' (ts_Attempts quietDoc) = [demoAttempt ''head'' 2 CoverageComplete []]"
    by (simp_all add: ofBase_def ofHead_def quietDoc_def traceDocument_def demoAttempt_def)
  ultimately show ?thesis
    using same_behavior_no_records [OF d, of ?a] d
    by (auto simp: attemptsComplete_def sortAttempts_def attemptView_def demoAttempt_def)
qed

text \<open>
  An occurrence profile counts the repetitions that were observed completely and only those: how
  many there are, the total, least and greatest number of occurrences among them, the coverage, and
  whether the counts are stable. A repetition that was not observed completely never counts as zero
  occurrences.
\<close>

lemma occurrence_profile_counts:
  "let p = buildOccurrenceProfile planned reps;
       cs = map (\<lambda>r. int (rpf_facts r)) (filter (\<lambda>r. rpf_coverage r = CoverageComplete) reps)
   in op_CompleteRepetitionCount p = int (length cs)
    \<and> op_CompleteRepetitionCount p + op_IncompleteRepetitionCount p = int (length reps)
    \<and> op_TotalKnownCount p = sum_list cs
    \<and> op_MinimumKnownCount p = (if cs = [] then 0 else Min (set cs))
    \<and> op_MaximumKnownCount p = (if cs = [] then 0 else Max (set cs))
    \<and> op_Coverage p = (if length cs = planned then CoverageAssessmentComplete
         else if cs \<noteq> [] then CoverageAssessmentPartial else CoverageAssessmentNone)
    \<and> op_Repeatability p =
        (if length cs = planned \<and> cs \<noteq> [] then
           (if length cs = 1 then RepeatabilitySingleSample
            else if Min (set cs) = Max (set cs) then RepeatabilityStable else RepeatabilityVariable)
         else RepeatabilityNotAssessable)"
  using buildOccurrenceProfile_spec [of planned reps]
  unfolding Let_def completeCounts_def by auto

text \<open>
  Only well-formed trace sets are compared. In a document that passes validation no two attempts
  share an identity or a coordinate (revision, scenario, repetition), the ordinals are 1, 2, ... in
  order, all base attempts come before all head attempts, no two facts of the whole document share an
  identity, and every fact has a supported kind and source, exactly one payload, and evidence that
  points into its own attempt.
\<close>

lemma accepted_document:
  assumes "validateTraceDocument doc limits = None"
  shows "distinct (map at_AttemptID (ts_Attempts doc))
    \<and> distinct (map coordinate (ts_Attempts doc))
    \<and> map at_Ordinal (ts_Attempts doc) = [1..<Suc (length (ts_Attempts doc))]
    \<and> (\<exists>m n. map at_Revision (ts_Attempts doc) = replicate m RevisionKindBase @ replicate n RevisionKindHead)
    \<and> distinct (map fa_ID (allFacts (ts_Attempts doc)))
    \<and> int (length (allFacts (ts_Attempts doc))) \<le> cl_MaxFactsTotal limits
    \<and> list_all (\<lambda>a. list_all (validFact a) (at_Facts a)) (ts_Attempts doc)"
proof -
  have s: "scanned limits 0 (ts_Attempts doc) startScan" and ne: "ts_Attempts doc \<noteq> []"
    using validateTraceDocument_None [OF assms] by simp_all
  show ?thesis
    using s ne scanned_coordinates [OF s] unfolding scanned_def startScan_def
    by (auto simp: list_all_iff simp del: upt_Suc)
qed

lemma accepted_document_witness:
  "map at_Ordinal (ts_Attempts demoDoc) = [1..<Suc (length (ts_Attempts demoDoc))]
   \<and> distinct (map coordinate (ts_Attempts demoDoc))"
  using accepted_document [OF demo_accepted] by blast

text \<open>
  The fields that a modification may name, with the condition for each. The list is the comparator's own: of a payload it leaves out what the
  anchor already fixes, and also the unit of a resource limit and the limitations of a warning.
\<close>

definition differing :: "Fact \<Rightarrow> Fact \<Rightarrow> string set" where
  "differing f g =
     {n. fa_Kind f \<in> set filesystemKinds \<and> (\<exists>x y. fa_Filesystem f = Some x \<and> fa_Filesystem g = Some y
        \<and> (n = ''filesystem.digest'' \<and> ff_Digest x \<noteq> ff_Digest y \<or> n = ''filesystem.mode'' \<and> ff_Mode x \<noteq> ff_Mode y
           \<or> n = ''filesystem.sizeBytes'' \<and> ff_SizeBytes x \<noteq> ff_SizeBytes y
           \<or> n = ''filesystem.executable'' \<and> ff_Executable x \<noteq> ff_Executable y
           \<or> n = ''filesystem.truncated'' \<and> ff_Truncated x \<noteq> ff_Truncated y))}
   \<union> {n. fa_Kind f = ''artifact-activity'' \<and> (\<exists>x y. fa_Artifact f = Some x \<and> fa_Artifact g = Some y
        \<and> (n = ''artifact.digest'' \<and> af_Digest x \<noteq> af_Digest y \<or> n = ''artifact.sizeBytes'' \<and> af_SizeBytes x \<noteq> af_SizeBytes y
           \<or> n = ''artifact.executable'' \<and> af_Executable x \<noteq> af_Executable y
           \<or> n = ''artifact.operation'' \<and> af_Operation x \<noteq> af_Operation y))}
   \<union> {n. fa_Kind f \<in> set networkKinds \<and> (\<exists>x y. fa_Network f = Some x \<and> fa_Network g = Some y
        \<and> (n = ''network.result'' \<and> nf_Result x \<noteq> nf_Result y \<or> n = ''network.durationMillis'' \<and> nf_DurationMillis x \<noteq> nf_DurationMillis y
           \<or> n = ''network.resolvedAddresses'' \<and> join_nul (nf_ResolvedAddresses x) \<noteq> join_nul (nf_ResolvedAddresses y)))}
   \<union> {n. fa_Kind f \<in> set scenarioKinds \<and> (\<exists>x y. fa_Scenario f = Some x \<and> fa_Scenario g = Some y
        \<and> (n = ''scenario.status'' \<and> sf_Status x \<noteq> sf_Status y \<or> n = ''scenario.durationMillis'' \<and> sf_DurationMillis x \<noteq> sf_DurationMillis y
           \<or> n = ''scenario.message'' \<and> sf_Message x \<noteq> sf_Message y))}
   \<union> {n. fa_Kind f \<in> set warningKinds \<and> (\<exists>x y. fa_Warning f = Some x \<and> fa_Warning g = Some y
        \<and> (n = ''warning.message'' \<and> wf_Message x \<noteq> wf_Message y \<or> n = ''warning.unsupported'' \<and> wf_Unsupported x \<noteq> wf_Unsupported y))}
   \<union> {n. fa_Kind f = ''resource-limit'' \<and> (\<exists>x y. fa_Resource f = Some x \<and> fa_Resource g = Some y
        \<and> (n = ''resource.limitValue'' \<and> rf_LimitValue x \<noteq> rf_LimitValue y
           \<or> n = ''resource.observedValue'' \<and> rf_ObservedValue x \<noteq> rf_ObservedValue y
           \<or> n = ''resource.exceeded'' \<and> rf_Exceeded x \<noteq> rf_Exceeded y))}
   \<union> {n. fa_Kind f \<in> set processKinds \<and> (\<exists>x y. fa_Process f = Some x \<and> fa_Process g = Some y
        \<and> (n = ''process.exitCode'' \<and> pf_ExitCode x \<noteq> pf_ExitCode y
           \<or> n = ''process.durationMillis'' \<and> pf_DurationMillis x \<noteq> pf_DurationMillis y))}"

lemma mem_differs: "n \<in> set (differs c m) \<longleftrightarrow> n = m \<and> c"
  by (simp add: differs_def)

lemma mem_both: "n \<in> set (both x y h) \<longleftrightarrow> (\<exists>a b. x = Some a \<and> y = Some b \<and> n \<in> set (h a b))"
  by (auto simp: both_def split: option.splits)

lemma kind_flags:
  "k \<in> set filesystemKinds \<Longrightarrow> k \<notin> set networkKinds \<and> k \<notin> set scenarioKinds \<and> k \<notin> set warningKinds \<and> k \<notin> set processKinds
     \<and> k \<noteq> ''artifact-activity'' \<and> k \<noteq> ''resource-limit''"
  "k \<in> set networkKinds \<Longrightarrow> k \<notin> set filesystemKinds \<and> k \<notin> set scenarioKinds \<and> k \<notin> set warningKinds \<and> k \<notin> set processKinds
     \<and> k \<noteq> ''artifact-activity'' \<and> k \<noteq> ''resource-limit''"
  "k \<in> set scenarioKinds \<Longrightarrow> k \<notin> set filesystemKinds \<and> k \<notin> set networkKinds \<and> k \<notin> set warningKinds \<and> k \<notin> set processKinds
     \<and> k \<noteq> ''artifact-activity'' \<and> k \<noteq> ''resource-limit''"
  "k \<in> set warningKinds \<Longrightarrow> k \<notin> set filesystemKinds \<and> k \<notin> set networkKinds \<and> k \<notin> set scenarioKinds \<and> k \<notin> set processKinds
     \<and> k \<noteq> ''artifact-activity'' \<and> k \<noteq> ''resource-limit''"
  "k \<in> set processKinds \<Longrightarrow> k \<notin> set filesystemKinds \<and> k \<notin> set networkKinds \<and> k \<notin> set scenarioKinds \<and> k \<notin> set warningKinds
     \<and> k \<noteq> ''artifact-activity'' \<and> k \<noteq> ''resource-limit''"
  "k \<in> {''artifact-activity'', ''resource-limit''} \<Longrightarrow> k \<notin> set filesystemKinds \<and> k \<notin> set networkKinds \<and> k \<notin> set scenarioKinds
     \<and> k \<notin> set warningKinds \<and> k \<notin> set processKinds"
  by (auto simp: filesystemKinds_def networkKinds_def scenarioKinds_def warningKinds_def processKinds_def)

lemma changedFields_differing: "set (changedFields f g) = differing f g"
proof (rule set_eqI)
  fix n
  note expand = changedFields_def differing_def set_slice_stable mem_both mem_differs set_append Un_iff mem_Collect_eq
  consider "fa_Kind f \<in> set filesystemKinds" | "fa_Kind f = ''artifact-activity''" | "fa_Kind f \<in> set networkKinds"
    | "fa_Kind f \<in> set scenarioKinds" | "fa_Kind f \<in> set warningKinds" | "fa_Kind f = ''resource-limit''"
    | "fa_Kind f \<in> set processKinds"
    | "fa_Kind f \<notin> set filesystemKinds" "fa_Kind f \<noteq> ''artifact-activity''" "fa_Kind f \<notin> set networkKinds"
      "fa_Kind f \<notin> set scenarioKinds" "fa_Kind f \<notin> set warningKinds" "fa_Kind f \<noteq> ''resource-limit''" "fa_Kind f \<notin> set processKinds"
    by blast
  then show "n \<in> set (changedFields f g) \<longleftrightarrow> n \<in> differing f g"
  proof cases
    case 1 then show ?thesis using kind_flags(1) [OF 1] unfolding expand by (simp add: mem_both mem_differs)
  next
    case 2
    then have "fa_Kind f \<in> {''artifact-activity'', ''resource-limit''}" by simp
    from kind_flags(6) [OF this] 2 show ?thesis unfolding expand by (simp add: mem_both mem_differs)
  next
    case 3 then show ?thesis using kind_flags(2) [OF 3] unfolding expand by (simp add: mem_both mem_differs)
  next
    case 4 then show ?thesis using kind_flags(3) [OF 4] unfolding expand by (simp add: mem_both mem_differs)
  next
    case 5 then show ?thesis using kind_flags(4) [OF 5] unfolding expand by (simp add: mem_both mem_differs)
  next
    case 6
    then have "fa_Kind f \<in> {''artifact-activity'', ''resource-limit''}" by simp
    from kind_flags(6) [OF this] 6 show ?thesis unfolding expand by (simp add: mem_both mem_differs)
  next
    case 7 then show ?thesis using kind_flags(5) [OF 7] unfolding expand by (simp add: mem_both mem_differs)
  next
    case 8 then show ?thesis unfolding expand by (simp add: mem_both mem_differs)
  qed
qed

lemma distinct_both: "(\<And>a b. distinct (h a b)) \<Longrightarrow> distinct (both x y h)"
  by (simp add: both_def split: option.split)

lemma distinct_differs: "distinct (differs c m @ xs) \<longleftrightarrow> distinct xs \<and> (c \<longrightarrow> m \<notin> set xs)" "distinct (differs c m)"
  by (simp_all add: differs_def)

lemma changedFields_sorted: "sorted_wrt (<) (changedFields f g)"
proof -
  have either: "distinct xs \<Longrightarrow> distinct ys \<Longrightarrow> distinct (if c then xs else ys)" for c and xs ys :: "string list" by simp
  have "distinct (changedFields f g)"
    unfolding changedFields_def distinct_slice_stable
    by (intro either distinct_both) (simp_all add: distinct_differs mem_differs del: distinct_append)
  moreover have "sorted (changedFields f g)"
    unfolding changedFields_def slice_stable_strings by (rule sorted_sort)
  ultimately show ?thesis by (simp add: strict_sorted_iff)
qed

text \<open>
  C8. A modification is reported only for facts that correspond unambiguously. A record of kind
  modified pairs the facts of one base key with those of one head key; neither key occurs on the
  other side, both keys have the same kind, source and anchor, and at least one compared field differs. The
  record names, in strict order, exactly the compared fields that differ: the digest, mode, size, executable and truncation flags of a file,
  the digest, size, executable flag and operation of an artifact, the result, duration and addresses of a connection, the status, duration
  and message of a scenario, the message and the support of a warning, the limit, the observed value and the excess of a
  resource, and the exit code and duration of a process.
\<close>

theorem modified_pairs_facts:
  assumes "compareBody sha limits ctx doc = Inr delta" and "r \<in> set (bd_Records delta)"
    and "dr_Kind r = DeltaKindModified"
  shows "let sid = firstScenario (dr_ScenarioIDs r); B = ofBase sid (ts_Attempts doc);
             H = ofHead sid (ts_Attempts doc)
    in \<exists>f\<in>set (allFacts B). \<exists>g\<in>set (allFacts H).
         variantKey f \<notin> variantKey ` set (allFacts H) \<and> variantKey g \<notin> variantKey ` set (allFacts B)
         \<and> typedAnchorDigest sha f = typedAnchorDigest sha g
         \<and> fa_Kind f = fa_Kind g \<and> fa_Source f = fa_Source g
         \<and> set (dr_ChangedFields r) = differing f g \<and> sorted_wrt (<) (dr_ChangedFields r) \<and> dr_ChangedFields r \<noteq> []
         \<and> dr_BaseFacts r = snapshots (keyFacts (sortAttempts B) (variantKey f))
         \<and> dr_HeadFacts r = snapshots (keyFacts (sortAttempts H) (variantKey g))"
proof -
  obtain sg recs refs where sg: "sg \<in> set (groupScenarios (ts_Attempts doc))"
    and cs: "compareScenario sha (np_Version (ts_Profile doc)) sg = Inr (recs, refs)"
    and r: "r \<in> set recs \<or> r \<in> coverageRecord sha (np_Version (ts_Profile doc)) sg ` set (snd (scenarioComparison sg))"
    using assms(1,2) by (rule document_record_group)
  have mem: "r \<in> set recs"
    using r assms(3) by (auto simp: coverageRecord_def Let_def)
  have "firstScenario (dr_ScenarioIDs r) = sg_id sg"
    using scenario_tags(2) [OF cs mem] by (simp add: recordTag_def)
  then show ?thesis
    using scenario_modified [OF cs mem assms(3)] groupScenarios_mem [OF sg]
    by (simp add: Let_def) (metis changedFields_differing changedFields_sorted)
qed

text \<open>A scenario start that took longer on the head than on the base.\<close>

definition slowFact :: Fact where
  "slowFact = (startedFact ''f2'' ''head'')\<lparr>fa_SemanticDigest := ''sha256:'' @ replicate 64 (CHR ''1''),
     fa_Scenario := Some \<lparr>sf_Status = ''running'', sf_Message = [], sf_DurationMillis = 5\<rparr>\<rparr>"

definition slowBase :: "AttemptTrace list" where
  "slowBase = [demoAttempt ''base'' 1 CoverageComplete [startedFact ''f1'' ''base'']]"

definition slowHead :: "AttemptTrace list" where
  "slowHead = [demoAttempt ''head'' 2 CoverageComplete [slowFact]]"

definition slowDoc :: TraceSetDocument where
  "slowDoc = traceDocument (slowBase @ slowHead)"

definition slowGroup :: scenarioGroup where
  "slowGroup = \<lparr>sg_id = ''s'', sg_base = slowBase, sg_head = slowHead\<rparr>"

definition onlyVariant :: "AttemptTrace list \<Rightarrow> Fact \<Rightarrow> variant" where
  "onlyVariant at f =
     (let v = (newVariant f)\<lparr>va_factsByRep := [(1, [f])], va_facts := [f]\<rparr>
      in v\<lparr>va_profile := profileForVariant at v, va_anchor := projr (typedAnchorDigest (\<lambda>s. s) f)\<rparr>)"

lemma only_prepared:
  assumes "at = [demoAttempt who ord CoverageComplete [f]]" and "typedAnchorDigest (\<lambda>s. s) f = Inr an"
  shows "map_result (prepareVariant (\<lambda>s. s) at) (buildVariants at) = Inr [(variantKey f, onlyVariant at f)]"
  using assms(2)
  by (simp add: assms(1) demoAttempt_def buildVariants_def addFact_def Let_def factsOfRep_def newVariant_def
      prepareVariant_def onlyVariant_def)

lemma onlyVariant_fields [simp]:
  "va_facts (onlyVariant at f) = [f]" "\<not> va_consumed (onlyVariant at f)"
  "\<not> va_ambiguous (onlyVariant at f)" "va_key (onlyVariant at f) = variantKey f"
  "va_kind (onlyVariant at f) = fa_Kind f" "va_source (onlyVariant at f) = fa_Source f"
  "va_anchor (onlyVariant at f) = projr (typedAnchorDigest (\<lambda>s. s) f)"
  by (simp_all add: onlyVariant_def Let_def newVariant_def)

lemma slow_anchor:
  "\<exists>an. an \<noteq> [] \<and> typedAnchorDigest (\<lambda>s. s) (startedFact ''f1'' ''base'') = Inr an
     \<and> typedAnchorDigest (\<lambda>s. s) slowFact = Inr an"
  by (simp add: startedFact_def slowFact_def typedAnchorDigest_def anchorPayload_def Let_def processKinds_def
      filesystemKinds_def networkKinds_def scenarioKinds_def)

lemma slow_key: "variantKey (startedFact i who) \<noteq> variantKey slowFact"
  by (simp add: variantKey_def startedFact_def slowFact_def demoDigest_def numeral_eq_Suc)

lemma slow_changed: "changedFields (startedFact i who) slowFact = [''scenario.durationMillis'']"
  by (simp add: changedFields_def startedFact_def slowFact_def filesystemKinds_def networkKinds_def
      scenarioKinds_def both_def differs_def)

definition slowRecord :: DeltaRecord where
  "slowRecord = makeRecord (\<lambda>s. s) ProfileVersionV1Alpha1 ''s'' DeltaKindModified
     (Some (onlyVariant slowBase (startedFact ''f1'' ''base''))) (Some (onlyVariant slowHead slowFact))
     [''scenario.durationMillis''] []"

lemma slow_matched:
  fixes b h
  defines "b \<equiv> onlyVariant slowBase (startedFact ''f1'' ''base'')" and "h \<equiv> onlyVariant slowHead slowFact"
  shows "matchVariants (\<lambda>s. s) ProfileVersionV1Alpha1 ''s'' [(va_key b, b)] [(va_key h, h)] =
    \<lparr>ms_base = [(va_key b, b\<lparr>va_consumed := True\<rparr>)], ms_head = [(va_key h, h\<lparr>va_consumed := True\<rparr>)],
     ms_records = [slowRecord]\<rparr>"
proof -
  obtain an where an: "an \<noteq> []" "va_anchor b = an" "va_anchor h = an"
    using slow_anchor by (auto simp: b_def h_def)
  have keys: "va_key b \<noteq> va_key h" using slow_key by (simp add: b_def h_def)
  have marks: "\<not> va_consumed b" "\<not> va_consumed h" "va_kind b = va_kind h" "va_source b = va_source h"
    by (simp_all add: b_def h_def slowFact_def startedFact_def)
  have changed: "changedFields (hd (va_facts b)) (hd (va_facts h)) = [''scenario.durationMillis'']"
    by (simp add: b_def h_def slow_changed)
  have exact: "fold (exactStep (\<lambda>s. s) ProfileVersionV1Alpha1 ''s'')
      (unionKeys [(va_key b, b)] [(va_key h, h)])
      \<lparr>ms_base = [(va_key b, b)], ms_head = [(va_key h, h)], ms_records = []\<rparr>
    = \<lparr>ms_base = [(va_key b, b)], ms_head = [(va_key h, h)], ms_records = []\<rparr>"
    using keys by (auto simp: unionKeys_def exactStep_def)
  show ?thesis
    using an keys marks changed
    by (simp add: matchVariants_def exact unionAnchorKeys_def anchorsOf_def unconsumed_def anchored_def
        anchorStep_def Let_def mark_def slowRecord_def flip: b_def h_def)
qed

lemma slow_scenario:
  "compareScenario (\<lambda>s. s) ProfileVersionV1Alpha1 slowGroup
   = Inr ([slowRecord], length (dr_BaseEvidence slowRecord) + length (dr_HeadEvidence slowRecord))"
proof -
  obtain an where an: "typedAnchorDigest (\<lambda>s. s) (startedFact ''f1'' ''base'') = Inr an"
    "typedAnchorDigest (\<lambda>s. s) slowFact = Inr an"
    using slow_anchor by blast
  have "orderRecord (\<lambda>s. s) ProfileVersionV1Alpha1 slowGroup = None"
    by (simp add: orderRecord_def stableSequences_def slowGroup_def slowBase_def)
  then show ?thesis
    using slow_matched
    by (simp add: compareScenario_def slowGroup_def Let_def sortedVariants_def
        only_prepared [OF slowBase_def an(1)] only_prepared [OF slowHead_def an(2)])
qed

lemma slow_compare:
  obtains d where "compareBody (\<lambda>s. s) compare_DefaultLimits live slowDoc = Inr d"
    "bd_Records d = [slowRecord]"
proof -
  have "validDigest (''sha256:'' @ replicate 64 (CHR ''1''))" by code_simp
  then have "validateTraceDocument slowDoc compare_DefaultLimits = None"
    by (simp add: validate_defs slowDoc_def slowBase_def slowHead_def slowFact_def doc_defs)
  moreover have "groupScenarios (ts_Attempts slowDoc) = [slowGroup]"
    by (simp add: groupScenarios_def addAttempt_def sortAttempts_def slowDoc_def traceDocument_def
        demoAttempt_def slowGroup_def slowBase_def slowHead_def)
  moreover have "snd (scenarioComparison slowGroup) = []"
    by (simp add: scenarioComparison_def Let_def attemptsComplete_def demoAttempt_def slowGroup_def
        slowBase_def slowHead_def)
  moreover have "np_Version (ts_Profile slowDoc) = ProfileVersionV1Alpha1"
    by (simp add: slowDoc_def traceDocument_def traceProfile_def)
  moreover have "length (dr_BaseEvidence slowRecord) = 1" "length (dr_HeadEvidence slowRecord) = 1"
    by (simp_all add: slowRecord_def makeRecord_def Let_def withHead_def withBase_def zeroRecord_def
        dedupeEvidence_def evidenceRefs_def dedupe_by_def startedFact_def slowFact_def)
  moreover have "dr_ID slowRecord \<noteq> []" by (simp add: slowRecord_def makeRecord_ID)
  ultimately show thesis
    using that
    by (cases "scenarioComparison slowGroup")
       (simp add: compareBody_def slow_scenario compare_DefaultLimits_def Let_def sortRecords_def fillID_def)
qed

theorem modified_pairs_facts_witness:
  "\<exists>f\<in>set (allFacts (ofBase ''s'' (ts_Attempts slowDoc))). \<exists>g\<in>set (allFacts (ofHead ''s'' (ts_Attempts slowDoc))).
     typedAnchorDigest (\<lambda>s. s) f = typedAnchorDigest (\<lambda>s. s) g \<and> differing f g = {''scenario.durationMillis''}"
proof -
  obtain d where d: "compareBody (\<lambda>s. s) compare_DefaultLimits live slowDoc = Inr d"
    and recs: "bd_Records d = [slowRecord]" by (rule slow_compare)
  have "slowRecord \<in> set (bd_Records d)" "dr_Kind slowRecord = DeltaKindModified"
    "firstScenario (dr_ScenarioIDs slowRecord) = ''s''"
    "dr_ChangedFields slowRecord = [''scenario.durationMillis'']"
    by (simp_all add: recs slowRecord_def firstScenario_def)
  with modified_pairs_facts [OF d this(1,2)] show ?thesis
    by (simp add: Let_def) metis
qed

end
