(* ===== verification/Policy.thy ===== *)
theory Policy
  imports Compare
begin

text \<open>
  \<open>internal/policy\<close> up to the evaluation: the built-in rules turn the records of a behavioral delta
  into findings, and the findings into an overall disposition.

  \<open>digestBytes\<close>, \<open>writeStrings\<close>, \<open>validDigest\<close> and \<open>sortLimitations\<close> are written again in this package
  with the bodies they have in \<open>compare\<close>; the model shares one definition. \<open>cloneEvaluation\<close> is a JSON
  round trip and \<open>normalizeFindingArrays\<close> turns nil slices into empty ones: both are the identity on the
  model's lists.
\<close>

section \<open>Errors, limits, profile\<close>

definition policyErr :: "string \<Rightarrow> string \<Rightarrow> string \<Rightarrow> string \<Rightarrow> string \<Rightarrow> go_error" where
  "policyErr code stage rule recordID field = GoError code stage [rule, recordID, field]"

definition policy_contextErr :: "ctx_error \<Rightarrow> go_error" where
  "policy_contextErr e =
     (if e = DeadlineExceeded then policyErr ''policy-timeout'' ''context'' [] [] ''deadline''
      else policyErr ''context-cancelled'' ''context'' [] [] ''cancelled'')"

record PolicyLimits =
  pl_MaxDeltaRecords :: int
  pl_MaxFindings :: int
  pl_MaxFindingsPerDeltaRecord :: int
  pl_MaxDeltaRecordIDsPerFinding :: int
  pl_MaxScenarioIDsPerFinding :: int
  pl_MaxEvidenceRefsPerFinding :: int
  pl_MaxEvidenceRefsTotal :: int
  pl_MaxLimitationsPerFinding :: int
  pl_MaxLimitationsTotal :: int
  pl_MaxTitleBytes :: int
  pl_MaxSummaryBytes :: int
  pl_MaxRuleIDBytes :: int
  pl_MaxRuleVersionBytes :: int
  pl_MaxEvaluationJSONBytes :: int

definition policy_DefaultLimits :: PolicyLimits where
  "policy_DefaultLimits = \<lparr>pl_MaxDeltaRecords = 100000, pl_MaxFindings = 100000,
     pl_MaxFindingsPerDeltaRecord = 8, pl_MaxDeltaRecordIDsPerFinding = 128,
     pl_MaxScenarioIDsPerFinding = 64, pl_MaxEvidenceRefsPerFinding = 1024,
     pl_MaxEvidenceRefsTotal = 200000, pl_MaxLimitationsPerFinding = 1000,
     pl_MaxLimitationsTotal = 10000, pl_MaxTitleBytes = 256, pl_MaxSummaryBytes = 1024,
     pl_MaxRuleIDBytes = 128, pl_MaxRuleVersionBytes = 128,
     pl_MaxEvaluationJSONBytes = 64 * 1024 * 1024\<rparr>"

definition policy_zeroLimits :: PolicyLimits where
  "policy_zeroLimits = \<lparr>pl_MaxDeltaRecords = 0, pl_MaxFindings = 0,
     pl_MaxFindingsPerDeltaRecord = 0, pl_MaxDeltaRecordIDsPerFinding = 0,
     pl_MaxScenarioIDsPerFinding = 0, pl_MaxEvidenceRefsPerFinding = 0,
     pl_MaxEvidenceRefsTotal = 0, pl_MaxLimitationsPerFinding = 0,
     pl_MaxLimitationsTotal = 0, pl_MaxTitleBytes = 0, pl_MaxSummaryBytes = 0,
     pl_MaxRuleIDBytes = 0, pl_MaxRuleVersionBytes = 0, pl_MaxEvaluationJSONBytes = 0\<rparr>"

definition policy_validateLimits :: "PolicyLimits \<Rightarrow> PolicyLimits result" where
  "policy_validateLimits l =
     (if l = policy_zeroLimits then Inl (policyErr ''invalid-limits'' ''limits'' [] [] ''zero'')
      else rcheck
        (first_error
          (\<lambda>(v, mx, name). if v \<le> 0 \<or> v > mx
             then Some (policyErr ''invalid-limits'' ''limits'' [] [] name) else None)
          [(pl_MaxDeltaRecords l, 100000, ''maxDeltaRecords''),
           (pl_MaxFindings l, 100000, ''maxFindings''),
           (pl_MaxFindingsPerDeltaRecord l, 8, ''maxFindingsPerDeltaRecord''),
           (pl_MaxDeltaRecordIDsPerFinding l, 128, ''maxDeltaRecordIdsPerFinding''),
           (pl_MaxScenarioIDsPerFinding l, 64, ''maxScenarioIdsPerFinding''),
           (pl_MaxEvidenceRefsPerFinding l, 1024, ''maxEvidenceRefsPerFinding''),
           (pl_MaxEvidenceRefsTotal l, 200000, ''maxEvidenceRefsTotal''),
           (pl_MaxLimitationsPerFinding l, 1000, ''maxLimitationsPerFinding''),
           (pl_MaxLimitationsTotal l, 10000, ''maxLimitationsTotal''),
           (pl_MaxTitleBytes l, 256, ''maxTitleBytes''),
           (pl_MaxSummaryBytes l, 1024, ''maxSummaryBytes''),
           (pl_MaxRuleIDBytes l, 128, ''maxRuleIdBytes''),
           (pl_MaxRuleVersionBytes l, 128, ''maxRuleVersionBytes''),
           (pl_MaxEvaluationJSONBytes l, 64 * 1024 * 1024, ''maxEvaluationJsonBytes'')])
        (Inr l))"

abbreviation PolicyProfileNameStrict :: string where
  "PolicyProfileNameStrict \<equiv> ''strict''"
abbreviation PolicyProfileVersionStrictV1Alpha1 :: string where
  "PolicyProfileVersionStrictV1Alpha1 \<equiv> ''glassroot.dev/policy-profile/strict/v1alpha1''"
abbreviation BuiltinRuleSetVersionStrictV1Alpha1 :: string where
  "BuiltinRuleSetVersionStrictV1Alpha1 \<equiv> ''glassroot.dev/builtin-rules/strict/v1alpha1''"
abbreviation SchemaVersionPolicyEvaluationV1Alpha1 :: string where
  "SchemaVersionPolicyEvaluationV1Alpha1 \<equiv> ''glassroot.dev/policy-evaluation/v1alpha1''"

record PolicyProfile =
  pp_Name :: string
  pp_Version :: string

definition PolicyProfileStrict :: PolicyProfile where
  "PolicyProfileStrict = \<lparr>pp_Name = PolicyProfileNameStrict, pp_Version = PolicyProfileVersionStrictV1Alpha1\<rparr>"

definition policy_validateProfile :: "PolicyProfile \<Rightarrow> go_error option" where
  "policy_validateProfile p =
     (if pp_Name p \<noteq> PolicyProfileNameStrict \<or> pp_Version p \<noteq> PolicyProfileVersionStrictV1Alpha1
      then Some (policyErr ''invalid-policy-profile'' ''profile'' [] [] ''profile'') else None)"

section \<open>Rule catalog\<close>

record ruleMeta =
  ru_ID :: string
  ru_Version :: string
  ru_Title :: string
  ru_Severity :: string
  ru_Disposition :: string
  ru_Emit :: bool

abbreviation ruleVersionV1Alpha1 :: string where
  "ruleVersionV1Alpha1 \<equiv> ''v1alpha1''"

definition emitted :: "string \<Rightarrow> string \<Rightarrow> string \<Rightarrow> ruleMeta" where
  "emitted rid title sev = \<lparr>ru_ID = rid, ru_Version = ruleVersionV1Alpha1, ru_Title = title,
     ru_Severity = sev, ru_Disposition = DispositionRequiresReview, ru_Emit = True\<rparr>"

definition reserved :: "string \<Rightarrow> string \<Rightarrow> ruleMeta" where
  "reserved rid title = \<lparr>ru_ID = rid, ru_Version = ruleVersionV1Alpha1, ru_Title = title,
     ru_Severity = [], ru_Disposition = [], ru_Emit = False\<rparr>"

text \<open>The catalog; the descriptions are not used by any operation.\<close>

definition ruleCatalog :: "ruleMeta list" where
  "ruleCatalog =
     [emitted ''GR-OBS-001'' ''Observation coverage incomplete or weakened'' SeverityMedium,
      emitted ''GR-PROC-001'' ''New process or executable'' SeverityMedium,
      emitted ''GR-FS-001'' ''New executable file or artifact'' SeverityHigh,
      emitted ''GR-FS-002'' ''New filesystem access outside configured roots'' SeverityMedium,
      emitted ''GR-NET-001'' ''New or changed network behavior'' SeverityHigh,
      emitted ''GR-ART-001'' ''New or changed artifact'' SeverityMedium,
      emitted ''GR-DET-001'' ''Behavioral repeatability degraded'' SeverityMedium,
      emitted ''GR-LIMIT-001'' ''Resource limit behavior introduced'' SeverityHigh,
      reserved ''GR-CONFIG-001'' ''Trusted security configuration changed in head'',
      reserved ''GR-WAIVER-001'' ''Waiver added, changed, invalid, or expired'']"

definition noRule :: ruleMeta where
  "noRule = \<lparr>ru_ID = [], ru_Version = [], ru_Title = [], ru_Severity = [], ru_Disposition = [],
     ru_Emit = False\<rparr>"

definition ruleByID :: "string \<Rightarrow> ruleMeta" where
  "ruleByID rid = (case List.find (\<lambda>r. ru_ID r = rid) ruleCatalog of Some r \<Rightarrow> r | None \<Rightarrow> noRule)"

definition emittedRuleIDs :: "string list" where
  "emittedRuleIDs = slice_stable (<) (map ru_ID (filter ru_Emit ruleCatalog))"

fun validateRules :: "ruleMeta list \<Rightarrow> string set \<Rightarrow> go_error option" where
  "validateRules [] seen = None"
| "validateRules (r # rs) seen =
     (if ru_ID r = [] \<or> ru_Version r = [] \<or> ru_Title r = [] \<or> length (ru_ID r) > 128
         \<or> length (ru_Version r) > 128 \<or> length (ru_Title r) > 256
      then Some (policyErr ''invalid-rule-catalog'' ''catalog'' (ru_ID r) [] ''metadata'')
      else if ru_ID r \<in> seen then Some (policyErr ''invalid-rule-catalog'' ''catalog'' (ru_ID r) [] ''id'')
      else validateRules rs (insert (ru_ID r) seen))"

definition validateRuleCatalog :: "go_error option" where
  "validateRuleCatalog = validateRules ruleCatalog {}"

section \<open>The evaluated delta\<close>

definition supportedDeltaKind :: "string \<Rightarrow> bool" where
  "supportedDeltaKind k \<longleftrightarrow> k \<in> set [DeltaKindAdded, DeltaKindRemoved, DeltaKindModified,
     DeltaKindCountChanged, DeltaKindOrderChanged, DeltaKindStabilityChanged, DeltaKindCoverageChanged]"

definition supportedBasis :: "string \<Rightarrow> bool" where
  "supportedBasis b \<longleftrightarrow> b \<in> set [BasisCompleteObservation, BasisSingleSample, BasisRepetitionVariable,
     BasisCoverageLimited, BasisAmbiguousCorrelation]"

definition supportedFactKind :: "string \<Rightarrow> bool" where
  "supportedFactKind k \<longleftrightarrow> k \<in> set [''process-start'', ''process-exit'', ''filesystem-create'',
     ''filesystem-read'', ''filesystem-write'', ''filesystem-delete'', ''filesystem-rename'',
     ''filesystem-chmod'', ''dns-query'', ''network-connection'', ''artifact-activity'',
     ''scenario-started'', ''scenario-completed'', ''observer-warning'', ''unsupported-observation'',
     ''resource-limit'', ''sequence'']"

definition supportedSource :: "string \<Rightarrow> bool" where
  "supportedSource s \<longleftrightarrow> s \<in> set [ObservationSourceHostObserved, ObservationSourceNetworkBrokerObserved,
     ObservationSourceSandboxRuntimeObserved, ObservationSourceGuestAgentReported,
     ObservationSourceWorkloadReported, ObservationSourceStaticAnalysisDerived,
     ObservationSourceModelInferred, ObservationSourceSyntheticTestGenerated]"

definition supportedCoverage :: "string \<Rightarrow> bool" where
  "supportedCoverage c \<longleftrightarrow>
     c \<in> set [CoverageAssessmentComplete, CoverageAssessmentPartial, CoverageAssessmentNone]"

definition supportedRepeatability :: "string \<Rightarrow> bool" where
  "supportedRepeatability r \<longleftrightarrow> r \<in> set [RepeatabilityStable, RepeatabilityVariable,
     RepeatabilitySingleSample, RepeatabilityNotAssessable]"

definition validateEvidenceRef :: "EvidenceRef \<Rightarrow> string \<Rightarrow> go_error option" where
  "validateEvidenceRef ref rid =
     (if er_EventStreamDigest ref \<noteq> [] \<and> \<not> validDigest (er_EventStreamDigest ref)
      then Some (policyErr ''evidence-reference-invalid'' ''evidence'' [] rid ''eventStreamDigest'')
      else if er_EventStreamPath ref = [] \<and> er_BundlePath ref = None
      then Some (policyErr ''evidence-reference-invalid'' ''evidence'' [] rid ''path'')
      else if er_EventIDs ref = [] \<and> er_EventSequence ref = 0
      then Some (policyErr ''evidence-reference-invalid'' ''evidence'' [] rid ''event'')
      else if er_Revision ref \<noteq> [] \<and> er_Revision ref \<noteq> RevisionKindBase \<and> er_Revision ref \<noteq> RevisionKindHead
      then Some (policyErr ''evidence-reference-invalid'' ''evidence'' [] rid ''revision'')
      else None)"

definition validateOccurrence :: "OccurrenceProfile \<Rightarrow> go_error option" where
  "validateOccurrence p =
     (if op_PlannedRepetitionCount p < 0 \<or> op_CompleteRepetitionCount p < 0
         \<or> op_IncompleteRepetitionCount p < 0 \<or> op_MinimumKnownCount p < 0
         \<or> op_MaximumKnownCount p < 0 \<or> op_TotalKnownCount p < 0
      then Some (policyErr ''invalid-occurrence-profile'' ''occurrence'' [] [] ''count'')
      else if op_Coverage p \<noteq> [] \<and> \<not> supportedCoverage (op_Coverage p)
      then Some (policyErr ''invalid-occurrence-profile'' ''occurrence'' [] [] ''coverage'')
      else if op_Repeatability p \<noteq> [] \<and> \<not> supportedRepeatability (op_Repeatability p)
      then Some (policyErr ''invalid-occurrence-profile'' ''occurrence'' [] [] ''repeatability'')
      else None)"

definition snapshotPayloads :: "DeltaFactSnapshot \<Rightarrow> nat" where
  "snapshotPayloads f =
     of_bool (snap_Process f \<noteq> None) + of_bool (snap_Filesystem f \<noteq> None)
     + of_bool (snap_Network f \<noteq> None) + of_bool (snap_Artifact f \<noteq> None)
     + of_bool (snap_Scenario f \<noteq> None) + of_bool (snap_Warning f \<noteq> None)
     + of_bool (snap_Resource f \<noteq> None)"

definition validateSnapshot :: "DeltaFactSnapshot \<Rightarrow> DeltaRecord \<Rightarrow> go_error option" where
  "validateSnapshot f r =
     (if snap_ID f = [] \<or> \<not> validDigest (snap_SemanticDigest f) \<or> snap_Kind f = [] \<or> snap_Source f = []
      then Some (policyErr ''invalid-delta-record'' ''facts'' [] (dr_ID r) ''fact'')
      else if \<not> supportedFactKind (snap_Kind f)
      then Some (policyErr ''unsupported-fact-kind'' ''facts'' [] (dr_ID r) ''kind'')
      else if \<not> supportedSource (snap_Source f)
      then Some (policyErr ''invalid-observation-source'' ''facts'' [] (dr_ID r) ''source'')
      else if snapshotPayloads f \<noteq> 1
      then Some (policyErr ''invalid-delta-record'' ''facts'' [] (dr_ID r) ''payload'')
      else None)"

definition validateDeltaRecord :: "DeltaRecord \<Rightarrow> PolicyLimits \<Rightarrow> go_error option" where
  "validateDeltaRecord r limits =
     (if \<not> supportedDeltaKind (dr_Kind r)
      then Some (policyErr ''unsupported-delta-kind'' ''records'' [] (dr_ID r) ''kind'')
      else if \<not> supportedBasis (dr_Basis r)
      then Some (policyErr ''unsupported-comparison-basis'' ''records'' [] (dr_ID r) ''basis'')
      else if dr_FactKind r \<noteq> [] \<and> \<not> supportedFactKind (dr_FactKind r)
      then Some (policyErr ''unsupported-fact-kind'' ''records'' [] (dr_ID r) ''factKind'')
      else if dr_Source r \<noteq> [] \<and> \<not> supportedSource (dr_Source r)
      then Some (policyErr ''invalid-observation-source'' ''records'' [] (dr_ID r) ''source'')
      else if dr_AnchorDigest r \<noteq> [] \<and> \<not> validDigest (dr_AnchorDigest r)
      then Some (policyErr ''invalid-delta-record'' ''records'' [] (dr_ID r) ''anchorDigest'')
      else if dr_ScenarioIDs r = [] \<or> int (length (dr_ScenarioIDs r)) > pl_MaxScenarioIDsPerFinding limits
      then Some (policyErr ''invalid-delta-record'' ''records'' [] (dr_ID r) ''scenarioIds'')
      else if int (length (dr_Evidence r)) > pl_MaxEvidenceRefsPerFinding limits
         \<or> int (length (dr_BaseEvidence r)) > pl_MaxEvidenceRefsPerFinding limits
         \<or> int (length (dr_HeadEvidence r)) > pl_MaxEvidenceRefsPerFinding limits
      then Some (policyErr ''evidence-reference-limit'' ''records'' [] (dr_ID r) ''evidence'')
      else echeck (first_error (\<lambda>ref. validateEvidenceRef ref (dr_ID r))
                     (dr_BaseEvidence r @ dr_HeadEvidence r))
           (if validateOccurrence (dr_BaseOccurrence r) \<noteq> None
            then Some (policyErr ''invalid-occurrence-profile'' ''records'' [] (dr_ID r) ''baseOccurrence'')
            else if validateOccurrence (dr_HeadOccurrence r) \<noteq> None
            then Some (policyErr ''invalid-occurrence-profile'' ''records'' [] (dr_ID r) ''headOccurrence'')
            else first_error (\<lambda>f. validateSnapshot f r) (dr_BaseFacts r @ dr_HeadFacts r)))"

text \<open>The counts that \<open>validateSummary\<close> recomputes are those of the comparator's \<open>summarize\<close>.\<close>

definition validateSummary :: "DeltaSummary \<Rightarrow> DeltaRecord list \<Rightarrow> go_error option" where
  "validateSummary s records =
     (if s \<noteq> \<lparr>ds_TotalRecords = int (length records), ds_Added = countKind DeltaKindAdded records,
               ds_Removed = countKind DeltaKindRemoved records,
               ds_Modified = countKind DeltaKindModified records,
               ds_CountChanged = countKind DeltaKindCountChanged records,
               ds_OrderChanged = countKind DeltaKindOrderChanged records,
               ds_StabilityChanged = countKind DeltaKindStabilityChanged records,
               ds_CoverageChanged = countKind DeltaKindCoverageChanged records\<rparr>
      then Some (policyErr ''invalid-delta'' ''delta'' [] [] ''summary'') else None)"

fun validateRecords :: "PolicyLimits \<Rightarrow> DeltaRecord list \<Rightarrow> string set \<Rightarrow> go_error option" where
  "validateRecords limits [] seen = None"
| "validateRecords limits (r # rs) seen =
     (if dr_ID r = [] then Some (policyErr ''invalid-delta-record'' ''records'' [] [] ''id'')
      else if dr_ID r \<in> seen then Some (policyErr ''invalid-delta'' ''records'' [] (dr_ID r) ''id'')
      else echeck (validateDeltaRecord r limits) (validateRecords limits rs (insert (dr_ID r) seen)))"

definition validateDelta :: "BehavioralDelta \<Rightarrow> PolicyLimits \<Rightarrow> go_error option" where
  "validateDelta delta limits =
     (if bd_SchemaVersion delta \<noteq> SchemaVersionBehavioralDeltaV1Alpha1
      then Some (policyErr ''invalid-delta'' ''delta'' [] [] ''schemaVersion'')
      else if cp_Version (bd_ComparisonProfile delta) \<noteq> ComparisonProfileVersionV1Alpha1
      then Some (policyErr ''unsupported-comparison-profile'' ''delta'' [] [] ''comparisonProfile'')
      else if bd_NormalizationProfileVersion delta \<noteq> ''glassroot.dev/normalization-profile/v1alpha1''
      then Some (policyErr ''unsupported-normalization-profile'' ''delta'' [] [] ''normalizationProfile'')
      else if \<not> validDigest (bd_PlanDigest delta) \<or> \<not> validDigest (bd_ManifestDigest delta)
         \<or> bd_RunID delta = []
      then Some (policyErr ''invalid-delta'' ''delta'' [] [] ''identity'')
      else if int (length (bd_Records delta)) > pl_MaxDeltaRecords limits
      then Some (policyErr ''invalid-delta'' ''delta'' [] [] ''records'')
      else echeck (validateSummary (bd_Summary delta) (bd_Records delta))
             (validateRecords limits (bd_Records delta) {}))"

section \<open>Rule predicates\<close>

definition headCountIncrease :: "DeltaRecord \<Rightarrow> bool" where
  "headCountIncrease r \<longleftrightarrow>
     \<not> (op_Coverage (dr_BaseOccurrence r) = CoverageAssessmentNone
        \<or> op_Coverage (dr_HeadOccurrence r) = CoverageAssessmentNone)
     \<and> (op_TotalKnownCount (dr_HeadOccurrence r) > op_TotalKnownCount (dr_BaseOccurrence r)
        \<or> op_MaximumKnownCount (dr_HeadOccurrence r) > op_MaximumKnownCount (dr_BaseOccurrence r))"

definition headPositive :: "DeltaRecord \<Rightarrow> bool" where
  "headPositive r \<longleftrightarrow>
     \<not> (\<not> dr_HeadObserved r \<or> dr_HeadFacts r = [])
     \<and> (dr_Kind r \<in> set [DeltaKindAdded, DeltaKindModified, DeltaKindCoverageChanged]
        \<or> dr_Kind r = DeltaKindCountChanged \<and> headCountIncrease r)"

definition headWarning :: "DeltaRecord \<Rightarrow> bool" where
  "headWarning r \<longleftrightarrow> dr_FactKind r = ''observer-warning'' \<or> dr_FactKind r = ''unsupported-observation''"

definition onlyChangedExitOrDuration :: "string list \<Rightarrow> bool" where
  "onlyChangedExitOrDuration changed \<longleftrightarrow> changed \<noteq> []
     \<and> list_all (\<lambda>f. f = ''process.exitCode'' \<or> f = ''process.durationMillis'') changed"

definition isProcessNew :: "DeltaRecord \<Rightarrow> bool" where
  "isProcessNew r \<longleftrightarrow> dr_FactKind r = ''process-start''
     \<and> (dr_Kind r \<noteq> DeltaKindModified \<or> \<not> onlyChangedExitOrDuration (dr_ChangedFields r))"

definition isFilesystemFact :: "DeltaRecord \<Rightarrow> bool" where
  "isFilesystemFact r \<longleftrightarrow> dr_FactKind r \<in> set [''filesystem-create'', ''filesystem-read'',
     ''filesystem-write'', ''filesystem-delete'', ''filesystem-rename'', ''filesystem-chmod'']"

definition isNetworkFact :: "DeltaRecord \<Rightarrow> bool" where
  "isNetworkFact r \<longleftrightarrow> dr_FactKind r = ''network-connection'' \<or> dr_FactKind r = ''dns-query''"

definition isArtifactFact :: "DeltaRecord \<Rightarrow> bool" where
  "isArtifactFact r \<longleftrightarrow> dr_FactKind r = ''artifact-activity''"

definition isResourceFact :: "DeltaRecord \<Rightarrow> bool" where
  "isResourceFact r \<longleftrightarrow> dr_FactKind r = ''resource-limit''"

text \<open>A loop that returns at the first executable fact it does not skip.\<close>

definition executableHeadBehavior :: "DeltaRecord \<Rightarrow> bool" where
  "executableHeadBehavior r \<longleftrightarrow>
     isFilesystemFact r \<and> list_ex (\<lambda>f. (case snap_Filesystem f of None \<Rightarrow> False
         | Some x \<Rightarrow> dff_Executable x
             \<and> \<not> (dr_Kind r = DeltaKindModified
                   \<and> ''filesystem.executable'' \<notin> set (dr_ChangedFields r)
                   \<and> \<not> headCountIncrease r))) (dr_HeadFacts r)
     \<or> isArtifactFact r \<and> list_ex (\<lambda>f. (case snap_Artifact f of None \<Rightarrow> False
         | Some x \<Rightarrow> daf_Executable x
             \<and> \<not> (dr_Kind r = DeltaKindModified
                   \<and> ''artifact.executable'' \<notin> set (dr_ChangedFields r)
                   \<and> \<not> headCountIncrease r))) (dr_HeadFacts r)"

definition mutatingOps :: "string list" where
  "mutatingOps = [''create'', ''write'', ''delete'', ''rename'', ''chmod'', ''permission-change'']"

definition readingOps :: "string list" where
  "readingOps = [''read'', ''stat'', ''metadata'', ''metadata-read'']"

text \<open>The head facts in order, up to the first one outside of the configured roots.\<close>

fun outsideRoot :: "string \<Rightarrow> DeltaFactSnapshot list \<Rightarrow> (string option) result" where
  "outsideRoot rid [] = Inr None"
| "outsideRoot rid (f # fs) =
     (case snap_Filesystem f of
        None \<Rightarrow> outsideRoot rid fs
      | Some x \<Rightarrow>
          if dp_Namespace (dff_Path x) \<noteq> ''absolute-unmapped'' then outsideRoot rid fs
          else if dff_Operation x \<in> set mutatingOps then Inr (Some SeverityHigh)
          else if dff_Operation x \<in> set readingOps then Inr (Some SeverityMedium)
          else Inl (policyErr ''invalid-delta-record'' ''rules'' ''GR-FS-002'' rid ''filesystem.operation''))"

definition outsideRootSeverity :: "DeltaRecord \<Rightarrow> (string option) result" where
  "outsideRootSeverity r = outsideRoot (dr_ID r) (dr_HeadFacts r)"

definition repeatabilityRank :: "string \<Rightarrow> nat" where
  "repeatabilityRank r =
     (if r = RepeatabilityStable then 0 else if r = RepeatabilitySingleSample then 1
      else if r = RepeatabilityVariable then 2 else if r = RepeatabilityNotAssessable then 3 else 4)"

definition repeatabilityWorse :: "string \<Rightarrow> string \<Rightarrow> bool" where
  "repeatabilityWorse base head \<longleftrightarrow> repeatabilityRank head > repeatabilityRank base"

definition confidenceRank :: "string \<Rightarrow> int" where
  "confidenceRank c =
     (if c = ConfidenceLow then 0 else if c = ConfidenceMedium then 1
      else if c = ConfidenceHigh then 2 else - 1)"

definition basisConfidence :: "string \<Rightarrow> string" where
  "basisConfidence basis =
     (if basis = BasisCompleteObservation then ConfidenceHigh
      else if basis = BasisSingleSample \<or> basis = BasisRepetitionVariable then ConfidenceMedium
      else ConfidenceLow)"

definition sourceCap :: "string \<Rightarrow> bool \<Rightarrow> string" where
  "sourceCap source targetBehavior =
     (if source = ObservationSourceGuestAgentReported \<or> source = ObservationSourceWorkloadReported
         \<or> source = ObservationSourceStaticAnalysisDerived then ConfidenceMedium
      else if source = ObservationSourceModelInferred then ConfidenceLow
      else if source = ObservationSourceSyntheticTestGenerated \<and> targetBehavior then ConfidenceLow
      else ConfidenceHigh)"

definition classifyPolicyConfidence :: "string \<Rightarrow> string \<Rightarrow> bool \<Rightarrow> string" where
  "classifyPolicyConfidence basis source targetBehavior =
     (if confidenceRank (basisConfidence basis) > confidenceRank (sourceCap source targetBehavior)
      then sourceCap source targetBehavior else basisConfidence basis)"

definition evidenceForRecord :: "DeltaRecord \<Rightarrow> EvidenceRef list" where
  "evidenceForRecord r =
     (if dr_HeadObserved r \<and> dr_HeadEvidence r \<noteq> [] then dr_HeadEvidence r
      else if dr_BaseObserved r \<and> dr_BaseEvidence r \<noteq> [] then dr_BaseEvidence r
      else dr_Evidence r)"

definition policy_evidenceKey :: "EvidenceRef \<Rightarrow> string" where
  "policy_evidenceKey r =
     er_Revision r @ NUL # er_ScenarioID r @ NUL # itoa (er_Repetition r)
     @ NUL # itoa (er_EventSequence r) @ NUL # first (er_EventIDs r)
     @ NUL # er_EventStreamDigest r @ NUL # er_EventStreamPath r"

definition policy_dedupeEvidence :: "EvidenceRef list \<Rightarrow> EvidenceRef list" where
  "policy_dedupeEvidence xs = dedupe_by policy_evidenceKey xs"

definition sortedUniqueStrings :: "string list \<Rightarrow> string list" where
  "sortedUniqueStrings xs = slice_stable (<) (remdups (filter (\<lambda>v. v \<noteq> []) xs))"

section \<open>Findings\<close>

record findingSpec =
  fs_ruleID :: string
  fs_severity :: string
  fs_confidence :: string
  fs_disposition :: string
  fs_recordIDs :: "string list"
  fs_scenarioIDs :: "string list"
  fs_baseObserved :: bool
  fs_headObserved :: bool
  fs_evidence :: "EvidenceRef list"
  fs_limitations :: "Limitation list"
  fs_scope :: string

definition recordSpec :: "DeltaRecord \<Rightarrow> string \<Rightarrow> string \<Rightarrow> string \<Rightarrow> findingSpec" where
  "recordSpec r rule sev conf = \<lparr>fs_ruleID = rule, fs_severity = sev, fs_confidence = conf,
     fs_disposition = DispositionRequiresReview, fs_recordIDs = [dr_ID r],
     fs_scenarioIDs = dr_ScenarioIDs r, fs_baseObserved = dr_BaseObserved r,
     fs_headObserved = dr_HeadObserved r, fs_evidence = evidenceForRecord r,
     fs_limitations = dr_Limitations r, fs_scope = ''record''\<rparr>"

text \<open>The closure \<open>add\<close> of \<open>specsForRecord\<close>, guarded by a condition.\<close>

definition addIf :: "bool \<Rightarrow> DeltaRecord \<Rightarrow> string \<Rightarrow> string \<Rightarrow> findingSpec list" where
  "addIf c r rule sev =
     (if c then [recordSpec r rule sev (classifyPolicyConfidence (dr_Basis r) (dr_Source r) True)] else [])"

definition outsideSpecs :: "DeltaRecord \<Rightarrow> (findingSpec list) result" where
  "outsideSpecs r =
     (if headPositive r \<and> isFilesystemFact r then
        rbind (outsideRootSeverity r) (\<lambda>sev. case sev of
          None \<Rightarrow> Inr [] | Some v \<Rightarrow> Inr (addIf True r ''GR-FS-002'' v))
      else Inr [])"

definition determinismSpecs :: "DeltaRecord \<Rightarrow> findingSpec list" where
  "determinismSpecs r =
     (if dr_Kind r = DeltaKindStabilityChanged
         \<and> repeatabilityWorse (op_Repeatability (dr_BaseOccurrence r)) (op_Repeatability (dr_HeadOccurrence r))
      then [recordSpec r ''GR-DET-001'' SeverityMedium
              (if dr_Basis r = BasisCoverageLimited
                  \<or> op_Coverage (dr_HeadOccurrence r) \<noteq> CoverageAssessmentComplete
               then ConfidenceLow else ConfidenceMedium)]
      else [])"

definition specsForRecord :: "DeltaRecord \<Rightarrow> (findingSpec list) result" where
  "specsForRecord r =
     (if dr_Kind r = DeltaKindCoverageChanged \<and> \<not> (dr_HeadObserved r \<and> dr_HeadFacts r \<noteq> [])
      then Inr (addIf True r ''GR-OBS-001''
             (if op_Coverage (dr_HeadOccurrence r) \<noteq> CoverageAssessmentComplete then SeverityHigh
              else SeverityMedium))
      else rbind (outsideSpecs r) (\<lambda>outside. Inr
        (addIf (headWarning r \<and> (dr_Kind r = DeltaKindAdded \<or> dr_Kind r = DeltaKindModified
                 \<or> dr_Kind r = DeltaKindCoverageChanged)) r ''GR-OBS-001'' SeverityMedium
         @ addIf (headPositive r \<and> isProcessNew r) r ''GR-PROC-001'' SeverityMedium
         @ addIf (headPositive r \<and> executableHeadBehavior r) r ''GR-FS-001'' SeverityHigh
         @ outside
         @ addIf (headPositive r \<and> isNetworkFact r) r ''GR-NET-001'' SeverityHigh
         @ addIf (headPositive r \<and> isArtifactFact r) r ''GR-ART-001'' SeverityMedium
         @ determinismSpecs r
         @ addIf (headPositive r \<and> isResourceFact r) r ''GR-LIMIT-001'' SeverityHigh)))"

abbreviation evaluationJSONDomain :: string where
  "evaluationJSONDomain \<equiv> ''glassroot.dev/policy-evaluation-json/v1'' @ [NUL]"
abbreviation findingIDDomain :: string where
  "findingIDDomain \<equiv> ''glassroot.dev/finding-id/v1'' @ [NUL]"

definition findingBytes ::
  "string \<Rightarrow> string \<Rightarrow> string \<Rightarrow> string \<Rightarrow> string list \<Rightarrow> string \<Rightarrow> string list \<Rightarrow> string" where
  "findingBytes profileVersion ruleSetVersion ruleID ruleVersion deltaRecordIDs scope scenarioIDs =
     findingIDDomain @ writeString profileVersion @ writeString ruleSetVersion @ writeString ruleID
     @ writeString ruleVersion @ writeStrings (slice_stable (<) deltaRecordIDs) @ writeString scope
     @ writeStrings (slice_stable (<) scenarioIDs)"

definition findingID ::
  "(string \<Rightarrow> string) \<Rightarrow> string \<Rightarrow> string \<Rightarrow> string \<Rightarrow> string \<Rightarrow> string list \<Rightarrow> string \<Rightarrow> string list \<Rightarrow> string" where
  "findingID sha profileVersion ruleSetVersion ruleID ruleVersion deltaRecordIDs scope scenarioIDs =
     ''finding-'' @ sha (findingBytes profileVersion ruleSetVersion ruleID ruleVersion deltaRecordIDs scope
                         scenarioIDs)"

definition summaryForRule :: "string \<Rightarrow> string \<Rightarrow> string" where
  "summaryForRule ruleID scope =
     (if ruleID = ''GR-OBS-001'' then
        (if scope = ''global-incomplete'' then
           ''Observation coverage or execution completeness is insufficient for an adequate strict-profile evaluation.''
         else if scope = ''global-synthetic'' then
           ''The policy evaluation is based on synthetic evidence or no target code execution; review is required before drawing target-behavior conclusions.''
         else ''Observation coverage or observer-reported state requires review.'')
      else if ruleID = ''GR-PROC-001'' then
        ''Typed comparison data shows new or increased head process behavior requiring review.''
      else if ruleID = ''GR-FS-001'' then
        ''Typed comparison data shows new or changed executable file or artifact behavior requiring review.''
      else if ruleID = ''GR-FS-002'' then
        ''Typed comparison data shows head filesystem access outside configured roots requiring review.''
      else if ruleID = ''GR-NET-001'' then
        ''Typed comparison data shows new or changed head network behavior requiring review.''
      else if ruleID = ''GR-ART-001'' then
        ''Typed comparison data shows new or changed head artifact behavior requiring review.''
      else if ruleID = ''GR-DET-001'' then
        ''Typed comparison data shows degraded behavioral repeatability requiring review.''
      else if ruleID = ''GR-LIMIT-001'' then
        ''Typed comparison data shows new or changed head resource-limit behavior requiring review.''
      else ''Typed comparison data matched a built-in rule requiring review.'')"

definition orElse :: "string \<Rightarrow> string \<Rightarrow> string" where
  "orElse s d = (if s = [] then d else s)"

definition makeFinding :: "(string \<Rightarrow> string) \<Rightarrow> PolicyLimits \<Rightarrow> findingSpec \<Rightarrow> Finding result" where
  "makeFinding sha limits sp =
     (let rule = ruleByID (fs_ruleID sp) in
      if ru_ID rule = [] \<or> \<not> ru_Emit rule
      then Inl (policyErr ''invalid-rule-catalog'' ''findings'' (fs_ruleID sp) [] ''rule'')
      else let scope = orElse (fs_scope sp) ''record'';
               ids = sortedUniqueStrings (fs_recordIDs sp);
               scenarios = sortedUniqueStrings (fs_scenarioIDs sp);
               evidence = policy_dedupeEvidence (fs_evidence sp);
               limitations = sortLimitations (fs_limitations sp)
           in if int (length ids) > pl_MaxDeltaRecordIDsPerFinding limits
                 \<or> int (length scenarios) > pl_MaxScenarioIDsPerFinding limits
              then Inl (policyErr ''finding-limit'' ''findings'' (ru_ID rule) (first ids) ''identity'')
              else if int (length evidence) > pl_MaxEvidenceRefsPerFinding limits
              then Inl (policyErr ''evidence-reference-limit'' ''findings'' (ru_ID rule) (first ids) ''evidence'')
              else if int (length limitations) > pl_MaxLimitationsPerFinding limits
              then Inl (policyErr ''finding-limit'' ''findings'' (ru_ID rule) (first ids) ''limitations'')
              else Inr \<lparr>fi_SchemaVersion = SchemaVersionFindingV1Alpha1,
                fi_ID = findingID sha PolicyProfileVersionStrictV1Alpha1 BuiltinRuleSetVersionStrictV1Alpha1
                          (ru_ID rule) (ru_Version rule) ids scope scenarios,
                fi_RuleID = ru_ID rule, fi_RuleVersion = ru_Version rule, fi_Title = ru_Title rule,
                fi_Severity = orElse (fs_severity sp) (ru_Severity rule),
                fi_Confidence = orElse (fs_confidence sp) ConfidenceLow,
                fi_Disposition = orElse (fs_disposition sp) (ru_Disposition rule),
                fi_Summary = summaryForRule (ru_ID rule) scope, fi_DeltaRecordIDs = ids,
                fi_Evidence = evidence, fi_ScenarioIDs = scenarios,
                fi_BaseObserved = fs_baseObserved sp, fi_HeadObserved = fs_headObserved sp,
                fi_Waived = False, fi_Waivers = [], fi_Limitations = limitations\<rparr>)"

definition completenessLimitations :: "BehavioralDelta \<Rightarrow> Limitation list" where
  "completenessLimitations delta =
     (if \<not> bd_ExecutionComplete delta
      then [mkLimitation ''execution-incomplete''
              ''Execution did not complete; missing behavior must not be treated as absent.''] else [])
     @ (if \<not> bd_EvidenceComplete delta
        then [mkLimitation ''evidence-incomplete''
                ''Evidence collection did not complete; missing behavior must not be treated as absent.'']
        else [])"

definition syntheticContextRequiresReview :: "EvidenceContext \<Rightarrow> bool" where
  "syntheticContextRequiresReview c \<longleftrightarrow> ec_SyntheticEvidence c \<or> \<not> ec_ExecutesTargetCode c"

definition syntheticContextLimitations :: "EvidenceContext \<Rightarrow> Limitation list" where
  "syntheticContextLimitations c = sortLimitations
     ((if ec_SyntheticEvidence c
       then [mkLimitation ''synthetic-evidence''
               ''Policy evaluation is based on synthetic evidence; it is not target workload behavior.'']
       else [])
      @ (if \<not> ec_ExecutesTargetCode c
         then [mkLimitation ''synthetic-no-target-execution''
                 ''No target code was executed; absence of ordinary behavioral deltas is not a real workload pass.'']
         else []))"

definition globalSpec :: "string \<Rightarrow> string \<Rightarrow> string \<Rightarrow> Limitation list \<Rightarrow> findingSpec" where
  "globalSpec sev disp scope lims = \<lparr>fs_ruleID = ''GR-OBS-001'', fs_severity = sev,
     fs_confidence = ConfidenceHigh, fs_disposition = disp, fs_recordIDs = [], fs_scenarioIDs = [],
     fs_baseObserved = False, fs_headObserved = False, fs_evidence = [], fs_limitations = lims,
     fs_scope = scope\<rparr>"

text \<open>The findings of one record; \<open>seen\<close> counts the findings of each record identity.\<close>

fun makeFindings ::
  "(string \<Rightarrow> string) \<Rightarrow> PolicyLimits \<Rightarrow> string \<Rightarrow> findingSpec list \<Rightarrow> (string \<Rightarrow> nat)
   \<Rightarrow> (Finding list \<times> (string \<Rightarrow> nat)) result" where
  "makeFindings sha limits rid [] seen = Inr ([], seen)"
| "makeFindings sha limits rid (sp # sps) seen =
     (let seen1 = seen(rid := seen rid + 1) in
      if int (seen1 rid) > pl_MaxFindingsPerDeltaRecord limits
      then Inl (policyErr ''finding-limit'' ''findings'' (fs_ruleID sp) rid ''count'')
      else rbind (makeFinding sha limits sp) (\<lambda>f.
           rbind (makeFindings sha limits rid sps seen1) (\<lambda>(fs, seen2). Inr (f # fs, seen2))))"

fun evaluateRecords ::
  "(string \<Rightarrow> string) \<Rightarrow> PolicyLimits \<Rightarrow> go_context \<Rightarrow> DeltaRecord list \<Rightarrow> (string \<Rightarrow> nat)
   \<Rightarrow> Finding list result" where
  "evaluateRecords sha limits ctx [] seen = Inr []"
| "evaluateRecords sha limits ctx (r # rs) seen =
     rcheck (map_option policy_contextErr (ctx 0))
     (rbind (specsForRecord r) (\<lambda>specs.
      rbind (makeFindings sha limits (dr_ID r) specs seen) (\<lambda>(fs, seen1).
      rbind (evaluateRecords sha limits (ctx \<circ> Suc) rs seen1) (\<lambda>gs. Inr (fs @ gs)))))"

definition globalSpecs :: "BehavioralDelta \<Rightarrow> findingSpec list" where
  "globalSpecs delta =
     (if \<not> bd_ExecutionComplete delta \<or> \<not> bd_EvidenceComplete delta
      then [globalSpec SeverityHigh DispositionFailed ''global-incomplete'' (completenessLimitations delta)]
      else if syntheticContextRequiresReview (bd_EvidenceContext delta)
      then [globalSpec SeverityMedium DispositionRequiresReview ''global-synthetic''
              (syntheticContextLimitations (bd_EvidenceContext delta))]
      else [])"

definition evaluateRules ::
  "(string \<Rightarrow> string) \<Rightarrow> PolicyLimits \<Rightarrow> go_context \<Rightarrow> BehavioralDelta \<Rightarrow> Finding list result" where
  "evaluateRules sha limits ctx delta =
     rcheck (map_option policy_contextErr (ctx 0))
     (rbind (map_result (makeFinding sha limits) (globalSpecs delta)) (\<lambda>gs.
      rbind (evaluateRecords sha limits (ctx \<circ> Suc) (bd_Records delta) (\<lambda>_. 0)) (\<lambda>fs. Inr (gs @ fs))))"

section \<open>Order and summary of the findings\<close>

definition dispositionRank :: "string \<Rightarrow> nat" where
  "dispositionRank d =
     (if d = DispositionFailed then 0 else if d = DispositionRequiresReview then 1
      else if d = DispositionPassed then 2 else if d = DispositionWaived then 3 else 9)"

definition severityRank :: "string \<Rightarrow> nat" where
  "severityRank s =
     (if s = SeverityCritical then 0 else if s = SeverityHigh then 1 else if s = SeverityMedium then 2
      else if s = SeverityLow then 3 else if s = SeverityInfo then 4 else 9)"

text \<open>\<open>scenarioRank\<close> maps an identity to its last index in the list of scenarios.\<close>

definition scenarioRanks :: "string list \<Rightarrow> (string \<times> nat) list" where
  "scenarioRanks ids = fold (\<lambda>(i, s). AList.update s i) (enumerate 0 ids) []"

definition minScenarioRank :: "string list \<Rightarrow> (string \<times> nat) list \<Rightarrow> nat" where
  "minScenarioRank ids rank =
     fold (\<lambda>s best. case map_of rank s of Some r \<Rightarrow> if r < best then r else best | None \<Rightarrow> best) ids (2 ^ 30)"

definition findingKey ::
  "(string \<times> nat) list \<Rightarrow> Finding \<Rightarrow> nat \<times> nat \<times> string \<times> nat \<times> string \<times> string" where
  "findingKey rank f = (dispositionRank (fi_Disposition f), severityRank (fi_Severity f), fi_RuleID f,
     minScenarioRank (fi_ScenarioIDs f) rank, first (fi_DeltaRecordIDs f), fi_ID f)"

definition findingLess :: "(string \<times> nat) list \<Rightarrow> Finding \<Rightarrow> Finding \<Rightarrow> bool" where
  "findingLess rank a b =
     (if dispositionRank (fi_Disposition a) \<noteq> dispositionRank (fi_Disposition b)
      then dispositionRank (fi_Disposition a) < dispositionRank (fi_Disposition b)
      else if severityRank (fi_Severity a) \<noteq> severityRank (fi_Severity b)
      then severityRank (fi_Severity a) < severityRank (fi_Severity b)
      else if fi_RuleID a \<noteq> fi_RuleID b then fi_RuleID a < fi_RuleID b
      else if minScenarioRank (fi_ScenarioIDs a) rank \<noteq> minScenarioRank (fi_ScenarioIDs b) rank
      then minScenarioRank (fi_ScenarioIDs a) rank < minScenarioRank (fi_ScenarioIDs b) rank
      else if first (fi_DeltaRecordIDs a) \<noteq> first (fi_DeltaRecordIDs b)
      then first (fi_DeltaRecordIDs a) < first (fi_DeltaRecordIDs b)
      else fi_ID a < fi_ID b)"

definition sortFindings :: "Finding list \<Rightarrow> BehavioralDelta \<Rightarrow> Finding list" where
  "sortFindings fs delta = slice_stable (findingLess (scenarioRanks (bd_ScenarioIDs delta))) fs"

record EvaluationSummary =
  es_TotalFindings :: int
  es_Info :: int
  es_Low :: int
  es_Medium :: int
  es_High :: int
  es_Critical :: int
  es_RequiresReview :: int
  es_Failed :: int
  es_Passed :: int
  es_Waived :: int

definition countWhere :: "('a \<Rightarrow> bool) \<Rightarrow> 'a list \<Rightarrow> int" where
  "countWhere P xs = int (length (filter P xs))"

definition summarizeFindings :: "Finding list \<Rightarrow> EvaluationSummary" where
  "summarizeFindings fs = \<lparr>es_TotalFindings = int (length fs),
     es_Info = countWhere (\<lambda>f. fi_Severity f = SeverityInfo) fs,
     es_Low = countWhere (\<lambda>f. fi_Severity f = SeverityLow) fs,
     es_Medium = countWhere (\<lambda>f. fi_Severity f = SeverityMedium) fs,
     es_High = countWhere (\<lambda>f. fi_Severity f = SeverityHigh) fs,
     es_Critical = countWhere (\<lambda>f. fi_Severity f = SeverityCritical) fs,
     es_RequiresReview = countWhere (\<lambda>f. fi_Disposition f = DispositionRequiresReview) fs,
     es_Failed = countWhere (\<lambda>f. fi_Disposition f = DispositionFailed) fs,
     es_Passed = countWhere (\<lambda>f. fi_Disposition f = DispositionPassed) fs,
     es_Waived = countWhere (\<lambda>f. fi_Disposition f = DispositionWaived) fs\<rparr>"

section \<open>The evaluation\<close>

record EvaluationDocument =
  ed_SchemaVersion :: string
  ed_PolicyProfileName :: string
  ed_PolicyProfileVersion :: string
  ed_BuiltinRuleSetVersion :: string
  ed_BehavioralDeltaDigest :: Digest
  ed_RunID :: string
  ed_PlanDigest :: Digest
  ed_ManifestDigest :: Digest
  ed_ManifestVerificationMode :: string
  ed_ExecutionComplete :: bool
  ed_EvidenceComplete :: bool
  ed_OverallDisposition :: string
  ed_Findings :: "Finding list"
  ed_Summary :: EvaluationSummary
  ed_Limitations :: "Limitation list"

record FrozenEvaluation =
  fe_doc :: EvaluationDocument
  fe_json :: string
  fe_digest :: Digest

text \<open>The checks on the sorted findings: no identity twice, no more evidence than allowed in total.\<close>

fun checkFindings :: "PolicyLimits \<Rightarrow> Finding list \<Rightarrow> string set \<Rightarrow> nat \<Rightarrow> go_error option" where
  "checkFindings limits [] seen refs = None"
| "checkFindings limits (f # fs) seen refs =
     (if fi_ID f \<in> seen
      then Some (policyErr ''duplicate-finding-id'' ''findings'' (fi_RuleID f) [] (fi_ID f))
      else let refs1 = refs + length (fi_Evidence f) in
           if int refs1 > pl_MaxEvidenceRefsTotal limits
           then Some (policyErr ''evidence-reference-limit'' ''findings'' [] [] ''evidence'')
           else checkFindings limits fs (insert (fi_ID f) seen) refs1)"

definition overallDisposition :: "EvaluationSummary \<Rightarrow> string" where
  "overallDisposition s =
     (if es_Failed s > 0 then DispositionFailed
      else if es_TotalFindings s > 0 then DispositionRequiresReview else DispositionPassed)"

definition evaluationLimitations :: "BehavioralDelta \<Rightarrow> Limitation list" where
  "evaluationLimitations delta =
     (let limits = sortLimitations (bd_Limitations delta) in
      if bd_ManifestVerificationMode delta = ''internal-consistency-only''
      then sortLimitations (limits @ [mkLimitation ''manifest-internal-consistency-only''
             ''Manifest digest was not matched against an independently supplied expected digest.''])
      else limits)"

definition evaluateBody ::
  "(string \<Rightarrow> string) \<Rightarrow> PolicyLimits \<Rightarrow> go_context \<Rightarrow> PolicyProfile \<Rightarrow> BehavioralDelta \<Rightarrow> Digest
   \<Rightarrow> EvaluationDocument result" where
  "evaluateBody sha limits ctx profile delta deltaDigest =
     rcheck (map_option policy_contextErr (ctx 0)) (
     rcheck (policy_validateProfile profile) (
     rcheck (validateDelta delta limits) (
     rbind (evaluateRules sha limits (ctx \<circ> Suc) delta) (\<lambda>found.
     let findings = sortFindings found delta in
     if int (length findings) > pl_MaxFindings limits
     then Inl (policyErr ''finding-limit'' ''findings'' [] [] ''count'')
     else rcheck (checkFindings limits findings {} 0)
       (Inr \<lparr>ed_SchemaVersion = SchemaVersionPolicyEvaluationV1Alpha1,
             ed_PolicyProfileName = pp_Name profile, ed_PolicyProfileVersion = pp_Version profile,
             ed_BuiltinRuleSetVersion = BuiltinRuleSetVersionStrictV1Alpha1,
             ed_BehavioralDeltaDigest = deltaDigest, ed_RunID = bd_RunID delta,
             ed_PlanDigest = bd_PlanDigest delta, ed_ManifestDigest = bd_ManifestDigest delta,
             ed_ManifestVerificationMode = bd_ManifestVerificationMode delta,
             ed_ExecutionComplete = bd_ExecutionComplete delta,
             ed_EvidenceComplete = bd_EvidenceComplete delta,
             ed_OverallDisposition = overallDisposition (summarizeFindings findings),
             ed_Findings = findings, ed_Summary = summarizeFindings findings,
             ed_Limitations = evaluationLimitations delta\<rparr>)))))"

definition evaluateDeltaDocument ::
  "(string \<Rightarrow> string) \<Rightarrow> (EvaluationDocument \<Rightarrow> string option) \<Rightarrow> PolicyLimits \<Rightarrow> go_context
   \<Rightarrow> PolicyProfile \<Rightarrow> BehavioralDelta \<Rightarrow> Digest \<Rightarrow> FrozenEvaluation result" where
  "evaluateDeltaDocument sha marshal limits ctx profile delta deltaDigest =
     rbind (evaluateBody sha limits ctx profile delta deltaDigest) (\<lambda>doc.
     case marshal doc of
       None \<Rightarrow> Inl (policyErr ''serialization-failed'' ''freeze'' [] [] ''json'')
     | Some data \<Rightarrow>
         if int (length data) > pl_MaxEvaluationJSONBytes limits
         then Inl (policyErr ''evaluation-too-large'' ''freeze'' [] [] ''json'')
         else Inr \<lparr>fe_doc = doc, fe_json = data, fe_digest = digestBytes sha evaluationJSONDomain data\<rparr>)"

definition Evaluate ::
  "(string \<Rightarrow> string) \<Rightarrow> (EvaluationDocument \<Rightarrow> string option) \<Rightarrow> PolicyLimits option \<Rightarrow> go_context
   \<Rightarrow> PolicyProfile \<Rightarrow> FrozenDelta option \<Rightarrow> FrozenEvaluation result" where
  "Evaluate sha marshal e ctx profile reqDelta =
     rcheck (map_option policy_contextErr (ctx 0))
     (case e of
        None \<Rightarrow> Inl (policyErr ''invalid-limits'' ''evaluate'' [] [] ''evaluator'')
      | Some limits \<Rightarrow>
         (case reqDelta of
            None \<Rightarrow> Inl (policyErr ''nil-delta'' ''input'' [] [] ''delta'')
          | Some delta \<Rightarrow>
              rcheck (policy_validateProfile profile)
              (if digestBytes sha deltaJSONDomain (fd_json delta) \<noteq> fd_digest delta
               then Inl (policyErr ''invalid-delta'' ''input'' [] [] ''digest'')
               else evaluateDeltaDocument sha marshal limits (ctx \<circ> Suc) profile (fd_doc delta)
                      (fd_digest delta))))"

end
