(* ===== verification/Policy_Facts.thy ===== *)
theory Policy_Facts
  imports Policy Compare_Valid
begin

text \<open>
  What the rules emit: the specifications of the findings of a record, the findings made from them, and
  the checks of the evaluation.
\<close>

section \<open>Specifications of one record\<close>

definition recordRules :: "string list" where
  "recordRules = [''GR-OBS-001'', ''GR-PROC-001'', ''GR-FS-001'', ''GR-FS-002'', ''GR-NET-001'',
     ''GR-ART-001'', ''GR-DET-001'', ''GR-LIMIT-001'']"

lemma set_addIf: "sp \<in> set (addIf c r rule sev) \<longleftrightarrow>
    c \<and> sp = recordSpec r rule sev (classifyPolicyConfidence (dr_Basis r) (dr_Source r) True)"
  by (auto simp: addIf_def)

lemma addIf_rules: "map fs_ruleID (addIf c r rule sev) = (if c then [rule] else [])"
  by (simp add: addIf_def recordSpec_def)

lemma outsideRoot_severity:
  "outsideRoot rid fs = Inr (Some sev) \<Longrightarrow> sev = SeverityHigh \<or> sev = SeverityMedium"
  by (induction fs) (auto split: option.splits if_splits)

lemma outsideSpecs_Inr:
  assumes "outsideSpecs r = Inr sps"
  shows "sps = [] \<or> (\<exists>sev. sps = addIf True r ''GR-FS-002'' sev \<and> sev \<in> {SeverityHigh, SeverityMedium}
    \<and> headPositive r \<and> isFilesystemFact r \<and> outsideRootSeverity r = Inr (Some sev))"
proof (cases "headPositive r \<and> isFilesystemFact r")
  case True
  with assms obtain s where s: "outsideRootSeverity r = Inr s"
    "(case s of None \<Rightarrow> Inr [] | Some v \<Rightarrow> Inr (addIf True r ''GR-FS-002'' v)) = (Inr sps :: findingSpec list result)"
    by (auto simp: outsideSpecs_def result_simps)
  show ?thesis
  proof (cases s)
    case None
    with s(2) show ?thesis by simp
  next
    case (Some sev)
    with s True show ?thesis
      using outsideRoot_severity [of "dr_ID r" "dr_HeadFacts r" sev] by (simp add: outsideRootSeverity_def)
  qed
qed (use assms in \<open>auto simp: outsideSpecs_def split: if_splits\<close>)

lemma classifyPolicyConfidence_nonempty: "classifyPolicyConfidence b s t \<noteq> []"
  by (simp add: classifyPolicyConfidence_def basisConfidence_def sourceCap_def)

definition ofRecord :: "DeltaRecord \<Rightarrow> findingSpec \<Rightarrow> bool" where
  "ofRecord r sp \<longleftrightarrow> fs_disposition sp = DispositionRequiresReview \<and> fs_scope sp = ''record''
     \<and> fs_recordIDs sp = [dr_ID r] \<and> fs_scenarioIDs sp = dr_ScenarioIDs r
     \<and> fs_evidence sp = evidenceForRecord r
     \<and> fs_ruleID sp \<in> set recordRules \<and> fs_severity sp \<in> {SeverityHigh, SeverityMedium} \<and> fs_confidence sp \<noteq> []
     \<and> (fs_ruleID sp \<noteq> ''GR-DET-001'' \<longrightarrow>
          fs_confidence sp = classifyPolicyConfidence (dr_Basis r) (dr_Source r) True)
     \<and> (fs_ruleID sp = ''GR-DET-001'' \<longrightarrow> fs_confidence sp \<in> {ConfidenceLow, ConfidenceMedium})"

lemma ofRecord_addIf:
  assumes "rule \<in> set recordRules" "rule \<noteq> ''GR-DET-001''" "sev \<in> {SeverityHigh, SeverityMedium}"
    and "sp \<in> set (addIf c r rule sev)"
  shows "ofRecord r sp"
  using assms classifyPolicyConfidence_nonempty by (simp add: ofRecord_def set_addIf recordSpec_def)

lemma ofRecord_determinism: "sp \<in> set (determinismSpecs r) \<Longrightarrow> ofRecord r sp"
  by (auto simp: determinismSpecs_def ofRecord_def recordSpec_def recordRules_def split: if_splits)

lemma specs_form:
  assumes "specsForRecord r = Inr sps" and "sp \<in> set sps"
  shows "ofRecord r sp"
proof (cases "dr_Kind r = DeltaKindCoverageChanged \<and> \<not> (dr_HeadObserved r \<and> dr_HeadFacts r \<noteq> [])")
  case True
  then have "sp \<in> set (addIf True r ''GR-OBS-001''
      (if op_Coverage (dr_HeadOccurrence r) \<noteq> CoverageAssessmentComplete then SeverityHigh else SeverityMedium))"
    using assms by (auto simp: specsForRecord_def)
  then show ?thesis by (rule ofRecord_addIf [rotated 3]) (simp_all add: recordRules_def)
next
  case False
  then obtain outside where o: "outsideSpecs r = Inr outside"
    using assms(1) by (auto simp: specsForRecord_def result_simps)
  have out: "ofRecord r sp" if "sp \<in> set outside"
    using outsideSpecs_Inr [OF o] that
    by (auto intro: ofRecord_addIf [rotated 3, where rule = "''GR-FS-002''"] simp: recordRules_def)
  note intro = ofRecord_addIf [rotated 3]
  have "sp \<in> set (addIf (headWarning r \<and> (dr_Kind r = DeltaKindAdded \<or> dr_Kind r = DeltaKindModified
        \<or> dr_Kind r = DeltaKindCoverageChanged)) r ''GR-OBS-001'' SeverityMedium)
      \<or> sp \<in> set (addIf (headPositive r \<and> isProcessNew r) r ''GR-PROC-001'' SeverityMedium)
      \<or> sp \<in> set (addIf (headPositive r \<and> executableHeadBehavior r) r ''GR-FS-001'' SeverityHigh)
      \<or> sp \<in> set outside
      \<or> sp \<in> set (addIf (headPositive r \<and> isNetworkFact r) r ''GR-NET-001'' SeverityHigh)
      \<or> sp \<in> set (addIf (headPositive r \<and> isArtifactFact r) r ''GR-ART-001'' SeverityMedium)
      \<or> sp \<in> set (determinismSpecs r)
      \<or> sp \<in> set (addIf (headPositive r \<and> isResourceFact r) r ''GR-LIMIT-001'' SeverityHigh)"
    using assms False o by (auto simp: specsForRecord_def)
  then show ?thesis
    by (elim disjE) (erule intro out ofRecord_determinism; simp add: recordRules_def)+
qed

text \<open>The rules of the specifications, by the kind of fact of the record.\<close>

lemma fact_kinds_disjoint:
  "headWarning r \<Longrightarrow> \<not> isProcessNew r \<and> \<not> isFilesystemFact r \<and> \<not> isNetworkFact r \<and> \<not> isArtifactFact r
     \<and> \<not> isResourceFact r"
  "isProcessNew r \<Longrightarrow> \<not> isFilesystemFact r \<and> \<not> isNetworkFact r \<and> \<not> isArtifactFact r \<and> \<not> isResourceFact r"
  "isNetworkFact r \<Longrightarrow> \<not> isFilesystemFact r \<and> \<not> isArtifactFact r \<and> \<not> isResourceFact r"
  "isResourceFact r \<Longrightarrow> \<not> isFilesystemFact r \<and> \<not> isArtifactFact r"
  "isArtifactFact r \<Longrightarrow> \<not> isFilesystemFact r"
  by (auto simp: headWarning_def isProcessNew_def isFilesystemFact_def isNetworkFact_def
      isArtifactFact_def isResourceFact_def)

definition ruleFlags :: "bool \<Rightarrow> bool \<Rightarrow> bool \<Rightarrow> bool \<Rightarrow> bool \<Rightarrow> bool \<Rightarrow> bool \<Rightarrow> bool \<Rightarrow> string list" where
  "ruleFlags W P X Out N A D L =
     (if W then [''GR-OBS-001''] else []) @ (if P then [''GR-PROC-001''] else [])
     @ (if X then [''GR-FS-001''] else []) @ (if Out then [''GR-FS-002''] else [])
     @ (if N then [''GR-NET-001''] else []) @ (if A then [''GR-ART-001''] else [])
     @ (if D then [''GR-DET-001''] else []) @ (if L then [''GR-LIMIT-001''] else [])"

lemma ruleFlags_exclusive:
  assumes "\<not> (D \<and> (W \<or> P \<or> X \<or> Out \<or> N \<or> A \<or> L))" "\<not> (W \<and> (P \<or> X \<or> Out \<or> N \<or> A \<or> L))"
    "\<not> (P \<and> (X \<or> Out \<or> N \<or> A \<or> L))" "\<not> (N \<and> (X \<or> Out \<or> A \<or> L))" "\<not> (L \<and> (X \<or> Out \<or> A))" "\<not> (A \<and> Out)"
  shows "distinct (ruleFlags W P X Out N A D L) \<and> length (ruleFlags W P X Out N A D L) \<le> 2"
proof -
  have "distinct (ruleFlags W P X Out N A D L)" by (simp add: ruleFlags_def)
  moreover have "length (ruleFlags W P X Out N A D L) =
      of_bool W + of_bool P + of_bool X + of_bool Out + of_bool N + of_bool A + of_bool D + of_bool L"
    by (simp add: ruleFlags_def)
  moreover have "of_bool W + of_bool P + of_bool X + of_bool Out + of_bool N + of_bool A + of_bool D + of_bool L \<le> (2 :: nat)"
    using assms by (auto simp: of_bool_def)
  ultimately show ?thesis by simp
qed

lemma specs_rules:
  assumes "specsForRecord r = Inr sps"
  shows "distinct (map fs_ruleID sps)" and "length sps \<le> 2"
proof -
  have "distinct (map fs_ruleID sps) \<and> length (map fs_ruleID sps) \<le> 2"
  proof (cases "dr_Kind r = DeltaKindCoverageChanged \<and> \<not> (dr_HeadObserved r \<and> dr_HeadFacts r \<noteq> [])")
    case True
    with assms show ?thesis by (auto simp: specsForRecord_def addIf_def)
  next
    case False
    then obtain outside where o: "outsideSpecs r = Inr outside"
      using assms by (auto simp: specsForRecord_def result_simps)
    define W where "W \<longleftrightarrow> headWarning r \<and> (dr_Kind r = DeltaKindAdded \<or> dr_Kind r = DeltaKindModified
      \<or> dr_Kind r = DeltaKindCoverageChanged)"
    define P where "P \<longleftrightarrow> headPositive r \<and> isProcessNew r"
    define X where "X \<longleftrightarrow> headPositive r \<and> executableHeadBehavior r"
    define Out where "Out \<longleftrightarrow> outside \<noteq> []"
    define N where "N \<longleftrightarrow> headPositive r \<and> isNetworkFact r"
    define A where "A \<longleftrightarrow> headPositive r \<and> isArtifactFact r"
    define D where "D \<longleftrightarrow> dr_Kind r = DeltaKindStabilityChanged
      \<and> repeatabilityWorse (op_Repeatability (dr_BaseOccurrence r)) (op_Repeatability (dr_HeadOccurrence r))"
    define L where "L \<longleftrightarrow> headPositive r \<and> isResourceFact r"
    have out: "map fs_ruleID outside = (if Out then [''GR-FS-002''] else [])" "Out \<Longrightarrow> isFilesystemFact r \<and> headPositive r"
      using outsideSpecs_Inr [OF o] by (auto simp: Out_def addIf_rules)
    have det: "map fs_ruleID (determinismSpecs r) = (if D then [''GR-DET-001''] else [])"
      by (simp add: determinismSpecs_def recordSpec_def D_def)
    have "sps = addIf W r ''GR-OBS-001'' SeverityMedium @ addIf P r ''GR-PROC-001'' SeverityMedium
        @ addIf X r ''GR-FS-001'' SeverityHigh @ outside @ addIf N r ''GR-NET-001'' SeverityHigh
        @ addIf A r ''GR-ART-001'' SeverityMedium @ determinismSpecs r @ addIf L r ''GR-LIMIT-001'' SeverityHigh"
      using assms unfolding specsForRecord_def if_not_P [OF False] o rbind_simps W_def P_def X_def N_def A_def L_def
      by simp
    then have rules: "map fs_ruleID sps = ruleFlags W P X Out N A D L"
      unfolding ruleFlags_def by (simp only: map_append addIf_rules out(1) det)
    have hp: "headPositive r \<Longrightarrow> dr_Kind r \<noteq> DeltaKindStabilityChanged" by (auto simp: headPositive_def)
    have ex: "executableHeadBehavior r \<Longrightarrow> isFilesystemFact r \<or> isArtifactFact r"
      unfolding executableHeadBehavior_def by blast
    have "\<not> (D \<and> (W \<or> P \<or> X \<or> Out \<or> N \<or> A \<or> L))"
      unfolding W_def P_def X_def N_def A_def D_def L_def using out(2) hp by auto
    moreover have "\<not> (W \<and> (P \<or> X \<or> Out \<or> N \<or> A \<or> L))"
      unfolding W_def P_def X_def N_def A_def L_def using out(2) ex fact_kinds_disjoint(1) by blast
    moreover have "\<not> (P \<and> (X \<or> Out \<or> N \<or> A \<or> L))"
      unfolding P_def X_def N_def A_def L_def using out(2) ex fact_kinds_disjoint(2) by blast
    moreover have "\<not> (N \<and> (X \<or> Out \<or> A \<or> L))"
      unfolding X_def N_def A_def L_def using out(2) ex fact_kinds_disjoint(3) by blast
    moreover have "\<not> (L \<and> (X \<or> Out \<or> A))"
      unfolding X_def A_def L_def using out(2) ex fact_kinds_disjoint(4) by blast
    moreover have "\<not> (A \<and> Out)" unfolding A_def using out(2) fact_kinds_disjoint(5) by blast
    ultimately show ?thesis unfolding rules by (rule ruleFlags_exclusive)
  qed
  then show "distinct (map fs_ruleID sps)" "length sps \<le> 2" by simp_all
qed

lemma specs_error:
  "specsForRecord r = Inl e \<longleftrightarrow> headPositive r \<and> isFilesystemFact r \<and> outsideRootSeverity r = Inl e"
proof -
  have "headPositive r \<Longrightarrow> dr_HeadObserved r \<and> dr_HeadFacts r \<noteq> []" by (simp add: headPositive_def)
  then show ?thesis
    by (cases "outsideRootSeverity r")
       (auto simp: specsForRecord_def outsideSpecs_def split: option.splits)
qed

section \<open>Findings of specifications\<close>

lemma ruleByID_record:
  assumes "rid \<in> set recordRules"
  shows "ru_ID (ruleByID rid) = rid" "ru_Emit (ruleByID rid)" "ru_Version (ruleByID rid) = ruleVersionV1Alpha1"
  using assms
  by (auto simp: recordRules_def ruleByID_def ruleCatalog_def emitted_def)

lemma makeFinding_Inr:
  assumes "makeFinding sha limits sp = Inr f" and "fs_ruleID sp \<in> set recordRules"
    and "fs_severity sp \<noteq> []" "fs_confidence sp \<noteq> []" "fs_disposition sp \<noteq> []" "fs_scope sp \<noteq> []"
  shows "fi_RuleID f = fs_ruleID sp" "fi_Severity f = fs_severity sp" "fi_Confidence f = fs_confidence sp"
    "fi_Disposition f = fs_disposition sp" "fi_DeltaRecordIDs f = sortedUniqueStrings (fs_recordIDs sp)"
    "fi_ScenarioIDs f = sortedUniqueStrings (fs_scenarioIDs sp)"
    "fi_Evidence f = policy_dedupeEvidence (fs_evidence sp)" "\<not> fi_Waived f"
    "fi_ID f = findingID sha PolicyProfileVersionStrictV1Alpha1 BuiltinRuleSetVersionStrictV1Alpha1
       (fs_ruleID sp) ruleVersionV1Alpha1 (fi_DeltaRecordIDs f) (fs_scope sp) (fi_ScenarioIDs f)"
  using assms ruleByID_record [OF assms(2)]
  by (auto simp: makeFinding_def Let_def orElse_def result_simps)

definition plainSpec :: "findingSpec \<Rightarrow> bool" where
  "plainSpec sp \<longleftrightarrow> fs_ruleID sp \<in> set recordRules \<and> fs_severity sp \<noteq> [] \<and> fs_confidence sp \<noteq> []
     \<and> fs_disposition sp \<noteq> [] \<and> fs_scope sp \<noteq> []"

lemma plain_globalSpecs: "sp \<in> set (globalSpecs delta) \<Longrightarrow> plainSpec sp"
  by (auto simp: globalSpecs_def globalSpec_def plainSpec_def recordRules_def split: if_splits)

lemma plain_recordSpecs: "specsForRecord r = Inr sps \<Longrightarrow> sp \<in> set sps \<Longrightarrow> plainSpec sp"
  using specs_form [of r sps sp] by (auto simp: plainSpec_def ofRecord_def)

lemma makeFindings_Inr:
  "makeFindings sha limits rid sps seen = Inr (fs, seen') \<Longrightarrow> map_result (makeFinding sha limits) sps = Inr fs"
  by (induction sps arbitrary: seen fs) (auto simp: result_simps Let_def)

lemma map_result_append:
  "map_result f (xs @ ys) = rbind (map_result f xs) (\<lambda>us. rbind (map_result f ys) (\<lambda>vs. Inr (us @ vs)))"
proof (induction xs)
  case Nil
  then show ?case by (cases "map_result f ys") simp_all
next
  case (Cons x xs)
  then show ?case
    by (cases "f x"; cases "map_result f xs"; cases "map_result f ys") simp_all
qed

lemma evaluateRecords_Inr:
  "evaluateRecords sha limits ctx rs seen = Inr fs \<Longrightarrow>
     \<exists>sss. map_result specsForRecord rs = Inr sss \<and> map_result (makeFinding sha limits) (concat sss) = Inr fs"
proof (induction rs arbitrary: ctx seen fs)
  case (Cons r rs)
  then obtain specs fs1 seen1 gs where specs: "specsForRecord r = Inr specs"
    and mk: "makeFindings sha limits (dr_ID r) specs seen = Inr (fs1, seen1)"
    and rest: "evaluateRecords sha limits (ctx \<circ> Suc) rs seen1 = Inr gs" and fs: "fs = fs1 @ gs"
    by (auto simp: result_simps)
  obtain sss where "map_result specsForRecord rs = Inr sss"
    "map_result (makeFinding sha limits) (concat sss) = Inr gs"
    using Cons.IH [OF rest] by blast
  with specs makeFindings_Inr [OF mk] fs show ?case
    by (intro exI [of _ "specs # sss"]) (simp add: map_result_append)
qed simp

text \<open>All specifications of a delta, the global one first.\<close>

definition deltaSpecs :: "BehavioralDelta \<Rightarrow> (findingSpec list) result" where
  "deltaSpecs delta = rbind (map_result specsForRecord (bd_Records delta))
     (\<lambda>sss. Inr (globalSpecs delta @ concat sss))"

lemma evaluateRules_Inr:
  assumes "evaluateRules sha limits ctx delta = Inr found"
  obtains specs where "deltaSpecs delta = Inr specs" "map_result (makeFinding sha limits) specs = Inr found"
proof -
  obtain gs fs where g: "map_result (makeFinding sha limits) (globalSpecs delta) = Inr gs"
    and e: "evaluateRecords sha limits (ctx \<circ> Suc) (bd_Records delta) (\<lambda>_. 0) = Inr fs"
    and found: "found = gs @ fs"
    using assms by (auto simp: evaluateRules_def result_simps)
  obtain sss where "map_result specsForRecord (bd_Records delta) = Inr sss"
    "map_result (makeFinding sha limits) (concat sss) = Inr fs"
    using evaluateRecords_Inr [OF e] by blast
  with g found that show thesis by (simp add: deltaSpecs_def map_result_append)
qed

lemma deltaSpecs_mem:
  assumes "deltaSpecs delta = Inr specs"
  shows "sp \<in> set specs \<longleftrightarrow> sp \<in> set (globalSpecs delta)
    \<or> (\<exists>r\<in>set (bd_Records delta). \<exists>sps. specsForRecord r = Inr sps \<and> sp \<in> set sps)"
proof -
  obtain sss where sss: "map_result specsForRecord (bd_Records delta) = Inr sss"
    and specs: "specs = globalSpecs delta @ concat sss"
    using assms by (auto simp: deltaSpecs_def result_simps)
  have "(\<exists>sps\<in>set sss. sp \<in> set sps) \<longleftrightarrow>
      (\<exists>r\<in>set (bd_Records delta). \<exists>sps. specsForRecord r = Inr sps \<and> sp \<in> set sps)"
  proof
    assume "\<exists>sps\<in>set sss. sp \<in> set sps"
    then show "\<exists>r\<in>set (bd_Records delta). \<exists>sps. specsForRecord r = Inr sps \<and> sp \<in> set sps"
      using map_result_Inr_set [OF sss] by blast
  next
    assume "\<exists>r\<in>set (bd_Records delta). \<exists>sps. specsForRecord r = Inr sps \<and> sp \<in> set sps"
    then obtain r sps where r: "r \<in> set (bd_Records delta)" "specsForRecord r = Inr sps" "sp \<in> set sps" by blast
    obtain j where "j < length (bd_Records delta)" "bd_Records delta ! j = r"
      using r(1) by (auto simp: in_set_conv_nth)
    then obtain i where i: "i < length (bd_Records delta)" "specsForRecord (bd_Records delta ! i) = Inr sps"
      "sp \<in> set sps" using r by blast
    then have "sss ! i = sps" using map_result_Inr_nth [OF sss i(1)] by simp
    moreover have "i < length sss" using i(1) map_result_Inr_length [OF sss] by simp
    ultimately show "\<exists>sps\<in>set sss. sp \<in> set sps" using i(3) by (metis nth_mem)
  qed
  then show ?thesis by (simp add: specs)
qed

lemma deltaSpecs_plain: "deltaSpecs delta = Inr specs \<Longrightarrow> sp \<in> set specs \<Longrightarrow> plainSpec sp"
  using deltaSpecs_mem [of delta specs sp] plain_globalSpecs plain_recordSpecs by blast

section \<open>The evaluation document\<close>

interpretation finding_order: keyed_order "findingLess rank" "findingKey rank" for rank
  by unfold_locales (auto simp: findingLess_def findingKey_def less_prod_def')

lemma mset_sortFindings [simp]: "mset (sortFindings fs delta) = mset fs"
  by (simp add: sortFindings_def)

lemma set_sortFindings [simp]: "set (sortFindings fs delta) = set fs"
  by (metis mset_sortFindings set_mset_mset)

lemma length_sortFindings [simp]: "length (sortFindings fs delta) = length fs"
  by (metis mset_sortFindings size_mset)

lemma evaluateBody_elim:
  assumes "evaluateBody sha limits ctx profile delta dg = Inr doc"
  obtains specs found where "validateDelta delta limits = None" "deltaSpecs delta = Inr specs"
    "map_result (makeFinding sha limits) specs = Inr found"
    "ed_Findings doc = sortFindings found delta"
    "ed_Summary doc = summarizeFindings (ed_Findings doc)"
    "ed_OverallDisposition doc = overallDisposition (ed_Summary doc)"
    "checkFindings limits (ed_Findings doc) {} 0 = None"
proof -
  obtain found where "validateDelta delta limits = None"
    "evaluateRules sha limits (ctx \<circ> Suc) delta = Inr found"
    "ed_Findings doc = sortFindings found delta" "ed_Summary doc = summarizeFindings (ed_Findings doc)"
    "ed_OverallDisposition doc = overallDisposition (ed_Summary doc)"
    "checkFindings limits (ed_Findings doc) {} 0 = None"
    using assms by (auto simp: evaluateBody_def result_simps Let_def)
  then show thesis using that by (elim evaluateRules_Inr)
qed

lemma found_mem:
  assumes "map_result (makeFinding sha limits) specs = Inr found"
  shows "f \<in> set found \<longleftrightarrow> (\<exists>sp\<in>set specs. makeFinding sha limits sp = Inr f)"
  using assms
proof (induction specs arbitrary: found)
  case (Cons sp specs)
  then show ?case by (auto simp: result_simps)
qed simp

lemma map_result_map:
  "map_result f xs = Inr ys \<Longrightarrow> (\<And>x y. x \<in> set xs \<Longrightarrow> f x = Inr y \<Longrightarrow> h y = g x) \<Longrightarrow> map h ys = map g xs"
  by (induction xs arbitrary: ys) (auto simp: result_simps)

lemma specs_made:
  assumes "map_result (makeFinding sha limits) specs = Inr found" and "sp \<in> set specs"
  shows "\<exists>f\<in>set found. makeFinding sha limits sp = Inr f"
  using assms by (induction specs arbitrary: found) (auto simp: result_simps)

lemma deltaSpecs_Nil:
  assumes "deltaSpecs delta = Inr specs"
  shows "specs = [] \<longleftrightarrow> globalSpecs delta = [] \<and> list_all (\<lambda>r. specsForRecord r = Inr []) (bd_Records delta)"
proof -
  obtain sss where sss: "map_result specsForRecord (bd_Records delta) = Inr sss"
    and specs: "specs = globalSpecs delta @ concat sss"
    using assms by (auto simp: deltaSpecs_def result_simps)
  have "concat sss = [] \<longleftrightarrow> list_all (\<lambda>r. specsForRecord r = Inr []) rs"
    if "map_result specsForRecord rs = Inr sss" for rs sss
    using that by (induction rs arbitrary: sss) (auto simp: result_simps)
  with sss specs show ?thesis by simp
qed

lemma found_disposition:
  assumes "deltaSpecs delta = Inr specs" and "map_result (makeFinding sha limits) specs = Inr found"
  shows "(\<exists>f\<in>set found. fi_Disposition f = d) \<longleftrightarrow> (\<exists>sp\<in>set specs. fs_disposition sp = d)"
proof -
  have "map fi_Disposition found = map fs_disposition specs"
    using makeFinding_Inr(4) deltaSpecs_plain [OF assms(1)]
    by (intro map_result_map [OF assms(2)]) (simp add: plainSpec_def)
  then have "d \<in> set (map fi_Disposition found) \<longleftrightarrow> d \<in> set (map fs_disposition specs)" by (simp only:)
  then show ?thesis by auto
qed

lemma specs_failed:
  assumes "deltaSpecs delta = Inr specs"
  shows "(\<exists>sp\<in>set specs. fs_disposition sp = DispositionFailed)
    \<longleftrightarrow> \<not> bd_ExecutionComplete delta \<or> \<not> bd_EvidenceComplete delta"
proof -
  have "fs_disposition sp \<noteq> DispositionFailed" if "specsForRecord r = Inr sps" "sp \<in> set sps" for r sps sp
    using specs_form [OF that] by (simp add: ofRecord_def)
  then have "(\<exists>sp\<in>set specs. fs_disposition sp = DispositionFailed)
      \<longleftrightarrow> (\<exists>sp\<in>set (globalSpecs delta). fs_disposition sp = DispositionFailed)"
    using deltaSpecs_mem [OF assms] by blast
  also have "\<dots> \<longleftrightarrow> \<not> bd_ExecutionComplete delta \<or> \<not> bd_EvidenceComplete delta"
    by (simp add: globalSpecs_def globalSpec_def)
  finally show ?thesis .
qed

lemma specs_ok:
  assumes "deltaSpecs delta = Inr specs" and "r \<in> set (bd_Records delta)"
  shows "\<exists>sps. specsForRecord r = Inr sps"
proof -
  obtain sss where sss: "map_result specsForRecord (bd_Records delta) = Inr sss"
    using assms(1) by (auto simp: deltaSpecs_def result_simps)
  obtain i where "i < length (bd_Records delta)" "bd_Records delta ! i = r"
    using assms(2) by (auto simp: in_set_conv_nth)
  then show ?thesis using map_result_Inr_nth [OF sss] by blast
qed

lemma outsideRoot_Some:
  assumes "outsideRoot rid fs = Inr s" and "list_ex (\<lambda>f. case snap_Filesystem f of None \<Rightarrow> False
      | Some x \<Rightarrow> dp_Namespace (dff_Path x) = ''absolute-unmapped'') fs"
  shows "s \<noteq> None"
  using assms by (induction fs) (auto split: option.splits if_splits)

text \<open>The rules that fire on a record whose head side shows behavior.\<close>

lemma specs_positive:
  assumes "specsForRecord r = Inr sps" and "headPositive r"
  shows "isProcessNew r \<Longrightarrow> ''GR-PROC-001'' \<in> fs_ruleID ` set sps"
    and "isNetworkFact r \<Longrightarrow> ''GR-NET-001'' \<in> fs_ruleID ` set sps"
    and "isArtifactFact r \<Longrightarrow> ''GR-ART-001'' \<in> fs_ruleID ` set sps"
    and "isResourceFact r \<Longrightarrow> ''GR-LIMIT-001'' \<in> fs_ruleID ` set sps"
    and "executableHeadBehavior r \<Longrightarrow> ''GR-FS-001'' \<in> fs_ruleID ` set sps"
    and "isFilesystemFact r \<and> list_ex (\<lambda>f. case snap_Filesystem f of None \<Rightarrow> False
      | Some x \<Rightarrow> dp_Namespace (dff_Path x) = ''absolute-unmapped'') (dr_HeadFacts r) \<Longrightarrow>
      ''GR-FS-002'' \<in> fs_ruleID ` set sps"
proof -
  have pos: "\<not> (dr_Kind r = DeltaKindCoverageChanged \<and> \<not> (dr_HeadObserved r \<and> dr_HeadFacts r \<noteq> []))"
    using assms(2) by (simp add: headPositive_def)
  obtain outside where o: "outsideSpecs r = Inr outside"
    using assms(1) unfolding specsForRecord_def if_not_P [OF pos] by (auto simp: result_simps)
  have sps: "set sps \<supseteq> set (addIf (isProcessNew r) r ''GR-PROC-001'' SeverityMedium)
      \<union> set (addIf (executableHeadBehavior r) r ''GR-FS-001'' SeverityHigh) \<union> set outside
      \<union> set (addIf (isNetworkFact r) r ''GR-NET-001'' SeverityHigh)
      \<union> set (addIf (isArtifactFact r) r ''GR-ART-001'' SeverityMedium)
      \<union> set (addIf (isResourceFact r) r ''GR-LIMIT-001'' SeverityHigh)"
    using assms unfolding specsForRecord_def if_not_P [OF pos] o rbind_simps by auto
  have rule: "fs_ruleID ` set (addIf c r rule sev) = (if c then {rule} else {})" for c rule sev
    by (simp add: addIf_def recordSpec_def)
  note fired = image_mono [OF sps, of fs_ruleID, unfolded image_Un rule]
  show "isProcessNew r \<Longrightarrow> ''GR-PROC-001'' \<in> fs_ruleID ` set sps"
    "isNetworkFact r \<Longrightarrow> ''GR-NET-001'' \<in> fs_ruleID ` set sps"
    "isArtifactFact r \<Longrightarrow> ''GR-ART-001'' \<in> fs_ruleID ` set sps"
    "isResourceFact r \<Longrightarrow> ''GR-LIMIT-001'' \<in> fs_ruleID ` set sps"
    "executableHeadBehavior r \<Longrightarrow> ''GR-FS-001'' \<in> fs_ruleID ` set sps"
    using fired by simp_all
  show "''GR-FS-002'' \<in> fs_ruleID ` set sps"
    if fs: "isFilesystemFact r \<and> list_ex (\<lambda>f. case snap_Filesystem f of None \<Rightarrow> False
      | Some x \<Rightarrow> dp_Namespace (dff_Path x) = ''absolute-unmapped'') (dr_HeadFacts r)"
  proof -
    obtain s where s: "outsideRootSeverity r = Inr s"
      "(case s of None \<Rightarrow> Inr [] | Some v \<Rightarrow> Inr (addIf True r ''GR-FS-002'' v)) = (Inr outside :: findingSpec list result)"
      using o fs assms(2) by (auto simp: outsideSpecs_def result_simps)
    obtain v where "s = Some v" using outsideRoot_Some [of "dr_ID r" "dr_HeadFacts r" s] s(1) fs
      by (auto simp: outsideRootSeverity_def)
    then have "outside = addIf True r ''GR-FS-002'' v" using s(2) by simp
    then show ?thesis using fired by (simp add: rule)
  qed
qed

section \<open>Finding identities\<close>

lemma validateRecords_None:
  "validateRecords limits rs seen = None \<Longrightarrow> distinct (map dr_ID rs) \<and> seen \<inter> dr_ID ` set rs = {}
     \<and> [] \<notin> dr_ID ` set rs \<and> list_all (\<lambda>r. validateDeltaRecord r limits = None) rs"
proof (induction rs arbitrary: seen)
  case (Cons r rs)
  then have r: "dr_ID r \<noteq> []" "dr_ID r \<notin> seen" "validateDeltaRecord r limits = None"
    and rest: "validateRecords limits rs (insert (dr_ID r) seen) = None"
    by (auto simp: result_simps)
  from Cons.IH [OF rest] r show ?case by auto
qed simp

lemma validateDelta_None:
  assumes "validateDelta delta limits = None"
  shows "distinct (map dr_ID (bd_Records delta))" "r \<in> set (bd_Records delta) \<Longrightarrow> dr_ID r \<noteq> []"
    "r \<in> set (bd_Records delta) \<Longrightarrow> validateDeltaRecord r limits = None"
    "bd_Summary delta = summarize (bd_Records delta)"
proof -
  have v: "validateRecords limits (bd_Records delta) {} = None"
    and s: "validateSummary (bd_Summary delta) (bd_Records delta) = None"
    using assms by (auto simp: validateDelta_def result_simps)
  show "distinct (map dr_ID (bd_Records delta))" "r \<in> set (bd_Records delta) \<Longrightarrow> dr_ID r \<noteq> []"
    "r \<in> set (bd_Records delta) \<Longrightarrow> validateDeltaRecord r limits = None"
    using validateRecords_None [OF v] by (auto simp: list_all_iff image_iff)
  show "bd_Summary delta = summarize (bd_Records delta)"
    using s by (simp add: validateSummary_def summarize_def result_simps)
qed

text \<open>What a finding identity is made of, apart from the versions and the scenarios.\<close>

definition specTag :: "findingSpec \<Rightarrow> string \<times> string list \<times> string" where
  "specTag sp = (fs_ruleID sp, fs_recordIDs sp, fs_scope sp)"

lemma recordSpecs_tags:
  "map_result specsForRecord rs = Inr sss \<Longrightarrow> distinct (map dr_ID rs) \<Longrightarrow>
     distinct (map specTag (concat sss)) \<and> (\<forall>sp\<in>set (concat sss). fs_recordIDs sp \<in> (\<lambda>r. [dr_ID r]) ` set rs
       \<and> fs_scope sp = ''record'')"
proof (induction rs arbitrary: sss)
  case (Cons r rs)
  then obtain sps sss' where sps: "specsForRecord r = Inr sps"
    and sss': "map_result specsForRecord rs = Inr sss'" and sss: "sss = sps # sss'"
    by (auto simp: result_simps)
  have IH: "distinct (map specTag (concat sss'))"
    "\<forall>sp\<in>set (concat sss'). fs_recordIDs sp \<in> (\<lambda>r. [dr_ID r]) ` set rs \<and> fs_scope sp = ''record''"
    using Cons.IH [OF sss'] Cons.prems(2) by simp_all
  have own: "fs_recordIDs sp = [dr_ID r] \<and> fs_scope sp = ''record''" if "sp \<in> set sps" for sp
    using specs_form [OF sps that] by (simp add: ofRecord_def)
  have "map specTag sps = map (\<lambda>rule. (rule, [dr_ID r], ''record'')) (map fs_ruleID sps)"
    using own by (simp add: specTag_def)
  moreover have "distinct (map (\<lambda>rule. (rule, [dr_ID r], ''record'')) (map fs_ruleID sps))"
    using specs_rules(1) [OF sps] by (simp add: distinct_map inj_on_def)
  moreover have "specTag sp \<noteq> specTag sq" if "sp \<in> set sps" "sq \<in> set (concat sss')" for sp sq
    using own [OF that(1)] bspec [OF IH(2) that(2)] Cons.prems(2) by (auto simp: specTag_def)
  then have "specTag ` set sps \<inter> specTag ` set (concat sss') = {}" by blast
  ultimately have "distinct (map specTag (sps @ concat sss'))"
    using IH(1) unfolding map_append distinct_append set_map by metis
  then show ?case using IH(2) own by (auto simp: sss)
qed simp

lemma deltaSpecs_tags:
  assumes "deltaSpecs delta = Inr specs" and "distinct (map dr_ID (bd_Records delta))"
  shows "distinct (map specTag specs)"
proof -
  obtain sss where sss: "map_result specsForRecord (bd_Records delta) = Inr sss"
    and specs: "specs = globalSpecs delta @ concat sss"
    using assms by (auto simp: deltaSpecs_def result_simps)
  note rt = recordSpecs_tags [OF sss assms(2)]
  have "distinct (map specTag (globalSpecs delta))" by (simp add: globalSpecs_def)
  moreover have "specTag sp \<noteq> specTag sq" if "sp \<in> set (globalSpecs delta)" "sq \<in> set (concat sss)" for sp sq
    using that(1) rt that(2) by (auto simp: globalSpecs_def globalSpec_def specTag_def split: if_splits)
  then have "specTag ` set (globalSpecs delta) \<inter> specTag ` set (concat sss) = {}" by blast
  ultimately show ?thesis
    using rt by (simp only: specs map_append distinct_append set_map simp_thms)
qed

lemma sortedUniqueStrings_one: "s \<noteq> [] \<Longrightarrow> sortedUniqueStrings [s] = [s]"
  by (simp add: sortedUniqueStrings_def)

lemma slice_stable_one [simp]: "slice_stable lt [x] = [x]" "slice_stable lt [] = []"
  by simp_all

lemma findingID_tag:
  assumes "inj sha" and "go_len r1" "go_len r2" "go_len s1" "go_len s2"
    and "go_len ids1" "list_all go_len ids1" "go_len ids2" "list_all go_len ids2"
    and "findingID sha p q r1 v ids1 s1 sc1 = findingID sha p q r2 v ids2 s2 sc2"
    and "go_len p" "go_len q" "go_len v" "slice_stable (<) ids1 = ids1" "slice_stable (<) ids2 = ids2"
  shows "r1 = r2 \<and> ids1 = ids2 \<and> s1 = s2"
  using assms
  by (simp add: findingID_def inj_eq findingBytes_def str.enc_append_iff strs.enc_append_iff)

section \<open>Counting findings\<close>

lemma failed_specs_at_most_one:
  assumes "deltaSpecs delta = Inr specs"
  shows "length (filter (\<lambda>sp. fs_disposition sp = DispositionFailed) specs) \<le> 1"
proof -
  obtain sss where sss: "map_result specsForRecord (bd_Records delta) = Inr sss"
    and specs: "specs = globalSpecs delta @ concat sss"
    using assms by (auto simp: deltaSpecs_def result_simps)
  have "fs_disposition sp \<noteq> DispositionFailed" if sp: "sp \<in> set (concat sss)" for sp
  proof -
    obtain sps where "sps \<in> set sss" "sp \<in> set sps" using sp by auto
    then obtain r where "specsForRecord r = Inr sps" using map_result_Inr_set [OF sss] by blast
    from specs_form [OF this \<open>sp \<in> set sps\<close>] show ?thesis by (simp add: ofRecord_def)
  qed
  then have "filter (\<lambda>sp. fs_disposition sp = DispositionFailed) (concat sss) = []"
    by (simp only: filter_empty_conv not_False_eq_True ball_simps) blast
  then show ?thesis unfolding specs filter_append by (simp add: globalSpecs_def globalSpec_def)
qed

lemma countWhere_Cons: "countWhere P (x # xs) = of_bool (P x) + countWhere P xs"
  by (simp add: countWhere_def)

lemma counts_by_class:
  assumes "\<And>f. f \<in> set fs \<Longrightarrow> fi_Severity f \<in> {SeverityMedium, SeverityHigh}
      \<and> fi_Disposition f \<in> {DispositionRequiresReview, DispositionFailed}"
  shows "int (length fs) = countWhere (\<lambda>f. fi_Severity f = SeverityMedium) fs
      + countWhere (\<lambda>f. fi_Severity f = SeverityHigh) fs
    \<and> int (length fs) = countWhere (\<lambda>f. fi_Disposition f = DispositionRequiresReview) fs
      + countWhere (\<lambda>f. fi_Disposition f = DispositionFailed) fs
    \<and> countWhere (\<lambda>f. fi_Disposition f = DispositionPassed) fs = 0
    \<and> countWhere (\<lambda>f. fi_Disposition f = DispositionWaived) fs = 0"
  using assms
proof (induction fs)
  case (Cons f fs)
  have "fi_Severity f \<in> {SeverityMedium, SeverityHigh} \<and> fi_Disposition f \<in> {DispositionRequiresReview, DispositionFailed}"
    using Cons.prems by simp
  with Cons.IH Cons.prems show ?case by (auto simp: countWhere_Cons)
qed (simp add: countWhere_def)

section \<open>Confidence\<close>

lemma rank_basisConfidence: "confidenceRank (basisConfidence b) \<in> {0, 1, 2}"
  by (simp add: basisConfidence_def confidenceRank_def)

lemma rank_sourceCap: "confidenceRank (sourceCap s t) \<in> {0, 1, 2}"
  by (simp add: sourceCap_def confidenceRank_def)

lemma rank_classify:
  "confidenceRank (classifyPolicyConfidence b s t)
     = min (confidenceRank (basisConfidence b)) (confidenceRank (sourceCap s t))"
  by (simp add: classifyPolicyConfidence_def min_def)

lemma classify_low:
  assumes "s \<in> {ObservationSourceModelInferred, ObservationSourceSyntheticTestGenerated}"
  shows "classifyPolicyConfidence b s True = ConfidenceLow"
proof -
  have "sourceCap s True = ConfidenceLow" using assms by (auto simp: sourceCap_def)
  then show ?thesis by (simp add: classifyPolicyConfidence_def basisConfidence_def confidenceRank_def)
qed

lemma specs_classes:
  assumes "deltaSpecs delta = Inr specs" and "sp \<in> set specs"
  shows "fs_severity sp \<in> {SeverityMedium, SeverityHigh}"
    and "fs_disposition sp \<in> {DispositionRequiresReview, DispositionFailed}"
proof -
  from assms(2) consider (global) "sp \<in> set (globalSpecs delta)"
    | (rec) r sps where "specsForRecord r = Inr sps" "sp \<in> set sps"
    unfolding deltaSpecs_mem [OF assms(1)] by blast
  then have "fs_severity sp \<in> {SeverityMedium, SeverityHigh} \<and> fs_disposition sp \<in> {DispositionRequiresReview, DispositionFailed}"
  proof cases
    case global
    then show ?thesis by (auto simp: globalSpecs_def globalSpec_def split: if_splits)
  next
    case rec
    then show ?thesis using specs_form [OF rec] unfolding ofRecord_def by blast
  qed
  then show "fs_severity sp \<in> {SeverityMedium, SeverityHigh}"
    "fs_disposition sp \<in> {DispositionRequiresReview, DispositionFailed}" by blast+
qed

end
