(* ===== verification/Policy_Props.thy ===== *)
theory Policy_Props
  imports Policy_Facts
begin

text \<open>The properties of the policy evaluation, with a concrete delta that witnesses their hypotheses.\<close>

section \<open>An example delta\<close>

definition zeroDigest :: Digest where
  "zeroDigest = ''sha256:'' @ replicate 64 (CHR ''0'')"

definition plainOccurrence :: "int \<Rightarrow> OccurrenceProfile" where
  "plainOccurrence n = zeroOccurrence\<lparr>op_PlannedRepetitionCount := 1, op_CompleteRepetitionCount := 1,
     op_TotalKnownCount := n, op_MinimumKnownCount := n, op_MaximumKnownCount := n,
     op_Coverage := CoverageAssessmentComplete, op_Repeatability := RepeatabilitySingleSample\<rparr>"

definition netSnapshot :: DeltaFactSnapshot where
  "netSnapshot = \<lparr>snap_ID = ''fact-1'', snap_SemanticDigest = zeroDigest,
     snap_Kind = ''network-connection'', snap_Source = ObservationSourceWorkloadReported,
     snap_Process = None, snap_Filesystem = None,
     snap_Network = Some \<lparr>dnf_Operation = ''connect'', dnf_Protocol = ''tcp'', dnf_QueryName = [],
        dnf_DestinationHost = ''h'', dnf_DestinationPort = 443, dnf_ResolvedAddresses = [],
        dnf_Result = ''ok'', dnf_DurationMillis = 0\<rparr>,
     snap_Artifact = None, snap_Scenario = None, snap_Warning = None, snap_Resource = None,
     snap_Evidence = [], snap_Limitations = []\<rparr>"

text \<open>The head connects to a host that the base never contacts.\<close>

definition netRecord :: DeltaRecord where
  "netRecord = zeroRecord\<lparr>dr_ID := ''delta-1'', dr_Kind := DeltaKindAdded, dr_HeadObserved := True,
     dr_ScenarioIDs := [''s''], dr_FactKind := ''network-connection'',
     dr_Source := ObservationSourceWorkloadReported, dr_Basis := BasisCompleteObservation,
     dr_BaseOccurrence := plainOccurrence 0, dr_HeadOccurrence := plainOccurrence 1,
     dr_HeadFacts := [netSnapshot]\<rparr>"

definition netDelta :: "bool \<Rightarrow> BehavioralDelta" where
  "netDelta complete = \<lparr>bd_SchemaVersion = SchemaVersionBehavioralDeltaV1Alpha1, bd_ID = ''delta'',
     bd_RunID = ''run'', bd_Base = zeroCommit, bd_Head = zeroCommit, bd_PlanDigest = zeroDigest,
     bd_ManifestDigest = zeroDigest, bd_ManifestVerificationMode = [],
     bd_ExecutionComplete = complete, bd_EvidenceComplete = True,
     bd_EvidenceContext = \<lparr>ec_SyntheticEvidence = False, ec_ExecutesTargetCode = True\<rparr>,
     bd_ComparisonProfile = comparisonProfile,
     bd_NormalizationProfileVersion = ''glassroot.dev/normalization-profile/v1alpha1'',
     bd_ScenarioIDs = [''s''], bd_ScenarioComparisons = [], bd_Summary = summarize [netRecord],
     bd_Records = [netRecord], bd_Limitations = []\<rparr>"

lemma net_digest: "validDigest zeroDigest"
  by code_simp

lemmas record_check_defs = validateDeltaRecord_def supportedDeltaKind_def supportedBasis_def
  supportedFactKind_def supportedSource_def validateOccurrence_def supportedCoverage_def
  supportedRepeatability_def validateSnapshot_def snapshotPayloads_def

lemma net_record_valid: "validateDeltaRecord netRecord policy_DefaultLimits = None"
  by (simp add: record_check_defs netRecord_def zeroRecord_def netSnapshot_def net_digest plainOccurrence_def
      zeroOccurrence_def policy_DefaultLimits_def)

lemma net_valid: "validateDelta (netDelta c) policy_DefaultLimits = None"
proof -
  have "dr_ID netRecord \<noteq> []" by (simp add: netRecord_def)
  then show ?thesis
    by (simp add: validateDelta_def netDelta_def net_digest validateSummary_def summarize_def
        net_record_valid comparisonProfile_def policy_DefaultLimits_def [symmetric])
       (simp add: policy_DefaultLimits_def)
qed

lemma net_specs: "specsForRecord netRecord = Inr [recordSpec netRecord ''GR-NET-001'' SeverityHigh ConfidenceMedium]"
proof -
  have "headPositive netRecord" by (simp add: headPositive_def netRecord_def)
  moreover have "isNetworkFact netRecord" by (simp add: isNetworkFact_def netRecord_def)
  moreover from this have "\<not> headWarning netRecord" "\<not> isProcessNew netRecord" "\<not> isFilesystemFact netRecord"
    "\<not> isArtifactFact netRecord" "\<not> isResourceFact netRecord"
    using fact_kinds_disjoint by blast+
  moreover have "determinismSpecs netRecord = []" "dr_Kind netRecord = DeltaKindAdded"
    "dr_Basis netRecord = BasisCompleteObservation" "dr_Source netRecord = ObservationSourceWorkloadReported"
    by (simp_all add: determinismSpecs_def netRecord_def)
  ultimately show ?thesis
    by (simp add: specsForRecord_def outsideSpecs_def addIf_def executableHeadBehavior_def
        classifyPolicyConfidence_def basisConfidence_def sourceCap_def confidenceRank_def)
qed

definition netFinding :: Finding where
  "netFinding = projr (makeFinding (\<lambda>s. s) policy_DefaultLimits
     (recordSpec netRecord ''GR-NET-001'' SeverityHigh ConfidenceMedium))"

lemma net_finding:
  "makeFinding (\<lambda>s. s) policy_DefaultLimits (recordSpec netRecord ''GR-NET-001'' SeverityHigh ConfidenceMedium)
     = Inr netFinding"
  using ruleByID_record [of "''GR-NET-001''"]
  by (simp add: netFinding_def makeFinding_def Let_def recordSpec_def recordRules_def policy_DefaultLimits_def
      netRecord_def zeroRecord_def sortedUniqueStrings_def evidenceForRecord_def policy_dedupeEvidence_def
      dedupe_by_def sortLimitations_def)

definition failFinding :: Finding where
  "failFinding = projr (makeFinding (\<lambda>s. s) policy_DefaultLimits
     (globalSpec SeverityHigh DispositionFailed ''global-incomplete'' (completenessLimitations (netDelta False))))"

lemma fail_finding:
  "makeFinding (\<lambda>s. s) policy_DefaultLimits
     (globalSpec SeverityHigh DispositionFailed ''global-incomplete'' (completenessLimitations (netDelta False)))
     = Inr failFinding"
  using ruleByID_record [of "''GR-OBS-001''"]
  by (simp add: failFinding_def makeFinding_def Let_def globalSpec_def recordRules_def policy_DefaultLimits_def
      sortedUniqueStrings_def policy_dedupeEvidence_def dedupe_by_def sortLimitations_def
      completenessLimitations_def netDelta_def)

lemma net_global:
  "globalSpecs (netDelta True) = []"
  "globalSpecs (netDelta False) =
     [globalSpec SeverityHigh DispositionFailed ''global-incomplete'' (completenessLimitations (netDelta False))]"
  by (simp_all add: globalSpecs_def netDelta_def syntheticContextRequiresReview_def)

lemma net_rules:
  "evaluateRules (\<lambda>s. s) policy_DefaultLimits live (netDelta True) = Inr [netFinding]"
  "evaluateRules (\<lambda>s. s) policy_DefaultLimits live (netDelta False) = Inr [failFinding, netFinding]"
proof -
  have "bd_Records (netDelta c) = [netRecord]" for c by (simp add: netDelta_def)
  moreover have "pl_MaxFindingsPerDeltaRecord policy_DefaultLimits = 8" by (simp add: policy_DefaultLimits_def)
  ultimately show "evaluateRules (\<lambda>s. s) policy_DefaultLimits live (netDelta True) = Inr [netFinding]"
    "evaluateRules (\<lambda>s. s) policy_DefaultLimits live (netDelta False) = Inr [failFinding, netFinding]"
    by (simp_all add: evaluateRules_def net_global net_specs net_finding fail_finding)
qed

definition netDoc :: "bool \<Rightarrow> EvaluationDocument" where
  "netDoc c = projr (evaluateBody (\<lambda>s. s) policy_DefaultLimits live PolicyProfileStrict (netDelta c) zeroDigest)"

lemma net_evaluate:
  "evaluateBody (\<lambda>s. s) policy_DefaultLimits live PolicyProfileStrict (netDelta c) zeroDigest = Inr (netDoc c)"
proof -
  have live: "live \<circ> Suc = live" by (simp add: live_def comp_def)
  have max: "pl_MaxFindings policy_DefaultLimits = 100000" by (simp add: policy_DefaultLimits_def)
  have "fi_Evidence netFinding = []"
    using makeFinding_Inr(7) [OF net_finding]
    by (simp add: recordSpec_def recordRules_def evidenceForRecord_def netRecord_def zeroRecord_def
        policy_dedupeEvidence_def dedupe_by_def)
  moreover have "fi_Evidence failFinding = []"
    using makeFinding_Inr(7) [OF fail_finding]
    by (simp add: globalSpec_def recordRules_def policy_dedupeEvidence_def dedupe_by_def)
  moreover have "fi_ID netFinding \<noteq> fi_ID failFinding"
  proof -
    have "fi_RuleID netFinding = ''GR-NET-001''" "fi_RuleID failFinding = ''GR-OBS-001''"
      using makeFinding_Inr(1) [OF net_finding] makeFinding_Inr(1) [OF fail_finding]
      by (simp_all add: recordSpec_def globalSpec_def recordRules_def)
    then show ?thesis
      using makeFinding_Inr(9) [OF net_finding] makeFinding_Inr(9) [OF fail_finding]
      by (simp add: recordSpec_def globalSpec_def recordRules_def findingID_def findingBytes_def
          str.enc_append_iff go_len_def)
  qed
  ultimately have "checkFindings policy_DefaultLimits (sortFindings fs (netDelta c)) {} 0 = None"
    if "fs = [netFinding] \<or> fs = [failFinding, netFinding]" for fs
    using that by (auto simp: sortFindings_def policy_DefaultLimits_def)
  then show ?thesis
    using net_valid [of c] max
    by (cases c)
       (simp_all add: netDoc_def evaluateBody_def net_rules live policy_validateProfile_def PolicyProfileStrict_def
          Let_def)
qed

section \<open>Properties\<close>

text \<open>
  C1. The overall disposition of an evaluation. It is failed exactly when execution or
  evidence collection did not complete; it is passed exactly when both completed, the
  evidence is real (not synthetic, and the target code ran) and the rules are silent on every
  record; in every other case a review is required. Missing evidence can never pass.
\<close>

theorem overall_disposition:
  assumes "evaluateBody sha limits ctx profile delta dg = Inr doc"
  shows "(ed_OverallDisposition doc = DispositionFailed \<longleftrightarrow>
      \<not> bd_ExecutionComplete delta \<or> \<not> bd_EvidenceComplete delta)
    \<and> (ed_OverallDisposition doc = DispositionPassed \<longleftrightarrow>
      bd_ExecutionComplete delta \<and> bd_EvidenceComplete delta
      \<and> \<not> ec_SyntheticEvidence (bd_EvidenceContext delta) \<and> ec_ExecutesTargetCode (bd_EvidenceContext delta)
      \<and> list_all (\<lambda>r. specsForRecord r = Inr []) (bd_Records delta))
    \<and> ed_OverallDisposition doc \<in> {DispositionFailed, DispositionPassed, DispositionRequiresReview}"
proof -
  obtain specs found where specs: "deltaSpecs delta = Inr specs"
    and found: "map_result (makeFinding sha limits) specs = Inr found"
    and doc: "ed_Findings doc = sortFindings found delta" "ed_Summary doc = summarizeFindings (ed_Findings doc)"
      "ed_OverallDisposition doc = overallDisposition (ed_Summary doc)"
    using assms by (rule evaluateBody_elim)
  have failed: "(\<exists>f\<in>set found. fi_Disposition f = DispositionFailed)
      \<longleftrightarrow> \<not> bd_ExecutionComplete delta \<or> \<not> bd_EvidenceComplete delta"
    unfolding found_disposition [OF specs found] by (rule specs_failed [OF specs])
  have none: "found = [] \<longleftrightarrow> globalSpecs delta = [] \<and> list_all (\<lambda>r. specsForRecord r = Inr []) (bd_Records delta)"
  proof -
    have "found = [] \<longleftrightarrow> specs = []" using map_result_Inr_length [OF found] by auto
    then show ?thesis using specs by (simp add: deltaSpecs_Nil)
  qed
  have total: "es_TotalFindings (ed_Summary doc) > 0 \<longleftrightarrow> found \<noteq> []"
    by (simp add: doc(1,2) summarizeFindings_def)
  have fail_count: "es_Failed (ed_Summary doc) > 0 \<longleftrightarrow> (\<exists>f\<in>set found. fi_Disposition f = DispositionFailed)"
    by (simp add: doc(1,2) summarizeFindings_def countWhere_def filter_empty_conv)
  have global: "globalSpecs delta = [] \<longleftrightarrow> bd_ExecutionComplete delta \<and> bd_EvidenceComplete delta
      \<and> \<not> ec_SyntheticEvidence (bd_EvidenceContext delta) \<and> ec_ExecutesTargetCode (bd_EvidenceContext delta)"
    by (auto simp: globalSpecs_def syntheticContextRequiresReview_def)
  show ?thesis
    using total fail_count failed none global unfolding doc(3) overallDisposition_def by auto
qed

theorem overall_disposition_witness:
  "ed_OverallDisposition (netDoc False) = DispositionFailed
   \<and> ed_OverallDisposition (netDoc True) \<noteq> DispositionFailed
   \<and> ed_OverallDisposition (netDoc True) \<noteq> DispositionPassed"
  using overall_disposition [OF net_evaluate [of False]] overall_disposition [OF net_evaluate [of True]] net_specs
  by (simp add: netDelta_def)

text \<open>
  Findings are exactly what the rules emit. Up to order, the findings of an evaluation are the global
  finding, if any, and the findings of the rules on the records, one for one, with the rule,
  severity, confidence, disposition, record identities and evidence the rules gave; none is marked as waived.
\<close>

lemma findings_match_rules:
  assumes "evaluateBody sha limits ctx profile delta dg = Inr doc"
  shows "\<exists>specs. deltaSpecs delta = Inr specs \<and>
    image_mset (\<lambda>f. (fi_RuleID f, fi_Severity f, fi_Confidence f, fi_Disposition f, fi_DeltaRecordIDs f,
        fi_ScenarioIDs f, fi_Evidence f, fi_Waived f)) (mset (ed_Findings doc))
    = image_mset (\<lambda>sp. (fs_ruleID sp, fs_severity sp, fs_confidence sp, fs_disposition sp,
        sortedUniqueStrings (fs_recordIDs sp), sortedUniqueStrings (fs_scenarioIDs sp),
        policy_dedupeEvidence (fs_evidence sp), False)) (mset specs)"
proof -
  obtain specs found where specs: "deltaSpecs delta = Inr specs"
    and found: "map_result (makeFinding sha limits) specs = Inr found"
    and doc: "ed_Findings doc = sortFindings found delta"
    using assms by (rule evaluateBody_elim)
  have "map (\<lambda>f. (fi_RuleID f, fi_Severity f, fi_Confidence f, fi_Disposition f, fi_DeltaRecordIDs f,
        fi_ScenarioIDs f, fi_Evidence f, fi_Waived f)) found
    = map (\<lambda>sp. (fs_ruleID sp, fs_severity sp, fs_confidence sp, fs_disposition sp,
        sortedUniqueStrings (fs_recordIDs sp), sortedUniqueStrings (fs_scenarioIDs sp),
        policy_dedupeEvidence (fs_evidence sp), False)) specs"
  proof (rule map_result_map [OF found])
    fix sp f
    assume sp: "sp \<in> set specs" and f: "makeFinding sha limits sp = Inr f"
    show "(fi_RuleID f, fi_Severity f, fi_Confidence f, fi_Disposition f, fi_DeltaRecordIDs f,
        fi_ScenarioIDs f, fi_Evidence f, fi_Waived f)
      = (fs_ruleID sp, fs_severity sp, fs_confidence sp, fs_disposition sp,
        sortedUniqueStrings (fs_recordIDs sp), sortedUniqueStrings (fs_scenarioIDs sp),
        policy_dedupeEvidence (fs_evidence sp), False)"
      using makeFinding_Inr [OF f] deltaSpecs_plain [OF specs sp] by (simp add: plainSpec_def)
  qed
  then show ?thesis
    using specs unfolding doc mset_sortFindings mset_map [symmetric] by auto
qed

lemma findings_match_rules_witness:
  "\<exists>specs. deltaSpecs (netDelta True) = Inr specs
     \<and> size (mset (ed_Findings (netDoc True))) = size (mset specs)"
proof -
  obtain specs where "deltaSpecs (netDelta True) = Inr specs"
    and "image_mset (\<lambda>f. (fi_RuleID f, fi_Severity f, fi_Confidence f, fi_Disposition f, fi_DeltaRecordIDs f,
        fi_ScenarioIDs f, fi_Evidence f, fi_Waived f)) (mset (ed_Findings (netDoc True)))
    = image_mset (\<lambda>sp. (fs_ruleID sp, fs_severity sp, fs_confidence sp, fs_disposition sp,
        sortedUniqueStrings (fs_recordIDs sp), sortedUniqueStrings (fs_scenarioIDs sp),
        policy_dedupeEvidence (fs_evidence sp), False)) (mset specs)"
    using findings_match_rules [OF net_evaluate [of True]] by blast
  then show ?thesis by (auto dest: arg_cong [where f = size])
qed

text \<open>
  No two findings share an identity, so that the check for duplicate findings never rejects an
  evaluation: for a delta that passed validation, with record identities short enough for their length
  prefix and a hash without collisions, the findings of all rules have distinct identities.
\<close>

lemma finding_ids_distinct:
  assumes "validateDelta delta limits = None" and "evaluateRules sha limits ctx delta = Inr found"
    and "inj sha" and "list_all (\<lambda>r. go_len (dr_ID r)) (bd_Records delta)"
  shows "distinct (map fi_ID found)"
proof -
  obtain specs where specs: "deltaSpecs delta = Inr specs"
    and found: "map_result (makeFinding sha limits) specs = Inr found"
    using assms(2) by (rule evaluateRules_Inr)
  note v = validateDelta_None [OF assms(1)]
  have versions: "go_len PolicyProfileVersionStrictV1Alpha1" "go_len BuiltinRuleSetVersionStrictV1Alpha1"
    "go_len ruleVersionV1Alpha1" by (simp_all add: go_len_def)
  define g where "g sp = findingID sha PolicyProfileVersionStrictV1Alpha1 BuiltinRuleSetVersionStrictV1Alpha1
    (fs_ruleID sp) ruleVersionV1Alpha1 (fs_recordIDs sp) (fs_scope sp) (sortedUniqueStrings (fs_scenarioIDs sp))" for sp :: findingSpec
  have ids: "sortedUniqueStrings (fs_recordIDs sp) = fs_recordIDs sp \<and> go_len (fs_recordIDs sp)
      \<and> list_all go_len (fs_recordIDs sp) \<and> slice_stable (<) (fs_recordIDs sp) = fs_recordIDs sp
      \<and> go_len (fs_scope sp) \<and> go_len (fs_ruleID sp)" if sp: "sp \<in> set specs" for sp
  proof -
    have rule: "go_len (fs_ruleID sp)"
      using deltaSpecs_plain [OF specs sp] by (auto simp: plainSpec_def recordRules_def go_len_def)
    from sp consider (global) "sp \<in> set (globalSpecs delta)"
      | (rec) r sps where "r \<in> set (bd_Records delta)" "specsForRecord r = Inr sps" "sp \<in> set sps"
      unfolding deltaSpecs_mem [OF specs] by blast
    then show ?thesis
    proof cases
      case global
      then show ?thesis using rule
        by (auto simp: globalSpecs_def globalSpec_def sortedUniqueStrings_def go_len_def split: if_splits)
    next
      case rec
      have "ofRecord r sp" by (rule specs_form [OF rec(2,3)])
      moreover have "go_len (dr_ID r)" using assms(4) rec(1) by (simp add: list_all_iff)
      ultimately show ?thesis
        using v(2) [OF rec(1)] rule by (simp add: ofRecord_def sortedUniqueStrings_one go_len_def)
    qed
  qed
  have "map fi_ID found = map g specs"
  proof (rule map_result_map [OF found])
    fix sp f
    assume sp: "sp \<in> set specs" and f: "makeFinding sha limits sp = Inr f"
    show "fi_ID f = g sp"
      using makeFinding_Inr [OF f] deltaSpecs_plain [OF specs sp] ids [OF sp] by (simp add: plainSpec_def g_def)
  qed
  moreover have "inj_on g (set specs)"
  proof (rule inj_onI)
    fix x y
    assume xy: "x \<in> set specs" "y \<in> set specs" "g x = g y"
    have "fs_ruleID x = fs_ruleID y \<and> fs_recordIDs x = fs_recordIDs y \<and> fs_scope x = fs_scope y"
      using xy(3) ids [OF xy(1)] ids [OF xy(2)] assms(3) unfolding g_def
      by (intro findingID_tag [of sha _ _ _ _ _ _ PolicyProfileVersionStrictV1Alpha1
            BuiltinRuleSetVersionStrictV1Alpha1 ruleVersionV1Alpha1]) (blast intro: versions)+
    then have "specTag x = specTag y" by (simp add: specTag_def)
    then show "x = y"
      using deltaSpecs_tags [OF specs v(1)] xy(1,2) unfolding distinct_map inj_on_def by blast
  qed
  ultimately show ?thesis
    using deltaSpecs_tags [OF specs v(1)] by (simp add: distinct_map)
qed

lemma finding_ids_distinct_witness: "fi_ID failFinding \<noteq> fi_ID netFinding"
  using finding_ids_distinct [OF net_valid [of False] net_rules(2)]
  by (simp add: netDelta_def netRecord_def go_len_def)

text \<open>
  C10. Observed behavior is never passed over. Whenever the head positively shows a new process, network
  activity, an artifact, a resource limit, executable content, or an access outside of the configured
  roots, the evaluation contains a finding of the rule for that behavior that names the record and
  requires a review.
\<close>

theorem observed_behavior_reviewed:
  assumes "evaluateBody sha limits ctx profile delta dg = Inr doc"
    and "r \<in> set (bd_Records delta)" and "headPositive r"
  shows "(isProcessNew r \<longrightarrow> (\<exists>f\<in>set (ed_Findings doc). fi_RuleID f = ''GR-PROC-001'' \<and> fi_DeltaRecordIDs f = [dr_ID r]
        \<and> fi_Disposition f = DispositionRequiresReview))
    \<and> (isNetworkFact r \<longrightarrow> (\<exists>f\<in>set (ed_Findings doc). fi_RuleID f = ''GR-NET-001'' \<and> fi_DeltaRecordIDs f = [dr_ID r]
        \<and> fi_Disposition f = DispositionRequiresReview))
    \<and> (isArtifactFact r \<longrightarrow> (\<exists>f\<in>set (ed_Findings doc). fi_RuleID f = ''GR-ART-001'' \<and> fi_DeltaRecordIDs f = [dr_ID r]
        \<and> fi_Disposition f = DispositionRequiresReview))
    \<and> (isResourceFact r \<longrightarrow> (\<exists>f\<in>set (ed_Findings doc). fi_RuleID f = ''GR-LIMIT-001'' \<and> fi_DeltaRecordIDs f = [dr_ID r]
        \<and> fi_Disposition f = DispositionRequiresReview))
    \<and> (executableHeadBehavior r \<longrightarrow> (\<exists>f\<in>set (ed_Findings doc). fi_RuleID f = ''GR-FS-001'' \<and> fi_DeltaRecordIDs f = [dr_ID r]
        \<and> fi_Disposition f = DispositionRequiresReview))
    \<and> (isFilesystemFact r \<and> list_ex (\<lambda>f. case snap_Filesystem f of None \<Rightarrow> False
          | Some x \<Rightarrow> dp_Namespace (dff_Path x) = ''absolute-unmapped'') (dr_HeadFacts r)
        \<longrightarrow> (\<exists>f\<in>set (ed_Findings doc). fi_RuleID f = ''GR-FS-002'' \<and> fi_DeltaRecordIDs f = [dr_ID r]
          \<and> fi_Disposition f = DispositionRequiresReview))"
proof -
  obtain specs found where v: "validateDelta delta limits = None" and specs: "deltaSpecs delta = Inr specs"
    and found: "map_result (makeFinding sha limits) specs = Inr found"
    and doc: "ed_Findings doc = sortFindings found delta"
    using assms(1) by (rule evaluateBody_elim)
  obtain sps where sps: "specsForRecord r = Inr sps"
    using specs_ok [OF specs assms(2)] by blast
  have hit: "\<exists>f\<in>set (ed_Findings doc). fi_RuleID f = rule \<and> fi_DeltaRecordIDs f = [dr_ID r]
      \<and> fi_Disposition f = DispositionRequiresReview" if rule: "rule \<in> fs_ruleID ` set sps" for rule
  proof -
    obtain sp where sp: "sp \<in> set sps" "fs_ruleID sp = rule" using rule by blast
    then have mem: "sp \<in> set specs" using deltaSpecs_mem [OF specs] assms(2) sps by blast
    obtain f where f: "f \<in> set found" "makeFinding sha limits sp = Inr f" using specs_made [OF found mem] by blast
    have "ofRecord r sp" by (rule specs_form [OF sps sp(1)])
    then show ?thesis
      using makeFinding_Inr [OF f(2)] deltaSpecs_plain [OF specs mem] f(1) sp(2) validateDelta_None(2) [OF v assms(2)]
      by (intro bexI [of _ f]) (simp_all add: plainSpec_def ofRecord_def sortedUniqueStrings_one doc)
  qed
  note rules = specs_positive [OF sps assms(3)]
  show ?thesis using rules hit by blast
qed

theorem observed_behavior_reviewed_witness:
  "\<exists>f\<in>set (ed_Findings (netDoc True)). fi_RuleID f = ''GR-NET-001'' \<and> fi_DeltaRecordIDs f = [''delta-1'']"
proof -
  have "netRecord \<in> set (bd_Records (netDelta True))" "headPositive netRecord" "isNetworkFact netRecord"
    "dr_ID netRecord = ''delta-1''"
    by (simp_all add: netDelta_def headPositive_def isNetworkFact_def netRecord_def)
  with observed_behavior_reviewed [OF net_evaluate [of True] this(1,2)] show ?thesis by auto
qed

text \<open>
  Confidence never exceeds what the evidence carries. The confidence of the finding of a rule other than
  \<open>GR-DET-001\<close> is the weaker of the confidence of the comparison basis and the cap of the observation source; so
  a model-inferred or synthetic observation always yields low confidence, whatever its basis. A finding
  of \<open>GR-DET-001\<close>, which the source cap does not reach, has at most medium confidence.
\<close>

lemma confidence_capped:
  assumes "specsForRecord r = Inr sps" and "sp \<in> set sps"
  shows "(fs_ruleID sp \<noteq> ''GR-DET-001'' \<longrightarrow>
      confidenceRank (fs_confidence sp)
        = min (confidenceRank (basisConfidence (dr_Basis r))) (confidenceRank (sourceCap (dr_Source r) True)))
    \<and> (fs_ruleID sp \<noteq> ''GR-DET-001''
        \<and> dr_Source r \<in> {ObservationSourceModelInferred, ObservationSourceSyntheticTestGenerated}
        \<longrightarrow> fs_confidence sp = ConfidenceLow)
    \<and> confidenceRank (fs_confidence sp) \<ge> 0
    \<and> (fs_ruleID sp = ''GR-DET-001'' \<longrightarrow> confidenceRank (fs_confidence sp) \<le> confidenceRank ConfidenceMedium)"
proof -
  have sp: "fs_ruleID sp \<noteq> ''GR-DET-001'' \<longrightarrow>
      fs_confidence sp = classifyPolicyConfidence (dr_Basis r) (dr_Source r) True"
    "fs_ruleID sp = ''GR-DET-001'' \<longrightarrow> fs_confidence sp \<in> {ConfidenceLow, ConfidenceMedium}"
    using specs_form [OF assms] unfolding ofRecord_def by blast+
  have ranks: "confidenceRank ConfidenceLow = 0" "confidenceRank ConfidenceMedium = 1"
    by (simp_all add: confidenceRank_def)
  show ?thesis
  proof (cases "fs_ruleID sp = ''GR-DET-001''")
    case True
    then show ?thesis using sp(2) ranks by auto
  next
    case False
    then have c: "fs_confidence sp = classifyPolicyConfidence (dr_Basis r) (dr_Source r) True" using sp(1) by blast
    have "0 \<le> confidenceRank (fs_confidence sp)"
      unfolding c rank_classify using rank_basisConfidence [of "dr_Basis r"] rank_sourceCap [of "dr_Source r" True]
      by auto
    then show ?thesis using False rank_classify classify_low unfolding c by blast
  qed
qed

lemma confidence_capped_witness:
  "confidenceRank (classifyPolicyConfidence BasisCompleteObservation ObservationSourceWorkloadReported True) \<le> 1
   \<and> confidenceRank ConfidenceMedium
     = min (confidenceRank (basisConfidence (dr_Basis netRecord))) (confidenceRank (sourceCap (dr_Source netRecord) True))"
proof -
  have "recordSpec netRecord ''GR-NET-001'' SeverityHigh ConfidenceMedium
      \<in> set [recordSpec netRecord ''GR-NET-001'' SeverityHigh ConfidenceMedium]" by simp
  from confidence_capped [OF net_specs this] show ?thesis
    by (simp add: recordSpec_def classifyPolicyConfidence_def basisConfidence_def sourceCap_def confidenceRank_def)
qed

text \<open>
  The number of findings is bounded: a record yields at most two, of different rules, so that
  the limit of eight findings per record is out of reach, and an evaluation has at most one finding more than twice
  the number of its records.
\<close>

lemma findings_bounded:
  assumes "evaluateBody sha limits ctx profile delta dg = Inr doc"
  shows "length (ed_Findings doc) \<le> 2 * length (bd_Records delta) + 1
    \<and> (\<forall>r\<in>set (bd_Records delta). \<exists>sps. specsForRecord r = Inr sps \<and> length sps \<le> 2 \<and> distinct (map fs_ruleID sps))"
proof -
  obtain specs found where specs: "deltaSpecs delta = Inr specs"
    and found: "map_result (makeFinding sha limits) specs = Inr found"
    and doc: "ed_Findings doc = sortFindings found delta"
    using assms by (rule evaluateBody_elim)
  have each: "\<exists>sps. specsForRecord r = Inr sps \<and> length sps \<le> 2 \<and> distinct (map fs_ruleID sps)"
    if "r \<in> set (bd_Records delta)" for r
    using specs_ok [OF specs that] specs_rules by blast
  obtain sss where sss: "map_result specsForRecord (bd_Records delta) = Inr sss"
    and eq: "specs = globalSpecs delta @ concat sss"
    using specs by (auto simp: deltaSpecs_def result_simps)
  have "length (concat sss) \<le> 2 * length rs" if "map_result specsForRecord rs = Inr sss" for rs sss
    using that
  proof (induction rs arbitrary: sss)
    case (Cons r rs)
    then obtain sps sss' where "specsForRecord r = Inr sps" "map_result specsForRecord rs = Inr sss'"
      "sss = sps # sss'" by (auto simp: result_simps)
    with Cons.IH [of sss'] specs_rules(2) [of r sps] show ?case by simp
  qed simp
  from this [OF sss] have "length specs \<le> 2 * length (bd_Records delta) + 1"
    by (simp add: eq globalSpecs_def)
  then show ?thesis
    using each map_result_Inr_length [OF found] by (simp add: doc)
qed

lemma findings_bounded_witness: "length (ed_Findings (netDoc False)) \<le> 3"
  using findings_bounded [OF net_evaluate [of False]] by (simp add: netDelta_def)

text \<open>
  The rules fail on a record in one case only: its head side shows a filesystem behavior whose first fact
  outside of the configured roots has an operation that is neither a known mutation nor a known read. The
  evaluation then stops with \<open>invalid-delta-record\<close> instead of passing the access over.
\<close>

lemma rules_fail_only_on_unknown_operation:
  "(\<exists>e. specsForRecord r = Inl e) \<longleftrightarrow> headPositive r \<and> isFilesystemFact r
     \<and> (\<exists>x. List.find (\<lambda>x. dp_Namespace (dff_Path x) = ''absolute-unmapped'')
               (List.map_filter snap_Filesystem (dr_HeadFacts r)) = Some x
          \<and> dff_Operation x \<notin> set mutatingOps \<union> set readingOps)"
proof -
  have "(\<exists>e. outsideRoot rid fs = Inl e) \<longleftrightarrow>
      (\<exists>x. List.find (\<lambda>x. dp_Namespace (dff_Path x) = ''absolute-unmapped'') (List.map_filter snap_Filesystem fs)
         = Some x \<and> dff_Operation x \<notin> set mutatingOps \<union> set readingOps)" for rid fs
    by (induction fs) (auto simp: map_filter_simps split: option.splits)
  then show ?thesis by (simp add: specs_error outsideRootSeverity_def)
qed

text \<open>
  The findings of an evaluation are in their canonical order (disposition, severity, rule, scenario,
  record, identity), and its summary is exact: total and counts by severity add up,
  as do the counts by disposition, with no finding passed or waived at this stage.
\<close>

lemma findings_sorted_and_counted:
  assumes "evaluateBody sha limits ctx profile delta dg = Inr doc"
  shows "sorted (map (findingKey (scenarioRanks (bd_ScenarioIDs delta))) (ed_Findings doc))
    \<and> es_TotalFindings (ed_Summary doc) = int (length (ed_Findings doc))
    \<and> es_TotalFindings (ed_Summary doc) = es_Medium (ed_Summary doc) + es_High (ed_Summary doc)
    \<and> es_TotalFindings (ed_Summary doc) = es_RequiresReview (ed_Summary doc) + es_Failed (ed_Summary doc)
    \<and> es_Passed (ed_Summary doc) = 0 \<and> es_Waived (ed_Summary doc) = 0
    \<and> es_Failed (ed_Summary doc) \<le> 1"
proof -
  obtain specs found where specs: "deltaSpecs delta = Inr specs"
    and found: "map_result (makeFinding sha limits) specs = Inr found"
    and doc: "ed_Findings doc = sortFindings found delta" "ed_Summary doc = summarizeFindings (ed_Findings doc)"
    using assms by (rule evaluateBody_elim)
  have disp: "map fi_Disposition found = map fs_disposition specs"
    and sev: "map fi_Severity found = map fs_severity specs"
    using makeFinding_Inr(2,4) deltaSpecs_plain [OF specs]
    by (intro map_result_map [OF found]; simp add: plainSpec_def)+
  have mem: "fi_Severity f \<in> {SeverityMedium, SeverityHigh} \<and> fi_Disposition f \<in> {DispositionRequiresReview, DispositionFailed}"
    if "f \<in> set (ed_Findings doc)" for f
  proof -
    have f: "f \<in> set found" using that by (simp add: doc(1))
    have "fi_Severity f \<in> set (map fi_Severity found)" "fi_Disposition f \<in> set (map fi_Disposition found)"
      using f by simp_all
    then show ?thesis unfolding disp sev using specs_classes [OF specs] by force
  qed
  have one: "es_Failed (ed_Summary doc) \<le> 1"
  proof -
    have "length (filter (\<lambda>f. fi_Disposition f = DispositionFailed) (ed_Findings doc))
        = length (filter (\<lambda>f. fi_Disposition f = DispositionFailed) found)"
      by (metis doc(1) mset_filter mset_sortFindings size_mset)
    also have "\<dots> = length (filter (\<lambda>d. d = DispositionFailed) (map fi_Disposition found))"
      by (simp add: filter_map comp_def)
    also have "\<dots> = length (filter (\<lambda>sp. fs_disposition sp = DispositionFailed) specs)"
      unfolding disp by (simp add: filter_map comp_def)
    also have "\<dots> \<le> 1" by (rule failed_specs_at_most_one [OF specs])
    finally show ?thesis by (simp add: doc(2) summarizeFindings_def countWhere_def)
  qed
  have "sorted (map (findingKey (scenarioRanks (bd_ScenarioIDs delta))) (ed_Findings doc))"
    by (simp add: doc(1) sortFindings_def finding_order.slice_stable_sort_key)
  then show ?thesis
    using one counts_by_class [of "ed_Findings doc", OF mem] by (simp add: doc(2) summarizeFindings_def)
qed

lemma findings_sorted_and_counted_witness:
  "es_TotalFindings (ed_Summary (netDoc False))
     = es_RequiresReview (ed_Summary (netDoc False)) + es_Failed (ed_Summary (netDoc False))
   \<and> es_Failed (ed_Summary (netDoc False)) \<le> 1"
  using findings_sorted_and_counted [OF net_evaluate [of False]] by blast

end
