(* ===== verification/Pipeline.thy ===== *)
theory Pipeline
  imports Compare_Valid Policy_Facts
begin

text \<open>
  The comparator and the policy evaluator composed: what \<open>compareDocument\<close> writes is what
  \<open>validateDelta\<close> asks for.
\<close>

section \<open>Well-formed facts, variants and records\<close>

lemma supported_fact_kind: "isSupportedFactKind k \<Longrightarrow> supportedFactKind k"
  by (auto simp: isSupportedFactKind_def SupportedFactKinds_def ObservationKinds_def supportedFactKind_def)

lemma supported_source: "isSupportedSource s \<Longrightarrow> supportedSource s"
  by (auto simp: isSupportedSource_def ObservationSources_def supportedSource_def)

lemma fact_kind_nonempty: "isSupportedFactKind k \<Longrightarrow> k \<noteq> []" "isSupportedSource s \<Longrightarrow> s \<noteq> []"
  by (auto simp: isSupportedFactKind_def SupportedFactKinds_def ObservationKinds_def
      isSupportedSource_def ObservationSources_def)

definition goodFact :: "Fact \<Rightarrow> bool" where
  "goodFact f \<longleftrightarrow> (\<exists>a. knownRevision a \<and> validFact a f)"

lemma snapshot_payloads: "snapshotPayloads (snapshot f) = factPayloadCount f"
  by (auto simp: snapshotPayloads_def snapshot_def factPayloadCount_def)

lemma goodFact_snapshot: "goodFact f \<Longrightarrow> validateSnapshot (snapshot f) r = None"
  using supported_fact_kind supported_source fact_kind_nonempty
  by (auto simp: goodFact_def validFact_def validateSnapshot_def snapshot_payloads)
     (auto simp: snapshot_def)

lemma goodFact_evidence:
  assumes "goodFact f" and "x \<in> set (fa_Evidence f)"
  shows "validateEvidenceRef (evidenceRefOf x) rid = None"
proof -
  obtain a where a: "knownRevision a" "validFact a f" using assms(1) by (auto simp: goodFact_def)
  then have "validRef a x" using assms(2) by (simp add: validFact_def list_all_iff)
  then show ?thesis
    using a(1) by (auto simp: validateEvidenceRef_def evidenceRefOf_def validRef_def knownRevision_def)
qed

lemma evidence_valid:
  assumes "\<forall>f\<in>set facts. goodFact f" and "x \<in> set (evidenceRefs facts)"
  shows "validateEvidenceRef x rid = None"
  using assms dedupe_by_spec(1) goodFact_evidence
  by (fastforce simp: evidenceRefs_def dedupeEvidence_def)

lemma set_snapshots: "set (snapshots facts) = snapshot ` set facts"
  by (simp add: snapshots_def)

lemma profile_valid: "validateOccurrence (buildOccurrenceProfile planned reps) = None"
proof -
  let ?p = "buildOccurrenceProfile planned reps" and ?cs = "completeCounts reps"
  note spec = buildOccurrenceProfile_spec [of planned reps]
  have nonneg: "\<forall>c\<in>set ?cs. 0 \<le> c" using completeCounts_nonneg by blast
  have "length ?cs \<le> length reps" by (simp add: completeCounts_def)
  then have "0 \<le> op_IncompleteRepetitionCount ?p" using spec(2,3) by simp
  moreover have "0 \<le> op_MinimumKnownCount ?p" "0 \<le> op_MaximumKnownCount ?p"
    using nonneg Min_in [of "set ?cs"] Max_in [of "set ?cs"] by (simp_all add: spec(5,6))
  moreover have "0 \<le> op_TotalKnownCount ?p" using nonneg by (simp add: spec(4) sum_list_nonneg)
  moreover have "supportedCoverage (op_Coverage ?p)" by (simp add: spec(8) supportedCoverage_def)
  moreover have "supportedRepeatability (op_Repeatability ?p)" by (simp add: spec(9) supportedRepeatability_def)
  ultimately show ?thesis using spec(1,2) by (simp add: validateOccurrence_def)
qed

lemma emptyOccurrence_valid: "validateOccurrence emptyOccurrence = None"
  by (simp add: validateOccurrence_def emptyOccurrence_def zeroOccurrence_def supportedCoverage_def
      supportedRepeatability_def)

definition goodVariant :: "variant \<Rightarrow> bool" where
  "goodVariant v \<longleftrightarrow> supportedFactKind (va_kind v) \<and> supportedSource (va_source v)
     \<and> (va_anchor v \<noteq> [] \<longrightarrow> validDigest (va_anchor v)) \<and> validateOccurrence (va_profile v) = None
     \<and> (\<forall>f\<in>set (va_facts v). goodFact f)"

text \<open>The checks of \<open>validateDeltaRecord\<close> that do not depend on the limits.\<close>

definition fitRecord :: "DeltaRecord \<Rightarrow> bool" where
  "fitRecord r \<longleftrightarrow> supportedDeltaKind (dr_Kind r) \<and> supportedBasis (dr_Basis r)
     \<and> (dr_FactKind r \<noteq> [] \<longrightarrow> supportedFactKind (dr_FactKind r))
     \<and> (dr_Source r \<noteq> [] \<longrightarrow> supportedSource (dr_Source r))
     \<and> (dr_AnchorDigest r \<noteq> [] \<longrightarrow> validDigest (dr_AnchorDigest r)) \<and> length (dr_ScenarioIDs r) = 1
     \<and> (\<forall>ref\<in>set (dr_BaseEvidence r) \<union> set (dr_HeadEvidence r). \<forall>rid. validateEvidenceRef ref rid = None)
     \<and> validateOccurrence (dr_BaseOccurrence r) = None \<and> validateOccurrence (dr_HeadOccurrence r) = None
     \<and> (\<forall>f\<in>set (dr_BaseFacts r) \<union> set (dr_HeadFacts r). \<forall>s. validateSnapshot f s = None)"

lemma fitRecord_valid:
  assumes "fitRecord r" and "1 \<le> pl_MaxScenarioIDsPerFinding pl"
    and "int (length (dr_Evidence r)) \<le> pl_MaxEvidenceRefsPerFinding pl"
    and "int (length (dr_BaseEvidence r)) \<le> pl_MaxEvidenceRefsPerFinding pl"
    and "int (length (dr_HeadEvidence r)) \<le> pl_MaxEvidenceRefsPerFinding pl"
  shows "validateDeltaRecord r pl = None"
proof -
  have "dr_ScenarioIDs r \<noteq> []" using assms(1) by (auto simp: fitRecord_def)
  then show ?thesis
    using assms unfolding fitRecord_def validateDeltaRecord_def by (auto simp: result_simps)
qed

lemma recordBasis_supported: "supportedBasis (recordBasis b h)" "supportedBasis (basisForAbsence c p)"
  by (simp_all add: supportedBasis_def recordBasis_def basisForAbsence_def Let_def)

lemma fit_basis: "fitRecord r \<Longrightarrow> supportedBasis b \<Longrightarrow> fitRecord (r\<lparr>dr_Basis := b\<rparr>)"
  by (simp add: fitRecord_def)

lemma makeRecord_more:
  fixes sha norm sid kind b h changed lim
  defines "r \<equiv> makeRecord sha norm sid kind b h changed lim"
  shows "dr_Basis r = recordBasis b h"
    "dr_FactKind r = (case h of Some v \<Rightarrow> va_kind v | None \<Rightarrow> (case b of Some v \<Rightarrow> va_kind v | None \<Rightarrow> []))"
    "dr_Source r = (case h of Some v \<Rightarrow> va_source v | None \<Rightarrow> (case b of Some v \<Rightarrow> va_source v | None \<Rightarrow> []))"
    "dr_AnchorDigest r = (case h of Some v \<Rightarrow> va_anchor v | None \<Rightarrow> (case b of Some v \<Rightarrow> va_anchor v | None \<Rightarrow> []))"
    "dr_BaseEvidence r = (case b of None \<Rightarrow> [] | Some v \<Rightarrow> evidenceRefs (va_facts v))"
    "dr_HeadEvidence r = (case h of None \<Rightarrow> [] | Some v \<Rightarrow> evidenceRefs (va_facts v))"
  unfolding r_def
  by (cases b; cases h;
      simp add: makeRecord_def withBase_def withHead_def Let_def zeroRecord_def dedupeEvidence_def
        evidenceRefs_def dedupe_by_def [of _ "[]"])+

lemma fit_makeRecord:
  assumes "\<And>v. b = Some v \<Longrightarrow> goodVariant v" "\<And>v. h = Some v \<Longrightarrow> goodVariant v" and "supportedDeltaKind kind"
  shows "fitRecord (makeRecord sha norm sid kind b h changed lim)"
proof -
  have facts: "validateSnapshot s r = None" if "goodVariant v" "s \<in> set (snapshots (va_facts v))" for v s r
    using that goodFact_snapshot by (auto simp: goodVariant_def set_snapshots)
  have evid: "validateEvidenceRef x rid = None" if "goodVariant v" "x \<in> set (evidenceRefs (va_facts v))" for v x rid
    using that evidence_valid unfolding goodVariant_def by blast
  have good: "supportedFactKind (va_kind v) \<and> supportedSource (va_source v)
      \<and> (va_anchor v \<noteq> [] \<longrightarrow> validDigest (va_anchor v)) \<and> validateOccurrence (va_profile v) = None"
    if "goodVariant v" for v
    using that by (simp add: goodVariant_def)
  show ?thesis
    unfolding fitRecord_def makeRecord_more
    using assms good recordBasis_supported(1) emptyOccurrence_valid
    by (cases b; cases h) (auto intro: facts evid)
qed

section \<open>The records of a comparison\<close>

lemma anchor_valid:
  assumes "\<forall>s. isLowerHex (sha s) 64" and "typedAnchorDigest sha f = Inr a" and "a \<noteq> []"
  shows "validDigest a"
proof -
  have ok: "validDigest (''sha256:'' @ sha s)" for s using assms(1) validDigest_sha by blast
  obtain s where "a = ''sha256:'' @ sha s"
    using assms(2,3) by (auto simp: typedAnchorDigest_def Let_def result_simps split: if_splits option.splits)
  then show ?thesis using ok by (simp only:)
qed

lemma side_good:
  assumes "side sha at vs" and "\<forall>f\<in>set (allFacts at). goodFact f" and "\<forall>s. isLowerHex (sha s) 64"
    and "map_of vs k = Some v"
  shows "goodVariant v"
proof -
  have v: "va_facts v = keyFacts at k" "va_kind v = fa_Kind (hd (va_facts v))"
    "va_source v = fa_Source (hd (va_facts v))" "va_profile v = keyProfile at k"
    "typedAnchorDigest sha (hd (va_facts v)) = Inr (va_anchor v)"
    using assms(1,4) unfolding side_def by blast+
  have good: "\<forall>f\<in>set (va_facts v). goodFact f" using assms(2) by (simp add: v(1) keyFacts_def)
  have "goodFact (hd (va_facts v))" using side_hd(1) [OF assms(1,4)] assms(2) by blast
  then have "supportedFactKind (va_kind v)" "supportedSource (va_source v)"
    unfolding v(2,3) by (auto simp: goodFact_def validFact_def intro: supported_fact_kind supported_source)
  moreover have "validateOccurrence (va_profile v) = None" by (simp add: v(4) keyProfile_def profile_valid)
  ultimately show ?thesis
    using anchor_valid [OF assms(3) v(5)] good by (simp add: goodVariant_def)
qed

lemma goodVariant_marked:
  assumes "map_of vs k = Some v" and "goodVariant v"
  shows "goodVariant (the (map_of (ambiguate amb (consume used vs)) k))"
proof -
  obtain w where "map_of (ambiguate amb (consume used vs)) k = Some w" "va_facts w = va_facts v"
    "va_kind w = va_kind v" "va_source w = va_source v" "va_profile w = va_profile v" "va_anchor w = va_anchor v"
    using assms(1) by (rule marked_lookup)
  then show ?thesis using assms(2) by (simp add: goodVariant_def)
qed

lemma scenario_fit:
  assumes "compareScenario sha norm sg = Inr (records, refs)" and "r \<in> set records"
    and "\<forall>f\<in>set (allFacts (sg_base sg)) \<union> set (allFacts (sg_head sg)). goodFact f"
    and hex: "\<forall>s. isLowerHex (sha s) 64"
  shows "fitRecord r"
proof -
  obtain base head ambB ambH where sb: "side sha (sg_base sg) base" and sh: "side sha (sg_head sg) head"
    and recs: "records = scenarioRecords sha norm sg base head ambB ambH"
    using assms(1) by (rule compareScenario_elim)
  have gb: "goodVariant v" if "map_of base k = Some v" for k v
    using side_good [OF sb _ hex that] assms(3) by simp
  have gh: "goodVariant v" if "map_of head k = Some v" for k v
    using side_good [OF sh _ hex that] assms(3) by simp
  note kinds = supportedDeltaKind_def
  have exact: "fitRecord q" if "q \<in> set (exactRecords sha norm (sg_id sg) base head k)" for q k
    using that gb [of k] gh [of k]
    by (cases "map_of base k"; cases "map_of head k")
       (auto simp: exactRecords_def kinds intro!: fit_makeRecord split: if_splits)
  have modified: "fitRecord q" if "q \<in> set (modifiedRecords sha norm (sg_id sg) (paired base head a))" for q a
    using that
  proof (rule modifiedRecords_elim)
    fix b h
    assume p: "paired base head a = Some (b, h)"
      and q: "q = makeRecord sha norm (sg_id sg) DeltaKindModified (Some b) (Some h)
        (changedFields (hd (va_facts b)) (hd (va_facts h))) []"
    show "fitRecord q" unfolding q
      using gb [OF paired_Some(1) [OF sb sh p]] gh [OF paired_Some(2) [OF sb sh p]]
      by (intro fit_makeRecord) (simp_all add: kinds)
  qed
  have removed: "fitRecord (removedFor sha norm sg (ambiguate amb (consume used base)) k)"
    if k: "k \<in> set (leftover used base)" for amb used k
  proof -
    obtain v where "map_of base k = Some v" using sb k by (rule leftover_side)
    from goodVariant_marked [OF this gb [OF this], where amb = amb and used = used] show ?thesis
      unfolding removedFor_def removedRecord_def
      by (intro fit_basis fit_makeRecord recordBasis_supported) (simp_all add: kinds)
  qed
  have added: "fitRecord (addedFor sha norm sg (ambiguate amb (consume used head)) k)"
    if k: "k \<in> set (leftover used head)" for amb used k
  proof -
    obtain v where "map_of head k = Some v" using sh k by (rule leftover_side)
    from goodVariant_marked [OF this gh [OF this], where amb = amb and used = used] show ?thesis
      unfolding addedFor_def addedRecord_def
      by (intro fit_basis fit_makeRecord recordBasis_supported) (simp_all add: kinds)
  qed
  have order: "fitRecord od" if "orderRecord sha norm sg = Some od" for od
    using that emptyOccurrence_valid
    by (auto simp: orderRecord_def Let_def zeroRecord_def fitRecord_def kinds supportedBasis_def
        supportedFactKind_def split: option.splits if_splits)
  show ?thesis
    using assms(2) exact modified removed added order unfolding recs scenarioRecords_def
    by (auto split: option.splits)
qed

lemma accepted_facts_good:
  assumes "validateTraceDocument doc limits = None" and "f \<in> set (allFacts (ts_Attempts doc))"
  shows "goodFact f"
proof -
  have "scanned limits 0 (ts_Attempts doc) startScan" using validateTraceDocument_None(1) [OF assms(1)] .
  then have "\<forall>a\<in>set (ts_Attempts doc). knownRevision a \<and> list_all (validFact a) (at_Facts a)"
    by (auto simp: scanned_def list_all_iff)
  then show ?thesis using assms(2) by (auto simp: goodFact_def allFacts_def list_all_iff)
qed

lemma document_fit:
  assumes "compareBody sha limits ctx doc = Inr delta" and "r \<in> set (bd_Records delta)"
    and "\<forall>s. isLowerHex (sha s) 64"
  shows "fitRecord r"
proof -
  obtain sg recs refs where sg: "sg \<in> set (groupScenarios (ts_Attempts doc))"
    and cs: "compareScenario sha (np_Version (ts_Profile doc)) sg = Inr (recs, refs)"
    and r: "r \<in> set recs \<or> r \<in> coverageRecord sha (np_Version (ts_Profile doc)) sg ` set (snd (scenarioComparison sg))"
    using assms(1,2) by (rule document_record_group)
  have v: "validateTraceDocument doc limits = None" using assms(1) by (rule compareBody_elim)
  have "fitRecord (coverageRecord sha norm sg l)" for norm l
    using emptyOccurrence_valid
    by (simp add: coverageRecord_def Let_def zeroRecord_def fitRecord_def supportedDeltaKind_def supportedBasis_def)
  moreover have "\<forall>f\<in>set (allFacts (sg_base sg)) \<union> set (allFacts (sg_head sg)). goodFact f"
    using groupScenarios_mem [OF sg] accepted_facts_good [OF v]
    by (auto simp: ofBase_def ofHead_def allFacts_def)
  ultimately show ?thesis using r scenario_fit [OF cs _ _ assms(3)] by blast
qed

lemma compareBody_identity:
  assumes "compareBody sha limits ctx doc = Inr delta"
  shows "bd_SchemaVersion delta = SchemaVersionBehavioralDeltaV1Alpha1"
    "bd_ComparisonProfile delta = comparisonProfile"
    "bd_NormalizationProfileVersion delta = np_Version (ts_Profile doc)"
    "bd_PlanDigest delta = ts_PlanDigest doc" "bd_ManifestDigest delta = ts_ManifestDigest doc"
    "bd_RunID delta = ts_RunID doc"
  using assms by (auto simp: compareBody_def result_simps Let_def split: prod.splits)

end
