(* ===== verification/GoText.thy ===== *)
theory GoText
  imports Prelude
begin

text \<open>
  The text operations of Go's standard library that configuration and waiver files go through:
  decoding of runes, white space, substring tests, decimal parsing, and the bounded rendering
  \<open>sanitizeForDiagnostic\<close> of \<open>internal/config/errors.go\<close> with the bound it really keeps.
\<close>

section \<open>Runes\<close>

abbreviation RuneError :: nat where "RuneError \<equiv> 0xFFFD"

definition byte_val :: "char \<Rightarrow> nat" where
  "byte_val c = of_char c"

text \<open>The length of the well-formed sequence at the head of the string; 0 when there is none.\<close>

definition seq_len :: "string \<Rightarrow> nat" where
  "seq_len s =
     (case s of
        [] \<Rightarrow> 0
      | a # t \<Rightarrow>
         if byte_in 0 0x7F a then 1
         else if byte_in 0xC2 0xDF a then
           (case t of b # _ \<Rightarrow> if cont_byte b then 2 else 0 | _ \<Rightarrow> 0)
         else if byte_in 0xE0 0xEF a then
           (case t of
              b # c # _ \<Rightarrow>
                if byte_in (if byte_in 0xE0 0xE0 a then 0xA0 else 0x80)
                           (if byte_in 0xED 0xED a then 0x9F else 0xBF) b \<and> cont_byte c then 3 else 0
            | _ \<Rightarrow> 0)
         else if byte_in 0xF0 0xF4 a then
           (case t of
              b # c # d # _ \<Rightarrow>
                if byte_in (if byte_in 0xF0 0xF0 a then 0x90 else 0x80)
                           (if byte_in 0xF4 0xF4 a then 0x8F else 0xBF) b \<and> cont_byte c \<and> cont_byte d
                then 4 else 0
            | _ \<Rightarrow> 0)
         else 0)"

text \<open>The code point of a well-formed sequence.\<close>

definition seq_rune :: "string \<Rightarrow> nat" where
  "seq_rune bs =
     (case bs of
        [a] \<Rightarrow> byte_val a
      | [a, b] \<Rightarrow> (byte_val a mod 32) * 64 + byte_val b mod 64
      | [a, b, c] \<Rightarrow> ((byte_val a mod 16) * 64 + byte_val b mod 64) * 64 + byte_val c mod 64
      | [a, b, c, d] \<Rightarrow>
          (((byte_val a mod 8) * 64 + byte_val b mod 64) * 64 + byte_val c mod 64) * 64 + byte_val d mod 64
      | _ \<Rightarrow> RuneError)"

text \<open>\<open>utf8.DecodeRuneInString\<close>: the rune and its width; width 1 and \<open>RuneError\<close> on a bad byte.\<close>

definition decode_rune :: "string \<Rightarrow> nat \<times> nat" where
  "decode_rune s =
     (if s = [] then (RuneError, 0)
      else if seq_len s = 0 then (RuneError, 1)
      else (seq_rune (take (seq_len s) s), seq_len s))"

lemma seq_len_le: "seq_len s \<le> length s"
  by (auto simp: seq_len_def split: list.splits)

lemma decode_rune_width:
  assumes "decode_rune s = (r, n)" and "s \<noteq> []"
  shows "0 < n" and "n \<le> length s" and "n \<le> 4"
proof -
  have "seq_len s \<le> 4" by (simp add: seq_len_def split: list.splits)
  then show "0 < n" "n \<le> length s" "n \<le> 4"
    using assms seq_len_le [of s] by (auto simp: decode_rune_def Suc_le_eq split: if_splits)
qed

text \<open>\<open>unicode.IsSpace\<close>.\<close>

definition is_space_rune :: "nat \<Rightarrow> bool" where
  "is_space_rune r \<longleftrightarrow>
     r \<in> {0x09, 0x0A, 0x0B, 0x0C, 0x0D, 0x20, 0x85, 0xA0, 0x1680, 0x2028, 0x2029, 0x202F, 0x205F, 0x3000}
     \<or> 0x2000 \<le> r \<and> r \<le> 0x200A"

text \<open>
  The left half of \<open>strings.TrimSpace\<close> and \<open>bytes.TrimSpace\<close>. The source only asks whether the
  trimmed text is empty or starts with a non-space prefix, which trimming on the right does not change.
\<close>

function trim_left_space :: "string \<Rightarrow> string" where
  "trim_left_space s =
     (if s = [] then []
      else let (r, n) = decode_rune s in if is_space_rune r then trim_left_space (drop n s) else s)"
  by pat_completeness auto

termination
proof (relation "measure length")
  fix s x r n
  assume *: "s \<noteq> []" "x = decode_rune s" "(r, n) = x" "is_space_rune r"
  then show "(drop n s, s) \<in> measure length"
    using decode_rune_width [of s r n] by (simp add: Suc_le_eq)
qed simp

section \<open>Substrings\<close>

definition has_suffix :: "string \<Rightarrow> string \<Rightarrow> bool" where
  "has_suffix s p \<longleftrightarrow> length p \<le> length s \<and> drop (length s - length p) s = p"

definition trim_suffix :: "string \<Rightarrow> string \<Rightarrow> string" where
  "trim_suffix s p = (if has_suffix s p then take (length s - length p) s else s)"

text \<open>\<open>strings.Contains\<close>.\<close>

fun contains_str :: "string \<Rightarrow> string \<Rightarrow> bool" where
  "contains_str [] p \<longleftrightarrow> p = []"
| "contains_str (c # cs) p \<longleftrightarrow> has_prefix (c # cs) p \<or> contains_str cs p"

text \<open>The text after the last occurrence of \<open>p\<close>: \<open>s[strings.LastIndex(s, p)+len(p):]\<close>.\<close>

fun after_last :: "string \<Rightarrow> string \<Rightarrow> string option" where
  "after_last [] p = (if p = [] then Some [] else None)"
| "after_last (c # cs) p =
     (case after_last cs p of
        Some t \<Rightarrow> Some t
      | None \<Rightarrow> if has_prefix (c # cs) p then Some (drop (length p) (c # cs)) else None)"

text \<open>
  \<open>strings.ToLower\<close>, as far as a test for an ASCII substring sees it: ASCII letters are lowered, and
  of the other runes only U+0130 and U+212A are lowered to ASCII.
\<close>

definition lower_char :: "char \<Rightarrow> char" where
  "lower_char c = (if byte_in 65 90 c then char_of (byte_val c + 32) else c)"

fun to_lower :: "string \<Rightarrow> string" where
  "to_lower (a # b # c # s) =
     (if [a, b] = [CHR 0xC4, CHR 0xB0] then CHR ''i'' # to_lower (c # s)
      else if [a, b, c] = [CHR 0xE2, CHR 0x84, CHR 0xAA] then CHR ''k'' # to_lower s
      else lower_char a # to_lower (b # c # s))"
| "to_lower [a, b] =
     (if [a, b] = [CHR 0xC4, CHR 0xB0] then ''i'' else [lower_char a, lower_char b])"
| "to_lower [a] = [lower_char a]"
| "to_lower [] = []"

lemma has_suffix_append [simp]: "has_suffix (x @ p) p"
  by (simp add: has_suffix_def)

lemma has_suffixE:
  assumes "has_suffix s p"
  obtains x where "s = x @ p" and "trim_suffix s p = x"
proof
  have "drop (length s - length p) s = p" using assms by (simp add: has_suffix_def)
  then show "s = take (length s - length p) s @ p" by (metis append_take_drop_id)
  show "trim_suffix s p = take (length s - length p) s" using assms by (simp add: trim_suffix_def)
qed

lemma trim_suffix_append [simp]: "trim_suffix (x @ p) p = x"
  by (simp add: trim_suffix_def)

lemma after_last_split: "after_last s p = Some t \<Longrightarrow> \<exists>x. s = x @ p @ t"
proof (induction s)
  case Nil
  then show ?case by (simp split: if_splits)
next
  case (Cons c cs)
  show ?case
  proof (cases "after_last cs p")
    case None
    with Cons.prems have pre: "take (length p) (c # cs) = p" and t: "t = drop (length p) (c # cs)"
      by (auto simp: has_prefix_def split: if_splits)
    have "c # cs = [] @ p @ t" by (metis append_Nil append_take_drop_id pre t)
    then show ?thesis by blast
  next
    case (Some u)
    with Cons obtain x where "cs = x @ p @ t" by auto
    then have "c # cs = (c # x) @ p @ t" by simp
    then show ?thesis by blast
  qed
qed

section \<open>Numbers\<close>

text \<open>\<open>fmt.Sprintf("%d", v)\<close>.\<close>

definition sprint_int :: "int \<Rightarrow> string" where
  "sprint_int v = (if v < 0 then CHR ''-'' # itoa (nat (- v)) else itoa (nat v))"

text \<open>\<open>strconv.ParseUint(s, 10, 63)\<close>: digits only, at least one, and the value below \<open>2^63\<close>.\<close>

definition parse_uint63 :: "string \<Rightarrow> nat option" where
  "parse_uint63 s =
     (if s \<noteq> [] \<and> list_all digit_char s \<and> atoi_acc 0 s < 2 ^ 63 then Some (atoi_acc 0 s) else None)"

text \<open>\<open>strconv.ParseInt(s, 10, 64)\<close>: an optional sign, then digits.\<close>

definition parse_int64 :: "string \<Rightarrow> int option" where
  "parse_int64 s =
     (let neg = has_prefix s ''-''; d = (if neg \<or> has_prefix s ''+'' then tl s else s);
          v = (if neg then - int (atoi_acc 0 d) else int (atoi_acc 0 d))
      in if d \<noteq> [] \<and> list_all digit_char d \<and> - (2 ^ 63) \<le> v \<and> v < 2 ^ 63 then Some v else None)"

definition hex_char :: "nat \<Rightarrow> char" where
  "hex_char d = ''0123456789abcdef'' ! (d mod 16)"

text \<open>\<open>%02x\<close> and \<open>%04x\<close> of a byte.\<close>

definition hex2 :: "nat \<Rightarrow> string" where
  "hex2 v = [hex_char (v div 16), hex_char v]"

definition hex4 :: "nat \<Rightarrow> string" where
  "hex4 v = [hex_char (v div 4096), hex_char (v div 256), hex_char (v div 16), hex_char v]"

section \<open>Bounded rendering\<close>

definition ellipsis :: string where
  "ellipsis = [CHR 0xE2, CHR 0x80, CHR 0xA6]"

text \<open>
  The loop of \<open>sanitizeForDiagnostic\<close>: what is left of the input and the text written so far. A rune
  that no longer fits has already been taken off the input when the loop stops.
\<close>

function sanitize_loop :: "nat \<Rightarrow> string \<Rightarrow> string \<Rightarrow> string \<times> string" where
  "sanitize_loop mx s b =
     (if s = [] \<or> mx \<le> length b then (s, b)
      else let (r, n) = decode_rune s in
        if r = RuneError \<and> n = 1 then
          if mx < length b + 6 then (s, b)
          else sanitize_loop mx (tl s) (b @ CHR 0x5C # ''x'' @ hex2 (byte_val (hd s)))
        else if r < 0x20 \<or> r = 0x7F then
          if mx < length b + 6 then (drop n s, b)
          else sanitize_loop mx (drop n s) (b @ CHR 0x5C # ''u'' @ hex4 r)
        else if mx < length b + n then (drop n s, b)
        else sanitize_loop mx (drop n s) (b @ take n s))"
  by pat_completeness auto

termination
proof (relation "measure (\<lambda>(mx, s, b). length s)")
  fix mx :: nat and s b :: string and x r n
  assume *: "\<not> (s = [] \<or> mx \<le> length b)" "x = decode_rune s" "(r, n) = x"
  then have n: "0 < n" "s \<noteq> []" using decode_rune_width [of s r n] by auto
  show "((mx, tl s, b @ CHR 0x5C # ''x'' @ hex2 (byte_val (hd s))), mx, s, b)
          \<in> measure (\<lambda>(mx, s, b). length s)" using n by simp
  show "((mx, drop n s, b @ CHR 0x5C # ''u'' @ hex4 r), mx, s, b)
          \<in> measure (\<lambda>(mx, s, b). length s)" using n by simp
  show "((mx, drop n s, b @ take n s), mx, s, b)
          \<in> measure (\<lambda>(mx, s, b). length s)" using n by simp
qed simp

declare sanitize_loop.simps [simp del] trim_left_space.simps [simp del]

text \<open>
  Go's \<open>sanitizeForDiagnostic(s, maxBytes)\<close>. The ellipsis takes three bytes where the source reserves
  one.
\<close>

definition sanitizeForDiagnostic :: "string \<Rightarrow> nat \<Rightarrow> string" where
  "sanitizeForDiagnostic s maxBytes =
     (let mx = (if maxBytes = 0 then 512 else maxBytes); (rest, b) = sanitize_loop mx s []
      in if rest \<noteq> [] \<and> length b + 1 \<le> mx then b @ ellipsis else b)"

subsection \<open>What the rendering guarantees\<close>

lemma hex_char_printable: "\<not> control_char (hex_char d)"
proof -
  have "list_all (\<lambda>c. \<not> control_char c) ''0123456789abcdef''" by (simp add: control_char_def)
  moreover have "hex_char d \<in> set ''0123456789abcdef''"
    unfolding hex_char_def by (rule nth_mem) simp
  ultimately show ?thesis unfolding list_all_iff by blast
qed

definition high_byte :: "char \<Rightarrow> bool" where
  "high_byte c \<longleftrightarrow> (0x80 :: nat) \<le> of_char c"

lemma high_byteI: "cont_byte c \<Longrightarrow> high_byte c" "byte_in lo hi c \<Longrightarrow> 0x80 \<le> lo \<Longrightarrow> high_byte c"
  by (simp_all add: high_byte_def cont_byte_def byte_in_def)

lemma high_byte_printable: "high_byte c \<Longrightarrow> \<not> control_char c"
  by (simp add: high_byte_def control_char_def)

lemma seq_high_bytes:
  assumes "seq_len s \<noteq> 1"
  shows "list_all high_byte (take (seq_len s) s)"
proof (cases s)
  case (Cons a t)
  have a: "byte_in lo hi a \<Longrightarrow> 0x80 \<le> lo \<Longrightarrow> high_byte a" for lo hi by (rule high_byteI)
  consider "byte_in 0 0x7F a" | "\<not> byte_in 0 0x7F a" "byte_in 0xC2 0xDF a"
    | "\<not> byte_in 0 0x7F a" "\<not> byte_in 0xC2 0xDF a" "byte_in 0xE0 0xEF a"
    | "\<not> byte_in 0 0x7F a" "\<not> byte_in 0xC2 0xDF a" "\<not> byte_in 0xE0 0xEF a" "byte_in 0xF0 0xF4 a"
    | "\<not> byte_in 0 0x7F a" "\<not> byte_in 0xC2 0xDF a" "\<not> byte_in 0xE0 0xEF a" "\<not> byte_in 0xF0 0xF4 a"
    by blast
  then show ?thesis
  proof cases
    case 1
    with assms Cons show ?thesis by (simp add: seq_len_def)
  next
    case 2
    with Cons show ?thesis by (auto simp: seq_len_def intro: high_byteI split: list.split)
  next
    case 3
    with Cons show ?thesis
      by (auto simp: seq_len_def intro: high_byteI split: list.split if_splits)
  next
    case 4
    with Cons show ?thesis
      by (auto simp: seq_len_def intro: high_byteI split: list.split if_splits)
  next
    case 5
    with Cons show ?thesis by (simp add: seq_len_def)
  qed
qed simp

text \<open>A rune that is neither a control character nor malformed is written with printable bytes.\<close>

lemma decode_rune_bytes:
  assumes "decode_rune s = (r, n)" and "s \<noteq> []" and "\<not> (r = RuneError \<and> n = 1)"
    and "\<not> r < 0x20" and "r \<noteq> 0x7F"
  shows "\<not> hasControl (take n s)"
proof -
  have n: "seq_len s \<noteq> 0" "n = seq_len s" "r = seq_rune (take n s)"
    using assms by (auto simp: decode_rune_def split: if_splits)
  show ?thesis
  proof (cases "n = 1")
    case True
    obtain a t where s: "s = a # t" using assms(2) by (cases s) auto
    have "r = byte_val a" using n(3) True s by (simp add: seq_rune_def)
    with assms(4,5) True s show ?thesis by (simp add: hasControl_def control_char_def byte_val_def)
  next
    case False
    with n(2) have "list_all high_byte (take n s)" using seq_high_bytes [of s] by simp
    then show ?thesis using high_byte_printable by (auto simp: hasControl_def list_all_iff list_ex_iff)
  qed
qed

lemma sanitize_loop_printable:
  "sanitize_loop mx s b = (rest, out) \<Longrightarrow> \<not> hasControl b \<Longrightarrow> \<not> hasControl out"
proof (induction mx s b rule: sanitize_loop.induct)
  case (1 mx s b)
  obtain r n where rn: "decode_rune s = (r, n)" by fastforce
  show ?case
  proof (cases "s = [] \<or> mx \<le> length b")
    case True
    with "1.prems" show ?thesis by (simp add: sanitize_loop.simps)
  next
    case False
    have hex: "\<not> hasControl (b @ CHR 0x5C # ''x'' @ hex2 v)" "\<not> hasControl (b @ CHR 0x5C # ''u'' @ hex4 v)" for v
      using "1.prems"(2) hex_char_printable by (simp_all add: hasControl_def hex2_def hex4_def control_char_def)
    have bytes: "\<not> hasControl (b @ take n s)"
      if "\<not> (r = RuneError \<and> n = 1)" "\<not> (r < 0x20 \<or> r = 0x7F)"
      using that False decode_rune_bytes [OF rn] "1.prems"(2) by (auto simp: hasControl_def)
    show ?thesis
      using "1.prems" False rn "1.IH" [OF False rn [symmetric] refl] hex bytes
      by (subst (asm) (1) sanitize_loop.simps) (simp split: if_splits)
  qed
qed

lemma sanitize_loop_length:
  "sanitize_loop mx s b = (rest, out) \<Longrightarrow> length b \<le> mx \<Longrightarrow> length out \<le> mx"
proof (induction mx s b rule: sanitize_loop.induct)
  case (1 mx s b)
  obtain r n where rn: "decode_rune s = (r, n)" by fastforce
  show ?case
  proof (cases "s = [] \<or> mx \<le> length b")
    case True
    with "1.prems" show ?thesis by (simp add: sanitize_loop.simps)
  next
    case False
    show ?thesis
      using "1.prems" False rn "1.IH" [OF False rn [symmetric] refl]
      by (subst (asm) (1) sanitize_loop.simps) (simp add: hex2_def hex4_def split: if_splits)
  qed
qed

lemma sanitize_length:
  assumes "0 < mx"
  shows "length (sanitizeForDiagnostic s mx) \<le> mx + 2"
proof -
  obtain rest b where rb: "sanitize_loop mx s [] = (rest, b)" by fastforce
  then have "length b \<le> mx" by (rule sanitize_loop_length) simp
  then show ?thesis using assms rb by (simp add: sanitizeForDiagnostic_def ellipsis_def)
qed

lemma sanitize_printable: "\<not> hasControl (sanitizeForDiagnostic s mx)"
proof -
  define m where "m = (if mx = 0 then 512 else mx)"
  obtain rest b where rb: "sanitize_loop m s [] = (rest, b)" by fastforce
  then have "\<not> hasControl b" by (rule sanitize_loop_printable) (simp add: hasControl_def)
  then show ?thesis
    using rb by (simp add: sanitizeForDiagnostic_def m_def [symmetric] hasControl_def ellipsis_def control_char_def)
qed

end
