(* ===== verification/Yaml.thy ===== *)
theory Yaml
  imports GoText
begin

text \<open>
  The document tree that \<open>go.yaml.in/yaml/v4\<close> hands to the parsers of \<open>internal/config\<close> and
  \<open>internal/waiver\<close>. The library itself is not modelled: \<open>yaml.Load\<close> is an argument of the parsers, a
  function of the depth limit of the plugin and of the bytes, and its result is any error or any list
  of trees.
\<close>

datatype yaml_kind = DocumentNode | SequenceNode | MappingNode | ScalarNode | AliasNode | OtherNode

text \<open>A \<open>yaml.Node\<close>; of the style only \<open>Style & TaggedStyle\<close> is read. Positions are line and column.\<close>

datatype yaml_node =
  YamlNode (n_Kind: yaml_kind) (n_Tagged: bool) (n_Tag: string) (n_Value: string) (n_Anchor: string)
    (n_Content: "yaml_node list") (n_Line: int) (n_Column: int)

text \<open>An error of \<open>yaml.Load\<close>: its text, and whether it wraps the plugin's depth or alias error.\<close>

record yaml_error =
  ye_Message :: string
  ye_Depth :: bool
  ye_Alias :: bool

type_synonym yaml_load = "nat \<Rightarrow> string \<Rightarrow> yaml_error + yaml_node list"

definition isNullNode :: "yaml_node \<Rightarrow> bool" where
  "isNullNode n \<longleftrightarrow> n_Kind n = ScalarNode \<and> n_Tag n = ''!!null''"

definition isStringKey :: "yaml_node \<Rightarrow> bool" where
  "isStringKey k \<longleftrightarrow> n_Kind k = ScalarNode \<and> n_Tag k = ''!!str''"

text \<open>The loop \<open>for i := 0; i+1 < len(n.Content); i += 2\<close> over keys and values.\<close>

fun node_pairs :: "yaml_node list \<Rightarrow> (yaml_node \<times> yaml_node) list" where
  "node_pairs (k # v # rest) = (k, v) # node_pairs rest"
| "node_pairs _ = []"

text \<open>
  What both inspections establish: no aliases, anchors, explicit or custom tags on any node but the keys of mappings, and no
  merge key and no two equal keys in a mapping. Of a key node they only test that it is a scalar with the tag of strings, so an
  anchor or an explicit string tag on a key passes.
\<close>

fun plain_tree :: "(string \<Rightarrow> bool) \<Rightarrow> yaml_node \<Rightarrow> bool"
  and plain_pairs :: "(string \<Rightarrow> bool) \<Rightarrow> yaml_node list \<Rightarrow> bool"
  and plain_items :: "(string \<Rightarrow> bool) \<Rightarrow> yaml_node list \<Rightarrow> bool" where
  "plain_tree custom (YamlNode kind tagged tag val anchor content line col) \<longleftrightarrow>
     kind \<noteq> AliasNode \<and> anchor = [] \<and> \<not> tagged \<and> \<not> custom tag
     \<and> (kind = MappingNode \<longrightarrow>
          distinct (map (n_Value \<circ> fst) (node_pairs content))
          \<and> ''<<'' \<notin> set (map (n_Value \<circ> fst) (node_pairs content)) \<and> plain_pairs custom content)
     \<and> (kind = SequenceNode \<longrightarrow> plain_items custom content)"
| "plain_pairs custom (k # v # rest) \<longleftrightarrow> isStringKey k \<and> plain_tree custom v \<and> plain_pairs custom rest"
| "plain_pairs custom [] \<longleftrightarrow> True"
| "plain_pairs custom [k] \<longleftrightarrow> True"
| "plain_items custom (c # rest) \<longleftrightarrow> plain_tree custom c \<and> plain_items custom rest"
| "plain_items custom [] \<longleftrightarrow> True"

text \<open>The nodes an inspection visits, which are all but the keys of mappings, and the depth of the deepest one.\<close>

fun node_count :: "yaml_node \<Rightarrow> nat"
  and pairs_count :: "yaml_node list \<Rightarrow> nat"
  and items_count :: "yaml_node list \<Rightarrow> nat" where
  "node_count (YamlNode kind tagged tag val anchor content line col) =
     Suc (if kind = MappingNode then pairs_count content
          else if kind = SequenceNode then items_count content else 0)"
| "pairs_count (k # v # rest) = node_count v + pairs_count rest"
| "pairs_count [] = 0"
| "pairs_count [k] = 0"
| "items_count (c # rest) = node_count c + items_count rest"
| "items_count [] = 0"

fun node_depth :: "yaml_node \<Rightarrow> nat"
  and pairs_depth :: "yaml_node list \<Rightarrow> nat"
  and items_depth :: "yaml_node list \<Rightarrow> nat" where
  "node_depth (YamlNode kind tagged tag val anchor content line col) =
     Suc (if kind = MappingNode then pairs_depth content
          else if kind = SequenceNode then items_depth content else 0)"
| "pairs_depth (k # v # rest) = max (node_depth v) (pairs_depth rest)"
| "pairs_depth [] = 0"
| "pairs_depth [k] = 0"
| "items_depth (c # rest) = max (node_depth c) (items_depth rest)"
| "items_depth [] = 0"

lemma plain_pairs_keys: "plain_pairs custom content \<Longrightarrow> (k, v) \<in> set (node_pairs content) \<Longrightarrow> isStringKey k"
  by (induction content rule: node_pairs.induct) auto

end
