(* ===== verification/Config.thy ===== *)
theory Config
  imports Yaml Model
begin

text \<open>
  \<open>internal/config\<close> up to the validated pipeline: the strict YAML parser (\<open>parser.go\<close>), units and
  paths (\<open>units.go\<close>, \<open>path.go\<close>), diagnostics (\<open>errors.go\<close>) and semantic validation (\<open>validate.go\<close>).

  An error of this package is a non-empty list of diagnostics, so a fallible step returns
  \<open>Diagnostic list + 'a\<close>. A field that a document does not have is the zero value of its type. Errors
  whose only use is a nil test (\<open>errInvalidPath\<close>, \<open>errInvalidUnit\<close>) are a \<open>bool\<close> or \<open>option\<close>.
\<close>

section \<open>Diagnostics\<close>

record Diagnostic =
  dg_Code :: string
  dg_Path :: string
  dg_Line :: int
  dg_Column :: int
  dg_Message :: string

type_synonym 'a diag_result = "Diagnostic list + 'a"

abbreviation MaxDiagnostics :: nat where "MaxDiagnostics \<equiv> 100"

definition capDiagnostics :: "Diagnostic list \<Rightarrow> Diagnostic list" where
  "capDiagnostics diags = (if length diags \<le> MaxDiagnostics then diags else take MaxDiagnostics diags)"

definition newDiagnostic :: "string \<Rightarrow> string \<Rightarrow> int \<Rightarrow> int \<Rightarrow> string \<Rightarrow> Diagnostic" where
  "newDiagnostic code path line column msg =
     \<lparr>dg_Code = code, dg_Path = path, dg_Line = line, dg_Column = column,
      dg_Message = sanitizeForDiagnostic msg 512\<rparr>"

section \<open>Units\<close>

abbreviation MaxInt64 :: int where "MaxInt64 \<equiv> 2 ^ 63 - 1"

definition parsePositiveUnitNumber :: "string \<Rightarrow> int \<Rightarrow> int option" where
  "parsePositiveUnitNumber num multiplier =
     (if num = [] \<or> \<not> list_all digit_char num then None
      else case parse_uint63 num of
        None \<Rightarrow> None
      | Some v \<Rightarrow> if v = 0 \<or> int v > MaxInt64 div multiplier then None
                    else Some (signed64 (int v * multiplier)))"

text \<open>The loop over a table of suffixes: the first suffix that fits decides.\<close>

fun parse_units :: "(string \<times> int) list \<Rightarrow> string \<Rightarrow> int option" where
  "parse_units [] s = None"
| "parse_units ((suffix, factor) # us) s =
     (if has_suffix s suffix then parsePositiveUnitNumber (trim_suffix s suffix) factor
      else parse_units us s)"

definition sizeUnits :: "(string \<times> int) list" where
  "sizeUnits = [(''TiB'', 1024 * 1024 * 1024 * 1024), (''GiB'', 1024 * 1024 * 1024), (''MiB'', 1024 * 1024),
     (''KiB'', 1024), (''B'', 1)]"

definition durationUnits :: "(string \<times> int) list" where
  "durationUnits = [(''ms'', 1), (''s'', 1000), (''m'', 60 * 1000), (''h'', 60 * 60 * 1000)]"

definition ParseSizeBytes :: "string \<Rightarrow> int option" where
  "ParseSizeBytes s = parse_units sizeUnits s"

definition ParseDurationMillis :: "string \<Rightarrow> int option" where
  "ParseDurationMillis s = parse_units durationUnits s"

section \<open>Paths\<close>

abbreviation MaxPathBytes :: nat where "MaxPathBytes \<equiv> 4096"

definition validatePathString :: "string \<Rightarrow> bool" where
  "validatePathString p \<longleftrightarrow> p \<noteq> [] \<and> length p \<le> MaxPathBytes \<and> validString p \<and> \<not> hasControl p"

definition validateAbsoluteLexicalPath :: "string \<Rightarrow> bool" where
  "validateAbsoluteLexicalPath p \<longleftrightarrow>
     validatePathString p \<and> has_prefix p ''/'' \<and> CHR 0x5C \<notin> set p \<and> path_clean p = p
     \<and> (\<forall>segment \<in> set (split_on (CHR ''/'') p). segment \<noteq> ''.'' \<and> segment \<noteq> ''..'')"

text \<open>
  \<open>path.Match(p, "/")\<close> fails exactly when a chunk of the pattern is malformed: \<open>Match\<close> parses every
  chunk up to its end, also after a mismatch. A chunk ends at a star outside of a character class.
  The pattern has no backslash when it gets here.
\<close>

definition get_esc :: "string \<Rightarrow> string option" where
  "get_esc s =
     (if s = [] \<or> has_prefix s ''-'' \<or> has_prefix s '']'' then None
      else let (r, n) = decode_rune s in
        if r = RuneError \<and> n = 1 then None else if drop n s = [] then None else Some (drop n s))"

lemma get_esc_shorter: "get_esc s = Some t \<Longrightarrow> length t < length s"
  using decode_rune_width by (force simp: get_esc_def Suc_le_eq split: if_splits prod.splits)

function chunk_ok :: "string \<Rightarrow> bool" and ranges_ok :: "bool \<Rightarrow> string \<Rightarrow> bool" where
  "chunk_ok s =
     (case s of
        [] \<Rightarrow> True
      | c # cs \<Rightarrow>
         if c = CHR ''['' then ranges_ok False (if has_prefix cs ''^'' then tl cs else cs)
         else chunk_ok cs)"
| "ranges_ok nonempty s =
     (if nonempty \<and> has_prefix s '']'' then chunk_ok (tl s)
      else case get_esc s of
        None \<Rightarrow> False
      | Some t \<Rightarrow>
         if has_prefix t ''-'' then
           (case get_esc (tl t) of None \<Rightarrow> False | Some u \<Rightarrow> ranges_ok True u)
         else ranges_ok True t)"
  by pat_completeness auto

termination
proof (relation "measure (\<lambda>x. case x of Inl s \<Rightarrow> Suc (2 * length s) | Inr (b, s) \<Rightarrow> Suc (Suc (2 * length s)))",
    goal_cases)
  case (4 nonempty s)
  then show ?case by (cases s) (auto simp: has_prefix_def)
next
  case (5 nonempty s t u)
  then show ?case using get_esc_shorter [of s t] get_esc_shorter [of "tl t" u] by simp
next
  case (6 nonempty s t)
  then show ?case using get_esc_shorter [of s t] by simp
qed auto

declare chunk_ok.simps [simp del] ranges_ok.simps [simp del]

fun scan_chunk :: "bool \<Rightarrow> string \<Rightarrow> string \<times> string" where
  "scan_chunk inrange [] = ([], [])"
| "scan_chunk inrange (c # cs) =
     (if c = CHR ''*'' \<and> \<not> inrange then ([], c # cs)
      else let r = (if c = CHR ''['' then True else if c = CHR '']'' then False else inrange);
               (chunk, rest) = scan_chunk r cs
           in (c # chunk, rest))"

lemma scan_chunk_le: "scan_chunk b s = (chunk, rest) \<Longrightarrow> length rest \<le> length s"
  by (induction b s arbitrary: chunk rule: scan_chunk.induct)
    (fastforce simp: Let_def split: if_splits prod.splits)+

definition drop_stars :: "string \<Rightarrow> string" where
  "drop_stars p = dropWhile (\<lambda>c. c = CHR ''*'') p"

function glob_ok :: "string \<Rightarrow> bool" where
  "glob_ok p =
     (case drop_stars p of
        [] \<Rightarrow> True
      | c # cs \<Rightarrow> let (chunk, rest) = scan_chunk False (c # cs) in chunk_ok chunk \<and> glob_ok rest)"
  by pat_completeness auto

termination
proof (relation "measure length")
  fix p c cs x chunk rest
  assume *: "drop_stars p = c # cs" "x = scan_chunk False (c # cs)" "(chunk, rest) = x"
  have c: "c \<noteq> CHR ''*''" using *(1) by (auto simp: drop_stars_def dropWhile_eq_Cons_conv)
  have len: "length (c # cs) \<le> length p"
    using *(1) length_dropWhile_le [of "\<lambda>c. c = CHR ''*''" p] by (simp add: drop_stars_def)
  have "length rest \<le> length cs"
    using * c scan_chunk_le by (auto simp: Let_def split: prod.splits)
  with len show "(rest, p) \<in> measure length" by simp
qed simp

declare glob_ok.simps [simp del]

definition validateArtifactGlob :: "string \<Rightarrow> bool" where
  "validateArtifactGlob p \<longleftrightarrow>
     validatePathString p \<and> has_prefix p ''/'' \<and> CHR 0x5C \<notin> set p
     \<and> ''..'' \<notin> set (split_on (CHR ''/'') p) \<and> glob_ok p"

section \<open>Parsed document\<close>

record StringValue =
  sv_Present :: bool
  sv_Null :: bool
  sv_Value :: string
  sv_Line :: int
  sv_Column :: int

record IntValue =
  iv_Present :: bool
  iv_Null :: bool
  iv_Value :: int
  iv_Line :: int
  iv_Column :: int

text \<open>\<open>SequencePresence\<close>, and the \<open>Present\<close>, \<open>Null\<close>, \<open>Line\<close>, \<open>Column\<close> fields every section starts with.\<close>

record Presence =
  pr_Present :: bool
  pr_Null :: bool
  pr_Line :: int
  pr_Column :: int

record Metadata = Presence +
  md_Name :: StringValue

record Environment = Presence +
  ev_Image :: StringValue
  ev_Workdir :: StringValue

record Resources = Presence +
  rs_CPU :: IntValue
  rs_Memory :: StringValue
  rs_Disk :: StringValue
  rs_Processes :: IntValue
  rs_Timeout :: StringValue

record Network = Presence +
  nw_Mode :: StringValue
  nw_Allow :: Presence
  nw_AllowLen :: nat

text \<open>List entries have no \<open>Present\<close> field in the source; it is constantly true here.\<close>

record Scenario = Presence +
  sc_ID :: StringValue
  sc_Name :: StringValue
  sc_Shell :: StringValue
  sc_Run :: StringValue
  sc_Timeout :: StringValue

record FilesystemCollect = Presence +
  fc_RootsInfo :: Presence
  fc_Roots :: "StringValue list"
  fc_Contents :: StringValue

record ArtifactCollect = Presence +
  ac_Path :: StringValue
  ac_MaxBytes :: StringValue

record LogsCollect = Presence +
  lc_MaxBytesPerStream :: StringValue

record Collect = Presence +
  co_Filesystem :: FilesystemCollect
  co_ArtifactsInfo :: Presence
  co_Artifacts :: "ArtifactCollect list"
  co_Logs :: LogsCollect

record IgnoreField = Presence +
  ig_Field :: StringValue

record CompareSection = Presence +
  cp_IgnoreInfo :: Presence
  cp_Ignore :: "IgnoreField list"
  cp_Repetitions :: IntValue

record PolicySection = Presence +
  ps_Profile :: StringValue

record Spec = Presence +
  sp_Environment :: Environment
  sp_Resources :: Resources
  sp_Network :: Network
  sp_ScenariosInfo :: Presence
  sp_Scenarios :: "Scenario list"
  sp_Collect :: Collect
  sp_Compare :: CompareSection
  sp_Policy :: PolicySection

record Document =
  dc_APIVersion :: StringValue
  dc_Kind :: StringValue
  dc_Metadata :: Metadata
  dc_Spec :: Spec

definition noString :: StringValue where
  "noString = \<lparr>sv_Present = False, sv_Null = False, sv_Value = [], sv_Line = 0, sv_Column = 0\<rparr>"

definition noInt :: IntValue where
  "noInt = \<lparr>iv_Present = False, iv_Null = False, iv_Value = 0, iv_Line = 0, iv_Column = 0\<rparr>"

section \<open>Decoding\<close>

type_synonym node_fields = "(string \<times> yaml_node) list"

definition childPath :: "string \<Rightarrow> string \<Rightarrow> string" where
  "childPath parent child = (if parent = [] then child else parent @ ''.'' @ child)"

definition indexedPath :: "string \<Rightarrow> nat \<Rightarrow> string" where
  "indexedPath parent idx = parent @ ''['' @ itoa idx @ '']''"

definition mapping_step ::
  "string \<Rightarrow> string list \<Rightarrow> yaml_node \<times> yaml_node \<Rightarrow> node_fields \<times> Diagnostic list \<Rightarrow> node_fields \<times> Diagnostic list"
where
  "mapping_step logicalPath allowed kv acc =
     (case kv of (k, v) \<Rightarrow> case acc of (out, diags) \<Rightarrow>
        if \<not> isStringKey k then
          (out, diags @ [newDiagnostic ''unsupported-yaml-feature'' logicalPath (n_Line k) (n_Column k)
                           ''mapping keys must be scalar strings''])
        else if n_Value k \<notin> set allowed then
          (out, diags @ [newDiagnostic ''unknown-field'' (childPath logicalPath (n_Value k)) (n_Line k)
                           (n_Column k) ''unknown field''])
        else (AList.update (n_Value k) v out, diags))"

definition mappingFields :: "yaml_node option \<Rightarrow> string \<Rightarrow> string list \<Rightarrow> node_fields \<times> Diagnostic list" where
  "mappingFields n logicalPath allowed =
     (case n of
        None \<Rightarrow> ([], [])
      | Some m \<Rightarrow>
         if n_Kind m \<noteq> MappingNode then ([], [])
         else let (out, diags) = fold (mapping_step logicalPath allowed) (node_pairs (n_Content m)) ([], [])
              in (out, capDiagnostics diags))"

definition stringField :: "yaml_node option \<Rightarrow> StringValue" where
  "stringField f =
     (case f of
        None \<Rightarrow> noString
      | Some n \<Rightarrow> \<lparr>sv_Present = True, sv_Null = isNullNode n,
          sv_Value = (if \<not> isNullNode n \<and> n_Kind n = ScalarNode then n_Value n else []),
          sv_Line = n_Line n, sv_Column = n_Column n\<rparr>)"

definition intField :: "yaml_node option \<Rightarrow> IntValue" where
  "intField f =
     (case f of
        None \<Rightarrow> noInt
      | Some n \<Rightarrow> \<lparr>iv_Present = True, iv_Null = isNullNode n,
          iv_Value = (if \<not> isNullNode n \<and> n_Kind n = ScalarNode
                      then case parse_int64 (n_Value n) of Some v \<Rightarrow> v | None \<Rightarrow> 0 else 0),
          iv_Line = n_Line n, iv_Column = n_Column n\<rparr>)"

definition sequencePresence :: "yaml_node option \<Rightarrow> Presence" where
  "sequencePresence f =
     (case f of
        None \<Rightarrow> \<lparr>pr_Present = False, pr_Null = False, pr_Line = 0, pr_Column = 0\<rparr>
      | Some n \<Rightarrow> \<lparr>pr_Present = True, pr_Null = isNullNode n, pr_Line = n_Line n, pr_Column = n_Column n\<rparr>)"

text \<open>
  The fields of a section, looked up by name: the section functions all return the zero value when
  the node is nil, and only presence and position when it is null or not a mapping.
\<close>

definition section_fields :: "yaml_node option \<Rightarrow> string \<Rightarrow> string list \<Rightarrow> string \<Rightarrow> yaml_node option" where
  "section_fields f logicalPath allowed =
     (case f of
        None \<Rightarrow> (\<lambda>_. None)
      | Some n \<Rightarrow> if isNullNode n \<or> n_Kind n \<noteq> MappingNode then (\<lambda>_. None)
                  else map_of (fst (mappingFields (Some n) logicalPath allowed)))"

definition items_of :: "yaml_node option \<Rightarrow> yaml_node list" where
  "items_of f = (case f of Some n \<Rightarrow> if n_Kind n = SequenceNode then n_Content n else [] | None \<Rightarrow> [])"

definition decodeMetadata :: "yaml_node option \<Rightarrow> Metadata" where
  "decodeMetadata f =
     (let field = section_fields f ''metadata'' [''name'']
      in Presence.extend (sequencePresence f) \<lparr>md_Name = stringField (field ''name'')\<rparr>)"

definition decodeEnvironment :: "yaml_node option \<Rightarrow> Environment" where
  "decodeEnvironment f =
     (let field = section_fields f ''spec.environment'' [''image'', ''workdir'']
      in Presence.extend (sequencePresence f)
           \<lparr>ev_Image = stringField (field ''image''), ev_Workdir = stringField (field ''workdir'')\<rparr>)"

definition decodeResources :: "yaml_node option \<Rightarrow> Resources" where
  "decodeResources f =
     (let field = section_fields f ''spec.resources'' [''cpu'', ''memory'', ''disk'', ''processes'', ''timeout'']
      in Presence.extend (sequencePresence f)
           \<lparr>rs_CPU = intField (field ''cpu''), rs_Memory = stringField (field ''memory''),
            rs_Disk = stringField (field ''disk''), rs_Processes = intField (field ''processes''),
            rs_Timeout = stringField (field ''timeout'')\<rparr>)"

definition decodeNetwork :: "yaml_node option \<Rightarrow> Network" where
  "decodeNetwork f =
     (let field = section_fields f ''spec.network'' [''mode'', ''allow'']
      in Presence.extend (sequencePresence f)
           \<lparr>nw_Mode = stringField (field ''mode''), nw_Allow = sequencePresence (field ''allow''),
            nw_AllowLen = length (items_of (field ''allow''))\<rparr>)"

definition decodeScenario :: "yaml_node \<Rightarrow> Scenario" where
  "decodeScenario n =
     (let field = section_fields (Some n) ''spec.scenarios[]'' [''id'', ''name'', ''shell'', ''run'', ''timeout'']
      in Presence.extend (sequencePresence (Some n))
           \<lparr>sc_ID = stringField (field ''id''), sc_Name = stringField (field ''name''),
            sc_Shell = stringField (field ''shell''), sc_Run = stringField (field ''run''),
            sc_Timeout = stringField (field ''timeout'')\<rparr>)"

definition decodeFilesystem :: "yaml_node option \<Rightarrow> FilesystemCollect" where
  "decodeFilesystem f =
     (let field = section_fields f ''spec.collect.filesystem'' [''roots'', ''contents'']
      in Presence.extend (sequencePresence f)
           \<lparr>fc_RootsInfo = sequencePresence (field ''roots''),
            fc_Roots = map (\<lambda>n. stringField (Some n)) (items_of (field ''roots'')),
            fc_Contents = stringField (field ''contents'')\<rparr>)"

definition decodeArtifact :: "yaml_node \<Rightarrow> ArtifactCollect" where
  "decodeArtifact n =
     (let field = section_fields (Some n) ''spec.collect.artifacts[]'' [''path'', ''maxBytes'']
      in Presence.extend (sequencePresence (Some n))
           \<lparr>ac_Path = stringField (field ''path''), ac_MaxBytes = stringField (field ''maxBytes'')\<rparr>)"

definition decodeLogs :: "yaml_node option \<Rightarrow> LogsCollect" where
  "decodeLogs f =
     (let field = section_fields f ''spec.collect.logs'' [''maxBytesPerStream'']
      in Presence.extend (sequencePresence f)
           \<lparr>lc_MaxBytesPerStream = stringField (field ''maxBytesPerStream'')\<rparr>)"

definition decodeCollect :: "yaml_node option \<Rightarrow> Collect" where
  "decodeCollect f =
     (let field = section_fields f ''spec.collect'' [''filesystem'', ''artifacts'', ''logs'']
      in Presence.extend (sequencePresence f)
           \<lparr>co_Filesystem = decodeFilesystem (field ''filesystem''),
            co_ArtifactsInfo = sequencePresence (field ''artifacts''),
            co_Artifacts = map decodeArtifact (items_of (field ''artifacts'')),
            co_Logs = decodeLogs (field ''logs'')\<rparr>)"

definition decodeIgnoreField :: "yaml_node \<Rightarrow> IgnoreField" where
  "decodeIgnoreField n =
     (let field = section_fields (Some n) ''spec.compare.ignore[]'' [''field'']
      in Presence.extend (sequencePresence (Some n)) \<lparr>ig_Field = stringField (field ''field'')\<rparr>)"

definition decodeCompare :: "yaml_node option \<Rightarrow> CompareSection" where
  "decodeCompare f =
     (let field = section_fields f ''spec.compare'' [''ignore'', ''repetitions'']
      in Presence.extend (sequencePresence f)
           \<lparr>cp_IgnoreInfo = sequencePresence (field ''ignore''),
            cp_Ignore = map decodeIgnoreField (items_of (field ''ignore'')),
            cp_Repetitions = intField (field ''repetitions'')\<rparr>)"

definition decodePolicy :: "yaml_node option \<Rightarrow> PolicySection" where
  "decodePolicy f =
     (let field = section_fields f ''spec.policy'' [''profile'']
      in Presence.extend (sequencePresence f) \<lparr>ps_Profile = stringField (field ''profile'')\<rparr>)"

definition decodeSpec :: "yaml_node option \<Rightarrow> Spec" where
  "decodeSpec f =
     (let field = section_fields f ''spec'' [''environment'', ''resources'', ''network'', ''scenarios'',
                    ''collect'', ''compare'', ''policy'']
      in Presence.extend (sequencePresence f)
           \<lparr>sp_Environment = decodeEnvironment (field ''environment''),
            sp_Resources = decodeResources (field ''resources''),
            sp_Network = decodeNetwork (field ''network''),
            sp_ScenariosInfo = sequencePresence (field ''scenarios''),
            sp_Scenarios = map decodeScenario (items_of (field ''scenarios'')),
            sp_Collect = decodeCollect (field ''collect''),
            sp_Compare = decodeCompare (field ''compare''),
            sp_Policy = decodePolicy (field ''policy'')\<rparr>)"

text \<open>Diagnostics of the top-level mapping come with the document.\<close>

definition decodeDocument :: "yaml_node \<Rightarrow> Diagnostic list + Document" where
  "decodeDocument n =
     (let (fields', diags) = mappingFields (Some n) [] [''apiVersion'', ''kind'', ''metadata'', ''spec'']
      in if diags \<noteq> [] then Inl diags
         else Inr \<lparr>dc_APIVersion = stringField (map_of fields' ''apiVersion''),
                   dc_Kind = stringField (map_of fields' ''kind''),
                   dc_Metadata = decodeMetadata (map_of fields' ''metadata''),
                   dc_Spec = decodeSpec (map_of fields' ''spec'')\<rparr>)"

section \<open>Inspection of the tree\<close>

abbreviation MaxPipelineBytes :: nat where "MaxPipelineBytes \<equiv> 1048576"
abbreviation MaxYAMLDepth :: nat where "MaxYAMLDepth \<equiv> 32"
abbreviation MaxYAMLNodes :: nat where "MaxYAMLNodes \<equiv> 20000"
abbreviation MaxGeneralStringBytes :: nat where "MaxGeneralStringBytes \<equiv> 4096"
abbreviation MaxRunBytes :: nat where "MaxRunBytes \<equiv> 65536"

definition isCustomTag :: "string \<Rightarrow> bool" where
  "isCustomTag tag \<longleftrightarrow>
     tag \<notin> set [[], ''!!map'', ''!!seq'', ''!!str'', ''!!int'', ''!!null'', ''!!bool''] \<and> has_prefix tag ''!''"

definition scalarLimit :: "string \<Rightarrow> nat" where
  "scalarLimit logicalPath =
     (if has_suffix logicalPath ''.run'' \<or> logicalPath = ''spec.scenarios[0].run''
         \<or> contains_str logicalPath ''.run''
      then MaxRunBytes else MaxGeneralStringBytes)"

text \<open>The diagnostics about the node itself.\<close>

definition nodeDiags :: "yaml_kind \<Rightarrow> string \<Rightarrow> bool \<Rightarrow> string \<Rightarrow> string \<Rightarrow> int \<Rightarrow> int \<Rightarrow> Diagnostic list" where
  "nodeDiags kind anchor tagged tag path line col =
     (if kind = AliasNode
      then [newDiagnostic ''unsupported-yaml-feature'' path line col ''YAML aliases are not supported''] else [])
     @ (if anchor \<noteq> []
        then [newDiagnostic ''unsupported-yaml-feature'' path line col ''YAML anchors are not supported''] else [])
     @ (if tagged \<or> isCustomTag tag
        then [newDiagnostic ''unsupported-yaml-feature'' path line col
                ''explicit or custom YAML tags are not supported''] else [])"

text \<open>The diagnostics about a string key.\<close>

definition keyDiags :: "string \<Rightarrow> string list \<Rightarrow> yaml_node \<Rightarrow> Diagnostic list" where
  "keyDiags logicalPath seen k =
     (if n_Value k = ''<<''
      then [newDiagnostic ''unsupported-yaml-feature'' (childPath logicalPath (n_Value k)) (n_Line k) (n_Column k)
              ''YAML merge keys are not supported''] else [])
     @ (if n_Value k \<in> set seen
        then [newDiagnostic ''duplicate-key'' (childPath logicalPath (n_Value k)) (n_Line k) (n_Column k)
                ''duplicate mapping key''] else [])"

definition budgetDiag :: "nat \<Rightarrow> nat \<Rightarrow> string \<Rightarrow> int \<Rightarrow> int \<Rightarrow> Diagnostic option" where
  "budgetDiag visited depth path line col =
     (if visited > MaxYAMLNodes
      then Some (newDiagnostic ''out-of-range'' path line col ''YAML node count exceeds limit'')
      else if depth > MaxYAMLDepth
      then Some (newDiagnostic ''out-of-range'' path line col ''YAML nesting depth exceeds limit'')
      else None)"

definition scalarDiags :: "yaml_kind \<Rightarrow> string \<Rightarrow> string \<Rightarrow> int \<Rightarrow> int \<Rightarrow> Diagnostic list" where
  "scalarDiags kind val path line col =
     (if kind = ScalarNode \<and> length val > scalarLimit path
      then [newDiagnostic ''out-of-range'' path line col
              (''scalar exceeds '' @ itoa (scalarLimit path) @ '' bytes'')] else [])"

definition badKeyDiag :: "string \<Rightarrow> yaml_node \<Rightarrow> Diagnostic" where
  "badKeyDiag path k = newDiagnostic ''unsupported-yaml-feature'' path (n_Line k) (n_Column k)
     ''mapping keys must be scalar strings''"

definition fullDiags :: "Diagnostic list \<Rightarrow> bool" where
  "fullDiags diags \<longleftrightarrow> length diags \<ge> MaxDiagnostics"

text \<open>
  \<open>inspectYAMLNode\<close>; the node budget is threaded through. The loops over a mapping and over a sequence
  are the two other functions.
\<close>

function inspectYAMLNode :: "yaml_node \<Rightarrow> string \<Rightarrow> nat \<Rightarrow> nat \<Rightarrow> Diagnostic list \<times> nat"
  and inspectPairs ::
    "yaml_node list \<Rightarrow> string \<Rightarrow> nat \<Rightarrow> string list \<Rightarrow> Diagnostic list \<Rightarrow> nat \<Rightarrow> Diagnostic list \<times> nat"
  and inspectItems ::
    "yaml_node list \<Rightarrow> string \<Rightarrow> nat \<Rightarrow> nat \<Rightarrow> Diagnostic list \<Rightarrow> nat \<Rightarrow> Diagnostic list \<times> nat" where
  "inspectYAMLNode (YamlNode kind tagged tag val anchor content line col) path depth visited =
     (case budgetDiag (Suc visited) depth path line col of
        Some d \<Rightarrow> ([d], Suc visited)
      | None \<Rightarrow>
         (let diags = nodeDiags kind anchor tagged tag path line col in
          if fullDiags diags then (capDiagnostics diags, Suc visited)
          else if kind = MappingNode then inspectPairs content path depth [] diags (Suc visited)
          else if kind = SequenceNode then inspectItems content path 0 depth diags (Suc visited)
          else (capDiagnostics (diags @ scalarDiags kind val path line col), Suc visited)))"
| "inspectPairs (k # v # rest) path depth seen diags visited =
     (if \<not> isStringKey k then inspectPairs rest path depth seen (diags @ [badKeyDiag path k]) visited
      else case inspectYAMLNode v (childPath path (n_Value k)) (Suc depth) visited of (ds, now) \<Rightarrow>
        if fullDiags (diags @ keyDiags path seen k @ ds)
        then (capDiagnostics (diags @ keyDiags path seen k @ ds), now)
        else inspectPairs rest path depth (n_Value k # seen) (diags @ keyDiags path seen k @ ds) now)"
| "inspectPairs [] path depth seen diags visited = (capDiagnostics diags, visited)"
| "inspectPairs [k] path depth seen diags visited = (capDiagnostics diags, visited)"
| "inspectItems (c # rest) path i depth diags visited =
     (case inspectYAMLNode c (indexedPath path i) (Suc depth) visited of (ds, now) \<Rightarrow>
        if fullDiags (diags @ ds) then (capDiagnostics (diags @ ds), now)
        else inspectItems rest path (Suc i) depth (diags @ ds) now)"
| "inspectItems [] path i depth diags visited = (capDiagnostics diags, visited)"
  by pat_completeness auto

termination
  by (relation "measure (\<lambda>x. case x of
        Inl (n, _) \<Rightarrow> size n
      | Inr (Inl (ns, _)) \<Rightarrow> size_list size ns
      | Inr (Inr (ns, _)) \<Rightarrow> size_list size ns)") auto

definition allowedFieldsForPath :: "string \<Rightarrow> string list option" where
  "allowedFieldsForPath logicalPath = map_of
     [([], [''apiVersion'', ''kind'', ''metadata'', ''spec'']),
      (''metadata'', [''name'']),
      (''spec'', [''environment'', ''resources'', ''network'', ''scenarios'', ''collect'', ''compare'', ''policy'']),
      (''spec.environment'', [''image'', ''workdir'']),
      (''spec.resources'', [''cpu'', ''memory'', ''disk'', ''processes'', ''timeout'']),
      (''spec.network'', [''mode'', ''allow'']),
      (''spec.scenarios[]'', [''id'', ''name'', ''shell'', ''run'', ''timeout'']),
      (''spec.collect'', [''filesystem'', ''artifacts'', ''logs'']),
      (''spec.collect.filesystem'', [''roots'', ''contents'']),
      (''spec.collect.artifacts[]'', [''path'', ''maxBytes'']),
      (''spec.collect.logs'', [''maxBytesPerStream'']),
      (''spec.compare'', [''ignore'', ''repetitions'']),
      (''spec.compare.ignore[]'', [''field'']),
      (''spec.policy'', [''profile''])] logicalPath"

definition sequenceItemPath :: "string \<Rightarrow> string option" where
  "sequenceItemPath logicalPath = map_of
     [(''spec.scenarios'', ''spec.scenarios[]''), (''spec.collect.artifacts'', ''spec.collect.artifacts[]''),
      (''spec.compare.ignore'', ''spec.compare.ignore[]'')] logicalPath"

definition unknownFieldDiag :: "string \<Rightarrow> yaml_node \<Rightarrow> Diagnostic" where
  "unknownFieldDiag path k =
     newDiagnostic ''unknown-field'' (childPath path (n_Value k)) (n_Line k) (n_Column k) ''unknown field''"

function inspectKnownFields :: "yaml_node \<Rightarrow> string \<Rightarrow> Diagnostic list"
  and knownPairs :: "yaml_node list \<Rightarrow> string \<Rightarrow> string list \<Rightarrow> Diagnostic list \<Rightarrow> Diagnostic list"
  and knownItems :: "yaml_node list \<Rightarrow> string \<Rightarrow> Diagnostic list \<Rightarrow> Diagnostic list" where
  "inspectKnownFields (YamlNode kind tagged tag val anchor content line col) path =
     (case (if kind = MappingNode then allowedFieldsForPath path else None) of
        Some allowed \<Rightarrow> knownPairs content path allowed []
      | None \<Rightarrow>
         (case (if kind = SequenceNode then sequenceItemPath path else None) of
            Some itemPath \<Rightarrow> knownItems content itemPath []
          | None \<Rightarrow> []))"
| "knownPairs (k # v # rest) path allowed diags =
     (if \<not> isStringKey k then knownPairs rest path allowed diags
      else if n_Value k \<notin> set allowed then knownPairs rest path allowed (diags @ [unknownFieldDiag path k])
      else let diags' = diags @ inspectKnownFields v (childPath path (n_Value k)) in
        if fullDiags diags' then capDiagnostics diags' else knownPairs rest path allowed diags')"
| "knownPairs [] path allowed diags = capDiagnostics diags"
| "knownPairs [k] path allowed diags = capDiagnostics diags"
| "knownItems (c # rest) itemPath diags =
     (let diags' = diags @ inspectKnownFields c itemPath in
      if fullDiags diags' then capDiagnostics diags' else knownItems rest itemPath diags')"
| "knownItems [] itemPath diags = capDiagnostics diags"
  by pat_completeness auto

termination
  by (relation "measure (\<lambda>x. case x of
        Inl (n, _) \<Rightarrow> size n
      | Inr (Inl (ns, _)) \<Rightarrow> size_list size ns
      | Inr (Inr (ns, _)) \<Rightarrow> size_list size ns)") auto

section \<open>Parsing\<close>

text \<open>Line and column of an offset, and of the first directive line.\<close>

fun byteLineColumn :: "string \<Rightarrow> nat \<Rightarrow> int \<Rightarrow> int \<Rightarrow> int \<times> int" where
  "byteLineColumn (c # cs) (Suc offset) line col =
     (if c = CHR 0x0A then byteLineColumn cs offset (line + 1) 1 else byteLineColumn cs offset line (col + 1))"
| "byteLineColumn _ _ line col = (line, col)"

definition nulOffset :: "string \<Rightarrow> nat" where
  "nulOffset data = length (takeWhile (\<lambda>c. c \<noteq> NUL) data)"

definition isDirective :: "string \<Rightarrow> bool" where
  "isDirective trimmed \<longleftrightarrow> has_prefix trimmed ''%YAML'' \<or> has_prefix trimmed ''%TAG''"

fun directiveRow :: "int \<Rightarrow> string list \<Rightarrow> (int \<times> int) option" where
  "directiveRow line [] = None"
| "directiveRow line (row # rows) =
     (let trimmed = dropWhile (\<lambda>c. c = CHR '' '' \<or> c = CHR 0x09) row
      in if isDirective trimmed then Some (line, int (length row) - int (length trimmed) + 1)
         else directiveRow (line + 1) rows)"

text \<open>The empty row behind a final newline holds no directive, so splitting is the source's loop.\<close>

definition firstDirective :: "string \<Rightarrow> (int \<times> int) option" where
  "firstDirective data = directiveRow 1 (split_on (CHR 0x0A) data)"

definition preflightInput :: "string \<Rightarrow> Diagnostic list" where
  "preflightInput data =
     capDiagnostics
      ((if length data > MaxPipelineBytes
        then [newDiagnostic ''input-too-large'' [] 0 0
                (''pipeline input exceeds '' @ itoa MaxPipelineBytes @ '' bytes'')] else [])
       @ (if trim_left_space data = []
          then [newDiagnostic ''yaml-syntax'' [] 0 0 ''input must contain one non-empty YAML document''] else [])
       @ (if \<not> validString data
          then [newDiagnostic ''invalid-utf8'' [] 0 0 ''input must be valid UTF-8''] else [])
       @ (if NUL \<in> set data
          then (case byteLineColumn data (nulOffset data) 1 1 of (line, col) \<Rightarrow>
                  [newDiagnostic ''nul-byte'' [] line col ''input must not contain NUL bytes'']) else [])
       @ (case firstDirective data of
            Some (line, col) \<Rightarrow>
              [newDiagnostic ''unsupported-yaml-feature'' [] line col ''YAML directives are not supported'']
          | None \<Rightarrow> []))"

text \<open>An error of loading: of \<open>yaml.Load\<close>, or \<open>errMultipleDocuments\<close>.\<close>

datatype load_error = LoadFailed yaml_error | MultipleDocuments nat

definition load_message :: "load_error \<Rightarrow> string" where
  "load_message e =
     (case e of
        LoadFailed y \<Rightarrow> ye_Message y
      | MultipleDocuments n \<Rightarrow> ''expected exactly one YAML document, got '' @ itoa n)"

definition loadSingleDocumentNode :: "yaml_load \<Rightarrow> string \<Rightarrow> load_error + yaml_node option" where
  "loadSingleDocumentNode load data =
     (case load MaxYAMLDepth data of
        Inl e \<Rightarrow> Inl (LoadFailed e)
      | Inr [root] \<Rightarrow>
          if n_Kind root = DocumentNode
          then (case n_Content root of [] \<Rightarrow> Inr None | n # _ \<Rightarrow> Inr (Some n))
          else Inr (Some root)
      | Inr docs \<Rightarrow> Inl (MultipleDocuments (length docs)))"

definition isDepthError :: "load_error \<Rightarrow> bool" where
  "isDepthError e = (case e of LoadFailed y \<Rightarrow> ye_Depth y | MultipleDocuments _ \<Rightarrow> False)"

definition isAliasError :: "load_error \<Rightarrow> bool" where
  "isAliasError e = (case e of LoadFailed y \<Rightarrow> ye_Alias y | MultipleDocuments _ \<Rightarrow> False)"

definition isMultipleDocumentsError :: "load_error \<Rightarrow> bool" where
  "isMultipleDocumentsError e = (case e of LoadFailed _ \<Rightarrow> False | MultipleDocuments _ \<Rightarrow> True)"

definition classifyYAMLError :: "load_error \<Rightarrow> Diagnostic list" where
  "classifyYAMLError e =
     (let msg = load_message e in
      if isDepthError e \<or> contains_str msg ''depth'' then
        [newDiagnostic ''out-of-range'' [] 0 0 ''YAML nesting depth exceeds limit'']
      else if isAliasError e \<or> contains_str (to_lower msg) ''alias'' then
        [newDiagnostic ''unsupported-yaml-feature'' [] 0 0 ''YAML aliases are not supported'']
      else if isMultipleDocumentsError e then
        [newDiagnostic ''multiple-documents'' [] 0 0 ''input must contain exactly one non-empty YAML document'']
      else if contains_str (to_lower msg) ''duplicate'' then
        [newDiagnostic ''duplicate-key'' [] 0 0 ''duplicate mapping keys are not supported'']
      else [newDiagnostic ''yaml-syntax'' [] 0 0 msg])"

definition Parse :: "yaml_load \<Rightarrow> string \<Rightarrow> Document diag_result" where
  "Parse load data =
     (let pre = preflightInput data in
      if pre \<noteq> [] then Inl pre
      else case loadSingleDocumentNode load data of
        Inl e \<Rightarrow> Inl (classifyYAMLError e)
      | Inr None \<Rightarrow>
          Inl [newDiagnostic ''yaml-syntax'' [] 0 0 ''input must contain one non-empty YAML document'']
      | Inr (Some docNode) \<Rightarrow>
          (let diags = fst (inspectYAMLNode docNode [] 1 0) in
           if diags \<noteq> [] then Inl (capDiagnostics diags)
           else let known = inspectKnownFields docNode [] in
             if known \<noteq> [] then Inl (capDiagnostics known)
             else case decodeDocument docNode of
               Inl ds \<Rightarrow> Inl (capDiagnostics ds)
             | Inr doc \<Rightarrow> Inr doc))"

end
