(* ===== verification/Config_Validate.thy ===== *)
theory Config_Validate
  imports Config
begin

text \<open>
  \<open>internal/config/validate.go\<close>: from a parsed document to a \<open>ValidatedPipeline\<close>. Every step takes the
  pipeline built so far, as the source passes a pointer to it, and returns its diagnostics with the
  pipeline it leaves.
\<close>

section \<open>The validated pipeline\<close>

record ValidatedResources =
  vr_CPU :: int
  vr_MemoryBytes :: int
  vr_DiskBytes :: int
  vr_ProcessCount :: int
  vr_TimeoutMillis :: int

record ValidatedNetwork =
  vn_Mode :: string
  vn_Allow :: "string list"

record ValidatedScenario =
  vs_ID :: string
  vs_Name :: string
  vs_Shell :: string
  vs_Run :: string
  vs_TimeoutMillis :: int

record ValidatedArtifact =
  vt_Path :: string
  vt_MaxBytes :: int

record ValidatedCollect =
  vc_FilesystemRoots :: "string list"
  vc_FilesystemContents :: string
  vc_Artifacts :: "ValidatedArtifact list"
  vc_LogMaxBytesPerStream :: int

record ValidatedCompare =
  vm_IgnoreFields :: "string list"
  vm_Repetitions :: int

text \<open>\<open>ValidatedPolicy\<close> has one field.\<close>

record ValidatedPipeline =
  vp_Name :: string
  vp_Image :: string
  vp_ImageDigest :: string
  vp_Workdir :: string
  vp_Resources :: ValidatedResources
  vp_Network :: ValidatedNetwork
  vp_Scenarios :: "ValidatedScenario list"
  vp_Collect :: ValidatedCollect
  vp_Compare :: ValidatedCompare
  vp_PolicyProfile :: string

definition zeroPipeline :: ValidatedPipeline where
  "zeroPipeline = \<lparr>vp_Name = [], vp_Image = [], vp_ImageDigest = [], vp_Workdir = [],
     vp_Resources = \<lparr>vr_CPU = 0, vr_MemoryBytes = 0, vr_DiskBytes = 0, vr_ProcessCount = 0, vr_TimeoutMillis = 0\<rparr>,
     vp_Network = \<lparr>vn_Mode = [], vn_Allow = []\<rparr>, vp_Scenarios = [],
     vp_Collect = \<lparr>vc_FilesystemRoots = [], vc_FilesystemContents = [], vc_Artifacts = [],
       vc_LogMaxBytesPerStream = 0\<rparr>,
     vp_Compare = \<lparr>vm_IgnoreFields = [], vm_Repetitions = 0\<rparr>, vp_PolicyProfile = []\<rparr>"

type_synonym 'a validated = "'a \<times> Diagnostic list"

section \<open>Values\<close>

abbreviation MaxIdentifierBytes :: nat where "MaxIdentifierBytes \<equiv> 64"
abbreviation MaxScenarioNameBytes :: nat where "MaxScenarioNameBytes \<equiv> 256"
abbreviation MaxImageBytes :: nat where "MaxImageBytes \<equiv> 512"
abbreviation MinMemoryBytes :: int where "MinMemoryBytes \<equiv> 16777216"
abbreviation MaxMemoryBytes :: int where "MaxMemoryBytes \<equiv> 1099511627776"
abbreviation MinDiskBytes :: int where "MinDiskBytes \<equiv> 16777216"
abbreviation MaxDiskBytes :: int where "MaxDiskBytes \<equiv> 17592186044416"
abbreviation MinTimeoutMillis :: int where "MinTimeoutMillis \<equiv> 100"
abbreviation MaxTimeoutMillis :: int where "MaxTimeoutMillis \<equiv> 86400000"
abbreviation MaxArtifactBytes :: int where "MaxArtifactBytes \<equiv> 1073741824"
abbreviation MaxLogBytesPerStream :: int where "MaxLogBytesPerStream \<equiv> 104857600"

definition missingString :: "StringValue \<Rightarrow> bool" where
  "missingString v \<longleftrightarrow> \<not> sv_Present v \<or> sv_Null v \<or> sv_Value v = []"

definition missingInt :: "IntValue \<Rightarrow> bool" where
  "missingInt v \<longleftrightarrow> \<not> iv_Present v \<or> iv_Null v"

definition diagForString :: "string \<Rightarrow> string \<Rightarrow> StringValue \<Rightarrow> string \<Rightarrow> Diagnostic" where
  "diagForString code path v msg = newDiagnostic code path (sv_Line v) (sv_Column v) msg"

definition diagForInt :: "string \<Rightarrow> string \<Rightarrow> IntValue \<Rightarrow> string \<Rightarrow> Diagnostic" where
  "diagForInt code path v msg = newDiagnostic code path (iv_Line v) (iv_Column v) msg"

definition missingDiag :: "string \<Rightarrow> StringValue \<Rightarrow> string \<Rightarrow> Diagnostic" where
  "missingDiag path v msg = diagForString ''missing-required-field'' path v msg"

definition missingIntDiag :: "string \<Rightarrow> IntValue \<Rightarrow> string \<Rightarrow> Diagnostic" where
  "missingIntDiag path v msg = diagForInt ''missing-required-field'' path v msg"

definition sectionDiag :: "string \<Rightarrow> string \<Rightarrow> 'a Presence_scheme \<Rightarrow> string \<Rightarrow> Diagnostic" where
  "sectionDiag code path v msg = newDiagnostic code path (pr_Line v) (pr_Column v) msg"

definition absent :: "'a Presence_scheme \<Rightarrow> bool" where
  "absent v \<longleftrightarrow> \<not> pr_Present v \<or> pr_Null v"

definition validateSizeField :: "string \<Rightarrow> StringValue \<Rightarrow> int \<Rightarrow> int \<Rightarrow> int validated" where
  "validateSizeField path field mn mx =
     (if missingString field then (0, [missingDiag path field (path @ '' is required'')])
      else case ParseSizeBytes (sv_Value field) of
        None \<Rightarrow> (0, [diagForString ''invalid-unit'' path field
                  ''size must use a positive integer and one of B, KiB, MiB, GiB, TiB''])
      | Some v \<Rightarrow>
          if v < mn \<or> v > mx
          then (v, [diagForString ''out-of-range'' path field
                  (''size must be between '' @ sprint_int mn @ '' and '' @ sprint_int mx @ '' bytes'')])
          else (v, []))"

definition validateDurationField :: "string \<Rightarrow> StringValue \<Rightarrow> int \<Rightarrow> int \<Rightarrow> int validated" where
  "validateDurationField path field mn mx =
     (if missingString field then (0, [missingDiag path field (path @ '' is required'')])
      else case ParseDurationMillis (sv_Value field) of
        None \<Rightarrow> (0, [diagForString ''invalid-unit'' path field
                  ''duration must use a positive integer and one of ms, s, m, h''])
      | Some v \<Rightarrow>
          if v < mn \<or> v > mx
          then (v, [diagForString ''out-of-range'' path field
                  (''duration must be between '' @ sprint_int mn @ '' and '' @ sprint_int mx @ '' milliseconds'')])
          else (v, []))"

text \<open>\<open>^[a-z][a-z0-9._-]{0,63}$\<close>.\<close>

definition identifier_char :: "char \<Rightarrow> bool" where
  "identifier_char c \<longleftrightarrow>
     byte_in 97 122 c \<or> digit_char c \<or> c = CHR ''.'' \<or> c = CHR ''_'' \<or> c = CHR ''-''"

definition identifierPattern :: "string \<Rightarrow> bool" where
  "identifierPattern s \<longleftrightarrow>
     (case s of [] \<Rightarrow> False | c # cs \<Rightarrow> byte_in 97 122 c \<and> length cs \<le> 63 \<and> list_all identifier_char cs)"

definition validateIdentifier :: "string \<Rightarrow> bool" where
  "validateIdentifier s \<longleftrightarrow> s \<noteq> [] \<and> length s \<le> MaxIdentifierBytes \<and> identifierPattern s"

text \<open>An \<open>errInvalidValue\<close> is its message.\<close>

definition validateScenarioName :: "string \<Rightarrow> string option" where
  "validateScenarioName s =
     (if s = [] \<or> length s > MaxScenarioNameBytes \<or> \<not> validString s
      then Some ''scenario name length is invalid''
      else if hasControl s then Some ''scenario name must not contain control characters'' else None)"

definition blank_char :: "char \<Rightarrow> bool" where
  "blank_char c \<longleftrightarrow> byte_in 0 0x20 c \<or> byte_in 0x7F 0x7F c"

definition validateImmutableImage :: "string \<Rightarrow> string + string" where
  "validateImmutableImage img =
     (if img = [] \<or> length img > MaxImageBytes \<or> contains_str img ''://''
         \<or> contains_str img ''REPLACE_WITH_REAL_DIGEST''
      then Inl ''image must be a non-empty immutable reference with @sha256 digest''
      else if list_ex blank_char img then Inl ''image must not contain whitespace or control characters''
      else case after_last img ''@sha256:'' of
        None \<Rightarrow> Inl ''image must include @sha256 digest''
      | Some digest \<Rightarrow>
          if isLowerHex digest 64 then Inr digest
          else Inl ''sha256 digest must contain exactly 64 lowercase hex characters'')"

definition isAllowedShell :: "string \<Rightarrow> bool" where
  "isAllowedShell shell \<longleftrightarrow>
     \<not> list_ex (\<lambda>c. c \<in> set [CHR '' '', CHR 0x09, CHR 0x0A, CHR 0x0D]) shell
     \<and> shell \<in> set [''/bin/sh'', ''/bin/bash'', ''/usr/bin/bash'']"

definition validateRun :: "string \<Rightarrow> string option" where
  "validateRun run =
     (if run = [] then Some ''run must be non-empty''
      else if length run > MaxRunBytes then Some (''run must not exceed '' @ itoa MaxRunBytes @ '' bytes'')
      else if NUL \<in> set run then Some ''run must not contain NUL bytes'' else None)"

section \<open>Sections\<close>

type_synonym step = "ValidatedPipeline \<Rightarrow> Diagnostic list \<times> ValidatedPipeline"

definition validateEnvironment :: "Environment \<Rightarrow> step" where
  "validateEnvironment env out =
     (if absent env
      then ([sectionDiag ''missing-required-field'' ''spec.environment'' env ''spec.environment is required''], out)
      else
        let img =
              (if missingString (ev_Image env)
               then ([missingDiag ''spec.environment.image'' (ev_Image env) ''environment image is required''], out)
               else case validateImmutableImage (sv_Value (ev_Image env)) of
                 Inl msg \<Rightarrow> ([diagForString ''invalid-value'' ''spec.environment.image'' (ev_Image env) msg], out)
               | Inr digest \<Rightarrow> ([], out\<lparr>vp_Image := sv_Value (ev_Image env), vp_ImageDigest := digest\<rparr>));
            workdir =
              (if missingString (ev_Workdir env)
               then ([missingDiag ''spec.environment.workdir'' (ev_Workdir env) ''workdir is required''], snd img)
               else if \<not> validateAbsoluteLexicalPath (sv_Value (ev_Workdir env))
               then ([diagForString ''invalid-path'' ''spec.environment.workdir'' (ev_Workdir env)
                        ''workdir must be an absolute clean POSIX path''], snd img)
               else ([], (snd img)\<lparr>vp_Workdir := sv_Value (ev_Workdir env)\<rparr>))
        in (fst img @ fst workdir, snd workdir))"

text \<open>An integer field: the accepted value, or the value the pipeline had before.\<close>

definition validateCount :: "string \<Rightarrow> string \<Rightarrow> string \<Rightarrow> IntValue \<Rightarrow> int \<Rightarrow> int \<Rightarrow> int \<Rightarrow> int validated" where
  "validateCount path missing name v mn mx old =
     (if missingInt v then (old, [missingIntDiag path v missing])
      else if iv_Value v < mn \<or> iv_Value v > mx
      then (old, [diagForInt ''out-of-range'' path v
                  (name @ '' must be between '' @ sprint_int mn @ '' and '' @ sprint_int mx)])
      else (iv_Value v, []))"

definition validateResources :: "Resources \<Rightarrow> step" where
  "validateResources res out =
     (if absent res
      then ([sectionDiag ''missing-required-field'' ''spec.resources'' res ''spec.resources is required''], out)
      else
        let cpu = validateCount ''spec.resources.cpu'' ''cpu is required'' ''cpu'' (rs_CPU res) 1 64
              (vr_CPU (vp_Resources out));
            memory = validateSizeField ''spec.resources.memory'' (rs_Memory res) MinMemoryBytes MaxMemoryBytes;
            disk = validateSizeField ''spec.resources.disk'' (rs_Disk res) MinDiskBytes MaxDiskBytes;
            processes = validateCount ''spec.resources.processes'' ''processes is required'' ''processes''
              (rs_Processes res) 1 65535 (vr_ProcessCount (vp_Resources out));
            timeout = validateDurationField ''spec.resources.timeout'' (rs_Timeout res) MinTimeoutMillis MaxTimeoutMillis
        in (snd cpu @ snd memory @ snd disk @ snd processes @ snd timeout,
            out\<lparr>vp_Resources := \<lparr>vr_CPU = fst cpu, vr_MemoryBytes = fst memory, vr_DiskBytes = fst disk,
                  vr_ProcessCount = fst processes, vr_TimeoutMillis = fst timeout\<rparr>\<rparr>))"

definition validateNetwork :: "Network \<Rightarrow> step" where
  "validateNetwork network out =
     (if absent network
      then ([sectionDiag ''missing-required-field'' ''spec.network'' network ''spec.network is required''], out)
      else
        let mode =
              (if missingString (nw_Mode network)
               then ([missingDiag ''spec.network.mode'' (nw_Mode network) ''network.mode is required''],
                     vn_Mode (vp_Network out))
               else if sv_Value (nw_Mode network) \<noteq> ''deny''
               then ([diagForString ''invalid-value'' ''spec.network.mode'' (nw_Mode network)
                        ''only deny networking is supported in v1alpha1''], vn_Mode (vp_Network out))
               else ([], sv_Value (nw_Mode network)));
            allow =
              (if absent (nw_Allow network)
               then ([sectionDiag ''missing-required-field'' ''spec.network.allow'' (nw_Allow network)
                        ''network.allow must be an explicit empty array''], vn_Allow (vp_Network out))
               else if nw_AllowLen network \<noteq> 0
               then ([sectionDiag ''invalid-value'' ''spec.network.allow'' (nw_Allow network)
                        ''network.allow must be empty for deny mode''], vn_Allow (vp_Network out))
               else ([], []))
        in (fst mode @ fst allow, out\<lparr>vp_Network := \<lparr>vn_Mode = snd mode, vn_Allow = snd allow\<rparr>\<rparr>))"

subsection \<open>Scenarios\<close>

definition scenarioIDCheck :: "string \<Rightarrow> string list \<Rightarrow> StringValue \<Rightarrow> Diagnostic list" where
  "scenarioIDCheck path seen v =
     (if missingString v then [missingDiag (path @ ''.id'') v ''scenario id is required'']
      else if \<not> validateIdentifier (sv_Value v)
      then [diagForString ''invalid-value'' (path @ ''.id'') v
              ''scenario id must match ^[a-z][a-z0-9._-]{0,63}$'']
      else if sv_Value v \<in> set seen
      then [diagForString ''duplicate-scenario-id'' (path @ ''.id'') v ''scenario ids must be unique'']
      else [])"

definition scenarioNameCheck :: "string \<Rightarrow> StringValue \<Rightarrow> Diagnostic list" where
  "scenarioNameCheck path v =
     (if missingString v then [missingDiag (path @ ''.name'') v ''scenario name is required'']
      else case validateScenarioName (sv_Value v) of
        Some msg \<Rightarrow> [diagForString ''invalid-value'' (path @ ''.name'') v msg] | None \<Rightarrow> [])"

definition scenarioShellCheck :: "string \<Rightarrow> StringValue \<Rightarrow> Diagnostic list" where
  "scenarioShellCheck path v =
     (if missingString v then [missingDiag (path @ ''.shell'') v ''scenario shell is required'']
      else if \<not> isAllowedShell (sv_Value v)
      then [diagForString ''invalid-value'' (path @ ''.shell'') v
              ''shell must be /bin/sh, /bin/bash, or /usr/bin/bash without arguments'']
      else [])"

definition scenarioRunCheck :: "string \<Rightarrow> StringValue \<Rightarrow> Diagnostic list" where
  "scenarioRunCheck path v =
     (if \<not> sv_Present v \<or> sv_Null v then [missingDiag (path @ ''.run'') v ''scenario run is required'']
      else case validateRun (sv_Value v) of
        Some msg \<Rightarrow>
          [diagForString (if length (sv_Value v) > MaxRunBytes then ''out-of-range'' else ''invalid-value'')
             (path @ ''.run'') v msg]
      | None \<Rightarrow> [])"

text \<open>\<open>validated.F\<close> is set only when the check of \<open>F\<close> has nothing to say.\<close>

definition accepted :: "Diagnostic list \<Rightarrow> StringValue \<Rightarrow> string" where
  "accepted diags v = (if diags = [] then sv_Value v else [])"

definition validateScenario ::
  "string \<Rightarrow> string list \<Rightarrow> int \<Rightarrow> Scenario \<Rightarrow> Diagnostic list \<times> string list \<times> ValidatedScenario" where
  "validateScenario path seen globalTimeout sc =
     (let ids = scenarioIDCheck path seen (sc_ID sc);
          names = scenarioNameCheck path (sc_Name sc);
          shells = scenarioShellCheck path (sc_Shell sc);
          runs = scenarioRunCheck path (sc_Run sc);
          timeout = validateDurationField (path @ ''.timeout'') (sc_Timeout sc) MinTimeoutMillis MaxTimeoutMillis;
          cross = (if snd timeout = [] \<and> globalTimeout > 0 \<and> fst timeout > globalTimeout
                   then [diagForString ''cross-field-constraint'' (path @ ''.timeout'') (sc_Timeout sc)
                           ''scenario timeout must not exceed global timeout''] else [])
      in (ids @ names @ shells @ runs @ snd timeout @ cross,
          (if ids = [] then sv_Value (sc_ID sc) # seen else seen),
          \<lparr>vs_ID = accepted ids (sc_ID sc), vs_Name = accepted names (sc_Name sc),
           vs_Shell = accepted shells (sc_Shell sc), vs_Run = accepted runs (sc_Run sc),
           vs_TimeoutMillis = fst timeout\<rparr>))"

fun validateScenarioList ::
  "nat \<Rightarrow> string list \<Rightarrow> int \<Rightarrow> Scenario list \<Rightarrow> Diagnostic list \<times> ValidatedScenario list" where
  "validateScenarioList i seen globalTimeout [] = ([], [])"
| "validateScenarioList i seen globalTimeout (sc # scs) =
     (let path = ''spec.scenarios['' @ itoa i @ '']'' in
      if pr_Null sc then
        (let (ds, vs) = validateScenarioList (Suc i) seen globalTimeout scs
         in (sectionDiag ''missing-required-field'' path sc ''scenario must be an object'' # ds, vs))
      else
        let (d, seen', v) = validateScenario path seen globalTimeout sc;
            (ds, vs) = validateScenarioList (Suc i) seen' globalTimeout scs
        in (d @ ds, v # vs))"

definition validateScenarios :: "Spec \<Rightarrow> int \<Rightarrow> step" where
  "validateScenarios spec globalTimeout out =
     (let info = sp_ScenariosInfo spec in
      if absent info
      then ([sectionDiag ''missing-required-field'' ''spec.scenarios'' info ''spec.scenarios is required''], out)
      else
        let few = (if length (sp_Scenarios spec) < 1
                   then [sectionDiag ''out-of-range'' ''spec.scenarios'' info ''at least one scenario is required'']
                   else []);
            many = (if length (sp_Scenarios spec) > 64
                    then [sectionDiag ''out-of-range'' ''spec.scenarios'' info
                            (''scenarios must not exceed '' @ itoa 64)] else []);
            (ds, vs) = validateScenarioList 0 [] globalTimeout (sp_Scenarios spec)
        in (few @ many @ ds, out\<lparr>vp_Scenarios := vp_Scenarios out @ vs\<rparr>))"

subsection \<open>Collection\<close>

fun validateRoots :: "nat \<Rightarrow> string list \<Rightarrow> StringValue list \<Rightarrow> Diagnostic list \<times> string list" where
  "validateRoots i seen [] = ([], [])"
| "validateRoots i seen (root # roots) =
     (let p = ''spec.collect.filesystem.roots['' @ itoa i @ '']'';
          bad = (if missingString root then Some (missingDiag p root ''filesystem root must be a path'')
                 else if \<not> validateAbsoluteLexicalPath (sv_Value root)
                 then Some (diagForString ''invalid-path'' p root
                        ''filesystem root must be an absolute clean POSIX path'')
                 else if sv_Value root \<in> set seen
                 then Some (diagForString ''invalid-path'' p root ''filesystem roots must not contain duplicates'')
                 else None)
      in case bad of
           Some d \<Rightarrow> (let (ds, vs) = validateRoots (Suc i) seen roots in (d # ds, vs))
         | None \<Rightarrow> (let (ds, vs) = validateRoots (Suc i) (sv_Value root # seen) roots
                     in (ds, sv_Value root # vs)))"

definition validateFilesystem :: "FilesystemCollect \<Rightarrow> Diagnostic list \<times> string list \<times> string" where
  "validateFilesystem f =
     (if absent f
      then ([sectionDiag ''missing-required-field'' ''spec.collect.filesystem'' f ''collect.filesystem is required''],
            [], [])
      else
        let roots =
              (if absent (fc_RootsInfo f)
               then ([sectionDiag ''missing-required-field'' ''spec.collect.filesystem.roots'' (fc_RootsInfo f)
                        ''filesystem roots are required''], [])
               else
                 let many = (if length (fc_Roots f) > 16
                             then [sectionDiag ''out-of-range'' ''spec.collect.filesystem.roots'' (fc_RootsInfo f)
                                     (''filesystem roots must not exceed '' @ itoa 16)] else []);
                     (ds, vs) = validateRoots 0 [] (fc_Roots f)
                 in (many @ ds, vs));
            contents =
              (if missingString (fc_Contents f)
               then [missingDiag ''spec.collect.filesystem.contents'' (fc_Contents f)
                       ''filesystem contents mode is required'']
               else if sv_Value (fc_Contents f) \<noteq> ''metadata-and-digests''
               then [diagForString ''invalid-value'' ''spec.collect.filesystem.contents'' (fc_Contents f)
                       ''only metadata-and-digests is supported'']
               else [])
        in (fst roots @ contents, snd roots, accepted contents (fc_Contents f)))"

definition artifactPathCheck :: "string \<Rightarrow> string list \<Rightarrow> StringValue \<Rightarrow> Diagnostic list" where
  "artifactPathCheck p seen v =
     (if missingString v then [missingDiag (p @ ''.path'') v ''artifact path is required'']
      else if \<not> validateArtifactGlob (sv_Value v)
      then [diagForString ''invalid-path'' (p @ ''.path'') v ''artifact path must be an absolute supported POSIX glob'']
      else if sv_Value v \<in> set seen
      then [diagForString ''invalid-path'' (p @ ''.path'') v ''artifact paths must not contain duplicates'']
      else [])"

fun validateArtifacts :: "nat \<Rightarrow> string list \<Rightarrow> ArtifactCollect list \<Rightarrow> Diagnostic list \<times> ValidatedArtifact list" where
  "validateArtifacts i seen [] = ([], [])"
| "validateArtifacts i seen (a # as) =
     (let p = ''spec.collect.artifacts['' @ itoa i @ '']'' in
      if pr_Null a then
        (let (ds, vs) = validateArtifacts (Suc i) seen as
         in (sectionDiag ''missing-required-field'' p a ''artifact entry must be an object'' # ds, vs))
      else
        let paths = artifactPathCheck p seen (ac_Path a);
            size = validateSizeField (p @ ''.maxBytes'') (ac_MaxBytes a) 1 MaxArtifactBytes;
            (ds, vs) = validateArtifacts (Suc i) (if paths = [] then sv_Value (ac_Path a) # seen else seen) as
        in (paths @ snd size @ ds, \<lparr>vt_Path = sv_Value (ac_Path a), vt_MaxBytes = fst size\<rparr> # vs))"

definition validateArtifactSection :: "Collect \<Rightarrow> Diagnostic list \<times> ValidatedArtifact list" where
  "validateArtifactSection collect =
     (let info = co_ArtifactsInfo collect in
      if absent info
      then ([sectionDiag ''missing-required-field'' ''spec.collect.artifacts'' info
               ''collect.artifacts is required''], [])
      else
        let many = (if length (co_Artifacts collect) > 64
                    then [sectionDiag ''out-of-range'' ''spec.collect.artifacts'' info
                            (''artifacts must not exceed '' @ itoa 64)] else []);
            (ds, vs) = validateArtifacts 0 [] (co_Artifacts collect)
        in (many @ ds, vs))"

definition validateLogs :: "LogsCollect \<Rightarrow> int \<Rightarrow> int validated" where
  "validateLogs logs old =
     (if absent logs
      then (old, [sectionDiag ''missing-required-field'' ''spec.collect.logs'' logs ''collect.logs is required''])
      else validateSizeField ''spec.collect.logs.maxBytesPerStream'' (lc_MaxBytesPerStream logs) 1
             MaxLogBytesPerStream)"

text \<open>The lists of the collection are appended to; the pipeline that comes in has them empty.\<close>

definition validateCollect :: "Collect \<Rightarrow> step" where
  "validateCollect collect out =
     (if absent collect
      then ([sectionDiag ''missing-required-field'' ''spec.collect'' collect ''spec.collect is required''], out)
      else
        let (fds, roots, contents) = validateFilesystem (co_Filesystem collect);
            (ads, artifacts) = validateArtifactSection collect;
            (bytes, lds) = validateLogs (co_Logs collect) (vc_LogMaxBytesPerStream (vp_Collect out));
            old = vp_Collect out
        in (fds @ ads @ lds,
            out\<lparr>vp_Collect := \<lparr>vc_FilesystemRoots = vc_FilesystemRoots old @ roots,
                  vc_FilesystemContents = (if contents = [] then vc_FilesystemContents old else contents),
                  vc_Artifacts = vc_Artifacts old @ artifacts, vc_LogMaxBytesPerStream = bytes\<rparr>\<rparr>))"

subsection \<open>Comparison and policy\<close>

fun validateIgnores :: "nat \<Rightarrow> string list \<Rightarrow> IgnoreField list \<Rightarrow> Diagnostic list \<times> string list" where
  "validateIgnores i seen [] = ([], [])"
| "validateIgnores i seen (ig # igs) =
     (let p = ''spec.compare.ignore['' @ itoa i @ ''].field''; v = sv_Value (ig_Field ig);
          bad = (if pr_Null ig \<or> missingString (ig_Field ig)
                 then Some (sectionDiag ''missing-required-field'' p ig ''ignore field is required'')
                 else if v \<noteq> ''event.timestamp'' \<and> v \<noteq> ''process.pid''
                 then Some (diagForString ''invalid-value'' p (ig_Field ig) ''unsupported compare ignore field'')
                 else if v \<in> set seen
                 then Some (diagForString ''invalid-value'' p (ig_Field ig)
                        ''compare ignore fields must not contain duplicates'')
                 else None)
      in case bad of
           Some d \<Rightarrow> (let (ds, vs) = validateIgnores (Suc i) seen igs in (d # ds, vs))
         | None \<Rightarrow> (let (ds, vs) = validateIgnores (Suc i) (v # seen) igs in (ds, v # vs)))"

definition validateCompare :: "CompareSection \<Rightarrow> step" where
  "validateCompare compare out =
     (if absent compare
      then ([sectionDiag ''missing-required-field'' ''spec.compare'' compare ''spec.compare is required''], out)
      else
        let info = cp_IgnoreInfo compare; old = vp_Compare out;
            ignores =
              (if absent info
               then ([sectionDiag ''missing-required-field'' ''spec.compare.ignore'' info
                        ''compare.ignore is required''], [])
               else
                 let many = (if length (cp_Ignore compare) > 32
                             then [sectionDiag ''out-of-range'' ''spec.compare.ignore'' info
                                     (''compare ignore entries must not exceed '' @ itoa 32)] else []);
                     (ds, vs) = validateIgnores 0 [] (cp_Ignore compare)
                 in (many @ ds, vs));
            reps = validateCount ''spec.compare.repetitions'' ''compare.repetitions is required'' ''repetitions''
              (cp_Repetitions compare) 1 10 (vm_Repetitions old)
        in (fst ignores @ snd reps,
            out\<lparr>vp_Compare := \<lparr>vm_IgnoreFields = vm_IgnoreFields old @ snd ignores,
                  vm_Repetitions = fst reps\<rparr>\<rparr>))"

definition validatePolicy :: "PolicySection \<Rightarrow> step" where
  "validatePolicy policy out =
     (if absent policy
      then ([sectionDiag ''missing-required-field'' ''spec.policy'' policy ''spec.policy is required''], out)
      else if missingString (ps_Profile policy)
      then ([missingDiag ''spec.policy.profile'' (ps_Profile policy) ''policy.profile is required''], out)
      else if sv_Value (ps_Profile policy) \<noteq> ''strict''
      then ([diagForString ''invalid-value'' ''spec.policy.profile'' (ps_Profile policy)
               ''only strict policy profile is supported''], out)
      else ([], out\<lparr>vp_PolicyProfile := sv_Value (ps_Profile policy)\<rparr>))"

section \<open>The document\<close>

definition validateHeader :: "Document \<Rightarrow> step" where
  "validateHeader doc out =
     (let api = (if missingString (dc_APIVersion doc)
                 then [missingDiag ''apiVersion'' (dc_APIVersion doc) ''apiVersion is required'']
                 else if sv_Value (dc_APIVersion doc) \<noteq> ''glassroot.dev/v1alpha1''
                 then [diagForString ''invalid-api-version'' ''apiVersion'' (dc_APIVersion doc)
                         ''apiVersion must be glassroot.dev/v1alpha1'']
                 else []);
          kind = (if missingString (dc_Kind doc)
                  then [missingDiag ''kind'' (dc_Kind doc) ''kind is required'']
                  else if sv_Value (dc_Kind doc) \<noteq> ''Pipeline''
                  then [diagForString ''invalid-kind'' ''kind'' (dc_Kind doc) ''kind must be Pipeline'']
                  else []);
          name = md_Name (dc_Metadata doc);
          meta = (if absent (dc_Metadata doc)
                  then ([sectionDiag ''missing-required-field'' ''metadata'' (dc_Metadata doc)
                           ''metadata is required''], out)
                  else if missingString name
                  then ([missingDiag ''metadata.name'' name ''metadata.name is required''], out)
                  else if \<not> validateIdentifier (sv_Value name)
                  then ([diagForString ''invalid-value'' ''metadata.name'' name
                           ''metadata.name must match ^[a-z][a-z0-9._-]{0,63}$''], out)
                  else ([], out\<lparr>vp_Name := sv_Value name\<rparr>))
      in (api @ kind @ fst meta, snd meta))"

text \<open>One step after the other; the diagnostics are collected.\<close>

definition andThen :: "step \<Rightarrow> step \<Rightarrow> step" where
  "andThen f g out = (let (ds, out1) = f out; (es, out2) = g out1 in (ds @ es, out2))"

definition Validate :: "Document \<Rightarrow> ValidatedPipeline diag_result" where
  "Validate doc =
     (let spec = dc_Spec doc; (hds, hout) = validateHeader doc zeroPipeline in
      if absent spec then
        Inl (capDiagnostics
          (hds @ [sectionDiag ''missing-required-field'' ''spec'' spec ''spec is required'']))
      else
        let (rds, rout) = andThen (validateEnvironment (sp_Environment spec))
                            (andThen (validateResources (sp_Resources spec))
                              (validateNetwork (sp_Network spec))) hout;
            (ds, out) = andThen (validateScenarios spec (vr_TimeoutMillis (vp_Resources rout)))
                          (andThen (validateCollect (sp_Collect spec))
                            (andThen (validateCompare (sp_Compare spec)) (validatePolicy (sp_Policy spec)))) rout;
            diags = hds @ rds @ ds
        in if diags \<noteq> [] then Inl (capDiagnostics diags) else Inr out)"

definition ParseAndValidate :: "yaml_load \<Rightarrow> string \<Rightarrow> ValidatedPipeline diag_result" where
  "ParseAndValidate load data = (case Parse load data of Inl ds \<Rightarrow> Inl ds | Inr doc \<Rightarrow> Validate doc)"

end
