(* ===== verification/Config_Facts.thy ===== *)
theory Config_Facts
  imports Config_Validate
begin

text \<open>
  What parsing and validation guarantee: units are exact and do not overflow, an accepted tree is
  plain and within the node and depth budgets, and an accepted document yields a pipeline in which
  every field has the form the execution layers rely on.
\<close>

section \<open>Units\<close>

lemma int_le_div:
  fixes n m x :: int
  assumes "0 < m"
  shows "n \<le> x div m \<longleftrightarrow> n * m \<le> x"
proof
  assume "n \<le> x div m"
  then have "n * m \<le> x div m * m" using assms by (intro mult_right_mono) simp_all
  also have "\<dots> \<le> x" using assms div_mult_mod_eq [of x m] pos_mod_sign [of m x] by linarith
  finally show "n * m \<le> x" .
next
  assume "n * m \<le> x"
  then have "n * m div m \<le> x div m" using assms by (intro zdiv_mono1)
  then show "n \<le> x div m" using assms by simp
qed

lemma parsePositiveUnitNumber_Some:
  assumes "parsePositiveUnitNumber num m = Some v" and "0 < m"
  shows "v = int (atoi_acc 0 num) * m" and "0 < v" and "v \<le> MaxInt64"
    and "num \<noteq> []" and "list_all digit_char num"
proof -
  have n: "num \<noteq> []" "list_all digit_char num" "atoi_acc 0 num \<noteq> 0"
    "int (atoi_acc 0 num) \<le> MaxInt64 div m" "v = signed64 (int (atoi_acc 0 num) * m)"
    using assms(1) by (auto simp: parsePositiveUnitNumber_def parse_uint63_def split: if_splits)
  have le: "int (atoi_acc 0 num) * m \<le> MaxInt64" using n(4) int_le_div [OF assms(2)] by simp
  moreover have pos: "0 < int (atoi_acc 0 num) * m" using n(3) assms(2) by simp
  ultimately have "v = int (atoi_acc 0 num) * m" using n(5) by simp
  with le pos n(1,2) show "v = int (atoi_acc 0 num) * m" "0 < v" "v \<le> MaxInt64" "num \<noteq> []"
    "list_all digit_char num" by simp_all
qed

lemma itoa_nonempty [simp]: "itoa v \<noteq> []"
proof (cases "v = 0")
  case False
  have "itoa_loop v [] \<noteq> []"
    using False atoi_itoa_loop [of 0 v "[]"] by auto
  then show ?thesis using False by (simp add: itoa_def)
qed (simp add: itoa_def)

text \<open>The decimal text of a positive number in a unit is read back exactly when it fits.\<close>

lemma parsePositiveUnitNumber_itoa:
  assumes "0 < m" and "0 < n"
  shows "parsePositiveUnitNumber (itoa n) m = (if int n * m \<le> MaxInt64 then Some (int n * m) else None)"
proof (cases "int n * m \<le> MaxInt64")
  case True
  have "int n * 1 \<le> int n * m" using assms by (intro mult_left_mono) simp_all
  with True have "int n < int (2 ^ 63)" by simp
  then have "n < 2 ^ 63" by (simp only: of_nat_less_iff)
  moreover have "signed64 (int n * m) = int n * m"
    using True assms by (intro signed64_id) (simp_all add: order_trans [of _ 0])
  ultimately show ?thesis
    using True assms int_le_div [OF assms(1), of "int n" MaxInt64]
    by (simp add: parsePositiveUnitNumber_def parse_uint63_def itoa_digits atoi_itoa)
next
  case False
  with assms int_le_div [OF assms(1), of "int n" MaxInt64] show ?thesis
    by (simp add: parsePositiveUnitNumber_def parse_uint63_def atoi_itoa)
qed

text \<open>
  A size or duration is read as its number times its unit. In a table where no later suffix hides
  behind an earlier one, the written unit is the one that decides.
\<close>

lemma parse_units_Some:
  assumes "parse_units us s = Some v" and "\<forall>(suffix, m) \<in> set us. 0 < m"
  shows "\<exists>num suffix m. (suffix, m) \<in> set us \<and> s = num @ suffix \<and> num \<noteq> [] \<and> list_all digit_char num
    \<and> v = int (atoi_acc 0 num) * m \<and> 0 < v \<and> v \<le> MaxInt64"
  using assms
proof (induction us)
  case (Cons u us)
  obtain suffix m where u: "u = (suffix, m)" by fastforce
  show ?case
  proof (cases "has_suffix s suffix")
    case True
    then obtain num where num: "s = num @ suffix" "trim_suffix s suffix = num" by (rule has_suffixE)
    have "parsePositiveUnitNumber num m = Some v" "0 < m" using Cons.prems u True num(2) by auto
    from parsePositiveUnitNumber_Some [OF this] num(1) u show ?thesis by auto
  next
    case False
    with Cons u show ?thesis by auto
  qed
qed simp

lemma digit_not_unit: "digit_char c \<Longrightarrow> c \<notin> {CHR ''B'', CHR ''i'', CHR ''K'', CHR ''M'', CHR ''G'', CHR ''T'', CHR ''m'', CHR ''s'', CHR ''h''}"
  by (auto simp: digit_char_def less_eq_char_def)

section \<open>Accepted trees\<close>

lemma capDiagnostics_Nil [simp]: "capDiagnostics ds = [] \<longleftrightarrow> ds = []"
  by (simp add: capDiagnostics_def)

lemma capDiagnostics_empty [simp]: "capDiagnostics [] = []"
  by (simp add: capDiagnostics_def)

lemma fullDiags_Nil [simp]: "\<not> fullDiags []"
  by (simp add: fullDiags_def)

lemma keyDiags_Nil: "keyDiags path seen k = [] \<longleftrightarrow> n_Value k \<noteq> ''<<'' \<and> n_Value k \<notin> set seen"
  by (auto simp: keyDiags_def)

lemma nodeDiags_Nil:
  "nodeDiags kind anchor tagged tag path line col = [] \<longleftrightarrow>
     kind \<noteq> AliasNode \<and> anchor = [] \<and> \<not> tagged \<and> \<not> isCustomTag tag"
  by (auto simp: nodeDiags_def)

text \<open>Diagnostics are never dropped.\<close>

lemma inspectPairs_kept:
  "inspectPairs content path depth seen diags visited = ([], n) \<Longrightarrow> diags = []"
proof (induction content arbitrary: seen diags visited rule: node_pairs.induct)
  case (1 k v rest)
  then show ?case by (fastforce split: prod.splits if_splits)
qed auto

lemma inspectItems_kept:
  "inspectItems items path i depth diags visited = ([], n) \<Longrightarrow> diags = []"
  by (induction items arbitrary: i diags visited) (fastforce split: prod.splits if_splits)+

text \<open>
  A tree with no diagnostics is plain, all its nodes were counted, and the budgets hold. The three
  statements are proved together, along the recursion of the inspection.
\<close>

lemma inspect_accepts:
  "inspectYAMLNode t path depth visited = ([], n) \<Longrightarrow>
     plain_tree isCustomTag t \<and> n = visited + node_count t \<and> n \<le> MaxYAMLNodes
     \<and> depth + node_depth t \<le> Suc MaxYAMLDepth"
  "inspectPairs content path depth seen diags visited = ([], n) \<Longrightarrow> visited \<le> MaxYAMLNodes \<Longrightarrow>
     depth \<le> MaxYAMLDepth \<Longrightarrow>
     plain_pairs isCustomTag content \<and> distinct (map (n_Value \<circ> fst) (node_pairs content))
     \<and> ''<<'' \<notin> set (map (n_Value \<circ> fst) (node_pairs content))
     \<and> set (map (n_Value \<circ> fst) (node_pairs content)) \<inter> set seen = {}
     \<and> n = visited + pairs_count content \<and> n \<le> MaxYAMLNodes
     \<and> depth + pairs_depth content \<le> MaxYAMLDepth"
  "inspectItems items path i depth diags visited = ([], n) \<Longrightarrow> visited \<le> MaxYAMLNodes \<Longrightarrow>
     depth \<le> MaxYAMLDepth \<Longrightarrow>
     plain_items isCustomTag items \<and> n = visited + items_count items \<and> n \<le> MaxYAMLNodes
     \<and> depth + items_depth items \<le> MaxYAMLDepth"
proof (induction t path depth visited and content path depth seen diags visited
    and items path i depth diags visited
    arbitrary: n and n and n rule: inspectYAMLNode_inspectPairs_inspectItems.induct)
  case (1 kind tagged tag val anchor content line col path depth visited)
  have b: "budgetDiag (Suc visited) depth path line col = None"
    using "1.prems" by (auto split: option.splits)
  then have le: "Suc visited \<le> MaxYAMLNodes" "depth \<le> MaxYAMLDepth"
    by (auto simp: budgetDiag_def split: if_splits)
  let ?ds = "nodeDiags kind anchor tagged tag path line col"
  have "?ds = []"
    using "1.prems" b by (auto simp: Let_def dest: inspectPairs_kept inspectItems_kept split: if_splits)
  note node = this [unfolded nodeDiags_Nil]
  show ?case
    using "1.prems" "1.IH" b le node \<open>?ds = []\<close> by (auto simp: Let_def comp_def split: if_splits)
next
  case (2 k v rest path depth seen diags visited)
  have key: "isStringKey k" using "2.prems"(1) by (auto dest: inspectPairs_kept split: if_splits)
  obtain ds now where v: "inspectYAMLNode v (childPath path (n_Value k)) (Suc depth) visited = (ds, now)"
    by fastforce
  have all: "diags @ keyDiags path seen k @ ds = []"
    using "2.prems"(1) key v by (auto dest: inspectPairs_kept split: if_splits)
  then have rest: "inspectPairs rest path depth (n_Value k # seen) [] now = ([], n)"
    using "2.prems"(1) key v by simp
  have "plain_tree isCustomTag v \<and> now = visited + node_count v \<and> now \<le> MaxYAMLNodes
     \<and> Suc depth + node_depth v \<le> Suc MaxYAMLDepth"
    using "2.IH"(2) key v all by simp
  moreover from this have "plain_pairs isCustomTag rest \<and> distinct (map (n_Value \<circ> fst) (node_pairs rest))
     \<and> ''<<'' \<notin> set (map (n_Value \<circ> fst) (node_pairs rest))
     \<and> set (map (n_Value \<circ> fst) (node_pairs rest)) \<inter> set (n_Value k # seen) = {}
     \<and> n = now + pairs_count rest \<and> n \<le> MaxYAMLNodes \<and> depth + pairs_depth rest \<le> MaxYAMLDepth"
    using "2.IH"(3) [OF _ v [symmetric]] key v all rest "2.prems"(3) by (simp add: comp_def)
  moreover have "n_Value k \<noteq> ''<<''" "n_Value k \<notin> set seen" using all by (simp_all add: keyDiags_Nil)
  ultimately show ?case using key by (auto simp: comp_def)
next
  case (5 c rest path i depth diags visited)
  obtain ds now where c: "inspectYAMLNode c (indexedPath path i) (Suc depth) visited = (ds, now)"
    by fastforce
  have all: "diags @ ds = []"
    using "5.prems"(1) c by (auto dest: inspectItems_kept split: if_splits)
  then have rest: "inspectItems rest path (Suc i) depth [] now = ([], n)" using "5.prems"(1) c by simp
  have "plain_tree isCustomTag c \<and> now = visited + node_count c \<and> now \<le> MaxYAMLNodes
     \<and> Suc depth + node_depth c \<le> Suc MaxYAMLDepth"
    using "5.IH"(1) c all by simp
  moreover from this have "plain_items isCustomTag rest \<and> n = now + items_count rest \<and> n \<le> MaxYAMLNodes
     \<and> depth + items_depth rest \<le> MaxYAMLDepth"
    using "5.IH"(2) [OF c [symmetric]] c all rest "5.prems"(3) by simp
  ultimately show ?case by auto
qed auto

text \<open>Conversely, a plain tree with short scalars that fits the budgets is accepted.\<close>

fun short_scalars :: "yaml_node \<Rightarrow> bool"
  and short_pairs :: "yaml_node list \<Rightarrow> bool"
  and short_items :: "yaml_node list \<Rightarrow> bool" where
  "short_scalars (YamlNode kind tagged tag val anchor content line col) \<longleftrightarrow>
     length val \<le> MaxGeneralStringBytes \<and> (kind = MappingNode \<longrightarrow> short_pairs content)
     \<and> (kind = SequenceNode \<longrightarrow> short_items content)"
| "short_pairs (k # v # rest) \<longleftrightarrow> short_scalars v \<and> short_pairs rest"
| "short_pairs [] \<longleftrightarrow> True"
| "short_pairs [k] \<longleftrightarrow> True"
| "short_items (c # rest) \<longleftrightarrow> short_scalars c \<and> short_items rest"
| "short_items [] \<longleftrightarrow> True"

lemma scalarDiags_short: "length val \<le> MaxGeneralStringBytes \<Longrightarrow> scalarDiags kind val path line col = []"
  by (simp add: scalarDiags_def scalarLimit_def)

lemma inspect_complete:
  "plain_tree isCustomTag t \<Longrightarrow> short_scalars t \<Longrightarrow> visited + node_count t \<le> MaxYAMLNodes \<Longrightarrow>
     depth + node_depth t \<le> Suc MaxYAMLDepth \<Longrightarrow>
     inspectYAMLNode t path depth visited = ([], visited + node_count t)"
  "plain_pairs isCustomTag content \<Longrightarrow> short_pairs content \<Longrightarrow>
     distinct (map (n_Value \<circ> fst) (node_pairs content)) \<Longrightarrow>
     ''<<'' \<notin> set (map (n_Value \<circ> fst) (node_pairs content)) \<Longrightarrow>
     set (map (n_Value \<circ> fst) (node_pairs content)) \<inter> set seen = {} \<Longrightarrow>
     visited + pairs_count content \<le> MaxYAMLNodes \<Longrightarrow> depth + pairs_depth content \<le> MaxYAMLDepth \<Longrightarrow>
     inspectPairs content path depth seen [] visited = ([], visited + pairs_count content)"
  "plain_items isCustomTag items \<Longrightarrow> short_items items \<Longrightarrow> visited + items_count items \<le> MaxYAMLNodes \<Longrightarrow>
     depth + items_depth items \<le> MaxYAMLDepth \<Longrightarrow>
     inspectItems items path i depth [] visited = ([], visited + items_count items)"
proof (induction t and content and items arbitrary: path depth visited and path depth seen visited
    and path i depth visited rule: short_scalars_short_pairs_short_items.induct)
  case (1 kind tagged tag val anchor content line col)
  have b: "budgetDiag (Suc visited) depth path line col = None"
    using "1.prems" by (simp add: budgetDiag_def)
  have nd: "nodeDiags kind anchor tagged tag path line col = []"
    using "1.prems" by (simp add: nodeDiags_Nil)
  show ?case
    using "1.prems" b nd "1.IH"(1) [of "[]" "Suc visited" depth path] "1.IH"(2) [of "Suc visited" depth path 0]
    by (simp add: Let_def comp_def scalarDiags_short split: if_splits)
next
  case (2 k v rest)
  have v: "inspectYAMLNode v (childPath path (n_Value k)) (Suc depth) visited = ([], visited + node_count v)"
    using "2.prems" by (intro "2.IH"(1)) simp_all
  have rest: "inspectPairs rest path depth (n_Value k # seen) [] (visited + node_count v)
      = ([], visited + node_count v + pairs_count rest)"
    using "2.prems" by (intro "2.IH"(2)) (auto simp: comp_def)
  have "keyDiags path seen k = []" using "2.prems" by (auto simp: keyDiags_Nil)
  then show ?case using "2.prems" v rest by simp
next
  case (5 c rest)
  have c: "inspectYAMLNode c (indexedPath path i) (Suc depth) visited = ([], visited + node_count c)"
    using "5.prems" by (intro "5.IH"(1)) simp_all
  have rest: "inspectItems rest path (Suc i) depth [] (visited + node_count c)
      = ([], visited + node_count c + items_count rest)"
    using "5.prems" by (intro "5.IH"(2)) simp_all
  show ?case using c rest by simp
qed simp_all

section \<open>Accepted documents\<close>

definition between :: "int \<Rightarrow> int \<Rightarrow> int \<Rightarrow> bool" where
  "between mn mx v \<longleftrightarrow> mn \<le> v \<and> v \<le> mx"

text \<open>A scenario whose timeout is within the global timeout \<open>t\<close>.\<close>

definition scenario_ok :: "int \<Rightarrow> ValidatedScenario \<Rightarrow> bool" where
  "scenario_ok t s \<longleftrightarrow> validateIdentifier (vs_ID s) \<and> validateScenarioName (vs_Name s) = None
     \<and> isAllowedShell (vs_Shell s) \<and> validateRun (vs_Run s) = None
     \<and> between MinTimeoutMillis t (vs_TimeoutMillis s)"

definition resources_ok :: "ValidatedResources \<Rightarrow> bool" where
  "resources_ok r \<longleftrightarrow> between 1 64 (vr_CPU r) \<and> between MinMemoryBytes MaxMemoryBytes (vr_MemoryBytes r)
     \<and> between MinDiskBytes MaxDiskBytes (vr_DiskBytes r) \<and> between 1 65535 (vr_ProcessCount r)
     \<and> between MinTimeoutMillis MaxTimeoutMillis (vr_TimeoutMillis r)"

definition collect_ok :: "ValidatedCollect \<Rightarrow> bool" where
  "collect_ok c \<longleftrightarrow>
     distinct (vc_FilesystemRoots c) \<and> length (vc_FilesystemRoots c) \<le> 16
     \<and> (\<forall>r \<in> set (vc_FilesystemRoots c). validateAbsoluteLexicalPath r)
     \<and> vc_FilesystemContents c = ''metadata-and-digests''
     \<and> distinct (map vt_Path (vc_Artifacts c)) \<and> length (vc_Artifacts c) \<le> 64
     \<and> (\<forall>a \<in> set (vc_Artifacts c). validateArtifactGlob (vt_Path a) \<and> between 1 MaxArtifactBytes (vt_MaxBytes a))
     \<and> between 1 MaxLogBytesPerStream (vc_LogMaxBytesPerStream c)"

definition pipeline_ok :: "ValidatedPipeline \<Rightarrow> bool" where
  "pipeline_ok p \<longleftrightarrow>
     validateIdentifier (vp_Name p) \<and> validateImmutableImage (vp_Image p) = Inr (vp_ImageDigest p)
     \<and> validateAbsoluteLexicalPath (vp_Workdir p) \<and> resources_ok (vp_Resources p)
     \<and> vn_Mode (vp_Network p) = ''deny'' \<and> vn_Allow (vp_Network p) = []
     \<and> vp_Scenarios p \<noteq> [] \<and> length (vp_Scenarios p) \<le> 64 \<and> distinct (map vs_ID (vp_Scenarios p))
     \<and> list_all (scenario_ok (vr_TimeoutMillis (vp_Resources p))) (vp_Scenarios p)
     \<and> collect_ok (vp_Collect p)
     \<and> distinct (vm_IgnoreFields (vp_Compare p))
     \<and> set (vm_IgnoreFields (vp_Compare p)) \<subseteq> {''event.timestamp'', ''process.pid''}
     \<and> between 1 10 (vm_Repetitions (vp_Compare p)) \<and> vp_PolicyProfile p = ''strict''"

lemma validateSizeField_ok:
  "validateSizeField path field mn mx = (v, []) \<Longrightarrow>
     ParseSizeBytes (sv_Value field) = Some v \<and> between mn mx v"
  by (auto simp: validateSizeField_def between_def split: if_splits option.splits)

lemma validateDurationField_ok:
  "validateDurationField path field mn mx = (v, []) \<Longrightarrow>
     ParseDurationMillis (sv_Value field) = Some v \<and> between mn mx v"
  by (auto simp: validateDurationField_def between_def split: if_splits option.splits)

lemma validateCount_ok:
  "validateCount path missing name field mn mx old = (v, []) \<Longrightarrow> v = iv_Value field \<and> between mn mx v"
  by (auto simp: validateCount_def between_def split: if_splits)

lemma validateSizeField_between:
  "snd (validateSizeField path field mn mx) = [] \<Longrightarrow> between mn mx (fst (validateSizeField path field mn mx))"
  using validateSizeField_ok by (metis prod.collapse)

lemma validateDurationField_between:
  "snd (validateDurationField path field mn mx) = [] \<Longrightarrow> between mn mx (fst (validateDurationField path field mn mx))"
  using validateDurationField_ok by (metis prod.collapse)

lemma validateCount_between:
  "snd (validateCount path missing name field mn mx old) = [] \<Longrightarrow>
     between mn mx (fst (validateCount path missing name field mn mx old))"
  using validateCount_ok by (metis prod.collapse)

lemma accepted_Nil [simp]: "accepted [] v = sv_Value v"
  by (simp add: accepted_def)

lemma scenarioIDCheck_ok:
  "scenarioIDCheck path seen v = [] \<Longrightarrow> validateIdentifier (sv_Value v) \<and> sv_Value v \<notin> set seen"
  by (simp add: scenarioIDCheck_def split: if_splits)

lemma scenarioNameCheck_ok: "scenarioNameCheck path v = [] \<Longrightarrow> validateScenarioName (sv_Value v) = None"
  by (simp add: scenarioNameCheck_def split: if_splits option.splits)

lemma scenarioShellCheck_ok: "scenarioShellCheck path v = [] \<Longrightarrow> isAllowedShell (sv_Value v)"
  by (simp add: scenarioShellCheck_def split: if_splits)

lemma scenarioRunCheck_ok: "scenarioRunCheck path v = [] \<Longrightarrow> validateRun (sv_Value v) = None"
  by (simp add: scenarioRunCheck_def split: if_splits option.splits)

lemma validateScenario_ok:
  assumes "validateScenario path seen t sc = ([], seen', v)" and "0 < t"
  shows "scenario_ok t v \<and> vs_ID v \<notin> set seen \<and> seen' = vs_ID v # seen"
proof -
  obtain m ds where m: "validateDurationField (path @ ''.timeout'') (sc_Timeout sc) MinTimeoutMillis MaxTimeoutMillis
      = (m, ds)" by fastforce
  let ?ids = "scenarioIDCheck path seen (sc_ID sc)"
  have nil: "?ids = []" "scenarioNameCheck path (sc_Name sc) = []"
    "scenarioShellCheck path (sc_Shell sc) = []" "scenarioRunCheck path (sc_Run sc) = []" "ds = []" "m \<le> t"
    using assms m by (auto simp: validateScenario_def Let_def split: if_splits)
  have "between MinTimeoutMillis MaxTimeoutMillis m" using validateDurationField_ok m nil(5) by blast
  then have "between MinTimeoutMillis t m" using nil(6) by (simp add: between_def)
  moreover have "v = \<lparr>vs_ID = sv_Value (sc_ID sc), vs_Name = sv_Value (sc_Name sc), vs_Shell = sv_Value (sc_Shell sc),
      vs_Run = sv_Value (sc_Run sc), vs_TimeoutMillis = m\<rparr>" "seen' = sv_Value (sc_ID sc) # seen"
    using assms(1) m nil by (auto simp: validateScenario_def Let_def split: if_splits)
  ultimately show ?thesis
    using scenarioIDCheck_ok [OF nil(1)] scenarioNameCheck_ok [OF nil(2)] scenarioShellCheck_ok [OF nil(3)]
      scenarioRunCheck_ok [OF nil(4)]
    by (simp add: scenario_ok_def)
qed

lemma validateScenarioList_ok:
  assumes "validateScenarioList i seen t scs = ([], vs)" and "0 < t"
  shows "length vs = length scs \<and> distinct (map vs_ID vs) \<and> set (map vs_ID vs) \<inter> set seen = {}
    \<and> list_all (scenario_ok t) vs"
  using assms(1)
proof (induction scs arbitrary: i seen vs)
  case (Cons sc scs)
  obtain d seen' v where v: "validateScenario (''spec.scenarios['' @ itoa i @ '']'') seen t sc = (d, seen', v)"
    by (metis prod_cases3)
  obtain ds ws where ws: "validateScenarioList (Suc i) seen' t scs = (ds, ws)" by fastforce
  have *: "\<not> pr_Null sc" "d = []" "ds = []" "vs = v # ws"
    using Cons.prems v ws by (auto simp: Let_def split: if_splits prod.splits)
  have "scenario_ok t v \<and> vs_ID v \<notin> set seen \<and> seen' = vs_ID v # seen"
    using validateScenario_ok v *(2) assms(2) by blast
  then show ?case using Cons.IH [of "Suc i" seen' ws] ws * by auto
qed simp

lemma validateRoots_ok:
  "validateRoots i seen roots = ([], vs) \<Longrightarrow>
     length vs = length roots \<and> distinct vs \<and> set vs \<inter> set seen = {} \<and> (\<forall>r \<in> set vs. validateAbsoluteLexicalPath r)"
proof (induction roots arbitrary: i seen vs)
  case (Cons root roots)
  obtain ds ws where ws: "validateRoots (Suc i) (sv_Value root # seen) roots = (ds, ws)" by fastforce
  have "validateAbsoluteLexicalPath (sv_Value root)" "sv_Value root \<notin> set seen" "ds = []" "vs = sv_Value root # ws"
    using Cons.prems ws by (auto simp: Let_def split: if_splits prod.splits)
  then show ?case using Cons.IH [of "Suc i" "sv_Value root # seen" ws] ws by auto
qed simp

lemma validateArtifacts_ok:
  "validateArtifacts i seen as = ([], vs) \<Longrightarrow>
     length vs = length as \<and> distinct (map vt_Path vs) \<and> set (map vt_Path vs) \<inter> set seen = {}
     \<and> (\<forall>a \<in> set vs. validateArtifactGlob (vt_Path a) \<and> between 1 MaxArtifactBytes (vt_MaxBytes a))"
proof (induction as arbitrary: i seen vs)
  case (Cons a as)
  define p where "p = ''spec.collect.artifacts['' @ itoa i @ '']''"
  obtain n nds where n: "validateSizeField (p @ ''.maxBytes'') (ac_MaxBytes a) 1 MaxArtifactBytes = (n, nds)"
    by fastforce
  obtain ds ws where ws: "validateArtifacts (Suc i)
      (if artifactPathCheck p seen (ac_Path a) = [] then sv_Value (ac_Path a) # seen else seen) as = (ds, ws)"
    by fastforce
  have *: "\<not> pr_Null a" "artifactPathCheck p seen (ac_Path a) = []" "nds = []" "ds = []"
    "vs = \<lparr>vt_Path = sv_Value (ac_Path a), vt_MaxBytes = n\<rparr> # ws"
    using Cons.prems n ws by (auto simp: Let_def p_def split: if_splits prod.splits)
  have "between 1 MaxArtifactBytes n" using validateSizeField_ok n *(3) by blast
  moreover have "validateArtifactGlob (sv_Value (ac_Path a))" "sv_Value (ac_Path a) \<notin> set seen"
    using *(2) by (auto simp: artifactPathCheck_def split: if_splits)
  ultimately show ?case using Cons.IH [of "Suc i" "sv_Value (ac_Path a) # seen" ws] ws * by auto
qed simp

lemma validateIgnores_ok:
  "validateIgnores i seen igs = ([], vs) \<Longrightarrow>
     distinct vs \<and> set vs \<inter> set seen = {} \<and> set vs \<subseteq> {''event.timestamp'', ''process.pid''}"
proof (induction igs arbitrary: i seen vs)
  case (Cons ig igs)
  define w where "w = sv_Value (ig_Field ig)"
  obtain ds ws where ws: "validateIgnores (Suc i) (w # seen) igs = (ds, ws)" by fastforce
  have "w \<in> {''event.timestamp'', ''process.pid''}" "w \<notin> set seen" "ds = []" "vs = w # ws"
    using Cons.prems ws by (auto simp: Let_def w_def split: if_splits prod.splits)
  then show ?case using Cons.IH [of "Suc i" "w # seen" ws] ws by auto
qed simp

subsection \<open>Sections\<close>

lemma validateHeader_ok:
  "validateHeader doc out = ([], out') \<Longrightarrow> \<exists>name. validateIdentifier name \<and> out' = out\<lparr>vp_Name := name\<rparr>"
  by (auto simp: validateHeader_def Let_def split: if_splits)

lemma validateEnvironment_ok:
  "validateEnvironment env out = ([], out') \<Longrightarrow>
     \<exists>img digest dir. validateImmutableImage img = Inr digest \<and> validateAbsoluteLexicalPath dir
       \<and> out' = out\<lparr>vp_Image := img, vp_ImageDigest := digest, vp_Workdir := dir\<rparr>"
  by (auto simp: validateEnvironment_def Let_def split: if_splits sum.splits)

lemma validateResources_ok:
  assumes "validateResources res out = ([], out')"
  shows "\<exists>r. resources_ok r \<and> out' = out\<lparr>vp_Resources := r\<rparr>"
proof -
  let ?cpu = "validateCount ''spec.resources.cpu'' ''cpu is required'' ''cpu'' (rs_CPU res) 1 64
    (vr_CPU (vp_Resources out))"
  let ?mem = "validateSizeField ''spec.resources.memory'' (rs_Memory res) MinMemoryBytes MaxMemoryBytes"
  let ?disk = "validateSizeField ''spec.resources.disk'' (rs_Disk res) MinDiskBytes MaxDiskBytes"
  let ?procs = "validateCount ''spec.resources.processes'' ''processes is required'' ''processes'' (rs_Processes res)
    1 65535 (vr_ProcessCount (vp_Resources out))"
  let ?time = "validateDurationField ''spec.resources.timeout'' (rs_Timeout res) MinTimeoutMillis MaxTimeoutMillis"
  have "\<not> absent res" using assms by (auto simp: validateResources_def)
  then have nil: "snd ?cpu = []" "snd ?mem = []" "snd ?disk = []" "snd ?procs = []" "snd ?time = []"
    and out': "out' = out\<lparr>vp_Resources := \<lparr>vr_CPU = fst ?cpu, vr_MemoryBytes = fst ?mem, vr_DiskBytes = fst ?disk,
      vr_ProcessCount = fst ?procs, vr_TimeoutMillis = fst ?time\<rparr>\<rparr>"
    using assms unfolding validateResources_def Let_def by auto
  have "between 1 64 (fst ?cpu)" by (rule validateCount_between [OF nil(1)])
  moreover have "between 1 65535 (fst ?procs)" by (rule validateCount_between [OF nil(4)])
  moreover have "between MinMemoryBytes MaxMemoryBytes (fst ?mem)" by (rule validateSizeField_between [OF nil(2)])
  moreover have "between MinDiskBytes MaxDiskBytes (fst ?disk)" by (rule validateSizeField_between [OF nil(3)])
  moreover have "between MinTimeoutMillis MaxTimeoutMillis (fst ?time)"
    by (rule validateDurationField_between [OF nil(5)])
  ultimately have "resources_ok (vp_Resources out')"
    unfolding out' by (simp add: resources_ok_def)
  then show ?thesis by (intro exI [of _ "vp_Resources out'"]) (simp add: out')
qed

lemma validateNetwork_ok:
  "validateNetwork network out = ([], out') \<Longrightarrow>
     out' = out\<lparr>vp_Network := \<lparr>vn_Mode = ''deny'', vn_Allow = []\<rparr>\<rparr>"
  by (auto simp: validateNetwork_def Let_def split: if_splits)

lemma validateScenarios_ok:
  assumes "validateScenarios spec t out = ([], out')" and "0 < t"
  shows "\<exists>vs. vs \<noteq> [] \<and> length vs \<le> 64 \<and> distinct (map vs_ID vs) \<and> list_all (scenario_ok t) vs
    \<and> out' = out\<lparr>vp_Scenarios := vp_Scenarios out @ vs\<rparr>"
proof -
  obtain ds vs where vs: "validateScenarioList 0 [] t (sp_Scenarios spec) = (ds, vs)" by fastforce
  have *: "ds = []" "sp_Scenarios spec \<noteq> []" "length (sp_Scenarios spec) \<le> 64"
    "out' = out\<lparr>vp_Scenarios := vp_Scenarios out @ vs\<rparr>"
    using assms(1) vs by (auto simp: validateScenarios_def Let_def split: if_splits)
  have "length vs = length (sp_Scenarios spec) \<and> distinct (map vs_ID vs) \<and> list_all (scenario_ok t) vs"
    using validateScenarioList_ok vs *(1) assms(2) by blast
  then show ?thesis using *(2-4) by (intro exI [of _ vs]) auto
qed

lemma validateFilesystem_ok:
  assumes "validateFilesystem f = ([], roots, contents)"
  shows "distinct roots \<and> length roots \<le> 16 \<and> (\<forall>r \<in> set roots. validateAbsoluteLexicalPath r)
    \<and> contents = ''metadata-and-digests''"
proof -
  obtain ds vs where vs: "validateRoots 0 [] (fc_Roots f) = (ds, vs)" by fastforce
  have "ds = []" "length (fc_Roots f) \<le> 16" "roots = vs" "contents = ''metadata-and-digests''"
    using assms vs by (auto simp: validateFilesystem_def Let_def accepted_def split: if_splits)
  then show ?thesis using validateRoots_ok vs by fastforce
qed

lemma validateArtifactSection_ok:
  assumes "validateArtifactSection collect = ([], vs)"
  shows "distinct (map vt_Path vs) \<and> length vs \<le> 64
    \<and> (\<forall>a \<in> set vs. validateArtifactGlob (vt_Path a) \<and> between 1 MaxArtifactBytes (vt_MaxBytes a))"
proof -
  obtain ds ws where ws: "validateArtifacts 0 [] (co_Artifacts collect) = (ds, ws)" by fastforce
  have "ds = []" "length (co_Artifacts collect) \<le> 64" "vs = ws"
    using assms ws by (auto simp: validateArtifactSection_def Let_def split: if_splits)
  then show ?thesis using validateArtifacts_ok ws by fastforce
qed

lemma validateCollect_ok:
  assumes "validateCollect collect out = ([], out')" and "vp_Collect out = vp_Collect zeroPipeline"
  shows "\<exists>c. collect_ok c \<and> out' = out\<lparr>vp_Collect := c\<rparr>"
proof -
  obtain fds roots contents where f: "validateFilesystem (co_Filesystem collect) = (fds, roots, contents)"
    by (metis prod_cases3)
  obtain ads as where a: "validateArtifactSection collect = (ads, as)" by fastforce
  obtain n lds where n: "validateLogs (co_Logs collect) (vc_LogMaxBytesPerStream (vp_Collect out)) = (n, lds)"
    by fastforce
  have nil: "fds = []" "ads = []" "lds = []"
    and out': "out' = out\<lparr>vp_Collect := \<lparr>vc_FilesystemRoots = roots,
      vc_FilesystemContents = (if contents = [] then vc_FilesystemContents (vp_Collect out) else contents),
      vc_Artifacts = as, vc_LogMaxBytesPerStream = n\<rparr>\<rparr>"
    using assms f a n by (auto simp: validateCollect_def zeroPipeline_def Let_def split: if_splits)
  have "between 1 MaxLogBytesPerStream n"
    using n nil(3) validateSizeField_ok by (auto simp: validateLogs_def split: if_splits)
  moreover have "distinct roots \<and> length roots \<le> 16 \<and> (\<forall>r \<in> set roots. validateAbsoluteLexicalPath r)
    \<and> contents = ''metadata-and-digests''" using validateFilesystem_ok f nil(1) by blast
  moreover have "distinct (map vt_Path as) \<and> length as \<le> 64
    \<and> (\<forall>a \<in> set as. validateArtifactGlob (vt_Path a) \<and> between 1 MaxArtifactBytes (vt_MaxBytes a))"
    using validateArtifactSection_ok a nil(2) by blast
  ultimately have "collect_ok (vp_Collect out')" unfolding out' by (simp add: collect_ok_def)
  then show ?thesis unfolding out' by (intro exI [of _ "vp_Collect out'"]) (simp add: out')
qed

lemma validateCompare_ok:
  assumes "validateCompare compare out = ([], out')" and "vp_Compare out = vp_Compare zeroPipeline"
  shows "\<exists>c. distinct (vm_IgnoreFields c) \<and> set (vm_IgnoreFields c) \<subseteq> {''event.timestamp'', ''process.pid''}
    \<and> between 1 10 (vm_Repetitions c) \<and> out' = out\<lparr>vp_Compare := c\<rparr>"
proof -
  obtain ds vs where vs: "validateIgnores 0 [] (cp_Ignore compare) = (ds, vs)" by fastforce
  obtain n nds where n: "validateCount ''spec.compare.repetitions'' ''compare.repetitions is required'' ''repetitions''
      (cp_Repetitions compare) 1 10 (vm_Repetitions (vp_Compare out)) = (n, nds)" by fastforce
  have *: "ds = []" "nds = []" "out' = out\<lparr>vp_Compare := \<lparr>vm_IgnoreFields = vs, vm_Repetitions = n\<rparr>\<rparr>"
    using assms vs n by (auto simp: validateCompare_def zeroPipeline_def Let_def split: if_splits)
  have "between 1 10 n" using validateCount_ok n *(2) by blast
  moreover have "distinct vs" "set vs \<subseteq> {''event.timestamp'', ''process.pid''}"
    using validateIgnores_ok vs *(1) by blast+
  ultimately show ?thesis
    unfolding *(3) by (intro exI [of _ "\<lparr>vm_IgnoreFields = vs, vm_Repetitions = n\<rparr>"]) simp
qed

lemma validatePolicy_ok:
  "validatePolicy policy out = ([], out') \<Longrightarrow> out' = out\<lparr>vp_PolicyProfile := ''strict''\<rparr>"
  by (auto simp: validatePolicy_def split: if_splits)

lemma andThen_ok:
  "andThen f g out = ([], out') \<longleftrightarrow> (\<exists>mid. f out = ([], mid) \<and> g mid = ([], out'))"
  by (auto simp: andThen_def split: prod.splits)

lemma Validate_ok:
  assumes "Validate doc = Inr p"
  shows "pipeline_ok p"
proof -
  obtain hds hout where h: "validateHeader doc zeroPipeline = (hds, hout)" by fastforce
  let ?spec = "dc_Spec doc"
  obtain rds rout where r: "andThen (validateEnvironment (sp_Environment ?spec))
      (andThen (validateResources (sp_Resources ?spec)) (validateNetwork (sp_Network ?spec))) hout = (rds, rout)"
    by fastforce
  obtain ds out where d: "andThen (validateScenarios ?spec (vr_TimeoutMillis (vp_Resources rout)))
      (andThen (validateCollect (sp_Collect ?spec))
        (andThen (validateCompare (sp_Compare ?spec)) (validatePolicy (sp_Policy ?spec)))) rout = (ds, out)"
    by fastforce
  have nil: "hds = []" "rds = []" "ds = []" "p = out"
    using assms h r d by (auto simp: Validate_def Let_def split: if_splits)
  obtain name where name: "validateIdentifier name" "hout = zeroPipeline\<lparr>vp_Name := name\<rparr>"
    using validateHeader_ok h nil(1) by blast
  obtain o1 o2 where o: "validateEnvironment (sp_Environment ?spec) hout = ([], o1)"
    "validateResources (sp_Resources ?spec) o1 = ([], o2)" "validateNetwork (sp_Network ?spec) o2 = ([], rout)"
    using r nil(2) by (auto simp: andThen_ok)
  obtain img digest dir where e: "validateImmutableImage img = Inr digest" "validateAbsoluteLexicalPath dir"
    "o1 = hout\<lparr>vp_Image := img, vp_ImageDigest := digest, vp_Workdir := dir\<rparr>"
    using validateEnvironment_ok [OF o(1)] by blast
  obtain res where res: "resources_ok res" "o2 = o1\<lparr>vp_Resources := res\<rparr>"
    using validateResources_ok [OF o(2)] by blast
  note net = validateNetwork_ok [OF o(3)]
  obtain o4 o5 o6 where q: "validateScenarios ?spec (vr_TimeoutMillis (vp_Resources rout)) rout = ([], o4)"
    "validateCollect (sp_Collect ?spec) o4 = ([], o5)" "validateCompare (sp_Compare ?spec) o5 = ([], o6)"
    "validatePolicy (sp_Policy ?spec) o6 = ([], out)"
    using d nil(3) by (auto simp: andThen_ok)
  have t: "0 < vr_TimeoutMillis res" using res(1) by (simp add: resources_ok_def between_def)
  have rout: "vp_Resources rout = res" using net res(2) by simp
  obtain vs where vs: "vs \<noteq> []" "length vs \<le> 64" "distinct (map vs_ID vs)" "list_all (scenario_ok (vr_TimeoutMillis res)) vs"
    "o4 = rout\<lparr>vp_Scenarios := vp_Scenarios rout @ vs\<rparr>"
    using validateScenarios_ok [OF q(1)] t rout by auto
  have "vp_Collect o4 = vp_Collect zeroPipeline" using vs(5) net res(2) e(3) name(2) by simp
  then obtain c where c: "collect_ok c" "o5 = o4\<lparr>vp_Collect := c\<rparr>" using validateCollect_ok [OF q(2)] by blast
  have "vp_Compare o5 = vp_Compare zeroPipeline" using c(2) vs(5) net res(2) e(3) name(2) by simp
  then obtain m where m: "distinct (vm_IgnoreFields m)" "set (vm_IgnoreFields m) \<subseteq> {''event.timestamp'', ''process.pid''}"
    "between 1 10 (vm_Repetitions m)" "o6 = o5\<lparr>vp_Compare := m\<rparr>" using validateCompare_ok [OF q(3)] by blast
  have "vp_Scenarios rout = []" using net res(2) e(3) name(2) by (simp add: zeroPipeline_def)
  then show ?thesis
    using validatePolicy_ok [OF q(4)] m c vs net res e name nil(4) unfolding pipeline_ok_def by simp
qed

end
