(* ===== verification/Config_Change.thy ===== *)
theory Config_Change
  imports Config_Facts
begin

text \<open>
  \<open>internal/config/change.go\<close>: the semantic difference of two validated pipelines, each change with the
  effect it has on security. A function of the source that appends to \<open>*[]ConfigChange\<close> returns the
  changes it appends.
\<close>

record ConfigChange =
  cc_Path :: string
  cc_Kind :: string
  cc_Effect :: string
  cc_Before :: string
  cc_After :: string
  cc_BeforeDigest :: string
  cc_AfterDigest :: string
  cc_BeforeBytes :: nat
  cc_AfterBytes :: nat

abbreviation ChangeKindAdded :: string where "ChangeKindAdded \<equiv> ''added''"
abbreviation ChangeKindRemoved :: string where "ChangeKindRemoved \<equiv> ''removed''"
abbreviation ChangeKindModified :: string where "ChangeKindModified \<equiv> ''modified''"
abbreviation ChangeKindReordered :: string where "ChangeKindReordered \<equiv> ''reordered''"

abbreviation SecurityEffectPrivilegeIncrease :: string where
  "SecurityEffectPrivilegeIncrease \<equiv> ''privilege-increase''"
abbreviation SecurityEffectPrivilegeDecrease :: string where
  "SecurityEffectPrivilegeDecrease \<equiv> ''privilege-decrease''"
abbreviation SecurityEffectExecutionDefinitionChange :: string where
  "SecurityEffectExecutionDefinitionChange \<equiv> ''execution-definition-change''"
abbreviation SecurityEffectObservationWeakened :: string where
  "SecurityEffectObservationWeakened \<equiv> ''observation-weakened''"
abbreviation SecurityEffectObservationStrengthened :: string where
  "SecurityEffectObservationStrengthened \<equiv> ''observation-strengthened''"
abbreviation SecurityEffectPolicyChange :: string where "SecurityEffectPolicyChange \<equiv> ''policy-change''"
abbreviation SecurityEffectInformational :: string where "SecurityEffectInformational \<equiv> ''informational''"
abbreviation SecurityEffectUnknown :: string where "SecurityEffectUnknown \<equiv> ''unknown''"

section \<open>Single changes\<close>

definition boundValue :: "string \<Rightarrow> string" where
  "boundValue s = sanitizeForDiagnostic s 160"

definition plainChange :: "string \<Rightarrow> string \<Rightarrow> string \<Rightarrow> ConfigChange" where
  "plainChange path kind effect = \<lparr>cc_Path = path, cc_Kind = kind, cc_Effect = effect, cc_Before = [],
     cc_After = [], cc_BeforeDigest = [], cc_AfterDigest = [], cc_BeforeBytes = 0, cc_AfterBytes = 0\<rparr>"

definition addStringChange :: "string \<Rightarrow> string \<Rightarrow> string \<Rightarrow> string \<Rightarrow> ConfigChange list" where
  "addStringChange path before after effect =
     (if before = after then []
      else [(plainChange path ChangeKindModified effect)
              \<lparr>cc_Before := boundValue before, cc_After := boundValue after\<rparr>])"

definition addIntDirectional :: "string \<Rightarrow> int \<Rightarrow> int \<Rightarrow> string \<Rightarrow> string \<Rightarrow> ConfigChange list" where
  "addIntDirectional path before after increaseEffect decreaseEffect =
     (if before = after then []
      else [(plainChange path ChangeKindModified (if after > before then increaseEffect else decreaseEffect))
              \<lparr>cc_Before := sprint_int before, cc_After := sprint_int after\<rparr>])"

text \<open>\<open>digestBytes\<close> of \<open>trusted.go\<close>.\<close>

definition config_digestBytes :: "(string \<Rightarrow> string) \<Rightarrow> string \<Rightarrow> Digest" where
  "config_digestBytes sha data = ''sha256:'' @ sha data"

definition addRunChange :: "(string \<Rightarrow> string) \<Rightarrow> string \<Rightarrow> string \<Rightarrow> string \<Rightarrow> ConfigChange list" where
  "addRunChange sha path before after =
     (if before = after then []
      else [(plainChange path ChangeKindModified SecurityEffectExecutionDefinitionChange)
              \<lparr>cc_BeforeDigest := config_digestBytes sha before, cc_AfterDigest := config_digestBytes sha after,
               cc_BeforeBytes := length before, cc_AfterBytes := length after\<rparr>])"

definition networkEffect :: "string \<Rightarrow> string \<Rightarrow> string" where
  "networkEffect before after =
     (if before = after then SecurityEffectInformational
      else if before = ''deny'' \<and> after \<noteq> ''deny'' then SecurityEffectPrivilegeIncrease
      else if before \<noteq> ''deny'' \<and> after = ''deny'' then SecurityEffectPrivilegeDecrease
      else SecurityEffectUnknown)"

definition observationModeEffect :: "string \<Rightarrow> string \<Rightarrow> string" where
  "observationModeEffect before after =
     (if before = after then SecurityEffectInformational
      else if before = ''metadata-and-digests'' \<and> after \<noteq> ''metadata-and-digests''
      then SecurityEffectObservationWeakened
      else if before \<noteq> ''metadata-and-digests'' \<and> after = ''metadata-and-digests''
      then SecurityEffectObservationStrengthened
      else SecurityEffectUnknown)"

definition scenarioPath :: "string \<Rightarrow> string" where
  "scenarioPath id' = ''spec.scenarios[id='' @ boundValue id' @ '']''"

definition artifactPath :: "string \<Rightarrow> string" where
  "artifactPath path = ''spec.collect.artifacts[path='' @ boundValue path @ '']''"

definition ignorePath :: "string \<Rightarrow> string" where
  "ignorePath field = ''spec.compare.ignore[field='' @ boundValue field @ '']''"

section \<open>Lists\<close>

text \<open>The loop over \<open>b\<close> counts down and stops below zero.\<close>

fun count_down :: "(string \<Rightarrow> int) \<Rightarrow> string list \<Rightarrow> bool" where
  "count_down counts [] = True"
| "count_down counts (v # vs) =
     (let c = counts v - 1 in if c < 0 then False else count_down (counts(v := c)) vs)"

definition sameStringSet :: "string list \<Rightarrow> string list \<Rightarrow> bool" where
  "sameStringSet a b \<longleftrightarrow>
     length a = length b \<and> count_down (fold (\<lambda>v counts. counts(v := counts v + 1)) a (\<lambda>_. 0)) b"

text \<open>A map filled from a list by key: the last entry of a key stays.\<close>

definition byKey :: "('a \<Rightarrow> string) \<Rightarrow> 'a list \<Rightarrow> string \<Rightarrow> 'a option" where
  "byKey key xs = map_of (rev (map (\<lambda>x. (key x, x)) xs))"

definition commonKeysInBaseOrder :: "string list \<Rightarrow> (string \<Rightarrow> 'a option) \<Rightarrow> string list" where
  "commonKeysInBaseOrder baseOrder head = filter (\<lambda>k. head k \<noteq> None) baseOrder"

definition reorderChange :: "string \<Rightarrow> string list \<Rightarrow> string list \<Rightarrow> ConfigChange list" where
  "reorderChange path base head =
     (if sameStringSet base head \<and> base \<noteq> head
      then [plainChange path ChangeKindReordered SecurityEffectInformational] else [])"

definition compareStringList ::
  "string \<Rightarrow> string list \<Rightarrow> string list \<Rightarrow> string \<Rightarrow> string \<Rightarrow> ConfigChange list" where
  "compareStringList path base head addedEffect removedEffect =
     (if sameStringSet base head \<and> base \<noteq> head
      then [plainChange path ChangeKindReordered SecurityEffectInformational]
      else
        let minLen = (if length head < length base then length head else length base);
            at = (\<lambda>i. path @ ''['' @ itoa i @ '']'')
        in map (\<lambda>i. plainChange (at i) ChangeKindModified SecurityEffectUnknown)
             (filter (\<lambda>i. base ! i \<noteq> head ! i) [0..<minLen])
           @ map (\<lambda>i. plainChange (at i) ChangeKindRemoved removedEffect) [minLen..<length base]
           @ map (\<lambda>i. plainChange (at i) ChangeKindAdded addedEffect) [minLen..<length head])"

definition scenarioFields :: "(string \<Rightarrow> string) \<Rightarrow> ValidatedScenario \<Rightarrow> ValidatedScenario \<Rightarrow> ConfigChange list" where
  "scenarioFields sha b h =
     (let prefix = scenarioPath (vs_ID b) in
      addStringChange (prefix @ ''.name'') (vs_Name b) (vs_Name h) SecurityEffectInformational
      @ addStringChange (prefix @ ''.shell'') (vs_Shell b) (vs_Shell h) SecurityEffectExecutionDefinitionChange
      @ addRunChange sha (prefix @ ''.run'') (vs_Run b) (vs_Run h)
      @ addIntDirectional (prefix @ ''.timeoutMillis'') (vs_TimeoutMillis b) (vs_TimeoutMillis h)
          SecurityEffectPrivilegeIncrease SecurityEffectPrivilegeDecrease)"

text \<open>The changes of the keys both sides have, in base order.\<close>

definition commonChanges ::
  "('a \<Rightarrow> string) \<Rightarrow> ('a \<Rightarrow> 'a \<Rightarrow> 'c list) \<Rightarrow> 'a list \<Rightarrow> 'a list \<Rightarrow> 'c list" where
  "commonChanges key fieldChanges base head =
     concat (map (\<lambda>k. case (byKey key base k, byKey key head k) of
                         (Some b, Some h) \<Rightarrow> fieldChanges b h | _ \<Rightarrow> [])
       (commonKeysInBaseOrder (map key base) (byKey key head)))"

definition compareScenarios ::
  "(string \<Rightarrow> string) \<Rightarrow> ValidatedScenario list \<Rightarrow> ValidatedScenario list \<Rightarrow> ConfigChange list" where
  "compareScenarios sha base head =
     map (\<lambda>s. plainChange (scenarioPath (vs_ID s)) ChangeKindRemoved SecurityEffectExecutionDefinitionChange)
       (filter (\<lambda>s. byKey vs_ID head (vs_ID s) = None) base)
     @ map (\<lambda>s. plainChange (scenarioPath (vs_ID s)) ChangeKindAdded SecurityEffectExecutionDefinitionChange)
       (filter (\<lambda>s. byKey vs_ID base (vs_ID s) = None) head)
     @ reorderChange ''spec.scenarios'' (map vs_ID base) (map vs_ID head)
     @ commonChanges vs_ID (scenarioFields sha) base head"

definition artifactFields :: "ValidatedArtifact \<Rightarrow> ValidatedArtifact \<Rightarrow> ConfigChange list" where
  "artifactFields b h = addIntDirectional (artifactPath (vt_Path b) @ ''.maxBytes'') (vt_MaxBytes b) (vt_MaxBytes h)
     SecurityEffectObservationStrengthened SecurityEffectObservationWeakened"

definition compareArtifacts :: "ValidatedArtifact list \<Rightarrow> ValidatedArtifact list \<Rightarrow> ConfigChange list" where
  "compareArtifacts base head =
     map (\<lambda>a. plainChange (artifactPath (vt_Path a)) ChangeKindRemoved SecurityEffectObservationWeakened)
       (filter (\<lambda>a. byKey vt_Path head (vt_Path a) = None) base)
     @ map (\<lambda>a. plainChange (artifactPath (vt_Path a)) ChangeKindAdded SecurityEffectObservationStrengthened)
       (filter (\<lambda>a. byKey vt_Path base (vt_Path a) = None) head)
     @ reorderChange ''spec.collect.artifacts'' (map vt_Path base) (map vt_Path head)
     @ commonChanges vt_Path artifactFields base head"

definition compareIgnoreFields :: "string list \<Rightarrow> string list \<Rightarrow> ConfigChange list" where
  "compareIgnoreFields base head =
     map (\<lambda>f. plainChange (ignorePath f) ChangeKindRemoved SecurityEffectObservationStrengthened)
       (filter (\<lambda>f. f \<notin> set head) base)
     @ map (\<lambda>f. plainChange (ignorePath f) ChangeKindAdded SecurityEffectObservationWeakened)
       (filter (\<lambda>f. f \<notin> set base) head)
     @ reorderChange ''spec.compare.ignore'' base head"

section \<open>Pipelines\<close>

definition changeLess :: "ConfigChange \<Rightarrow> ConfigChange \<Rightarrow> bool" where
  "changeLess a b \<longleftrightarrow>
     (if cc_Path a \<noteq> cc_Path b then cc_Path a < cc_Path b
      else if cc_Kind a \<noteq> cc_Kind b then cc_Kind a < cc_Kind b
      else cc_Effect a < cc_Effect b)"

definition config_sortChanges :: "ConfigChange list \<Rightarrow> ConfigChange list" where
  "config_sortChanges changes = slice_stable changeLess changes"

definition compareResources :: "ValidatedResources \<Rightarrow> ValidatedResources \<Rightarrow> ConfigChange list" where
  "compareResources b h =
     concat (map (\<lambda>(path, field). addIntDirectional path (field b) (field h)
                    SecurityEffectPrivilegeIncrease SecurityEffectPrivilegeDecrease)
       [(''spec.resources.cpu'', vr_CPU), (''spec.resources.memoryBytes'', vr_MemoryBytes),
        (''spec.resources.diskBytes'', vr_DiskBytes), (''spec.resources.processCount'', vr_ProcessCount),
        (''spec.resources.timeoutMillis'', vr_TimeoutMillis)])"

definition ComparePipelines ::
  "(string \<Rightarrow> string) \<Rightarrow> ValidatedPipeline \<Rightarrow> ValidatedPipeline \<Rightarrow> ConfigChange list" where
  "ComparePipelines sha base head =
     config_sortChanges
      (addStringChange ''metadata.name'' (vp_Name base) (vp_Name head) SecurityEffectInformational
       @ addStringChange ''spec.environment.image'' (vp_Image base) (vp_Image head)
           SecurityEffectExecutionDefinitionChange
       @ addStringChange ''spec.environment.imageDigest'' (vp_ImageDigest base) (vp_ImageDigest head)
           SecurityEffectExecutionDefinitionChange
       @ addStringChange ''spec.environment.workdir'' (vp_Workdir base) (vp_Workdir head)
           SecurityEffectExecutionDefinitionChange
       @ compareResources (vp_Resources base) (vp_Resources head)
       @ addStringChange ''spec.network.mode'' (vn_Mode (vp_Network base)) (vn_Mode (vp_Network head))
           (networkEffect (vn_Mode (vp_Network base)) (vn_Mode (vp_Network head)))
       @ compareStringList ''spec.network.allow'' (vn_Allow (vp_Network base)) (vn_Allow (vp_Network head))
           SecurityEffectPrivilegeIncrease SecurityEffectPrivilegeDecrease
       @ compareScenarios sha (vp_Scenarios base) (vp_Scenarios head)
       @ compareStringList ''spec.collect.filesystem.roots'' (vc_FilesystemRoots (vp_Collect base))
           (vc_FilesystemRoots (vp_Collect head))
           SecurityEffectObservationStrengthened SecurityEffectObservationWeakened
       @ addStringChange ''spec.collect.filesystem.contents'' (vc_FilesystemContents (vp_Collect base))
           (vc_FilesystemContents (vp_Collect head))
           (observationModeEffect (vc_FilesystemContents (vp_Collect base)) (vc_FilesystemContents (vp_Collect head)))
       @ compareArtifacts (vc_Artifacts (vp_Collect base)) (vc_Artifacts (vp_Collect head))
       @ addIntDirectional ''spec.collect.logs.maxBytesPerStream'' (vc_LogMaxBytesPerStream (vp_Collect base))
           (vc_LogMaxBytesPerStream (vp_Collect head))
           SecurityEffectObservationStrengthened SecurityEffectObservationWeakened
       @ compareIgnoreFields (vm_IgnoreFields (vp_Compare base)) (vm_IgnoreFields (vp_Compare head))
       @ addIntDirectional ''spec.compare.repetitions'' (vm_Repetitions (vp_Compare base))
           (vm_Repetitions (vp_Compare head))
           SecurityEffectObservationStrengthened SecurityEffectObservationWeakened
       @ addStringChange ''spec.policy.profile'' (vp_PolicyProfile base) (vp_PolicyProfile head)
           SecurityEffectPolicyChange)"

end
