(* ===== verification/Config_Change_Facts.thy ===== *)
theory Config_Change_Facts
  imports Config_Change
begin

text \<open>
  The facts behind the difference of two pipelines. The locale \<open>keyed_diff\<close> states what a
  field-by-field comparison of two entries with the same key has to promise so that a comparison
  of two keyed lists misses nothing; scenarios, artifacts and waivers are its instances. \<open>ok\<close> are the
  entries the promise is made for.
\<close>

section \<open>Lists as sets\<close>

lemma fold_count:
  "fold (\<lambda>v counts. counts(v := counts v + 1)) xs c = (\<lambda>v. c v + int (count (mset xs) v))"
  by (induction xs arbitrary: c) (auto simp: fun_eq_iff)

lemma count_down_iff:
  "(\<forall>v. 0 \<le> c v) \<Longrightarrow> count_down c xs \<longleftrightarrow> (\<forall>v. int (count (mset xs) v) \<le> c v)"
proof (induction xs arbitrary: c)
  case (Cons x xs)
  show ?case
  proof (cases "c x - 1 < 0")
    case True
    then have "\<not> int (count (mset (x # xs)) x) \<le> c x" by simp
    then show ?thesis using True by auto
  next
    case False
    then have "count_down c (x # xs) \<longleftrightarrow> (\<forall>v. int (count (mset xs) v) \<le> (c(x := c x - 1)) v)"
      using Cons by (simp add: Let_def)
    also have "\<dots> \<longleftrightarrow> (\<forall>v. int (count (mset (x # xs)) v) \<le> c v)"
      by (rule iff_allI) auto
    finally show ?thesis .
  qed
qed simp

lemma sameStringSet_iff: "sameStringSet a b \<longleftrightarrow> mset a = mset b"
proof
  assume *: "sameStringSet a b"
  have "int (count (mset b) v) \<le> int (count (mset a) v)" for v
    using * count_down_iff [of "\<lambda>v. int (count (mset a) v)" b] by (simp add: sameStringSet_def fold_count)
  then have "mset b \<subseteq># mset a" by (simp add: subseteq_mset_def)
  moreover have "size (mset a) = size (mset b)" using * by (simp add: sameStringSet_def)
  ultimately show "mset a = mset b" by (metis mset_subset_size nless_le subset_mset.le_less)
next
  assume "mset a = mset b"
  moreover from this have "length a = length b" by (metis size_mset)
  ultimately show "sameStringSet a b"
    using count_down_iff [of "\<lambda>v. int (count (mset b) v)" b] by (simp add: sameStringSet_def fold_count)
qed

section \<open>Keyed lists\<close>

lemma byKey_None: "byKey key xs k = None \<longleftrightarrow> k \<notin> set (map key xs)"
  by (auto simp: byKey_def map_of_eq_None_iff image_image)

lemma byKey_distinct:
  assumes "distinct (map key xs)"
  shows "byKey key xs k = Some x \<longleftrightarrow> x \<in> set xs \<and> key x = k"
proof -
  have "distinct (map fst (rev (map (\<lambda>x. (key x, x)) xs)))"
    using assms by (simp add: comp_def flip: rev_map)
  then have "byKey key xs k = Some x \<longleftrightarrow> (k, x) \<in> set (map (\<lambda>x. (key x, x)) xs)"
    unfolding byKey_def by (simp add: map_of_eq_Some_iff [symmetric] del: set_map)
  then show ?thesis by auto
qed

lemma concat_map_filter:
  assumes "\<And>x. x \<in> set xs \<Longrightarrow> p x \<Longrightarrow> g x = f x" and "\<And>x. x \<in> set xs \<Longrightarrow> \<not> p x \<Longrightarrow> f x = []"
  shows "concat (map g (filter p xs)) = concat (map f xs)"
  using assms by (induction xs) simp_all

locale keyed_diff =
  fixes key :: "'a \<Rightarrow> string" and fieldChanges :: "'a \<Rightarrow> 'a \<Rightarrow> 'c list" and ok :: "'a \<Rightarrow> bool"
  assumes fieldChanges_Nil: "ok a \<Longrightarrow> ok b \<Longrightarrow> key a = key b \<Longrightarrow> fieldChanges a b = [] \<longleftrightarrow> a = b"
begin

definition changesOf :: "'a list \<Rightarrow> 'a \<Rightarrow> 'c list" where
  "changesOf head b = (case byKey key head (key b) of Some h \<Rightarrow> fieldChanges b h | None \<Rightarrow> [])"

lemma commonChanges_eq:
  assumes "distinct (map key base)"
  shows "commonChanges key fieldChanges base head = concat (map (changesOf head) base)"
proof -
  have base: "byKey key base (key b) = Some b" if "b \<in> set base" for b
    using that byKey_distinct [OF assms] by blast
  show ?thesis
    unfolding commonChanges_def commonKeysInBaseOrder_def filter_map map_map
    by (rule concat_map_filter) (simp_all add: base changesOf_def split: option.split)
qed

lemma set_changesOf:
  assumes "distinct (map key head)"
  shows "set (changesOf head b) = (\<Union>h \<in> {h \<in> set head. key h = key b}. set (fieldChanges b h))"
proof (cases "byKey key head (key b)")
  case None
  then have no: "h \<in> set head \<Longrightarrow> key h \<noteq> key b" for h by (auto simp: byKey_None image_iff)
  show ?thesis using no by (auto simp: changesOf_def None)
next
  case (Some h)
  then have h: "h \<in> set head" "key h = key b" using byKey_distinct [OF assms] by blast+
  then have "{h' \<in> set head. key h' = key b} = {h}"
    using assms by (auto simp: distinct_map) (metis inj_onD)
  with Some show ?thesis by (simp add: changesOf_def)
qed

text \<open>The reported changes of common keys are those of the pairs with that key.\<close>

lemma set_commonChanges:
  assumes "distinct (map key base)" and "distinct (map key head)"
  shows "set (commonChanges key fieldChanges base head) =
    (\<Union>b \<in> set base. \<Union>h \<in> {h \<in> set head. key h = key b}. set (fieldChanges b h))"
  by (simp add: commonChanges_eq [OF assms(1)] set_changesOf [OF assms(2)])

text \<open>Nothing removed, nothing added, no reordering and no field change: the lists are equal.\<close>

lemma no_changes:
  assumes "distinct (map key base)" and "distinct (map key head)"
    and "list_all ok base" and "list_all ok head"
  shows "filter (\<lambda>b. byKey key head (key b) = None) base = []
      \<and> filter (\<lambda>h. byKey key base (key h) = None) head = []
      \<and> \<not> (sameStringSet (map key base) (map key head) \<and> map key base \<noteq> map key head)
      \<and> commonChanges key fieldChanges base head = [] \<longleftrightarrow> base = head"
    (is "?removed \<and> ?added \<and> ?order \<and> ?common \<longleftrightarrow> _")
proof
  assume *: "?removed \<and> ?added \<and> ?order \<and> ?common"
  then have "set (map key base) = set (map key head)" by (auto simp: filter_empty_conv byKey_None)
  then have "mset (map key base) = mset (map key head)"
    using assms by (metis set_eq_iff_mset_eq_distinct)
  with * have keys: "map key base = map key head" by (simp add: sameStringSet_iff)
  show "base = head"
  proof (rule nth_equalityI)
    show len: "length base = length head" using keys by (metis length_map)
    fix i assume i: "i < length base"
    have k: "key (base ! i) = key (head ! i)" using keys i len by (metis nth_map)
    have "set (fieldChanges (base ! i) (head ! i)) \<subseteq> set (commonChanges key fieldChanges base head)"
      unfolding set_commonChanges [OF assms(1,2)] using nth_mem [OF i] nth_mem [of i head] i len k by fastforce
    with * have "fieldChanges (base ! i) (head ! i) = []" by simp
    moreover have "ok (base ! i)" "ok (head ! i)" using assms(3,4) i len by (simp_all add: list_all_length)
    ultimately show "base ! i = head ! i" using k fieldChanges_Nil by blast
  qed
next
  assume eq: "base = head"
  have "set (commonChanges key fieldChanges base base) = {}"
    unfolding set_commonChanges [OF assms(1,1)]
    using assms(1,3) fieldChanges_Nil by (force simp: distinct_map inj_on_def list_all_iff)
  then show "?removed \<and> ?added \<and> ?order \<and> ?common"
    using eq by (auto simp: filter_empty_conv byKey_None)
qed

end

lemma addStringChange_Nil [simp]: "addStringChange path a b e = [] \<longleftrightarrow> a = b"
  by (simp add: addStringChange_def)

lemma addIntDirectional_Nil [simp]: "addIntDirectional path a b e f = [] \<longleftrightarrow> a = b"
  by (simp add: addIntDirectional_def)

lemma addRunChange_Nil [simp]: "addRunChange sha path a b = [] \<longleftrightarrow> a = b"
  by (simp add: addRunChange_def)

interpretation scenario_diff: keyed_diff vs_ID "scenarioFields sha" "\<lambda>_. True" for sha
  by unfold_locales (auto simp: scenarioFields_def Let_def)

interpretation artifact_diff: keyed_diff vt_Path artifactFields "\<lambda>_. True"
  by unfold_locales (auto simp: artifactFields_def)

interpretation config_change_order: keyed_order changeLess "\<lambda>c. (cc_Path c, cc_Kind c, cc_Effect c)"
  by unfold_locales (auto simp: changeLess_def less_prod_def' less_le)

section \<open>Pipelines\<close>

lemma slice_stable_Nil [simp]: "slice_stable lt xs = [] \<longleftrightarrow> xs = []"
  by (metis length_0_conv length_slice_stable)

lemma reorderChange_Nil: "reorderChange path a b = [] \<longleftrightarrow> \<not> (sameStringSet a b \<and> a \<noteq> b)"
  by (simp add: reorderChange_def)

lemma compareStringList_Nil: "compareStringList path a b e f = [] \<longleftrightarrow> a = b"
proof
  assume "compareStringList path a b e f = []"
  then have *: "\<forall>i < min (length a) (length b). a ! i = b ! i" "length a \<le> length b" "length b \<le> length a"
    by (auto simp: compareStringList_def Let_def filter_empty_conv split: if_splits)
  then show "a = b" by (intro nth_equalityI) auto
qed (simp add: compareStringList_def)

lemma compareIgnoreFields_Nil:
  assumes "distinct a" and "distinct b"
  shows "compareIgnoreFields a b = [] \<longleftrightarrow> a = b"
proof
  assume *: "compareIgnoreFields a b = []"
  then have "set a = set b" by (auto simp: compareIgnoreFields_def filter_empty_conv)
  with assms have "sameStringSet a b" by (simp add: sameStringSet_iff set_eq_iff_mset_eq_distinct)
  with * show "a = b" by (simp add: compareIgnoreFields_def reorderChange_Nil)
qed (simp add: compareIgnoreFields_def reorderChange_def)

lemma compareScenarios_Nil:
  assumes "distinct (map vs_ID a)" and "distinct (map vs_ID b)"
  shows "compareScenarios sha a b = [] \<longleftrightarrow> a = b"
  using scenario_diff.no_changes [OF assms] by (simp add: compareScenarios_def reorderChange_Nil list_all_iff)

lemma compareArtifacts_Nil:
  assumes "distinct (map vt_Path a)" and "distinct (map vt_Path b)"
  shows "compareArtifacts a b = [] \<longleftrightarrow> a = b"
  using artifact_diff.no_changes [OF assms] by (simp add: compareArtifacts_def reorderChange_Nil list_all_iff)

lemma compareResources_Nil: "compareResources a b = [] \<longleftrightarrow> a = b"
  by (auto simp: compareResources_def)

lemma ComparePipelines_Nil:
  assumes "pipeline_ok b" and "pipeline_ok h"
  shows "ComparePipelines sha b h = [] \<longleftrightarrow> b = h"
proof -
  have sc: "compareScenarios sha (vp_Scenarios b) (vp_Scenarios h) = [] \<longleftrightarrow> vp_Scenarios b = vp_Scenarios h"
    using assms by (intro compareScenarios_Nil) (simp_all add: pipeline_ok_def)
  have ar: "compareArtifacts (vc_Artifacts (vp_Collect b)) (vc_Artifacts (vp_Collect h)) = []
      \<longleftrightarrow> vc_Artifacts (vp_Collect b) = vc_Artifacts (vp_Collect h)"
    using assms by (intro compareArtifacts_Nil) (simp_all add: pipeline_ok_def collect_ok_def)
  have ig: "compareIgnoreFields (vm_IgnoreFields (vp_Compare b)) (vm_IgnoreFields (vp_Compare h)) = []
      \<longleftrightarrow> vm_IgnoreFields (vp_Compare b) = vm_IgnoreFields (vp_Compare h)"
    using assms by (intro compareIgnoreFields_Nil) (simp_all add: pipeline_ok_def)
  show ?thesis
    unfolding ComparePipelines_def config_sortChanges_def
    by (auto simp: sc ar ig compareStringList_Nil compareResources_Nil)
qed

section \<open>Effects\<close>

definition effects :: "ConfigChange list \<Rightarrow> string set" where
  "effects cs = cc_Effect ` set cs"

lemma effects_simps [simp]:
  "effects [] = {}" "effects (xs @ ys) = effects xs \<union> effects ys" "effects (slice_stable lt xs) = effects xs"
  by (auto simp: effects_def)

lemma effects_addStringChange: "effects (addStringChange path a b e) = (if a = b then {} else {e})"
  by (simp add: effects_def addStringChange_def plainChange_def)

lemma effects_addIntDirectional:
  "effects (addIntDirectional path a b e f) = (if a = b then {} else if a < b then {e} else {f})"
  by (simp add: effects_def addIntDirectional_def plainChange_def)

lemma effects_addRunChange:
  "effects (addRunChange sha path a b) = (if a = b then {} else {SecurityEffectExecutionDefinitionChange})"
  by (simp add: effects_def addRunChange_def plainChange_def)

lemma effects_plain:
  "effects (map (\<lambda>x. plainChange (path x) kind e) xs) \<subseteq> {e}"
  "effects (reorderChange p a b) \<subseteq> {SecurityEffectInformational}"
  by (auto simp: effects_def plainChange_def reorderChange_def)

lemma effects_compareStringList:
  "effects (compareStringList path a b e f) \<subseteq> {SecurityEffectInformational, SecurityEffectUnknown, e, f}"
  by (auto simp: effects_def compareStringList_def plainChange_def Let_def)

lemma effects_compareIgnoreFields:
  "effects (compareIgnoreFields a b)
     \<subseteq> {SecurityEffectObservationStrengthened, SecurityEffectObservationWeakened, SecurityEffectInformational}"
  by (auto simp: effects_def compareIgnoreFields_def reorderChange_def plainChange_def)

lemma effects_commonChanges:
  "x \<in> effects (commonChanges key fc base head) \<Longrightarrow> \<exists>b h. x \<in> effects (fc b h)"
  by (auto simp: effects_def commonChanges_def split: option.splits)

lemma effects_compareArtifacts:
  "effects (compareArtifacts a b)
     \<subseteq> {SecurityEffectObservationStrengthened, SecurityEffectObservationWeakened, SecurityEffectInformational}"
proof -
  have "x \<in> {SecurityEffectObservationStrengthened, SecurityEffectObservationWeakened}"
    if "x \<in> effects (commonChanges vt_Path artifactFields a b)" for x
    using effects_commonChanges [OF that] by (auto simp: artifactFields_def effects_addIntDirectional split: if_splits)
  then show ?thesis
    unfolding compareArtifacts_def effects_simps using effects_plain by fastforce
qed

lemma increase_compareResources:
  "SecurityEffectPrivilegeIncrease \<in> effects (compareResources b h) \<longleftrightarrow>
     vr_CPU b < vr_CPU h \<or> vr_MemoryBytes b < vr_MemoryBytes h \<or> vr_DiskBytes b < vr_DiskBytes h
     \<or> vr_ProcessCount b < vr_ProcessCount h \<or> vr_TimeoutMillis b < vr_TimeoutMillis h"
  by (auto simp: compareResources_def effects_addIntDirectional)

lemma increase_scenarioFields:
  "SecurityEffectPrivilegeIncrease \<in> effects (scenarioFields sha b h) \<longleftrightarrow> vs_TimeoutMillis b < vs_TimeoutMillis h"
  by (auto simp: scenarioFields_def Let_def effects_addIntDirectional effects_addStringChange effects_addRunChange)

lemma increase_compareScenarios:
  assumes "distinct (map vs_ID base)" and "distinct (map vs_ID head)"
  shows "SecurityEffectPrivilegeIncrease \<in> effects (compareScenarios sha base head) \<longleftrightarrow>
    (\<exists>b \<in> set base. \<exists>h \<in> set head. vs_ID b = vs_ID h \<and> vs_TimeoutMillis b < vs_TimeoutMillis h)"
proof -
  have common: "effects (commonChanges vs_ID (scenarioFields sha) base head) =
      (\<Union>b \<in> set base. \<Union>h \<in> {h \<in> set head. vs_ID h = vs_ID b}. effects (scenarioFields sha b h))"
    unfolding effects_def scenario_diff.set_commonChanges [OF assms] by blast
  have other: "SecurityEffectPrivilegeIncrease \<notin> effects (map (\<lambda>s. plainChange (scenarioPath (vs_ID s)) k
      SecurityEffectExecutionDefinitionChange) xs)" for k xs
    using effects_plain(1) by fastforce
  have order: "SecurityEffectPrivilegeIncrease \<notin> effects (reorderChange ''spec.scenarios'' xs ys)" for xs ys
    using effects_plain(2) by fastforce
  show ?thesis
    unfolding compareScenarios_def effects_simps Un_iff common
    using other order by (auto simp: increase_scenarioFields) metis+
qed

lemma increase_ComparePipelines:
  assumes "pipeline_ok b" and "pipeline_ok h"
  shows "SecurityEffectPrivilegeIncrease \<in> effects (ComparePipelines sha b h) \<longleftrightarrow>
    SecurityEffectPrivilegeIncrease \<in> effects (compareResources (vp_Resources b) (vp_Resources h))
    \<or> SecurityEffectPrivilegeIncrease \<in> effects (compareScenarios sha (vp_Scenarios b) (vp_Scenarios h))"
proof -
  have same: "vp_Network b = vp_Network h" "vc_FilesystemContents (vp_Collect b) = vc_FilesystemContents (vp_Collect h)"
    using assms by (simp_all add: pipeline_ok_def collect_ok_def)
  have no: "SecurityEffectPrivilegeIncrease \<notin> effects (compareArtifacts x y)"
    "SecurityEffectPrivilegeIncrease \<notin> effects (compareIgnoreFields u v)"
    "SecurityEffectPrivilegeIncrease \<notin> effects (compareStringList p u v SecurityEffectObservationStrengthened
       SecurityEffectObservationWeakened)" for x y u v p
    using effects_compareArtifacts effects_compareIgnoreFields effects_compareStringList by fastforce+
  have allow: "compareStringList p xs xs e f = []" for p xs e f by (simp add: compareStringList_Nil)
  show ?thesis
    unfolding ComparePipelines_def config_sortChanges_def effects_simps same
    by (auto simp: no allow effects_addStringChange effects_addIntDirectional)
qed

end
