(* ===== verification/Config_Trusted.thy ===== *)
theory Config_Trusted
  imports Config_Change_Facts
begin

text \<open>
  \<open>internal/config/trusted.go\<close> and \<open>source.go\<close>: the pipeline that governs a run is read from the base
  revision; the file of the head revision is only assessed.

  \<open>RevisionFileSource\<close> is an interface whose implementation is given: \<open>ReadFile\<close> is an argument, a
  function of revision, path and byte limit. Its error is what \<open>errors.Is\<close> can ask it. \<open>ctx\<close> is polled
  twice here and twice in \<open>assessHead\<close>.
\<close>

abbreviation PipelinePath :: string where "PipelinePath \<equiv> ''.glassroot/pipeline.yaml''"
abbreviation EntryKindRegularFile :: string where "EntryKindRegularFile \<equiv> ''regular-file''"

record RevisionFile =
  rf_Kind :: string
  rf_Data :: "string option"
  rf_Executable :: bool
  rf_ObjectID :: string

record read_error =
  re_NotExist :: bool
  re_TooLarge :: bool
  re_Cancelled :: bool

type_synonym read_file = "CommitRef \<Rightarrow> string \<Rightarrow> int \<Rightarrow> read_error + RevisionFile"

definition rf_bytes :: "RevisionFile \<Rightarrow> string" where
  "rf_bytes f = (case rf_Data f of Some d \<Rightarrow> d | None \<Rightarrow> [])"

record FileMetadata =
  fm_Revision :: CommitRef
  fm_Path :: string
  fm_Kind :: string
  fm_Digest :: Digest
  fm_SizeBytes :: int
  fm_Executable :: bool
  fm_ObjectID :: string

definition noCommit :: CommitRef where
  "noCommit = \<lparr>cr_Kind = [], cr_Repository = [], cr_Ref = [], cr_CommitID = [], cr_ObjectFormat = [],
     cr_TreeID = [], cr_TreeDigest = []\<rparr>"

definition noFile :: FileMetadata where
  "noFile = \<lparr>fm_Revision = noCommit, fm_Path = [], fm_Kind = [], fm_Digest = [], fm_SizeBytes = 0,
     fm_Executable = False, fm_ObjectID = []\<rparr>"

text \<open>\<open>metadataForFile\<close> of \<open>config\<close> and \<open>fileMeta\<close> of \<open>waiver\<close>, which differ in the path only.\<close>

definition metadataFor :: "(string \<Rightarrow> string) \<Rightarrow> string \<Rightarrow> CommitRef \<Rightarrow> RevisionFile \<Rightarrow> FileMetadata" where
  "metadataFor sha path revision f = \<lparr>fm_Revision = revision, fm_Path = path, fm_Kind = rf_Kind f,
     fm_Digest = (case rf_Data f of Some d \<Rightarrow> config_digestBytes sha d | None \<Rightarrow> []),
     fm_SizeBytes = (case rf_Data f of Some d \<Rightarrow> int (length d) | None \<Rightarrow> 0),
     fm_Executable = rf_Executable f, fm_ObjectID = rf_ObjectID f\<rparr>"

definition metadataForFile :: "(string \<Rightarrow> string) \<Rightarrow> CommitRef \<Rightarrow> RevisionFile \<Rightarrow> FileMetadata" where
  "metadataForFile sha revision f = metadataFor sha PipelinePath revision f"

section \<open>Results\<close>

abbreviation HeadStateUnchanged :: string where "HeadStateUnchanged \<equiv> ''unchanged''"
abbreviation HeadStateContentChangedSemanticallyEquivalent :: string where
  "HeadStateContentChangedSemanticallyEquivalent \<equiv> ''content-changed-but-semantically-equivalent''"
abbreviation HeadStateModifiedValid :: string where "HeadStateModifiedValid \<equiv> ''modified-valid''"
abbreviation HeadStateModifiedInvalid :: string where "HeadStateModifiedInvalid \<equiv> ''modified-invalid''"
abbreviation HeadStateRemoved :: string where "HeadStateRemoved \<equiv> ''removed''"
abbreviation HeadStateUnsupportedEntryKind :: string where
  "HeadStateUnsupportedEntryKind \<equiv> ''unsupported-entry-kind''"

record HeadAssessment =
  ha_State :: string
  ha_BaseFile :: FileMetadata
  ha_HeadFile :: FileMetadata
  ha_Diagnostics :: "Diagnostic list"
  ha_Changes :: "ConfigChange list"

text \<open>\<open>EffectiveConfigSource\<close> is flattened: source and path next to the file.\<close>

record TrustedLoadResult =
  tl_Base :: CommitRef
  tl_Head :: CommitRef
  tl_EffectivePipeline :: ValidatedPipeline
  tl_EffectiveSource :: string
  tl_EffectivePath :: string
  tl_EffectiveFile :: FileMetadata
  tl_BaseFile :: FileMetadata
  tl_HeadAssessment :: HeadAssessment

record TrustedLoadRequest =
  tq_Base :: CommitRef
  tq_Head :: CommitRef

record TrustedConfigError =
  te_Code :: string
  te_Role :: string
  te_Path :: string
  te_EntryKind :: string
  te_Diagnostics :: "Diagnostic list"

definition trustedErr :: "string \<Rightarrow> string \<Rightarrow> TrustedConfigError" where
  "trustedErr code role = \<lparr>te_Code = code, te_Role = role, te_Path = PipelinePath, te_EntryKind = [],
     te_Diagnostics = []\<rparr>"

definition tooLarge :: "string \<Rightarrow> Diagnostic" where
  "tooLarge role = newDiagnostic ''input-too-large'' [] 0 0 (role @ '' pipeline exceeds byte limit'')"

definition classifyBaseReadError :: "read_error \<Rightarrow> TrustedConfigError" where
  "classifyBaseReadError e =
     (if re_Cancelled e then trustedErr ''context-cancelled'' ''base''
      else if re_NotExist e then trustedErr ''base-config-missing'' ''base''
      else if re_TooLarge e
      then (trustedErr ''base-config-invalid'' ''base'')\<lparr>te_Diagnostics := [tooLarge ''base'']\<rparr>
      else trustedErr ''base-read-failed'' ''base'')"

section \<open>Loading\<close>

definition assessment :: "string \<Rightarrow> FileMetadata \<Rightarrow> FileMetadata \<Rightarrow> HeadAssessment" where
  "assessment state baseMeta headMeta = \<lparr>ha_State = state, ha_BaseFile = baseMeta, ha_HeadFile = headMeta,
     ha_Diagnostics = [], ha_Changes = []\<rparr>"

text \<open>The head file once it was read.\<close>

definition assessHeadFile ::
  "(string \<Rightarrow> string) \<Rightarrow> yaml_load \<Rightarrow> FileMetadata \<Rightarrow> string \<Rightarrow> ValidatedPipeline \<Rightarrow> FileMetadata \<Rightarrow> RevisionFile
     \<Rightarrow> HeadAssessment" where
  "assessHeadFile sha load baseMeta baseRaw basePipeline headMeta f =
     (if rf_Kind f \<noteq> EntryKindRegularFile then assessment HeadStateUnsupportedEntryKind baseMeta headMeta
      else if length (rf_bytes f) > MaxPipelineBytes
      then (assessment HeadStateModifiedInvalid baseMeta headMeta)\<lparr>ha_Diagnostics := [tooLarge ''head'']\<rparr>
      else if baseRaw = rf_bytes f then assessment HeadStateUnchanged baseMeta headMeta
      else case ParseAndValidate load (rf_bytes f) of
        Inl ds \<Rightarrow> (assessment HeadStateModifiedInvalid baseMeta headMeta)\<lparr>ha_Diagnostics := capDiagnostics ds\<rparr>
      | Inr headPipeline \<Rightarrow>
          (let changes = ComparePipelines sha basePipeline headPipeline in
           if changes = [] then assessment HeadStateContentChangedSemanticallyEquivalent baseMeta headMeta
           else (assessment HeadStateModifiedValid baseMeta headMeta)\<lparr>ha_Changes := changes\<rparr>))"

definition assessHead ::
  "(string \<Rightarrow> string) \<Rightarrow> yaml_load \<Rightarrow> read_file \<Rightarrow> go_context \<Rightarrow> CommitRef \<Rightarrow> FileMetadata \<Rightarrow> string
     \<Rightarrow> ValidatedPipeline \<Rightarrow> TrustedConfigError + HeadAssessment" where
  "assessHead sha load ReadFile ctx head baseMeta baseRaw basePipeline =
     (if ctx 0 \<noteq> None then Inl (trustedErr ''context-cancelled'' ''head'')
      else case ReadFile head PipelinePath (int MaxPipelineBytes) of
        Inl e \<Rightarrow>
          if re_NotExist e then Inr (assessment HeadStateRemoved baseMeta noFile)
          else if re_TooLarge e
          then Inr ((assessment HeadStateModifiedInvalid baseMeta noFile)\<lparr>ha_Diagnostics := [tooLarge ''head'']\<rparr>)
          else if re_Cancelled e then Inl (trustedErr ''context-cancelled'' ''head'')
          else Inl (trustedErr ''head-inspection-failed'' ''head'')
      | Inr f \<Rightarrow>
          if ctx 1 \<noteq> None then Inl (trustedErr ''context-cancelled'' ''head'')
          else Inr (assessHeadFile sha load baseMeta baseRaw basePipeline (metadataForFile sha head f) f))"

definition LoadTrusted ::
  "(string \<Rightarrow> string) \<Rightarrow> yaml_load \<Rightarrow> go_context \<Rightarrow> read_file option \<Rightarrow> TrustedLoadRequest
     \<Rightarrow> TrustedConfigError + TrustedLoadResult" where
  "LoadTrusted sha load ctx source req =
     (if ctx 0 \<noteq> None then Inl (trustedErr ''context-cancelled'' ''base'')
      else case source of
        None \<Rightarrow> Inl (trustedErr ''base-read-failed'' ''base'')
      | Some ReadFile \<Rightarrow>
         (case ReadFile (tq_Base req) PipelinePath (int MaxPipelineBytes) of
            Inl e \<Rightarrow> Inl (classifyBaseReadError e)
          | Inr f \<Rightarrow>
             if ctx 1 \<noteq> None then Inl (trustedErr ''context-cancelled'' ''base'')
             else if rf_Kind f \<noteq> EntryKindRegularFile
             then Inl ((trustedErr ''unsupported-base-entry'' ''base'')\<lparr>te_EntryKind := rf_Kind f\<rparr>)
             else if length (rf_bytes f) > MaxPipelineBytes
             then Inl ((trustedErr ''base-config-invalid'' ''base'')\<lparr>te_Diagnostics := [tooLarge ''base'']\<rparr>)
             else
               (case ParseAndValidate load (rf_bytes f) of
                  Inl ds \<Rightarrow> Inl ((trustedErr ''base-config-invalid'' ''base'')\<lparr>te_Diagnostics := capDiagnostics ds\<rparr>)
                | Inr basePipeline \<Rightarrow>
                   (let baseMeta = metadataForFile sha (tq_Base req) f in
                    case assessHead sha load ReadFile (ctx \<circ> Suc \<circ> Suc) (tq_Head req) baseMeta (rf_bytes f) basePipeline of
                      Inl e \<Rightarrow> Inl e
                    | Inr a \<Rightarrow>
                       Inr \<lparr>tl_Base = tq_Base req, tl_Head = tq_Head req, tl_EffectivePipeline = basePipeline,
                            tl_EffectiveSource = ''base'', tl_EffectivePath = PipelinePath,
                            tl_EffectiveFile = baseMeta, tl_BaseFile = baseMeta, tl_HeadAssessment = a\<rparr>))))"

end
