(* ===== verification/Config_Props.thy ===== *)
theory Config_Props
  imports Config_Trusted
begin

text \<open>
  The properties of \<open>internal/config\<close>, each with an example it applies to. The example is a complete
  pipeline document; \<open>yaml.Load\<close> is instantiated by a function that returns its tree.
\<close>

section \<open>An example\<close>

definition ystr :: "string \<Rightarrow> yaml_node" where
  "ystr s = YamlNode ScalarNode False ''!!str'' s [] [] 1 1"

definition yint :: "string \<Rightarrow> yaml_node" where
  "yint s = YamlNode ScalarNode False ''!!int'' s [] [] 1 1"

definition ymap :: "(string \<times> yaml_node) list \<Rightarrow> yaml_node" where
  "ymap kvs = YamlNode MappingNode False ''!!map'' [] [] (concat (map (\<lambda>(k, v). [ystr k, v]) kvs)) 1 1"

definition yseq :: "yaml_node list \<Rightarrow> yaml_node" where
  "yseq ns = YamlNode SequenceNode False ''!!seq'' [] [] ns 1 1"

definition demoScenarioNode :: yaml_node where
  "demoScenarioNode = ymap [(''id'', ystr ''t''), (''name'', ystr ''T''), (''shell'', ystr ''/bin/sh''),
     (''run'', ystr ''a''), (''timeout'', ystr ''1s'')]"

definition demoImage :: string where
  "demoImage = ''i@sha256:'' @ replicate 64 (CHR ''0'')"

definition demoTree :: yaml_node where
  "demoTree = ymap
     [(''apiVersion'', ystr ''glassroot.dev/v1alpha1''), (''kind'', ystr ''Pipeline''),
      (''metadata'', ymap [(''name'', ystr ''p'')]),
      (''spec'', ymap
        [(''environment'', ymap [(''image'', ystr demoImage), (''workdir'', ystr ''/w'')]),
         (''resources'', ymap [(''cpu'', yint ''2''), (''memory'', ystr ''16MiB''), (''disk'', ystr ''16MiB''),
            (''processes'', yint ''9''), (''timeout'', ystr ''2s'')]),
         (''network'', ymap [(''mode'', ystr ''deny''), (''allow'', yseq [])]),
         (''scenarios'', yseq [demoScenarioNode]),
         (''collect'', ymap
            [(''filesystem'', ymap [(''roots'', yseq [ystr ''/w'']), (''contents'', ystr ''metadata-and-digests'')]),
             (''artifacts'', yseq [ymap [(''path'', ystr ''/w/*''), (''maxBytes'', ystr ''1B'')]]),
             (''logs'', ymap [(''maxBytesPerStream'', ystr ''1B'')])]),
         (''compare'', ymap [(''ignore'', yseq [ymap [(''field'', ystr ''process.pid'')]]), (''repetitions'', yint ''3'')]),
         (''policy'', ymap [(''profile'', ystr ''strict'')])])]"

definition demoPipeline :: ValidatedPipeline where
  "demoPipeline = \<lparr>vp_Name = ''p'', vp_Image = demoImage, vp_ImageDigest = replicate 64 (CHR ''0''), vp_Workdir = ''/w'',
     vp_Resources = \<lparr>vr_CPU = 2, vr_MemoryBytes = 16777216, vr_DiskBytes = 16777216, vr_ProcessCount = 9,
       vr_TimeoutMillis = 2000\<rparr>,
     vp_Network = \<lparr>vn_Mode = ''deny'', vn_Allow = []\<rparr>,
     vp_Scenarios = [\<lparr>vs_ID = ''t'', vs_Name = ''T'', vs_Shell = ''/bin/sh'', vs_Run = ''a'', vs_TimeoutMillis = 1000\<rparr>],
     vp_Collect = \<lparr>vc_FilesystemRoots = [''/w''], vc_FilesystemContents = ''metadata-and-digests'',
       vc_Artifacts = [\<lparr>vt_Path = ''/w/*'', vt_MaxBytes = 1\<rparr>], vc_LogMaxBytesPerStream = 1\<rparr>,
     vp_Compare = \<lparr>vm_IgnoreFields = [''process.pid''], vm_Repetitions = 3\<rparr>, vp_PolicyProfile = ''strict''\<rparr>"

definition demoLoad :: yaml_load where
  "demoLoad depth data = Inr [demoTree]"


lemmas demo_defs = demoTree_def demoScenarioNode_def ymap_def yseq_def ystr_def yint_def

lemma demoImage_simps [simp]: "length demoImage = 73" "demoImage \<noteq> []"
  by (simp_all add: demoImage_def)

definition dstr :: "string \<Rightarrow> StringValue" where
  "dstr s = \<lparr>sv_Present = True, sv_Null = False, sv_Value = s, sv_Line = 1, sv_Column = 1\<rparr>"

definition dint :: "int \<Rightarrow> IntValue" where
  "dint i = \<lparr>iv_Present = True, iv_Null = False, iv_Value = i, iv_Line = 1, iv_Column = 1\<rparr>"

definition dpr :: Presence where
  "dpr = \<lparr>pr_Present = True, pr_Null = False, pr_Line = 1, pr_Column = 1\<rparr>"

definition demoDocument :: Document where
  "demoDocument = \<lparr>dc_APIVersion = dstr ''glassroot.dev/v1alpha1'', dc_Kind = dstr ''Pipeline'',
     dc_Metadata = Presence.extend dpr \<lparr>md_Name = dstr ''p''\<rparr>,
     dc_Spec = Presence.extend dpr
       \<lparr>sp_Environment = Presence.extend dpr \<lparr>ev_Image = dstr demoImage, ev_Workdir = dstr ''/w''\<rparr>,
        sp_Resources = Presence.extend dpr \<lparr>rs_CPU = dint 2, rs_Memory = dstr ''16MiB'', rs_Disk = dstr ''16MiB'',
          rs_Processes = dint 9, rs_Timeout = dstr ''2s''\<rparr>,
        sp_Network = Presence.extend dpr \<lparr>nw_Mode = dstr ''deny'', nw_Allow = dpr, nw_AllowLen = 0\<rparr>,
        sp_ScenariosInfo = dpr,
        sp_Scenarios = [Presence.extend dpr \<lparr>sc_ID = dstr ''t'', sc_Name = dstr ''T'', sc_Shell = dstr ''/bin/sh'',
          sc_Run = dstr ''a'', sc_Timeout = dstr ''1s''\<rparr>],
        sp_Collect = Presence.extend dpr
          \<lparr>co_Filesystem = Presence.extend dpr \<lparr>fc_RootsInfo = dpr, fc_Roots = [dstr ''/w''],
             fc_Contents = dstr ''metadata-and-digests''\<rparr>,
           co_ArtifactsInfo = dpr,
           co_Artifacts = [Presence.extend dpr \<lparr>ac_Path = dstr ''/w/*'', ac_MaxBytes = dstr ''1B''\<rparr>],
           co_Logs = Presence.extend dpr \<lparr>lc_MaxBytesPerStream = dstr ''1B''\<rparr>\<rparr>,
        sp_Compare = Presence.extend dpr \<lparr>cp_IgnoreInfo = dpr,
          cp_Ignore = [Presence.extend dpr \<lparr>ig_Field = dstr ''process.pid''\<rparr>], cp_Repetitions = dint 3\<rparr>,
        sp_Policy = Presence.extend dpr \<lparr>ps_Profile = dstr ''strict''\<rparr>\<rparr>\<rparr>"

lemmas decode_defs = decodeDocument_def decodeMetadata_def decodeSpec_def decodeEnvironment_def decodeResources_def
  decodeNetwork_def decodeScenario_def decodeCollect_def decodeFilesystem_def decodeArtifact_def decodeLogs_def
  decodeCompare_def decodeIgnoreField_def decodePolicy_def section_fields_def mappingFields_def mapping_step_def
  items_of_def sequencePresence_def stringField_def intField_def isNullNode_def isStringKey_def Presence.defs

lemmas value_defs = dstr_def dint_def dpr_def Presence.defs missingString_def missingInt_def absent_def

lemma demo_inspected: "fst (inspectYAMLNode demoTree [] 1 0) = []"
proof -
  have "plain_tree isCustomTag demoTree" by (simp add: demo_defs isStringKey_def isCustomTag_def)
  moreover have "short_scalars demoTree" by (simp add: demo_defs)
  moreover have "node_count demoTree = 43" by (simp add: demo_defs)
  moreover have "node_depth demoTree = 6" by (simp add: demo_defs)
  ultimately show ?thesis using inspect_complete(1) [of demoTree 0 1 "[]"] by simp
qed

lemma demo_known: "inspectKnownFields demoTree [] = []"
  by (simp add: demo_defs isStringKey_def allowedFieldsForPath_def sequenceItemPath_def childPath_def)

lemma demo_decoded: "decodeDocument demoTree = Inr demoDocument"
  by (simp add: demo_defs decode_defs Let_def demoDocument_def dstr_def dint_def dpr_def parse_int64_def
      has_prefix_def digit_char_def)

lemma demo_preflight: "preflightInput ''a'' = []"
  by (simp add: preflightInput_def trim_left_space.simps decode_rune_def seq_len_def seq_rune_def byte_in_def
      byte_val_def is_space_rune_def firstDirective_def isDirective_def has_prefix_def)

lemma demo_paths: "validateAbsoluteLexicalPath ''/w''" "validateArtifactGlob ''/w/*''"
  by code_simp+

lemma demo_image: "validateImmutableImage demoImage = Inr (replicate 64 (CHR ''0''))"
  by code_simp

lemmas unit_defs = has_suffix_def trim_suffix_def parsePositiveUnitNumber_def parse_uint63_def digit_char_def
  signed64_def

lemma demo_sizes:
  "ParseSizeBytes ''16MiB'' = Some 16777216" "ParseSizeBytes ''1B'' = Some 1"
  "ParseDurationMillis ''2s'' = Some 2000" "ParseDurationMillis ''1s'' = Some 1000"
  by (simp_all add: ParseSizeBytes_def ParseDurationMillis_def sizeUnits_def durationUnits_def unit_defs)

lemma demo_scenario_valid:
  "validateScenario path [] 2000 (Presence.extend dpr \<lparr>sc_ID = dstr ''t'', sc_Name = dstr ''T'',
     sc_Shell = dstr ''/bin/sh'', sc_Run = dstr ''a'', sc_Timeout = dstr ''1s''\<rparr>)
   = ([], [''t''], \<lparr>vs_ID = ''t'', vs_Name = ''T'', vs_Shell = ''/bin/sh'', vs_Run = ''a'', vs_TimeoutMillis = 1000\<rparr>)"
  by (simp add: validateScenario_def scenarioIDCheck_def scenarioNameCheck_def scenarioShellCheck_def
      scenarioRunCheck_def validateDurationField_def value_defs demo_sizes validateIdentifier_def
      identifierPattern_def validateScenarioName_def isAllowedShell_def validateRun_def byte_in_def
      hasControl_def control_char_def)

lemma demo_validated: "Validate demoDocument = Inr demoPipeline"
proof -
  have header: "validateHeader demoDocument zeroPipeline = ([], zeroPipeline\<lparr>vp_Name := ''p''\<rparr>)"
    by (simp add: validateHeader_def demoDocument_def value_defs validateIdentifier_def identifierPattern_def byte_in_def)
  show ?thesis
    unfolding Validate_def header
    by (simp add: demoDocument_def andThen_def demo_scenario_valid [simplified dstr_def dpr_def Presence.defs, simplified] demo_sizes demo_paths demo_image
        validateEnvironment_def validateResources_def validateNetwork_def validateScenarios_def validateCollect_def
        validateFilesystem_def validateArtifactSection_def validateLogs_def artifactPathCheck_def
        validateCompare_def validatePolicy_def validateSizeField_def validateDurationField_def validateCount_def
        value_defs Let_def accepted_def zeroPipeline_def demoPipeline_def)
qed

lemma demo_parsed: "ParseAndValidate demoLoad ''a'' = Inr demoPipeline"
proof -
  have "loadSingleDocumentNode demoLoad ''a'' = Inr (Some demoTree)"
    by (simp add: loadSingleDocumentNode_def demoLoad_def demoTree_def ymap_def)
  then have "Parse demoLoad ''a'' = Inr demoDocument"
    by (simp add: Parse_def demo_preflight demo_inspected [simplified] demo_known demo_decoded)
  then show ?thesis by (simp add: ParseAndValidate_def demo_validated)
qed

section \<open>Parsing and validation\<close>

lemma preflight_ok:
  "preflightInput data = [] \<Longrightarrow>
     length data \<le> MaxPipelineBytes \<and> validString data \<and> NUL \<notin> set data \<and> firstDirective data = None"
  by (auto simp: preflightInput_def split: if_splits option.splits prod.splits)

lemma Parse_ok:
  assumes "Parse load data = Inr doc"
  shows "preflightInput data = []"
    and "\<exists>root. loadSingleDocumentNode load data = Inr (Some root) \<and> fst (inspectYAMLNode root [] 1 0) = []
      \<and> inspectKnownFields root [] = []"
  using assms by (auto simp: Parse_def Let_def split: if_splits sum.splits option.splits)

text \<open>
  C11. A pipeline that \<open>ParseAndValidate\<close> accepts is well formed: identifiers have the documented
  syntax, the image is pinned by a SHA-256 digest, paths are absolute and clean, resources and sizes are
  within their bounds, the network is denied, scenario identifiers, roots, artifact paths and ignored
  fields are distinct, and no scenario may run longer than the pipeline. The text it came from is valid
  UTF-8 of at most 1 MiB without NUL bytes and directives. The nodes of its tree other than mapping keys are at
  most 20000, at most 32 deep, and none of them is an alias or has an anchor or an explicit or custom tag. Every mapping key is a
  scalar string, no key is a merge key, and the keys of a mapping are distinct; that is all the code requires of keys, which are
  not counted and may have an anchor or an explicit string tag.
\<close>

theorem accepted_pipeline_well_formed:
  assumes "ParseAndValidate load data = Inr p"
  shows "pipeline_ok p
    \<and> length data \<le> MaxPipelineBytes \<and> validString data \<and> NUL \<notin> set data \<and> firstDirective data = None
    \<and> (\<exists>root. loadSingleDocumentNode load data = Inr (Some root) \<and> plain_tree isCustomTag root
        \<and> node_count root \<le> MaxYAMLNodes \<and> node_depth root \<le> MaxYAMLDepth)"
proof -
  obtain doc where doc: "Parse load data = Inr doc" "Validate doc = Inr p"
    using assms by (auto simp: ParseAndValidate_def split: sum.splits)
  obtain root where root: "loadSingleDocumentNode load data = Inr (Some root)"
      "fst (inspectYAMLNode root [] 1 0) = []"
    using Parse_ok(2) [OF doc(1)] by blast
  from root(2) obtain n where "inspectYAMLNode root [] 1 0 = ([], n)" by (metis prod.collapse)
  from inspect_accepts(1) [OF this] have "plain_tree isCustomTag root" "node_count root \<le> MaxYAMLNodes"
    "node_depth root \<le> MaxYAMLDepth" by simp_all
  then show ?thesis using Validate_ok [OF doc(2)] preflight_ok [OF Parse_ok(1) [OF doc(1)]] root(1) by blast
qed

theorem accepted_pipeline_well_formed_witness: "pipeline_ok demoPipeline"
  using accepted_pipeline_well_formed [OF demo_parsed] by blast

text \<open>A key with an anchor and an explicit tag passes, and is not counted.\<close>

lemma anchored_key_passes:
  "inspectYAMLNode (YamlNode MappingNode False ''!!map'' [] [] [YamlNode ScalarNode True ''!!str'' ''name'' ''a'' [] 1 1,
     YamlNode ScalarNode False ''!!str'' ''x'' [] [] 1 7] 1 1) [] 1 0 = ([], 2)"
  by code_simp

text \<open>A suffix without digits behind a number is a suffix of what was written behind the number.\<close>

lemma has_suffix_number:
  assumes "num \<noteq> []" and "list_all digit_char num" and "list_all (\<lambda>c. \<not> digit_char c) q"
  shows "has_suffix (num @ p) q \<longleftrightarrow> has_suffix p q"
proof (cases "length q \<le> length p")
  case True
  then show ?thesis by (simp add: has_suffix_def)
next
  case False
  have "\<not> has_suffix (num @ p) q"
  proof
    assume "has_suffix (num @ p) q"
    then obtain x where x: "num @ p = x @ q" by (metis has_suffixE)
    let ?i = "length num - 1"
    have "length x \<le> ?i" "?i < length num"
      using arg_cong [OF x, of length] False assms(1) by (simp_all add: Suc_le_eq flip: length_greater_0_conv)
    then have "num ! ?i = q ! (?i - length x)" "?i - length x < length q"
      using arg_cong [OF x, of "\<lambda>l. l ! ?i"] arg_cong [OF x, of length] by (auto simp: nth_append)
    moreover have "digit_char (num ! ?i)" using assms(2) \<open>?i < length num\<close> by (simp add: list_all_length)
    moreover have "\<not> digit_char (q ! (?i - length x))"
      using assms(3) \<open>?i - length x < length q\<close> by (simp add: list_all_length)
    ultimately show False by simp
  qed
  with False show ?thesis by (simp add: has_suffix_def)
qed

lemma parsePositiveUnitNumber_complete:
  assumes "num \<noteq> []" and "list_all digit_char num" and "0 < m" and "0 < int (atoi_acc 0 num) * m"
    and "int (atoi_acc 0 num) * m \<le> MaxInt64"
  shows "parsePositiveUnitNumber num m = Some (int (atoi_acc 0 num) * m)"
proof -
  let ?n = "atoi_acc 0 num"
  have "int ?n * 1 \<le> int ?n * m" using assms(3) by (intro mult_left_mono) simp_all
  with assms(5) have "int ?n < int (2 ^ 63)" by simp
  then have "?n < 2 ^ 63" by (simp only: of_nat_less_iff)
  moreover have "0 < ?n" using assms(4) by (cases ?n) auto
  moreover have "\<not> MaxInt64 div m < int ?n" using int_le_div [OF assms(3), of "int ?n" MaxInt64] assms(5) by simp
  moreover have "signed64 (int ?n * m) = int ?n * m" using assms(4,5) by (intro signed64_id) simp_all
  ultimately show ?thesis using assms(1,2) by (simp add: parsePositiveUnitNumber_def parse_uint63_def)
qed

lemma parse_units_number:
  assumes "num \<noteq> []" and "list_all digit_char num" and "\<forall>u \<in> set us. list_all (\<lambda>c. \<not> digit_char c) (fst u)"
  shows "parse_units us (num @ p) =
    (case find (\<lambda>u. has_suffix p (fst u)) us of
       Some (q, m) \<Rightarrow> parsePositiveUnitNumber (trim_suffix (num @ p) q) m | None \<Rightarrow> None)"
  using assms(3) by (induction us) (auto simp: has_suffix_number [OF assms(1,2)])

text \<open>Each unit of the two tables is found at its own entry.\<close>

definition own_entry :: "(string \<times> int) list \<Rightarrow> bool" where
  "own_entry us \<longleftrightarrow> list_all (\<lambda>u. find (\<lambda>w. has_suffix (fst u) (fst w)) us = Some u \<and> 0 < snd u
     \<and> list_all (\<lambda>c. \<not> digit_char c) (fst u)) us"

lemma own_entry_tables: "own_entry sizeUnits" "own_entry durationUnits"
  by (simp_all add: own_entry_def sizeUnits_def durationUnits_def has_suffix_def digit_char_def)

definition unit_value :: "(string \<times> int) list \<Rightarrow> string \<Rightarrow> int \<Rightarrow> bool" where
  "unit_value us s v \<longleftrightarrow> (\<exists>num suffix m. (suffix, m) \<in> set us \<and> s = num @ suffix \<and> num \<noteq> []
     \<and> list_all digit_char num \<and> v = int (atoi_acc 0 num) * m \<and> 0 < v \<and> v \<le> MaxInt64)"

lemma parse_units_exact:
  assumes "own_entry us"
  shows "parse_units us s = Some v \<longleftrightarrow> unit_value us s v"
proof
  assume "parse_units us s = Some v"
  moreover have "\<forall>(suffix, m) \<in> set us. 0 < m" using assms by (auto simp: own_entry_def list_all_iff)
  ultimately show "unit_value us s v" unfolding unit_value_def by (rule parse_units_Some)
next
  assume "unit_value us s v"
  then obtain num suffix m where u: "(suffix, m) \<in> set us" "s = num @ suffix" "num \<noteq> []" "list_all digit_char num"
    "v = int (atoi_acc 0 num) * m" "0 < v" "v \<le> MaxInt64" unfolding unit_value_def by blast
  have entry: "find (\<lambda>w. has_suffix suffix (fst w)) us = Some (suffix, m)" "0 < m"
    "\<forall>u \<in> set us. list_all (\<lambda>c. \<not> digit_char c) (fst u)"
    using assms u(1) unfolding own_entry_def by (force simp: list_all_iff)+
  have "parse_units us s = parsePositiveUnitNumber num m"
    unfolding u(2) parse_units_number [OF u(3,4) entry(3)] entry(1) by simp
  also have "\<dots> = Some v"
    using parsePositiveUnitNumber_complete [OF u(3,4) entry(2)] u(5-7) by simp
  finally show "parse_units us s = Some v" .
qed

text \<open>
  Sizes and durations mean what they say: \<open>ParseSizeBytes\<close> returns \<open>v\<close> exactly when the text is a
  non-empty decimal number followed by one of the units B, KiB, MiB, GiB, TiB and \<open>v\<close> is the number times
  the unit, positive and representable in an \<open>int64\<close>; likewise \<open>ParseDurationMillis\<close> with ms, s, m and h.
  The multiplication never wraps around.
\<close>

lemma units_exact:
  "(ParseSizeBytes s = Some v \<longleftrightarrow> unit_value sizeUnits s v)
   \<and> (ParseDurationMillis s = Some v \<longleftrightarrow> unit_value durationUnits s v)"
  by (simp add: ParseSizeBytes_def ParseDurationMillis_def parse_units_exact own_entry_tables)

section \<open>Differences\<close>

lemma ParseAndValidate_ok: "ParseAndValidate load data = Inr p \<Longrightarrow> pipeline_ok p"
  by (auto simp: ParseAndValidate_def Validate_ok split: sum.splits)

definition demoHeadPipeline :: ValidatedPipeline where
  "demoHeadPipeline = demoPipeline\<lparr>vp_Resources := (vp_Resources demoPipeline)\<lparr>vr_CPU := 3\<rparr>\<rparr>"

lemma demoPipeline_ok: "pipeline_ok demoPipeline"
  using demo_parsed by (rule ParseAndValidate_ok)

lemma demoHead_ok: "pipeline_ok demoHeadPipeline"
  using demoPipeline_ok by (simp add: demoHeadPipeline_def pipeline_ok_def resources_ok_def between_def)

text \<open>
  C13. The difference of two accepted pipelines misses nothing: \<open>ComparePipelines\<close> reports no change
  exactly when the pipelines are equal in every field, and its report is sorted by path, kind and effect.
\<close>

theorem pipeline_difference_complete:
  assumes "pipeline_ok b" and "pipeline_ok h"
  shows "(ComparePipelines sha b h = [] \<longleftrightarrow> b = h)
    \<and> sorted_wrt (\<lambda>x y. \<not> changeLess y x) (ComparePipelines sha b h)"
  using ComparePipelines_Nil [OF assms] config_change_order.sorted_slice_stable
  by (simp add: ComparePipelines_def config_sortChanges_def)

theorem pipeline_difference_complete_witness: "ComparePipelines id demoPipeline demoHeadPipeline \<noteq> []"
proof -
  have "demoPipeline \<noteq> demoHeadPipeline" by (simp add: demoHeadPipeline_def demoPipeline_def)
  then show ?thesis using pipeline_difference_complete [OF demoPipeline_ok demoHead_ok, of id] by blast
qed

text \<open>
  A change is reported as a privilege increase exactly when the head pipeline asks for more
  processors, memory, disk, processes or total time, or for more time in a scenario both pipelines have.
\<close>

lemma privilege_increase_reported:
  assumes "pipeline_ok b" and "pipeline_ok h"
  shows "(\<exists>c \<in> set (ComparePipelines sha b h). cc_Effect c = SecurityEffectPrivilegeIncrease) \<longleftrightarrow>
    (vr_CPU (vp_Resources b) < vr_CPU (vp_Resources h)
     \<or> vr_MemoryBytes (vp_Resources b) < vr_MemoryBytes (vp_Resources h)
     \<or> vr_DiskBytes (vp_Resources b) < vr_DiskBytes (vp_Resources h)
     \<or> vr_ProcessCount (vp_Resources b) < vr_ProcessCount (vp_Resources h)
     \<or> vr_TimeoutMillis (vp_Resources b) < vr_TimeoutMillis (vp_Resources h))
    \<or> (\<exists>s \<in> set (vp_Scenarios b). \<exists>t \<in> set (vp_Scenarios h). vs_ID s = vs_ID t
        \<and> vs_TimeoutMillis s < vs_TimeoutMillis t)"
proof -
  have "distinct (map vs_ID (vp_Scenarios b))" "distinct (map vs_ID (vp_Scenarios h))"
    using assms by (simp_all add: pipeline_ok_def)
  note scenarios = increase_compareScenarios [OF this]
  have mem: "(\<exists>c \<in> set cs. cc_Effect c = e) \<longleftrightarrow> e \<in> effects cs" for cs e by (auto simp: effects_def)
  show ?thesis
    unfolding mem increase_ComparePipelines [OF assms] increase_compareResources scenarios by (rule refl)
qed

lemma privilege_increase_reported_witness:
  "\<exists>c \<in> set (ComparePipelines id demoPipeline demoHeadPipeline). cc_Effect c = SecurityEffectPrivilegeIncrease"
  using privilege_increase_reported [OF demoPipeline_ok demoHead_ok, of id]
  by (simp add: demoHeadPipeline_def demoPipeline_def)

text \<open>
  The values a change shows are printable and bounded: \<open>boundValue\<close> never writes a control
  character and at most 162 bytes. The limit of 160 that the source passes is not kept exactly: one byte
  is reserved for the ellipsis that takes three, and 162 bytes are reached.
\<close>

lemma shown_values_bounded:
  "length (boundValue s) \<le> 162 \<and> \<not> hasControl (boundValue s) \<and> (\<exists>t. length (boundValue t) = 162)"
proof -
  let ?t = "replicate 159 (CHR ''a'') @ [CHR 0xC3, CHR 0xA9, CHR ''a'']"
  have step: "sanitize_loop 160 (CHR ''a'' # rest) b = sanitize_loop 160 rest (b @ ''a'')" if "length b < 160" for rest b
    using that by (subst sanitize_loop.simps)
      (simp add: decode_rune_def seq_len_def seq_rune_def byte_in_def byte_val_def)
  have many: "sanitize_loop 160 (replicate n (CHR ''a'') @ rest) b = sanitize_loop 160 rest (b @ replicate n (CHR ''a''))"
    if "length b + n \<le> 160" for n rest b
    using that
  proof (induction n arbitrary: b)
    case (Suc n)
    then show ?case using step [of b "replicate n (CHR ''a'') @ rest"] by (simp add: replicate_app_Cons_same)
  qed simp
  have "sanitize_loop 160 ?t [] = sanitize_loop 160 [CHR 0xC3, CHR 0xA9, CHR ''a''] ([] @ replicate 159 (CHR ''a''))"
    by (rule many) simp
  also have "\<dots> = (''a'', replicate 159 (CHR ''a''))"
    by (subst sanitize_loop.simps)
      (simp add: decode_rune_def seq_len_def seq_rune_def byte_in_def byte_val_def cont_byte_def)
  finally have "length (boundValue ?t) = 162"
    unfolding boundValue_def sanitizeForDiagnostic_def by (simp add: ellipsis_def)
  moreover have "length (boundValue s) \<le> 160 + 2" unfolding boundValue_def by (rule sanitize_length) simp
  ultimately show ?thesis using sanitize_printable [of s 160] unfolding boundValue_def by auto
qed

section \<open>Trusted loading\<close>

lemma LoadTrusted_ok:
  assumes "LoadTrusted sha load ctx (Some ReadFile) req = Inr r"
  obtains f where "ReadFile (tq_Base req) PipelinePath (int MaxPipelineBytes) = Inr f"
    and "rf_Kind f = EntryKindRegularFile" and "length (rf_bytes f) \<le> MaxPipelineBytes"
    and "ParseAndValidate load (rf_bytes f) = Inr (tl_EffectivePipeline r)"
    and "tl_BaseFile r = metadataForFile sha (tq_Base req) f"
    and "assessHead sha load ReadFile (ctx \<circ> Suc \<circ> Suc) (tq_Head req) (tl_BaseFile r) (rf_bytes f)
           (tl_EffectivePipeline r) = Inr (tl_HeadAssessment r)"
    and "tl_Base r = tq_Base req" and "tl_Head r = tq_Head req" and "tl_EffectiveSource r = ''base''"
    and "tl_EffectivePath r = PipelinePath" and "tl_EffectiveFile r = tl_BaseFile r"
  using assms by (auto simp: LoadTrusted_def Let_def split: if_splits sum.splits)

text \<open>
  C12. The head revision has no authority over the pipeline. Whenever \<open>LoadTrusted\<close> succeeds, the
  effective pipeline is what \<open>ParseAndValidate\<close> makes of the regular file of the base revision, it is well
  formed, and two loads with the same base file, whatever their head revisions and head files are, agree on
  it and on the recorded source.
\<close>

theorem effective_pipeline_from_base:
  assumes "LoadTrusted sha load ctx (Some ReadFile) req = Inr r"
    and "LoadTrusted sha load ctx' (Some ReadFile') req' = Inr r'"
    and "tq_Base req' = tq_Base req"
    and "ReadFile' (tq_Base req) PipelinePath (int MaxPipelineBytes)
         = ReadFile (tq_Base req) PipelinePath (int MaxPipelineBytes)"
  shows "tl_EffectivePipeline r' = tl_EffectivePipeline r \<and> tl_EffectiveFile r' = tl_EffectiveFile r
    \<and> pipeline_ok (tl_EffectivePipeline r) \<and> tl_EffectiveSource r = ''base''
    \<and> (\<exists>f. ReadFile (tq_Base req) PipelinePath (int MaxPipelineBytes) = Inr f
        \<and> rf_Kind f = EntryKindRegularFile
        \<and> ParseAndValidate load (rf_bytes f) = Inr (tl_EffectivePipeline r))"
proof -
  obtain f where f: "ReadFile (tq_Base req) PipelinePath (int MaxPipelineBytes) = Inr f"
    "rf_Kind f = EntryKindRegularFile" "ParseAndValidate load (rf_bytes f) = Inr (tl_EffectivePipeline r)"
    "tl_EffectiveFile r = metadataForFile sha (tq_Base req) f" "tl_EffectiveSource r = ''base''"
    using LoadTrusted_ok [OF assms(1)] by metis
  obtain f' where f': "ReadFile' (tq_Base req') PipelinePath (int MaxPipelineBytes) = Inr f'"
    "ParseAndValidate load (rf_bytes f') = Inr (tl_EffectivePipeline r')"
    "tl_EffectiveFile r' = metadataForFile sha (tq_Base req') f'"
    using LoadTrusted_ok [OF assms(2)] by metis
  have "f' = f" using f(1) f'(1) assms(3,4) by simp
  then show ?thesis using f f' assms(3) ParseAndValidate_ok by auto
qed

definition demoFile :: RevisionFile where
  "demoFile = \<lparr>rf_Kind = EntryKindRegularFile, rf_Data = Some ''a'', rf_Executable = False, rf_ObjectID = []\<rparr>"

definition demoBaseRevision :: CommitRef where "demoBaseRevision = noCommit\<lparr>cr_Kind := ''base''\<rparr>"

text \<open>One source has the pipeline file on both sides, the other one has lost it in the head.\<close>

definition demoBoth :: read_file where "demoBoth c path mx = Inr demoFile"

definition demoLost :: read_file where
  "demoLost c path mx =
     (if c = demoBaseRevision then Inr demoFile else Inl \<lparr>re_NotExist = True, re_TooLarge = False, re_Cancelled = False\<rparr>)"

definition demoRequest :: TrustedLoadRequest where
  "demoRequest = \<lparr>tq_Base = demoBaseRevision, tq_Head = noCommit\<rparr>"

definition demoTrusted :: "(string \<Rightarrow> string) \<Rightarrow> HeadAssessment \<Rightarrow> TrustedLoadResult" where
  "demoTrusted sha a =
     (let m = metadataForFile sha demoBaseRevision demoFile in
      \<lparr>tl_Base = demoBaseRevision, tl_Head = noCommit, tl_EffectivePipeline = demoPipeline, tl_EffectiveSource = ''base'',
       tl_EffectivePath = PipelinePath, tl_EffectiveFile = m, tl_BaseFile = m, tl_HeadAssessment = a\<rparr>)"

lemma demoFile_simps [simp]: "rf_bytes demoFile = ''a''" "rf_Kind demoFile = EntryKindRegularFile"
  by (simp_all add: rf_bytes_def demoFile_def)

lemma demo_loads:
  "LoadTrusted sha demoLoad live (Some demoBoth) demoRequest = Inr (demoTrusted sha
     (assessment HeadStateUnchanged (metadataForFile sha demoBaseRevision demoFile) (metadataForFile sha noCommit demoFile)))"
  "LoadTrusted sha demoLoad live (Some demoLost) demoRequest = Inr (demoTrusted sha
     (assessment HeadStateRemoved (metadataForFile sha demoBaseRevision demoFile) noFile))"
proof -
  have "demoBaseRevision \<noteq> noCommit" by (simp add: demoBaseRevision_def noCommit_def)
  then show "LoadTrusted sha demoLoad live (Some demoBoth) demoRequest = Inr (demoTrusted sha
     (assessment HeadStateUnchanged (metadataForFile sha demoBaseRevision demoFile) (metadataForFile sha noCommit demoFile)))"
    "LoadTrusted sha demoLoad live (Some demoLost) demoRequest = Inr (demoTrusted sha
     (assessment HeadStateRemoved (metadataForFile sha demoBaseRevision demoFile) noFile))"
    by (simp_all add: LoadTrusted_def demoRequest_def demoBoth_def demoLost_def demo_parsed assessHead_def
        assessHeadFile_def demoTrusted_def Let_def)
qed

theorem effective_pipeline_from_base_witness:
  "\<exists>r r'. LoadTrusted id demoLoad live (Some demoBoth) demoRequest = Inr r
     \<and> LoadTrusted id demoLoad live (Some demoLost) demoRequest = Inr r'
     \<and> tl_EffectivePipeline r' = tl_EffectivePipeline r \<and> pipeline_ok (tl_EffectivePipeline r)"
proof -
  have same: "demoLost (tq_Base demoRequest) PipelinePath (int MaxPipelineBytes)
      = demoBoth (tq_Base demoRequest) PipelinePath (int MaxPipelineBytes)"
    by (simp add: demoLost_def demoBoth_def demoRequest_def)
  note effective_pipeline_from_base [OF demo_loads [of id] refl same]
  then show ?thesis using demo_loads [of id] by blast
qed

text \<open>
  The states of the head file, each with its exact condition: removed when the head has no file;
  modified-invalid when it is too large or is not accepted; unsupported when it is not a regular file;
  unchanged when it has the same bytes; semantically equivalent when the bytes differ and the head file is
  accepted with the same pipeline; modified-valid, with at least one change listed, when it is accepted with
  another pipeline.
\<close>

lemma head_states_exact:
  assumes "LoadTrusted sha load ctx (Some ReadFile) req = Inr r"
    and "ReadFile (tq_Base req) PipelinePath (int MaxPipelineBytes) = Inr f"
  shows "case ReadFile (tq_Head req) PipelinePath (int MaxPipelineBytes) of
      Inl e \<Rightarrow> ha_State (tl_HeadAssessment r) = (if re_NotExist e then HeadStateRemoved else HeadStateModifiedInvalid)
        \<and> (re_NotExist e \<or> re_TooLarge e)
    | Inr g \<Rightarrow>
        ha_State (tl_HeadAssessment r) =
          (if rf_Kind g \<noteq> EntryKindRegularFile then HeadStateUnsupportedEntryKind
           else if length (rf_bytes g) > MaxPipelineBytes then HeadStateModifiedInvalid
           else if rf_bytes g = rf_bytes f then HeadStateUnchanged
           else case ParseAndValidate load (rf_bytes g) of
             Inl _ \<Rightarrow> HeadStateModifiedInvalid
           | Inr p \<Rightarrow> if p = tl_EffectivePipeline r then HeadStateContentChangedSemanticallyEquivalent
                      else HeadStateModifiedValid)
        \<and> (ha_Changes (tl_HeadAssessment r) \<noteq> [] \<longleftrightarrow> ha_State (tl_HeadAssessment r) = HeadStateModifiedValid)"
proof -
  obtain a where f: "ParseAndValidate load (rf_bytes f) = Inr (tl_EffectivePipeline r)"
    and a: "assessHead sha load ReadFile (ctx \<circ> Suc \<circ> Suc) (tq_Head req) (tl_BaseFile r) (rf_bytes f)
      (tl_EffectivePipeline r) = Inr (tl_HeadAssessment r)"
    using LoadTrusted_ok [OF assms(1)] assms(2) by (metis Inr_inject)
  have same: "ComparePipelines sha (tl_EffectivePipeline r) p = [] \<longleftrightarrow> p = tl_EffectivePipeline r"
    if "ParseAndValidate load (rf_bytes g) = Inr p" for g p
    using ComparePipelines_Nil ParseAndValidate_ok that f by metis
  show ?thesis
  proof (cases "ReadFile (tq_Head req) PipelinePath (int MaxPipelineBytes)")
    case (Inl e)
    then show ?thesis
      using a by (auto simp: assessHead_def assessment_def dest!: sym [of _ "tl_HeadAssessment r"] split: if_splits)
  next
    case (Inr g)
    then have h: "tl_HeadAssessment r = assessHeadFile sha load (tl_BaseFile r) (rf_bytes f) (tl_EffectivePipeline r)
        (metadataForFile sha (tq_Head req) g) g"
      using a by (auto simp: assessHead_def split: if_splits)
    show ?thesis
      unfolding Inr h assessHeadFile_def
      by (auto simp: assessment_def Let_def same split: sum.split)
  qed
qed

lemma head_states_exact_witness:
  "ha_State (tl_HeadAssessment (demoTrusted id
     (assessment HeadStateRemoved (metadataForFile id demoBaseRevision demoFile) noFile))) = HeadStateRemoved"
proof -
  have base: "demoLost (tq_Base demoRequest) PipelinePath (int MaxPipelineBytes) = Inr demoFile"
    by (simp add: demoLost_def demoRequest_def)
  have "demoLost (tq_Head demoRequest) PipelinePath (int MaxPipelineBytes)
      = Inl \<lparr>re_NotExist = True, re_TooLarge = False, re_Cancelled = False\<rparr>"
    by (simp add: demoLost_def demoRequest_def demoBaseRevision_def noCommit_def)
  then show ?thesis using head_states_exact [OF demo_loads(2) [of id] base] by simp
qed

end
