(* ===== verification/GoTime.thy ===== *)
theory GoTime
  imports GoText
begin

text \<open>
  Civil time in UTC, as far as waivers use \<open>time.Time\<close>: \<open>time.Parse\<close> with the layout
  \<open>2006-01-02T15:04:05Z\<close> on text of length 20, \<open>Format(time.RFC3339)\<close> of such a time, and the instant
  it denotes. A time is kept by its civil fields; \<open>Equal\<close> and \<open>Before\<close> compare instants. Two lemmas make
  the difference invisible: reading and writing are inverse, and different civil times are different
  instants.
\<close>

record civil =
  cv_year :: nat
  cv_month :: nat
  cv_day :: nat
  cv_hour :: nat
  cv_minute :: nat
  cv_second :: nat

section \<open>Calendar\<close>

definition leap_year :: "nat \<Rightarrow> bool" where
  "leap_year y \<longleftrightarrow> y mod 4 = 0 \<and> (y mod 100 \<noteq> 0 \<or> y mod 400 = 0)"

definition year_days :: "nat \<Rightarrow> nat" where
  "year_days y = (if leap_year y then 366 else 365)"

definition days_in :: "nat \<Rightarrow> nat \<Rightarrow> nat" where
  "days_in y m = (if m = 2 then if leap_year y then 29 else 28 else if m \<in> {4, 6, 9, 11} then 30 else 31)"

text \<open>Days from the first day of year 0 to the first day of a year, and within a year to a month.\<close>

definition days_before_year :: "nat \<Rightarrow> nat" where
  "days_before_year y = 365 * y + (y + 3) div 4 + (y + 399) div 400 - (y + 99) div 100"

fun days_before_month :: "nat \<Rightarrow> nat \<Rightarrow> nat" where
  "days_before_month y 0 = 0"
| "days_before_month y (Suc m) = days_before_month y m + (if m = 0 then 0 else days_in y m)"

definition civil_ok :: "civil \<Rightarrow> bool" where
  "civil_ok c \<longleftrightarrow> cv_year c < 10000 \<and> 1 \<le> cv_month c \<and> cv_month c \<le> 12 \<and> 1 \<le> cv_day c
     \<and> cv_day c \<le> days_in (cv_year c) (cv_month c) \<and> cv_hour c < 24 \<and> cv_minute c < 60 \<and> cv_second c < 60"

definition day_number :: "civil \<Rightarrow> nat" where
  "day_number c = days_before_year (cv_year c) + days_before_month (cv_year c) (cv_month c) + (cv_day c - 1)"

definition seconds_of :: "civil \<Rightarrow> nat" where
  "seconds_of c = ((day_number c * 24 + cv_hour c) * 60 + cv_minute c) * 60 + cv_second c"

text \<open>\<open>t.Unix()\<close>.\<close>

definition unix :: "civil \<Rightarrow> int" where
  "unix c = int (seconds_of c) - 62167219200"

lemma div_round_up_Suc:
  assumes "0 < k"
  shows "(Suc y + (k - 1)) div k = (y + (k - 1)) div k + (if y mod k = 0 then 1 else 0)"
proof -
  have "Suc (y + (k - 1)) mod k = y mod k" using assms by simp
  then show ?thesis by (simp add: div_Suc)
qed

lemma days_before_year_Suc: "days_before_year (Suc y) = days_before_year y + year_days y"
proof -
  have up: "(Suc y + 3) div 4 = (y + 3) div 4 + (if y mod 4 = 0 then 1 else 0)"
    "(Suc y + 99) div 100 = (y + 99) div 100 + (if y mod 100 = 0 then 1 else 0)"
    "(Suc y + 399) div 400 = (y + 399) div 400 + (if y mod 400 = 0 then 1 else 0)"
    using div_round_up_Suc [of 4 y] div_round_up_Suc [of 100 y] div_round_up_Suc [of 400 y] by simp_all
  have "(y + 99) div 100 \<le> (y * 100 + 99) div 100" by (intro div_le_mono) simp
  also have "\<dots> = y" by simp
  finally have le: "(y + 99) div 100 \<le> 365 * y" by simp
  have "400 dvd y \<Longrightarrow> 100 dvd y" "100 dvd y \<Longrightarrow> 4 dvd y"
    using dvd_trans [of 100 400 y] dvd_trans [of 4 100 y] by simp_all
  then have "y mod 400 = 0 \<Longrightarrow> y mod 100 = 0" "y mod 100 = 0 \<Longrightarrow> y mod 4 = 0" by (simp_all add: mod_eq_0_iff_dvd)
  then show ?thesis
    unfolding days_before_year_def year_days_def leap_year_def up using le by (auto simp: ac_simps)
qed

lemma days_before_month_end: "days_before_month y 13 = year_days y"
  by (simp add: year_days_def days_in_def numeral_nat)

text \<open>A number is split into the interval it falls in and the rest in only one way.\<close>

lemma interval_unique:
  fixes f len :: "nat \<Rightarrow> nat"
  assumes f: "\<And>k. f (Suc k) = f k + len k"
    and "f i + a = f j + b" and "a < len i" and "b < len j"
  shows "i = j \<and> a = b"
proof -
  have mono: "m \<le> n \<Longrightarrow> f m \<le> f n" for m n by (rule lift_Suc_mono_le) (simp_all add: f)
  have "\<not> i < j"
  proof
    assume "i < j"
    then have "f i + len i \<le> f j" using mono [of "Suc i" j] f by simp
    then show False using assms by linarith
  qed
  moreover have "\<not> j < i"
  proof
    assume "j < i"
    then have "f j + len j \<le> f i" using mono [of "Suc j" i] f by simp
    then show False using assms by linarith
  qed
  ultimately show ?thesis using assms(2) by simp
qed

lemma day_of_year_less:
  assumes "1 \<le> m" and "m \<le> 12" and "d < days_in y m"
  shows "days_before_month y m + d < year_days y"
proof -
  have mono: "k \<le> n \<Longrightarrow> days_before_month y k \<le> days_before_month y n" for k n
    by (rule lift_Suc_mono_le) simp_all
  have "days_before_month y m + d < days_before_month y (Suc m)" using assms by simp
  also have "\<dots> \<le> days_before_month y 13" using assms by (intro mono) simp
  finally show ?thesis by (simp add: days_before_month_end)
qed

lemma day_number_inject:
  assumes "civil_ok c" and "civil_ok d" and "day_number c = day_number d"
  shows "cv_year c = cv_year d \<and> cv_month c = cv_month d \<and> cv_day c = cv_day d"
proof -
  let ?r = "\<lambda>c. days_before_month (cv_year c) (cv_month c) + (cv_day c - 1)"
  have r: "?r c < year_days (cv_year c)" if "civil_ok c" for c
    using that by (intro day_of_year_less) (auto simp: civil_ok_def)
  have "days_before_year (cv_year c) + ?r c = days_before_year (cv_year d) + ?r d"
    using assms(3) by (simp add: day_number_def)
  with r [OF assms(1)] r [OF assms(2)]
  have year: "cv_year c = cv_year d" "?r c = ?r d"
    using interval_unique [of days_before_year year_days] days_before_year_Suc by blast+
  let ?len = "\<lambda>m. if m = 0 then 0 else days_in (cv_year d) m"
  have "cv_month c = cv_month d \<and> cv_day c - 1 = cv_day d - 1"
    using year assms(1,2) by (intro interval_unique [of "days_before_month (cv_year d)" ?len]) (auto simp: civil_ok_def)
  then show ?thesis using year(1) assms(1,2) by (auto simp: civil_ok_def)
qed

lemma radix_unique:
  fixes a b x y k :: nat
  assumes "a * k + x = b * k + y" and "x < k" and "y < k"
  shows "a = b \<and> x = y"
proof -
  have "(a * k + x) div k = a" "(b * k + y) div k = b" using assms(2,3) by simp_all
  then have "a = b" using assms(1) by simp
  then show ?thesis using assms(1) by simp
qed

lemma seconds_inject:
  assumes "civil_ok c" and "civil_ok d" and "seconds_of c = seconds_of d"
  shows "c = d"
proof -
  have s: "cv_second c < 60" "cv_second d < 60" "cv_minute c < 60" "cv_minute d < 60" "cv_hour c < 24" "cv_hour d < 24"
    using assms(1,2) by (simp_all add: civil_ok_def)
  note second = radix_unique [OF assms(3) [unfolded seconds_of_def] s(1,2)]
  note minute = radix_unique [OF conjunct1 [OF second] s(3,4)]
  note hour = radix_unique [OF conjunct1 [OF minute] s(5,6)]
  show ?thesis using day_number_inject [OF assms(1,2)] second minute hour by simp
qed

lemma unix_inject: "civil_ok c \<Longrightarrow> civil_ok d \<Longrightarrow> unix c = unix d \<longleftrightarrow> c = d"
  using seconds_inject by (auto simp: unix_def)

section \<open>Text\<close>

definition digit_val :: "char \<Rightarrow> nat" where
  "digit_val c = of_char c - 48"

definition digit_of :: "nat \<Rightarrow> char" where
  "digit_of d = char_of (48 + d)"

definition num2 :: "char \<Rightarrow> char \<Rightarrow> nat" where
  "num2 a b = 10 * digit_val a + digit_val b"

definition pad2 :: "nat \<Rightarrow> string" where
  "pad2 n = [digit_of (n div 10), digit_of (n mod 10)]"

text \<open>\<open>time.Parse("2006-01-02T15:04:05Z", s)\<close> on 20 bytes: every field has its full width.\<close>

definition time_parse :: "string \<Rightarrow> civil option" where
  "time_parse s =
     (case s of
        [y1, y2, y3, y4, d1, m1, m2, d2, a1, a2, t, h1, h2, c1, i1, i2, c2, s1, s2, z] \<Rightarrow>
          let c = \<lparr>cv_year = 100 * num2 y1 y2 + num2 y3 y4, cv_month = num2 m1 m2, cv_day = num2 a1 a2,
                   cv_hour = num2 h1 h2, cv_minute = num2 i1 i2, cv_second = num2 s1 s2\<rparr>
          in if list_all digit_char [y1, y2, y3, y4, m1, m2, a1, a2, h1, h2, i1, i2, s1, s2]
                \<and> d1 = CHR ''-'' \<and> d2 = CHR ''-'' \<and> t = CHR ''T'' \<and> c1 = CHR '':'' \<and> c2 = CHR '':'' \<and> z = CHR ''Z''
                \<and> civil_ok c
             then Some c else None
      | _ \<Rightarrow> None)"

definition time_format :: "civil \<Rightarrow> string" where
  "time_format c = pad2 (cv_year c div 100) @ pad2 (cv_year c mod 100) @ ''-'' @ pad2 (cv_month c) @ ''-''
     @ pad2 (cv_day c) @ ''T'' @ pad2 (cv_hour c) @ '':'' @ pad2 (cv_minute c) @ '':'' @ pad2 (cv_second c) @ ''Z''"

lemma digit_val_of: "d < 10 \<Longrightarrow> digit_val (digit_of d) = d" "d < 10 \<Longrightarrow> digit_char (digit_of d)"
  by (simp_all add: digit_val_def digit_of_def digit_char_of)

lemma digit_of_val:
  assumes "digit_char c"
  shows "digit_of (digit_val c) = c" and "digit_val c < 10"
proof -
  have "48 \<le> (of_char c :: nat)" "of_char c \<le> (57 :: nat)"
    using assms by (simp_all add: digit_char_def less_eq_char_def)
  then show "digit_of (digit_val c) = c" "digit_val c < 10" by (simp_all add: digit_of_def digit_val_def char_of_char)
qed

lemma pad2_num2: "digit_char a \<Longrightarrow> digit_char b \<Longrightarrow> pad2 (num2 a b) = [a, b]"
  using digit_of_val [of a] digit_of_val [of b] by (simp add: pad2_def num2_def)

lemma num2_less: "digit_char a \<Longrightarrow> digit_char b \<Longrightarrow> num2 a b < 100"
  using digit_of_val(2) [of a] digit_of_val(2) [of b] by (simp add: num2_def)

lemma num2_pad2: "n < 100 \<Longrightarrow> num2 (digit_of (n div 10)) (digit_of (n mod 10)) = n"
  by (simp add: num2_def digit_val_of)

lemma time_parse_format:
  assumes "civil_ok c"
  shows "time_parse (time_format c) = Some c"
proof -
  have y: "cv_year c div 100 < 100" "cv_year c mod 100 < 100" using assms by (auto simp: civil_ok_def)
  have "cv_day c \<le> 31" using assms by (auto simp: civil_ok_def days_in_def split: if_splits)
  then have r: "cv_month c < 100" "cv_day c < 100" "cv_hour c < 100" "cv_minute c < 100" "cv_second c < 100"
    using assms by (simp_all add: civil_ok_def)
  have d: "n < 100 \<Longrightarrow> digit_char (digit_of (n div 10)) \<and> digit_char (digit_of (n mod 10))" for n
    using digit_val_of(2) by simp
  have "100 * (cv_year c div 100) + cv_year c mod 100 = cv_year c" by simp
  moreover have eta: "\<lparr>cv_year = cv_year c, cv_month = cv_month c, cv_day = cv_day c, cv_hour = cv_hour c,
      cv_minute = cv_minute c, cv_second = cv_second c\<rparr> = c" by simp
  ultimately show ?thesis
    using assms d y r by (simp add: time_parse_def time_format_def pad2_def num2_pad2 Let_def eta)
qed

lemma time_format_parse:
  assumes "time_parse s = Some c"
  shows "time_format c = s" and "civil_ok c"
proof -
  obtain y1 y2 y3 y4 d1 m1 m2 d2 a1 a2 t h1 h2 c1 i1 i2 c2 s1 s2 z where s:
    "s = [y1, y2, y3, y4, d1, m1, m2, d2, a1, a2, t, h1, h2, c1, i1, i2, c2, s1, s2, z]"
    and ds: "list_all digit_char [y1, y2, y3, y4, m1, m2, a1, a2, h1, h2, i1, i2, s1, s2]"
    and seps: "d1 = CHR ''-''" "d2 = CHR ''-''" "t = CHR ''T''" "c1 = CHR '':''" "c2 = CHR '':''" "z = CHR ''Z''"
    and ok: "civil_ok c"
    and c: "c = \<lparr>cv_year = 100 * num2 y1 y2 + num2 y3 y4, cv_month = num2 m1 m2, cv_day = num2 a1 a2,
                 cv_hour = num2 h1 h2, cv_minute = num2 i1 i2, cv_second = num2 s1 s2\<rparr>"
    using assms unfolding time_parse_def by (auto simp: Let_def split: list.splits if_splits)
  show "civil_ok c" by (rule ok)
  have "(100 * num2 y1 y2 + num2 y3 y4) div 100 = num2 y1 y2" "(100 * num2 y1 y2 + num2 y3 y4) mod 100 = num2 y3 y4"
    using ds num2_less [of y3 y4] by simp_all
  then show "time_format c = s" using ds seps by (simp add: time_format_def c s pad2_num2)
qed

section \<open>Instants with a location\<close>

text \<open>
  A \<open>time.Time\<close> that a caller passes in: the instant in nanoseconds since the Unix epoch, the offset of its
  zone, and whether it is its own canonical form, \<open>t == t.UTC().Round(0)\<close> as a comparison of structs (no
  monotonic reading, the UTC location).
\<close>

record go_time =
  gt_nanos :: int
  gt_offset :: int
  gt_canonical :: bool

definition time_is_zero :: "go_time \<Rightarrow> bool" where
  "time_is_zero t \<longleftrightarrow> gt_nanos t = - 62135596800 * 10 ^ 9"

text \<open>The supported range of the control plane: from 2020 up to, but not including, 2100.\<close>

definition minInstant :: int where "minInstant = 1577836800 * 10 ^ 9"
definition maxInstant :: int where "maxInstant = 4102444800 * 10 ^ 9"

text \<open>The instant of a civil time in nanoseconds.\<close>

definition instant :: "civil \<Rightarrow> int" where
  "instant c = unix c * 10 ^ 9"

end
