(* ===== verification/Waiver.thy ===== *)
theory Waiver
  imports GoTime Config_Trusted Encoding
begin

text \<open>
  \<open>internal/waiver\<close>: the strict parser of waiver files, their semantic digest, and the loading of the
  trusted base file together with the assessment of the head file.

  \<open>yaml.Load\<close> and \<open>RevisionFileSource.ReadFile\<close> are arguments, as for the pipeline. An error keeps its
  code, its stage and, where the message is a piece of the input, that piece.
\<close>

section \<open>Types\<close>

abbreviation WaiverPath :: string where "WaiverPath \<equiv> ''.glassroot/waivers.yaml''"

record Target =
  tg_FindingID :: string
  tg_RuleID :: string

record Waiver =
  wv_ID :: string
  wv_Target :: Target
  wv_Owner :: string
  wv_Reason :: string
  wv_IssuedAt :: civil
  wv_ExpiresAt :: civil

record WaiverSet =
  wt_APIVersion :: string
  wt_Kind :: string
  wt_MetadataName :: string
  wt_Waivers :: "Waiver list"
  wt_RawDigest :: Digest
  wt_SemanticDigest :: Digest
  wt_RawSizeBytes :: int

record parsedWaiver =
  pw_id :: string
  pw_findingID :: string
  pw_ruleID :: string
  pw_owner :: string
  pw_reason :: string
  pw_issuedAt :: string
  pw_expiresAt :: string

record parsedDoc =
  pd_apiVersion :: string
  pd_kind :: string
  pd_metadataName :: string
  pd_waivers :: "parsedWaiver list"

definition waiverErr :: "string \<Rightarrow> string \<Rightarrow> string list \<Rightarrow> go_error" where
  "waiverErr code stage fields' = GoError code stage fields'"

section \<open>Limits\<close>

record WaiverLimits =
  wl_MaxWaiverFileBytes :: int
  wl_MaxYAMLDepth :: int
  wl_MaxYAMLNodes :: int
  wl_MaxDiagnostics :: int
  wl_MaxScalarBytes :: int
  wl_MaxWaivers :: int
  wl_MaxOwnerBytes :: int
  wl_MaxReasonBytes :: int
  wl_MaxLifetimeDays :: int

definition waiver_DefaultLimits :: WaiverLimits where
  "waiver_DefaultLimits = \<lparr>wl_MaxWaiverFileBytes = 262144, wl_MaxYAMLDepth = 24, wl_MaxYAMLNodes = 10000,
     wl_MaxDiagnostics = 100, wl_MaxScalarBytes = 4096, wl_MaxWaivers = 1000, wl_MaxOwnerBytes = 256,
     wl_MaxReasonBytes = 1024, wl_MaxLifetimeDays = 90\<rparr>"

definition waiver_zeroLimits :: WaiverLimits where
  "waiver_zeroLimits = \<lparr>wl_MaxWaiverFileBytes = 0, wl_MaxYAMLDepth = 0, wl_MaxYAMLNodes = 0,
     wl_MaxDiagnostics = 0, wl_MaxScalarBytes = 0, wl_MaxWaivers = 0, wl_MaxOwnerBytes = 0,
     wl_MaxReasonBytes = 0, wl_MaxLifetimeDays = 0\<rparr>"

definition waiver_validateLimits :: "WaiverLimits \<Rightarrow> WaiverLimits result" where
  "waiver_validateLimits l =
     (if l = waiver_zeroLimits then Inl (waiverErr ''invalid-value'' ''limits'' [])
      else if list_ex (\<lambda>field. field l \<le> 0 \<or> field l > field waiver_DefaultLimits)
        [wl_MaxWaiverFileBytes, wl_MaxYAMLDepth, wl_MaxYAMLNodes, wl_MaxDiagnostics, wl_MaxScalarBytes,
         wl_MaxWaivers, wl_MaxOwnerBytes, wl_MaxReasonBytes, wl_MaxLifetimeDays]
      then Inl (waiverErr ''invalid-value'' ''limits'' [])
      else Inr l)"

section \<open>Parsing\<close>

definition waiver_preflight :: "string \<Rightarrow> WaiverLimits \<Rightarrow> go_error option" where
  "waiver_preflight data l =
     (if int (length data) > wl_MaxWaiverFileBytes l then Some (waiverErr ''input-too-large'' ''preflight'' [])
      else if \<not> validString data then Some (waiverErr ''invalid-utf8'' ''preflight'' [])
      else if NUL \<in> set data then Some (waiverErr ''nul-byte'' ''preflight'' [])
      else if trim_left_space data = [] then Some (waiverErr ''yaml-syntax'' ''preflight'' [])
      else if list_ex (\<lambda>line. isDirective (trim_left_space line)) (split_on (CHR 0x0A) data)
      then Some (waiverErr ''unsupported-yaml-feature'' ''preflight'' [])
      else None)"

definition waiver_classifyYAMLError :: "yaml_error \<Rightarrow> go_error" where
  "waiver_classifyYAMLError e =
     (let msg = to_lower (ye_Message e) in
      if contains_str msg ''duplicate'' then waiverErr ''duplicate-key'' ''parse'' []
      else if contains_str msg ''alias'' \<or> contains_str msg ''anchor''
      then waiverErr ''unsupported-yaml-feature'' ''parse'' []
      else if contains_str msg ''depth'' then waiverErr ''unsupported-yaml-feature'' ''parse'' []
      else waiverErr ''yaml-syntax'' ''parse'' [])"

definition loadNode :: "yaml_load \<Rightarrow> string \<Rightarrow> WaiverLimits \<Rightarrow> yaml_node option result" where
  "loadNode load data l =
     (case load (nat (wl_MaxYAMLDepth l)) data of
        Inl e \<Rightarrow> Inl (waiver_classifyYAMLError e)
      | Inr [root] \<Rightarrow>
          if n_Kind root = DocumentNode
          then (case n_Content root of [] \<Rightarrow> Inr None | n # _ \<Rightarrow> Inr (Some n))
          else Inr (Some root)
      | Inr docs \<Rightarrow> Inl (waiverErr ''multiple-documents'' ''parse'' []))"

definition waiver_isCustomTag :: "string \<Rightarrow> bool" where
  "waiver_isCustomTag tag \<longleftrightarrow>
     tag \<notin> set [[], ''!!map'', ''!!seq'', ''!!str'', ''!!int'', ''!!null'', ''!!bool'']
     \<and> (has_prefix tag ''!'' \<or> tag = ''!!timestamp'')"

text \<open>The checks of a node before its children; \<open>visited\<close> counts the node itself already.\<close>

definition nodeError ::
  "WaiverLimits \<Rightarrow> yaml_kind \<Rightarrow> bool \<Rightarrow> string \<Rightarrow> string \<Rightarrow> string \<Rightarrow> nat \<Rightarrow> nat \<Rightarrow> go_error option" where
  "nodeError l kind tagged tag val anchor depth visited =
     (if int visited > wl_MaxYAMLNodes l then Some (waiverErr ''unsupported-yaml-feature'' ''parse'' [])
      else if int depth > wl_MaxYAMLDepth l then Some (waiverErr ''unsupported-yaml-feature'' ''parse'' [])
      else if kind = AliasNode \<or> anchor \<noteq> [] then Some (waiverErr ''unsupported-yaml-feature'' ''parse'' [])
      else if tagged \<or> waiver_isCustomTag tag then Some (waiverErr ''unsupported-yaml-feature'' ''parse'' [])
      else if kind = ScalarNode \<and> int (length val) > wl_MaxScalarBytes l
      then Some (waiverErr ''invalid-value'' ''parse'' [])
      else None)"

definition keyError :: "string list \<Rightarrow> yaml_node \<Rightarrow> go_error option" where
  "keyError seen k =
     (if \<not> isStringKey k then Some (waiverErr ''unsupported-yaml-feature'' ''parse'' [])
      else if n_Value k = ''<<'' then Some (waiverErr ''unsupported-yaml-feature'' ''parse'' [])
      else if n_Value k \<in> set seen then Some (waiverErr ''duplicate-key'' ''parse'' [])
      else None)"

text \<open>
  \<open>inspectNode\<close> with its two loops; the counter is threaded through. The source also carries a path that
  it never reads.
\<close>

function inspectNode :: "WaiverLimits \<Rightarrow> yaml_node \<Rightarrow> nat \<Rightarrow> nat \<Rightarrow> go_error option \<times> nat"
  and inspectNodePairs :: "WaiverLimits \<Rightarrow> yaml_node list \<Rightarrow> nat \<Rightarrow> string list \<Rightarrow> nat \<Rightarrow> go_error option \<times> nat"
  and inspectNodeItems :: "WaiverLimits \<Rightarrow> yaml_node list \<Rightarrow> nat \<Rightarrow> nat \<Rightarrow> go_error option \<times> nat" where
  "inspectNode l (YamlNode kind tagged tag val anchor content line col) depth visited =
     (case nodeError l kind tagged tag val anchor depth (Suc visited) of
        Some e \<Rightarrow> (Some e, Suc visited)
      | None \<Rightarrow>
         if kind = MappingNode then inspectNodePairs l content depth [] (Suc visited)
         else if kind = SequenceNode then inspectNodeItems l content depth (Suc visited)
         else (None, Suc visited))"
| "inspectNodePairs l (k # v # rest) depth seen visited =
     (case keyError seen k of
        Some e \<Rightarrow> (Some e, visited)
      | None \<Rightarrow>
         (case inspectNode l v (Suc depth) visited of
            (Some e, now) \<Rightarrow> (Some e, now)
          | (None, now) \<Rightarrow> inspectNodePairs l rest depth (n_Value k # seen) now))"
| "inspectNodePairs l [] depth seen visited = (None, visited)"
| "inspectNodePairs l [k] depth seen visited = (None, visited)"
| "inspectNodeItems l (c # rest) depth visited =
     (case inspectNode l c (Suc depth) visited of
        (Some e, now) \<Rightarrow> (Some e, now)
      | (None, now) \<Rightarrow> inspectNodeItems l rest depth now)"
| "inspectNodeItems l [] depth visited = (None, visited)"
  by pat_completeness auto

termination
  by (relation "measure (\<lambda>x. case x of
        Inl (_, n, _) \<Rightarrow> size n
      | Inr (Inl (_, ns, _)) \<Rightarrow> size_list size ns
      | Inr (Inr (_, ns, _)) \<Rightarrow> size_list size ns)") auto

section \<open>Decoding\<close>

fun mapping_fields :: "string list \<Rightarrow> (yaml_node \<times> yaml_node) list \<Rightarrow> node_fields \<Rightarrow> node_fields result" where
  "mapping_fields allowed [] out = Inr out"
| "mapping_fields allowed ((k, v) # kvs) out =
     (if n_Value k \<notin> set allowed then Inl (waiverErr ''unknown-field'' ''decode'' [])
      else mapping_fields allowed kvs (AList.update (n_Value k) v out))"

definition mapping :: "yaml_node option \<Rightarrow> string \<Rightarrow> string list \<Rightarrow> node_fields result" where
  "mapping n path allowed =
     (case n of
        None \<Rightarrow> Inl (waiverErr ''missing-required-field'' ''decode'' [path])
      | Some m \<Rightarrow>
         if isNullNode m \<or> n_Kind m \<noteq> MappingNode
         then Inl (waiverErr ''missing-required-field'' ''decode'' [path])
         else mapping_fields allowed (node_pairs (n_Content m)) [])"

definition reqString :: "node_fields \<Rightarrow> string \<Rightarrow> string \<Rightarrow> string result" where
  "reqString fs key path =
     (case map_of fs key of
        None \<Rightarrow> Inl (waiverErr ''missing-required-field'' ''decode'' [path])
      | Some n \<Rightarrow>
         if isNullNode n then Inl (waiverErr ''missing-required-field'' ''decode'' [path])
         else if n_Kind n \<noteq> ScalarNode \<or> n_Tag n \<noteq> ''!!str''
         then Inl (waiverErr ''invalid-value'' ''decode'' [path])
         else Inr (n_Value n))"

definition decodeWaiver :: "yaml_node \<Rightarrow> parsedWaiver result" where
  "decodeWaiver item =
     rbind (mapping (Some item) ''spec.waivers[]'' [''id'', ''target'', ''owner'', ''reason'', ''issuedAt'', ''expiresAt'']) (\<lambda>wf.
     rbind (mapping (map_of wf ''target'') ''target'' [''findingId'', ''ruleId'']) (\<lambda>tf.
     rbind (reqString wf ''id'' ''waiver.id'') (\<lambda>wid.
     rbind (reqString tf ''findingId'' ''target.findingId'') (\<lambda>fid.
     rbind (reqString tf ''ruleId'' ''target.ruleId'') (\<lambda>rid.
     rbind (reqString wf ''owner'' ''owner'') (\<lambda>owner.
     rbind (reqString wf ''reason'' ''reason'') (\<lambda>reason.
     rbind (reqString wf ''issuedAt'' ''issuedAt'') (\<lambda>issued.
     rbind (reqString wf ''expiresAt'' ''expiresAt'') (\<lambda>expires.
       Inr \<lparr>pw_id = wid, pw_findingID = fid, pw_ruleID = rid, pw_owner = owner, pw_reason = reason,
            pw_issuedAt = issued, pw_expiresAt = expires\<rparr>)))))))))"

definition decodeDoc :: "yaml_node \<Rightarrow> parsedDoc result" where
  "decodeDoc n =
     rbind (mapping (Some n) [] [''apiVersion'', ''kind'', ''metadata'', ''spec'']) (\<lambda>fs.
     rbind (reqString fs ''apiVersion'' ''apiVersion'') (\<lambda>api.
     rbind (reqString fs ''kind'' ''kind'') (\<lambda>kind.
     rbind (mapping (map_of fs ''metadata'') ''metadata'' [''name'']) (\<lambda>mf.
     rbind (reqString mf ''name'' ''metadata.name'') (\<lambda>name.
     rbind (mapping (map_of fs ''spec'') ''spec'' [''waivers'']) (\<lambda>sf.
       case map_of sf ''waivers'' of
         None \<Rightarrow> Inl (waiverErr ''missing-required-field'' ''decode'' [])
       | Some ws \<Rightarrow>
          if isNullNode ws \<or> n_Kind ws \<noteq> SequenceNode
          then Inl (waiverErr ''missing-required-field'' ''decode'' [])
          else rbind (map_result decodeWaiver (n_Content ws)) (\<lambda>pws.
            Inr \<lparr>pd_apiVersion = api, pd_kind = kind, pd_metadataName = name, pd_waivers = pws\<rparr>)))))))"

section \<open>Validation\<close>

definition validWaiverID :: "string \<Rightarrow> bool" where
  "validWaiverID s \<longleftrightarrow>
     (case s of [] \<Rightarrow> False | c # _ \<Rightarrow> length s \<le> 64 \<and> byte_in 97 122 c \<and> list_all identifier_char s)"

definition validFindingID :: "string \<Rightarrow> bool" where
  "validFindingID s \<longleftrightarrow> length s = 72 \<and> has_prefix s ''finding-'' \<and> list_all lower_hex_char (drop 8 s)"

definition eligibleRules :: "string list" where
  "eligibleRules = [''GR-PROC-001'', ''GR-FS-001'', ''GR-FS-002'', ''GR-NET-001'', ''GR-ART-001'', ''GR-DET-001'',
     ''GR-LIMIT-001'']"

definition eligibleRuleSyntax :: "string \<Rightarrow> bool" where
  "eligibleRuleSyntax rule \<longleftrightarrow> rule \<in> set eligibleRules"

definition validateText :: "string \<Rightarrow> int \<Rightarrow> int \<Rightarrow> bool" where
  "validateText s mn mx \<longleftrightarrow>
     \<not> (int (length s) < mn \<or> int (length s) > mx \<or> \<not> validString s) \<and> \<not> hasControl s"

definition parseWaiverTime :: "string \<Rightarrow> civil option" where
  "parseWaiverTime s =
     (if length s \<noteq> 20 \<or> \<not> has_suffix s ''Z'' \<or> contains_str s ''.'' then None else time_parse s)"

text \<open>
  Both times are whole seconds, so the difference is taken in seconds; \<open>Sub\<close> saturates beyond 292 years,
  far above every limit it is compared with.
\<close>

definition validateWaiver :: "parsedWaiver \<Rightarrow> WaiverLimits \<Rightarrow> Waiver result" where
  "validateWaiver p l =
     (let bad = (\<lambda>code. Inl (waiverErr code ''validate'' [pw_id p])) in
      if \<not> validWaiverID (pw_id p) then bad ''invalid-waiver-id''
      else if \<not> validFindingID (pw_findingID p) then bad ''invalid-finding-id''
      else if \<not> eligibleRuleSyntax (pw_ruleID p) then bad ''invalid-rule-id''
      else if \<not> validateText (pw_owner p) 1 (wl_MaxOwnerBytes l) then bad ''invalid-owner''
      else if \<not> validateText (pw_reason p) 1 (wl_MaxReasonBytes l) then bad ''invalid-reason''
      else case parseWaiverTime (pw_issuedAt p) of
        None \<Rightarrow> bad ''invalid-time''
      | Some issued \<Rightarrow>
         (case parseWaiverTime (pw_expiresAt p) of
            None \<Rightarrow> bad ''invalid-time''
          | Some expires \<Rightarrow>
             if \<not> unix issued < unix expires then bad ''invalid-lifetime''
             else if unix expires - unix issued > wl_MaxLifetimeDays l * 24 * 3600 then bad ''invalid-lifetime''
             else Inr \<lparr>wv_ID = pw_id p,
                  wv_Target = \<lparr>tg_FindingID = pw_findingID p, tg_RuleID = pw_ruleID p\<rparr>,
                  wv_Owner = pw_owner p, wv_Reason = pw_reason p, wv_IssuedAt = issued,
                  wv_ExpiresAt = expires\<rparr>))"

definition targetKey :: "Waiver \<Rightarrow> string" where
  "targetKey w = tg_FindingID (wv_Target w) @ NUL # tg_RuleID (wv_Target w)"

text \<open>The loop over the waivers: the identifiers and target keys seen so far, and the waivers that follow.\<close>

fun validateWaivers :: "WaiverLimits \<Rightarrow> string list \<Rightarrow> string list \<Rightarrow> parsedWaiver list \<Rightarrow> Waiver list result" where
  "validateWaivers l ids targets [] = Inr []"
| "validateWaivers l ids targets (pw # pws) =
     rbind (validateWaiver pw l) (\<lambda>w.
       if wv_ID w \<in> set ids then Inl (waiverErr ''duplicate-waiver-id'' ''validate'' [wv_ID w])
       else if targetKey w \<in> set targets
         \<or> list_ex (\<lambda>existing. has_prefix existing (tg_FindingID (wv_Target w) @ [NUL])) targets
       then Inl (waiverErr ''duplicate-waiver-target'' ''validate'' [tg_FindingID (wv_Target w)])
       else rbind (validateWaivers l (wv_ID w # ids) (targetKey w # targets) pws) (\<lambda>ws. Inr (w # ws)))"

definition waiverLess :: "Waiver \<Rightarrow> Waiver \<Rightarrow> bool" where
  "waiverLess a b \<longleftrightarrow> wv_ID a < wv_ID b"

definition validateParsed :: "parsedDoc \<Rightarrow> WaiverLimits \<Rightarrow> WaiverSet result" where
  "validateParsed p l =
     (if pd_apiVersion p \<noteq> ''glassroot.dev/v1alpha1'' then Inl (waiverErr ''invalid-api-version'' ''validate'' [])
      else if pd_kind p \<noteq> ''WaiverSet'' then Inl (waiverErr ''invalid-kind'' ''validate'' [])
      else if pd_metadataName p \<noteq> ''default'' then Inl (waiverErr ''invalid-value'' ''validate'' [])
      else if int (length (pd_waivers p)) > wl_MaxWaivers l
      then Inl (waiverErr ''input-too-large'' ''validate'' [])
      else rbind (validateWaivers l [] [] (pd_waivers p)) (\<lambda>ws.
        Inr \<lparr>wt_APIVersion = pd_apiVersion p, wt_Kind = pd_kind p, wt_MetadataName = pd_metadataName p,
             wt_Waivers = slice_stable waiverLess ws, wt_RawDigest = [], wt_SemanticDigest = [],
             wt_RawSizeBytes = 0\<rparr>))"

section \<open>Digests\<close>

abbreviation waiverSetDomain :: string where
  "waiverSetDomain \<equiv> ''glassroot.dev/waiver-set-semantic/v1'' @ [NUL]"

definition writeTime :: "civil \<Rightarrow> string" where
  "writeTime t = writeString (time_format t)"

definition writeWaiver :: "Waiver \<Rightarrow> string" where
  "writeWaiver w = writeString (wv_ID w) @ writeString (tg_FindingID (wv_Target w))
     @ writeString (tg_RuleID (wv_Target w)) @ writeString (wv_Owner w) @ writeString (wv_Reason w)
     @ writeTime (wv_IssuedAt w) @ writeTime (wv_ExpiresAt w)"

definition waiverSetBytes :: "WaiverSet \<Rightarrow> string" where
  "waiverSetBytes st = waiverSetDomain @ writeString (wt_APIVersion st) @ writeString (wt_Kind st)
     @ writeString (wt_MetadataName st)
     @ writeList writeWaiver (slice_stable waiverLess (wt_Waivers st))"

definition waiver_semanticDigest :: "(string \<Rightarrow> string) \<Rightarrow> WaiverSet \<Rightarrow> Digest" where
  "waiver_semanticDigest sha st = ''sha256:'' @ sha (waiverSetBytes st)"

definition waiver_Parse :: "(string \<Rightarrow> string) \<Rightarrow> yaml_load \<Rightarrow> string \<Rightarrow> WaiverLimits \<Rightarrow> WaiverSet result" where
  "waiver_Parse sha load data limits =
     rbind (waiver_validateLimits limits) (\<lambda>l.
     rcheck (waiver_preflight data l)
      (rbind (loadNode load data l) (\<lambda>node.
        case node of
          None \<Rightarrow> Inl (waiverErr ''yaml-syntax'' ''parse'' [])
        | Some n \<Rightarrow>
           rcheck (fst (inspectNode l n 1 0))
            (rbind (decodeDoc n) (\<lambda>p.
             rbind (validateParsed p l) (\<lambda>st.
               let st' = st\<lparr>wt_RawDigest := config_digestBytes sha data, wt_RawSizeBytes := int (length data)\<rparr>
               in Inr (st'\<lparr>wt_SemanticDigest := waiver_semanticDigest sha st'\<rparr>)))))))"

section \<open>Changes of the waiver set\<close>

record WaiverChange =
  wc_WaiverID :: string
  wc_Kind :: string

definition waiverFields :: "Waiver \<Rightarrow> Waiver \<Rightarrow> WaiverChange list" where
  "waiverFields b h =
     map (\<lambda>kind. \<lparr>wc_WaiverID = wv_ID b, wc_Kind = kind\<rparr>)
      ((if wv_Target b \<noteq> wv_Target h then [''waiver-target-changed''] else [])
       @ (if wv_Owner b \<noteq> wv_Owner h then [''waiver-owner-changed''] else [])
       @ (if wv_Reason b \<noteq> wv_Reason h then [''waiver-reason-changed''] else [])
       @ (if unix (wv_IssuedAt b) \<noteq> unix (wv_IssuedAt h) then [''waiver-issued-at-changed''] else [])
       @ (if unix (wv_ExpiresAt b) \<noteq> unix (wv_ExpiresAt h) then [''waiver-expiry-changed''] else []))"

definition waiverChangeLess :: "WaiverChange \<Rightarrow> WaiverChange \<Rightarrow> bool" where
  "waiverChangeLess a b \<longleftrightarrow>
     (if wc_WaiverID a \<noteq> wc_WaiverID b then wc_WaiverID a < wc_WaiverID b else wc_Kind a < wc_Kind b)"

definition waiver_sortChanges :: "WaiverChange list \<Rightarrow> WaiverChange list" where
  "waiver_sortChanges changes = slice_stable waiverChangeLess changes"

definition addedChanges :: "Waiver list \<Rightarrow> WaiverChange list" where
  "addedChanges ws = waiver_sortChanges (map (\<lambda>w. \<lparr>wc_WaiverID = wv_ID w, wc_Kind = ''waiver-added''\<rparr>) ws)"

text \<open>
  The loops over the two maps, by identifier; the last waiver of an identifier is the one the map holds.
  The order of a Go map does not matter because no two changes agree in identifier and kind and the
  changes are sorted by them.
\<close>

definition compareSets :: "Waiver list \<Rightarrow> Waiver list \<Rightarrow> WaiverChange list" where
  "compareSets base head =
     waiver_sortChanges
      (concat (map (\<lambda>k. case (byKey wv_ID base k, byKey wv_ID head k) of
                          (Some b, Some h) \<Rightarrow> waiverFields b h
                        | (Some b, None) \<Rightarrow> [\<lparr>wc_WaiverID = k, wc_Kind = ''waiver-removed''\<rparr>]
                        | (None, _) \<Rightarrow> [])
         (remdups (map wv_ID base)))
       @ map (\<lambda>k. \<lparr>wc_WaiverID = k, wc_Kind = ''waiver-added''\<rparr>)
         (filter (\<lambda>k. byKey wv_ID base k = None) (remdups (map wv_ID head))))"

section \<open>Trusted loading\<close>

abbreviation BaseStateAbsent :: string where "BaseStateAbsent \<equiv> ''absent''"
abbreviation BaseStateValid :: string where "BaseStateValid \<equiv> ''valid''"
abbreviation BaseStateInvalid :: string where "BaseStateInvalid \<equiv> ''invalid''"
abbreviation BaseStateUnsupportedEntryKind :: string where
  "BaseStateUnsupportedEntryKind \<equiv> ''unsupported-entry-kind''"
abbreviation HeadStateAbsentOnBoth :: string where "HeadStateAbsentOnBoth \<equiv> ''absent-on-both''"
abbreviation HeadStateAdded :: string where "HeadStateAdded \<equiv> ''added''"

record BaseAssessment =
  wb_State :: string
  wb_File :: FileMetadata
  wb_Waivers :: "Waiver list"
  wb_SemanticDigest :: Digest
  wb_ErrorCode :: string

record WaiverHead =
  wh_State :: string
  wh_File :: FileMetadata
  wh_Waivers :: "Waiver list"
  wh_SemanticDigest :: Digest
  wh_Changes :: "WaiverChange list"
  wh_ErrorCode :: string

record WaiverLoad =
  wr_BaseRevision :: CommitRef
  wr_HeadRevision :: CommitRef
  wr_Base :: BaseAssessment
  wr_Head :: WaiverHead

definition noBase :: BaseAssessment where
  "noBase = \<lparr>wb_State = [], wb_File = noFile, wb_Waivers = [], wb_SemanticDigest = [], wb_ErrorCode = []\<rparr>"

definition noHead :: WaiverHead where
  "noHead = \<lparr>wh_State = [], wh_File = noFile, wh_Waivers = [], wh_SemanticDigest = [], wh_Changes = [],
     wh_ErrorCode = []\<rparr>"

text \<open>What the base read leaves: the assessment, whether the file is present, and the raw bytes kept.\<close>

definition assessBase ::
  "(string \<Rightarrow> string) \<Rightarrow> yaml_load \<Rightarrow> WaiverLimits \<Rightarrow> CommitRef \<Rightarrow> read_error + RevisionFile
     \<Rightarrow> (BaseAssessment \<times> bool \<times> string) result" where
  "assessBase sha load l commit file =
     (case file of
        Inl e \<Rightarrow>
          if re_NotExist e then Inr (noBase\<lparr>wb_State := BaseStateAbsent\<rparr>, False, [])
          else if re_TooLarge e
          then Inr (noBase\<lparr>wb_State := BaseStateInvalid, wb_ErrorCode := ''input-too-large''\<rparr>, True, [])
          else Inl (waiverErr ''base-read-failed'' ''base'' [])
      | Inr f \<Rightarrow>
          (let meta = noBase\<lparr>wb_File := metadataFor sha WaiverPath commit f\<rparr> in
           if rf_Kind f \<noteq> EntryKindRegularFile \<or> rf_Executable f
           then Inr (meta\<lparr>wb_State := BaseStateUnsupportedEntryKind, wb_ErrorCode := ''unsupported-entry-kind''\<rparr>,
                     True, [])
           else if int (length (rf_bytes f)) > wl_MaxWaiverFileBytes l
           then Inr (meta\<lparr>wb_State := BaseStateInvalid, wb_ErrorCode := ''input-too-large''\<rparr>, True, [])
           else case waiver_Parse sha load (rf_bytes f) l of
             Inl e \<Rightarrow> Inr (meta\<lparr>wb_State := BaseStateInvalid, wb_ErrorCode := error_code e\<rparr>, True, rf_bytes f)
           | Inr st \<Rightarrow> Inr (meta\<lparr>wb_State := BaseStateValid, wb_Waivers := wt_Waivers st,
                                wb_SemanticDigest := wt_SemanticDigest st\<rparr>, True, rf_bytes f)))"

definition proposeHead :: "WaiverHead \<Rightarrow> string \<Rightarrow> WaiverSet \<Rightarrow> WaiverChange list \<Rightarrow> WaiverHead" where
  "proposeHead h state st changes = h\<lparr>wh_State := state, wh_Waivers := wt_Waivers st,
     wh_SemanticDigest := wt_SemanticDigest st, wh_Changes := changes\<rparr>"

definition invalidHead :: "WaiverHead \<Rightarrow> string \<Rightarrow> WaiverHead" where
  "invalidHead h code = h\<lparr>wh_State := HeadStateModifiedInvalid, wh_ErrorCode := code\<rparr>"

definition assessWaiverHead ::
  "(string \<Rightarrow> string) \<Rightarrow> yaml_load \<Rightarrow> WaiverLimits \<Rightarrow> CommitRef \<Rightarrow> BaseAssessment \<times> bool \<times> string
     \<Rightarrow> read_error + RevisionFile \<Rightarrow> WaiverHead result" where
  "assessWaiverHead sha load l commit bs file =
     (case bs of (base, basePresent, baseRaw) \<Rightarrow>
      case file of
        Inl e \<Rightarrow>
          if re_NotExist e
          then Inr (noHead\<lparr>wh_State := (if basePresent then HeadStateRemoved else HeadStateAbsentOnBoth)\<rparr>)
          else if re_TooLarge e then Inr (invalidHead noHead ''input-too-large'')
          else Inl (waiverErr ''head-inspection-failed'' ''head'' [])
      | Inr f \<Rightarrow>
          (let meta = noHead\<lparr>wh_File := metadataFor sha WaiverPath commit f\<rparr> in
           if rf_Kind f \<noteq> EntryKindRegularFile \<or> rf_Executable f
           then Inr (meta\<lparr>wh_State := HeadStateUnsupportedEntryKind, wh_ErrorCode := ''unsupported-entry-kind''\<rparr>)
           else if \<not> basePresent then
             (case waiver_Parse sha load (rf_bytes f) l of
                Inl e \<Rightarrow> Inr (invalidHead meta (error_code e))
              | Inr st \<Rightarrow> Inr (proposeHead meta HeadStateAdded st (addedChanges (wt_Waivers st))))
           else if baseRaw = rf_bytes f then
             Inr (meta\<lparr>wh_State := HeadStateUnchanged, wh_Waivers := wb_Waivers base,
                       wh_SemanticDigest := wb_SemanticDigest base\<rparr>)
           else
             (case waiver_Parse sha load (rf_bytes f) l of
                Inl e \<Rightarrow> Inr (invalidHead meta (error_code e))
              | Inr st \<Rightarrow>
                 if wb_State base = BaseStateValid \<and> wb_SemanticDigest base = wt_SemanticDigest st
                 then Inr (proposeHead meta HeadStateContentChangedSemanticallyEquivalent st [])
                 else if wb_State base = BaseStateValid
                 then Inr (proposeHead meta HeadStateModifiedValid st (compareSets (wb_Waivers base) (wt_Waivers st)))
                 else Inr (proposeHead meta HeadStateAdded st (addedChanges (wt_Waivers st))))))"

definition waiver_contextErr :: go_error where
  "waiver_contextErr = waiverErr ''context-cancelled'' ''context'' []"

text \<open>
  The source keeps the parsed base set next to the assessment; the waivers and the digest of a set that was
  not accepted are empty in both, so the assessment stands for it.
\<close>

definition waiver_LoadTrusted ::
  "(string \<Rightarrow> string) \<Rightarrow> yaml_load \<Rightarrow> go_context \<Rightarrow> read_file option \<Rightarrow> TrustedLoadRequest \<Rightarrow> WaiverLimits
     \<Rightarrow> WaiverLoad result" where
  "waiver_LoadTrusted sha load ctx source req limits =
     rbind (waiver_validateLimits limits) (\<lambda>l.
       if ctx 0 \<noteq> None then Inl waiver_contextErr
       else case source of
         None \<Rightarrow> Inl (waiverErr ''base-read-failed'' ''base'' [])
       | Some ReadFile \<Rightarrow>
          if ctx 1 \<noteq> None then Inl waiver_contextErr
          else rbind (assessBase sha load l (tq_Base req)
                 (ReadFile (tq_Base req) WaiverPath (wl_MaxWaiverFileBytes l))) (\<lambda>bs.
            if ctx 2 \<noteq> None then Inl waiver_contextErr
            else rbind (assessWaiverHead sha load l (tq_Head req) bs
                   (ReadFile (tq_Head req) WaiverPath (wl_MaxWaiverFileBytes l))) (\<lambda>h.
              Inr \<lparr>wr_BaseRevision = tq_Base req, wr_HeadRevision = tq_Head req, wr_Base = fst bs, wr_Head = h\<rparr>)))"

end
