(* ===== verification/Waiver_Facts.thy ===== *)
theory Waiver_Facts
  imports Waiver
begin

text \<open>
  The facts behind the properties of waivers: what an accepted file looks like, that its semantic digest
  determines its waivers, and what the comparison of two sets reports.
\<close>

section \<open>Accepted trees\<close>

lemma keyError_None:
  "keyError seen k = None \<longleftrightarrow> isStringKey k \<and> n_Value k \<noteq> ''<<'' \<and> n_Value k \<notin> set seen"
  by (simp add: keyError_def)

lemma nodeError_None:
  "nodeError l kind tagged tag val anchor depth visited = None \<Longrightarrow>
     int visited \<le> wl_MaxYAMLNodes l \<and> int depth \<le> wl_MaxYAMLDepth l \<and> kind \<noteq> AliasNode \<and> anchor = []
     \<and> \<not> tagged \<and> \<not> waiver_isCustomTag tag"
  by (simp add: nodeError_def split: if_splits)

lemma inspectNode_accepts:
  "inspectNode l t depth visited = (None, n) \<Longrightarrow>
     plain_tree waiver_isCustomTag t \<and> n = visited + node_count t \<and> int n \<le> wl_MaxYAMLNodes l
     \<and> int (depth + node_depth t) \<le> wl_MaxYAMLDepth l + 1"
  "inspectNodePairs l content depth seen visited = (None, n) \<Longrightarrow> int visited \<le> wl_MaxYAMLNodes l \<Longrightarrow>
     int depth \<le> wl_MaxYAMLDepth l \<Longrightarrow>
     plain_pairs waiver_isCustomTag content \<and> distinct (map (n_Value \<circ> fst) (node_pairs content))
     \<and> ''<<'' \<notin> set (map (n_Value \<circ> fst) (node_pairs content))
     \<and> set (map (n_Value \<circ> fst) (node_pairs content)) \<inter> set seen = {}
     \<and> n = visited + pairs_count content \<and> int n \<le> wl_MaxYAMLNodes l
     \<and> int (depth + pairs_depth content) \<le> wl_MaxYAMLDepth l"
  "inspectNodeItems l items depth visited = (None, n) \<Longrightarrow> int visited \<le> wl_MaxYAMLNodes l \<Longrightarrow>
     int depth \<le> wl_MaxYAMLDepth l \<Longrightarrow>
     plain_items waiver_isCustomTag items \<and> n = visited + items_count items \<and> int n \<le> wl_MaxYAMLNodes l
     \<and> int (depth + items_depth items) \<le> wl_MaxYAMLDepth l"
proof (induction l t depth visited and l content depth seen visited and l items depth visited
    arbitrary: n and n and n rule: inspectNode_inspectNodePairs_inspectNodeItems.induct)
  case (1 l kind tagged tag val anchor content line col depth visited)
  have none: "nodeError l kind tagged tag val anchor depth (Suc visited) = None"
    using "1.prems" by (auto split: option.splits)
  note nodeError_None [OF this]
  then show ?case
    using "1.prems" "1.IH" none by (auto simp: comp_def split: if_splits)
next
  case (2 l k v rest depth seen visited)
  have key: "keyError seen k = None" using "2.prems"(1) by (auto split: option.splits)
  obtain e now where v: "inspectNode l v (Suc depth) visited = (e, now)" by fastforce
  have e: "e = None" using "2.prems"(1) key v by (cases e) auto
  have rest: "inspectNodePairs l rest depth (n_Value k # seen) now = (None, n)"
    using "2.prems"(1) key v e by simp
  have "plain_tree waiver_isCustomTag v \<and> now = visited + node_count v \<and> int now \<le> wl_MaxYAMLNodes l
     \<and> int (Suc depth + node_depth v) \<le> wl_MaxYAMLDepth l + 1"
    using "2.IH"(1) key v e by blast
  moreover from this have "plain_pairs waiver_isCustomTag rest \<and> distinct (map (n_Value \<circ> fst) (node_pairs rest))
     \<and> ''<<'' \<notin> set (map (n_Value \<circ> fst) (node_pairs rest))
     \<and> set (map (n_Value \<circ> fst) (node_pairs rest)) \<inter> set (n_Value k # seen) = {}
     \<and> n = now + pairs_count rest \<and> int n \<le> wl_MaxYAMLNodes l
     \<and> int (depth + pairs_depth rest) \<le> wl_MaxYAMLDepth l"
    using "2.IH"(2) [OF key v [symmetric]] e rest "2.prems"(3) by blast
  ultimately show ?case using key by (auto simp: comp_def keyError_None)
next
  case (5 l c rest depth visited)
  obtain e now where c: "inspectNode l c (Suc depth) visited = (e, now)" by fastforce
  have e: "e = None" using "5.prems"(1) c by (cases e) auto
  have rest: "inspectNodeItems l rest depth now = (None, n)" using "5.prems"(1) c e by simp
  have "plain_tree waiver_isCustomTag c \<and> now = visited + node_count c \<and> int now \<le> wl_MaxYAMLNodes l
     \<and> int (Suc depth + node_depth c) \<le> wl_MaxYAMLDepth l + 1"
    using "5.IH"(1) c e by blast
  moreover from this have "plain_items waiver_isCustomTag rest \<and> n = now + items_count rest
     \<and> int n \<le> wl_MaxYAMLNodes l \<and> int (depth + items_depth rest) \<le> wl_MaxYAMLDepth l"
    using "5.IH"(2) [OF c [symmetric]] e rest "5.prems"(3) by blast
  ultimately show ?case by auto
qed auto

section \<open>Accepted waivers\<close>

definition waiver_ok :: "WaiverLimits \<Rightarrow> Waiver \<Rightarrow> bool" where
  "waiver_ok l w \<longleftrightarrow> validWaiverID (wv_ID w) \<and> validFindingID (tg_FindingID (wv_Target w))
     \<and> eligibleRuleSyntax (tg_RuleID (wv_Target w))
     \<and> validateText (wv_Owner w) 1 (wl_MaxOwnerBytes l) \<and> validateText (wv_Reason w) 1 (wl_MaxReasonBytes l)
     \<and> civil_ok (wv_IssuedAt w) \<and> civil_ok (wv_ExpiresAt w) \<and> unix (wv_IssuedAt w) < unix (wv_ExpiresAt w)
     \<and> unix (wv_ExpiresAt w) - unix (wv_IssuedAt w) \<le> wl_MaxLifetimeDays l * 24 * 3600"

lemma parseWaiverTime_ok: "parseWaiverTime s = Some c \<Longrightarrow> civil_ok c \<and> time_format c = s"
  using time_format_parse by (auto simp: parseWaiverTime_def split: if_splits)

lemma validateWaiver_ok: "validateWaiver p l = Inr w \<Longrightarrow> waiver_ok l w"
  by (auto simp: validateWaiver_def waiver_ok_def Let_def dest!: parseWaiverTime_ok split: if_splits option.splits)

lemma NUL_not_hex: "\<not> lower_hex_char NUL"
  by (simp add: lower_hex_char_def less_eq_char_def)

lemma validFindingID_NUL:
  assumes "validFindingID s"
  shows "NUL \<notin> set s"
proof
  assume "NUL \<in> set s"
  then have "NUL \<in> set (take 8 s) \<or> NUL \<in> set (drop 8 s)" by (metis Un_iff append_take_drop_id set_append)
  moreover have "take 8 s = ''finding-''" using assms by (simp add: validFindingID_def has_prefix_def numeral_nat)
  ultimately show False using assms NUL_not_hex by (auto simp: validFindingID_def list_all_iff)
qed

lemma targetKey_prefix:
  assumes "validFindingID (tg_FindingID (wv_Target w))" and "validFindingID fid"
  shows "has_prefix (targetKey w) (fid @ [NUL]) \<longleftrightarrow> tg_FindingID (wv_Target w) = fid"
proof
  assume "has_prefix (targetKey w) (fid @ [NUL])"
  then have "targetKey w = (fid @ [NUL]) @ drop (length (fid @ [NUL])) (targetKey w)"
    unfolding has_prefix_def by (metis append_take_drop_id)
  then have "tg_FindingID (wv_Target w) @ NUL # tg_RuleID (wv_Target w) = fid @ NUL # drop (length (fid @ [NUL])) (targetKey w)"
    by (simp add: targetKey_def)
  then show "tg_FindingID (wv_Target w) = fid"
    using nul_split_inject validFindingID_NUL assms by blast
qed (simp add: has_prefix_def targetKey_def)

lemma validateWaivers_ok:
  assumes "validateWaivers l (map wv_ID seen) (map targetKey seen) pws = Inr ws" and "list_all (waiver_ok l) seen"
  shows "list_all (waiver_ok l) ws \<and> length ws = length pws
    \<and> distinct (map wv_ID ws) \<and> set (map wv_ID ws) \<inter> set (map wv_ID seen) = {}
    \<and> distinct (map (tg_FindingID \<circ> wv_Target) ws)
    \<and> set (map (tg_FindingID \<circ> wv_Target) ws) \<inter> set (map (tg_FindingID \<circ> wv_Target) seen) = {}"
  using assms
proof (induction pws arbitrary: seen ws)
  case (Cons pw pws)
  obtain w us where w: "validateWaiver pw l = Inr w" "wv_ID w \<notin> set (map wv_ID seen)"
    "\<not> list_ex (\<lambda>existing. has_prefix existing (tg_FindingID (wv_Target w) @ [NUL])) (map targetKey seen)"
    "validateWaivers l (map wv_ID (w # seen)) (map targetKey (w # seen)) pws = Inr us" "ws = w # us"
    using Cons.prems(1) by (auto simp: result_simps split: if_splits)
  have ok: "waiver_ok l w" using validateWaiver_ok [OF w(1)] .
  then have "tg_FindingID (wv_Target w) \<notin> set (map (tg_FindingID \<circ> wv_Target) seen)"
    using w(3) Cons.prems(2) targetKey_prefix by (fastforce simp: list_ex_iff list_all_iff waiver_ok_def)
  then show ?case using Cons.IH [OF w(4)] Cons.prems(2) ok w(2,5) by (auto simp: comp_def)
qed simp

lemma waiver_Parse_ok:
  assumes "waiver_Parse sha load data limits = Inr st"
  obtains n p ws where "waiver_validateLimits limits = Inr limits" and "waiver_preflight data limits = None"
    and "loadNode load data limits = Inr (Some n)" and "fst (inspectNode limits n 1 0) = None"
    and "decodeDoc n = Inr p" and "int (length (pd_waivers p)) \<le> wl_MaxWaivers limits"
    and "validateWaivers limits [] [] (pd_waivers p) = Inr ws"
    and "wt_Waivers st = slice_stable waiverLess ws"
    and "wt_APIVersion st = ''glassroot.dev/v1alpha1''" and "wt_Kind st = ''WaiverSet''"
    and "wt_MetadataName st = ''default''" and "wt_RawDigest st = config_digestBytes sha data"
    and "wt_RawSizeBytes st = int (length data)"
    and "wt_SemanticDigest st = ''sha256:'' @ sha (waiverSetBytes st)"
proof -
  have lim: "waiver_validateLimits limits = Inr l \<Longrightarrow> l = limits" for l
    by (simp add: waiver_validateLimits_def split: if_splits)
  obtain n p st1 where 1: "waiver_validateLimits limits = Inr limits" "waiver_preflight data limits = None"
    "loadNode load data limits = Inr (Some n)" "fst (inspectNode limits n 1 0) = None" "decodeDoc n = Inr p"
    "validateParsed p limits = Inr st1"
    "st = (let st' = st1\<lparr>wt_RawDigest := config_digestBytes sha data, wt_RawSizeBytes := int (length data)\<rparr>
           in st'\<lparr>wt_SemanticDigest := waiver_semanticDigest sha st'\<rparr>)"
    using assms lim unfolding waiver_Parse_def by (auto simp: result_simps Let_def split: option.splits)
  obtain ws where 2: "int (length (pd_waivers p)) \<le> wl_MaxWaivers limits"
    "validateWaivers limits [] [] (pd_waivers p) = Inr ws" "wt_Waivers st1 = slice_stable waiverLess ws"
    "wt_APIVersion st1 = ''glassroot.dev/v1alpha1''" "wt_Kind st1 = ''WaiverSet''" "wt_MetadataName st1 = ''default''"
    using 1(6) unfolding validateParsed_def by (auto simp: result_simps split: if_splits)
  have "wt_SemanticDigest st = ''sha256:'' @ sha (waiverSetBytes st)"
    unfolding 1(7) Let_def by (simp add: waiver_semanticDigest_def waiverSetBytes_def)
  with 1 2 that show ?thesis by (simp add: Let_def)
qed

interpretation waiver_order: keyed_order waiverLess wv_ID
  by unfold_locales (simp add: waiverLess_def)

definition set_ok :: "WaiverLimits \<Rightarrow> WaiverSet \<Rightarrow> bool" where
  "set_ok l st \<longleftrightarrow> list_all (waiver_ok l) (wt_Waivers st) \<and> int (length (wt_Waivers st)) \<le> wl_MaxWaivers l
     \<and> distinct (map wv_ID (wt_Waivers st)) \<and> distinct (map (tg_FindingID \<circ> wv_Target) (wt_Waivers st))
     \<and> sorted (map wv_ID (wt_Waivers st))"

lemma waiver_Parse_set_ok:
  assumes "waiver_Parse sha load data limits = Inr st"
  shows "set_ok limits st"
proof -
  obtain n p ws where "decodeDoc n = Inr p" and ws: "int (length (pd_waivers p)) \<le> wl_MaxWaivers limits"
    "validateWaivers limits [] [] (pd_waivers p) = Inr ws" "wt_Waivers st = slice_stable waiverLess ws"
    by (rule waiver_Parse_ok [OF assms])
  note ok = validateWaivers_ok [of limits "[]" "pd_waivers p" ws, simplified, OF ws(2)]
  have perm: "mset (map f (wt_Waivers st)) = mset (map f ws)" for f :: "Waiver \<Rightarrow> string" using ws(3) by simp
  have "distinct (map wv_ID (wt_Waivers st))" "distinct (map (tg_FindingID \<circ> wv_Target) (wt_Waivers st))"
    using ok perm by (metis mset_eq_imp_distinct_iff)+
  moreover have "sorted (map wv_ID (wt_Waivers st))"
    unfolding ws(3) waiver_order.slice_stable_sort_key by simp
  ultimately show ?thesis using ok ws by (auto simp: set_ok_def list_all_iff)
qed

section \<open>Semantic digest\<close>

definition go_waiver :: "Waiver \<Rightarrow> bool" where
  "go_waiver w \<longleftrightarrow> go_len (wv_ID w) \<and> go_len (tg_FindingID (wv_Target w)) \<and> go_len (tg_RuleID (wv_Target w))
     \<and> go_len (wv_Owner w) \<and> go_len (wv_Reason w) \<and> civil_ok (wv_IssuedAt w) \<and> civil_ok (wv_ExpiresAt w)"

lemma writeTime_append:
  assumes "civil_ok c" and "civil_ok d"
  shows "writeTime c @ r = writeTime d @ s \<longleftrightarrow> c = d \<and> r = s"
proof -
  have "go_len (time_format c)" "go_len (time_format d)" by (simp_all add: go_len_def time_format_def pad2_def)
  then have "writeTime c @ r = writeTime d @ s \<longleftrightarrow> time_format c = time_format d \<and> r = s"
    unfolding writeTime_def by (rule str.enc_append_iff)
  also have "time_format c = time_format d \<longleftrightarrow> c = d" using time_parse_format assms by (metis option.inject)
  finally show ?thesis .
qed

interpretation waiver_code: prefix_code writeWaiver go_waiver
proof unfold_locales
  fix x y :: Waiver and r s :: string
  assume "go_waiver x" "go_waiver y" "writeWaiver x @ r = writeWaiver y @ s"
  then show "x = y \<and> r = s"
    by (auto simp: writeWaiver_def go_waiver_def str.enc_append_iff writeTime_append intro: Waiver.equality Target.equality)
qed

lemma waiver_ok_go:
  assumes "waiver_ok l w" and "waiver_validateLimits l = Inr l"
  shows "go_waiver w"
proof -
  have "wl_MaxOwnerBytes l \<le> 256" "wl_MaxReasonBytes l \<le> 1024"
    using assms(2) by (auto simp: waiver_validateLimits_def waiver_DefaultLimits_def split: if_splits)
  moreover have "length (tg_RuleID (wv_Target w)) \<le> 12"
    using assms(1) by (auto simp: waiver_ok_def eligibleRuleSyntax_def eligibleRules_def)
  moreover have "length (wv_ID w) \<le> 64"
    using assms(1) by (auto simp: waiver_ok_def validWaiverID_def split: list.splits)
  ultimately show ?thesis
    using assms(1) by (auto simp: waiver_ok_def go_waiver_def go_len_def validFindingID_def validateText_def)
qed

lemma waiverSetBytes_inject:
  assumes "set_ok l a" and "set_ok m b" and "waiver_validateLimits l = Inr l" and "waiver_validateLimits m = Inr m"
    and "wt_APIVersion a = wt_APIVersion b" and "wt_Kind a = wt_Kind b" and "wt_MetadataName a = wt_MetadataName b"
  shows "waiverSetBytes a = waiverSetBytes b \<longleftrightarrow> wt_Waivers a = wt_Waivers b"
proof
  have code: "go_len (wt_Waivers st) \<and> list_all go_waiver (wt_Waivers st)"
    if "set_ok k st" "waiver_validateLimits k = Inr k" for k st
  proof -
    have "wl_MaxWaivers k \<le> 1000"
      using that(2) by (auto simp: waiver_validateLimits_def waiver_DefaultLimits_def split: if_splits)
    then show ?thesis using that waiver_ok_go by (auto simp: set_ok_def go_len_def list_all_iff)
  qed
  have sorted: "slice_stable waiverLess (wt_Waivers st) = wt_Waivers st" if "set_ok k st" for k st
    using that by (simp add: set_ok_def waiver_order.slice_stable_sort_key sort_key_id_if_sorted)
  assume "waiverSetBytes a = waiverSetBytes b"
  then have "writeList writeWaiver (wt_Waivers a) @ [] = writeList writeWaiver (wt_Waivers b) @ []"
    using assms(5-7) sorted [OF assms(1)] sorted [OF assms(2)] by (simp add: waiverSetBytes_def)
  then show "wt_Waivers a = wt_Waivers b"
    using waiver_code.list_readable code [OF assms(1,3)] code [OF assms(2,4)] by blast
qed (simp add: waiverSetBytes_def assms(5-7))

section \<open>Changes\<close>

definition times_ok :: "Waiver \<Rightarrow> bool" where
  "times_ok w \<longleftrightarrow> civil_ok (wv_IssuedAt w) \<and> civil_ok (wv_ExpiresAt w)"

interpretation waiver_diff: keyed_diff wv_ID waiverFields times_ok
proof unfold_locales
  fix a b :: Waiver
  assume "times_ok a" "times_ok b" "wv_ID a = wv_ID b"
  then show "waiverFields a b = [] \<longleftrightarrow> a = b"
    by (auto simp: waiverFields_def times_ok_def unix_inject intro: Waiver.equality)
qed

interpretation waiver_change_order: keyed_order waiverChangeLess "\<lambda>c. (wc_WaiverID c, wc_Kind c)"
  by unfold_locales (auto simp: waiverChangeLess_def less_prod_def' less_le)

definition removedChange :: "Waiver \<Rightarrow> WaiverChange" where
  "removedChange w = \<lparr>wc_WaiverID = wv_ID w, wc_Kind = ''waiver-removed''\<rparr>"

definition addedChange :: "Waiver \<Rightarrow> WaiverChange" where
  "addedChange w = \<lparr>wc_WaiverID = wv_ID w, wc_Kind = ''waiver-added''\<rparr>"

lemma set_compareSets:
  assumes "distinct (map wv_ID base)" and "distinct (map wv_ID head)"
  shows "set (compareSets base head) =
    removedChange ` {b \<in> set base. wv_ID b \<notin> wv_ID ` set head}
    \<union> addedChange ` {h \<in> set head. wv_ID h \<notin> wv_ID ` set base}
    \<union> set (commonChanges wv_ID waiverFields base head)"
proof -
  define f where "f k = (case (byKey wv_ID base k, byKey wv_ID head k) of
      (Some b, Some h) \<Rightarrow> waiverFields b h
    | (Some b, None) \<Rightarrow> [\<lparr>wc_WaiverID = k, wc_Kind = ''waiver-removed''\<rparr>] | (None, _) \<Rightarrow> [])" for k
  have f: "set (f (wv_ID b)) =
      (if wv_ID b \<in> wv_ID ` set head then {} else {removedChange b}) \<union> set (waiver_diff.changesOf head b)"
    if b: "b \<in> set base" for b
  proof -
    have "byKey wv_ID base (wv_ID b) = Some b" using b byKey_distinct [OF assms(1)] by blast
    moreover have "wv_ID b \<in> wv_ID ` set head \<longleftrightarrow> byKey wv_ID head (wv_ID b) \<noteq> None" by (simp add: byKey_None)
    ultimately show ?thesis
      by (simp add: f_def waiver_diff.changesOf_def removedChange_def split: option.split)
  qed
  have "set (concat (map f (map wv_ID base))) =
      removedChange ` {b \<in> set base. wv_ID b \<notin> wv_ID ` set head} \<union> set (commonChanges wv_ID waiverFields base head)"
  proof -
    have "set (concat (map f (map wv_ID base))) = (\<Union>b \<in> set base. set (f (wv_ID b)))" by simp
    also have "\<dots> = (\<Union>b \<in> set base. (if wv_ID b \<in> wv_ID ` set head then {} else {removedChange b})
        \<union> set (waiver_diff.changesOf head b))" by (rule SUP_cong [OF refl f])
    finally show ?thesis unfolding waiver_diff.commonChanges_eq [OF assms(1)] by (auto split: if_splits)
  qed
  moreover have "set (map (\<lambda>k. \<lparr>wc_WaiverID = k, wc_Kind = ''waiver-added''\<rparr>)
      (filter (\<lambda>k. byKey wv_ID base k = None) (map wv_ID head)))
      = addedChange ` {h \<in> set head. wv_ID h \<notin> wv_ID ` set base}"
    by (auto simp: addedChange_def byKey_None)
  ultimately show ?thesis
    unfolding compareSets_def waiver_sortChanges_def f_def [symmetric]
    using assms by (simp add: distinct_remdups_id Un_ac)
qed

lemma compareSets_Nil:
  assumes "set_ok l a" and "set_ok m b"
  shows "compareSets (wt_Waivers a) (wt_Waivers b) = [] \<longleftrightarrow> wt_Waivers a = wt_Waivers b"
proof
  let ?a = "wt_Waivers a" and ?b = "wt_Waivers b"
  have d: "distinct (map wv_ID ?a)" "distinct (map wv_ID ?b)" "sorted (map wv_ID ?a)" "sorted (map wv_ID ?b)"
    and t: "list_all times_ok ?a" "list_all times_ok ?b"
    using assms by (auto simp: set_ok_def waiver_ok_def times_ok_def list_all_iff)
  assume nil: "compareSets ?a ?b = []"
  then have none: "{b \<in> set ?a. wv_ID b \<notin> wv_ID ` set ?b} = {}" "{h \<in> set ?b. wv_ID h \<notin> wv_ID ` set ?a} = {}"
    "commonChanges wv_ID waiverFields ?a ?b = []"
    using set_compareSets [OF d(1,2)] by auto
  then have "set (map wv_ID ?a) = set (map wv_ID ?b)" by auto
  then have "map wv_ID ?a = map wv_ID ?b" using d by (intro sorted_distinct_set_unique)
  with none show "?a = ?b"
    using waiver_diff.no_changes [OF d(1,2) t] by (auto simp: filter_empty_conv byKey_None)
next
  let ?a = "wt_Waivers a" and ?b = "wt_Waivers b"
  assume eq: "?a = ?b"
  have d: "distinct (map wv_ID ?a)" and t: "list_all times_ok ?a"
    using assms(1) by (auto simp: set_ok_def waiver_ok_def times_ok_def list_all_iff)
  have "commonChanges wv_ID waiverFields ?a ?a = []" using waiver_diff.no_changes [OF d d t t] by blast
  then have "set (compareSets ?a ?a) = {}" using set_compareSets [OF d d] by simp
  then show "compareSets ?a ?b = []" using eq by simp
qed

end
