(* ===== verification/Waiver_Props.thy ===== *)
theory Waiver_Props
  imports Waiver_Facts Config_Props
begin

text \<open>
  The properties of \<open>internal/waiver\<close>. The examples are a file with one waiver and the same file with
  another owner.
\<close>

section \<open>An example\<close>

definition demoFindingID :: string where
  "demoFindingID = ''finding-'' @ replicate 64 (CHR ''0'')"

definition demoWaiverNode :: "string \<Rightarrow> yaml_node" where
  "demoWaiverNode owner = ymap [(''id'', ystr ''w''),
     (''target'', ymap [(''findingId'', ystr demoFindingID), (''ruleId'', ystr ''GR-NET-001'')]),
     (''owner'', ystr owner), (''reason'', ystr ''r''), (''issuedAt'', ystr ''2026-01-01T00:00:00Z''),
     (''expiresAt'', ystr ''2026-02-01T00:00:00Z'')]"

definition demoWaiverTree :: "string \<Rightarrow> yaml_node" where
  "demoWaiverTree owner = ymap [(''apiVersion'', ystr ''glassroot.dev/v1alpha1''), (''kind'', ystr ''WaiverSet''),
     (''metadata'', ymap [(''name'', ystr ''default'')]),
     (''spec'', ymap [(''waivers'', yseq [demoWaiverNode owner])])]"

text \<open>The bytes of the file are the owner, which is all the two examples differ in.\<close>

definition demoWaiverLoad :: yaml_load where
  "demoWaiverLoad depth data = Inr [demoWaiverTree data]"

definition demoIssued :: civil where
  "demoIssued = \<lparr>cv_year = 2026, cv_month = 1, cv_day = 1, cv_hour = 0, cv_minute = 0, cv_second = 0\<rparr>"

definition demoExpires :: civil where
  "demoExpires = \<lparr>cv_year = 2026, cv_month = 2, cv_day = 1, cv_hour = 0, cv_minute = 0, cv_second = 0\<rparr>"

definition demoWaiver :: "string \<Rightarrow> Waiver" where
  "demoWaiver owner = \<lparr>wv_ID = ''w'', wv_Target = \<lparr>tg_FindingID = demoFindingID, tg_RuleID = ''GR-NET-001''\<rparr>,
     wv_Owner = owner, wv_Reason = ''r'', wv_IssuedAt = demoIssued, wv_ExpiresAt = demoExpires\<rparr>"

definition demoSet :: "(string \<Rightarrow> string) \<Rightarrow> string \<Rightarrow> WaiverSet" where
  "demoSet sha owner =
     (let st = \<lparr>wt_APIVersion = ''glassroot.dev/v1alpha1'', wt_Kind = ''WaiverSet'', wt_MetadataName = ''default'',
                wt_Waivers = [demoWaiver owner], wt_RawDigest = config_digestBytes sha owner, wt_SemanticDigest = [],
                wt_RawSizeBytes = 1\<rparr>
      in st\<lparr>wt_SemanticDigest := waiver_semanticDigest sha st\<rparr>)"

lemma length_demoFindingID [simp]: "length demoFindingID = 72"
  by (simp add: demoFindingID_def)

lemma demo_months: "days_before_month y (Suc 0) = 0" "days_before_month y 2 = 31"
  by (simp_all add: numeral_2_eq_2 days_in_def)

lemma demo_civil: "civil_ok demoIssued" "civil_ok demoExpires"
  by (simp_all add: civil_ok_def demoIssued_def demoExpires_def days_in_def)

lemma demo_unix: "unix demoIssued = 1767225600" "unix demoExpires = 1769904000"
  by (simp_all add: demoIssued_def demoExpires_def unix_def seconds_of_def day_number_def days_before_year_def demo_months)

lemma demo_times:
  "parseWaiverTime ''2026-01-01T00:00:00Z'' = Some demoIssued" "parseWaiverTime ''2026-02-01T00:00:00Z'' = Some demoExpires"
proof -
  have "time_parse ''2026-01-01T00:00:00Z'' = Some demoIssued" "time_parse ''2026-02-01T00:00:00Z'' = Some demoExpires"
    using demo_civil by (simp_all add: time_parse_def num2_def digit_val_def digit_char_def demoIssued_def demoExpires_def)
  then show "parseWaiverTime ''2026-01-01T00:00:00Z'' = Some demoIssued"
    "parseWaiverTime ''2026-02-01T00:00:00Z'' = Some demoExpires"
    by (simp_all add: parseWaiverTime_def has_suffix_def has_prefix_def)
qed

definition shortOwner :: "string \<Rightarrow> bool" where
  "shortOwner owner \<longleftrightarrow> owner \<in> set [''a'', ''b'']"

lemma demo_waiver_inspected:
  "shortOwner owner \<Longrightarrow> fst (inspectNode waiver_DefaultLimits (demoWaiverTree owner) 1 0) = None"
  by (auto simp: shortOwner_def demoWaiverTree_def demoWaiverNode_def ymap_def yseq_def ystr_def nodeError_def keyError_def
      isStringKey_def waiver_isCustomTag_def waiver_DefaultLimits_def)


lemma demo_waiver_decoded:
  "shortOwner owner \<Longrightarrow> decodeDoc (demoWaiverTree owner) = Inr \<lparr>pd_apiVersion = ''glassroot.dev/v1alpha1'', pd_kind = ''WaiverSet'',
     pd_metadataName = ''default'', pd_waivers = [\<lparr>pw_id = ''w'', pw_findingID = demoFindingID,
       pw_ruleID = ''GR-NET-001'', pw_owner = owner, pw_reason = ''r'', pw_issuedAt = ''2026-01-01T00:00:00Z'',
       pw_expiresAt = ''2026-02-01T00:00:00Z''\<rparr>]\<rparr>"
  by (simp add: decodeDoc_def decodeWaiver_def mapping_def reqString_def isNullNode_def demoWaiverTree_def
      demoWaiverNode_def ymap_def yseq_def ystr_def)

lemma demoFindingID_ok: "validFindingID demoFindingID"
  by (simp add: validFindingID_def demoFindingID_def has_prefix_def lower_hex_char_def list_all_iff)

lemma demo_waiver_validated:
  assumes "shortOwner owner"
  shows "validateWaiver \<lparr>pw_id = ''w'', pw_findingID = demoFindingID, pw_ruleID = ''GR-NET-001'', pw_owner = owner,
     pw_reason = ''r'', pw_issuedAt = ''2026-01-01T00:00:00Z'', pw_expiresAt = ''2026-02-01T00:00:00Z''\<rparr>
     waiver_DefaultLimits = Inr (demoWaiver owner)"
proof -
  have "validateText owner 1 256" "validateText ''r'' 1 1024"
    using assms by (auto simp: shortOwner_def validateText_def hasControl_def control_char_def byte_in_def)
  moreover have "validWaiverID ''w''" by (simp add: validWaiverID_def byte_in_def identifier_char_def)
  moreover have "eligibleRuleSyntax ''GR-NET-001''" by (simp add: eligibleRuleSyntax_def eligibleRules_def)
  ultimately show ?thesis
    by (simp add: validateWaiver_def demoFindingID_ok demo_times demo_unix demoWaiver_def waiver_DefaultLimits_def)
qed

lemma default_waiver_limits: "waiver_validateLimits waiver_DefaultLimits = Inr waiver_DefaultLimits"
  by (simp add: waiver_validateLimits_def waiver_DefaultLimits_def waiver_zeroLimits_def)

lemma demo_waiver_parsed:
  assumes "shortOwner owner"
  shows "waiver_Parse sha demoWaiverLoad owner waiver_DefaultLimits = Inr (demoSet sha owner)"
proof -
  have "trim_left_space owner = owner"
    using assms by (subst trim_left_space.simps)
      (auto simp: shortOwner_def decode_rune_def seq_len_def seq_rune_def byte_in_def byte_val_def is_space_rune_def)
  then have pre: "waiver_preflight owner waiver_DefaultLimits = None" "length owner = 1"
    using assms by (auto simp: shortOwner_def waiver_preflight_def waiver_DefaultLimits_def byte_in_def isDirective_def
        has_prefix_def)
  have load: "loadNode demoWaiverLoad owner waiver_DefaultLimits = Inr (Some (demoWaiverTree owner))"
    by (simp add: loadNode_def demoWaiverLoad_def demoWaiverTree_def ymap_def)
  have "fst (inspectNode waiver_DefaultLimits (demoWaiverTree owner) (Suc 0) 0) = None"
    using demo_waiver_inspected [OF assms] by simp
  then show ?thesis
    unfolding waiver_Parse_def default_waiver_limits
    by (simp add: pre load demo_waiver_decoded [OF assms] validateParsed_def demo_waiver_validated [OF assms] demoSet_def Let_def
        waiver_DefaultLimits_def [THEN arg_cong [where f = wl_MaxWaivers]])
qed

lemma demo_owners: "shortOwner ''a''" "shortOwner ''b''"
  by (simp_all add: shortOwner_def)

section \<open>Accepted files\<close>

text \<open>
  C14. A waiver file that is accepted holds at most the allowed number of waivers, sorted, with distinct
  identifiers and with distinct target findings; every waiver names an eligible rule, an owner and a
  reason within their bounds, and is valid for a positive time of at most the allowed number of days.
  The nodes of the file's tree other than mapping keys are within the node and depth limits, and none of them is an alias or has an
  anchor or an explicit or custom tag. Every mapping key is a scalar string, no key is a merge key, and the keys of a mapping
  are distinct; that is all the code requires of keys, which are not counted and may have an anchor or an explicit string tag.
\<close>

theorem accepted_waivers:
  assumes "waiver_Parse sha load data limits = Inr st"
  shows "int (length (wt_Waivers st)) \<le> wl_MaxWaivers limits
    \<and> sorted (map wv_ID (wt_Waivers st)) \<and> distinct (map wv_ID (wt_Waivers st))
    \<and> distinct (map (tg_FindingID \<circ> wv_Target) (wt_Waivers st))
    \<and> (\<forall>w \<in> set (wt_Waivers st). waiver_ok limits w)
    \<and> (\<exists>root. loadNode load data limits = Inr (Some root) \<and> plain_tree waiver_isCustomTag root
        \<and> int (node_count root) \<le> wl_MaxYAMLNodes limits \<and> int (node_depth root) \<le> wl_MaxYAMLDepth limits)"
proof -
  obtain root where root: "loadNode load data limits = Inr (Some root)" "fst (inspectNode limits root 1 0) = None"
    by (rule waiver_Parse_ok [OF assms])
  from root(2) obtain n where "inspectNode limits root 1 0 = (None, n)" by (metis prod.collapse)
  from inspectNode_accepts(1) [OF this] have "plain_tree waiver_isCustomTag root"
    "int (node_count root) \<le> wl_MaxYAMLNodes limits" "int (node_depth root) \<le> wl_MaxYAMLDepth limits"
    by simp_all
  with root(1) waiver_Parse_set_ok [OF assms] show ?thesis by (auto simp: set_ok_def list_all_iff)
qed

theorem accepted_waivers_witness: "waiver_ok waiver_DefaultLimits (demoWaiver ''a'')"
  using accepted_waivers [OF demo_waiver_parsed [OF demo_owners(1)], of id] by (simp add: demoSet_def Let_def)

text \<open>A key with an anchor and an explicit tag passes, and is not counted.\<close>

lemma waiver_anchored_key_passes:
  "inspectNode waiver_DefaultLimits (YamlNode MappingNode False ''!!map'' [] [] [YamlNode ScalarNode True ''!!str'' ''name'' ''a'' [] 1 1,
     YamlNode ScalarNode False ''!!str'' ''x'' [] [] 1 7] 1 1) 1 0 = (None, 2)"
  by code_simp

lemma semantic_digest_eq:
  assumes "waiver_Parse sha load data limits = Inr a" and "waiver_Parse sha load' data' limits' = Inr b"
    and "inj_on sha {waiverSetBytes a, waiverSetBytes b}"
  shows "wt_SemanticDigest a = wt_SemanticDigest b \<longleftrightarrow> wt_Waivers a = wt_Waivers b"
proof -
  obtain n p ws where a: "waiver_validateLimits limits = Inr limits" "decodeDoc n = Inr p"
    "validateWaivers limits [] [] (pd_waivers p) = Inr ws" "wt_APIVersion a = ''glassroot.dev/v1alpha1''"
    "wt_Kind a = ''WaiverSet''" "wt_MetadataName a = ''default''"
    "wt_SemanticDigest a = ''sha256:'' @ sha (waiverSetBytes a)"
    by (rule waiver_Parse_ok [OF assms(1)])
  obtain n p ws where b: "waiver_validateLimits limits' = Inr limits'" "decodeDoc n = Inr p"
    "validateWaivers limits' [] [] (pd_waivers p) = Inr ws" "wt_APIVersion b = ''glassroot.dev/v1alpha1''"
    "wt_Kind b = ''WaiverSet''" "wt_MetadataName b = ''default''"
    "wt_SemanticDigest b = ''sha256:'' @ sha (waiverSetBytes b)"
    by (rule waiver_Parse_ok [OF assms(2)])
  have "wt_SemanticDigest a = wt_SemanticDigest b \<longleftrightarrow> waiverSetBytes a = waiverSetBytes b"
    unfolding a(7) b(7) using assms(3) by (auto dest: inj_onD)
  also have "\<dots> \<longleftrightarrow> wt_Waivers a = wt_Waivers b"
    by (rule waiverSetBytes_inject [OF waiver_Parse_set_ok [OF assms(1)] waiver_Parse_set_ok [OF assms(2)] a(1) b(1)])
      (simp_all only: a(4-6) b(4-6))
  finally show ?thesis .
qed

text \<open>
  C16. The semantic digest stands for the waivers: two accepted files have the same semantic digest exactly when they hold the
  same waivers, whatever their layout, unless the two texts that are hashed for them are a collision of the hash.
\<close>

theorem semantic_digest_identifies:
  assumes "waiver_Parse sha load data limits = Inr a" and "waiver_Parse sha load' data' limits' = Inr b"
    and "inj_on sha {waiverSetBytes a, waiverSetBytes b}"
  shows "wt_SemanticDigest a = wt_SemanticDigest b \<longleftrightarrow> wt_Waivers a = wt_Waivers b"
  using assms by (rule semantic_digest_eq)

theorem semantic_digest_identifies_witness:
  "wt_SemanticDigest (demoSet id ''a'') \<noteq> wt_SemanticDigest (demoSet id ''b'')"
proof -
  have "wt_Waivers (demoSet id ''a'') \<noteq> wt_Waivers (demoSet id ''b'')" by (simp add: demoSet_def Let_def demoWaiver_def)
  then show ?thesis
    using semantic_digest_identifies [OF demo_waiver_parsed [OF demo_owners(1), of id]
        demo_waiver_parsed [OF demo_owners(2), of id] inj_on_id] by blast
qed

section \<open>Changes\<close>

text \<open>
  The report of changes between two accepted files is exact: it is empty exactly when the waivers are
  the same; an identifier is reported as added or removed exactly when only the head or only the base has
  it; and for an identifier both have, a change of target, owner, reason, issue time or expiry is reported
  exactly when that field differs.
\<close>

lemma waiver_changes_exact:
  assumes "waiver_Parse sha load data limits = Inr a" and "waiver_Parse sha load' data' limits' = Inr b"
  shows "(compareSets (wt_Waivers a) (wt_Waivers b) = [] \<longleftrightarrow> wt_Waivers a = wt_Waivers b)
    \<and> (\<forall>c. c \<in> set (compareSets (wt_Waivers a) (wt_Waivers b)) \<longleftrightarrow>
         c \<in> addedChange ` {h \<in> set (wt_Waivers b). wv_ID h \<notin> wv_ID ` set (wt_Waivers a)}
         \<or> c \<in> removedChange ` {w \<in> set (wt_Waivers a). wv_ID w \<notin> wv_ID ` set (wt_Waivers b)}
         \<or> (\<exists>w \<in> set (wt_Waivers a). \<exists>h \<in> set (wt_Waivers b). wv_ID w = wv_ID h \<and> wc_WaiverID c = wv_ID w
             \<and> (wc_Kind c = ''waiver-target-changed'' \<and> wv_Target w \<noteq> wv_Target h
                \<or> wc_Kind c = ''waiver-owner-changed'' \<and> wv_Owner w \<noteq> wv_Owner h
                \<or> wc_Kind c = ''waiver-reason-changed'' \<and> wv_Reason w \<noteq> wv_Reason h
                \<or> wc_Kind c = ''waiver-issued-at-changed'' \<and> wv_IssuedAt w \<noteq> wv_IssuedAt h
                \<or> wc_Kind c = ''waiver-expiry-changed'' \<and> wv_ExpiresAt w \<noteq> wv_ExpiresAt h)))"
proof -
  note ok = waiver_Parse_set_ok [OF assms(1)] waiver_Parse_set_ok [OF assms(2)]
  then have d: "distinct (map wv_ID (wt_Waivers a))" "distinct (map wv_ID (wt_Waivers b))" by (simp_all add: set_ok_def)
  have times: "civil_ok (wv_IssuedAt w) \<and> civil_ok (wv_ExpiresAt w)"
    if "w \<in> set (wt_Waivers a) \<union> set (wt_Waivers b)" for w
    using that ok by (auto simp: set_ok_def list_all_iff waiver_ok_def)
  have field: "c \<in> set (waiverFields w h) \<longleftrightarrow> wc_WaiverID c = wv_ID w
      \<and> (wc_Kind c = ''waiver-target-changed'' \<and> wv_Target w \<noteq> wv_Target h
         \<or> wc_Kind c = ''waiver-owner-changed'' \<and> wv_Owner w \<noteq> wv_Owner h
         \<or> wc_Kind c = ''waiver-reason-changed'' \<and> wv_Reason w \<noteq> wv_Reason h
         \<or> wc_Kind c = ''waiver-issued-at-changed'' \<and> wv_IssuedAt w \<noteq> wv_IssuedAt h
         \<or> wc_Kind c = ''waiver-expiry-changed'' \<and> wv_ExpiresAt w \<noteq> wv_ExpiresAt h)"
    if "w \<in> set (wt_Waivers a)" "h \<in> set (wt_Waivers b)" for c w h
    using times that by (cases c) (auto simp: waiverFields_def unix_inject)
  have common: "c \<in> set (commonChanges wv_ID waiverFields (wt_Waivers a) (wt_Waivers b)) \<longleftrightarrow>
      (\<exists>w \<in> set (wt_Waivers a). \<exists>h \<in> set (wt_Waivers b). wv_ID w = wv_ID h \<and> c \<in> set (waiverFields w h))" for c
    unfolding waiver_diff.set_commonChanges [OF d] by (simp only: UN_iff mem_Collect_eq Bex_def) metis
  show ?thesis
    unfolding compareSets_Nil [OF ok] set_compareSets [OF d] Un_iff common using field by auto
qed

lemma waiver_changes_exact_witness:
  "\<lparr>wc_WaiverID = ''w'', wc_Kind = ''waiver-owner-changed''\<rparr> \<in> set (compareSets [demoWaiver ''a''] [demoWaiver ''b''])"
  using waiver_changes_exact [OF demo_waiver_parsed [OF demo_owners(1)] demo_waiver_parsed [OF demo_owners(2)], of id]
  by (simp add: demoSet_def Let_def demoWaiver_def)

section \<open>Trusted loading\<close>

lemma waiver_LoadTrusted_ok:
  assumes "waiver_LoadTrusted sha load ctx (Some ReadFile) req limits = Inr r"
  obtains present raw where "waiver_validateLimits limits = Inr limits"
    and "assessBase sha load limits (tq_Base req) (ReadFile (tq_Base req) WaiverPath (wl_MaxWaiverFileBytes limits))
           = Inr (wr_Base r, present, raw)"
    and "assessWaiverHead sha load limits (tq_Head req) (wr_Base r, present, raw)
           (ReadFile (tq_Head req) WaiverPath (wl_MaxWaiverFileBytes limits)) = Inr (wr_Head r)"
    and "wr_BaseRevision r = tq_Base req" and "wr_HeadRevision r = tq_Head req"
proof -
  have lim: "waiver_validateLimits limits = Inr l \<Longrightarrow> l = limits" for l
    by (simp add: waiver_validateLimits_def split: if_splits)
  show ?thesis
    using assms that lim unfolding waiver_LoadTrusted_def
    by (auto simp: result_simps split: if_splits)
qed

text \<open>A waiver file that is accepted: a regular file that is not executable and parses.\<close>

definition accepted_file :: "(string \<Rightarrow> string) \<Rightarrow> yaml_load \<Rightarrow> WaiverLimits \<Rightarrow> read_error + RevisionFile \<Rightarrow> WaiverSet \<Rightarrow> bool" where
  "accepted_file sha load l file st \<longleftrightarrow> (\<exists>f. file = Inr f \<and> rf_Kind f = EntryKindRegularFile \<and> \<not> rf_Executable f
     \<and> waiver_Parse sha load (rf_bytes f) l = Inr st)"

lemma waiver_Parse_size: "waiver_Parse sha load data l = Inr st \<Longrightarrow> int (length data) \<le> wl_MaxWaiverFileBytes l \<and> data \<noteq> []"
  by (erule waiver_Parse_ok) (auto simp: waiver_preflight_def trim_left_space.simps split: if_splits)

lemma addedChanges_compareSets: "distinct (map wv_ID ws) \<Longrightarrow> addedChanges ws = compareSets [] ws"
  by (simp add: addedChanges_def compareSets_def byKey_def distinct_remdups_id comp_def)

text \<open>What is known of a base after it was read.\<close>

lemma assessBase_known:
  assumes "assessBase sha load l c file = Inr (b, present, raw)"
  shows "wb_State b = BaseStateValid \<longleftrightarrow> (\<exists>st. accepted_file sha load l file st)"
    and "accepted_file sha load l file st \<Longrightarrow> present \<and> wb_Waivers b = wt_Waivers st \<and> wb_SemanticDigest b = wt_SemanticDigest st
      \<and> waiver_Parse sha load raw l = Inr st"
    and "wb_State b \<noteq> BaseStateValid \<Longrightarrow> wb_Waivers b = [] \<and> (\<forall>st. waiver_Parse sha load raw l \<noteq> Inr st)"
proof -
  have none: "waiver_Parse sha load [] l \<noteq> Inr st" for st using waiver_Parse_size by blast
  have "(wb_State b = BaseStateValid \<longleftrightarrow> (\<exists>st. accepted_file sha load l file st))
    \<and> (\<forall>st. accepted_file sha load l file st \<longrightarrow> present \<and> wb_Waivers b = wt_Waivers st \<and> wb_SemanticDigest b = wt_SemanticDigest st
      \<and> waiver_Parse sha load raw l = Inr st)
    \<and> (wb_State b \<noteq> BaseStateValid \<longrightarrow> wb_Waivers b = [] \<and> (\<forall>st. waiver_Parse sha load raw l \<noteq> Inr st))"
    using assms none waiver_Parse_size [of sha load _ l]
    by (fastforce simp: assessBase_def accepted_file_def noBase_def Let_def split: sum.splits if_splits)
  then show "wb_State b = BaseStateValid \<longleftrightarrow> (\<exists>st. accepted_file sha load l file st)"
    "accepted_file sha load l file st \<Longrightarrow> present \<and> wb_Waivers b = wt_Waivers st \<and> wb_SemanticDigest b = wt_SemanticDigest st
      \<and> waiver_Parse sha load raw l = Inr st"
    "wb_State b \<noteq> BaseStateValid \<Longrightarrow> wb_Waivers b = [] \<and> (\<forall>st. waiver_Parse sha load raw l \<noteq> Inr st)" by blast+
qed

text \<open>A head that is not accepted proposes nothing.\<close>

lemma assessWaiverHead_rejected:
  assumes "assessWaiverHead sha load l c (b, present, raw) file = Inr h"
    and "\<nexists>st. accepted_file sha load l file st" and "wb_State b = BaseStateValid \<Longrightarrow> \<exists>st. waiver_Parse sha load raw l = Inr st"
    and "wb_State b \<noteq> BaseStateValid \<Longrightarrow> wb_Waivers b = []"
  shows "wh_Waivers h = [] \<and> wh_Changes h = []
    \<and> wh_State h \<notin> {HeadStateAdded, HeadStateModifiedValid, HeadStateContentChangedSemanticallyEquivalent}
    \<and> (wh_State h = HeadStateUnchanged \<longrightarrow> wb_State b \<noteq> BaseStateValid)"
  using assms
  by (cases "wb_State b = BaseStateValid")
     (auto simp: assessWaiverHead_def accepted_file_def noHead_def invalidHead_def Let_def split: sum.splits if_splits)

text \<open>An accepted head proposes its waivers, and its changes are those against what the base grants.\<close>

lemma assessWaiverHead_accepted:
  assumes "assessWaiverHead sha load l c (b, present, raw) file = Inr h" and st': "accepted_file sha load l file st'"
    and "wb_State b \<noteq> BaseStateValid" and "wb_Waivers b = []" and "\<forall>st. waiver_Parse sha load raw l \<noteq> Inr st"
  shows "wh_Waivers h = wt_Waivers st' \<and> wh_Changes h = compareSets (wb_Waivers b) (wt_Waivers st') \<and> wh_State h = HeadStateAdded"
proof -
  from st' obtain f where f: "file = Inr f" "rf_Kind f = EntryKindRegularFile" "\<not> rf_Executable f"
    "waiver_Parse sha load (rf_bytes f) l = Inr st'" by (auto simp: accepted_file_def)
  then have "raw \<noteq> rf_bytes f" using assms(5) by auto
  moreover have "addedChanges (wt_Waivers st') = compareSets [] (wt_Waivers st')"
    using waiver_Parse_set_ok [OF f(4)] by (intro addedChanges_compareSets) (simp add: set_ok_def)
  ultimately show ?thesis
    using assms(1,3,4) by (auto simp: assessWaiverHead_def f proposeHead_def Let_def split: if_splits)
qed

lemma assessWaiverHead_valid:
  assumes "assessWaiverHead sha load l c (b, True, raw) file = Inr h" and st': "accepted_file sha load l file st'"
    and "wb_State b = BaseStateValid" and st: "waiver_Parse sha load raw l = Inr st"
    and "wb_Waivers b = wt_Waivers st" and "wb_SemanticDigest b = wt_SemanticDigest st"
    and "inj_on sha {waiverSetBytes st, waiverSetBytes st'}"
  shows "wh_Waivers h = wt_Waivers st' \<and> wh_Changes h = compareSets (wb_Waivers b) (wt_Waivers st')
    \<and> (wh_State h \<in> {HeadStateUnchanged, HeadStateContentChangedSemanticallyEquivalent} \<longleftrightarrow> wt_Waivers st' = wb_Waivers b)
    \<and> (wh_State h = HeadStateModifiedValid \<longleftrightarrow> wt_Waivers st' \<noteq> wb_Waivers b)"
proof -
  from st' obtain f where f: "file = Inr f" "rf_Kind f = EntryKindRegularFile" "\<not> rf_Executable f"
    "waiver_Parse sha load (rf_bytes f) l = Inr st'" by (auto simp: accepted_file_def)
  have eq: "wt_SemanticDigest st = wt_SemanticDigest st' \<longleftrightarrow> wt_Waivers st = wt_Waivers st'"
    by (rule semantic_digest_eq [OF st f(4) assms(7)])
  have same: "compareSets (wt_Waivers st) (wt_Waivers st') = [] \<longleftrightarrow> wt_Waivers st = wt_Waivers st'"
    by (rule compareSets_Nil [OF waiver_Parse_set_ok [OF st] waiver_Parse_set_ok [OF f(4)]])
  show ?thesis
  proof (cases "raw = rf_bytes f")
    case True
    then have "st = st'" using st f(4) by simp
    then show ?thesis using assms(1,3,5) True same
      by (auto simp: assessWaiverHead_def f noHead_def Let_def)
  next
    case False
    then show ?thesis using assms(1,3,5,6) eq same
      by (auto simp: assessWaiverHead_def f noHead_def proposeHead_def Let_def split: if_splits)
  qed
qed

lemma compareSets_granted:
  assumes "waiver_Parse sha load data l = Inr st'" and "ws = [] \<or> (\<exists>st data'. waiver_Parse sha load data' l = Inr st \<and> ws = wt_Waivers st)"
  shows "compareSets ws (wt_Waivers st') = [] \<longleftrightarrow> wt_Waivers st' = ws"
  using assms(2)
proof
  assume "ws = []"
  moreover have "addedChanges (wt_Waivers st') = compareSets [] (wt_Waivers st')"
    using waiver_Parse_set_ok [OF assms(1)] by (intro addedChanges_compareSets) (simp add: set_ok_def)
  moreover have "addedChanges (wt_Waivers st') = [] \<longleftrightarrow> wt_Waivers st' = []"
    unfolding set_empty [symmetric] by (simp add: addedChanges_def waiver_sortChanges_def set_slice_stable)
  ultimately show ?thesis by simp
next
  assume "\<exists>st data'. waiver_Parse sha load data' l = Inr st \<and> ws = wt_Waivers st"
  then obtain st data' where st: "waiver_Parse sha load data' l = Inr st" "ws = wt_Waivers st" by blast
  show ?thesis unfolding st(2) using compareSets_Nil [OF waiver_Parse_set_ok [OF st(1)] waiver_Parse_set_ok [OF assms(1)]] by auto
qed

text \<open>
  C15. Only the base revision grants waivers. Two loads with the same base file, whatever their heads are, agree on the whole base
  assessment; it is valid exactly when the base file is a regular, non-executable file that is accepted, and then it grants the
  waivers of that file; otherwise it grants none. A head file that is accepted, whether the base is absent, invalid or
  valid, is reported with its own waivers and with exactly its changes against what the base grants: none only if it
  proposes the granted waivers. With a valid base it is reported as unchanged or equivalent exactly when it proposes them,
  and as modified exactly when it proposes others; without one it is reported as added. A head that is not accepted is reported with
  no waivers and no changes, never as added, modified or equivalent, and as unchanged only if the base is not valid either. The texts
  hashed for an accepted base and an accepted head must not be a collision of the hash.
\<close>

theorem waiver_authority:
  assumes "waiver_LoadTrusted sha load ctx (Some ReadFile) req limits = Inr r"
    and "waiver_LoadTrusted sha load ctx' (Some ReadFile') req' limits = Inr r'"
    and "tq_Base req' = tq_Base req"
    and "ReadFile' (tq_Base req) WaiverPath (wl_MaxWaiverFileBytes limits)
         = ReadFile (tq_Base req) WaiverPath (wl_MaxWaiverFileBytes limits)"
    and "\<And>st st'. accepted_file sha load limits (ReadFile (tq_Base req) WaiverPath (wl_MaxWaiverFileBytes limits)) st
           \<Longrightarrow> accepted_file sha load limits (ReadFile (tq_Head req) WaiverPath (wl_MaxWaiverFileBytes limits)) st'
           \<Longrightarrow> inj_on sha {waiverSetBytes st, waiverSetBytes st'}"
  shows "let B = ReadFile (tq_Base req) WaiverPath (wl_MaxWaiverFileBytes limits);
             H = ReadFile (tq_Head req) WaiverPath (wl_MaxWaiverFileBytes limits); b = wr_Base r; h = wr_Head r in
    wr_Base r' = b
    \<and> (wb_State b = BaseStateValid \<longleftrightarrow> (\<exists>st. accepted_file sha load limits B st))
    \<and> (\<forall>st. accepted_file sha load limits B st \<longrightarrow> wb_Waivers b = wt_Waivers st)
    \<and> (wb_State b \<noteq> BaseStateValid \<longrightarrow> wb_Waivers b = [])
    \<and> (\<forall>st'. accepted_file sha load limits H st' \<longrightarrow>
         wh_Waivers h = wt_Waivers st' \<and> wh_Changes h = compareSets (wb_Waivers b) (wt_Waivers st')
         \<and> (wh_Changes h = [] \<longleftrightarrow> wt_Waivers st' = wb_Waivers b)
         \<and> (if wb_State b = BaseStateValid
            then (wh_State h \<in> {HeadStateUnchanged, HeadStateContentChangedSemanticallyEquivalent} \<longleftrightarrow> wt_Waivers st' = wb_Waivers b)
              \<and> (wh_State h = HeadStateModifiedValid \<longleftrightarrow> wt_Waivers st' \<noteq> wb_Waivers b)
            else wh_State h = HeadStateAdded))
    \<and> ((\<nexists>st'. accepted_file sha load limits H st') \<longrightarrow> wh_Waivers h = [] \<and> wh_Changes h = []
         \<and> wh_State h \<notin> {HeadStateAdded, HeadStateModifiedValid, HeadStateContentChangedSemanticallyEquivalent}
         \<and> (wh_State h = HeadStateUnchanged \<longrightarrow> wb_State b \<noteq> BaseStateValid))"
proof -
  let ?B = "ReadFile (tq_Base req) WaiverPath (wl_MaxWaiverFileBytes limits)"
  let ?H = "ReadFile (tq_Head req) WaiverPath (wl_MaxWaiverFileBytes limits)"
  obtain present raw where b: "assessBase sha load limits (tq_Base req) ?B = Inr (wr_Base r, present, raw)"
    and h: "assessWaiverHead sha load limits (tq_Head req) (wr_Base r, present, raw) ?H = Inr (wr_Head r)"
    by (rule waiver_LoadTrusted_ok [OF assms(1)])
  obtain present' raw' where b': "assessBase sha load limits (tq_Base req')
      (ReadFile' (tq_Base req') WaiverPath (wl_MaxWaiverFileBytes limits)) = Inr (wr_Base r', present', raw')"
    by (rule waiver_LoadTrusted_ok [OF assms(2)])
  have same: "wr_Base r' = wr_Base r" using b b' assms(3,4) by simp
  note base = assessBase_known [OF b]
  have rejected: "wh_Waivers (wr_Head r) = [] \<and> wh_Changes (wr_Head r) = []
      \<and> wh_State (wr_Head r) \<notin> {HeadStateAdded, HeadStateModifiedValid, HeadStateContentChangedSemanticallyEquivalent}
      \<and> (wh_State (wr_Head r) = HeadStateUnchanged \<longrightarrow> wb_State (wr_Base r) \<noteq> BaseStateValid)"
    if "\<nexists>st'. accepted_file sha load limits ?H st'"
    by (rule assessWaiverHead_rejected [OF h that]) (use base in blast)+
  have empty: "compareSets (wb_Waivers (wr_Base r)) (wt_Waivers st') = [] \<longleftrightarrow> wt_Waivers st' = wb_Waivers (wr_Base r)"
    if "accepted_file sha load limits ?H st'" for st'
  proof -
    from that obtain f where f: "waiver_Parse sha load (rf_bytes f) limits = Inr st'" by (auto simp: accepted_file_def)
    have "wb_Waivers (wr_Base r) = [] \<or> (\<exists>st data'. waiver_Parse sha load data' limits = Inr st \<and> wb_Waivers (wr_Base r) = wt_Waivers st)"
      using base by blast
    from compareSets_granted [OF f this] show ?thesis .
  qed
  have accepted: "wh_Waivers (wr_Head r) = wt_Waivers st' \<and> wh_Changes (wr_Head r) = compareSets (wb_Waivers (wr_Base r)) (wt_Waivers st')
      \<and> (wh_Changes (wr_Head r) = [] \<longleftrightarrow> wt_Waivers st' = wb_Waivers (wr_Base r))
      \<and> (if wb_State (wr_Base r) = BaseStateValid
         then (wh_State (wr_Head r) \<in> {HeadStateUnchanged, HeadStateContentChangedSemanticallyEquivalent}
                \<longleftrightarrow> wt_Waivers st' = wb_Waivers (wr_Base r))
           \<and> (wh_State (wr_Head r) = HeadStateModifiedValid \<longleftrightarrow> wt_Waivers st' \<noteq> wb_Waivers (wr_Base r))
         else wh_State (wr_Head r) = HeadStateAdded)" if st': "accepted_file sha load limits ?H st'" for st'
  proof (cases "wb_State (wr_Base r) = BaseStateValid")
    case True
    then obtain st where st: "accepted_file sha load limits ?B st" using base(1) by blast
    note known = base(2) [OF st]
    have "assessWaiverHead sha load limits (tq_Head req) (wr_Base r, True, raw) ?H = Inr (wr_Head r)" using h known by simp
    note head = assessWaiverHead_valid [OF this st' True _ _ _ assms(5) [OF st st']]
    from head known True empty [OF st'] show ?thesis by auto
  next
    case False
    with assessWaiverHead_accepted [OF h st' False] base(3) empty [OF st'] show ?thesis by auto
  qed
  have granted: "\<forall>st. accepted_file sha load limits ?B st \<longrightarrow> wb_Waivers (wr_Base r) = wt_Waivers st"
    "wb_State (wr_Base r) \<noteq> BaseStateValid \<longrightarrow> wb_Waivers (wr_Base r) = []" using base(2,3) by blast+
  show ?thesis unfolding Let_def
    by (rule conjI [OF same conjI [OF base(1) conjI [OF granted(1) conjI [OF granted(2)
          conjI [OF allI [OF impI [OF accepted]] impI [OF rejected]]]]]])
qed

definition demoWaiverFile :: "string \<Rightarrow> RevisionFile" where
  "demoWaiverFile owner = \<lparr>rf_Kind = EntryKindRegularFile, rf_Data = Some owner, rf_Executable = False, rf_ObjectID = []\<rparr>"

text \<open>A head that changes the owner, and a head that removes the file.\<close>

definition demoChanged :: read_file where
  "demoChanged c path mx = Inr (demoWaiverFile (if c = demoBaseRevision then ''a'' else ''b''))"

definition demoRemoved :: read_file where
  "demoRemoved c path mx = (if c = demoBaseRevision then Inr (demoWaiverFile ''a'')
     else Inl \<lparr>re_NotExist = True, re_TooLarge = False, re_Cancelled = False\<rparr>)"

definition demoWaiverBase :: BaseAssessment where
  "demoWaiverBase = \<lparr>wb_State = BaseStateValid, wb_File = metadataFor id WaiverPath demoBaseRevision (demoWaiverFile ''a''),
     wb_Waivers = [demoWaiver ''a''], wb_SemanticDigest = wt_SemanticDigest (demoSet id ''a''), wb_ErrorCode = []\<rparr>"

lemma demoWaiverFile_simps [simp]:
  "rf_Kind (demoWaiverFile owner) = EntryKindRegularFile" "rf_bytes (demoWaiverFile owner) = owner"
  "\<not> rf_Executable (demoWaiverFile owner)"
  by (simp_all add: demoWaiverFile_def rf_bytes_def)

lemma demo_assessBase:
  "assessBase id demoWaiverLoad waiver_DefaultLimits demoBaseRevision (Inr (demoWaiverFile ''a'')) = Inr (demoWaiverBase, True, ''a'')"
proof -
  have "wl_MaxWaiverFileBytes waiver_DefaultLimits = 262144" by (simp add: waiver_DefaultLimits_def)
  then show ?thesis
    by (simp add: assessBase_def demo_waiver_parsed [OF demo_owners(1)] demoWaiverBase_def noBase_def demoSet_def Let_def)
qed

lemma demo_waiver_loads:
  "\<exists>h. waiver_LoadTrusted id demoWaiverLoad live (Some demoChanged) demoRequest waiver_DefaultLimits =
     Inr \<lparr>wr_BaseRevision = demoBaseRevision, wr_HeadRevision = noCommit, wr_Base = demoWaiverBase, wr_Head = h\<rparr>
     \<and> wh_State h = HeadStateModifiedValid"
  "\<exists>h. waiver_LoadTrusted id demoWaiverLoad live (Some demoRemoved) demoRequest waiver_DefaultLimits =
     Inr \<lparr>wr_BaseRevision = demoBaseRevision, wr_HeadRevision = noCommit, wr_Base = demoWaiverBase, wr_Head = h\<rparr>"
proof -
  have ne: "noCommit \<noteq> demoBaseRevision" by (simp add: demoBaseRevision_def noCommit_def)
  have digests: "wb_SemanticDigest demoWaiverBase \<noteq> wt_SemanticDigest (demoSet id ''b'')"
    using semantic_digest_eq [OF demo_waiver_parsed [OF demo_owners(1), of id] demo_waiver_parsed [OF demo_owners(2), of id] inj_on_id]
    by (simp add: demoWaiverBase_def) (simp add: demoSet_def Let_def demoWaiver_def)
  have state: "wb_State demoWaiverBase = BaseStateValid" by (simp add: demoWaiverBase_def)
  show "\<exists>h. waiver_LoadTrusted id demoWaiverLoad live (Some demoChanged) demoRequest waiver_DefaultLimits =
      Inr \<lparr>wr_BaseRevision = demoBaseRevision, wr_HeadRevision = noCommit, wr_Base = demoWaiverBase, wr_Head = h\<rparr>
      \<and> wh_State h = HeadStateModifiedValid"
    unfolding waiver_LoadTrusted_def default_waiver_limits
    by (simp add: demoRequest_def demoChanged_def demo_assessBase ne assessWaiverHead_def state digests
        demo_waiver_parsed [OF demo_owners(2)] proposeHead_def Let_def)
  show "\<exists>h. waiver_LoadTrusted id demoWaiverLoad live (Some demoRemoved) demoRequest waiver_DefaultLimits =
      Inr \<lparr>wr_BaseRevision = demoBaseRevision, wr_HeadRevision = noCommit, wr_Base = demoWaiverBase, wr_Head = h\<rparr>"
    unfolding waiver_LoadTrusted_def default_waiver_limits
    by (simp add: demoRequest_def demoRemoved_def demo_assessBase ne assessWaiverHead_def)
qed

theorem waiver_authority_witness:
  "\<exists>r. waiver_LoadTrusted id demoWaiverLoad live (Some demoChanged) demoRequest waiver_DefaultLimits = Inr r
     \<and> wb_Waivers (wr_Base r) = [demoWaiver ''a''] \<and> wh_Waivers (wr_Head r) \<noteq> wb_Waivers (wr_Base r)
     \<and> wh_Changes (wr_Head r) \<noteq> []"
proof -
  obtain h where h: "waiver_LoadTrusted id demoWaiverLoad live (Some demoChanged) demoRequest waiver_DefaultLimits =
      Inr \<lparr>wr_BaseRevision = demoBaseRevision, wr_HeadRevision = noCommit, wr_Base = demoWaiverBase, wr_Head = h\<rparr>"
    "wh_State h = HeadStateModifiedValid" using demo_waiver_loads(1) by blast
  obtain h' where h': "waiver_LoadTrusted id demoWaiverLoad live (Some demoRemoved) demoRequest waiver_DefaultLimits =
      Inr \<lparr>wr_BaseRevision = demoBaseRevision, wr_HeadRevision = noCommit, wr_Base = demoWaiverBase, wr_Head = h'\<rparr>"
    using demo_waiver_loads(2) by blast
  have same: "demoRemoved (tq_Base demoRequest) p m = demoChanged (tq_Base demoRequest) p m" for p m
    by (simp add: demoRemoved_def demoChanged_def demoRequest_def)
  have acc: "accepted_file id demoWaiverLoad waiver_DefaultLimits (demoChanged (tq_Head demoRequest) p m) (demoSet id ''b'')" for p m
  proof -
    have "noCommit \<noteq> demoBaseRevision" by (simp add: demoBaseRevision_def noCommit_def)
    then show ?thesis using demo_waiver_parsed [OF demo_owners(2), of id]
      by (simp add: accepted_file_def demoChanged_def demoRequest_def)
  qed
  have "wt_Waivers (demoSet id ''b'') \<noteq> [demoWaiver ''a'']" by (simp add: demoSet_def Let_def demoWaiver_def)
  moreover note waiver_authority [OF h(1) h' refl same inj_on_id, unfolded Let_def, THEN conjunct2, THEN conjunct2, THEN conjunct2,
    THEN conjunct2, THEN conjunct1, THEN spec, THEN mp, OF acc]
  ultimately show ?thesis using h(1) by (simp add: demoWaiverBase_def) metis
qed

end
