(* ===== verification/Plan.thy ===== *)
theory Plan
  imports Waiver_Facts Compare
begin

text \<open>
  \<open>internal/pipeline\<close>: the planner. It checks a request made of a run identity, a time, the trusted
  configuration, the snapshots of the two source trees and the ceilings of the platform, and freezes them
  into the run plan every later stage is bound to by digest.

  \<open>cloneRunPlan\<close>, \<open>cloneSourceSnapshot\<close> and \<open>cloneValidatedPipeline\<close> copy slices and pointers and are the
  identity on values. A rune loop that compares with ASCII bounds is a byte loop: no byte of a multi-byte
  sequence, nor the replacement rune of a broken one, is in the ranges tested.
\<close>

section \<open>Types\<close>

abbreviation MaxPlanJSONBytes :: int where "MaxPlanJSONBytes \<equiv> 16777216"
abbreviation MaxSourceLimitations :: nat where "MaxSourceLimitations \<equiv> 1000"
abbreviation MaxLimitationCodeBytes :: nat where "MaxLimitationCodeBytes \<equiv> 128"
abbreviation MaxLimitationPathBytes :: nat where "MaxLimitationPathBytes \<equiv> 4096"

record SourceSnapshot =
  sn_RevisionKind :: string
  sn_CommitID :: string
  sn_TreeID :: string
  sn_ObjectFormat :: string
  sn_MaterializedTreeDigest :: Digest
  sn_MaterializationManifestDigest :: Digest
  sn_Summary :: SourceSummary
  sn_Limitations :: "SourceLimitation list"

record BuildRequest =
  br_RunID :: string
  br_CreatedAt :: go_time
  br_Trusted :: TrustedLoadResult
  br_BaseSource :: SourceSnapshot
  br_HeadSource :: SourceSnapshot
  br_Platform :: PlatformConstraints

record FrozenPlan =
  fp_doc :: RunPlan
  fp_json :: string
  fp_digest :: Digest

definition planErr :: "string \<Rightarrow> string \<Rightarrow> string \<Rightarrow> go_error" where
  "planErr code stage path = GoError code stage [path]"

section \<open>Validation of the request\<close>

definition containsControlOrSpace :: "string \<Rightarrow> bool" where
  "containsControlOrSpace s \<longleftrightarrow> list_ex (\<lambda>c. of_char c \<le> (0x20 :: nat) \<or> of_char c = (0x7f :: nat)) s"

definition run_id_char :: "char \<Rightarrow> bool" where
  "run_id_char c \<longleftrightarrow> byte_in 97 122 c \<or> digit_char c \<or> c \<in> {CHR ''.'', CHR ''_'', CHR ''-''}"

definition runIDPattern :: "string \<Rightarrow> bool" where
  "runIDPattern s \<longleftrightarrow> (case s of [] \<Rightarrow> False
     | c # cs \<Rightarrow> (byte_in 97 122 c \<or> digit_char c) \<and> length cs \<le> 127 \<and> list_all run_id_char cs)"

definition validateRunID :: "string \<Rightarrow> go_error option" where
  "validateRunID s =
     (if s = [] \<or> length s > 128 \<or> \<not> validString s \<or> \<not> runIDPattern s \<or> containsControlOrSpace s
      then Some (planErr ''invalid-run-id'' ''request'' ''runId'') else None)"

definition normalizeCreatedAt :: "go_time \<Rightarrow> int result" where
  "normalizeCreatedAt t =
     (let bad = Inl (planErr ''invalid-created-at'' ''request'' ''createdAt'') in
      if time_is_zero t then bad
      else if gt_offset t \<noteq> 0 then bad
      else if gt_nanos t < minInstant \<or> \<not> gt_nanos t < maxInstant then bad
      else Inr (gt_nanos t))"

definition validatePlatformConstraints :: "PlatformConstraints \<Rightarrow> PlatformConstraints result" where
  "validatePlatformConstraints p =
     (if pc_RequiredNetworkMode p \<noteq> NetworkModeDeny
      then Inl (planErr ''unsupported-network-policy'' ''platform'' ''requiredNetworkMode'')
      else rcheck
        (first_error
          (\<lambda>(path, got, mx). if got \<le> 0 \<or> got > mx
             then Some (planErr ''invalid-platform-constraints'' ''platform'' path) else None)
          [(''maxCpu'', pc_MaxCPU p, 64),
           (''maxMemoryBytes'', pc_MaxMemoryBytes p, MaxMemoryBytes),
           (''maxDiskBytes'', pc_MaxDiskBytes p, MaxDiskBytes),
           (''maxProcessCount'', pc_MaxProcessCount p, 65535),
           (''maxGlobalTimeoutMillis'', pc_MaxGlobalTimeoutMillis p, MaxTimeoutMillis),
           (''maxScenarioTimeoutMillis'', pc_MaxScenarioTimeoutMillis p, MaxTimeoutMillis),
           (''maxScenarioCount'', pc_MaxScenarioCount p, 64),
           (''maxRepetitions'', pc_MaxRepetitions p, 10),
           (''maxFilesystemRootCount'', pc_MaxFilesystemRootCount p, 16),
           (''maxArtifactCount'', pc_MaxArtifactCount p, 64),
           (''maxArtifactBytes'', pc_MaxArtifactBytes p, MaxArtifactBytes),
           (''maxLogBytesPerStream'', pc_MaxLogBytesPerStream p, MaxLogBytesPerStream),
           (''maxPlanJsonBytes'', pc_MaxPlanJSONBytes p, MaxPlanJSONBytes)])
        (Inr p))"

text \<open>\<open>modelFormatAndWidth\<close>: the two formats have the same names in both packages.\<close>

definition modelFormatAndWidth :: "string \<Rightarrow> (string \<times> nat) result" where
  "modelFormatAndWidth format =
     (if format = ''sha1'' then Inr (''sha1'', 40)
      else if format = ''sha256'' then Inr (''sha256'', 64)
      else Inl (planErr ''invalid-object-format'' ''source'' ''objectFormat''))"

definition validateObjectID :: "string \<Rightarrow> nat \<Rightarrow> bool" where
  "validateObjectID s width \<longleftrightarrow> length s = width \<and> validString s \<and> list_all lower_hex_char s"

definition validateDigest :: "Digest \<Rightarrow> bool" where
  "validateDigest d \<longleftrightarrow> has_prefix d ''sha256:'' \<and> length d = 71 \<and> validString d \<and> list_all lower_hex_char (drop 7 d)"

definition validRepositoryPath :: "string \<Rightarrow> bool" where
  "validRepositoryPath p \<longleftrightarrow>
     \<not> (p = [] \<or> has_prefix p ''/'' \<or> NUL \<in> set p \<or> CHR 0x5C \<in> set p \<or> \<not> validString p \<or> hasControl p
        \<or> length p > MaxLimitationPathBytes)
     \<and> path_clean p = p
     \<and> list_all (\<lambda>part. part \<noteq> [] \<and> part \<noteq> ''.'' \<and> part \<noteq> ''..'' \<and> map lower_char part \<noteq> ''.git'')
         (split_on (CHR ''/'') p)"

definition validateSourceSummary :: "SourceSummary \<Rightarrow> go_error option" where
  "validateSourceSummary s =
     echeck (first_error
       (\<lambda>(path, v). if v < 0 then Some (planErr ''invalid-source-summary'' ''source'' path) else None)
       [(''directoryCount'', ss_DirectoryCount s), (''regularFileCount'', ss_RegularFileCount s),
        (''executableFileCount'', ss_ExecutableFileCount s), (''symlinkCount'', ss_SymlinkCount s),
        (''gitlinkCount'', ss_GitlinkCount s), (''lfsPointerCount'', ss_LFSPointerCount s),
        (''totalMaterializedFileBytes'', ss_TotalMaterializedFileBytes s),
        (''skippedEntryCount'', ss_SkippedEntryCount s)])
     (if ss_LFSPointerCount s > signed64 (ss_RegularFileCount s + ss_ExecutableFileCount s)
      then Some (planErr ''invalid-source-summary'' ''source'' ''lfsPointerCount'')
      else if ss_SkippedEntryCount s < ss_GitlinkCount s
      then Some (planErr ''invalid-source-summary'' ''source'' ''skippedEntryCount'')
      else None)"

definition limitationKey :: "SourceLimitation \<Rightarrow> string" where
  "limitationKey l = sl_Code l @ NUL # sl_Path l @ NUL # sl_Summary l"

definition limitationPath :: "nat \<Rightarrow> string" where
  "limitationPath i = ''limitations['' @ itoa i @ '']''"

fun validateLimitations :: "nat \<Rightarrow> SourceLimitation list \<Rightarrow> string set \<Rightarrow> go_error option" where
  "validateLimitations i [] seen = None"
| "validateLimitations i (l # ls) seen =
     (let bad = (\<lambda>field. Some (planErr ''invalid-source-snapshot'' ''source'' (limitationPath i @ field))) in
      if sl_Code l = [] \<or> length (sl_Code l) > MaxLimitationCodeBytes \<or> \<not> validString (sl_Code l)
         \<or> containsControlOrSpace (sl_Code l) then bad ''.code''
      else if sl_Path l \<noteq> []
              \<and> (length (sl_Path l) > MaxLimitationPathBytes \<or> \<not> validRepositoryPath (sl_Path l)) then bad ''.path''
      else if \<not> validString (sl_Summary l) \<or> hasControl (sl_Summary l)
              \<or> length (sl_Summary l) > MaxGeneralStringBytes then bad ''.summary''
      else if limitationKey l \<in> seen then bad []
      else validateLimitations (Suc i) ls (insert (limitationKey l) seen))"

definition validateSourceSnapshot :: "SourceSnapshot \<Rightarrow> string \<Rightarrow> SourceSnapshot result" where
  "validateSourceSnapshot s want =
     (if sn_RevisionKind s \<noteq> want then Inl (planErr ''revision-mismatch'' ''source'' ''revisionKind'')
      else rbind (modelFormatAndWidth (sn_ObjectFormat s)) (\<lambda>(modelFormat, width).
        if \<not> validateObjectID (sn_CommitID s) width then Inl (planErr ''invalid-object-id'' ''source'' ''commitId'')
        else if \<not> validateObjectID (sn_TreeID s) width then Inl (planErr ''invalid-object-id'' ''source'' ''treeId'')
        else if \<not> validateDigest (sn_MaterializedTreeDigest s)
        then Inl (planErr ''invalid-source-digest'' ''source'' ''materializedTreeDigest'')
        else if \<not> validateDigest (sn_MaterializationManifestDigest s)
        then Inl (planErr ''invalid-source-digest'' ''source'' ''materializationManifestDigest'')
        else rcheck (validateSourceSummary (sn_Summary s)) (
          if length (sn_Limitations s) > MaxSourceLimitations
          then Inl (planErr ''invalid-source-snapshot'' ''source'' ''limitations'')
          else rcheck (validateLimitations 0 (sn_Limitations s) {})
            (Inr (s\<lparr>sn_ObjectFormat := modelFormat\<rparr>)))))"

definition validateTrustedConsistency ::
  "TrustedLoadResult \<Rightarrow> SourceSnapshot \<Rightarrow> SourceSnapshot \<Rightarrow> go_error option" where
  "validateTrustedConsistency t base head =
     (if tl_EffectiveSource t \<noteq> ''base'' \<or> tl_EffectivePath t \<noteq> PipelinePath
         \<or> fm_Path (tl_BaseFile t) \<noteq> PipelinePath \<or> fm_Path (tl_EffectiveFile t) \<noteq> PipelinePath
      then Some (planErr ''invalid-trusted-config'' ''trusted'' ''effectiveSource'')
      else if cr_CommitID (tl_Base t) = [] \<or> cr_CommitID (tl_Head t) = []
      then Some (planErr ''invalid-trusted-config'' ''trusted'' ''commitId'')
      else if cr_CommitID (tl_Base t) \<noteq> sn_CommitID base \<or> cr_CommitID (tl_Head t) \<noteq> sn_CommitID head
      then Some (planErr ''trusted-config-mismatch'' ''trusted'' ''commitId'')
      else if vp_Name (tl_EffectivePipeline t) = [] \<or> vp_Scenarios (tl_EffectivePipeline t) = []
      then Some (planErr ''invalid-trusted-config'' ''trusted'' ''effectivePipeline'')
      else if cr_CommitID (fm_Revision (tl_EffectiveFile t)) \<noteq> cr_CommitID (tl_Base t)
              \<or> cr_CommitID (fm_Revision (tl_BaseFile t)) \<noteq> cr_CommitID (tl_Base t)
      then Some (planErr ''trusted-config-mismatch'' ''trusted'' ''baseFile.revision'')
      else if fm_Digest (tl_BaseFile t) = [] \<or> fm_Digest (tl_EffectiveFile t) = []
              \<or> fm_Digest (tl_BaseFile t) \<noteq> fm_Digest (tl_EffectiveFile t)
      then Some (planErr ''invalid-trusted-config'' ''trusted'' ''baseFile.digest'')
      else if \<not> validateDigest (fm_Digest (tl_BaseFile t))
      then Some (planErr ''invalid-trusted-config'' ''trusted'' ''baseFile.digest'')
      else if fm_SizeBytes (tl_BaseFile t) \<le> 0 \<or> fm_SizeBytes (tl_EffectiveFile t) \<noteq> fm_SizeBytes (tl_BaseFile t)
      then Some (planErr ''invalid-trusted-config'' ''trusted'' ''baseFile.sizeBytes'')
      else None)"

fun firstIndex :: "('a \<Rightarrow> bool) \<Rightarrow> nat \<Rightarrow> 'a list \<Rightarrow> nat option" where
  "firstIndex P i [] = None"
| "firstIndex P i (x # xs) = (if P x then Some i else firstIndex P (Suc i) xs)"

definition enforcePlatform :: "ValidatedPipeline \<Rightarrow> PlatformConstraints \<Rightarrow> go_error option" where
  "enforcePlatform p c =
     echeck (first_error
       (\<lambda>(path, got, mx). if got > mx then Some (planErr ''platform-limit-exceeded'' ''platform'' path) else None)
       [(''spec.resources.cpu'', vr_CPU (vp_Resources p), pc_MaxCPU c),
        (''spec.resources.memoryBytes'', vr_MemoryBytes (vp_Resources p), pc_MaxMemoryBytes c),
        (''spec.resources.diskBytes'', vr_DiskBytes (vp_Resources p), pc_MaxDiskBytes c),
        (''spec.resources.processCount'', vr_ProcessCount (vp_Resources p), pc_MaxProcessCount c),
        (''spec.resources.timeoutMillis'', vr_TimeoutMillis (vp_Resources p), pc_MaxGlobalTimeoutMillis c),
        (''spec.scenarios'', int (length (vp_Scenarios p)), pc_MaxScenarioCount c),
        (''spec.compare.repetitions'', vm_Repetitions (vp_Compare p), pc_MaxRepetitions c),
        (''spec.collect.filesystem.roots'', int (length (vc_FilesystemRoots (vp_Collect p))), pc_MaxFilesystemRootCount c),
        (''spec.collect.artifacts'', int (length (vc_Artifacts (vp_Collect p))), pc_MaxArtifactCount c),
        (''spec.collect.logs.maxBytesPerStream'', vc_LogMaxBytesPerStream (vp_Collect p), pc_MaxLogBytesPerStream c)])
     (case firstIndex (\<lambda>s. vs_TimeoutMillis s > pc_MaxScenarioTimeoutMillis c) 0 (vp_Scenarios p) of
        Some i \<Rightarrow> Some (planErr ''platform-limit-exceeded'' ''platform''
                          (''spec.scenarios['' @ itoa i @ ''].timeoutMillis''))
      | None \<Rightarrow>
        (case firstIndex (\<lambda>a. vt_MaxBytes a > pc_MaxArtifactBytes c) 0 (vc_Artifacts (vp_Collect p)) of
           Some i \<Rightarrow> Some (planErr ''platform-limit-exceeded'' ''platform''
                             (''spec.collect.artifacts['' @ itoa i @ ''].maxBytes''))
         | None \<Rightarrow> if vn_Mode (vp_Network p) \<noteq> pc_RequiredNetworkMode c
                   then Some (planErr ''unsupported-network-policy'' ''platform'' ''spec.network.mode'') else None))"

section \<open>The document\<close>

text \<open>The format was validated, so the error of \<open>modelFormatAndWidth\<close> that the source drops cannot occur.\<close>

definition formatOf :: "SourceSnapshot \<Rightarrow> string" where
  "formatOf s = (case modelFormatAndWidth (sn_ObjectFormat s) of Inl e \<Rightarrow> [] | Inr (f, w) \<Rightarrow> f)"

definition commitRefForPlan :: "CommitRef \<Rightarrow> SourceSnapshot \<Rightarrow> CommitRef" where
  "commitRefForPlan ref s = ref\<lparr>cr_Kind := sn_RevisionKind s, cr_CommitID := sn_CommitID s,
     cr_ObjectFormat := formatOf s, cr_TreeID := sn_TreeID s, cr_TreeDigest := []\<rparr>"

definition revisionPlan :: "SourceSnapshot \<Rightarrow> CommitRef \<Rightarrow> string list \<Rightarrow> RevisionPlan" where
  "revisionPlan s commit scenarioIDs =
     \<lparr>rv_Kind = sn_RevisionKind s, rv_Commit = commit, rv_ObjectFormat = formatOf s, rv_TreeID = sn_TreeID s,
      rv_MaterializedTreeDigest = sn_MaterializedTreeDigest s,
      rv_MaterializationManifestDigest = sn_MaterializationManifestDigest s,
      rv_SourceSummary = Some (sn_Summary s), rv_SourceLimitations = sn_Limitations s,
      rv_ScenarioIDs = scenarioIDs\<rparr>"

definition scenarioPlans ::
  "ValidatedPipeline \<Rightarrow> ResourceLimits \<Rightarrow> NetworkPolicy \<Rightarrow> ExpectedArtifactSpec list \<Rightarrow> ScenarioPlan list" where
  "scenarioPlans p limits network artifacts =
     map (\<lambda>s. \<lparr>sp_ID = vs_ID s, sp_Name = vs_Name s, sp_Shell = vs_Shell s, sp_Run = vs_Run s,
       sp_Repetitions = vm_Repetitions (vp_Compare p),
       sp_Command = \<lparr>cm_Argv = [], cm_WorkingDirectory = vp_Workdir p, cm_Environment = [],
         cm_TimeoutMillis = vs_TimeoutMillis s\<rparr>,
       sp_ResourceLimits = limits\<lparr>rsl_TimeoutMillis := vs_TimeoutMillis s\<rparr>,
       sp_NetworkPolicy = \<lparr>nwp_Mode = nwp_Mode network, nwp_Allowed = []\<rparr>,
       sp_ExpectedArtifacts = artifacts\<rparr>) (vp_Scenarios p)"

definition planLimits :: "ValidatedResources \<Rightarrow> ResourceLimits" where
  "planLimits r = \<lparr>rsl_CPU = vr_CPU r, rsl_TimeoutMillis = vr_TimeoutMillis r, rsl_MemoryBytes = vr_MemoryBytes r,
     rsl_DiskBytes = vr_DiskBytes r, rsl_CPUMillis = signed64 (vr_CPU r * 1000), rsl_ProcessCount = vr_ProcessCount r\<rparr>"

definition planArtifacts :: "ValidatedArtifact list \<Rightarrow> ExpectedArtifactSpec list" where
  "planArtifacts as = map (\<lambda>a. \<lparr>ea_LogicalPath = vt_Path a, ea_Required = False, ea_MaxSizeBytes = vt_MaxBytes a\<rparr>) as"

definition buildDocument ::
  "string \<Rightarrow> int \<Rightarrow> TrustedLoadResult \<Rightarrow> ValidatedPipeline \<Rightarrow> SourceSnapshot \<Rightarrow> SourceSnapshot \<Rightarrow> PlatformConstraints
     \<Rightarrow> RunPlan" where
  "buildDocument runID createdAt t p baseSource headSource platform =
     (let baseCommit = commitRefForPlan (tl_Base t) baseSource;
          headCommit = commitRefForPlan (tl_Head t) headSource;
          ids = map vs_ID (vp_Scenarios p);
          limits = planLimits (vp_Resources p);
          network = \<lparr>nwp_Mode = vn_Mode (vp_Network p), nwp_Allowed = []\<rparr>;
          artifacts = planArtifacts (vc_Artifacts (vp_Collect p))
      in \<lparr>rp_SchemaVersion = SchemaVersionRunPlanV1Alpha1, rp_ID = runID @ ''-plan'', rp_RunID = runID,
          rp_CreatedAt = createdAt, rp_PipelineName = vp_Name p,
          rp_Configuration = Some \<lparr>rg_Source = RevisionKindBase, rg_Path = PipelinePath,
            rg_Digest = fm_Digest (tl_BaseFile t), rg_SizeBytes = fm_SizeBytes (tl_BaseFile t),
            rg_ObjectID = fm_ObjectID (tl_BaseFile t)\<rparr>,
          rp_ExecutionEnvironment = Some \<lparr>rpe_Image = vp_Image p, rpe_ImageDigest = vp_ImageDigest p,
            rpe_Workdir = vp_Workdir p\<rparr>,
          rp_Base = baseCommit, rp_Head = headCommit,
          rp_Revisions = [revisionPlan baseSource baseCommit ids, revisionPlan headSource headCommit ids],
          rp_Scenarios = scenarioPlans p limits network artifacts,
          rp_Runner = zeroRunner, rp_ResourceLimits = limits, rp_NetworkPolicy = network, rp_Environment = [],
          rp_Collection = Some \<lparr>col_FilesystemRoots = vc_FilesystemRoots (vp_Collect p),
            col_FilesystemContents = vc_FilesystemContents (vp_Collect p), col_Artifacts = artifacts,
            col_LogMaxBytesPerStream = vc_LogMaxBytesPerStream (vp_Collect p)\<rparr>,
          rp_Comparison = Some \<lparr>cpl_IgnoreFields = vm_IgnoreFields (vp_Compare p),
            cpl_Repetitions = vm_Repetitions (vp_Compare p)\<rparr>,
          rp_Policy = Some \<lparr>ppl_Profile = vp_PolicyProfile p\<rparr>,
          rp_Platform = Some platform, rp_Limitations = []\<rparr>)"

definition sourceLimitationLess :: "SourceLimitation \<Rightarrow> SourceLimitation \<Rightarrow> bool" where
  "sourceLimitationLess a b =
     (if sl_Code a \<noteq> sl_Code b then sl_Code a < sl_Code b
      else if sl_Path a \<noteq> sl_Path b then sl_Path a < sl_Path b
      else sl_Summary a < sl_Summary b)"

interpretation source_limitation_order: keyed_order sourceLimitationLess
  "\<lambda>l. (sl_Code l, sl_Path l, sl_Summary l)"
  by unfold_locales (auto simp: sourceLimitationLess_def less_prod_def')

text \<open>
  \<open>normalizeRunPlan\<close>. Of the tests for nil slices one can fire on a document of \<open>buildDocument\<close>: the
  scenario identities of a revision are nil exactly when there are none. The replacement of nil slices by
  empty ones does not change the model's lists.
\<close>

definition normalizeRevision :: "nat \<Rightarrow> RevisionPlan \<Rightarrow> RevisionPlan result" where
  "normalizeRevision i r =
     (if rv_ScenarioIDs r = []
      then Inl (planErr ''model-invariant'' ''normalize'' (''revisions['' @ itoa i @ '']''))
      else Inr (r\<lparr>rv_SourceLimitations := slice_stable sourceLimitationLess (rv_SourceLimitations r)\<rparr>))"

definition normalizeRunPlan :: "RunPlan \<Rightarrow> RunPlan result" where
  "normalizeRunPlan doc =
     (if rp_SchemaVersion doc \<noteq> SchemaVersionRunPlanV1Alpha1
      then Inl (planErr ''model-invariant'' ''normalize'' ''schemaVersion'')
      else case rp_Revisions doc of
        [r0, r1] \<Rightarrow>
          if rv_Kind r0 \<noteq> RevisionKindBase \<or> rv_Kind r1 \<noteq> RevisionKindHead
          then Inl (planErr ''model-invariant'' ''normalize'' ''revisions'')
          else rbind (normalizeRevision 0 r0) (\<lambda>r0'. rbind (normalizeRevision 1 r1) (\<lambda>r1'.
            Inr (doc\<lparr>rp_Revisions := [r0', r1']\<rparr>)))
      | _ \<Rightarrow> Inl (planErr ''model-invariant'' ''normalize'' ''revisions''))"

section \<open>Freezing\<close>

abbreviation runPlanJSONDigestDomain :: string where
  "runPlanJSONDigestDomain \<equiv> ''glassroot.dev/run-plan-json/v1'' @ [NUL]"

definition DigestRunPlanJSON :: "(string \<Rightarrow> string) \<Rightarrow> string \<Rightarrow> Digest" where
  "DigestRunPlanJSON sha data = digestBytes sha runPlanJSONDigestDomain data"

text \<open>The request as far as it is checked before the document is built.\<close>

definition buildPlan :: "go_context \<Rightarrow> BuildRequest \<Rightarrow> RunPlan result" where
  "buildPlan ctx req =
     (if ctx 0 \<noteq> None then Inl (planErr ''context-cancelled'' ''request'' ''context'')
      else rcheck (validateRunID (br_RunID req)) (
        rbind (normalizeCreatedAt (br_CreatedAt req)) (\<lambda>createdAt.
        rbind (validatePlatformConstraints (br_Platform req)) (\<lambda>platform.
        rbind (validateSourceSnapshot (br_BaseSource req) RevisionKindBase) (\<lambda>baseSource.
        rbind (validateSourceSnapshot (br_HeadSource req) RevisionKindHead) (\<lambda>headSource.
        rcheck (validateTrustedConsistency (br_Trusted req) baseSource headSource) (
        rcheck (enforcePlatform (tl_EffectivePipeline (br_Trusted req)) platform) (
        normalizeRunPlan (buildDocument (br_RunID req) createdAt (br_Trusted req)
          (tl_EffectivePipeline (br_Trusted req)) baseSource headSource platform)))))))))"

definition Build ::
  "(string \<Rightarrow> string) \<Rightarrow> (RunPlan \<Rightarrow> string option) \<Rightarrow> go_context \<Rightarrow> BuildRequest \<Rightarrow> FrozenPlan result" where
  "Build sha marshal ctx req =
     rbind (buildPlan ctx req) (\<lambda>doc.
       case marshal doc of
         None \<Rightarrow> Inl (planErr ''serialization-failed'' ''freeze'' ''json'')
       | Some data \<Rightarrow>
           if int (length data) > pc_MaxPlanJSONBytes (br_Platform req) \<or> int (length data) > MaxPlanJSONBytes
           then Inl (planErr ''plan-too-large'' ''freeze'' ''json'')
           else Inr \<lparr>fp_doc = doc, fp_json = data, fp_digest = DigestRunPlanJSON sha data\<rparr>)"

section \<open>The platforms of the callers\<close>

text \<open>\<open>demoPlatform\<close> of \<open>internal/demo\<close>, the widest platform, and \<open>dockerDevPlatform\<close> of \<open>internal/localrun\<close>.\<close>

definition demoPlatform :: PlatformConstraints where
  "demoPlatform = \<lparr>pc_MaxCPU = 64, pc_MaxMemoryBytes = MaxMemoryBytes, pc_MaxDiskBytes = MaxDiskBytes,
     pc_MaxProcessCount = 65535, pc_MaxGlobalTimeoutMillis = MaxTimeoutMillis,
     pc_MaxScenarioTimeoutMillis = MaxTimeoutMillis, pc_MaxScenarioCount = 64, pc_MaxRepetitions = 10,
     pc_MaxFilesystemRootCount = 16, pc_MaxArtifactCount = 64, pc_MaxArtifactBytes = MaxArtifactBytes,
     pc_MaxLogBytesPerStream = MaxLogBytesPerStream, pc_MaxPlanJSONBytes = MaxPlanJSONBytes,
     pc_RequiredNetworkMode = NetworkModeDeny\<rparr>"

definition dockerDevPlatform :: PlatformConstraints where
  "dockerDevPlatform = \<lparr>pc_MaxCPU = 16, pc_MaxMemoryBytes = 68719476736, pc_MaxDiskBytes = 68719476736,
     pc_MaxProcessCount = 4096, pc_MaxGlobalTimeoutMillis = 7200000,
     pc_MaxScenarioTimeoutMillis = 3600000, pc_MaxScenarioCount = 64, pc_MaxRepetitions = 10,
     pc_MaxFilesystemRootCount = 16, pc_MaxArtifactCount = 64, pc_MaxArtifactBytes = 1073741824,
     pc_MaxLogBytesPerStream = 104857600, pc_MaxPlanJSONBytes = MaxPlanJSONBytes,
     pc_RequiredNetworkMode = NetworkModeDeny\<rparr>"

end
