(* ===== verification/Plan_Props.thy ===== *)
theory Plan_Props
  imports Plan Config_Props
begin

text \<open>
  The planner: what a plan it builds guarantees, and that a configuration accepted by \<open>config\<close> is always
  admitted by the widest platform.
\<close>

section \<open>Facts\<close>

lemma modelFormatAndWidth_Inr:
  "modelFormatAndWidth f = Inr (m, w) \<longleftrightarrow> m = f \<and> (f = ''sha1'' \<and> w = 40 \<or> f = ''sha256'' \<and> w = 64)"
  by (auto simp: modelFormatAndWidth_def)

lemma modelFormatAndWidth_names [simp]:
  "modelFormatAndWidth ''sha1'' = Inr (''sha1'', 40)" "modelFormatAndWidth ''sha256'' = Inr (''sha256'', 64)"
  by (simp_all add: modelFormatAndWidth_def)

lemma validateSourceSnapshot_ok:
  assumes "validateSourceSnapshot s want = Inr s'"
  shows "s' = s" and "sn_RevisionKind s = want" and "formatOf s = sn_ObjectFormat s"
    and "validateLimitations 0 (sn_Limitations s) {} = None"
  using assms
  by (auto simp: validateSourceSnapshot_def formatOf_def result_simps modelFormatAndWidth_Inr split: prod.splits sum.splits)

lemma normalizeRunPlan_ok:
  assumes "normalizeRunPlan doc = Inr plan" and "rp_Revisions doc = [r0, r1]"
  shows "plan = doc\<lparr>rp_Revisions :=
      [r0\<lparr>rv_SourceLimitations := slice_stable sourceLimitationLess (rv_SourceLimitations r0)\<rparr>,
       r1\<lparr>rv_SourceLimitations := slice_stable sourceLimitationLess (rv_SourceLimitations r1)\<rparr>]\<rparr>"
  using assms by (auto simp: normalizeRunPlan_def normalizeRevision_def result_simps split: if_splits)

lemma buildDocument_revisions:
  "rp_Revisions (buildDocument runID at t p b h c) =
     [revisionPlan b (commitRefForPlan (tl_Base t) b) (map vs_ID (vp_Scenarios p)),
      revisionPlan h (commitRefForPlan (tl_Head t) h) (map vs_ID (vp_Scenarios p))]"
  by (simp add: buildDocument_def Let_def)

text \<open>The plan a request is turned into, with the limitations of its sources in canonical order.\<close>

definition plannedRevision :: "SourceSnapshot \<Rightarrow> CommitRef \<Rightarrow> string list \<Rightarrow> RevisionPlan" where
  "plannedRevision s c ids = (revisionPlan s c ids)
     \<lparr>rv_SourceLimitations := slice_stable sourceLimitationLess (sn_Limitations s)\<rparr>"

definition plannedDocument :: "BuildRequest \<Rightarrow> RunPlan" where
  "plannedDocument req =
     (let t = br_Trusted req; p = tl_EffectivePipeline t; b = br_BaseSource req; h = br_HeadSource req in
      (buildDocument (br_RunID req) (gt_nanos (br_CreatedAt req)) t p b h (br_Platform req))
        \<lparr>rp_Revisions := [plannedRevision b (commitRefForPlan (tl_Base t) b) (map vs_ID (vp_Scenarios p)),
                         plannedRevision h (commitRefForPlan (tl_Head t) h) (map vs_ID (vp_Scenarios p))]\<rparr>)"

text \<open>What is checked of a request.\<close>

definition request_ok :: "BuildRequest \<Rightarrow> bool" where
  "request_ok req \<longleftrightarrow>
     validateRunID (br_RunID req) = None
     \<and> normalizeCreatedAt (br_CreatedAt req) = Inr (gt_nanos (br_CreatedAt req))
     \<and> validatePlatformConstraints (br_Platform req) = Inr (br_Platform req)
     \<and> validateSourceSnapshot (br_BaseSource req) RevisionKindBase = Inr (br_BaseSource req)
     \<and> validateSourceSnapshot (br_HeadSource req) RevisionKindHead = Inr (br_HeadSource req)
     \<and> validateTrustedConsistency (br_Trusted req) (br_BaseSource req) (br_HeadSource req) = None
     \<and> enforcePlatform (tl_EffectivePipeline (br_Trusted req)) (br_Platform req) = None"

lemma normalizeCreatedAt_ok: "normalizeCreatedAt t = Inr n \<Longrightarrow> n = gt_nanos t"
  by (auto simp: normalizeCreatedAt_def Let_def split: if_splits)

lemma validatePlatformConstraints_ok: "validatePlatformConstraints p = Inr q \<Longrightarrow> q = p"
  by (auto simp: validatePlatformConstraints_def result_simps)

lemma consistent_scenarios: "validateTrustedConsistency t b h = None \<Longrightarrow> vp_Scenarios (tl_EffectivePipeline t) \<noteq> []"
  by (auto simp: validateTrustedConsistency_def split: if_splits)

lemma normalize_planned:
  assumes "vp_Scenarios (tl_EffectivePipeline (br_Trusted req)) \<noteq> []"
    and "sn_RevisionKind (br_BaseSource req) = RevisionKindBase" and "sn_RevisionKind (br_HeadSource req) = RevisionKindHead"
  shows "normalizeRunPlan (buildDocument (br_RunID req) (gt_nanos (br_CreatedAt req)) (br_Trusted req)
      (tl_EffectivePipeline (br_Trusted req)) (br_BaseSource req) (br_HeadSource req) (br_Platform req))
    = Inr (plannedDocument req)"
  using assms
  by (simp add: normalizeRunPlan_def normalizeRevision_def buildDocument_def Let_def revisionPlan_def
      plannedDocument_def plannedRevision_def)

lemma buildPlan_iff:
  "buildPlan ctx req = Inr plan \<longleftrightarrow> ctx 0 = None \<and> request_ok req \<and> plan = plannedDocument req"
proof
  assume "buildPlan ctx req = Inr plan"
  then obtain n c b h where ok: "ctx 0 = None" "validateRunID (br_RunID req) = None"
    "normalizeCreatedAt (br_CreatedAt req) = Inr n" "validatePlatformConstraints (br_Platform req) = Inr c"
    "validateSourceSnapshot (br_BaseSource req) RevisionKindBase = Inr b"
    "validateSourceSnapshot (br_HeadSource req) RevisionKindHead = Inr h"
    "validateTrustedConsistency (br_Trusted req) b h = None"
    "enforcePlatform (tl_EffectivePipeline (br_Trusted req)) c = None"
    and doc: "normalizeRunPlan (buildDocument (br_RunID req) n (br_Trusted req)
          (tl_EffectivePipeline (br_Trusted req)) b h c) = Inr plan"
    by (auto simp: buildPlan_def result_simps)
  note same = normalizeCreatedAt_ok [OF ok(3)] validatePlatformConstraints_ok [OF ok(4)]
    validateSourceSnapshot_ok(1) [OF ok(5)] validateSourceSnapshot_ok(1) [OF ok(6)]
  have "request_ok req" using ok same by (simp add: request_ok_def)
  moreover have "plan = plannedDocument req"
    using doc normalize_planned [of req] ok same consistent_scenarios validateSourceSnapshot_ok(2) by simp
  ultimately show "ctx 0 = None \<and> request_ok req \<and> plan = plannedDocument req" using ok(1) by simp
next
  assume "ctx 0 = None \<and> request_ok req \<and> plan = plannedDocument req"
  then show "buildPlan ctx req = Inr plan"
    by (auto simp: buildPlan_def request_ok_def intro!: normalize_planned
        dest: consistent_scenarios validateSourceSnapshot_ok(2))
qed

lemma Build_ok:
  assumes "Build sha marshal ctx req = Inr fp"
  shows "request_ok req" and "fp_doc fp = plannedDocument req" and "marshal (plannedDocument req) = Some (fp_json fp)"
    and "fp_digest fp = DigestRunPlanJSON sha (fp_json fp)"
    and "int (length (fp_json fp)) \<le> pc_MaxPlanJSONBytes (br_Platform req)"
  using assms by (auto simp: Build_def result_simps buildPlan_iff split: option.splits)

lemma firstIndex_None: "firstIndex P i xs = None \<longleftrightarrow> (\<forall>x\<in>set xs. \<not> P x)"
  by (induction xs arbitrary: i) auto

definition platform_ok :: "PlatformConstraints \<Rightarrow> bool" where
  "platform_ok c \<longleftrightarrow> between 1 64 (pc_MaxCPU c) \<and> between 1 MaxMemoryBytes (pc_MaxMemoryBytes c)
     \<and> between 1 MaxDiskBytes (pc_MaxDiskBytes c) \<and> between 1 65535 (pc_MaxProcessCount c)
     \<and> between 1 MaxTimeoutMillis (pc_MaxGlobalTimeoutMillis c)
     \<and> between 1 MaxTimeoutMillis (pc_MaxScenarioTimeoutMillis c) \<and> between 1 64 (pc_MaxScenarioCount c)
     \<and> between 1 10 (pc_MaxRepetitions c) \<and> between 1 16 (pc_MaxFilesystemRootCount c)
     \<and> between 1 64 (pc_MaxArtifactCount c) \<and> between 1 MaxArtifactBytes (pc_MaxArtifactBytes c)
     \<and> between 1 MaxLogBytesPerStream (pc_MaxLogBytesPerStream c)
     \<and> between 1 MaxPlanJSONBytes (pc_MaxPlanJSONBytes c) \<and> pc_RequiredNetworkMode c = NetworkModeDeny"

lemma validatePlatformConstraints_iff: "validatePlatformConstraints c = Inr c' \<longleftrightarrow> c' = c \<and> platform_ok c"
  by (auto simp: validatePlatformConstraints_def platform_ok_def between_def result_simps)

definition admitted :: "ValidatedPipeline \<Rightarrow> PlatformConstraints \<Rightarrow> bool" where
  "admitted p c \<longleftrightarrow>
     vr_CPU (vp_Resources p) \<le> pc_MaxCPU c \<and> vr_MemoryBytes (vp_Resources p) \<le> pc_MaxMemoryBytes c
     \<and> vr_DiskBytes (vp_Resources p) \<le> pc_MaxDiskBytes c \<and> vr_ProcessCount (vp_Resources p) \<le> pc_MaxProcessCount c
     \<and> vr_TimeoutMillis (vp_Resources p) \<le> pc_MaxGlobalTimeoutMillis c
     \<and> int (length (vp_Scenarios p)) \<le> pc_MaxScenarioCount c
     \<and> vm_Repetitions (vp_Compare p) \<le> pc_MaxRepetitions c
     \<and> int (length (vc_FilesystemRoots (vp_Collect p))) \<le> pc_MaxFilesystemRootCount c
     \<and> int (length (vc_Artifacts (vp_Collect p))) \<le> pc_MaxArtifactCount c
     \<and> vc_LogMaxBytesPerStream (vp_Collect p) \<le> pc_MaxLogBytesPerStream c
     \<and> (\<forall>s\<in>set (vp_Scenarios p). vs_TimeoutMillis s \<le> pc_MaxScenarioTimeoutMillis c)
     \<and> (\<forall>a\<in>set (vc_Artifacts (vp_Collect p)). vt_MaxBytes a \<le> pc_MaxArtifactBytes c)
     \<and> vn_Mode (vp_Network p) = pc_RequiredNetworkMode c"

lemma no_firstIndex:
  "(case firstIndex P i xs of None \<Rightarrow> r | Some j \<Rightarrow> Some (e j)) = None \<longleftrightarrow> (\<forall>x\<in>set xs. \<not> P x) \<and> r = None"
  using firstIndex_None [of P i xs] by (auto split: option.splits)

lemma enforcePlatform_iff: "enforcePlatform p c = None \<longleftrightarrow> admitted p c"
  unfolding enforcePlatform_def admitted_def echeck_eq_None no_firstIndex
  by (auto simp: result_simps not_less)

section \<open>What a plan guarantees\<close>

text \<open>
  C19. A plan is bound to what was checked. When \<open>Build\<close> succeeds, the ceilings of the platform are positive
  and within the hard limits of the configuration format, and every one of them holds for the plan: processors, memory, disk,
  processes and time of the plan as a whole; the number of scenarios; the time of each scenario, whose other resources are those
  of the plan; the repetitions; the number of filesystem roots and of artifacts, in the collection and in each scenario; the size
  of each artifact; the log bytes per stream; and the bytes of the plan itself. The network is denied everywhere with nothing
  allowed; no runner facts are claimed; the scenarios are the scenarios of the base pipeline, in order, with their commands; the
  configuration names the digest of the base file; base and head are the commits, trees and materialized contents of the validated
  sources; and the digest is that of the exact bytes of the plan.
\<close>

theorem plan_bound_and_bounded:
  assumes "Build sha marshal ctx req = Inr fp"
  shows "let c = br_Platform req; t = br_Trusted req; p = tl_EffectivePipeline t; d = fp_doc fp in
      platform_ok c \<and> rp_Platform d = Some c
      \<and> rsl_CPU (rp_ResourceLimits d) \<le> pc_MaxCPU c \<and> rsl_MemoryBytes (rp_ResourceLimits d) \<le> pc_MaxMemoryBytes c
      \<and> rsl_DiskBytes (rp_ResourceLimits d) \<le> pc_MaxDiskBytes c
      \<and> rsl_ProcessCount (rp_ResourceLimits d) \<le> pc_MaxProcessCount c
      \<and> rsl_TimeoutMillis (rp_ResourceLimits d) \<le> pc_MaxGlobalTimeoutMillis c
      \<and> rp_NetworkPolicy d = \<lparr>nwp_Mode = NetworkModeDeny, nwp_Allowed = []\<rparr> \<and> rp_Runner d = zeroRunner
      \<and> int (length (rp_Scenarios d)) \<le> pc_MaxScenarioCount c
      \<and> map (\<lambda>s. (sp_ID s, sp_Shell s, sp_Run s)) (rp_Scenarios d)
        = map (\<lambda>s. (vs_ID s, vs_Shell s, vs_Run s)) (vp_Scenarios p)
      \<and> (\<forall>s\<in>set (rp_Scenarios d).
           cm_TimeoutMillis (sp_Command s) \<le> pc_MaxScenarioTimeoutMillis c
           \<and> sp_ResourceLimits s = (rp_ResourceLimits d)\<lparr>rsl_TimeoutMillis := cm_TimeoutMillis (sp_Command s)\<rparr>
           \<and> sp_NetworkPolicy s = \<lparr>nwp_Mode = NetworkModeDeny, nwp_Allowed = []\<rparr>
           \<and> sp_Repetitions s \<le> pc_MaxRepetitions c
           \<and> int (length (sp_ExpectedArtifacts s)) \<le> pc_MaxArtifactCount c
           \<and> (\<forall>a\<in>set (sp_ExpectedArtifacts s). ea_MaxSizeBytes a \<le> pc_MaxArtifactBytes c))
      \<and> (\<exists>k. rp_Collection d = Some k \<and> int (length (col_FilesystemRoots k)) \<le> pc_MaxFilesystemRootCount c
           \<and> int (length (col_Artifacts k)) \<le> pc_MaxArtifactCount c
           \<and> (\<forall>a\<in>set (col_Artifacts k). ea_MaxSizeBytes a \<le> pc_MaxArtifactBytes c)
           \<and> col_LogMaxBytesPerStream k \<le> pc_MaxLogBytesPerStream c)
      \<and> int (length (fp_json fp)) \<le> pc_MaxPlanJSONBytes c \<and> pc_MaxPlanJSONBytes c \<le> MaxPlanJSONBytes
      \<and> map_option rg_Digest (rp_Configuration d) = Some (fm_Digest (tl_BaseFile t))
      \<and> cr_CommitID (rp_Base d) = cr_CommitID (tl_Base t) \<and> cr_CommitID (rp_Head d) = cr_CommitID (tl_Head t)
      \<and> map rv_Kind (rp_Revisions d) = [RevisionKindBase, RevisionKindHead]
      \<and> map rv_TreeID (rp_Revisions d) = [sn_TreeID (br_BaseSource req), sn_TreeID (br_HeadSource req)]
      \<and> map rv_MaterializedTreeDigest (rp_Revisions d)
        = [sn_MaterializedTreeDigest (br_BaseSource req), sn_MaterializedTreeDigest (br_HeadSource req)]
      \<and> map rv_MaterializationManifestDigest (rp_Revisions d)
        = [sn_MaterializationManifestDigest (br_BaseSource req), sn_MaterializationManifestDigest (br_HeadSource req)]
      \<and> marshal d = Some (fp_json fp) \<and> fp_digest fp = DigestRunPlanJSON sha (fp_json fp)"
proof -
  note ok = Build_ok [OF assms]
  have c: "platform_ok (br_Platform req)" and a: "admitted (tl_EffectivePipeline (br_Trusted req)) (br_Platform req)"
    using ok(1) by (simp_all add: request_ok_def validatePlatformConstraints_iff enforcePlatform_iff)
  have src: "sn_RevisionKind (br_BaseSource req) = RevisionKindBase" "sn_RevisionKind (br_HeadSource req) = RevisionKindHead"
    using ok(1) validateSourceSnapshot_ok(2) by (auto simp: request_ok_def)
  have ids: "cr_CommitID (tl_Base (br_Trusted req)) = sn_CommitID (br_BaseSource req)"
    "cr_CommitID (tl_Head (br_Trusted req)) = sn_CommitID (br_HeadSource req)"
    using ok(1) by (auto simp: request_ok_def validateTrustedConsistency_def split: if_splits)
  note doc = plannedDocument_def buildDocument_def Let_def
  show ?thesis
    using c a src ids ok(3-5) unfolding ok(2)
    by (simp add: doc planLimits_def scenarioPlans_def planArtifacts_def plannedRevision_def revisionPlan_def
        commitRefForPlan_def admitted_def platform_ok_def between_def comp_def)
qed

section \<open>Accepted configurations are planned\<close>

lemma platforms_ok: "platform_ok demoPlatform" "platform_ok dockerDevPlatform"
  by (simp_all add: platform_ok_def demoPlatform_def dockerDevPlatform_def between_def)

lemma pipeline_admitted:
  assumes "pipeline_ok p"
  shows "admitted p demoPlatform"
proof -
  have "vs_TimeoutMillis s \<le> MaxTimeoutMillis" if "s \<in> set (vp_Scenarios p)" for s
  proof -
    have "scenario_ok (vr_TimeoutMillis (vp_Resources p)) s" using assms that by (auto simp: pipeline_ok_def list_all_iff)
    moreover have "vr_TimeoutMillis (vp_Resources p) \<le> MaxTimeoutMillis"
      using assms by (auto simp: pipeline_ok_def resources_ok_def between_def)
    ultimately show ?thesis by (simp add: scenario_ok_def between_def)
  qed
  then show ?thesis
    using assms
    by (auto simp: admitted_def demoPlatform_def pipeline_ok_def resources_ok_def collect_ok_def between_def)
qed

lemma validString_ascii: "list_all (byte_in 0 0x7F) s \<Longrightarrow> validString (s @ t) = validString t"
  by (induction s) simp_all

lemma validString_hex: "list_all lower_hex_char s \<Longrightarrow> validString s"
proof -
  assume "list_all lower_hex_char s"
  then have "list_all (byte_in 0 0x7F) s"
    by (rule list.pred_mono_strong) (auto simp: lower_hex_char_def less_eq_char_def byte_in_def)
  then show ?thesis using validString_ascii [of s "[]"] by simp
qed

lemma validateDigest_sha: "isLowerHex h 64 \<Longrightarrow> validateDigest (''sha256:'' @ h)"
proof -
  assume h: "isLowerHex h 64"
  have "validString (''sha256:'' @ h) = validString h" by (rule validString_ascii) (simp add: byte_in_def)
  then have "validString (''sha256:'' @ h)" using h validString_hex [of h] by (simp add: isLowerHex_def)
  then show ?thesis using h by (simp add: validateDigest_def isLowerHex_def has_prefix_def)
qed

lemma ParseAndValidate_nonempty: "ParseAndValidate load data = Inr p \<Longrightarrow> data \<noteq> []"
proof
  assume "ParseAndValidate load data = Inr p" "data = []"
  then have "preflightInput [] = []" using Parse_ok(1) by (auto simp: ParseAndValidate_def split: sum.splits)
  then show False by (simp add: preflightInput_def capDiagnostics_empty trim_left_space.simps [of "[]"])
qed

lemma identifier_nonempty: "pipeline_ok p \<Longrightarrow> vp_Name p \<noteq> [] \<and> vp_Scenarios p \<noteq> []"
  by (simp add: pipeline_ok_def validateIdentifier_def)

lemma loaded_consistent:
  assumes "LoadTrusted sha load ctx (Some ReadFile) q = Inr t" and "\<forall>s. isLowerHex (sha s) 64"
    and "sn_CommitID b = cr_CommitID (tq_Base q)" and "sn_CommitID h = cr_CommitID (tq_Head q)"
    and "sn_CommitID b \<noteq> []" and "sn_CommitID h \<noteq> []"
  shows "validateTrustedConsistency t b h = None"
proof -
  obtain f where f: "ParseAndValidate load (rf_bytes f) = Inr (tl_EffectivePipeline t)"
    "tl_BaseFile t = metadataForFile sha (tq_Base q) f" "tl_Base t = tq_Base q" "tl_Head t = tq_Head q"
    "tl_EffectiveSource t = ''base''" "tl_EffectivePath t = PipelinePath" "tl_EffectiveFile t = tl_BaseFile t"
    using LoadTrusted_ok [OF assms(1)] by metis
  have "rf_bytes f \<noteq> []" using ParseAndValidate_nonempty [OF f(1)] .
  then obtain d where d: "rf_Data f = Some d" "d \<noteq> []" by (auto simp: rf_bytes_def split: option.splits)
  then have m: "fm_Path (tl_BaseFile t) = PipelinePath" "fm_Digest (tl_BaseFile t) = ''sha256:'' @ sha d"
    "fm_SizeBytes (tl_BaseFile t) = int (length d)" "fm_Revision (tl_BaseFile t) = tq_Base q"
    by (simp_all add: f(2) metadataForFile_def metadataFor_def config_digestBytes_def)
  have "validateDigest (fm_Digest (tl_BaseFile t))" using assms(2) validateDigest_sha m(2) by simp
  then show ?thesis
    using f(3-) m d assms(3-) identifier_nonempty [OF ParseAndValidate_ok [OF f(1)]]
    by (auto simp: validateTrustedConsistency_def)
qed

lemma snapshot_commit_nonempty:
  "validateSourceSnapshot s k = Inr s' \<Longrightarrow> sn_CommitID s \<noteq> []"
  by (auto simp: validateSourceSnapshot_def result_simps modelFormatAndWidth_Inr validateObjectID_def split: prod.splits)

text \<open>
  Planning never rejects what configuration accepted. When the trusted pipeline was loaded, the two
  source snapshots are valid and of the commits the load was asked for, and run identity and time are valid,
  the planner builds a plan on the widest platform, for every hash with hexadecimal digests.
\<close>

lemma accepted_configuration_plans:
  assumes "LoadTrusted sha load ctx (Some ReadFile) q = Inr t" and "\<forall>s. isLowerHex (sha s) 64"
    and "validateSourceSnapshot b RevisionKindBase = Inr b'" and "validateSourceSnapshot h RevisionKindHead = Inr h'"
    and "sn_CommitID b = cr_CommitID (tq_Base q)" and "sn_CommitID h = cr_CommitID (tq_Head q)"
    and "validateRunID runID = None" and "normalizeCreatedAt at = Inr n"
  shows "\<exists>plan. buildPlan live \<lparr>br_RunID = runID, br_CreatedAt = at, br_Trusted = t, br_BaseSource = b,
      br_HeadSource = h, br_Platform = demoPlatform\<rparr> = Inr plan
    \<and> rp_RunID plan = runID \<and> map sp_ID (rp_Scenarios plan) = map vs_ID (vp_Scenarios (tl_EffectivePipeline t))"
    (is "\<exists>plan. buildPlan live ?req = _ \<and> _")
proof -
  have "pipeline_ok (tl_EffectivePipeline t)"
    using LoadTrusted_ok [OF assms(1)] ParseAndValidate_ok by metis
  moreover have "validateTrustedConsistency t b h = None"
    using loaded_consistent [OF assms(1,2,5,6)] snapshot_commit_nonempty assms(3,4) by blast
  ultimately have "request_ok ?req"
    using assms(3,4,7,8) validateSourceSnapshot_ok(1) [OF assms(3)] validateSourceSnapshot_ok(1) [OF assms(4)]
      normalizeCreatedAt_ok [OF assms(8)] pipeline_admitted platforms_ok(1)
    by (simp add: request_ok_def enforcePlatform_iff validatePlatformConstraints_iff)
  then have "buildPlan live ?req = Inr (plannedDocument ?req)" by (simp add: buildPlan_iff)
  then show ?thesis
    by (simp add: plannedDocument_def buildDocument_def Let_def scenarioPlans_def comp_def)
qed

section \<open>An example\<close>

definition planRevision :: "string \<Rightarrow> char \<Rightarrow> CommitRef" where
  "planRevision kind c = noCommit\<lparr>cr_Kind := kind, cr_CommitID := replicate 40 c\<rparr>"

definition planLoad :: TrustedLoadRequest where
  "planLoad = \<lparr>tq_Base = planRevision RevisionKindBase (CHR ''a''), tq_Head = planRevision RevisionKindHead (CHR ''b'')\<rparr>"

definition planTrusted :: "(string \<Rightarrow> string) \<Rightarrow> TrustedLoadResult" where
  "planTrusted sha =
     (let b = metadataForFile sha (tq_Base planLoad) demoFile; h = metadataForFile sha (tq_Head planLoad) demoFile in
      \<lparr>tl_Base = tq_Base planLoad, tl_Head = tq_Head planLoad, tl_EffectivePipeline = demoPipeline,
       tl_EffectiveSource = ''base'', tl_EffectivePath = PipelinePath, tl_EffectiveFile = b, tl_BaseFile = b,
       tl_HeadAssessment = assessment HeadStateUnchanged b h\<rparr>)"

definition planSnapshot :: "string \<Rightarrow> char \<Rightarrow> SourceSnapshot" where
  "planSnapshot kind c = \<lparr>sn_RevisionKind = kind, sn_CommitID = replicate 40 c, sn_TreeID = replicate 40 c,
     sn_ObjectFormat = ''sha1'', sn_MaterializedTreeDigest = ''sha256:'' @ replicate 64 c,
     sn_MaterializationManifestDigest = ''sha256:'' @ replicate 64 c,
     sn_Summary = \<lparr>ss_DirectoryCount = 0, ss_RegularFileCount = 1, ss_ExecutableFileCount = 0, ss_SymlinkCount = 0,
       ss_GitlinkCount = 0, ss_LFSPointerCount = 0, ss_TotalMaterializedFileBytes = 1, ss_SkippedEntryCount = 0\<rparr>,
     sn_Limitations = []\<rparr>"

definition planTime :: go_time where
  "planTime = \<lparr>gt_nanos = 1600000000000000000, gt_offset = 0, gt_canonical = True\<rparr>"

definition constSha :: "string \<Rightarrow> string" where "constSha s = replicate 64 (CHR ''c'')"

definition planRequest :: BuildRequest where
  "planRequest = \<lparr>br_RunID = ''run'', br_CreatedAt = planTime, br_Trusted = planTrusted constSha,
     br_BaseSource = planSnapshot RevisionKindBase (CHR ''a''), br_HeadSource = planSnapshot RevisionKindHead (CHR ''b''),
     br_Platform = demoPlatform\<rparr>"

lemma constSha_hex: "isLowerHex (constSha s) 64"
  by (simp add: constSha_def isLowerHex_def lower_hex_char_def less_eq_char_def list_all_iff)

lemma plan_loaded: "LoadTrusted sha demoLoad live (Some demoBoth) planLoad = Inr (planTrusted sha)"
  by (simp add: LoadTrusted_def demoBoth_def demo_parsed assessHead_def assessHeadFile_def planTrusted_def Let_def)

lemma planSnapshot_valid:
  assumes "c = CHR ''a'' \<or> c = CHR ''b''"
  shows "validateSourceSnapshot (planSnapshot kind c) kind = Inr (planSnapshot kind c)"
proof -
  have c: "lower_hex_char c" using assms by (auto simp: lower_hex_char_def less_eq_char_def)
  have "isLowerHex (replicate n c) n" for n using c by (simp add: isLowerHex_def list_all_iff)
  then have "validateDigest (''sha256:'' @ replicate 64 c)" "validateObjectID (replicate 40 c) 40"
    using validateDigest_sha [of "replicate 64 c"] validString_hex [of "replicate 40 c"]
    by (simp_all add: validateObjectID_def isLowerHex_def)
  then show ?thesis
    by (simp add: validateSourceSnapshot_def planSnapshot_def validateSourceSummary_def del: replicate.simps)
qed

lemma plan_request_times: "validateRunID ''run'' = None" "normalizeCreatedAt planTime = Inr 1600000000000000000"
  by (simp_all add: validateRunID_def runIDPattern_def run_id_char_def byte_in_def containsControlOrSpace_def
      normalizeCreatedAt_def planTime_def time_is_zero_def minInstant_def maxInstant_def)

lemma plan_commits:
  "sn_CommitID (planSnapshot RevisionKindBase (CHR ''a'')) = cr_CommitID (tq_Base planLoad)"
  "sn_CommitID (planSnapshot RevisionKindHead (CHR ''b'')) = cr_CommitID (tq_Head planLoad)"
  by (simp_all add: planSnapshot_def planLoad_def planRevision_def)

lemma accepted_configuration_plans_witness:
  "\<exists>plan. buildPlan live planRequest = Inr plan \<and> rp_RunID plan = ''run''"
proof -
  have "\<forall>s. isLowerHex (constSha s) 64" by (simp add: constSha_hex)
  from accepted_configuration_plans [OF plan_loaded this planSnapshot_valid [OF disjI1 [OF refl]]
      planSnapshot_valid [OF disjI2 [OF refl]] plan_commits plan_request_times]
  show ?thesis by (auto simp: planRequest_def)
qed

lemma planRequest_ok: "request_ok planRequest"
proof -
  have "\<forall>s. isLowerHex (constSha s) 64" by (simp add: constSha_hex)
  then have "validateTrustedConsistency (planTrusted constSha) (planSnapshot RevisionKindBase (CHR ''a''))
      (planSnapshot RevisionKindHead (CHR ''b'')) = None"
    using loaded_consistent [OF plan_loaded _ plan_commits] by (simp add: planSnapshot_def)
  then show ?thesis
    using planSnapshot_valid pipeline_admitted [OF demoPipeline_ok] platforms_ok(1) plan_request_times
    by (simp add: request_ok_def planRequest_def validatePlatformConstraints_iff enforcePlatform_iff planTrusted_def
        Let_def planTime_def)
qed

lemma plan_built:
  "Build sha (\<lambda>_. Some []) live planRequest =
     Inr \<lparr>fp_doc = plannedDocument planRequest, fp_json = [], fp_digest = DigestRunPlanJSON sha []\<rparr>"
proof -
  have "buildPlan live planRequest = Inr (plannedDocument planRequest)" using planRequest_ok by (simp add: buildPlan_iff)
  then show ?thesis by (simp add: Build_def planRequest_def demoPlatform_def)
qed

theorem plan_bound_and_bounded_witness:
  "rsl_CPU (rp_ResourceLimits (plannedDocument planRequest)) \<le> 64
   \<and> rp_NetworkPolicy (plannedDocument planRequest) = \<lparr>nwp_Mode = NetworkModeDeny, nwp_Allowed = []\<rparr>"
  using plan_bound_and_bounded [OF plan_built [of id]] by (simp add: Let_def planRequest_def demoPlatform_def)

end
