(* ===== verification/Application.thy ===== *)
theory Application
  imports Plan Policy
begin

text \<open>
  The second half of \<open>internal/policy\<close> (\<open>application.go\<close>, \<open>application_types.go\<close>,
  \<open>application_limits.go\<close>): the waivers of the base revision are applied to the findings of an evaluation,
  and what the head proposes for configuration and waivers becomes governance findings.

  The times of a waiver are civil times in UTC, so \<open>at.Before(w.IssuedAt)\<close> compares instants in
  nanoseconds. \<open>cloneApplication\<close>, \<open>cloneFinding\<close> and \<open>normalizeApplication\<close> copy slices and replace nil
  by empty ones. \<open>sort.Slice\<close> is modelled by the stable sort: two waiver statuses never tie, because no
  status is a suffix of another one, and two change references tie only when they render the same text.
\<close>

section \<open>Limits\<close>

record ApplicationLimits =
  al_MaxWaivers :: int
  al_MaxWaiverFileBytes :: int
  al_MaxWaiverLifetimeDays :: int
  al_MaxOwnerBytes :: int
  al_MaxReasonBytes :: int
  al_MaxWaiverChanges :: int
  al_MaxOriginalFindings :: int
  al_MaxGovernanceFindings :: int
  al_MaxAppliedFindings :: int
  al_MaxAppliedWaiverMetadata :: int
  al_MaxGovernanceReferences :: int
  al_MaxLimitationsTotal :: int
  al_MaxApplicationJSONBytes :: int

definition DefaultApplicationLimits :: ApplicationLimits where
  "DefaultApplicationLimits = \<lparr>al_MaxWaivers = 1000, al_MaxWaiverFileBytes = 262144, al_MaxWaiverLifetimeDays = 90,
     al_MaxOwnerBytes = 256, al_MaxReasonBytes = 1024, al_MaxWaiverChanges = 10000, al_MaxOriginalFindings = 100000,
     al_MaxGovernanceFindings = 20000, al_MaxAppliedFindings = 120000, al_MaxAppliedWaiverMetadata = 1000,
     al_MaxGovernanceReferences = 20000, al_MaxLimitationsTotal = 20000, al_MaxApplicationJSONBytes = 67108864\<rparr>"

definition application_zeroLimits :: ApplicationLimits where
  "application_zeroLimits = \<lparr>al_MaxWaivers = 0, al_MaxWaiverFileBytes = 0, al_MaxWaiverLifetimeDays = 0,
     al_MaxOwnerBytes = 0, al_MaxReasonBytes = 0, al_MaxWaiverChanges = 0, al_MaxOriginalFindings = 0,
     al_MaxGovernanceFindings = 0, al_MaxAppliedFindings = 0, al_MaxAppliedWaiverMetadata = 0,
     al_MaxGovernanceReferences = 0, al_MaxLimitationsTotal = 0, al_MaxApplicationJSONBytes = 0\<rparr>"

definition validateApplicationLimits :: "ApplicationLimits \<Rightarrow> ApplicationLimits result" where
  "validateApplicationLimits l =
     (if l = application_zeroLimits then Inl (policyErr ''invalid-limits'' ''application-limits'' [] [] ''zero'')
      else rcheck
        (first_error
          (\<lambda>(v, mx, name). if v \<le> 0 \<or> v > mx
             then Some (policyErr ''invalid-limits'' ''application-limits'' [] [] name) else None)
          [(al_MaxWaivers l, 1000, ''maxWaivers''), (al_MaxWaiverFileBytes l, 262144, ''maxWaiverFileBytes''),
           (al_MaxWaiverLifetimeDays l, 90, ''maxWaiverLifetimeDays''), (al_MaxOwnerBytes l, 256, ''maxOwnerBytes''),
           (al_MaxReasonBytes l, 1024, ''maxReasonBytes''), (al_MaxWaiverChanges l, 10000, ''maxWaiverChanges''),
           (al_MaxOriginalFindings l, 100000, ''maxOriginalFindings''),
           (al_MaxGovernanceFindings l, 20000, ''maxGovernanceFindings''),
           (al_MaxAppliedFindings l, 120000, ''maxAppliedFindings''),
           (al_MaxAppliedWaiverMetadata l, 1000, ''maxAppliedWaiverMetadata''),
           (al_MaxGovernanceReferences l, 20000, ''maxGovernanceReferences''),
           (al_MaxLimitationsTotal l, 20000, ''maxLimitationsTotal''),
           (al_MaxApplicationJSONBytes l, 67108864, ''maxApplicationJSONBytes'')])
        (Inr l))"

definition applicationWaiverLimits :: "ApplicationLimits \<Rightarrow> WaiverLimits" where
  "applicationWaiverLimits l = waiver_DefaultLimits\<lparr>wl_MaxWaiverFileBytes := al_MaxWaiverFileBytes l,
     wl_MaxWaivers := al_MaxWaivers l, wl_MaxOwnerBytes := al_MaxOwnerBytes l,
     wl_MaxReasonBytes := al_MaxReasonBytes l, wl_MaxLifetimeDays := al_MaxWaiverLifetimeDays l\<rparr>"

section \<open>Types\<close>

abbreviation SchemaVersionPolicyApplicationV1Alpha1 :: string where
  "SchemaVersionPolicyApplicationV1Alpha1 \<equiv> ''glassroot.dev/policy-application/v1alpha1''"
abbreviation GovernanceRuleSetVersionStrictV1Alpha1 :: string where
  "GovernanceRuleSetVersionStrictV1Alpha1 \<equiv> ''glassroot.dev/governance-rules/strict/v1alpha1''"
abbreviation applicationJSONDomain :: string where
  "applicationJSONDomain \<equiv> ''glassroot.dev/policy-application-json/v1'' @ [NUL]"

abbreviation FindingOriginBuiltinPolicy :: string where "FindingOriginBuiltinPolicy \<equiv> ''builtin-policy''"
abbreviation FindingOriginTrustedConfiguration :: string where
  "FindingOriginTrustedConfiguration \<equiv> ''trusted-configuration''"
abbreviation FindingOriginWaiverGovernance :: string where
  "FindingOriginWaiverGovernance \<equiv> ''waiver-governance''"

abbreviation WaiverStatusApplied :: string where "WaiverStatusApplied \<equiv> ''applied''"
abbreviation WaiverStatusExpired :: string where "WaiverStatusExpired \<equiv> ''expired''"
abbreviation WaiverStatusNotYetValid :: string where "WaiverStatusNotYetValid \<equiv> ''not-yet-valid''"
abbreviation WaiverStatusUnused :: string where "WaiverStatusUnused \<equiv> ''unused''"
abbreviation WaiverStatusTargetRuleMismatch :: string where "WaiverStatusTargetRuleMismatch \<equiv> ''target-rule-mismatch''"
abbreviation WaiverStatusTargetIneligible :: string where "WaiverStatusTargetIneligible \<equiv> ''target-ineligible''"
abbreviation WaiverStatusInvalid :: string where "WaiverStatusInvalid \<equiv> ''invalid''"

record AppliedWaiver =
  aw_ID :: string
  aw_TargetFindingID :: string
  aw_RuleID :: string
  aw_Owner :: string
  aw_Reason :: string
  aw_IssuedAt :: civil
  aw_ExpiresAt :: civil
  aw_BaseRawDigest :: Digest
  aw_SemanticWaiverSetDigest :: Digest

record GovernanceReference =
  gr_Kind :: string
  gr_Path :: string
  gr_ChangeKind :: string
  gr_SecurityEffect :: string
  gr_WaiverID :: string
  gr_State :: string
  gr_RawDigest :: Digest
  gr_SemanticDigest :: Digest

record AppliedFinding =
  af_Origin :: string
  af_Original :: Finding
  af_EffectiveDisposition :: string
  af_AppliedWaiver :: "AppliedWaiver option"
  af_GovernanceReference :: "GovernanceReference option"

record ConfigChangeReference =
  ccr_Path :: string
  ccr_Kind :: string
  ccr_SecurityEffect :: string

record ConfigAuthority =
  ca_Path :: string
  ca_BaseRevision :: CommitRef
  ca_HeadRevision :: CommitRef
  ca_BaseRawDigest :: Digest
  ca_BaseSizeBytes :: int
  ca_HeadState :: string
  ca_HeadRawDigest :: Digest
  ca_Changes :: "ConfigChangeReference list"

record WaiverChangeRecord =
  wcr_WaiverID :: string
  wcr_Kind :: string

record WaiverAuthority =
  wa_Path :: string
  wa_BaseRevision :: CommitRef
  wa_HeadRevision :: CommitRef
  wa_BaseState :: string
  wa_BaseRawDigest :: Digest
  wa_BaseSemanticDigest :: Digest
  wa_BaseSizeBytes :: int
  wa_HeadState :: string
  wa_HeadRawDigest :: Digest
  wa_HeadSemanticDigest :: Digest
  wa_HeadSizeBytes :: int
  wa_Changes :: "WaiverChangeRecord list"

record WaiverStatusRecord =
  wst_WaiverID :: string
  wst_FindingID :: string
  wst_RuleID :: string
  wst_Status :: string

record ApplicationSummary =
  as_TotalFindings :: int
  as_BuiltinFindings :: int
  as_ConfigurationFindings :: int
  as_WaiverGovernanceFindings :: int
  as_EffectivePassed :: int
  as_EffectiveRequiresReview :: int
  as_EffectiveFailed :: int
  as_EffectiveWaived :: int
  as_Info :: int
  as_Low :: int
  as_Medium :: int
  as_High :: int
  as_Critical :: int
  as_AppliedWaivers :: int
  as_ExpiredWaivers :: int
  as_UnusedWaivers :: int
  as_InvalidWaivers :: int

record ApplicationDocument =
  ad_SchemaVersion :: string
  ad_EvaluatedAt :: int
  ad_RunID :: string
  ad_PlanDigest :: Digest
  ad_BehavioralDeltaDigest :: Digest
  ad_BasePolicyEvaluationDigest :: Digest
  ad_PolicyProfileName :: string
  ad_PolicyProfileVersion :: string
  ad_BuiltinRuleSetVersion :: string
  ad_GovernanceRuleSetVersion :: string
  ad_Base :: CommitRef
  ad_Head :: CommitRef
  ad_TrustedConfigAuthority :: ConfigAuthority
  ad_TrustedWaiverAuthority :: WaiverAuthority
  ad_OverallEffectiveDisposition :: string
  ad_AppliedFindings :: "AppliedFinding list"
  ad_WaiverStatuses :: "WaiverStatusRecord list"
  ad_Summary :: ApplicationSummary
  ad_Limitations :: "Limitation list"

record FrozenApplication =
  fa_doc :: ApplicationDocument
  fa_json :: string
  fa_digest :: Digest

record ApplicationRequest =
  aq_Evaluation :: "FrozenEvaluation option"
  aq_Plan :: "FrozenPlan option"
  aq_TrustedConfig :: TrustedLoadResult
  aq_WaiverSource :: "read_file option"
  aq_EvaluatedAt :: go_time

section \<open>Validation of the request\<close>

definition applicationErr :: "string \<Rightarrow> string \<Rightarrow> go_error" where
  "applicationErr code field = policyErr code ''application'' [] [] field"

definition validateEvaluatedAt :: "go_time \<Rightarrow> go_error option" where
  "validateEvaluatedAt t =
     (let bad = Some (applicationErr ''invalid-evaluated-at'' ''evaluatedAt'') in
      if time_is_zero t then bad
      else if gt_offset t \<noteq> 0 \<or> \<not> gt_canonical t then bad
      else if gt_nanos t < minInstant \<or> \<not> gt_nanos t < maxInstant then bad
      else None)"

fun validateOriginals :: "Finding list \<Rightarrow> string set \<Rightarrow> go_error option" where
  "validateOriginals [] seen = None"
| "validateOriginals (f # fs) seen =
     (if fi_ID f = [] \<or> fi_RuleID f = [] \<or> fi_Waived f \<or> fi_Disposition f = DispositionWaived
      then Some (policyErr ''invalid-original-finding'' ''application'' (fi_RuleID f) (fi_ID f) ''finding'')
      else if fi_ID f \<in> seen
      then Some (policyErr ''duplicate-finding-id'' ''application'' (fi_RuleID f) (fi_ID f) ''finding'')
      else validateOriginals fs (insert (fi_ID f) seen))"

definition validateApplicationBinding ::
  "EvaluationDocument \<Rightarrow> RunPlan \<Rightarrow> Digest \<Rightarrow> TrustedLoadResult \<Rightarrow> go_error option" where
  "validateApplicationBinding eval plan planDigest trusted =
     (if ed_SchemaVersion eval \<noteq> SchemaVersionPolicyEvaluationV1Alpha1
         \<or> ed_PolicyProfileName eval \<noteq> PolicyProfileNameStrict
         \<or> ed_PolicyProfileVersion eval \<noteq> PolicyProfileVersionStrictV1Alpha1
         \<or> ed_BuiltinRuleSetVersion eval \<noteq> BuiltinRuleSetVersionStrictV1Alpha1
      then Some (applicationErr ''invalid-evaluation'' ''profile'')
      else if \<not> validDigest (ed_PlanDigest eval) \<or> \<not> validDigest (ed_BehavioralDeltaDigest eval)
      then Some (applicationErr ''invalid-evaluation'' ''digest'')
      else if rp_RunID plan = [] \<or> rp_RunID plan \<noteq> ed_RunID eval \<or> planDigest = [] \<or> ed_PlanDigest eval \<noteq> planDigest
      then Some (applicationErr ''evaluation-plan-mismatch'' ''planDigest'')
      else if rp_Runner plan \<noteq> zeroRunner then Some (applicationErr ''invalid-plan'' ''runner'')
      else if map_option ppl_Profile (rp_Policy plan) \<noteq> Some PolicyProfileNameStrict
      then Some (applicationErr ''invalid-plan'' ''policy.profile'')
      else if cr_CommitID (tl_Base trusted) \<noteq> cr_CommitID (rp_Base plan)
              \<or> cr_CommitID (tl_Head trusted) \<noteq> cr_CommitID (rp_Head plan)
              \<or> cr_Kind (tl_Base trusted) \<noteq> cr_Kind (rp_Base plan)
              \<or> cr_Kind (tl_Head trusted) \<noteq> cr_Kind (rp_Head plan)
      then Some (applicationErr ''trusted-config-mismatch'' ''revision'')
      else if tl_EffectiveSource trusted \<noteq> ''base'' \<or> tl_EffectivePath trusted \<noteq> PipelinePath
              \<or> fm_Path (tl_BaseFile trusted) \<noteq> PipelinePath
              \<or> vp_PolicyProfile (tl_EffectivePipeline trusted) \<noteq> PolicyProfileNameStrict
      then Some (applicationErr ''trusted-config-mismatch'' ''source'')
      else validateOriginals (ed_Findings eval) {})"

section \<open>Waivers of the base revision\<close>

definition waiverEligibleFinding :: "Finding \<Rightarrow> bool" where
  "waiverEligibleFinding f \<longleftrightarrow> fi_Disposition f = DispositionRequiresReview
     \<and> fi_RuleID f \<in> {''GR-PROC-001'', ''GR-FS-001'', ''GR-FS-002'', ''GR-NET-001'', ''GR-ART-001'', ''GR-DET-001'',
                     ''GR-LIMIT-001''}"

definition original :: "Finding \<Rightarrow> AppliedFinding" where
  "original f = \<lparr>af_Origin = FindingOriginBuiltinPolicy, af_Original = f,
     af_EffectiveDisposition = fi_Disposition f, af_AppliedWaiver = None, af_GovernanceReference = None\<rparr>"

text \<open>The map \<open>byID\<close>: a later finding with the same identity replaces an earlier one.\<close>

definition byID :: "Finding list \<Rightarrow> string \<Rightarrow> nat option" where
  "byID fs = map_of (rev (zip (map fi_ID fs) [0..<length fs]))"

definition appliedWaiver :: "BaseAssessment \<Rightarrow> Waiver \<Rightarrow> AppliedWaiver" where
  "appliedWaiver b w = \<lparr>aw_ID = wv_ID w, aw_TargetFindingID = tg_FindingID (wv_Target w),
     aw_RuleID = tg_RuleID (wv_Target w), aw_Owner = wv_Owner w, aw_Reason = wv_Reason w,
     aw_IssuedAt = wv_IssuedAt w, aw_ExpiresAt = wv_ExpiresAt w, aw_BaseRawDigest = fm_Digest (wb_File b),
     aw_SemanticWaiverSetDigest = wb_SemanticDigest b\<rparr>"

text \<open>One iteration of the loop over the waivers; the index is that of the finding to waive.\<close>

definition waiverStatus :: "int \<Rightarrow> (string \<Rightarrow> nat option) \<Rightarrow> AppliedFinding list \<Rightarrow> Waiver \<Rightarrow> string \<times> nat option" where
  "waiverStatus at index applied w =
     (if at < instant (wv_IssuedAt w) then (WaiverStatusNotYetValid, None)
      else if \<not> at < instant (wv_ExpiresAt w) then (WaiverStatusExpired, None)
      else case index (tg_FindingID (wv_Target w)) of
        None \<Rightarrow> (WaiverStatusUnused, None)
      | Some i \<Rightarrow>
          (let f = af_Original (applied ! i) in
           if fi_RuleID f \<noteq> tg_RuleID (wv_Target w) then (WaiverStatusTargetRuleMismatch, None)
           else if \<not> waiverEligibleFinding f then (WaiverStatusTargetIneligible, None)
           else (WaiverStatusApplied, Some i)))"

definition statusRecord :: "Waiver \<Rightarrow> string \<Rightarrow> WaiverStatusRecord" where
  "statusRecord w st = \<lparr>wst_WaiverID = wv_ID w, wst_FindingID = tg_FindingID (wv_Target w),
     wst_RuleID = tg_RuleID (wv_Target w), wst_Status = st\<rparr>"

fun applyWaivers ::
  "BaseAssessment \<Rightarrow> int \<Rightarrow> (string \<Rightarrow> nat option) \<Rightarrow> Waiver list \<Rightarrow> AppliedFinding list \<Rightarrow> WaiverStatusRecord list
     \<Rightarrow> AppliedFinding list \<times> WaiverStatusRecord list" where
  "applyWaivers b at index [] applied statuses = (applied, statuses)"
| "applyWaivers b at index (w # ws) applied statuses =
     (let (st, target) = waiverStatus at index applied w;
          applied' = (case target of None \<Rightarrow> applied
            | Some i \<Rightarrow> applied[i := (applied ! i)\<lparr>af_EffectiveDisposition := DispositionWaived,
                                                    af_AppliedWaiver := Some (appliedWaiver b w)\<rparr>])
      in applyWaivers b at index ws applied' (statuses @ [statusRecord w st]))"

definition applyBaseWaivers ::
  "Finding list \<Rightarrow> WaiverLoad \<Rightarrow> int \<Rightarrow> AppliedFinding list \<times> WaiverStatusRecord list" where
  "applyBaseWaivers findings trusted at =
     (let applied = map original findings; b = wr_Base trusted in
      if wb_State b \<noteq> BaseStateValid then (applied, [])
      else applyWaivers b at (byID findings) (wb_Waivers b) applied [])"

section \<open>Governance\<close>

record governanceSpec =
  gs_severity :: string
  gs_confidence :: string
  gs_disposition :: string
  gs_scope :: string
  gs_ref :: GovernanceReference

definition noReference :: GovernanceReference where
  "noReference = \<lparr>gr_Kind = [], gr_Path = [], gr_ChangeKind = [], gr_SecurityEffect = [], gr_WaiverID = [],
     gr_State = [], gr_RawDigest = [], gr_SemanticDigest = []\<rparr>"

definition reviewSpec :: "string \<Rightarrow> string \<Rightarrow> GovernanceReference \<Rightarrow> governanceSpec" where
  "reviewSpec severity scope ref = \<lparr>gs_severity = severity, gs_confidence = ConfidenceHigh,
     gs_disposition = DispositionRequiresReview, gs_scope = scope, gs_ref = ref\<rparr>"

definition severityForConfigEffect :: "string \<Rightarrow> string" where
  "severityForConfigEffect e =
     (if e = SecurityEffectPrivilegeDecrease \<or> e = SecurityEffectObservationStrengthened then SeverityMedium
      else if e = SecurityEffectInformational then SeverityLow else SeverityHigh)"

definition configChangeSpec :: "FileMetadata \<Rightarrow> ConfigChange \<Rightarrow> governanceSpec" where
  "configChangeSpec headFile ch =
     reviewSpec (severityForConfigEffect (cc_Effect ch))
       (''config:'' @ cc_Path ch @ '':'' @ cc_Kind ch @ '':'' @ cc_Effect ch)
       (noReference\<lparr>gr_Kind := ''config-change'', gr_Path := cc_Path ch, gr_ChangeKind := cc_Kind ch,
          gr_SecurityEffect := cc_Effect ch, gr_RawDigest := fm_Digest headFile\<rparr>)"

definition configGovernanceSpecs :: "TrustedLoadResult \<Rightarrow> governanceSpec list" where
  "configGovernanceSpecs trusted =
     (let a = tl_HeadAssessment trusted in
      if ha_State a \<in> {HeadStateUnchanged, HeadStateContentChangedSemanticallyEquivalent, []} then []
      else if ha_State a = HeadStateModifiedValid then map (configChangeSpec (ha_HeadFile a)) (ha_Changes a)
      else [reviewSpec SeverityHigh (''config-state:'' @ ha_State a)
              (noReference\<lparr>gr_Kind := ''config-file-state'', gr_State := ha_State a,
                 gr_RawDigest := fm_Digest (ha_HeadFile a)\<rparr>)])"

definition baseStateSpecs :: "BaseAssessment \<Rightarrow> governanceSpec list" where
  "baseStateSpecs b =
     (if wb_State b = BaseStateInvalid \<or> wb_State b = BaseStateUnsupportedEntryKind
      then [(reviewSpec SeverityHigh (''base-state:'' @ wb_State b)
               (noReference\<lparr>gr_Kind := ''waiver-base-state'', gr_State := wb_State b,
                  gr_RawDigest := fm_Digest (wb_File b)\<rparr>))\<lparr>gs_disposition := DispositionFailed\<rparr>]
      else [])"

definition openStatuses :: "string set" where
  "openStatuses = {WaiverStatusExpired, WaiverStatusNotYetValid, WaiverStatusUnused, WaiverStatusTargetRuleMismatch,
     WaiverStatusTargetIneligible}"

definition statusSpec :: "Digest \<Rightarrow> WaiverStatusRecord \<Rightarrow> governanceSpec" where
  "statusSpec semantic st =
     reviewSpec SeverityMedium (''waiver-status:'' @ wst_WaiverID st @ '':'' @ wst_Status st)
       (noReference\<lparr>gr_Kind := ''waiver-status'', gr_WaiverID := wst_WaiverID st, gr_State := wst_Status st,
          gr_SemanticDigest := semantic\<rparr>)"

definition headReference :: "string \<Rightarrow> string \<Rightarrow> string \<Rightarrow> WaiverHead \<Rightarrow> GovernanceReference" where
  "headReference kind waiverID state h = noReference\<lparr>gr_Kind := kind, gr_WaiverID := waiverID, gr_State := state,
     gr_RawDigest := fm_Digest (wh_File h), gr_SemanticDigest := wh_SemanticDigest h\<rparr>"

definition waiverChangeSpec :: "WaiverHead \<Rightarrow> WaiverChange \<Rightarrow> governanceSpec" where
  "waiverChangeSpec h ch =
     reviewSpec
       (if wc_Kind ch \<in> {''waiver-target-changed'', ''waiver-expiry-changed'', ''waiver-added'', ''waiver-removed''}
        then SeverityHigh else SeverityMedium)
       (''head-change:'' @ wc_WaiverID ch @ '':'' @ wc_Kind ch)
       (headReference ''waiver-head-change'' (wc_WaiverID ch) (wc_Kind ch) h)"

definition headStateSpecs :: "WaiverHead \<Rightarrow> governanceSpec list" where
  "headStateSpecs h =
     (if wh_State h \<in> {HeadStateAdded, HeadStateRemoved, HeadStateModifiedInvalid, HeadStateUnsupportedEntryKind}
      then [reviewSpec SeverityHigh (''head-state:'' @ wh_State h) (headReference ''waiver-head-state'' [] (wh_State h) h)]
      else if wh_State h = HeadStateModifiedValid then map (waiverChangeSpec h) (wh_Changes h)
      else [])"

definition waiverGovernanceSpecs :: "WaiverLoad \<Rightarrow> WaiverStatusRecord list \<Rightarrow> governanceSpec list" where
  "waiverGovernanceSpecs r statuses =
     baseStateSpecs (wr_Base r)
     @ map (statusSpec (wb_SemanticDigest (wr_Base r))) (filter (\<lambda>st. wst_Status st \<in> openStatuses) statuses)
     @ headStateSpecs (wr_Head r)"

text \<open>The catalog of governance rules; the descriptions are not used by any operation.\<close>

definition governanceRuleCatalog :: "ruleMeta list" where
  "governanceRuleCatalog =
     [noRule\<lparr>ru_ID := ''GR-CONFIG-001'', ru_Version := ''v1'', ru_Title := ''Trusted security configuration changed in head''\<rparr>,
      noRule\<lparr>ru_ID := ''GR-WAIVER-001'', ru_Version := ''v1'', ru_Title := ''Waiver governance issue''\<rparr>]"

definition governanceRuleByID :: "string \<Rightarrow> ruleMeta" where
  "governanceRuleByID rid = (case find (\<lambda>r. ru_ID r = rid) governanceRuleCatalog of Some r \<Rightarrow> r | None \<Rightarrow> noRule)"

definition governanceSummary :: "string \<Rightarrow> string \<Rightarrow> string" where
  "governanceSummary ruleID kind =
     (if ruleID = ''GR-CONFIG-001'' then
        ''Trusted head configuration differs from the effective base configuration; review is required before adopting it.''
      else if ruleID = ''GR-WAIVER-001'' then
        ''Trusted waiver metadata or head waiver proposal requires governance review.''
      else ''Governance metadata requires review.'')"

definition makeGovernanceFinding ::
  "(string \<Rightarrow> string) \<Rightarrow> string \<Rightarrow> string \<Rightarrow> string \<Rightarrow> string \<Rightarrow> string \<Rightarrow> GovernanceReference \<Rightarrow> Finding result" where
  "makeGovernanceFinding sha ruleID severity confidence disposition scope ref =
     (let meta = governanceRuleByID ruleID in
      if ru_ID meta = [] then Inl (policyErr ''invalid-rule-catalog'' ''governance'' ruleID [] ''rule'')
      else Inr \<lparr>fi_SchemaVersion = SchemaVersionFindingV1Alpha1,
        fi_ID = findingID sha PolicyProfileVersionStrictV1Alpha1 GovernanceRuleSetVersionStrictV1Alpha1 (ru_ID meta)
                  (ru_Version meta) [] scope [],
        fi_RuleID = ru_ID meta, fi_RuleVersion = ru_Version meta, fi_Title = ru_Title meta,
        fi_Severity = severity, fi_Confidence = confidence, fi_Disposition = disposition,
        fi_Summary = governanceSummary (ru_ID meta) (gr_Kind ref), fi_DeltaRecordIDs = [], fi_Evidence = [],
        fi_ScenarioIDs = [], fi_BaseObserved = False, fi_HeadObserved = True, fi_Waived = False, fi_Waivers = [],
        fi_Limitations = []\<rparr>)"

definition governanceFinding :: "string \<Rightarrow> GovernanceReference \<Rightarrow> Finding \<Rightarrow> AppliedFinding" where
  "governanceFinding origin ref f = \<lparr>af_Origin = origin, af_Original = f, af_EffectiveDisposition = fi_Disposition f,
     af_AppliedWaiver = None, af_GovernanceReference = Some ref\<rparr>"

text \<open>
  The two loops of \<open>governanceFindings\<close> as one over tagged specifications: rule, origin, confidence and
  disposition. The configuration loop passes high confidence and review itself.
\<close>

fun addGovernance ::
  "(string \<Rightarrow> string) \<Rightarrow> int \<Rightarrow> (string \<times> string \<times> governanceSpec) list \<Rightarrow> AppliedFinding list
     \<Rightarrow> AppliedFinding list result" where
  "addGovernance sha mx [] out = Inr out"
| "addGovernance sha mx ((rule, origin, spec) # specs) out =
     rbind (makeGovernanceFinding sha rule (gs_severity spec) (gs_confidence spec) (gs_disposition spec)
              (gs_scope spec) (gs_ref spec)) (\<lambda>f.
       if int (length out) + 1 > mx
       then Inl (policyErr ''governance-finding-limit'' ''governance'' (fi_RuleID f) (fi_ID f) ''count'')
       else addGovernance sha mx specs (out @ [governanceFinding origin (gs_ref spec) f]))"

definition configTagged :: "governanceSpec \<Rightarrow> string \<times> string \<times> governanceSpec" where
  "configTagged spec = (''GR-CONFIG-001'', FindingOriginTrustedConfiguration,
     spec\<lparr>gs_confidence := ConfidenceHigh, gs_disposition := DispositionRequiresReview\<rparr>)"

definition waiverTagged :: "governanceSpec \<Rightarrow> string \<times> string \<times> governanceSpec" where
  "waiverTagged spec = (''GR-WAIVER-001'', FindingOriginWaiverGovernance, spec)"

definition governanceFindings ::
  "(string \<Rightarrow> string) \<Rightarrow> ApplicationLimits \<Rightarrow> TrustedLoadResult \<Rightarrow> WaiverLoad \<Rightarrow> WaiverStatusRecord list
     \<Rightarrow> AppliedFinding list result" where
  "governanceFindings sha limits trusted waivers statuses =
     addGovernance sha (al_MaxGovernanceFindings limits)
       (map configTagged (configGovernanceSpecs trusted) @ map waiverTagged (waiverGovernanceSpecs waivers statuses)) []"

section \<open>The document\<close>

definition configAuthority :: "TrustedLoadResult \<Rightarrow> ConfigAuthority" where
  "configAuthority t = \<lparr>ca_Path = PipelinePath, ca_BaseRevision = tl_Base t, ca_HeadRevision = tl_Head t,
     ca_BaseRawDigest = fm_Digest (tl_BaseFile t), ca_BaseSizeBytes = fm_SizeBytes (tl_BaseFile t),
     ca_HeadState = ha_State (tl_HeadAssessment t), ca_HeadRawDigest = fm_Digest (ha_HeadFile (tl_HeadAssessment t)),
     ca_Changes = slice_stable
       (\<lambda>a b. ccr_Path a @ ccr_Kind a @ ccr_SecurityEffect a < ccr_Path b @ ccr_Kind b @ ccr_SecurityEffect b)
       (map (\<lambda>ch. \<lparr>ccr_Path = cc_Path ch, ccr_Kind = cc_Kind ch, ccr_SecurityEffect = cc_Effect ch\<rparr>)
         (ha_Changes (tl_HeadAssessment t)))\<rparr>"

definition waiverAuthority :: "WaiverLoad \<Rightarrow> WaiverAuthority" where
  "waiverAuthority t = \<lparr>wa_Path = WaiverPath, wa_BaseRevision = wr_BaseRevision t, wa_HeadRevision = wr_HeadRevision t,
     wa_BaseState = wb_State (wr_Base t), wa_BaseRawDigest = fm_Digest (wb_File (wr_Base t)),
     wa_BaseSemanticDigest = wb_SemanticDigest (wr_Base t), wa_BaseSizeBytes = fm_SizeBytes (wb_File (wr_Base t)),
     wa_HeadState = wh_State (wr_Head t), wa_HeadRawDigest = fm_Digest (wh_File (wr_Head t)),
     wa_HeadSemanticDigest = wh_SemanticDigest (wr_Head t), wa_HeadSizeBytes = fm_SizeBytes (wh_File (wr_Head t)),
     wa_Changes = slice_stable (\<lambda>a b. wcr_WaiverID a @ wcr_Kind a < wcr_WaiverID b @ wcr_Kind b)
       (map (\<lambda>ch. \<lparr>wcr_WaiverID = wc_WaiverID ch, wcr_Kind = wc_Kind ch\<rparr>) (wh_Changes (wr_Head t)))\<rparr>"

definition rankDisposition :: "string \<Rightarrow> string" where
  "rankDisposition d =
     (if d = DispositionFailed then ''0'' else if d = DispositionRequiresReview then ''1''
      else if d = DispositionWaived then ''2'' else if d = DispositionPassed then ''3'' else ''9'')"

definition rankSeverity :: "string \<Rightarrow> string" where
  "rankSeverity s =
     (if s = SeverityCritical then ''0'' else if s = SeverityHigh then ''1'' else if s = SeverityMedium then ''2''
      else if s = SeverityLow then ''3'' else if s = SeverityInfo then ''4'' else ''9'')"

definition appliedKey :: "AppliedFinding \<Rightarrow> string" where
  "appliedKey a = (let f = af_Original a in
     join_nul [rankDisposition (af_EffectiveDisposition a), rankSeverity (fi_Severity f), af_Origin a, fi_RuleID f,
               first (fi_ScenarioIDs f), first (fi_DeltaRecordIDs f), fi_ID f])"

definition appliedLess :: "AppliedFinding \<Rightarrow> AppliedFinding \<Rightarrow> bool" where
  "appliedLess a b \<longleftrightarrow> appliedKey a < appliedKey b"

definition sortAppliedFindings :: "AppliedFinding list \<Rightarrow> AppliedFinding list" where
  "sortAppliedFindings xs = slice_stable appliedLess xs"

definition statusLess :: "WaiverStatusRecord \<Rightarrow> WaiverStatusRecord \<Rightarrow> bool" where
  "statusLess a b \<longleftrightarrow> wst_WaiverID a @ wst_Status a < wst_WaiverID b @ wst_Status b"

definition sortWaiverStatuses :: "WaiverStatusRecord list \<Rightarrow> WaiverStatusRecord list" where
  "sortWaiverStatuses xs = slice_stable statusLess xs"

interpretation applied_order: keyed_order appliedLess appliedKey
  by unfold_locales (simp add: appliedLess_def)

interpretation status_order: keyed_order statusLess "\<lambda>s. wst_WaiverID s @ wst_Status s"
  by unfold_locales (simp add: statusLess_def)

definition summarizeApplication :: "AppliedFinding list \<Rightarrow> WaiverStatusRecord list \<Rightarrow> ApplicationSummary" where
  "summarizeApplication fs sts =
     (let origin = (\<lambda>v. countWhere (\<lambda>f. af_Origin f = v) fs);
          effective = (\<lambda>v. countWhere (\<lambda>f. af_EffectiveDisposition f = v) fs);
          severity = (\<lambda>v. countWhere (\<lambda>f. fi_Severity (af_Original f) = v) fs)
      in \<lparr>as_TotalFindings = int (length fs), as_BuiltinFindings = origin FindingOriginBuiltinPolicy,
          as_ConfigurationFindings = origin FindingOriginTrustedConfiguration,
          as_WaiverGovernanceFindings = origin FindingOriginWaiverGovernance,
          as_EffectivePassed = effective DispositionPassed,
          as_EffectiveRequiresReview = effective DispositionRequiresReview,
          as_EffectiveFailed = effective DispositionFailed, as_EffectiveWaived = effective DispositionWaived,
          as_Info = severity SeverityInfo, as_Low = severity SeverityLow, as_Medium = severity SeverityMedium,
          as_High = severity SeverityHigh, as_Critical = severity SeverityCritical,
          as_AppliedWaivers = countWhere (\<lambda>s. wst_Status s = WaiverStatusApplied) sts,
          as_ExpiredWaivers = countWhere (\<lambda>s. wst_Status s = WaiverStatusExpired) sts,
          as_UnusedWaivers = countWhere (\<lambda>s. wst_Status s \<in> {WaiverStatusUnused, WaiverStatusTargetRuleMismatch,
            WaiverStatusTargetIneligible, WaiverStatusNotYetValid}) sts,
          as_InvalidWaivers = countWhere (\<lambda>s. wst_Status s = WaiverStatusInvalid) sts
            + countWhere (\<lambda>f. af_Origin f = FindingOriginWaiverGovernance
                \<and> af_EffectiveDisposition f = DispositionFailed) fs\<rparr>)"

definition overallEffectiveDisposition :: "AppliedFinding list \<Rightarrow> string" where
  "overallEffectiveDisposition fs =
     (if list_ex (\<lambda>f. af_EffectiveDisposition f = DispositionFailed) fs then DispositionFailed
      else if list_ex (\<lambda>f. af_EffectiveDisposition f = DispositionRequiresReview) fs then DispositionRequiresReview
      else DispositionPassed)"

section \<open>Application\<close>

definition applicationDocument ::
  "EvaluationDocument \<Rightarrow> Digest \<Rightarrow> RunPlan \<Rightarrow> TrustedLoadResult \<Rightarrow> WaiverLoad \<Rightarrow> int \<Rightarrow> AppliedFinding list
     \<Rightarrow> WaiverStatusRecord list \<Rightarrow> ApplicationDocument" where
  "applicationDocument eval evalDigest plan trusted waivers at applied statuses =
     \<lparr>ad_SchemaVersion = SchemaVersionPolicyApplicationV1Alpha1, ad_EvaluatedAt = at, ad_RunID = ed_RunID eval,
      ad_PlanDigest = ed_PlanDigest eval, ad_BehavioralDeltaDigest = ed_BehavioralDeltaDigest eval,
      ad_BasePolicyEvaluationDigest = evalDigest, ad_PolicyProfileName = ed_PolicyProfileName eval,
      ad_PolicyProfileVersion = ed_PolicyProfileVersion eval,
      ad_BuiltinRuleSetVersion = ed_BuiltinRuleSetVersion eval,
      ad_GovernanceRuleSetVersion = GovernanceRuleSetVersionStrictV1Alpha1, ad_Base = rp_Base plan, ad_Head = rp_Head plan,
      ad_TrustedConfigAuthority = configAuthority trusted, ad_TrustedWaiverAuthority = waiverAuthority waivers,
      ad_OverallEffectiveDisposition = overallEffectiveDisposition applied,
      ad_AppliedFindings = applied, ad_WaiverStatuses = statuses, ad_Summary = summarizeApplication applied statuses,
      ad_Limitations = sortLimitations (ed_Limitations eval)\<rparr>"

text \<open>Everything after the request was validated and the waivers were loaded.\<close>

definition applyLoaded ::
  "(string \<Rightarrow> string) \<Rightarrow> ApplicationLimits \<Rightarrow> EvaluationDocument \<Rightarrow> Digest \<Rightarrow> RunPlan \<Rightarrow> TrustedLoadResult
     \<Rightarrow> WaiverLoad \<Rightarrow> int \<Rightarrow> ApplicationDocument result" where
  "applyLoaded sha limits eval evalDigest plan trusted waivers at =
     (if cr_CommitID (wr_BaseRevision waivers) \<noteq> cr_CommitID (tl_Base trusted)
         \<or> cr_CommitID (wr_HeadRevision waivers) \<noteq> cr_CommitID (tl_Head trusted)
      then Inl (policyErr ''invalid-waiver-state'' ''waivers'' [] [] ''revision'')
      else case applyBaseWaivers (ed_Findings eval) waivers at of (applied, statuses) \<Rightarrow>
        rbind (governanceFindings sha limits trusted waivers statuses) (\<lambda>gov.
          if int (length (applied @ gov)) > al_MaxAppliedFindings limits
          then Inl (applicationErr ''application-limit'' ''appliedFindings'')
          else Inr (applicationDocument eval evalDigest plan trusted waivers at
                 (sortAppliedFindings (applied @ gov)) (sortWaiverStatuses statuses))))"

definition applyRequest ::
  "(string \<Rightarrow> string) \<Rightarrow> yaml_load \<Rightarrow> ApplicationLimits \<Rightarrow> go_context \<Rightarrow> ApplicationRequest
     \<Rightarrow> ApplicationDocument result" where
  "applyRequest sha load limits ctx req =
     (case aq_Evaluation req of
        None \<Rightarrow> Inl (applicationErr ''nil-evaluation'' ''evaluation'')
      | Some evaluation \<Rightarrow>
       (case aq_Plan req of
          None \<Rightarrow> Inl (applicationErr ''nil-plan'' ''plan'')
        | Some plan \<Rightarrow>
            if digestBytes sha evaluationJSONDomain (fe_json evaluation) \<noteq> fe_digest evaluation
            then Inl (applicationErr ''invalid-evaluation'' ''digest'')
            else if DigestRunPlanJSON sha (fp_json plan) \<noteq> fp_digest plan
            then Inl (applicationErr ''invalid-plan'' ''digest'')
            else rcheck (validateApplicationBinding (fe_doc evaluation) (fp_doc plan) (fp_digest plan)
                           (aq_TrustedConfig req)) (
              if int (length (ed_Findings (fe_doc evaluation))) > al_MaxOriginalFindings limits
              then Inl (applicationErr ''application-limit'' ''findings'')
              else case waiver_LoadTrusted sha load ctx (aq_WaiverSource req)
                          \<lparr>tq_Base = tl_Base (aq_TrustedConfig req), tq_Head = tl_Head (aq_TrustedConfig req)\<rparr>
                          (applicationWaiverLimits limits) of
                Inl e \<Rightarrow> Inl (policyErr ''waiver-load-failed'' ''waivers'' [] [] ''source'')
              | Inr waivers \<Rightarrow>
                  applyLoaded sha limits (fe_doc evaluation) (fe_digest evaluation) (fp_doc plan)
                    (aq_TrustedConfig req) waivers (gt_nanos (aq_EvaluatedAt req)))))"

text \<open>\<open>Apply\<close> on an applier, whose limits \<open>NewApplier\<close> has validated; a nil applier is \<open>None\<close>.\<close>

definition Apply ::
  "(string \<Rightarrow> string) \<Rightarrow> yaml_load \<Rightarrow> (ApplicationDocument \<Rightarrow> string option) \<Rightarrow> ApplicationLimits option \<Rightarrow> go_context
     \<Rightarrow> ApplicationRequest \<Rightarrow> FrozenApplication result" where
  "Apply sha load marshal applier ctx req =
     rcheck (map_option policy_contextErr (ctx 0)) (
       case applier of
         None \<Rightarrow> Inl (applicationErr ''invalid-limits'' ''applier'')
       | Some limits \<Rightarrow>
           rcheck (validateEvaluatedAt (aq_EvaluatedAt req)) (
             rbind (applyRequest sha load limits (ctx \<circ> Suc) req) (\<lambda>doc.
               case marshal doc of
                 None \<Rightarrow> Inl (applicationErr ''serialization-failed'' ''json'')
               | Some data \<Rightarrow>
                   if int (length data) > al_MaxApplicationJSONBytes limits
                   then Inl (applicationErr ''application-too-large'' ''json'')
                   else Inr \<lparr>fa_doc = doc, fa_json = data, fa_digest = digestBytes sha applicationJSONDomain data\<rparr>)))"

end
