(* ===== verification/Application_Facts.thy ===== *)
theory Application_Facts
  imports Application Plan_Props Waiver_Props Policy_Facts
begin

text \<open>
  Facts about the application of waivers: the loop over the waivers in closed form, the governance findings
  as the image of their specifications, and the head states that leave no governance finding.
\<close>

section \<open>Original findings\<close>

lemma validateOriginals_None:
  "validateOriginals fs seen = None \<longleftrightarrow>
     distinct (map fi_ID fs) \<and> set (map fi_ID fs) \<inter> seen = {}
     \<and> (\<forall>f\<in>set fs. fi_ID f \<noteq> [] \<and> fi_RuleID f \<noteq> [] \<and> \<not> fi_Waived f \<and> fi_Disposition f \<noteq> DispositionWaived)"
  by (induction fs arbitrary: seen) auto

lemma byID_Some:
  assumes "distinct (map fi_ID fs)"
  shows "byID fs k = Some i \<longleftrightarrow> i < length fs \<and> fi_ID (fs ! i) = k"
proof -
  let ?z = "zip (map fi_ID fs) [0..<length fs]"
  have "distinct (map fst (rev ?z))" using assms by (simp add: rev_map [symmetric] del: rev_map)
  then have "byID fs k = Some i \<longleftrightarrow> (k, i) \<in> set (rev ?z)"
    unfolding byID_def by (rule map_of_eq_Some_iff)
  also have "\<dots> \<longleftrightarrow> (k, i) \<in> set ?z" by simp
  also have "\<dots> \<longleftrightarrow> i < length fs \<and> fi_ID (fs ! i) = k"
    by (auto simp: set_zip intro: exI [of _ i])
  finally show ?thesis .
qed

lemma byID_None: "distinct (map fi_ID fs) \<Longrightarrow> byID fs k = None \<longleftrightarrow> k \<notin> set (map fi_ID fs)"
proof -
  assume d: "distinct (map fi_ID fs)"
  have "byID fs k = None \<longleftrightarrow> (\<forall>i. byID fs k \<noteq> Some i)" by auto
  also have "\<dots> \<longleftrightarrow> (\<forall>i<length fs. fi_ID (fs ! i) \<noteq> k)" unfolding byID_Some [OF d] by auto
  also have "\<dots> \<longleftrightarrow> k \<notin> set (map fi_ID fs)" 
    using in_set_conv_nth [of k "map fi_ID fs"] by auto
  finally show ?thesis .
qed

section \<open>Waivers in closed form\<close>

definition active :: "int \<Rightarrow> Waiver \<Rightarrow> bool" where
  "active at w \<longleftrightarrow> instant (wv_IssuedAt w) \<le> at \<and> at < instant (wv_ExpiresAt w)"

definition waives :: "int \<Rightarrow> Waiver \<Rightarrow> Finding \<Rightarrow> bool" where
  "waives at w f \<longleftrightarrow> active at w \<and> tg_FindingID (wv_Target w) = fi_ID f \<and> tg_RuleID (wv_Target w) = fi_RuleID f
     \<and> waiverEligibleFinding f"

text \<open>A finding after the waivers of a list.\<close>

definition grant :: "BaseAssessment \<Rightarrow> int \<Rightarrow> Waiver list \<Rightarrow> Finding \<Rightarrow> AppliedFinding" where
  "grant b at ws f = (case rev (filter (\<lambda>w. waives at w f) ws) of [] \<Rightarrow> original f
     | w # _ \<Rightarrow> (original f)\<lparr>af_EffectiveDisposition := DispositionWaived, af_AppliedWaiver := Some (appliedWaiver b w)\<rparr>)"

text \<open>The status of a waiver, by the findings alone.\<close>

definition statusOf :: "int \<Rightarrow> Finding list \<Rightarrow> Waiver \<Rightarrow> string" where
  "statusOf at fs w =
     (if at < instant (wv_IssuedAt w) then WaiverStatusNotYetValid
      else if instant (wv_ExpiresAt w) \<le> at then WaiverStatusExpired
      else case find (\<lambda>f. fi_ID f = tg_FindingID (wv_Target w)) fs of
        None \<Rightarrow> WaiverStatusUnused
      | Some f \<Rightarrow> if fi_RuleID f \<noteq> tg_RuleID (wv_Target w) then WaiverStatusTargetRuleMismatch
                  else if waiverEligibleFinding f then WaiverStatusApplied else WaiverStatusTargetIneligible)"

lemma grant_fields [simp]:
  "af_Original (grant b at ws f) = f" "af_Origin (grant b at ws f) = FindingOriginBuiltinPolicy"
  "af_GovernanceReference (grant b at ws f) = None" "grant b at [] = original"
  by (simp_all add: grant_def original_def fun_eq_iff split: list.splits)

lemma grant_snoc:
  "grant b at (ws @ [w]) f = (if waives at w f
     then (grant b at ws f)\<lparr>af_EffectiveDisposition := DispositionWaived, af_AppliedWaiver := Some (appliedWaiver b w)\<rparr>
     else grant b at ws f)"
  by (simp add: grant_def original_def split: list.splits)

lemma grant_effective:
  "af_EffectiveDisposition (grant b at ws f) =
     (if \<exists>w\<in>set ws. waives at w f then DispositionWaived else fi_Disposition f)"
proof (cases "rev (filter (\<lambda>w. waives at w f) ws)")
  case Nil
  then show ?thesis by (auto simp: grant_def original_def filter_empty_conv)
next
  case (Cons w rest)
  then have "w \<in> set (filter (\<lambda>w. waives at w f) ws)" by (metis list.set_intros(1) set_rev)
  then show ?thesis using Cons by (auto simp: grant_def)
qed

lemma grant_waiver:
  assumes "af_AppliedWaiver (grant b at ws f) = Some a"
  shows "\<exists>w\<in>set ws. waives at w f \<and> a = appliedWaiver b w"
proof (cases "rev (filter (\<lambda>w. waives at w f) ws)")
  case Nil
  then show ?thesis using assms by (simp add: grant_def original_def)
next
  case (Cons w rest)
  then have "w \<in> set (filter (\<lambda>w. waives at w f) ws)" by (metis list.set_intros(1) set_rev)
  then show ?thesis using assms Cons by (auto simp: grant_def)
qed

lemma find_by_id:
  assumes "distinct (map fi_ID fs)" and "i < length fs"
  shows "find (\<lambda>f. fi_ID f = fi_ID (fs ! i)) fs = Some (fs ! i)"
  using assms by (auto simp: find_Some_iff nth_eq_iff_index_eq distinct_conv_nth)

lemma find_absent: "k \<notin> set (map fi_ID fs) \<Longrightarrow> find (\<lambda>f. fi_ID f = k) fs = None"
  by (auto simp: find_None_iff)

text \<open>One waiver: its status, and the finding it hits.\<close>

lemma waiverStatus_closed:
  assumes d: "distinct (map fi_ID fs)"
  shows "waiverStatus at (byID fs) (map (grant b at ws) fs) w = (statusOf at fs w,
      if statusOf at fs w = WaiverStatusApplied then byID fs (tg_FindingID (wv_Target w)) else None)"
proof (cases "byID fs (tg_FindingID (wv_Target w))")
  case None
  then have "find (\<lambda>f. fi_ID f = tg_FindingID (wv_Target w)) fs = None"
    using find_absent byID_None [OF d] by blast
  then show ?thesis using None by (auto simp: waiverStatus_def statusOf_def not_less)
next
  case (Some i)
  then have i: "i < length fs" "tg_FindingID (wv_Target w) = fi_ID (fs ! i)" using byID_Some [OF d] by auto
  show ?thesis
    using Some find_by_id [OF d i(1)] i by (auto simp: waiverStatus_def statusOf_def not_less Let_def)
qed

lemma applied_waives:
  assumes d: "distinct (map fi_ID fs)" and i: "i < length fs"
  shows "waives at w (fs ! i) \<longleftrightarrow> statusOf at fs w = WaiverStatusApplied \<and> byID fs (tg_FindingID (wv_Target w)) = Some i"
proof (cases "tg_FindingID (wv_Target w) = fi_ID (fs ! i)")
  case True
  then show ?thesis
    using byID_Some [OF d, of "fi_ID (fs ! i)" i] find_by_id [OF d i] i
    by (auto simp: waives_def active_def statusOf_def)
next
  case False
  then show ?thesis using byID_Some [OF d] by (auto simp: waives_def)
qed

lemma applyWaivers_closed:
  assumes d: "distinct (map fi_ID fs)"
  shows "applyWaivers b at (byID fs) ws (map (grant b at prior) fs) sts
    = (map (grant b at (prior @ ws)) fs, sts @ map (\<lambda>w. statusRecord w (statusOf at fs w)) ws)"
proof (induction ws arbitrary: prior sts)
  case Nil
  then show ?case by simp
next
  case (Cons w ws)
  let ?a = "map (grant b at prior) fs"
  let ?upd = "\<lambda>i. ?a[i := (?a ! i)\<lparr>af_EffectiveDisposition := DispositionWaived,
                                    af_AppliedWaiver := Some (appliedWaiver b w)\<rparr>]"
  let ?t = "if statusOf at fs w = WaiverStatusApplied then byID fs (tg_FindingID (wv_Target w)) else None"
  have "(case ?t of None \<Rightarrow> ?a | Some i \<Rightarrow> ?upd i) = map (grant b at (prior @ [w])) fs"
  proof (rule nth_equalityI)
    show "length (case ?t of None \<Rightarrow> ?a | Some i \<Rightarrow> ?upd i) = length (map (grant b at (prior @ [w])) fs)"
      by (simp split: option.splits)
    fix j assume "j < length (case ?t of None \<Rightarrow> ?a | Some i \<Rightarrow> ?upd i)"
    then have j: "j < length fs" by (simp split: option.splits)
    show "(case ?t of None \<Rightarrow> ?a | Some i \<Rightarrow> ?upd i) ! j = map (grant b at (prior @ [w])) fs ! j"
      using applied_waives [OF d j, of at w] j
      by (auto simp: grant_snoc nth_list_update split: option.splits)
  qed
  then show ?case
    using Cons.IH [of "prior @ [w]"] by (simp add: waiverStatus_closed [OF d] del: map_map)
qed

definition grantable :: "WaiverLoad \<Rightarrow> Waiver list" where
  "grantable r = (if wb_State (wr_Base r) = BaseStateValid then wb_Waivers (wr_Base r) else [])"

lemma applyBaseWaivers_closed:
  assumes "distinct (map fi_ID fs)"
  shows "applyBaseWaivers fs r at =
    (map (grant (wr_Base r) at (grantable r)) fs, map (\<lambda>w. statusRecord w (statusOf at fs w)) (grantable r))"
  using applyWaivers_closed [OF assms, of "wr_Base r" at "wb_Waivers (wr_Base r)" "[]" "[]"]
  by (simp add: applyBaseWaivers_def grantable_def Let_def)

section \<open>Governance findings\<close>

lemma list_all2_right: "list_all2 P xs ys \<Longrightarrow> y \<in> set ys \<Longrightarrow> \<exists>x\<in>set xs. P x y"
  by (induction rule: list_all2_induct) auto

lemma list_all2_left: "list_all2 P xs ys \<Longrightarrow> x \<in> set xs \<Longrightarrow> \<exists>y\<in>set ys. P x y"
  by (induction rule: list_all2_induct) auto

text \<open>What of a governance finding is determined by its specification.\<close>

definition governed :: "string \<times> string \<times> governanceSpec \<Rightarrow> AppliedFinding \<Rightarrow> bool" where
  "governed t a \<longleftrightarrow> (case t of (rule, origin, spec) \<Rightarrow>
     af_Origin a = origin \<and> fi_RuleID (af_Original a) = rule \<and> fi_Severity (af_Original a) = gs_severity spec
     \<and> fi_Disposition (af_Original a) = gs_disposition spec \<and> af_EffectiveDisposition a = gs_disposition spec
     \<and> af_AppliedWaiver a = None \<and> af_GovernanceReference a = Some (gs_ref spec))"

lemma makeGovernanceFinding_governed:
  assumes "makeGovernanceFinding sha rule sev conf disp scope ref = Inr f"
  shows "fi_RuleID f = rule \<and> fi_Severity f = sev \<and> fi_Disposition f = disp"
proof -
  have "ru_ID (governanceRuleByID rule) \<in> {[], rule}"
    by (auto simp: governanceRuleByID_def noRule_def find_Some_iff split: option.splits)
  then show ?thesis using assms by (auto simp: makeGovernanceFinding_def Let_def split: if_splits)
qed

lemma addGovernance_governed:
  "addGovernance sha mx specs out = Inr gov \<Longrightarrow> \<exists>g. gov = out @ g \<and> list_all2 governed specs g"
proof (induction sha mx specs out rule: addGovernance.induct)
  case (1 sha mx out)
  then show ?case by simp
next
  case (2 sha mx rule origin spec specs out)
  then obtain f where f: "makeGovernanceFinding sha rule (gs_severity spec) (gs_confidence spec)
      (gs_disposition spec) (gs_scope spec) (gs_ref spec) = Inr f" "\<not> int (length out) + 1 > mx"
    "addGovernance sha mx specs (out @ [governanceFinding origin (gs_ref spec) f]) = Inr gov"
    by (auto simp: result_simps)
  from 2(1) [OF f(2,3)] obtain g where g: "gov = (out @ [governanceFinding origin (gs_ref spec) f]) @ g"
    "list_all2 governed specs g" by blast
  have "governed (rule, origin, spec) (governanceFinding origin (gs_ref spec) f)"
    using makeGovernanceFinding_governed [OF f(1)] by (simp add: governed_def governanceFinding_def)
  then show ?case using g by auto
qed

definition allSpecs :: "TrustedLoadResult \<Rightarrow> WaiverLoad \<Rightarrow> WaiverStatusRecord list \<Rightarrow> (string \<times> string \<times> governanceSpec) list" where
  "allSpecs t r sts = map configTagged (configGovernanceSpecs t) @ map waiverTagged (waiverGovernanceSpecs r sts)"

lemma specs_open:
  assumes "(rule, origin, spec) \<in> set (allSpecs t r sts)"
  shows "gs_disposition spec \<in> {DispositionRequiresReview, DispositionFailed}"
    and "origin \<in> {FindingOriginTrustedConfiguration, FindingOriginWaiverGovernance}"
  using assms
  by (auto simp: allSpecs_def configTagged_def waiverTagged_def waiverGovernanceSpecs_def baseStateSpecs_def
      headStateSpecs_def reviewSpec_def statusSpec_def waiverChangeSpec_def split: if_splits)

section \<open>Silent heads\<close>

lemma assessHead_state:
  "assessHead sha load ReadFile ctx head baseMeta raw p = Inr a \<Longrightarrow>
     ha_State a \<noteq> [] \<and> (ha_State a = HeadStateModifiedValid \<longrightarrow> ha_Changes a \<noteq> [])"
  by (auto simp: assessHead_def assessHeadFile_def assessment_def Let_def split: if_splits sum.splits)

lemma head_state_known:
  assumes "LoadTrusted sha load ctx (Some ReadFile) q = Inr t"
  shows "ha_State (tl_HeadAssessment t) \<noteq> []
    \<and> (ha_State (tl_HeadAssessment t) = HeadStateModifiedValid \<longrightarrow> ha_Changes (tl_HeadAssessment t) \<noteq> [])"
  using LoadTrusted_ok [OF assms] assessHead_state by metis

lemma configGovernanceSpecs_Nil:
  assumes "LoadTrusted sha load ctx (Some ReadFile) q = Inr t"
  shows "configGovernanceSpecs t = [] \<longleftrightarrow>
    ha_State (tl_HeadAssessment t) \<in> {HeadStateUnchanged, HeadStateContentChangedSemanticallyEquivalent}"
  using head_state_known [OF assms] by (auto simp: configGovernanceSpecs_def Let_def)

lemma waiver_head_state_known:
  assumes "assessWaiverHead sha load l c bs file = Inr h"
  shows "wh_State h \<in> {HeadStateAbsentOnBoth, HeadStateUnchanged, HeadStateContentChangedSemanticallyEquivalent,
      HeadStateAdded, HeadStateRemoved, HeadStateModifiedInvalid, HeadStateUnsupportedEntryKind, HeadStateModifiedValid}
    \<and> (wh_State h = HeadStateModifiedValid \<longrightarrow> wb_State (fst bs) = BaseStateValid)"
  using assms
  by (auto simp: assessWaiverHead_def proposeHead_def invalidHead_def Let_def split: prod.splits sum.splits if_splits)

lemma digest_differs:
  assumes "waiver_Parse sha load data l = Inr a" and "waiver_Parse sha load' data' l' = Inr b"
    and "wt_SemanticDigest a \<noteq> wt_SemanticDigest b"
  shows "wt_Waivers a \<noteq> wt_Waivers b"
proof -
  have fixed: "wt_APIVersion st = ''glassroot.dev/v1alpha1'' \<and> wt_Kind st = ''WaiverSet''
      \<and> wt_MetadataName st = ''default'' \<and> wt_SemanticDigest st = ''sha256:'' @ sha (waiverSetBytes st)"
    if "waiver_Parse sha ld d m = Inr st" for ld d m st
    by (rule waiver_Parse_ok [OF that]) simp
  show ?thesis using assms(3) fixed [OF assms(1)] fixed [OF assms(2)] by (auto simp: waiverSetBytes_def)
qed

lemma modified_head_changes:
  assumes "assessWaiverHead sha load l c (b, present, raw) file = Inr h" and "wh_State h = HeadStateModifiedValid"
    and "waiver_Parse sha load raw l = Inr st0" and "wb_Waivers b = wt_Waivers st0"
    and "wb_SemanticDigest b = wt_SemanticDigest st0"
  shows "wh_Changes h \<noteq> []"
proof -
  obtain f st where "waiver_Parse sha load (rf_bytes f) l = Inr st" "wb_SemanticDigest b \<noteq> wt_SemanticDigest st"
    "wh_Changes h = compareSets (wb_Waivers b) (wt_Waivers st)"
    using assms(1,2)
    by (auto simp: assessWaiverHead_def proposeHead_def invalidHead_def Let_def split: sum.splits if_splits)
  then show ?thesis
    using digest_differs [OF assms(3)] compareSets_Nil waiver_Parse_set_ok assms(3-5) by metis
qed

lemma headStateSpecs_Nil:
  assumes "waiver_LoadTrusted sha load ctx (Some ReadFile) req l = Inr r"
  shows "headStateSpecs (wr_Head r) = [] \<longleftrightarrow>
    wh_State (wr_Head r) \<in> {HeadStateAbsentOnBoth, HeadStateUnchanged, HeadStateContentChangedSemanticallyEquivalent}"
proof -
  obtain present raw where b: "assessBase sha load l (tq_Base req)
      (ReadFile (tq_Base req) WaiverPath (wl_MaxWaiverFileBytes l)) = Inr (wr_Base r, present, raw)"
    and h: "assessWaiverHead sha load l (tq_Head req) (wr_Base r, present, raw)
      (ReadFile (tq_Head req) WaiverPath (wl_MaxWaiverFileBytes l)) = Inr (wr_Head r)"
    by (rule waiver_LoadTrusted_ok [OF assms])
  have "wh_Changes (wr_Head r) \<noteq> []" if m: "wh_State (wr_Head r) = HeadStateModifiedValid"
  proof -
    have "wb_State (wr_Base r) = BaseStateValid" using waiver_head_state_known [OF h] m by simp
    then obtain st where "waiver_Parse sha load raw l = Inr st"
      "wb_Waivers (wr_Base r) = wt_Waivers st" "wb_SemanticDigest (wr_Base r) = wt_SemanticDigest st"
      using assessBase_known [OF b] by blast
    then show ?thesis by (rule modified_head_changes [OF h m])
  qed
  then show ?thesis using waiver_head_state_known [OF h] by (auto simp: headStateSpecs_def)
qed

lemma overall_passed:
  "overallEffectiveDisposition fs = DispositionPassed \<longleftrightarrow>
     (\<forall>f\<in>set fs. af_EffectiveDisposition f \<noteq> DispositionFailed \<and> af_EffectiveDisposition f \<noteq> DispositionRequiresReview)"
  by (auto simp: overallEffectiveDisposition_def list_ex_iff)

lemma overall_set_cong: "set xs = set ys \<Longrightarrow> overallEffectiveDisposition xs = overallEffectiveDisposition ys"
  by (simp add: overallEffectiveDisposition_def list_ex_iff)

section \<open>A successful application\<close>

lemma applyLoaded_ok:
  assumes "applyLoaded sha limits eval d plan t r at = Inr doc" and "distinct (map fi_ID (ed_Findings eval))"
  obtains gov where
    "list_all2 governed (allSpecs t r (map (\<lambda>w. statusRecord w (statusOf at (ed_Findings eval) w)) (grantable r))) gov"
    and "ad_AppliedFindings doc = sortAppliedFindings (map (grant (wr_Base r) at (grantable r)) (ed_Findings eval) @ gov)"
    and "ad_WaiverStatuses doc =
           sortWaiverStatuses (map (\<lambda>w. statusRecord w (statusOf at (ed_Findings eval) w)) (grantable r))"
    and "ad_OverallEffectiveDisposition doc = overallEffectiveDisposition (ad_AppliedFindings doc)"
    and "ad_Summary doc = summarizeApplication (ad_AppliedFindings doc) (ad_WaiverStatuses doc)"
    and "ad_EvaluatedAt doc = at"
proof -
  obtain gov where g: "governanceFindings sha limits t r
      (map (\<lambda>w. statusRecord w (statusOf at (ed_Findings eval) w)) (grantable r)) = Inr gov"
    and doc: "doc = applicationDocument eval d plan t r at
      (sortAppliedFindings (map (grant (wr_Base r) at (grantable r)) (ed_Findings eval) @ gov))
      (sortWaiverStatuses (map (\<lambda>w. statusRecord w (statusOf at (ed_Findings eval) w)) (grantable r)))"
    using assms by (auto simp: applyLoaded_def applyBaseWaivers_closed result_simps)
  have "list_all2 governed (allSpecs t r (map (\<lambda>w. statusRecord w (statusOf at (ed_Findings eval) w)) (grantable r))) gov"
    using g addGovernance_governed [of sha _ _ "[]" gov] by (auto simp: governanceFindings_def allSpecs_def)
  then show ?thesis by (rule that) (simp_all add: doc applicationDocument_def)
qed

lemma Apply_ok:
  assumes "Apply sha load marshal (Some limits) ctx req = Inr app"
  obtains ev plan r where "aq_Evaluation req = Some ev" and "aq_Plan req = Some plan"
    and "validateEvaluatedAt (aq_EvaluatedAt req) = None"
    and "validateApplicationBinding (fe_doc ev) (fp_doc plan) (fp_digest plan) (aq_TrustedConfig req) = None"
    and "waiver_LoadTrusted sha load (ctx \<circ> Suc) (aq_WaiverSource req)
           \<lparr>tq_Base = tl_Base (aq_TrustedConfig req), tq_Head = tl_Head (aq_TrustedConfig req)\<rparr>
           (applicationWaiverLimits limits) = Inr r"
    and "applyLoaded sha limits (fe_doc ev) (fe_digest ev) (fp_doc plan) (aq_TrustedConfig req) r
           (gt_nanos (aq_EvaluatedAt req)) = Inr (fa_doc app)"
    and "digestBytes sha evaluationJSONDomain (fe_json ev) = fe_digest ev"
    and "DigestRunPlanJSON sha (fp_json plan) = fp_digest plan"
  using assms by (auto simp: Apply_def applyRequest_def result_simps split: option.splits sum.splits)

lemma binding_findings:
  assumes "validateApplicationBinding eval plan d t = None"
  shows "validateOriginals (ed_Findings eval) {} = None" and "ed_PlanDigest eval = d" and "ed_RunID eval = rp_RunID plan"
  using assms by (auto simp: validateApplicationBinding_def split: if_splits)

section \<open>Findings after the application\<close>

lemma governance_kept:
  assumes "list_all2 governed (allSpecs t r sts) gov" and "a \<in> set gov"
  shows "af_Origin a \<noteq> FindingOriginBuiltinPolicy \<and> af_AppliedWaiver a = None
    \<and> af_EffectiveDisposition a = fi_Disposition (af_Original a)
    \<and> af_EffectiveDisposition a \<in> {DispositionRequiresReview, DispositionFailed}"
proof -
  obtain rule origin spec where "(rule, origin, spec) \<in> set (allSpecs t r sts)" "governed (rule, origin, spec) a"
    using list_all2_right [OF assms] by (metis prod_cases3)
  then show ?thesis using specs_open by (fastforce simp: governed_def)
qed

lemma builtin_findings:
  assumes "\<forall>a\<in>set gov. af_Origin a \<noteq> FindingOriginBuiltinPolicy"
  shows "mset (map af_Original (filter (\<lambda>a. af_Origin a = FindingOriginBuiltinPolicy)
      (sortAppliedFindings (map (grant b at ws) fs @ gov)))) = mset fs"
proof -
  let ?P = "\<lambda>a. af_Origin a = FindingOriginBuiltinPolicy" and ?all = "map (grant b at ws) fs @ gov"
  have "filter ?P gov = []" using assms by (simp add: filter_empty_conv)
  then have "filter ?P ?all = map (grant b at ws) fs" by (simp add: filter_map comp_def)
  moreover have m: "mset (sortAppliedFindings ?all) = mset ?all"
    unfolding sortAppliedFindings_def by (rule mset_slice_stable)
  have "mset (filter ?P (sortAppliedFindings ?all)) = mset (filter ?P ?all)" by (simp only: mset_filter m)
  ultimately have "image_mset af_Original (mset (filter ?P (sortAppliedFindings ?all)))
      = image_mset af_Original (mset (map (grant b at ws) fs))" by simp
  then show ?thesis by (simp add: multiset.map_comp comp_def)
qed

text \<open>How a finding of an application relates to the waivers.\<close>

definition waived_exactly :: "WaiverLoad \<Rightarrow> int \<Rightarrow> AppliedFinding \<Rightarrow> bool" where
  "waived_exactly r at a \<longleftrightarrow>
     (af_EffectiveDisposition a = DispositionWaived \<longleftrightarrow>
        af_Origin a = FindingOriginBuiltinPolicy \<and> (\<exists>w\<in>set (grantable r). waives at w (af_Original a)))
     \<and> (af_EffectiveDisposition a \<noteq> DispositionWaived \<longrightarrow>
          af_EffectiveDisposition a = fi_Disposition (af_Original a) \<and> af_AppliedWaiver a = None)
     \<and> (\<forall>x. af_AppliedWaiver a = Some x \<longrightarrow>
          (\<exists>w\<in>set (grantable r). waives at w (af_Original a) \<and> x = appliedWaiver (wr_Base r) w))"

lemma grant_waived_exactly:
  assumes "fi_Disposition f \<noteq> DispositionWaived"
  shows "waived_exactly r at (grant (wr_Base r) at (grantable r) f)"
proof -
  have "\<exists>w\<in>set (grantable r). waives at w f \<and> x = appliedWaiver (wr_Base r) w"
    if "af_AppliedWaiver (grant (wr_Base r) at (grantable r) f) = Some x" for x using grant_waiver [OF that] .
  then show ?thesis
    using assms
    by (cases "af_AppliedWaiver (grant (wr_Base r) at (grantable r) f)") (auto simp: waived_exactly_def grant_effective)
qed

lemma governance_waived_exactly:
  assumes "list_all2 governed (allSpecs t r sts) gov" and "a \<in> set gov"
  shows "waived_exactly r at a"
  using governance_kept [OF assms] by (auto simp: waived_exactly_def)

lemma grant_settled:
  "af_EffectiveDisposition (grant b at ws f) \<noteq> DispositionFailed
     \<and> af_EffectiveDisposition (grant b at ws f) \<noteq> DispositionRequiresReview \<longleftrightarrow>
   fi_Disposition f \<noteq> DispositionFailed
     \<and> (fi_Disposition f = DispositionRequiresReview \<longrightarrow> (\<exists>w\<in>set ws. waives at w f))"
proof (cases "\<exists>w\<in>set ws. waives at w f")
  case True
  then have "fi_Disposition f = DispositionRequiresReview" by (auto simp: waives_def waiverEligibleFinding_def)
  then show ?thesis using True by (simp add: grant_effective)
next
  case False
  then show ?thesis by (simp add: grant_effective)
qed

lemma waiverGovernanceSpecs_Nil:
  "waiverGovernanceSpecs r (map (\<lambda>w. statusRecord w (statusOf at fs w)) ws) = [] \<longleftrightarrow>
     wb_State (wr_Base r) \<notin> {BaseStateInvalid, BaseStateUnsupportedEntryKind}
     \<and> (\<forall>w\<in>set ws. statusOf at fs w = WaiverStatusApplied) \<and> headStateSpecs (wr_Head r) = []"
proof -
  have "statusOf at fs w \<notin> openStatuses \<longleftrightarrow> statusOf at fs w = WaiverStatusApplied" for w
    by (simp add: statusOf_def openStatuses_def split: option.splits)
  moreover have "wst_Status (statusRecord w x) = x" for w x by (simp add: statusRecord_def)
  moreover have "baseStateSpecs (wr_Base r) = [] \<longleftrightarrow> wb_State (wr_Base r) \<notin> {BaseStateInvalid, BaseStateUnsupportedEntryKind}"
    by (simp add: baseStateSpecs_def)
  ultimately show ?thesis
    by (simp add: waiverGovernanceSpecs_def filter_empty_conv del: insert_iff)
qed

end
