(* ===== verification/Application_Props.thy ===== *)
theory Application_Props
  imports Application_Facts Policy_Props
begin

text \<open>The properties of the application of waivers, with an example that waives one network finding.\<close>

section \<open>Waivers\<close>

text \<open>
  C17. Waivers are applied exactly. The built-in findings of an application are the findings of the
  evaluation, each once and unchanged; a finding is waived if and only if an accepted waiver of the base
  file is in force at the time of the evaluation, names the finding and its rule, and the finding is an
  eligible one that requires a review; otherwise it keeps its disposition. A failed finding is therefore
  never waived, and neither is a governance finding. The waiver that is recorded with a finding is such a
  waiver. Every waiver of the base file, and nothing else, has one status, which says why it was or was not
  applied.
\<close>

theorem waivers_applied_exactly:
  assumes "Apply sha load marshal (Some limits) ctx req = Inr app" and "aq_Evaluation req = Some ev"
    and "waiver_LoadTrusted sha load (ctx \<circ> Suc) (aq_WaiverSource req)
           \<lparr>tq_Base = tl_Base (aq_TrustedConfig req), tq_Head = tl_Head (aq_TrustedConfig req)\<rparr>
           (applicationWaiverLimits limits) = Inr r"
  shows "let at = gt_nanos (aq_EvaluatedAt req); fs = ed_Findings (fe_doc ev); d = fa_doc app in
      mset (map af_Original (filter (\<lambda>a. af_Origin a = FindingOriginBuiltinPolicy) (ad_AppliedFindings d))) = mset fs
      \<and> (\<forall>a\<in>set (ad_AppliedFindings d).
          (af_EffectiveDisposition a = DispositionWaived \<longleftrightarrow>
             af_Origin a = FindingOriginBuiltinPolicy \<and> (\<exists>w\<in>set (grantable r). waives at w (af_Original a)))
          \<and> (af_EffectiveDisposition a \<noteq> DispositionWaived \<longrightarrow>
               af_EffectiveDisposition a = fi_Disposition (af_Original a) \<and> af_AppliedWaiver a = None)
          \<and> (\<forall>x. af_AppliedWaiver a = Some x \<longrightarrow>
               (\<exists>w\<in>set (grantable r). waives at w (af_Original a) \<and> x = appliedWaiver (wr_Base r) w)))
      \<and> mset (ad_WaiverStatuses d) = mset (map (\<lambda>w. statusRecord w (statusOf at fs w)) (grantable r))"
proof -
  let ?at = "gt_nanos (aq_EvaluatedAt req)" and ?fs = "ed_Findings (fe_doc ev)" and ?d = "fa_doc app"
  let ?g = "grant (wr_Base r) ?at (grantable r)"
  obtain ev' plan r' where ev': "aq_Evaluation req = Some ev'" and "aq_Plan req = Some plan"
    and bind': "validateApplicationBinding (fe_doc ev') (fp_doc plan) (fp_digest plan) (aq_TrustedConfig req) = None"
    and r': "waiver_LoadTrusted sha load (ctx \<circ> Suc) (aq_WaiverSource req)
           \<lparr>tq_Base = tl_Base (aq_TrustedConfig req), tq_Head = tl_Head (aq_TrustedConfig req)\<rparr>
           (applicationWaiverLimits limits) = Inr r'"
    and loaded': "applyLoaded sha limits (fe_doc ev') (fe_digest ev') (fp_doc plan) (aq_TrustedConfig req) r' ?at = Inr ?d"
    by (rule Apply_ok [OF assms(1)])
  have eq: "ev' = ev" "r' = r" using ev' r' assms(2,3) by simp_all
  note bind = bind' [unfolded eq] and loaded = loaded' [unfolded eq]
  note orig = binding_findings(1) [OF bind, unfolded validateOriginals_None]
  then have dist: "distinct (map fi_ID ?fs)" by blast
  obtain gov where gov: "list_all2 governed (allSpecs (aq_TrustedConfig req) r
        (map (\<lambda>w. statusRecord w (statusOf ?at ?fs w)) (grantable r))) gov"
    and ap: "ad_AppliedFindings ?d = sortAppliedFindings (map ?g ?fs @ gov)"
    and st: "ad_WaiverStatuses ?d = sortWaiverStatuses (map (\<lambda>w. statusRecord w (statusOf ?at ?fs w)) (grantable r))"
    by (rule applyLoaded_ok [OF loaded dist])
  have "mset (map af_Original (filter (\<lambda>a. af_Origin a = FindingOriginBuiltinPolicy) (ad_AppliedFindings ?d))) = mset ?fs"
    unfolding ap using governance_kept [OF gov] by (intro builtin_findings) blast
  moreover have "waived_exactly r ?at a" if "a \<in> set (ad_AppliedFindings ?d)" for a
  proof -
    have "a \<in> set gov \<or> (\<exists>f\<in>set ?fs. a = ?g f)" using that by (auto simp: ap sortAppliedFindings_def)
    moreover have "waived_exactly r ?at (?g f)" if "f \<in> set ?fs" for f
      using orig that by (intro grant_waived_exactly) blast
    ultimately show ?thesis using governance_waived_exactly [OF gov] by blast
  qed
  moreover have "mset (ad_WaiverStatuses ?d) = mset (map (\<lambda>w. statusRecord w (statusOf ?at ?fs w)) (grantable r))"
    unfolding st sortWaiverStatuses_def by (rule mset_slice_stable)
  ultimately show ?thesis unfolding Let_def waived_exactly_def by blast
qed

section \<open>The head is never silent\<close>

text \<open>
  C18. An application passes if and only if nothing is left to review: no finding of the evaluation failed,
  every finding that requires a review is waived by a waiver of the base file in force, the head leaves the
  pipeline file unchanged or equivalent, the waiver file of the base is not broken, each of its waivers was
  applied, and the head leaves the waiver file as it is. Whatever else the head does to its configuration
  or its waivers therefore keeps the run from passing.
\<close>

theorem passes_only_when_silent:
  assumes "Apply sha load marshal (Some limits) ctx req = Inr app" and "aq_Evaluation req = Some ev"
    and "aq_WaiverSource req = Some ReadFile"
    and "waiver_LoadTrusted sha load (ctx \<circ> Suc) (Some ReadFile)
           \<lparr>tq_Base = tl_Base (aq_TrustedConfig req), tq_Head = tl_Head (aq_TrustedConfig req)\<rparr>
           (applicationWaiverLimits limits) = Inr r"
    and "LoadTrusted sha load' ctx' (Some ReadFile') q = Inr (aq_TrustedConfig req)"
  shows "ad_OverallEffectiveDisposition (fa_doc app) = DispositionPassed \<longleftrightarrow>
      (\<forall>f\<in>set (ed_Findings (fe_doc ev)). fi_Disposition f \<noteq> DispositionFailed
         \<and> (fi_Disposition f = DispositionRequiresReview \<longrightarrow>
              (\<exists>w\<in>set (grantable r). waives (gt_nanos (aq_EvaluatedAt req)) w f)))
      \<and> ha_State (tl_HeadAssessment (aq_TrustedConfig req))
          \<in> {HeadStateUnchanged, HeadStateContentChangedSemanticallyEquivalent}
      \<and> wb_State (wr_Base r) \<notin> {BaseStateInvalid, BaseStateUnsupportedEntryKind}
      \<and> (\<forall>w\<in>set (grantable r). statusOf (gt_nanos (aq_EvaluatedAt req)) (ed_Findings (fe_doc ev)) w = WaiverStatusApplied)
      \<and> wh_State (wr_Head r) \<in> {HeadStateAbsentOnBoth, HeadStateUnchanged, HeadStateContentChangedSemanticallyEquivalent}"
proof -
  let ?at = "gt_nanos (aq_EvaluatedAt req)" and ?fs = "ed_Findings (fe_doc ev)" and ?d = "fa_doc app"
  let ?g = "grant (wr_Base r) ?at (grantable r)" and ?t = "aq_TrustedConfig req"
  let ?sts = "map (\<lambda>w. statusRecord w (statusOf ?at ?fs w)) (grantable r)"
  obtain ev' plan r' where ev': "aq_Evaluation req = Some ev'" and "aq_Plan req = Some plan"
    and bind': "validateApplicationBinding (fe_doc ev') (fp_doc plan) (fp_digest plan) ?t = None"
    and r': "waiver_LoadTrusted sha load (ctx \<circ> Suc) (aq_WaiverSource req)
           \<lparr>tq_Base = tl_Base ?t, tq_Head = tl_Head ?t\<rparr> (applicationWaiverLimits limits) = Inr r'"
    and loaded': "applyLoaded sha limits (fe_doc ev') (fe_digest ev') (fp_doc plan) ?t r' ?at = Inr ?d"
    by (rule Apply_ok [OF assms(1)])
  have eq: "ev' = ev" "r' = r" using ev' r' assms(2-4) by simp_all
  note bind = bind' [unfolded eq] and loaded = loaded' [unfolded eq]
  have dist: "distinct (map fi_ID ?fs)" using binding_findings(1) [OF bind] by (simp add: validateOriginals_None)
  obtain gov where gov: "list_all2 governed (allSpecs ?t r ?sts) gov"
    and ap: "ad_AppliedFindings ?d = sortAppliedFindings (map ?g ?fs @ gov)"
    and ov: "ad_OverallEffectiveDisposition ?d = overallEffectiveDisposition (ad_AppliedFindings ?d)"
    by (rule applyLoaded_ok [OF loaded dist])
  have kept: "\<forall>a\<in>set gov. af_EffectiveDisposition a \<in> {DispositionRequiresReview, DispositionFailed}"
    using governance_kept [OF gov] by blast
  have "ad_OverallEffectiveDisposition ?d = DispositionPassed \<longleftrightarrow>
      (\<forall>f\<in>set ?fs. af_EffectiveDisposition (?g f) \<noteq> DispositionFailed
         \<and> af_EffectiveDisposition (?g f) \<noteq> DispositionRequiresReview) \<and> gov = []"
    unfolding ov overall_passed ap sortAppliedFindings_def
    using kept by (cases gov) auto
  also have "gov = [] \<longleftrightarrow> configGovernanceSpecs ?t = [] \<and> waiverGovernanceSpecs r ?sts = []"
    using gov by (auto simp: allSpecs_def)
  finally show ?thesis
    unfolding waiverGovernanceSpecs_Nil configGovernanceSpecs_Nil [OF assms(5)] headStateSpecs_Nil [OF assms(4)]
      grant_settled conj_assoc .
qed

section \<open>An example\<close>

definition netFinding :: Finding where
  "netFinding = \<lparr>fi_SchemaVersion = SchemaVersionFindingV1Alpha1, fi_ID = demoFindingID, fi_RuleID = ''GR-NET-001'',
     fi_RuleVersion = ''v1alpha1'', fi_Title = [], fi_Severity = SeverityHigh, fi_Confidence = ConfidenceHigh,
     fi_Disposition = DispositionRequiresReview, fi_Summary = [], fi_DeltaRecordIDs = [], fi_Evidence = [],
     fi_ScenarioIDs = [], fi_BaseObserved = False, fi_HeadObserved = True, fi_Waived = False, fi_Waivers = [], fi_Limitations = []\<rparr>"

definition waivePlan :: FrozenPlan where
  "waivePlan = \<lparr>fp_doc = plannedDocument planRequest, fp_json = [], fp_digest = DigestRunPlanJSON constSha []\<rparr>"

definition waiveEvaluation :: FrozenEvaluation where
  "waiveEvaluation = \<lparr>fe_doc = \<lparr>ed_SchemaVersion = SchemaVersionPolicyEvaluationV1Alpha1,
       ed_PolicyProfileName = PolicyProfileNameStrict, ed_PolicyProfileVersion = PolicyProfileVersionStrictV1Alpha1,
       ed_BuiltinRuleSetVersion = BuiltinRuleSetVersionStrictV1Alpha1, ed_BehavioralDeltaDigest = zeroDigest,
       ed_RunID = ''run'', ed_PlanDigest = fp_digest waivePlan, ed_ManifestDigest = zeroDigest,
       ed_ManifestVerificationMode = [], ed_ExecutionComplete = True, ed_EvidenceComplete = True,
       ed_OverallDisposition = DispositionRequiresReview, ed_Findings = [netFinding],
       ed_Summary = summarizeFindings [netFinding], ed_Limitations = []\<rparr>,
     fe_json = [], fe_digest = digestBytes constSha evaluationJSONDomain []\<rparr>"

text \<open>Both revisions have the waiver file of the example.\<close>

definition waiveSource :: read_file where "waiveSource c path mx = Inr (demoWaiverFile ''a'')"

definition waiveRequest :: ApplicationRequest where
  "waiveRequest = \<lparr>aq_Evaluation = Some waiveEvaluation, aq_Plan = Some waivePlan,
     aq_TrustedConfig = planTrusted constSha, aq_WaiverSource = Some waiveSource,
     aq_EvaluatedAt = \<lparr>gt_nanos = 1768000000000000000, gt_offset = 0, gt_canonical = True\<rparr>\<rparr>"

definition waiveBase :: BaseAssessment where
  "waiveBase = \<lparr>wb_State = BaseStateValid,
     wb_File = metadataFor constSha WaiverPath (tq_Base planLoad) (demoWaiverFile ''a''),
     wb_Waivers = [demoWaiver ''a''], wb_SemanticDigest = wt_SemanticDigest (demoSet constSha ''a''), wb_ErrorCode = []\<rparr>"

definition waiveLoaded :: WaiverLoad where
  "waiveLoaded = \<lparr>wr_BaseRevision = tq_Base planLoad, wr_HeadRevision = tq_Head planLoad, wr_Base = waiveBase,
     wr_Head = noHead\<lparr>wh_File := metadataFor constSha WaiverPath (tq_Head planLoad) (demoWaiverFile ''a''),
       wh_State := HeadStateUnchanged, wh_Waivers := [demoWaiver ''a''],
       wh_SemanticDigest := wt_SemanticDigest (demoSet constSha ''a'')\<rparr>\<rparr>"

lemma waive_trusted: "tl_Base (planTrusted sha) = tq_Base planLoad" "tl_Head (planTrusted sha) = tq_Head planLoad"
  by (simp_all add: planTrusted_def Let_def)

lemma waive_limits: "applicationWaiverLimits DefaultApplicationLimits = waiver_DefaultLimits"
  by (simp add: applicationWaiverLimits_def DefaultApplicationLimits_def waiver_DefaultLimits_def)

lemma waive_loaded:
  "waiver_LoadTrusted constSha demoWaiverLoad live (Some waiveSource)
     \<lparr>tq_Base = tl_Base (planTrusted constSha), tq_Head = tl_Head (planTrusted constSha)\<rparr>
     (applicationWaiverLimits DefaultApplicationLimits) = Inr waiveLoaded"
proof -
  have "wl_MaxWaiverFileBytes waiver_DefaultLimits = 262144" by (simp add: waiver_DefaultLimits_def)
  moreover have "wt_Waivers (demoSet constSha ''a'') = [demoWaiver ''a'']" by (simp add: demoSet_def Let_def)
  ultimately have base: "assessBase constSha demoWaiverLoad waiver_DefaultLimits (tq_Base planLoad)
      (Inr (demoWaiverFile ''a'')) = Inr (waiveBase, True, ''a'')"
    by (simp add: assessBase_def demo_waiver_parsed [OF demo_owners(1)] waiveBase_def noBase_def)
  show ?thesis
    unfolding waiver_LoadTrusted_def waive_limits default_waiver_limits waive_trusted
    by (simp add: waiveSource_def base assessWaiverHead_def waiveLoaded_def waiveBase_def)
qed

lemma waive_binding:
  "validateApplicationBinding (fe_doc waiveEvaluation) (fp_doc waivePlan) (fp_digest waivePlan) (planTrusted constSha) = None"
proof -
  have d: "fp_digest waivePlan = ''sha256:'' @ replicate 64 (CHR ''c'')"
    by (simp add: waivePlan_def DigestRunPlanJSON_def digestBytes_def constSha_def)
  have "validDigest (fp_digest waivePlan)"
    unfolding d using validDigest_sha [OF constSha_hex [of "[]"]] by (simp add: constSha_def)
  moreover have "vp_PolicyProfile demoPipeline = ''strict''" using demoPipeline_ok by (simp add: pipeline_ok_def)
  moreover have "fp_digest waivePlan \<noteq> []" by (simp add: d)
  moreover have "demoFindingID \<noteq> []" by (simp add: demoFindingID_def)
  ultimately show ?thesis
    by (simp add: validateApplicationBinding_def waiveEvaluation_def net_digest waivePlan_def plannedDocument_def
        buildDocument_def Let_def planRequest_def planTrusted_def planLoad_def planRevision_def commitRefForPlan_def
        planSnapshot_def noCommit_def metadataForFile_def metadataFor_def netFinding_def del: replicate.simps)
qed

lemma waive_statuses:
  "grantable waiveLoaded = [demoWaiver ''a'']" "statusOf 1768000000000000000 [netFinding] (demoWaiver ''a'') = WaiverStatusApplied"
  "waives 1768000000000000000 (demoWaiver ''a'') netFinding" "fi_Disposition netFinding = DispositionRequiresReview"
  by (simp_all add: grantable_def waiveLoaded_def waiveBase_def statusOf_def waives_def active_def demoWaiver_def instant_def
      demo_unix netFinding_def waiverEligibleFinding_def)

lemma waive_applied:
  "\<exists>app. Apply constSha demoWaiverLoad (\<lambda>_. Some []) (Some DefaultApplicationLimits) live waiveRequest = Inr app"
proof -
  have specs: "configGovernanceSpecs (planTrusted constSha) = []"
    by (simp add: configGovernanceSpecs_def planTrusted_def assessment_def Let_def)
  have "waiverGovernanceSpecs waiveLoaded [statusRecord (demoWaiver ''a'') WaiverStatusApplied] = []"
    by (simp add: waiverGovernanceSpecs_def baseStateSpecs_def headStateSpecs_def waiveLoaded_def waiveBase_def noHead_def
        statusRecord_def openStatuses_def)
  then have "applyLoaded constSha DefaultApplicationLimits (fe_doc waiveEvaluation) (fe_digest waiveEvaluation)
      (fp_doc waivePlan) (planTrusted constSha) waiveLoaded 1768000000000000000 \<noteq> Inl e" for e
    using applyBaseWaivers_closed [of "[netFinding]" waiveLoaded 1768000000000000000]
    by (simp add: applyLoaded_def waive_trusted waive_statuses governanceFindings_def specs waiveEvaluation_def)
       (simp add: waiveLoaded_def DefaultApplicationLimits_def)
  then obtain doc where doc: "applyLoaded constSha DefaultApplicationLimits (fe_doc waiveEvaluation) (fe_digest waiveEvaluation)
      (fp_doc waivePlan) (planTrusted constSha) waiveLoaded 1768000000000000000 = Inr doc"
    by (metis sum.exhaust)
  have digests: "digestBytes constSha evaluationJSONDomain (fe_json waiveEvaluation) = fe_digest waiveEvaluation"
    "DigestRunPlanJSON constSha (fp_json waivePlan) = fp_digest waivePlan"
    "int (length (ed_Findings (fe_doc waiveEvaluation))) = 1"
    by (simp_all add: waiveEvaluation_def waivePlan_def)
  have loaded: "waiver_LoadTrusted constSha demoWaiverLoad (live \<circ> Suc) (Some waiveSource)
     \<lparr>tq_Base = tl_Base (planTrusted constSha), tq_Head = tl_Head (planTrusted constSha)\<rparr>
     (applicationWaiverLimits DefaultApplicationLimits) = Inr waiveLoaded"
    using waive_loaded by (simp add: live_def comp_def)
  have at: "validateEvaluatedAt (aq_EvaluatedAt waiveRequest) = None"
    by (simp add: validateEvaluatedAt_def waiveRequest_def time_is_zero_def minInstant_def maxInstant_def)
  show ?thesis
    using at doc
    by (simp add: Apply_def applyRequest_def waiveRequest_def digests waive_binding loaded)
       (simp add: DefaultApplicationLimits_def waiveEvaluation_def)
qed

theorem waivers_applied_exactly_witness:
  "\<exists>app. Apply constSha demoWaiverLoad (\<lambda>_. Some []) (Some DefaultApplicationLimits) live waiveRequest = Inr app
     \<and> mset (ad_WaiverStatuses (fa_doc app)) = {#statusRecord (demoWaiver ''a'') WaiverStatusApplied#}"
proof -
  obtain app where app: "Apply constSha demoWaiverLoad (\<lambda>_. Some []) (Some DefaultApplicationLimits) live waiveRequest = Inr app"
    using waive_applied by blast
  have ev: "aq_Evaluation waiveRequest = Some waiveEvaluation" by (simp add: waiveRequest_def)
  have loaded: "waiver_LoadTrusted constSha demoWaiverLoad (live \<circ> Suc) (aq_WaiverSource waiveRequest)
     \<lparr>tq_Base = tl_Base (aq_TrustedConfig waiveRequest), tq_Head = tl_Head (aq_TrustedConfig waiveRequest)\<rparr>
     (applicationWaiverLimits DefaultApplicationLimits) = Inr waiveLoaded"
    using waive_loaded by (simp add: live_def comp_def waiveRequest_def)
  have "mset (ad_WaiverStatuses (fa_doc app)) = {#statusRecord (demoWaiver ''a'') WaiverStatusApplied#}"
    using waivers_applied_exactly [OF app ev loaded]
    by (simp add: Let_def waive_statuses waiveRequest_def waiveEvaluation_def)
  then show ?thesis using app by blast
qed

theorem passes_only_when_silent_witness:
  "\<exists>app. Apply constSha demoWaiverLoad (\<lambda>_. Some []) (Some DefaultApplicationLimits) live waiveRequest = Inr app
     \<and> ad_OverallEffectiveDisposition (fa_doc app) = DispositionPassed"
proof -
  obtain app where app: "Apply constSha demoWaiverLoad (\<lambda>_. Some []) (Some DefaultApplicationLimits) live waiveRequest = Inr app"
    using waive_applied by blast
  have ev: "aq_Evaluation waiveRequest = Some waiveEvaluation" "aq_WaiverSource waiveRequest = Some waiveSource"
    by (simp_all add: waiveRequest_def)
  have loaded: "waiver_LoadTrusted constSha demoWaiverLoad (live \<circ> Suc) (Some waiveSource)
     \<lparr>tq_Base = tl_Base (aq_TrustedConfig waiveRequest), tq_Head = tl_Head (aq_TrustedConfig waiveRequest)\<rparr>
     (applicationWaiverLimits DefaultApplicationLimits) = Inr waiveLoaded"
    using waive_loaded by (simp add: live_def comp_def waiveRequest_def)
  have config: "LoadTrusted constSha demoLoad live (Some demoBoth) planLoad = Inr (aq_TrustedConfig waiveRequest)"
    using plan_loaded by (simp add: waiveRequest_def)
  have "ad_OverallEffectiveDisposition (fa_doc app) = DispositionPassed"
    unfolding passes_only_when_silent [OF app ev loaded config]
    by (simp add: waiveEvaluation_def waiveRequest_def waive_statuses planTrusted_def Let_def assessment_def)
       (simp add: waiveLoaded_def waiveBase_def)
  then show ?thesis using app by blast
qed

end
