(* ===== verification/Lease.thy ===== *)
theory Lease
  imports Main
begin

text \<open>
  The contract of a table whose rows are leased: a row is found by an identifier, and no transaction lowers its
  lease generation. A holder that names an old generation is then fenced off for good. The outbox of the webhook
  inbox and the source requests of the controller store are both such tables.
\<close>

locale lease_table =
  fixes step :: "'db \<Rightarrow> 'db \<Rightarrow> bool"
    and inv :: "'db \<Rightarrow> bool"
    and lease :: "'db \<Rightarrow> 'i \<Rightarrow> int \<Rightarrow> bool"
  assumes inv_step: "step db db' \<Longrightarrow> inv db \<Longrightarrow> inv db'"
    and one_generation: "inv db \<Longrightarrow> lease db i g \<Longrightarrow> lease db i g' \<Longrightarrow> g = g'"
    and not_lowered: "step db db' \<Longrightarrow> inv db \<Longrightarrow> lease db i g \<Longrightarrow> \<exists>g'. lease db' i g' \<and> g \<le> g'"
begin

lemma inv_steps: "step\<^sup>*\<^sup>* db db' \<Longrightarrow> inv db \<Longrightarrow> inv db'"
  by (induction rule: rtranclp_induct) (auto intro: inv_step)

lemma kept: "step\<^sup>*\<^sup>* db db' \<Longrightarrow> inv db \<Longrightarrow> lease db i g \<Longrightarrow> \<exists>g'. lease db' i g' \<and> g \<le> g'"
proof (induction rule: rtranclp_induct)
  case (step b c)
  then obtain g1 where g1: "lease b i g1" "g \<le> g1" by blast
  from not_lowered [OF step.hyps(2) inv_steps [OF step.hyps(1) step.prems(1)] g1(1)] g1(2) show ?case
    by (blast intro: order_trans)
qed blast

lemma monotone: "step\<^sup>*\<^sup>* db db' \<Longrightarrow> inv db \<Longrightarrow> lease db i g \<Longrightarrow> lease db' i g' \<Longrightarrow> g \<le> g'"
  using kept one_generation inv_steps by blast

text \<open>A row leased with one generation and later again with the next one is out of reach of the first holder.\<close>

lemma fenced:
  assumes "inv db1" and "lease db1 i g1" and "step\<^sup>*\<^sup>* db1 db2" and "lease db2 i (g2 - 1)"
    and "inv db3" and "lease db3 i g2" and "step\<^sup>*\<^sup>* db3 db4"
  shows "g1 < g2" and "\<not> lease db4 i g1"
proof -
  show less: "g1 < g2" using monotone [OF assms(3,1,2,4)] by simp
  show "\<not> lease db4 i g1"
    using monotone [OF assms(7,5,6)] less by force
qed

end

end
