(* ===== verification/GithubApp.thy ===== *)
theory GithubApp
  imports Sha256 GoText Model
begin

text \<open>
  The protocol core of the GitHub App (\<open>src/internal/githubapp\<close>): the limits, the identities of
  targets, jobs, attempts and checks, the state machines of deliveries, jobs, attempts and check
  publications, webhook headers, signatures and replay, the classification of webhook actions, the
  reconciliation of a pull request with its generation, rerequests, worker assignments and the
  advisory check projection.

  State and kind types of the source are strings, and so are they here. The hash is the argument
  \<open>sha\<close>, \<open>mime.ParseMediaType\<close> and \<open>json.Marshal\<close> are arguments of the functions that call
  them. Loops over the runes of a string test for ASCII characters only; the bytes of
  a multi-byte or invalid sequence decode to runes of at least \<open>0x80\<close>, so the tests are byte-wise.
\<close>

section \<open>Errors and limits\<close>

definition githubErr :: "string \<Rightarrow> string \<Rightarrow> go_error" where
  "githubErr code stage = GoError code stage []"

record GithubLimits =
  gl_MaxWebhookBodyBytes :: int
  gl_MinWebhookSecretBytes :: int
  gl_MaxWebhookSecretBytes :: int
  gl_MaxSignatureHeaderBytes :: int
  gl_MaxHeaderValueBytes :: int
  gl_MaxDeliveryIDBytes :: int
  gl_MaxEventNameBytes :: int
  gl_MaxExternalIDBytes :: int
  gl_MaxRepositoryNameBytes :: int
  gl_MaxProjectionStringBytes :: int
  gl_MaxJSONDepth :: int
  gl_MaxJSONTokens :: int
  gl_MaxMembersPerObject :: int
  gl_MaxArrayElements :: int
  gl_MaxJSONStringBytes :: int
  gl_MaxJSONNumberBytes :: int
  gl_MaxJobLimitations :: int
  gl_MaxCheckTitleBytes :: int
  gl_MaxCheckSummaryBytes :: int
  gl_MaxCheckTextBytes :: int
  gl_MaxStateTransitions :: int
  gl_MaxAttemptsPerTarget :: int
  gl_MaxProtocolDocumentBytes :: int
  gl_MaxControllerGeneration :: int

abbreviation AbsoluteMaxControllerGeneration :: int where
  "AbsoluteMaxControllerGeneration \<equiv> 9223372036854775807"

abbreviation AbsoluteMaxAttemptsPerTarget :: int where "AbsoluteMaxAttemptsPerTarget \<equiv> 32"
abbreviation AbsoluteMaxCheckTitleBytes :: nat where "AbsoluteMaxCheckTitleBytes \<equiv> 255"
abbreviation AbsoluteMaxCheckSummaryBytes :: nat where "AbsoluteMaxCheckSummaryBytes \<equiv> 32768"
abbreviation AbsoluteMaxCheckTextBytes :: nat where "AbsoluteMaxCheckTextBytes \<equiv> 32768"

definition github_DefaultLimits :: GithubLimits where
  "github_DefaultLimits = \<lparr>
     gl_MaxWebhookBodyBytes = 4194304,
     gl_MinWebhookSecretBytes = 32,
     gl_MaxWebhookSecretBytes = 256,
     gl_MaxSignatureHeaderBytes = 128,
     gl_MaxHeaderValueBytes = 1024,
     gl_MaxDeliveryIDBytes = 128,
     gl_MaxEventNameBytes = 64,
     gl_MaxExternalIDBytes = 128,
     gl_MaxRepositoryNameBytes = 256,
     gl_MaxProjectionStringBytes = 4096,
     gl_MaxJSONDepth = 64,
     gl_MaxJSONTokens = 250000,
     gl_MaxMembersPerObject = 25000,
     gl_MaxArrayElements = 100000,
     gl_MaxJSONStringBytes = 1048576,
     gl_MaxJSONNumberBytes = 128,
     gl_MaxJobLimitations = 1000,
     gl_MaxCheckTitleBytes = 255,
     gl_MaxCheckSummaryBytes = 32768,
     gl_MaxCheckTextBytes = 32768,
     gl_MaxStateTransitions = 1000,
     gl_MaxAttemptsPerTarget = 32,
     gl_MaxProtocolDocumentBytes = 4194304,
     gl_MaxControllerGeneration = AbsoluteMaxControllerGeneration \<rparr>"

definition githubLimitChecks :: "GithubLimits \<Rightarrow> (int \<times> int) list" where
  "githubLimitChecks l = [
     (gl_MaxWebhookBodyBytes l, 4194304),
     (gl_MaxWebhookSecretBytes l, 256),
     (gl_MaxSignatureHeaderBytes l, 128),
     (gl_MaxHeaderValueBytes l, 1024),
     (gl_MaxDeliveryIDBytes l, 128),
     (gl_MaxEventNameBytes l, 64),
     (gl_MaxExternalIDBytes l, 128),
     (gl_MaxRepositoryNameBytes l, 256),
     (gl_MaxProjectionStringBytes l, 4096),
     (gl_MaxJSONDepth l, 64),
     (gl_MaxJSONTokens l, 250000),
     (gl_MaxMembersPerObject l, 25000),
     (gl_MaxArrayElements l, 100000),
     (gl_MaxJSONStringBytes l, 1048576),
     (gl_MaxJSONNumberBytes l, 128),
     (gl_MaxJobLimitations l, 1000),
     (gl_MaxCheckTitleBytes l, 255),
     (gl_MaxCheckSummaryBytes l, 32768),
     (gl_MaxCheckTextBytes l, 32768),
     (gl_MaxStateTransitions l, 1000),
     (gl_MaxAttemptsPerTarget l, 32),
     (gl_MaxProtocolDocumentBytes l, 4194304)]"

definition github_validateLimits :: "GithubLimits \<Rightarrow> go_error option" where
  "github_validateLimits l =
     echeck (first_error
       (\<lambda>(got, mx). if got \<le> 0 \<or> got > mx then Some (githubErr ''invalid-limits'' ''limits'') else None)
       (githubLimitChecks l))
     (if gl_MinWebhookSecretBytes l < 1 \<or> gl_MinWebhookSecretBytes l > gl_MaxWebhookSecretBytes l
      then Some (githubErr ''invalid-limits'' ''limits'')
      else if gl_MaxControllerGeneration l \<le> 0
        \<or> gl_MaxControllerGeneration l > AbsoluteMaxControllerGeneration
      then Some (githubErr ''invalid-limits'' ''limits'')
      else None)"

section \<open>Digests and identities\<close>

definition DigestRawBody :: "(string \<Rightarrow> string) \<Rightarrow> string \<Rightarrow> string" where
  "DigestRawBody sha body = ''sha256:'' @ sha body"

text \<open>\<open>domainHash\<close>, the same function in \<open>githubapp\<close> and \<open>githubcontrollerstore\<close>.\<close>

definition domainHash :: "(string \<Rightarrow> string) \<Rightarrow> string \<Rightarrow> string list \<Rightarrow> string" where
  "domainHash sha domain fs = sha (domain @ concat (map writeString fs))"

definition prefixedID :: "(string \<Rightarrow> string) \<Rightarrow> string \<Rightarrow> string \<Rightarrow> string list \<Rightarrow> string" where
  "prefixedID sha prefix domain fs = prefix @ ''-'' @ domainHash sha domain fs"

definition github_validateDigest :: "string \<Rightarrow> bool" where
  "github_validateDigest s \<longleftrightarrow>
     length s = 71 \<and> take 7 s = ''sha256:'' \<and> isLowerHex (drop 7 s) 64"

definition validGitObjectID :: "string \<Rightarrow> bool" where
  "validGitObjectID s \<longleftrightarrow> isLowerHex s 40 \<or> isLowerHex s 64"

abbreviation DomainAnalysisTargetID :: string where
  "DomainAnalysisTargetID \<equiv> ''glassroot.dev/github-analysis-target-id/v1'' @ [NUL]"
abbreviation DomainAnalysisJobID :: string where
  "DomainAnalysisJobID \<equiv> ''glassroot.dev/github-analysis-job-id/v1'' @ [NUL]"
abbreviation DomainAnalysisAttemptID :: string where
  "DomainAnalysisAttemptID \<equiv> ''glassroot.dev/github-analysis-attempt-id/v1'' @ [NUL]"
abbreviation DomainCheckExternalID :: string where
  "DomainCheckExternalID \<equiv> ''glassroot.dev/github-check-external-id/v1'' @ [NUL]"

abbreviation SchemaGitHubAnalysisTargetV1Alpha1 :: string where
  "SchemaGitHubAnalysisTargetV1Alpha1 \<equiv> ''glassroot.dev/github-analysis-target/v1alpha1''"
abbreviation SchemaGitHubAnalysisJobV1Alpha1 :: string where
  "SchemaGitHubAnalysisJobV1Alpha1 \<equiv> ''glassroot.dev/github-analysis-job/v1alpha1''"
abbreviation SchemaGitHubAnalysisAttemptV1Alpha1 :: string where
  "SchemaGitHubAnalysisAttemptV1Alpha1 \<equiv> ''glassroot.dev/github-analysis-attempt/v1alpha1''"
abbreviation SchemaGitHubWorkerAssignmentV1Alpha1 :: string where
  "SchemaGitHubWorkerAssignmentV1Alpha1 \<equiv> ''glassroot.dev/github-worker-assignment/v1alpha1''"
abbreviation SchemaGitHubPublishCommandV1Alpha1 :: string where
  "SchemaGitHubPublishCommandV1Alpha1 \<equiv> ''glassroot.dev/github-publish-command/v1alpha1''"
abbreviation SchemaGitHubCheckProjectionV1Alpha1 :: string where
  "SchemaGitHubCheckProjectionV1Alpha1 \<equiv> ''glassroot.dev/github-check-projection/v1alpha1''"
abbreviation CheckProfileAdvisoryV1Alpha1 :: string where
  "CheckProfileAdvisoryV1Alpha1 \<equiv> ''glassroot.dev/github-check-profile/advisory/v1alpha1''"

section \<open>Targets, jobs and attempts\<close>

record AnalysisTarget =
  at_SchemaVersion :: string
  at_InstallationID :: int
  at_BaseRepositoryID :: int
  at_HeadRepositoryID :: int
  at_PullRequestNumber :: int
  at_BaseCommitID :: string
  at_HeadCommitID :: string
  at_AnalysisProfileVersion :: string

definition validateTarget :: "AnalysisTarget \<Rightarrow> go_error option" where
  "validateTarget t =
     (if at_SchemaVersion t \<noteq> SchemaGitHubAnalysisTargetV1Alpha1
      then Some (githubErr ''invalid-target'' ''target'')
      else if at_InstallationID t \<le> 0 \<or> at_BaseRepositoryID t \<le> 0 \<or> at_HeadRepositoryID t \<le> 0
        \<or> at_PullRequestNumber t \<le> 0
      then Some (githubErr ''invalid-target'' ''target'')
      else if \<not> validGitObjectID (at_BaseCommitID t) \<or> \<not> validGitObjectID (at_HeadCommitID t)
      then Some (githubErr ''invalid-object-id'' ''target'')
      else if at_AnalysisProfileVersion t = [] \<or> hasControl (at_AnalysisProfileVersion t)
      then Some (githubErr ''invalid-target'' ''target'')
      else None)"

definition targetFields :: "AnalysisTarget \<Rightarrow> string list" where
  "targetFields t = [
     sprint_int (at_InstallationID t),
     sprint_int (at_BaseRepositoryID t),
     sprint_int (at_HeadRepositoryID t),
     sprint_int (at_PullRequestNumber t),
     at_BaseCommitID t,
     at_HeadCommitID t,
     at_AnalysisProfileVersion t]"

definition targetID :: "(string \<Rightarrow> string) \<Rightarrow> AnalysisTarget \<Rightarrow> string result" where
  "targetID sha t = rcheck (validateTarget t)
     (Inr (prefixedID sha ''target'' DomainAnalysisTargetID (targetFields t)))"

definition validateTargetID :: "string \<Rightarrow> bool" where
  "validateTargetID i \<longleftrightarrow> length i = 71 \<and> take 7 i = ''target-'' \<and> isLowerHex (drop 7 i) 64"

definition validateJobID :: "string \<Rightarrow> bool" where
  "validateJobID i \<longleftrightarrow> length i = 68 \<and> take 4 i = ''job-'' \<and> isLowerHex (drop 4 i) 64"

definition validateAttemptID :: "string \<Rightarrow> bool" where
  "validateAttemptID i \<longleftrightarrow> length i = 72 \<and> take 8 i = ''attempt-'' \<and> isLowerHex (drop 8 i) 64"

abbreviation RunnerTierHardenedContainer :: string where
  "RunnerTierHardenedContainer \<equiv> ''hardened-container''"
abbreviation RunnerTierMicroVM :: string where "RunnerTierMicroVM \<equiv> ''microvm''"
abbreviation AttemptReasonInitial :: string where "AttemptReasonInitial \<equiv> ''initial''"
abbreviation AttemptReasonInfrastructureRetry :: string where
  "AttemptReasonInfrastructureRetry \<equiv> ''infrastructure-retry''"
abbreviation AttemptReasonCheckRerequest :: string where
  "AttemptReasonCheckRerequest \<equiv> ''check-rerequest''"

record AnalysisJob =
  aj_SchemaVersion :: string
  aj_ID :: string
  aj_TargetID :: string
  aj_Target :: AnalysisTarget
  aj_Generation :: int
  aj_AnalysisProfileVersion :: string
  aj_RequiredRunnerTier :: string

record AnalysisAttempt =
  an_SchemaVersion :: string
  an_ID :: string
  an_JobID :: string
  an_TargetID :: string
  an_Generation :: int
  an_AttemptNumber :: int
  an_Reason :: string

definition NewAnalysisJob ::
  "(string \<Rightarrow> string) \<Rightarrow> AnalysisTarget \<Rightarrow> int \<Rightarrow> string \<Rightarrow> string \<Rightarrow> AnalysisJob result" where
  "NewAnalysisJob sha target generation profile tier =
     (if tier \<noteq> RunnerTierHardenedContainer \<and> tier \<noteq> RunnerTierMicroVM
      then Inl (githubErr ''invalid-job'' ''job'')
      else if generation \<le> 0 \<or> generation > AbsoluteMaxControllerGeneration \<or> profile = []
        \<or> hasControl profile
      then Inl (githubErr ''invalid-job'' ''job'')
      else rbind (targetID sha target) (\<lambda>tid.
        Inr \<lparr> aj_SchemaVersion = SchemaGitHubAnalysisJobV1Alpha1,
          aj_ID = prefixedID sha ''job'' DomainAnalysisJobID [tid, sprint_int generation, profile, tier],
          aj_TargetID = tid, aj_Target = target, aj_Generation = generation,
          aj_AnalysisProfileVersion = profile, aj_RequiredRunnerTier = tier \<rparr>))"

definition NewAnalysisAttempt ::
  "(string \<Rightarrow> string) \<Rightarrow> AnalysisJob \<Rightarrow> int \<Rightarrow> string \<Rightarrow> AnalysisAttempt result" where
  "NewAnalysisAttempt sha job number reason =
     (if \<not> validateJobID (aj_ID job) \<or> \<not> validateTargetID (aj_TargetID job) \<or> aj_Generation job \<le> 0
        \<or> number \<le> 0 \<or> number > AbsoluteMaxAttemptsPerTarget
      then Inl (githubErr ''invalid-attempt'' ''attempt'')
      else if reason \<noteq> AttemptReasonInitial \<and> reason \<noteq> AttemptReasonInfrastructureRetry
        \<and> reason \<noteq> AttemptReasonCheckRerequest
      then Inl (githubErr ''invalid-attempt'' ''attempt'')
      else Inr \<lparr> an_SchemaVersion = SchemaGitHubAnalysisAttemptV1Alpha1,
        an_ID = prefixedID sha ''attempt'' DomainAnalysisAttemptID
          [aj_ID job, aj_TargetID job, sprint_int (aj_Generation job), sprint_int number, reason],
        an_JobID = aj_ID job, an_TargetID = aj_TargetID job, an_Generation = aj_Generation job,
        an_AttemptNumber = number, an_Reason = reason \<rparr>)"

definition CheckExternalID ::
  "(string \<Rightarrow> string) \<Rightarrow> string \<Rightarrow> int \<Rightarrow> string \<Rightarrow> string \<Rightarrow> string result" where
  "CheckExternalID sha appIdentity repositoryID attemptID profile =
     (if appIdentity = [] \<or> hasControl appIdentity \<or> repositoryID \<le> 0 \<or> \<not> validateAttemptID attemptID
        \<or> profile = [] \<or> hasControl profile
      then Inl (githubErr ''publish-invariant'' ''publisher'')
      else Inr (''gr-'' @ domainHash sha DomainCheckExternalID
        [appIdentity, sprint_int repositoryID, attemptID, profile]))"

section \<open>State machines\<close>

abbreviation DeliveryStateReceived :: string where "DeliveryStateReceived \<equiv> ''received''"
abbreviation DeliveryStateVerified :: string where "DeliveryStateVerified \<equiv> ''verified''"
abbreviation DeliveryStatePersisted :: string where "DeliveryStatePersisted \<equiv> ''persisted''"
abbreviation DeliveryStateEnqueued :: string where "DeliveryStateEnqueued \<equiv> ''enqueued''"
abbreviation DeliveryStateIgnored :: string where "DeliveryStateIgnored \<equiv> ''ignored''"
abbreviation DeliveryStateRejected :: string where "DeliveryStateRejected \<equiv> ''rejected''"

definition deliveryTerminal :: "string \<Rightarrow> bool" where
  "deliveryTerminal s \<longleftrightarrow>
     s = DeliveryStateEnqueued \<or> s = DeliveryStateIgnored \<or> s = DeliveryStateRejected"

text \<open>The \<open>allowed\<close> table of a transition function; a state that is no key has no successors.\<close>

definition successors :: "(string \<times> string list) list \<Rightarrow> string \<Rightarrow> string list" where
  "successors tbl s = (case map_of tbl s of Some ts \<Rightarrow> ts | None \<Rightarrow> [])"

definition deliveryAllowed :: "(string \<times> string list) list" where
  "deliveryAllowed = [
     (DeliveryStateReceived, [DeliveryStateVerified, DeliveryStateRejected]),
     (DeliveryStateVerified, [DeliveryStatePersisted, DeliveryStateIgnored, DeliveryStateRejected]),
     (DeliveryStatePersisted, [DeliveryStateEnqueued, DeliveryStateIgnored, DeliveryStateRejected])]"

definition TransitionDelivery :: "string \<Rightarrow> string \<Rightarrow> string result" where
  "TransitionDelivery s t =
     (if s = t then Inr s
      else if deliveryTerminal s then Inl (githubErr ''invalid-state-transition'' ''delivery'')
      else if t \<in> set (successors deliveryAllowed s) then Inr t
      else Inl (githubErr ''invalid-state-transition'' ''delivery''))"

abbreviation JobStateQueued :: string where "JobStateQueued \<equiv> ''queued''"
abbreviation JobStateImportingSource :: string where "JobStateImportingSource \<equiv> ''importing-source''"
abbreviation JobStatePlanning :: string where "JobStatePlanning \<equiv> ''planning''"
abbreviation JobStateAwaitingRunner :: string where "JobStateAwaitingRunner \<equiv> ''awaiting-runner''"
abbreviation JobStateRunning :: string where "JobStateRunning \<equiv> ''running''"
abbreviation JobStateValidatingReport :: string where
  "JobStateValidatingReport \<equiv> ''validating-report''"
abbreviation JobStateReadyToPublish :: string where "JobStateReadyToPublish \<equiv> ''ready-to-publish''"
abbreviation JobStateCompleted :: string where "JobStateCompleted \<equiv> ''completed''"
abbreviation JobStateFailed :: string where "JobStateFailed \<equiv> ''failed''"
abbreviation JobStateSuperseded :: string where "JobStateSuperseded \<equiv> ''superseded''"
abbreviation JobStateCancelled :: string where "JobStateCancelled \<equiv> ''cancelled''"

definition jobTerminal :: "string \<Rightarrow> bool" where
  "jobTerminal s \<longleftrightarrow> s = JobStateCompleted \<or> s = JobStateFailed \<or> s = JobStateSuperseded
     \<or> s = JobStateCancelled"

definition jobAllowed :: "(string \<times> string list) list" where
  "jobAllowed = [
     (JobStateQueued, [JobStateImportingSource, JobStateSuperseded, JobStateCancelled, JobStateFailed]),
     (JobStateImportingSource, [JobStatePlanning, JobStateSuperseded, JobStateCancelled, JobStateFailed]),
     (JobStatePlanning, [JobStateAwaitingRunner, JobStateSuperseded, JobStateCancelled, JobStateFailed]),
     (JobStateAwaitingRunner, [JobStateRunning, JobStateSuperseded, JobStateCancelled, JobStateFailed]),
     (JobStateRunning, [JobStateValidatingReport, JobStateSuperseded, JobStateCancelled, JobStateFailed]),
     (JobStateValidatingReport, [JobStateReadyToPublish, JobStateSuperseded, JobStateCancelled, JobStateFailed]),
     (JobStateReadyToPublish, [JobStateCompleted, JobStateSuperseded, JobStateCancelled, JobStateFailed])]"

definition TransitionJob :: "string \<Rightarrow> string \<Rightarrow> string result" where
  "TransitionJob s t =
     (if s = t then Inr s
      else if jobTerminal s then Inl (githubErr ''invalid-state-transition'' ''job'')
      else if t \<in> set (successors jobAllowed s) then Inr t
      else Inl (githubErr ''invalid-state-transition'' ''job''))"

abbreviation AttemptStateQueued :: string where "AttemptStateQueued \<equiv> ''queued''"
abbreviation AttemptStateLeased :: string where "AttemptStateLeased \<equiv> ''leased''"
abbreviation AttemptStateRunning :: string where "AttemptStateRunning \<equiv> ''running''"
abbreviation AttemptStateCompleted :: string where "AttemptStateCompleted \<equiv> ''completed''"
abbreviation AttemptStateFailed :: string where "AttemptStateFailed \<equiv> ''failed''"
abbreviation AttemptStateCancelled :: string where "AttemptStateCancelled \<equiv> ''cancelled''"
abbreviation AttemptStateLeaseExpired :: string where "AttemptStateLeaseExpired \<equiv> ''lease-expired''"

definition attemptTerminal :: "string \<Rightarrow> bool" where
  "attemptTerminal s \<longleftrightarrow>
     s = AttemptStateCompleted \<or> s = AttemptStateFailed \<or> s = AttemptStateCancelled"

definition attemptAllowed :: "(string \<times> string list) list" where
  "attemptAllowed = [
     (AttemptStateQueued, [AttemptStateLeased, AttemptStateCancelled]),
     (AttemptStateLeased, [AttemptStateRunning, AttemptStateLeaseExpired, AttemptStateCancelled, AttemptStateFailed]),
     (AttemptStateRunning, [AttemptStateCompleted, AttemptStateFailed, AttemptStateCancelled, AttemptStateLeaseExpired]),
     (AttemptStateLeaseExpired, [AttemptStateQueued, AttemptStateCancelled, AttemptStateFailed])]"

definition TransitionAttempt :: "string \<Rightarrow> string \<Rightarrow> string result" where
  "TransitionAttempt s t =
     (if s = t then Inr s
      else if attemptTerminal s then Inl (githubErr ''invalid-state-transition'' ''attempt'')
      else if t \<in> set (successors attemptAllowed s) then Inr t
      else Inl (githubErr ''invalid-state-transition'' ''attempt''))"

abbreviation CheckPublicationAbsent :: string where "CheckPublicationAbsent \<equiv> ''absent''"
abbreviation CheckPublicationCreatePending :: string where
  "CheckPublicationCreatePending \<equiv> ''create-pending''"
abbreviation CheckPublicationQueued :: string where "CheckPublicationQueued \<equiv> ''queued''"
abbreviation CheckPublicationInProgress :: string where "CheckPublicationInProgress \<equiv> ''in-progress''"
abbreviation CheckPublicationCompletionPending :: string where
  "CheckPublicationCompletionPending \<equiv> ''completion-pending''"
abbreviation CheckPublicationCompleted :: string where "CheckPublicationCompleted \<equiv> ''completed''"
abbreviation CheckPublicationCancelled :: string where "CheckPublicationCancelled \<equiv> ''cancelled''"
abbreviation CheckPublicationAmbiguous :: string where "CheckPublicationAmbiguous \<equiv> ''ambiguous''"
abbreviation CheckPublicationFailed :: string where "CheckPublicationFailed \<equiv> ''failed''"

definition publicationTerminal :: "string \<Rightarrow> bool" where
  "publicationTerminal s \<longleftrightarrow>
     s = CheckPublicationCompleted \<or> s = CheckPublicationCancelled \<or> s = CheckPublicationFailed"

definition publicationAllowed :: "(string \<times> string list) list" where
  "publicationAllowed = [
     (CheckPublicationAbsent, [CheckPublicationCreatePending, CheckPublicationCancelled, CheckPublicationFailed]),
     (CheckPublicationCreatePending, [CheckPublicationQueued, CheckPublicationAmbiguous, CheckPublicationFailed, CheckPublicationCancelled]),
     (CheckPublicationQueued, [CheckPublicationInProgress, CheckPublicationCompletionPending, CheckPublicationCancelled, CheckPublicationFailed]),
     (CheckPublicationInProgress, [CheckPublicationCompletionPending, CheckPublicationCancelled, CheckPublicationFailed]),
     (CheckPublicationCompletionPending, [CheckPublicationCompleted, CheckPublicationAmbiguous, CheckPublicationFailed, CheckPublicationCancelled]),
     (CheckPublicationAmbiguous, [CheckPublicationQueued, CheckPublicationFailed])]"

definition TransitionPublication :: "string \<Rightarrow> string \<Rightarrow> string result" where
  "TransitionPublication s t =
     (if s = t then Inr s
      else if publicationTerminal s then Inl (githubErr ''invalid-state-transition'' ''publication'')
      else if t \<in> set (successors publicationAllowed s) then Inr t
      else Inl (githubErr ''invalid-state-transition'' ''publication''))"

section \<open>Webhook actions\<close>

definition ClassifyWebhookAction :: "string \<Rightarrow> string \<Rightarrow> string result" where
  "ClassifyWebhookAction event action =
     (if event = ''pull_request'' then
        (if action \<in> {''opened'', ''reopened'', ''synchronize'', ''ready_for_review''} then Inr ''schedule''
         else if action \<in> {''converted_to_draft'', ''closed''} then Inr ''cancel''
         else Inr ''noop'')
      else if event = ''check_run'' then
        (if action = ''rerequested'' then Inr ''rerequest'' else Inr ''noop'')
      else if event \<in> {''check_suite'', ''installation'', ''installation_repositories'', ''ping''}
      then Inr ''noop''
      else Inl (githubErr ''unsupported-event'' ''webhook''))"

section \<open>Deliveries\<close>

record DeliveryReceipt =
  dr_SchemaVersion :: string
  dr_ReceiverID :: string
  dr_DeliveryID :: string
  dr_Event :: string
  dr_BodyDigest :: string
  dr_MatchedSecret :: string
  dr_ReceivedAt :: int
  dr_InstallationTargetIdentity :: string
  dr_ProjectionKind :: string
  dr_Disposition :: string

record DeliveryInboxRecord =
  di_ReceiverID :: string
  di_DeliveryID :: string
  di_BodyDigest :: string
  di_State :: string

abbreviation ReplayNew :: string where "ReplayNew \<equiv> ''new''"
abbreviation ReplayDuplicateSameBody :: string where "ReplayDuplicateSameBody \<equiv> ''duplicate-same-body''"
abbreviation ReplayDeliveryConflict :: string where "ReplayDeliveryConflict \<equiv> ''delivery-conflict''"

text \<open>The decision, the record and the error, which a conflict returns all three.\<close>

definition DecideWebhookReplay ::
  "DeliveryInboxRecord option \<Rightarrow> DeliveryReceipt
   \<Rightarrow> string \<times> DeliveryInboxRecord option \<times> go_error option" where
  "DecideWebhookReplay existing incoming =
     (if dr_ReceiverID incoming = [] \<or> dr_DeliveryID incoming = []
        \<or> \<not> github_validateDigest (dr_BodyDigest incoming)
      then ([], None, Some (githubErr ''projection-invalid'' ''replay''))
      else (case existing of
        None \<Rightarrow> (ReplayNew, Some \<lparr> di_ReceiverID = dr_ReceiverID incoming,
            di_DeliveryID = dr_DeliveryID incoming, di_BodyDigest = dr_BodyDigest incoming,
            di_State = DeliveryStatePersisted \<rparr>, None)
      | Some old \<Rightarrow>
          if di_ReceiverID old \<noteq> dr_ReceiverID incoming \<or> di_DeliveryID old \<noteq> dr_DeliveryID incoming
          then ([], None, Some (githubErr ''delivery-conflict'' ''replay''))
          else if di_BodyDigest old = dr_BodyDigest incoming
          then (ReplayDuplicateSameBody, Some old, None)
          else (ReplayDeliveryConflict, Some old, Some (githubErr ''delivery-conflict'' ''replay''))))"

section \<open>Webhook headers\<close>

text \<open>\<open>strings.TrimSpace\<close>: spaces are dropped at both ends, rune by rune.\<close>

function trim_right_space :: "string \<Rightarrow> string" where
  "trim_right_space s =
     (if trim_left_space s = [] then []
      else let n = snd (decode_rune s) in take n s @ trim_right_space (drop n s))"
  by pat_completeness auto

termination
proof (relation "measure length")
  fix s n
  assume *: "trim_left_space s \<noteq> []" "n = snd (decode_rune s)"
  then have "s \<noteq> []" by (auto simp: trim_left_space.simps [of "[]"])
  with * show "(drop n s, s) \<in> measure length"
    using decode_rune_width [of s "fst (decode_rune s)" n] by (simp add: Suc_le_eq)
qed simp

declare trim_right_space.simps [simp del]

definition trim_space :: "string \<Rightarrow> string" where
  "trim_space s = trim_right_space (trim_left_space s)"

record HeaderValue =
  hv_Name :: string
  hv_Value :: string

record WebhookHeaders =
  wh_DeliveryID :: string
  wh_Event :: string
  wh_Signature256 :: string
  wh_ContentType :: string
  wh_Charset :: string
  wh_HookID :: string
  wh_InstallationTargetID :: string
  wh_InstallationTargetType :: string

definition requiredHeaders :: "string list" where
  "requiredHeaders = [''x-github-delivery'', ''x-github-event'', ''x-hub-signature-256'', ''content-type'']"

definition optionalHeaders :: "string list" where
  "optionalHeaders = [''x-github-hook-id'', ''x-github-hook-installation-target-id'',
     ''x-github-hook-installation-target-type'']"

text \<open>The loop over the header values: the required and the optional headers seen so far.\<close>

fun collectHeaders ::
  "GithubLimits \<Rightarrow> HeaderValue list \<Rightarrow> (string \<times> string) list \<Rightarrow> (string \<times> string) list
   \<Rightarrow> ((string \<times> string) list \<times> (string \<times> string) list) result" where
  "collectHeaders l [] seen opt = Inr (seen, opt)"
| "collectHeaders l (h # hs) seen opt =
     (let name = to_lower (trim_space (hv_Name h)) in
      if name = [] then collectHeaders l hs seen opt
      else if int (length (hv_Value h)) > gl_MaxHeaderValueBytes l \<or> hasControl (hv_Value h)
      then Inl (githubErr ''invalid-event-name'' ''headers'')
      else if name \<in> set requiredHeaders then
        (if map_of seen name \<noteq> None
         then Inl (githubErr (if name = ''x-hub-signature-256'' then ''duplicate-signature-header''
           else ''duplicate-required-header'') ''headers'')
         else collectHeaders l hs (AList.update name (hv_Value h) seen) opt)
      else if name = ''content-encoding'' then
        (if to_lower (trim_space (hv_Value h)) \<noteq> ''identity''
         then Inl (githubErr ''unsupported-content-encoding'' ''headers'')
         else collectHeaders l hs seen opt)
      else if name \<in> set optionalHeaders
      then collectHeaders l hs seen (AList.update name (hv_Value h) opt)
      else collectHeaders l hs seen opt)"

text \<open>Indexing a Go map of strings: the empty string for a missing key.\<close>

definition header_of :: "(string \<times> string) list \<Rightarrow> string \<Rightarrow> string" where
  "header_of m k = (case map_of m k of Some v \<Rightarrow> v | None \<Rightarrow> [])"

definition delivery_char :: "char \<Rightarrow> bool" where
  "delivery_char c \<longleftrightarrow> byte_in 97 122 c \<or> byte_in 65 90 c \<or> byte_in 48 57 c \<or> c = CHR ''-'' \<or> c = CHR ''_''"

definition event_char :: "char \<Rightarrow> bool" where
  "event_char c \<longleftrightarrow> byte_in 97 122 c \<or> byte_in 48 57 c \<or> c = CHR ''_'' \<or> c = CHR ''-''"

definition validateDeliveryID :: "string \<Rightarrow> GithubLimits \<Rightarrow> go_error option" where
  "validateDeliveryID s l =
     (if s = [] \<or> int (length s) > gl_MaxDeliveryIDBytes l \<or> hasControl s \<or> \<not> list_all delivery_char s
      then Some (githubErr ''invalid-delivery-id'' ''headers'') else None)"

definition validateEventName :: "string \<Rightarrow> GithubLimits \<Rightarrow> go_error option" where
  "validateEventName s l =
     (if s = [] \<or> int (length s) > gl_MaxEventNameBytes l \<or> hasControl s \<or> \<not> list_all event_char s
      then Some (githubErr ''invalid-event-name'' ''headers'') else None)"

definition missingHeader :: "(string \<times> string) list \<Rightarrow> string \<Rightarrow> go_error option" where
  "missingHeader seen name =
     (if map_of seen name = None
      then Some (githubErr (if name = ''x-hub-signature-256'' then ''missing-signature''
        else ''missing-required-header'') ''headers'')
      else None)"

type_synonym media_parser = "string \<Rightarrow> (string \<times> (string \<times> string) list) option"

definition contentCharset :: "media_parser \<Rightarrow> string \<Rightarrow> string result" where
  "contentCharset parseMediaType v = (case parseMediaType v of
     None \<Rightarrow> Inl (githubErr ''invalid-content-type'' ''headers'')
   | Some (mediaType, params) \<Rightarrow>
       if to_lower mediaType \<noteq> ''application/json'' then Inl (githubErr ''invalid-content-type'' ''headers'')
       else if params = [] then Inr []
       else if length params \<noteq> 1 \<or> to_lower (header_of params ''charset'') \<noteq> ''utf-8''
       then Inl (githubErr ''invalid-content-type'' ''headers'')
       else Inr ''utf-8'')"

definition ParseWebhookHeaders ::
  "media_parser \<Rightarrow> HeaderValue list \<Rightarrow> GithubLimits \<Rightarrow> WebhookHeaders result" where
  "ParseWebhookHeaders parseMediaType values limits =
     rcheck (github_validateLimits limits)
     (rbind (collectHeaders limits values [] []) (\<lambda>(seen, opt).
      rcheck (first_error (missingHeader seen) requiredHeaders)
      (rcheck (validateDeliveryID (header_of seen ''x-github-delivery'') limits)
      (rcheck (validateEventName (header_of seen ''x-github-event'') limits)
      (rbind (contentCharset parseMediaType (header_of seen ''content-type'')) (\<lambda>charset.
        Inr \<lparr> wh_DeliveryID = header_of seen ''x-github-delivery'',
          wh_Event = header_of seen ''x-github-event'',
          wh_Signature256 = header_of seen ''x-hub-signature-256'',
          wh_ContentType = ''application/json'', wh_Charset = charset,
          wh_HookID = header_of opt ''x-github-hook-id'',
          wh_InstallationTargetID = header_of opt ''x-github-hook-installation-target-id'',
          wh_InstallationTargetType = header_of opt ''x-github-hook-installation-target-type'' \<rparr>))))))"

section \<open>Signatures\<close>

text \<open>
  \<open>hex.DecodeString\<close> on lower-case digits, and \<open>hex.EncodeToString\<close> of a byte string. HMAC
  (RFC 2104) over the hash: \<open>sha\<close> yields the hexadecimal text, \<open>unhex\<close> its 32 bytes.
\<close>

definition hex_val :: "char \<Rightarrow> nat" where
  "hex_val c = (if c \<le> CHR ''9'' then of_char c - 48 else of_char c - 87)"

fun unhex :: "string \<Rightarrow> string" where
  "unhex (a # b # s) = char_of (16 * hex_val a + hex_val b) # unhex s"
| "unhex _ = []"

definition hex_encode :: "string \<Rightarrow> string" where
  "hex_encode s = concat (map (\<lambda>c. hex2 (of_char c)) s)"

definition xor_byte :: "nat \<Rightarrow> char \<Rightarrow> char" where
  "xor_byte k c = char_of (of_char c XOR k)"

definition hmac_key :: "(string \<Rightarrow> string) \<Rightarrow> string \<Rightarrow> string" where
  "hmac_key sha secret =
     (let k = (if length secret > 64 then unhex (sha secret) else secret)
      in k @ replicate (64 - length k) NUL)"

definition hmacSHA256 :: "(string \<Rightarrow> string) \<Rightarrow> string \<Rightarrow> string \<Rightarrow> string" where
  "hmacSHA256 sha body secret =
     (let k = hmac_key sha secret
      in unhex (sha (map (xor_byte 0x5c) k @ unhex (sha (map (xor_byte 0x36) k @ body)))))"

record WebhookSecrets =
  ws_Current :: string
  ws_Previous :: string

definition ParseGitHubSignatureHeader :: "string \<Rightarrow> GithubLimits \<Rightarrow> string result" where
  "ParseGitHubSignatureHeader header limits =
     rcheck (github_validateLimits limits)
     (if header = [] then Inl (githubErr ''missing-signature'' ''signature'')
      else if int (length header) > gl_MaxSignatureHeaderBytes limits
      then Inl (githubErr ''invalid-signature-format'' ''signature'')
      else if length header \<noteq> 71 \<or> take 7 header \<noteq> ''sha256=''
      then Inl (githubErr ''invalid-signature-format'' ''signature'')
      else if \<not> list_all lower_hex_char (drop 7 header)
      then Inl (githubErr ''invalid-signature-format'' ''signature'')
      else Inr (unhex (drop 7 header)))"

definition validateSecret :: "string \<Rightarrow> GithubLimits \<Rightarrow> go_error option" where
  "validateSecret secret l =
     (if int (length secret) < gl_MinWebhookSecretBytes l \<or> int (length secret) > gl_MaxWebhookSecretBytes l
      then Some (githubErr ''invalid-secret-set'' ''signature'') else None)"

abbreviation SecretGenerationCurrent :: string where "SecretGenerationCurrent \<equiv> ''current''"
abbreviation SecretGenerationPrevious :: string where "SecretGenerationPrevious \<equiv> ''previous''"

definition VerifyWebhookSignature ::
  "(string \<Rightarrow> string) \<Rightarrow> string \<Rightarrow> string \<Rightarrow> WebhookSecrets \<Rightarrow> GithubLimits \<Rightarrow> string result" where
  "VerifyWebhookSignature sha body header secrets limits =
     rcheck (github_validateLimits limits)
     (if int (length body) > gl_MaxWebhookBodyBytes limits
      then Inl (githubErr ''body-too-large'' ''signature'')
      else rcheck (validateSecret (ws_Current secrets) limits)
      (rcheck (if ws_Previous secrets \<noteq> [] then validateSecret (ws_Previous secrets) limits else None)
      (rbind (ParseGitHubSignatureHeader header limits) (\<lambda>want.
        let curMatch = (hmacSHA256 sha body (ws_Current secrets) = want);
            prevMatch = (ws_Previous secrets \<noteq> [] \<and> hmacSHA256 sha body (ws_Previous secrets) = want)
        in if curMatch then Inr SecretGenerationCurrent
           else if prevMatch then Inr SecretGenerationPrevious
           else Inl (githubErr ''signature-mismatch'' ''signature'')))))"

section \<open>Projections of payloads\<close>

record PullRequestPayload =
  pp_Action :: string
  pp_InstallationID :: int
  pp_RepositoryID :: int
  pp_RepositoryName :: string
  pp_OwnerID :: int
  pp_OwnerLogin :: string
  pp_Number :: int
  pp_Draft :: bool
  pp_Merged :: bool
  pp_State :: string
  pp_BaseSHA :: string
  pp_BaseRepoID :: int
  pp_BaseRepoName :: string
  pp_BaseRepoOwner :: string
  pp_HeadSHA :: string
  pp_HeadRepoID :: int
  pp_HeadRepoName :: string
  pp_HeadRepoOwner :: string

record CheckRunPayload =
  cp_Action :: string
  cp_InstallationID :: int
  cp_RepositoryID :: int
  cp_CheckRunID :: int
  cp_HeadSHA :: string
  cp_ExternalID :: string
  cp_AppID :: int

record InstallationPayload =
  ip_Action :: string
  ip_InstallationID :: int
  ip_Repositories :: "int list"

record PullRequestProjection =
  prp_Action :: string
  prp_InstallationID :: int
  prp_RepositoryID :: int
  prp_RepositoryOwnerID :: int
  prp_BaseRepositoryOwner :: string
  prp_BaseRepositoryName :: string
  prp_PullRequestNumber :: int
  prp_BaseSHA :: string
  prp_HeadSHA :: string
  prp_HeadRepositoryID :: int
  prp_Draft :: bool
  prp_Closed :: bool
  prp_Merged :: bool

record CheckRunProjection =
  crp_Action :: string
  crp_InstallationID :: int
  crp_RepositoryID :: int
  crp_CheckRunID :: int
  crp_HeadSHA :: string
  crp_AppID :: int
  crp_ExternalID :: string

record InstallationProjection =
  inp_Action :: string
  inp_InstallationID :: int
  inp_RepositoryIDs :: "int list"

record WebhookProjection =
  wp_Kind :: string
  wp_PullRequest :: "PullRequestProjection option"
  wp_CheckRun :: "CheckRunProjection option"
  wp_Installation :: "InstallationProjection option"

abbreviation ProjectionPullRequest :: string where "ProjectionPullRequest \<equiv> ''pull_request''"
abbreviation ProjectionCheckRun :: string where "ProjectionCheckRun \<equiv> ''check_run''"
abbreviation ProjectionCheckSuite :: string where "ProjectionCheckSuite \<equiv> ''check_suite''"
abbreviation ProjectionInstallation :: string where "ProjectionInstallation \<equiv> ''installation''"
abbreviation ProjectionInstallationRepositories :: string where
  "ProjectionInstallationRepositories \<equiv> ''installation_repositories''"
abbreviation ProjectionPing :: string where "ProjectionPing \<equiv> ''ping''"
abbreviation ProjectionIgnored :: string where "ProjectionIgnored \<equiv> ''ignored''"

text \<open>\<open>validRouteHint\<close>, the same function in \<open>githubapp\<close> and \<open>githubcontrollerstore\<close>.\<close>

definition validRouteHint :: "string \<Rightarrow> bool" where
  "validRouteHint s \<longleftrightarrow>
     \<not> (s = [] \<or> length s > 256 \<or> s = ''.'' \<or> s = ''..'')
     \<and> list_all (\<lambda>c. \<not> (control_char c \<or> c = CHR ''/'' \<or> c = CHR ''?'' \<or> c = CHR ''#'' \<or> c = CHR 0x5C)) s"

definition projectPullRequest ::
  "PullRequestPayload \<Rightarrow> GithubLimits \<Rightarrow> PullRequestProjection result" where
  "projectPullRequest p limits =
     (if pp_InstallationID p \<le> 0 then Inl (githubErr ''invalid-installation-id'' ''projection'')
      else if pp_RepositoryID p \<le> 0 then Inl (githubErr ''invalid-repository-id'' ''projection'')
      else if pp_Number p \<le> 0 then Inl (githubErr ''invalid-pull-request-number'' ''projection'')
      else if \<not> validGitObjectID (pp_BaseSHA p) \<or> \<not> validGitObjectID (pp_HeadSHA p)
      then Inl (githubErr ''invalid-object-id'' ''projection'')
      else rbind (ClassifyWebhookAction ''pull_request'' (pp_Action p)) (\<lambda>_.
        if int (length (pp_Action p)) > gl_MaxProjectionStringBytes limits
        then Inl (githubErr ''projection-invalid'' ''projection'')
        else let owner = (if pp_BaseRepoOwner p = [] then pp_OwnerLogin p else pp_BaseRepoOwner p);
                 name = (if pp_BaseRepoName p = [] then pp_RepositoryName p else pp_BaseRepoName p)
             in if \<not> validRouteHint owner \<or> \<not> validRouteHint name
                then Inl (githubErr ''projection-invalid'' ''projection'')
                else Inr \<lparr> prp_Action = pp_Action p, prp_InstallationID = pp_InstallationID p,
                  prp_RepositoryID = pp_RepositoryID p, prp_RepositoryOwnerID = pp_OwnerID p,
                  prp_BaseRepositoryOwner = owner, prp_BaseRepositoryName = name,
                  prp_PullRequestNumber = pp_Number p, prp_BaseSHA = pp_BaseSHA p,
                  prp_HeadSHA = pp_HeadSHA p, prp_HeadRepositoryID = pp_HeadRepoID p,
                  prp_Draft = pp_Draft p, prp_Closed = (pp_State p = ''closed''),
                  prp_Merged = pp_Merged p \<rparr>))"

definition projectCheckRun :: "CheckRunPayload \<Rightarrow> GithubLimits \<Rightarrow> CheckRunProjection result" where
  "projectCheckRun p limits =
     (if cp_InstallationID p \<le> 0 then Inl (githubErr ''invalid-installation-id'' ''projection'')
      else if cp_RepositoryID p \<le> 0 then Inl (githubErr ''invalid-repository-id'' ''projection'')
      else if cp_CheckRunID p \<le> 0 \<or> cp_AppID p \<le> 0
      then Inl (githubErr ''projection-invalid'' ''projection'')
      else if \<not> validGitObjectID (cp_HeadSHA p) then Inl (githubErr ''invalid-object-id'' ''projection'')
      else if int (length (cp_ExternalID p)) > gl_MaxExternalIDBytes limits \<or> hasControl (cp_ExternalID p)
      then Inl (githubErr ''projection-invalid'' ''projection'')
      else Inr \<lparr> crp_Action = cp_Action p, crp_InstallationID = cp_InstallationID p,
        crp_RepositoryID = cp_RepositoryID p, crp_CheckRunID = cp_CheckRunID p,
        crp_HeadSHA = cp_HeadSHA p, crp_AppID = cp_AppID p, crp_ExternalID = cp_ExternalID p \<rparr>)"

definition projectInstallation :: "InstallationPayload \<Rightarrow> InstallationProjection result" where
  "projectInstallation p =
     (if ip_InstallationID p \<le> 0 then Inl (githubErr ''invalid-installation-id'' ''projection'')
      else if list_ex (\<lambda>r. r \<le> 0) (ip_Repositories p)
      then Inl (githubErr ''invalid-repository-id'' ''projection'')
      else Inr \<lparr> inp_Action = ip_Action p, inp_InstallationID = ip_InstallationID p,
        inp_RepositoryIDs = ip_Repositories p \<rparr>)"

end
