(* ===== verification/GithubControl.thy ===== *)
theory GithubControl
  imports GithubApp
begin

text \<open>
  The decisions of the GitHub App (\<open>src/internal/githubapp\<close>, \<open>controller.go\<close>, \<open>worker.go\<close> and
  \<open>check.go\<close>): the reconciliation of a pull request with its generation, rerequests of a check,
  assignments to a worker, and the projection and publication of the advisory check.
\<close>

section \<open>Pull request generations\<close>

record PRGenerationState =
  pg_InstallationID :: int
  pg_RepositoryID :: int
  pg_PullRequestNumber :: int
  pg_Generation :: int
  pg_CurrentTargetID :: string
  pg_Cancelled :: bool

record CurrentPullRequestState =
  cs_InstallationID :: int
  cs_RepositoryID :: int
  cs_PullRequestNumber :: int
  cs_BaseRepositoryID :: int
  cs_HeadRepositoryID :: int
  cs_BaseSHA :: string
  cs_HeadSHA :: string
  cs_Draft :: bool
  cs_Closed :: bool
  cs_HeadInaccessible :: bool

record PRDecision =
  pd_Action :: string
  pd_Generation :: int
  pd_TargetID :: string
  pd_SupersededTargetID :: string

abbreviation PRDecisionSchedule :: string where "PRDecisionSchedule \<equiv> ''schedule''"
abbreviation PRDecisionCancel :: string where "PRDecisionCancel \<equiv> ''cancel''"
abbreviation PRDecisionNoop :: string where "PRDecisionNoop \<equiv> ''noop''"
abbreviation PRDecisionUnavailable :: string where "PRDecisionUnavailable \<equiv> ''unavailable''"

definition reconcileTarget :: "CurrentPullRequestState \<Rightarrow> string \<Rightarrow> AnalysisTarget" where
  "reconcileTarget current profile = \<lparr>
     at_SchemaVersion = SchemaGitHubAnalysisTargetV1Alpha1,
     at_InstallationID = cs_InstallationID current,
     at_BaseRepositoryID = cs_BaseRepositoryID current,
     at_HeadRepositoryID = cs_HeadRepositoryID current,
     at_PullRequestNumber = cs_PullRequestNumber current,
     at_BaseCommitID = cs_BaseSHA current,
     at_HeadCommitID = cs_HeadSHA current,
     at_AnalysisProfileVersion = profile \<rparr>"

text \<open>The four identity checks at the start of \<open>ReconcilePullRequestGeneration\<close>.\<close>

definition reconcileIdentity ::
  "PRGenerationState \<Rightarrow> PullRequestProjection \<Rightarrow> CurrentPullRequestState \<Rightarrow> go_error option" where
  "reconcileIdentity existing projection current =
     (if prp_InstallationID projection \<le> 0 \<or> cs_InstallationID current \<noteq> prp_InstallationID projection
      then Some (githubErr ''invalid-installation-id'' ''controller'')
      else if prp_RepositoryID projection \<le> 0 \<or> cs_RepositoryID current \<noteq> prp_RepositoryID projection
      then Some (githubErr ''invalid-repository-id'' ''controller'')
      else if prp_PullRequestNumber projection \<le> 0
        \<or> cs_PullRequestNumber current \<noteq> prp_PullRequestNumber projection
      then Some (githubErr ''invalid-pull-request-number'' ''controller'')
      else if pg_Generation existing > 0
        \<and> (pg_InstallationID existing \<noteq> prp_InstallationID projection
           \<or> pg_RepositoryID existing \<noteq> prp_RepositoryID projection
           \<or> pg_PullRequestNumber existing \<noteq> prp_PullRequestNumber projection)
      then Some (githubErr ''invalid-target'' ''controller'')
      else None)"

definition ReconcilePullRequestGeneration ::
  "(string \<Rightarrow> string) \<Rightarrow> PRGenerationState \<Rightarrow> PullRequestProjection \<Rightarrow> CurrentPullRequestState \<Rightarrow> string
   \<Rightarrow> (PRDecision \<times> PRGenerationState) result" where
  "ReconcilePullRequestGeneration sha existing projection current profile =
     rcheck (reconcileIdentity existing projection current)
     (let state = existing\<lparr> pg_InstallationID := prp_InstallationID projection,
            pg_RepositoryID := prp_RepositoryID projection,
            pg_PullRequestNumber := prp_PullRequestNumber projection \<rparr>
      in if cs_Closed current \<or> cs_Draft current \<or> prp_Action projection = ''closed''
           \<or> prp_Action projection = ''converted_to_draft''
         then Inr (\<lparr> pd_Action = PRDecisionCancel, pd_Generation = pg_Generation state,
             pd_TargetID = pg_CurrentTargetID state, pd_SupersededTargetID = [] \<rparr>,
             state\<lparr> pg_Cancelled := True \<rparr>)
         else if cs_HeadInaccessible current
         then Inr (\<lparr> pd_Action = PRDecisionUnavailable, pd_Generation = pg_Generation state,
             pd_TargetID = [], pd_SupersededTargetID = [] \<rparr>, state)
         else rbind (targetID sha (reconcileTarget current profile)) (\<lambda>tid.
           if pg_CurrentTargetID state = tid \<and> \<not> pg_Cancelled state
           then Inr (\<lparr> pd_Action = PRDecisionNoop, pd_Generation = pg_Generation state,
               pd_TargetID = tid, pd_SupersededTargetID = [] \<rparr>, state)
           else let gen = signed64 (pg_Generation state + 1)
                in Inr (\<lparr> pd_Action = PRDecisionSchedule, pd_Generation = gen, pd_TargetID = tid,
                      pd_SupersededTargetID = pg_CurrentTargetID state \<rparr>,
                    state\<lparr> pg_Generation := gen, pg_CurrentTargetID := tid, pg_Cancelled := False \<rparr>)))"

section \<open>Rerequests\<close>

record CheckRunMapping =
  cm_CheckRunID :: int
  cm_GitHubAppID :: int
  cm_InstallationID :: int
  cm_RepositoryID :: int
  cm_ExternalID :: string
  cm_TargetID :: string
  cm_Generation :: int

record RerequestDecision =
  rd_Accepted :: bool
  rd_Historical :: bool
  rd_TargetID :: string
  rd_Generation :: int
  rd_AttemptReason :: string

definition DecideCheckRunRerequest ::
  "CheckRunProjection \<Rightarrow> CheckRunMapping \<Rightarrow> int \<Rightarrow> int \<Rightarrow> RerequestDecision result" where
  "DecideCheckRunRerequest projection mapping configuredAppID currentGeneration =
     (if crp_Action projection \<noteq> ''rerequested''
      then Inl (githubErr ''unsupported-action'' ''rerequest'')
      else if cm_CheckRunID mapping \<le> 0 \<or> cm_CheckRunID mapping \<noteq> crp_CheckRunID projection
        \<or> cm_GitHubAppID mapping \<noteq> configuredAppID \<or> crp_AppID projection \<noteq> configuredAppID
        \<or> cm_InstallationID mapping \<noteq> crp_InstallationID projection
        \<or> cm_RepositoryID mapping \<noteq> crp_RepositoryID projection
        \<or> cm_ExternalID mapping = [] \<or> cm_ExternalID mapping \<noteq> crp_ExternalID projection
        \<or> \<not> validateTargetID (cm_TargetID mapping)
      then Inl (githubErr ''foreign-check-run'' ''rerequest'')
      else Inr \<lparr> rd_Accepted = True, rd_Historical = (cm_Generation mapping < currentGeneration),
        rd_TargetID = cm_TargetID mapping, rd_Generation = cm_Generation mapping,
        rd_AttemptReason = AttemptReasonCheckRerequest \<rparr>)"

section \<open>Workers\<close>

record WorkerAssignment =
  wa_SchemaVersion :: string
  wa_AttemptID :: string
  wa_TargetID :: string
  wa_SourceStoreID :: string
  wa_BaseCommitID :: string
  wa_HeadCommitID :: string
  wa_PlanDigest :: string
  wa_RequiredRunnerTier :: string
  wa_EvidenceOutputCapabilityID :: string
  wa_ControllerGeneration :: int
  wa_Limitations :: "string list option"

record WorkerResult =
  wr_SchemaVersion :: string
  wr_AttemptID :: string
  wr_JobID :: string
  wr_TargetID :: string
  wr_Generation :: int
  wr_CompletionState :: string
  wr_ReportDigest :: string
  wr_ManifestDigest :: string
  wr_PolicyApplicationDigest :: string
  wr_EffectiveDisposition :: string
  wr_RunnerTier :: string
  wr_Limitations :: "string list"

definition credentialMarkers :: "string list" where
  "credentialMarkers = [''token'', ''secret'', ''private'', ''ghs_'', ''github.com'', ''https://'', ''http://'']"

definition invalidCredentialLike :: "string \<Rightarrow> bool" where
  "invalidCredentialLike s \<longleftrightarrow>
     s = [] \<or> hasControl s \<or> list_ex (\<lambda>marker. contains_str (to_lower s) marker) credentialMarkers"

definition ValidateWorkerAssignment :: "WorkerAssignment \<Rightarrow> go_error option" where
  "ValidateWorkerAssignment a =
     (if wa_SchemaVersion a \<noteq> SchemaGitHubWorkerAssignmentV1Alpha1
        \<or> \<not> validateAttemptID (wa_AttemptID a) \<or> \<not> validateTargetID (wa_TargetID a)
        \<or> wa_ControllerGeneration a \<le> 0
      then Some (githubErr ''invalid-worker-assignment'' ''worker'')
      else if wa_RequiredRunnerTier a \<noteq> RunnerTierHardenedContainer
        \<and> wa_RequiredRunnerTier a \<noteq> RunnerTierMicroVM
      then Some (githubErr ''invalid-worker-assignment'' ''worker'')
      else if \<not> validGitObjectID (wa_BaseCommitID a) \<or> \<not> validGitObjectID (wa_HeadCommitID a)
        \<or> \<not> github_validateDigest (wa_PlanDigest a)
      then Some (githubErr ''invalid-worker-assignment'' ''worker'')
      else if invalidCredentialLike (wa_SourceStoreID a)
        \<or> invalidCredentialLike (wa_EvidenceOutputCapabilityID a)
      then Some (githubErr ''credential-boundary-violation'' ''worker'')
      else if wa_Limitations a = None
      then Some (githubErr ''invalid-worker-assignment'' ''worker'')
      else None)"

section \<open>The advisory check\<close>

abbreviation CheckStatusQueued :: string where "CheckStatusQueued \<equiv> ''queued''"
abbreviation CheckStatusInProgress :: string where "CheckStatusInProgress \<equiv> ''in_progress''"
abbreviation CheckStatusCompleted :: string where "CheckStatusCompleted \<equiv> ''completed''"
abbreviation CheckConclusionNeutral :: string where "CheckConclusionNeutral \<equiv> ''neutral''"
abbreviation CheckConclusionCancelled :: string where "CheckConclusionCancelled \<equiv> ''cancelled''"

record FindingCounts =
  fc_Total :: int
  fc_Passed :: int
  fc_RequiresReview :: int
  fc_Failed :: int

record CheckOutput =
  co_Title :: string
  co_Summary :: string
  co_Text :: string

record CheckProjection =
  kp_SchemaVersion :: string
  kp_Name :: string
  kp_Status :: string
  kp_Conclusion :: string
  kp_HeadSHA :: string
  kp_ExternalID :: string
  kp_Output :: CheckOutput
  kp_DetailsURL :: string
  kp_Annotations :: "string list"
  kp_RequestedActions :: "string list"

record CheckProjectionInput =
  ci_RepositoryID :: int
  ci_HeadSHA :: string
  ci_AttemptID :: string
  ci_TargetID :: string
  ci_Generation :: int
  ci_PolicyDisposition :: string
  ci_EvidenceComplete :: bool
  ci_RunnerTier :: string
  ci_FindingCounts :: FindingCounts
  ci_Status :: string
  ci_SupersededOrCancelled :: bool
  ci_Limitations :: "string list"

abbreviation NL :: char where "NL \<equiv> CHR 0x0A"

text \<open>The limitations are sorted, but only their number is rendered.\<close>

definition safeCheckSummary :: "CheckProjectionInput \<Rightarrow> string" where
  "safeCheckSummary i =
     ''policy_disposition='' @ ci_PolicyDisposition i @ [NL]
     @ ''evidence_complete='' @ (if ci_EvidenceComplete i then ''true'' else ''false'') @ [NL]
     @ ''runner_tier='' @ ci_RunnerTier i @ [NL]
     @ ''finding_total='' @ sprint_int (fc_Total (ci_FindingCounts i)) @ [NL]
     @ ''finding_failed='' @ sprint_int (fc_Failed (ci_FindingCounts i)) @ [NL]
     @ ''limitations='' @ itoa (length (slice_stable (<) (ci_Limitations i))) @ [NL]
     @ ''neutral conclusion is advisory and not a safety proof''"

definition advisoryText :: string where
  "advisoryText = ''Glassroot advisory Check Runs are non-blocking. A neutral conclusion preserves the Glassroot policy disposition separately and is not a safety proof or merge approval. Public PR execution remains gated on a reviewed hardened runner.''"

definition checkConclusion :: "CheckProjectionInput \<Rightarrow> string" where
  "checkConclusion i =
     (if ci_Status i = CheckStatusCompleted
      then (if ci_SupersededOrCancelled i then CheckConclusionCancelled else CheckConclusionNeutral)
      else [])"

definition checkDocument :: "(string \<Rightarrow> string) \<Rightarrow> CheckProjectionInput \<Rightarrow> CheckProjection" where
  "checkDocument sha i = \<lparr>
     kp_SchemaVersion = SchemaGitHubCheckProjectionV1Alpha1,
     kp_Name = ''Glassroot advisory'',
     kp_Status = ci_Status i,
     kp_Conclusion = checkConclusion i,
     kp_HeadSHA = ci_HeadSHA i,
     kp_ExternalID = ''gr-'' @ domainHash sha DomainCheckExternalID
       [sprint_int (ci_RepositoryID i), ci_AttemptID i, CheckProfileAdvisoryV1Alpha1],
     kp_Output = \<lparr> co_Title = ''Glassroot advisory result'', co_Summary = safeCheckSummary i,
       co_Text = advisoryText \<rparr>,
     kp_DetailsURL = [],
     kp_Annotations = [],
     kp_RequestedActions = [] \<rparr>"

definition ProjectAdvisoryCheck ::
  "(string \<Rightarrow> string) \<Rightarrow> CheckProjectionInput \<Rightarrow> CheckProjection result" where
  "ProjectAdvisoryCheck sha i =
     (if ci_RepositoryID i \<le> 0 \<or> \<not> validGitObjectID (ci_HeadSHA i) \<or> \<not> validateAttemptID (ci_AttemptID i)
        \<or> \<not> validateTargetID (ci_TargetID i) \<or> ci_Generation i \<le> 0
      then Inl (githubErr ''invalid-check-projection'' ''check'')
      else if ci_RunnerTier i = [] \<or> hasControl (ci_RunnerTier i)
      then Inl (githubErr ''invalid-check-projection'' ''check'')
      else if ci_Status i \<noteq> CheckStatusQueued \<and> ci_Status i \<noteq> CheckStatusInProgress
        \<and> ci_Status i \<noteq> CheckStatusCompleted
      then Inl (githubErr ''invalid-check-projection'' ''check'')
      else let p = checkDocument sha i
           in if length (co_Summary (kp_Output p)) > AbsoluteMaxCheckSummaryBytes
                \<or> length (co_Text (kp_Output p)) > AbsoluteMaxCheckTextBytes
                \<or> length (co_Title (kp_Output p)) > AbsoluteMaxCheckTitleBytes
              then Inl (githubErr ''invalid-check-projection'' ''check'')
              else Inr p)"

definition checkDigest ::
  "(string \<Rightarrow> string) \<Rightarrow> (CheckProjection \<Rightarrow> string option) \<Rightarrow> CheckProjection \<Rightarrow> string" where
  "checkDigest sha marshal p = (case marshal p of
     None \<Rightarrow> ''sha256:'' @ replicate 64 (CHR ''0'')
   | Some body \<Rightarrow> DigestRawBody sha body)"

record PublishCommand =
  pb_SchemaVersion :: string
  pb_RepositoryID :: int
  pb_HeadSHA :: string
  pb_AttemptID :: string
  pb_TargetID :: string
  pb_Generation :: int
  pb_Projection :: CheckProjection

definition ValidatePublishCommand :: "PublishCommand \<Rightarrow> int \<Rightarrow> go_error option" where
  "ValidatePublishCommand cmd currentGeneration =
     (if pb_SchemaVersion cmd \<noteq> SchemaGitHubPublishCommandV1Alpha1 \<or> pb_RepositoryID cmd \<le> 0
        \<or> \<not> validGitObjectID (pb_HeadSHA cmd) \<or> \<not> validateAttemptID (pb_AttemptID cmd)
        \<or> \<not> validateTargetID (pb_TargetID cmd) \<or> pb_Generation cmd \<le> 0
      then Some (githubErr ''publish-invariant'' ''publisher'')
      else if pb_Generation cmd < currentGeneration
      then Some (githubErr ''stale-generation'' ''publisher'')
      else let p = pb_Projection cmd in
        if kp_SchemaVersion p \<noteq> SchemaGitHubCheckProjectionV1Alpha1 \<or> kp_Name p \<noteq> ''Glassroot advisory''
          \<or> kp_Annotations p \<noteq> [] \<or> kp_RequestedActions p \<noteq> [] \<or> kp_DetailsURL p \<noteq> []
        then Some (githubErr ''invalid-check-projection'' ''publisher'')
        else if kp_Conclusion p \<noteq> [] \<and> kp_Conclusion p \<noteq> CheckConclusionNeutral
          \<and> kp_Conclusion p \<noteq> CheckConclusionCancelled
        then Some (githubErr ''invalid-check-conclusion'' ''publisher'')
        else None)"

end
