(* ===== verification/ControllerStore.thy ===== *)
theory ControllerStore
  imports GithubControl GoTime
begin

text \<open>
  The durable state of the GitHub controller (\<open>src/internal/githubcontrollerstore\<close>): its SQLite tables
  as lists of rows, and every operation on them.

  \<^item> A table with a primary key is an association list; \<open>insert_row\<close> is an \<open>INSERT\<close>, which fails when the
    key exists, \<open>update_rows\<close> an \<open>UPDATE ... WHERE\<close>. A nullable column that is written through \<open>nullable\<close>
    and read back through \<open>NullString\<close> or \<open>NullInt64\<close> is a string or an integer whose empty or zero value is
    \<open>NULL\<close>, as \<open>nullable\<close> maps it.
  \<^item> An operation is one transaction under the mutex of the store. It returns the new tables with its result,
    or an error, and then the tables are unchanged: the transaction is rolled back. The failure
    of a statement for reasons outside the tables (a full disk, a cancelled context) is such an error too.
  \<^item> \<open>formatTime\<close> writes RFC 3339 in UTC with whole seconds. For the years 0 to 9999 these texts
    have one width and compare as their instants, so the text is its number of seconds.
\<close>

section \<open>Times, rows and tables\<close>

record StoreTime =
  st_nanos :: int
  st_utc :: bool

definition validTime :: "StoreTime \<Rightarrow> bool" where
  "validTime t \<longleftrightarrow> st_nanos t \<noteq> - 62135596800 * 10 ^ 9 \<and> st_utc t"

definition formatTime :: "StoreTime \<Rightarrow> int" where
  "formatTime t = st_nanos t div 10 ^ 9"

definition parseTime :: "int \<Rightarrow> int" where
  "parseTime s = s * 10 ^ 9"

definition addTime :: "StoreTime \<Rightarrow> int \<Rightarrow> StoreTime" where
  "addTime t d = \<lparr> st_nanos = st_nanos t + d, st_utc = True \<rparr>"

record PRKey =
  pk_InstallationID :: int
  pk_BaseRepositoryID :: int
  pk_PullRequestNumber :: int

record ReconcileLease =
  rl_Key :: PRKey
  rl_Owner :: string
  rl_Generation :: int
  rl_AcquiredAt :: StoreTime
  rl_ExpiresAt :: StoreTime

record ProcessedDelivery =
  pz_ReceiverID :: string
  pz_OutboxID :: string
  pz_DeliveryID :: string
  pz_ProjectionKind :: string
  pz_ProjectionDigest :: string
  pz_ProcessedAt :: StoreTime

abbreviation PREligibilityEligible :: string where "PREligibilityEligible \<equiv> ''eligible''"
abbreviation PREligibilityDraft :: string where "PREligibilityDraft \<equiv> ''draft''"
abbreviation PREligibilityClosed :: string where "PREligibilityClosed \<equiv> ''closed''"
abbreviation PREligibilitySourceUnavailable :: string where
  "PREligibilitySourceUnavailable \<equiv> ''source-unavailable''"
abbreviation PREligibilityInstallationBlocked :: string where
  "PREligibilityInstallationBlocked \<equiv> ''installation-blocked''"

abbreviation DecisionScheduledNewTarget :: string where
  "DecisionScheduledNewTarget \<equiv> ''scheduled-new-target''"
abbreviation DecisionNoChangeCurrentTarget :: string where
  "DecisionNoChangeCurrentTarget \<equiv> ''no-change-current-target''"
abbreviation DecisionMarkedDraft :: string where "DecisionMarkedDraft \<equiv> ''marked-draft''"
abbreviation DecisionMarkedClosed :: string where "DecisionMarkedClosed \<equiv> ''marked-closed''"
abbreviation DecisionSourceUnavailable :: string where "DecisionSourceUnavailable \<equiv> ''source-unavailable''"
abbreviation DecisionInstallationBlocked :: string where
  "DecisionInstallationBlocked \<equiv> ''installation-blocked''"
abbreviation DecisionRerequestCreated :: string where "DecisionRerequestCreated \<equiv> ''rerequest-created''"
abbreviation DecisionRerequestIgnored :: string where "DecisionRerequestIgnored \<equiv> ''rerequest-ignored''"
abbreviation DecisionInstallationHintRecorded :: string where
  "DecisionInstallationHintRecorded \<equiv> ''installation-hint-recorded''"
abbreviation DecisionDuplicateProcessed :: string where
  "DecisionDuplicateProcessed \<equiv> ''duplicate-processed''"
abbreviation DecisionLegacyProjectionUnreconcilable :: string where
  "DecisionLegacyProjectionUnreconcilable \<equiv> ''legacy-projection-unreconcilable''"

abbreviation SourceStatePending :: string where "SourceStatePending \<equiv> ''pending''"
abbreviation SourceStateLeased :: string where "SourceStateLeased \<equiv> ''leased''"
abbreviation SourceStateCompleted :: string where "SourceStateCompleted \<equiv> ''completed''"
abbreviation SourceStateFailed :: string where "SourceStateFailed \<equiv> ''failed''"
abbreviation SourceStateSuperseded :: string where "SourceStateSuperseded \<equiv> ''superseded''"
abbreviation SourceStateCancelled :: string where "SourceStateCancelled \<equiv> ''cancelled''"

abbreviation ControllerProfileAdvisoryV1Alpha1 :: string where
  "ControllerProfileAdvisoryV1Alpha1 \<equiv> ''glassroot.dev/github-controller-profile/advisory/v1alpha1''"
abbreviation SchemaSourceImportRequestV1Alpha1 :: string where
  "SchemaSourceImportRequestV1Alpha1 \<equiv> ''glassroot.dev/github-source-import-request/v1alpha1''"
abbreviation DomainSourceImportRequestID :: string where
  "DomainSourceImportRequestID \<equiv> ''glassroot.dev/github-source-import-request-id/v1'' @ [NUL]"
abbreviation SourceImportProfileSmartHTTPShallowV1Alpha1 :: string where
  "SourceImportProfileSmartHTTPShallowV1Alpha1 \<equiv> ''glassroot.dev/github-source-import/smart-http-shallow/v1alpha1''"

abbreviation MaxInt64 :: int where "MaxInt64 \<equiv> 9223372036854775807"

record PullRequestEndpoint =
  pe_RepositoryID :: int
  pe_Owner :: string
  pe_Name :: string
  pe_CommitID :: string
  pe_Available :: bool

record PullRequestSnapshot =
  pn_SchemaVersion :: string
  pn_Number :: int
  pn_State :: string
  pn_Draft :: bool
  pn_Merged :: bool
  pn_Base :: PullRequestEndpoint
  pn_Head :: PullRequestEndpoint

record PullRequestReconcileInput =
  ri_Processed :: ProcessedDelivery
  ri_Lease :: ReconcileLease
  ri_Snapshot :: PullRequestSnapshot
  ri_Now :: StoreTime

record ReconcileResult =
  rr_Decision :: string
  rr_Generation :: int
  rr_TargetID :: string
  rr_JobID :: string
  rr_AttemptID :: string
  rr_SourceRequestID :: string
  rr_Eligibility :: string

definition emptyResult :: ReconcileResult where
  "emptyResult = \<lparr> rr_Decision = [], rr_Generation = 0, rr_TargetID = [], rr_JobID = [],
     rr_AttemptID = [], rr_SourceRequestID = [], rr_Eligibility = [] \<rparr>"

record CurrentPRState =
  cu_Key :: PRKey
  cu_Generation :: int
  cu_Eligibility :: string
  cu_CurrentTargetID :: string
  cu_CurrentJobID :: string
  cu_BaseCommitID :: string
  cu_HeadCommitID :: string
  cu_HeadRepositoryID :: int
  cu_BaseOwner :: string
  cu_BaseName :: string

record RouteHint =
  rh_RepositoryID :: int
  rh_Owner :: string
  rh_Name :: string
  rh_CommitID :: string

record SourceImportRequest =
  sq_SchemaVersion :: string
  sq_ID :: string
  sq_TargetID :: string
  sq_JobID :: string
  sq_Generation :: int
  sq_InstallationID :: int
  sq_PullRequestNumber :: int
  sq_Base :: RouteHint
  sq_Head :: RouteHint
  sq_ControllerProfileVersion :: string
  sq_State :: string
  sq_CreatedAt :: int
  sq_LeaseOwner :: string
  sq_LeaseGeneration :: int

record CheckBinding =
  cb_AppID :: int
  cb_InstallationID :: int
  cb_RepositoryID :: int
  cb_PullRequestNumber :: int
  cb_CheckRunID :: int
  cb_ControllerGeneration :: int
  cb_PublicationGeneration :: int
  cb_ExternalID :: string
  cb_TargetID :: string
  cb_JobID :: string

text \<open>The rows of the tables of \<open>schema.go\<close>, without the columns of their keys.\<close>

record ProcessedRow =
  zr_DeliveryID :: string
  zr_ProjectionKind :: string
  zr_ProjectionDigest :: string
  zr_Decision :: string
  zr_Generation :: int
  zr_TargetID :: string
  zr_JobID :: string
  zr_ProcessedAt :: int
  zr_RecordDigest :: string

record LeaseRow =
  lr_Owner :: string
  lr_Generation :: int
  lr_AcquiredAt :: int
  lr_ExpiresAt :: int

record PRRow =
  pw_Generation :: int
  pw_Eligibility :: string
  pw_TargetID :: string
  pw_JobID :: string
  pw_BaseOwner :: string
  pw_BaseName :: string
  pw_BaseCommitID :: string
  pw_HeadRepositoryID :: int
  pw_HeadCommitID :: string
  pw_UpdatedAt :: int

record JobRow =
  jr_TargetID :: string
  jr_Generation :: int
  jr_State :: string
  jr_RequiredTiers :: "string list"
  jr_Job :: AnalysisJob
  jr_CreatedAt :: int

record AttemptRow =
  ar_JobID :: string
  ar_TargetID :: string
  ar_Generation :: int
  ar_Number :: int
  ar_Reason :: string
  ar_State :: string
  ar_CreatedAt :: int

record SourceRow =
  sr_Sequence :: nat
  sr_Request :: SourceImportRequest
  sr_State :: string
  sr_LeaseOwner :: string
  sr_LeaseGeneration :: int
  sr_LeaseExpiresAt :: "int option"
  sr_AttemptCount :: int
  sr_CompletedAt :: "int option"
  sr_SourceStoreID :: string
  sr_MetadataDigest :: string
  sr_ImportProfileVersion :: string
  sr_ObjectFormat :: string
  sr_BaseTreeID :: string
  sr_HeadTreeID :: string
  sr_LimitationsJSON :: string

record ControllerDB =
  db_processed :: "((string \<times> string) \<times> ProcessedRow) list"
  db_leases :: "(PRKey \<times> LeaseRow) list"
  db_prs :: "(PRKey \<times> PRRow) list"
  db_targets :: "(string \<times> AnalysisTarget \<times> int) list"
  db_jobs :: "(string \<times> JobRow) list"
  db_attempts :: "(string \<times> AttemptRow) list"
  db_sources :: "SourceRow list"
  db_bindings :: "((int \<times> int \<times> int) \<times> CheckBinding) list"

definition emptyDB :: ControllerDB where
  "emptyDB = \<lparr> db_processed = [], db_leases = [], db_prs = [], db_targets = [], db_jobs = [],
     db_attempts = [], db_sources = [], db_bindings = [] \<rparr>"

record StoreLimits =
  sm_MaxPathBytes :: int
  sm_MaxDatabaseBytes :: int
  sm_BusyTimeoutMilliseconds :: int
  sm_MaxOpenConnections :: int
  sm_MaxIdleConnections :: int
  sm_MaxRouteSegmentBytes :: int
  sm_MaxAttemptsPerJob :: int
  sm_ReconcileLeaseDuration :: int
  sm_SourceLeaseDuration :: int

definition store_DefaultLimits :: StoreLimits where
  "store_DefaultLimits = \<lparr> sm_MaxPathBytes = 4096, sm_MaxDatabaseBytes = 17179869184,
     sm_BusyTimeoutMilliseconds = 5000, sm_MaxOpenConnections = 4, sm_MaxIdleConnections = 4,
     sm_MaxRouteSegmentBytes = 256, sm_MaxAttemptsPerJob = 32,
     sm_ReconcileLeaseDuration = 30 * 10 ^ 9, sm_SourceLeaseDuration = 300 * 10 ^ 9 \<rparr>"

record StoreConfig =
  sc_ControllerID :: string
  sc_ReceiverID :: string
  sc_AppID :: int
  sc_Limits :: StoreLimits

definition storeErr :: "string \<Rightarrow> string \<Rightarrow> go_error" where
  "storeErr code stage = GoError code stage []"

definition store_validateLimits :: "StoreLimits \<Rightarrow> go_error option" where
  "store_validateLimits l =
     (if sm_MaxPathBytes l \<le> 0 \<or> sm_MaxPathBytes l > 4096
        \<or> sm_MaxDatabaseBytes l \<le> 0 \<or> sm_MaxDatabaseBytes l > 17179869184
        \<or> sm_BusyTimeoutMilliseconds l \<le> 0 \<or> sm_MaxOpenConnections l \<le> 0 \<or> sm_MaxIdleConnections l \<le> 0
        \<or> sm_MaxRouteSegmentBytes l \<le> 0 \<or> sm_MaxRouteSegmentBytes l > 256
        \<or> sm_MaxAttemptsPerJob l \<le> 0 \<or> sm_MaxAttemptsPerJob l > 32
        \<or> sm_ReconcileLeaseDuration l \<le> 0 \<or> sm_ReconcileLeaseDuration l > 30 * 10 ^ 9
        \<or> sm_SourceLeaseDuration l \<le> 0 \<or> sm_SourceLeaseDuration l > 300 * 10 ^ 9
      then Some (storeErr ''database-schema-invalid'' ''limits'') else None)"

section \<open>Statements\<close>

definition insert_row :: "'k \<Rightarrow> 'v \<Rightarrow> ('k \<times> 'v) list \<Rightarrow> ('k \<times> 'v) list option" where
  "insert_row k v tbl = (if map_of tbl k = None then Some (tbl @ [(k, v)]) else None)"

definition insert_or_ignore :: "'k \<Rightarrow> 'v \<Rightarrow> ('k \<times> 'v) list \<Rightarrow> ('k \<times> 'v) list" where
  "insert_or_ignore k v tbl = (if map_of tbl k = None then tbl @ [(k, v)] else tbl)"

definition update_rows :: "('k \<Rightarrow> 'v \<Rightarrow> bool) \<Rightarrow> ('v \<Rightarrow> 'v) \<Rightarrow> ('k \<times> 'v) list \<Rightarrow> ('k \<times> 'v) list" where
  "update_rows P f tbl = map (\<lambda>(k, v). (k, if P k v then f v else v)) tbl"

text \<open>\<open>INSERT ... ON CONFLICT DO UPDATE\<close> of all columns.\<close>

definition upsert_row :: "'k \<Rightarrow> 'v \<Rightarrow> ('k \<times> 'v) list \<Rightarrow> ('k \<times> 'v) list" where
  "upsert_row k v tbl = AList.update k v tbl"

definition validID :: "string \<Rightarrow> bool" where
  "validID s \<longleftrightarrow> s \<noteq> [] \<and> length s \<le> 64 \<and> byte_in 97 122 (hd s)
     \<and> list_all (\<lambda>c. byte_in 97 122 c \<or> byte_in 48 57 c \<or> c = CHR ''.'' \<or> c = CHR ''_'' \<or> c = CHR ''-'') s"

definition validatePRKey :: "PRKey \<Rightarrow> go_error option" where
  "validatePRKey k =
     (if pk_InstallationID k \<le> 0 \<or> pk_BaseRepositoryID k \<le> 0 \<or> pk_PullRequestNumber k \<le> 0
      then Some (storeErr ''record-invalid'' ''pr-key'') else None)"

section \<open>Leases\<close>

definition AcquireReconcileLease ::
  "StoreConfig \<Rightarrow> ControllerDB \<Rightarrow> PRKey \<Rightarrow> string \<Rightarrow> StoreTime \<Rightarrow> int
   \<Rightarrow> (ControllerDB \<times> ReconcileLease) result" where
  "AcquireReconcileLease s db key owner now duration =
     rcheck (validatePRKey key)
     (if \<not> validID owner \<or> \<not> validTime now \<or> duration \<le> 0
        \<or> duration > sm_ReconcileLeaseDuration (sc_Limits s)
      then Inl (storeErr ''record-invalid'' ''lease'')
      else let expires = addTime now duration;
               grant = (\<lambda>gen. (db\<lparr> db_leases := upsert_row key \<lparr> lr_Owner = owner, lr_Generation = gen,
                     lr_AcquiredAt = formatTime now, lr_ExpiresAt = formatTime expires \<rparr> (db_leases db) \<rparr>,
                   \<lparr> rl_Key = key, rl_Owner = owner, rl_Generation = gen, rl_AcquiredAt = now,
                     rl_ExpiresAt = expires \<rparr>))
           in (case map_of (db_leases db) key of
                 None \<Rightarrow> Inr (grant 1)
               | Some row \<Rightarrow>
                   if parseTime (lr_ExpiresAt row) > st_nanos now
                   then Inl (storeErr ''reconcile-lease-busy'' ''lease'')
                   else if lr_Generation row = MaxInt64 then Inl (storeErr ''generation-overflow'' ''lease'')
                   else Inr (grant (lr_Generation row + 1))))"

definition holdsLease :: "ControllerDB \<Rightarrow> ReconcileLease \<Rightarrow> bool" where
  "holdsLease db l \<longleftrightarrow> (case map_of (db_leases db) (rl_Key l) of
     None \<Rightarrow> False | Some row \<Rightarrow> lr_Owner row = rl_Owner l \<and> lr_Generation row = rl_Generation l)"

definition releaseReconcileLease :: "ControllerDB \<Rightarrow> ReconcileLease \<Rightarrow> ControllerDB result" where
  "releaseReconcileLease db l =
     (if holdsLease db l then Inr (db\<lparr> db_leases := AList.delete (rl_Key l) (db_leases db) \<rparr>)
      else Inl (storeErr ''reconcile-lease-stale'' ''lease''))"

section \<open>Processed deliveries\<close>

definition checkProcessed :: "ControllerDB \<Rightarrow> ProcessedDelivery \<Rightarrow> ReconcileResult option result" where
  "checkProcessed db p = (case map_of (db_processed db) (pz_ReceiverID p, pz_OutboxID p) of
     None \<Rightarrow> Inr None
   | Some row \<Rightarrow>
       if zr_ProjectionDigest row \<noteq> pz_ProjectionDigest p
       then Inl (storeErr ''processed-delivery-conflict'' ''processed'')
       else Inr (Some (emptyResult\<lparr> rr_Decision := DecisionDuplicateProcessed,
         rr_Generation := zr_Generation row, rr_TargetID := zr_TargetID row, rr_JobID := zr_JobID row \<rparr>)))"

definition controllerRecordDigest ::
  "(string \<Rightarrow> string) \<Rightarrow> ProcessedDelivery \<Rightarrow> ReconcileResult \<Rightarrow> string" where
  "controllerRecordDigest sha p r = ''sha256:'' @ domainHash sha
     (''glassroot.dev/github-controller-processed/v1'' @ [NUL])
     [pz_ReceiverID p, pz_OutboxID p, pz_ProjectionDigest p, rr_Decision r, sprint_int (rr_Generation r),
      rr_TargetID r, rr_JobID r]"

definition insertProcessed ::
  "(string \<Rightarrow> string) \<Rightarrow> ControllerDB \<Rightarrow> ProcessedDelivery \<Rightarrow> ReconcileResult \<Rightarrow> ControllerDB result" where
  "insertProcessed sha db p r =
     (case insert_row (pz_ReceiverID p, pz_OutboxID p) \<lparr> zr_DeliveryID = pz_DeliveryID p,
         zr_ProjectionKind = pz_ProjectionKind p, zr_ProjectionDigest = pz_ProjectionDigest p,
         zr_Decision = rr_Decision r, zr_Generation = rr_Generation r, zr_TargetID = rr_TargetID r,
         zr_JobID = rr_JobID r, zr_ProcessedAt = formatTime (pz_ProcessedAt p),
         zr_RecordDigest = controllerRecordDigest sha p r \<rparr> (db_processed db) of
       None \<Rightarrow> Inl (storeErr ''transaction-failed'' ''processed'')
     | Some t \<Rightarrow> Inr (db\<lparr> db_processed := t \<rparr>))"

definition RecordProcessingDecision ::
  "(string \<Rightarrow> string) \<Rightarrow> StoreConfig \<Rightarrow> ControllerDB \<Rightarrow> ProcessedDelivery \<Rightarrow> string \<Rightarrow> StoreTime
   \<Rightarrow> (ControllerDB \<times> ReconcileResult) result" where
  "RecordProcessingDecision sha s db p decision time =
     (if pz_ReceiverID p \<noteq> sc_ReceiverID s \<or> pz_OutboxID p = [] \<or> \<not> validDigest (pz_ProjectionDigest p)
        \<or> \<not> validTime time
      then Inl (storeErr ''record-invalid'' ''processed'')
      else rbind (checkProcessed db p) (\<lambda>done.
        case done of
          Some r \<Rightarrow> Inr (db, r)
        | None \<Rightarrow> let res = emptyResult\<lparr> rr_Decision := decision \<rparr>
            in rbind (insertProcessed sha db (p\<lparr> pz_ProcessedAt := time \<rparr>) res) (\<lambda>db'. Inr (db', res))))"

section \<open>Pull request state\<close>

definition readCurrent :: "ControllerDB \<Rightarrow> PRKey \<Rightarrow> CurrentPRState" where
  "readCurrent db key = (case map_of (db_prs db) key of
     None \<Rightarrow> \<lparr> cu_Key = key, cu_Generation = 0, cu_Eligibility = [], cu_CurrentTargetID = [],
       cu_CurrentJobID = [], cu_BaseCommitID = [], cu_HeadCommitID = [], cu_HeadRepositoryID = 0,
       cu_BaseOwner = [], cu_BaseName = [] \<rparr>
   | Some row \<Rightarrow> \<lparr> cu_Key = key, cu_Generation = pw_Generation row, cu_Eligibility = pw_Eligibility row,
       cu_CurrentTargetID = pw_TargetID row, cu_CurrentJobID = pw_JobID row,
       cu_BaseCommitID = pw_BaseCommitID row, cu_HeadCommitID = pw_HeadCommitID row,
       cu_HeadRepositoryID = pw_HeadRepositoryID row, cu_BaseOwner = pw_BaseOwner row,
       cu_BaseName = pw_BaseName row \<rparr>)"

text \<open>\<open>None\<close> is \<open>sql.ErrNoRows\<close>.\<close>

definition GetCurrentPRState :: "ControllerDB \<Rightarrow> PRKey \<Rightarrow> CurrentPRState option" where
  "GetCurrentPRState db key =
     (let cur = readCurrent db key in if cu_Generation cur = 0 then None else Some cur)"

definition sourceRequestID :: "(string \<Rightarrow> string) \<Rightarrow> string \<Rightarrow> string \<Rightarrow> int \<Rightarrow> string" where
  "sourceRequestID sha tid jid generation =
     ''source-'' @ domainHash sha DomainSourceImportRequestID [tid, jid, sprint_int generation]"

definition sourceStates :: "string list" where
  "sourceStates = [SourceStatePending, SourceStateLeased, SourceStateCompleted, SourceStateFailed,
     SourceStateSuperseded, SourceStateCancelled]"

definition validateSourceImportRequest :: "SourceImportRequest \<Rightarrow> go_error option" where
  "validateSourceImportRequest req =
     (if sq_ID req = [] \<or> sq_TargetID req = [] \<or> sq_JobID req = [] \<or> sq_Generation req \<le> 0
        \<or> sq_InstallationID req \<le> 0 \<or> sq_PullRequestNumber req \<le> 0
        \<or> sq_ControllerProfileVersion req \<noteq> ControllerProfileAdvisoryV1Alpha1
      then Some (storeErr ''record-invalid'' ''source'')
      else if rh_RepositoryID (sq_Base req) \<le> 0 \<or> rh_RepositoryID (sq_Head req) \<le> 0
        \<or> \<not> validRouteHint (rh_Owner (sq_Base req)) \<or> \<not> validRouteHint (rh_Name (sq_Base req))
        \<or> \<not> validRouteHint (rh_Owner (sq_Head req)) \<or> \<not> validRouteHint (rh_Name (sq_Head req))
        \<or> \<not> validGitObjectID (rh_CommitID (sq_Base req)) \<or> \<not> validGitObjectID (rh_CommitID (sq_Head req))
      then Some (storeErr ''record-invalid'' ''source'')
      else if sq_State req \<notin> set sourceStates then Some (storeErr ''record-invalid'' ''source'')
      else None)"

text \<open>The next \<open>AUTOINCREMENT\<close> value: rows are never deleted.\<close>

definition nextSequence :: "SourceRow list \<Rightarrow> nat" where
  "nextSequence rows = Suc (foldr max (map sr_Sequence rows) 0)"

definition insertSourceRequest :: "ControllerDB \<Rightarrow> SourceImportRequest \<Rightarrow> ControllerDB result" where
  "insertSourceRequest db req =
     rcheck (validateSourceImportRequest req)
     (if list_ex (\<lambda>r. sq_ID (sr_Request r) = sq_ID req) (db_sources db)
      then Inl (storeErr ''transaction-failed'' ''source'')
      else Inr (db\<lparr> db_sources := db_sources db @ [\<lparr> sr_Sequence = nextSequence (db_sources db),
        sr_Request = req, sr_State = sq_State req, sr_LeaseOwner = [], sr_LeaseGeneration = 0,
        sr_LeaseExpiresAt = None, sr_AttemptCount = 0, sr_CompletedAt = None, sr_SourceStoreID = [],
        sr_MetadataDigest = [], sr_ImportProfileVersion = [], sr_ObjectFormat = [], sr_BaseTreeID = [],
        sr_HeadTreeID = [], sr_LimitationsJSON = [] \<rparr>] \<rparr>))"

definition routeHint :: "PullRequestEndpoint \<Rightarrow> RouteHint" where
  "routeHint e = \<lparr> rh_RepositoryID = pe_RepositoryID e, rh_Owner = pe_Owner e, rh_Name = pe_Name e,
     rh_CommitID = pe_CommitID e \<rparr>"

text \<open>\<open>INSERT INTO attempts\<close>: the attempt identifier and the pair of job and number are unique.\<close>

definition insertAttempt :: "ControllerDB \<Rightarrow> AnalysisAttempt \<Rightarrow> StoreTime \<Rightarrow> ControllerDB option" where
  "insertAttempt db a now =
     (if list_ex (\<lambda>(_, r). ar_JobID r = an_JobID a \<and> ar_Number r = an_AttemptNumber a) (db_attempts db)
      then None
      else map_option (\<lambda>t. db\<lparr> db_attempts := t \<rparr>)
        (insert_row (an_ID a) \<lparr> ar_JobID = an_JobID a, ar_TargetID = an_TargetID a,
           ar_Generation = an_Generation a, ar_Number = an_AttemptNumber a, ar_Reason = an_Reason a,
           ar_State = AttemptStateQueued, ar_CreatedAt = formatTime now \<rparr> (db_attempts db)))"

definition insertTargetJobAttemptSource ::
  "ControllerDB \<Rightarrow> AnalysisTarget \<Rightarrow> AnalysisJob \<Rightarrow> AnalysisAttempt \<Rightarrow> string \<Rightarrow> PullRequestSnapshot
   \<Rightarrow> StoreTime \<Rightarrow> ControllerDB result" where
  "insertTargetJobAttemptSource db target job attempt srcID snap now =
     (let db1 = db\<lparr> db_targets := insert_or_ignore (aj_TargetID job) (target, formatTime now) (db_targets db) \<rparr>
      in case insert_row (aj_ID job) \<lparr> jr_TargetID = aj_TargetID job, jr_Generation = aj_Generation job,
           jr_State = JobStateImportingSource,
           jr_RequiredTiers = [RunnerTierHardenedContainer, RunnerTierMicroVM],
           jr_Job = job, jr_CreatedAt = formatTime now \<rparr> (db_jobs db1) of
        None \<Rightarrow> Inl (storeErr ''transaction-failed'' ''job'')
      | Some jobs \<Rightarrow> (case insertAttempt (db1\<lparr> db_jobs := jobs \<rparr>) attempt now of
          None \<Rightarrow> Inl (storeErr ''transaction-failed'' ''attempt'')
        | Some db2 \<Rightarrow> insertSourceRequest db2 \<lparr> sq_SchemaVersion = SchemaSourceImportRequestV1Alpha1,
            sq_ID = srcID, sq_TargetID = aj_TargetID job, sq_JobID = aj_ID job,
            sq_Generation = aj_Generation job, sq_InstallationID = at_InstallationID target,
            sq_PullRequestNumber = pn_Number snap, sq_Base = routeHint (pn_Base snap),
            sq_Head = routeHint (pn_Head snap),
            sq_ControllerProfileVersion = ControllerProfileAdvisoryV1Alpha1,
            sq_State = SourceStatePending, sq_CreatedAt = formatTime now, sq_LeaseOwner = [],
            sq_LeaseGeneration = 0 \<rparr>))"

text \<open>
  The three updates that end a job: the job itself unless it is terminal, its attempts unless they are
  terminal, and its source requests that are pending or leased. \<open>supersedeCurrent\<close> and \<open>cancelCurrentJob\<close>
  issue them with different states.
\<close>

definition endJob :: "ControllerDB \<Rightarrow> string \<Rightarrow> string \<Rightarrow> string \<Rightarrow> ControllerDB" where
  "endJob db jid jobState sourceState = db\<lparr>
     db_jobs := update_rows (\<lambda>k r. k = jid \<and> \<not> jobTerminal (jr_State r))
       (jr_State_update (\<lambda>_. jobState)) (db_jobs db),
     db_attempts := update_rows (\<lambda>_ r. ar_JobID r = jid \<and> \<not> attemptTerminal (ar_State r))
       (ar_State_update (\<lambda>_. AttemptStateCancelled)) (db_attempts db),
     db_sources := map (\<lambda>r. if sq_JobID (sr_Request r) = jid
         \<and> (sr_State r = SourceStatePending \<or> sr_State r = SourceStateLeased)
       then r\<lparr> sr_State := sourceState \<rparr> else r) (db_sources db) \<rparr>"

definition supersedeCurrent :: "ControllerDB \<Rightarrow> CurrentPRState \<Rightarrow> ControllerDB" where
  "supersedeCurrent db cur =
     (if cu_CurrentJobID cur \<noteq> []
      then endJob db (cu_CurrentJobID cur) JobStateSuperseded SourceStateSuperseded else db)"

definition cancelCurrentJob :: "ControllerDB \<Rightarrow> string \<Rightarrow> ControllerDB" where
  "cancelCurrentJob db jid = endJob db jid JobStateCancelled SourceStateCancelled"

abbreviation PullRequestStateOpen :: string where "PullRequestStateOpen \<equiv> ''open''"
abbreviation PullRequestStateClosed :: string where "PullRequestStateClosed \<equiv> ''closed''"

definition eligibilityFor :: "PullRequestSnapshot \<Rightarrow> string" where
  "eligibilityFor s =
     (if pn_State s = PullRequestStateClosed \<or> pn_Merged s then PREligibilityClosed
      else if pn_Draft s then PREligibilityDraft
      else if \<not> pe_Available (pn_Head s) \<or> pe_RepositoryID (pn_Head s) \<le> 0 \<or> pe_CommitID (pn_Head s) = []
      then PREligibilitySourceUnavailable
      else PREligibilityEligible)"

definition store_validateInput :: "StoreConfig \<Rightarrow> PullRequestReconcileInput \<Rightarrow> go_error option" where
  "store_validateInput s i =
     (if pz_ReceiverID (ri_Processed i) \<noteq> sc_ReceiverID s \<or> pz_OutboxID (ri_Processed i) = []
        \<or> pz_DeliveryID (ri_Processed i) = [] \<or> \<not> validDigest (pz_ProjectionDigest (ri_Processed i))
        \<or> pz_ProjectionKind (ri_Processed i) \<noteq> ProjectionPullRequest
        \<or> \<not> validTime (pz_ProcessedAt (ri_Processed i))
      then Some (storeErr ''record-invalid'' ''processed'')
      else echeck (validatePRKey (rl_Key (ri_Lease i)))
      (if \<not> validID (rl_Owner (ri_Lease i)) \<or> rl_Generation (ri_Lease i) \<le> 0 \<or> \<not> validTime (ri_Now i)
         \<or> st_nanos (ri_Now i) > st_nanos (rl_ExpiresAt (ri_Lease i))
       then Some (storeErr ''reconcile-lease-stale'' ''lease'')
       else if pn_SchemaVersion (ri_Snapshot i) \<noteq> []
         \<and> pn_SchemaVersion (ri_Snapshot i) \<noteq> ''glassroot.dev/github-pull-request-snapshot/v1alpha1''
       then Some (storeErr ''record-invalid'' ''snapshot'')
       else if pn_Number (ri_Snapshot i) \<noteq> pk_PullRequestNumber (rl_Key (ri_Lease i))
         \<or> pe_RepositoryID (pn_Base (ri_Snapshot i)) \<noteq> pk_BaseRepositoryID (rl_Key (ri_Lease i))
       then Some (storeErr ''record-invalid'' ''snapshot'')
       else None))"

definition snapshotTarget :: "PRKey \<Rightarrow> PullRequestSnapshot \<Rightarrow> AnalysisTarget" where
  "snapshotTarget key snap = \<lparr>
     at_SchemaVersion = SchemaGitHubAnalysisTargetV1Alpha1,
     at_InstallationID = pk_InstallationID key,
     at_BaseRepositoryID = pe_RepositoryID (pn_Base snap),
     at_HeadRepositoryID = pe_RepositoryID (pn_Head snap),
     at_PullRequestNumber = pn_Number snap,
     at_BaseCommitID = pe_CommitID (pn_Base snap),
     at_HeadCommitID = pe_CommitID (pn_Head snap),
     at_AnalysisProfileVersion = ControllerProfileAdvisoryV1Alpha1 \<rparr>"

definition mapError :: "go_error \<Rightarrow> 'a result \<Rightarrow> 'a result" where
  "mapError e r = (case r of Inl _ \<Rightarrow> Inl e | Inr x \<Rightarrow> Inr x)"

text \<open>
  The branches of \<open>ApplyPullRequestSnapshot\<close>: the tables after superseding and inserting, and the result.
\<close>

definition scheduleTarget ::
  "(string \<Rightarrow> string) \<Rightarrow> ControllerDB \<Rightarrow> CurrentPRState \<Rightarrow> AnalysisTarget \<Rightarrow> string \<Rightarrow> PullRequestSnapshot
   \<Rightarrow> StoreTime \<Rightarrow> (ControllerDB \<times> ReconcileResult) result" where
  "scheduleTarget sha db cur target tid snap now =
     (if cu_Generation cur = MaxInt64 then Inl (storeErr ''generation-overflow'' ''generation'')
      else let gen = cu_Generation cur + 1; db1 = supersedeCurrent db cur
      in rbind (mapError (storeErr ''record-invalid'' ''job'')
          (NewAnalysisJob sha target gen ControllerProfileAdvisoryV1Alpha1 RunnerTierHardenedContainer)) (\<lambda>job.
        rbind (mapError (storeErr ''record-invalid'' ''attempt'')
          (NewAnalysisAttempt sha job 1 AttemptReasonInitial)) (\<lambda>attempt.
        let srcID = sourceRequestID sha tid (aj_ID job) gen
        in rbind (insertTargetJobAttemptSource db1 target job attempt srcID snap now) (\<lambda>db2.
          Inr (db2, \<lparr> rr_Decision = DecisionScheduledNewTarget, rr_Generation = gen, rr_TargetID = tid,
            rr_JobID = aj_ID job, rr_AttemptID = an_ID attempt, rr_SourceRequestID = srcID,
            rr_Eligibility = PREligibilityEligible \<rparr>)))))"

definition markIneligible ::
  "ControllerDB \<Rightarrow> CurrentPRState \<Rightarrow> string \<Rightarrow> (ControllerDB \<times> ReconcileResult) result" where
  "markIneligible db cur eligibility =
     (let decision = (if eligibility = PREligibilityDraft then DecisionMarkedDraft
            else if eligibility = PREligibilityClosed then DecisionMarkedClosed
            else DecisionSourceUnavailable);
          res = (\<lambda>gen. emptyResult\<lparr> rr_Decision := decision, rr_Generation := gen,
            rr_Eligibility := eligibility \<rparr>)
      in if cu_Generation cur = 0 \<or> cu_Eligibility cur \<noteq> eligibility
         then if cu_Generation cur = MaxInt64 then Inl (storeErr ''generation-overflow'' ''generation'')
              else Inr (supersedeCurrent db cur, res (cu_Generation cur + 1))
         else Inr (db, res (cu_Generation cur)))"

definition storeCurrent ::
  "ControllerDB \<Rightarrow> PRKey \<Rightarrow> PullRequestSnapshot \<Rightarrow> StoreTime \<Rightarrow> ReconcileResult \<Rightarrow> ControllerDB" where
  "storeCurrent db key snap now res = db\<lparr> db_prs := upsert_row key \<lparr> pw_Generation = rr_Generation res,
     pw_Eligibility = rr_Eligibility res, pw_TargetID = rr_TargetID res, pw_JobID = rr_JobID res,
     pw_BaseOwner = pe_Owner (pn_Base snap), pw_BaseName = pe_Name (pn_Base snap),
     pw_BaseCommitID = pe_CommitID (pn_Base snap), pw_HeadRepositoryID = pe_RepositoryID (pn_Head snap),
     pw_HeadCommitID = pe_CommitID (pn_Head snap), pw_UpdatedAt = formatTime now \<rparr> (db_prs db) \<rparr>"

definition reconcileSnapshot ::
  "(string \<Rightarrow> string) \<Rightarrow> ControllerDB \<Rightarrow> PRKey \<Rightarrow> PullRequestSnapshot \<Rightarrow> StoreTime
   \<Rightarrow> (ControllerDB \<times> ReconcileResult) result" where
  "reconcileSnapshot sha db key snap now =
     (let cur = readCurrent db key; eligibility = eligibilityFor snap; target = snapshotTarget key snap
      in if eligibility = PREligibilityEligible then
           rbind (mapError (storeErr ''record-invalid'' ''target'') (targetID sha target)) (\<lambda>tid.
             if cu_Eligibility cur = PREligibilityEligible \<and> cu_CurrentTargetID cur = tid
             then Inr (db, \<lparr> rr_Decision = DecisionNoChangeCurrentTarget,
               rr_Generation = cu_Generation cur, rr_TargetID = tid, rr_JobID = cu_CurrentJobID cur,
               rr_AttemptID = [], rr_SourceRequestID = [], rr_Eligibility = eligibility \<rparr>)
             else rbind (scheduleTarget sha db cur target tid snap now) (\<lambda>(db', res).
               Inr (storeCurrent db' key snap now res, res)))
         else rbind (markIneligible db cur eligibility) (\<lambda>(db', res).
           Inr (storeCurrent db' key snap now res, res)))"

definition ApplyPullRequestSnapshot ::
  "(string \<Rightarrow> string) \<Rightarrow> StoreConfig \<Rightarrow> ControllerDB \<Rightarrow> PullRequestReconcileInput
   \<Rightarrow> (ControllerDB \<times> ReconcileResult) result" where
  "ApplyPullRequestSnapshot sha s db i =
     rcheck (store_validateInput s i)
     (rbind (checkProcessed db (ri_Processed i)) (\<lambda>done.
       case done of
         Some r \<Rightarrow> rbind (releaseReconcileLease db (ri_Lease i)) (\<lambda>db'. Inr (db', r))
       | None \<Rightarrow>
           rbind (reconcileSnapshot sha db (rl_Key (ri_Lease i)) (ri_Snapshot i) (ri_Now i)) (\<lambda>(db1, res).
           rbind (insertProcessed sha db1 (ri_Processed i) res) (\<lambda>db2.
           rbind (releaseReconcileLease db2 (ri_Lease i)) (\<lambda>db3. Inr (db3, res))))))"

end
