(* ===== verification/ControllerOutbox.thy ===== *)
theory ControllerOutbox
  imports ControllerStore
begin

text \<open>
  The remaining operations of the controller store (\<open>src/internal/githubcontrollerstore\<close>): installation
  hints, check bindings and rerequests, the outbox of source imports with its leases, and the
  classification of worker results. Then the step relation of the store: one step is one committed
  transaction of any of its operations.
\<close>

section \<open>Installation hints\<close>

record InstallationHintInput =
  ih_Processed :: ProcessedDelivery
  ih_Projection :: InstallationProjection
  ih_Now :: StoreTime

definition installationHintInvalidates :: "InstallationProjection \<Rightarrow> bool" where
  "installationHintInvalidates p \<longleftrightarrow>
     inp_Action p \<in> {''deleted'', ''suspend'', ''suspended'', ''removed'', ''repositories_removed''}"

definition repositoryAffectedByHint :: "InstallationProjection \<Rightarrow> int \<Rightarrow> bool" where
  "repositoryAffectedByHint p repositoryID \<longleftrightarrow>
     inp_Action p \<in> {''deleted'', ''suspend'', ''suspended''} \<or> repositoryID \<in> set (inp_RepositoryIDs p)"

definition rowsToBlock :: "ControllerDB \<Rightarrow> InstallationProjection \<Rightarrow> (PRKey \<times> PRRow) list" where
  "rowsToBlock db p = filter (\<lambda>(k, r). pk_InstallationID k = inp_InstallationID p
     \<and> pw_Eligibility r = PREligibilityEligible
     \<and> repositoryAffectedByHint p (pk_BaseRepositoryID k)) (db_prs db)"

definition blockRow :: "int \<Rightarrow> ControllerDB \<Rightarrow> PRKey \<times> PRRow \<Rightarrow> ControllerDB" where
  "blockRow now db kr = (case kr of (k, r) \<Rightarrow>
     let db1 = (if pw_JobID r \<noteq> [] then cancelCurrentJob db (pw_JobID r) else db)
     in db1\<lparr> db_prs := update_rows (\<lambda>k' r'. k' = k \<and> pw_Generation r' = pw_Generation r)
          (\<lambda>r'. r'\<lparr> pw_Generation := pw_Generation r + 1,
             pw_Eligibility := PREligibilityInstallationBlocked, pw_TargetID := [], pw_JobID := [],
             pw_UpdatedAt := now \<rparr>) (db_prs db1) \<rparr>)"

fun blockRows :: "int \<Rightarrow> (PRKey \<times> PRRow) list \<Rightarrow> ControllerDB \<Rightarrow> ControllerDB result" where
  "blockRows now [] db = Inr db"
| "blockRows now (kr # rest) db =
     (if pw_Generation (snd kr) = MaxInt64 then Inl (storeErr ''generation-overflow'' ''installation'')
      else blockRows now rest (blockRow now db kr))"

definition ApplyInstallationHint ::
  "(string \<Rightarrow> string) \<Rightarrow> StoreConfig \<Rightarrow> ControllerDB \<Rightarrow> InstallationHintInput
   \<Rightarrow> (ControllerDB \<times> ReconcileResult) result" where
  "ApplyInstallationHint sha s db i =
     (if pz_ReceiverID (ih_Processed i) \<noteq> sc_ReceiverID s \<or> pz_OutboxID (ih_Processed i) = []
        \<or> \<not> validDigest (pz_ProjectionDigest (ih_Processed i)) \<or> \<not> validTime (pz_ProcessedAt (ih_Processed i))
        \<or> \<not> validTime (ih_Now i) \<or> inp_InstallationID (ih_Projection i) \<le> 0
      then Inl (storeErr ''record-invalid'' ''installation'')
      else if pz_ProjectionKind (ih_Processed i) \<noteq> ProjectionInstallation
        \<and> pz_ProjectionKind (ih_Processed i) \<noteq> ProjectionInstallationRepositories
      then Inl (storeErr ''record-invalid'' ''installation'')
      else rbind (checkProcessed db (ih_Processed i)) (\<lambda>done.
        case done of
          Some r \<Rightarrow> Inr (db, r)
        | None \<Rightarrow>
            let rows = (if installationHintInvalidates (ih_Projection i)
                  then rowsToBlock db (ih_Projection i) else [])
            in rbind (blockRows (formatTime (ih_Now i)) rows db) (\<lambda>db1.
               let res = emptyResult\<lparr> rr_Decision :=
                     (if rows \<noteq> [] then DecisionInstallationBlocked else DecisionInstallationHintRecorded) \<rparr>
               in rbind (insertProcessed sha db1 (ih_Processed i) res) (\<lambda>db2. Inr (db2, res)))))"

section \<open>Check bindings and rerequests\<close>

definition bindingKey :: "CheckBinding \<Rightarrow> int \<times> int \<times> int" where
  "bindingKey b = (cb_AppID b, cb_RepositoryID b, cb_CheckRunID b)"

definition RegisterCheckBinding :: "StoreConfig \<Rightarrow> ControllerDB \<Rightarrow> CheckBinding \<Rightarrow> ControllerDB result" where
  "RegisterCheckBinding s db b =
     (if cb_AppID b \<noteq> sc_AppID s \<or> cb_InstallationID b \<le> 0 \<or> cb_RepositoryID b \<le> 0
        \<or> cb_PullRequestNumber b \<le> 0 \<or> cb_CheckRunID b \<le> 0 \<or> cb_ExternalID b = [] \<or> cb_TargetID b = []
        \<or> cb_JobID b = [] \<or> cb_ControllerGeneration b \<le> 0 \<or> cb_PublicationGeneration b \<le> 0
      then Inl (storeErr ''record-invalid'' ''check-binding'')
      else (case map_of (db_bindings db) (bindingKey b) of
          None \<Rightarrow> Inr (db\<lparr> db_bindings := db_bindings db @ [(bindingKey b, b)] \<rparr>)
        | Some existing \<Rightarrow> if existing \<noteq> b then Inl (storeErr ''check-binding-conflict'' ''check-binding'')
            else Inr db))"

definition LookupCheckBinding :: "ControllerDB \<Rightarrow> int \<Rightarrow> int \<Rightarrow> int \<Rightarrow> CheckBinding result" where
  "LookupCheckBinding db appID repositoryID checkRunID =
     (case map_of (db_bindings db) (appID, repositoryID, checkRunID) of
        None \<Rightarrow> Inl (storeErr ''check-binding-conflict'' ''check-binding'') | Some b \<Rightarrow> Inr b)"

record RerequestInput =
  rq_Processed :: ProcessedDelivery
  rq_Lease :: ReconcileLease
  rq_Projection :: CheckRunProjection
  rq_SnapshotEligible :: bool
  rq_SnapshotTargetID :: string
  rq_Now :: StoreTime
  rq_ConfiguredAppID :: int

definition attemptsOf :: "ControllerDB \<Rightarrow> string \<Rightarrow> AttemptRow list" where
  "attemptsOf db jid = filter (\<lambda>r. ar_JobID r = jid) (map snd (db_attempts db))"

definition CountAttempts :: "ControllerDB \<Rightarrow> string \<Rightarrow> nat" where
  "CountAttempts db jid = length (attemptsOf db jid)"

text \<open>\<open>SELECT MAX(attempt_number)\<close>, \<open>None\<close> when the job has no attempts.\<close>

definition maxAttempt :: "ControllerDB \<Rightarrow> string \<Rightarrow> int option" where
  "maxAttempt db jid = (case map ar_Number (attemptsOf db jid) of
     [] \<Rightarrow> None | n # ns \<Rightarrow> Some (foldr max ns n))"

definition rerequestRejected :: "StoreConfig \<Rightarrow> RerequestInput \<Rightarrow> bool" where
  "rerequestRejected s i \<longleftrightarrow>
     rq_ConfiguredAppID i \<noteq> sc_AppID s \<or> crp_Action (rq_Projection i) \<noteq> ''rerequested''
     \<or> crp_AppID (rq_Projection i) \<noteq> sc_AppID s \<or> crp_CheckRunID (rq_Projection i) \<le> 0
     \<or> pz_ProjectionKind (rq_Processed i) \<noteq> ProjectionCheckRun
     \<or> pz_ReceiverID (rq_Processed i) \<noteq> sc_ReceiverID s
     \<or> \<not> validDigest (pz_ProjectionDigest (rq_Processed i)) \<or> \<not> validTime (rq_Now i)
     \<or> st_nanos (rq_Now i) > st_nanos (rl_ExpiresAt (rq_Lease i))"

text \<open>The binding names the current target and job of an eligible pull request.\<close>

definition bindingCurrent :: "ControllerDB \<Rightarrow> RerequestInput \<Rightarrow> CheckBinding \<Rightarrow> bool" where
  "bindingCurrent db i b \<longleftrightarrow>
     (let cur = readCurrent db (rl_Key (rq_Lease i))
      in \<not> (cu_Generation cur \<noteq> cb_ControllerGeneration b \<or> cu_CurrentTargetID cur \<noteq> cb_TargetID b
           \<or> cu_CurrentJobID cur \<noteq> cb_JobID b \<or> cu_Eligibility cur \<noteq> PREligibilityEligible
           \<or> \<not> rq_SnapshotEligible i \<or> rq_SnapshotTargetID i \<noteq> cb_TargetID b))"

definition boundJob :: "CheckBinding \<Rightarrow> AnalysisTarget \<Rightarrow> AnalysisJob" where
  "boundJob b target = \<lparr> aj_SchemaVersion = SchemaGitHubAnalysisJobV1Alpha1, aj_ID = cb_JobID b,
     aj_TargetID = cb_TargetID b, aj_Target = target, aj_Generation = cb_ControllerGeneration b,
     aj_AnalysisProfileVersion = ControllerProfileAdvisoryV1Alpha1,
     aj_RequiredRunnerTier = RunnerTierHardenedContainer \<rparr>"

text \<open>The zero value of a target: the job of a binding has no target of its own.\<close>

definition noTarget :: AnalysisTarget where
  "noTarget = \<lparr> at_SchemaVersion = [], at_InstallationID = 0, at_BaseRepositoryID = 0,
     at_HeadRepositoryID = 0, at_PullRequestNumber = 0, at_BaseCommitID = [], at_HeadCommitID = [],
     at_AnalysisProfileVersion = [] \<rparr>"

definition rerequestAttempt ::
  "(string \<Rightarrow> string) \<Rightarrow> StoreConfig \<Rightarrow> ControllerDB \<Rightarrow> CheckBinding \<Rightarrow> StoreTime
   \<Rightarrow> (ControllerDB \<times> ReconcileResult) result" where
  "rerequestAttempt sha s db b now =
     (let next = (case maxAttempt db (cb_JobID b) of None \<Rightarrow> 1 | Some n \<Rightarrow> signed64 (n + 1))
      in if next > sm_MaxAttemptsPerJob (sc_Limits s) \<or> next > MaxInt64
         then Inl (storeErr ''source-state-invalid'' ''rerequest'')
         else rbind (mapError (storeErr ''record-invalid'' ''rerequest'')
           (NewAnalysisAttempt sha (boundJob b noTarget) next AttemptReasonCheckRerequest)) (\<lambda>attempt.
           case insertAttempt db attempt now of
             None \<Rightarrow> Inl (storeErr ''transaction-failed'' ''rerequest'')
           | Some db1 \<Rightarrow> Inr (db1, emptyResult\<lparr> rr_Decision := DecisionRerequestCreated,
               rr_Generation := cb_ControllerGeneration b, rr_TargetID := cb_TargetID b,
               rr_JobID := cb_JobID b, rr_AttemptID := an_ID attempt \<rparr>)))"

text \<open>The processed record and the release of the lease that end every branch.\<close>

definition finishRerequest ::
  "(string \<Rightarrow> string) \<Rightarrow> RerequestInput \<Rightarrow> ControllerDB \<times> ReconcileResult
   \<Rightarrow> (ControllerDB \<times> ReconcileResult) result" where
  "finishRerequest sha i dr =
     rbind (insertProcessed sha (fst dr) (rq_Processed i) (snd dr)) (\<lambda>db2.
     rbind (releaseReconcileLease db2 (rq_Lease i)) (\<lambda>db3. Inr (db3, snd dr)))"

definition ApplyCheckRunRerequest ::
  "(string \<Rightarrow> string) \<Rightarrow> StoreConfig \<Rightarrow> ControllerDB \<Rightarrow> RerequestInput
   \<Rightarrow> (ControllerDB \<times> ReconcileResult) result" where
  "ApplyCheckRunRerequest sha s db i =
     (if rerequestRejected s i then Inl (storeErr ''record-invalid'' ''rerequest'')
      else rbind (checkProcessed db (rq_Processed i)) (\<lambda>done.
        case done of
          Some r \<Rightarrow> rbind (releaseReconcileLease db (rq_Lease i)) (\<lambda>db'. Inr (db', r))
        | None \<Rightarrow>
            (case map_of (db_bindings db)
                (sc_AppID s, crp_RepositoryID (rq_Projection i), crp_CheckRunID (rq_Projection i)) of
               None \<Rightarrow> finishRerequest sha i (db, emptyResult\<lparr> rr_Decision := DecisionRerequestIgnored \<rparr>)
             | Some b \<Rightarrow>
                 if cb_InstallationID b \<noteq> crp_InstallationID (rq_Projection i)
                   \<or> cb_ExternalID b \<noteq> crp_ExternalID (rq_Projection i)
                   \<or> cb_PullRequestNumber b \<noteq> pk_PullRequestNumber (rl_Key (rq_Lease i))
                 then Inl (storeErr ''check-binding-conflict'' ''rerequest'')
                 else if \<not> bindingCurrent db i b
                 then finishRerequest sha i (db, emptyResult\<lparr> rr_Decision := DecisionRerequestIgnored,
                   rr_Generation := cu_Generation (readCurrent db (rl_Key (rq_Lease i))),
                   rr_TargetID := cb_TargetID b, rr_JobID := cb_JobID b \<rparr>)
                 else rbind (rerequestAttempt sha s db b (rq_Now i)) (finishRerequest sha i))))"

section \<open>Source imports\<close>

definition claimable :: "int \<Rightarrow> SourceRow \<Rightarrow> bool" where
  "claimable now r \<longleftrightarrow> sr_State r = SourceStatePending
     \<or> sr_State r = SourceStateLeased \<and> (case sr_LeaseExpiresAt r of None \<Rightarrow> False | Some e \<Rightarrow> e \<le> now)"

text \<open>The candidates: the claimable rows in the order of their sequence, at most \<open>limit\<close> of them.\<close>

definition claimCandidates :: "ControllerDB \<Rightarrow> int \<Rightarrow> nat \<Rightarrow> SourceRow list" where
  "claimCandidates db now limit =
     take limit (slice_stable (\<lambda>a b. sr_Sequence a < sr_Sequence b) (filter (claimable now) (db_sources db)))"

definition claimedRequest :: "string \<Rightarrow> SourceRow \<Rightarrow> SourceImportRequest" where
  "claimedRequest owner r = (sr_Request r)\<lparr> sq_State := sr_State r, sq_LeaseOwner := owner,
     sq_LeaseGeneration := sr_LeaseGeneration r + 1 \<rparr>"

text \<open>The update of one candidate: it affects the row of its sequence while that is still claimable.\<close>

definition claimUpdate :: "string \<Rightarrow> int \<Rightarrow> int \<Rightarrow> SourceRow \<Rightarrow> SourceRow \<Rightarrow> SourceRow" where
  "claimUpdate owner now expires c r =
     (if sr_Sequence r = sr_Sequence c \<and> sr_LeaseGeneration r = sr_LeaseGeneration c \<and> claimable now r
      then r\<lparr> sr_State := SourceStateLeased, sr_LeaseOwner := owner,
        sr_LeaseGeneration := sr_LeaseGeneration c + 1, sr_LeaseExpiresAt := Some expires,
        sr_AttemptCount := sr_AttemptCount c + 1 \<rparr>
      else r)"

fun claimAll ::
  "string \<Rightarrow> int \<Rightarrow> int \<Rightarrow> SourceRow list \<Rightarrow> SourceRow list \<Rightarrow> SourceRow list \<times> SourceImportRequest list" where
  "claimAll owner now expires [] rows = (rows, [])"
| "claimAll owner now expires (c # cs) rows =
     (let n = length (filter (\<lambda>r. sr_Sequence r = sr_Sequence c
                \<and> sr_LeaseGeneration r = sr_LeaseGeneration c \<and> claimable now r) rows);
          (rows', out) = claimAll owner now expires cs (map (claimUpdate owner now expires c) rows)
      in (rows', if n = 1 then claimedRequest owner c # out else out))"

definition ClaimSourceImports ::
  "StoreConfig \<Rightarrow> ControllerDB \<Rightarrow> string \<Rightarrow> StoreTime \<Rightarrow> int \<Rightarrow> int
   \<Rightarrow> (ControllerDB \<times> SourceImportRequest list) result" where
  "ClaimSourceImports s db owner now duration limit =
     (if \<not> validID owner \<or> \<not> validTime now \<or> duration \<le> 0 \<or> duration > sm_SourceLeaseDuration (sc_Limits s)
        \<or> limit \<le> 0 \<or> limit > 100
      then Inl (storeErr ''source-state-invalid'' ''source-lease'')
      else let cands = claimCandidates db (formatTime now) (nat limit)
      in if list_ex (\<lambda>c. sr_LeaseGeneration c = MaxInt64 \<or> sr_AttemptCount c = MaxInt64) cands
         then Inl (storeErr ''source-lease-stale'' ''source-lease'')
         else let (rows, out) = claimAll owner (formatTime now) (formatTime (addTime now duration)) cands
                (db_sources db)
              in Inr (db\<lparr> db_sources := rows \<rparr>, out))"

definition finishSourceLease ::
  "ControllerDB \<Rightarrow> string \<Rightarrow> string \<Rightarrow> int \<Rightarrow> StoreTime \<Rightarrow> string \<Rightarrow> ControllerDB result" where
  "finishSourceLease db i owner generation time next =
     (if i = [] \<or> \<not> validID owner \<or> generation \<le> 0 \<or> \<not> validTime time
      then Inl (storeErr ''source-lease-stale'' ''source-lease'')
      else let hit = (\<lambda>r. sq_ID (sr_Request r) = i \<and> sr_LeaseOwner r = owner
                 \<and> sr_LeaseGeneration r = generation \<and> sr_State r = SourceStateLeased)
      in if length (filter hit (db_sources db)) \<noteq> 1
         then Inl (storeErr ''source-lease-stale'' ''source-lease'')
         else Inr (db\<lparr> db_sources := map (\<lambda>r. if hit r then r\<lparr> sr_State := next, sr_LeaseExpiresAt := None,
             sr_CompletedAt := (if next = SourceStateCompleted then Some (formatTime time) else None) \<rparr>
           else r) (db_sources db) \<rparr>))"

definition AcknowledgeSourceImport ::
  "ControllerDB \<Rightarrow> string \<Rightarrow> string \<Rightarrow> int \<Rightarrow> StoreTime \<Rightarrow> ControllerDB result" where
  "AcknowledgeSourceImport db i owner generation time =
     finishSourceLease db i owner generation time SourceStateCompleted"

definition ReleaseSourceImport ::
  "ControllerDB \<Rightarrow> string \<Rightarrow> string \<Rightarrow> int \<Rightarrow> StoreTime \<Rightarrow> ControllerDB result" where
  "ReleaseSourceImport db i owner generation time =
     finishSourceLease db i owner generation time SourceStatePending"

record SourceImportResult =
  si_RequestID :: string
  si_TargetID :: string
  si_JobID :: string
  si_Generation :: int
  si_BaseRepositoryID :: int
  si_HeadRepositoryID :: int
  si_BaseCommitID :: string
  si_HeadCommitID :: string
  si_SourceStoreID :: string
  si_MetadataDigest :: string
  si_ImportProfileVersion :: string
  si_ObjectFormat :: string
  si_BaseTreeID :: string
  si_HeadTreeID :: string
  si_Limitations :: "string list"
  si_Failed :: bool

definition limitationRejected :: "string \<Rightarrow> bool" where
  "limitationRejected lim \<longleftrightarrow> lim = [] \<or> length lim > 512 \<or> hasControl lim
     \<or> list_ex (contains_str (to_lower lim)) [''token'', ''secret'', ''http://'', ''https://'']
     \<or> contains_str lim ''/''"

definition validateSuccessfulSourceResult ::
  "(string list \<Rightarrow> string) \<Rightarrow> SourceImportResult \<Rightarrow> string result" where
  "validateSuccessfulSourceResult marshal r =
     (let rejected = Inl (storeErr ''record-invalid'' ''source-result'');
          wantLen = (if length (si_BaseCommitID r) = 64 then 64 else 40) in
      if \<not> has_prefix (si_SourceStoreID r) ''source-'' \<or> length (si_SourceStoreID r) \<noteq> 71
        \<or> \<not> isLowerHex (drop 7 (si_SourceStoreID r)) 64 then rejected
      else if \<not> has_prefix (si_MetadataDigest r) ''sha256:'' \<or> length (si_MetadataDigest r) \<noteq> 71
        \<or> \<not> isLowerHex (drop 7 (si_MetadataDigest r)) 64 then rejected
      else if si_ImportProfileVersion r \<noteq> SourceImportProfileSmartHTTPShallowV1Alpha1 then rejected
      else if \<not> (si_ObjectFormat r = ''sha1'' \<and> wantLen = 40 \<or> si_ObjectFormat r = ''sha256'' \<and> wantLen = 64)
      then rejected
      else if \<not> isLowerHex (si_BaseTreeID r) wantLen \<or> \<not> isLowerHex (si_HeadTreeID r) wantLen then rejected
      else if si_Limitations r = [] \<or> length (si_Limitations r) > 1000 then rejected
      else if list_ex limitationRejected (si_Limitations r) then rejected
      else if length (marshal (si_Limitations r)) > 65536 then rejected
      else Inr (marshal (si_Limitations r)))"

definition resultMatches :: "SourceRow \<Rightarrow> SourceImportResult \<Rightarrow> bool" where
  "resultMatches row r \<longleftrightarrow>
     sr_State row = SourceStateLeased \<and> sq_TargetID (sr_Request row) = si_TargetID r
     \<and> sq_JobID (sr_Request row) = si_JobID r \<and> sq_Generation (sr_Request row) = si_Generation r
     \<and> rh_RepositoryID (sq_Base (sr_Request row)) = si_BaseRepositoryID r
     \<and> rh_RepositoryID (sq_Head (sr_Request row)) = si_HeadRepositoryID r
     \<and> rh_CommitID (sq_Base (sr_Request row)) = si_BaseCommitID r
     \<and> rh_CommitID (sq_Head (sr_Request row)) = si_HeadCommitID r"

definition completeRequest :: "SourceImportResult \<Rightarrow> string \<Rightarrow> StoreTime \<Rightarrow> SourceRow \<Rightarrow> SourceRow" where
  "completeRequest r limitationsJSON time row =
     (if sq_ID (sr_Request row) = si_RequestID r
      then row\<lparr> sr_State := (if si_Failed r then SourceStateFailed else SourceStateCompleted),
        sr_CompletedAt := Some (formatTime time), sr_SourceStoreID := si_SourceStoreID r,
        sr_MetadataDigest := si_MetadataDigest r, sr_ImportProfileVersion := si_ImportProfileVersion r,
        sr_ObjectFormat := si_ObjectFormat r, sr_BaseTreeID := si_BaseTreeID r,
        sr_HeadTreeID := si_HeadTreeID r, sr_LimitationsJSON := limitationsJSON,
        sr_LeaseExpiresAt := None \<rparr>
      else row)"

definition ApplySourceImportResult ::
  "(string list \<Rightarrow> string) \<Rightarrow> ControllerDB \<Rightarrow> SourceImportResult \<Rightarrow> string \<Rightarrow> int \<Rightarrow> StoreTime
   \<Rightarrow> ControllerDB result" where
  "ApplySourceImportResult marshal db r owner leaseGeneration time =
     (if si_RequestID r = [] \<or> si_TargetID r = [] \<or> si_JobID r = [] \<or> si_Generation r \<le> 0
        \<or> si_BaseRepositoryID r \<le> 0 \<or> si_HeadRepositoryID r \<le> 0 \<or> \<not> validGitObjectID (si_BaseCommitID r)
        \<or> \<not> validGitObjectID (si_HeadCommitID r) \<or> \<not> validID owner \<or> leaseGeneration \<le> 0 \<or> \<not> validTime time
      then Inl (storeErr ''record-invalid'' ''source-result'')
      else rbind (if si_Failed r then Inr [] else validateSuccessfulSourceResult marshal r) (\<lambda>limitationsJSON.
        case List.find (\<lambda>row. sq_ID (sr_Request row) = si_RequestID r \<and> sr_LeaseOwner row = owner
            \<and> sr_LeaseGeneration row = leaseGeneration) (db_sources db) of
          None \<Rightarrow> Inl (storeErr ''source-lease-stale'' ''source-result'')
        | Some row \<Rightarrow>
            if \<not> resultMatches row r then Inl (storeErr ''record-invalid'' ''source-result'')
            else Inr (db\<lparr> db_sources := map (completeRequest r limitationsJSON time) (db_sources db),
              db_jobs := update_rows (\<lambda>k j. k = si_JobID r \<and> jr_Generation j = si_Generation r
                  \<and> jr_State j = JobStateImportingSource)
                (jr_State_update (\<lambda>_. if si_Failed r then JobStateFailed else JobStateAwaitingRunner))
                (db_jobs db) \<rparr>)))"

definition GetSourceImportRequest :: "ControllerDB \<Rightarrow> string \<Rightarrow> SourceImportRequest result" where
  "GetSourceImportRequest db i = (case List.find (\<lambda>r. sq_ID (sr_Request r) = i) (db_sources db) of
     None \<Rightarrow> Inl (storeErr ''record-invalid'' ''source'')
   | Some r \<Rightarrow> Inr ((sr_Request r)\<lparr> sq_State := sr_State r \<rparr>))"

definition GetJobState :: "ControllerDB \<Rightarrow> string \<Rightarrow> string result" where
  "GetJobState db jid = (case map_of (db_jobs db) jid of
     None \<Rightarrow> Inl (storeErr ''record-invalid'' ''job'') | Some j \<Rightarrow> Inr (jr_State j))"

section \<open>Worker results\<close>

definition ClassifyWorkerResult :: "ControllerDB \<Rightarrow> WorkerResult \<Rightarrow> string result" where
  "ClassifyWorkerResult db r =
     (if wr_AttemptID r = [] \<or> wr_JobID r = [] \<or> wr_TargetID r = [] \<or> wr_Generation r \<le> 0
      then Inl (storeErr ''record-invalid'' ''worker-result'')
      else if wr_RunnerTier r \<noteq> RunnerTierHardenedContainer \<and> wr_RunnerTier r \<noteq> RunnerTierMicroVM
      then Inr ''invalid-runner-tier''
      else (case map_of (db_attempts db) (wr_AttemptID r) of
          None \<Rightarrow> Inr ''unknown-attempt''
        | Some a \<Rightarrow>
            if ar_JobID a \<noteq> wr_JobID r \<or> ar_TargetID a \<noteq> wr_TargetID r then Inr ''unexpected-result''
            else if ar_Generation a \<noteq> wr_Generation r then Inr ''stale-generation''
            else if ar_State a = AttemptStateCancelled then Inr ''cancelled-attempt''
            else (case map_of (db_jobs db) (wr_JobID r) of
                None \<Rightarrow> Inl (storeErr ''transaction-failed'' ''worker-result'')
              | Some j \<Rightarrow> if jr_State j = JobStateSuperseded then Inr ''superseded-job''
                  else Inr ''unexpected-result'')))"

section \<open>Steps\<close>

text \<open>One committed transaction of the store.\<close>

inductive store_step ::
  "(string \<Rightarrow> string) \<Rightarrow> (string list \<Rightarrow> string) \<Rightarrow> StoreConfig \<Rightarrow> ControllerDB \<Rightarrow> ControllerDB \<Rightarrow> bool"
  for sha marshal s where
  acquire: "AcquireReconcileLease s db key owner now d = Inr (db', l) \<Longrightarrow> store_step sha marshal s db db'"
| recorded: "RecordProcessingDecision sha s db p decision t = Inr (db', r) \<Longrightarrow> store_step sha marshal s db db'"
| snapshot: "ApplyPullRequestSnapshot sha s db i = Inr (db', r) \<Longrightarrow> store_step sha marshal s db db'"
| hint: "ApplyInstallationHint sha s db h = Inr (db', r) \<Longrightarrow> store_step sha marshal s db db'"
| bind: "RegisterCheckBinding s db b = Inr db' \<Longrightarrow> store_step sha marshal s db db'"
| rerequest: "ApplyCheckRunRerequest sha s db q = Inr (db', r) \<Longrightarrow> store_step sha marshal s db db'"
| claim: "ClaimSourceImports s db owner now d n = Inr (db', reqs) \<Longrightarrow> store_step sha marshal s db db'"
| acknowledge: "AcknowledgeSourceImport db i owner g t = Inr db' \<Longrightarrow> store_step sha marshal s db db'"
| release: "ReleaseSourceImport db i owner g t = Inr db' \<Longrightarrow> store_step sha marshal s db db'"
| apply_result: "ApplySourceImportResult marshal db res owner g t = Inr db' \<Longrightarrow> store_step sha marshal s db db'"

definition store_reachable ::
  "(string \<Rightarrow> string) \<Rightarrow> (string list \<Rightarrow> string) \<Rightarrow> StoreConfig \<Rightarrow> ControllerDB \<Rightarrow> bool" where
  "store_reachable sha marshal s db \<longleftrightarrow> (store_step sha marshal s)\<^sup>*\<^sup>* emptyDB db"

end
