(* ===== verification/Controller_Facts.thy ===== *)
theory Controller_Facts
  imports ControllerOutbox
begin

text \<open>
  The invariant of the controller store and its preservation. \<open>store_inv\<close> relates the tables: every live
  job is the current job of the pull request its target names, every eligible pull request has such a job,
  every source request that is still open belongs to a job that is importing its source. A transaction that
  replaces the current job of a pull request first detaches it (\<open>detached\<close>) and then stores the new row.
\<close>

named_theorems table_simps \<open>lookups in changed tables\<close>

section \<open>Tables\<close>

lemma map_of_insert_row [table_simps]:
  "insert_row k v tbl = Some t \<longleftrightarrow> map_of tbl k = None \<and> t = tbl @ [(k, v)]"
  by (auto simp: insert_row_def)

lemma map_of_snoc [table_simps]:
  "map_of (tbl @ [(k, v)]) k' = (case map_of tbl k' of Some w \<Rightarrow> Some w | None \<Rightarrow> if k' = k then Some v else None)"
  by (simp add: map_add_def fun_upd_def split: option.splits)

lemma map_of_update_rows [table_simps]:
  "map_of (update_rows P f tbl) k = map_option (\<lambda>v. if P k v then f v else v) (map_of tbl k)"
  by (induction tbl) (auto simp: update_rows_def)

lemma keys_update_rows [simp]: "map fst (update_rows P f tbl) = map fst tbl"
  by (auto simp: update_rows_def)

lemma map_of_upsert_row [table_simps]: "map_of (upsert_row k v tbl) k' = (if k' = k then Some v else map_of tbl k')"
  by (simp add: upsert_row_def update_conv')

lemma distinct_upsert_row: "distinct (map fst tbl) \<Longrightarrow> distinct (map fst (upsert_row k v tbl))"
  by (simp add: upsert_row_def distinct_update)

section \<open>The invariant\<close>

definition targetPRKey :: "AnalysisTarget \<Rightarrow> PRKey" where
  "targetPRKey t = \<lparr> pk_InstallationID = at_InstallationID t, pk_BaseRepositoryID = at_BaseRepositoryID t,
     pk_PullRequestNumber = at_PullRequestNumber t \<rparr>"

definition jobKey :: "JobRow \<Rightarrow> PRKey" where
  "jobKey j = targetPRKey (aj_Target (jr_Job j))"

definition live_job :: "JobRow \<Rightarrow> bool" where
  "live_job j \<longleftrightarrow> \<not> jobTerminal (jr_State j)"

definition names :: "PRRow \<Rightarrow> string \<Rightarrow> JobRow \<Rightarrow> bool" where
  "names r jid j \<longleftrightarrow> pw_Eligibility r = PREligibilityEligible \<and> pw_JobID r = jid
     \<and> pw_Generation r = jr_Generation j \<and> pw_TargetID r = jr_TargetID j"

definition job_ok :: "ControllerDB \<Rightarrow> string \<Rightarrow> JobRow \<Rightarrow> bool" where
  "job_ok db jid j \<longleftrightarrow> (live_job j \<longrightarrow> (\<exists>r. map_of (db_prs db) (jobKey j) = Some r \<and> names r jid j))"

definition pr_ok :: "ControllerDB \<Rightarrow> PRKey \<Rightarrow> PRRow \<Rightarrow> bool" where
  "pr_ok db k r \<longleftrightarrow> 1 \<le> pw_Generation r
     \<and> (if pw_Eligibility r = PREligibilityEligible
        then \<exists>j. map_of (db_jobs db) (pw_JobID r) = Some j \<and> jobKey j = k \<and> names r (pw_JobID r) j
        else pw_JobID r = [] \<and> pw_TargetID r = [])"

definition open_request :: "SourceRow \<Rightarrow> bool" where
  "open_request r \<longleftrightarrow> sr_State r = SourceStatePending \<or> sr_State r = SourceStateLeased"

definition source_ok :: "ControllerDB \<Rightarrow> SourceRow \<Rightarrow> bool" where
  "source_ok db r \<longleftrightarrow> (\<exists>j. map_of (db_jobs db) (sq_JobID (sr_Request r)) = Some j
     \<and> jr_Generation j = sq_Generation (sr_Request r) \<and> jr_TargetID j = sq_TargetID (sr_Request r)
     \<and> (open_request r \<longrightarrow> jr_State j = JobStateImportingSource))"

definition tables_ok :: "ControllerDB \<Rightarrow> bool" where
  "tables_ok db \<longleftrightarrow> distinct (map fst (db_prs db)) \<and> map_of (db_jobs db) [] = None
     \<and> distinct (map sr_Sequence (db_sources db))
     \<and> distinct (map (sq_ID \<circ> sr_Request) (db_sources db))
     \<and> distinct (map (sq_JobID \<circ> sr_Request) (db_sources db))"

definition attempts_ok :: "ControllerDB \<Rightarrow> bool" where
  "attempts_ok db \<longleftrightarrow> distinct (map (\<lambda>(_, a). (ar_JobID a, ar_Number a)) (db_attempts db))
     \<and> (\<forall>(_, a)\<in>set (db_attempts db). 1 \<le> ar_Number a \<and> ar_Number a \<le> AbsoluteMaxAttemptsPerTarget)"

text \<open>The invariant with the row of \<open>K\<close> left open: no live job is for \<open>K\<close>.\<close>

definition detached :: "PRKey \<Rightarrow> ControllerDB \<Rightarrow> bool" where
  "detached K db \<longleftrightarrow> tables_ok db \<and> attempts_ok db
     \<and> (\<forall>jid j. map_of (db_jobs db) jid = Some j \<longrightarrow> job_ok db jid j \<and> (live_job j \<longrightarrow> jobKey j \<noteq> K))
     \<and> (\<forall>k r. map_of (db_prs db) k = Some r \<longrightarrow> k \<noteq> K \<longrightarrow> pr_ok db k r)
     \<and> (\<forall>r\<in>set (db_sources db). source_ok db r)"

definition store_inv :: "ControllerDB \<Rightarrow> bool" where
  "store_inv db \<longleftrightarrow> tables_ok db \<and> attempts_ok db
     \<and> (\<forall>jid j. map_of (db_jobs db) jid = Some j \<longrightarrow> job_ok db jid j)
     \<and> (\<forall>k r. map_of (db_prs db) k = Some r \<longrightarrow> pr_ok db k r)
     \<and> (\<forall>r\<in>set (db_sources db). source_ok db r)"

lemma store_inv_empty: "store_inv emptyDB"
  by (simp add: store_inv_def emptyDB_def tables_ok_def attempts_ok_def)

text \<open>The invariant speaks of four tables only.\<close>

lemma store_inv_cong:
  assumes "db_prs db' = db_prs db" "db_jobs db' = db_jobs db" "db_attempts db' = db_attempts db"
    "db_sources db' = db_sources db"
  shows "store_inv db' \<longleftrightarrow> store_inv db"
  using assms by (simp add: store_inv_def tables_ok_def attempts_ok_def job_ok_def pr_ok_def source_ok_def)

section \<open>Ending a job\<close>

lemma endJob_simps [simp]:
  "db_prs (endJob db jid js ss) = db_prs db"
  "db_processed (endJob db jid js ss) = db_processed db"
  "db_leases (endJob db jid js ss) = db_leases db"
  "db_bindings (endJob db jid js ss) = db_bindings db"
  by (simp_all add: endJob_def)

lemma map_of_endJob:
  "map_of (db_jobs (endJob db jid js ss)) k =
     map_option (\<lambda>j. if k = jid \<and> live_job j then j\<lparr> jr_State := js \<rparr> else j) (map_of (db_jobs db) k)"
  by (simp add: endJob_def table_simps live_job_def)

lemma attempts_ok_endJob: "attempts_ok db \<Longrightarrow> attempts_ok (endJob db jid js ss)"
proof -
  have "map (\<lambda>(_, a). (ar_JobID a, ar_Number a)) (update_rows P (ar_State_update f) xs)
      = map (\<lambda>(_, a). (ar_JobID a, ar_Number a)) xs" for P f and xs :: "(string \<times> AttemptRow) list"
    by (auto simp: update_rows_def)
  moreover assume "attempts_ok db"
  ultimately show ?thesis by (auto simp: attempts_ok_def endJob_def) (auto simp: update_rows_def split: if_splits)
qed

lemma tables_ok_endJob: "tables_ok db \<Longrightarrow> tables_ok (endJob db jid js ss)"
  by (auto simp: tables_ok_def map_of_endJob) (auto simp: endJob_def o_def if_distrib cong: if_cong)

lemma source_ok_endJob:
  assumes ok: "\<forall>r\<in>set (db_sources db). source_ok db r"
    and ss: "ss \<notin> {SourceStatePending, SourceStateLeased}"
  shows "\<forall>r\<in>set (db_sources (endJob db jid js ss)). source_ok (endJob db jid js ss) r"
proof
  fix r' assume "r' \<in> set (db_sources (endJob db jid js ss))"
  then obtain r where r: "r \<in> set (db_sources db)"
    and r': "r' = (if sq_JobID (sr_Request r) = jid \<and> open_request r then r\<lparr> sr_State := ss \<rparr> else r)"
    by (auto simp: endJob_def open_request_def)
  from r ok obtain j where "map_of (db_jobs db) (sq_JobID (sr_Request r)) = Some j"
    "jr_Generation j = sq_Generation (sr_Request r)" "jr_TargetID j = sq_TargetID (sr_Request r)"
    "open_request r \<longrightarrow> jr_State j = JobStateImportingSource"
    by (auto simp: source_ok_def)
  with ss show "source_ok (endJob db jid js ss) r'"
    by (auto simp: source_ok_def map_of_endJob r' open_request_def)
qed

lemma names_state [simp]: "names r jid (j\<lparr> jr_State := x \<rparr>) = names r jid j"
  by (simp add: names_def)

lemma jobKey_state [simp]: "jobKey (j\<lparr> jr_State := x \<rparr>) = jobKey j"
  by (simp add: jobKey_def)

lemma endJob_keeps:
  "map_of (db_jobs db) k = Some j \<Longrightarrow>
   \<exists>j'. map_of (db_jobs (endJob db jid js ss)) k = Some j' \<and> jobKey j' = jobKey j
     \<and> (\<forall>r x. names r x j' \<longleftrightarrow> names r x j)"
  by (auto simp: map_of_endJob)

lemma pr_ok_endJob: "pr_ok db k r \<Longrightarrow> pr_ok (endJob db jid js ss) k r"
  using endJob_keeps [of db "pw_JobID r" _ jid js ss] by (fastforce simp: pr_ok_def split: if_splits)

lemma live_job_current:
  assumes "store_inv db" "map_of (db_jobs db) jid = Some j" "live_job j"
  shows "cu_CurrentJobID (readCurrent db (jobKey j)) = jid"
    and "jid \<noteq> []"
proof -
  obtain r where "map_of (db_prs db) (jobKey j) = Some r" "names r jid j"
    using assms unfolding store_inv_def job_ok_def by blast
  then show "cu_CurrentJobID (readCurrent db (jobKey j)) = jid" by (simp add: readCurrent_def names_def)
  show "jid \<noteq> []" using assms by (auto simp: store_inv_def tables_ok_def simp del: map_of_eq_None_iff)
qed

lemma job_ok_detached:
  assumes inv: "store_inv db" and ended: "\<And>j. map_of (db_jobs db') jid = Some j \<Longrightarrow> live_job j \<Longrightarrow>
      map_of (db_jobs db) jid = Some j \<and> jid \<noteq> cu_CurrentJobID (readCurrent db K)"
    and prs: "db_prs db' = db_prs db" and j: "map_of (db_jobs db') jid = Some j"
  shows "job_ok db' jid j \<and> (live_job j \<longrightarrow> jobKey j \<noteq> K)"
  using assms live_job_current [OF inv, of jid j]
  by (auto simp: job_ok_def store_inv_def)

lemma detached_end:
  assumes inv: "store_inv db" and js: "jobTerminal js" and ss: "ss \<notin> {SourceStatePending, SourceStateLeased}"
    and jid: "jid = cu_CurrentJobID (readCurrent db K)"
  shows "detached K (if jid \<noteq> [] then endJob db jid js ss else db)"
proof (cases "jid = []")
  case True
  have "job_ok db x j \<and> (live_job j \<longrightarrow> jobKey j \<noteq> K)" if "map_of (db_jobs db) x = Some j" for x j
    using inv that True jid live_job_current(2) [OF inv that] by (intro job_ok_detached [OF inv]) auto
  with inv True show ?thesis by (auto simp: detached_def store_inv_def)
next
  case False
  have "job_ok (endJob db jid js ss) x j \<and> (live_job j \<longrightarrow> jobKey j \<noteq> K)"
    if "map_of (db_jobs (endJob db jid js ss)) x = Some j" for x j
    by (rule job_ok_detached [OF inv _ _ that])
      (use js in \<open>auto simp: map_of_endJob jid live_job_def dest: arg_cong [of _ _ jr_State] split: if_splits\<close>)
  moreover have "\<forall>r\<in>set (db_sources (endJob db jid js ss)). source_ok (endJob db jid js ss) r"
    using inv ss by (intro source_ok_endJob) (auto simp: store_inv_def)
  ultimately show ?thesis
    using inv False by (auto simp: detached_def store_inv_def tables_ok_endJob attempts_ok_endJob pr_ok_endJob)
qed

lemma detached_supersede: "store_inv db \<Longrightarrow> detached K (supersedeCurrent db (readCurrent db K))"
  using detached_end [of db JobStateSuperseded SourceStateSuperseded _ K]
  by (simp add: supersedeCurrent_def jobTerminal_def)

section \<open>Storing the row of a pull request\<close>

lemma attach_row:
  assumes det: "detached K db" and row: "pr_ok db K r"
    and named: "\<And>jid j. map_of (db_jobs db) jid = Some j \<Longrightarrow> live_job j \<Longrightarrow> jobKey j \<noteq> K"
  shows "store_inv (db\<lparr> db_prs := upsert_row K r (db_prs db) \<rparr>)"
  using assms
  by (auto simp: store_inv_def detached_def tables_ok_def attempts_ok_def job_ok_def pr_ok_def source_ok_def
      table_simps distinct_upsert_row)

lemma attach_ineligible:
  assumes "detached K db" "1 \<le> pw_Generation r" "pw_Eligibility r \<noteq> PREligibilityEligible" "pw_JobID r = []"
    "pw_TargetID r = []"
  shows "store_inv (db\<lparr> db_prs := upsert_row K r (db_prs db) \<rparr>)"
  using assms by (intro attach_row) (auto simp: pr_ok_def detached_def)

text \<open>What a successful insertion of a target with its job, attempt and source request adds.\<close>

definition newJobRow :: "AnalysisJob \<Rightarrow> StoreTime \<Rightarrow> JobRow" where
  "newJobRow job now = \<lparr> jr_TargetID = aj_TargetID job, jr_Generation = aj_Generation job,
     jr_State = JobStateImportingSource, jr_RequiredTiers = [RunnerTierHardenedContainer, RunnerTierMicroVM],
     jr_Job = job, jr_CreatedAt = formatTime now \<rparr>"

lemma insertAttemptE:
  assumes "insertAttempt db a now = Some db'"
  obtains row where "db' = db\<lparr> db_attempts := db_attempts db @ [(an_ID a, row)] \<rparr>"
    "ar_JobID row = an_JobID a" "ar_Number row = an_AttemptNumber a" "map_of (db_attempts db) (an_ID a) = None"
    "(an_JobID a, an_AttemptNumber a) \<notin> (\<lambda>(_, r). (ar_JobID r, ar_Number r)) ` set (db_attempts db)"
proof
  let ?row = "\<lparr> ar_JobID = an_JobID a, ar_TargetID = an_TargetID a, ar_Generation = an_Generation a,
    ar_Number = an_AttemptNumber a, ar_Reason = an_Reason a, ar_State = AttemptStateQueued,
    ar_CreatedAt = formatTime now \<rparr>"
  show "db' = db\<lparr> db_attempts := db_attempts db @ [(an_ID a, ?row)] \<rparr>"
    and "map_of (db_attempts db) (an_ID a) = None"
    and "(an_JobID a, an_AttemptNumber a) \<notin> (\<lambda>(_, r). (ar_JobID r, ar_Number r)) ` set (db_attempts db)"
    using assms by (auto simp: insertAttempt_def table_simps list_ex_iff split: if_splits)
qed simp_all

lemma attempts_ok_insert:
  assumes "insertAttempt db a now = Some db'" "attempts_ok db" "1 \<le> an_AttemptNumber a"
    "an_AttemptNumber a \<le> AbsoluteMaxAttemptsPerTarget"
  shows "attempts_ok db'"
  using assms by (elim insertAttemptE) (auto simp: attempts_ok_def)

lemma insertSourceRequestE:
  assumes "insertSourceRequest db req = Inr db'"
  obtains row where "db' = db\<lparr> db_sources := db_sources db @ [row] \<rparr>" "sr_Request row = req"
    "sr_State row = sq_State req" "sr_Sequence row = nextSequence (db_sources db)"
    "sq_ID req \<notin> (sq_ID \<circ> sr_Request) ` set (db_sources db)"
proof
  let ?row = "\<lparr> sr_Sequence = nextSequence (db_sources db),
    sr_Request = req, sr_State = sq_State req, sr_LeaseOwner = [], sr_LeaseGeneration = 0,
    sr_LeaseExpiresAt = None, sr_AttemptCount = 0, sr_CompletedAt = None, sr_SourceStoreID = [],
    sr_MetadataDigest = [], sr_ImportProfileVersion = [], sr_ObjectFormat = [], sr_BaseTreeID = [],
    sr_HeadTreeID = [], sr_LimitationsJSON = [] \<rparr>"
  show "db' = db\<lparr> db_sources := db_sources db @ [?row] \<rparr>"
    and "sq_ID req \<notin> (sq_ID \<circ> sr_Request) ` set (db_sources db)"
    using assms by (auto simp: insertSourceRequest_def result_simps list_ex_iff)
qed simp_all

lemma nextSequence_fresh: "r \<in> set rows \<Longrightarrow> sr_Sequence r \<noteq> nextSequence rows"
proof -
  have le: "n \<le> foldr max ns 0" if "n \<in> set ns" for n :: nat and ns
    using that by (induction ns) auto
  assume "r \<in> set rows"
  then have "sr_Sequence r \<le> foldr max (map sr_Sequence rows) 0" by (intro le) simp
  then show ?thesis by (simp add: nextSequence_def)
qed

text \<open>The tables after an insertion: a fresh job, a fresh attempt and a fresh request that is pending.\<close>

lemma insertTargetJobAttemptSourceE:
  assumes "insertTargetJobAttemptSource db target job attempt srcID snap now = Inr db'"
  obtains att req where "map_of (db_jobs db) (aj_ID job) = None"
    "db_jobs db' = db_jobs db @ [(aj_ID job, newJobRow job now)]" "db_prs db' = db_prs db"
    "db_processed db' = db_processed db" "db_leases db' = db_leases db" "db_bindings db' = db_bindings db"
    "insertAttempt db attempt now = Some (db\<lparr> db_attempts := db_attempts db' \<rparr>)"
    "db_attempts db' = db_attempts db @ [att]"
    "db_sources db' = db_sources db @ [req]" "sr_State req = SourceStatePending"
    "sq_JobID (sr_Request req) = aj_ID job" "sq_Generation (sr_Request req) = aj_Generation job"
    "sq_TargetID (sr_Request req) = aj_TargetID job"
    "sr_Sequence req \<notin> set (map sr_Sequence (db_sources db))"
    "sq_ID (sr_Request req) \<notin> (sq_ID \<circ> sr_Request) ` set (db_sources db)"
proof -
  define db1 where "db1 = db\<lparr> db_targets := insert_or_ignore (aj_TargetID job) (target, formatTime now)
    (db_targets db), db_jobs := db_jobs db @ [(aj_ID job, newJobRow job now)] \<rparr>"
  obtain db2 req where fresh: "map_of (db_jobs db) (aj_ID job) = None"
    and att: "insertAttempt db1 attempt now = Some db2" and src: "insertSourceRequest db2 req = Inr db'"
    and req: "sq_State req = SourceStatePending" "sq_JobID req = aj_ID job"
      "sq_Generation req = aj_Generation job" "sq_TargetID req = aj_TargetID job"
    using assms
    by (auto simp: insertTargetJobAttemptSource_def Let_def table_simps newJobRow_def db1_def
        split: option.splits)
  from att obtain row where db2: "db2 = db1\<lparr> db_attempts := db_attempts db1 @ [(an_ID attempt, row)] \<rparr>"
    by (elim insertAttemptE)
  have "insertAttempt db attempt now = Some (db\<lparr> db_attempts := db_attempts db2 \<rparr>)"
    using att by (auto simp: insertAttempt_def db1_def split: if_splits)
  with src req fresh nextSequence_fresh [of _ "db_sources db"] show thesis
    by (elim insertSourceRequestE) (rule that, auto simp: db2 db1_def)
qed

lemma attach_new_job:
  assumes det: "detached K db"
    and ins: "insertTargetJobAttemptSource db target job attempt srcID snap now = Inr db'"
    and key: "targetPRKey (aj_Target job) = K" and jid: "aj_ID job \<noteq> []"
    and num: "1 \<le> an_AttemptNumber attempt" "an_AttemptNumber attempt \<le> AbsoluteMaxAttemptsPerTarget"
    and row: "names r (aj_ID job) (newJobRow job now)" "1 \<le> pw_Generation r"
  shows "store_inv (db'\<lparr> db_prs := upsert_row K r (db_prs db') \<rparr>)"
proof -
  let ?new = "newJobRow job now" and ?db = "db'\<lparr> db_prs := upsert_row K r (db_prs db') \<rparr>"
  have jr: "jr_State ?new = JobStateImportingSource" "jobKey ?new = K" "jr_Generation ?new = aj_Generation job"
    "jr_TargetID ?new = aj_TargetID job"
    using key by (simp_all add: newJobRow_def jobKey_def)
  from ins obtain att req where fresh: "map_of (db_jobs db) (aj_ID job) = None"
    and jobs: "db_jobs db' = db_jobs db @ [(aj_ID job, ?new)]" and prs: "db_prs db' = db_prs db"
    and att: "insertAttempt db attempt now = Some (db\<lparr> db_attempts := db_attempts db' \<rparr>)"
    and sources: "db_sources db' = db_sources db @ [req]"
    and req: "sr_State req = SourceStatePending" "sq_JobID (sr_Request req) = aj_ID job"
      "sq_Generation (sr_Request req) = aj_Generation job" "sq_TargetID (sr_Request req) = aj_TargetID job"
    and ids: "sr_Sequence req \<notin> set (map sr_Sequence (db_sources db))"
      "sq_ID (sr_Request req) \<notin> (sq_ID \<circ> sr_Request) ` set (db_sources db)"
    by (rule insertTargetJobAttemptSourceE)
  have look: "map_of (db_jobs db') x = (if x = aj_ID job then Some ?new else map_of (db_jobs db) x)" for x
    using fresh by (simp add: jobs map_add_def split: option.splits)
  have old_src: "source_ok ?db q \<and> sq_JobID (sr_Request q) \<noteq> aj_ID job" if "q \<in> set (db_sources db)" for q
    using det that fresh by (auto simp: detached_def source_ok_def look simp del: map_of_eq_None_iff)
  have "aj_ID job \<notin> (sq_JobID \<circ> sr_Request) ` set (db_sources db)"
    using old_src by fastforce
  then have "tables_ok ?db"
    using det ids jid req by (auto simp: detached_def tables_ok_def look sources prs distinct_upsert_row)
  moreover have "attempts_ok ?db"
    using det attempts_ok_insert [OF att _ num] by (simp add: detached_def attempts_ok_def)
  moreover have "job_ok ?db x j" if "map_of (db_jobs ?db) x = Some j" for x j
    using det that row(1) by (auto simp: detached_def job_ok_def look prs table_simps jr split: if_splits)
  moreover have "pr_ok ?db k q" if "map_of (db_prs ?db) k = Some q" for k q
  proof (cases "k = K")
    case True
    with that row jr show ?thesis by (auto simp: pr_ok_def prs table_simps look names_def)
  next
    case False
    with that det have "pr_ok db k q" by (auto simp: detached_def prs table_simps)
    with fresh show ?thesis by (auto simp: pr_ok_def look simp del: map_of_eq_None_iff split: if_splits)
  qed
  moreover have "source_ok ?db req"
    using jr req by (simp add: source_ok_def look)
  then have "source_ok ?db q" if "q \<in> set (db_sources ?db)" for q
    using that old_src by (auto simp: sources)
  ultimately show ?thesis by (simp add: store_inv_def)
qed

section \<open>Operations on pull requests\<close>

lemma NewAnalysisJobE:
  assumes "NewAnalysisJob sha target gen profile tier = Inr job"
  obtains "targetID sha target = Inr (aj_TargetID job)" "aj_Target job = target" "aj_Generation job = gen"
    "1 \<le> gen" "aj_ID job \<noteq> []"
  using assms by (auto simp: NewAnalysisJob_def result_simps prefixedID_def)

lemma NewAnalysisAttemptE:
  assumes "NewAnalysisAttempt sha job n reason = Inr a"
  obtains "an_JobID a = aj_ID job" "an_AttemptNumber a = n" "1 \<le> n" "n \<le> AbsoluteMaxAttemptsPerTarget"
    "an_TargetID a = aj_TargetID job" "an_Generation a = aj_Generation job"
  using assms by (auto simp: NewAnalysisAttempt_def result_simps)

lemma mapError_Inr [result_simps]: "mapError e r = Inr x \<longleftrightarrow> r = Inr x"
  by (auto simp: mapError_def split: sum.splits)

lemma inv_generation: "store_inv db \<Longrightarrow> 0 \<le> cu_Generation (readCurrent db K)"
  by (auto simp: store_inv_def pr_ok_def readCurrent_def simp del: map_of_eq_None_iff split: option.splits) force

lemma detached_same:
  assumes inv: "store_inv db" and "cu_Eligibility (readCurrent db K) \<noteq> PREligibilityEligible"
  shows "detached K db"
proof -
  have "cu_CurrentJobID (readCurrent db K) = []"
    using assms by (auto simp: readCurrent_def store_inv_def pr_ok_def split: option.splits)
  then show ?thesis
    using detached_end [OF inv _ _ refl, of JobStateSuperseded SourceStateSuperseded K]
    by (simp add: jobTerminal_def)
qed

lemma mark_detached:
  assumes mark: "markIneligible db (readCurrent db K) e = Inr (db2, res)" and inv: "store_inv db"
    and e: "e \<noteq> PREligibilityEligible"
  shows "detached K db2" and "1 \<le> rr_Generation res" and "rr_Eligibility res = e" and "rr_JobID res = []"
    and "rr_TargetID res = []"
proof -
  let ?cur = "readCurrent db K"
  have "db2 = supersedeCurrent db ?cur \<and> rr_Generation res = cu_Generation ?cur + 1
      \<or> db2 = db \<and> rr_Generation res = cu_Generation ?cur \<and> cu_Generation ?cur \<noteq> 0 \<and> cu_Eligibility ?cur = e"
    using mark by (auto simp: markIneligible_def Let_def emptyResult_def result_simps split: if_splits)
  then show "detached K db2" and "1 \<le> rr_Generation res"
    using inv_generation [OF inv, of K] detached_supersede [OF inv] detached_same [OF inv] e by auto
  show "rr_Eligibility res = e" and "rr_JobID res = []" and "rr_TargetID res = []"
    using mark by (auto simp: markIneligible_def Let_def emptyResult_def result_simps split: if_splits)
qed

lemma reconcile_inv:
  assumes inv: "store_inv db" and rec: "reconcileSnapshot sha db K snap now = Inr (db', res)"
    and key: "targetPRKey (snapshotTarget K snap) = K"
  shows "store_inv db'"
proof (cases "eligibilityFor snap = PREligibilityEligible")
  case True
  let ?cur = "readCurrent db K" and ?target = "snapshotTarget K snap"
  from rec True obtain tid where tid: "targetID sha ?target = Inr tid"
    and cases: "db' = db \<or> (\<exists>db2. scheduleTarget sha db ?cur ?target tid snap now = Inr (db2, res)
      \<and> db' = storeCurrent db2 K snap now res)"
    by (auto simp: reconcileSnapshot_def Let_def result_simps split: if_splits)
  show ?thesis
  proof (cases "db' = db")
    case False
    with cases obtain db2 job attempt where
      job: "NewAnalysisJob sha ?target (cu_Generation ?cur + 1) ControllerProfileAdvisoryV1Alpha1
        RunnerTierHardenedContainer = Inr job"
      and att: "NewAnalysisAttempt sha job 1 AttemptReasonInitial = Inr attempt"
      and ins: "insertTargetJobAttemptSource (supersedeCurrent db ?cur) ?target job attempt
        (sourceRequestID sha tid (aj_ID job) (cu_Generation ?cur + 1)) snap now = Inr db2"
      and res: "rr_Generation res = cu_Generation ?cur + 1" "rr_TargetID res = tid" "rr_JobID res = aj_ID job"
        "rr_Eligibility res = PREligibilityEligible"
      and db': "db' = storeCurrent db2 K snap now res"
      by (auto simp: scheduleTarget_def Let_def result_simps)
    from job tid key have facts: "aj_TargetID job = tid" "targetPRKey (aj_Target job) = K"
      "aj_Generation job = cu_Generation ?cur + 1" "aj_ID job \<noteq> []" by (auto elim!: NewAnalysisJobE)
    from att have num: "1 \<le> an_AttemptNumber attempt" "an_AttemptNumber attempt \<le> AbsoluteMaxAttemptsPerTarget"
      by (auto elim!: NewAnalysisAttemptE)
    show ?thesis
      unfolding db' storeCurrent_def
      by (rule attach_new_job [OF detached_supersede [OF inv] ins facts(2,4) num])
        (simp_all add: names_def newJobRow_def res facts inv_generation [OF inv])
  qed (use inv in simp)
next
  case False
  with rec obtain db2 where mark: "markIneligible db (readCurrent db K) (eligibilityFor snap) = Inr (db2, res)"
    and db': "db' = storeCurrent db2 K snap now res"
    by (auto simp: reconcileSnapshot_def Let_def result_simps)
  from mark inv have det: "detached K db2" and gen: "1 \<le> rr_Generation res"
    and row: "rr_Eligibility res = eligibilityFor snap" "rr_JobID res = []" "rr_TargetID res = []"
    using False by (auto dest: mark_detached)
  show ?thesis
    unfolding db' storeCurrent_def using det by (rule attach_ineligible) (simp_all add: gen row False)
qed

lemma insertProcessedE:
  assumes "insertProcessed sha db p r = Inr db'"
  obtains row where "db' = db\<lparr> db_processed := db_processed db @ [((pz_ReceiverID p, pz_OutboxID p), row)] \<rparr>"
    "zr_ProjectionDigest row = pz_ProjectionDigest p" "map_of (db_processed db) (pz_ReceiverID p, pz_OutboxID p) = None"
  using assms by (auto simp: insertProcessed_def table_simps split: option.splits)

lemma insertProcessed_inv: "insertProcessed sha db p r = Inr db' \<Longrightarrow> store_inv db' \<longleftrightarrow> store_inv db"
  by (elim insertProcessedE) (rule store_inv_cong, simp_all)

lemma release_inv: "releaseReconcileLease db l = Inr db' \<Longrightarrow> store_inv db' \<longleftrightarrow> store_inv db"
  by (rule store_inv_cong) (auto simp: releaseReconcileLease_def split: if_splits)

lemma snapshotTarget_key:
  assumes "store_validateInput s i = None"
  shows "targetPRKey (snapshotTarget (rl_Key (ri_Lease i)) (ri_Snapshot i)) = rl_Key (ri_Lease i)"
  using assms by (auto simp: store_validateInput_def targetPRKey_def snapshotTarget_def result_simps)

lemma ApplyPullRequestSnapshot_cases:
  assumes "ApplyPullRequestSnapshot sha s db i = Inr (db', r)"
  obtains (duplicate) "checkProcessed db (ri_Processed i) = Inr (Some r)"
      "releaseReconcileLease db (ri_Lease i) = Inr db'"
  | (fresh) db1 db2 where "checkProcessed db (ri_Processed i) = Inr None" "store_validateInput s i = None"
      "reconcileSnapshot sha db (rl_Key (ri_Lease i)) (ri_Snapshot i) (ri_Now i) = Inr (db1, r)"
      "insertProcessed sha db1 (ri_Processed i) r = Inr db2" "releaseReconcileLease db2 (ri_Lease i) = Inr db'"
proof -
  from assms obtain d where v: "store_validateInput s i = None" "checkProcessed db (ri_Processed i) = Inr d"
    and k: "(case d of Some r \<Rightarrow> rbind (releaseReconcileLease db (ri_Lease i)) (\<lambda>db'. Inr (db', r))
      | None \<Rightarrow> rbind (reconcileSnapshot sha db (rl_Key (ri_Lease i)) (ri_Snapshot i) (ri_Now i)) (\<lambda>(db1, res).
          rbind (insertProcessed sha db1 (ri_Processed i) res) (\<lambda>db2.
          rbind (releaseReconcileLease db2 (ri_Lease i)) (\<lambda>db3. Inr (db3, res))))) = Inr (db', r)"
    unfolding ApplyPullRequestSnapshot_def rcheck_eq_Inr rbind_eq_Inr by blast
  show thesis
  proof (cases d)
    case None
    with k v show thesis by (auto simp: rbind_eq_Inr intro: fresh)
  next
    case (Some r0)
    with k v show thesis by (auto simp: rbind_eq_Inr intro: duplicate)
  qed
qed

lemma ApplyPullRequestSnapshot_inv:
  assumes "store_inv db" "ApplyPullRequestSnapshot sha s db i = Inr (db', r)"
  shows "store_inv db'"
  using assms(2)
proof (cases rule: ApplyPullRequestSnapshot_cases)
  case duplicate
  with assms(1) show ?thesis by (simp add: release_inv)
next
  case (fresh db1 db2)
  with assms(1) show ?thesis
    using reconcile_inv snapshotTarget_key by (blast dest: release_inv insertProcessed_inv)
qed

section \<open>Installation hints\<close>

text \<open>Blocking a row replaces it by an ineligible one and cancels its job.\<close>

definition blockedRow :: "int \<Rightarrow> PRRow \<Rightarrow> PRRow" where
  "blockedRow now r = r\<lparr> pw_Generation := pw_Generation r + 1,
     pw_Eligibility := PREligibilityInstallationBlocked, pw_TargetID := [], pw_JobID := [], pw_UpdatedAt := now \<rparr>"

lemma blockRow_prs:
  assumes "map_of (db_prs db) k = Some r"
  shows "map_of (db_prs (blockRow now db (k, r))) x = (if x = k then Some (blockedRow now r) else map_of (db_prs db) x)"
  using assms by (auto simp: blockRow_def Let_def cancelCurrentJob_def table_simps blockedRow_def option.map_ident)

lemma store_inv_prs_cong:
  assumes "distinct (map fst (db_prs db'))" "map_of (db_prs db') = map_of (db_prs db)" "db_jobs db' = db_jobs db"
    "db_attempts db' = db_attempts db" "db_sources db' = db_sources db" "store_inv db"
  shows "store_inv db'"
  using assms
  by (simp add: store_inv_def tables_ok_def attempts_ok_def job_ok_def pr_ok_def source_ok_def
      del: map_of_eq_Some_iff)

lemma blockRow_inv:
  assumes inv: "store_inv db" and row: "map_of (db_prs db) k = Some r"
  shows "store_inv (blockRow now db (k, r))"
proof -
  let ?db1 = "if pw_JobID r \<noteq> [] then cancelCurrentJob db (pw_JobID r) else db"
  have cur: "cu_CurrentJobID (readCurrent db k) = pw_JobID r" and gen: "1 \<le> pw_Generation r"
    using row inv by (auto simp: readCurrent_def store_inv_def pr_ok_def simp del: map_of_eq_None_iff)
  have det: "detached k ?db1"
    using detached_end [OF inv _ _ refl, of JobStateCancelled SourceStateCancelled k] cur
    by (simp add: jobTerminal_def cancelCurrentJob_def split: if_splits)
  let ?db2 = "?db1\<lparr> db_prs := upsert_row k (blockedRow now r) (db_prs ?db1) \<rparr>"
  have "store_inv ?db2"
    using det by (rule attach_ineligible) (use gen in \<open>simp_all add: blockedRow_def\<close>)
  moreover have "map_of (db_prs (blockRow now db (k, r))) = map_of (db_prs ?db2)"
    by (rule ext) (simp add: blockRow_prs [OF row] table_simps cancelCurrentJob_def)
  ultimately show ?thesis
    using inv by (elim store_inv_prs_cong [rotated 5])
      (auto simp: blockRow_def Let_def cancelCurrentJob_def store_inv_def tables_ok_def)
qed

lemma blockRows_inv:
  assumes "blockRows now rows db = Inr db'" "store_inv db" "distinct (map fst rows)"
    "\<forall>(k, r)\<in>set rows. map_of (db_prs db) k = Some r"
  shows "store_inv db'"
  using assms
proof (induction now rows db rule: blockRows.induct)
  case (2 now kr rest db)
  obtain k r where kr: "kr = (k, r)" by fastforce
  with "2.prems" have row: "map_of (db_prs db) k = Some r" by simp
  have "\<forall>(k', r')\<in>set rest. map_of (db_prs (blockRow now db kr)) k' = Some r'"
    using "2.prems" by (force simp: kr blockRow_prs [OF row])
  then show ?case
    using "2.prems" "2.IH" blockRow_inv [OF _ row] by (auto simp: result_simps kr)
qed simp

lemma ApplyInstallationHint_cases:
  assumes "ApplyInstallationHint sha s db i = Inr (db', r)"
  obtains (duplicate) "checkProcessed db (ih_Processed i) = Inr (Some r)" "db' = db"
  | (fresh) rows db1 where "checkProcessed db (ih_Processed i) = Inr None"
      "rows = [] \<or> rows = rowsToBlock db (ih_Projection i)"
      "blockRows (formatTime (ih_Now i)) rows db = Inr db1" "insertProcessed sha db1 (ih_Processed i) r = Inr db'"
proof -
  from assms obtain d where c: "checkProcessed db (ih_Processed i) = Inr d"
    and k: "(case d of Some r \<Rightarrow> Inr (db, r)
      | None \<Rightarrow> let rows = (if installationHintInvalidates (ih_Projection i) then rowsToBlock db (ih_Projection i) else [])
          in rbind (blockRows (formatTime (ih_Now i)) rows db) (\<lambda>db1.
             let res = emptyResult\<lparr> rr_Decision :=
                   (if rows \<noteq> [] then DecisionInstallationBlocked else DecisionInstallationHintRecorded) \<rparr>
             in rbind (insertProcessed sha db1 (ih_Processed i) res) (\<lambda>db2. Inr (db2, res)))) = Inr (db', r)"
    unfolding ApplyInstallationHint_def rbind_eq_Inr if_Inl_eq_Inr by blast
  show thesis
  proof (cases d)
    case None
    let ?rows = "if installationHintInvalidates (ih_Projection i) then rowsToBlock db (ih_Projection i) else []"
    from k None obtain db1 where "blockRows (formatTime (ih_Now i)) ?rows db = Inr db1"
      "insertProcessed sha db1 (ih_Processed i) r = Inr db'"
      unfolding Let_def by (auto simp only: option.case rbind_eq_Inr prod.inject sum.inject)
    with c None show thesis by (intro fresh [of ?rows db1]) simp_all
  next
    case (Some r0)
    with k c show thesis by (auto intro: duplicate)
  qed
qed

lemma ApplyInstallationHint_inv:
  assumes "store_inv db" "ApplyInstallationHint sha s db i = Inr (db', r)"
  shows "store_inv db'"
  using assms(2)
proof (cases rule: ApplyInstallationHint_cases)
  case duplicate
  with assms(1) show ?thesis by simp
next
  case (fresh rows db1)
  have "distinct (map fst rows)" "\<forall>(k, r)\<in>set rows. map_of (db_prs db) k = Some r"
    using fresh(2) assms(1) by (auto simp: store_inv_def tables_ok_def rowsToBlock_def distinct_map_filter)
  with fresh assms(1) show ?thesis by (blast dest: blockRows_inv insertProcessed_inv)
qed

section \<open>Source imports and rerequests\<close>

text \<open>An operation that changes only the rows of source requests and keeps what the invariant says of them.\<close>

lemma sources_inv:
  assumes inv: "store_inv db"
    and tables: "db_prs db' = db_prs db" "db_jobs db' = db_jobs db" "db_attempts db' = db_attempts db"
    and rows: "db_sources db' = map f (db_sources db)"
    and f: "\<And>r. r \<in> set (db_sources db) \<Longrightarrow> sr_Request (f r) = sr_Request r \<and> sr_Sequence (f r) = sr_Sequence r
      \<and> (open_request (f r) \<longrightarrow> open_request r)"
  shows "store_inv db'"
proof -
  have "map sr_Sequence (db_sources db') = map sr_Sequence (db_sources db)"
    "map (sq_ID \<circ> sr_Request) (db_sources db') = map (sq_ID \<circ> sr_Request) (db_sources db)"
    "map (sq_JobID \<circ> sr_Request) (db_sources db') = map (sq_JobID \<circ> sr_Request) (db_sources db)"
    using f by (simp_all add: rows)
  moreover have "source_ok db' q" if "q \<in> set (db_sources db')" for q
    using that inv f by (fastforce simp: rows store_inv_def source_ok_def tables)
  ultimately show ?thesis
    using inv tables
    by (simp add: store_inv_def tables_ok_def attempts_ok_def job_ok_def pr_ok_def del: map_of_eq_Some_iff)
qed

lemma claimAll_map:
  assumes "claimAll owner now expires cs rows = (rows', out)"
  shows "\<exists>f. rows' = map f rows \<and> (\<forall>r. sr_Request (f r) = sr_Request r \<and> sr_Sequence (f r) = sr_Sequence r
    \<and> (open_request (f r) \<longrightarrow> open_request r))"
  using assms
proof (induction owner now expires cs rows arbitrary: rows' out rule: claimAll.induct)
  case (1 owner now expires rows)
  then show ?case by (intro exI [of _ id]) simp
next
  case (2 owner now expires c cs rows)
  let ?u = "claimUpdate owner now expires c"
  obtain out' where "claimAll owner now expires cs (map ?u rows) = (rows', out')"
    using "2.prems" by (auto simp: Let_def split: prod.splits)
  then obtain f where "rows' = map f (map ?u rows)"
    and "\<forall>r. sr_Request (f r) = sr_Request r \<and> sr_Sequence (f r) = sr_Sequence r \<and> (open_request (f r) \<longrightarrow> open_request r)"
    using "2.IH" [OF refl] by blast
  then show ?case
    by (intro exI [of _ "f \<circ> ?u"]) (auto simp: claimUpdate_def claimable_def open_request_def)
qed

lemma ClaimSourceImports_inv:
  assumes "store_inv db" "ClaimSourceImports s db owner now d n = Inr (db', reqs)"
  shows "store_inv db'"
proof -
  from assms(2) obtain cs rows where "claimAll owner (formatTime now) (formatTime (addTime now d)) cs
      (db_sources db) = (rows, reqs)" and db': "db' = db\<lparr> db_sources := rows \<rparr>"
    by (auto simp: ClaimSourceImports_def Let_def result_simps split: prod.splits)
  from claimAll_map [OF this(1)] assms(1) show ?thesis
    unfolding db' by (elim exE) (rule sources_inv, auto)
qed

lemma finishSourceLease_inv:
  assumes "store_inv db" "finishSourceLease db i owner g t next = Inr db'"
  shows "store_inv db'"
proof -
  let ?hit = "\<lambda>r. sq_ID (sr_Request r) = i \<and> sr_LeaseOwner r = owner \<and> sr_LeaseGeneration r = g
    \<and> sr_State r = SourceStateLeased"
  define f where "f r = (if ?hit r then r\<lparr> sr_State := next, sr_LeaseExpiresAt := None,
      sr_CompletedAt := (if next = SourceStateCompleted then Some (formatTime t) else None) \<rparr> else r)" for r :: SourceRow
  have "db' = db\<lparr> db_sources := map f (db_sources db) \<rparr>"
    using assms(2) by (simp add: finishSourceLease_def Let_def result_simps f_def [abs_def])
  with assms(1) show ?thesis
    by (intro sources_inv [of db db' f]) (simp_all add: f_def open_request_def)
qed

lemma ApplySourceImportResultE:
  assumes "ApplySourceImportResult marshal db r owner g t = Inr db'"
  obtains row lims where "row \<in> set (db_sources db)" "sq_ID (sr_Request row) = si_RequestID r"
    "sr_LeaseOwner row = owner" "sr_LeaseGeneration row = g" "resultMatches row r"
    "db' = db\<lparr> db_sources := map (completeRequest r lims t) (db_sources db),
       db_jobs := update_rows (\<lambda>k j. k = si_JobID r \<and> jr_Generation j = si_Generation r
           \<and> jr_State j = JobStateImportingSource)
         (jr_State_update (\<lambda>_. if si_Failed r then JobStateFailed else JobStateAwaitingRunner)) (db_jobs db) \<rparr>"
proof -
  let ?P = "\<lambda>row. sq_ID (sr_Request row) = si_RequestID r \<and> sr_LeaseOwner row = owner \<and> sr_LeaseGeneration row = g"
  from assms obtain lims where k: "(case List.find ?P (db_sources db) of
       None \<Rightarrow> Inl (storeErr ''source-lease-stale'' ''source-result'')
     | Some row \<Rightarrow>
         if \<not> resultMatches row r then Inl (storeErr ''record-invalid'' ''source-result'')
         else Inr (db\<lparr> db_sources := map (completeRequest r lims t) (db_sources db),
           db_jobs := update_rows (\<lambda>k j. k = si_JobID r \<and> jr_Generation j = si_Generation r
               \<and> jr_State j = JobStateImportingSource)
             (jr_State_update (\<lambda>_. if si_Failed r then JobStateFailed else JobStateAwaitingRunner)) (db_jobs db) \<rparr>)) = Inr db'"
    unfolding ApplySourceImportResult_def rbind_eq_Inr if_Inl_eq_Inr by blast
  then obtain row where row: "List.find ?P (db_sources db) = Some row" by (cases "List.find ?P (db_sources db)") auto
  with k show thesis
    by (intro that [of row lims]) (auto simp: find_Some_iff result_simps)
qed

lemma ApplySourceImportResult_inv:
  assumes inv: "store_inv db" and app: "ApplySourceImportResult marshal db r owner g t = Inr db'"
  shows "store_inv db'"
proof -
  let ?st = "if si_Failed r then JobStateFailed else JobStateAwaitingRunner"
  let ?P = "\<lambda>k j. k = si_JobID r \<and> jr_Generation j = si_Generation r \<and> jr_State j = JobStateImportingSource"
  from app obtain row lims where row: "row \<in> set (db_sources db)" "sq_ID (sr_Request row) = si_RequestID r"
      "resultMatches row r"
    and db': "db' = db\<lparr> db_sources := map (completeRequest r lims t) (db_sources db),
      db_jobs := update_rows ?P (jr_State_update (\<lambda>_. ?st)) (db_jobs db) \<rparr>"
    by (rule ApplySourceImportResultE)
  have look: "map_of (db_jobs db') x = map_option (\<lambda>j. if ?P x j then j\<lparr> jr_State := ?st \<rparr> else j) (map_of (db_jobs db) x)" for x
    by (simp add: db' table_simps)
  have tabs: "tables_ok db" "attempts_ok db" using inv by (simp_all add: store_inv_def)
  have same_job: "q = row" if "q \<in> set (db_sources db)" "sq_JobID (sr_Request q) = si_JobID r" for q
    using tabs row that by (auto simp: tables_ok_def resultMatches_def distinct_map inj_on_def)
  have keep: "sr_Request (completeRequest r lims t q) = sr_Request q" "sr_Sequence (completeRequest r lims t q) = sr_Sequence q"
    for q by (simp_all add: completeRequest_def)
  have "tables_ok db'" using tabs by (simp add: tables_ok_def look keep o_def db' table_simps)
  moreover have "attempts_ok db'" using tabs by (simp add: attempts_ok_def db')
  moreover have "job_ok db' x j" if "map_of (db_jobs db') x = Some j" for x j
  proof -
    from that obtain j0 where "map_of (db_jobs db) x = Some j0" "jobKey j = jobKey j0"
      "\<forall>q. names q x j = names q x j0" "live_job j \<longrightarrow> live_job j0"
      by (auto simp: look live_job_def jobTerminal_def split: if_splits)
    with inv show ?thesis by (auto simp: store_inv_def job_ok_def db' simp del: map_of_eq_Some_iff)
  qed
  moreover have "pr_ok db' k q" if "map_of (db_prs db') k = Some q" for k q
  proof -
    from that inv have "pr_ok db k q" by (simp add: store_inv_def db' del: map_of_eq_Some_iff)
    moreover have "\<exists>j'. map_of (db_jobs db') x = Some j' \<and> jobKey j' = jobKey j \<and> (\<forall>q. names q x j' = names q x j)"
      if "map_of (db_jobs db) x = Some j" for x j
      using that by (auto simp: look)
    ultimately show ?thesis by (fastforce simp: pr_ok_def split: if_splits)
  qed
  moreover have "source_ok db' (completeRequest r lims t q)" if q: "q \<in> set (db_sources db)" for q
  proof -
    from inv q obtain j where "map_of (db_jobs db) (sq_JobID (sr_Request q)) = Some j"
      "jr_Generation j = sq_Generation (sr_Request q)" "jr_TargetID j = sq_TargetID (sr_Request q)"
      "open_request q \<longrightarrow> jr_State j = JobStateImportingSource"
      by (auto simp: store_inv_def source_ok_def)
    moreover have "\<not> open_request (completeRequest r lims t q)" if "sq_JobID (sr_Request q) = si_JobID r"
      using same_job [OF q that] row by (simp add: completeRequest_def open_request_def)
    moreover have "open_request (completeRequest r lims t q) \<longrightarrow> open_request q"
      by (simp add: completeRequest_def open_request_def)
    ultimately show ?thesis by (auto simp: source_ok_def keep look)
  qed
  then have "\<forall>q\<in>set (db_sources db'). source_ok db' q" by (simp add: db')
  ultimately show ?thesis by (simp add: store_inv_def)
qed

lemma insertAttempt_inv:
  assumes "store_inv db" "insertAttempt db a now = Some db'" "1 \<le> an_AttemptNumber a"
    "an_AttemptNumber a \<le> AbsoluteMaxAttemptsPerTarget"
  shows "store_inv db'"
proof -
  from assms(2) obtain row where "db' = db\<lparr> db_attempts := db_attempts db @ [(an_ID a, row)] \<rparr>"
    by (rule insertAttemptE)
  then have "db_prs db' = db_prs db" "db_jobs db' = db_jobs db" "db_sources db' = db_sources db" by simp_all
  with assms(1) attempts_ok_insert [OF assms(2) _ assms(3,4)] show ?thesis
    by (simp add: store_inv_def tables_ok_def job_ok_def pr_ok_def source_ok_def del: map_of_eq_Some_iff)
qed

lemma rerequestAttemptE:
  assumes "rerequestAttempt sha s db b now = Inr (db', r)"
  obtains a where "insertAttempt db a now = Some db'" "1 \<le> an_AttemptNumber a"
    "an_AttemptNumber a \<le> AbsoluteMaxAttemptsPerTarget" "an_AttemptNumber a \<le> sm_MaxAttemptsPerJob (sc_Limits s)"
    "an_JobID a = cb_JobID b"
proof -
  let ?n = "case maxAttempt db (cb_JobID b) of None \<Rightarrow> 1 | Some n \<Rightarrow> signed64 (n + 1)"
  from assms obtain a where a: "NewAnalysisAttempt sha (boundJob b noTarget) ?n AttemptReasonCheckRerequest = Inr a"
    and n: "?n \<le> sm_MaxAttemptsPerJob (sc_Limits s)"
    and ins: "insertAttempt db a now = Some db'"
    unfolding rerequestAttempt_def Let_def if_Inl_eq_Inr rbind_eq_Inr mapError_Inr
    by (auto simp: not_less split: option.splits)
  from a n ins show thesis by (elim NewAnalysisAttemptE) (rule that, auto simp: boundJob_def)
qed

lemma finishRerequestE:
  assumes "finishRerequest sha i (db, r0) = Inr (db', r)"
  obtains db2 where "r = r0" "insertProcessed sha db (rq_Processed i) r0 = Inr db2"
    "releaseReconcileLease db2 (rq_Lease i) = Inr db'"
  using assms by (auto simp: finishRerequest_def rbind_eq_Inr)

lemma ApplyCheckRunRerequest_cases:
  assumes "ApplyCheckRunRerequest sha s db i = Inr (db', r)"
  obtains (duplicate) "checkProcessed db (rq_Processed i) = Inr (Some r)" "releaseReconcileLease db (rq_Lease i) = Inr db'"
  | (ignored) "checkProcessed db (rq_Processed i) = Inr None" "finishRerequest sha i (db, r) = Inr (db', r)"
  | (created) b db1 where "checkProcessed db (rq_Processed i) = Inr None" "bindingCurrent db i b"
      "rerequestAttempt sha s db b (rq_Now i) = Inr (db1, r)" "finishRerequest sha i (db1, r) = Inr (db', r)"
proof -
  let ?b = "map_of (db_bindings db)
    (sc_AppID s, crp_RepositoryID (rq_Projection i), crp_CheckRunID (rq_Projection i))"
  have fin: "finishRerequest sha i (d, r1) = Inr (db', r) \<Longrightarrow> r1 = r" for d r1
    by (auto elim: finishRerequestE)
  from assms obtain d where c: "checkProcessed db (rq_Processed i) = Inr d"
    by (auto simp: ApplyCheckRunRerequest_def rbind_eq_Inr if_Inl_eq_Inr)
  note defs = ApplyCheckRunRerequest_def if_Inl_eq_Inr c rbind_simps
  show thesis
  proof (cases d)
    case (Some r0)
    with assms c show thesis by (auto simp: defs rbind_eq_Inr intro: duplicate)
  next
    case d: None
    show thesis
    proof (cases ?b)
      case None
      with assms have "finishRerequest sha i (db, emptyResult\<lparr> rr_Decision := DecisionRerequestIgnored \<rparr>) = Inr (db', r)"
        by (simp add: defs d)
      with fin c d ignored show thesis by metis
    next
      case (Some b)
      show thesis
      proof (cases "bindingCurrent db i b")
        case False
        with assms Some obtain r0 where "finishRerequest sha i (db, r0) = Inr (db', r)"
          by (auto simp: defs d)
        with fin c d ignored show thesis by metis
      next
        case True
        with assms Some obtain db1 r0 where "rerequestAttempt sha s db b (rq_Now i) = Inr (db1, r0)"
          "finishRerequest sha i (db1, r0) = Inr (db', r)"
          by (auto simp: defs d rbind_eq_Inr)
        with fin c d True created show thesis by metis
      qed
    qed
  qed
qed

lemma ApplyCheckRunRerequest_inv:
  assumes "store_inv db" "ApplyCheckRunRerequest sha s db i = Inr (db', r)"
  shows "store_inv db'"
  using assms(2)
proof (cases rule: ApplyCheckRunRerequest_cases)
  case duplicate
  with assms(1) show ?thesis by (simp add: release_inv)
next
  case ignored
  with assms(1) show ?thesis by (auto elim!: finishRerequestE dest!: release_inv insertProcessed_inv)
next
  case (created b db1)
  then have "store_inv db1" using assms(1) by (auto elim!: rerequestAttemptE intro: insertAttempt_inv)
  with created show ?thesis by (auto elim!: finishRerequestE dest!: release_inv insertProcessed_inv)
qed

section \<open>Reachable stores\<close>

lemma AcquireReconcileLease_tables:
  assumes "AcquireReconcileLease s db key owner now d = Inr (db', l)"
  shows "\<exists>ls. db' = db\<lparr> db_leases := ls \<rparr>"
  using assms by (auto simp: AcquireReconcileLease_def Let_def result_simps split: option.splits)

lemma RecordProcessingDecision_cases:
  assumes "RecordProcessingDecision sha s db p decision t = Inr (db', r)"
  obtains (duplicate) "checkProcessed db p = Inr (Some r)" "db' = db"
  | (fresh) "checkProcessed db p = Inr None" "insertProcessed sha db (p\<lparr> pz_ProcessedAt := t \<rparr>) r = Inr db'"
proof -
  let ?res = "emptyResult\<lparr> rr_Decision := decision \<rparr>"
  from assms obtain d where c: "checkProcessed db p = Inr d"
    and k: "(case d of Some r \<Rightarrow> Inr (db, r) | None \<Rightarrow>
      rbind (insertProcessed sha db (p\<lparr> pz_ProcessedAt := t \<rparr>) ?res) (\<lambda>db'. Inr (db', ?res))) = Inr (db', r)"
    unfolding RecordProcessingDecision_def rbind_eq_Inr if_Inl_eq_Inr Let_def by blast
  show thesis
  proof (cases d)
    case None
    with k have "insertProcessed sha db (p\<lparr> pz_ProcessedAt := t \<rparr>) r = Inr db'"
      by (auto simp only: option.case rbind_eq_Inr prod.inject sum.inject)
    with c None show thesis by (intro fresh) simp_all
  next
    case (Some r0)
    with c k show thesis by (intro duplicate) simp_all
  qed
qed

lemma RegisterCheckBinding_tables:
  "RegisterCheckBinding s db b = Inr db' \<Longrightarrow> \<exists>bs. db' = db\<lparr> db_bindings := bs \<rparr>"
  by (cases db) (auto simp: RegisterCheckBinding_def result_simps split: option.splits if_splits)

lemma store_step_inv: "store_step sha marshal s db db' \<Longrightarrow> store_inv db \<Longrightarrow> store_inv db'"
proof (induction rule: store_step.induct)
  case (acquire db key owner now d db' l)
  then obtain ls where "db' = db\<lparr> db_leases := ls \<rparr>" using AcquireReconcileLease_tables by blast
  with acquire(2) store_inv_cong [of db' db] show ?case by simp
next
  case (recorded db p decision t db' r)
  from this(1) show ?case
    by (cases rule: RecordProcessingDecision_cases) (use recorded(2) in \<open>auto dest: insertProcessed_inv\<close>)
next
  case (bind db b db')
  then obtain bs where "db' = db\<lparr> db_bindings := bs \<rparr>" using RegisterCheckBinding_tables by blast
  with bind(2) store_inv_cong [of db' db] show ?case by simp
next
  case (snapshot db i db' r)
  then show ?case by (rule ApplyPullRequestSnapshot_inv [rotated])
next
  case (hint db h db' r)
  then show ?case by (rule ApplyInstallationHint_inv [rotated])
next
  case (rerequest db q db' r)
  then show ?case by (rule ApplyCheckRunRerequest_inv [rotated])
next
  case (claim db owner now d n db' reqs)
  then show ?case by (rule ClaimSourceImports_inv [rotated])
next
  case (acknowledge db i owner g t db')
  then show ?case unfolding AcknowledgeSourceImport_def by (rule finishSourceLease_inv [rotated])
next
  case (release db i owner g t db')
  then show ?case unfolding ReleaseSourceImport_def by (rule finishSourceLease_inv [rotated])
next
  case (apply_result db res owner g t db')
  then show ?case by (rule ApplySourceImportResult_inv [rotated])
qed

lemma reachable_inv: "store_reachable sha marshal s db \<Longrightarrow> store_inv db"
  unfolding store_reachable_def
  by (induction rule: rtranclp_induct) (auto simp: store_inv_empty intro: store_step_inv)

end
