(* ===== verification/Controller_Runs.thy ===== *)
theory Controller_Runs
  imports Controller_Facts
begin

text \<open>
  Runs of the controller store: what stays of the tables from one committed transaction to the next.
  Generations of a pull request only grow, and a generation keeps its target and job; processed
  deliveries stay; the lease generation of a source request only grows.
\<close>

section \<open>Generations\<close>

definition advances :: "PRKey \<Rightarrow> ControllerDB \<Rightarrow> ControllerDB \<Rightarrow> bool" where
  "advances K db db' \<longleftrightarrow>
     (let c = readCurrent db K; c' = readCurrent db' K
      in cu_Generation c \<le> cu_Generation c' \<and> (cu_Generation c = cu_Generation c' \<longrightarrow>
           cu_Eligibility c' = cu_Eligibility c \<and> cu_CurrentTargetID c' = cu_CurrentTargetID c
           \<and> cu_CurrentJobID c' = cu_CurrentJobID c))"

lemma advances_refl [simp]: "advances K db db"
  by (simp add: advances_def)

lemma advances_trans: "advances K db1 db2 \<Longrightarrow> advances K db2 db3 \<Longrightarrow> advances K db1 db3"
  by (auto simp: advances_def Let_def)

lemma readCurrent_cong: "map_of (db_prs db') K = map_of (db_prs db) K \<Longrightarrow> readCurrent db' K = readCurrent db K"
  by (simp add: readCurrent_def)

lemma advances_same: "map_of (db_prs db') K = map_of (db_prs db) K \<Longrightarrow> advances K db db'"
  by (drule readCurrent_cong) (simp add: advances_def)

lemma advances_cong:
  "db_prs db2 = db_prs db1 \<Longrightarrow> advances K db db2 \<longleftrightarrow> advances K db db1"
  by (simp add: advances_def readCurrent_cong [of db2 K db1])

lemma supersede_prs [simp]: "db_prs (supersedeCurrent db cur) = db_prs db"
  by (simp add: supersedeCurrent_def)

lemma readCurrent_stored:
  "readCurrent (storeCurrent db2 K snap now res) K' =
     (if K' = K then \<lparr> cu_Key = K, cu_Generation = rr_Generation res, cu_Eligibility = rr_Eligibility res,
        cu_CurrentTargetID = rr_TargetID res, cu_CurrentJobID = rr_JobID res,
        cu_BaseCommitID = pe_CommitID (pn_Base snap), cu_HeadCommitID = pe_CommitID (pn_Head snap),
        cu_HeadRepositoryID = pe_RepositoryID (pn_Head snap), cu_BaseOwner = pe_Owner (pn_Base snap),
        cu_BaseName = pe_Name (pn_Base snap) \<rparr> else readCurrent db2 K')"
  by (simp add: readCurrent_def storeCurrent_def table_simps)

lemma schedule_result:
  assumes "scheduleTarget sha db cur target tid snap now = Inr (db2, res)"
  shows "db_prs db2 = db_prs db" and "rr_Generation res = cu_Generation cur + 1"
  using assms
  by (auto simp: scheduleTarget_def Let_def result_simps elim!: insertTargetJobAttemptSourceE)

lemma ineligible_row:
  assumes "store_inv db" "cu_Eligibility (readCurrent db K) \<noteq> PREligibilityEligible"
  shows "cu_CurrentTargetID (readCurrent db K) = []" and "cu_CurrentJobID (readCurrent db K) = []"
  using assms by (auto simp: readCurrent_def store_inv_def pr_ok_def simp del: map_of_eq_Some_iff split: option.splits)

lemma mark_result:
  assumes mark: "markIneligible db (readCurrent db K) e = Inr (db2, res)"
  shows "db_prs db2 = db_prs db"
    and "rr_Generation res = cu_Generation (readCurrent db K) + 1
      \<or> rr_Generation res = cu_Generation (readCurrent db K) \<and> cu_Eligibility (readCurrent db K) = e"
  using mark by (auto simp: markIneligible_def Let_def emptyResult_def result_simps split: if_splits)

lemma reconcile_advances:
  assumes inv: "store_inv db" and rec: "reconcileSnapshot sha db K snap now = Inr (db', res)"
  shows "advances K' db db'"
proof (cases "eligibilityFor snap = PREligibilityEligible")
  case True
  from rec True consider "db' = db"
    | db2 tid where "scheduleTarget sha db (readCurrent db K) (snapshotTarget K snap) tid snap now = Inr (db2, res)"
      "db' = storeCurrent db2 K snap now res"
    by (auto simp: reconcileSnapshot_def Let_def result_simps split: if_splits)
  then show ?thesis
  proof cases
    case 2
    then show ?thesis
      using schedule_result [OF 2(1)] readCurrent_cong [of db2 K' db] by (simp add: advances_def readCurrent_stored)
  qed simp
next
  case False
  let ?e = "eligibilityFor snap"
  from rec False obtain db2 where mark: "markIneligible db (readCurrent db K) ?e = Inr (db2, res)"
    and db': "db' = storeCurrent db2 K snap now res"
    by (auto simp: reconcileSnapshot_def Let_def result_simps)
  from mark_detached(3-5) [OF mark inv False] mark_result [OF mark] ineligible_row [OF inv, of K] False
  show ?thesis
    using readCurrent_cong [of db2 K' db] by (auto simp: advances_def db' readCurrent_stored)
qed

lemma blockRows_advances:
  assumes "blockRows now rows db = Inr db'" "distinct (map fst rows)"
    "\<forall>(k, r)\<in>set rows. map_of (db_prs db) k = Some r"
  shows "advances K db db'"
  using assms
proof (induction now rows db rule: blockRows.induct)
  case (2 now kr rest db)
  obtain k r where kr: "kr = (k, r)" by fastforce
  with "2.prems" have row: "map_of (db_prs db) k = Some r" by simp
  have "\<forall>(k', r')\<in>set rest. map_of (db_prs (blockRow now db kr)) k' = Some r'"
    using "2.prems" by (force simp: kr blockRow_prs [OF row])
  then have "advances K (blockRow now db kr) db'"
    using "2.prems" "2.IH" by (auto simp: result_simps kr)
  moreover have "advances K db (blockRow now db kr)"
    using row by (auto simp: advances_def readCurrent_def kr blockRow_prs [OF row] blockedRow_def)
  ultimately show ?case by (rule advances_trans [rotated])
qed simp

lemma insertProcessed_prs: "insertProcessed sha db p r = Inr db' \<Longrightarrow> db_prs db' = db_prs db"
  by (elim insertProcessedE) simp

lemma release_prs: "releaseReconcileLease db l = Inr db' \<Longrightarrow> db_prs db' = db_prs db"
  by (auto simp: releaseReconcileLease_def split: if_splits)

lemma finishRerequest_prs: "finishRerequest sha i (db, r0) = Inr (db', r) \<Longrightarrow> db_prs db' = db_prs db"
  by (elim finishRerequestE) (simp add: insertProcessed_prs release_prs)

lemma rowsToBlock_rows:
  assumes "store_inv db"
  shows "distinct (map fst (rowsToBlock db p))" and "\<forall>(k, r)\<in>set (rowsToBlock db p). map_of (db_prs db) k = Some r"
  using assms by (auto simp: store_inv_def tables_ok_def rowsToBlock_def distinct_map_filter)

lemma store_step_advances: "store_step sha marshal s db db' \<Longrightarrow> store_inv db \<Longrightarrow> advances K db db'"
proof (induction rule: store_step.induct)
  case (acquire db key owner now d db' l)
  then obtain ls where "db' = db\<lparr> db_leases := ls \<rparr>" using AcquireReconcileLease_tables by blast
  then show ?case by (simp add: advances_same)
next
  case (recorded db p decision t db' r)
  from this(1) show ?case
  proof (cases rule: RecordProcessingDecision_cases)
    case fresh
    with insertProcessed_prs [OF fresh(2)] show ?thesis by (simp add: advances_same)
  qed simp
next
  case (snapshot db i db' r)
  from this(1) show ?case
  proof (cases rule: ApplyPullRequestSnapshot_cases)
    case duplicate
    with release_prs [OF duplicate(2)] show ?thesis by (simp add: advances_same)
  next
    case (fresh db1 db2)
    then have "db_prs db' = db_prs db1" using release_prs insertProcessed_prs by metis
    with advances_cong [of db' db1] reconcile_advances [OF snapshot(2) fresh(3)] show ?thesis by simp
  qed
next
  case (hint db h db' r)
  from this(1) show ?case
  proof (cases rule: ApplyInstallationHint_cases)
    case (fresh rows db1)
    with rowsToBlock_rows [OF hint(2), of "ih_Projection h"] have "advances K db db1"
      by (auto intro: blockRows_advances)
    with advances_cong [of db' db1] insertProcessed_prs [OF fresh(4)] show ?thesis by simp
  qed simp
next
  case (bind db b db')
  then obtain bs where "db' = db\<lparr> db_bindings := bs \<rparr>" using RegisterCheckBinding_tables by blast
  then show ?case by (simp add: advances_same)
next
  case (rerequest db q db' r)
  from this(1) show ?case
  proof (cases rule: ApplyCheckRunRerequest_cases)
    case (created b db1)
    then have "db_prs db1 = db_prs db" by (auto elim!: rerequestAttemptE insertAttemptE)
    with finishRerequest_prs [OF created(4)] show ?thesis by (simp add: advances_same)
  next
    case duplicate
    with release_prs [OF duplicate(2)] show ?thesis by (simp add: advances_same)
  next
    case ignored
    with finishRerequest_prs [OF ignored(2)] show ?thesis by (simp add: advances_same)
  qed
next
  case (claim db owner now d n db' reqs)
  then show ?case
    by (auto simp: ClaimSourceImports_def Let_def result_simps intro!: advances_same split: prod.splits)
next
  case (acknowledge db i owner g t db')
  then show ?case
    by (auto simp: AcknowledgeSourceImport_def finishSourceLease_def Let_def result_simps intro!: advances_same)
next
  case (release db i owner g t db')
  then show ?case
    by (auto simp: ReleaseSourceImport_def finishSourceLease_def Let_def result_simps intro!: advances_same)
next
  case (apply_result db res owner g t db')
  then show ?case by (elim ApplySourceImportResultE) (simp add: advances_same)
qed

lemma run_inv: "(store_step sha marshal s)\<^sup>*\<^sup>* db db' \<Longrightarrow> store_inv db \<Longrightarrow> store_inv db'"
  by (induction rule: rtranclp_induct) (auto intro: store_step_inv)

lemma run_advances: "(store_step sha marshal s)\<^sup>*\<^sup>* db db' \<Longrightarrow> store_inv db \<Longrightarrow> advances K db db'"
  by (induction rule: rtranclp_induct) (auto intro: advances_trans store_step_advances run_inv)

section \<open>What a run keeps\<close>

text \<open>
  Processed deliveries stay as they are, terminal jobs stay in their state, and a source request stays with a
  lease generation that does not fall.
\<close>

definition grows :: "SourceRow list \<Rightarrow> SourceRow list \<Rightarrow> bool" where
  "grows rows rows' \<longleftrightarrow> (\<forall>r\<in>set rows. \<exists>r'\<in>set rows'. sr_Request r' = sr_Request r
     \<and> sr_LeaseGeneration r \<le> sr_LeaseGeneration r')"

lemma grows_refl [simp]: "grows rows rows"
  by (auto simp: grows_def)

lemma grows_snoc [simp]: "grows rows (rows @ [r])"
  by (auto simp: grows_def)

lemma grows_trans: "grows a b \<Longrightarrow> grows b c \<Longrightarrow> grows a c"
  unfolding grows_def by (metis order_trans)

lemma grows_map:
  "(\<And>r. sr_Request (f r) = sr_Request r \<and> sr_LeaseGeneration r \<le> sr_LeaseGeneration (f r)) \<Longrightarrow> grows rows (map f rows)"
  by (auto simp: grows_def)

definition extends :: "ControllerDB \<Rightarrow> ControllerDB \<Rightarrow> bool" where
  "extends db db' \<longleftrightarrow>
     (\<forall>k row. map_of (db_processed db) k = Some row \<longrightarrow> map_of (db_processed db') k = Some row)
     \<and> (\<forall>jid j. map_of (db_jobs db) jid = Some j \<longrightarrow> jobTerminal (jr_State j) \<longrightarrow> map_of (db_jobs db') jid = Some j)
     \<and> grows (db_sources db) (db_sources db')"

lemma extends_refl [simp]: "extends db db"
  by (auto simp: extends_def)

lemma extends_trans [trans]: "extends db1 db2 \<Longrightarrow> extends db2 db3 \<Longrightarrow> extends db1 db3"
  unfolding extends_def by (blast intro: grows_trans)

lemma extends_cong:
  "db_processed db' = db_processed db \<Longrightarrow> db_jobs db' = db_jobs db \<Longrightarrow> db_sources db' = db_sources db
   \<Longrightarrow> extends db db'"
  by (auto simp: extends_def)

lemma extends_processed: "insertProcessed sha db p r = Inr db' \<Longrightarrow> extends db db'"
  by (elim insertProcessedE) (auto simp: extends_def map_add_def split: option.splits)

lemma extends_release: "releaseReconcileLease db l = Inr db' \<Longrightarrow> extends db db'"
  by (auto simp: releaseReconcileLease_def intro: extends_cong split: if_splits)

lemma extends_endJob: "extends db (endJob db jid js ss)"
proof -
  have "grows (db_sources db) (db_sources (endJob db jid js ss))"
    by (simp add: endJob_def grows_map)
  then show ?thesis by (auto simp: extends_def map_of_endJob live_job_def)
qed

lemma extends_supersede: "extends db (supersedeCurrent db cur)"
  by (simp add: supersedeCurrent_def extends_endJob)

lemma extends_insert:
  "insertTargetJobAttemptSource db target job attempt srcID snap now = Inr db' \<Longrightarrow> extends db db'"
  by (elim insertTargetJobAttemptSourceE) (auto simp: extends_def map_add_def split: option.splits)

lemma extends_attempt: "insertAttempt db a now = Some db' \<Longrightarrow> extends db db'"
  by (elim insertAttemptE) (simp add: extends_cong)

lemma extends_storeCurrent: "extends db (storeCurrent db K snap now res)"
  by (simp add: extends_cong storeCurrent_def)

lemma extends_blockRow: "extends db (blockRow now db kr)"
proof -
  obtain k r where kr: "kr = (k, r)" by fastforce
  let ?db1 = "if pw_JobID r \<noteq> [] then cancelCurrentJob db (pw_JobID r) else db"
  have "extends db ?db1" by (simp add: cancelCurrentJob_def extends_endJob)
  also have "extends ?db1 (blockRow now db kr)" by (rule extends_cong) (simp_all add: blockRow_def kr Let_def)
  finally show ?thesis .
qed

lemma extends_blockRows: "blockRows now rows db = Inr db' \<Longrightarrow> extends db db'"
  by (induction now rows db rule: blockRows.induct) (auto simp: result_simps intro: extends_trans extends_blockRow)

lemma extends_reconcile:
  assumes "reconcileSnapshot sha db K snap now = Inr (db', res)"
  shows "extends db db'"
proof -
  have sched: "extends db db2" if "scheduleTarget sha db cur t tid snap now = Inr (db2, res)" for cur t tid db2
    using that extends_trans [OF extends_supersede extends_insert]
    by (auto simp: scheduleTarget_def Let_def result_simps)
  have mark: "extends db db2" if "markIneligible db cur e = Inr (db2, res)" for cur e db2
    using that by (auto simp: markIneligible_def Let_def result_simps extends_supersede split: if_splits)
  show ?thesis
    using assms sched mark extends_trans [OF _ extends_storeCurrent]
    by (auto simp: reconcileSnapshot_def Let_def result_simps split: if_splits)
qed

lemma extends_sources:
  assumes "db_processed db' = db_processed db" "db_jobs db' = db_jobs db" "db_sources db' = map f (db_sources db)"
    and "\<And>r. sr_Request (f r) = sr_Request r \<and> sr_LeaseGeneration r \<le> sr_LeaseGeneration (f r)"
  shows "extends db db'"
  using assms by (simp add: extends_def grows_map)

lemma claimAll_grows:
  assumes "claimAll owner now expires cs rows = (rows', out)"
  shows "\<exists>f. rows' = map f rows \<and> (\<forall>r. sr_Request (f r) = sr_Request r \<and> sr_LeaseGeneration r \<le> sr_LeaseGeneration (f r))"
  using assms
proof (induction owner now expires cs rows arbitrary: rows' out rule: claimAll.induct)
  case (1 owner now expires rows)
  then show ?case by (intro exI [of _ id]) simp
next
  case (2 owner now expires c cs rows)
  let ?u = "claimUpdate owner now expires c"
  obtain out' where "claimAll owner now expires cs (map ?u rows) = (rows', out')"
    using "2.prems" by (auto simp: Let_def split: prod.splits)
  then obtain f where "rows' = map f (map ?u rows)"
    and "\<forall>r. sr_Request (f r) = sr_Request r \<and> sr_LeaseGeneration r \<le> sr_LeaseGeneration (f r)"
    using "2.IH" [OF refl] by blast
  moreover have "sr_LeaseGeneration r \<le> sr_LeaseGeneration (?u r)" "sr_Request (?u r) = sr_Request r" for r
    by (simp_all add: claimUpdate_def)
  ultimately show ?case by (intro exI [of _ "f \<circ> ?u"]) (auto intro: order_trans)
qed

lemma finishRerequest_extends: "finishRerequest sha i (db, r0) = Inr (db', r) \<Longrightarrow> extends db db'"
  by (elim finishRerequestE) (blast intro: extends_trans extends_processed extends_release)

lemma finishSourceLease_extends:
  assumes "finishSourceLease db i owner g t next = Inr db'"
  shows "extends db db'"
proof -
  define f where "f r = (if sq_ID (sr_Request r) = i \<and> sr_LeaseOwner r = owner \<and> sr_LeaseGeneration r = g
      \<and> sr_State r = SourceStateLeased then r\<lparr> sr_State := next, sr_LeaseExpiresAt := None,
      sr_CompletedAt := (if next = SourceStateCompleted then Some (formatTime t) else None) \<rparr> else r)" for r :: SourceRow
  have "db' = db\<lparr> db_sources := map f (db_sources db) \<rparr>"
    using assms by (simp add: finishSourceLease_def Let_def result_simps f_def [abs_def])
  then show ?thesis by (intro extends_sources [of db' db f]) (simp_all add: f_def)
qed

lemma ApplySourceImportResult_extends:
  assumes "ApplySourceImportResult marshal db res owner g t = Inr db'"
  shows "extends db db'"
proof -
  from assms obtain row lims where db': "db' = db\<lparr> db_sources := map (completeRequest res lims t) (db_sources db),
      db_jobs := update_rows (\<lambda>k j. k = si_JobID res \<and> jr_Generation j = si_Generation res
          \<and> jr_State j = JobStateImportingSource)
        (jr_State_update (\<lambda>_. if si_Failed res then JobStateFailed else JobStateAwaitingRunner)) (db_jobs db) \<rparr>"
    by (rule ApplySourceImportResultE)
  have "grows (db_sources db) (map (completeRequest res lims t) (db_sources db))"
    by (rule grows_map) (simp add: completeRequest_def)
  then show ?thesis by (auto simp: extends_def db' table_simps jobTerminal_def)
qed

lemma store_step_extends: "store_step sha marshal s db db' \<Longrightarrow> extends db db'"
proof (induction rule: store_step.induct)
  case (acquire db key owner now d db' l)
  then obtain ls where "db' = db\<lparr> db_leases := ls \<rparr>" using AcquireReconcileLease_tables by blast
  then show ?case by (simp add: extends_cong)
next
  case (recorded db p decision t db' r)
  from this(1) show ?case
    by (cases rule: RecordProcessingDecision_cases) (auto dest: extends_processed)
next
  case (snapshot db i db' r)
  from this(1) show ?case
  proof (cases rule: ApplyPullRequestSnapshot_cases)
    case (fresh db1 db2)
    then show ?thesis by (blast intro: extends_trans extends_reconcile extends_processed extends_release)
  qed (simp add: extends_release)
next
  case (hint db h db' r)
  from this(1) show ?case
  proof (cases rule: ApplyInstallationHint_cases)
    case (fresh rows db1)
    then show ?thesis by (blast intro: extends_trans extends_blockRows extends_processed)
  qed simp
next
  case (bind db b db')
  then obtain bs where "db' = db\<lparr> db_bindings := bs \<rparr>" using RegisterCheckBinding_tables by blast
  then show ?case by (simp add: extends_cong)
next
  case (rerequest db q db' r)
  from this(1) show ?case
  proof (cases rule: ApplyCheckRunRerequest_cases)
    case (created b db1)
    then show ?thesis by (blast elim: rerequestAttemptE intro: extends_trans extends_attempt finishRerequest_extends)
  next
    case ignored
    then show ?thesis by (blast intro: finishRerequest_extends)
  qed (simp add: extends_release)
next
  case (claim db owner now d n db' reqs)
  then obtain cs rows where "claimAll owner (formatTime now) (formatTime (addTime now d)) cs
      (db_sources db) = (rows, reqs)" "db' = db\<lparr> db_sources := rows \<rparr>"
    by (auto simp: ClaimSourceImports_def Let_def result_simps split: prod.splits)
  moreover from this obtain f where "rows = map f (db_sources db)"
    and "\<forall>r. sr_Request (f r) = sr_Request r \<and> sr_LeaseGeneration r \<le> sr_LeaseGeneration (f r)"
    using claimAll_grows by blast
  ultimately show ?case by (intro extends_sources [of db' db f]) simp_all
qed (simp_all add: AcknowledgeSourceImport_def ReleaseSourceImport_def finishSourceLease_extends
    ApplySourceImportResult_extends)

lemma run_extends: "(store_step sha marshal s)\<^sup>*\<^sup>* db db' \<Longrightarrow> extends db db'"
  by (induction rule: rtranclp_induct) (auto intro: extends_trans store_step_extends)

section \<open>Claims\<close>

text \<open>
  With distinct sequence numbers every candidate is updated exactly once: the claimed rows are the candidates,
  leased to the owner under the next lease generation.
\<close>

definition leaseRow :: "string \<Rightarrow> int \<Rightarrow> SourceRow \<Rightarrow> SourceRow" where
  "leaseRow owner expires r = r\<lparr> sr_State := SourceStateLeased, sr_LeaseOwner := owner,
     sr_LeaseGeneration := sr_LeaseGeneration r + 1, sr_LeaseExpiresAt := Some expires,
     sr_AttemptCount := sr_AttemptCount r + 1 \<rparr>"

lemma filter_unique:
  "distinct (map f xs) \<Longrightarrow> c \<in> set xs \<Longrightarrow> P c \<Longrightarrow> filter (\<lambda>r. f r = f c \<and> P r) xs = [c]"
proof (induction xs)
  case (Cons x xs)
  have "filter (\<lambda>r. f r = f c \<and> P r) xs = []" if "x = c"
    using Cons.prems that by (auto simp: filter_empty_conv image_iff)
  then show ?case using Cons by (auto simp: image_iff)
qed simp

lemma claimAll_closed:
  assumes "distinct (map sr_Sequence rows)" "distinct cs" "\<forall>c\<in>set cs. c \<in> set rows \<and> claimable now c"
  shows "claimAll owner now expires cs rows =
    (map (\<lambda>r. if r \<in> set cs then leaseRow owner expires r else r) rows, map (claimedRequest owner) cs)"
  using assms
proof (induction cs arbitrary: rows)
  case Nil
  then show ?case by simp
next
  case (Cons c cs)
  have inj: "r = r'" if "r \<in> set rows" "r' \<in> set rows" "sr_Sequence r = sr_Sequence r'" for r r'
    using Cons.prems(1) that by (auto simp: distinct_map inj_on_def)
  define rows1 where "rows1 = map (\<lambda>r. if r = c then leaseRow owner expires r else r) rows"
  have c: "c \<in> set rows" "claimable now c" using Cons.prems by auto
  have "claimUpdate owner now expires c r = (if r = c then leaseRow owner expires r else r)" if "r \<in> set rows" for r
    using inj [OF that c(1)] c(2) by (auto simp: claimUpdate_def leaseRow_def)
  then have upd: "map (claimUpdate owner now expires c) rows = rows1" by (simp add: rows1_def)
  have "filter (\<lambda>r. sr_Sequence r = sr_Sequence c \<and> sr_LeaseGeneration r = sr_LeaseGeneration c \<and> claimable now r) rows = [c]"
    using filter_unique [OF Cons.prems(1) c(1), of "\<lambda>r. sr_LeaseGeneration r = sr_LeaseGeneration c \<and> claimable now r"] c
    by simp
  moreover have "map sr_Sequence rows1 = map sr_Sequence rows"
    by (simp add: rows1_def leaseRow_def)
  then have "distinct (map sr_Sequence rows1)" using Cons.prems(1) by simp
  moreover have "\<forall>x\<in>set cs. x \<in> set rows1 \<and> claimable now x"
    using Cons.prems by (auto simp: rows1_def)
  ultimately have step: "claimAll owner now expires (c # cs) rows =
      (map (\<lambda>r. if r \<in> set cs then leaseRow owner expires r else r) rows1, map (claimedRequest owner) (c # cs))"
    using Cons.IH [of rows1] Cons.prems(2) by (simp add: upd)
  have "leaseRow owner expires c \<notin> set cs"
    using Cons.prems(2,3) inj [OF _ c(1)] by (fastforce simp: leaseRow_def)
  then have "map (\<lambda>r. if r \<in> set cs then leaseRow owner expires r else r) rows1
      = map (\<lambda>r. if r \<in> set (c # cs) then leaseRow owner expires r else r) rows"
    by (simp add: rows1_def)
  then show ?case using step by simp
qed

lemma claimCandidates_facts:
  assumes "distinct (map sr_Sequence (db_sources db))"
  shows "distinct (claimCandidates db now n)"
    and "\<forall>c\<in>set (claimCandidates db now n). c \<in> set (db_sources db) \<and> claimable now c"
  using assms by (auto simp: claimCandidates_def distinct_map intro!: distinct_take dest!: in_set_takeD)

lemma ClaimSourceImportsE:
  assumes "ClaimSourceImports s db owner now d n = Inr (db', reqs)" "store_inv db"
  obtains cs where "\<forall>c\<in>set cs. c \<in> set (db_sources db) \<and> claimable (formatTime now) c"
    "cs = claimCandidates db (formatTime now) (nat n)"
    "reqs = map (claimedRequest owner) cs"
    "db' = db\<lparr> db_sources := map (\<lambda>r. if r \<in> set cs then leaseRow owner (formatTime (addTime now d)) r else r)
       (db_sources db) \<rparr>"
proof -
  let ?cs = "claimCandidates db (formatTime now) (nat n)"
  have seq: "distinct (map sr_Sequence (db_sources db))" using assms(2) by (simp add: store_inv_def tables_ok_def)
  note closed = claimAll_closed [OF seq claimCandidates_facts [OF seq]]
  show thesis
    using assms(1) claimCandidates_facts(2) [OF seq] that [of ?cs]
    by (simp add: ClaimSourceImports_def Let_def result_simps closed)
qed

end
