(* ===== verification/Controller_Props.thy ===== *)
theory Controller_Props
  imports Lease Controller_Runs
begin

text \<open>The properties of the controller store and a concrete run on which they are applied.\<close>

section \<open>A concrete run\<close>

definition hexSha :: "string \<Rightarrow> string" where
  "hexSha s = replicate 64 (CHR ''a'')"

definition runConfig :: StoreConfig where
  "runConfig = \<lparr> sc_ControllerID = ''c1'', sc_ReceiverID = ''r1'', sc_AppID = 9, sc_Limits = store_DefaultLimits \<rparr>"

definition runKey :: PRKey where
  "runKey = \<lparr> pk_InstallationID = 42, pk_BaseRepositoryID = 101, pk_PullRequestNumber = 7 \<rparr>"

definition runTime :: "int \<Rightarrow> StoreTime" where
  "runTime t = \<lparr> st_nanos = t * 10 ^ 9, st_utc = True \<rparr>"

definition runLease :: ReconcileLease where
  "runLease = \<lparr> rl_Key = runKey, rl_Owner = ''c1'', rl_Generation = 1, rl_AcquiredAt = runTime 100,
     rl_ExpiresAt = addTime (runTime 100) (30 * 10 ^ 9) \<rparr>"

definition runDelivery :: "string \<Rightarrow> ProcessedDelivery" where
  "runDelivery oid = \<lparr> pz_ReceiverID = ''r1'', pz_OutboxID = oid, pz_DeliveryID = ''d1'',
     pz_ProjectionKind = ProjectionPullRequest, pz_ProjectionDigest = ''sha256:'' @ replicate 64 (CHR ''b''),
     pz_ProcessedAt = runTime 101 \<rparr>"

definition runSnapshot :: PullRequestSnapshot where
  "runSnapshot = \<lparr> pn_SchemaVersion = [], pn_Number = 7, pn_State = PullRequestStateOpen, pn_Draft = False,
     pn_Merged = False,
     pn_Base = \<lparr> pe_RepositoryID = 101, pe_Owner = ''o'', pe_Name = ''n'', pe_CommitID = replicate 40 (CHR ''1''),
       pe_Available = True \<rparr>,
     pn_Head = \<lparr> pe_RepositoryID = 202, pe_Owner = ''h'', pe_Name = ''m'', pe_CommitID = replicate 40 (CHR ''2''),
       pe_Available = True \<rparr> \<rparr>"

definition runInput :: PullRequestReconcileInput where
  "runInput = \<lparr> ri_Processed = runDelivery ''out-1'', ri_Lease = runLease, ri_Snapshot = runSnapshot,
     ri_Now = runTime 101 \<rparr>"

definition runDB1 :: ControllerDB where
  "runDB1 = emptyDB\<lparr> db_leases := [(runKey, \<lparr> lr_Owner = ''c1'', lr_Generation = 1, lr_AcquiredAt = 100,
     lr_ExpiresAt = 130 \<rparr>)] \<rparr>"

lemma run_acquire: "AcquireReconcileLease runConfig emptyDB runKey ''c1'' (runTime 100) (30 * 10 ^ 9) = Inr (runDB1, runLease)"
  by code_simp

lemmas run_defs = runConfig_def runKey_def runTime_def runLease_def runDelivery_def runSnapshot_def runInput_def
  runDB1_def emptyDB_def addTime_def

lemma domainHash_hexSha [simp]: "domainHash hexSha d fs = replicate 64 (CHR ''a'')"
  by (simp add: domainHash_def hexSha_def)

lemma run_validate: "store_validateInput runConfig runInput = None"
  by code_simp

lemma run_new: "checkProcessed runDB1 (ri_Processed runInput) = Inr None"
  by code_simp

lemma run_target: "targetID hexSha (snapshotTarget runKey runSnapshot) = Inr (''target-'' @ replicate 64 (CHR ''a''))"
proof -
  have "validateTarget (snapshotTarget runKey runSnapshot) = None" by code_simp
  then show ?thesis by (simp add: targetID_def prefixedID_def)
qed

definition runJob :: AnalysisJob where
  "runJob = \<lparr> aj_SchemaVersion = SchemaGitHubAnalysisJobV1Alpha1, aj_ID = ''job-'' @ replicate 64 (CHR ''a''),
     aj_TargetID = ''target-'' @ replicate 64 (CHR ''a''), aj_Target = snapshotTarget runKey runSnapshot,
     aj_Generation = 1, aj_AnalysisProfileVersion = ControllerProfileAdvisoryV1Alpha1,
     aj_RequiredRunnerTier = RunnerTierHardenedContainer \<rparr>"

definition runAttempt :: AnalysisAttempt where
  "runAttempt = \<lparr> an_SchemaVersion = SchemaGitHubAnalysisAttemptV1Alpha1,
     an_ID = ''attempt-'' @ replicate 64 (CHR ''a''), an_JobID = aj_ID runJob, an_TargetID = aj_TargetID runJob,
     an_Generation = 1, an_AttemptNumber = 1, an_Reason = AttemptReasonInitial \<rparr>"

lemma run_job:
  "NewAnalysisJob hexSha (snapshotTarget runKey runSnapshot) 1 ControllerProfileAdvisoryV1Alpha1 RunnerTierHardenedContainer
   = Inr runJob"
proof -
  have "\<not> hasControl ControllerProfileAdvisoryV1Alpha1" by code_simp
  then show ?thesis by (simp add: NewAnalysisJob_def run_target prefixedID_def runJob_def)
qed

lemma run_attempt: "NewAnalysisAttempt hexSha runJob 1 AttemptReasonInitial = Inr runAttempt"
proof -
  have "validateJobID (aj_ID runJob)" "validateTargetID (aj_TargetID runJob)" by code_simp+
  then show ?thesis by (simp add: NewAnalysisAttempt_def prefixedID_def runAttempt_def) (simp add: runJob_def)
qed

definition runSource :: string where "runSource = ''source-'' @ replicate 64 (CHR ''a'')"

definition runResult :: ReconcileResult where
  "runResult = \<lparr> rr_Decision = DecisionScheduledNewTarget, rr_Generation = 1, rr_TargetID = aj_TargetID runJob,
     rr_JobID = aj_ID runJob, rr_AttemptID = an_ID runAttempt, rr_SourceRequestID = runSource,
     rr_Eligibility = PREligibilityEligible \<rparr>"

abbreviation runInserted :: "ControllerDB result" where
  "runInserted \<equiv> insertTargetJobAttemptSource runDB1 (snapshotTarget runKey runSnapshot) runJob runAttempt runSource
     runSnapshot (runTime 101)"

definition runDB2 :: ControllerDB where
  "runDB2 = (case runInserted of Inl _ \<Rightarrow> emptyDB | Inr db \<Rightarrow>
     (storeCurrent db runKey runSnapshot (runTime 101) runResult)\<lparr>
       db_processed := [((''r1'', ''out-1''), \<lparr> zr_DeliveryID = ''d1'', zr_ProjectionKind = ProjectionPullRequest,
         zr_ProjectionDigest = ''sha256:'' @ replicate 64 (CHR ''b''), zr_Decision = DecisionScheduledNewTarget,
         zr_Generation = 1, zr_TargetID = aj_TargetID runJob, zr_JobID = aj_ID runJob, zr_ProcessedAt = 101,
         zr_RecordDigest = ''sha256:'' @ replicate 64 (CHR ''a'') \<rparr>)],
       db_leases := [] \<rparr>)"

lemma run_inserted: "\<exists>db. runInserted = Inr db \<and> db_processed db = [] \<and> db_leases db = db_leases runDB1"
proof -
  have "(case runInserted of Inl _ \<Rightarrow> False | Inr db \<Rightarrow> db_processed db = [] \<and> db_leases db = db_leases runDB1)"
    by code_simp
  then show ?thesis by (auto split: sum.splits)
qed

lemma run_apply: "ApplyPullRequestSnapshot hexSha runConfig runDB1 runInput = Inr (runDB2, runResult)"
proof -
  obtain db where db: "runInserted = Inr db" "db_processed db = []" "db_leases db = db_leases runDB1"
    using run_inserted by blast
  have cur: "cu_Generation (readCurrent runDB1 runKey) = 0" "cu_Eligibility (readCurrent runDB1 runKey) = []"
    "cu_CurrentJobID (readCurrent runDB1 runKey) = []" and el: "eligibilityFor runSnapshot = PREligibilityEligible"
    by code_simp+
  have ids: "rl_Key (ri_Lease runInput) = runKey" "ri_Snapshot runInput = runSnapshot" "ri_Now runInput = runTime 101"
    "ri_Lease runInput = runLease" "rl_Key runLease = runKey" "ri_Processed runInput = runDelivery ''out-1''"
    by (simp_all add: runInput_def runLease_def)
  have src: "''source-'' @ replicate 64 (CHR ''a'') = runSource" by (simp add: runSource_def)
  have "scheduleTarget hexSha runDB1 (readCurrent runDB1 runKey) (snapshotTarget runKey runSnapshot)
      (aj_TargetID runJob) runSnapshot (runTime 101) = Inr (db, runResult)"
    using db(1)
    by (simp add: scheduleTarget_def cur supersedeCurrent_def run_job run_attempt mapError_def sourceRequestID_def
        src runResult_def Let_def del: append.simps)
  then have rec: "reconcileSnapshot hexSha runDB1 runKey runSnapshot (runTime 101)
      = Inr (storeCurrent db runKey runSnapshot (runTime 101) runResult, runResult)"
    by (simp add: reconcileSnapshot_def Let_def el run_target mapError_def cur) (simp add: runJob_def)
  show ?thesis
    using db
    by (simp add: ApplyPullRequestSnapshot_def run_validate run_new [unfolded ids(6)] ids rec insertProcessed_def insert_row_def
        storeCurrent_def controllerRecordDigest_def releaseReconcileLease_def holdsLease_def
        runDB2_def)
      (simp add: runDB1_def runLease_def runDelivery_def runResult_def formatTime_def runTime_def)
qed

lemma run_step1: "store_step hexSha concat runConfig emptyDB runDB1"
  using run_acquire by (rule store_step.acquire)

lemma run_step2: "store_step hexSha concat runConfig runDB1 runDB2"
  using run_apply by (rule store_step.snapshot)

lemma run_steps2: "(store_step hexSha concat runConfig)\<^sup>*\<^sup>* runDB1 runDB2"
  using run_step2 by blast

lemma run_reachable1: "store_reachable hexSha concat runConfig runDB1"
  using run_step1 by (simp add: store_reachable_def r_into_rtranclp)

lemma run_reachable2: "store_reachable hexSha concat runConfig runDB2"
  using run_reachable1 run_step2 unfolding store_reachable_def by (rule rtranclp.rtrancl_into_rtrancl)

text \<open>The state and the value of a successful operation.\<close>

definition outcome :: "(ControllerDB \<times> 'a) result \<Rightarrow> ControllerDB" where
  "outcome r = (case r of Inl _ \<Rightarrow> emptyDB | Inr p \<Rightarrow> fst p)"

definition outvalue :: "'a \<Rightarrow> (ControllerDB \<times> 'a) result \<Rightarrow> 'a" where
  "outvalue x r = (case r of Inl _ \<Rightarrow> x | Inr p \<Rightarrow> snd p)"

lemma outcome_Inr: "\<not> isl r \<Longrightarrow> r = Inr (outcome r, outvalue x r)"
  by (cases r) (simp_all add: outcome_def outvalue_def)

abbreviation runClaim :: "(ControllerDB \<times> SourceImportRequest list) result" where
  "runClaim \<equiv> ClaimSourceImports runConfig runDB2 ''worker'' (runTime 110) (60 * 10 ^ 9) 5"

definition runDB3 :: ControllerDB where "runDB3 = outcome runClaim"

abbreviation runReclaim :: "(ControllerDB \<times> SourceImportRequest list) result" where
  "runReclaim \<equiv> ClaimSourceImports runConfig runDB3 ''helper'' (runTime 200) (60 * 10 ^ 9) 5"

definition runDB4 :: ControllerDB where "runDB4 = outcome runReclaim"

lemma run_claim: "runClaim = Inr (runDB3, outvalue [] runClaim)"
  unfolding runDB3_def by (rule outcome_Inr) code_simp

lemma run_reclaim: "runReclaim = Inr (runDB4, outvalue [] runReclaim)"
  unfolding runDB4_def by (rule outcome_Inr) code_simp

section \<open>Claimed rows\<close>

lemma claimed_from:
  assumes "ClaimSourceImports s db owner now d n = Inr (db', reqs)" "store_inv db" "q \<in> set reqs"
  shows "\<exists>c\<in>set (db_sources db). q = claimedRequest owner c"
  using assms by (elim ClaimSourceImportsE) auto

lemma claimed_row:
  assumes "ClaimSourceImports s db owner now d n = Inr (db', reqs)" "store_inv db" "q \<in> set reqs"
  shows "\<exists>r\<in>set (db_sources db'). sq_ID (sr_Request r) = sq_ID q \<and> sr_LeaseGeneration r = sq_LeaseGeneration q
    \<and> sr_LeaseOwner r = owner"
proof -
  from assms(1,2) obtain cs e where cs: "\<forall>c\<in>set cs. c \<in> set (db_sources db)"
    and reqs: "reqs = map (claimedRequest owner) cs"
    and rows: "db_sources db' = map (\<lambda>r. if r \<in> set cs then leaseRow owner e r else r) (db_sources db)"
    by (elim ClaimSourceImportsE) auto
  from assms(3) obtain c where c: "c \<in> set cs" "q = claimedRequest owner c" by (auto simp: reqs)
  with cs have "leaseRow owner e c \<in> set (db_sources db')" by (auto simp: rows intro: rev_image_eqI)
  with c(2) show ?thesis by (intro bexI [of _ "leaseRow owner e c"]) (simp_all add: leaseRow_def claimedRequest_def)
qed

lemma request_unique:
  assumes "store_inv db" "x \<in> set (db_sources db)" "y \<in> set (db_sources db)"
    "sq_ID (sr_Request x) = sq_ID (sr_Request y)"
  shows "x = y"
  using assms by (auto simp: store_inv_def tables_ok_def distinct_map inj_on_def)

text \<open>The source requests are a table of leases.\<close>

definition source_lease :: "ControllerDB \<Rightarrow> string \<Rightarrow> int \<Rightarrow> bool" where
  "source_lease db i g \<longleftrightarrow> (\<exists>r\<in>set (db_sources db). sq_ID (sr_Request r) = i \<and> sr_LeaseGeneration r = g)"

interpretation source_requests: lease_table "store_step sha marshal s" store_inv source_lease
proof
  show "store_step sha marshal s db db' \<Longrightarrow> store_inv db \<Longrightarrow> store_inv db'" for db db' by (rule store_step_inv)
  show "store_inv db \<Longrightarrow> source_lease db i g \<Longrightarrow> source_lease db i g' \<Longrightarrow> g = g'" for db i g g'
    unfolding source_lease_def using request_unique by blast
  show "store_step sha marshal s db db' \<Longrightarrow> store_inv db \<Longrightarrow> source_lease db i g \<Longrightarrow> \<exists>g'. source_lease db' i g' \<and> g \<le> g'"
    for db db' i g
    using store_step_extends [of sha marshal s db db'] unfolding extends_def grows_def source_lease_def by metis
qed

lemma stale_source_lease:
  "\<not> source_lease db i g \<Longrightarrow> isl (finishSourceLease db i owner g t new_state)"
proof -
  assume "\<not> source_lease db i g"
  then have "filter (\<lambda>x. sq_ID (sr_Request x) = i \<and> sr_LeaseOwner x = owner
      \<and> sr_LeaseGeneration x = g \<and> sr_State x = SourceStateLeased) (db_sources db) = []"
    by (auto simp: source_lease_def filter_empty_conv)
  then show ?thesis by (simp add: finishSourceLease_def Let_def)
qed

section \<open>One live job for a pull request\<close>

text \<open>
  C24. In every reachable store a job that is not terminal is the current job of the one pull request that its
  target names: the pull request is eligible and its row has the identifier, the generation and the target of
  the job. So a pull request never has two live jobs, and no live job belongs to a pull request that is draft,
  closed, unavailable or blocked.
\<close>

theorem live_job_is_current:
  assumes "store_reachable sha marshal s db" and "map_of (db_jobs db) jid = Some j"
    and "\<not> jobTerminal (jr_State j)"
  shows "\<exists>row. map_of (db_prs db) (targetPRKey (aj_Target (jr_Job j))) = Some row
    \<and> pw_Eligibility row = PREligibilityEligible \<and> pw_JobID row = jid
    \<and> pw_Generation row = jr_Generation j \<and> pw_TargetID row = jr_TargetID j"
proof -
  have "store_inv db" using assms(1) by (rule reachable_inv)
  with assms show ?thesis
    by (simp add: store_inv_def job_ok_def live_job_def jobKey_def names_def del: map_of_eq_Some_iff)
qed

lemma run_job_row: "map_of (db_jobs runDB2) (aj_ID runJob) = Some (newJobRow runJob (runTime 101))"
  by code_simp

theorem live_job_is_current_witness:
  "store_reachable hexSha concat runConfig runDB2
   \<and> (\<exists>row. map_of (db_prs runDB2) (targetPRKey (snapshotTarget runKey runSnapshot)) = Some row
     \<and> pw_Eligibility row = PREligibilityEligible \<and> pw_JobID row = aj_ID runJob
     \<and> pw_Generation row = 1 \<and> pw_TargetID row = aj_TargetID runJob)"
proof -
  have "\<not> jobTerminal (jr_State (newJobRow runJob (runTime 101)))"
    by (simp add: newJobRow_def jobTerminal_def)
  from live_job_is_current [OF run_reachable2 run_job_row this] show ?thesis
    by (auto simp: newJobRow_def runJob_def intro: run_reachable2)
qed

section \<open>Source imports\<close>

text \<open>
  C26. A source import is handed out only for current work: in every reachable store, each claimed request belongs
  to a job that is still importing its source, and that job is the current job of an eligible pull request
  with the target and generation of the request. What was superseded or cancelled is never claimed.
\<close>

theorem claimed_work_is_current:
  assumes "store_reachable sha marshal s db" and "ClaimSourceImports s db owner now d n = Inr (db', reqs)"
    and "q \<in> set reqs"
  shows "\<exists>j row. map_of (db_jobs db') (sq_JobID q) = Some j \<and> jr_State j = JobStateImportingSource
    \<and> map_of (db_prs db') (targetPRKey (aj_Target (jr_Job j))) = Some row
    \<and> pw_Eligibility row = PREligibilityEligible \<and> pw_JobID row = sq_JobID q
    \<and> pw_TargetID row = sq_TargetID q \<and> pw_Generation row = sq_Generation q"
proof -
  have inv: "store_inv db" using assms(1) by (rule reachable_inv)
  from assms(2) inv obtain cs where cs: "\<forall>c\<in>set cs. c \<in> set (db_sources db) \<and> claimable (formatTime now) c"
    and reqs: "reqs = map (claimedRequest owner) cs" and db': "db_jobs db' = db_jobs db" "db_prs db' = db_prs db"
    by (elim ClaimSourceImportsE) auto
  from assms(3) obtain c where c: "c \<in> set cs" and q: "q = claimedRequest owner c" by (auto simp: reqs)
  from cs c have "open_request c" by (auto simp: claimable_def open_request_def)
  with inv cs c obtain j where j: "map_of (db_jobs db) (sq_JobID (sr_Request c)) = Some j"
    "jr_Generation j = sq_Generation (sr_Request c)" "jr_TargetID j = sq_TargetID (sr_Request c)"
    "jr_State j = JobStateImportingSource"
    by (auto simp: store_inv_def source_ok_def)
  moreover have "live_job j" by (simp add: live_job_def jobTerminal_def j(4))
  with inv j(1) obtain row where "map_of (db_prs db) (jobKey j) = Some row" "names row (sq_JobID (sr_Request c)) j"
    unfolding store_inv_def job_ok_def by blast
  ultimately show ?thesis by (simp add: db' q claimedRequest_def jobKey_def names_def)
qed

definition runClaimed :: SourceImportRequest where "runClaimed = hd (outvalue [] runClaim)"

lemma run_claimed: "runClaimed \<in> set (outvalue [] runClaim)"
proof -
  have "outvalue [] runClaim \<noteq> []" by code_simp
  then show ?thesis by (simp add: runClaimed_def)
qed

theorem claimed_work_is_current_witness:
  "runClaimed \<in> set (outvalue [] runClaim)
   \<and> (\<exists>j row. map_of (db_jobs runDB3) (sq_JobID runClaimed) = Some j \<and> jr_State j = JobStateImportingSource
     \<and> map_of (db_prs runDB3) (targetPRKey (aj_Target (jr_Job j))) = Some row
     \<and> pw_Eligibility row = PREligibilityEligible \<and> pw_JobID row = sq_JobID runClaimed
     \<and> pw_TargetID row = sq_TargetID runClaimed \<and> pw_Generation row = sq_Generation runClaimed)"
  using claimed_work_is_current [OF run_reachable2 run_claim run_claimed] run_claimed by blast

text \<open>
  C27. A lease on a source import fences off its predecessors: when a request that was claimed is claimed again
  later in the run, the second claim has a higher lease generation, and from then on the first holder can neither
  acknowledge nor release the request nor report a result for it.
\<close>

theorem source_lease_fenced:
  assumes "store_reachable sha marshal s db" and "ClaimSourceImports s db owner now d n = Inr (db1, reqs1)"
    and "(store_step sha marshal s)\<^sup>*\<^sup>* db1 db2" and "ClaimSourceImports s db2 owner' now' d' n' = Inr (db3, reqs2)"
    and "q1 \<in> set reqs1" and "q2 \<in> set reqs2" and "sq_ID q1 = sq_ID q2" and "(store_step sha marshal s)\<^sup>*\<^sup>* db3 db4"
  shows "sq_LeaseGeneration q1 < sq_LeaseGeneration q2
    \<and> isl (AcknowledgeSourceImport db4 (sq_ID q1) owner (sq_LeaseGeneration q1) t)
    \<and> isl (ReleaseSourceImport db4 (sq_ID q1) owner (sq_LeaseGeneration q1) t)
    \<and> (si_RequestID r = sq_ID q1 \<longrightarrow> isl (ApplySourceImportResult marshal db4 r owner (sq_LeaseGeneration q1) t))"
proof -
  have inv: "store_inv db" using assms(1) by (rule reachable_inv)
  then have inv1: "store_inv db1" using assms(2) by (rule ClaimSourceImports_inv)
  with assms(3) have inv2: "store_inv db2" by (rule run_inv)
  then have inv3: "store_inv db3" using assms(4) by (rule ClaimSourceImports_inv)
  have l1: "source_lease db1 (sq_ID q1) (sq_LeaseGeneration q1)"
    using claimed_row [OF assms(2) inv assms(5)] by (auto simp: source_lease_def)
  have l2: "source_lease db2 (sq_ID q1) (sq_LeaseGeneration q2 - 1)"
    using claimed_from [OF assms(4) inv2 assms(6)] assms(7) by (auto simp: source_lease_def claimedRequest_def)
  have l3: "source_lease db3 (sq_ID q1) (sq_LeaseGeneration q2)"
    using claimed_row [OF assms(4) inv2 assms(6)] assms(7) by (auto simp: source_lease_def)
  note fence = source_requests.fenced [OF inv1 l1 assms(3) l2 inv3 l3 assms(8)]
  have "isl (ApplySourceImportResult marshal db4 r owner (sq_LeaseGeneration q1) t)" if "si_RequestID r = sq_ID q1"
  proof (cases "ApplySourceImportResult marshal db4 r owner (sq_LeaseGeneration q1) t")
    case (Inr db5)
    then obtain row where "row \<in> set (db_sources db4)" "sq_ID (sr_Request row) = si_RequestID r"
      "sr_LeaseGeneration row = sq_LeaseGeneration q1" by (rule ApplySourceImportResultE)
    with fence(2) that show ?thesis by (auto simp: source_lease_def)
  qed simp
  with fence(1) stale_source_lease [OF fence(2)] show ?thesis
    by (simp add: AcknowledgeSourceImport_def ReleaseSourceImport_def)
qed

definition runReclaimed :: SourceImportRequest where "runReclaimed = hd (outvalue [] runReclaim)"

lemma run_reclaimed: "runReclaimed \<in> set (outvalue [] runReclaim)" and run_same_id: "sq_ID runClaimed = sq_ID runReclaimed"
proof -
  have "outvalue [] runReclaim \<noteq> []" by code_simp
  then show "runReclaimed \<in> set (outvalue [] runReclaim)" by (simp add: runReclaimed_def)
  show "sq_ID runClaimed = sq_ID runReclaimed" by code_simp
qed

theorem source_lease_fenced_witness:
  "sq_LeaseGeneration runClaimed < sq_LeaseGeneration runReclaimed
   \<and> isl (AcknowledgeSourceImport runDB4 (sq_ID runClaimed) ''worker'' (sq_LeaseGeneration runClaimed) (runTime 210))"
  using source_lease_fenced [OF run_reachable2 run_claim rtranclp.rtrancl_refl run_reclaim run_claimed run_reclaimed
      run_same_id rtranclp.rtrancl_refl, of "runTime 210"] by blast

section \<open>Generations and deliveries\<close>

text \<open>
  C37. The generation of a pull request never falls along a run of the store, and as long as it stays the same the
  pull request keeps its eligibility, its target and its job: every change of what is current has a
  generation of its own.
\<close>

theorem generations_never_go_back:
  assumes "store_reachable sha marshal s db" and "(store_step sha marshal s)\<^sup>*\<^sup>* db db'"
  shows "cu_Generation (readCurrent db K) \<le> cu_Generation (readCurrent db' K)
    \<and> (cu_Generation (readCurrent db K) = cu_Generation (readCurrent db' K) \<longrightarrow>
         cu_Eligibility (readCurrent db' K) = cu_Eligibility (readCurrent db K)
         \<and> cu_CurrentTargetID (readCurrent db' K) = cu_CurrentTargetID (readCurrent db K)
         \<and> cu_CurrentJobID (readCurrent db' K) = cu_CurrentJobID (readCurrent db K))"
proof -
  have "store_inv db" using assms(1) by (rule reachable_inv)
  with assms(2) have "advances K db db'" by (rule run_advances)
  then show ?thesis by (simp add: advances_def Let_def)
qed

theorem generations_never_go_back_witness:
  "cu_Generation (readCurrent runDB1 runKey) \<le> cu_Generation (readCurrent runDB2 runKey)
   \<and> cu_Generation (readCurrent runDB1 runKey) = 0 \<and> cu_Generation (readCurrent runDB2 runKey) = 1"
proof -
  have "cu_Generation (readCurrent runDB1 runKey) = 0" "cu_Generation (readCurrent runDB2 runKey) = 1" by code_simp+
  with generations_never_go_back [OF run_reachable1 run_steps2, of runKey] show ?thesis by simp
qed

text \<open>The processed row that a successful application leaves behind.\<close>

lemma processed_row:
  assumes "ApplyPullRequestSnapshot sha s db i = Inr (db', r)"
  shows "\<exists>row. map_of (db_processed db') (pz_ReceiverID (ri_Processed i), pz_OutboxID (ri_Processed i)) = Some row
    \<and> zr_ProjectionDigest row = pz_ProjectionDigest (ri_Processed i) \<and> zr_Generation row = rr_Generation r
    \<and> zr_TargetID row = rr_TargetID r \<and> zr_JobID row = rr_JobID r"
  using assms
proof (cases rule: ApplyPullRequestSnapshot_cases)
  case duplicate
  then show ?thesis
    by (auto simp: checkProcessed_def releaseReconcileLease_def emptyResult_def split: option.splits if_splits)
next
  case (fresh db1 db2)
  let ?k = "(pz_ReceiverID (ri_Processed i), pz_OutboxID (ri_Processed i))"
  from fresh(4) obtain row where row: "map_of (db_processed db2) ?k = Some row"
    "zr_ProjectionDigest row = pz_ProjectionDigest (ri_Processed i)" "zr_Generation row = rr_Generation r"
    "zr_TargetID row = rr_TargetID r" "zr_JobID row = rr_JobID r"
    by (auto simp: insertProcessed_def insert_row_def map_add_def split: option.splits if_splits)
  moreover have "db_processed db' = db_processed db2"
    using fresh(5) by (auto simp: releaseReconcileLease_def split: if_splits)
  ultimately show ?thesis by simp
qed

text \<open>
  C25. A delivery takes effect once. After a snapshot was applied for an outbox record, every later application for the
  same record, anywhere in the run, changes no table but the lease it releases and reports the generation, the
  target and the job of the first one as a duplicate; and a record with another projection digest is
  rejected as a conflict.
\<close>

theorem delivery_takes_effect_once:
  assumes "ApplyPullRequestSnapshot sha s db i = Inr (db1, r)" and "(store_step sha marshal s)\<^sup>*\<^sup>* db1 db2"
    and "store_validateInput s i2 = None" and "holdsLease db2 (ri_Lease i2)"
    and "pz_ReceiverID (ri_Processed i2) = pz_ReceiverID (ri_Processed i)"
    and "pz_OutboxID (ri_Processed i2) = pz_OutboxID (ri_Processed i)"
  shows "if pz_ProjectionDigest (ri_Processed i2) = pz_ProjectionDigest (ri_Processed i)
    then ApplyPullRequestSnapshot sha s db2 i2 =
      Inr (db2\<lparr> db_leases := AList.delete (rl_Key (ri_Lease i2)) (db_leases db2) \<rparr>,
        emptyResult\<lparr> rr_Decision := DecisionDuplicateProcessed, rr_Generation := rr_Generation r,
          rr_TargetID := rr_TargetID r, rr_JobID := rr_JobID r \<rparr>)
    else ApplyPullRequestSnapshot sha s db2 i2 = Inl (storeErr ''processed-delivery-conflict'' ''processed'')"
proof -
  let ?k = "(pz_ReceiverID (ri_Processed i), pz_OutboxID (ri_Processed i))"
  from processed_row [OF assms(1)] obtain row where row: "map_of (db_processed db1) ?k = Some row"
    "zr_ProjectionDigest row = pz_ProjectionDigest (ri_Processed i)" "zr_Generation row = rr_Generation r"
    "zr_TargetID row = rr_TargetID r" "zr_JobID row = rr_JobID r" by blast
  with run_extends [OF assms(2)] have "map_of (db_processed db2) ?k = Some row" by (simp add: extends_def)
  with row assms(3-6) show ?thesis
    by (simp add: ApplyPullRequestSnapshot_def checkProcessed_def releaseReconcileLease_def)
qed

definition runDB2L :: ControllerDB where
  "runDB2L = runDB2\<lparr> db_leases := db_leases runDB1 \<rparr>"

lemma run_acquire_again:
  "AcquireReconcileLease runConfig runDB2 runKey ''c1'' (runTime 100) (30 * 10 ^ 9) = Inr (runDB2L, runLease)"
proof -
  have ok: "validatePRKey runKey = None" "validID ''c1''" "validTime (runTime 100)"
    "sm_ReconcileLeaseDuration (sc_Limits runConfig) = 30 * 10 ^ 9" "db_leases runDB2 = []"
    "upsert_row runKey \<lparr> lr_Owner = ''c1'', lr_Generation = 1, lr_AcquiredAt = formatTime (runTime 100),
      lr_ExpiresAt = formatTime (addTime (runTime 100) (30 * 10 ^ 9)) \<rparr> [] = db_leases runDB1"
    by code_simp+
  then show ?thesis by (simp add: AcquireReconcileLease_def Let_def runDB2L_def runLease_def)
qed

theorem delivery_takes_effect_once_witness:
  "ApplyPullRequestSnapshot hexSha runConfig runDB2L runInput =
     Inr (runDB2L\<lparr> db_leases := AList.delete runKey (db_leases runDB2L) \<rparr>,
       emptyResult\<lparr> rr_Decision := DecisionDuplicateProcessed, rr_Generation := 1,
         rr_TargetID := aj_TargetID runJob, rr_JobID := aj_ID runJob \<rparr>)"
proof -
  have "store_step hexSha concat runConfig runDB2 runDB2L"
    using run_acquire_again by (rule store_step.acquire)
  then have run: "(store_step hexSha concat runConfig)\<^sup>*\<^sup>* runDB2 runDB2L" by blast
  have "holdsLease runDB2L (ri_Lease runInput)"
    by (simp add: holdsLease_def runDB2L_def runDB1_def runInput_def runLease_def)
  from delivery_takes_effect_once [OF run_apply run run_validate this refl refl] show ?thesis
    by (simp add: runInput_def runLease_def runResult_def)
qed

section \<open>Attempts\<close>

text \<open>
  A job never has more than 32 attempts in a reachable store, whatever limit the store was configured with, and its
  attempt numbers are distinct and between 1 and 32.
\<close>

lemma attempts_bounded:
  assumes "store_reachable sha marshal s db"
  shows "CountAttempts db jid \<le> 32 \<and> distinct (map ar_Number (attemptsOf db jid))
    \<and> set (map ar_Number (attemptsOf db jid)) \<subseteq> {1..32}"
proof -
  have ok: "attempts_ok db" using reachable_inv [OF assms] by (simp add: store_inv_def)
  let ?ns = "map ar_Number (attemptsOf db jid)"
  have "distinct (map (\<lambda>a. (ar_JobID a, ar_Number a)) (map snd (db_attempts db)))"
    using ok by (simp add: attempts_ok_def o_def case_prod_unfold)
  then have "distinct (map (\<lambda>a. (ar_JobID a, ar_Number a)) (attemptsOf db jid))"
    unfolding attemptsOf_def by (rule distinct_map_filter)
  then have dist: "distinct ?ns"
    by (auto simp: distinct_map inj_on_def attemptsOf_def)
  have sub: "set ?ns \<subseteq> {1..32}"
    using ok by (auto simp: attempts_ok_def attemptsOf_def)
  have "CountAttempts db jid = card (set ?ns)"
    using distinct_card [OF dist] by (simp add: CountAttempts_def)
  also have "\<dots> \<le> card {1..32 :: int}" by (rule card_mono) (use sub in simp_all)
  finally have "CountAttempts db jid \<le> 32" by simp
  with dist sub show ?thesis by blast
qed

lemma attempts_bounded_witness:
  "CountAttempts runDB2 (aj_ID runJob) = 1 \<and> CountAttempts runDB2 (aj_ID runJob) \<le> 32"
proof -
  have "CountAttempts runDB2 (aj_ID runJob) = 1" by code_simp
  with attempts_bounded [OF run_reachable2, of "aj_ID runJob"] show ?thesis by blast
qed

end
