(* ===== verification/GithubApp_Props.thy ===== *)
theory GithubApp_Props
  imports GithubControl
begin

text \<open>
  The properties of the GitHub App protocol core: its four state machines, webhook signatures and
  headers, the identities of targets, jobs and attempts, and the advisory check.

  The locale \<open>state_machine\<close> is what a transition function promises; \<open>ranked_machine\<close> adds
  a rank that every proper move lowers. The transition functions of deliveries and jobs are ranked, those of
  attempts and publications are state machines only: a lease may expire again and again, and a publication may
  become ambiguous again and again.
\<close>

section \<open>State machines\<close>

definition move :: "(string \<Rightarrow> string \<Rightarrow> string result) \<Rightarrow> string \<Rightarrow> string \<Rightarrow> bool" where
  "move tr s t \<longleftrightarrow> s \<noteq> t \<and> tr s t = Inr t"

text \<open>A run: every state is reached from the one before it by a proper move.\<close>

fun run :: "(string \<Rightarrow> string \<Rightarrow> string result) \<Rightarrow> string list \<Rightarrow> bool" where
  "run tr (s # t # ss) \<longleftrightarrow> move tr s t \<and> run tr (t # ss)"
| "run tr _ \<longleftrightarrow> True"

locale state_machine =
  fixes tr :: "string \<Rightarrow> string \<Rightarrow> string result" and terminal :: "string \<Rightarrow> bool"
    and states :: "string list"
  assumes stay: "tr s s = Inr s"
    and target: "tr s t = Inr u \<Longrightarrow> u = t"
    and absorbing: "terminal s \<Longrightarrow> \<not> move tr s t"
    and known: "move tr s t \<Longrightarrow> s \<in> set states \<and> t \<in> set states"
    and finishing: "s \<in> set states \<Longrightarrow> \<not> terminal s \<Longrightarrow> \<exists>m. (move tr)\<^sup>*\<^sup>* s m \<and> terminal m"
begin

lemma terminal_stays: "(move tr)\<^sup>*\<^sup>* s t \<Longrightarrow> terminal s \<Longrightarrow> t = s"
  by (induction rule: converse_rtranclp_induct) (auto dest: absorbing)

lemma accepted_iff: "tr s t = Inr u \<longleftrightarrow> u = t \<and> (s = t \<or> move tr s t)"
  using stay target by (auto simp: move_def)

lemma can_finish: "s \<in> set states \<Longrightarrow> \<exists>m. (move tr)\<^sup>*\<^sup>* s m \<and> terminal m"
  using finishing by (cases "terminal s") auto

end

locale ranked_machine = state_machine +
  fixes rank :: "string \<Rightarrow> nat"
  assumes lowers: "move tr s t \<Longrightarrow> rank t < rank s"
begin

lemma run_length: "run tr (s # ss) \<Longrightarrow> length ss \<le> rank s"
proof (induction ss arbitrary: s)
  case (Cons t ss)
  then have "move tr s t" "length ss \<le> rank t" by auto
  with lowers show ?case by fastforce
qed simp

lemma moves_wf: "wfp (\<lambda>t s. move tr s t)"
  by (rule wfp_if_convertible_to_nat [of _ rank]) (rule lowers)

end

section \<open>The machines of the protocol\<close>

text \<open>
  All four transition functions have one shape: a table of allowed moves and a predicate of terminal states.
  What the state machine promises can then be read off the table.
\<close>

lemma successors_known: "t \<in> set (successors tbl s) \<Longrightarrow> \<exists>ts. (s, ts) \<in> set tbl \<and> t \<in> set ts"
  by (cases "map_of tbl s") (auto simp: successors_def dest: map_of_SomeD)

locale table_machine =
  fixes tr :: "string \<Rightarrow> string \<Rightarrow> string result" and terminal :: "string \<Rightarrow> bool" and states :: "string list"
    and tbl :: "(string \<times> string list) list" and failure :: go_error and abort :: string
  assumes shape: "tr s t = (if s = t then Inr s else if terminal s then Inl failure
      else if t \<in> set (successors tbl s) then Inr t else Inl failure)"
    and closed: "list_all (\<lambda>(s, ts). list_all (\<lambda>t. s \<in> set states \<and> t \<in> set states) ts) tbl"
    and aborts: "list_all (\<lambda>s. terminal s \<or> s \<noteq> abort \<and> abort \<in> set (successors tbl s)) states"
    and abort_terminal: "terminal abort"
begin

lemma move_iff: "move tr s t \<longleftrightarrow> s \<noteq> t \<and> \<not> terminal s \<and> t \<in> set (successors tbl s)"
  by (auto simp: move_def shape)

lemma move_entry: "move tr s t \<Longrightarrow> \<exists>ts. (s, ts) \<in> set tbl \<and> t \<in> set ts"
  by (simp add: move_iff successors_known)

lemma abort_move: "s \<in> set states \<Longrightarrow> \<not> terminal s \<Longrightarrow> move tr s abort"
  using aborts by (auto simp: move_iff list_all_iff)

end

sublocale table_machine \<subseteq> state_machine tr terminal states
proof
  show "tr s s = Inr s" for s by (simp add: shape)
  show "tr s t = Inr u \<Longrightarrow> u = t" for s t u by (auto simp: shape split: if_splits)
  show "terminal s \<Longrightarrow> \<not> move tr s t" for s t by (simp add: move_iff)
  show "move tr s t \<Longrightarrow> s \<in> set states \<and> t \<in> set states" for s t
    using closed move_entry [of s t] by (fastforce simp: list_all_iff)
  show "\<exists>m. (move tr)\<^sup>*\<^sup>* s m \<and> terminal m" if "s \<in> set states" "\<not> terminal s" for s
    using abort_move [OF that] abort_terminal by blast
qed

locale ranked_table = table_machine +
  fixes rank :: "string \<Rightarrow> nat"
  assumes ranked: "list_all (\<lambda>(s, ts). list_all (\<lambda>t. rank t < rank s) ts) tbl"

sublocale ranked_table \<subseteq> ranked_machine tr terminal states rank
proof
  show "move tr s t \<Longrightarrow> rank t < rank s" for s t
    using ranked move_entry [of s t] by (fastforce simp: list_all_iff)
qed

definition deliveryStates :: "string list" where
  "deliveryStates = [DeliveryStateReceived, DeliveryStateVerified, DeliveryStatePersisted, DeliveryStateEnqueued,
     DeliveryStateIgnored, DeliveryStateRejected]"

definition jobStates :: "string list" where
  "jobStates = [JobStateQueued, JobStateImportingSource, JobStatePlanning, JobStateAwaitingRunner, JobStateRunning,
     JobStateValidatingReport, JobStateReadyToPublish, JobStateCompleted, JobStateFailed, JobStateSuperseded,
     JobStateCancelled]"

definition attemptStates :: "string list" where
  "attemptStates = [AttemptStateQueued, AttemptStateLeased, AttemptStateRunning, AttemptStateCompleted,
     AttemptStateFailed, AttemptStateCancelled, AttemptStateLeaseExpired]"

definition publicationStates :: "string list" where
  "publicationStates = [CheckPublicationAbsent, CheckPublicationCreatePending, CheckPublicationQueued,
     CheckPublicationInProgress, CheckPublicationCompletionPending, CheckPublicationCompleted,
     CheckPublicationCancelled, CheckPublicationAmbiguous, CheckPublicationFailed]"

text \<open>The number of states that can still follow.\<close>

definition deliveryRank :: "string \<Rightarrow> nat" where
  "deliveryRank s = (case map_of [(DeliveryStateReceived, 3), (DeliveryStateVerified, 2), (DeliveryStatePersisted, 1)] s of
     Some n \<Rightarrow> n | None \<Rightarrow> 0)"

definition jobRank :: "string \<Rightarrow> nat" where
  "jobRank s = (case map_of [(JobStateQueued, 7), (JobStateImportingSource, 6), (JobStatePlanning, 5),
       (JobStateAwaitingRunner, 4), (JobStateRunning, 3), (JobStateValidatingReport, 2), (JobStateReadyToPublish, 1)] s of
     Some n \<Rightarrow> n | None \<Rightarrow> 0)"

interpretation delivery: ranked_table TransitionDelivery deliveryTerminal deliveryStates deliveryAllowed
  "githubErr ''invalid-state-transition'' ''delivery''" DeliveryStateRejected deliveryRank
  by unfold_locales (rule TransitionDelivery_def, code_simp, code_simp, code_simp, code_simp)

interpretation job: ranked_table TransitionJob jobTerminal jobStates jobAllowed
  "githubErr ''invalid-state-transition'' ''job''" JobStateFailed jobRank
  by unfold_locales (rule TransitionJob_def, code_simp, code_simp, code_simp, code_simp)

interpretation attempt: table_machine TransitionAttempt attemptTerminal attemptStates attemptAllowed
  "githubErr ''invalid-state-transition'' ''attempt''" AttemptStateCancelled
  by unfold_locales (rule TransitionAttempt_def, code_simp, code_simp, code_simp)

interpretation publication: table_machine TransitionPublication publicationTerminal publicationStates publicationAllowed
  "githubErr ''invalid-state-transition'' ''publication''" CheckPublicationFailed
  by unfold_locales (rule TransitionPublication_def, code_simp, code_simp, code_simp)

lemma jobRank_le: "jobRank s \<le> 7"
  by (simp add: jobRank_def)

lemma run_last_known:
  "run TransitionJob (s # ss) \<Longrightarrow> s \<in> set jobStates \<Longrightarrow> last (s # ss) \<in> set jobStates"
  by (induction ss arbitrary: s) (auto dest: job.known)

text \<open>
  C36. The life of a job ends: a run of proper transitions, from any state and however it is continued, has at most
  eight states, and a run from a state of the protocol that cannot be continued has ended in a terminal state
  (completed, failed, superseded or cancelled).
\<close>

theorem job_runs_end:
  assumes "run TransitionJob (s # ss)"
  shows "length (s # ss) \<le> 8
    \<and> (s \<in> set jobStates \<and> (\<forall>t. \<not> move TransitionJob (last (s # ss)) t) \<longrightarrow> jobTerminal (last (s # ss)))"
proof -
  have "length ss \<le> 7"
    using job.run_length [OF assms] jobRank_le [of s] by linarith
  moreover have "jobTerminal (last (s # ss))" if "s \<in> set jobStates" "\<forall>t. \<not> move TransitionJob (last (s # ss)) t"
    using job.abort_move [OF run_last_known [OF assms that(1)]] that(2) by blast
  ultimately show ?thesis by simp
qed

theorem job_runs_end_witness:
  "length [JobStateQueued, JobStateImportingSource, JobStatePlanning, JobStateAwaitingRunner, JobStateRunning,
      JobStateValidatingReport, JobStateReadyToPublish, JobStateCompleted] \<le> 8 \<and> jobTerminal JobStateCompleted"
proof -
  have "run TransitionJob [JobStateQueued, JobStateImportingSource, JobStatePlanning, JobStateAwaitingRunner,
      JobStateRunning, JobStateValidatingReport, JobStateReadyToPublish, JobStateCompleted]"
    by code_simp
  from job_runs_end [OF this] show ?thesis by (simp add: jobTerminal_def)
qed

text \<open>
  Nothing gets stuck: from every state of a delivery, a job, an attempt or a check publication a terminal state can
  be reached by the transitions the protocol accepts, and a terminal state is never left again.
\<close>

lemma machines_can_finish:
  "(\<forall>s\<in>set deliveryStates. \<exists>m. (move TransitionDelivery)\<^sup>*\<^sup>* s m \<and> deliveryTerminal m)
   \<and> (\<forall>s\<in>set jobStates. \<exists>m. (move TransitionJob)\<^sup>*\<^sup>* s m \<and> jobTerminal m)
   \<and> (\<forall>s\<in>set attemptStates. \<exists>m. (move TransitionAttempt)\<^sup>*\<^sup>* s m \<and> attemptTerminal m)
   \<and> (\<forall>s\<in>set publicationStates. \<exists>m. (move TransitionPublication)\<^sup>*\<^sup>* s m \<and> publicationTerminal m)
   \<and> (\<forall>m t. deliveryTerminal m \<and> (move TransitionDelivery)\<^sup>*\<^sup>* m t \<or> jobTerminal m \<and> (move TransitionJob)\<^sup>*\<^sup>* m t
        \<or> attemptTerminal m \<and> (move TransitionAttempt)\<^sup>*\<^sup>* m t
        \<or> publicationTerminal m \<and> (move TransitionPublication)\<^sup>*\<^sup>* m t \<longrightarrow> t = m)"
  using delivery.can_finish job.can_finish attempt.can_finish publication.can_finish
    delivery.terminal_stays job.terminal_stays attempt.terminal_stays publication.terminal_stays
  by blast

lemma machines_can_finish_witness:
  "AttemptStateLeaseExpired \<in> set attemptStates
   \<and> (\<exists>m. (move TransitionAttempt)\<^sup>*\<^sup>* AttemptStateLeaseExpired m \<and> attemptTerminal m)"
proof -
  have "AttemptStateLeaseExpired \<in> set attemptStates" by (simp add: attemptStates_def)
  with machines_can_finish show ?thesis by blast
qed

text \<open>An expired lease is not terminal: the attempt may be queued, leased and expire again without end.\<close>

lemma expired_lease_can_repeat:
  "move TransitionAttempt AttemptStateLeaseExpired AttemptStateQueued
   \<and> move TransitionAttempt AttemptStateQueued AttemptStateLeased
   \<and> move TransitionAttempt AttemptStateLeased AttemptStateLeaseExpired"
  by code_simp

section \<open>Signatures\<close>

definition signatureHeader :: "(string \<Rightarrow> string) \<Rightarrow> string \<Rightarrow> string \<Rightarrow> string" where
  "signatureHeader sha body secret = ''sha256='' @ hex_encode (hmacSHA256 sha body secret)"

lemma lower_hex_cases:
  assumes "lower_hex_char c"
  shows "hex_val c < 16" and "hex_char (hex_val c) = c"
proof -
  have "of_char c \<in> {48..<58} \<union> {97..<103 :: nat}"
    using assms by (auto simp: lower_hex_char_def less_eq_char_def)
  then have "of_char c \<in> set ([48..<58] @ [97..<103] :: nat list)"
    unfolding set_append set_upt .
  moreover have "list_all (\<lambda>n. hex_val (char_of n) < 16 \<and> hex_char (hex_val (char_of n)) = char_of n)
      ([48..<58] @ [97..<103] :: nat list)"
    by code_simp
  ultimately have "hex_val (char_of (of_char c :: nat)) < 16
      \<and> hex_char (hex_val (char_of (of_char c :: nat))) = char_of (of_char c :: nat)"
    unfolding list_all_iff by blast
  then show "hex_val c < 16" and "hex_char (hex_val c) = c" by simp_all
qed

lemma hex_encode_unhex:
  "list_all lower_hex_char h \<Longrightarrow> even (length h) \<Longrightarrow> hex_encode (unhex h) = h \<and> 2 * length (unhex h) = length h"
proof (induction h rule: unhex.induct)
  case (1 a b s)
  have v: "16 * hex_val a + hex_val b < 256" using "1.prems" lower_hex_cases [of a] lower_hex_cases [of b] by auto
  have "hex2 (of_char (char_of (16 * hex_val a + hex_val b))) = [a, b]"
    using "1.prems" lower_hex_cases [of a] lower_hex_cases [of b] v
    by (simp add: hex2_def hex_char_def)
  with 1 show ?case by (simp add: hex_encode_def)
qed (simp_all add: hex_encode_def)

lemma unhex_inject:
  "isLowerHex h 64 \<Longrightarrow> isLowerHex h' 64 \<Longrightarrow> unhex h = unhex h' \<longleftrightarrow> h = h'"
  using hex_encode_unhex [of h] hex_encode_unhex [of h'] unfolding isLowerHex_def
  by (metis even_numeral)

lemma hmac_hex: "(\<And>s. isLowerHex (sha s) 64) \<Longrightarrow> \<exists>h. isLowerHex h 64 \<and> hmacSHA256 sha body secret = unhex h"
  by (auto simp: hmacSHA256_def Let_def)

lemma signature_match:
  assumes "\<And>s. isLowerHex (sha s) 64" and "isLowerHex h 64"
  shows "hmacSHA256 sha body secret = unhex h \<longleftrightarrow> ''sha256='' @ h = signatureHeader sha body secret"
proof -
  obtain m where m: "isLowerHex m 64" "hmacSHA256 sha body secret = unhex m" using hmac_hex assms(1) by blast
  then have "hex_encode (hmacSHA256 sha body secret) = m"
    using hex_encode_unhex [of m] by (simp add: isLowerHex_def)
  with m assms(2) show ?thesis by (auto simp: signatureHeader_def unhex_inject)
qed

lemma parse_signature:
  "ParseGitHubSignatureHeader header limits = Inr w \<longleftrightarrow> github_validateLimits limits = None
     \<and> 71 \<le> gl_MaxSignatureHeaderBytes limits \<and> (\<exists>h. isLowerHex h 64 \<and> header = ''sha256='' @ h \<and> w = unhex h)"
proof -
  have "length header = 71 \<and> take 7 header = ''sha256='' \<and> list_all lower_hex_char (drop 7 header)
      \<longleftrightarrow> (\<exists>h. isLowerHex h 64 \<and> header = ''sha256='' @ h)" (is "?A \<longleftrightarrow> ?B")
  proof
    assume ?A
    then have "header = ''sha256='' @ drop 7 header" by (metis append_take_drop_id)
    with \<open>?A\<close> show ?B by (intro exI [of _ "drop 7 header"]) (simp add: isLowerHex_def)
  qed (auto simp: isLowerHex_def)
  then show ?thesis
    by (auto simp: ParseGitHubSignatureHeader_def result_simps isLowerHex_def)
qed

lemma verify_unfold:
  "VerifyWebhookSignature sha body header secrets limits = Inr g \<longleftrightarrow>
     github_validateLimits limits = None \<and> int (length body) \<le> gl_MaxWebhookBodyBytes limits
     \<and> validateSecret (ws_Current secrets) limits = None
     \<and> (ws_Previous secrets \<noteq> [] \<longrightarrow> validateSecret (ws_Previous secrets) limits = None)
     \<and> (\<exists>w. ParseGitHubSignatureHeader header limits = Inr w
        \<and> (if hmacSHA256 sha body (ws_Current secrets) = w then g = SecretGenerationCurrent
           else ws_Previous secrets \<noteq> [] \<and> hmacSHA256 sha body (ws_Previous secrets) = w \<and> g = SecretGenerationPrevious))"
proof -
  have res: "(let c = a; p = b in if c then Inr x else if p then Inr y else Inl e) = Inr g
      \<longleftrightarrow> (if a then g = x else b \<and> g = y)" for a b and x y :: string and e :: go_error
    by auto
  have prev: "(if ws_Previous secrets \<noteq> [] then validateSecret (ws_Previous secrets) limits else None) = None
      \<longleftrightarrow> (ws_Previous secrets \<noteq> [] \<longrightarrow> validateSecret (ws_Previous secrets) limits = None)"
    by simp
  show ?thesis
    unfolding VerifyWebhookSignature_def rcheck_eq_Inr if_Inl_eq_Inr rbind_eq_Inr res prev not_less conj_assoc ..
qed

text \<open>
  C35. A webhook is authenticated exactly when its signature header is the HMAC-SHA256 of its body: within valid
  limits, with secrets of permitted length and a body that is not too large, the verification succeeds if and
  only if the header is \<open>sha256=\<close> followed by the lower-case hexadecimal text of the HMAC under the current secret,
  or under the previous secret when there is one, and it names the secret that matched, the current one first.
\<close>

theorem signature_accepted_iff:
  assumes sha: "\<And>s. isLowerHex (sha s) 64"
  shows "VerifyWebhookSignature sha body header secrets limits = Inr g \<longleftrightarrow>
    github_validateLimits limits = None \<and> int (length body) \<le> gl_MaxWebhookBodyBytes limits
    \<and> validateSecret (ws_Current secrets) limits = None
    \<and> (ws_Previous secrets \<noteq> [] \<longrightarrow> validateSecret (ws_Previous secrets) limits = None)
    \<and> 71 \<le> gl_MaxSignatureHeaderBytes limits
    \<and> (if header = signatureHeader sha body (ws_Current secrets) then g = SecretGenerationCurrent
       else ws_Previous secrets \<noteq> [] \<and> header = signatureHeader sha body (ws_Previous secrets)
         \<and> g = SecretGenerationPrevious)"
proof -
  let ?cur = "signatureHeader sha body (ws_Current secrets)" and ?prev = "signatureHeader sha body (ws_Previous secrets)"
  have hex: "\<exists>h. isLowerHex h 64 \<and> signatureHeader sha body secret = ''sha256='' @ h" for secret
    using hmac_hex [of sha body secret, OF sha] hex_encode_unhex
    by (fastforce simp: signatureHeader_def isLowerHex_def)
  define Q where "Q w \<longleftrightarrow> (if hmacSHA256 sha body (ws_Current secrets) = w then g = SecretGenerationCurrent
    else ws_Previous secrets \<noteq> [] \<and> hmacSHA256 sha body (ws_Previous secrets) = w \<and> g = SecretGenerationPrevious)" for w
  define R where "R \<longleftrightarrow> (if header = ?cur then g = SecretGenerationCurrent
    else ws_Previous secrets \<noteq> [] \<and> header = ?prev \<and> g = SecretGenerationPrevious)"
  have QR: "Q (unhex h) \<longleftrightarrow> R" if "isLowerHex h 64" "header = ''sha256='' @ h" for h
    unfolding Q_def R_def signature_match [of sha h body, OF sha that(1)] that(2) ..
  have R: "\<exists>h. isLowerHex h 64 \<and> header = ''sha256='' @ h" if R
    using that hex [of "ws_Current secrets"] hex [of "ws_Previous secrets"] by (auto simp: R_def split: if_splits)
  have "(\<exists>w. ParseGitHubSignatureHeader header limits = Inr w \<and> Q w) \<longleftrightarrow>
      github_validateLimits limits = None \<and> 71 \<le> gl_MaxSignatureHeaderBytes limits \<and> R"
    unfolding parse_signature using QR R by blast
  then show ?thesis
    unfolding verify_unfold Q_def [symmetric] R_def [symmetric] by blast
qed

definition plainSha :: "string \<Rightarrow> string" where
  "plainSha s = replicate 64 (CHR ''0'')"

lemma plainSha_hex: "isLowerHex (plainSha s) 64"
  unfolding plainSha_def by code_simp

definition oneSecret :: WebhookSecrets where
  "oneSecret = \<lparr> ws_Current = replicate 32 (CHR ''s''), ws_Previous = [] \<rparr>"

theorem signature_accepted_iff_witness:
  "VerifyWebhookSignature plainSha ''{}'' (signatureHeader plainSha ''{}'' (replicate 32 (CHR ''s''))) oneSecret
     github_DefaultLimits = Inr SecretGenerationCurrent"
proof -
  have "github_validateLimits github_DefaultLimits = None"
    "validateSecret (replicate 32 (CHR ''s'')) github_DefaultLimits = None" by code_simp+
  with signature_accepted_iff [of plainSha, OF plainSha_hex] show ?thesis
    by (simp add: oneSecret_def github_DefaultLimits_def)
qed

section \<open>Identities\<close>

lemma itoa_no_minus: "CHR ''-'' \<notin> set (itoa n)"
  using itoa_digits [of n] by (auto simp: list_all_iff digit_char_def less_eq_char_def)

lemma sprint_int_inject: "sprint_int v = sprint_int w \<longleftrightarrow> v = w"
proof -
  have "itoa n \<noteq> CHR ''-'' # itoa m" for n m
    using itoa_no_minus [of n] by (metis list.set_intros(1))
  then show ?thesis by (auto simp: sprint_int_def dest: sym)
qed

lemma itoa_length: "length (itoa n) \<le> n div 2 + 1"
proof -
  have loop: "length (itoa_loop v b) \<le> v div 2 + 1 + length b" for v b
  proof (induction v b rule: itoa_loop.induct)
    case (1 v b)
    show ?case
    proof (cases "v < 10")
      case True
      then have "v div 10 = 0" by simp
      then have "length (itoa_loop v b) \<le> 1 + length b"
        by (cases "v = 0") (simp_all add: itoa_loop.simps [of v] itoa_loop.simps [of 0])
      then show ?thesis by linarith
    next
      case False
      with 1 have "length (itoa_loop v b) \<le> (v div 10) div 2 + 1 + Suc (length b)"
        by (simp add: itoa_loop.simps [of v])
      also have "\<dots> \<le> v div 2 + 1 + length b" using False by linarith
      finally show ?thesis .
    qed
  qed
  show ?thesis
  proof (cases "n = 0")
    case False
    with loop [of n "[]"] show ?thesis by (simp add: itoa_def)
  qed (simp add: itoa_def)
qed

text \<open>The decimal text of an \<open>int64\<close> is a Go string.\<close>

lemma sprint_int_len:
  assumes "i64_range v"
  shows "go_len (sprint_int v)"
proof -
  have "length (itoa n) \<le> 4611686018427387905" if "n \<le> 9223372036854775808" for n
    using that itoa_length [of n] by linarith
  moreover have "nat v \<le> 9223372036854775808" "nat (- v) \<le> 9223372036854775808"
    using assms by (auto simp: i64_range_def)
  ultimately have "length (itoa (nat v)) \<le> 4611686018427387905" "length (itoa (nat (- v))) \<le> 4611686018427387905"
    by blast+
  then show ?thesis by (simp add: sprint_int_def go_len_def)
qed

lemma domainHash_inject:
  assumes "inj sha" "list_all go_len fs" "list_all go_len gs" "length fs = length gs"
  shows "domainHash sha d fs = domainHash sha d gs \<longleftrightarrow> fs = gs"
proof
  assume "domainHash sha d fs = domainHash sha d gs"
  then have "concat (map writeString fs) @ [] = concat (map writeString gs) @ []"
    using assms(1) by (auto simp: domainHash_def dest: injD)
  then show "fs = gs" using str.concat_readable assms(2-4) by blast
qed simp

text \<open>The integers of a target are \<open>int64\<close> values and its profile is a Go string.\<close>

definition target_ranges :: "AnalysisTarget \<Rightarrow> bool" where
  "target_ranges t \<longleftrightarrow> i64_range (at_InstallationID t) \<and> i64_range (at_BaseRepositoryID t)
     \<and> i64_range (at_HeadRepositoryID t) \<and> i64_range (at_PullRequestNumber t) \<and> go_len (at_AnalysisProfileVersion t)"

lemma validGitObjectID_len: "validGitObjectID s \<Longrightarrow> go_len s"
  by (auto simp: validGitObjectID_def isLowerHex_def go_len_def)

lemma targetFields_len:
  "target_ranges t \<Longrightarrow> validateTarget t = None \<Longrightarrow> list_all go_len (targetFields t)"
  by (simp add: targetFields_def target_ranges_def sprint_int_len validGitObjectID_len validateTarget_def split: if_splits)

lemma targetFields_inject:
  "validateTarget t = None \<Longrightarrow> validateTarget u = None \<Longrightarrow> targetFields t = targetFields u \<Longrightarrow> t = u"
  by (simp add: targetFields_def sprint_int_inject validateTarget_def split: if_splits)

text \<open>
  A target identifier determines its target: when the hash has no collisions, two analysis targets with the same
  identifier are equal, so that targets of different pull requests, repositories, commits or
  profiles never share an identifier, a job or an attempt.
\<close>

lemma target_identity_injective:
  assumes "inj sha" and "targetID sha t = Inr i" and "targetID sha u = Inr i" and "target_ranges t" and "target_ranges u"
  shows "t = u"
proof -
  from assms(2,3) have ok: "validateTarget t = None" "validateTarget u = None"
    and "prefixedID sha ''target'' DomainAnalysisTargetID (targetFields t)
      = prefixedID sha ''target'' DomainAnalysisTargetID (targetFields u)"
    by (auto simp: targetID_def result_simps)
  then have "domainHash sha DomainAnalysisTargetID (targetFields t) = domainHash sha DomainAnalysisTargetID (targetFields u)"
    by (simp add: prefixedID_def)
  moreover have "list_all go_len (targetFields t)" "list_all go_len (targetFields u)"
    using targetFields_len assms(4,5) ok by blast+
  ultimately have "targetFields t = targetFields u"
    using assms(1) by (simp add: domainHash_inject targetFields_def)
  with ok show ?thesis by (rule targetFields_inject)
qed

definition sampleTarget :: AnalysisTarget where
  "sampleTarget = \<lparr> at_SchemaVersion = SchemaGitHubAnalysisTargetV1Alpha1, at_InstallationID = 42,
     at_BaseRepositoryID = 101, at_HeadRepositoryID = 202, at_PullRequestNumber = 7,
     at_BaseCommitID = replicate 40 (CHR ''1''), at_HeadCommitID = replicate 40 (CHR ''2''),
     at_AnalysisProfileVersion = ''p'' \<rparr>"

lemma target_identity_injective_witness:
  "\<exists>i. targetID id sampleTarget = Inr i \<and> (\<forall>u. target_ranges u \<and> targetID id u = Inr i \<longrightarrow> u = sampleTarget)"
proof -
  have "validateTarget sampleTarget = None" by code_simp
  then obtain i where i: "targetID id sampleTarget = Inr i" by (simp add: targetID_def)
  have "target_ranges sampleTarget" by (simp add: target_ranges_def sampleTarget_def i64_range_def go_len_def)
  with i target_identity_injective [OF inj_on_id _ i] show ?thesis by blast
qed

section \<open>The advisory check\<close>

definition publishCommand :: "CheckProjectionInput \<Rightarrow> CheckProjection \<Rightarrow> PublishCommand" where
  "publishCommand i p = \<lparr> pb_SchemaVersion = SchemaGitHubPublishCommandV1Alpha1, pb_RepositoryID = ci_RepositoryID i,
     pb_HeadSHA = ci_HeadSHA i, pb_AttemptID = ci_AttemptID i, pb_TargetID = ci_TargetID i,
     pb_Generation = ci_Generation i, pb_Projection = p \<rparr>"

text \<open>
  Every check the projection yields is advisory and can be published unless it is stale: its
  conclusion is empty until the check is completed and then neutral, or cancelled when the target was superseded or
  cancelled, whatever the policy said; the publish command for it is accepted exactly when its generation is
  not older than the current one; its texts keep the limits of the GitHub interface.
\<close>

lemma advisory_check_publishable:
  assumes "ProjectAdvisoryCheck sha i = Inr p"
  shows "kp_Conclusion p = (if ci_Status i \<noteq> CheckStatusCompleted then []
      else if ci_SupersededOrCancelled i then CheckConclusionCancelled else CheckConclusionNeutral)
    \<and> (ValidatePublishCommand (publishCommand i p) current = None \<longleftrightarrow> current \<le> ci_Generation i)
    \<and> length (co_Summary (kp_Output p)) \<le> 32768 \<and> length (co_Text (kp_Output p)) \<le> 32768
    \<and> length (co_Title (kp_Output p)) \<le> 255 \<and> kp_Annotations p = [] \<and> kp_RequestedActions p = []"
proof -
  from assms have ids: "0 < ci_RepositoryID i" "validGitObjectID (ci_HeadSHA i)" "validateAttemptID (ci_AttemptID i)"
      "validateTargetID (ci_TargetID i)" "0 < ci_Generation i"
    and p: "p = checkDocument sha i"
    and bounds: "length (co_Summary (kp_Output p)) \<le> 32768" "length (co_Text (kp_Output p)) \<le> 32768"
      "length (co_Title (kp_Output p)) \<le> 255"
    by (auto simp: ProjectAdvisoryCheck_def result_simps Let_def)
  have doc: "kp_SchemaVersion p = SchemaGitHubCheckProjectionV1Alpha1" "kp_Name p = ''Glassroot advisory''"
    "kp_Conclusion p = checkConclusion i" "kp_DetailsURL p = []" "kp_Annotations p = []" "kp_RequestedActions p = []"
    by (simp_all add: p checkDocument_def)
  have "ValidatePublishCommand (publishCommand i p) current = None \<longleftrightarrow> current \<le> ci_Generation i"
    using ids doc by (auto simp: ValidatePublishCommand_def publishCommand_def checkConclusion_def Let_def)
  with doc bounds show ?thesis by (simp add: checkConclusion_def)
qed

definition sampleCheck :: CheckProjectionInput where
  "sampleCheck = \<lparr> ci_RepositoryID = 101, ci_HeadSHA = replicate 40 (CHR ''2''),
     ci_AttemptID = ''attempt-'' @ replicate 64 (CHR ''a''), ci_TargetID = ''target-'' @ replicate 64 (CHR ''a''),
     ci_Generation = 3, ci_PolicyDisposition = ''failed'', ci_EvidenceComplete = True,
     ci_RunnerTier = RunnerTierMicroVM,
     ci_FindingCounts = \<lparr> fc_Total = 1, fc_Passed = 0, fc_RequiresReview = 0, fc_Failed = 1 \<rparr>,
     ci_Status = CheckStatusCompleted, ci_SupersededOrCancelled = False, ci_Limitations = [] \<rparr>"

lemma advisory_check_publishable_witness:
  "\<exists>p. ProjectAdvisoryCheck plainSha sampleCheck = Inr p \<and> kp_Conclusion p = CheckConclusionNeutral
     \<and> ValidatePublishCommand (publishCommand sampleCheck p) 3 = None
     \<and> ValidatePublishCommand (publishCommand sampleCheck p) 4 \<noteq> None"
proof -
  have ids: "validGitObjectID (ci_HeadSHA sampleCheck)" "validateAttemptID (ci_AttemptID sampleCheck)"
    "validateTargetID (ci_TargetID sampleCheck)" "\<not> hasControl (ci_RunnerTier sampleCheck)" by code_simp+
  moreover have "length (safeCheckSummary sampleCheck) \<le> 32768"
    by (simp add: safeCheckSummary_def sampleCheck_def sprint_int_def itoa_def itoa_loop.simps)
  moreover have "length advisoryText \<le> 32768" by (simp add: advisoryText_def)
  ultimately have "ProjectAdvisoryCheck plainSha sampleCheck = Inr (checkDocument plainSha sampleCheck)"
    by (simp add: ProjectAdvisoryCheck_def Let_def checkDocument_def) (simp add: sampleCheck_def)
  from this advisory_check_publishable [OF this, of 3] advisory_check_publishable [OF this, of 4] show ?thesis
    by (intro exI [of _ "checkDocument plainSha sampleCheck"]) (simp add: sampleCheck_def)
qed

end
