(* ===== verification/Evidence.thy ===== *)
theory Evidence
  imports Model
begin

text \<open>
  The documents of an evidence bundle, \<open>internal/evidence/types.go\<close> and \<open>reader_types.go\<close>: the
  manifest with its entries, attempts and artifact records, the execution document, and the facts
  a bundle that has been opened and verified offers to its readers.
\<close>

abbreviation SchemaVersionEvidenceManifestV1Alpha1 :: string where
  "SchemaVersionEvidenceManifestV1Alpha1 \<equiv> ''glassroot.dev/evidence-manifest/v1alpha1''"
abbreviation SchemaVersionExecutionResultV1Alpha1 :: string where
  "SchemaVersionExecutionResultV1Alpha1 \<equiv> ''glassroot.dev/execution-result/v1alpha1''"
abbreviation VerificationModeInternalConsistencyOnly :: string where
  "VerificationModeInternalConsistencyOnly \<equiv> ''internal-consistency-only''"
abbreviation VerificationModeExpectedManifestDigest :: string where
  "VerificationModeExpectedManifestDigest \<equiv> ''expected-manifest-digest''"
abbreviation IsolationTierFake :: string where "IsolationTierFake \<equiv> ''fake''"
abbreviation IsolationTierDevelopmentOnly :: string where "IsolationTierDevelopmentOnly \<equiv> ''development-only''"
abbreviation IsolationTierHardenedContainer :: string where
  "IsolationTierHardenedContainer \<equiv> ''hardened-container''"
abbreviation IsolationTierMicroVM :: string where "IsolationTierMicroVM \<equiv> ''microvm''"

record AttemptKey =
  ak_Revision :: string
  ak_ScenarioID :: string
  ak_Repetition :: nat

record FailureRecord =
  fl_Code :: string
  fl_Stage :: string
  fl_AttemptID :: string
  fl_Message :: string
  fl_Category :: string

record ManifestEntry =
  mn_Path :: string
  mn_Role :: string
  mn_MediaType :: string
  mn_Digest :: Digest
  mn_SizeBytes :: int
  mn_Revision :: string
  mn_ScenarioID :: string
  mn_Repetition :: nat
  mn_CaptureState :: string
  mn_Truncated :: bool
  mn_Omitted :: bool
  mn_ObservedBytes :: int
  mn_ObservedBytesAtLeast :: int

record AttemptManifest =
  att_AttemptID :: string
  att_Ordinal :: nat
  att_Revision :: string
  att_ScenarioID :: string
  att_Repetition :: nat
  att_Directory :: string
  att_Events :: string
  att_Stdout :: string
  att_Stderr :: string
  att_Artifacts :: string
  att_Result :: string
  att_FirstEventSequence :: nat
  att_LastEventSequence :: nat
  att_AcceptedEventCount :: nat

record ArtifactRecord =
  arc_LogicalPath :: string
  arc_Attempt :: AttemptKey
  arc_Disposition :: string
  arc_Digest :: Digest
  arc_StoredSizeBytes :: int
  arc_DeclaredSize :: "int option"
  arc_ObservedAtLeast :: int
  arc_ObjectPath :: string
  arc_MediaType :: string
  arc_Executable :: bool
  arc_SourceMode :: nat
  arc_Limitations :: "Limitation list"

record Manifest =
  mf_SchemaVersion :: string
  mf_ID :: string
  mf_RunID :: string
  mf_CreatedAt :: int
  mf_BundleFormatVersion :: string
  mf_PlanDigest :: Digest
  mf_ExecutionComplete :: bool
  mf_EvidenceComplete :: bool
  mf_BundleTransactionValid :: bool
  mf_Entries :: "ManifestEntry list"
  mf_Artifacts :: "ArtifactRecord list"
  mf_Attempts :: "AttemptManifest list"
  mf_Limitations :: "Limitation list"
  mf_Failure :: "FailureRecord option"
  mf_ManifestDigest :: Digest

record AttemptExecutionSummary =
  xs_AttemptID :: string
  xs_Revision :: string
  xs_ScenarioID :: string
  xs_Repetition :: nat
  xs_TargetOutcome :: string
  xs_ExitCode :: "int option"
  xs_DurationMillis :: int
  xs_FirstAcceptedSequence :: nat
  xs_LastAcceptedSequence :: nat
  xs_AcceptedEventCount :: nat
  xs_Limitations :: "Limitation list"

record ExecutionDocument =
  xd_SchemaVersion :: string
  xd_RunID :: string
  xd_PlanDigest :: Digest
  xd_Runner :: RunnerCapabilities
  xd_ExecutionComplete :: bool
  xd_EvidenceComplete :: bool
  xd_BundleTransactionValid :: bool
  xd_TotalAcceptedEvents :: nat
  xd_Attempts :: "AttemptExecutionSummary list"
  xd_Limitations :: "Limitation list"
  xd_Failure :: "FailureRecord option"

record VerificationSummary =
  vsm_Mode :: string
  vsm_ManifestDigest :: Digest
  vsm_ExpectedManifestDigestSupplied :: bool
  vsm_ExpectedManifestDigestMatched :: bool
  vsm_InternallyConsistent :: bool
  vsm_Limitations :: "Limitation list"

record VerifiedAttempt =
  vat_AttemptID :: string
  vat_Ordinal :: nat
  vat_Revision :: string
  vat_ScenarioID :: string
  vat_Repetition :: nat
  vat_Directory :: string
  vat_Events :: string
  vat_Stdout :: string
  vat_Stderr :: string
  vat_Artifacts :: string
  vat_Result :: string
  vat_FirstEventSequence :: nat
  vat_LastEventSequence :: nat
  vat_AcceptedEventCount :: nat

text \<open>
  What the exported readers of an open \<open>Bundle\<close> return; \<open>bn_closed\<close> is what \<open>IsClosed\<close> answers.
\<close>

record Bundle =
  bn_closed :: bool
  bn_manifest :: Manifest
  bn_manifestDigest :: Digest
  bn_plan :: RunPlan
  bn_execution :: ExecutionDocument
  bn_attempts :: "VerifiedAttempt list"
  bn_verification :: VerificationSummary

end
