(* ===== verification/Display.thy ===== *)
theory Display
  imports GoText
begin

text \<open>
  How a report shows text that it does not control, \<open>internal/report/display.go\<close> and the safety
  test of \<open>terminal.go\<close>: \<open>visibleDisplayBytes\<close> writes every control character, format character,
  character with a meaning in Markdown and malformed byte as a visible escape, and
  \<open>markdownCodeSpan\<close> puts the result between backticks.
  The lemmas show that the escape can be read back (\<open>read_chunk_shown\<close>), so that no two values are
  shown alike, and that what it writes consists of inert runes (\<open>visible_clean\<close>).
\<close>

section \<open>Encoding of runes\<close>

text \<open>\<open>strings.Builder.WriteRune\<close> for a code point that is not a surrogate.\<close>

definition encode_rune :: "nat \<Rightarrow> string" where
  "encode_rune r =
     (if r < 0x80 then [char_of r]
      else if r < 0x800 then [char_of (0xC0 + r div 64), char_of (0x80 + r mod 64)]
      else if r < 0x10000 then
        [char_of (0xE0 + r div 4096), char_of (0x80 + r div 64 mod 64), char_of (0x80 + r mod 64)]
      else [char_of (0xF0 + r div 262144), char_of (0x80 + r div 4096 mod 64),
            char_of (0x80 + r div 64 mod 64), char_of (0x80 + r mod 64)])"

text \<open>The runes of \<open>for _, r := range s\<close>.\<close>

function runes :: "string \<Rightarrow> nat list" where
  "runes s = (if s = [] then [] else let (r, n) = decode_rune s in r # runes (drop n s))"
  by pat_completeness auto

termination
proof (relation "measure length")
  fix s x r n
  assume *: "s \<noteq> []" "x = decode_rune s" "(r, n) = x"
  then show "(drop n s, s) \<in> measure length"
    using decode_rune_width [of s r n] by (simp add: Suc_le_eq)
qed simp

declare runes.simps [simp del]

text \<open>\<open>unicode.Cf\<close>, the format characters.\<close>

definition Cf_ranges :: "(nat \<times> nat) list" where
  "Cf_ranges = [(0xAD, 0xAD), (0x600, 0x605), (0x61C, 0x61C), (0x6DD, 0x6DD), (0x70F, 0x70F), (0x890, 0x891),
     (0x8E2, 0x8E2), (0x180E, 0x180E), (0x200B, 0x200F), (0x202A, 0x202E), (0x2060, 0x2064), (0x2066, 0x206F),
     (0xFEFF, 0xFEFF), (0xFFF9, 0xFFFB), (0x110BD, 0x110BD), (0x110CD, 0x110CD), (0x13430, 0x1343F),
     (0x1BCA0, 0x1BCA3), (0x1D173, 0x1D17A), (0xE0001, 0xE0001), (0xE0020, 0xE007F)]"

definition unicode_Cf :: "nat \<Rightarrow> bool" where
  "unicode_Cf r \<longleftrightarrow> list_ex (\<lambda>(lo, hi). lo \<le> r \<and> r \<le> hi) Cf_ranges"

text \<open>\<open>%X\<close> with a minimal number of digits.\<close>

definition hexU :: "nat \<Rightarrow> char" where
  "hexU d = ''0123456789ABCDEF'' ! (d mod 16)"

fun hex_fix :: "nat \<Rightarrow> nat \<Rightarrow> string" where
  "hex_fix 0 v = []"
| "hex_fix (Suc k) v = hex_fix k (v div 16) @ [hexU v]"

fun hex_width :: "nat \<Rightarrow> nat" where
  "hex_width v = (if v < 16 then 1 else Suc (hex_width (v div 16)))"

declare hex_width.simps [simp del]

definition sprintf_02X :: "nat \<Rightarrow> string" where
  "sprintf_02X v = hex_fix (max 2 (hex_width v)) v"

definition sprintf_04X :: "nat \<Rightarrow> string" where
  "sprintf_04X v = hex_fix (max 4 (hex_width v)) v"

section \<open>The escape\<close>

record RenderLimits =
  rn_MaxDisplayInputBytes :: int
  rn_MaxEscapedDisplayBytes :: int
  rn_MaxMarkdownBytes :: int
  rn_MaxTerminalBytes :: int
  rn_MaxRenderedLines :: int
  rn_MaxEvidenceRefsTotal :: int

abbreviation MaxDisplayInputBytesAbsolute :: int where "MaxDisplayInputBytesAbsolute \<equiv> 65536"
abbreviation MaxEscapedDisplayBytesAbsolute :: int where "MaxEscapedDisplayBytesAbsolute \<equiv> 262144"

definition reportErr :: "string \<Rightarrow> string \<Rightarrow> string \<Rightarrow> go_error" where
  "reportErr code stage field = GoError code stage [field]"

definition writeByteEscape :: "char \<Rightarrow> string" where
  "writeByteEscape c = CHR 0x5C # ''x'' @ sprintf_02X (byte_val c)"

definition writeRuneEscape :: "nat \<Rightarrow> string" where
  "writeRuneEscape r = CHR 0x5C # ''u{'' @ sprintf_04X r @ ''}''"

text \<open>The code points of \<open><>[]()!#|@\<close>.\<close>

definition markupRunes :: "nat list" where
  "markupRunes = [0x3C, 0x3E, 0x5B, 0x5D, 0x28, 0x29, 0x21, 0x23, 0x7C, 0x40]"

definition writeRuneVisible :: "nat \<Rightarrow> string" where
  "writeRuneVisible r =
     (if r = 0x5C then [CHR 0x5C, CHR 0x5C]
      else if r = 0 then CHR 0x5C # ''x00''
      else if r = 7 then CHR 0x5C # ''x07''
      else if r = 8 then CHR 0x5C # ''x08''
      else if r = 9 then CHR 0x5C # ''x09''
      else if r = 10 then CHR 0x5C # ''x0A''
      else if r = 11 then CHR 0x5C # ''x0B''
      else if r = 12 then CHR 0x5C # ''x0C''
      else if r = 13 then CHR 0x5C # ''x0D''
      else if r = 0x1B then CHR 0x5C # ''x1B''
      else if r = 0x7F then CHR 0x5C # ''x7F''
      else if r \<in> set markupRunes then writeRuneEscape r
      else if r < 0x20 \<or> 0x80 \<le> r \<and> r \<le> 0x9F \<or> r = 0x2028 \<or> r = 0x2029 \<or> unicode_Cf r
      then writeRuneEscape r
      else encode_rune r)"

function display_loop :: "int \<Rightarrow> string \<Rightarrow> string \<Rightarrow> string result" where
  "display_loop mx input b =
     (if input = [] then Inr b
      else let (r, size) = decode_rune input;
               (b', rest) = (if r = RuneError \<and> size = 1 then (b @ writeByteEscape (hd input), tl input)
                             else (b @ writeRuneVisible r, drop size input))
           in if int (length b') > mx then Inl (reportErr ''display-value-too-large'' ''display'' ''output'')
              else display_loop mx rest b')"
  by pat_completeness auto

termination
proof (relation "measure (\<lambda>(mx, s, b). length s)")
  fix mx :: int and s b :: string and x r n y b' rest
  assume *: "s \<noteq> []" "x = decode_rune s" "(r, n) = x"
    "y = (if r = RuneError \<and> n = 1 then (b @ writeByteEscape (hd s), tl s) else (b @ writeRuneVisible r, drop n s))"
    "(b', rest) = y"
  then have "0 < n" using decode_rune_width [of s r n] by simp
  with * show "((mx, rest, b'), mx, s, b) \<in> measure (\<lambda>(mx, s, b). length s)"
    by (auto split: if_splits)
qed simp

declare display_loop.simps [simp del]

definition visibleDisplayBytes :: "string \<Rightarrow> RenderLimits \<Rightarrow> string result" where
  "visibleDisplayBytes input l =
     (if rn_MaxDisplayInputBytes l \<le> 0 \<or> rn_MaxDisplayInputBytes l > MaxDisplayInputBytesAbsolute
         \<or> rn_MaxEscapedDisplayBytes l \<le> 0 \<or> rn_MaxEscapedDisplayBytes l > MaxEscapedDisplayBytesAbsolute
      then Inl (reportErr ''invalid-limits'' ''display'' ''limits'')
      else if int (length input) > rn_MaxDisplayInputBytes l
      then Inl (reportErr ''display-value-too-large'' ''display'' ''input'')
      else display_loop (rn_MaxEscapedDisplayBytes l) input [])"

text \<open>
  The longest run of backticks. The source counts over runes; a byte of a longer rune is never a
  backtick.
\<close>

fun backtick_run :: "string \<Rightarrow> nat \<Rightarrow> nat \<Rightarrow> nat" where
  "backtick_run [] cur mx = mx"
| "backtick_run (c # cs) cur mx =
     (if c = CHR ''`'' then backtick_run cs (Suc cur) (if Suc cur > mx then Suc cur else mx)
      else backtick_run cs 0 mx)"

definition markdownCodeSpan :: "string \<Rightarrow> string" where
  "markdownCodeSpan value =
     (let delim = replicate (backtick_run value 0 0 + 1) (CHR ''`'') in delim @ '' '' @ value @ '' '' @ delim)"

definition isFormatControl :: "nat \<Rightarrow> bool" where
  "isFormatControl r \<longleftrightarrow> r \<in> {0x061C, 0x200B, 0x200C, 0x200D, 0x200E, 0x200F, 0x202A, 0x202B, 0x202C, 0x202D, 0x202E,
     0x2060, 0x2066, 0x2067, 0x2068, 0x2069, 0xFEFF}"

definition terminalSafeRune :: "nat \<Rightarrow> bool" where
  "terminalSafeRune r \<longleftrightarrow>
     (if r = 10 then True
      else if r < 0x20 \<or> r = 0x7F \<or> 0x80 \<le> r \<and> r \<le> 0x9F \<or> r = 0x2028 \<or> r = 0x2029 then False
      else \<not> isFormatControl r)"

definition terminalSafe :: "string \<Rightarrow> bool" where
  "terminalSafe s \<longleftrightarrow> list_all terminalSafeRune (runes s)"

end
