(* ===== verification/Report.thy ===== *)
theory Report
  imports Application Evidence Display
begin

text \<open>
  Report documents and their construction, \<open>internal/report\<close> (\<open>document.go\<close>, \<open>builder.go\<close>,
  \<open>strip.go\<close>, \<open>limits.go\<close>): the checks that bind a verified bundle, a delta and a policy application
  to one run, the counts and references they must agree on, and the document with its notices.
  \<open>json.Marshal\<close> of the plan and of the report are the arguments \<open>planJSON\<close> and \<open>reportJSON\<close>; the
  clones that the source makes by encoding and decoding are the arguments \<open>cloneDelta\<close>, \<open>cloneApp\<close>
  and \<open>cloneReport\<close>, gathered in \<open>report_json\<close>.
\<close>

section \<open>Limits\<close>

record ReportLimits =
  rt_MaxFindings :: int
  rt_MaxDeltaRecords :: int
  rt_MaxEvidenceRefsPerFinding :: int
  rt_MaxEvidenceRefsPerDelta :: int
  rt_MaxEvidenceRefsTotal :: int
  rt_MaxLimitationsTotal :: int
  rt_MaxNotices :: int
  rt_MaxReportJSONBytes :: int

abbreviation MaxReportJSONBytesAbsolute :: int where "MaxReportJSONBytesAbsolute \<equiv> 134217728"

definition report_DefaultLimits :: ReportLimits where
  "report_DefaultLimits = \<lparr>rt_MaxFindings = 120000, rt_MaxDeltaRecords = 100000, rt_MaxEvidenceRefsPerFinding = 1024,
     rt_MaxEvidenceRefsPerDelta = 1024, rt_MaxEvidenceRefsTotal = 250000, rt_MaxLimitationsTotal = 30000,
     rt_MaxNotices = 128, rt_MaxReportJSONBytes = MaxReportJSONBytesAbsolute\<rparr>"

definition DefaultRenderLimits :: RenderLimits where
  "DefaultRenderLimits = \<lparr>rn_MaxDisplayInputBytes = MaxDisplayInputBytesAbsolute,
     rn_MaxEscapedDisplayBytes = MaxEscapedDisplayBytesAbsolute, rn_MaxMarkdownBytes = 134217728,
     rn_MaxTerminalBytes = 67108864, rn_MaxRenderedLines = 2000000, rn_MaxEvidenceRefsTotal = 250000\<rparr>"

definition outOfRange :: "int \<times> int \<times> string \<Rightarrow> bool" where
  "outOfRange = (\<lambda>(got, mx, name). got \<le> 0 \<or> got > mx)"

definition reportLimitChecks :: "ReportLimits \<Rightarrow> (int \<times> int \<times> string) list" where
  "reportLimitChecks l =
     [(rt_MaxFindings l, 120000, ''findings''), (rt_MaxDeltaRecords l, 100000, ''deltaRecords''),
      (rt_MaxEvidenceRefsPerFinding l, 1024, ''evidenceRefsPerFinding''),
      (rt_MaxEvidenceRefsPerDelta l, 1024, ''evidenceRefsPerDelta''),
      (rt_MaxEvidenceRefsTotal l, 250000, ''evidenceRefsTotal''), (rt_MaxLimitationsTotal l, 30000, ''limitations''),
      (rt_MaxNotices l, 128, ''notices''), (rt_MaxReportJSONBytes l, MaxReportJSONBytesAbsolute, ''reportJSON'')]"

definition report_zeroLimits :: ReportLimits where
  "report_zeroLimits = \<lparr>rt_MaxFindings = 0, rt_MaxDeltaRecords = 0, rt_MaxEvidenceRefsPerFinding = 0,
     rt_MaxEvidenceRefsPerDelta = 0, rt_MaxEvidenceRefsTotal = 0, rt_MaxLimitationsTotal = 0, rt_MaxNotices = 0,
     rt_MaxReportJSONBytes = 0\<rparr>"

text \<open>\<open>validateLimits\<close>, and \<open>New\<close>, which is nothing else.\<close>

definition report_validateLimits :: "ReportLimits \<Rightarrow> ReportLimits result" where
  "report_validateLimits l =
     (if l = report_zeroLimits then Inl (reportErr ''invalid-limits'' ''limits'' ''zero'')
      else case List.find outOfRange (reportLimitChecks l) of
        Some c \<Rightarrow> Inl (reportErr ''invalid-limits'' ''limits'' (snd (snd c)))
      | None \<Rightarrow> Inr l)"

definition renderLimitChecks :: "RenderLimits \<Rightarrow> (int \<times> int \<times> string) list" where
  "renderLimitChecks l =
     [(rn_MaxDisplayInputBytes l, MaxDisplayInputBytesAbsolute, ''displayInput''),
      (rn_MaxEscapedDisplayBytes l, MaxEscapedDisplayBytesAbsolute, ''displayOutput''),
      (rn_MaxMarkdownBytes l, 134217728, ''markdown''), (rn_MaxTerminalBytes l, 67108864, ''terminal''),
      (rn_MaxRenderedLines l, 2000000, ''lines''), (rn_MaxEvidenceRefsTotal l, 250000, ''evidenceRefs'')]"

definition render_zeroLimits :: RenderLimits where
  "render_zeroLimits = \<lparr>rn_MaxDisplayInputBytes = 0, rn_MaxEscapedDisplayBytes = 0, rn_MaxMarkdownBytes = 0,
     rn_MaxTerminalBytes = 0, rn_MaxRenderedLines = 0, rn_MaxEvidenceRefsTotal = 0\<rparr>"

definition validateRenderLimits :: "RenderLimits \<Rightarrow> RenderLimits result" where
  "validateRenderLimits l =
     (if l = render_zeroLimits then Inl (reportErr ''invalid-limits'' ''render-limits'' ''zero'')
      else case List.find outOfRange (renderLimitChecks l) of
        Some c \<Rightarrow> Inl (reportErr ''invalid-limits'' ''render-limits'' (snd (snd c)))
      | None \<Rightarrow> Inr l)"

definition report_contextErr :: "string \<Rightarrow> ctx_error \<Rightarrow> go_error" where
  "report_contextErr stage e =
     (if e = DeadlineExceeded
      then reportErr (if stage = ''build'' then ''report-timeout'' else ''render-timeout'') stage ''context''
      else reportErr ''context-cancelled'' stage ''context'')"

section \<open>Documents\<close>

abbreviation SchemaVersionReportV1Alpha1 :: string where
  "SchemaVersionReportV1Alpha1 \<equiv> ''glassroot.dev/report/v1alpha1''"
abbreviation ReportProfileVersionV1Alpha1 :: string where
  "ReportProfileVersionV1Alpha1 \<equiv> ''glassroot.dev/report-profile/v1alpha1''"

record Notice =
  nc_Code :: string
  nc_Text :: string

record SourceIdentity =
  sy_Base :: CommitRef
  sy_Head :: CommitRef
  sy_BaseMaterializedTreeDigest :: Digest
  sy_BaseMaterializationManifestDigest :: Digest
  sy_HeadMaterializedTreeDigest :: Digest
  sy_HeadMaterializationManifestDigest :: Digest

record AttemptCoverageReport =
  acr_AttemptID :: string
  acr_Ordinal :: nat
  acr_Revision :: string
  acr_ScenarioID :: string
  acr_Repetition :: nat
  acr_Events :: string
  acr_Stdout :: string
  acr_Stderr :: string
  acr_Artifacts :: string
  acr_Result :: string
  acr_AcceptedEventCount :: nat

record CompletenessSection =
  ct_BundleTransactionValid :: bool
  ct_ExecutionComplete :: bool
  ct_EvidenceComplete :: bool
  ct_SyntheticEvidence :: bool
  ct_ExpectedManifestDigestSupplied :: bool
  ct_ExpectedManifestDigestMatched :: bool
  ct_AttemptCoverage :: "AttemptCoverageReport list"

record ReportPolicy =
  rpo_ProfileName :: string
  rpo_ProfileVersion :: string
  rpo_BuiltinRuleSetVersion :: string
  rpo_GovernanceRuleSetVersion :: string
  rpo_OverallEffectiveDisposition :: string
  rpo_Summary :: ApplicationSummary
  rpo_AppliedFindings :: "AppliedFinding list"
  rpo_WaiverStatuses :: "WaiverStatusRecord list"
  rpo_TrustedConfigAuthority :: ConfigAuthority
  rpo_TrustedWaiverAuthority :: WaiverAuthority

record BehaviorSection =
  bs_ComparisonProfile :: ComparisonProfile
  bs_NormalizationProfileVersion :: string
  bs_ScenarioIDs :: "string list"
  bs_ScenarioComparisons :: "ScenarioComparison list"
  bs_Summary :: DeltaSummary
  bs_Records :: "DeltaRecord list"

text \<open>\<open>RunnerSection\<close> has the fields of \<open>RunnerCapabilities\<close> in the same order.\<close>

record ReportDocument =
  rdo_SchemaVersion :: string
  rdo_ReportProfileVersion :: string
  rdo_RunID :: string
  rdo_EvaluatedAt :: int
  rdo_PlanDigest :: Digest
  rdo_ManifestDigest :: Digest
  rdo_BehavioralDeltaDigest :: Digest
  rdo_BuiltinPolicyEvaluationDigest :: Digest
  rdo_PolicyApplicationDigest :: Digest
  rdo_ManifestVerificationMode :: string
  rdo_Source :: SourceIdentity
  rdo_Runner :: RunnerCapabilities
  rdo_Completeness :: CompletenessSection
  rdo_Policy :: ReportPolicy
  rdo_Behavior :: BehaviorSection
  rdo_Notices :: "Notice list"
  rdo_Limitations :: "Limitation list"

record FrozenReport =
  frz_doc :: ReportDocument
  frz_json :: string
  frz_digest :: Digest

record RenderedOutput =
  out_RendererVersion :: string
  out_Bytes :: string
  out_Digest :: Digest

record report_json =
  planJSON :: "RunPlan \<Rightarrow> string option"
  reportJSON :: "ReportDocument \<Rightarrow> string option"
  cloneDelta :: "BehavioralDelta \<Rightarrow> BehavioralDelta"
  cloneApp :: "ApplicationDocument \<Rightarrow> ApplicationDocument"
  cloneReport :: "ReportDocument \<Rightarrow> ReportDocument"

section \<open>Binding of the inputs to one run\<close>

definition sameCommit :: "CommitRef \<Rightarrow> CommitRef \<Rightarrow> bool" where
  "sameCommit a b \<longleftrightarrow> cr_Kind a = cr_Kind b \<and> cr_CommitID a = cr_CommitID b \<and> cr_TreeID a = cr_TreeID b
     \<and> cr_ObjectFormat a = cr_ObjectFormat b \<and> cr_TreeDigest a = cr_TreeDigest b"

definition deltaCommitCompatible :: "CommitRef \<Rightarrow> CommitRef \<Rightarrow> bool" where
  "deltaCommitCompatible plan delta \<longleftrightarrow> delta = zeroCommit \<or> sameCommit plan delta"

definition validRunner :: "RunnerCapabilities \<Rightarrow> bool" where
  "validRunner c \<longleftrightarrow> rc_Name c \<noteq> [] \<and> rc_Version c \<noteq> []
     \<and> rc_IsolationTier c \<in> {IsolationTierFake, IsolationTierDevelopmentOnly, IsolationTierHardenedContainer,
                             IsolationTierMicroVM}
     \<and> \<not> (rc_IsolationTier c = IsolationTierFake \<and> (rc_ExecutesTargetCode c \<or> \<not> rc_SyntheticEvidence c))"

text \<open>The checks of \<open>validateBinding\<close> up to the plan digest, and those after it, in their order.\<close>

definition validateBindingDocuments ::
  "Manifest \<Rightarrow> Digest \<Rightarrow> VerificationSummary \<Rightarrow> RunPlan \<Rightarrow> BehavioralDelta \<Rightarrow> go_error option" where
  "validateBindingDocuments manifest bundleManifestDigest verification plan delta =
     (if mf_SchemaVersion manifest \<noteq> SchemaVersionEvidenceManifestV1Alpha1 \<or> mf_RunID manifest = []
         \<or> \<not> mf_BundleTransactionValid manifest
      then Some (reportErr ''invalid-bundle'' ''binding'' ''manifest'')
      else if \<not> vsm_InternallyConsistent verification \<or> vsm_ManifestDigest verification \<noteq> bundleManifestDigest
         \<or> vsm_ManifestDigest verification \<noteq> bd_ManifestDigest delta
      then Some (reportErr ''manifest-digest-mismatch'' ''binding'' ''manifestDigest'')
      else if rp_SchemaVersion plan \<noteq> SchemaVersionRunPlanV1Alpha1 \<or> rp_RunID plan = []
      then Some (reportErr ''invalid-bundle'' ''binding'' ''plan'')
      else if rp_Runner plan \<noteq> zeroRunner
      then Some (reportErr ''invalid-bundle'' ''binding'' ''runner'')
      else None)"

definition validateBindingDigests ::
  "(string \<Rightarrow> string) \<Rightarrow> Manifest \<Rightarrow> RunPlan \<Rightarrow> ExecutionDocument \<Rightarrow> VerifiedAttempt list \<Rightarrow> BehavioralDelta \<Rightarrow> string
    \<Rightarrow> Digest \<Rightarrow> ApplicationDocument \<Rightarrow> string \<Rightarrow> Digest \<Rightarrow> Digest \<Rightarrow> go_error option" where
  "validateBindingDigests sha manifest plan execDoc attempts delta deltaJSON deltaDigest app appJSON appDigest planDigest =
     (if planDigest \<noteq> mf_PlanDigest manifest \<or> planDigest \<noteq> xd_PlanDigest execDoc \<or> planDigest \<noteq> bd_PlanDigest delta
         \<or> planDigest \<noteq> ad_PlanDigest app
      then Some (reportErr ''plan-digest-mismatch'' ''binding'' ''planDigest'')
      else if xd_SchemaVersion execDoc \<noteq> SchemaVersionExecutionResultV1Alpha1 \<or> xd_RunID execDoc \<noteq> rp_RunID plan
      then Some (reportErr ''invalid-bundle'' ''binding'' ''execution'')
      else if rp_RunID plan \<noteq> mf_RunID manifest \<or> rp_RunID plan \<noteq> bd_RunID delta \<or> rp_RunID plan \<noteq> ad_RunID app
      then Some (reportErr ''run-id-mismatch'' ''binding'' ''runId'')
      else if bd_SchemaVersion delta \<noteq> SchemaVersionBehavioralDeltaV1Alpha1
         \<or> cp_Version (bd_ComparisonProfile delta) \<noteq> ComparisonProfileVersionV1Alpha1
         \<or> bd_NormalizationProfileVersion delta \<noteq> ProfileVersionV1Alpha1
      then Some (reportErr ''invalid-delta'' ''binding'' ''delta'')
      else if digestBytes sha deltaJSONDomain deltaJSON \<noteq> deltaDigest \<or> ad_BehavioralDeltaDigest app \<noteq> deltaDigest
      then Some (reportErr ''delta-digest-mismatch'' ''binding'' ''deltaDigest'')
      else if ad_SchemaVersion app \<noteq> SchemaVersionPolicyApplicationV1Alpha1
         \<or> ad_PolicyProfileName app \<noteq> PolicyProfileNameStrict
         \<or> ad_PolicyProfileVersion app \<noteq> PolicyProfileVersionStrictV1Alpha1
         \<or> ad_BuiltinRuleSetVersion app \<noteq> BuiltinRuleSetVersionStrictV1Alpha1
         \<or> ad_GovernanceRuleSetVersion app \<noteq> GovernanceRuleSetVersionStrictV1Alpha1
      then Some (reportErr ''invalid-application'' ''binding'' ''application'')
      else if digestBytes sha applicationJSONDomain appJSON \<noteq> appDigest
      then Some (reportErr ''application-digest-mismatch'' ''binding'' ''applicationDigest'')
      else if \<not> validDigest (ad_BasePolicyEvaluationDigest app) \<or> \<not> validDigest appDigest \<or> \<not> validDigest deltaDigest
      then Some (reportErr ''invalid-application'' ''binding'' ''digest'')
      else if \<not> deltaCommitCompatible (rp_Base plan) (bd_Base delta) \<or> \<not> deltaCommitCompatible (rp_Head plan) (bd_Head delta)
         \<or> \<not> sameCommit (rp_Base plan) (ad_Base app) \<or> \<not> sameCommit (rp_Head plan) (ad_Head app)
      then Some (reportErr ''revision-mismatch'' ''binding'' ''revision'')
      else if mf_ExecutionComplete manifest \<noteq> xd_ExecutionComplete execDoc
         \<or> mf_EvidenceComplete manifest \<noteq> xd_EvidenceComplete execDoc
         \<or> bd_ExecutionComplete delta \<noteq> xd_ExecutionComplete execDoc \<or> bd_EvidenceComplete delta \<noteq> xd_EvidenceComplete execDoc
      then Some (reportErr ''completeness-mismatch'' ''binding'' ''complete'')
      else if \<not> validRunner (xd_Runner execDoc)
      then Some (reportErr ''invalid-runner-capabilities'' ''binding'' ''runner'')
      else if ad_EvaluatedAt app = - 62135596800 * 10 ^ 9
      then Some (reportErr ''invalid-application'' ''binding'' ''evaluatedAt'')
      else if attempts = []
      then Some (reportErr ''invalid-bundle'' ''binding'' ''attempts'')
      else None)"

text \<open>
  \<open>validateBinding\<close>. The instant of an application document is held in UTC, so the test of its
  location never fails.
\<close>

definition validateBinding ::
  "(string \<Rightarrow> string) \<Rightarrow> (RunPlan \<Rightarrow> string option) \<Rightarrow> Manifest \<Rightarrow> Digest \<Rightarrow> VerificationSummary \<Rightarrow> RunPlan \<Rightarrow> ExecutionDocument
    \<Rightarrow> VerifiedAttempt list \<Rightarrow> BehavioralDelta \<Rightarrow> string \<Rightarrow> Digest \<Rightarrow> ApplicationDocument \<Rightarrow> string \<Rightarrow> Digest \<Rightarrow> go_error option" where
  "validateBinding sha marshal manifest bundleManifestDigest verification plan execDoc attempts delta deltaJSON deltaDigest
       app appJSON appDigest =
     echeck (validateBindingDocuments manifest bundleManifestDigest verification plan delta)
       (case marshal plan of
          None \<Rightarrow> Some (reportErr ''serialization-failed'' ''binding'' ''plan'')
        | Some planBytes \<Rightarrow> validateBindingDigests sha manifest plan execDoc attempts delta deltaJSON deltaDigest app appJSON
            appDigest (digestBytes sha runPlanJSONDigestDomain planBytes))"

section \<open>Counts and references\<close>

definition report_attemptKey :: "string \<Rightarrow> string \<Rightarrow> nat \<Rightarrow> string" where
  "report_attemptKey rv scenario rep = rv @ NUL # scenario @ NUL # itoa rep"

definition report_validateEvidenceRef :: "string set \<Rightarrow> EvidenceRef \<Rightarrow> go_error option" where
  "report_validateEvidenceRef attempts ref =
     (if er_Revision ref = [] \<and> er_ScenarioID ref = [] \<and> er_EventSequence ref = 0 then None
      else if er_Revision ref \<noteq> RevisionKindBase \<and> er_Revision ref \<noteq> RevisionKindHead
      then Some (reportErr ''invalid-evidence-reference'' ''validate'' ''revision'')
      else if er_ScenarioID ref = [] \<or> er_Repetition ref = 0 \<or> er_EventSequence ref = 0 \<or> er_EventStreamDigest ref = []
         \<or> er_EventStreamPath ref = [] \<or> er_EventIDs ref = []
      then Some (reportErr ''invalid-evidence-reference'' ''validate'' ''evidence'')
      else if \<not> validDigest (er_EventStreamDigest ref)
      then Some (reportErr ''invalid-evidence-reference'' ''validate'' ''digest'')
      else if report_attemptKey (er_Revision ref) (er_ScenarioID ref) (er_Repetition ref) \<notin> attempts
      then Some (reportErr ''invalid-evidence-reference'' ''validate'' ''attempt'')
      else None)"

definition recordRefs :: "DeltaRecord \<Rightarrow> int" where
  "recordRefs r = int (length (dr_Evidence r) + length (dr_BaseEvidence r) + length (dr_HeadEvidence r))"

text \<open>The loop over the records: the identities seen and the number of references.\<close>

fun checkDeltaRecords :: "ReportLimits \<Rightarrow> DeltaRecord list \<Rightarrow> string set \<Rightarrow> int \<Rightarrow> (string set \<times> int) result" where
  "checkDeltaRecords l [] ids refs = Inr (ids, refs)"
| "checkDeltaRecords l (r # rs) ids refs =
     (if dr_ID r = [] then Inl (reportErr ''invalid-delta'' ''validate'' ''record'')
      else if dr_ID r \<in> ids then Inl (reportErr ''duplicate-delta-record-id'' ''validate'' ''record'')
      else if recordRefs r > rt_MaxEvidenceRefsPerDelta l
      then Inl (reportErr ''evidence-reference-limit'' ''validate'' ''deltaEvidence'')
      else checkDeltaRecords l rs (insert (dr_ID r) ids) (refs + recordRefs r))"

fun checkAppliedFindings ::
  "ReportLimits \<Rightarrow> string set \<Rightarrow> string set \<Rightarrow> string set \<Rightarrow> AppliedFinding list \<Rightarrow> string set \<Rightarrow> int \<Rightarrow> int result" where
  "checkAppliedFindings l deltaIDs scenarios attempts [] ids refs = Inr refs"
| "checkAppliedFindings l deltaIDs scenarios attempts (f # fs) ids refs =
     (let o' = af_Original f in
      if fi_ID o' = [] then Inl (reportErr ''invalid-application'' ''validate'' ''finding'')
      else if fi_ID o' \<in> ids then Inl (reportErr ''duplicate-finding-id'' ''validate'' ''finding'')
      else if list_ex (\<lambda>rid. rid \<notin> deltaIDs) (fi_DeltaRecordIDs o')
      then Inl (reportErr ''missing-delta-record'' ''validate'' ''deltaRecordId'')
      else if list_ex (\<lambda>sid. sid \<notin> scenarios) (fi_ScenarioIDs o')
      then Inl (reportErr ''invalid-application'' ''validate'' ''scenario'')
      else if int (length (fi_Evidence o')) > rt_MaxEvidenceRefsPerFinding l
      then Inl (reportErr ''evidence-reference-limit'' ''validate'' ''findingEvidence'')
      else rcheck (first_error (report_validateEvidenceRef attempts) (fi_Evidence o'))
        (checkAppliedFindings l deltaIDs scenarios attempts fs (insert (fi_ID o') ids) (refs + int (length (fi_Evidence o')))))"

definition validateCountsAndRefs ::
  "RunPlan \<Rightarrow> VerifiedAttempt list \<Rightarrow> BehavioralDelta \<Rightarrow> ApplicationDocument \<Rightarrow> ReportLimits \<Rightarrow> go_error option" where
  "validateCountsAndRefs plan attempts delta app l =
     (if int (length (bd_Records delta)) > rt_MaxDeltaRecords l
      then Some (reportErr ''report-limit'' ''validate'' ''deltaRecords'')
      else if int (length (ad_AppliedFindings app)) > rt_MaxFindings l
      then Some (reportErr ''report-limit'' ''validate'' ''findings'')
      else if ds_TotalRecords (bd_Summary delta) \<noteq> int (length (bd_Records delta))
      then Some (reportErr ''invalid-delta'' ''validate'' ''summary'')
      else if as_TotalFindings (ad_Summary app) \<noteq> int (length (ad_AppliedFindings app))
      then Some (reportErr ''invalid-application'' ''validate'' ''summary'')
      else case checkDeltaRecords l (bd_Records delta) {} 0 of
        Inl e \<Rightarrow> Some e
      | Inr (deltaIDs, refs) \<Rightarrow>
          (case checkAppliedFindings l deltaIDs (set (map sp_ID (rp_Scenarios plan)))
                  (set (map (\<lambda>a. report_attemptKey (vat_Revision a) (vat_ScenarioID a) (vat_Repetition a)) attempts))
                  (ad_AppliedFindings app) {} refs of
             Inl e \<Rightarrow> Some e
           | Inr refTotal \<Rightarrow>
               if refTotal > rt_MaxEvidenceRefsTotal l
               then Some (reportErr ''evidence-reference-limit'' ''validate'' ''evidence'') else None))"

section \<open>The document\<close>

definition stripRefs :: "EvidenceRef list \<Rightarrow> EvidenceRef list" where
  "stripRefs refs = map (\<lambda>r. r\<lparr>er_BundlePath := None\<rparr>) refs"

definition stripFinding :: "Finding \<Rightarrow> Finding" where
  "stripFinding f = f\<lparr>fi_Evidence := stripRefs (fi_Evidence f),
     fi_Waivers := map (\<lambda>w. w\<lparr>fw_Evidence := stripRefs (fw_Evidence w)\<rparr>) (fi_Waivers f)\<rparr>"

definition stripApplicationBundlePaths :: "report_json \<Rightarrow> ApplicationDocument \<Rightarrow> ApplicationDocument" where
  "stripApplicationBundlePaths js app =
     (let out = cloneApp js app in
      out\<lparr>ad_AppliedFindings := map (\<lambda>f. f\<lparr>af_Original := stripFinding (af_Original f)\<rparr>) (ad_AppliedFindings out)\<rparr>)"

definition stripFact :: "DeltaFactSnapshot \<Rightarrow> DeltaFactSnapshot" where
  "stripFact f = f\<lparr>snap_Evidence := stripRefs (snap_Evidence f)\<rparr>"

definition stripRecord :: "DeltaRecord \<Rightarrow> DeltaRecord" where
  "stripRecord r = r\<lparr>dr_Evidence := stripRefs (dr_Evidence r), dr_BaseEvidence := stripRefs (dr_BaseEvidence r),
     dr_HeadEvidence := stripRefs (dr_HeadEvidence r), dr_BaseFacts := map stripFact (dr_BaseFacts r),
     dr_HeadFacts := map stripFact (dr_HeadFacts r)\<rparr>"

definition stripDeltaBundlePaths :: "report_json \<Rightarrow> BehavioralDelta \<Rightarrow> BehavioralDelta" where
  "stripDeltaBundlePaths js delta =
     (let out = cloneDelta js delta in out\<lparr>bd_Records := map stripRecord (bd_Records out)\<rparr>)"

definition revisionDigests :: "SourceIdentity \<Rightarrow> RevisionPlan \<Rightarrow> SourceIdentity" where
  "revisionDigests s r =
     (let s1 = (if rv_Kind r = RevisionKindBase
                then s\<lparr>sy_BaseMaterializedTreeDigest := rv_MaterializedTreeDigest r,
                       sy_BaseMaterializationManifestDigest := rv_MaterializationManifestDigest r\<rparr> else s)
      in if rv_Kind r = RevisionKindHead
         then s1\<lparr>sy_HeadMaterializedTreeDigest := rv_MaterializedTreeDigest r,
                 sy_HeadMaterializationManifestDigest := rv_MaterializationManifestDigest r\<rparr> else s1)"

definition sourceIdentity :: "RunPlan \<Rightarrow> SourceIdentity" where
  "sourceIdentity plan =
     foldl revisionDigests
       \<lparr>sy_Base = rp_Base plan, sy_Head = rp_Head plan, sy_BaseMaterializedTreeDigest = [],
        sy_BaseMaterializationManifestDigest = [], sy_HeadMaterializedTreeDigest = [],
        sy_HeadMaterializationManifestDigest = []\<rparr> (rp_Revisions plan)"

definition runnerSection :: "RunnerCapabilities \<Rightarrow> RunnerCapabilities" where
  "runnerSection c = c"

definition attemptCoverage :: "VerifiedAttempt \<Rightarrow> AttemptCoverageReport" where
  "attemptCoverage a = \<lparr>acr_AttemptID = vat_AttemptID a, acr_Ordinal = vat_Ordinal a, acr_Revision = vat_Revision a,
     acr_ScenarioID = vat_ScenarioID a, acr_Repetition = vat_Repetition a, acr_Events = vat_Events a,
     acr_Stdout = vat_Stdout a, acr_Stderr = vat_Stderr a, acr_Artifacts = vat_Artifacts a, acr_Result = vat_Result a,
     acr_AcceptedEventCount = vat_AcceptedEventCount a\<rparr>"

definition completenessSection ::
  "Manifest \<Rightarrow> VerificationSummary \<Rightarrow> ExecutionDocument \<Rightarrow> VerifiedAttempt list \<Rightarrow> CompletenessSection" where
  "completenessSection m v e attempts =
     \<lparr>ct_BundleTransactionValid = (mf_BundleTransactionValid m \<and> xd_BundleTransactionValid e),
      ct_ExecutionComplete = xd_ExecutionComplete e, ct_EvidenceComplete = xd_EvidenceComplete e,
      ct_SyntheticEvidence = rc_SyntheticEvidence (xd_Runner e),
      ct_ExpectedManifestDigestSupplied = vsm_ExpectedManifestDigestSupplied v,
      ct_ExpectedManifestDigestMatched = vsm_ExpectedManifestDigestMatched v,
      ct_AttemptCoverage = map attemptCoverage attempts\<rparr>"

definition policySection :: "report_json \<Rightarrow> ApplicationDocument \<Rightarrow> ReportPolicy" where
  "policySection js app0 =
     (let app = stripApplicationBundlePaths js app0 in
      \<lparr>rpo_ProfileName = ad_PolicyProfileName app, rpo_ProfileVersion = ad_PolicyProfileVersion app,
       rpo_BuiltinRuleSetVersion = ad_BuiltinRuleSetVersion app,
       rpo_GovernanceRuleSetVersion = ad_GovernanceRuleSetVersion app,
       rpo_OverallEffectiveDisposition = ad_OverallEffectiveDisposition app, rpo_Summary = ad_Summary app,
       rpo_AppliedFindings = ad_AppliedFindings app, rpo_WaiverStatuses = ad_WaiverStatuses app,
       rpo_TrustedConfigAuthority = ad_TrustedConfigAuthority app,
       rpo_TrustedWaiverAuthority = ad_TrustedWaiverAuthority app\<rparr>)"

definition behaviorSection :: "report_json \<Rightarrow> BehavioralDelta \<Rightarrow> BehaviorSection" where
  "behaviorSection js delta0 =
     (let delta = stripDeltaBundlePaths js delta0 in
      \<lparr>bs_ComparisonProfile = bd_ComparisonProfile delta,
       bs_NormalizationProfileVersion = bd_NormalizationProfileVersion delta, bs_ScenarioIDs = bd_ScenarioIDs delta,
       bs_ScenarioComparisons = bd_ScenarioComparisons delta, bs_Summary = bd_Summary delta,
       bs_Records = bd_Records delta\<rparr>)"

subsection \<open>Notices\<close>

abbreviation NoticePassedNotProofOfSafety :: string where
  "NoticePassedNotProofOfSafety \<equiv> ''passed-is-not-proof-of-safety''"

text \<open>
  The conditions of \<open>notices\<close> by code. The source collects the codes in a map, whose order is
  random, and sorts them; here they are listed and then sorted.
\<close>

definition noticeTable ::
  "VerificationSummary \<Rightarrow> ExecutionDocument \<Rightarrow> ApplicationDocument \<Rightarrow> (string \<times> bool) list" where
  "noticeTable v e app =
     [(NoticePassedNotProofOfSafety, True),
      (''execution-incomplete'', \<not> xd_ExecutionComplete e),
      (''evidence-incomplete'', \<not> xd_EvidenceComplete e),
      (''synthetic-evidence'', rc_SyntheticEvidence (xd_Runner e)),
      (''no-target-code-executed'', \<not> rc_ExecutesTargetCode (xd_Runner e)),
      (''fake-runner'', rc_IsolationTier (xd_Runner e) = IsolationTierFake),
      (''development-only-runner'', rc_IsolationTier (xd_Runner e) = IsolationTierDevelopmentOnly),
      (''network-deny-not-enforced'', \<not> rc_EnforcesNetworkDeny (xd_Runner e)),
      (''internal-consistency-only-manifest-verification'', vsm_Mode v = VerificationModeInternalConsistencyOnly),
      (''waivers-applied'', as_EffectiveWaived (ad_Summary app) > 0 \<or> as_AppliedWaivers (ad_Summary app) > 0),
      (''governance-findings-present'',
         as_ConfigurationFindings (ad_Summary app) > 0 \<or> as_WaiverGovernanceFindings (ad_Summary app) > 0),
      (''observer-limitations-present'', xd_Limitations e \<noteq> [] \<or> ad_Limitations app \<noteq> [])]"

definition noticeText :: "string \<Rightarrow> string" where
  "noticeText c =
     (if c = ''evidence-incomplete'' then ''Evidence is incomplete; missing evidence is not treated as clean behavior.''
      else if c = ''execution-incomplete'' then ''Execution did not complete; behavior absence is not established.''
      else if c = ''synthetic-evidence'' then ''Evidence is synthetic test data, not observed target behavior.''
      else if c = ''no-target-code-executed'' then ''The runner reported that no target code was executed.''
      else if c = ''fake-runner'' then ''The fake runner is for tests and is not a security boundary.''
      else if c = ''development-only-runner'' then ''The development-only runner is not a hardened security boundary.''
      else if c = ''network-deny-not-enforced'' then ''The runner did not report enforced network deny.''
      else if c = ''internal-consistency-only-manifest-verification''
      then ''The manifest was verified for internal consistency only, not authentication.''
      else if c = ''waivers-applied'' then ''One or more findings are effectively waived but remain visible.''
      else if c = ''governance-findings-present'' then ''Configuration or waiver governance findings are present.''
      else if c = ''observer-limitations-present'' then ''Observer or capture limitations are present.''
      else if c = NoticePassedNotProofOfSafety then ''A passed disposition does not prove the code is safe.''
      else ''Unknown report notice.'')"

definition notices :: "VerificationSummary \<Rightarrow> ExecutionDocument \<Rightarrow> ApplicationDocument \<Rightarrow> Notice list" where
  "notices v e app = map (\<lambda>(c, _). \<lparr>nc_Code = c, nc_Text = noticeText c\<rparr>) (filter snd (noticeTable v e app))"

definition noticeLess :: "Notice \<Rightarrow> Notice \<Rightarrow> bool" where
  "noticeLess a b \<longleftrightarrow> nc_Code a < nc_Code b"

definition reportLimitationLess :: "Limitation \<Rightarrow> Limitation \<Rightarrow> bool" where
  "reportLimitationLess a b \<longleftrightarrow>
     (if lim_ID a \<noteq> lim_ID b then lim_ID a < lim_ID b else lim_Summary a < lim_Summary b)"

definition collectLimitations ::
  "Manifest \<Rightarrow> VerificationSummary \<Rightarrow> ExecutionDocument \<Rightarrow> BehavioralDelta \<Rightarrow> ApplicationDocument \<Rightarrow> Limitation list" where
  "collectLimitations m v e d a =
     slice_stable reportLimitationLess
       (mf_Limitations m @ vsm_Limitations v @ xd_Limitations e @ bd_Limitations d @ ad_Limitations a)"

definition report_buildDocument ::
  "report_json \<Rightarrow> Manifest \<Rightarrow> VerificationSummary \<Rightarrow> RunPlan \<Rightarrow> ExecutionDocument \<Rightarrow> VerifiedAttempt list \<Rightarrow> BehavioralDelta
    \<Rightarrow> Digest \<Rightarrow> ApplicationDocument \<Rightarrow> Digest \<Rightarrow> ReportDocument" where
  "report_buildDocument js m v plan e attempts delta deltaDigest app appDigest =
     \<lparr>rdo_SchemaVersion = SchemaVersionReportV1Alpha1, rdo_ReportProfileVersion = ReportProfileVersionV1Alpha1,
      rdo_RunID = rp_RunID plan, rdo_EvaluatedAt = ad_EvaluatedAt app, rdo_PlanDigest = bd_PlanDigest delta,
      rdo_ManifestDigest = vsm_ManifestDigest v, rdo_BehavioralDeltaDigest = deltaDigest,
      rdo_BuiltinPolicyEvaluationDigest = ad_BasePolicyEvaluationDigest app, rdo_PolicyApplicationDigest = appDigest,
      rdo_ManifestVerificationMode = vsm_Mode v, rdo_Source = sourceIdentity plan,
      rdo_Runner = runnerSection (xd_Runner e), rdo_Completeness = completenessSection m v e attempts,
      rdo_Policy = policySection js app, rdo_Behavior = behaviorSection js delta,
      rdo_Notices = slice_stable noticeLess (notices v e app), rdo_Limitations = collectLimitations m v e delta app\<rparr>"

subsection \<open>Freezing and building\<close>

abbreviation reportJSONDomain :: string where
  "reportJSONDomain \<equiv> ''glassroot.dev/report-json/v1'' @ [NUL]"

text \<open>\<open>freezeReportDocument\<close>; \<open>ensureDocumentSlices\<close> only turns nil slices into empty ones.\<close>

definition freezeReportDocument ::
  "(string \<Rightarrow> string) \<Rightarrow> report_json \<Rightarrow> ReportDocument \<Rightarrow> ReportLimits \<Rightarrow> FrozenReport result" where
  "freezeReportDocument sha js doc l =
     (if rdo_SchemaVersion doc \<noteq> SchemaVersionReportV1Alpha1 \<or> rdo_ReportProfileVersion doc \<noteq> ReportProfileVersionV1Alpha1
      then Inl (reportErr ''unsupported-report-profile'' ''freeze'' ''schema'')
      else if int (length (rdo_Notices doc)) > rt_MaxNotices l
      then Inl (reportErr ''report-limit'' ''freeze'' ''notices'')
      else if int (length (rdo_Limitations doc)) > rt_MaxLimitationsTotal l
      then Inl (reportErr ''report-limit'' ''freeze'' ''limitations'')
      else case reportJSON js doc of
        None \<Rightarrow> Inl (reportErr ''serialization-failed'' ''freeze'' ''json'')
      | Some data \<Rightarrow>
          if rt_MaxReportJSONBytes l \<le> 0 \<or> rt_MaxReportJSONBytes l > MaxReportJSONBytesAbsolute
          then Inl (reportErr ''invalid-limits'' ''freeze'' ''limits'')
          else if int (length data) > rt_MaxReportJSONBytes l
          then Inl (reportErr ''report-too-large'' ''freeze'' ''json'')
          else Inr \<lparr>frz_doc = cloneReport js doc, frz_json = data, frz_digest = digestBytes sha reportJSONDomain data\<rparr>)"

record ReportRequest =
  req_Bundle :: "Bundle option"
  req_Delta :: "FrozenDelta option"
  req_Application :: "FrozenApplication option"

text \<open>\<open>Builder.Build\<close>; the builder is given by its limits, \<open>None\<close> when it is nil.\<close>

definition buildReport ::
  "(string \<Rightarrow> string) \<Rightarrow> report_json \<Rightarrow> ReportLimits \<Rightarrow> Bundle \<Rightarrow> FrozenDelta \<Rightarrow> FrozenApplication \<Rightarrow> FrozenReport result" where
  "buildReport sha js l bundle delta application =
     (let manifest = bn_manifest bundle; verification = bn_verification bundle; plan = bn_plan bundle;
          execDoc = bn_execution bundle; attempts = bn_attempts bundle;
          deltaDoc = cloneDelta js (fd_doc delta); appDoc = fa_doc application
      in rcheck (validateBinding sha (planJSON js) manifest (bn_manifestDigest bundle) verification plan execDoc attempts
                   deltaDoc (fd_json delta) (fd_digest delta) appDoc (fa_json application) (fa_digest application))
          (rcheck (validateCountsAndRefs plan attempts deltaDoc appDoc l)
            (freezeReportDocument sha js
              (report_buildDocument js manifest verification plan execDoc attempts deltaDoc (fd_digest delta) appDoc
                 (fa_digest application)) l)))"

definition report_Build ::
  "(string \<Rightarrow> string) \<Rightarrow> report_json \<Rightarrow> go_context \<Rightarrow> ReportLimits option \<Rightarrow> ReportRequest \<Rightarrow> FrozenReport result" where
  "report_Build sha js ctx builder req =
     (case ctx 0 of
        Some e \<Rightarrow> Inl (report_contextErr ''build'' e)
      | None \<Rightarrow>
       (case builder of
          None \<Rightarrow> Inl (reportErr ''invalid-limits'' ''build'' ''builder'')
        | Some l \<Rightarrow>
         (case req_Bundle req of
            None \<Rightarrow> Inl (reportErr ''nil-bundle'' ''build'' ''bundle'')
          | Some bundle \<Rightarrow>
           (case req_Delta req of
              None \<Rightarrow> Inl (reportErr ''nil-delta'' ''build'' ''delta'')
            | Some delta \<Rightarrow>
             (case req_Application req of
                None \<Rightarrow> Inl (reportErr ''nil-application'' ''build'' ''application'')
              | Some application \<Rightarrow>
                  if bn_closed bundle then Inl (reportErr ''bundle-closed'' ''build'' ''bundle'')
                  else buildReport sha js l bundle delta application)))))"

end
