(* ===== verification/ReportRender.thy ===== *)
theory ReportRender
  imports Report
begin

text \<open>
  The two renderers of \<open>internal/report\<close>, \<open>markdown.go\<close> and \<open>terminal.go\<close>. A \<open>renderBuilder\<close> is
  passed through the writes in the order of the source; a write that fails leaves its error in the
  builder, and every later line is dropped.
\<close>

section \<open>The builder\<close>

record renderBuilder =
  rb_text :: string
  rb_limits :: RenderLimits
  rb_maxBytes :: int
  rb_lines :: int
  rb_err :: "go_error option"
  rb_tooLargeCode :: string

definition newBuilder :: "RenderLimits \<Rightarrow> int \<Rightarrow> string \<Rightarrow> renderBuilder" where
  "newBuilder l mx code = \<lparr>rb_text = [], rb_limits = l, rb_maxBytes = mx, rb_lines = 0, rb_err = None,
     rb_tooLargeCode = code\<rparr>"

abbreviation LF :: char where "LF \<equiv> CHR 0x0A"

definition line :: "string \<Rightarrow> renderBuilder \<Rightarrow> renderBuilder" where
  "line s b =
     (if rb_err b \<noteq> None then b
      else if rb_lines b \<ge> rn_MaxRenderedLines (rb_limits b)
      then b\<lparr>rb_err := Some (reportErr ''report-limit'' ''render'' ''lines'')\<rparr>
      else let b1 = b\<lparr>rb_text := rb_text b @ s @ [LF], rb_lines := rb_lines b + 1\<rparr> in
        if int (length (rb_text b1)) > rb_maxBytes b1
        then b1\<lparr>rb_err := Some (reportErr (if rb_tooLargeCode b1 = [] then ''render-failed'' else rb_tooLargeCode b1)
                   ''render'' ''bytes'')\<rparr>
        else b1)"

text \<open>A sequence of writes, and \<open>return b.err\<close> at its end.\<close>

definition steps :: "(renderBuilder \<Rightarrow> renderBuilder) list \<Rightarrow> renderBuilder \<Rightarrow> renderBuilder" where
  "steps fs b = fold (\<lambda>f. f) fs b"

definition returnErr :: "renderBuilder \<Rightarrow> renderBuilder result" where
  "returnErr b = (case rb_err b of Some e \<Rightarrow> Inl e | None \<Rightarrow> Inr b)"

text \<open>A loop of writes that returns at the first error.\<close>

fun each :: "('a \<Rightarrow> renderBuilder \<Rightarrow> renderBuilder result) \<Rightarrow> 'a list \<Rightarrow> renderBuilder \<Rightarrow> renderBuilder result" where
  "each f [] b = Inr b"
| "each f (x # xs) b = rbind (f x b) (each f xs)"

section \<open>Values\<close>

definition boolText :: "bool \<Rightarrow> string" where
  "boolText v = (if v then ''true'' else ''false'')"

text \<open>\<open>intText\<close>: the negation of the least \<open>int64\<close> is itself, so that no digit is written for it.\<close>

definition intText :: "int \<Rightarrow> string" where
  "intText v =
     (if v = 0 then ''0''
      else let neg = v < 0; u = (if neg then signed64 (- v) else v);
               digits = (if u > 0 then itoa_loop (nat u) [] else [])
           in if neg then CHR ''-'' # digits else digits)"

definition occurrenceText :: "OccurrenceProfile \<Rightarrow> string" where
  "occurrenceText p = ''coverage='' @ op_Coverage p @ '' repeatability='' @ op_Repeatability p @ '' total=''
     @ intText (op_TotalKnownCount p) @ '' min='' @ intText (op_MinimumKnownCount p) @ '' max=''
     @ intText (op_MaximumKnownCount p)"

fun join_comma :: "string list \<Rightarrow> string" where
  "join_comma [] = []"
| "join_comma [x] = x"
| "join_comma (x # y # ys) = x @ '','' @ join_comma (y # ys)"

text \<open>\<open>evidenceText\<close>; the Markdown renderer composes the same text in \<open>evidenceRef\<close>.\<close>

definition evidenceText :: "EvidenceRef \<Rightarrow> string" where
  "evidenceText r = er_Revision r @ ''/'' @ er_ScenarioID r @ ''/'' @ intText (int (er_Repetition r)) @ '' seq=''
     @ intText (signed64 (int (er_EventSequence r))) @ '' event='' @ join_comma (er_EventIDs r) @ '' stream=''
     @ er_EventStreamPath r @ '' digest='' @ er_EventStreamDigest r"

definition findingWaived :: "AppliedFinding \<Rightarrow> bool" where
  "findingWaived f \<longleftrightarrow> af_EffectiveDisposition f = DispositionWaived \<or> fi_Waived (af_Original f)"

fun countRefs :: "int \<Rightarrow> int list \<Rightarrow> int \<Rightarrow> int result" where
  "countRefs mx [] refs = Inr refs"
| "countRefs mx (n # ns) refs =
     (if refs + n > mx then Inl (reportErr ''evidence-reference-limit'' ''render'' ''evidence'')
      else countRefs mx ns (refs + n))"

definition validateRenderEvidenceRefs :: "ReportDocument \<Rightarrow> RenderLimits \<Rightarrow> go_error option" where
  "validateRenderEvidenceRefs doc l =
     (case rbind (countRefs (rn_MaxEvidenceRefsTotal l)
                    (map (\<lambda>f. int (length (fi_Evidence (af_Original f)))) (rpo_AppliedFindings (rdo_Policy doc))) 0)
             (countRefs (rn_MaxEvidenceRefsTotal l) (map recordRefs (bs_Records (rdo_Behavior doc)))) of
        Inl e \<Rightarrow> Some e | Inr _ \<Rightarrow> None)"

section \<open>Terminal\<close>

definition termValue :: "string \<Rightarrow> renderBuilder \<Rightarrow> string \<times> renderBuilder" where
  "termValue value b =
     (case visibleDisplayBytes value (rb_limits b) of
        Inl e \<Rightarrow> ([], b\<lparr>rb_err := Some e\<rparr>) | Inr escaped \<Rightarrow> (escaped, b))"

definition termKV :: "string \<Rightarrow> string \<Rightarrow> renderBuilder \<Rightarrow> renderBuilder" where
  "termKV label value b = (let (v, b1) = termValue value b in line (label @ '': '' @ v) b1)"

definition terminalWaiver :: "AppliedWaiver \<Rightarrow> (renderBuilder \<Rightarrow> renderBuilder) list" where
  "terminalWaiver w =
     [termKV ''applied-waiver'' (aw_ID w), termKV ''waiver-owner'' (aw_Owner w), termKV ''waiver-reason'' (aw_Reason w),
      termKV ''waiver-issued-at'' (time_format (aw_IssuedAt w)), termKV ''waiver-expires-at'' (time_format (aw_ExpiresAt w))]"

definition terminalFinding :: "AppliedFinding \<Rightarrow> renderBuilder \<Rightarrow> renderBuilder result" where
  "terminalFinding f b =
     (let o' = af_Original f in
      returnErr (steps
        ([termKV ''finding'' (fi_ID o'), termKV ''origin'' (af_Origin f),
          termKV ''rule'' (fi_RuleID o' @ '' '' @ fi_RuleVersion o'), termKV ''title'' (fi_Title o'),
          termKV ''severity'' (fi_Severity o'), termKV ''confidence'' (fi_Confidence o'),
          termKV ''original-disposition'' (fi_Disposition o'),
          termKV ''effective-disposition'' (af_EffectiveDisposition f), termKV ''waived'' (boolText (findingWaived f)),
          termKV ''base-observed'' (boolText (fi_BaseObserved o')), termKV ''head-observed'' (boolText (fi_HeadObserved o'))]
         @ map (termKV ''scenario'') (fi_ScenarioIDs o')
         @ map (termKV ''delta-record'') (fi_DeltaRecordIDs o')
         @ (case af_AppliedWaiver f of None \<Rightarrow> [] | Some w \<Rightarrow> terminalWaiver w)
         @ map (\<lambda>ref. termKV ''evidence'' (evidenceText ref)) (fi_Evidence o')
         @ map (\<lambda>l. termKV ''finding-limitation'' (lim_ID l @ '':'' @ lim_Summary l)) (fi_Limitations o')) b))"

definition terminalDelta :: "DeltaRecord \<Rightarrow> renderBuilder \<Rightarrow> renderBuilder result" where
  "terminalDelta r b =
     returnErr (steps
       ([termKV ''delta-record'' (dr_ID r), termKV ''delta-kind'' (dr_Kind r), termKV ''fact-kind'' (dr_FactKind r),
         termKV ''source'' (dr_Source r), termKV ''basis'' (dr_Basis r),
         termKV ''base-observed'' (boolText (dr_BaseObserved r)), termKV ''head-observed'' (boolText (dr_HeadObserved r))]
        @ map (termKV ''delta-scenario'') (dr_ScenarioIDs r)
        @ [termKV ''base-occurrence'' (occurrenceText (dr_BaseOccurrence r)),
           termKV ''head-occurrence'' (occurrenceText (dr_HeadOccurrence r)),
           termKV ''evidence-reference-count'' (intText (recordRefs r))]
        @ map (\<lambda>l. termKV ''delta-limitation'' (lim_ID l @ '':'' @ lim_Summary l)) (dr_Limitations r)) b)"

definition terminalHead :: "FrozenReport \<Rightarrow> ReportDocument \<Rightarrow> (renderBuilder \<Rightarrow> renderBuilder) list" where
  "terminalHead report doc =
     [line ''GLASSROOT REPORT'', termKV ''report-digest'' (frz_digest report), termKV ''run-id'' (rdo_RunID doc),
      termKV ''overall-effective-disposition'' (rpo_OverallEffectiveDisposition (rdo_Policy doc)),
      line [], line ''NOTICES'']
     @ map (\<lambda>n. termKV (nc_Code n) (nc_Text n)) (rdo_Notices doc)
     @ [line [], line ''RUNNER'', termKV ''name'' (rc_Name (rdo_Runner doc)),
        termKV ''version'' (rc_Version (rdo_Runner doc)), termKV ''isolation-tier'' (rc_IsolationTier (rdo_Runner doc)),
        termKV ''executes-target-code'' (boolText (rc_ExecutesTargetCode (rdo_Runner doc))),
        termKV ''synthetic-evidence'' (boolText (rc_SyntheticEvidence (rdo_Runner doc))),
        termKV ''enforces-network-deny'' (boolText (rc_EnforcesNetworkDeny (rdo_Runner doc))),
        line [], line ''COMPLETENESS'',
        termKV ''execution-complete'' (boolText (ct_ExecutionComplete (rdo_Completeness doc))),
        termKV ''evidence-complete'' (boolText (ct_EvidenceComplete (rdo_Completeness doc))),
        termKV ''bundle-transaction-valid'' (boolText (ct_BundleTransactionValid (rdo_Completeness doc))),
        termKV ''manifest-verification'' (rdo_ManifestVerificationMode doc),
        line [], line ''FINDINGS'']"

definition terminalBody :: "RenderLimits \<Rightarrow> FrozenReport \<Rightarrow> ReportDocument \<Rightarrow> renderBuilder result" where
  "terminalBody l report doc =
     rbind (each terminalFinding (rpo_AppliedFindings (rdo_Policy doc))
              (steps (terminalHead report doc) (newBuilder l (rn_MaxTerminalBytes l) ''terminal-too-large''))) (\<lambda>b1.
     rbind (each terminalDelta (bs_Records (rdo_Behavior doc)) (steps [line [], line ''DELTAS''] b1)) (\<lambda>b2.
     returnErr (steps ([line [], line ''LIMITATIONS'']
        @ map (\<lambda>x. termKV ''limitation'' (lim_ID x @ '' '' @ lim_Summary x)) (rdo_Limitations doc)) b2)))"

text \<open>\<open>strings.TrimRight(s, "\\n")\<close>.\<close>

definition trimNewlines :: "string \<Rightarrow> string" where
  "trimNewlines s = rev (dropWhile (\<lambda>c. c = LF) (rev s))"

abbreviation terminalDigestDomain :: string where
  "terminalDigestDomain \<equiv> ''glassroot.dev/report-terminal/v1'' @ [NUL]"
abbreviation markdownDigestDomain :: string where
  "markdownDigestDomain \<equiv> ''glassroot.dev/report-markdown/v1'' @ [NUL]"

definition RenderTerminal ::
  "(string \<Rightarrow> string) \<Rightarrow> report_json \<Rightarrow> go_context \<Rightarrow> FrozenReport option \<Rightarrow> RenderLimits \<Rightarrow> RenderedOutput result" where
  "RenderTerminal sha js ctx report limits =
     (case ctx 0 of Some e \<Rightarrow> Inl (report_contextErr ''terminal'' e)
      | None \<Rightarrow>
        rbind (validateRenderLimits limits) (\<lambda>l.
        case report of None \<Rightarrow> Inl (reportErr ''invalid-report-model'' ''terminal'' ''report'')
        | Some r \<Rightarrow>
          let doc = cloneReport js (frz_doc r) in
          rcheck (validateRenderEvidenceRefs doc l)
            (rbind (terminalBody l r doc) (\<lambda>b.
             let out = trimNewlines (rb_text b) @ [LF] in
             if \<not> terminalSafe out then Inl (reportErr ''render-failed'' ''terminal'' ''controls'')
             else Inr \<lparr>out_RendererVersion = ''glassroot.dev/terminal-renderer/v1alpha1'', out_Bytes = out,
                       out_Digest = digestBytes sha terminalDigestDomain out\<rparr>))))"

section \<open>Markdown\<close>

definition mdValue :: "string \<Rightarrow> renderBuilder \<Rightarrow> string \<times> renderBuilder" where
  "mdValue value b =
     (case visibleDisplayBytes value (rb_limits b) of
        Inl e \<Rightarrow> (''``'', b\<lparr>rb_err := Some e\<rparr>) | Inr escaped \<Rightarrow> (markdownCodeSpan escaped, b))"

definition heading :: "string \<Rightarrow> renderBuilder \<Rightarrow> renderBuilder" where
  "heading s b = line s (if rb_text b \<noteq> [] then line [] b else b)"

definition kv :: "string \<Rightarrow> string \<Rightarrow> renderBuilder \<Rightarrow> renderBuilder" where
  "kv label value b = (let (v, b1) = mdValue value b in line (''- '' @ label @ '': '' @ v) b1)"

definition listKV :: "string \<Rightarrow> string \<Rightarrow> renderBuilder \<Rightarrow> renderBuilder" where
  "listKV label value b =
     (let (x, b1) = mdValue label b; (v, b2) = mdValue value b1 in line (''- '' @ x @ '': '' @ v) b2)"

definition evidenceRef :: "string \<Rightarrow> EvidenceRef \<Rightarrow> renderBuilder \<Rightarrow> renderBuilder" where
  "evidenceRef label r = listKV label (evidenceText r)"

definition markdownWaiver :: "AppliedWaiver \<Rightarrow> (renderBuilder \<Rightarrow> renderBuilder) list" where
  "markdownWaiver w =
     [kv ''Applied waiver'' (aw_ID w), kv ''Waiver owner'' (aw_Owner w), kv ''Waiver reason'' (aw_Reason w),
      kv ''Waiver issued at'' (time_format (aw_IssuedAt w)), kv ''Waiver expires at'' (time_format (aw_ExpiresAt w))]"

definition limitationItem :: "Limitation \<Rightarrow> renderBuilder \<Rightarrow> renderBuilder" where
  "limitationItem l = listKV (''limitation '' @ lim_ID l) (lim_Summary l)"

definition finding :: "AppliedFinding \<Rightarrow> renderBuilder \<Rightarrow> renderBuilder result" where
  "finding f b =
     (let o' = af_Original f in
      returnErr (steps
        ([heading ''### Finding'', kv ''Finding ID'' (fi_ID o'), kv ''Origin'' (af_Origin f),
          kv ''Rule'' (fi_RuleID o' @ '' '' @ fi_RuleVersion o'), kv ''Title'' (fi_Title o'),
          kv ''Severity'' (fi_Severity o'), kv ''Confidence'' (fi_Confidence o'),
          kv ''Original disposition'' (fi_Disposition o'), kv ''Effective disposition'' (af_EffectiveDisposition f),
          kv ''Waived'' (boolText (findingWaived f)), kv ''Base observed'' (boolText (fi_BaseObserved o')),
          kv ''Head observed'' (boolText (fi_HeadObserved o'))]
         @ map (listKV ''scenario'') (fi_ScenarioIDs o')
         @ map (listKV ''delta record'') (fi_DeltaRecordIDs o')
         @ (case af_AppliedWaiver f of None \<Rightarrow> [] | Some w \<Rightarrow> markdownWaiver w)
         @ map (evidenceRef ''evidence'') (fi_Evidence o')
         @ map limitationItem (fi_Limitations o')) b))"

definition validateDeltaKind :: "string \<Rightarrow> go_error option" where
  "validateDeltaKind k =
     (if k \<in> {DeltaKindAdded, DeltaKindRemoved, DeltaKindModified, DeltaKindCountChanged, DeltaKindOrderChanged,
              DeltaKindStabilityChanged, DeltaKindCoverageChanged, ''added-process'', ''added-filesystem-activity'',
              ''added-network-connection'', ''artifact-changed'', ''observation-incomplete''}
      then None else Some (reportErr ''unsupported-delta-kind'' ''render'' ''deltaKind''))"

text \<open>
  The lines of the payload of a fact, by its kind: the error when the payload is missing or the kind
  unknown.
\<close>

definition factErr :: "string \<Rightarrow> go_error" where
  "factErr field = reportErr ''unsupported-fact-kind'' ''markdown'' field"

definition factItems :: "DeltaFactSnapshot \<Rightarrow> (string \<times> string) list result" where
  "factItems f =
     (let k = snap_Kind f in
      if k \<in> {''process-start'', ''process-exit''} then
        (case snap_Process f of None \<Rightarrow> Inl (factErr ''process'')
         | Some p \<Rightarrow> Inr [(''process operation'', dpf_Operation p), (''process id'', dpf_StableID p),
                           (''executable'', dp_Display (dpf_Executable p))])
      else if k \<in> {''filesystem-create'', ''filesystem-read'', ''filesystem-write'', ''filesystem-delete'',
                   ''filesystem-rename'', ''filesystem-chmod''} then
        (case snap_Filesystem f of None \<Rightarrow> Inl (factErr ''filesystem'')
         | Some p \<Rightarrow> Inr [(''filesystem operation'', dff_Operation p), (''filesystem path'', dp_Display (dff_Path p)),
                           (''path namespace'', dp_Namespace (dff_Path p)), (''executable'', boolText (dff_Executable p))])
      else if k \<in> {''dns-query'', ''network-connection''} then
        (case snap_Network f of None \<Rightarrow> Inl (factErr ''network'')
         | Some p \<Rightarrow> Inr [(''network operation'', dnf_Operation p), (''network destination'', dnf_DestinationHost p),
                           (''network result'', dnf_Result p)])
      else if k = ''artifact-activity'' then
        (case snap_Artifact f of None \<Rightarrow> Inl (factErr ''artifact'')
         | Some p \<Rightarrow> Inr [(''artifact path'', dp_Display (daf_Path p)), (''artifact digest'', daf_Digest p),
                           (''artifact executable'', boolText (daf_Executable p))])
      else if k \<in> {''scenario-started'', ''scenario-completed''} then
        (case snap_Scenario f of None \<Rightarrow> Inl (factErr ''scenario'')
         | Some p \<Rightarrow> Inr [(''scenario status'', dsf_Status p)])
      else if k \<in> {''observer-warning'', ''unsupported-observation''} then
        (case snap_Warning f of None \<Rightarrow> Inl (factErr ''warning'')
         | Some p \<Rightarrow> Inr [(''warning code'', dwf_Code p), (''unsupported'', boolText (dwf_Unsupported p))])
      else if k = ''resource-limit'' then
        (case snap_Resource f of None \<Rightarrow> Inl (factErr ''resource'')
         | Some p \<Rightarrow> Inr [(''resource kind'', drf_LimitKind p), (''resource exceeded'', boolText (drf_Exceeded p))])
      else Inl (factErr ''factKind''))"

definition fact :: "string \<Rightarrow> DeltaFactSnapshot \<Rightarrow> renderBuilder \<Rightarrow> renderBuilder result" where
  "fact label f b =
     (let b1 = listKV label (snap_Kind f @ '' '' @ snap_SemanticDigest f) b in
      rbind (factItems f) (\<lambda>items. returnErr (steps (map (\<lambda>(x, v). listKV x v) items) b1)))"

definition recordHead :: "DeltaRecord \<Rightarrow> (renderBuilder \<Rightarrow> renderBuilder) list" where
  "recordHead r =
     [heading ''### Delta record'', kv ''Delta record ID'' (dr_ID r), kv ''Kind'' (dr_Kind r),
      kv ''Fact kind'' (dr_FactKind r), kv ''Source'' (dr_Source r), kv ''Basis'' (dr_Basis r),
      kv ''Base observed'' (boolText (dr_BaseObserved r)), kv ''Head observed'' (boolText (dr_HeadObserved r)),
      kv ''Base occurrence'' (occurrenceText (dr_BaseOccurrence r)),
      kv ''Head occurrence'' (occurrenceText (dr_HeadOccurrence r))]"

definition recordTail :: "DeltaRecord \<Rightarrow> (renderBuilder \<Rightarrow> renderBuilder) list" where
  "recordTail r =
     map (listKV ''changed field'') (dr_ChangedFields r)
     @ map (evidenceRef ''base evidence'') (dr_BaseEvidence r)
     @ map (evidenceRef ''head evidence'') (dr_HeadEvidence r)
     @ map limitationItem (dr_Limitations r)"

definition deltaRecord :: "DeltaRecord \<Rightarrow> renderBuilder \<Rightarrow> renderBuilder result" where
  "deltaRecord r b =
     rcheck (validateDeltaKind (dr_Kind r))
       (rbind (each (fact ''base fact'') (dr_BaseFacts r) (steps (recordHead r) b)) (\<lambda>b1.
        rbind (each (fact ''head fact'') (dr_HeadFacts r) b1) (\<lambda>b2. returnErr (steps (recordTail r) b2))))"

definition markdownHead :: "FrozenReport \<Rightarrow> ReportDocument \<Rightarrow> (renderBuilder \<Rightarrow> renderBuilder) list" where
  "markdownHead report doc =
     [heading ''# Glassroot report'', kv ''Report digest'' (frz_digest report), kv ''Run ID'' (rdo_RunID doc),
      kv ''Overall effective disposition'' (rpo_OverallEffectiveDisposition (rdo_Policy doc)),
      kv ''Manifest verification'' (rdo_ManifestVerificationMode doc), heading ''## Notices'']
     @ (if rdo_Notices doc = [] then [line ''- none''] else [])
     @ map (\<lambda>n. listKV (nc_Code n) (nc_Text n)) (rdo_Notices doc)
     @ [heading ''## Runner'', kv ''Name'' (rc_Name (rdo_Runner doc)), kv ''Version'' (rc_Version (rdo_Runner doc)),
        kv ''Isolation tier'' (rc_IsolationTier (rdo_Runner doc)),
        kv ''Executes target code'' (boolText (rc_ExecutesTargetCode (rdo_Runner doc))),
        kv ''Synthetic evidence'' (boolText (rc_SyntheticEvidence (rdo_Runner doc))),
        kv ''Enforces network deny'' (boolText (rc_EnforcesNetworkDeny (rdo_Runner doc))),
        heading ''## Completeness'',
        kv ''Execution complete'' (boolText (ct_ExecutionComplete (rdo_Completeness doc))),
        kv ''Evidence complete'' (boolText (ct_EvidenceComplete (rdo_Completeness doc))),
        kv ''Bundle transaction valid'' (boolText (ct_BundleTransactionValid (rdo_Completeness doc))),
        heading ''## Findings'', kv ''Total findings'' (intText (as_TotalFindings (rpo_Summary (rdo_Policy doc))))]"

definition markdownTail :: "ReportDocument \<Rightarrow> (renderBuilder \<Rightarrow> renderBuilder) list" where
  "markdownTail doc =
     [heading ''## Authorities'',
      kv ''Trusted config path'' (ca_Path (rpo_TrustedConfigAuthority (rdo_Policy doc))),
      kv ''Trusted config head state'' (ca_HeadState (rpo_TrustedConfigAuthority (rdo_Policy doc))),
      kv ''Trusted waiver path'' (wa_Path (rpo_TrustedWaiverAuthority (rdo_Policy doc))),
      kv ''Trusted waiver base state'' (wa_BaseState (rpo_TrustedWaiverAuthority (rdo_Policy doc))),
      kv ''Trusted waiver head state'' (wa_HeadState (rpo_TrustedWaiverAuthority (rdo_Policy doc))),
      heading ''## Limitations'']
     @ map (\<lambda>x. listKV (lim_ID x) (lim_Summary x)) (rdo_Limitations doc)
     @ [heading ''## Safety statement'',
        line ''A passed disposition does not prove the code is safe. Report digests are deterministic equality values only.'']"

definition markdownBody :: "RenderLimits \<Rightarrow> FrozenReport \<Rightarrow> ReportDocument \<Rightarrow> renderBuilder result" where
  "markdownBody l report doc =
     rbind (each finding (rpo_AppliedFindings (rdo_Policy doc))
              (steps (markdownHead report doc) (newBuilder l (rn_MaxMarkdownBytes l) ''markdown-too-large''))) (\<lambda>b1.
     rbind (each deltaRecord (bs_Records (rdo_Behavior doc))
              (steps [heading ''## Behavioral delta'',
                 kv ''Total delta records'' (intText (ds_TotalRecords (bs_Summary (rdo_Behavior doc))))] b1)) (\<lambda>b2.
     returnErr (steps (markdownTail doc) b2)))"

definition RenderMarkdown ::
  "(string \<Rightarrow> string) \<Rightarrow> report_json \<Rightarrow> go_context \<Rightarrow> FrozenReport option \<Rightarrow> RenderLimits \<Rightarrow> RenderedOutput result" where
  "RenderMarkdown sha js ctx report limits =
     (case ctx 0 of Some e \<Rightarrow> Inl (report_contextErr ''markdown'' e)
      | None \<Rightarrow>
        rbind (validateRenderLimits limits) (\<lambda>l.
        case report of None \<Rightarrow> Inl (reportErr ''invalid-report-model'' ''markdown'' ''report'')
        | Some r \<Rightarrow>
          let doc = cloneReport js (frz_doc r) in
          rcheck (validateRenderEvidenceRefs doc l)
            (rbind (markdownBody l r doc) (\<lambda>b.
             let out = trimNewlines (rb_text b) @ [LF] in
             if CHR 0x0D \<in> set out then Inl (reportErr ''render-failed'' ''markdown'' ''newline'')
             else Inr \<lparr>out_RendererVersion = ''glassroot.dev/markdown-renderer/v1alpha1'', out_Bytes = out,
                       out_Digest = digestBytes sha markdownDigestDomain out\<rparr>))))"

end
