(* ===== verification/Display_Facts.thy ===== *)
theory Display_Facts
  imports Display
begin

text \<open>
  Facts about the escape of \<open>Display\<close>: well-formed sequences and their code points, the text
  \<open>visible s\<close> that the loop writes, a reader \<open>read_chunk\<close> that takes one escape off its front, and
  \<open>clean\<close>, a text made of well-formed runes with a given property.
\<close>

section \<open>Well-formed sequences\<close>

definition well_formed :: "string \<Rightarrow> bool" where
  "well_formed c \<longleftrightarrow> c \<noteq> [] \<and> seq_len c = length c"

text \<open>The length of the sequence by the class of its first byte.\<close>

definition lo3 :: "char \<Rightarrow> nat" where "lo3 a = (if byte_in 0xE0 0xE0 a then 0xA0 else 0x80)"
definition hi3 :: "char \<Rightarrow> nat" where "hi3 a = (if byte_in 0xED 0xED a then 0x9F else 0xBF)"
definition lo4 :: "char \<Rightarrow> nat" where "lo4 a = (if byte_in 0xF0 0xF0 a then 0x90 else 0x80)"
definition hi4 :: "char \<Rightarrow> nat" where "hi4 a = (if byte_in 0xF4 0xF4 a then 0x8F else 0xBF)"

lemma seq_len_Cons:
  "seq_len (a # t) =
     (if byte_in 0 0x7F a then 1
      else if byte_in 0xC2 0xDF a then (case t of b # _ \<Rightarrow> if cont_byte b then 2 else 0 | _ \<Rightarrow> 0)
      else if byte_in 0xE0 0xEF a then
        (case t of b # c # _ \<Rightarrow> if byte_in (lo3 a) (hi3 a) b \<and> cont_byte c then 3 else 0 | _ \<Rightarrow> 0)
      else if byte_in 0xF0 0xF4 a then
        (case t of b # c # d # _ \<Rightarrow> if byte_in (lo4 a) (hi4 a) b \<and> cont_byte c \<and> cont_byte d then 4 else 0 | _ \<Rightarrow> 0)
      else 0)"
  unfolding seq_len_def lo3_def hi3_def lo4_def hi4_def by simp

lemma byte_classes:
  obtains (ascii) "byte_in 0 0x7F a"
  | (two) "\<not> byte_in 0 0x7F a" "byte_in 0xC2 0xDF a"
  | (three) "\<not> byte_in 0 0x7F a" "\<not> byte_in 0xC2 0xDF a" "byte_in 0xE0 0xEF a"
  | (four) "\<not> byte_in 0 0x7F a" "\<not> byte_in 0xC2 0xDF a" "\<not> byte_in 0xE0 0xEF a" "byte_in 0xF0 0xF4 a"
  | (bad) "\<not> byte_in 0 0x7F a" "\<not> byte_in 0xC2 0xDF a" "\<not> byte_in 0xE0 0xEF a" "\<not> byte_in 0xF0 0xF4 a"
  by blast

lemma seq_len_take:
  assumes "seq_len s \<noteq> 0"
  shows "well_formed (take (seq_len s) s)"
proof (cases s)
  case Nil
  with assms show ?thesis by (simp add: seq_len_def)
next
  case (Cons a t)
  show ?thesis
  proof (cases a rule: byte_classes)
    case two
    with assms Cons show ?thesis by (auto simp: well_formed_def seq_len_Cons split: list.splits if_split_asm)
  next
    case three
    with assms three Cons show ?thesis
      by (auto simp: well_formed_def seq_len_Cons split: list.splits if_split_asm)
  next
    case four
    with assms four Cons show ?thesis
      by (auto simp: well_formed_def seq_len_Cons split: list.splits if_split_asm)
  qed (use assms Cons in \<open>simp_all add: well_formed_def seq_len_Cons\<close>)
qed

lemma seq_len_append:
  assumes "well_formed c"
  shows "seq_len (c @ t) = length c"
proof -
  obtain a u where c: "c = a # u" using assms by (cases c) (auto simp: well_formed_def)
  have len: "seq_len c = length c" using assms by (simp add: well_formed_def)
  show ?thesis
  proof (cases a rule: byte_classes)
    case two
    with len c show ?thesis by (auto simp: seq_len_Cons split: list.splits if_split_asm)
  next
    case three
    from three len c show ?thesis
      by (auto simp: seq_len_Cons split: list.splits if_split_asm)
  next
    case four
    from four len c show ?thesis
      by (auto simp: seq_len_Cons split: list.splits if_split_asm)
  qed (use len c in \<open>simp_all add: seq_len_Cons\<close>)
qed

lemma decode_rune_append:
  assumes "well_formed c"
  shows "decode_rune (c @ t) = (seq_rune c, length c)"
  using assms seq_len_append [OF assms] by (simp add: decode_rune_def well_formed_def)

lemma byte_val_char: "byte_val (char_of n) = n" if "n < 256"
  using that by (simp add: byte_val_def)

lemma char_byte_val: "char_of (byte_val c) = c"
  by (simp add: byte_val_def)

lemma well_formed_cases:
  assumes "well_formed c"
  obtains (one) a where "c = [a]" "byte_val a < 0x80"
  | (two) a b where "c = [a, b]" "0xC2 \<le> byte_val a" "byte_val a \<le> 0xDF" "0x80 \<le> byte_val b" "byte_val b \<le> 0xBF"
  | (three) a b d where "c = [a, b, d]" "0xE0 \<le> byte_val a" "byte_val a \<le> 0xEF"
      "(if byte_val a = 0xE0 then 0xA0 else 0x80) \<le> byte_val b" "byte_val b \<le> 0xBF"
      "0x80 \<le> byte_val d" "byte_val d \<le> 0xBF"
  | (four) a b d e where "c = [a, b, d, e]" "0xF0 \<le> byte_val a" "byte_val a \<le> 0xF4"
      "(if byte_val a = 0xF0 then 0x90 else 0x80) \<le> byte_val b"
      "byte_val b \<le> (if byte_val a = 0xF4 then 0x8F else 0xBF)"
      "0x80 \<le> byte_val d" "byte_val d \<le> 0xBF" "0x80 \<le> byte_val e" "byte_val e \<le> 0xBF"
proof -
  obtain a t where c: "c = a # t" using assms by (cases c) (auto simp: well_formed_def)
  have len: "seq_len c = length c" using assms by (simp add: well_formed_def)
  show thesis
  proof (cases a rule: byte_classes)
    case ascii
    with len c have "t = []" by (simp add: seq_len_Cons)
    with c ascii one [of a] show thesis by (simp add: byte_in_def byte_val_def)
  next
    case two
    with len c obtain b where "t = [b]" "cont_byte b" by (auto simp: seq_len_Cons split: list.splits if_split_asm)
    with c two that(2) [of a b] show thesis by (simp add: byte_in_def byte_val_def cont_byte_def)
  next
    case three
    from three len c obtain b d where t: "t = [b, d]" "byte_in (lo3 a) (hi3 a) b" "cont_byte d"
      by (auto simp: seq_len_Cons split: list.splits if_split_asm)
    have "lo3 a = (if byte_val a = 0xE0 then 0xA0 else 0x80)" "hi3 a \<le> 0xBF"
      by (auto simp: lo3_def hi3_def byte_in_def byte_val_def)
    with c three t that(3) [of a b d] show thesis by (simp add: byte_in_def byte_val_def cont_byte_def)
  next
    case four
    from four len c obtain b d e where t: "t = [b, d, e]" "byte_in (lo4 a) (hi4 a) b" "cont_byte d" "cont_byte e"
      by (auto simp: seq_len_Cons split: list.splits if_split_asm)
    have "lo4 a = (if byte_val a = 0xF0 then 0x90 else 0x80)" "hi4 a = (if byte_val a = 0xF4 then 0x8F else 0xBF)"
      by (auto simp: lo4_def hi4_def byte_in_def byte_val_def)
    with c four t that(4) [of a b d e] show thesis by (simp add: byte_in_def byte_val_def cont_byte_def)
  next
    case bad
    with len c show thesis by (simp add: seq_len_Cons)
  qed
qed

text \<open>The payload bits of a byte that carries its class in its upper bits.\<close>

lemma payload:
  fixes v :: nat
  assumes "lo \<le> v" "v < lo + k" "lo mod k = 0"
  shows "v = lo + v mod k"
proof -
  obtain u where u: "v = lo + u" using assms(1) by (auto simp: le_iff_add)
  then have "v mod k = u" using assms by (simp add: mod_add_eq [of lo k u, symmetric])
  with u show ?thesis by simp
qed

lemma radix64:
  fixes x y :: nat
  assumes "y < 64"
  shows "(x * 64 + y) div 64 = x" and "(x * 64 + y) mod 64 = y"
  using assms by simp_all

lemma encode_two:
  assumes "2 \<le> x" "x < 32" "y < 64"
  shows "encode_rune (x * 64 + y) = [char_of (0xC0 + x), char_of (0x80 + y)]"
  using assms radix64 [of y x] by (simp add: encode_rune_def)

lemma encode_three:
  assumes "x < 16" "y < 64" "z < 64" "x = 0 \<Longrightarrow> 32 \<le> y"
  shows "encode_rune ((x * 64 + y) * 64 + z) = [char_of (0xE0 + x), char_of (0x80 + y), char_of (0x80 + z)]"
proof -
  let ?r = "(x * 64 + y) * 64 + z"
  have q: "?r div 64 = x * 64 + y" "?r mod 64 = z" using radix64 [OF assms(3)] by blast+
  have d: "?r div 4096 = x" using q(1) radix64(1) [OF assms(2), of x] div_mult2_eq [of ?r 64 64] by simp
  have m: "?r div 64 mod 64 = y" unfolding q(1) by (rule radix64(2) [OF assms(2)])
  have "32 \<le> x * 64 + y" using assms(4) by (cases "x = 0") auto
  then have "0x800 \<le> ?r" using mult_le_mono1 [of 32 "x * 64 + y" 64] by simp
  moreover have "?r < 0x10000" using assms(1,2,3) by (simp add: algebra_simps)
  ultimately show ?thesis unfolding encode_rune_def using q(2) d m by simp
qed

lemma encode_four:
  assumes "x < 8" "y < 64" "z < 64" "w < 64" "x = 0 \<Longrightarrow> 16 \<le> y"
  shows "encode_rune (((x * 64 + y) * 64 + z) * 64 + w) =
    [char_of (0xF0 + x), char_of (0x80 + y), char_of (0x80 + z), char_of (0x80 + w)]"
proof -
  let ?q = "(x * 64 + y) * 64 + z" let ?r = "?q * 64 + w"
  have r: "?r div 64 = ?q" "?r mod 64 = w" using radix64 [OF assms(4)] by blast+
  have q: "?q div 64 = x * 64 + y" "?q mod 64 = z" using radix64 [OF assms(3)] by blast+
  have r2: "?r div 4096 = x * 64 + y" using r(1) q(1) div_mult2_eq [of ?r 64 64] by simp
  have r3: "?r div 262144 = x" using r2 radix64(1) [OF assms(2), of x] div_mult2_eq [of ?r 4096 64] by simp
  have m: "?r div 4096 mod 64 = y" "?r div 64 mod 64 = z"
    unfolding r(1) r2 using radix64(2) [OF assms(2)] q(2) by blast+
  have "16 \<le> x * 64 + y" using assms(5) by (cases "x = 0") auto
  then have "0x10000 \<le> ?r" using mult_le_mono1 [of 16 "x * 64 + y" 4096] by simp
  then show ?thesis unfolding encode_rune_def using r(2) r3 m by simp
qed

text \<open>Writing the code point of a well-formed sequence writes the sequence.\<close>

lemma encode_seq_rune:
  assumes "well_formed c"
  shows "encode_rune (seq_rune c) = c"
  using assms
proof (cases rule: well_formed_cases)
  case (one a)
  then show ?thesis by (simp add: seq_rune_def encode_rune_def char_byte_val)
next
  case (two a b)
  let ?x = "byte_val a mod 32" and ?y = "byte_val b mod 64"
  have a: "byte_val a = 0xC0 + ?x" and b: "byte_val b = 0x80 + ?y"
    by (rule payload; use two in simp)+
  have "encode_rune (?x * 64 + ?y) = [char_of (0xC0 + ?x), char_of (0x80 + ?y)]"
    by (rule encode_two) (use a two(2) in linarith, simp_all)
  then show ?thesis using two(1) a b char_byte_val [of a] char_byte_val [of b] by (simp add: seq_rune_def)
next
  case (three a b d)
  let ?x = "byte_val a mod 16" and ?y = "byte_val b mod 64" and ?z = "byte_val d mod 64"
  have b0: "0x80 \<le> byte_val b" using three(4) by (simp split: if_splits)
  have a: "byte_val a = 0xE0 + ?x" and b: "byte_val b = 0x80 + ?y" and d: "byte_val d = 0x80 + ?z"
    by (rule payload; use three b0 in simp)+
  have "32 \<le> ?y" if "?x = 0"
  proof -
    have "byte_val a = 0xE0" using a that by linarith
    then show ?thesis using three(4) b by simp
  qed
  then have "encode_rune ((?x * 64 + ?y) * 64 + ?z) = [char_of (0xE0 + ?x), char_of (0x80 + ?y), char_of (0x80 + ?z)]"
    by (intro encode_three) simp_all
  then show ?thesis
    using three(1) a b d char_byte_val [of a] char_byte_val [of b] char_byte_val [of d] by (simp add: seq_rune_def)
next
  case (four a b d e)
  let ?x = "byte_val a mod 8" and ?y = "byte_val b mod 64" and ?z = "byte_val d mod 64" and ?w = "byte_val e mod 64"
  have b0: "0x80 \<le> byte_val b" "byte_val b \<le> 0xBF" using four(4,5) by (simp_all split: if_splits)
  have a: "byte_val a = 0xF0 + ?x" and b: "byte_val b = 0x80 + ?y" and d: "byte_val d = 0x80 + ?z"
    and e: "byte_val e = 0x80 + ?w"
    by (rule payload; use four(2,3,6-) b0 in simp)+
  have "16 \<le> ?y" if "?x = 0"
  proof -
    have "byte_val a = 0xF0" using a that by linarith
    then show ?thesis using four(4) b by simp
  qed
  then have "encode_rune (((?x * 64 + ?y) * 64 + ?z) * 64 + ?w) =
      [char_of (0xF0 + ?x), char_of (0x80 + ?y), char_of (0x80 + ?z), char_of (0x80 + ?w)]"
    by (intro encode_four) simp_all
  then show ?thesis
    using four(1) a b d e char_byte_val [of a] char_byte_val [of b] char_byte_val [of d] char_byte_val [of e]
    by (simp add: seq_rune_def)
qed

section \<open>Reading the escape back\<close>

definition unhexU :: "char \<Rightarrow> nat" where
  "unhexU c = (if byte_val c < 58 then byte_val c - 48 else byte_val c - 55)"

definition read_hex :: "string \<Rightarrow> nat" where
  "read_hex s = foldl (\<lambda>v c. 16 * v + unhexU c) 0 s"

lemma hexU_table:
  assumes "d < 16"
  shows "unhexU (hexU d) = d \<and> hexU d \<in> set ''0123456789ABCDEF''"
proof -
  have "list_all (\<lambda>d. unhexU (hexU d) = d \<and> hexU d \<in> set ''0123456789ABCDEF'') [0..<16]" by code_simp
  with assms show ?thesis by (simp add: list_all_iff)
qed

lemma unhexU_hexU: "unhexU (hexU v) = v mod 16"
  using hexU_table [of "v mod 16"] by (simp add: hexU_def)

lemma hexU_digit: "hexU v \<in> set ''0123456789ABCDEF''"
  using hexU_table [of "v mod 16"] by (simp add: hexU_def)

lemma set_hex_fix: "set (hex_fix k v) \<subseteq> set ''0123456789ABCDEF''"
proof (induction k arbitrary: v)
  case (Suc k)
  have "set (hex_fix (Suc k) v) = insert (hexU v) (set (hex_fix k (v div 16)))" by simp
  with Suc [of "v div 16"] hexU_digit [of v] show ?case by (simp only: insert_subset simp_thms)
qed simp

lemma length_hex_fix [simp]: "length (hex_fix k v) = k"
  by (induction k arbitrary: v) simp_all

lemma read_hex_fix: "v < 16 ^ k \<Longrightarrow> read_hex (hex_fix k v) = v"
proof (induction k arbitrary: v)
  case (Suc k)
  then have "v div 16 < 16 ^ k" by (simp add: div_less_iff_less_mult mult.commute)
  with Suc.IH show ?case by (simp add: read_hex_def unhexU_hexU)
qed (simp add: read_hex_def)

lemma hex_width_bound: "v < 16 ^ hex_width v"
proof (induction v rule: hex_width.induct)
  case (1 v)
  show ?case
  proof (cases "v < 16")
    case True
    then show ?thesis by (simp add: hex_width.simps [of v])
  next
    case False
    then have "v div 16 < 16 ^ hex_width (v div 16)" by (rule 1)
    then have "v < 16 * 16 ^ hex_width (v div 16)" by (simp add: div_less_iff_less_mult mult.commute)
    with False show ?thesis by (simp add: hex_width.simps [of v])
  qed
qed

lemma read_hex_04X: "read_hex (sprintf_04X v) = v"
  unfolding sprintf_04X_def
  by (rule read_hex_fix) (rule less_le_trans [OF hex_width_bound], rule power_increasing, simp_all)

lemma sprintf_02X_byte:
  assumes "v < 256"
  shows "sprintf_02X v = [hexU (v div 16), hexU v]" and "read_hex [hexU (v div 16), hexU v] = v"
proof -
  have "v div 16 < 16" using assms by (simp add: div_less_iff_less_mult)
  then have "hex_width v \<le> 2" by (simp add: hex_width.simps [of v] hex_width.simps [of "v div 16"])
  then have m: "max 2 (hex_width v) = 2" by simp
  show *: "sprintf_02X v = [hexU (v div 16), hexU v]"
    unfolding sprintf_02X_def m by (simp add: numeral_2_eq_2)
  have "read_hex (hex_fix 2 v) = v" by (rule read_hex_fix) (use assms in simp)
  then show "read_hex [hexU (v div 16), hexU v] = v" by (simp add: numeral_2_eq_2)
qed

text \<open>The text written for the front of the input, and the bytes it stands for.\<close>

definition shown :: "string \<Rightarrow> string" where
  "shown s = (if seq_len s = 0 then writeByteEscape (hd s) else writeRuneVisible (seq_rune (take (seq_len s) s)))"

definition chunk :: "string \<Rightarrow> nat" where
  "chunk s = (if seq_len s = 0 then 1 else seq_len s)"

definition read_chunk :: "string \<Rightarrow> string \<times> string" where
  "read_chunk out =
     (if take 2 out = [CHR 0x5C, CHR 0x5C] then ([CHR 0x5C], drop 2 out)
      else if take 2 out = [CHR 0x5C, CHR ''x''] then ([char_of (read_hex (take 2 (drop 2 out)))], drop 4 out)
      else if take 1 out = [CHR 0x5C]
      then (let digits = takeWhile (\<lambda>c. c \<noteq> CHR ''}'') (drop 3 out)
            in (encode_rune (read_hex digits), drop (4 + length digits) out))
      else (take (seq_len out) out, drop (seq_len out) out))"

lemma read_byte_escape: "read_chunk (writeByteEscape c @ t) = ([c], t)"
proof -
  have "byte_val c < 256" unfolding byte_val_def by simp
  note sprintf_02X_byte [OF this]
  then show ?thesis by (simp add: writeByteEscape_def read_chunk_def char_byte_val)
qed

lemma read_rune_escape: "read_chunk (writeRuneEscape r @ t) = (encode_rune r, t)"
proof -
  have "set (sprintf_04X r) \<subseteq> set ''0123456789ABCDEF''" unfolding sprintf_04X_def by (rule set_hex_fix)
  then have no: "CHR ''}'' \<notin> set (sprintf_04X r)" by auto
  have "takeWhile (\<lambda>c. c \<noteq> CHR ''}'') (sprintf_04X r @ CHR ''}'' # t) = sprintf_04X r"
    by (subst takeWhile_append2) (use no in auto)
  then show ?thesis by (simp add: writeRuneEscape_def read_chunk_def read_hex_04X Let_def eval_nat_numeral)
qed

text \<open>What the escape writes for a code point, by the form of the text.\<close>

lemma writeRuneVisible_cases:
  fixes r :: nat
  obtains (backslash) "r = 0x5C" "writeRuneVisible r = [CHR 0x5C, CHR 0x5C]"
  | (byte) "r < 0x80" "writeRuneVisible r = writeByteEscape (char_of r)"
  | (rune) "writeRuneVisible r = writeRuneEscape r"
  | (plain) "writeRuneVisible r = encode_rune r" "r \<noteq> 0x5C" "r \<notin> set markupRunes" "0x20 \<le> r" "r \<noteq> 0x7F"
      "\<not> (0x80 \<le> r \<and> r \<le> 0x9F)" "r \<noteq> 0x2028" "r \<noteq> 0x2029" "\<not> unicode_Cf r"
proof -
  have table: "list_all (\<lambda>r. writeRuneVisible r = writeByteEscape (char_of r)) [0, 7, 8, 9, 10, 11, 12, 13, 0x1B, 0x7F]"
    by code_simp
  consider "r = 0x5C" | "r \<in> set [0, 7, 8, 9, 10, 11, 12, 13, 0x1B, 0x7F]"
    | "r \<noteq> 0x5C" "r \<notin> set [0, 7, 8, 9, 10, 11, 12, 13, 0x1B, 0x7F]" by blast
  then show thesis
  proof cases
    case 1
    then show thesis using backslash by (simp add: writeRuneVisible_def)
  next
    case 2
    then have "r < 0x80" by auto
    moreover have "writeRuneVisible r = writeByteEscape (char_of r)" using 2 table unfolding list_all_iff by blast
    ultimately show thesis by (rule byte)
  next
    case 3
    then have ne: "r \<noteq> 0" "r \<noteq> 7" "r \<noteq> 8" "r \<noteq> 9" "r \<noteq> 10" "r \<noteq> 11" "r \<noteq> 12" "r \<noteq> 13" "r \<noteq> 0x1B" "r \<noteq> 0x7F"
      by simp_all
    show thesis
    proof (cases "r \<in> set markupRunes \<or> r < 0x20 \<or> 0x80 \<le> r \<and> r \<le> 0x9F \<or> r = 0x2028 \<or> r = 0x2029 \<or> unicode_Cf r")
      case True
      then have "writeRuneVisible r = writeRuneEscape r"
        unfolding writeRuneVisible_def using 3(1) ne by (simp only: if_False if_True simp_thms split: if_splits) blast
      then show thesis by (rule rune)
    next
      case False
      then have "writeRuneVisible r = encode_rune r"
        unfolding writeRuneVisible_def using 3(1) ne by (simp only: if_False simp_thms de_Morgan_disj)
      then show thesis using False 3(1) ne(10) plain by (simp add: not_less)
    qed
  qed
qed

lemma encode_small: "r < 0x80 \<Longrightarrow> encode_rune r = [char_of r]"
  by (simp add: encode_rune_def)

text \<open>One escape can be read back: its bytes and where it ends.\<close>

lemma read_chunk_rune:
  assumes "well_formed c"
  shows "read_chunk (writeRuneVisible (seq_rune c) @ t) = (c, t)"
proof (cases rule: writeRuneVisible_cases [of "seq_rune c"])
  case backslash
  have "char_of (0x5C :: nat) = CHR 0x5C" by code_simp
  with backslash have "c = [CHR 0x5C]" using encode_seq_rune [OF assms] encode_small [of "0x5C"] by simp
  then show ?thesis using backslash by (simp add: read_chunk_def)
next
  case byte
  then have "c = [char_of (seq_rune c)]" using encode_seq_rune [OF assms] encode_small [of "seq_rune c"] by simp
  then show ?thesis using byte(2) read_byte_escape by metis
next
  case rune
  then show ?thesis using read_rune_escape encode_seq_rune [OF assms] by simp
next
  case plain
  have c: "encode_rune (seq_rune c) = c" by (rule encode_seq_rune [OF assms])
  have "c \<noteq> []" using assms by (simp add: well_formed_def)
  have "hd c \<noteq> CHR 0x5C"
  proof
    assume "hd c = CHR 0x5C"
    then have "c = [CHR 0x5C]" using assms by (cases rule: well_formed_cases [OF assms]) (auto simp: byte_val_def)
    then show False using plain(2) by (simp add: seq_rune_def byte_val_def)
  qed
  then obtain a u where u: "c = a # u" "a \<noteq> CHR 0x5C" using \<open>c \<noteq> []\<close> by (cases c) auto
  have "read_chunk (c @ t) = (take (seq_len (c @ t)) (c @ t), drop (seq_len (c @ t)) (c @ t))"
    using u by (simp add: read_chunk_def)
  then show ?thesis unfolding plain(1) c using seq_len_append [OF assms] by simp
qed

lemma read_chunk_shown:
  assumes "s \<noteq> []"
  shows "read_chunk (shown s @ t) = (take (chunk s) s, t)"
proof (cases "seq_len s = 0")
  case True
  then show ?thesis using assms read_byte_escape by (cases s) (simp_all add: shown_def chunk_def)
next
  case False
  then show ?thesis using read_chunk_rune [OF seq_len_take [OF False]] by (simp add: shown_def chunk_def)
qed

section \<open>The text of a value\<close>

function visible :: "string \<Rightarrow> string" where
  "visible s = (if s = [] then [] else shown s @ visible (drop (chunk s) s))"
  by pat_completeness auto

termination
  by (relation "measure length") (auto simp: chunk_def)

declare visible.simps [simp del]

lemma visible_Nil [simp]: "visible [] = []"
  by (simp add: visible.simps)

lemma visible_step: "s \<noteq> [] \<Longrightarrow> visible s = shown s @ visible (drop (chunk s) s)"
  by (simp add: visible.simps [of s])

lemma display_loop_visible: "display_loop mx s b = Inr out \<Longrightarrow> out = b @ visible s"
proof (induction mx s b rule: display_loop.induct)
  case (1 mx s b)
  show ?case
  proof (cases "s = []")
    case True
    with "1.prems" show ?thesis by (simp add: display_loop.simps)
  next
    case False
    obtain r n where rn: "decode_rune s = (r, n)" by fastforce
    have n: "n = chunk s" and bad: "seq_len s = 0 \<Longrightarrow> r = RuneError \<and> n = 1"
      and rune: "seq_len s \<noteq> 0 \<Longrightarrow> r = seq_rune (take (seq_len s) s)"
      using rn False by (auto simp: decode_rune_def chunk_def split: if_splits)
    have ok: "\<not> (r = RuneError \<and> n = 1)" if "seq_len s \<noteq> 0"
    proof
      assume *: "r = RuneError \<and> n = 1"
      then have "seq_len s = 1" using n that by (simp add: chunk_def)
      then have "well_formed (take 1 s)" using seq_len_take [OF that] by simp
      then have "r < 0x80" using rune [OF that] \<open>seq_len s = 1\<close> False
        by (cases s) (auto simp: seq_rune_def elim: well_formed_cases)
      with * show False by simp
    qed
    have step: "(if r = RuneError \<and> n = 1 then (b @ writeByteEscape (hd s), tl s) else (b @ writeRuneVisible r, drop n s))
       = (b @ shown s, drop (chunk s) s)"
    proof (cases "seq_len s = 0")
      case True
      with bad show ?thesis by (simp add: shown_def chunk_def drop_Suc)
    next
      case f: False
      with ok [OF f] rune [OF f] n show ?thesis by (simp only: shown_def if_False refl)
    qed
    have "display_loop mx (drop (chunk s) s) (b @ shown s) = Inr out"
      using "1.prems" False rn step by (subst (asm) display_loop.simps) (simp split: if_splits)
    then have "out = (b @ shown s) @ visible (drop (chunk s) s)"
      using "1.IH" [OF False rn [symmetric] refl step [symmetric] refl] "1.prems" False rn step
      by (subst (asm) (2) display_loop.simps) (simp split: if_splits)
    then show ?thesis using visible_step [OF False] by simp
  qed
qed

lemma visibleDisplayBytes_visible: "visibleDisplayBytes s l = Inr out \<Longrightarrow> out = visible s"
  using display_loop_visible by (fastforce simp: visibleDisplayBytes_def split: if_splits)

lemma shown_nonempty: "s \<noteq> [] \<Longrightarrow> shown s \<noteq> []"
  using read_chunk_shown [of s "[]"] read_chunk_shown [of s "[CHR 0x5C, CHR 0x5C]"]
  by (auto simp: read_chunk_def seq_len_def)

lemma visible_inject: "visible s = visible t \<Longrightarrow> s = t"
proof (induction "length s" arbitrary: s t rule: less_induct)
  case less
  have empty: "visible x = [] \<Longrightarrow> x = []" for x
    using visible_step [of x] shown_nonempty [of x] by (metis append_is_Nil_conv)
  show ?case
  proof (cases "s = [] \<or> t = []")
    case True
    then show ?thesis using less.prems empty [of s] empty [of t] visible_Nil by metis
  next
    case False
    let ?s = "drop (chunk s) s" and ?t = "drop (chunk t) t"
    have rd: "read_chunk (visible x) = (take (chunk x) x, visible (drop (chunk x) x))" if "x \<noteq> []" for x
      unfolding visible_step [OF that] by (rule read_chunk_shown [OF that])
    from False have "read_chunk (visible s) = (take (chunk s) s, visible ?s)"
      "read_chunk (visible t) = (take (chunk t) t, visible ?t)" by (simp_all only: rd de_Morgan_disj simp_thms)
    then have eq: "take (chunk s) s = take (chunk t) t" "visible ?s = visible ?t" using less.prems by simp_all
    have "length ?s < length s" using False by (simp add: chunk_def)
    then have "?s = ?t" using less.hyps eq(2) by blast
    with eq(1) show ?thesis by (metis append_take_drop_id)
  qed
qed

section \<open>Texts of well-formed runes\<close>

definition clean :: "(nat \<Rightarrow> bool) \<Rightarrow> string \<Rightarrow> bool" where
  "clean P s \<longleftrightarrow> (\<exists>cs. s = concat cs \<and> (\<forall>c\<in>set cs. well_formed c \<and> P (seq_rune c)))"

lemma clean_Nil [simp]: "clean P []"
  unfolding clean_def by (rule exI [of _ "[]"]) simp

lemma clean_append [intro]:
  assumes "clean P s" "clean P t"
  shows "clean P (s @ t)"
proof -
  obtain cs ds where "s = concat cs" "\<forall>c\<in>set cs. well_formed c \<and> P (seq_rune c)"
    and "t = concat ds" "\<forall>c\<in>set ds. well_formed c \<and> P (seq_rune c)"
    using assms unfolding clean_def by blast
  then have "s @ t = concat (cs @ ds) \<and> (\<forall>c\<in>set (cs @ ds). well_formed c \<and> P (seq_rune c))" by auto
  then show ?thesis unfolding clean_def by blast
qed

lemma clean_mono: "clean P s \<Longrightarrow> (\<And>r. P r \<Longrightarrow> Q r) \<Longrightarrow> clean Q s"
  unfolding clean_def by blast

lemma clean_one: "well_formed c \<Longrightarrow> P (seq_rune c) \<Longrightarrow> clean P c"
  unfolding clean_def by (rule exI [of _ "[c]"]) simp

lemma well_formed_ascii: "byte_val a < 0x80 \<Longrightarrow> well_formed [a]" "seq_rune [a] = byte_val a"
  by (simp_all add: well_formed_def seq_len_Cons byte_in_def byte_val_def seq_rune_def)

lemma clean_ascii: "list_all (\<lambda>c. byte_val c < 0x80 \<and> P (byte_val c)) s \<Longrightarrow> clean P s"
proof (induction s)
  case (Cons a s)
  then have "clean P [a]" by (intro clean_one) (simp_all add: well_formed_ascii)
  with Cons have "clean P ([a] @ s)" by (intro clean_append) simp_all
  then show ?case by simp
qed simp

lemma runes_well_formed: "well_formed c \<Longrightarrow> runes (c @ t) = seq_rune c # runes t"
  using decode_rune_append [of c t] by (subst runes.simps) (simp add: well_formed_def)

lemma runes_Nil [simp]: "runes [] = []"
  by (simp add: runes.simps)

lemma clean_runes:
  assumes "clean P s"
  shows "list_all P (runes s)"
proof -
  obtain cs where "s = concat cs" and "\<forall>c\<in>set cs. well_formed c \<and> P (seq_rune c)"
    using assms unfolding clean_def by blast
  then show ?thesis
  proof (induction cs arbitrary: s)
    case (Cons c cs)
    then show ?case using runes_well_formed [of c "concat cs"] by simp
  qed simp
qed

text \<open>A byte below 0x80 in a clean text is one of its runes.\<close>

lemma clean_byte:
  assumes "clean P s" "x \<in> set s" "byte_val x < 0x80"
  shows "P (byte_val x)"
proof -
  obtain cs c where c: "\<forall>c\<in>set cs. well_formed c \<and> P (seq_rune c)" "c \<in> set cs" "x \<in> set c"
    using assms(1,2) unfolding clean_def by auto
  then have "well_formed c" and P: "P (seq_rune c)" by blast+
  then have "c = [x]" using c(3) assms(3) by (cases rule: well_formed_cases) (auto split: if_splits)
  with P show ?thesis by (simp add: well_formed_ascii)
qed

text \<open>What the escape writes: no control or format character, no character of Markdown markup.\<close>

definition inertRune :: "nat \<Rightarrow> bool" where
  "inertRune r \<longleftrightarrow> 0x20 \<le> r \<and> r \<noteq> 0x7F \<and> \<not> (0x80 \<le> r \<and> r \<le> 0x9F) \<and> r \<noteq> 0x2028 \<and> r \<noteq> 0x2029
     \<and> \<not> unicode_Cf r \<and> r \<notin> set markupRunes"

lemma inert_ascii: "r < 0x80 \<Longrightarrow> inertRune r \<longleftrightarrow> 0x20 \<le> r \<and> r \<noteq> 0x7F \<and> r \<notin> set markupRunes"
  by (simp add: inertRune_def unicode_Cf_def Cf_ranges_def)

definition plain_ascii :: "char \<Rightarrow> bool" where
  "plain_ascii c \<longleftrightarrow> byte_val c < 0x80 \<and> 0x20 \<le> byte_val c \<and> byte_val c \<noteq> 0x7F \<and> byte_val c \<notin> set markupRunes"

lemma clean_plain: "list_all plain_ascii s \<Longrightarrow> clean inertRune s"
  by (rule clean_ascii) (auto simp: list_all_iff plain_ascii_def inert_ascii)

lemma plain_hex: "list_all plain_ascii (CHR 0x5C # ''xu{}0123456789ABCDEF'')"
  by (simp add: plain_ascii_def byte_val_def markupRunes_def)

lemma clean_escape:
  assumes "set s \<subseteq> set (CHR 0x5C # ''xu{}0123456789ABCDEF'')"
  shows "clean inertRune s"
proof (rule clean_plain)
  show "list_all plain_ascii s" using assms plain_hex unfolding list_all_iff by blast
qed

lemma clean_hex: "clean inertRune (hex_fix k v)"
proof (rule clean_escape, rule subset_trans [OF set_hex_fix])
  show "set ''0123456789ABCDEF'' \<subseteq> set (CHR 0x5C # ''xu{}0123456789ABCDEF'')" by code_simp
qed

lemma clean_escapes: "clean inertRune (writeByteEscape c)" "clean inertRune (writeRuneEscape r)"
proof -
  have "clean inertRune ([CHR 0x5C, CHR ''x''] @ sprintf_02X (byte_val c))"
    unfolding sprintf_02X_def by (intro clean_append clean_hex clean_escape) simp
  then show "clean inertRune (writeByteEscape c)" by (simp add: writeByteEscape_def)
  have "clean inertRune ((CHR 0x5C # ''u{'') @ sprintf_04X r @ ''}'')"
    unfolding sprintf_04X_def by (intro clean_append clean_hex clean_escape) simp_all
  then show "clean inertRune (writeRuneEscape r)" by (simp add: writeRuneEscape_def)
qed

lemma shown_clean: "clean inertRune (shown s)"
proof (cases "seq_len s = 0")
  case True
  then show ?thesis by (simp add: shown_def clean_escapes)
next
  case False
  let ?c = "take (seq_len s) s"
  have wf: "well_formed ?c" by (rule seq_len_take [OF False])
  have "clean inertRune (writeRuneVisible (seq_rune ?c))"
  proof (cases rule: writeRuneVisible_cases [of "seq_rune ?c"])
    case backslash
    then show ?thesis by (simp add: clean_escape)
  next
    case plain
    then have "inertRune (seq_rune ?c)" by (simp add: inertRune_def)
    with wf show ?thesis unfolding plain(1) encode_seq_rune [OF wf] by (rule clean_one)
  qed (simp_all add: clean_escapes)
  with False show ?thesis by (simp add: shown_def)
qed

lemma visible_clean: "clean inertRune (visible s)"
proof (induction s rule: visible.induct)
  case (1 s)
  show ?case
  proof (cases "s = []")
    case False
    then show ?thesis using 1 visible_step [of s] shown_clean by (simp add: clean_append)
  qed simp
qed

end
