(* ===== verification/Report_Facts.thy ===== *)
theory Report_Facts
  imports ReportRender Display_Facts
begin

text \<open>
  Facts about the renderers. The locale \<open>outline\<close> follows the lines a rendering writes: which of
  them satisfy \<open>key\<close>, in order, while all of them satisfy \<open>ok\<close>. It is interpreted once for the
  terminal and once for Markdown.
\<close>

section \<open>Lines\<close>

definition text_of :: "string list \<Rightarrow> string" where
  "text_of ls = concat (map (\<lambda>l. l @ [LF]) ls)"

lemma text_of_simps [simp]:
  "text_of [] = []" "text_of (l # ls) = l @ LF # text_of ls" "text_of (ls @ ms) = text_of ls @ text_of ms"
  by (simp_all add: text_of_def)

lemma split_line: "LF \<notin> set l \<Longrightarrow> split_on LF (l @ LF # s) = l # split_on LF s"
  by (induction l) auto

lemma split_text_of: "\<forall>l\<in>set ls. LF \<notin> set l \<Longrightarrow> split_on LF (text_of ls) = ls @ [[]]"
  by (induction ls) (simp_all add: split_line)

lemma trimNewlines_append:
  "trimNewlines (s @ [LF]) = trimNewlines s"
  "c \<noteq> LF \<Longrightarrow> trimNewlines (s @ [c]) = s @ [c]"
  by (simp_all add: trimNewlines_def)

text \<open>The lines of the output: those written, without the empty ones at the end.\<close>

lemma trim_text_of:
  assumes "\<forall>l\<in>set ls. LF \<notin> set l"
  obtains ms where "trimNewlines (text_of ls) @ [LF] = text_of ms" "set ms \<subseteq> insert [] (set ls)"
    "\<And>P. \<not> P [] \<Longrightarrow> filter P ms = filter P ls"
proof -
  have "\<exists>ms. trimNewlines (text_of ls) @ [LF] = text_of ms \<and> set ms \<subseteq> insert [] (set ls)
      \<and> (\<forall>P. \<not> P [] \<longrightarrow> filter P ms = filter P ls)"
    using assms
  proof (induction ls rule: rev_induct)
    case Nil
    show ?case by (rule exI [of _ "[[]]"]) (simp add: trimNewlines_def)
  next
    case (snoc l ls)
    show ?case
    proof (cases l rule: rev_cases)
      case Nil
      from snoc obtain ms where "trimNewlines (text_of ls) @ [LF] = text_of ms" "set ms \<subseteq> insert [] (set ls)"
        "\<forall>P. \<not> P [] \<longrightarrow> filter P ms = filter P ls" by auto
      then show ?thesis using Nil trimNewlines_append(1) [of "text_of ls"] by (intro exI [of _ ms]) auto
    next
      case (snoc u c)
      with snoc.prems have "c \<noteq> LF" by auto
      then have "trimNewlines ((text_of ls @ u) @ [c]) = (text_of ls @ u) @ [c]" by (rule trimNewlines_append(2))
      moreover have "text_of (ls @ [l]) = ((text_of ls @ u) @ [c]) @ [LF]" using snoc by simp
      ultimately show ?thesis
        using trimNewlines_append(1) [of "text_of ls @ u @ [c]"] by (intro exI [of _ "ls @ [l]"]) auto
    qed
  qed
  then show thesis using that by blast
qed

section \<open>Writes\<close>

text \<open>When no error is left, the operation found none and appended exactly \<open>ls\<close>.\<close>

definition wrote :: "string list \<Rightarrow> renderBuilder \<Rightarrow> renderBuilder \<Rightarrow> bool" where
  "wrote ls b b' \<longleftrightarrow> rb_text b' \<noteq> []
     \<and> (rb_err b' = None \<longrightarrow> rb_err b = None \<and> rb_text b' = rb_text b @ text_of ls)"

definition writes :: "(renderBuilder \<Rightarrow> renderBuilder) \<Rightarrow> string list \<Rightarrow> bool" where
  "writes f ls \<longleftrightarrow> (\<forall>b. rb_text b \<noteq> [] \<longrightarrow> wrote ls b (f b))"

definition writesR :: "(renderBuilder \<Rightarrow> renderBuilder result) \<Rightarrow> string list \<Rightarrow> bool" where
  "writesR f ls \<longleftrightarrow> (\<forall>b b'. rb_text b \<noteq> [] \<longrightarrow> f b = Inr b' \<longrightarrow> wrote ls b b')"

lemma line_ok:
  assumes "rb_err (line s b) = None"
  shows "rb_err b = None" and "rb_text (line s b) = rb_text b @ s @ [LF]"
  using assms by (auto simp: line_def Let_def split: if_splits)

lemma line_grows: "rb_text b \<noteq> [] \<Longrightarrow> rb_text (line s b) \<noteq> []"
  by (auto simp: line_def Let_def)

lemma wrote_line: "rb_text b \<noteq> [] \<Longrightarrow> wrote [s] b (line s b)"
  using line_ok line_grows by (simp add: wrote_def)

lemma writes_line: "writes (line s) [s]"
  by (simp add: writes_def wrote_line)

lemma wrote_trans:
  assumes "wrote ls b b'" "wrote ms b' b''"
  shows "wrote (ls @ ms) b b''"
  using assms by (auto simp: wrote_def)

lemma wrote_refl: "rb_text b \<noteq> [] \<Longrightarrow> wrote [] b b"
  by (simp add: wrote_def)

lemma wrote_text: "wrote ls b b' \<Longrightarrow> rb_text b' \<noteq> []"
  by (simp add: wrote_def)

lemma steps_simps [simp]: "steps [] b = b" "steps (f # fs) b = steps fs (f b)" "steps (fs @ gs) b = steps gs (steps fs b)"
  by (simp_all add: steps_def)

lemma wrote_steps: "list_all2 writes fs lss \<Longrightarrow> rb_text b \<noteq> [] \<Longrightarrow> wrote (concat lss) b (steps fs b)"
proof (induction fs lss arbitrary: b rule: list_all2_induct)
  case Nil
  then show ?case by (simp add: wrote_refl)
next
  case (Cons f fs ls lss)
  then have w: "wrote ls b (f b)" by (simp add: writes_def)
  with Cons have "wrote (concat lss) (f b) (steps fs (f b))" using wrote_text by blast
  with w show ?case using wrote_trans by simp
qed

lemma writes_steps: "list_all2 writes fs lss \<Longrightarrow> writes (steps fs) (concat lss)"
  by (simp add: writes_def wrote_steps)

lemma wrote_each:
  "list_all2 (\<lambda>x. writesR (f x)) xs lss \<Longrightarrow> rb_text b \<noteq> [] \<Longrightarrow> each f xs b = Inr b' \<Longrightarrow> wrote (concat lss) b b'"
proof (induction xs lss arbitrary: b rule: list_all2_induct)
  case Nil
  then show ?case by (simp add: wrote_refl)
next
  case (Cons x xs ls lss)
  then obtain c where c: "f x b = Inr c" "each f xs c = Inr b'" by (auto simp: result_simps)
  with Cons have w: "wrote ls b c" by (simp add: writesR_def)
  with Cons c have "wrote (concat lss) c b'" using wrote_text by blast
  with w show ?case using wrote_trans by simp
qed

lemma returnErr_ok: "returnErr b = Inr b' \<longleftrightarrow> b' = b \<and> rb_err b = None"
  by (auto simp: returnErr_def split: option.splits)

lemma writes_return: "writes f ls \<Longrightarrow> writesR (\<lambda>b. returnErr (f b)) ls"
  by (simp add: writes_def writesR_def returnErr_ok)

text \<open>The values the two renderers interpolate.\<close>

definition termLine :: "string \<Rightarrow> string \<Rightarrow> string" where
  "termLine label value = label @ '': '' @ visible value"

definition mdLine :: "string \<Rightarrow> string \<Rightarrow> string" where
  "mdLine label value = ''- '' @ label @ '': '' @ markdownCodeSpan (visible value)"

definition mdItem :: "string \<Rightarrow> string \<Rightarrow> string" where
  "mdItem label value = ''- '' @ markdownCodeSpan (visible label) @ '': '' @ markdownCodeSpan (visible value)"

lemma wrote_failed: "rb_text b \<noteq> [] \<Longrightarrow> rb_err b \<noteq> None \<Longrightarrow> rb_text b = rb_text a \<Longrightarrow> wrote ls a (line s b)"
  by (auto simp: wrote_def line_def)

lemma writes_termKV: "writes (termKV label value) [termLine label value]"
  unfolding writes_def
proof (intro allI impI)
  fix b :: renderBuilder
  assume b: "rb_text b \<noteq> []"
  show "wrote [termLine label value] b (termKV label value b)"
  proof (cases "visibleDisplayBytes value (rb_limits b)")
    case (Inl e)
    then show ?thesis using b by (simp add: termKV_def termValue_def wrote_failed)
  next
    case (Inr v)
    then have "v = visible value" by (rule visibleDisplayBytes_visible)
    with Inr b show ?thesis by (simp add: termKV_def termValue_def termLine_def wrote_line)
  qed
qed

lemma mdValue_cases:
  obtains e where "mdValue value b = (''``'', b\<lparr>rb_err := Some e\<rparr>)"
  | "mdValue value b = (markdownCodeSpan (visible value), b)"
  using visibleDisplayBytes_visible by (cases "visibleDisplayBytes value (rb_limits b)") (auto simp: mdValue_def)

lemma writes_kv: "writes (kv label value) [mdLine label value]"
  unfolding writes_def
proof (intro allI impI)
  fix b :: renderBuilder
  assume b: "rb_text b \<noteq> []"
  show "wrote [mdLine label value] b (kv label value b)"
    by (cases rule: mdValue_cases [of "value" b]) (use b in \<open>simp_all add: kv_def mdLine_def wrote_line wrote_failed\<close>)
qed

lemma writes_listKV: "writes (listKV label value) [mdItem label value]"
  unfolding writes_def
proof (intro allI impI)
  fix b :: renderBuilder
  assume b: "rb_text b \<noteq> []"
  show "wrote [mdItem label value] b (listKV label value b)"
  proof (cases rule: mdValue_cases [of label b])
    case (1 e)
    then show ?thesis
      by (cases rule: mdValue_cases [of "value" "b\<lparr>rb_err := Some e\<rparr>"])
        (use b in \<open>simp_all add: listKV_def wrote_failed\<close>)
  next
    case 2
    then show ?thesis
      by (cases rule: mdValue_cases [of "value" b])
        (use b in \<open>simp_all add: listKV_def mdItem_def wrote_line wrote_failed\<close>)
  qed
qed

lemma writes_heading: "writes (heading s) [[], s]"
  unfolding writes_def
proof (intro allI impI)
  fix b :: renderBuilder
  assume b: "rb_text b \<noteq> []"
  then have "wrote [[]] b (line [] b)" "wrote [s] (line [] b) (line s (line [] b))"
    by (simp_all add: wrote_line line_grows)
  with b wrote_trans show "wrote [[], s] b (heading s b)" by (fastforce simp: heading_def)
qed

section \<open>Outlines\<close>

locale outline =
  fixes key :: "string \<Rightarrow> bool" and ok :: "string \<Rightarrow> bool"
  assumes key_Nil: "\<not> key []"
    and ok_Nil: "ok []"
    and ok_line: "ok l \<Longrightarrow> LF \<notin> set l"
begin

definition shows_keys :: "string list \<Rightarrow> string list \<Rightarrow> bool" where
  "shows_keys ls hs \<longleftrightarrow> filter key ls = hs \<and> list_all ok ls"

definition outl :: "(renderBuilder \<Rightarrow> renderBuilder) \<Rightarrow> string list \<Rightarrow> bool" where
  "outl f hs \<longleftrightarrow> (\<exists>ls. writes f ls \<and> shows_keys ls hs)"

definition outlR :: "(renderBuilder \<Rightarrow> renderBuilder result) \<Rightarrow> string list \<Rightarrow> bool" where
  "outlR f hs \<longleftrightarrow> (\<exists>ls. writesR f ls \<and> shows_keys ls hs)"

lemma outlI: "writes f ls \<Longrightarrow> list_all ok ls \<Longrightarrow> filter key ls = hs \<Longrightarrow> outl f hs"
  by (auto simp: outl_def shows_keys_def)

lemma shows_concat: "list_all2 shows_keys lss hss \<Longrightarrow> shows_keys (concat lss) (concat hss)"
  by (induction lss hss rule: list_all2_induct) (simp_all add: shows_keys_def filter_concat)

lemma outl_lines:
  assumes "list_all2 outl fs hss"
  obtains lss where "list_all2 writes fs lss" "list_all2 shows_keys lss hss"
proof -
  have "\<exists>lss. list_all2 writes fs lss \<and> list_all2 shows_keys lss hss"
    using assms
  proof (induction fs hss rule: list_all2_induct)
    case (Cons f fs hs hss)
    then obtain ls lss where "writes f ls" "shows_keys ls hs" "list_all2 writes fs lss" "list_all2 shows_keys lss hss"
      by (auto simp: outl_def)
    then show ?case by (intro exI [of _ "ls # lss"]) simp
  qed simp
  then show thesis using that by blast
qed

lemma outl_steps: "list_all2 outl fs hss \<Longrightarrow> outl (steps fs) (concat hss)"
  by (erule outl_lines) (auto simp: outl_def intro: writes_steps shows_concat)

lemma outl_each:
  assumes "list_all2 (\<lambda>x. outlR (f x)) xs hss"
  shows "outlR (each f xs) (concat hss)"
proof -
  have "\<exists>lss. list_all2 (\<lambda>x. writesR (f x)) xs lss \<and> list_all2 shows_keys lss hss"
    using assms
  proof (induction xs hss rule: list_all2_induct)
    case (Cons x xs hs hss)
    then obtain ls lss where "writesR (f x) ls" "shows_keys ls hs" "list_all2 (\<lambda>x. writesR (f x)) xs lss"
      "list_all2 shows_keys lss hss" by (auto simp: outlR_def)
    then show ?case by (intro exI [of _ "ls # lss"]) simp
  qed simp
  then obtain lss where l: "list_all2 (\<lambda>x. writesR (f x)) xs lss" "list_all2 shows_keys lss hss" by blast
  have "writesR (each f xs) (concat lss)" unfolding writesR_def using wrote_each [OF l(1)] by blast
  with shows_concat [OF l(2)] show ?thesis by (auto simp: outlR_def)
qed

lemma outl_return: "outl f hs \<Longrightarrow> outlR (\<lambda>b. returnErr (f b)) hs"
  using writes_return by (auto simp: outl_def outlR_def)

lemma outlR_bind:
  assumes "outlR f hs" "outlR g gs"
  shows "outlR (\<lambda>b. rbind (f b) g) (hs @ gs)"
proof -
  obtain ls ms where l: "writesR f ls" "shows_keys ls hs" "writesR g ms" "shows_keys ms gs"
    using assms by (auto simp: outlR_def)
  have "writesR (\<lambda>b. rbind (f b) g) (ls @ ms)"
    unfolding writesR_def
  proof (intro allI impI)
    fix b b' :: renderBuilder
    assume "rb_text b \<noteq> []" "rbind (f b) g = Inr b'"
    then obtain c where "f b = Inr c" "g c = Inr b'" "wrote ls b c" using l(1) by (auto simp: result_simps writesR_def)
    then have "wrote ls b c" "wrote ms c b'" using l(3) wrote_text by (auto simp: writesR_def)
    then show "wrote (ls @ ms) b b'" by (rule wrote_trans)
  qed
  then show ?thesis using l by (auto simp: outlR_def shows_keys_def)
qed

lemma outlR_pre: "outl f hs \<Longrightarrow> outlR g gs \<Longrightarrow> outlR (\<lambda>b. g (f b)) (hs @ gs)"
  using outlR_bind [of "\<lambda>b. Inr (f b)" hs g gs] by (force simp: outl_def outlR_def writes_def writesR_def)

text \<open>Keys are only found where they are written: all other operations are silent.\<close>

lemma outl_silent: "list_all (\<lambda>f. outl f []) fs \<Longrightarrow> list_all2 outl fs (map (\<lambda>_. []) fs)"
  by (induction fs) simp_all

lemma concat_silent: "concat (map (\<lambda>_. []) fs) = []"
  by (induction fs) simp_all

lemma outl_steps_silent: "list_all (\<lambda>f. outl f []) fs \<Longrightarrow> outl (steps fs) []"
  using outl_steps [OF outl_silent [of fs]] by (simp add: concat_silent)

lemma outl_Nil: "outl (steps []) []"
  using outl_steps_silent [of "[]"] by simp

lemma outl_append: "outl (steps fs) hs \<Longrightarrow> outl (steps gs) ks \<Longrightarrow> outl (steps (fs @ gs)) (hs @ ks)"
proof -
  assume "outl (steps fs) hs" "outl (steps gs) ks"
  then have "outl (steps [steps fs, steps gs]) (concat [hs, ks])" by (intro outl_steps) simp
  then show ?thesis by (simp add: outl_def writes_def)
qed

lemma outl_Cons: "outl f hs \<Longrightarrow> outl (steps fs) ks \<Longrightarrow> outl (steps (f # fs)) (hs @ ks)"
  using outl_append [of "[f]" hs fs ks] outl_steps [of "[f]" "[hs]"] by simp

lemma outl_key: "outl f [h] \<Longrightarrow> outl (steps fs) ks \<Longrightarrow> outl (steps (f # fs)) (h # ks)"
  using outl_Cons [of f "[h]"] by simp

lemma outl_skip: "outl f [] \<Longrightarrow> outl (steps fs) ks \<Longrightarrow> outl (steps (f # fs)) ks"
  using outl_Cons [of f "[]"] by simp

lemma outl_two_keys:
  assumes "outl f [h]" "list_all (\<lambda>f. outl f []) fs" "outl g [k]" "list_all (\<lambda>f. outl f []) gs"
  shows "outl (steps (f # fs @ g # gs)) [h, k]"
  using outl_key [OF assms(1) outl_append [OF outl_steps_silent [OF assms(2)]
      outl_key [OF assms(3) outl_steps_silent [OF assms(4)]]]] by simp

text \<open>A whole rendering: from the first line to the output without the newlines at its end.\<close>

lemma rendering:
  assumes "outlR g hs" "rb_text b = title @ [LF]" "ok title" "g b = Inr b'" "rb_err b' = None"
  defines "out \<equiv> trimNewlines (rb_text b') @ [LF]"
  shows "filter key (split_on LF out) = (if key title then [title] else []) @ hs"
    and "\<exists>ms. out = text_of ms \<and> list_all ok ms"
proof -
  obtain ls where ls: "writesR g ls" "shows_keys ls hs" using assms(1) by (auto simp: outlR_def)
  have "wrote ls b b'" using ls(1) assms(2,4) unfolding writesR_def by (metis append_is_Nil_conv not_Cons_self2)
  then have t: "rb_text b' = text_of (title # ls)" using assms(2,5) by (simp add: wrote_def)
  have okl: "list_all ok (title # ls)" using ls(2) assms(3) by (simp add: shows_keys_def)
  then have "\<forall>l\<in>set (title # ls). LF \<notin> set l" using ok_line by (auto simp: list_all_iff)
  then obtain ms where ms: "trimNewlines (text_of (title # ls)) @ [LF] = text_of ms"
    "set ms \<subseteq> insert [] (set (title # ls))" "\<And>P. \<not> P [] \<Longrightarrow> filter P ms = filter P (title # ls)"
    by (rule trim_text_of) blast
  have o: "out = text_of ms" using ms(1) t by (simp add: out_def)
  have okm: "list_all ok ms" using ms(2) okl ok_Nil by (auto simp: list_all_iff)
  then show "\<exists>ms. out = text_of ms \<and> list_all ok ms" using o by blast
  have "split_on LF out = ms @ [[]]" unfolding o by (rule split_text_of) (use okm ok_line in \<open>auto simp: list_all_iff\<close>)
  then have "filter key (split_on LF out) = filter key (title # ls)" using ms(3) [of key] key_Nil by simp
  then show "filter key (split_on LF out) = (if key title then [title] else []) @ hs"
    using ls(2) by (simp add: shows_keys_def)
qed

end

section \<open>The terminal\<close>

definition termKey :: "string \<Rightarrow> bool" where
  "termKey l \<longleftrightarrow> has_prefix l ''finding: '' \<or> has_prefix l ''effective-disposition: ''"

lemma inert_line: "clean inertRune l \<Longrightarrow> x \<in> set l \<Longrightarrow> byte_val x < 0x20 \<Longrightarrow> False"
  using clean_byte [of inertRune l x] by (simp add: inertRune_def)

interpretation trm: outline termKey "clean inertRune"
proof
  show "\<not> termKey []" by (simp add: termKey_def has_prefix_def)
  show "LF \<notin> set l" if "clean inertRune l" for l using inert_line [OF that, of LF] by (auto simp: byte_val_def)
qed simp

lemma plain_ok: "list_all plain_ascii s \<Longrightarrow> clean inertRune (s @ '': '' @ visible v)"
  by (intro clean_append visible_clean clean_plain) (simp_all add: plain_ascii_def byte_val_def markupRunes_def)

lemmas ascii_simps = plain_ascii_def byte_val_def markupRunes_def

lemma term_kv:
  assumes "list_all plain_ascii label" "\<not> termKey (label @ '': '' @ visible v)"
  shows "trm.outl (termKV label v) []"
  using assms plain_ok by (intro trm.outlI [OF writes_termKV]) (simp_all add: termLine_def)

lemma term_kv_key:
  assumes "list_all plain_ascii label" "termKey (label @ '': '' @ visible v)"
  shows "trm.outl (termKV label v) [termLine label v]"
  using assms plain_ok by (intro trm.outlI [OF writes_termKV]) (simp_all add: termLine_def)

lemma term_line:
  assumes "list_all plain_ascii s" "\<not> termKey s"
  shows "trm.outl (line s) []"
  using assms clean_plain by (intro trm.outlI [OF writes_line]) simp_all

lemma has_prefix_colon:
  assumes "CHR '':'' \<notin> set label" "CHR '':'' \<notin> set k"
  shows "has_prefix (label @ '': '' @ v) (k @ '': '') \<longleftrightarrow> label = k"
proof
  assume "has_prefix (label @ '': '' @ v) (k @ '': '')"
  then have "take (length k + 2) (label @ CHR '':'' # CHR '' '' # v) = k @ '': ''" by (simp add: has_prefix_def)
  then obtain w where w: "label @ CHR '':'' # CHR '' '' # v = k @ CHR '':'' # w"
    by (metis append_Cons append_assoc append_take_drop_id)
  have "takeWhile (\<lambda>c. c \<noteq> CHR '':'') (label @ CHR '':'' # CHR '' '' # v) = label"
    "takeWhile (\<lambda>c. c \<noteq> CHR '':'') (k @ CHR '':'' # w) = k"
    using assms by (subst takeWhile_append2; force)+
  with w show "label = k" by simp
qed (simp add: has_prefix_def)

lemma termKey_label:
  "CHR '':'' \<notin> set label \<Longrightarrow>
   termKey (label @ '': '' @ v) \<longleftrightarrow> label = ''finding'' \<or> label = ''effective-disposition''"
  using has_prefix_colon [of label "''finding''" v] has_prefix_colon [of label "''effective-disposition''" v]
  by (simp add: termKey_def)

lemma term_quiet:
  assumes "list_all plain_ascii label" "CHR '':'' \<notin> set label" "label \<noteq> ''finding''" "label \<noteq> ''effective-disposition''"
  shows "trm.outl (termKV label v) []"
  using assms termKey_label by (intro term_kv) simp_all

lemma term_findings:
  "trm.outlR (terminalFinding f)
     [termLine ''finding'' (fi_ID (af_Original f)), termLine ''effective-disposition'' (af_EffectiveDisposition f)]"
proof -
  let ?o = "af_Original f"
  let ?fs = "[termKV ''origin'' (af_Origin f), termKV ''rule'' (fi_RuleID ?o @ '' '' @ fi_RuleVersion ?o),
       termKV ''title'' (fi_Title ?o), termKV ''severity'' (fi_Severity ?o), termKV ''confidence'' (fi_Confidence ?o),
       termKV ''original-disposition'' (fi_Disposition ?o)]"
  let ?gs = "[termKV ''waived'' (boolText (findingWaived f)), termKV ''base-observed'' (boolText (fi_BaseObserved ?o)),
       termKV ''head-observed'' (boolText (fi_HeadObserved ?o))]
      @ map (termKV ''scenario'') (fi_ScenarioIDs ?o) @ map (termKV ''delta-record'') (fi_DeltaRecordIDs ?o)
      @ (case af_AppliedWaiver f of None \<Rightarrow> [] | Some w \<Rightarrow> terminalWaiver w)
      @ map (\<lambda>ref. termKV ''evidence'' (evidenceText ref)) (fi_Evidence ?o)
      @ map (\<lambda>l. termKV ''finding-limitation'' (lim_ID l @ '':'' @ lim_Summary l)) (fi_Limitations ?o)"
  have id: "trm.outl (termKV ''finding'' (fi_ID ?o)) [termLine ''finding'' (fi_ID ?o)]"
    and eff: "trm.outl (termKV ''effective-disposition'' (af_EffectiveDisposition f))
        [termLine ''effective-disposition'' (af_EffectiveDisposition f)]"
    by (rule term_kv_key; simp add: ascii_simps termKey_def has_prefix_def)+
  have "list_all (\<lambda>g. trm.outl g []) ?fs" "list_all (\<lambda>g. trm.outl g []) ?gs"
    by (auto simp: list_all_iff terminalWaiver_def ascii_simps intro!: term_quiet split: option.splits)
  from trm.outl_two_keys [OF id this(1) eff this(2)]
  have "trm.outlR (\<lambda>b. returnErr (steps (termKV ''finding'' (fi_ID ?o) # ?fs
      @ termKV ''effective-disposition'' (af_EffectiveDisposition f) # ?gs) b))
     [termLine ''finding'' (fi_ID ?o), termLine ''effective-disposition'' (af_EffectiveDisposition f)]"
    by (rule trm.outl_return)
  then show ?thesis by (simp add: terminalFinding_def [abs_def] Let_def)
qed

lemma term_records: "trm.outlR (terminalDelta r) []"
proof -
  have "trm.outlR (\<lambda>b. returnErr (steps
     ([termKV ''delta-record'' (dr_ID r), termKV ''delta-kind'' (dr_Kind r), termKV ''fact-kind'' (dr_FactKind r),
         termKV ''source'' (dr_Source r), termKV ''basis'' (dr_Basis r),
         termKV ''base-observed'' (boolText (dr_BaseObserved r)), termKV ''head-observed'' (boolText (dr_HeadObserved r))]
        @ map (termKV ''delta-scenario'') (dr_ScenarioIDs r)
        @ [termKV ''base-occurrence'' (occurrenceText (dr_BaseOccurrence r)),
           termKV ''head-occurrence'' (occurrenceText (dr_HeadOccurrence r)),
           termKV ''evidence-reference-count'' (intText (recordRefs r))]
        @ map (\<lambda>l. termKV ''delta-limitation'' (lim_ID l @ '':'' @ lim_Summary l)) (dr_Limitations r)) b)) []"
    by (rule trm.outl_return, rule trm.outl_steps_silent)
      (auto simp: list_all_iff ascii_simps intro!: term_quiet)
  then show ?thesis by (simp only: terminalDelta_def [abs_def])
qed

lemma each_keys: "list_all2 (\<lambda>x. R (f x)) xs (map h xs)" if "\<And>x. R (f x) (h x)"
  using that by (induction xs) simp_all

definition noticeCodes :: "string list" where
  "noticeCodes = [NoticePassedNotProofOfSafety, ''execution-incomplete'', ''evidence-incomplete'', ''synthetic-evidence'',
     ''no-target-code-executed'', ''fake-runner'', ''development-only-runner'', ''network-deny-not-enforced'',
     ''internal-consistency-only-manifest-verification'', ''waivers-applied'', ''governance-findings-present'',
     ''observer-limitations-present'']"

lemma noticeCodes_quiet:
  "list_all (\<lambda>c. list_all plain_ascii c \<and> CHR '':'' \<notin> set c \<and> c \<noteq> ''finding'' \<and> c \<noteq> ''effective-disposition'') noticeCodes"
  by (simp add: noticeCodes_def ascii_simps)

lemma noticeCodes_table: "map fst (noticeTable v e app) = noticeCodes"
  by (simp add: noticeTable_def noticeCodes_def)

definition findingKeys :: "AppliedFinding \<Rightarrow> string list" where
  "findingKeys f = [termLine ''finding'' (fi_ID (af_Original f)),
     termLine ''effective-disposition'' (af_EffectiveDisposition f)]"

lemma term_head:
  assumes "\<forall>n\<in>set (rdo_Notices doc). nc_Code n \<in> set noticeCodes"
  shows "trm.outl (steps (tl (terminalHead report doc))) []"
proof (rule trm.outl_steps_silent)
  have n: "trm.outl (termKV (nc_Code n) (nc_Text n)) []" if "n \<in> set (rdo_Notices doc)" for n
    using assms that noticeCodes_quiet unfolding list_all_iff by (intro term_quiet) (auto simp: list_all_iff)
  have l: "trm.outl (line []) []" "trm.outl (line ''NOTICES'') []" "trm.outl (line ''RUNNER'') []"
    "trm.outl (line ''COMPLETENESS'') []" "trm.outl (line ''FINDINGS'') []"
    by (rule term_line; simp add: ascii_simps termKey_def has_prefix_def)+
  have q: "trm.outl (termKV x v) []" if "x \<in> set [''report-digest'', ''run-id'', ''overall-effective-disposition'',
      ''name'', ''version'', ''isolation-tier'', ''executes-target-code'', ''synthetic-evidence'', ''enforces-network-deny'',
      ''execution-complete'', ''evidence-complete'', ''bundle-transaction-valid'', ''manifest-verification'']" for x v
    by (rule term_quiet) (use that in \<open>auto simp: ascii_simps\<close>)
  show "list_all (\<lambda>f. trm.outl f []) (tl (terminalHead report doc))"
    using n l q by (simp add: terminalHead_def list_all_iff)
qed

lemma line_first: "1 \<le> rn_MaxRenderedLines l \<Longrightarrow> rb_text (line s (newBuilder l mx code)) = s @ [LF]"
  by (simp add: line_def newBuilder_def Let_def)

lemma format_Cf: "isFormatControl r \<Longrightarrow> unicode_Cf r"
  unfolding isFormatControl_def insert_iff empty_iff
  by (elim disjE) (simp_all add: unicode_Cf_def Cf_ranges_def)

lemma inert_terminal: "inertRune r \<Longrightarrow> terminalSafeRune r"
  using format_Cf [of r] by (auto simp: inertRune_def terminalSafeRune_def)

lemma text_of_clean:
  assumes "list_all (clean inertRune) ms"
  shows "clean terminalSafeRune (text_of ms)"
  using assms
proof (induction ms)
  case (Cons l ms)
  have "clean terminalSafeRune [LF]" by (rule clean_ascii) (simp add: byte_val_def terminalSafeRune_def)
  moreover have "clean terminalSafeRune l" using Cons.prems by (auto intro: clean_mono inert_terminal)
  ultimately have "clean terminalSafeRune (l @ [LF] @ text_of ms)" using Cons by (intro clean_append) simp_all
  then show ?case by simp
qed simp

text \<open>A terminal rendering that leaves no error: its key lines, and that all its runes are safe.\<close>

lemma terminal_rendered:
  assumes "\<forall>n\<in>set (rdo_Notices doc). nc_Code n \<in> set noticeCodes" "1 \<le> rn_MaxRenderedLines l"
    and body: "terminalBody l report doc = Inr b"
  defines "out \<equiv> trimNewlines (rb_text b) @ [LF]"
  shows "filter termKey (split_on LF out) = concat (map findingKeys (rpo_AppliedFindings (rdo_Policy doc)))"
    and "terminalSafe out"
proof -
  let ?fs = "rpo_AppliedFindings (rdo_Policy doc)"
  define g where "g = (\<lambda>b. rbind (each terminalFinding ?fs (steps (tl (terminalHead report doc)) b)) (\<lambda>b1.
     rbind (each terminalDelta (bs_Records (rdo_Behavior doc)) (steps [line [], line ''DELTAS''] b1)) (\<lambda>b2.
     returnErr (steps ([line [], line ''LIMITATIONS'']
        @ map (\<lambda>x. termKV ''limitation'' (lim_ID x @ '' '' @ lim_Summary x)) (rdo_Limitations doc)) b2))))"
  let ?b = "line ''GLASSROOT REPORT'' (newBuilder l (rn_MaxTerminalBytes l) ''terminal-too-large'')"
  have head: "terminalHead report doc = line ''GLASSROOT REPORT'' # tl (terminalHead report doc)"
    by (simp add: terminalHead_def)
  have gb: "g ?b = Inr b" using body unfolding terminalBody_def g_def by (subst (asm) head) simp
  have lines: "trm.outl (line []) []" "trm.outl (line ''DELTAS'') []" "trm.outl (line ''LIMITATIONS'') []"
    by (rule term_line; simp add: ascii_simps termKey_def has_prefix_def)+
  have f: "trm.outlR (each terminalFinding ?fs) (concat (map findingKeys ?fs))"
    by (rule trm.outl_each, rule each_keys) (simp add: term_findings findingKeys_def)
  have r: "trm.outlR (each terminalDelta (bs_Records (rdo_Behavior doc))) (concat (map (\<lambda>_. []) (bs_Records (rdo_Behavior doc))))"
    by (rule trm.outl_each, rule each_keys) (rule term_records)
  have t: "trm.outl (steps ([line [], line ''LIMITATIONS'']
        @ map (\<lambda>x. termKV ''limitation'' (lim_ID x @ '' '' @ lim_Summary x)) (rdo_Limitations doc))) []"
    by (rule trm.outl_steps_silent) (use lines in \<open>auto simp: list_all_iff ascii_simps intro!: term_quiet\<close>)
  have d: "trm.outl (steps [line [], line ''DELTAS'']) []"
    by (rule trm.outl_steps_silent) (use lines in simp)
  have "trm.outlR g (([] @ concat (map findingKeys ?fs)) @ ([] @ concat (map (\<lambda>_. []) (bs_Records (rdo_Behavior doc)))) @ [])"
    unfolding g_def
    by (intro trm.outlR_bind trm.outlR_pre [OF term_head f] trm.outlR_pre [OF d r] trm.outl_return [OF t] assms(1))
  then have g: "trm.outlR g (concat (map findingKeys ?fs))" by (simp add: trm.concat_silent)
  have err: "rb_err b = None"
    using body unfolding terminalBody_def by (auto simp: result_simps returnErr_ok)
  have title: "clean inertRune ''GLASSROOT REPORT''" "\<not> termKey ''GLASSROOT REPORT''"
    by (rule clean_plain, simp add: ascii_simps, simp add: termKey_def has_prefix_def)
  note out = trm.rendering [OF g line_first [OF assms(2)] title(1) gb err]
  show "filter termKey (split_on LF out) = concat (map findingKeys ?fs)"
    using out(1) title(2) by (simp add: out_def)
  obtain ms where "out = text_of ms" "list_all (clean inertRune) ms" using out(2) by (auto simp: out_def)
  then show "terminalSafe out" unfolding terminalSafe_def using clean_runes [OF text_of_clean] by simp
qed

section \<open>Markdown\<close>

definition mdKey :: "string \<Rightarrow> bool" where
  "mdKey l \<longleftrightarrow> has_prefix l ''#'' \<or> has_prefix l ''- Finding ID: '' \<or> has_prefix l ''- Effective disposition: ''"

definition one_line :: "string \<Rightarrow> bool" where
  "one_line l \<longleftrightarrow> LF \<notin> set l \<and> CHR 0x0D \<notin> set l"

interpretation md: outline mdKey one_line
  by unfold_locales (simp_all add: mdKey_def has_prefix_def one_line_def)

lemma one_line_append [simp]: "one_line (s @ t) \<longleftrightarrow> one_line s \<and> one_line t"
  by (auto simp: one_line_def)

lemma one_line_span: "one_line (markdownCodeSpan (visible v))"
proof -
  have "one_line (visible v)" unfolding one_line_def
    using inert_line [OF visible_clean, of LF v] inert_line [OF visible_clean, of "CHR 0x0D" v]
    by (auto simp: byte_val_def)
  moreover have "one_line (replicate n (CHR ''`''))" for n by (simp add: one_line_def)
  moreover have "one_line '' ''" by (simp add: one_line_def)
  ultimately show ?thesis by (simp only: markdownCodeSpan_def Let_def one_line_append simp_thms)
qed

lemma mdKey_label:
  "CHR '':'' \<notin> set label \<Longrightarrow>
   mdKey (''- '' @ label @ '': '' @ v) \<longleftrightarrow> label = ''Finding ID'' \<or> label = ''Effective disposition''"
  using has_prefix_colon [of label "''Finding ID''" v] has_prefix_colon [of label "''Effective disposition''" v]
  by (simp add: mdKey_def has_prefix_def)

lemma mdKey_item: "\<not> mdKey (mdItem label v)"
  by (simp add: mdKey_def mdItem_def has_prefix_def markdownCodeSpan_def Let_def)

lemma md_item: "md.outl (listKV label v) []"
  using one_line_span mdKey_item by (intro md.outlI [OF writes_listKV]) (simp_all add: mdItem_def one_line_def)

lemma md_kv:
  assumes "one_line label" "CHR '':'' \<notin> set label"
  shows "md.outl (kv label v)
    (if label = ''Finding ID'' \<or> label = ''Effective disposition'' then [mdLine label v] else [])"
  using assms one_line_span mdKey_label
  by (intro md.outlI [OF writes_kv]) (auto simp: mdLine_def one_line_def)

lemma md_quiet:
  assumes "one_line label" "CHR '':'' \<notin> set label" "label \<noteq> ''Finding ID''" "label \<noteq> ''Effective disposition''"
  shows "md.outl (kv label v) []"
  using md_kv [OF assms(1,2)] assms(3,4) by simp

lemma md_heading:
  assumes "one_line s" "has_prefix s ''#''"
  shows "md.outl (heading s) [s]"
  using assms md.key_Nil by (intro md.outlI [OF writes_heading]) (simp_all add: mdKey_def one_line_def)

definition mdFindingKeys :: "AppliedFinding \<Rightarrow> string list" where
  "mdFindingKeys f = [''### Finding'', mdLine ''Finding ID'' (fi_ID (af_Original f)),
     mdLine ''Effective disposition'' (af_EffectiveDisposition f)]"

lemma md_findings: "md.outlR (finding f) (mdFindingKeys f)"
proof -
  let ?o = "af_Original f"
  let ?fs = "[kv ''Origin'' (af_Origin f), kv ''Rule'' (fi_RuleID ?o @ '' '' @ fi_RuleVersion ?o), kv ''Title'' (fi_Title ?o),
      kv ''Severity'' (fi_Severity ?o), kv ''Confidence'' (fi_Confidence ?o), kv ''Original disposition'' (fi_Disposition ?o)]"
  let ?gs = "[kv ''Waived'' (boolText (findingWaived f)), kv ''Base observed'' (boolText (fi_BaseObserved ?o)),
          kv ''Head observed'' (boolText (fi_HeadObserved ?o))]
         @ map (listKV ''scenario'') (fi_ScenarioIDs ?o) @ map (listKV ''delta record'') (fi_DeltaRecordIDs ?o)
         @ (case af_AppliedWaiver f of None \<Rightarrow> [] | Some w \<Rightarrow> markdownWaiver w)
         @ map (evidenceRef ''evidence'') (fi_Evidence ?o) @ map limitationItem (fi_Limitations ?o)"
  have h: "md.outl (heading ''### Finding'') [''### Finding'']"
    by (rule md_heading) (simp_all add: one_line_def has_prefix_def)
  have id: "md.outl (kv ''Finding ID'' (fi_ID ?o)) [mdLine ''Finding ID'' (fi_ID ?o)]"
    and eff: "md.outl (kv ''Effective disposition'' (af_EffectiveDisposition f))
        [mdLine ''Effective disposition'' (af_EffectiveDisposition f)]"
    using md_kv [of "''Finding ID''"] md_kv [of "''Effective disposition''"] by (simp_all add: one_line_def)
  have "list_all (\<lambda>g. md.outl g []) ?fs" "list_all (\<lambda>g. md.outl g []) ?gs"
    by (auto simp: list_all_iff markdownWaiver_def evidenceRef_def limitationItem_def one_line_def
        intro!: md_quiet md_item split: option.splits)
  from md.outl_key [OF h md.outl_two_keys [OF id this(1) eff this(2)]]
  have "md.outlR (\<lambda>b. returnErr (steps (heading ''### Finding'' # kv ''Finding ID'' (fi_ID ?o) # ?fs
      @ kv ''Effective disposition'' (af_EffectiveDisposition f) # ?gs) b)) (mdFindingKeys f)"
    unfolding mdFindingKeys_def by (rule md.outl_return)
  then show ?thesis by (simp add: finding_def [abs_def] Let_def)
qed

lemma md_fact: "md.outlR (fact label f) []"
proof (cases "factItems f")
  case (Inl e)
  then show ?thesis unfolding md.outlR_def fact_def Let_def
    by (intro exI [of _ "[]"]) (simp add: writesR_def md.shows_keys_def)
next
  case (Inr items)
  have "md.outl (steps (map (\<lambda>(x, v). listKV x v) items)) []"
    by (rule md.outl_steps_silent) (auto simp: list_all_iff intro: md_item)
  from md.outlR_pre [OF md_item md.outl_return [OF this]] Inr show ?thesis
    by (simp add: fact_def [abs_def] Let_def)
qed

lemma md_record: "md.outlR (deltaRecord r) [''### Delta record'']"
proof (cases "validateDeltaKind (dr_Kind r)")
  case (Some e)
  have "writesR (deltaRecord r) [''### Delta record'']" using Some by (simp add: writesR_def deltaRecord_def)
  then show ?thesis unfolding md.outlR_def
    by (intro exI [of _ "[''### Delta record'']"]) (simp add: md.shows_keys_def mdKey_def has_prefix_def one_line_def)
next
  case None
  have h: "md.outl (heading ''### Delta record'') [''### Delta record'']"
    by (rule md_heading) (simp_all add: one_line_def has_prefix_def)
  have "list_all (\<lambda>g. md.outl g []) (tl (recordHead r))"
    by (auto simp: recordHead_def list_all_iff one_line_def intro!: md_quiet)
  then have "md.outl (steps (tl (recordHead r))) []" by (rule md.outl_steps_silent)
  with h have "md.outl (steps (heading ''### Delta record'' # tl (recordHead r))) [''### Delta record'']"
    by (rule md.outl_key)
  then have head: "md.outl (steps (recordHead r)) [''### Delta record'']" by (simp add: recordHead_def)
  have tail: "md.outl (steps (recordTail r)) []"
    by (rule md.outl_steps_silent)
      (auto simp: recordTail_def evidenceRef_def limitationItem_def list_all_iff intro: md_item)
  have facts: "md.outlR (each (fact label) fs) []" for label fs
    using md.outl_each [OF each_keys [where R = md.outlR and f = "fact label" and h = "\<lambda>_. []" and xs = fs, OF md_fact]]
    by (simp add: md.concat_silent)
  have "md.outlR (\<lambda>b. rbind (each (fact ''base fact'') (dr_BaseFacts r) (steps (recordHead r) b)) (\<lambda>b1.
        rbind (each (fact ''head fact'') (dr_HeadFacts r) b1) (\<lambda>b2. returnErr (steps (recordTail r) b2))))
      (([''### Delta record''] @ []) @ [] @ [])"
    by (intro md.outlR_bind md.outlR_pre [OF head facts] facts md.outl_return [OF tail])
  then show ?thesis using None by (simp add: deltaRecord_def [abs_def])
qed

definition markdownOutline :: "ReportDocument \<Rightarrow> string list" where
  "markdownOutline doc =
     [''# Glassroot report'', ''## Notices'', ''## Runner'', ''## Completeness'', ''## Findings'']
     @ concat (map mdFindingKeys (rpo_AppliedFindings (rdo_Policy doc)))
     @ [''## Behavioral delta''] @ map (\<lambda>_. ''### Delta record'') (bs_Records (rdo_Behavior doc))
     @ [''## Authorities'', ''## Limitations'', ''## Safety statement'']"

lemma md_headings:
  "md.outl (heading ''## Notices'') [''## Notices'']" "md.outl (heading ''## Runner'') [''## Runner'']"
  "md.outl (heading ''## Completeness'') [''## Completeness'']" "md.outl (heading ''## Findings'') [''## Findings'']"
  "md.outl (heading ''## Behavioral delta'') [''## Behavioral delta'']"
  "md.outl (heading ''## Authorities'') [''## Authorities'']" "md.outl (heading ''## Limitations'') [''## Limitations'']"
  "md.outl (heading ''## Safety statement'') [''## Safety statement'']"
  by (rule md_heading; simp add: one_line_def has_prefix_def)+

text \<open>A heading and what stands under it.\<close>

lemma md_section:
  "md.outl f [h] \<Longrightarrow> list_all (\<lambda>g. md.outl g []) fs \<Longrightarrow> md.outl (steps gs) ks \<Longrightarrow> md.outl (steps (f # fs @ gs)) (h # ks)"
  using md.outl_key [of f h "fs @ gs"] md.outl_append [OF md.outl_steps_silent, of fs gs ks] by simp

lemma md_head: "md.outl (steps (tl (markdownHead report doc))) [''## Notices'', ''## Runner'', ''## Completeness'', ''## Findings'']"
proof -
  let ?r = "rdo_Runner doc" and ?c = "rdo_Completeness doc"
  let ?a = "[kv ''Report digest'' (frz_digest report), kv ''Run ID'' (rdo_RunID doc),
      kv ''Overall effective disposition'' (rpo_OverallEffectiveDisposition (rdo_Policy doc)),
      kv ''Manifest verification'' (rdo_ManifestVerificationMode doc)]"
  let ?n = "(if rdo_Notices doc = [] then [line ''- none''] else []) @ map (\<lambda>n. listKV (nc_Code n) (nc_Text n)) (rdo_Notices doc)"
  let ?k = "[kv ''Name'' (rc_Name ?r), kv ''Version'' (rc_Version ?r), kv ''Isolation tier'' (rc_IsolationTier ?r),
        kv ''Executes target code'' (boolText (rc_ExecutesTargetCode ?r)),
        kv ''Synthetic evidence'' (boolText (rc_SyntheticEvidence ?r)),
        kv ''Enforces network deny'' (boolText (rc_EnforcesNetworkDeny ?r))]"
  let ?m = "[kv ''Execution complete'' (boolText (ct_ExecutionComplete ?c)),
        kv ''Evidence complete'' (boolText (ct_EvidenceComplete ?c)),
        kv ''Bundle transaction valid'' (boolText (ct_BundleTransactionValid ?c))]"
  let ?t = "[kv ''Total findings'' (intText (as_TotalFindings (rpo_Summary (rdo_Policy doc))))]"
  have none: "md.outl (line ''- none'') []"
    by (rule md.outlI [OF writes_line]) (simp_all add: one_line_def mdKey_def has_prefix_def)
  have "list_all (\<lambda>g. md.outl g []) ?n" using none by (auto simp: list_all_iff intro!: md_item)
  moreover have "list_all (\<lambda>g. md.outl g []) ?a" "list_all (\<lambda>g. md.outl g []) ?k" "list_all (\<lambda>g. md.outl g []) ?m"
    "list_all (\<lambda>g. md.outl g []) ?t" by (auto simp: list_all_iff one_line_def intro!: md_quiet)
  ultimately have "md.outl (steps (?a @ heading ''## Notices'' # ?n @ heading ''## Runner'' # ?k @ heading ''## Completeness'' # ?m
        @ heading ''## Findings'' # ?t @ [])) ([] @ [''## Notices'', ''## Runner'', ''## Completeness'', ''## Findings''])"
    by (intro md.outl_append md.outl_steps_silent md_section md_headings md.outl_Nil)
  then show ?thesis by (simp add: markdownHead_def)
qed

lemma md_tail: "md.outl (steps (markdownTail doc)) [''## Authorities'', ''## Limitations'', ''## Safety statement'']"
proof -
  let ?c = "rpo_TrustedConfigAuthority (rdo_Policy doc)" and ?w = "rpo_TrustedWaiverAuthority (rdo_Policy doc)"
  let ?a = "[kv ''Trusted config path'' (ca_Path ?c), kv ''Trusted config head state'' (ca_HeadState ?c),
      kv ''Trusted waiver path'' (wa_Path ?w), kv ''Trusted waiver base state'' (wa_BaseState ?w),
      kv ''Trusted waiver head state'' (wa_HeadState ?w)]"
  let ?l = "map (\<lambda>x. listKV (lim_ID x) (lim_Summary x)) (rdo_Limitations doc)"
  let ?s = "[line ''A passed disposition does not prove the code is safe. Report digests are deterministic equality values only.'']"
  have "list_all (\<lambda>g. md.outl g []) ?a" by (auto simp: list_all_iff one_line_def intro!: md_quiet)
  moreover have "list_all (\<lambda>g. md.outl g []) ?l" by (auto simp: list_all_iff intro!: md_item)
  moreover have "list_all (\<lambda>g. md.outl g []) ?s"
    by (simp add: md.outlI [OF writes_line] one_line_def mdKey_def has_prefix_def)
  ultimately have "md.outl (steps (heading ''## Authorities'' # ?a @ heading ''## Limitations'' # ?l
        @ heading ''## Safety statement'' # ?s @ [])) [''## Authorities'', ''## Limitations'', ''## Safety statement'']"
    by (intro md_section md_headings md.outl_Nil)
  then show ?thesis by (simp add: markdownTail_def)
qed

lemma markdown_rendered:
  assumes "1 \<le> rn_MaxRenderedLines l" and body: "markdownBody l report doc = Inr b"
  defines "out \<equiv> trimNewlines (rb_text b) @ [LF]"
  shows "filter mdKey (split_on LF out) = markdownOutline doc" and "CHR 0x0D \<notin> set out"
proof -
  let ?fs = "rpo_AppliedFindings (rdo_Policy doc)" and ?rs = "bs_Records (rdo_Behavior doc)"
  let ?d = "[heading ''## Behavioral delta'', kv ''Total delta records'' (intText (ds_TotalRecords (bs_Summary (rdo_Behavior doc))))]"
  define g where "g = (\<lambda>b. rbind (each finding ?fs (steps (tl (markdownHead report doc)) b)) (\<lambda>b1.
     rbind (each deltaRecord ?rs (steps ?d b1)) (\<lambda>b2. returnErr (steps (markdownTail doc) b2))))"
  let ?b = "line ''# Glassroot report'' (newBuilder l (rn_MaxMarkdownBytes l) ''markdown-too-large'')"
  have head: "steps (markdownHead report doc) (newBuilder l (rn_MaxMarkdownBytes l) ''markdown-too-large'')
      = steps (tl (markdownHead report doc)) ?b"
    by (simp add: markdownHead_def heading_def newBuilder_def)
  have gb: "g ?b = Inr b" using body unfolding markdownBody_def g_def head .
  have f: "md.outlR (each finding ?fs) (concat (map mdFindingKeys ?fs))"
    by (rule md.outl_each, rule each_keys) (rule md_findings)
  have r: "md.outlR (each deltaRecord ?rs) (concat (map (\<lambda>_. [''### Delta record'']) ?rs))"
    by (rule md.outl_each, rule each_keys) (rule md_record)
  have d: "md.outl (steps ?d) [''## Behavioral delta'']"
    by (intro md.outl_key [OF md_headings(5)] md.outl_skip md_quiet md.outl_Nil) (simp_all add: one_line_def)
  have g: "md.outlR g (([''## Notices'', ''## Runner'', ''## Completeness'', ''## Findings''] @ concat (map mdFindingKeys ?fs))
      @ ([''## Behavioral delta''] @ concat (map (\<lambda>_. [''### Delta record'']) ?rs))
      @ [''## Authorities'', ''## Limitations'', ''## Safety statement''])"
    unfolding g_def
    by (intro md.outlR_bind md.outlR_pre [OF md_head f] md.outlR_pre [OF d r] md.outl_return [OF md_tail])
  have err: "rb_err b = None"
    using body unfolding markdownBody_def by (auto simp: result_simps returnErr_ok)
  have title: "one_line ''# Glassroot report''" "mdKey ''# Glassroot report''"
    by (simp_all add: one_line_def mdKey_def has_prefix_def)
  have ones: "concat (map (\<lambda>_. [x]) xs) = map (\<lambda>_. x) xs" for x :: string and xs :: "'a list"
    by (induction xs) simp_all
  note out = md.rendering [OF g line_first [OF assms(1)] title(1) gb err]
  show "filter mdKey (split_on LF out) = markdownOutline doc"
    using out(1) title(2) by (simp add: out_def markdownOutline_def ones)
  obtain ms where "out = text_of ms" "list_all one_line ms" using out(2) by (auto simp: out_def)
  then show "CHR 0x0D \<notin> set out" by (auto simp: text_of_def list_all_iff one_line_def)
qed

section \<open>Renderings that fit\<close>

text \<open>A text of printable ASCII without markup and backslash is shown as it is.\<close>

definition verbatim_char :: "char \<Rightarrow> bool" where
  "verbatim_char c \<longleftrightarrow> plain_ascii c \<and> c \<noteq> CHR 0x5C \<and> c \<noteq> CHR ''`''"

lemma decode_ascii: "byte_val a < 0x80 \<Longrightarrow> decode_rune (a # s) = (byte_val a, 1)"
  using decode_rune_append [of "[a]" s] well_formed_ascii [of a] by simp

lemma write_verbatim: "verbatim_char a \<Longrightarrow> writeRuneVisible (byte_val a) = [a]"
proof -
  assume a: "verbatim_char a"
  then have r: "byte_val a < 0x80" "0x20 \<le> byte_val a" "byte_val a \<noteq> 0x7F" "byte_val a \<notin> set markupRunes"
    by (simp_all add: verbatim_char_def plain_ascii_def)
  have "byte_val a \<noteq> 0x5C"
  proof
    assume "byte_val a = 0x5C"
    then have "a = char_of (0x5C :: nat)" using char_byte_val [of a] by simp
    moreover have "char_of (0x5C :: nat) = CHR 0x5C" by code_simp
    ultimately have "a = CHR 0x5C" by (rule trans)
    with a show False by (simp add: verbatim_char_def)
  qed
  moreover have "\<not> unicode_Cf (byte_val a)" using r inert_ascii [of "byte_val a"] by (simp add: inertRune_def)
  ultimately have "writeRuneVisible (byte_val a) = encode_rune (byte_val a)"
    using r by (simp add: writeRuneVisible_def)
  with r(1) show ?thesis by (simp add: encode_small char_byte_val)
qed

lemma display_verbatim:
  "list_all verbatim_char s \<Longrightarrow> int (length b + length s) \<le> mx \<Longrightarrow> display_loop mx s b = Inr (b @ s)"
proof (induction s arbitrary: b)
  case Nil
  then show ?case by (simp add: display_loop.simps)
next
  case (Cons a s)
  then have a: "byte_val a < 0x80" and w: "writeRuneVisible (byte_val a) = [a]"
    using write_verbatim by (simp_all add: verbatim_char_def plain_ascii_def)
  have "display_loop mx (a # s) b = display_loop mx s (b @ [a])"
    using Cons.prems a by (subst display_loop.simps) (simp add: decode_ascii w)
  then show ?case using Cons by simp
qed

lemma visible_verbatim:
  "list_all verbatim_char s \<Longrightarrow> length s \<le> 65536 \<Longrightarrow> visibleDisplayBytes s DefaultRenderLimits = Inr s"
  using display_verbatim [of s "[]"] by (simp add: visibleDisplayBytes_def DefaultRenderLimits_def)

text \<open>Room for \<open>k\<close> more lines of up to 200 bytes.\<close>

definition room :: "nat \<Rightarrow> renderBuilder \<Rightarrow> bool" where
  "room k b \<longleftrightarrow> rb_err b = None \<and> rb_limits b = DefaultRenderLimits \<and> rb_lines b + int k \<le> 2000000
     \<and> int (length (rb_text b)) + 200 * int k \<le> rb_maxBytes b"

definition short :: "(renderBuilder \<Rightarrow> renderBuilder) \<Rightarrow> bool" where
  "short f \<longleftrightarrow> (\<forall>k b. room (k + 2) b \<longrightarrow> room k (f b))"

lemma room_less: "room (Suc k) b \<Longrightarrow> room k b"
  by (simp add: room_def)

lemma room_line:
  assumes "length s < 200" "room (Suc k) b"
  shows "room k (line s b)"
proof -
  have b: "rb_err b = None" "rb_limits b = DefaultRenderLimits" "rb_lines b + int k + 1 \<le> 2000000"
    "int (length (rb_text b)) + 200 * int k + 200 \<le> rb_maxBytes b"
    using assms(2) by (simp_all add: room_def)
  let ?b = "b\<lparr>rb_text := rb_text b @ s @ [LF], rb_lines := rb_lines b + 1\<rparr>"
  have len: "int (length (rb_text ?b)) + 200 * int k \<le> rb_maxBytes b" using b(4) assms(1) by simp
  have "rb_lines b < rn_MaxRenderedLines (rb_limits b)" using b(2,3) by (simp add: DefaultRenderLimits_def)
  with b(1) len have "line s b = ?b" by (simp add: line_def Let_def)
  with b len show ?thesis by (simp add: room_def)
qed

lemma short_line: "length s < 200 \<Longrightarrow> short (line s)"
  using room_line room_less by (simp add: short_def)

lemma short_heading: "length s < 200 \<Longrightarrow> short (heading s)"
  unfolding short_def heading_def by (auto intro!: room_line intro: room_less)

definition brief :: "string \<Rightarrow> bool" where
  "brief s \<longleftrightarrow> list_all verbatim_char s \<and> length s \<le> 80"

lemma brief_value: "brief v \<Longrightarrow> visibleDisplayBytes v DefaultRenderLimits = Inr v"
  by (simp add: brief_def visible_verbatim)

lemma short_termKV: "length label \<le> 80 \<Longrightarrow> brief v \<Longrightarrow> short (termKV label v)"
  unfolding short_def
proof (intro allI impI)
  fix k b
  assume v: "length label \<le> 80" "brief v" and b: "room (k + 2) b"
  then have "termKV label v b = line (label @ '': '' @ v) b"
    using brief_value [OF v(2)] by (simp add: termKV_def termValue_def room_def)
  with v b room_line room_less show "room k (termKV label v b)" by (simp add: brief_def)
qed

lemma backtick_free: "CHR ''`'' \<notin> set s \<Longrightarrow> backtick_run s cur mx = mx"
  by (induction s arbitrary: cur) auto

lemma brief_span: "brief v \<Longrightarrow> markdownCodeSpan v = ''` '' @ v @ '' `''"
proof -
  assume "brief v"
  then have "CHR ''`'' \<notin> set v" by (auto simp: brief_def list_all_iff verbatim_char_def)
  then show ?thesis by (simp add: markdownCodeSpan_def backtick_free)
qed

lemma brief_mdValue: "brief v \<Longrightarrow> rb_limits b = DefaultRenderLimits \<Longrightarrow> mdValue v b = (''` '' @ v @ '' `'', b)"
  by (simp add: mdValue_def brief_value brief_span)

lemma short_kv: "length label \<le> 80 \<Longrightarrow> brief v \<Longrightarrow> short (kv label v)"
  using room_line room_less by (simp add: short_def kv_def brief_mdValue room_def [of "Suc _"] brief_def [of v])

lemma short_listKV: "brief label \<Longrightarrow> brief v \<Longrightarrow> short (listKV label v)"
  unfolding short_def
proof (intro allI impI)
  fix k b
  assume v: "brief label" "brief v" and b: "room (k + 2) b"
  then have "listKV label v b = line (''- '' @ (''` '' @ label @ '' `'') @ '': '' @ ''` '' @ v @ '' `'') b"
    by (simp add: listKV_def brief_mdValue room_def)
  with v b room_line room_less show "room k (listKV label v b)" by (simp add: brief_def)
qed

lemma room_steps: "list_all short fs \<Longrightarrow> room (k + 2 * length fs) b \<Longrightarrow> room k (steps fs b)"
proof (induction fs arbitrary: b)
  case (Cons f fs)
  have "room (k + 2 * length fs + 2) b" using Cons.prems by (simp add: add.assoc)
  then have "room (k + 2 * length fs) (f b)" using Cons.prems by (simp add: short_def)
  with Cons show ?case by simp
qed simp

lemma room_return: "room k b \<Longrightarrow> returnErr b = Inr b"
  by (simp add: room_def returnErr_def)

lemma room_new: "mx \<in> {rn_MaxMarkdownBytes DefaultRenderLimits, rn_MaxTerminalBytes DefaultRenderLimits} \<Longrightarrow> k \<le> 1000
    \<Longrightarrow> room k (newBuilder DefaultRenderLimits mx code)"
  by (auto simp: room_def newBuilder_def DefaultRenderLimits_def)

section \<open>Code spans\<close>

text \<open>The delimiter of a code span is longer than every run of backticks inside it.\<close>

lemma backtick_run_ge: "mx \<le> backtick_run s cur mx"
proof (induction s arbitrary: cur mx)
  case (Cons c s)
  have "mx \<le> (if Suc cur > mx then Suc cur else mx)" by simp
  also have "\<dots> \<le> backtick_run s (Suc cur) (if Suc cur > mx then Suc cur else mx)" by (rule Cons)
  finally show ?case using Cons by simp
qed simp

lemma backtick_run_prefix: "cur \<le> mx \<Longrightarrow> cur + n \<le> backtick_run (replicate n (CHR ''`'') @ t) cur mx \<or> n = 0"
proof (induction n arbitrary: cur mx)
  case (Suc n)
  let ?m = "if Suc cur > mx then Suc cur else mx"
  show ?case
  proof (cases "n = 0")
    case True
    then show ?thesis using backtick_run_ge [of ?m t "Suc cur"] by (auto split: if_splits)
  next
    case False
    with Suc.IH [of "Suc cur" ?m] have "Suc cur + n \<le> backtick_run (replicate n (CHR ''`'') @ t) (Suc cur) ?m"
      by (simp split: if_splits)
    then show ?thesis by simp
  qed
qed simp

lemma backtick_run_inside: "0 < n \<Longrightarrow> cur \<le> mx \<Longrightarrow> n \<le> backtick_run (u @ replicate n (CHR ''`'') @ t) cur mx"
proof (induction u arbitrary: cur mx)
  case Nil
  then show ?case using backtick_run_prefix [of cur mx n t] by simp
next
  case (Cons c u)
  then show ?case using Cons.IH [of "Suc cur" "if Suc cur > mx then Suc cur else mx"] Cons.IH [of 0 mx] by simp
qed

lemma span_delimiter:
  obtains d where "0 < d"
    "markdownCodeSpan v = replicate d (CHR ''`'') @ '' '' @ v @ '' '' @ replicate d (CHR ''`'')"
    "\<And>u t. v \<noteq> u @ replicate d (CHR ''`'') @ t"
proof
  let ?d = "backtick_run v 0 0 + 1"
  show "0 < ?d" "markdownCodeSpan v = replicate ?d (CHR ''`'') @ '' '' @ v @ '' '' @ replicate ?d (CHR ''`'')"
    by (simp_all only: markdownCodeSpan_def Let_def zero_less_Suc Suc_eq_plus1 [symmetric])
  show "v \<noteq> u @ replicate ?d (CHR ''`'') @ t" for u t
  proof
    assume "v = u @ replicate ?d (CHR ''`'') @ t"
    then have "?d \<le> backtick_run v 0 0" using backtick_run_inside [of ?d 0 0 u t] by (metis add_gr_0 le_refl zero_less_one)
    then show False by simp
  qed
qed

end
