(* ===== verification/Report_Props.thy ===== *)
theory Report_Props
  imports Report_Facts Application_Props
begin

text \<open>
  Properties of the report: the escape of displayed values loses nothing and writes nothing that
  a terminal or Markdown would act on; both renderings show every finding with its effective
  disposition and no text of the run can add or remove such a line; a report keeps bundle paths
  out and carries exactly the notices its inputs call for.
\<close>

section \<open>A small report\<close>

definition constDigest :: Digest where
  "constDigest = ''sha256:'' @ replicate 64 (CHR ''c'')"

definition smallJSON :: report_json where
  "smallJSON = \<lparr>planJSON = \<lambda>_. Some [], reportJSON = \<lambda>_. Some [], cloneDelta = \<lambda>d. d, cloneApp = \<lambda>a. a,
     cloneReport = \<lambda>d. d\<rparr>"

definition smallFinding :: AppliedFinding where
  "smallFinding = \<lparr>af_Origin = ''builtin'', af_Original = netFinding, af_EffectiveDisposition = DispositionRequiresReview,
     af_AppliedWaiver = None, af_GovernanceReference = None\<rparr>"

definition smallApplication :: FrozenApplication where
  "smallApplication = \<lparr>fa_doc = applicationDocument ((fe_doc waiveEvaluation)\<lparr>ed_BehavioralDeltaDigest := constDigest\<rparr>) constDigest
       (fp_doc waivePlan) (planTrusted constSha) waiveLoaded 1768000000000000000 [smallFinding] [],
     fa_json = [], fa_digest = constDigest\<rparr>"

definition smallDelta :: FrozenDelta where
  "smallDelta = \<lparr>fd_doc = (netDelta True)\<lparr>bd_PlanDigest := constDigest, bd_ManifestDigest := constDigest, bd_Records := [],
       bd_Summary := (bd_Summary (netDelta True))\<lparr>ds_TotalRecords := 0\<rparr>\<rparr>, fd_json = [], fd_digest = constDigest\<rparr>"

definition smallRunner :: RunnerCapabilities where
  "smallRunner = zeroRunner\<lparr>rc_Name := ''vm'', rc_Version := ''v1'', rc_IsolationTier := IsolationTierMicroVM,
     rc_ExecutesTargetCode := True, rc_EnforcesNetworkDeny := True\<rparr>"

definition smallBundle :: Bundle where
  "smallBundle = \<lparr>bn_closed = False,
     bn_manifest = \<lparr>mf_SchemaVersion = SchemaVersionEvidenceManifestV1Alpha1, mf_ID = ''m'', mf_RunID = ''run'', mf_CreatedAt = 0,
       mf_BundleFormatVersion = [], mf_PlanDigest = constDigest, mf_ExecutionComplete = True, mf_EvidenceComplete = True,
       mf_BundleTransactionValid = True, mf_Entries = [], mf_Artifacts = [], mf_Attempts = [], mf_Limitations = [],
       mf_Failure = None, mf_ManifestDigest = constDigest\<rparr>,
     bn_manifestDigest = constDigest, bn_plan = fp_doc waivePlan,
     bn_execution = \<lparr>xd_SchemaVersion = SchemaVersionExecutionResultV1Alpha1, xd_RunID = ''run'', xd_PlanDigest = constDigest,
       xd_Runner = smallRunner, xd_ExecutionComplete = True, xd_EvidenceComplete = True, xd_BundleTransactionValid = True,
       xd_TotalAcceptedEvents = 0, xd_Attempts = [], xd_Limitations = [], xd_Failure = None\<rparr>,
     bn_attempts = [\<lparr>vat_AttemptID = ''a'', vat_Ordinal = 1, vat_Revision = RevisionKindBase, vat_ScenarioID = ''s'',
       vat_Repetition = 1, vat_Directory = [], vat_Events = ''captured'', vat_Stdout = [], vat_Stderr = [], vat_Artifacts = [],
       vat_Result = [], vat_FirstEventSequence = 0, vat_LastEventSequence = 0, vat_AcceptedEventCount = 0\<rparr>],
     bn_verification = \<lparr>vsm_Mode = VerificationModeExpectedManifestDigest, vsm_ManifestDigest = constDigest,
       vsm_ExpectedManifestDigestSupplied = True, vsm_ExpectedManifestDigestMatched = True, vsm_InternallyConsistent = True,
       vsm_Limitations = []\<rparr>\<rparr>"

definition smallDocument :: ReportDocument where
  "smallDocument = report_buildDocument smallJSON (bn_manifest smallBundle) (bn_verification smallBundle) (bn_plan smallBundle)
     (bn_execution smallBundle) (bn_attempts smallBundle) (fd_doc smallDelta) constDigest (fa_doc smallApplication) constDigest"

definition smallReport :: FrozenReport where
  "smallReport = \<lparr>frz_doc = smallDocument, frz_json = [], frz_digest = constDigest\<rparr>"

definition smallRequest :: ReportRequest where
  "smallRequest = \<lparr>req_Bundle = Some smallBundle, req_Delta = Some smallDelta, req_Application = Some smallApplication\<rparr>"

lemma const_digest: "digestBytes constSha domain s = constDigest"
  by (simp add: digestBytes_def constDigest_def constSha_def)

lemma valid_constDigest: "validDigest constDigest"
  using validDigest_sha [OF constSha_hex [of "[]"]] by (simp add: constSha_def constDigest_def)

lemma small_plan:
  "rp_Runner (fp_doc waivePlan) = zeroRunner" "rp_RunID (fp_doc waivePlan) = ''run''"
  "rp_SchemaVersion (fp_doc waivePlan) = SchemaVersionRunPlanV1Alpha1" "rp_Limitations (fp_doc waivePlan) = []"
  by (simp_all add: waivePlan_def plannedDocument_def buildDocument_def Let_def planRequest_def)

lemma small_app:
  "ad_PlanDigest (fa_doc smallApplication) = constDigest" "ad_BehavioralDeltaDigest (fa_doc smallApplication) = constDigest"
  "ad_BasePolicyEvaluationDigest (fa_doc smallApplication) = constDigest" "ad_RunID (fa_doc smallApplication) = ''run''"
  "ad_AppliedFindings (fa_doc smallApplication) = [smallFinding]" "ad_Limitations (fa_doc smallApplication) = []"
  "ad_Summary (fa_doc smallApplication) = summarizeApplication [smallFinding] []"
  by (simp_all add: smallApplication_def applicationDocument_def waiveEvaluation_def waivePlan_def DigestRunPlanJSON_def
      const_digest constDigest_def constSha_def sortLimitations_def digestBytes_def del: replicate.simps)

lemma small_binding:
  "validateBinding constSha (planJSON smallJSON) (bn_manifest smallBundle) (bn_manifestDigest smallBundle)
     (bn_verification smallBundle) (bn_plan smallBundle) (bn_execution smallBundle) (bn_attempts smallBundle)
     (fd_doc smallDelta) [] constDigest (fa_doc smallApplication) [] constDigest = None"
proof -
  have docs: "validateBindingDocuments (bn_manifest smallBundle) (bn_manifestDigest smallBundle) (bn_verification smallBundle)
      (bn_plan smallBundle) (fd_doc smallDelta) = None"
    by (simp add: validateBindingDocuments_def smallBundle_def smallDelta_def small_plan)
  have app: "ad_SchemaVersion (fa_doc smallApplication) = SchemaVersionPolicyApplicationV1Alpha1"
    "ad_PolicyProfileName (fa_doc smallApplication) = PolicyProfileNameStrict"
    "ad_PolicyProfileVersion (fa_doc smallApplication) = PolicyProfileVersionStrictV1Alpha1"
    "ad_BuiltinRuleSetVersion (fa_doc smallApplication) = BuiltinRuleSetVersionStrictV1Alpha1"
    "ad_GovernanceRuleSetVersion (fa_doc smallApplication) = GovernanceRuleSetVersionStrictV1Alpha1"
    "ad_Base (fa_doc smallApplication) = rp_Base (fp_doc waivePlan)" "ad_Head (fa_doc smallApplication) = rp_Head (fp_doc waivePlan)"
    "ad_EvaluatedAt (fa_doc smallApplication) = 1768000000000000000"
    by (simp_all add: smallApplication_def applicationDocument_def waiveEvaluation_def)
  have delta: "bd_PlanDigest (fd_doc smallDelta) = constDigest" "bd_RunID (fd_doc smallDelta) = ''run''"
    "bd_SchemaVersion (fd_doc smallDelta) = SchemaVersionBehavioralDeltaV1Alpha1"
    "cp_Version (bd_ComparisonProfile (fd_doc smallDelta)) = ComparisonProfileVersionV1Alpha1"
    "bd_NormalizationProfileVersion (fd_doc smallDelta) = ProfileVersionV1Alpha1"
    "bd_Base (fd_doc smallDelta) = zeroCommit" "bd_Head (fd_doc smallDelta) = zeroCommit"
    "bd_ExecutionComplete (fd_doc smallDelta)" "bd_EvidenceComplete (fd_doc smallDelta)"
    by (simp_all add: smallDelta_def netDelta_def comparisonProfile_def)
  have "validateBindingDigests constSha (bn_manifest smallBundle) (bn_plan smallBundle) (bn_execution smallBundle)
      (bn_attempts smallBundle) (fd_doc smallDelta) [] constDigest (fa_doc smallApplication) [] constDigest constDigest = None"
    by (simp add: validateBindingDigests_def const_digest valid_constDigest app delta small_app smallBundle_def small_plan
        deltaCommitCompatible_def sameCommit_def validRunner_def smallRunner_def)
  with docs show ?thesis by (simp add: validateBinding_def smallJSON_def const_digest)
qed

lemma small_counts:
  "validateCountsAndRefs (bn_plan smallBundle) (bn_attempts smallBundle) (fd_doc smallDelta) (fa_doc smallApplication)
     report_DefaultLimits = None"
proof -
  have "as_TotalFindings (ad_Summary (fa_doc smallApplication)) = 1"
    by (simp add: small_app summarizeApplication_def)
  moreover have "fi_ID (af_Original smallFinding) \<noteq> []" by (simp add: smallFinding_def netFinding_def demoFindingID_def)
  moreover have "fi_DeltaRecordIDs (af_Original smallFinding) = []" "fi_ScenarioIDs (af_Original smallFinding) = []"
    "fi_Evidence (af_Original smallFinding) = []" by (simp_all add: smallFinding_def netFinding_def)
  ultimately show ?thesis
    by (simp add: validateCountsAndRefs_def small_app smallDelta_def report_DefaultLimits_def Let_def)
qed

lemma small_notices: "rdo_Notices smallDocument = [\<lparr>nc_Code = NoticePassedNotProofOfSafety,
    nc_Text = ''A passed disposition does not prove the code is safe.''\<rparr>]"
proof -
  have "as_EffectiveWaived (ad_Summary (fa_doc smallApplication)) = 0" "as_AppliedWaivers (ad_Summary (fa_doc smallApplication)) = 0"
    "as_ConfigurationFindings (ad_Summary (fa_doc smallApplication)) = 0"
    "as_WaiverGovernanceFindings (ad_Summary (fa_doc smallApplication)) = 0"
    by (simp_all add: small_app summarizeApplication_def smallFinding_def countWhere_def)
  then show ?thesis
    by (simp add: smallDocument_def report_buildDocument_def notices_def noticeTable_def smallBundle_def smallRunner_def
        small_app noticeText_def slice_stable_def zeroRunner_def)
qed

lemma small_limitations: "length (rdo_Limitations smallDocument) \<le> 1"
  by (simp add: smallDocument_def report_buildDocument_def collectLimitations_def smallBundle_def smallDelta_def small_app
      netDelta_def length_slice_stable)

lemma small_built: "report_Build constSha smallJSON live (Some report_DefaultLimits) smallRequest = Inr smallReport"
proof -
  have "freezeReportDocument constSha smallJSON smallDocument report_DefaultLimits = Inr smallReport"
    using small_limitations
    by (simp add: freezeReportDocument_def small_notices smallReport_def const_digest report_DefaultLimits_def)
       (simp add: smallJSON_def smallDocument_def report_buildDocument_def const_digest)
  moreover have "cloneDelta smallJSON d = d" for d by (simp add: smallJSON_def)
  moreover have "fd_json smallDelta = []" "fd_digest smallDelta = constDigest" by (simp_all add: smallDelta_def)
  moreover have "fa_json smallApplication = []" "fa_digest smallApplication = constDigest" by (simp_all add: smallApplication_def)
  moreover have "\<not> bn_closed smallBundle" by (simp add: smallBundle_def)
  ultimately show ?thesis
    using small_binding small_counts
    by (simp add: report_Build_def smallRequest_def buildReport_def Let_def smallDocument_def [symmetric])
qed

section \<open>What a report contains\<close>

text \<open>All evidence references of a report.\<close>

definition reportRefs :: "ReportDocument \<Rightarrow> EvidenceRef list" where
  "reportRefs doc =
     concat (map (\<lambda>f. fi_Evidence (af_Original f) @ concat (map fw_Evidence (fi_Waivers (af_Original f))))
               (rpo_AppliedFindings (rdo_Policy doc)))
     @ concat (map (\<lambda>r. dr_Evidence r @ dr_BaseEvidence r @ dr_HeadEvidence r
                 @ concat (map snap_Evidence (dr_BaseFacts r @ dr_HeadFacts r))) (bs_Records (rdo_Behavior doc)))"

lemma report_Build_ok:
  assumes "report_Build sha js ctx builder req = Inr r"
  obtains l b d a where "builder = Some l" "req_Bundle req = Some b" "req_Delta req = Some d" "req_Application req = Some a"
    "buildReport sha js l b d a = Inr r"
  using assms by (auto simp: report_Build_def split: option.splits if_splits)

interpretation notice_order: keyed_order noticeLess nc_Code
  by unfold_locales (simp add: noticeLess_def)

lemma strip_no_path: "ref \<in> set (stripRefs refs) \<Longrightarrow> er_BundlePath ref = None"
  by (auto simp: stripRefs_def)

lemma report_refs_stripped:
  assumes "ref \<in> set (reportRefs (report_buildDocument js m v plan e attempts delta deltaDigest app appDigest))"
  shows "er_BundlePath ref = None"
  using assms strip_no_path
  by (auto simp: reportRefs_def report_buildDocument_def policySection_def behaviorSection_def Let_def
      stripApplicationBundlePaths_def stripDeltaBundlePaths_def stripFinding_def stripRecord_def stripFact_def)

lemma notices_exact:
  "nc_Code ` set (slice_stable noticeLess (notices v e app)) = {c. (c, True) \<in> set (noticeTable v e app)}"
  "sorted_wrt (<) (map nc_Code (slice_stable noticeLess (notices v e app)))"
proof -
  show "nc_Code ` set (slice_stable noticeLess (notices v e app)) = {c. (c, True) \<in> set (noticeTable v e app)}"
    by (force simp: notices_def set_slice_stable)
  have eq: "map nc_Code (notices v e app) = map fst (filter snd (noticeTable v e app))"
    unfolding notices_def by (induction "noticeTable v e app") (auto simp: case_prod_beta)
  have "distinct noticeCodes" by (simp add: noticeCodes_def)
  then have "distinct (map fst (filter snd (noticeTable v e app)))"
    using noticeCodes_table [of v e app] by (simp add: distinct_map_filter)
  then have "distinct (map nc_Code (slice_stable noticeLess (notices v e app)))"
    unfolding notice_order.slice_stable_sort_key
    by (simp add: eq [symmetric] distinct_map inj_on_def)
  then show "sorted_wrt (<) (map nc_Code (slice_stable noticeLess (notices v e app)))"
    using sorted_sort_key [of nc_Code "notices v e app"]
    by (simp add: strict_sorted_iff notice_order.slice_stable_sort_key)
qed

text \<open>What identifies a commit; a delta may leave its commits out.\<close>

definition commitIdentity :: "CommitRef \<Rightarrow> string list" where
  "commitIdentity c = [cr_Kind c, cr_CommitID c, cr_TreeID c, cr_ObjectFormat c, cr_TreeDigest c]"

lemma sameCommit_identity: "sameCommit a b \<longleftrightarrow> commitIdentity a = commitIdentity b"
  by (simp add: sameCommit_def commitIdentity_def)

lemma sourceIdentity_commits: "sy_Base (sourceIdentity plan) = rp_Base plan" "sy_Head (sourceIdentity plan) = rp_Head plan"
proof -
  have "sy_Base (foldl revisionDigests s rs) = sy_Base s \<and> sy_Head (foldl revisionDigests s rs) = sy_Head s" for s rs
    by (induction rs arbitrary: s) (simp_all add: revisionDigests_def)
  then show "sy_Base (sourceIdentity plan) = rp_Base plan" "sy_Head (sourceIdentity plan) = rp_Head plan"
    by (simp_all add: sourceIdentity_def)
qed

lemma binding_documents:
  assumes "validateBindingDocuments m dg v p d = None"
  shows "mf_BundleTransactionValid m" and "vsm_InternallyConsistent v" and "vsm_ManifestDigest v = dg" and "bd_ManifestDigest d = dg"
    and "rp_Runner p = zeroRunner"
  using assms by (auto simp: validateBindingDocuments_def split: if_splits)

lemma binding_identities:
  assumes "validateBindingDigests sha m p e as d dj dd a aj ad pd = None"
  shows "mf_PlanDigest m = pd" "xd_PlanDigest e = pd" "bd_PlanDigest d = pd" "ad_PlanDigest a = pd"
    and "mf_RunID m = rp_RunID p" "xd_RunID e = rp_RunID p" "bd_RunID d = rp_RunID p" "ad_RunID a = rp_RunID p"
    and "dd = digestBytes sha deltaJSONDomain dj" "ad_BehavioralDeltaDigest a = dd" "ad = digestBytes sha applicationJSONDomain aj"
    and "bd_Base d = zeroCommit \<or> commitIdentity (bd_Base d) = commitIdentity (rp_Base p)"
    and "bd_Head d = zeroCommit \<or> commitIdentity (bd_Head d) = commitIdentity (rp_Head p)"
    and "commitIdentity (ad_Base a) = commitIdentity (rp_Base p)" "commitIdentity (ad_Head a) = commitIdentity (rp_Head p)"
    and "mf_ExecutionComplete m = xd_ExecutionComplete e" "mf_EvidenceComplete m = xd_EvidenceComplete e"
    and "bd_ExecutionComplete d = xd_ExecutionComplete e" "bd_EvidenceComplete d = xd_EvidenceComplete e"
    and "validRunner (xd_Runner e)"
  using assms unfolding validateBindingDigests_def deltaCommitCompatible_def sameCommit_identity
  by (simp_all split: if_splits) (auto simp: eq_commute)

text \<open>
  C38. A report that is built speaks of one run. The bundle is internally consistent and its manifest digest, the one that verification
  found and the one that the delta names are the manifest digest of the report; the plan digest of the report is recomputed from the
  bytes of the plan and is the one that manifest, execution, delta and application name; plan, manifest, execution, delta and
  application name the same run; the commits of the report are those of the plan, the application has the same ones, and so has the
  delta if it names any; manifest, execution and delta agree on completeness; the digests of delta and application are recomputed from
  their bytes, and the application was made for this delta. None of the report's evidence references has a path into the
  bundle, and its notices are exactly those whose condition holds, in strict order of their codes; among them always the one
  that a passed result proves nothing. The digest of the report is that of its own bytes.
\<close>

theorem report_bound_and_sealed:
  assumes "report_Build sha js ctx (Some l) req = Inr r"
    and "req_Bundle req = Some b" and "req_Delta req = Some d" and "req_Application req = Some a"
  shows "\<exists>doc planBytes. frz_doc r = cloneReport js doc \<and> reportJSON js doc = Some (frz_json r)
    \<and> frz_digest r = digestBytes sha reportJSONDomain (frz_json r)
    \<and> mf_BundleTransactionValid (bn_manifest b) \<and> vsm_InternallyConsistent (bn_verification b)
    \<and> rdo_ManifestDigest doc = bn_manifestDigest b \<and> vsm_ManifestDigest (bn_verification b) = bn_manifestDigest b
    \<and> bd_ManifestDigest (cloneDelta js (fd_doc d)) = bn_manifestDigest b
    \<and> planJSON js (bn_plan b) = Some planBytes \<and> rdo_PlanDigest doc = digestBytes sha runPlanJSONDigestDomain planBytes
    \<and> rdo_PlanDigest doc = mf_PlanDigest (bn_manifest b) \<and> rdo_PlanDigest doc = xd_PlanDigest (bn_execution b)
    \<and> rdo_PlanDigest doc = bd_PlanDigest (cloneDelta js (fd_doc d)) \<and> rdo_PlanDigest doc = ad_PlanDigest (fa_doc a)
    \<and> rdo_RunID doc = rp_RunID (bn_plan b) \<and> rdo_RunID doc = mf_RunID (bn_manifest b) \<and> rdo_RunID doc = xd_RunID (bn_execution b)
    \<and> rdo_RunID doc = bd_RunID (cloneDelta js (fd_doc d)) \<and> rdo_RunID doc = ad_RunID (fa_doc a)
    \<and> sy_Base (rdo_Source doc) = rp_Base (bn_plan b) \<and> sy_Head (rdo_Source doc) = rp_Head (bn_plan b)
    \<and> commitIdentity (ad_Base (fa_doc a)) = commitIdentity (rp_Base (bn_plan b))
    \<and> commitIdentity (ad_Head (fa_doc a)) = commitIdentity (rp_Head (bn_plan b))
    \<and> (bd_Base (cloneDelta js (fd_doc d)) = zeroCommit
         \<or> commitIdentity (bd_Base (cloneDelta js (fd_doc d))) = commitIdentity (rp_Base (bn_plan b)))
    \<and> (bd_Head (cloneDelta js (fd_doc d)) = zeroCommit
         \<or> commitIdentity (bd_Head (cloneDelta js (fd_doc d))) = commitIdentity (rp_Head (bn_plan b)))
    \<and> mf_ExecutionComplete (bn_manifest b) = xd_ExecutionComplete (bn_execution b)
    \<and> bd_ExecutionComplete (cloneDelta js (fd_doc d)) = xd_ExecutionComplete (bn_execution b)
    \<and> mf_EvidenceComplete (bn_manifest b) = xd_EvidenceComplete (bn_execution b)
    \<and> bd_EvidenceComplete (cloneDelta js (fd_doc d)) = xd_EvidenceComplete (bn_execution b)
    \<and> rdo_BehavioralDeltaDigest doc = digestBytes sha deltaJSONDomain (fd_json d)
    \<and> rdo_BehavioralDeltaDigest doc = ad_BehavioralDeltaDigest (fa_doc a)
    \<and> rdo_PolicyApplicationDigest doc = digestBytes sha applicationJSONDomain (fa_json a)
    \<and> (\<forall>ref\<in>set (reportRefs doc). er_BundlePath ref = None)
    \<and> nc_Code ` set (rdo_Notices doc) = {c. (c, True) \<in> set (noticeTable (bn_verification b) (bn_execution b) (fa_doc a))}
    \<and> sorted_wrt (<) (map nc_Code (rdo_Notices doc))
    \<and> NoticePassedNotProofOfSafety \<in> nc_Code ` set (rdo_Notices doc)"
proof -
  have built: "buildReport sha js l b d a = Inr r"
    using report_Build_ok [OF assms(1)] assms(2-4) by (metis option.inject)
  let ?delta = "cloneDelta js (fd_doc d)"
  let ?doc = "report_buildDocument js (bn_manifest b) (bn_verification b) (bn_plan b) (bn_execution b) (bn_attempts b) ?delta
    (fd_digest d) (fa_doc a) (fa_digest a)"
  have bind: "validateBinding sha (planJSON js) (bn_manifest b) (bn_manifestDigest b) (bn_verification b) (bn_plan b)
      (bn_execution b) (bn_attempts b) ?delta (fd_json d) (fd_digest d) (fa_doc a) (fa_json a) (fa_digest a) = None"
    and frz: "freezeReportDocument sha js ?doc l = Inr r"
    using built by (simp_all add: buildReport_def Let_def result_simps)
  from bind have docs: "validateBindingDocuments (bn_manifest b) (bn_manifestDigest b) (bn_verification b) (bn_plan b) ?delta = None"
    by (simp add: validateBinding_def result_simps)
  from bind obtain pb where pb: "planJSON js (bn_plan b) = Some pb" and pd: "validateBindingDigests sha (bn_manifest b) (bn_plan b)
      (bn_execution b) (bn_attempts b) ?delta (fd_json d) (fd_digest d) (fa_doc a) (fa_json a) (fa_digest a)
      (digestBytes sha runPlanJSONDigestDomain pb) = None"
    by (auto simp: validateBinding_def result_simps split: option.splits)
  have fields: "rdo_RunID ?doc = rp_RunID (bn_plan b)" "rdo_PlanDigest ?doc = bd_PlanDigest ?delta"
    "rdo_ManifestDigest ?doc = vsm_ManifestDigest (bn_verification b)" "rdo_Source ?doc = sourceIdentity (bn_plan b)"
    "rdo_BehavioralDeltaDigest ?doc = fd_digest d" "rdo_PolicyApplicationDigest ?doc = fa_digest a"
    "rdo_Notices ?doc = slice_stable noticeLess (notices (bn_verification b) (bn_execution b) (fa_doc a))"
    by (simp_all add: report_buildDocument_def)
  have json: "frz_doc r = cloneReport js ?doc" "reportJSON js ?doc = Some (frz_json r)" "frz_digest r = digestBytes sha reportJSONDomain (frz_json r)"
    using frz by (auto simp: freezeReportDocument_def split: option.splits if_splits)
  have passed: "(NoticePassedNotProofOfSafety, True) \<in> set (noticeTable v e app)" for v e app by (simp add: noticeTable_def)
  note agree = binding_documents [OF docs] binding_identities [OF pd]
  have "nc_Code ` set (rdo_Notices ?doc) = {c. (c, True) \<in> set (noticeTable (bn_verification b) (bn_execution b) (fa_doc a))}"
    "sorted_wrt (<) (map nc_Code (rdo_Notices ?doc))" "\<forall>ref\<in>set (reportRefs ?doc). er_BundlePath ref = None"
    "NoticePassedNotProofOfSafety \<in> nc_Code ` set (rdo_Notices ?doc)"
    using notices_exact passed report_refs_stripped unfolding fields by auto
  note facts = this json pb agree
  show ?thesis
    by (intro exI [of _ ?doc] exI [of _ pb] conjI; (fact facts | (simp only: fields sourceIdentity_commits, (simp only: agree)?)))
qed

theorem report_bound_and_sealed_witness:
  "\<exists>doc :: ReportDocument. rdo_BehavioralDeltaDigest doc = constDigest \<and> NoticePassedNotProofOfSafety \<in> nc_Code ` set (rdo_Notices doc)
     \<and> rdo_RunID doc = ''run''"
proof -
  have "req_Bundle smallRequest = Some smallBundle" "req_Delta smallRequest = Some smallDelta"
    "req_Application smallRequest = Some smallApplication" by (simp_all add: smallRequest_def)
  from report_bound_and_sealed [OF small_built this] obtain doc :: ReportDocument where
    "rdo_BehavioralDeltaDigest doc = digestBytes constSha deltaJSONDomain (fd_json smallDelta)"
    "NoticePassedNotProofOfSafety \<in> nc_Code ` set (rdo_Notices doc)" "rdo_RunID doc = ad_RunID (fa_doc smallApplication)"
    by (elim exE conjE) (rule that; assumption)
  then have "rdo_BehavioralDeltaDigest doc = constDigest \<and> NoticePassedNotProofOfSafety \<in> nc_Code ` set (rdo_Notices doc)
     \<and> rdo_RunID doc = ''run''" by (simp only: const_digest small_app simp_thms)
  then show ?thesis by blast
qed

section \<open>What a report shows\<close>

text \<open>
  C39. Displayed values are shown without loss and without effect: two values that are shown by the same text
  are equal, and the text consists of runes that are no control or format characters, no line separators and
  none of the characters that start HTML, links, headings, tables or mentions in Markdown. As a Markdown code
  span it stands between delimiters that do not occur in it.
\<close>

theorem display_lossless_and_inert:
  assumes "visibleDisplayBytes x l = Inr s"
  shows "(\<forall>y l'. visibleDisplayBytes y l' = Inr s \<longrightarrow> x = y)
    \<and> list_all inertRune (runes s)
    \<and> (\<exists>d. 0 < d \<and> markdownCodeSpan s = replicate d (CHR ''`'') @ '' '' @ s @ '' '' @ replicate d (CHR ''`'')
           \<and> (\<forall>u t. s \<noteq> u @ replicate d (CHR ''`'') @ t))"
proof -
  have s: "s = visible x" by (rule visibleDisplayBytes_visible [OF assms])
  have "x = y" if "visibleDisplayBytes y l' = Inr s" for y l'
    using visible_inject [of x y] visibleDisplayBytes_visible [OF that] s by simp
  moreover have "list_all inertRune (runes s)" unfolding s by (rule clean_runes [OF visible_clean])
  moreover have "\<exists>d. 0 < d \<and> markdownCodeSpan s = replicate d (CHR ''`'') @ '' '' @ s @ '' '' @ replicate d (CHR ''`'')
           \<and> (\<forall>u t. s \<noteq> u @ replicate d (CHR ''`'') @ t)"
    using span_delimiter [of s] by metis
  ultimately show ?thesis by blast
qed

theorem display_lossless_and_inert_witness:
  "visibleDisplayBytes ''ok'' DefaultRenderLimits = Inr ''ok'' \<and> list_all inertRune (runes ''ok'')
   \<and> visibleDisplayBytes [CHR 0x1B] DefaultRenderLimits \<noteq> Inr ''ok''"
proof -
  have ok: "visibleDisplayBytes ''ok'' DefaultRenderLimits = Inr ''ok''"
    by (rule visible_verbatim) (simp_all add: verbatim_char_def ascii_simps)
  show ?thesis using ok display_lossless_and_inert [OF ok] by auto
qed

lemma render_limits:
  assumes "validateRenderLimits l0 = Inr l"
  shows "l = l0" and "1 \<le> rn_MaxRenderedLines l"
proof -
  have none: "List.find outOfRange (renderLimitChecks l0) = None" and "l = l0"
    using assms by (auto simp: validateRenderLimits_def split: if_splits option.splits)
  show "l = l0" by fact
  have "(rn_MaxRenderedLines l0, 2000000, ''lines'') \<in> set (renderLimitChecks l0)"
    by (simp add: renderLimitChecks_def)
  with none have "\<not> outOfRange (rn_MaxRenderedLines l0, 2000000, ''lines'')" unfolding find_None_iff by blast
  with \<open>l = l0\<close> show "1 \<le> rn_MaxRenderedLines l" by (simp add: outOfRange_def)
qed

text \<open>
  C40. The terminal rendering of a report whose notices are the known ones: its own safety check never rejects
  what was rendered; every rune of the output is safe for a terminal; and the lines that begin with
  \<open>finding:\<close> or \<open>effective-disposition:\<close> are exactly the two lines of every finding of the report, in order. No
  text of the run adds, hides or changes such a line.
\<close>

theorem terminal_shows_findings:
  assumes "ctx 0 = None" and "validateRenderLimits l = Inr l" and "doc = cloneReport js (frz_doc r)"
    and "validateRenderEvidenceRefs doc l = None"
    and "\<forall>n\<in>set (rdo_Notices doc). nc_Code n \<in> set noticeCodes"
  shows "((\<exists>out. RenderTerminal sha js ctx (Some r) l = Inr out) \<longleftrightarrow> (\<exists>b. terminalBody l r doc = Inr b))
    \<and> (\<forall>out. RenderTerminal sha js ctx (Some r) l = Inr out \<longrightarrow>
      list_all terminalSafeRune (runes (out_Bytes out))
      \<and> filter (\<lambda>x. has_prefix x ''finding: '' \<or> has_prefix x ''effective-disposition: '') (split_on LF (out_Bytes out))
        = concat (map (\<lambda>f. [''finding: '' @ visible (fi_ID (af_Original f)),
                            ''effective-disposition: '' @ visible (af_EffectiveDisposition f)])
                      (rpo_AppliedFindings (rdo_Policy doc))))"
proof -
  have keys: "termKey = (\<lambda>x. has_prefix x ''finding: '' \<or> has_prefix x ''effective-disposition: '')"
    by (simp add: termKey_def [abs_def])
  have fk: "findingKeys = (\<lambda>f. [''finding: '' @ visible (fi_ID (af_Original f)),
      ''effective-disposition: '' @ visible (af_EffectiveDisposition f)])"
    by (simp add: findingKeys_def [abs_def] termLine_def)
  note rendered = terminal_rendered [OF assms(5) render_limits(2) [OF assms(2)], unfolded keys fk]
  have run: "RenderTerminal sha js ctx (Some r) l = rbind (terminalBody l r doc) (\<lambda>b.
      let out = trimNewlines (rb_text b) @ [LF] in
      if \<not> terminalSafe out then Inl (reportErr ''render-failed'' ''terminal'' ''controls'')
      else Inr \<lparr>out_RendererVersion = ''glassroot.dev/terminal-renderer/v1alpha1'', out_Bytes = out,
                out_Digest = digestBytes sha terminalDigestDomain out\<rparr>)"
    using assms(1,2,4) by (simp add: RenderTerminal_def assms(3) Let_def)
  show ?thesis
  proof (intro conjI allI impI)
    show "(\<exists>out. RenderTerminal sha js ctx (Some r) l = Inr out) \<longleftrightarrow> (\<exists>b. terminalBody l r doc = Inr b)"
      unfolding run by (auto simp: result_simps Let_def rendered(2))
  next
    fix out
    assume "RenderTerminal sha js ctx (Some r) l = Inr out"
    then obtain b where b: "terminalBody l r doc = Inr b" "out_Bytes out = trimNewlines (rb_text b) @ [LF]"
      unfolding run by (auto simp: result_simps Let_def split: if_splits)
    show "list_all terminalSafeRune (runes (out_Bytes out))"
      using rendered(2) [OF b(1)] by (simp only: terminalSafe_def b(2))
    show "filter (\<lambda>x. has_prefix x ''finding: '' \<or> has_prefix x ''effective-disposition: '') (split_on LF (out_Bytes out))
        = concat (map (\<lambda>f. [''finding: '' @ visible (fi_ID (af_Original f)),
                            ''effective-disposition: '' @ visible (af_EffectiveDisposition f)])
                      (rpo_AppliedFindings (rdo_Policy doc)))"
      using rendered(1) [OF b(1)] by (simp only: b(2))
  qed
qed

lemma small_values:
  "rdo_RunID smallDocument = ''run''" "rpo_OverallEffectiveDisposition (rdo_Policy smallDocument) = DispositionRequiresReview"
  "rdo_Runner smallDocument = smallRunner" "rdo_ManifestVerificationMode smallDocument = VerificationModeExpectedManifestDigest"
  "rpo_AppliedFindings (rdo_Policy smallDocument) = [smallFinding]" "bs_Records (rdo_Behavior smallDocument) = []"
  "rdo_Limitations smallDocument = []" "ds_TotalRecords (bs_Summary (rdo_Behavior smallDocument)) = 0"
proof -
  have strip: "stripFinding netFinding = netFinding" by (simp add: stripFinding_def netFinding_def stripRefs_def)
  show "rpo_AppliedFindings (rdo_Policy smallDocument) = [smallFinding]"
    by (simp add: smallDocument_def report_buildDocument_def policySection_def stripApplicationBundlePaths_def smallJSON_def
        small_app smallFinding_def strip)
  show "rpo_OverallEffectiveDisposition (rdo_Policy smallDocument) = DispositionRequiresReview"
    by (simp add: smallDocument_def report_buildDocument_def policySection_def stripApplicationBundlePaths_def smallJSON_def
        smallApplication_def applicationDocument_def overallEffectiveDisposition_def smallFinding_def)
  show "bs_Records (rdo_Behavior smallDocument) = []" "ds_TotalRecords (bs_Summary (rdo_Behavior smallDocument)) = 0"
    by (simp_all add: smallDocument_def report_buildDocument_def behaviorSection_def stripDeltaBundlePaths_def smallJSON_def
        smallDelta_def)
  show "rdo_Limitations smallDocument = []"
    by (simp add: smallDocument_def report_buildDocument_def collectLimitations_def smallBundle_def smallDelta_def small_app
        netDelta_def slice_stable_def)
  show "rdo_RunID smallDocument = ''run''" "rdo_Runner smallDocument = smallRunner"
    "rdo_ManifestVerificationMode smallDocument = VerificationModeExpectedManifestDigest"
    by (simp_all add: smallDocument_def report_buildDocument_def runnerSection_def smallBundle_def small_plan)
qed

lemma small_brief:
  "brief constDigest" "brief demoFindingID" "brief (boolText v)" "brief ''run''" "brief DispositionRequiresReview"
  "brief VerificationModeExpectedManifestDigest" "brief ''A passed disposition does not prove the code is safe.''"
  "brief ''builtin''" "brief ''GR-NET-001 v1alpha1''" "brief ''high''" "brief []" "brief ''vm''" "brief ''v1''" "brief ''microvm''"
  "brief NoticePassedNotProofOfSafety" "brief (intText 0)" "brief (intText 1)"
proof -
  have rep: "list_all verbatim_char (replicate n c)" if "verbatim_char c" for n c using that by (simp add: list_all_iff)
  have "char_of (49 :: nat) = CHR ''1''" by code_simp
  then have one: "intText 1 = ''1''" by (simp add: intText_def itoa_loop.simps)
  show "brief constDigest" "brief demoFindingID"
    using rep [of "CHR ''c''" 64] rep [of "CHR ''0''" 64]
    by (simp_all add: brief_def constDigest_def demoFindingID_def verbatim_char_def ascii_simps del: replicate.simps)
  show "brief (intText 0)" "brief (intText 1)"
    unfolding one by (simp_all add: brief_def intText_def verbatim_char_def ascii_simps)
qed (simp_all add: brief_def verbatim_char_def ascii_simps boolText_def)

lemma small_render:
  "validateRenderLimits DefaultRenderLimits = Inr DefaultRenderLimits"
  "validateRenderEvidenceRefs smallDocument DefaultRenderLimits = None"
  "smallDocument = cloneReport smallJSON (frz_doc smallReport)"
proof -
  show "validateRenderLimits DefaultRenderLimits = Inr DefaultRenderLimits"
    by (simp add: validateRenderLimits_def DefaultRenderLimits_def render_zeroLimits_def renderLimitChecks_def outOfRange_def)
  show "validateRenderEvidenceRefs smallDocument DefaultRenderLimits = None"
    by (simp add: validateRenderEvidenceRefs_def small_values smallFinding_def netFinding_def DefaultRenderLimits_def)
qed (simp add: smallJSON_def smallReport_def)

lemma small_terminal: "\<exists>b. terminalBody DefaultRenderLimits smallReport smallDocument = Inr b"
proof -
  have r: "rc_Name smallRunner = ''vm''" "rc_Version smallRunner = ''v1''" "rc_IsolationTier smallRunner = ''microvm''"
    by (simp_all add: smallRunner_def)
  let ?b0 = "newBuilder DefaultRenderLimits (rn_MaxTerminalBytes DefaultRenderLimits) ''terminal-too-large''"
  let ?b1 = "steps (terminalHead smallReport smallDocument) ?b0"
  have "list_all short (terminalHead smallReport smallDocument)"
    by (simp add: terminalHead_def small_notices small_values r smallReport_def small_brief short_termKV short_line)
  moreover have "room (200 + 2 * length (terminalHead smallReport smallDocument)) ?b0"
    by (rule room_new) (simp_all add: terminalHead_def small_notices)
  ultimately have b1: "room 200 ?b1" by (rule room_steps)
  have "\<exists>b. terminalFinding smallFinding ?b1 = Inr b \<and> room 100 b"
  proof -
    obtain fs where fs: "\<And>b. terminalFinding smallFinding b = returnErr (steps fs b)" "list_all short fs" "length fs = 11"
      by (rule that [of "[termKV ''finding'' demoFindingID, termKV ''origin'' ''builtin'', termKV ''rule'' ''GR-NET-001 v1alpha1'',
          termKV ''title'' [], termKV ''severity'' ''high'', termKV ''confidence'' ''high'',
          termKV ''original-disposition'' DispositionRequiresReview, termKV ''effective-disposition'' DispositionRequiresReview,
          termKV ''waived'' (boolText (findingWaived smallFinding)), termKV ''base-observed'' (boolText False),
          termKV ''head-observed'' (boolText True)]"])
        (simp_all add: terminalFinding_def Let_def smallFinding_def netFinding_def small_brief short_termKV)
    have "room (178 + 2 * length fs) ?b1" using b1 fs(3) by simp
    then have room: "room 178 (steps fs ?b1)" by (rule room_steps [OF fs(2)])
    then have "terminalFinding smallFinding ?b1 = Inr (steps fs ?b1)" unfolding fs(1) by (rule room_return)
    moreover have "room 100 (steps fs ?b1)" using room by (simp add: room_def)
    ultimately show ?thesis by blast
  qed
  then obtain b2 where b2: "terminalFinding smallFinding ?b1 = Inr b2" "room 100 b2" by blast
  let ?ls = "[line [], line ''DELTAS''] @ [line [], line ''LIMITATIONS'']"
  have "room (92 + 2 * length ?ls) b2" using b2(2) by simp
  then have "room 92 (steps ?ls b2)" by (rule room_steps [rotated]) (simp add: short_line)
  then have "returnErr (steps ?ls b2) = Inr (steps ?ls b2)" by (rule room_return)
  with b2(1) show ?thesis by (simp add: terminalBody_def small_values)
qed

theorem terminal_shows_findings_witness:
  "\<exists>out. RenderTerminal constSha smallJSON live (Some smallReport) DefaultRenderLimits = Inr out
     \<and> filter (\<lambda>x. has_prefix x ''finding: '' \<or> has_prefix x ''effective-disposition: '') (split_on LF (out_Bytes out))
       = [''finding: '' @ visible demoFindingID, ''effective-disposition: '' @ visible DispositionRequiresReview]"
proof -
  have known: "\<forall>n\<in>set (rdo_Notices smallDocument). nc_Code n \<in> set noticeCodes"
    by (simp add: small_notices noticeCodes_def)
  note * = terminal_shows_findings [where ctx = live and sha = constSha, OF live_apply small_render(1,3,2) known]
  from * small_terminal obtain out where out: "RenderTerminal constSha smallJSON live (Some smallReport) DefaultRenderLimits = Inr out"
    by blast
  have "fi_ID (af_Original smallFinding) = demoFindingID" "af_EffectiveDisposition smallFinding = DispositionRequiresReview"
    by (simp_all add: smallFinding_def netFinding_def)
  with * out show ?thesis by (intro exI [of _ out]) (simp add: small_values)
qed

text \<open>
  The outline of a Markdown report depends only on how many findings and records the report has, and on the
  identity and effective disposition of each finding: its headings, together with the lines for
  \<open>Finding ID\<close> and \<open>Effective disposition\<close>, are exactly the expected ones in the expected order, whatever the
  names, paths, titles and messages of the run contain. The final check for carriage returns never fails.
\<close>

lemma markdown_outline_fixed:
  assumes "ctx 0 = None" and "validateRenderLimits l = Inr l" and "doc = cloneReport js (frz_doc r)"
    and "validateRenderEvidenceRefs doc l = None"
  shows "((\<exists>out. RenderMarkdown sha js ctx (Some r) l = Inr out) \<longleftrightarrow> (\<exists>b. markdownBody l r doc = Inr b))
    \<and> (\<forall>out. RenderMarkdown sha js ctx (Some r) l = Inr out \<longrightarrow>
      filter (\<lambda>x. has_prefix x ''#'' \<or> has_prefix x ''- Finding ID: '' \<or> has_prefix x ''- Effective disposition: '')
        (split_on LF (out_Bytes out))
      = [''# Glassroot report'', ''## Notices'', ''## Runner'', ''## Completeness'', ''## Findings'']
        @ concat (map (\<lambda>f. [''### Finding'',
              ''- Finding ID: '' @ markdownCodeSpan (visible (fi_ID (af_Original f))),
              ''- Effective disposition: '' @ markdownCodeSpan (visible (af_EffectiveDisposition f))])
            (rpo_AppliedFindings (rdo_Policy doc)))
        @ [''## Behavioral delta''] @ map (\<lambda>_. ''### Delta record'') (bs_Records (rdo_Behavior doc))
        @ [''## Authorities'', ''## Limitations'', ''## Safety statement''])"
proof -
  have keys: "mdKey = (\<lambda>x. has_prefix x ''#'' \<or> has_prefix x ''- Finding ID: '' \<or> has_prefix x ''- Effective disposition: '')"
    by (simp add: mdKey_def [abs_def])
  have fk: "mdFindingKeys = (\<lambda>f. [''### Finding'',
      ''- Finding ID: '' @ markdownCodeSpan (visible (fi_ID (af_Original f))),
      ''- Effective disposition: '' @ markdownCodeSpan (visible (af_EffectiveDisposition f))])"
    by (simp add: mdFindingKeys_def [abs_def] mdLine_def)
  note rendered = markdown_rendered [OF render_limits(2) [OF assms(2)], unfolded keys markdownOutline_def fk]
  have run: "RenderMarkdown sha js ctx (Some r) l = rbind (markdownBody l r doc) (\<lambda>b.
      let out = trimNewlines (rb_text b) @ [LF] in
      if CHR 0x0D \<in> set out then Inl (reportErr ''render-failed'' ''markdown'' ''newline'')
      else Inr \<lparr>out_RendererVersion = ''glassroot.dev/markdown-renderer/v1alpha1'', out_Bytes = out,
                out_Digest = digestBytes sha markdownDigestDomain out\<rparr>)"
    using assms(1,2,4) by (simp add: RenderMarkdown_def assms(3) Let_def)
  show ?thesis
  proof (intro conjI allI impI)
    show "(\<exists>out. RenderMarkdown sha js ctx (Some r) l = Inr out) \<longleftrightarrow> (\<exists>b. markdownBody l r doc = Inr b)"
      unfolding run using rendered(2) by (auto simp: result_simps Let_def)
  next
    fix out
    assume "RenderMarkdown sha js ctx (Some r) l = Inr out"
    then obtain b where b: "markdownBody l r doc = Inr b" "out_Bytes out = trimNewlines (rb_text b) @ [LF]"
      unfolding run by (auto simp: result_simps Let_def split: if_splits)
    show "filter (\<lambda>x. has_prefix x ''#'' \<or> has_prefix x ''- Finding ID: '' \<or> has_prefix x ''- Effective disposition: '')
        (split_on LF (out_Bytes out))
      = [''# Glassroot report'', ''## Notices'', ''## Runner'', ''## Completeness'', ''## Findings'']
        @ concat (map (\<lambda>f. [''### Finding'',
              ''- Finding ID: '' @ markdownCodeSpan (visible (fi_ID (af_Original f))),
              ''- Effective disposition: '' @ markdownCodeSpan (visible (af_EffectiveDisposition f))])
            (rpo_AppliedFindings (rdo_Policy doc)))
        @ [''## Behavioral delta''] @ map (\<lambda>_. ''### Delta record'') (bs_Records (rdo_Behavior doc))
        @ [''## Authorities'', ''## Limitations'', ''## Safety statement'']"
      using rendered(1) [OF b(1)] by (simp only: b(2))
  qed
qed

lemma small_authorities:
  "brief (ca_Path (rpo_TrustedConfigAuthority (rdo_Policy smallDocument)))"
  "brief (ca_HeadState (rpo_TrustedConfigAuthority (rdo_Policy smallDocument)))"
  "brief (wa_Path (rpo_TrustedWaiverAuthority (rdo_Policy smallDocument)))"
  "brief (wa_BaseState (rpo_TrustedWaiverAuthority (rdo_Policy smallDocument)))"
  "brief (wa_HeadState (rpo_TrustedWaiverAuthority (rdo_Policy smallDocument)))"
  "brief (intText (as_TotalFindings (rpo_Summary (rdo_Policy smallDocument))))"
proof -
  have p: "rdo_Policy smallDocument = policySection smallJSON (fa_doc smallApplication)"
    by (simp add: smallDocument_def report_buildDocument_def)
  have c: "rpo_TrustedConfigAuthority (rdo_Policy smallDocument) = configAuthority (planTrusted constSha)"
    "rpo_TrustedWaiverAuthority (rdo_Policy smallDocument) = waiverAuthority waiveLoaded"
    "rpo_Summary (rdo_Policy smallDocument) = summarizeApplication [smallFinding] []"
    unfolding p policySection_def stripApplicationBundlePaths_def
    by (simp_all add: Let_def smallJSON_def small_app) (simp_all add: smallApplication_def applicationDocument_def)
  show "brief (intText (as_TotalFindings (rpo_Summary (rdo_Policy smallDocument))))"
    unfolding c using small_brief(17) by (simp add: summarizeApplication_def)
  show "brief (ca_Path (rpo_TrustedConfigAuthority (rdo_Policy smallDocument)))"
    "brief (ca_HeadState (rpo_TrustedConfigAuthority (rdo_Policy smallDocument)))"
    unfolding c by (simp_all add: configAuthority_def planTrusted_def assessment_def Let_def brief_def verbatim_char_def ascii_simps)
  show "brief (wa_Path (rpo_TrustedWaiverAuthority (rdo_Policy smallDocument)))"
    "brief (wa_BaseState (rpo_TrustedWaiverAuthority (rdo_Policy smallDocument)))"
    "brief (wa_HeadState (rpo_TrustedWaiverAuthority (rdo_Policy smallDocument)))"
    unfolding c by (simp_all add: waiverAuthority_def waiveLoaded_def waiveBase_def noHead_def brief_def verbatim_char_def ascii_simps)
qed

lemma small_markdown: "\<exists>b. markdownBody DefaultRenderLimits smallReport smallDocument = Inr b"
proof -
  have r: "rc_Name smallRunner = ''vm''" "rc_Version smallRunner = ''v1''" "rc_IsolationTier smallRunner = ''microvm''"
    by (simp_all add: smallRunner_def)
  let ?b0 = "newBuilder DefaultRenderLimits (rn_MaxMarkdownBytes DefaultRenderLimits) ''markdown-too-large''"
  let ?b1 = "steps (markdownHead smallReport smallDocument) ?b0"
  have "list_all short (markdownHead smallReport smallDocument)"
    by (simp add: markdownHead_def small_notices small_values r smallReport_def small_brief small_authorities short_kv
        short_listKV short_heading)
  moreover have "room (200 + 2 * length (markdownHead smallReport smallDocument)) ?b0"
    by (rule room_new) (simp_all add: markdownHead_def small_notices)
  ultimately have b1: "room 200 ?b1" by (rule room_steps)
  obtain fs where fs: "\<And>b. finding smallFinding b = returnErr (steps fs b)" "list_all short fs" "length fs = 12"
    by (rule that [of "[heading ''### Finding'', kv ''Finding ID'' demoFindingID, kv ''Origin'' ''builtin'',
        kv ''Rule'' ''GR-NET-001 v1alpha1'', kv ''Title'' [], kv ''Severity'' ''high'', kv ''Confidence'' ''high'',
        kv ''Original disposition'' DispositionRequiresReview, kv ''Effective disposition'' DispositionRequiresReview,
        kv ''Waived'' (boolText (findingWaived smallFinding)), kv ''Base observed'' (boolText False),
        kv ''Head observed'' (boolText True)]"])
      (simp_all add: finding_def Let_def smallFinding_def netFinding_def small_brief short_kv short_heading)
  have "room (176 + 2 * length fs) ?b1" using b1 fs(3) by simp
  then have room: "room 176 (steps fs ?b1)" by (rule room_steps [OF fs(2)])
  then have f: "finding smallFinding ?b1 = Inr (steps fs ?b1)" unfolding fs(1) by (rule room_return)
  let ?ls = "[heading ''## Behavioral delta'', kv ''Total delta records'' (intText 0)] @ markdownTail smallDocument"
  have len: "length ?ls = 11" by (simp add: markdownTail_def small_values)
  have "room (154 + 2 * length ?ls) (steps fs ?b1)" using room len by simp
  then have "room 154 (steps ?ls (steps fs ?b1))"
    by (rule room_steps [rotated])
      (simp add: markdownTail_def small_values small_brief small_authorities short_kv short_heading short_line)
  then have "returnErr (steps ?ls (steps fs ?b1)) = Inr (steps ?ls (steps fs ?b1))" by (rule room_return)
  with f show ?thesis by (simp add: markdownBody_def small_values)
qed

lemma markdown_outline_fixed_witness:
  "\<exists>out. RenderMarkdown constSha smallJSON live (Some smallReport) DefaultRenderLimits = Inr out
     \<and> filter (\<lambda>x. has_prefix x ''#'' \<or> has_prefix x ''- Finding ID: '' \<or> has_prefix x ''- Effective disposition: '')
         (split_on LF (out_Bytes out))
       = [''# Glassroot report'', ''## Notices'', ''## Runner'', ''## Completeness'', ''## Findings'', ''### Finding'',
          ''- Finding ID: '' @ markdownCodeSpan (visible demoFindingID),
          ''- Effective disposition: '' @ markdownCodeSpan (visible DispositionRequiresReview),
          ''## Behavioral delta'', ''## Authorities'', ''## Limitations'', ''## Safety statement'']"
proof -
  note * = markdown_outline_fixed [where ctx = live and sha = constSha, OF live_apply small_render(1,3,2)]
  from * small_markdown obtain out where out: "RenderMarkdown constSha smallJSON live (Some smallReport) DefaultRenderLimits = Inr out"
    by blast
  have "fi_ID (af_Original smallFinding) = demoFindingID" "af_EffectiveDisposition smallFinding = DispositionRequiresReview"
    by (simp_all add: smallFinding_def netFinding_def)
  with * out show ?thesis by (intro exI [of _ out]) (simp add: small_values)
qed

end
