(* ===== verification/GithubInbox.thy ===== *)
theory GithubInbox
  imports ControllerOutbox Compare
begin

text \<open>
  The durable inbox of the webhook receiver (\<open>src/internal/githubinbox\<close>): the two tables of \<open>schema.go\<close>, the
  acceptance of a verified delivery, and the leases of the outbox.

  \<^item> The conventions are those of the controller store: a table with a primary key is an association list, one
    operation is one transaction, and an error leaves the tables as they were. The one exception is a
    delivery conflict, which commits its counter and still returns an error.
  \<^item> Times are stored as RFC 3339 texts with a trimmed fraction and compared as texts. The part up to the
    seconds has one width for the years 0 to 9999 and compares as the number of seconds; the rest,
    \<open>Z\<close> or a dot, digits and \<open>Z\<close>, is kept as it is written and compared byte by byte.
  \<^item> \<open>json.Marshal\<close> and \<open>json.Unmarshal\<close> of projections and receipts are arguments.
\<close>

section \<open>Stored times\<close>

record TimeText =
  tx_seconds :: int
  tx_rest :: string

definition trim_zeros :: "string \<Rightarrow> string" where
  "trim_zeros s = rev (dropWhile (\<lambda>c. c = CHR ''0'') (rev s))"

text \<open>The digits of a number, padded to a width.\<close>

fun pad_digits :: "nat \<Rightarrow> nat \<Rightarrow> string" where
  "pad_digits 0 n = []"
| "pad_digits (Suc w) n = pad_digits w (n div 10) @ [digit_of (n mod 10)]"

definition inbox_formatTime :: "StoreTime \<Rightarrow> TimeText" where
  "inbox_formatTime t = (let frac = nat (st_nanos t mod 10 ^ 9) in
     \<lparr> tx_seconds = st_nanos t div 10 ^ 9,
       tx_rest = (if frac = 0 then ''Z'' else ''.'' @ trim_zeros (pad_digits 9 frac) @ ''Z'') \<rparr>)"

fun digits_value :: "nat \<Rightarrow> string \<Rightarrow> nat" where
  "digits_value w [] = 0"
| "digits_value 0 (c # cs) = 0"
| "digits_value (Suc w) (c # cs) = digit_val c * 10 ^ w + digits_value w cs"

definition inbox_parseTime :: "TimeText \<Rightarrow> int" where
  "inbox_parseTime x = tx_seconds x * 10 ^ 9 + int (digits_value 9 (butlast (tl (tx_rest x))))"

text \<open>\<open>a <= b\<close> in SQL, on the stored texts.\<close>

definition text_le :: "TimeText \<Rightarrow> TimeText \<Rightarrow> bool" where
  "text_le a b \<longleftrightarrow> tx_seconds a < tx_seconds b \<or> tx_seconds a = tx_seconds b \<and> tx_rest a \<le> tx_rest b"

section \<open>Records and tables\<close>

abbreviation DeliveryDispositionEnqueued :: string where "DeliveryDispositionEnqueued \<equiv> ''enqueued''"
abbreviation DeliveryDispositionIgnored :: string where "DeliveryDispositionIgnored \<equiv> ''ignored''"
abbreviation SchemaGitHubWebhookReceiptV1Alpha1 :: string where
  "SchemaGitHubWebhookReceiptV1Alpha1 \<equiv> ''glassroot.dev/github-webhook-receipt/v1alpha1''"

abbreviation AcceptNewEnqueued :: string where "AcceptNewEnqueued \<equiv> ''new-enqueued''"
abbreviation AcceptNewIgnored :: string where "AcceptNewIgnored \<equiv> ''new-ignored''"
abbreviation AcceptDuplicateSameDelivery :: string where
  "AcceptDuplicateSameDelivery \<equiv> ''duplicate-same-delivery''"
abbreviation AcceptDeliveryConflict :: string where "AcceptDeliveryConflict \<equiv> ''delivery-conflict''"

abbreviation OutboxStatePending :: string where "OutboxStatePending \<equiv> ''pending''"
abbreviation OutboxStateLeased :: string where "OutboxStateLeased \<equiv> ''leased''"
abbreviation OutboxStateAcknowledged :: string where "OutboxStateAcknowledged \<equiv> ''acknowledged''"

abbreviation DomainIntakeFingerprint :: string where
  "DomainIntakeFingerprint \<equiv> ''glassroot.dev/github-webhook-intake/v1'' @ [NUL]"
abbreviation DomainOutboxRecordID :: string where
  "DomainOutboxRecordID \<equiv> ''glassroot.dev/github-outbox-record-id/v1'' @ [NUL]"

record InboxLimits =
  bx_MaxStateDirBytes :: int
  bx_MaxDatabaseBytes :: int
  bx_BusyTimeoutMilliseconds :: int
  bx_MaxOpenConnections :: int
  bx_MaxIdleConnections :: int
  bx_MaxLeaseOwnerBytes :: int
  bx_MaxClaimLimit :: int
  bx_MaxLeaseDurationSeconds :: int

definition inbox_DefaultLimits :: InboxLimits where
  "inbox_DefaultLimits = \<lparr> bx_MaxStateDirBytes = 4096, bx_MaxDatabaseBytes = 8589934592,
     bx_BusyTimeoutMilliseconds = 500, bx_MaxOpenConnections = 4, bx_MaxIdleConnections = 4,
     bx_MaxLeaseOwnerBytes = 128, bx_MaxClaimLimit = 256, bx_MaxLeaseDurationSeconds = 86400 \<rparr>"

definition inboxErr :: "string \<Rightarrow> string \<Rightarrow> go_error" where
  "inboxErr code stage = GoError code stage []"

definition inbox_validateLimits :: "InboxLimits \<Rightarrow> go_error option" where
  "inbox_validateLimits l =
     (if bx_MaxStateDirBytes l \<le> 0 \<or> bx_MaxStateDirBytes l > 4096
        \<or> bx_MaxDatabaseBytes l \<le> 0 \<or> bx_MaxDatabaseBytes l > 8589934592
        \<or> bx_BusyTimeoutMilliseconds l \<le> 0 \<or> bx_BusyTimeoutMilliseconds l > 30000
        \<or> bx_MaxOpenConnections l \<le> 0 \<or> bx_MaxOpenConnections l > 16
        \<or> bx_MaxIdleConnections l < 0 \<or> bx_MaxIdleConnections l > bx_MaxOpenConnections l
        \<or> bx_MaxLeaseOwnerBytes l \<le> 0 \<or> bx_MaxLeaseOwnerBytes l > 128
        \<or> bx_MaxClaimLimit l \<le> 0 \<or> bx_MaxClaimLimit l > 256
        \<or> bx_MaxLeaseDurationSeconds l \<le> 0 \<or> bx_MaxLeaseDurationSeconds l > 86400
      then Some (inboxErr ''invalid-limits'' ''limits'') else None)"

definition validateReceiverID :: "string \<Rightarrow> go_error option" where
  "validateReceiverID rid =
     (if rid = [] \<or> length rid > 64 \<or> \<not> byte_in 97 122 (hd rid) \<or> hasControl rid
      then Some (inboxErr ''record-invalid'' ''receiver'')
      else if \<not> list_all (\<lambda>c. byte_in 97 122 c \<or> byte_in 48 57 c \<or> c = CHR ''.'' \<or> c = CHR ''_'' \<or> c = CHR ''-'') rid
      then Some (inboxErr ''record-invalid'' ''receiver'')
      else None)"

record InboxConfig =
  ic_ReceiverID :: string
  ic_Limits :: InboxLimits

record VerifiedDelivery =
  vd_ReceiverID :: string
  vd_DeliveryID :: string
  vd_Event :: string
  vd_Action :: string
  vd_BodyDigest :: string
  vd_MatchedSecret :: string
  vd_ReceivedAt :: StoreTime
  vd_Projection :: WebhookProjection
  vd_Receipt :: DeliveryReceipt
  vd_Disposition :: string
  vd_IntakeFingerprint :: string

record AcceptResult =
  ax_Decision :: string
  ax_OutboxID :: string

record LeasedRecord =
  le_ID :: string
  le_ReceiverID :: string
  le_DeliveryID :: string
  le_Sequence :: nat
  le_ProjectionKind :: string
  le_Projection :: WebhookProjection
  le_ProjectionDigest :: string
  le_Receipt :: DeliveryReceipt
  le_LeaseOwner :: string
  le_LeaseGeneration :: int
  le_AttemptCount :: int
  le_CreatedAt :: int
  le_LeaseExpiresAt :: StoreTime

record InboxRow =
  ib_body_digest :: string
  ib_intake_fingerprint :: string
  ib_event_name :: string
  ib_action :: "string option"
  ib_projection_kind :: string
  ib_disposition :: string
  ib_matched_secret :: string
  ib_received_at :: TimeText
  ib_installation_id :: "int option"
  ib_repository_id :: "int option"
  ib_pull_request_number :: "int option"
  ib_check_run_id :: "int option"
  ib_base_sha :: "string option"
  ib_head_sha :: "string option"
  ib_receipt_json :: string
  ib_projection_json :: string
  ib_record_digest :: string
  ib_conflict_count :: int
  ib_created_at :: TimeText

record OutboxRow =
  ox_sequence :: nat
  ox_id :: string
  ox_receiver_id :: string
  ox_delivery_id :: string
  ox_projection_kind :: string
  ox_projection_json :: string
  ox_projection_digest :: string
  ox_receipt_json :: string
  ox_state :: string
  ox_lease_owner :: string
  ox_lease_generation :: int
  ox_lease_expires_at :: "TimeText option"
  ox_attempt_count :: int
  ox_created_at :: TimeText
  ox_acknowledged_at :: "TimeText option"
  ox_last_failure_code :: "string option"

record InboxDB =
  ix_inbox :: "((string \<times> string) \<times> InboxRow) list"
  ix_outbox :: "OutboxRow list"

definition emptyInbox :: InboxDB where
  "emptyInbox = \<lparr> ix_inbox = [], ix_outbox = [] \<rparr>"

text \<open>\<open>json.Marshal\<close> and \<open>json.Unmarshal\<close> of the stored documents.\<close>

record inbox_json =
  projectionJSON :: "WebhookProjection \<Rightarrow> string option"
  receiptJSON :: "DeliveryReceipt \<Rightarrow> string option"
  readProjection :: "string \<Rightarrow> WebhookProjection option"
  readReceipt :: "string \<Rightarrow> DeliveryReceipt option"

definition ComputeIntakeFingerprint ::
  "(string \<Rightarrow> string) \<Rightarrow> string \<Rightarrow> string \<Rightarrow> string \<Rightarrow> string \<Rightarrow> string \<Rightarrow> string" where
  "ComputeIntakeFingerprint sha receiverID deliveryID eventName bodyDigest projectionKind =
     ''sha256:'' @ domainHash sha DomainIntakeFingerprint [receiverID, deliveryID, eventName, bodyDigest, projectionKind]"

definition computeOutboxID :: "(string \<Rightarrow> string) \<Rightarrow> string \<Rightarrow> string \<Rightarrow> string \<Rightarrow> string \<Rightarrow> string" where
  "computeOutboxID sha receiverID deliveryID intakeFingerprint projectionKind =
     ''outbox-'' @ domainHash sha DomainOutboxRecordID [receiverID, deliveryID, intakeFingerprint, projectionKind]"

section \<open>Acceptance\<close>

definition validateDelivery :: "string \<Rightarrow> VerifiedDelivery \<Rightarrow> go_error option" where
  "validateDelivery receiverID d =
     (if vd_ReceiverID d \<noteq> receiverID \<or> vd_DeliveryID d = [] \<or> vd_Event d = [] \<or> \<not> validDigest (vd_BodyDigest d)
        \<or> \<not> validDigest (vd_IntakeFingerprint d)
        \<or> dr_SchemaVersion (vd_Receipt d) \<noteq> SchemaGitHubWebhookReceiptV1Alpha1
        \<or> dr_DeliveryID (vd_Receipt d) \<noteq> vd_DeliveryID d \<or> dr_Event (vd_Receipt d) \<noteq> vd_Event d
        \<or> dr_BodyDigest (vd_Receipt d) \<noteq> vd_BodyDigest d
        \<or> dr_ProjectionKind (vd_Receipt d) \<noteq> wp_Kind (vd_Projection d)
      then Some (inboxErr ''record-invalid'' ''delivery'')
      else if vd_MatchedSecret d \<noteq> SecretGenerationCurrent \<and> vd_MatchedSecret d \<noteq> SecretGenerationPrevious
      then Some (inboxErr ''record-invalid'' ''delivery'')
      else if \<not> validTime (vd_ReceivedAt d) then Some (inboxErr ''record-invalid'' ''delivery'')
      else if vd_Disposition d \<noteq> DeliveryDispositionEnqueued \<and> vd_Disposition d \<noteq> DeliveryDispositionIgnored
      then Some (inboxErr ''record-invalid'' ''delivery'')
      else None)"

definition inboxRecordDigest :: "(string \<Rightarrow> string) \<Rightarrow> VerifiedDelivery \<Rightarrow> string \<Rightarrow> string \<Rightarrow> string" where
  "inboxRecordDigest sha d receipt projection =
     digestBytes sha (''glassroot.dev/github-inbox-record/v1'' @ [NUL])
       (join_nul [vd_ReceiverID d, vd_DeliveryID d, vd_IntakeFingerprint d, receipt, projection])"

definition projectionID :: "WebhookProjection \<Rightarrow> string \<Rightarrow> int option" where
  "projectionID p which =
     (if which = ''installation'' then
        (case wp_PullRequest p of Some r \<Rightarrow> Some (prp_InstallationID r)
         | None \<Rightarrow> (case wp_CheckRun p of Some c \<Rightarrow> Some (crp_InstallationID c)
            | None \<Rightarrow> map_option inp_InstallationID (wp_Installation p)))
      else if which = ''repository'' then
        (case wp_PullRequest p of Some r \<Rightarrow> Some (prp_RepositoryID r)
         | None \<Rightarrow> map_option crp_RepositoryID (wp_CheckRun p))
      else if which = ''pr'' then map_option prp_PullRequestNumber (wp_PullRequest p)
      else if which = ''check'' then map_option crp_CheckRunID (wp_CheckRun p)
      else None)"

definition projectionSHA :: "WebhookProjection \<Rightarrow> string \<Rightarrow> string option" where
  "projectionSHA p which =
     (case wp_PullRequest p of
        Some r \<Rightarrow> Some (if which = ''base'' then prp_BaseSHA r else prp_HeadSHA r)
      | None \<Rightarrow> (case wp_CheckRun p of
          Some c \<Rightarrow> (if which = ''head'' then Some (crp_HeadSHA c) else None) | None \<Rightarrow> None))"

definition nullableAction :: "string \<Rightarrow> string option" where
  "nullableAction a = (if a = [] then None else Some a)"

definition inboxRow :: "(string \<Rightarrow> string) \<Rightarrow> VerifiedDelivery \<Rightarrow> string \<Rightarrow> string \<Rightarrow> InboxRow" where
  "inboxRow sha d receipt projection = (let p = vd_Projection d in
     \<lparr> ib_body_digest = vd_BodyDigest d, ib_intake_fingerprint = vd_IntakeFingerprint d,
       ib_event_name = vd_Event d, ib_action = nullableAction (vd_Action d), ib_projection_kind = wp_Kind p,
       ib_disposition = vd_Disposition d, ib_matched_secret = vd_MatchedSecret d,
       ib_received_at = inbox_formatTime (vd_ReceivedAt d),
       ib_installation_id = projectionID p ''installation'', ib_repository_id = projectionID p ''repository'',
       ib_pull_request_number = projectionID p ''pr'', ib_check_run_id = projectionID p ''check'',
       ib_base_sha = projectionSHA p ''base'', ib_head_sha = projectionSHA p ''head'',
       ib_receipt_json = receipt, ib_projection_json = projection,
       ib_record_digest = inboxRecordDigest sha d receipt projection, ib_conflict_count = 0,
       ib_created_at = inbox_formatTime (vd_ReceivedAt d) \<rparr>)"

text \<open>
  \<open>INSERT OR IGNORE\<close>: nothing is inserted when the primary key or the pair of receiver and fingerprint
  exists.
\<close>

definition inboxClash :: "VerifiedDelivery \<Rightarrow> ((string \<times> string) \<times> InboxRow) list \<Rightarrow> bool" where
  "inboxClash d tbl \<longleftrightarrow> list_ex (\<lambda>((r, i), row). r = vd_ReceiverID d
     \<and> (i = vd_DeliveryID d \<or> ib_intake_fingerprint row = vd_IntakeFingerprint d)) tbl"

definition nextOutboxSequence :: "OutboxRow list \<Rightarrow> nat" where
  "nextOutboxSequence rows = Suc (foldr max (map ox_sequence rows) 0)"

text \<open>\<open>INSERT INTO github_outbox\<close>; \<open>None\<close> when the identifier exists.\<close>

definition insertOutbox ::
  "(string \<Rightarrow> string) \<Rightarrow> VerifiedDelivery \<Rightarrow> string \<Rightarrow> string \<Rightarrow> OutboxRow list \<Rightarrow> (OutboxRow list \<times> string) option" where
  "insertOutbox sha d receipt projection rows =
     (let oid = computeOutboxID sha (vd_ReceiverID d) (vd_DeliveryID d) (vd_IntakeFingerprint d) (wp_Kind (vd_Projection d))
      in if list_ex (\<lambda>r. ox_id r = oid) rows then None
         else Some (rows @ [\<lparr> ox_sequence = nextOutboxSequence rows, ox_id = oid, ox_receiver_id = vd_ReceiverID d,
           ox_delivery_id = vd_DeliveryID d, ox_projection_kind = wp_Kind (vd_Projection d),
           ox_projection_json = projection,
           ox_projection_digest = digestBytes sha (''glassroot.dev/github-projection-json/v1'' @ [NUL]) projection,
           ox_receipt_json = receipt, ox_state = OutboxStatePending, ox_lease_owner = [],
           ox_lease_generation = 0, ox_lease_expires_at = None, ox_attempt_count = 0,
           ox_created_at = inbox_formatTime (vd_ReceivedAt d), ox_acknowledged_at = None,
           ox_last_failure_code = None \<rparr>], oid))"

definition noAccept :: AcceptResult where
  "noAccept = \<lparr> ax_Decision = [], ax_OutboxID = [] \<rparr>"

text \<open>The transaction of \<open>Accept\<close>, with the result and the error it returns.\<close>

definition acceptDelivery ::
  "(string \<Rightarrow> string) \<Rightarrow> InboxDB \<Rightarrow> VerifiedDelivery \<Rightarrow> string \<Rightarrow> string
   \<Rightarrow> InboxDB \<times> AcceptResult \<times> go_error option" where
  "acceptDelivery sha db d receipt projection =
     (let key = (vd_ReceiverID d, vd_DeliveryID d) in
      if inboxClash d (ix_inbox db) then
        (case map_of (ix_inbox db) key of
           None \<Rightarrow> (db, noAccept, Some (inboxErr ''transaction-failed'' ''accept''))
         | Some row \<Rightarrow>
             if ib_intake_fingerprint row = vd_IntakeFingerprint d
             then (db, noAccept\<lparr> ax_Decision := AcceptDuplicateSameDelivery \<rparr>, None)
             else (db\<lparr> ix_inbox := update_rows (\<lambda>k _. k = key) (\<lambda>r. r\<lparr> ib_conflict_count := ib_conflict_count r + 1 \<rparr>)
                        (ix_inbox db) \<rparr>,
                   noAccept\<lparr> ax_Decision := AcceptDeliveryConflict \<rparr>,
                   Some (inboxErr ''delivery-conflict'' ''accept'')))
      else let db1 = db\<lparr> ix_inbox := ix_inbox db @ [(key, inboxRow sha d receipt projection)] \<rparr>
      in if vd_Disposition d = DeliveryDispositionEnqueued then
           (case insertOutbox sha d receipt projection (ix_outbox db) of
              None \<Rightarrow> (db, noAccept, Some (inboxErr ''transaction-failed'' ''accept''))
            | Some (rows, oid) \<Rightarrow> (db1\<lparr> ix_outbox := rows \<rparr>,
                noAccept\<lparr> ax_Decision := AcceptNewEnqueued, ax_OutboxID := oid \<rparr>, None))
         else (db1, noAccept\<lparr> ax_Decision := AcceptNewIgnored \<rparr>, None))"

definition Accept ::
  "(string \<Rightarrow> string) \<Rightarrow> inbox_json \<Rightarrow> InboxConfig \<Rightarrow> InboxDB \<Rightarrow> VerifiedDelivery
   \<Rightarrow> InboxDB \<times> AcceptResult \<times> go_error option" where
  "Accept sha js s db d =
     (case validateDelivery (ic_ReceiverID s) d of
        Some e \<Rightarrow> (db, noAccept, Some e)
      | None \<Rightarrow>
       (case projectionJSON js (vd_Projection d) of
          None \<Rightarrow> (db, noAccept, Some (inboxErr ''serialization-failed'' ''json''))
        | Some projection \<Rightarrow>
         (case receiptJSON js (vd_Receipt d) of
            None \<Rightarrow> (db, noAccept, Some (inboxErr ''serialization-failed'' ''json''))
          | Some receipt \<Rightarrow> acceptDelivery sha db d receipt projection)))"

section \<open>Leases of the outbox\<close>

definition validateLeaseInputs :: "InboxConfig \<Rightarrow> string \<Rightarrow> StoreTime \<Rightarrow> int \<Rightarrow> int \<Rightarrow> go_error option" where
  "validateLeaseInputs s owner now duration limit =
     (if owner = [] \<or> int (length owner) > bx_MaxLeaseOwnerBytes (ic_Limits s) \<or> hasControl owner
      then Some (inboxErr ''lease-owner-invalid'' ''lease'')
      else if \<not> validTime now then Some (inboxErr ''record-invalid'' ''lease'')
      else if duration \<le> 0 \<or> duration > bx_MaxLeaseDurationSeconds (ic_Limits s) * 10 ^ 9
      then Some (inboxErr ''lease-duration-invalid'' ''lease'')
      else if limit \<le> 0 \<or> limit > bx_MaxClaimLimit (ic_Limits s)
      then Some (inboxErr ''outbox-state-invalid'' ''lease'')
      else None)"

definition outboxClaimable :: "TimeText \<Rightarrow> OutboxRow \<Rightarrow> bool" where
  "outboxClaimable now r \<longleftrightarrow> ox_state r = OutboxStatePending
     \<or> ox_state r = OutboxStateLeased
       \<and> (case ox_lease_expires_at r of None \<Rightarrow> False | Some e \<Rightarrow> text_le e now)"

definition outboxCandidates :: "InboxDB \<Rightarrow> TimeText \<Rightarrow> nat \<Rightarrow> OutboxRow list" where
  "outboxCandidates db now limit =
     take limit (slice_stable (\<lambda>a b. ox_sequence a < ox_sequence b) (filter (outboxClaimable now) (ix_outbox db)))"

text \<open>The candidate that is read from one row.\<close>

definition leasedRecord :: "inbox_json \<Rightarrow> string \<Rightarrow> StoreTime \<Rightarrow> OutboxRow \<Rightarrow> LeasedRecord result" where
  "leasedRecord js owner expires r =
     (if ox_lease_generation r = MaxInt64 then Inl (inboxErr ''lease-generation-overflow'' ''lease'')
      else if ox_attempt_count r = MaxInt64 then Inl (inboxErr ''attempt-count-overflow'' ''lease'')
      else (case readProjection js (ox_projection_json r) of
          None \<Rightarrow> Inl (inboxErr ''record-invalid'' ''lease'')
        | Some projection \<Rightarrow>
         (case readReceipt js (ox_receipt_json r) of
            None \<Rightarrow> Inl (inboxErr ''record-invalid'' ''lease'')
          | Some receipt \<Rightarrow> Inr \<lparr> le_ID = ox_id r, le_ReceiverID = ox_receiver_id r, le_DeliveryID = ox_delivery_id r,
              le_Sequence = ox_sequence r, le_ProjectionKind = ox_projection_kind r, le_Projection = projection,
              le_ProjectionDigest = ox_projection_digest r, le_Receipt = receipt, le_LeaseOwner = owner,
              le_LeaseGeneration = ox_lease_generation r + 1, le_AttemptCount = ox_attempt_count r + 1,
              le_CreatedAt = inbox_parseTime (ox_created_at r), le_LeaseExpiresAt = expires \<rparr>)))"

definition outboxMatches :: "TimeText \<Rightarrow> LeasedRecord \<Rightarrow> OutboxRow \<Rightarrow> bool" where
  "outboxMatches now c r \<longleftrightarrow> ox_id r = le_ID c \<and> ox_sequence r = le_Sequence c
     \<and> ox_lease_generation r = le_LeaseGeneration c - 1 \<and> outboxClaimable now r"

definition leaseOutboxRow :: "LeasedRecord \<Rightarrow> OutboxRow \<Rightarrow> OutboxRow" where
  "leaseOutboxRow c r = r\<lparr> ox_state := OutboxStateLeased, ox_lease_owner := le_LeaseOwner c,
     ox_lease_generation := le_LeaseGeneration c, ox_lease_expires_at := Some (inbox_formatTime (le_LeaseExpiresAt c)),
     ox_attempt_count := le_AttemptCount c \<rparr>"

fun claimOutboxAll ::
  "TimeText \<Rightarrow> LeasedRecord list \<Rightarrow> OutboxRow list \<Rightarrow> (OutboxRow list \<times> LeasedRecord list) result" where
  "claimOutboxAll now [] rows = Inr (rows, [])"
| "claimOutboxAll now (c # cs) rows =
     (let n = length (filter (outboxMatches now c) rows);
          rows' = map (\<lambda>r. if outboxMatches now c r then leaseOutboxRow c r else r) rows
      in if n = 0 then claimOutboxAll now cs rows'
         else if n \<noteq> 1 then Inl (inboxErr ''outbox-state-invalid'' ''lease'')
         else rbind (claimOutboxAll now cs rows') (\<lambda>(rows'', out). Inr (rows'', c # out)))"

fun leasedRecords :: "inbox_json \<Rightarrow> string \<Rightarrow> StoreTime \<Rightarrow> OutboxRow list \<Rightarrow> LeasedRecord list result" where
  "leasedRecords js owner expires [] = Inr []"
| "leasedRecords js owner expires (r # rs) =
     rbind (leasedRecord js owner expires r) (\<lambda>c.
     rbind (leasedRecords js owner expires rs) (\<lambda>cs. Inr (c # cs)))"

definition ClaimOutbox ::
  "inbox_json \<Rightarrow> InboxConfig \<Rightarrow> InboxDB \<Rightarrow> string \<Rightarrow> StoreTime \<Rightarrow> int \<Rightarrow> int
   \<Rightarrow> (InboxDB \<times> LeasedRecord list) result" where
  "ClaimOutbox js s db owner now duration limit =
     rcheck (validateLeaseInputs s owner now duration limit)
     (let expires = addTime now duration; nowText = inbox_formatTime now
      in rbind (leasedRecords js owner expires (outboxCandidates db nowText (nat limit))) (\<lambda>candidates.
         rbind (claimOutboxAll nowText candidates (ix_outbox db)) (\<lambda>(rows, claimed).
         Inr (db\<lparr> ix_outbox := rows \<rparr>, claimed))))"

definition finishLease ::
  "InboxDB \<Rightarrow> string \<Rightarrow> string \<Rightarrow> int \<Rightarrow> StoreTime \<Rightarrow> bool \<Rightarrow> string \<Rightarrow> InboxDB result" where
  "finishLease db oid owner generation stamp ack failureCode =
     (if oid = [] \<or> owner = [] \<or> generation = 0 \<or> \<not> validTime stamp
      then Inl (inboxErr ''stale-lease'' ''lease'')
      else case List.find (\<lambda>r. ox_id r = oid) (ix_outbox db) of
        None \<Rightarrow> Inl (inboxErr ''stale-lease'' ''lease'')
      | Some row \<Rightarrow>
          if ox_lease_owner row \<noteq> owner \<or> ox_lease_generation row mod 2 ^ 64 \<noteq> generation
          then Inl (inboxErr ''stale-lease'' ''lease'')
          else if ack \<and> ox_state row = OutboxStateAcknowledged then Inr db
          else if ox_state row \<noteq> OutboxStateLeased then Inl (inboxErr ''outbox-state-invalid'' ''lease'')
          else Inr (db\<lparr> ix_outbox := map (\<lambda>r. if ox_id r = oid then
                 (if ack then r\<lparr> ox_state := OutboxStateAcknowledged, ox_acknowledged_at := Some (inbox_formatTime stamp) \<rparr>
                  else r\<lparr> ox_state := OutboxStatePending, ox_lease_expires_at := None,
                          ox_last_failure_code := Some failureCode \<rparr>)
               else r) (ix_outbox db) \<rparr>))"

definition AcknowledgeOutbox ::
  "InboxDB \<Rightarrow> string \<Rightarrow> string \<Rightarrow> int \<Rightarrow> StoreTime \<Rightarrow> InboxDB result" where
  "AcknowledgeOutbox db oid owner generation stamp = finishLease db oid owner generation stamp True []"

definition ReleaseOutbox ::
  "InboxDB \<Rightarrow> string \<Rightarrow> string \<Rightarrow> int \<Rightarrow> StoreTime \<Rightarrow> string \<Rightarrow> InboxDB result" where
  "ReleaseOutbox db oid owner generation stamp failureCode =
     (if failureCode \<noteq> [] \<and> (length failureCode > 64 \<or> hasControl failureCode)
      then Inl (inboxErr ''outbox-state-invalid'' ''lease'')
      else finishLease db oid owner generation stamp False failureCode)"

text \<open>One committed transaction of the inbox, of any of its operations.\<close>

inductive inbox_step :: "(string \<Rightarrow> string) \<Rightarrow> inbox_json \<Rightarrow> InboxConfig \<Rightarrow> InboxDB \<Rightarrow> InboxDB \<Rightarrow> bool"
  for sha js s where
  accept: "Accept sha js s db d = (db', res, err) \<Longrightarrow> inbox_step sha js s db db'"
| claim: "ClaimOutbox js s db owner now duration limit = Inr (db', recs) \<Longrightarrow> inbox_step sha js s db db'"
| acknowledge: "AcknowledgeOutbox db oid owner g t = Inr db' \<Longrightarrow> inbox_step sha js s db db'"
| release: "ReleaseOutbox db oid owner g t c = Inr db' \<Longrightarrow> inbox_step sha js s db db'"

definition inbox_reachable :: "(string \<Rightarrow> string) \<Rightarrow> inbox_json \<Rightarrow> InboxConfig \<Rightarrow> InboxDB \<Rightarrow> bool" where
  "inbox_reachable sha js s db \<longleftrightarrow> (inbox_step sha js s)\<^sup>*\<^sup>* emptyInbox db"

end
