(* ===== verification/GithubPayload.thy ===== *)
theory GithubPayload
  imports GithubApp
begin

text \<open>
  The body of a webhook (\<open>jsonscan.go\<close> and \<open>payload.go\<close> of \<open>src/internal/githubapp\<close>): the scan of the JSON
  tokens before anything is decoded, and the projection of the decoded payload.

  \<^item> \<open>json.Decoder\<close> is a stream of tokens that ends or breaks off: the tokens it returns until the end of the body,
    and whether a syntax error follows them. \<open>More\<close> looks at the next token. At a syntax error the
    decoder may answer \<open>More\<close> either way; the scan rejects the body in both cases.
  \<^item> \<open>Decode\<close> into the payload structures is an argument.
  \<^item> The recursion of the scan has a bound, which the number of tokens makes large enough.
\<close>

section \<open>The scan\<close>

datatype json_token = is_JDelim: JDelim char | JString string | JNumber string | JBool bool | JNull

type_synonym json_stream = "json_token list"

definition hasMore :: "bool \<Rightarrow> json_stream \<Rightarrow> bool" where
  "hasMore bad ts = (case ts of [] \<Rightarrow> bad | t # _ \<Rightarrow> t \<noteq> JDelim CHR ''}'' \<and> t \<noteq> JDelim CHR '']'')"

definition jsonErr :: "string \<Rightarrow> go_error" where
  "jsonErr code = githubErr code ''json''"

text \<open>\<open>counters.add\<close>: the number of tokens with the one that was read.\<close>

definition add_token :: "GithubLimits \<Rightarrow> int \<Rightarrow> int result" where
  "add_token l k = (if k + 1 > gl_MaxJSONTokens l then Inl (jsonErr ''json-token-limit'') else Inr (k + 1))"

definition scalar_error :: "GithubLimits \<Rightarrow> json_token \<Rightarrow> go_error option" where
  "scalar_error l t = (case t of
     JString s \<Rightarrow> (if int (length s) > gl_MaxJSONStringBytes l \<or> NUL \<in> set s then Some (jsonErr ''invalid-json'') else None)
   | JNumber s \<Rightarrow> (if int (length s) > gl_MaxJSONNumberBytes l then Some (jsonErr ''invalid-json'') else None)
   | _ \<Rightarrow> None)"

text \<open>
  The calls of the scan: a value at some depth, the members of an object after those that were read, the
  elements of an array after so many.
\<close>

datatype scan_call = ScanValue int bool | ScanMembers int "string list" | ScanElements int nat

type_synonym scan_result = "(json_stream \<times> int) result option"

text \<open>What follows a nested value: \<open>None\<close> is the end of the bound.\<close>

definition after_value :: "scan_result \<Rightarrow> (json_stream \<Rightarrow> int \<Rightarrow> scan_result) \<Rightarrow> scan_result" where
  "after_value v cont = (case v of None \<Rightarrow> None | Some (Inl e) \<Rightarrow> Some (Inl e) | Some (Inr (ts, k)) \<Rightarrow> cont ts k)"

definition scanClose :: "GithubLimits \<Rightarrow> char \<Rightarrow> json_stream \<Rightarrow> int \<Rightarrow> scan_result" where
  "scanClose l c ts k = Some (case ts of
     [] \<Rightarrow> Inl (jsonErr ''invalid-json'')
   | t # rest \<Rightarrow> if t \<noteq> JDelim c then Inl (jsonErr ''invalid-json'') else rbind (add_token l k) (\<lambda>k1. Inr (rest, k1)))"

definition memberKeyError :: "GithubLimits \<Rightarrow> string list \<Rightarrow> json_token \<Rightarrow> go_error option" where
  "memberKeyError l members t = (case t of
     JString key \<Rightarrow>
       if scalar_error l t \<noteq> None then Some (jsonErr ''invalid-json'')
       else if key \<in> set members then Some (jsonErr ''duplicate-json-member'')
       else if int (Suc (length members)) > gl_MaxMembersPerObject l then Some (jsonErr ''json-token-limit'')
       else None
   | _ \<Rightarrow> Some (jsonErr ''invalid-json''))"

definition token_text :: "json_token \<Rightarrow> string" where
  "token_text t = (case t of JString s \<Rightarrow> s | _ \<Rightarrow> [])"

definition scanStep ::
  "(scan_call \<Rightarrow> json_stream \<Rightarrow> int \<Rightarrow> scan_result) \<Rightarrow> GithubLimits \<Rightarrow> bool \<Rightarrow> scan_call \<Rightarrow> json_stream \<Rightarrow> int \<Rightarrow> scan_result" where
  "scanStep scan l bad call ts k = (case call of
     ScanValue depth atTop \<Rightarrow>
       if depth > gl_MaxJSONDepth l then Some (Inl (jsonErr ''json-depth-limit''))
       else (case ts of
         [] \<Rightarrow> Some (Inl (jsonErr ''invalid-json''))
       | t # rest \<Rightarrow> (case add_token l k of
           Inl e \<Rightarrow> Some (Inl e)
         | Inr k1 \<Rightarrow>
             if t = JDelim CHR ''{'' then scan (ScanMembers depth []) rest k1
             else if atTop then Some (Inl (jsonErr ''invalid-json''))
             else if t = JDelim CHR ''['' then scan (ScanElements depth 0) rest k1
             else if is_JDelim t then Some (Inl (jsonErr ''invalid-json''))
             else Some (case scalar_error l t of Some e \<Rightarrow> Inl e | None \<Rightarrow> Inr (rest, k1))))
   | ScanMembers depth members \<Rightarrow>
       if hasMore bad ts then (case ts of
         [] \<Rightarrow> Some (Inl (jsonErr ''invalid-json''))
       | t # rest \<Rightarrow> (case add_token l k of
           Inl e \<Rightarrow> Some (Inl e)
         | Inr k1 \<Rightarrow> (case memberKeyError l members t of
             Some e \<Rightarrow> Some (Inl e)
           | None \<Rightarrow> after_value (scan (ScanValue (depth + 1) False) rest k1)
               (scan (ScanMembers depth (token_text t # members))))))
       else scanClose l CHR ''}'' ts k
   | ScanElements depth seen \<Rightarrow>
       if hasMore bad ts then
         if int (Suc seen) > gl_MaxArrayElements l then Some (Inl (jsonErr ''json-token-limit''))
         else after_value (scan (ScanValue (depth + 1) False) ts k) (scan (ScanElements depth (Suc seen)))
       else scanClose l CHR '']'' ts k)"

primrec scanJSON :: "nat \<Rightarrow> GithubLimits \<Rightarrow> bool \<Rightarrow> scan_call \<Rightarrow> json_stream \<Rightarrow> int \<Rightarrow> scan_result" where
  "scanJSON 0 l bad call ts k = None"
| "scanJSON (Suc n) l bad call ts k = scanStep (scanJSON n l bad) l bad call ts k"

text \<open>The bound that suffices for a stream.\<close>

definition scan_bound :: "json_stream \<Rightarrow> nat" where
  "scan_bound ts = 2 * length ts + 2"

definition scanBody :: "GithubLimits \<Rightarrow> json_stream \<Rightarrow> bool \<Rightarrow> go_error option" where
  "scanBody l ts bad = (case scanJSON (scan_bound ts) l bad (ScanValue 1 True) ts 0 of
     None \<Rightarrow> Some (jsonErr ''invalid-json'')
   | Some (Inl e) \<Rightarrow> Some e
   | Some (Inr (rest, _)) \<Rightarrow>
       if rest \<noteq> [] then Some (jsonErr ''trailing-json'')
       else if bad then Some (jsonErr ''invalid-json'') else None)"

text \<open>What the body holds for the decoders of \<open>encoding/json\<close>.\<close>

record payload_json =
  json_tokens :: "string \<Rightarrow> json_stream \<times> bool"
  json_action :: "string \<Rightarrow> string"
  json_pull_request :: "string \<Rightarrow> PullRequestPayload option"
  json_check_run :: "string \<Rightarrow> CheckRunPayload option"
  json_installation :: "string \<Rightarrow> InstallationPayload option"

definition PreflightGitHubWebhookJSON :: "payload_json \<Rightarrow> string \<Rightarrow> GithubLimits \<Rightarrow> go_error option" where
  "PreflightGitHubWebhookJSON pj body limits =
     echeck (github_validateLimits limits)
     (if int (length body) > gl_MaxWebhookBodyBytes limits then Some (jsonErr ''body-too-large'')
      else if \<not> validString body then Some (jsonErr ''invalid-utf8'')
      else if take 3 body = [CHR 0xEF, CHR 0xBB, CHR 0xBF] then Some (jsonErr ''invalid-json'')
      else if NUL \<in> set body then Some (jsonErr ''invalid-json'')
      else scanBody limits (fst (json_tokens pj body)) (snd (json_tokens pj body)))"

section \<open>The projection\<close>

definition noProjection :: "string \<Rightarrow> WebhookProjection" where
  "noProjection kind = \<lparr> wp_Kind = kind, wp_PullRequest = None, wp_CheckRun = None, wp_Installation = None \<rparr>"

definition projectBody :: "payload_json \<Rightarrow> string \<Rightarrow> string \<Rightarrow> GithubLimits \<Rightarrow> WebhookProjection result" where
  "projectBody pj event body limits =
     (if event = ''pull_request'' then (case json_pull_request pj body of
          None \<Rightarrow> Inl (githubErr ''projection-invalid'' ''projection'')
        | Some p \<Rightarrow> rbind (projectPullRequest p limits) (\<lambda>pr.
            Inr ((noProjection ProjectionPullRequest)\<lparr> wp_PullRequest := Some pr \<rparr>)))
      else if event = ''check_run'' then (case json_check_run pj body of
          None \<Rightarrow> Inl (githubErr ''projection-invalid'' ''projection'')
        | Some p \<Rightarrow> rbind (projectCheckRun p limits) (\<lambda>cr.
            if crp_Action cr \<noteq> ''rerequested'' then Inr (noProjection ProjectionIgnored)
            else Inr ((noProjection ProjectionCheckRun)\<lparr> wp_CheckRun := Some cr \<rparr>)))
      else if event = ''check_suite'' then Inr (noProjection ProjectionCheckSuite)
      else if event = ''installation'' \<or> event = ''installation_repositories'' then (case json_installation pj body of
          None \<Rightarrow> Inl (githubErr ''projection-invalid'' ''projection'')
        | Some p \<Rightarrow> rbind (projectInstallation p) (\<lambda>inst.
            Inr ((noProjection (if event = ''installation_repositories'' then ProjectionInstallationRepositories
                    else ProjectionInstallation))\<lparr> wp_Installation := Some inst \<rparr>)))
      else if event = ''ping'' then Inr (noProjection ProjectionPing)
      else Inl (githubErr ''unsupported-event'' ''projection''))"

definition ProjectWebhook :: "payload_json \<Rightarrow> string \<Rightarrow> string \<Rightarrow> GithubLimits \<Rightarrow> WebhookProjection result" where
  "ProjectWebhook pj event body limits =
     rcheck (PreflightGitHubWebhookJSON pj body limits)
     (case ClassifyWebhookAction event (json_action pj body) of
        Inl e \<Rightarrow> if event \<noteq> ''issue_comment'' then Inl e else projectBody pj event body limits
      | Inr _ \<Rightarrow> projectBody pj event body limits)"

end
