(* ===== verification/GithubReceiver.thy ===== *)
theory GithubReceiver
  imports GithubInbox GithubPayload
begin

text \<open>
  The intake of webhooks (\<open>src/internal/githubreceiver\<close>): what the handler does with one request, up to the response
  and the tables of the inbox.

  \<^item> A request is what \<open>net/http\<close> hands to the handler: method, path, query, the values of each header, whether there is
    a trailer, and the body, \<open>None\<close> when it cannot be read. \<open>http.MaxBytesReader\<close> stops a body above its bound.
  \<^item> The number of requests in progress stands for the channel that limits them.
  \<^item> The panic handler of \<open>ServeHTTP\<close>, the log line and the timeout of a request are outside the model; a timeout makes
    \<open>Accept\<close> fail like any other failure of the database.
\<close>

section \<open>Limits and construction\<close>

record ReceiverLimits =
  cl_GitHub :: GithubLimits
  cl_MaxHeaderBytes :: int
  cl_MaxActiveRequests :: int
  cl_MaxActiveConnections :: int
  cl_ReadHeaderTimeout :: int
  cl_ReadTimeout :: int
  cl_PerRequestIntakeTimeout :: int
  cl_WriteTimeout :: int
  cl_IdleTimeout :: int
  cl_ShutdownTimeout :: int
  cl_MaxPathBytes :: int

definition receiver_DefaultLimits :: ReceiverLimits where
  "receiver_DefaultLimits = \<lparr> cl_GitHub = github_DefaultLimits, cl_MaxHeaderBytes = 32768, cl_MaxActiveRequests = 64,
     cl_MaxActiveConnections = 128, cl_ReadHeaderTimeout = 2 * 10 ^ 9, cl_ReadTimeout = 8 * 10 ^ 9,
     cl_PerRequestIntakeTimeout = 8 * 10 ^ 9, cl_WriteTimeout = 2 * 10 ^ 9, cl_IdleTimeout = 30 * 10 ^ 9,
     cl_ShutdownTimeout = 9 * 10 ^ 9, cl_MaxPathBytes = 4096 \<rparr>"

definition receiverErr :: "string \<Rightarrow> string \<Rightarrow> go_error" where
  "receiverErr code stage = GoError code stage []"

definition receiver_validateLimits :: "ReceiverLimits \<Rightarrow> go_error option" where
  "receiver_validateLimits l =
     (if cl_MaxHeaderBytes l \<le> 0 \<or> cl_MaxHeaderBytes l > 32768
        \<or> cl_MaxActiveRequests l \<le> 0 \<or> cl_MaxActiveRequests l > 1024
        \<or> cl_MaxActiveConnections l \<le> 0 \<or> cl_MaxActiveConnections l > 4096
        \<or> cl_ReadHeaderTimeout l \<le> 0 \<or> cl_ReadTimeout l \<le> 0 \<or> cl_PerRequestIntakeTimeout l \<le> 0
        \<or> cl_WriteTimeout l \<le> 0 \<or> cl_IdleTimeout l \<le> 0 \<or> cl_ShutdownTimeout l \<le> 0
        \<or> cl_MaxPathBytes l \<le> 0 \<or> cl_MaxPathBytes l > 4096
      then Some (receiverErr ''invalid-config'' ''limits'') else None)"

definition validateSecretSet :: "WebhookSecrets \<Rightarrow> GithubLimits \<Rightarrow> go_error option" where
  "validateSecretSet s limits =
     (if int (length (ws_Current s)) < gl_MinWebhookSecretBytes limits \<or> int (length (ws_Current s)) > gl_MaxWebhookSecretBytes limits
      then Some (receiverErr ''invalid-config'' ''handler'')
      else if ws_Previous s \<noteq> [] then
        (if int (length (ws_Previous s)) < gl_MinWebhookSecretBytes limits
            \<or> int (length (ws_Previous s)) > gl_MaxWebhookSecretBytes limits
         then Some (receiverErr ''invalid-config'' ''handler'')
         else if ws_Current s = ws_Previous s then Some (receiverErr ''invalid-config'' ''handler'')
         else None)
      else None)"

record Handler =
  hn_receiverID :: string
  hn_secrets :: WebhookSecrets
  hn_limits :: ReceiverLimits

text \<open>
  \<open>NewHandler\<close> after the defaults are filled in: the limits, the receiver, the secrets. The store and the clock are the
  arguments of \<open>handle\<close>.
\<close>

definition NewHandler :: "string \<Rightarrow> WebhookSecrets \<Rightarrow> ReceiverLimits \<Rightarrow> Handler result" where
  "NewHandler receiverID secrets limits =
     rcheck (receiver_validateLimits limits)
     (if validateReceiverID receiverID \<noteq> None then Inl (receiverErr ''invalid-receiver-id'' ''receiver'')
      else rcheck (validateSecretSet secrets (cl_GitHub limits))
        (Inr \<lparr> hn_receiverID = receiverID, hn_secrets = secrets, hn_limits = limits \<rparr>))"

section \<open>Requests and responses\<close>

record HttpRequest =
  hq_Method :: string
  hq_Path :: string
  hq_RawQuery :: string
  hq_Header :: "string \<Rightarrow> string list"
  hq_Trailer :: bool
  hq_Body :: "string option"

record HttpResponse =
  hs_Status :: nat
  hs_Text :: string
  hs_Code :: string
  hs_Decision :: string

definition fixedResponse :: "nat \<Rightarrow> string \<Rightarrow> string \<Rightarrow> string \<Rightarrow> HttpResponse" where
  "fixedResponse status txt code decision =
     \<lparr> hs_Status = status, hs_Text = txt @ [CHR 0x0A], hs_Code = code, hs_Decision = decision \<rparr>"

definition responseFor :: "nat \<Rightarrow> string" where
  "responseFor status =
     (if status = 415 then ''unsupported media type'' else if status = 413 then ''request too large''
      else if status = 401 then ''unauthorized'' else if status = 409 then ''conflict''
      else if status = 503 then ''unavailable'' else ''bad request'')"

definition requestHeaderNames :: "string list" where
  "requestHeaderNames = [''X-GitHub-Delivery'', ''X-GitHub-Event'', ''X-Hub-Signature-256'', ''Content-Type'', ''Content-Encoding'',
     ''X-GitHub-Hook-ID'', ''X-GitHub-Hook-Installation-Target-ID'', ''X-GitHub-Hook-Installation-Target-Type'']"

definition requestHeaders :: "HttpRequest \<Rightarrow> HeaderValue list" where
  "requestHeaders r = concat (map (\<lambda>name. map (\<lambda>v. \<lparr> hv_Name = name, hv_Value = v \<rparr>) (hq_Header r name)) requestHeaderNames)"

definition parseRequestHeaders :: "media_parser \<Rightarrow> HttpRequest \<Rightarrow> ReceiverLimits \<Rightarrow> WebhookHeaders result" where
  "parseRequestHeaders parseMediaType r limits =
     ParseWebhookHeaders parseMediaType (requestHeaders r) (cl_GitHub limits)"

definition statusForHeaderError :: "go_error \<Rightarrow> nat" where
  "statusForHeaderError e =
     (if error_code e = ''missing-signature'' \<or> error_code e = ''duplicate-signature-header'' then 401
      else if error_code e = ''invalid-content-type'' \<or> error_code e = ''unsupported-content-encoding'' then 415
      else 400)"

definition codeForError :: "go_error \<Rightarrow> string" where
  "codeForError e =
     (if error_code e = ''invalid-content-type'' then ''invalid-content-type''
      else if error_code e = ''unsupported-content-encoding'' then ''unsupported-content-encoding''
      else if error_code e = ''missing-signature'' \<or> error_code e = ''duplicate-signature-header'' then ''signature-invalid''
      else ''projection-invalid'')"

definition dispositionFor :: "string \<Rightarrow> string \<Rightarrow> string \<Rightarrow> string" where
  "dispositionFor event action kind =
     (if kind = ProjectionIgnored \<or> kind = ProjectionPing \<or> kind = ProjectionCheckSuite then DeliveryDispositionIgnored
      else if (case ClassifyWebhookAction event action of
          Inl _ \<Rightarrow> False | Inr d \<Rightarrow> d = ''schedule'' \<or> d = ''cancel'' \<or> d = ''rerequest'')
      then DeliveryDispositionEnqueued
      else if kind = ProjectionInstallation then DeliveryDispositionEnqueued
      else DeliveryDispositionIgnored)"

definition projectionAction :: "WebhookProjection \<Rightarrow> string" where
  "projectionAction p =
     (case wp_PullRequest p of Some x \<Rightarrow> prp_Action x
      | None \<Rightarrow> (case wp_CheckRun p of Some x \<Rightarrow> crp_Action x
        | None \<Rightarrow> (case wp_Installation p of Some x \<Rightarrow> inp_Action x | None \<Rightarrow> [])))"

definition crossCheck :: "string \<Rightarrow> WebhookProjection \<Rightarrow> go_error option" where
  "crossCheck event p =
     (let bad = Some (receiverErr ''projection-invalid'' ''projection'') in
      if event = ''pull_request'' then (if wp_Kind p \<noteq> ProjectionPullRequest \<or> wp_PullRequest p = None then bad else None)
      else if event = ''check_run''
      then (if wp_Kind p \<noteq> ProjectionCheckRun \<and> wp_Kind p \<noteq> ProjectionIgnored then bad else None)
      else if event = ''check_suite'' then (if wp_Kind p \<noteq> ProjectionCheckSuite then bad else None)
      else if event = ''installation'' \<or> event = ''installation_repositories''
      then (if wp_Kind p \<noteq> ProjectionInstallation then bad else None)
      else if event = ''ping'' then (if wp_Kind p \<noteq> ProjectionPing then bad else None)
      else None)"

section \<open>The handler\<close>

text \<open>The delivery that the handler makes of a verified request.\<close>

definition verifiedDelivery ::
  "(string \<Rightarrow> string) \<Rightarrow> Handler \<Rightarrow> WebhookHeaders \<Rightarrow> string \<Rightarrow> string \<Rightarrow> WebhookProjection \<Rightarrow> StoreTime \<Rightarrow> VerifiedDelivery" where
  "verifiedDelivery sha h headers body secretGen projection now =
     (let action = projectionAction projection;
          disposition = dispositionFor (wh_Event headers) action (wp_Kind projection);
          bodyDigest = DigestRawBody sha body
      in \<lparr> vd_ReceiverID = hn_receiverID h, vd_DeliveryID = wh_DeliveryID headers, vd_Event = wh_Event headers,
           vd_Action = action, vd_BodyDigest = bodyDigest, vd_MatchedSecret = secretGen, vd_ReceivedAt = now,
           vd_Projection = projection,
           vd_Receipt = \<lparr> dr_SchemaVersion = SchemaGitHubWebhookReceiptV1Alpha1, dr_ReceiverID = hn_receiverID h,
             dr_DeliveryID = wh_DeliveryID headers, dr_Event = wh_Event headers, dr_BodyDigest = bodyDigest,
             dr_MatchedSecret = secretGen, dr_ReceivedAt = st_nanos now, dr_InstallationTargetIdentity = [],
             dr_ProjectionKind = wp_Kind projection, dr_Disposition = disposition \<rparr>,
           vd_Disposition = disposition,
           vd_IntakeFingerprint = ComputeIntakeFingerprint sha (hn_receiverID h) (wh_DeliveryID headers) (wh_Event headers)
             bodyDigest (wp_Kind projection) \<rparr>)"

text \<open>The projection, with an unsupported event turned into an ignored one, and its check against the event.\<close>

definition intakeProjection :: "payload_json \<Rightarrow> GithubLimits \<Rightarrow> string \<Rightarrow> string \<Rightarrow> WebhookProjection result" where
  "intakeProjection pj limits event body =
     rbind (case ProjectWebhook pj event body limits of
              Inr p \<Rightarrow> Inr p
            | Inl e \<Rightarrow> if error_code e = ''unsupported-event'' then Inr (noProjection ProjectionIgnored) else Inl e)
       (\<lambda>p. rcheck (crossCheck event p) (Inr p))"

definition acceptResponse :: "AcceptResult \<Rightarrow> go_error option \<Rightarrow> HttpResponse" where
  "acceptResponse res err =
     (if (case err of None \<Rightarrow> False | Some e \<Rightarrow> error_code e \<noteq> ''delivery-conflict'')
      then fixedResponse 503 ''unavailable'' ''store-unavailable'' ''rejected''
      else if ax_Decision res = AcceptNewEnqueued then fixedResponse 202 ''accepted'' [] ''accepted''
      else if ax_Decision res = AcceptNewIgnored then fixedResponse 202 ''accepted'' [] ''ignored''
      else if ax_Decision res = AcceptDuplicateSameDelivery then fixedResponse 202 ''accepted'' [] ''duplicate''
      else if ax_Decision res = AcceptDeliveryConflict then fixedResponse 409 ''conflict'' ''store-unavailable'' ''conflict''
      else fixedResponse 503 ''unavailable'' ''store-unavailable'' ''rejected'')"

text \<open>From the headers and the body on: signature, projection, acceptance.\<close>

definition handleBody ::
  "(string \<Rightarrow> string) \<Rightarrow> payload_json \<Rightarrow> inbox_json \<Rightarrow> InboxConfig \<Rightarrow> Handler \<Rightarrow> StoreTime \<Rightarrow> WebhookHeaders \<Rightarrow> string
   \<Rightarrow> InboxDB \<Rightarrow> InboxDB \<times> HttpResponse" where
  "handleBody sha pj js s h now headers body db =
     (case VerifyWebhookSignature sha body (wh_Signature256 headers) (hn_secrets h) (cl_GitHub (hn_limits h)) of
        Inl _ \<Rightarrow> (db, fixedResponse 401 ''unauthorized'' ''signature-invalid'' ''rejected'')
      | Inr secretGen \<Rightarrow>
       (case intakeProjection pj (cl_GitHub (hn_limits h)) (wh_Event headers) body of
          Inl _ \<Rightarrow> (db, fixedResponse 400 ''bad request'' ''projection-invalid'' ''rejected'')
        | Inr projection \<Rightarrow>
           (case Accept sha js s db (verifiedDelivery sha h headers body secretGen projection now) of
              (db', res, err) \<Rightarrow> (db', acceptResponse res err))))"

definition handle ::
  "(string \<Rightarrow> string) \<Rightarrow> media_parser \<Rightarrow> payload_json \<Rightarrow> inbox_json \<Rightarrow> InboxConfig \<Rightarrow> Handler \<Rightarrow> nat \<Rightarrow> StoreTime \<Rightarrow> HttpRequest
   \<Rightarrow> InboxDB \<Rightarrow> InboxDB \<times> HttpResponse" where
  "handle sha parseMediaType pj js s h active now r db =
     (if hq_Method r \<noteq> ''POST'' then (db, fixedResponse 405 ''method not allowed'' ''invalid-method'' ''rejected'')
      else if hq_Path r \<noteq> ''/webhooks/github'' then (db, fixedResponse 404 ''not found'' ''invalid-path'' ''rejected'')
      else if hq_RawQuery r \<noteq> [] then (db, fixedResponse 404 ''not found'' ''query-not-allowed'' ''rejected'')
      else if int active \<ge> cl_MaxActiveRequests (hn_limits h)
      then (db, fixedResponse 503 ''unavailable'' ''request-capacity'' ''rejected'')
      else (case parseRequestHeaders parseMediaType r (hn_limits h) of
          Inl e \<Rightarrow> (db, fixedResponse (statusForHeaderError e) (responseFor (statusForHeaderError e)) (codeForError e) ''rejected'')
        | Inr headers \<Rightarrow>
            if hq_Trailer r then (db, fixedResponse 400 ''bad request'' ''projection-invalid'' ''rejected'')
            else (case hq_Body r of
                None \<Rightarrow> (db, fixedResponse 400 (responseFor 400) ''body-read-failed'' ''rejected'')
              | Some body \<Rightarrow>
                  if int (length body) > gl_MaxWebhookBodyBytes (cl_GitHub (hn_limits h))
                  then (db, fixedResponse 413 (responseFor 413) ''body-too-large'' ''rejected'')
                  else handleBody sha pj js s h now headers body db)))"

end
