(* ===== verification/GithubController.thy ===== *)
theory GithubController
  imports GithubInbox
begin

text \<open>
  The controller (\<open>src/internal/githubcontroller\<close>): how one outbox record is processed against the controller store, and
  one round of claiming, processing and acknowledging.

  \<^item> The credential broker and the reader of pull requests are arguments; both may fail.
  \<^item> The clock gives one reading for each place where the code asks for the time: the claim, the lease, the time of
    processing, the time of the application and the end of the round.
  \<^item> Processing returns the store it leaves behind with its result or error, since a reconcile lease that was taken
    stays when a later call fails. The timeout of the processing makes a call fail like any other failure.
\<close>

record ControllerLimits =
  ct_InboxLeaseDuration :: int
  ct_APIRequestTimeout :: int
  ct_DeliveryProcessingTimeout :: int

definition controller_DefaultLimits :: ControllerLimits where
  "controller_DefaultLimits = \<lparr> ct_InboxLeaseDuration = 30 * 10 ^ 9, ct_APIRequestTimeout = 10 * 10 ^ 9,
     ct_DeliveryProcessingTimeout = 25 * 10 ^ 9 \<rparr>"

record Controller =
  co_id :: string
  co_limits :: ControllerLimits
  co_appID :: int

text \<open>An error of the type \<open>ControllerError\<close>; its list of fields holds the mark of the type.\<close>

definition controllerErr :: "string \<Rightarrow> string \<Rightarrow> go_error" where
  "controllerErr code stage = GoError code stage [''controller'']"

text \<open>
  \<open>New\<close>: limits that are all zero stand for the defaults. The store, the broker, the reader and the clock, which may not be missing,
  are arguments of the operations.
\<close>

definition newController :: "string \<Rightarrow> ControllerLimits \<Rightarrow> int \<Rightarrow> Controller result" where
  "newController controllerID limits appID =
     (if controllerID = [] then Inl (controllerErr ''invalid-config'' ''config'')
      else Inr \<lparr> co_id = controllerID,
        co_limits = (if ct_InboxLeaseDuration limits = 0 \<and> ct_APIRequestTimeout limits = 0 \<and> ct_DeliveryProcessingTimeout limits = 0
          then controller_DefaultLimits else limits),
        co_appID = appID \<rparr>)"

record TokenRequest =
  tq_SchemaVersion :: string
  tq_Purpose :: string
  tq_InstallationID :: int
  tq_RepositoryID :: int

record RepositoryRoute =
  ro_Owner :: string
  ro_Repo :: string
  ro_RepositoryID :: int

record controller_env =
  RequestToken :: "TokenRequest \<Rightarrow> string result"
  GetPullRequest :: "string \<Rightarrow> RepositoryRoute \<Rightarrow> int \<Rightarrow> PullRequestSnapshot result"

record controller_clock =
  claimTime :: StoreTime
  leaseTime :: StoreTime
  processedTime :: StoreTime
  applyTime :: StoreTime
  finishTime :: StoreTime

definition pullRequestToken :: "int \<Rightarrow> int \<Rightarrow> TokenRequest" where
  "pullRequestToken installation repository = \<lparr> tq_SchemaVersion = ''glassroot.dev/github-token-request/v1alpha1'',
     tq_Purpose = ''pull-request-read'', tq_InstallationID = installation, tq_RepositoryID = repository \<rparr>"

definition processedDelivery :: "LeasedRecord \<Rightarrow> StoreTime \<Rightarrow> ProcessedDelivery" where
  "processedDelivery rec t = \<lparr> pz_ReceiverID = le_ReceiverID rec, pz_OutboxID = le_ID rec, pz_DeliveryID = le_DeliveryID rec,
     pz_ProjectionKind = le_ProjectionKind rec, pz_ProjectionDigest = le_ProjectionDigest rec, pz_ProcessedAt = t \<rparr>"

text \<open>The result of a store operation, with the store as it was when the operation fails.\<close>

definition store_call :: "ControllerDB \<Rightarrow> (ControllerDB \<times> 'a) result \<Rightarrow> ControllerDB \<times> 'a result" where
  "store_call db r = (case r of Inl e \<Rightarrow> (db, Inl e) | Inr (db', x) \<Rightarrow> (db', Inr x))"

definition recordDecision ::
  "(string \<Rightarrow> string) \<Rightarrow> StoreConfig \<Rightarrow> controller_clock \<Rightarrow> ControllerDB \<Rightarrow> LeasedRecord \<Rightarrow> string
   \<Rightarrow> ControllerDB \<times> ReconcileResult result" where
  "recordDecision sha s clk db rec decision =
     store_call db (RecordProcessingDecision sha s db (processedDelivery rec (processedTime clk)) decision (applyTime clk))"

definition processInstallation ::
  "(string \<Rightarrow> string) \<Rightarrow> StoreConfig \<Rightarrow> controller_clock \<Rightarrow> ControllerDB \<Rightarrow> LeasedRecord \<Rightarrow> ControllerDB \<times> ReconcileResult result" where
  "processInstallation sha s clk db rec = (case wp_Installation (le_Projection rec) of
     None \<Rightarrow> (db, Inl (controllerErr ''invalid-projection'' ''projection''))
   | Some p \<Rightarrow> store_call db (ApplyInstallationHint sha s db
       \<lparr> ih_Processed = processedDelivery rec (processedTime clk), ih_Projection = p, ih_Now = applyTime clk \<rparr>))"

text \<open>
  The part that both pull requests and rerequests share: the lease, the token and the read of the pull request. It
  gives the store after the lease, the lease and the snapshot.
\<close>

definition readUnderLease ::
  "StoreConfig \<Rightarrow> Controller \<Rightarrow> controller_env \<Rightarrow> controller_clock \<Rightarrow> ControllerDB \<Rightarrow> PRKey \<Rightarrow> RepositoryRoute
   \<Rightarrow> ControllerDB \<times> (ReconcileLease \<times> PullRequestSnapshot) result" where
  "readUnderLease s c env clk db key route =
     (case AcquireReconcileLease s db key (co_id c) (leaseTime clk) (ct_InboxLeaseDuration (co_limits c)) of
        Inl _ \<Rightarrow> (db, Inl (controllerErr ''reconcile-lease-busy'' ''lease''))
      | Inr (db1, lease) \<Rightarrow>
       (case RequestToken env (pullRequestToken (pk_InstallationID key) (pk_BaseRepositoryID key)) of
          Inl _ \<Rightarrow> (db1, Inl (controllerErr ''token-request-failed'' ''broker''))
        | Inr token \<Rightarrow>
         (case GetPullRequest env token route (pk_PullRequestNumber key) of
            Inl _ \<Rightarrow> (db1, Inl (controllerErr ''pull-request-read-failed'' ''api''))
          | Inr snap \<Rightarrow> (db1, Inr (lease, snap)))))"

definition processPullRequest ::
  "(string \<Rightarrow> string) \<Rightarrow> StoreConfig \<Rightarrow> Controller \<Rightarrow> controller_env \<Rightarrow> controller_clock \<Rightarrow> ControllerDB \<Rightarrow> LeasedRecord
   \<Rightarrow> ControllerDB \<times> ReconcileResult result" where
  "processPullRequest sha s c env clk db rec = (case wp_PullRequest (le_Projection rec) of
     None \<Rightarrow> (db, Inl (controllerErr ''invalid-projection'' ''projection''))
   | Some p \<Rightarrow>
       if prp_BaseRepositoryOwner p = [] \<or> prp_BaseRepositoryName p = []
       then recordDecision sha s clk db rec DecisionLegacyProjectionUnreconcilable
       else (case readUnderLease s c env clk db
             \<lparr> pk_InstallationID = prp_InstallationID p, pk_BaseRepositoryID = prp_RepositoryID p,
               pk_PullRequestNumber = prp_PullRequestNumber p \<rparr>
             \<lparr> ro_Owner = prp_BaseRepositoryOwner p, ro_Repo = prp_BaseRepositoryName p, ro_RepositoryID = prp_RepositoryID p \<rparr> of
           (db1, Inl e) \<Rightarrow> (db1, Inl e)
         | (db1, Inr (lease, snap)) \<Rightarrow> store_call db1 (ApplyPullRequestSnapshot sha s db1
             \<lparr> ri_Processed = processedDelivery rec (processedTime clk), ri_Lease = lease, ri_Snapshot = snap,
               ri_Now = applyTime clk \<rparr>)))"

definition rerequestSnapshotTarget :: "(string \<Rightarrow> string) \<Rightarrow> PullRequestSnapshot \<Rightarrow> PRKey \<Rightarrow> string \<times> bool" where
  "rerequestSnapshotTarget sha snap key =
     (if pn_Number snap \<noteq> pk_PullRequestNumber key \<or> pe_RepositoryID (pn_Base snap) \<noteq> pk_BaseRepositoryID key
        \<or> pn_State snap \<noteq> PullRequestStateOpen \<or> pn_Draft snap \<or> \<not> pe_Available (pn_Head snap)
        \<or> pe_RepositoryID (pn_Head snap) \<le> 0 \<or> pe_CommitID (pn_Base snap) = [] \<or> pe_CommitID (pn_Head snap) = []
      then ([], False)
      else case targetID sha (snapshotTarget key snap) of Inl _ \<Rightarrow> ([], False) | Inr tid \<Rightarrow> (tid, True))"

definition processRerequest ::
  "(string \<Rightarrow> string) \<Rightarrow> StoreConfig \<Rightarrow> Controller \<Rightarrow> controller_env \<Rightarrow> controller_clock \<Rightarrow> ControllerDB \<Rightarrow> LeasedRecord
   \<Rightarrow> ControllerDB \<times> ReconcileResult result" where
  "processRerequest sha s c env clk db rec = (case wp_CheckRun (le_Projection rec) of
     None \<Rightarrow> (db, Inl (controllerErr ''invalid-projection'' ''projection''))
   | Some p \<Rightarrow> (case LookupCheckBinding db (co_appID c) (crp_RepositoryID p) (crp_CheckRunID p) of
       Inl _ \<Rightarrow> recordDecision sha s clk db rec DecisionRerequestIgnored
     | Inr b \<Rightarrow>
        (let key = \<lparr> pk_InstallationID = cb_InstallationID b, pk_BaseRepositoryID = cb_RepositoryID b,
               pk_PullRequestNumber = cb_PullRequestNumber b \<rparr>
         in case GetCurrentPRState db key of
           None \<Rightarrow> recordDecision sha s clk db rec DecisionRerequestIgnored
         | Some cur \<Rightarrow>
             if cu_BaseOwner cur = [] \<or> cu_BaseName cur = []
             then recordDecision sha s clk db rec DecisionRerequestIgnored
             else (case readUnderLease s c env clk db key
                   \<lparr> ro_Owner = cu_BaseOwner cur, ro_Repo = cu_BaseName cur, ro_RepositoryID = cb_RepositoryID b \<rparr> of
                 (db1, Inl e) \<Rightarrow> (db1, Inl e)
               | (db1, Inr (lease, snap)) \<Rightarrow> (case rerequestSnapshotTarget sha snap key of (tid, eligible) \<Rightarrow>
                   store_call db1 (ApplyCheckRunRerequest sha s db1
                     \<lparr> rq_Processed = processedDelivery rec (leaseTime clk), rq_Lease = lease, rq_Projection = p,
                       rq_SnapshotEligible = eligible, rq_SnapshotTargetID = tid, rq_Now = leaseTime clk,
                       rq_ConfiguredAppID = co_appID c \<rparr>))))))"

definition ProcessRecord ::
  "(string \<Rightarrow> string) \<Rightarrow> StoreConfig \<Rightarrow> Controller \<Rightarrow> controller_env \<Rightarrow> controller_clock \<Rightarrow> ControllerDB \<Rightarrow> LeasedRecord
   \<Rightarrow> ControllerDB \<times> ReconcileResult result" where
  "ProcessRecord sha s c env clk db rec =
     (if le_ProjectionKind rec = ProjectionPullRequest then processPullRequest sha s c env clk db rec
      else if le_ProjectionKind rec = ProjectionCheckRun then processRerequest sha s c env clk db rec
      else if le_ProjectionKind rec = ProjectionInstallation \<or> le_ProjectionKind rec = ProjectionInstallationRepositories
      then processInstallation sha s clk db rec
      else recordDecision sha s clk db rec DecisionLegacyProjectionUnreconcilable)"

text \<open>
  The code that a failed round leaves with the released record: the code of a controller error, and a fixed one for
  the errors of the store, which are of another type.
\<close>

definition controller_Diagnostic :: "go_error \<Rightarrow> string" where
  "controller_Diagnostic e = (if error_fields e = [''controller''] then error_code e else ''controller-failed'')"

record NextResult =
  nx_inbox :: InboxDB
  nx_store :: ControllerDB
  nx_found :: bool
  nx_result :: "ReconcileResult result"

definition ProcessNext ::
  "(string \<Rightarrow> string) \<Rightarrow> inbox_json \<Rightarrow> InboxConfig \<Rightarrow> StoreConfig \<Rightarrow> Controller \<Rightarrow> controller_env \<Rightarrow> controller_clock
   \<Rightarrow> InboxDB \<Rightarrow> ControllerDB \<Rightarrow> NextResult" where
  "ProcessNext sha js ics s c env clk inbox db =
     (case ClaimOutbox js ics inbox (co_id c) (claimTime clk) (ct_InboxLeaseDuration (co_limits c)) 1 of
        Inl _ \<Rightarrow> \<lparr> nx_inbox = inbox, nx_store = db, nx_found = False,
          nx_result = Inl (controllerErr ''inbox-claim-failed'' ''inbox'') \<rparr>
      | Inr (inbox1, []) \<Rightarrow> \<lparr> nx_inbox = inbox1, nx_store = db, nx_found = False, nx_result = Inr emptyResult \<rparr>
      | Inr (inbox1, rec # _) \<Rightarrow>
         (case ProcessRecord sha s c env clk db rec of
            (db1, Inl e) \<Rightarrow> \<lparr> nx_inbox = (case ReleaseOutbox inbox1 (le_ID rec) (co_id c) (le_LeaseGeneration rec) (finishTime clk)
                  (controller_Diagnostic e) of Inl _ \<Rightarrow> inbox1 | Inr inbox2 \<Rightarrow> inbox2),
                nx_store = db1, nx_found = True, nx_result = Inl e \<rparr>
          | (db1, Inr res) \<Rightarrow>
             (case AcknowledgeOutbox inbox1 (le_ID rec) (co_id c) (le_LeaseGeneration rec) (finishTime clk) of
                Inl _ \<Rightarrow> \<lparr> nx_inbox = inbox1, nx_store = db1, nx_found = True,
                  nx_result = Inl (controllerErr ''inbox-ack-failed'' ''inbox'') \<rparr>
              | Inr inbox2 \<Rightarrow> \<lparr> nx_inbox = inbox2, nx_store = db1, nx_found = True, nx_result = Inr res \<rparr>)))"

end
