(* ===== verification/Inbox_Facts.thy ===== *)
theory Inbox_Facts
  imports GithubInbox Controller_Runs Lease
begin

text \<open>
  Facts on the inbox: the invariant of its two tables and how every transaction keeps it, what later
  transactions leave of a row, and the order of stored times.
\<close>

section \<open>Rows and their lasting part\<close>

text \<open>The columns of an outbox row that no transaction changes.\<close>

definition outbox_core ::
  "OutboxRow \<Rightarrow> nat \<times> string \<times> string \<times> string \<times> string \<times> string \<times> string \<times> string \<times> TimeText" where
  "outbox_core r = (ox_sequence r, ox_id r, ox_receiver_id r, ox_delivery_id r, ox_projection_kind r, ox_projection_json r,
     ox_projection_digest r, ox_receipt_json r, ox_created_at r)"

text \<open>An outbox row and the inbox row it was made from.\<close>

definition outbox_from :: "(string \<Rightarrow> string) \<Rightarrow> OutboxRow \<Rightarrow> (string \<times> string) \<times> InboxRow \<Rightarrow> bool" where
  "outbox_from sha r e \<longleftrightarrow> fst e = (ox_receiver_id r, ox_delivery_id r)
     \<and> ib_disposition (snd e) = DeliveryDispositionEnqueued
     \<and> ox_projection_kind r = ib_projection_kind (snd e) \<and> ox_projection_json r = ib_projection_json (snd e)
     \<and> ox_receipt_json r = ib_receipt_json (snd e)
     \<and> ox_projection_digest r = digestBytes sha (''glassroot.dev/github-projection-json/v1'' @ [NUL]) (ox_projection_json r)
     \<and> ox_id r = computeOutboxID sha (ox_receiver_id r) (ox_delivery_id r) (ib_intake_fingerprint (snd e)) (ox_projection_kind r)"

lemma outbox_from_core: "outbox_core r' = outbox_core r \<Longrightarrow> outbox_from sha r' e = outbox_from sha r e"
  by (simp add: outbox_core_def outbox_from_def)

lemma core_eq:
  "outbox_core r' = outbox_core r \<longleftrightarrow> ox_sequence r' = ox_sequence r \<and> ox_id r' = ox_id r
     \<and> ox_receiver_id r' = ox_receiver_id r \<and> ox_delivery_id r' = ox_delivery_id r
     \<and> ox_projection_kind r' = ox_projection_kind r \<and> ox_projection_json r' = ox_projection_json r
     \<and> ox_projection_digest r' = ox_projection_digest r \<and> ox_receipt_json r' = ox_receipt_json r
     \<and> ox_created_at r' = ox_created_at r"
  by (simp add: outbox_core_def)

definition outbox_key :: "OutboxRow \<Rightarrow> string \<times> string" where
  "outbox_key r = (ox_receiver_id r, ox_delivery_id r)"

definition generation_ok :: "OutboxRow \<Rightarrow> bool" where
  "generation_ok r \<longleftrightarrow> 0 \<le> ox_lease_generation r \<and> ox_lease_generation r \<le> MaxInt64"

definition inbox_inv :: "(string \<Rightarrow> string) \<Rightarrow> InboxDB \<Rightarrow> bool" where
  "inbox_inv sha db \<longleftrightarrow>
     distinct (map fst (ix_inbox db))
     \<and> distinct (map ox_id (ix_outbox db)) \<and> distinct (map ox_sequence (ix_outbox db))
     \<and> distinct (map outbox_key (ix_outbox db))
     \<and> (\<forall>r\<in>set (ix_outbox db). generation_ok r \<and> (\<exists>e\<in>set (ix_inbox db). outbox_from sha r e))
     \<and> (\<forall>e\<in>set (ix_inbox db). ib_disposition (snd e) = DeliveryDispositionEnqueued
          \<longrightarrow> fst e \<in> outbox_key ` set (ix_outbox db))"

lemma inbox_inv_empty: "inbox_inv sha emptyInbox"
  by (simp add: inbox_inv_def emptyInbox_def)

text \<open>The transactions on leases rewrite rows without touching their lasting part.\<close>

definition keeps_core :: "(OutboxRow \<Rightarrow> OutboxRow) \<Rightarrow> bool" where
  "keeps_core f \<longleftrightarrow> (\<forall>r. outbox_core (f r) = outbox_core r)"

lemma keeps_core_inv:
  assumes inv: "inbox_inv sha db" and f: "keeps_core f" and gen: "\<And>r. r \<in> set (ix_outbox db) \<Longrightarrow> generation_ok (f r)"
  shows "inbox_inv sha (db\<lparr> ix_outbox := map f (ix_outbox db) \<rparr>)"
proof -
  have core: "outbox_core (f r) = outbox_core r" for r using f by (simp add: keeps_core_def)
  then have same: "map ox_id (map f rs) = map ox_id rs" "map ox_sequence (map f rs) = map ox_sequence rs"
    "map outbox_key (map f rs) = map outbox_key rs" for rs
    by (simp_all add: core_eq outbox_key_def)
  have key: "outbox_key ` f ` R = outbox_key ` R" for R
    using core by (simp add: image_image core_eq outbox_key_def)
  have "generation_ok x \<and> (\<exists>e\<in>set (ix_inbox db). outbox_from sha x e)" if "x \<in> f ` set (ix_outbox db)" for x
    using that inv gen outbox_from_core [OF core] unfolding inbox_inv_def by (metis imageE)
  moreover have sel: "ix_inbox (db\<lparr> ix_outbox := rs \<rparr>) = ix_inbox db" "ix_outbox (db\<lparr> ix_outbox := rs \<rparr>) = rs" for rs
    by simp_all
  ultimately show ?thesis using inv unfolding inbox_inv_def sel same set_map key by blast
qed

section \<open>Acceptance\<close>

lemma foldr_max_ge: "x \<in> set xs \<Longrightarrow> (x :: nat) \<le> foldr max xs 0"
  by (induction xs) auto

lemma nextOutboxSequence_fresh: "r \<in> set rows \<Longrightarrow> ox_sequence r < nextOutboxSequence rows"
  using foldr_max_ge [of "ox_sequence r" "map ox_sequence rows"] by (auto simp: nextOutboxSequence_def less_Suc_eq_le)

text \<open>The four outcomes of \<open>Accept\<close> with the tables they leave.\<close>

lemma Accept_cases:
  assumes "Accept sha js s db d = (db', res, err)"
  obtains (unchanged) "db' = db" "ax_Decision res \<in> {[], AcceptDuplicateSameDelivery}"
      "ax_Decision res = AcceptDuplicateSameDelivery \<Longrightarrow> map_of (ix_inbox db) (vd_ReceiverID d, vd_DeliveryID d) \<noteq> None"
  | (conflict) row where "map_of (ix_inbox db) (vd_ReceiverID d, vd_DeliveryID d) = Some row"
      "ib_intake_fingerprint row \<noteq> vd_IntakeFingerprint d"
      "db' = db\<lparr> ix_inbox := update_rows (\<lambda>k _. k = (vd_ReceiverID d, vd_DeliveryID d))
         (\<lambda>r. r\<lparr> ib_conflict_count := ib_conflict_count r + 1 \<rparr>) (ix_inbox db) \<rparr>"
      "res = noAccept\<lparr> ax_Decision := AcceptDeliveryConflict \<rparr>"
  | (ignored) receipt projection where "\<not> inboxClash d (ix_inbox db)" "vd_Disposition d \<noteq> DeliveryDispositionEnqueued"
      "db' = db\<lparr> ix_inbox := ix_inbox db @ [((vd_ReceiverID d, vd_DeliveryID d), inboxRow sha d receipt projection)] \<rparr>"
      "res = noAccept\<lparr> ax_Decision := AcceptNewIgnored \<rparr>"
  | (enqueued) receipt projection rows oid where "\<not> inboxClash d (ix_inbox db)"
      "vd_Disposition d = DeliveryDispositionEnqueued"
      "projectionJSON js (vd_Projection d) = Some projection" "receiptJSON js (vd_Receipt d) = Some receipt"
      "insertOutbox sha d receipt projection (ix_outbox db) = Some (rows, oid)"
      "db' = db\<lparr> ix_inbox := ix_inbox db @ [((vd_ReceiverID d, vd_DeliveryID d), inboxRow sha d receipt projection)],
                 ix_outbox := rows \<rparr>"
      "res = noAccept\<lparr> ax_Decision := AcceptNewEnqueued, ax_OutboxID := oid \<rparr>" "err = None"
proof (cases "validateDelivery (ic_ReceiverID s) d = None \<and> projectionJSON js (vd_Projection d) \<noteq> None
    \<and> receiptJSON js (vd_Receipt d) \<noteq> None")
  case False
  then have "db' = db \<and> res = noAccept" using assms by (auto simp: Accept_def split: option.splits)
  then show thesis by (intro unchanged) (simp_all add: noAccept_def)
next
  case True
  then obtain projection receipt where json: "projectionJSON js (vd_Projection d) = Some projection"
    "receiptJSON js (vd_Receipt d) = Some receipt" by blast
  with True assms have acc: "acceptDelivery sha db d receipt projection = (db', res, err)" by (simp add: Accept_def)
  show thesis
  proof (cases "inboxClash d (ix_inbox db)")
    case True
    with acc show thesis
      by (auto simp: acceptDelivery_def noAccept_def Let_def intro: unchanged conflict split: option.splits if_splits)
  next
    case False
    with acc json show thesis
      by (auto simp: acceptDelivery_def noAccept_def Let_def intro: unchanged ignored enqueued split: option.splits if_splits)
  qed
qed

lemma not_clash_key: "\<not> inboxClash d tbl \<Longrightarrow> (vd_ReceiverID d, vd_DeliveryID d) \<notin> fst ` set tbl"
  by (auto simp: inboxClash_def list_ex_iff)

lemma insertOutboxE:
  assumes "insertOutbox sha d receipt projection rows = Some (rows', oid)"
  obtains r where "rows' = rows @ [r]" "oid \<notin> ox_id ` set rows" "ox_id r = oid" "ox_sequence r = nextOutboxSequence rows"
    "outbox_key r = (vd_ReceiverID d, vd_DeliveryID d)" "ox_lease_generation r = 0" "ox_state r = OutboxStatePending"
    "vd_Disposition d = DeliveryDispositionEnqueued
     \<Longrightarrow> outbox_from sha r ((vd_ReceiverID d, vd_DeliveryID d), inboxRow sha d receipt projection)"
proof -
  let ?oid = "computeOutboxID sha (vd_ReceiverID d) (vd_DeliveryID d) (vd_IntakeFingerprint d) (wp_Kind (vd_Projection d))"
  from assms have "?oid \<notin> ox_id ` set rows" by (auto simp: insertOutbox_def Let_def list_ex_iff split: if_splits)
  with assms show thesis
    by (intro that [of "last rows'"])
       (auto simp: insertOutbox_def Let_def outbox_key_def outbox_from_def inboxRow_def split: if_splits)
qed

lemma outbox_from_conflict: "outbox_from sha r (k, row\<lparr> ib_conflict_count := n \<rparr>) = outbox_from sha r (k, row)"
  by (simp add: outbox_from_def)

lemma Accept_inv:
  assumes "Accept sha js s db d = (db', res, err)" and inv: "inbox_inv sha db"
  shows "inbox_inv sha db'"
  using assms(1)
proof (cases rule: Accept_cases)
  case unchanged
  then show ?thesis using inv by simp
next
  case (conflict row)
  let ?g = "\<lambda>e. (fst e, if fst e = (vd_ReceiverID d, vd_DeliveryID d)
    then snd e\<lparr> ib_conflict_count := ib_conflict_count (snd e) + 1 \<rparr> else snd e :: InboxRow)"
  have db': "db' = db\<lparr> ix_inbox := map ?g (ix_inbox db) \<rparr>"
    unfolding conflict(3) update_rows_def by (simp add: case_prod_beta)
  have "outbox_from sha r (?g e) = outbox_from sha r e" "fst (?g e) = fst e"
    "ib_disposition (snd (?g e)) = ib_disposition (snd e)" for r e
    by (cases e; simp add: outbox_from_conflict)+
  then show ?thesis using inv unfolding inbox_inv_def db' by (simp add: comp_def)
next
  case (ignored receipt projection)
  have "ib_disposition (inboxRow sha d receipt projection) \<noteq> DeliveryDispositionEnqueued"
    using ignored(2) by (simp add: inboxRow_def Let_def)
  with not_clash_key [OF ignored(1)] inv show ?thesis
    unfolding ignored(3) inbox_inv_def by (auto simp: image_iff)
next
  case (enqueued receipt projection rows oid)
  from insertOutboxE [OF enqueued(5)] enqueued(2) obtain r where r: "rows = ix_outbox db @ [r]"
    "ox_id r \<notin> ox_id ` set (ix_outbox db)" "ox_sequence r = nextOutboxSequence (ix_outbox db)"
    "outbox_key r = (vd_ReceiverID d, vd_DeliveryID d)" "ox_lease_generation r = 0"
    "outbox_from sha r ((vd_ReceiverID d, vd_DeliveryID d), inboxRow sha d receipt projection)" by metis
  have "ox_sequence r \<notin> ox_sequence ` set (ix_outbox db)"
    using nextOutboxSequence_fresh [of _ "ix_outbox db"] r(3) by force
  moreover have "outbox_key r \<notin> outbox_key ` set (ix_outbox db)"
    using not_clash_key [OF enqueued(1)] inv r(4) unfolding inbox_inv_def outbox_from_def outbox_key_def
    by (metis (no_types, lifting) image_iff)
  moreover have "generation_ok r" by (simp add: generation_ok_def r(5))
  ultimately show ?thesis
    using inv r not_clash_key [OF enqueued(1)] unfolding enqueued(6) inbox_inv_def
    by (auto simp: image_iff)
qed

section \<open>Leases\<close>

lemma leasedRecordE:
  assumes "leasedRecord js owner expires r = Inr c"
  shows "le_ID c = ox_id r" "le_Sequence c = ox_sequence r" "le_LeaseGeneration c = ox_lease_generation r + 1"
    "ox_lease_generation r \<noteq> MaxInt64" "le_LeaseOwner c = owner" "le_ReceiverID c = ox_receiver_id r"
    "le_ProjectionDigest c = ox_projection_digest r" "le_DeliveryID c = ox_delivery_id r" "le_LeaseExpiresAt c = expires"
    "le_ProjectionKind c = ox_projection_kind r" "readProjection js (ox_projection_json r) = Some (le_Projection c)"
  using assms by (auto simp: leasedRecord_def split: if_splits option.splits)

lemma leasedRecords_from:
  "leasedRecords js owner expires rs = Inr cs \<Longrightarrow> c \<in> set cs \<Longrightarrow> \<exists>r\<in>set rs. leasedRecord js owner expires r = Inr c"
  by (induction rs arbitrary: cs) (auto simp: result_simps)

lemma leasedRecords_keys:
  "leasedRecords js owner expires rs = Inr cs \<Longrightarrow> map le_ID cs = map ox_id rs"
  by (induction rs arbitrary: cs) (auto simp: result_simps dest: leasedRecordE(1))

text \<open>One row under all updates of a claim: it is leased by the one candidate it matches.\<close>

definition claimStep :: "TimeText \<Rightarrow> LeasedRecord \<Rightarrow> OutboxRow \<Rightarrow> OutboxRow" where
  "claimStep now c r = (if outboxMatches now c r then leaseOutboxRow c r else r)"

lemma claimStep_core: "outbox_core (claimStep now c r) = outbox_core r"
  by (simp add: claimStep_def leaseOutboxRow_def core_eq)

lemma claimStep_other: "ox_id r \<noteq> le_ID c \<Longrightarrow> claimStep now c r = r"
  by (simp add: claimStep_def outboxMatches_def)

lemma claimOutboxAll_rows:
  "claimOutboxAll now cs rows = Inr (rows', out) \<Longrightarrow> rows' = map (\<lambda>r. fold (claimStep now) cs r) rows"
proof (induction cs arbitrary: rows out)
  case (Cons c cs)
  have eq: "map (\<lambda>r. if outboxMatches now c r then leaseOutboxRow c r else r) rows = map (claimStep now c) rows"
    by (simp add: claimStep_def)
  from Cons.prems obtain out' where "claimOutboxAll now cs (map (claimStep now c) rows) = Inr (rows', out')"
    by (auto simp: Let_def eq rbind_eq_Inr split: if_splits)
  from Cons.IH [OF this] show ?case by (simp add: comp_def)
qed simp

text \<open>With distinct identifiers a row meets at most one candidate.\<close>

lemma fold_claim_other: "ox_id r \<notin> le_ID ` set cs \<Longrightarrow> fold (claimStep now) cs r = r"
  by (induction cs arbitrary: r) (auto simp: claimStep_other)

lemma fold_claim_core: "outbox_core (fold (claimStep now) cs r) = outbox_core r"
  by (induction cs arbitrary: r) (simp_all add: claimStep_core)

lemma fold_claim_one:
  assumes "distinct (map le_ID cs)" and "c \<in> set cs" and "ox_id r = le_ID c"
  shows "fold (claimStep now) cs r = claimStep now c r"
  using assms
proof (induction cs arbitrary: r)
  case (Cons a cs)
  have id: "ox_id (claimStep now a r) = ox_id r" using claimStep_core [of now a r] by (simp add: core_eq)
  show ?case
  proof (cases "c = a")
    case True
    with Cons.prems id show ?thesis by (auto simp: fold_claim_other)
  next
    case False
    with Cons.prems have "c \<in> set cs" "le_ID c \<noteq> le_ID a" by (auto simp: image_iff)
    with Cons.prems Cons.IH [of r] show ?thesis by (simp add: claimStep_other)
  qed
qed simp

lemma claimOutboxAll_claimed:
  assumes "claimOutboxAll now cs rows = Inr (rows', out)" and "distinct (map le_ID cs)" and "c \<in> set out"
  shows "c \<in> set cs \<and> (\<exists>r\<in>set rows. outboxMatches now c r)"
  using assms
proof (induction cs arbitrary: rows out)
  case (Cons a cs)
  let ?rows = "map (claimStep now a) rows"
  have eq: "map (\<lambda>r. if outboxMatches now a r then leaseOutboxRow a r else r) rows = ?rows"
    by (simp add: claimStep_def)
  have earlier: "\<exists>r\<in>set rows. outboxMatches now c r" if "\<exists>r\<in>set ?rows. outboxMatches now c r" "c \<in> set cs" for c
  proof -
    from that Cons.prems(2) have "le_ID c \<noteq> le_ID a" by (auto simp: image_iff)
    from that obtain r where r: "r \<in> set rows" "outboxMatches now c (claimStep now a r)" by auto
    then have "ox_id r = le_ID c" using claimStep_core [of now a r] by (simp add: outboxMatches_def core_eq)
    with \<open>le_ID c \<noteq> le_ID a\<close> have "claimStep now a r = r" by (simp add: claimStep_other)
    with r show ?thesis by auto
  qed
  from Cons.prems(1) consider "claimOutboxAll now cs ?rows = Inr (rows', out)"
    | out' where "filter (outboxMatches now a) rows \<noteq> []" "claimOutboxAll now cs ?rows = Inr (rows', out')" "out = a # out'"
    by (auto simp: Let_def eq rbind_eq_Inr split: if_splits)
  then show ?case
  proof cases
    case 1
    with Cons.IH [OF 1] Cons.prems earlier show ?thesis by auto
  next
    case 2
    then show ?thesis using Cons.IH [OF 2(2)] Cons.prems earlier by (auto simp: filter_empty_conv)
  qed
qed simp

lemma candidates_facts:
  assumes "inbox_inv sha db"
  shows "distinct (map ox_id (outboxCandidates db now n))"
    and "r \<in> set (outboxCandidates db now n) \<Longrightarrow> r \<in> set (ix_outbox db) \<and> outboxClaimable now r"
proof -
  let ?rows = "filter (outboxClaimable now) (ix_outbox db)"
  have d: "distinct (map ox_id (ix_outbox db))" using assms by (simp add: inbox_inv_def)
  have m: "mset (slice_stable (\<lambda>a b. ox_sequence a < ox_sequence b) ?rows) = mset ?rows" by simp
  then have s: "set (slice_stable (\<lambda>a b. ox_sequence a < ox_sequence b) ?rows) = set ?rows" by (rule mset_eq_setD)
  have "mset (map ox_id (slice_stable (\<lambda>a b. ox_sequence a < ox_sequence b) ?rows)) = mset (map ox_id ?rows)" using m by simp
  then have "distinct (map ox_id (slice_stable (\<lambda>a b. ox_sequence a < ox_sequence b) ?rows))"
    using d by (metis distinct_map_filter mset_eq_imp_distinct_iff)
  then show "distinct (map ox_id (outboxCandidates db now n))"
    by (simp add: outboxCandidates_def distinct_take flip: take_map)
  show "r \<in> set (outboxCandidates db now n) \<Longrightarrow> r \<in> set (ix_outbox db) \<and> outboxClaimable now r"
    using s by (auto simp: outboxCandidates_def dest: in_set_takeD)
qed

text \<open>What a successful claim did: every row went through its update, and a returned record is the lease of a row.\<close>

lemma ClaimOutboxE:
  assumes "ClaimOutbox js s db owner now duration limit = Inr (db', recs)" and inv: "inbox_inv sha db"
  obtains cs where "db' = db\<lparr> ix_outbox := map (fold (claimStep (inbox_formatTime now)) cs) (ix_outbox db) \<rparr>"
    "\<And>c. c \<in> set cs \<Longrightarrow> \<exists>r\<in>set (ix_outbox db). outboxClaimable (inbox_formatTime now) r
       \<and> leasedRecord js owner (addTime now duration) r = Inr c"
    "distinct (map le_ID cs)"
    "\<And>c. c \<in> set recs \<Longrightarrow> c \<in> set cs \<and> (\<exists>r\<in>set (ix_outbox db). outboxMatches (inbox_formatTime now) c r)"
    "validateLeaseInputs s owner now duration limit = None"
proof -
  let ?now = "inbox_formatTime now" and ?cand = "outboxCandidates db (inbox_formatTime now) (nat limit)"
  from assms(1) obtain cs rows where cs: "leasedRecords js owner (addTime now duration) ?cand = Inr cs"
    and rows: "claimOutboxAll ?now cs (ix_outbox db) = Inr (rows, recs)" and db': "db' = db\<lparr> ix_outbox := rows \<rparr>"
    and ok: "validateLeaseInputs s owner now duration limit = None"
    by (auto simp: ClaimOutbox_def Let_def result_simps)
  have d: "distinct (map le_ID cs)"
    using leasedRecords_keys [OF cs] candidates_facts(1) [OF inv, of ?now "nat limit"] by simp
  show thesis
  proof (rule that [of cs])
    show "db' = db\<lparr> ix_outbox := map (fold (claimStep ?now) cs) (ix_outbox db) \<rparr>"
      using db' claimOutboxAll_rows [OF rows] by simp
    show "\<exists>r\<in>set (ix_outbox db). outboxClaimable ?now r \<and> leasedRecord js owner (addTime now duration) r = Inr c"
      if "c \<in> set cs" for c
      using leasedRecords_from [OF cs that] candidates_facts(2) [OF inv] by blast
    show "c \<in> set cs \<and> (\<exists>r\<in>set (ix_outbox db). outboxMatches ?now c r)" if "c \<in> set recs" for c
      by (rule claimOutboxAll_claimed [OF rows d that])
  qed (fact d ok)+
qed

lemma inv_same_id: "inbox_inv sha db \<Longrightarrow> r \<in> set (ix_outbox db) \<Longrightarrow> r' \<in> set (ix_outbox db) \<Longrightarrow> ox_id r = ox_id r' \<Longrightarrow> r = r'"
  by (auto simp: inbox_inv_def distinct_map inj_on_def)

text \<open>What a transaction leaves of an outbox row: its lasting part, and an acknowledged row altogether; generations do not fall.\<close>

definition row_step :: "OutboxRow \<Rightarrow> OutboxRow \<Rightarrow> bool" where
  "row_step r r' \<longleftrightarrow> outbox_core r' = outbox_core r \<and> ox_lease_generation r \<le> ox_lease_generation r'
     \<and> (ox_state r = OutboxStateAcknowledged \<longrightarrow> r' = r)"

lemma row_step_refl [simp]: "row_step r r"
  by (simp add: row_step_def)

lemma row_step_trans: "row_step a b \<Longrightarrow> row_step b c \<Longrightarrow> row_step a c"
  by (auto simp: row_step_def)

lemma claimStep_row_step: "generation_ok r \<Longrightarrow> row_step r (claimStep now c r)"
  by (auto simp: row_step_def claimStep_def outboxMatches_def outboxClaimable_def leaseOutboxRow_def core_eq)

lemma claim_row:
  assumes inv: "inbox_inv sha db" and r: "r \<in> set (ix_outbox db)" and d: "distinct (map le_ID cs)"
    and from_row: "\<And>c. c \<in> set cs \<Longrightarrow> \<exists>r\<in>set (ix_outbox db). leasedRecord js owner t r = Inr c"
  shows "row_step r (fold (claimStep now) cs r) \<and> generation_ok (fold (claimStep now) cs r)"
proof (cases "ox_id r \<in> le_ID ` set cs")
  case True
  then obtain c where c: "c \<in> set cs" "ox_id r = le_ID c" by auto
  from from_row [OF c(1)] obtain r0 where r0: "r0 \<in> set (ix_outbox db)" "leasedRecord js owner t r0 = Inr c" by blast
  with c(2) have "r0 = r" using inv_same_id [OF inv r0(1) r] leasedRecordE(1) by metis
  have ok: "generation_ok r" using inv r by (auto simp: inbox_inv_def)
  have "generation_ok (claimStep now c r)"
    using ok leasedRecordE(3,4) [OF r0(2)]
    by (auto simp: \<open>r0 = r\<close> generation_ok_def claimStep_def leaseOutboxRow_def)
  with fold_claim_one [OF d c] claimStep_row_step [OF ok] show ?thesis by simp
next
  case False
  then show ?thesis using inv r by (auto simp: fold_claim_other inbox_inv_def)
qed

lemma ClaimOutbox_inv:
  assumes "ClaimOutbox js s db owner now duration limit = Inr (db', recs)" and inv: "inbox_inv sha db"
  shows "inbox_inv sha db'"
proof -
  from ClaimOutboxE [OF assms] obtain cs where cs: "db' = db\<lparr> ix_outbox := map (fold (claimStep (inbox_formatTime now)) cs) (ix_outbox db) \<rparr>"
    "distinct (map le_ID cs)" "\<And>c. c \<in> set cs \<Longrightarrow> \<exists>r\<in>set (ix_outbox db). leasedRecord js owner (addTime now duration) r = Inr c"
    by metis
  show ?thesis unfolding cs(1)
  proof (rule keeps_core_inv [OF inv])
    show "keeps_core (fold (claimStep (inbox_formatTime now)) cs)" by (simp add: keeps_core_def fold_claim_core)
  qed (use claim_row [OF inv _ cs(2,3)] in blast)
qed

text \<open>The row that a finished lease rewrites.\<close>

lemma finishLeaseE:
  assumes "finishLease db oid owner generation stamp ack code = Inr db'"
  obtains (again) "db' = db" "ack"
  | (finished) f row where "db' = db\<lparr> ix_outbox := map f (ix_outbox db) \<rparr>" "keeps_core f"
      "\<And>r. ox_id r \<noteq> oid \<Longrightarrow> f r = r" "row \<in> set (ix_outbox db)" "ox_id row = oid" "ox_lease_owner row = owner"
      "ox_lease_generation row mod 2 ^ 64 = generation" "ox_state row = OutboxStateLeased"
      "\<And>r. ox_lease_generation (f r) = ox_lease_generation r"
      "\<And>r. ox_id r = oid \<Longrightarrow> ox_state (f r) = (if ack then OutboxStateAcknowledged else OutboxStatePending)"
proof -
  from assms obtain row where row: "List.find (\<lambda>r. ox_id r = oid) (ix_outbox db) = Some row"
    "ox_lease_owner row = owner" "ox_lease_generation row mod 2 ^ 64 = generation"
    by (auto simp: finishLease_def split: if_splits option.splits)
  then have mem: "row \<in> set (ix_outbox db)" "ox_id row = oid" by (auto simp: find_Some_iff)
  define f where "f r = (if ox_id r = oid then
       (if ack then r\<lparr> ox_state := OutboxStateAcknowledged, ox_acknowledged_at := Some (inbox_formatTime stamp) \<rparr>
        else r\<lparr> ox_state := OutboxStatePending, ox_lease_expires_at := None, ox_last_failure_code := Some code \<rparr>)
     else r)" for r :: OutboxRow
  from assms row consider "db' = db" "ack"
    | "ox_state row = OutboxStateLeased" "db' = db\<lparr> ix_outbox := map f (ix_outbox db) \<rparr>"
    by (auto simp: finishLease_def f_def [abs_def] split: if_splits option.splits)
  then show thesis
  proof cases
    case 2
    show thesis
      by (rule finished [OF 2(2) _ _ mem row(2,3) 2(1)]) (auto simp: keeps_core_def f_def core_eq)
  qed (rule again)
qed

lemma finishLease_inv:
  assumes "finishLease db oid owner generation stamp ack code = Inr db'" and inv: "inbox_inv sha db"
  shows "inbox_inv sha db'"
  using assms(1)
proof (cases rule: finishLeaseE)
  case (finished f row)
  have "generation_ok (f r)" if "r \<in> set (ix_outbox db)" for r
    using that inv finished(9) [of r] by (auto simp: inbox_inv_def generation_ok_def)
  then show ?thesis unfolding finished(1) by (intro keeps_core_inv [OF inv finished(2)])
qed (simp add: inv)

lemma inbox_step_inv: "inbox_step sha js s db db' \<Longrightarrow> inbox_inv sha db \<Longrightarrow> inbox_inv sha db'"
  by (induction rule: inbox_step.induct)
     (auto simp: AcknowledgeOutbox_def ReleaseOutbox_def split: if_splits
       intro: Accept_inv ClaimOutbox_inv finishLease_inv)

lemma inbox_run_inv: "(inbox_step sha js s)\<^sup>*\<^sup>* db db' \<Longrightarrow> inbox_inv sha db \<Longrightarrow> inbox_inv sha db'"
  by (induction rule: rtranclp_induct) (auto intro: inbox_step_inv)

lemma inbox_reachable_inv: "inbox_reachable sha js s db \<Longrightarrow> inbox_inv sha db"
  unfolding inbox_reachable_def using inbox_run_inv inbox_inv_empty by blast

section \<open>What later transactions leave\<close>

definition inbox_extends :: "InboxDB \<Rightarrow> InboxDB \<Rightarrow> bool" where
  "inbox_extends db db' \<longleftrightarrow>
     (\<forall>k row. map_of (ix_inbox db) k = Some row
        \<longrightarrow> (\<exists>n. ib_conflict_count row \<le> n \<and> map_of (ix_inbox db') k = Some (row\<lparr> ib_conflict_count := n \<rparr>)))
     \<and> (\<forall>r\<in>set (ix_outbox db). \<exists>r'\<in>set (ix_outbox db'). row_step r r')"

lemma same_row: "map_of tbl k = Some row \<Longrightarrow> \<exists>n. ib_conflict_count row \<le> n \<and> map_of tbl k = Some (row\<lparr> ib_conflict_count := n \<rparr>)"
  by (intro exI [of _ "ib_conflict_count row"]) simp

text \<open>Rows are kept, or there are more of them.\<close>

lemma inbox_extends_more:
  assumes "\<And>k row. map_of (ix_inbox db) k = Some row \<Longrightarrow> map_of (ix_inbox db') k = Some row"
    and "\<And>r. r \<in> set (ix_outbox db) \<Longrightarrow> \<exists>r'\<in>set (ix_outbox db'). row_step r r'"
  shows "inbox_extends db db'"
  unfolding inbox_extends_def using assms by (blast intro: same_row)

lemma inbox_extends_refl [simp]: "inbox_extends db db"
  by (rule inbox_extends_more) (auto intro: row_step_refl)

lemma inbox_extends_trans: "inbox_extends a b \<Longrightarrow> inbox_extends b c \<Longrightarrow> inbox_extends a c"
proof -
  assume ab: "inbox_extends a b" and bc: "inbox_extends b c"
  have "\<exists>n. ib_conflict_count row \<le> n \<and> map_of (ix_inbox c) k = Some (row\<lparr> ib_conflict_count := n \<rparr>)"
    if "map_of (ix_inbox a) k = Some row" for k row
  proof -
    from ab that obtain n where n: "ib_conflict_count row \<le> n" "map_of (ix_inbox b) k = Some (row\<lparr> ib_conflict_count := n \<rparr>)"
      unfolding inbox_extends_def by blast
    with bc obtain m where "n \<le> m" "map_of (ix_inbox c) k = Some (row\<lparr> ib_conflict_count := m \<rparr>)"
      unfolding inbox_extends_def by fastforce
    with n(1) show ?thesis by (intro exI [of _ m]) simp
  qed
  moreover have "\<exists>r'\<in>set (ix_outbox c). row_step r r'" if "r \<in> set (ix_outbox a)" for r
    using ab bc that unfolding inbox_extends_def by (meson row_step_trans)
  ultimately show ?thesis unfolding inbox_extends_def by blast
qed

lemma inbox_extends_rows:
  assumes "\<And>r. r \<in> set (ix_outbox db) \<Longrightarrow> row_step r (f r)"
  shows "inbox_extends db (db\<lparr> ix_outbox := map f (ix_outbox db) \<rparr>)"
  by (rule inbox_extends_more) (use assms in auto)

lemma Accept_extends:
  assumes "Accept sha js s db d = (db', res, err)"
  shows "inbox_extends db db'"
  using assms
proof (cases rule: Accept_cases)
  case (conflict row)
  show ?thesis unfolding inbox_extends_def
  proof (intro conjI allI impI ballI)
    show "\<exists>n. ib_conflict_count r \<le> n \<and> map_of (ix_inbox db') k = Some (r\<lparr> ib_conflict_count := n \<rparr>)"
      if "map_of (ix_inbox db) k = Some r" for k r
      using that by (intro exI [of _ "ib_conflict_count r + of_bool (k = (vd_ReceiverID d, vd_DeliveryID d))"])
        (simp add: conflict(3) map_of_update_rows)
    show "\<exists>r'\<in>set (ix_outbox db'). row_step r r'" if "r \<in> set (ix_outbox db)" for r
      using that by (intro bexI [of _ r]) (simp_all add: conflict(3))
  qed
next
  case (ignored receipt projection)
  then show ?thesis by (intro inbox_extends_more) (auto simp: map_add_def intro: row_step_refl split: option.splits)
next
  case (enqueued receipt projection rows oid)
  from insertOutboxE [OF enqueued(5)] obtain r where "rows = ix_outbox db @ [r]" by metis
  with enqueued(6) show ?thesis
    by (intro inbox_extends_more) (auto simp: map_add_def intro: row_step_refl split: option.splits)
qed simp

lemma finishLease_extends:
  assumes "finishLease db oid owner generation stamp ack code = Inr db'" and inv: "inbox_inv sha db"
  shows "inbox_extends db db'"
  using assms(1)
proof (cases rule: finishLeaseE)
  case (finished f row)
  have "row_step r (f r)" if r: "r \<in> set (ix_outbox db)" for r
  proof (cases "ox_id r = oid")
    case True
    then have "r = row" using inv_same_id [OF inv r finished(4)] finished(5) by simp
    with finished(2,8,9) show ?thesis by (simp add: row_step_def keeps_core_def)
  qed (simp add: finished(3))
  then show ?thesis unfolding finished(1) by (rule inbox_extends_rows)
qed simp

lemma ClaimOutbox_extends:
  assumes "ClaimOutbox js s db owner now duration limit = Inr (db', recs)" and inv: "inbox_inv sha db"
  shows "inbox_extends db db'"
proof -
  from ClaimOutboxE [OF assms] obtain cs where cs: "db' = db\<lparr> ix_outbox := map (fold (claimStep (inbox_formatTime now)) cs) (ix_outbox db) \<rparr>"
    "distinct (map le_ID cs)" "\<And>c. c \<in> set cs \<Longrightarrow> \<exists>r\<in>set (ix_outbox db). leasedRecord js owner (addTime now duration) r = Inr c"
    by metis
  show ?thesis unfolding cs(1) using claim_row [OF inv _ cs(2,3)] by (intro inbox_extends_rows) blast
qed

lemma inbox_step_extends: "inbox_step sha js s db db' \<Longrightarrow> inbox_inv sha db \<Longrightarrow> inbox_extends db db'"
  by (induction rule: inbox_step.induct)
     (auto simp: AcknowledgeOutbox_def ReleaseOutbox_def split: if_splits
       intro: Accept_extends ClaimOutbox_extends finishLease_extends)

lemma inbox_run_extends: "(inbox_step sha js s)\<^sup>*\<^sup>* db db' \<Longrightarrow> inbox_inv sha db \<Longrightarrow> inbox_extends db db'"
proof (induction rule: rtranclp_induct)
  case (step b c)
  then show ?case using inbox_extends_trans inbox_step_extends inbox_run_inv by blast
qed simp

text \<open>The outbox is a table of leases.\<close>

definition outbox_lease :: "InboxDB \<Rightarrow> string \<Rightarrow> int \<Rightarrow> bool" where
  "outbox_lease db i g \<longleftrightarrow> (\<exists>r\<in>set (ix_outbox db). ox_id r = i \<and> ox_lease_generation r = g)"

interpretation outbox: lease_table "inbox_step sha js s" "inbox_inv sha" outbox_lease
proof
  show "inbox_step sha js s db db' \<Longrightarrow> inbox_inv sha db \<Longrightarrow> inbox_inv sha db'" for db db' by (rule inbox_step_inv)
  show "inbox_inv sha db \<Longrightarrow> outbox_lease db i g \<Longrightarrow> outbox_lease db i g' \<Longrightarrow> g = g'" for db i g g'
    unfolding outbox_lease_def using inv_same_id by blast
  show "inbox_step sha js s db db' \<Longrightarrow> inbox_inv sha db \<Longrightarrow> outbox_lease db i g \<Longrightarrow> \<exists>g'. outbox_lease db' i g' \<and> g \<le> g'"
    for db db' i g
    using inbox_step_extends [of sha js s db db'] unfolding inbox_extends_def outbox_lease_def row_step_def core_eq
    by metis
qed

text \<open>A claimed record is the lease of a row, before and after.\<close>

lemma claimed_rows:
  assumes "ClaimOutbox js s db owner now duration limit = Inr (db', recs)" and inv: "inbox_inv sha db" and "c \<in> set recs"
  obtains r where "r \<in> set (ix_outbox db)" "outboxClaimable (inbox_formatTime now) r"
    "leasedRecord js owner (addTime now duration) r = Inr c" "leaseOutboxRow c r \<in> set (ix_outbox db')"
proof -
  from ClaimOutboxE [OF assms(1,2)] obtain cs where
    db': "db' = db\<lparr> ix_outbox := map (fold (claimStep (inbox_formatTime now)) cs) (ix_outbox db) \<rparr>"
    and rows: "\<And>c. c \<in> set cs \<Longrightarrow> \<exists>r\<in>set (ix_outbox db). outboxClaimable (inbox_formatTime now) r
       \<and> leasedRecord js owner (addTime now duration) r = Inr c"
    and d: "distinct (map le_ID cs)"
    and claimed: "\<And>c. c \<in> set recs \<Longrightarrow> c \<in> set cs \<and> (\<exists>r\<in>set (ix_outbox db). outboxMatches (inbox_formatTime now) c r)"
    by metis
  from claimed [OF assms(3)] have c: "c \<in> set cs" and m: "\<exists>r\<in>set (ix_outbox db). outboxMatches (inbox_formatTime now) c r" by auto
  from rows [OF c] obtain r where r: "r \<in> set (ix_outbox db)" "outboxClaimable (inbox_formatTime now) r"
    "leasedRecord js owner (addTime now duration) r = Inr c" by blast
  have id: "ox_id r = le_ID c" using leasedRecordE(1) [OF r(3)] by simp
  from m inv_same_id [OF inv r(1)] id have "outboxMatches (inbox_formatTime now) c r"
    unfolding outboxMatches_def by metis
  then have "fold (claimStep (inbox_formatTime now)) cs r = leaseOutboxRow c r"
    using fold_claim_one [OF d c id] by (simp add: claimStep_def)
  with r(1) have "leaseOutboxRow c r \<in> set (ix_outbox db')" unfolding db' by force
  with r show thesis by (rule that)
qed

lemma stale_outbox_lease:
  assumes "inbox_inv sha db" and "\<not> outbox_lease db i g"
  shows "finishLease db i owner g stamp ack code = Inl (inboxErr ''stale-lease'' ''lease'')"
proof (cases "List.find (\<lambda>r. ox_id r = i) (ix_outbox db)")
  case (Some r)
  then have "r \<in> set (ix_outbox db)" "ox_id r = i" by (auto simp: find_Some_iff)
  with assms have "ox_lease_generation r \<noteq> g" "generation_ok r" by (auto simp: outbox_lease_def inbox_inv_def)
  then have "ox_lease_generation r mod 2 ^ 64 \<noteq> g" by (simp add: generation_ok_def)
  with Some show ?thesis by (simp add: finishLease_def)
qed (simp add: finishLease_def)

section \<open>Times as texts\<close>

lemma text_le_late: "text_le (inbox_formatTime a) (inbox_formatTime b) \<Longrightarrow> st_nanos a < st_nanos b + 10 ^ 9"
  by (auto simp: text_le_def inbox_formatTime_def Let_def)

lemma text_le_early: "st_nanos a + 10 ^ 9 \<le> st_nanos b \<Longrightarrow> text_le (inbox_formatTime a) (inbox_formatTime b)"
  by (auto simp: text_le_def inbox_formatTime_def Let_def)

end
