(* ===== verification/Intake.thy ===== *)
theory Intake
  imports GithubReceiver GithubController Inbox_Facts
begin

text \<open>
  The receiver and the controllers at work on the same inbox and store: a step relation in which every transaction is a
  step of its own, so that controllers interleave and may stop anywhere, and the facts that hold in every state it
  reaches.
\<close>

section \<open>Steps\<close>

text \<open>
  A controller at work holds a record it claimed; the flag says that the store has confirmed the processing.
\<close>

record intake_state =
  in_inbox :: InboxDB
  in_store :: ControllerDB
  in_flight :: "(LeasedRecord \<times> bool) set"

text \<open>The last transaction of the processing of a record.\<close>

inductive completes :: "(string \<Rightarrow> string) \<Rightarrow> StoreConfig \<Rightarrow> LeasedRecord \<Rightarrow> ControllerDB \<Rightarrow> ControllerDB \<Rightarrow> bool"
  for sha s rec where
  by_decision: "RecordProcessingDecision sha s db (processedDelivery rec t) decision t' = Inr (db', r) \<Longrightarrow> completes sha s rec db db'"
| by_snapshot: "ApplyPullRequestSnapshot sha s db i = Inr (db', r) \<Longrightarrow> ri_Processed i = processedDelivery rec t
    \<Longrightarrow> completes sha s rec db db'"
| by_hint: "ApplyInstallationHint sha s db h = Inr (db', r) \<Longrightarrow> ih_Processed h = processedDelivery rec t
    \<Longrightarrow> completes sha s rec db db'"
| by_rerequest: "ApplyCheckRunRerequest sha s db q = Inr (db', r) \<Longrightarrow> rq_Processed q = processedDelivery rec t
    \<Longrightarrow> completes sha s rec db db'"

text \<open>
  A delivery is accepted; records are claimed; the store makes a transaction of its own, such as taking a reconcile
  lease; a claimed record is processed; a processed record is acknowledged by the holder; a holder releases a record;
  holders stop.
\<close>

inductive intake_step ::
  "(string \<Rightarrow> string) \<Rightarrow> (string list \<Rightarrow> string) \<Rightarrow> inbox_json \<Rightarrow> InboxConfig \<Rightarrow> StoreConfig \<Rightarrow> intake_state \<Rightarrow> intake_state \<Rightarrow> bool"
  for sha marshal js ics s where
  accept: "Accept sha js ics inbox d = (inbox', res, err)
    \<Longrightarrow> intake_step sha marshal js ics s \<lparr> in_inbox = inbox, in_store = db, in_flight = F \<rparr> \<lparr> in_inbox = inbox', in_store = db, in_flight = F \<rparr>"
| claim: "ClaimOutbox js ics inbox owner now duration limit = Inr (inbox', recs)
    \<Longrightarrow> intake_step sha marshal js ics s \<lparr> in_inbox = inbox, in_store = db, in_flight = F \<rparr>
      \<lparr> in_inbox = inbox', in_store = db, in_flight = F \<union> set recs \<times> {False} \<rparr>"
| store: "store_step sha marshal s db db'
    \<Longrightarrow> intake_step sha marshal js ics s \<lparr> in_inbox = inbox, in_store = db, in_flight = F \<rparr> \<lparr> in_inbox = inbox, in_store = db', in_flight = F \<rparr>"
| process: "completes sha s rec db db' \<Longrightarrow> (rec, False) \<in> F
    \<Longrightarrow> intake_step sha marshal js ics s \<lparr> in_inbox = inbox, in_store = db, in_flight = F \<rparr>
      \<lparr> in_inbox = inbox, in_store = db', in_flight = insert (rec, True) F \<rparr>"
| acknowledge: "AcknowledgeOutbox inbox (le_ID rec) owner g t = Inr inbox' \<Longrightarrow> (rec, True) \<in> F
    \<Longrightarrow> intake_step sha marshal js ics s \<lparr> in_inbox = inbox, in_store = db, in_flight = F \<rparr> \<lparr> in_inbox = inbox', in_store = db, in_flight = F \<rparr>"
| release: "ReleaseOutbox inbox oid owner g t code = Inr inbox'
    \<Longrightarrow> intake_step sha marshal js ics s \<lparr> in_inbox = inbox, in_store = db, in_flight = F \<rparr> \<lparr> in_inbox = inbox', in_store = db, in_flight = F \<rparr>"
| stop: "F' \<subseteq> F
    \<Longrightarrow> intake_step sha marshal js ics s \<lparr> in_inbox = inbox, in_store = db, in_flight = F \<rparr> \<lparr> in_inbox = inbox, in_store = db, in_flight = F' \<rparr>"

definition intake_start :: intake_state where
  "intake_start = \<lparr> in_inbox = emptyInbox, in_store = emptyDB, in_flight = {} \<rparr>"

definition intake_reachable ::
  "(string \<Rightarrow> string) \<Rightarrow> (string list \<Rightarrow> string) \<Rightarrow> inbox_json \<Rightarrow> InboxConfig \<Rightarrow> StoreConfig \<Rightarrow> intake_state \<Rightarrow> bool" where
  "intake_reachable sha marshal js ics s \<sigma> \<longleftrightarrow> (intake_step sha marshal js ics s)\<^sup>*\<^sup>* intake_start \<sigma>"

section \<open>Processed records\<close>

text \<open>The store has processed the record with this identity and digest.\<close>

definition processed :: "ControllerDB \<Rightarrow> string \<Rightarrow> string \<Rightarrow> string \<Rightarrow> bool" where
  "processed db receiver oid digest \<longleftrightarrow>
     (\<exists>row. map_of (db_processed db) (receiver, oid) = Some row \<and> zr_ProjectionDigest row = digest)"

lemma processed_extends: "extends db db' \<Longrightarrow> processed db receiver oid digest \<Longrightarrow> processed db' receiver oid digest"
  by (auto simp: extends_def processed_def)

lemma processed_duplicate: "checkProcessed db p = Inr (Some r) \<Longrightarrow> processed db (pz_ReceiverID p) (pz_OutboxID p) (pz_ProjectionDigest p)"
  by (auto simp: checkProcessed_def processed_def split: option.splits if_splits)

lemma processed_insert:
  "insertProcessed sha db p r = Inr db' \<Longrightarrow> processed db' (pz_ReceiverID p) (pz_OutboxID p) (pz_ProjectionDigest p)"
  by (auto simp: insertProcessed_def insert_row_def processed_def map_add_def split: option.splits if_splits)

lemma processed_release:
  "releaseReconcileLease db l = Inr db' \<Longrightarrow> processed db receiver oid digest \<Longrightarrow> processed db' receiver oid digest"
  using extends_release processed_extends by blast

lemma processed_finish:
  "finishRerequest sha q (db, r0) = Inr (db', r) \<Longrightarrow>
   processed db' (pz_ReceiverID (rq_Processed q)) (pz_OutboxID (rq_Processed q)) (pz_ProjectionDigest (rq_Processed q))"
  by (auto simp: finishRerequest_def result_simps intro: processed_release processed_insert)

lemma completes_processed:
  "completes sha s rec db db' \<Longrightarrow> processed db' (le_ReceiverID rec) (le_ID rec) (le_ProjectionDigest rec)"
proof (induction rule: completes.induct)
  case (by_decision db t decision t' db' r)
  then show ?case
  proof (cases rule: RecordProcessingDecision_cases)
    case duplicate
    then show ?thesis using processed_duplicate by (fastforce simp: processedDelivery_def)
  next
    case fresh
    then show ?thesis using processed_insert [OF fresh(2)] by (simp add: processedDelivery_def)
  qed
next
  case (by_snapshot db i db' r t)
  from by_snapshot(1) show ?case
  proof (cases rule: ApplyPullRequestSnapshot_cases)
    case duplicate
    then show ?thesis using processed_release [OF _ processed_duplicate] by_snapshot(2) by (fastforce simp: processedDelivery_def)
  next
    case (fresh db1 db2)
    then show ?thesis using processed_release [OF _ processed_insert] by_snapshot(2) by (fastforce simp: processedDelivery_def)
  qed
next
  case (by_hint db h db' r t)
  from by_hint(1) show ?case
  proof (cases rule: ApplyInstallationHint_cases)
    case duplicate
    then show ?thesis using processed_duplicate by_hint(2) by (fastforce simp: processedDelivery_def)
  next
    case (fresh rows db1)
    then show ?thesis using processed_insert [OF fresh(4)] by_hint(2) by (simp add: processedDelivery_def)
  qed
next
  case (by_rerequest db q db' r t)
  from by_rerequest(1) show ?case
  proof (cases rule: ApplyCheckRunRerequest_cases)
    case duplicate
    then show ?thesis using processed_release [OF _ processed_duplicate] by_rerequest(2) by (fastforce simp: processedDelivery_def)
  next
    case ignored
    then show ?thesis using processed_finish [OF ignored(2)] by_rerequest(2) by (simp add: processedDelivery_def)
  next
    case (created b db1)
    then show ?thesis using processed_finish [OF created(4)] by_rerequest(2) by (simp add: processedDelivery_def)
  qed
qed

lemma completes_step: "completes sha s rec db db' \<Longrightarrow> store_step sha marshal s db db'"
  by (induction rule: completes.induct) (auto intro: store_step.intros)

section \<open>The invariant of the intake\<close>

definition held_row :: "InboxDB \<Rightarrow> LeasedRecord \<Rightarrow> bool" where
  "held_row inbox rec \<longleftrightarrow> (\<exists>r\<in>set (ix_outbox inbox). ox_id r = le_ID rec \<and> ox_receiver_id r = le_ReceiverID rec
     \<and> ox_projection_digest r = le_ProjectionDigest rec)"

definition acknowledged_ok :: "InboxDB \<Rightarrow> ControllerDB \<Rightarrow> bool" where
  "acknowledged_ok inbox db \<longleftrightarrow> (\<forall>r\<in>set (ix_outbox inbox). ox_state r = OutboxStateAcknowledged
     \<longrightarrow> processed db (ox_receiver_id r) (ox_id r) (ox_projection_digest r))"

definition flight_ok :: "InboxDB \<Rightarrow> ControllerDB \<Rightarrow> LeasedRecord \<times> bool \<Rightarrow> bool" where
  "flight_ok inbox db f \<longleftrightarrow> held_row inbox (fst f)
     \<and> (snd f \<longrightarrow> processed db (le_ReceiverID (fst f)) (le_ID (fst f)) (le_ProjectionDigest (fst f)))"

definition intake_inv :: "(string \<Rightarrow> string) \<Rightarrow> intake_state \<Rightarrow> bool" where
  "intake_inv sha \<sigma> \<longleftrightarrow> inbox_inv sha (in_inbox \<sigma>) \<and> store_inv (in_store \<sigma>) \<and> acknowledged_ok (in_inbox \<sigma>) (in_store \<sigma>)
     \<and> (\<forall>f\<in>in_flight \<sigma>. flight_ok (in_inbox \<sigma>) (in_store \<sigma>) f)"

lemma held_extends: "inbox_extends inbox inbox' \<Longrightarrow> held_row inbox rec \<Longrightarrow> held_row inbox' rec"
  unfolding inbox_extends_def held_row_def row_step_def core_eq by metis

lemma flight_extends:
  "inbox_extends inbox inbox' \<Longrightarrow> extends db db' \<Longrightarrow> flight_ok inbox db f \<Longrightarrow> flight_ok inbox' db' f"
  using held_extends processed_extends unfolding flight_ok_def by blast

lemma acknowledged_extends: "extends db db' \<Longrightarrow> acknowledged_ok inbox db \<Longrightarrow> acknowledged_ok inbox db'"
  using processed_extends unfolding acknowledged_ok_def by blast

text \<open>The inbox changes while every newly acknowledged row is processed.\<close>

lemma intake_inv_inbox:
  assumes "intake_inv sha \<lparr> in_inbox = inbox, in_store = db, in_flight = F \<rparr>"
    and "inbox_inv sha inbox'" and "inbox_extends inbox inbox'"
    and "\<And>r'. r' \<in> set (ix_outbox inbox') \<Longrightarrow> ox_state r' = OutboxStateAcknowledged
       \<Longrightarrow> r' \<in> set (ix_outbox inbox) \<or> processed db (ox_receiver_id r') (ox_id r') (ox_projection_digest r')"
  shows "intake_inv sha \<lparr> in_inbox = inbox', in_store = db, in_flight = F \<rparr>"
proof -
  have "acknowledged_ok inbox' db"
    using assms(1,4) unfolding intake_inv_def acknowledged_ok_def intake_state.select_convs by blast
  with assms(1,2) flight_extends [OF assms(3) extends_refl] show ?thesis
    unfolding intake_inv_def intake_state.select_convs by blast
qed

lemma Accept_acknowledged:
  assumes "Accept sha js s db d = (db', res, err)" and "r \<in> set (ix_outbox db')" and "ox_state r = OutboxStateAcknowledged"
  shows "r \<in> set (ix_outbox db)"
  using assms(1)
proof (cases rule: Accept_cases)
  case (enqueued receipt projection rows oid)
  from insertOutboxE [OF enqueued(5)] obtain r1 where "rows = ix_outbox db @ [r1]" "ox_state r1 = OutboxStatePending" by metis
  with assms(2,3) enqueued(6) show ?thesis by auto
qed (use assms(2) in auto)

lemma fold_claim_acknowledged:
  "ox_state (fold (claimStep now) cs r) = OutboxStateAcknowledged \<Longrightarrow> fold (claimStep now) cs r = r"
proof (induction cs arbitrary: r)
  case (Cons c cs)
  have same: "fold (claimStep now) cs (claimStep now c r) = claimStep now c r" using Cons by simp
  with Cons.prems have "ox_state (claimStep now c r) = OutboxStateAcknowledged" by simp
  then have "claimStep now c r = r" by (cases "outboxMatches now c r") (simp_all add: claimStep_def leaseOutboxRow_def)
  with same show ?case by simp
qed simp

lemma ClaimOutbox_acknowledged:
  assumes "ClaimOutbox js s db owner now duration limit = Inr (db', recs)" and "inbox_inv sha db"
    and "r \<in> set (ix_outbox db')" and "ox_state r = OutboxStateAcknowledged"
  shows "r \<in> set (ix_outbox db)"
proof -
  from ClaimOutboxE [OF assms(1,2)] obtain cs where "db' = db\<lparr> ix_outbox := map (fold (claimStep (inbox_formatTime now)) cs) (ix_outbox db) \<rparr>"
    by metis
  with assms(3) obtain x where "x \<in> set (ix_outbox db)" "r = fold (claimStep (inbox_formatTime now)) cs x" by auto
  with assms(4) fold_claim_acknowledged [of "inbox_formatTime now" cs x] show ?thesis by simp
qed

lemma claimed_held:
  assumes "ClaimOutbox js s db owner now duration limit = Inr (db', recs)" and "inbox_inv sha db" and "c \<in> set recs"
  shows "held_row db' c"
proof -
  from claimed_rows [OF assms] obtain r where r: "leasedRecord js owner (addTime now duration) r = Inr c"
    "leaseOutboxRow c r \<in> set (ix_outbox db')" by metis
  have "ox_id (leaseOutboxRow c r) = ox_id r" "ox_receiver_id (leaseOutboxRow c r) = ox_receiver_id r"
    "ox_projection_digest (leaseOutboxRow c r) = ox_projection_digest r" by (simp_all add: leaseOutboxRow_def)
  with r(2) leasedRecordE [OF r(1)] show ?thesis unfolding held_row_def by metis
qed

text \<open>What a finished lease acknowledges is the row of its identifier.\<close>

lemma finishLease_acknowledged:
  assumes "finishLease db oid owner g t ack code = Inr db'"
    and "r \<in> set (ix_outbox db')" and "ox_state r = OutboxStateAcknowledged"
  shows "r \<in> set (ix_outbox db) \<or> ack \<and> (\<exists>r0\<in>set (ix_outbox db). ox_id r0 = oid \<and> outbox_core r = outbox_core r0)"
  using assms(1)
proof (cases rule: finishLeaseE)
  case (finished f row)
  from assms(2) finished(1) obtain r0 where r0: "r0 \<in> set (ix_outbox db)" "r = f r0" by auto
  show ?thesis
  proof (cases "ox_id r0 = oid")
    case True
    with finished(10) [of r0] assms(3) r0 finished(2) show ?thesis by (auto simp: keeps_core_def split: if_splits)
  qed (use r0 finished(3) in auto)
qed (use assms(2) in simp)

lemma intake_inv_acknowledge:
  assumes inv: "intake_inv sha \<lparr> in_inbox = inbox, in_store = db, in_flight = F \<rparr>"
    and fin: "finishLease inbox (le_ID rec) owner g t True code = Inr inbox'" and rec: "(rec, True) \<in> F"
  shows "intake_inv sha \<lparr> in_inbox = inbox', in_store = db, in_flight = F \<rparr>"
proof -
  have inb: "inbox_inv sha inbox" and ok: "flight_ok inbox db (rec, True)"
    using inv rec by (simp_all add: intake_inv_def)
  then obtain row where row: "row \<in> set (ix_outbox inbox)" "ox_id row = le_ID rec" "ox_receiver_id row = le_ReceiverID rec"
    "ox_projection_digest row = le_ProjectionDigest rec" "processed db (le_ReceiverID rec) (le_ID rec) (le_ProjectionDigest rec)"
    by (auto simp: flight_ok_def held_row_def)
  show ?thesis
  proof (rule intake_inv_inbox [OF inv finishLease_inv [OF fin inb] finishLease_extends [OF fin inb]])
    fix r assume r: "r \<in> set (ix_outbox inbox')" "ox_state r = OutboxStateAcknowledged"
    from finishLease_acknowledged [OF fin r]
    show "r \<in> set (ix_outbox inbox) \<or> processed db (ox_receiver_id r) (ox_id r) (ox_projection_digest r)"
    proof
      assume "True \<and> (\<exists>r0\<in>set (ix_outbox inbox). ox_id r0 = le_ID rec \<and> outbox_core r = outbox_core r0)"
      then obtain r0 where "r0 \<in> set (ix_outbox inbox)" "ox_id r0 = le_ID rec" "outbox_core r = outbox_core r0" by blast
      moreover from this row(1,2) have "r0 = row" using inv_same_id [OF inb] by simp
      ultimately show ?thesis using row by (simp add: core_eq)
    qed simp
  qed
qed

lemma intake_step_inv: "intake_step sha marshal js ics s \<sigma> \<sigma>' \<Longrightarrow> intake_inv sha \<sigma> \<Longrightarrow> intake_inv sha \<sigma>'"
proof (induction rule: intake_step.induct)
  case (accept inbox d inbox' res err db F)
  then have inb: "inbox_inv sha inbox" by (simp add: intake_inv_def)
  show ?case
    by (rule intake_inv_inbox [OF accept.prems Accept_inv [OF accept.hyps inb] Accept_extends [OF accept.hyps]])
       (use Accept_acknowledged [OF accept.hyps] in blast)
next
  case (claim inbox owner now duration limit inbox' recs db F)
  then have inb: "inbox_inv sha inbox" by (simp add: intake_inv_def)
  have "intake_inv sha \<lparr> in_inbox = inbox', in_store = db, in_flight = F \<rparr>"
    by (rule intake_inv_inbox [OF claim.prems ClaimOutbox_inv [OF claim.hyps inb] ClaimOutbox_extends [OF claim.hyps inb]])
       (use ClaimOutbox_acknowledged [OF claim.hyps inb] in blast)
  then show ?case using claimed_held [OF claim.hyps inb] by (auto simp: intake_inv_def flight_ok_def)
next
  case (store db db' inbox F)
  have "extends db db'" by (rule store_step_extends [OF store.hyps])
  then show ?case
    using store.prems flight_extends [OF inbox_extends_refl, of db db'] acknowledged_extends [of db db'] store_step_inv [OF store.hyps]
    unfolding intake_inv_def intake_state.select_convs by blast
next
  case (process rec db db' F inbox)
  have st: "store_step sha marshal s db db'" by (rule completes_step [OF process.hyps(1)])
  then have ext: "extends db db'" by (rule store_step_extends)
  have "flight_ok inbox db (rec, False)"
    using process.prems process.hyps(2) unfolding intake_inv_def intake_state.select_convs by blast
  then have "flight_ok inbox db' (rec, True)"
    using completes_processed [OF process.hyps(1)] by (simp add: flight_ok_def)
  then show ?case
    using process.prems flight_extends [OF inbox_extends_refl ext] acknowledged_extends [OF ext] store_step_inv [OF st]
    unfolding intake_inv_def intake_state.select_convs by blast
next
  case (acknowledge inbox rec owner g t inbox' F db)
  show ?case
    by (rule intake_inv_acknowledge [OF acknowledge.prems acknowledge.hyps(1) [unfolded AcknowledgeOutbox_def] acknowledge.hyps(2)])
next
  case (release inbox oid owner g t code inbox' db F)
  then have fin: "finishLease inbox oid owner g t False code = Inr inbox'" by (simp add: ReleaseOutbox_def split: if_splits)
  have inb: "inbox_inv sha inbox" using release.prems by (simp add: intake_inv_def)
  show ?case
    by (rule intake_inv_inbox [OF release.prems finishLease_inv [OF fin inb] finishLease_extends [OF fin inb]])
       (use finishLease_acknowledged [OF fin] in blast)
next
  case (stop F' F inbox db)
  then show ?case by (auto simp: intake_inv_def)
qed

lemma intake_reachable_inv: "intake_reachable sha marshal js ics s \<sigma> \<Longrightarrow> intake_inv sha \<sigma>"
proof -
  assume "intake_reachable sha marshal js ics s \<sigma>"
  then have run: "(intake_step sha marshal js ics s)\<^sup>*\<^sup>* intake_start \<sigma>" by (simp add: intake_reachable_def)
  have "acknowledged_ok emptyInbox emptyDB" by (simp add: acknowledged_ok_def emptyInbox_def)
  then have "intake_inv sha intake_start"
    by (simp add: intake_inv_def intake_start_def inbox_inv_empty store_inv_empty)
  with run show ?thesis by (induction rule: rtranclp_induct) (auto intro: intake_step_inv)
qed

section \<open>A round of a controller is a run\<close>

lemma store_callE:
  assumes "store_call db x = (db', res)"
  obtains (failed) e where "res = Inl e" "db' = db" | (ok) y where "res = Inr y" "x = Inr (db', y)"
  using assms by (auto simp: store_call_def split: sum.splits)

lemma readUnderLease_step:
  assumes "readUnderLease s c env clk db key route = (db1, x)"
  shows "(store_step sha marshal s)\<^sup>*\<^sup>* db db1"
  using assms
  by (auto simp: readUnderLease_def split: sum.splits prod.splits
      intro: r_into_rtranclp store_step.acquire)

text \<open>Processing takes at most a lease before its last transaction; when it fails there is no last one.\<close>

definition processes_to ::
  "(string \<Rightarrow> string) \<Rightarrow> (string list \<Rightarrow> string) \<Rightarrow> StoreConfig \<Rightarrow> LeasedRecord \<Rightarrow> ControllerDB \<Rightarrow> ControllerDB \<times> ReconcileResult result \<Rightarrow> bool" where
  "processes_to sha marshal s rec db out \<longleftrightarrow> (\<exists>db0. (store_step sha marshal s)\<^sup>*\<^sup>* db db0
     \<and> (case snd out of Inl _ \<Rightarrow> fst out = db0 | Inr _ \<Rightarrow> completes sha s rec db0 (fst out)))"

lemma processes_to_call:
  assumes "(store_step sha marshal s)\<^sup>*\<^sup>* db db0" and "\<And>db' y. x = Inr (db', y) \<Longrightarrow> completes sha s rec db0 db'"
  shows "processes_to sha marshal s rec db (store_call db0 x)"
  using assms by (auto simp: processes_to_def store_call_def split: sum.splits)

lemma processes_to_error: "(store_step sha marshal s)\<^sup>*\<^sup>* db db0 \<Longrightarrow> processes_to sha marshal s rec db (db0, Inl e)"
  by (auto simp: processes_to_def)

lemma recordDecision_run: "processes_to sha marshal s rec db (recordDecision sha s clk db rec decision)"
  unfolding recordDecision_def by (intro processes_to_call) (auto intro: completes.by_decision)

lemma processInstallation_run: "processes_to sha marshal s rec db (processInstallation sha s clk db rec)"
proof (cases "wp_Installation (le_Projection rec)")
  case (Some p)
  then show ?thesis unfolding processInstallation_def
    by simp (intro processes_to_call, auto intro: completes.by_hint)
qed (simp add: processInstallation_def processes_to_error)

lemma processPullRequest_run: "processes_to sha marshal s rec db (processPullRequest sha s c env clk db rec)"
proof (cases "wp_PullRequest (le_Projection rec)")
  case (Some p)
  let ?key = "\<lparr> pk_InstallationID = prp_InstallationID p, pk_BaseRepositoryID = prp_RepositoryID p, pk_PullRequestNumber = prp_PullRequestNumber p \<rparr>"
  let ?route = "\<lparr> ro_Owner = prp_BaseRepositoryOwner p, ro_Repo = prp_BaseRepositoryName p, ro_RepositoryID = prp_RepositoryID p \<rparr>"
  obtain db1 x where read: "readUnderLease s c env clk db ?key ?route = (db1, x)" by fastforce
  note run = readUnderLease_step [OF read, of sha marshal]
  show ?thesis
  proof (cases x)
    case (Inr y)
    obtain l snap where "y = (l, snap)" by (cases y)
    with Inr Some read run show ?thesis
      by (auto simp: processPullRequest_def recordDecision_run intro!: processes_to_call intro: completes.by_snapshot)
  qed (use Some read run in \<open>auto simp: processPullRequest_def recordDecision_run intro: processes_to_error\<close>)
qed (simp add: processPullRequest_def processes_to_error)

lemma processRerequest_run: "processes_to sha marshal s rec db (processRerequest sha s c env clk db rec)"
proof -
  have applied: "processes_to sha marshal s rec db (case readUnderLease s c env clk db key route of
      (db1, Inl e) \<Rightarrow> (db1, Inl e)
    | (db1, Inr (lease, snap)) \<Rightarrow> (case rerequestSnapshotTarget sha snap key of (tid, eligible) \<Rightarrow>
        store_call db1 (ApplyCheckRunRerequest sha s db1
          \<lparr> rq_Processed = processedDelivery rec (leaseTime clk), rq_Lease = lease, rq_Projection = p,
            rq_SnapshotEligible = eligible, rq_SnapshotTargetID = tid, rq_Now = leaseTime clk,
            rq_ConfiguredAppID = co_appID c \<rparr>)))" for key route p
  proof -
    obtain db1 x where read: "readUnderLease s c env clk db key route = (db1, x)" by fastforce
    note run = readUnderLease_step [OF read, of sha marshal]
    show ?thesis
      by (auto simp: read run split: sum.splits prod.splits intro!: processes_to_call processes_to_error
          intro: completes.by_rerequest)
  qed
  show ?thesis
    unfolding processRerequest_def Let_def
    by (auto simp: recordDecision_run applied intro: processes_to_error split: option.split sum.split)
qed

lemma ProcessRecord_run: "processes_to sha marshal s rec db (ProcessRecord sha s c env clk db rec)"
  by (simp add: ProcessRecord_def recordDecision_run processInstallation_run processPullRequest_run processRerequest_run)

lemma intake_store_run:
  "(store_step sha marshal s)\<^sup>*\<^sup>* db db' \<Longrightarrow> (intake_step sha marshal js ics s)\<^sup>*\<^sup>*
     \<lparr> in_inbox = inbox, in_store = db, in_flight = F \<rparr> \<lparr> in_inbox = inbox, in_store = db', in_flight = F \<rparr>"
  by (induction rule: rtranclp_induct) (auto intro: rtranclp.rtrancl_into_rtrancl intake_step.store)

end
