(* ===== verification/Payload_Facts.thy ===== *)
theory Payload_Facts
  imports GithubPayload
begin

text \<open>
  The scan of a webhook body against its reference: a body passes exactly when its tokens are those of one JSON
  object within the limits and without repeated members. The bound of the scan is always enough.
\<close>

section \<open>JSON values and their tokens\<close>

datatype json = JObject "(string \<times> json) list" | JArray "json list" | JScalar json_token

fun tokens_of :: "json \<Rightarrow> json_stream" where
  "tokens_of (JObject ms) = JDelim CHR ''{'' # concat (map (\<lambda>(k, v). JString k # tokens_of v) ms) @ [JDelim CHR ''}'']"
| "tokens_of (JArray vs) = JDelim CHR ''['' # concat (map tokens_of vs) @ [JDelim CHR '']'']"
| "tokens_of (JScalar t) = [t]"

fun json_ok :: "GithubLimits \<Rightarrow> int \<Rightarrow> json \<Rightarrow> bool" where
  "json_ok l d (JObject ms) \<longleftrightarrow> d \<le> gl_MaxJSONDepth l \<and> distinct (map fst ms) \<and> int (length ms) \<le> gl_MaxMembersPerObject l
     \<and> list_all (\<lambda>(k, v). scalar_error l (JString k) = None \<and> json_ok l (d + 1) v) ms"
| "json_ok l d (JArray vs) \<longleftrightarrow> d \<le> gl_MaxJSONDepth l \<and> int (length vs) \<le> gl_MaxArrayElements l
     \<and> list_all (json_ok l (d + 1)) vs"
| "json_ok l d (JScalar t) \<longleftrightarrow> d \<le> gl_MaxJSONDepth l \<and> \<not> is_JDelim t \<and> scalar_error l t = None"

abbreviation member_tokens :: "(string \<times> json) list \<Rightarrow> json_stream" where
  "member_tokens ms \<equiv> concat (map (\<lambda>(k, v). JString k # tokens_of v) ms)"

abbreviation members_ok :: "GithubLimits \<Rightarrow> int \<Rightarrow> (string \<times> json) list \<Rightarrow> bool" where
  "members_ok l d ms \<equiv> list_all (\<lambda>(k, v). scalar_error l (JString k) = None \<and> json_ok l (d + 1) v) ms"

lemma add_token_Inr [result_simps]: "add_token l k = Inr k1 \<longleftrightarrow> k1 = k + 1 \<and> k + 1 \<le> gl_MaxJSONTokens l"
  by (auto simp: add_token_def)

lemma scanClose_Inr:
  "scanClose l c ts k = Some (Inr (rest, k')) \<longleftrightarrow> ts = JDelim c # rest \<and> k' = k + 1 \<and> k + 1 \<le> gl_MaxJSONTokens l"
  by (auto simp: scanClose_def result_simps split: list.splits if_splits)

lemma after_value_Inr:
  "after_value v cont = Some (Inr r) \<longleftrightarrow> (\<exists>ts k. v = Some (Inr (ts, k)) \<and> cont ts k = Some (Inr r))"
  by (auto simp: after_value_def split: option.splits sum.splits)

lemma memberKeyError_None:
  "memberKeyError l members t = None \<longleftrightarrow> (\<exists>key. t = JString key \<and> scalar_error l t = None \<and> key \<notin> set members
     \<and> int (Suc (length members)) \<le> gl_MaxMembersPerObject l)"
  by (auto simp: memberKeyError_def split: json_token.splits if_splits)

section \<open>What the scan accepts\<close>

text \<open>What a successful call has read.\<close>

fun read_by :: "GithubLimits \<Rightarrow> scan_call \<Rightarrow> json_stream \<Rightarrow> bool" where
  "read_by l (ScanValue d atTop) ts \<longleftrightarrow> (\<exists>v. ts = tokens_of v \<and> json_ok l d v \<and> (atTop \<longrightarrow> (\<exists>ms. v = JObject ms)))"
| "read_by l (ScanMembers d members) ts \<longleftrightarrow> (\<exists>ms. ts = member_tokens ms @ [JDelim CHR ''}''] \<and> members_ok l d ms
     \<and> distinct (map fst ms) \<and> set (map fst ms) \<inter> set members = {}
     \<and> (ms = [] \<or> int (length ms + length members) \<le> gl_MaxMembersPerObject l))"
| "read_by l (ScanElements d seen) ts \<longleftrightarrow> (\<exists>vs. ts = concat (map tokens_of vs) @ [JDelim CHR '']''] \<and> list_all (json_ok l (d + 1)) vs
     \<and> (vs = [] \<or> int (length vs + seen) \<le> gl_MaxArrayElements l))"

lemma read_member:
  assumes "read_by l (ScanValue (d + 1) False) ts1" and "read_by l (ScanMembers d (key # members)) ts2"
    and "memberKeyError l members (JString key) = None"
  shows "read_by l (ScanMembers d members) (JString key # ts1 @ ts2)"
proof -
  from assms(1) obtain v where v: "ts1 = tokens_of v" "json_ok l (d + 1) v" by auto
  from assms(2) obtain ms where ms: "ts2 = member_tokens ms @ [JDelim CHR ''}'']" "members_ok l d ms" "distinct (map fst ms)"
    "set (map fst ms) \<inter> set (key # members) = {}"
    "ms = [] \<or> int (length ms + length (key # members)) \<le> gl_MaxMembersPerObject l" by auto
  have "int (length ((key, v) # ms) + length members) \<le> gl_MaxMembersPerObject l"
    using ms(5) assms(3) by (auto simp: memberKeyError_None)
  moreover have "set (map fst ((key, v) # ms)) \<inter> set members = {}" "distinct (map fst ((key, v) # ms))"
    using ms(3,4) assms(3) by (auto simp: memberKeyError_None)
  ultimately show ?thesis
    using v ms(1,2) assms(3) unfolding read_by.simps
    by (intro exI [of _ "(key, v) # ms"]) (auto simp: memberKeyError_None)
qed

lemma read_object:
  assumes "read_by l (ScanMembers d []) ts" and "0 \<le> gl_MaxMembersPerObject l" and "d \<le> gl_MaxJSONDepth l"
  shows "read_by l (ScanValue d atTop) (JDelim CHR ''{'' # ts)"
proof -
  from assms(1) obtain ms where "ts = member_tokens ms @ [JDelim CHR ''}'']" "members_ok l d ms" "distinct (map fst ms)"
    "ms = [] \<or> int (length ms) \<le> gl_MaxMembersPerObject l" by auto
  with assms(2,3) show ?thesis unfolding read_by.simps by (intro exI [of _ "JObject ms"]) auto
qed

lemma read_array:
  assumes "read_by l (ScanElements d 0) ts" and "0 \<le> gl_MaxArrayElements l" and "d \<le> gl_MaxJSONDepth l"
  shows "read_by l (ScanValue d False) (JDelim CHR ''['' # ts)"
proof -
  from assms(1) obtain vs where "ts = concat (map tokens_of vs) @ [JDelim CHR '']'']" "list_all (json_ok l (d + 1)) vs"
    "vs = [] \<or> int (length vs) \<le> gl_MaxArrayElements l" by auto
  with assms(2,3) show ?thesis unfolding read_by.simps by (intro exI [of _ "JArray vs"]) auto
qed

lemma read_element:
  assumes "read_by l (ScanValue (d + 1) False) ts1" and "read_by l (ScanElements d (Suc seen)) ts2"
    and "int (Suc seen) \<le> gl_MaxArrayElements l"
  shows "read_by l (ScanElements d seen) (ts1 @ ts2)"
proof -
  from assms(1) obtain v where v: "ts1 = tokens_of v" "json_ok l (d + 1) v" by auto
  from assms(2) obtain vs where vs: "ts2 = concat (map tokens_of vs) @ [JDelim CHR '']'']" "list_all (json_ok l (d + 1)) vs"
    "vs = [] \<or> int (length vs + Suc seen) \<le> gl_MaxArrayElements l" by auto
  have "int (length (v # vs) + seen) \<le> gl_MaxArrayElements l" using vs(3) assms(3) by auto
  with v vs show ?thesis by (auto intro!: exI [of _ "v # vs"])
qed

text \<open>A scan reads what its calls stand for and counts the tokens.\<close>

definition reads :: "GithubLimits \<Rightarrow> (scan_call \<Rightarrow> json_stream \<Rightarrow> int \<Rightarrow> scan_result) \<Rightarrow> scan_call \<Rightarrow> bool" where
  "reads l scan call \<longleftrightarrow> (\<forall>ts k rest k'. scan call ts k = Some (Inr (rest, k'))
     \<longrightarrow> (\<exists>us. ts = us @ rest \<and> read_by l call us \<and> k' = k + int (length us) \<and> k' \<le> gl_MaxJSONTokens l))"

lemma readsD:
  assumes "reads l scan call" and "scan call ts k = Some (Inr (rest, k'))"
  obtains us where "ts = us @ rest" "read_by l call us" "k' = k + int (length us)" "k' \<le> gl_MaxJSONTokens l"
  using assms unfolding reads_def by blast

lemma value_reads:
  assumes lims: "0 \<le> gl_MaxMembersPerObject l" "0 \<le> gl_MaxArrayElements l"
    and IH: "\<And>call. reads l scan call"
  shows "reads l (scanStep scan l bad) (ScanValue d atTop)"
  unfolding reads_def
proof (intro allI impI)
  fix ts k rest k'
  assume prem: "scanStep scan l bad (ScanValue d atTop) ts k = Some (Inr (rest, k'))"
  then obtain t us where ts: "ts = t # us" and d: "d \<le> gl_MaxJSONDepth l" and k: "k + 1 \<le> gl_MaxJSONTokens l"
    by (auto simp: scanStep_def result_simps split: if_splits list.splits sum.splits)
  consider (obj) "t = JDelim CHR ''{''" "scan (ScanMembers d []) us (k + 1) = Some (Inr (rest, k'))"
    | (arr) "\<not> atTop" "t = JDelim CHR ''[''" "scan (ScanElements d 0) us (k + 1) = Some (Inr (rest, k'))"
    | (scalar) "\<not> atTop" "\<not> is_JDelim t" "scalar_error l t = None" "rest = us" "k' = k + 1"
    using prem ts d k by (auto simp: scanStep_def add_token_def split: if_splits option.splits)
  then show "\<exists>us. ts = us @ rest \<and> read_by l (ScanValue d atTop) us \<and> k' = k + int (length us) \<and> k' \<le> gl_MaxJSONTokens l"
  proof cases
    case obj
    from readsD [OF IH obj(2)] obtain ws where ws: "us = ws @ rest" "read_by l (ScanMembers d []) ws"
      "k' = k + 1 + int (length ws)" "k' \<le> gl_MaxJSONTokens l" by blast
    with read_object [OF ws(2) lims(1) d, of atTop] ts obj(1) show ?thesis by (intro exI [of _ "t # ws"]) simp
  next
    case arr
    from readsD [OF IH arr(3)] obtain ws where ws: "us = ws @ rest" "read_by l (ScanElements d 0) ws"
      "k' = k + 1 + int (length ws)" "k' \<le> gl_MaxJSONTokens l" by blast
    with read_array [OF ws(2) lims(2) d] ts arr(1,2) show ?thesis by (intro exI [of _ "t # ws"]) simp
  next
    case scalar
    then have "read_by l (ScanValue d atTop) [t]" using d by (auto intro!: exI [of _ "JScalar t"])
    with scalar ts k show ?thesis by (intro exI [of _ "[t]"]) simp
  qed
qed

lemma members_read:
  assumes IH: "\<And>call. reads l scan call"
  shows "reads l (scanStep scan l bad) (ScanMembers d members)"
  unfolding reads_def
proof (intro allI impI)
  fix ts k rest k'
  assume prem: "scanStep scan l bad (ScanMembers d members) ts k = Some (Inr (rest, k'))"
  show "\<exists>us. ts = us @ rest \<and> read_by l (ScanMembers d members) us \<and> k' = k + int (length us) \<and> k' \<le> gl_MaxJSONTokens l"
  proof (cases "hasMore bad ts")
    case True
    with prem obtain key us ts1 k1 where ts: "ts = JString key # us"
      and key: "memberKeyError l members (JString key) = None"
      and v: "scan (ScanValue (d + 1) False) us (k + 1) = Some (Inr (ts1, k1))"
      and m: "scan (ScanMembers d (key # members)) ts1 k1 = Some (Inr (rest, k'))"
      by (auto simp: scanStep_def result_simps after_value_Inr memberKeyError_None token_text_def
          split: list.splits sum.splits option.splits)
    from readsD [OF IH v] obtain us1 where us1: "us = us1 @ ts1" "read_by l (ScanValue (d + 1) False) us1"
      "k1 = k + 1 + int (length us1)" by blast
    from readsD [OF IH m] obtain us2 where us2: "ts1 = us2 @ rest" "read_by l (ScanMembers d (key # members)) us2"
      "k' = k1 + int (length us2)" "k' \<le> gl_MaxJSONTokens l" by blast
    from read_member [OF us1(2) us2(2) key] ts us1 us2 show ?thesis
      by (intro exI [of _ "JString key # us1 @ us2"]) simp
  next
    case False
    with prem have "ts = JDelim CHR ''}'' # rest" "k' = k + 1" "k + 1 \<le> gl_MaxJSONTokens l"
      by (simp_all add: scanStep_def scanClose_Inr)
    then show ?thesis by (intro exI [of _ "[JDelim CHR ''}'']"]) (simp add: exI [of _ "[]"])
  qed
qed

lemma elements_read:
  assumes IH: "\<And>call. reads l scan call"
  shows "reads l (scanStep scan l bad) (ScanElements d seen)"
  unfolding reads_def
proof (intro allI impI)
  fix ts k rest k'
  assume prem: "scanStep scan l bad (ScanElements d seen) ts k = Some (Inr (rest, k'))"
  show "\<exists>us. ts = us @ rest \<and> read_by l (ScanElements d seen) us \<and> k' = k + int (length us) \<and> k' \<le> gl_MaxJSONTokens l"
  proof (cases "hasMore bad ts")
    case True
    with prem obtain ts1 k1 where le: "int (Suc seen) \<le> gl_MaxArrayElements l"
      and v: "scan (ScanValue (d + 1) False) ts k = Some (Inr (ts1, k1))"
      and m: "scan (ScanElements d (Suc seen)) ts1 k1 = Some (Inr (rest, k'))"
      by (auto simp: scanStep_def after_value_Inr split: if_splits)
    from readsD [OF IH v] obtain us1 where us1: "ts = us1 @ ts1" "read_by l (ScanValue (d + 1) False) us1"
      "k1 = k + int (length us1)" by blast
    from readsD [OF IH m] obtain us2 where us2: "ts1 = us2 @ rest" "read_by l (ScanElements d (Suc seen)) us2"
      "k' = k1 + int (length us2)" "k' \<le> gl_MaxJSONTokens l" by blast
    from read_element [OF us1(2) us2(2) le] us1 us2 show ?thesis
      by (intro exI [of _ "us1 @ us2"]) simp
  next
    case False
    with prem have "ts = JDelim CHR '']'' # rest" "k' = k + 1" "k + 1 \<le> gl_MaxJSONTokens l"
      by (simp_all add: scanStep_def scanClose_Inr)
    then show ?thesis by (intro exI [of _ "[JDelim CHR '']'']"]) (simp add: exI [of _ "[]"])
  qed
qed

lemma scan_reads:
  assumes "0 \<le> gl_MaxMembersPerObject l" "0 \<le> gl_MaxArrayElements l"
  shows "reads l (scanJSON n l bad) call"
proof (induction n arbitrary: call)
  case (Suc n)
  have "scanJSON (Suc n) l bad = scanStep (scanJSON n l bad) l bad" by (intro ext) simp
  then show ?case using assms Suc.IH by (cases call) (simp_all add: value_reads members_read elements_read)
qed (simp add: reads_def)

section \<open>Every such body is accepted\<close>

lemma tokens_first: "json_ok l d v \<Longrightarrow> \<exists>t us. tokens_of v = t # us \<and> t \<noteq> JDelim CHR ''}'' \<and> t \<noteq> JDelim CHR '']''"
  by (cases v) auto

lemma hasMore_value: "json_ok l d v \<Longrightarrow> hasMore bad (tokens_of v @ rest)"
  using tokens_first [of l d v] by (auto simp: hasMore_def)

text \<open>A call succeeds on the tokens it stands for, with a bound for their number.\<close>

definition accepts :: "GithubLimits \<Rightarrow> bool \<Rightarrow> scan_call \<Rightarrow> json_stream \<Rightarrow> bool" where
  "accepts l bad call us \<longleftrightarrow> (\<forall>n rest k. 2 * length us \<le> n \<longrightarrow> k + int (length us) \<le> gl_MaxJSONTokens l
     \<longrightarrow> scanJSON (n + 1) l bad call (us @ rest) k = Some (Inr (rest, k + int (length us))))"

lemma acceptsD:
  "accepts l bad call us \<Longrightarrow> 2 * length us < n \<Longrightarrow> k + int (length us) \<le> gl_MaxJSONTokens l
   \<Longrightarrow> scanJSON n l bad call (us @ rest) k = Some (Inr (rest, k + int (length us)))"
  unfolding accepts_def by (cases n) auto

lemma accepts_members:
  assumes "\<And>key v. (key, v) \<in> set ms \<Longrightarrow> accepts l bad (ScanValue (d + 1) False) (tokens_of v)"
    and "members_ok l d ms" and "distinct (map fst ms)" and "set (map fst ms) \<inter> set members = {}"
    and "ms = [] \<or> int (length ms + length members) \<le> gl_MaxMembersPerObject l"
  shows "accepts l bad (ScanMembers d members) (member_tokens ms @ [JDelim CHR ''}''])"
  using assms
proof (induction ms arbitrary: members)
  case Nil
  then show ?case by (simp add: accepts_def scanStep_def hasMore_def scanClose_Inr)
next
  case (Cons m ms)
  obtain key v where m: "m = (key, v)" by (cases m)
  let ?us = "member_tokens ms @ [JDelim CHR ''}'']" and ?vs = "tokens_of v"
  have tail: "accepts l bad (ScanMembers d (key # members)) ?us"
    using Cons.prems by (intro Cons.IH) (auto simp: m)
  have val: "accepts l bad (ScanValue (d + 1) False) ?vs" using Cons.prems(1) [of key v] by (simp add: m)
  have key: "memberKeyError l members (JString key) = None"
    using Cons.prems by (auto simp: m memberKeyError_None)
  have "scanJSON (n + 1) l bad (ScanMembers d members) (JString key # ?vs @ ?us @ rest) k
      = Some (Inr (rest, k + int (length (JString key # ?vs @ ?us))))"
    if "2 * length (JString key # ?vs @ ?us) \<le> n" "k + int (length (JString key # ?vs @ ?us)) \<le> gl_MaxJSONTokens l" for n rest k
    using that key acceptsD [OF val, of n "k + 1" "?us @ rest"] acceptsD [OF tail, of n "k + 1 + int (length ?vs)" rest]
    by (simp add: scanStep_def hasMore_def add_token_def after_value_def token_text_def algebra_simps)
  then show ?case by (simp add: accepts_def m)
qed

lemma accepts_elements:
  assumes "\<And>v. v \<in> set vs \<Longrightarrow> accepts l bad (ScanValue (d + 1) False) (tokens_of v)"
    and "list_all (json_ok l (d + 1)) vs" and "vs = [] \<or> int (length vs + seen) \<le> gl_MaxArrayElements l"
  shows "accepts l bad (ScanElements d seen) (concat (map tokens_of vs) @ [JDelim CHR '']''])"
  using assms
proof (induction vs arbitrary: seen)
  case Nil
  then show ?case by (simp add: accepts_def scanStep_def hasMore_def scanClose_Inr)
next
  case (Cons v vs)
  let ?us = "concat (map tokens_of vs) @ [JDelim CHR '']'']" and ?vs = "tokens_of v"
  have tail: "accepts l bad (ScanElements d (Suc seen)) ?us" using Cons.prems by (intro Cons.IH) auto
  have val: "accepts l bad (ScanValue (d + 1) False) ?vs" using Cons.prems(1) by simp
  have more: "hasMore bad (?vs @ xs)" for xs using Cons.prems(2) hasMore_value [of l "d + 1" v] by simp
  have pos: "0 < length ?vs" using tokens_first Cons.prems(2) by fastforce
  have "scanJSON (n + 1) l bad (ScanElements d seen) (?vs @ ?us @ rest) k
      = Some (Inr (rest, k + int (length (?vs @ ?us))))"
    if "2 * length (?vs @ ?us) \<le> n" "k + int (length (?vs @ ?us)) \<le> gl_MaxJSONTokens l" for n rest k
    using that Cons.prems(3) more acceptsD [OF val, of n k "?us @ rest"] acceptsD [OF tail, of n "k + int (length ?vs)" rest] pos
    by (simp add: scanStep_def after_value_def algebra_simps)
  then show ?case by (simp add: accepts_def)
qed

lemma accepts_value:
  assumes "json_ok l d v" and "atTop \<longrightarrow> (\<exists>ms. v = JObject ms)"
  shows "accepts l bad (ScanValue d atTop) (tokens_of v)"
  using assms
proof (induction v arbitrary: d atTop)
  case (JObject ms)
  have "accepts l bad (ScanValue (d + 1) False) (tokens_of v)" if "(key, v) \<in> set ms" for key v
    using that JObject by (intro JObject.IH [of "(key, v)"]) (auto simp: list_all_iff)
  then have "accepts l bad (ScanMembers d []) (member_tokens ms @ [JDelim CHR ''}''])"
    using JObject.prems by (intro accepts_members) auto
  note run = acceptsD [OF this]
  show ?case using JObject.prems run unfolding accepts_def
    by (simp add: scanStep_def add_token_def)
next
  case (JArray vs)
  then have "accepts l bad (ScanElements d 0) (concat (map tokens_of vs) @ [JDelim CHR '']''])"
    by (intro accepts_elements) (auto simp: list_all_iff)
  note run = acceptsD [OF this]
  show ?case using JArray.prems run unfolding accepts_def
    by (simp add: scanStep_def add_token_def)
next
  case (JScalar t)
  then show ?case by (auto simp: accepts_def scanStep_def add_token_def)
qed

section \<open>The bound suffices\<close>

text \<open>The bound a call needs for a stream: an element is scanned without reading a token first.\<close>

fun bound_for :: "scan_call \<Rightarrow> nat" where
  "bound_for (ScanElements _ _) = 2"
| "bound_for _ = 1"

lemma scan_consumes:
  assumes "0 \<le> gl_MaxMembersPerObject l" "0 \<le> gl_MaxArrayElements l"
    and "scanJSON n l bad call ts k = Some (Inr (rest, k'))"
  shows "length rest < length ts"
proof -
  from readsD [OF scan_reads [OF assms(1,2)] assms(3)] obtain us where us: "ts = us @ rest" "read_by l call us" by metis
  have "us \<noteq> []"
  proof (cases call)
    case (ScanValue d atTop)
    with us(2) tokens_first [of l d] show ?thesis by fastforce
  qed (use us(2) in auto)
  with us(1) show ?thesis by simp
qed

lemma scan_defined:
  assumes lims: "0 \<le> gl_MaxMembersPerObject l" "0 \<le> gl_MaxArrayElements l"
  shows "2 * length ts + bound_for call \<le> n \<Longrightarrow> scanJSON n l bad call ts k \<noteq> None"
proof (induction n arbitrary: call ts k)
  case 0
  then show ?case by (cases call) auto
next
  case (Suc n)
  note less = scan_consumes [OF lims, of n bad]
  show ?case
  proof (cases call)
    case (ScanValue d atTop)
    with Suc show ?thesis by (cases ts) (auto simp: scanStep_def add_token_def)
  next
    case (ScanMembers d members)
    show ?thesis
    proof (cases ts)
      case (Cons t us)
      have "scanJSON n l bad (ScanMembers d ms) ts1 k1 \<noteq> None"
        if "scanJSON n l bad (ScanValue (d + 1) False) us (k + 1) = Some (Inr (ts1, k1))" for ts1 k1 ms
        using less [OF that] Suc.prems ScanMembers Cons by (intro Suc.IH) simp
      moreover have "scanJSON n l bad (ScanValue (d + 1) False) us (k + 1) \<noteq> None"
        using Suc.prems ScanMembers Cons by (intro Suc.IH) simp
      ultimately show ?thesis unfolding ScanMembers Cons
        by (auto simp: scanStep_def scanClose_def add_token_def after_value_def split: option.splits sum.splits)
    qed (simp add: ScanMembers scanStep_def scanClose_def)
  next
    case (ScanElements d seen)
    have "scanJSON n l bad (ScanElements d s) ts1 k1 \<noteq> None"
      if "scanJSON n l bad (ScanValue (d + 1) False) ts k = Some (Inr (ts1, k1))" for ts1 k1 s
      using less [OF that] Suc.prems ScanElements by (intro Suc.IH) simp
    moreover have "scanJSON n l bad (ScanValue (d + 1) False) ts k \<noteq> None"
      using Suc.prems ScanElements by (intro Suc.IH) simp
    ultimately show ?thesis unfolding ScanElements
      by (auto simp: scanStep_def scanClose_def after_value_def split: sum.splits)
  qed
qed

section \<open>The body\<close>

lemma scanBody_None:
  assumes lims: "0 \<le> gl_MaxMembersPerObject l" "0 \<le> gl_MaxArrayElements l"
  shows "scanBody l ts bad = None \<longleftrightarrow> \<not> bad \<and> (\<exists>ms. ts = tokens_of (JObject ms) \<and> json_ok l 1 (JObject ms)
    \<and> int (length ts) \<le> gl_MaxJSONTokens l)"
proof
  assume "scanBody l ts bad = None"
  then obtain k where run: "scanJSON (scan_bound ts) l bad (ScanValue 1 True) ts 0 = Some (Inr ([], k))" and "\<not> bad"
    by (auto simp: scanBody_def split: option.splits sum.splits if_splits)
  from readsD [OF scan_reads [OF lims] run] obtain us where "ts = us" "read_by l (ScanValue 1 True) us"
    "int (length us) \<le> gl_MaxJSONTokens l" by fastforce
  with \<open>\<not> bad\<close> show "\<not> bad \<and> (\<exists>ms. ts = tokens_of (JObject ms) \<and> json_ok l 1 (JObject ms) \<and> int (length ts) \<le> gl_MaxJSONTokens l)"
    unfolding read_by.simps by blast
next
  assume "\<not> bad \<and> (\<exists>ms. ts = tokens_of (JObject ms) \<and> json_ok l 1 (JObject ms) \<and> int (length ts) \<le> gl_MaxJSONTokens l)"
  then obtain ms where ms: "\<not> bad" "ts = tokens_of (JObject ms)" "json_ok l 1 (JObject ms)" "int (length ts) \<le> gl_MaxJSONTokens l"
    by blast
  have "accepts l bad (ScanValue 1 True) ts" unfolding ms(2) by (rule accepts_value [OF ms(3)]) simp
  from acceptsD [OF this, of "scan_bound ts" 0 "[]"] ms(1,4) show "scanBody l ts bad = None"
    by (simp add: scanBody_def scan_bound_def)
qed

end
