(* ===== verification/Intake_Props.thy ===== *)
theory Intake_Props
  imports Intake Payload_Facts Controller_Props
begin

text \<open>
  The properties of the intake of webhooks, from the body of a request to the acknowledged outbox record, with a
  small run for their witnesses.
\<close>

section \<open>A small run\<close>

definition tinyPull :: PullRequestProjection where
  "tinyPull = \<lparr> prp_Action = ''opened'', prp_InstallationID = 7, prp_RepositoryID = 8, prp_RepositoryOwnerID = 9,
     prp_BaseRepositoryOwner = [], prp_BaseRepositoryName = [], prp_PullRequestNumber = 1, prp_BaseSHA = [], prp_HeadSHA = [],
     prp_HeadRepositoryID = 8, prp_Draft = False, prp_Closed = False, prp_Merged = False \<rparr>"

definition tinyProjection :: WebhookProjection where
  "tinyProjection = (noProjection ProjectionPullRequest)\<lparr> wp_PullRequest := Some tinyPull \<rparr>"

definition tinyReceipt :: DeliveryReceipt where
  "tinyReceipt = \<lparr> dr_SchemaVersion = SchemaGitHubWebhookReceiptV1Alpha1, dr_ReceiverID = ''r1'', dr_DeliveryID = ''d1'',
     dr_Event = ''pull_request'', dr_BodyDigest = ''sha256:'' @ replicate 64 (CHR ''a''), dr_MatchedSecret = SecretGenerationCurrent,
     dr_ReceivedAt = 10 ^ 9, dr_InstallationTargetIdentity = [], dr_ProjectionKind = ProjectionPullRequest,
     dr_Disposition = DeliveryDispositionEnqueued \<rparr>"

definition tinyDelivery :: VerifiedDelivery where
  "tinyDelivery = \<lparr> vd_ReceiverID = ''r1'', vd_DeliveryID = ''d1'', vd_Event = ''pull_request'', vd_Action = ''opened'',
     vd_BodyDigest = ''sha256:'' @ replicate 64 (CHR ''a''), vd_MatchedSecret = SecretGenerationCurrent,
     vd_ReceivedAt = \<lparr> st_nanos = 10 ^ 9, st_utc = True \<rparr>, vd_Projection = tinyProjection, vd_Receipt = tinyReceipt,
     vd_Disposition = DeliveryDispositionEnqueued, vd_IntakeFingerprint = ''sha256:'' @ replicate 64 (CHR ''a'') \<rparr>"

definition tinyJSON :: inbox_json where
  "tinyJSON = \<lparr> projectionJSON = \<lambda>_. Some ''p'', receiptJSON = \<lambda>_. Some ''r'', readProjection = \<lambda>_. Some tinyProjection,
     readReceipt = \<lambda>_. Some tinyReceipt \<rparr>"

definition tinyInbox :: InboxConfig where
  "tinyInbox = \<lparr> ic_ReceiverID = ''r1'', ic_Limits = inbox_DefaultLimits \<rparr>"

definition tinyDB1 :: InboxDB where
  "tinyDB1 = fst (Accept hexSha tinyJSON tinyInbox emptyInbox tinyDelivery)"

definition tinyTime :: "int \<Rightarrow> StoreTime" where
  "tinyTime n = \<lparr> st_nanos = n, st_utc = True \<rparr>"

definition tinyClaim :: "InboxDB \<Rightarrow> int \<Rightarrow> (InboxDB \<times> LeasedRecord list) result" where
  "tinyClaim db n = ClaimOutbox tinyJSON tinyInbox db ''c1'' (tinyTime n) (30 * 10 ^ 9) 1"

lemma tiny_accepted: "Accept hexSha tinyJSON tinyInbox emptyInbox tinyDelivery
    = (tinyDB1, snd (Accept hexSha tinyJSON tinyInbox emptyInbox tinyDelivery))"
  by (simp add: tinyDB1_def)

lemma tiny_step1: "inbox_step hexSha tinyJSON tinyInbox emptyInbox tinyDB1"
  using tiny_accepted by (metis inbox_step.accept prod.collapse)

lemma tiny_reachable: "inbox_reachable hexSha tinyJSON tinyInbox tinyDB1"
  unfolding inbox_reachable_def using tiny_step1 by blast

definition tinyDB2 :: InboxDB where "tinyDB2 = (case tinyClaim tinyDB1 (10 ^ 9) of Inr (db, _) \<Rightarrow> db | _ \<Rightarrow> emptyInbox)"
definition tinyRec :: LeasedRecord where "tinyRec = (case tinyClaim tinyDB1 (10 ^ 9) of Inr (_, r # _) \<Rightarrow> r)"

lemma tiny_claim: "tinyClaim tinyDB1 (10 ^ 9) = Inr (tinyDB2, [tinyRec])"
  by code_simp

definition tinyDB3 :: InboxDB where "tinyDB3 = (case tinyClaim tinyDB2 (100 * 10 ^ 9) of Inr (db, _) \<Rightarrow> db | _ \<Rightarrow> emptyInbox)"
definition tinyRec2 :: LeasedRecord where "tinyRec2 = (case tinyClaim tinyDB2 (100 * 10 ^ 9) of Inr (_, r # _) \<Rightarrow> r)"

lemma tiny_reclaim: "tinyClaim tinyDB2 (100 * 10 ^ 9) = Inr (tinyDB3, [tinyRec2])" and tiny_same: "le_ID tinyRec2 = le_ID tinyRec"
  by code_simp+

section \<open>The body of a request\<close>

text \<open>
  C29. The scan of a webhook body accepts exactly the bodies within the limits: the bytes are valid UTF-8 without a byte
  order mark and without NUL, and the tokens are those of one JSON object, with nothing after it, whose nesting, members,
  elements, strings and numbers stay within their bounds and in which no object names a member twice.
\<close>

theorem webhook_json_accepted_iff:
  "PreflightGitHubWebhookJSON pj body l = None \<longleftrightarrow>
     github_validateLimits l = None \<and> int (length body) \<le> gl_MaxWebhookBodyBytes l \<and> validString body
     \<and> take 3 body \<noteq> [CHR 0xEF, CHR 0xBB, CHR 0xBF] \<and> NUL \<notin> set body
     \<and> (\<exists>ms. json_tokens pj body = (tokens_of (JObject ms), False) \<and> json_ok l 1 (JObject ms)
            \<and> int (length (tokens_of (JObject ms))) \<le> gl_MaxJSONTokens l)"
proof (cases "github_validateLimits l = None")
  case True
  then have "0 \<le> gl_MaxMembersPerObject l" "0 \<le> gl_MaxArrayElements l"
    by (auto simp: github_validateLimits_def githubLimitChecks_def split: if_splits)
  note scan = scanBody_None [OF this]
  obtain ts bad where ts: "json_tokens pj body = (ts, bad)" by fastforce
  show ?thesis
    using True unfolding PreflightGitHubWebhookJSON_def ts fst_conv snd_conv echeck_eq_None if_Some_eq_None scan
    by auto
qed (auto simp: PreflightGitHubWebhookJSON_def result_simps)

section \<open>Requests\<close>

lemma Accept_key:
  assumes "Accept sha js s db d = (db', res, err)"
  shows "k \<noteq> (vd_ReceiverID d, vd_DeliveryID d) \<Longrightarrow> map_of (ix_inbox db') k = map_of (ix_inbox db) k"
    and "db' \<noteq> db \<Longrightarrow> map_of (ix_inbox db') (vd_ReceiverID d, vd_DeliveryID d) \<noteq> None"
proof -
  have "(k \<noteq> (vd_ReceiverID d, vd_DeliveryID d) \<longrightarrow> map_of (ix_inbox db') k = map_of (ix_inbox db) k)
    \<and> (db' \<noteq> db \<longrightarrow> map_of (ix_inbox db') (vd_ReceiverID d, vd_DeliveryID d) \<noteq> None)"
    using assms by (cases rule: Accept_cases) (auto simp: map_add_def map_of_update_rows option.map_ident split: option.splits)
  then show "k \<noteq> (vd_ReceiverID d, vd_DeliveryID d) \<Longrightarrow> map_of (ix_inbox db') k = map_of (ix_inbox db) k"
    and "db' \<noteq> db \<Longrightarrow> map_of (ix_inbox db') (vd_ReceiverID d, vd_DeliveryID d) \<noteq> None" by auto
qed

text \<open>A request that is answered with success leaves a row for its delivery.\<close>

lemma Accept_answered:
  assumes "Accept sha js s db d = (db', res, err)" and "hs_Status (acceptResponse res err) = 202"
  shows "map_of (ix_inbox db') (vd_ReceiverID d, vd_DeliveryID d) \<noteq> None"
proof -
  have "ax_Decision res \<in> {AcceptNewEnqueued, AcceptNewIgnored, AcceptDuplicateSameDelivery}"
    using assms(2) by (auto simp: acceptResponse_def fixedResponse_def split: if_splits)
  with assms(1) show ?thesis
    by (cases rule: Accept_cases) (auto simp: noAccept_def map_add_def split: option.splits)
qed

lemma handle_cases:
  assumes "handle sha pmt pj js s h active now r db = (db', resp)"
  obtains (refused) "db' = db" "hs_Status resp \<noteq> 202"
  | (accepted) headers body g p res err where "hq_Method r = ''POST''" "hq_Path r = ''/webhooks/github''"
      "parseRequestHeaders pmt r (hn_limits h) = Inr headers" "hq_Body r = Some body"
      "VerifyWebhookSignature sha body (wh_Signature256 headers) (hn_secrets h) (cl_GitHub (hn_limits h)) = Inr g"
      "intakeProjection pj (cl_GitHub (hn_limits h)) (wh_Event headers) body = Inr p"
      "Accept sha js s db (verifiedDelivery sha h headers body g p now) = (db', res, err)" "resp = acceptResponse res err"
  using assms
  by (auto simp: handle_def handleBody_def fixedResponse_def statusForHeaderError_def
      split: if_splits sum.splits option.splits prod.splits)

text \<open>
  C28. Only signed requests have an effect. When a request changes the inbox, or is answered as accepted, its path and
  method are those of the endpoint, its signature verifies for its body, and its body projects to what its event
  announces; and then the only row of
  the inbox that is new or changed is the one of the delivery it names, which exists afterwards.
\<close>

theorem intake_needs_signature:
  assumes "handle sha pmt pj js s h active now r db = (db', resp)" and "db' \<noteq> db \<or> hs_Status resp = 202"
  shows "\<exists>headers body g p. hq_Method r = ''POST'' \<and> hq_Path r = ''/webhooks/github''
    \<and> parseRequestHeaders pmt r (hn_limits h) = Inr headers \<and> hq_Body r = Some body
    \<and> VerifyWebhookSignature sha body (wh_Signature256 headers) (hn_secrets h) (cl_GitHub (hn_limits h)) = Inr g
    \<and> intakeProjection pj (cl_GitHub (hn_limits h)) (wh_Event headers) body = Inr p
    \<and> map_of (ix_inbox db') (hn_receiverID h, wh_DeliveryID headers) \<noteq> None
    \<and> (\<forall>k. k \<noteq> (hn_receiverID h, wh_DeliveryID headers) \<longrightarrow> map_of (ix_inbox db') k = map_of (ix_inbox db) k)"
  using assms(1)
proof (cases rule: handle_cases)
  case refused
  with assms(2) show ?thesis by simp
next
  case (accepted headers body g p res err)
  let ?d = "verifiedDelivery sha h headers body g p now"
  have key: "vd_ReceiverID ?d = hn_receiverID h" "vd_DeliveryID ?d = wh_DeliveryID headers"
    by (simp_all add: verifiedDelivery_def Let_def)
  have "map_of (ix_inbox db') (hn_receiverID h, wh_DeliveryID headers) \<noteq> None"
    using assms(2) Accept_key(2) [OF accepted(7)] Accept_answered [OF accepted(7)] accepted(8) key by auto
  then show ?thesis using accepted(1-6) Accept_key(1) [OF accepted(7)] key by metis
qed

definition tinyPayload :: payload_json where
  "tinyPayload = \<lparr> json_tokens = \<lambda>_. ([JDelim CHR ''{'', JDelim CHR ''}''], False), json_action = \<lambda>_. [],
     json_pull_request = \<lambda>_. None, json_check_run = \<lambda>_. None,
     json_installation = \<lambda>_. Some \<lparr> ip_Action = ''removed'', ip_InstallationID = 7, ip_Repositories = [8] \<rparr> \<rparr>"

definition tinyRequest :: "string \<Rightarrow> HttpRequest" where
  "tinyRequest event = \<lparr> hq_Method = ''POST'', hq_Path = ''/webhooks/github'', hq_RawQuery = [],
     hq_Header = (\<lambda>name. if name = ''X-GitHub-Delivery'' then [''d1''] else if name = ''X-GitHub-Event'' then [event]
       else if name = ''X-Hub-Signature-256'' then [''sha256='' @ replicate 64 (CHR ''a'')]
       else if name = ''Content-Type'' then [''application/json''] else []),
     hq_Trailer = False, hq_Body = Some ''{}'' \<rparr>"

lemma tiny_request [simp]: "hq_Method (tinyRequest e) = ''POST''" "hq_Path (tinyRequest e) = ''/webhooks/github''"
  "hq_RawQuery (tinyRequest e) = []" "hq_Trailer (tinyRequest e) = False" "hq_Body (tinyRequest e) = Some ''{}''"
  by (simp_all add: tinyRequest_def)

definition tinyHandler :: Handler where
  "tinyHandler = \<lparr> hn_receiverID = ''r1'', hn_secrets = \<lparr> ws_Current = replicate 32 (CHR ''s''), ws_Previous = [] \<rparr>,
     hn_limits = receiver_DefaultLimits \<rparr>"

lemma tiny_github: "cl_GitHub (hn_limits tinyHandler) = github_DefaultLimits" "hn_receiverID tinyHandler = ''r1''"
  "cl_MaxActiveRequests (hn_limits tinyHandler) = 64" "gl_MaxWebhookBodyBytes github_DefaultLimits = 4194304"
  by (simp_all add: tinyHandler_def receiver_DefaultLimits_def github_DefaultLimits_def)

definition tinyHandle :: "string \<Rightarrow> InboxDB \<times> HttpResponse" where
  "tinyHandle event = handle hexSha (\<lambda>v. Some (v, [])) tinyPayload tinyJSON tinyInbox tinyHandler 0 (tinyTime (10 ^ 9)) (tinyRequest event) emptyInbox"

lemma trim_graph:
  assumes "list_all (byte_in 33 126) s"
  shows "trim_left_space s = s" and "trim_right_space s = s"
proof -
  have rune: "decode_rune (c # t) = (byte_val c, 1)" "\<not> is_space_rune (byte_val c)" if "byte_in 33 126 c" for c t
  proof -
    have "byte_in 0 127 c" using that by (auto simp: byte_in_def)
    then show "decode_rune (c # t) = (byte_val c, 1)" by (simp add: decode_rune_def seq_len_def seq_rune_def)
    show "\<not> is_space_rune (byte_val c)" using that by (auto simp: byte_in_def is_space_rune_def byte_val_def)
  qed
  show left: "trim_left_space s = s"
    unfolding trim_left_space.simps [of s] using assms rune by (cases s) simp_all
  show "trim_right_space s = s" using assms
  proof (induction s)
    case (Cons c s)
    have "trim_left_space (c # s) = c # s" using Cons.prems rune by (simp add: trim_left_space.simps [of "c # s"])
    then show ?case using Cons rune by (simp add: trim_right_space.simps [of "c # s"])
  qed (simp add: trim_right_space.simps [of "[]"] trim_left_space.simps [of "[]"])
qed

lemma trim_space_graph: "list_all (byte_in 33 126) s \<Longrightarrow> trim_space s = s"
  by (simp add: trim_space_def trim_graph)

lemma tiny_names: "trim_space ''X-GitHub-Delivery'' = ''X-GitHub-Delivery''" "trim_space ''X-GitHub-Event'' = ''X-GitHub-Event''"
  "trim_space ''X-Hub-Signature-256'' = ''X-Hub-Signature-256''" "trim_space ''Content-Type'' = ''Content-Type''"
  by (rule trim_space_graph, code_simp)+

lemma tiny_lower: "to_lower ''X-GitHub-Delivery'' = ''x-github-delivery''" "to_lower ''X-GitHub-Event'' = ''x-github-event''"
  "to_lower ''X-Hub-Signature-256'' = ''x-hub-signature-256''" "to_lower ''Content-Type'' = ''content-type''"
  "to_lower ''application/json'' = ''application/json''"
  by code_simp+

lemma collect_required:
  assumes "to_lower (trim_space n) = name" and "name \<in> set requiredHeaders" and "map_of seen name = None"
    and "\<not> hasControl v" and "int (length v) \<le> gl_MaxHeaderValueBytes l"
  shows "collectHeaders l (\<lparr> hv_Name = n, hv_Value = v \<rparr> # hs) seen opt = collectHeaders l hs (AList.update name v seen) opt"
proof -
  have "name \<noteq> []" using assms(2) by (auto simp: requiredHeaders_def)
  then show ?thesis unfolding collectHeaders.simps Let_def HeaderValue.select_convs using assms by simp
qed

lemma collect_four:
  assumes "\<not> hasControl a" "\<not> hasControl b" "\<not> hasControl c" "\<not> hasControl d"
    and "int (length a) \<le> gl_MaxHeaderValueBytes l" "int (length b) \<le> gl_MaxHeaderValueBytes l"
    and "int (length c) \<le> gl_MaxHeaderValueBytes l" "int (length d) \<le> gl_MaxHeaderValueBytes l"
  shows "collectHeaders l [\<lparr> hv_Name = ''X-GitHub-Delivery'', hv_Value = a \<rparr>, \<lparr> hv_Name = ''X-GitHub-Event'', hv_Value = b \<rparr>,
     \<lparr> hv_Name = ''X-Hub-Signature-256'', hv_Value = c \<rparr>, \<lparr> hv_Name = ''Content-Type'', hv_Value = d \<rparr>] [] []
   = Inr ([(''x-github-delivery'', a), (''x-github-event'', b), (''x-hub-signature-256'', c), (''content-type'', d)], [])"
proof -
  have name: "to_lower (trim_space ''X-GitHub-Delivery'') = ''x-github-delivery''"
    "to_lower (trim_space ''X-GitHub-Event'') = ''x-github-event''"
    "to_lower (trim_space ''X-Hub-Signature-256'') = ''x-hub-signature-256''"
    "to_lower (trim_space ''Content-Type'') = ''content-type''"
    by (simp_all only: tiny_names tiny_lower)
  have req: "''x-github-delivery'' \<in> set requiredHeaders" "''x-github-event'' \<in> set requiredHeaders"
    "''x-hub-signature-256'' \<in> set requiredHeaders" "''content-type'' \<in> set requiredHeaders"
    by (simp_all add: requiredHeaders_def)
  show ?thesis
    by (subst collect_required [OF name(1) req(1) _ assms(1,5)], simp, subst collect_required [OF name(2) req(2) _ assms(2,6)], simp,
        subst collect_required [OF name(3) req(3) _ assms(3,7)], simp, subst collect_required [OF name(4) req(4) _ assms(4,8)], simp, simp)
qed

definition tinyHeaders :: "string \<Rightarrow> WebhookHeaders" where
  "tinyHeaders event = \<lparr> wh_DeliveryID = ''d1'', wh_Event = event, wh_Signature256 = ''sha256='' @ replicate 64 (CHR ''a''),
     wh_ContentType = ''application/json'', wh_Charset = [], wh_HookID = [], wh_InstallationTargetID = [],
     wh_InstallationTargetType = [] \<rparr>"

lemma tiny_headers:
  assumes "event \<in> {''ping'', ''installation_repositories''}"
  shows "parseRequestHeaders (\<lambda>v. Some (v, [])) (tinyRequest event) (hn_limits tinyHandler) = Inr (tinyHeaders event)"
proof -
  have ok: "github_validateLimits github_DefaultLimits = None" "\<not> hasControl event" "\<not> hasControl ''d1''"
    "\<not> hasControl (''sha256='' @ replicate 64 (CHR ''a''))" "\<not> hasControl ''application/json''"
    "validateEventName event github_DefaultLimits = None" "validateDeliveryID ''d1'' github_DefaultLimits = None"
    using assms by (auto; code_simp)+
  have len: "int (length event) \<le> gl_MaxHeaderValueBytes github_DefaultLimits"
    using assms by (auto simp: github_DefaultLimits_def)
  have ct: "contentCharset (\<lambda>v. Some (v, [])) ''application/json'' = Inr []" by code_simp
  have lens: "gl_MaxHeaderValueBytes github_DefaultLimits = 1024" by (simp add: github_DefaultLimits_def)
  have "requestHeaders (tinyRequest event) = [\<lparr> hv_Name = ''X-GitHub-Delivery'', hv_Value = ''d1'' \<rparr>,
     \<lparr> hv_Name = ''X-GitHub-Event'', hv_Value = event \<rparr>,
     \<lparr> hv_Name = ''X-Hub-Signature-256'', hv_Value = ''sha256='' @ replicate 64 (CHR ''a'') \<rparr>,
     \<lparr> hv_Name = ''Content-Type'', hv_Value = ''application/json'' \<rparr>]"
    by (simp add: requestHeaders_def requestHeaderNames_def tinyRequest_def)
  moreover have "collectHeaders github_DefaultLimits \<dots> [] [] = Inr ([(''x-github-delivery'', ''d1''), (''x-github-event'', event),
      (''x-hub-signature-256'', ''sha256='' @ replicate 64 (CHR ''a'')), (''content-type'', ''application/json'')], [])"
    using ok len lens by (intro collect_four) simp_all
  ultimately show ?thesis using ok ct
    by (simp add: parseRequestHeaders_def tinyHandler_def receiver_DefaultLimits_def ParseWebhookHeaders_def rcheck_def rbind_def
        requiredHeaders_def missingHeader_def header_of_def tinyHeaders_def
        del: collectHeaders.simps)
qed

lemma tiny_signature: "VerifyWebhookSignature hexSha ''{}'' (''sha256='' @ replicate 64 (CHR ''a'')) (hn_secrets tinyHandler)
    github_DefaultLimits = Inr SecretGenerationCurrent"
  by code_simp

lemma tiny_ping: "hs_Status (snd (tinyHandle ''ping'')) = 202"
proof -
  have "intakeProjection tinyPayload github_DefaultLimits ''ping'' ''{}'' = Inr (noProjection ProjectionPing)" by code_simp
  moreover have "hs_Status (case Accept hexSha tinyJSON tinyInbox emptyInbox (verifiedDelivery hexSha tinyHandler (tinyHeaders ''ping'') ''{}''
      SecretGenerationCurrent (noProjection ProjectionPing) (tinyTime (10 ^ 9))) of (db, res, err) \<Rightarrow> acceptResponse res err) = 202"
    by code_simp
  ultimately show ?thesis
    using tiny_headers [of "''ping''"] tiny_signature
    by (simp add: tinyHandle_def handle_def handleBody_def tiny_github tinyHeaders_def case_prod_beta)
qed

theorem intake_needs_signature_witness:
  "\<exists>(headers :: WebhookHeaders) g. VerifyWebhookSignature hexSha ''{}'' (wh_Signature256 headers) (hn_secrets tinyHandler) github_DefaultLimits = Inr g
     \<and> map_of (ix_inbox (fst (tinyHandle ''ping''))) (''r1'', wh_DeliveryID headers) \<noteq> None"
proof -
  have "handle hexSha (\<lambda>v. Some (v, [])) tinyPayload tinyJSON tinyInbox tinyHandler 0 (tinyTime (10 ^ 9)) (tinyRequest ''ping'') emptyInbox
      = (fst (tinyHandle ''ping''), snd (tinyHandle ''ping''))" by (simp add: tinyHandle_def)
  from intake_needs_signature [OF this disjI2, OF tiny_ping] obtain headers :: WebhookHeaders and body g where
    "hq_Body (tinyRequest ''ping'') = Some body"
    "VerifyWebhookSignature hexSha body (wh_Signature256 headers) (hn_secrets tinyHandler) (cl_GitHub (hn_limits tinyHandler)) = Inr g"
    "map_of (ix_inbox (fst (tinyHandle ''ping''))) (hn_receiverID tinyHandler, wh_DeliveryID headers) \<noteq> None"
    by (elim exE conjE) (rule that; assumption)
  then show ?thesis unfolding tiny_request tiny_github option.inject by metis
qed

lemma projected_kind:
  "projectBody pj event body l = Inr p \<Longrightarrow>
     event = ''pull_request'' \<and> wp_Kind p = ProjectionPullRequest
   \<or> event = ''check_run'' \<and> (wp_Kind p = ProjectionIgnored \<or> wp_Kind p = ProjectionCheckRun \<and> projectionAction p = ''rerequested'')
   \<or> event = ''check_suite'' \<and> wp_Kind p = ProjectionCheckSuite
   \<or> event = ''installation'' \<and> wp_Kind p = ProjectionInstallation
   \<or> event = ''installation_repositories'' \<and> wp_Kind p = ProjectionInstallationRepositories
   \<or> event = ''ping'' \<and> wp_Kind p = ProjectionPing"
  by (auto simp: projectBody_def result_simps noProjection_def projectionAction_def split: if_splits option.splits)

lemma ProjectWebhook_Inr: "ProjectWebhook pj event body l = Inr p \<Longrightarrow> projectBody pj event body l = Inr p"
  by (auto simp: ProjectWebhook_def result_simps split: sum.splits if_splits)

text \<open>The errors of the scan and of the projections have codes of their own.\<close>

lemma scanJSON_codes: "scanJSON n l bad call ts k = Some (Inl e) \<Longrightarrow> error_code e \<noteq> ''unsupported-event''"
proof (induction n arbitrary: call ts k)
  case (Suc n)
  have key: "memberKeyError l ms t = Some e \<Longrightarrow> error_code e \<noteq> ''unsupported-event''" for ms t
    by (auto simp: memberKeyError_def jsonErr_def githubErr_def split: json_token.splits if_splits)
  have scalar: "scalar_error l t = Some e \<Longrightarrow> error_code e \<noteq> ''unsupported-event''" for t
    by (auto simp: scalar_error_def jsonErr_def githubErr_def split: json_token.splits if_splits)
  have close: "scanClose l c ts k = Some (Inl e) \<Longrightarrow> error_code e \<noteq> ''unsupported-event''" for c
    by (auto simp: scanClose_def add_token_def rbind_def jsonErr_def githubErr_def split: list.splits if_splits)
  show ?case
  proof (cases call)
    case (ScanValue d atTop)
    with Suc scalar show ?thesis
      by (auto simp: scanStep_def add_token_def jsonErr_def githubErr_def split: list.splits if_splits option.splits)
  next
    case (ScanMembers d ms)
    with Suc key close show ?thesis
      by (auto simp: scanStep_def add_token_def after_value_def jsonErr_def githubErr_def
          split: list.splits if_splits option.splits sum.splits)
  next
    case (ScanElements d seen)
    with Suc close show ?thesis
      by (auto simp: scanStep_def after_value_def jsonErr_def githubErr_def split: if_splits option.splits sum.splits)
  qed
qed simp

lemma first_error_Some: "first_error f xs = Some e \<Longrightarrow> \<exists>x\<in>set xs. f x = Some e"
  by (induction xs) (auto split: option.splits)

lemma limits_code: "github_validateLimits l = Some e \<Longrightarrow> error_code e = ''invalid-limits''"
  by (auto simp: github_validateLimits_def echeck_def githubErr_def dest!: first_error_Some split: option.splits if_splits)

lemma preflight_codes: "PreflightGitHubWebhookJSON pj body l = Some e \<Longrightarrow> error_code e \<noteq> ''unsupported-event''"
  using scanJSON_codes
  by (auto simp: PreflightGitHubWebhookJSON_def echeck_def scanBody_def jsonErr_def githubErr_def dest!: limits_code
      split: option.splits if_splits sum.splits)

lemma classified:
  "event \<in> {''pull_request'', ''check_run'', ''check_suite'', ''installation'', ''installation_repositories'', ''ping''}
     \<Longrightarrow> ClassifyWebhookAction event a \<noteq> Inl e"
  by (elim insertE) (simp_all add: ClassifyWebhookAction_def)

lemma projected_codes:
  shows "projectPullRequest p l = Inl e \<Longrightarrow> error_code e \<noteq> ''unsupported-event''"
    and "projectCheckRun c l = Inl e \<Longrightarrow> error_code e \<noteq> ''unsupported-event''"
    and "projectInstallation i = Inl e \<Longrightarrow> error_code e \<noteq> ''unsupported-event''"
proof -
  obtain d where d: "ClassifyWebhookAction ''pull_request'' (pp_Action p) = Inr d"
    using classified [of "''pull_request''" "pp_Action p"] by (cases "ClassifyWebhookAction ''pull_request'' (pp_Action p)") auto
  show "projectPullRequest p l = Inl e \<Longrightarrow> error_code e \<noteq> ''unsupported-event''"
    by (auto simp: projectPullRequest_def d githubErr_def Let_def split: if_splits)
  show "projectCheckRun c l = Inl e \<Longrightarrow> error_code e \<noteq> ''unsupported-event''"
    by (auto simp: projectCheckRun_def githubErr_def split: if_splits)
  show "projectInstallation i = Inl e \<Longrightarrow> error_code e \<noteq> ''unsupported-event''"
    by (auto simp: projectInstallation_def githubErr_def split: if_splits)
qed

lemma projectBody_codes:
  assumes "event \<in> {''pull_request'', ''check_run'', ''check_suite'', ''installation'', ''installation_repositories'', ''ping''}"
    and "projectBody pj event body l = Inl e"
  shows "error_code e \<noteq> ''unsupported-event''"
  using assms
  by (elim insertE) (auto simp: projectBody_def rbind_def githubErr_def dest: projected_codes
      split: option.splits sum.splits if_splits)

lemma ProjectWebhook_supported:
  assumes "ProjectWebhook pj event body l = Inl e" and "error_code e = ''unsupported-event''"
  shows "event \<notin> {''pull_request'', ''check_run'', ''check_suite'', ''installation'', ''installation_repositories'', ''ping''}"
proof
  assume ev: "event \<in> {''pull_request'', ''check_run'', ''check_suite'', ''installation'', ''installation_repositories'', ''ping''}"
  from assms have "PreflightGitHubWebhookJSON pj body l \<noteq> Some e" using preflight_codes by blast
  with assms(1) have "projectBody pj event body l = Inl e \<or> ClassifyWebhookAction event (json_action pj body) = Inl e"
    by (simp add: ProjectWebhook_def rcheck_def split: option.splits sum.splits if_splits)
  with classified [OF ev] projectBody_codes [OF ev] assms(2) show False by blast
qed

lemma intakeProjectionE:
  assumes "intakeProjection pj l event body = Inr p"
  obtains (projected) "projectBody pj event body l = Inr p" "crossCheck event p = None"
  | (ignored) "p = noProjection ProjectionIgnored"
      "event \<notin> {''pull_request'', ''check_run'', ''check_suite'', ''installation'', ''installation_repositories'', ''ping''}"
proof (cases "ProjectWebhook pj event body l")
  case (Inl e)
  with assms have "error_code e = ''unsupported-event''" "p = noProjection ProjectionIgnored"
    by (simp_all add: intakeProjection_def result_simps split: if_splits)
  with ProjectWebhook_supported [OF Inl] show ?thesis by (intro ignored)
next
  case (Inr q)
  with assms have "q = p" "crossCheck event p = None" by (auto simp: intakeProjection_def result_simps)
  with ProjectWebhook_Inr [OF Inr] show ?thesis by (intro projected) simp_all
qed

text \<open>
  What reaches the controllers: of the requests whose body projects, exactly those are put into the outbox that open,
  reopen, update, convert, ready or close a pull request, that ask for a check run again, or that change an installation. A
  request for the repositories of an installation never gets that far.
\<close>

lemma enqueued_events_exact:
  assumes "intakeProjection pj l event body = Inr p"
  shows "(dispositionFor event (projectionAction p) (wp_Kind p) = DeliveryDispositionEnqueued \<longleftrightarrow>
      event = ''pull_request'' \<and> projectionAction p \<in> {''opened'', ''reopened'', ''synchronize'', ''ready_for_review'', ''converted_to_draft'', ''closed''}
      \<or> event = ''check_run'' \<and> wp_Kind p = ProjectionCheckRun
      \<or> event = ''installation'')
    \<and> event \<noteq> ''installation_repositories''"
  using assms
proof (cases rule: intakeProjectionE)
  case projected
  from projected_kind [OF projected(1)] projected(2) show ?thesis
    by (elim disjE conjE) (simp_all add: dispositionFor_def ClassifyWebhookAction_def crossCheck_def)
next
  case ignored
  then show ?thesis by (simp add: dispositionFor_def noProjection_def)
qed

lemma tiny_projected:
  "intakeProjection tinyPayload github_DefaultLimits ''installation'' ''{}'' =
     Inr ((noProjection ProjectionInstallation)\<lparr> wp_Installation := Some \<lparr> inp_Action = ''removed'', inp_InstallationID = 7,
       inp_RepositoryIDs = [8] \<rparr> \<rparr>)"
  by code_simp

lemma enqueued_events_exact_witness:
  "dispositionFor ''installation'' ''removed'' ProjectionInstallation = DeliveryDispositionEnqueued"
  using enqueued_events_exact [OF tiny_projected] by (simp add: projectionAction_def noProjection_def)

text \<open>
  C30. A webhook for the repositories of an installation is always refused: whatever it holds, and however it is
  signed, the inbox stays as it is and the answer is not that of an accepted delivery. The projection names its kind after
  the event, and the handler expects the kind of the other installation event.
\<close>

theorem installation_repositories_refused:
  assumes "parseRequestHeaders pmt r (hn_limits h) = Inr headers" and "wh_Event headers = ''installation_repositories''"
  shows "fst (handle sha pmt pj js s h active now r db) = db \<and> hs_Status (snd (handle sha pmt pj js s h active now r db)) \<noteq> 202"
proof -
  obtain db' resp where run: "handle sha pmt pj js s h active now r db = (db', resp)" by fastforce
  then show ?thesis
  proof (cases rule: handle_cases)
    case (accepted headers' body g p res err)
    have "intakeProjection pj l ''installation_repositories'' body \<noteq> Inr p" for l
      by (rule notI, erule intakeProjectionE) (drule projected_kind, simp_all add: crossCheck_def)
    with accepted(3,6) assms show ?thesis by simp
  qed (simp add: run)
qed

theorem installation_repositories_refused_witness:
  "fst (tinyHandle ''installation_repositories'') = emptyInbox \<and> hs_Status (snd (tinyHandle ''installation_repositories'')) \<noteq> 202"
  unfolding tinyHandle_def
  by (rule installation_repositories_refused [OF tiny_headers]) (simp_all add: tinyHeaders_def)

end
