(* ===== verification/Outbox_Props.thy ===== *)
theory Outbox_Props
  imports Intake_Props
begin

text \<open>
  The properties of the inbox once a delivery is in it: its rows, the leases of the outbox, and what an acknowledged
  record says about the controller store.
\<close>

section \<open>Deliveries\<close>

lemma one_with_key:
  "distinct (map f xs) \<Longrightarrow> length (filter (\<lambda>x. f x = k) xs) = (if k \<in> f ` set xs then 1 else 0)"
  by (induction xs) (auto simp: filter_empty_conv)

lemma one_outbox_row:
  assumes inv: "inbox_inv sha db" and row: "map_of (ix_inbox db) k = Some row"
  shows "length (filter (\<lambda>r. outbox_key r = k) (ix_outbox db)) = (if ib_disposition row = DeliveryDispositionEnqueued then 1 else 0)"
    and "r \<in> set (ix_outbox db) \<Longrightarrow> outbox_key r = k \<Longrightarrow> outbox_from sha r (k, row)"
proof -
  have made: "outbox_from sha r (k, row)" if r: "r \<in> set (ix_outbox db)" "outbox_key r = k" for r
  proof -
    from inv r obtain e where e: "e \<in> set (ix_inbox db)" "outbox_from sha r e" by (auto simp: inbox_inv_def)
    with r have "fst e = k" by (simp add: outbox_from_def outbox_key_def)
    then have e': "e = (k, snd e)" by (metis prod.collapse)
    with e(1) have "(k, snd e) \<in> set (ix_inbox db)" by simp
    with inv row have "snd e = row" by (auto simp: inbox_inv_def dest: map_of_is_SomeI)
    with e(2) e' show ?thesis by simp
  qed
  then show "r \<in> set (ix_outbox db) \<Longrightarrow> outbox_key r = k \<Longrightarrow> outbox_from sha r (k, row)" .
  have "k \<in> outbox_key ` set (ix_outbox db) \<longleftrightarrow> ib_disposition row = DeliveryDispositionEnqueued"
    using made map_of_SomeD [OF row] inv unfolding inbox_inv_def outbox_from_def by force
  then show "length (filter (\<lambda>r. outbox_key r = k) (ix_outbox db)) = (if ib_disposition row = DeliveryDispositionEnqueued then 1 else 0)"
    using inv by (simp add: one_with_key inbox_inv_def)
qed

text \<open>
  C31. A delivery is recorded once and kept. Whatever the receiver and the controllers do after a delivery is in the inbox, its
  row stays, with nothing changed but a count of conflicts that only rises; the outbox holds exactly one record for it when
  it was enqueued and none when it was ignored; the record carries the kind, the documents and the digest of the
  row; and a record that was acknowledged is never touched again.
\<close>

theorem accepted_once_and_kept:
  assumes "inbox_reachable sha js s db" and "map_of (ix_inbox db) k = Some row" and "(inbox_step sha js s)\<^sup>*\<^sup>* db db'"
  shows "(\<exists>n\<ge>ib_conflict_count row. map_of (ix_inbox db') k = Some (row\<lparr> ib_conflict_count := n \<rparr>))
    \<and> length (filter (\<lambda>r. outbox_key r = k) (ix_outbox db')) = (if ib_disposition row = DeliveryDispositionEnqueued then 1 else 0)
    \<and> (\<forall>r\<in>set (ix_outbox db'). outbox_key r = k \<longrightarrow> outbox_from sha r (k, row))
    \<and> (\<forall>r\<in>set (ix_outbox db). ox_state r = OutboxStateAcknowledged \<longrightarrow> r \<in> set (ix_outbox db'))"
proof -
  have inv: "inbox_inv sha db" using assms(1) by (rule inbox_reachable_inv)
  note ext = inbox_run_extends [OF assms(3) inv]
  from ext assms(2) obtain n where n: "ib_conflict_count row \<le> n" "map_of (ix_inbox db') k = Some (row\<lparr> ib_conflict_count := n \<rparr>)"
    unfolding inbox_extends_def by blast
  note row = one_outbox_row [OF inbox_run_inv [OF assms(3) inv] n(2)]
  have "\<forall>r\<in>set (ix_outbox db). ox_state r = OutboxStateAcknowledged \<longrightarrow> r \<in> set (ix_outbox db')"
    using ext unfolding inbox_extends_def row_step_def by metis
  with n row show ?thesis by (auto simp: outbox_from_conflict)
qed

lemma tiny_step2: "inbox_step hexSha tinyJSON tinyInbox tinyDB1 tinyDB2"
  using tiny_claim unfolding tinyClaim_def by (rule inbox_step.claim)

lemma tiny_key: "map_of (ix_inbox tinyDB1) (''r1'', ''d1'') = Some (inboxRow hexSha tinyDelivery ''r'' ''p'')"
  by code_simp

theorem accepted_once_and_kept_witness:
  "length (filter (\<lambda>r. outbox_key r = (''r1'', ''d1'')) (ix_outbox tinyDB2)) = 1"
  using accepted_once_and_kept [OF tiny_reachable tiny_key r_into_rtranclp, OF tiny_step2]
  by (simp add: inboxRow_def tinyDelivery_def)

section \<open>Leases\<close>

lemma leased_lease:
  "leaseOutboxRow c r \<in> set (ix_outbox db) \<Longrightarrow> le_ID c = ox_id r \<Longrightarrow> outbox_lease db (le_ID c) (le_LeaseGeneration c)"
  unfolding outbox_lease_def by (rule bexI [of _ "leaseOutboxRow c r"]) (simp_all add: leaseOutboxRow_def)

text \<open>
  C32. A lease on an outbox record fences off its predecessors: when a record that was claimed is claimed again later in
  the run, the second claim has a higher lease generation, and from then on the first holder can neither acknowledge
  nor release it.
\<close>

theorem outbox_lease_fenced:
  assumes "inbox_reachable sha js s db" and "ClaimOutbox js s db owner now d n = Inr (db1, recs1)"
    and "(inbox_step sha js s)\<^sup>*\<^sup>* db1 db2" and "ClaimOutbox js s db2 owner' now' d' n' = Inr (db3, recs2)"
    and "c1 \<in> set recs1" and "c2 \<in> set recs2" and "le_ID c1 = le_ID c2" and "(inbox_step sha js s)\<^sup>*\<^sup>* db3 db4"
  shows "le_LeaseGeneration c1 < le_LeaseGeneration c2
    \<and> isl (AcknowledgeOutbox db4 (le_ID c1) owner (le_LeaseGeneration c1) t)
    \<and> isl (ReleaseOutbox db4 (le_ID c1) owner (le_LeaseGeneration c1) t code)"
proof -
  have inv: "inbox_inv sha db" using assms(1) by (rule inbox_reachable_inv)
  have inv1: "inbox_inv sha db1" using inbox_step.claim [OF assms(2)] inv by (rule inbox_step_inv)
  have inv2: "inbox_inv sha db2" using assms(3) inv1 by (rule inbox_run_inv)
  have inv3: "inbox_inv sha db3" using inbox_step.claim [OF assms(4)] inv2 by (rule inbox_step_inv)
  have inv4: "inbox_inv sha db4" using assms(8) inv3 by (rule inbox_run_inv)
  obtain r1 where r1: "leasedRecord js owner (addTime now d) r1 = Inr c1" "leaseOutboxRow c1 r1 \<in> set (ix_outbox db1)"
    using claimed_rows [OF assms(2) inv assms(5)] by blast
  obtain r2 where r2: "r2 \<in> set (ix_outbox db2)" "leasedRecord js owner' (addTime now' d') r2 = Inr c2"
    "leaseOutboxRow c2 r2 \<in> set (ix_outbox db3)"
    using claimed_rows [OF assms(4) inv2 assms(6)] by blast
  have l1: "outbox_lease db1 (le_ID c1) (le_LeaseGeneration c1)"
    using r1(2) leasedRecordE(1) [OF r1(1)] by (rule leased_lease)
  have l2: "outbox_lease db2 (le_ID c1) (le_LeaseGeneration c2 - 1)"
    using r2(1) leasedRecordE(1,3) [OF r2(2)] assms(7) by (auto simp: outbox_lease_def)
  have l3: "outbox_lease db3 (le_ID c1) (le_LeaseGeneration c2)"
    using leased_lease [OF r2(3) leasedRecordE(1) [OF r2(2)]] assms(7) by simp
  note fence = outbox.fenced [OF inv1 l1 assms(3) l2 inv3 l3 assms(8)]
  with stale_outbox_lease [OF inv4 fence(2)] show ?thesis
    by (simp add: AcknowledgeOutbox_def ReleaseOutbox_def)
qed

theorem outbox_lease_fenced_witness:
  "le_LeaseGeneration tinyRec < le_LeaseGeneration tinyRec2
   \<and> isl (AcknowledgeOutbox tinyDB3 (le_ID tinyRec) ''c1'' (le_LeaseGeneration tinyRec) (tinyTime (101 * 10 ^ 9)))"
  using outbox_lease_fenced [OF tiny_reachable tiny_claim [unfolded tinyClaim_def] rtranclp.rtrancl_refl
      tiny_reclaim [unfolded tinyClaim_def] list.set_intros(1) list.set_intros(1) tiny_same [symmetric] rtranclp.rtrancl_refl,
      of "tinyTime (101 * 10 ^ 9)"] by blast

text \<open>
  The times of the leases are compared as texts, and the error of that is below a second: the row of a claimed record is
  open to another claim at the latest one second after its lease has expired, and never as much as a second before that.
\<close>

lemma lease_expiry_within_second:
  assumes "inbox_reachable sha js s db" and "ClaimOutbox js s db owner now d n = Inr (db1, recs)" and "c \<in> set recs"
  shows "\<exists>r\<in>set (ix_outbox db1). ox_id r = le_ID c
    \<and> (\<forall>now'. st_nanos now' + 10 ^ 9 \<le> st_nanos now + d \<longrightarrow> \<not> outboxClaimable (inbox_formatTime now') r)
    \<and> (\<forall>now'. st_nanos now + d + 10 ^ 9 \<le> st_nanos now' \<longrightarrow> outboxClaimable (inbox_formatTime now') r)"
proof -
  obtain r where r: "leasedRecord js owner (addTime now d) r = Inr c" "leaseOutboxRow c r \<in> set (ix_outbox db1)"
    using claimed_rows [OF assms(2) inbox_reachable_inv [OF assms(1)] assms(3)] by blast
  note made = leasedRecordE(1,9) [OF r(1)]
  have "outboxClaimable (inbox_formatTime now') (leaseOutboxRow c r)
      \<longleftrightarrow> text_le (inbox_formatTime (addTime now d)) (inbox_formatTime now')" for now'
    by (simp add: outboxClaimable_def leaseOutboxRow_def made)
  moreover have "\<not> text_le (inbox_formatTime (addTime now d)) (inbox_formatTime now')"
    if "st_nanos now' + 10 ^ 9 \<le> st_nanos now + d" for now'
    using text_le_late [of "addTime now d" now'] that by (auto simp: addTime_def)
  moreover have "text_le (inbox_formatTime (addTime now d)) (inbox_formatTime now')"
    if "st_nanos now + d + 10 ^ 9 \<le> st_nanos now'" for now'
    using text_le_early [of "addTime now d" now'] that by (simp add: addTime_def)
  ultimately show ?thesis using r(2) made(1) by (intro bexI [of _ "leaseOutboxRow c r"]) (simp_all add: leaseOutboxRow_def)
qed

lemma lease_expiry_within_second_witness:
  "\<exists>r\<in>set (ix_outbox tinyDB2). ox_id r = le_ID tinyRec \<and> \<not> outboxClaimable (inbox_formatTime (tinyTime (30 * 10 ^ 9))) r
     \<and> outboxClaimable (inbox_formatTime (tinyTime (32 * 10 ^ 9))) r"
proof -
  have "st_nanos (tinyTime (30 * 10 ^ 9)) + 10 ^ 9 \<le> st_nanos (tinyTime (10 ^ 9)) + 30 * 10 ^ 9"
    "st_nanos (tinyTime (10 ^ 9)) + 30 * 10 ^ 9 + 10 ^ 9 \<le> st_nanos (tinyTime (32 * 10 ^ 9))" by (simp_all add: tinyTime_def)
  with lease_expiry_within_second [OF tiny_reachable tiny_claim [unfolded tinyClaim_def] list.set_intros(1)] show ?thesis by blast
qed

text \<open>The error is not zero: half a second before its end a lease already counts as expired.\<close>

lemma lease_ends_early: "text_le (inbox_formatTime (tinyTime 1500000000)) (inbox_formatTime (tinyTime 1000000000))"
  by (simp add: inbox_formatTime_def tinyTime_def text_le_def less_char_def)

section \<open>Receiver, controllers and store together\<close>

text \<open>
  C33. No delivery is lost between the two databases. In every state that the receiver and any number of controllers
  reach, with their transactions in any order and with controllers stopping anywhere, an acknowledged record of the outbox has been
  processed by the controller store, under the same receiver and identifier and with the same projection digest.
\<close>

theorem acknowledged_was_processed:
  assumes "intake_reachable sha marshal js ics s \<sigma>"
    and "r \<in> set (ix_outbox (in_inbox \<sigma>))" and "ox_state r = OutboxStateAcknowledged"
  shows "\<exists>row. map_of (db_processed (in_store \<sigma>)) (ox_receiver_id r, ox_id r) = Some row
    \<and> zr_ProjectionDigest row = ox_projection_digest r"
  using intake_reachable_inv [OF assms(1)] assms(2,3)
  by (simp add: intake_inv_def acknowledged_ok_def processed_def)

definition tinyStore :: ControllerDB where
  "tinyStore = (case RecordProcessingDecision hexSha runConfig emptyDB (processedDelivery tinyRec (tinyTime (2 * 10 ^ 9)))
     DecisionLegacyProjectionUnreconcilable (tinyTime (2 * 10 ^ 9)) of Inr (db, _) \<Rightarrow> db)"

definition tinyDone :: InboxDB where
  "tinyDone = (case AcknowledgeOutbox tinyDB2 (le_ID tinyRec) ''c1'' 1 (tinyTime (3 * 10 ^ 9)) of Inr db \<Rightarrow> db)"

lemma tiny_processed: "RecordProcessingDecision hexSha runConfig emptyDB (processedDelivery tinyRec (tinyTime (2 * 10 ^ 9)))
    DecisionLegacyProjectionUnreconcilable (tinyTime (2 * 10 ^ 9))
    = Inr (tinyStore, emptyResult\<lparr> rr_Decision := DecisionLegacyProjectionUnreconcilable \<rparr>)"
  by code_simp

lemma tiny_acknowledged: "AcknowledgeOutbox tinyDB2 (le_ID tinyRec) ''c1'' 1 (tinyTime (3 * 10 ^ 9)) = Inr tinyDone"
  by code_simp

definition tinyEnd :: intake_state where
  "tinyEnd = \<lparr> in_inbox = tinyDone, in_store = tinyStore, in_flight = {(tinyRec, True), (tinyRec, False)} \<rparr>"

lemma tiny_end: "intake_reachable hexSha concat tinyJSON tinyInbox runConfig tinyEnd"
proof -
  let ?step = "intake_step hexSha concat tinyJSON tinyInbox runConfig"
  let ?s1 = "\<lparr> in_inbox = tinyDB1, in_store = emptyDB, in_flight = {} \<rparr>"
  let ?s2 = "\<lparr> in_inbox = tinyDB2, in_store = emptyDB, in_flight = {} \<union> set [tinyRec] \<times> {False} \<rparr>"
  let ?F = "insert (tinyRec, True) ({} \<union> set [tinyRec] \<times> {False})"
  have 1: "?step intake_start ?s1"
    unfolding intake_start_def using tiny_accepted by (metis intake_step.accept prod.collapse)
  have 2: "?step ?s1 ?s2" using tiny_claim unfolding tinyClaim_def by (rule intake_step.claim)
  have 3: "?step ?s2 \<lparr> in_inbox = tinyDB2, in_store = tinyStore, in_flight = ?F \<rparr>"
    using completes.by_decision [OF tiny_processed] by (rule intake_step.process) simp
  have 4: "?step \<lparr> in_inbox = tinyDB2, in_store = tinyStore, in_flight = ?F \<rparr>
      \<lparr> in_inbox = tinyDone, in_store = tinyStore, in_flight = ?F \<rparr>"
    using tiny_acknowledged by (rule intake_step.acknowledge) simp
  have "?step\<^sup>*\<^sup>* intake_start \<lparr> in_inbox = tinyDone, in_store = tinyStore, in_flight = ?F \<rparr>"
    using 1 2 3 4 by (meson rtranclp.rtrancl_refl rtranclp.rtrancl_into_rtrancl)
  then show ?thesis by (simp add: intake_reachable_def tinyEnd_def)
qed

theorem acknowledged_was_processed_witness:
  "\<exists>r\<in>set (ix_outbox tinyDone). map_of (db_processed tinyStore) (ox_receiver_id r, ox_id r) \<noteq> None"
proof -
  have "\<exists>r\<in>set (ix_outbox tinyDone). ox_state r = OutboxStateAcknowledged" by code_simp
  then obtain r where r: "r \<in> set (ix_outbox tinyDone)" "ox_state r = OutboxStateAcknowledged" by blast
  with acknowledged_was_processed [OF tiny_end, of r] show ?thesis by (auto simp: tinyEnd_def)
qed

lemma process_run:
  assumes "ProcessRecord sha s c env clk db rec = (db1, res)" and "(rec, False) \<in> F"
  obtains F' where "F \<subseteq> F'" "isl res \<or> (rec, True) \<in> F'"
    "(intake_step sha marshal js ics s)\<^sup>*\<^sup>* \<lparr> in_inbox = inbox, in_store = db, in_flight = F \<rparr>
       \<lparr> in_inbox = inbox, in_store = db1, in_flight = F' \<rparr>"
proof -
  from ProcessRecord_run [of sha marshal s rec db c env clk, unfolded assms(1)] obtain db0 where
    run: "(store_step sha marshal s)\<^sup>*\<^sup>* db db0" and last: "case res of Inl _ \<Rightarrow> db1 = db0 | Inr _ \<Rightarrow> completes sha s rec db0 db1"
    unfolding processes_to_def fst_conv snd_conv by auto
  note first_steps = intake_store_run [OF run, of js ics inbox F]
  show thesis
  proof (cases res)
    case (Inl e)
    with last first_steps that [of F] show ?thesis by simp
  next
    case (Inr y)
    with last have "completes sha s rec db0 db1" by simp
    from rtranclp.rtrancl_into_rtrancl [OF first_steps intake_step.process [OF this assms(2)]]
    show ?thesis using that [of "insert (rec, True) F"] by blast
  qed
qed

lemma stop_run:
  assumes "(intake_step sha marshal js ics s)\<^sup>*\<^sup>* \<sigma> \<lparr> in_inbox = inbox, in_store = db, in_flight = F' \<rparr>" and "F \<subseteq> F'"
  shows "(intake_step sha marshal js ics s)\<^sup>*\<^sup>* \<sigma> \<lparr> in_inbox = inbox, in_store = db, in_flight = F \<rparr>"
  using assms(1) intake_step.stop [OF assms(2)] by (rule rtranclp.rtrancl_into_rtrancl)

text \<open>
  C34. A round of the controller is a run of that system: claiming a record, taking a lease, processing, and acknowledging or
  releasing, with every failure on the way, change the inbox and the store only by the transactions of the system. In particular it
  acknowledges a record only when a transaction of the store has completed its processing.
\<close>

theorem round_is_run:
  "(intake_step sha marshal js ics s)\<^sup>*\<^sup>* \<lparr> in_inbox = inbox, in_store = db, in_flight = F \<rparr>
     \<lparr> in_inbox = nx_inbox (ProcessNext sha js ics s c env clk inbox db), in_store = nx_store (ProcessNext sha js ics s c env clk inbox db),
       in_flight = F \<rparr>"
proof (cases "ClaimOutbox js ics inbox (co_id c) (claimTime clk) (ct_InboxLeaseDuration (co_limits c)) 1")
  case (Inr x)
  obtain inbox1 recs where x: "x = (inbox1, recs)" by (cases x)
  let ?F = "F \<union> set recs \<times> {False}"
  note claimed = r_into_rtranclp [where r = "intake_step sha marshal js ics s", OF intake_step.claim [OF Inr [unfolded x]], of db F]
  show ?thesis
  proof (cases recs)
    case Nil
    with Inr x stop_run [OF claimed, of F] show ?thesis by (simp add: ProcessNext_def)
  next
    case (Cons rec rest)
    obtain db1 res where out: "ProcessRecord sha s c env clk db rec = (db1, res)" by fastforce
    from Cons have "(rec, False) \<in> ?F" by simp
    from process_run [OF out this, of marshal js ics inbox1] obtain F' where F': "?F \<subseteq> F'" "isl res \<or> (rec, True) \<in> F'"
      and run: "(intake_step sha marshal js ics s)\<^sup>*\<^sup>* \<lparr> in_inbox = inbox1, in_store = db, in_flight = ?F \<rparr>
        \<lparr> in_inbox = inbox1, in_store = db1, in_flight = F' \<rparr>" by blast
    note so_far = rtranclp_trans [OF claimed run]
    have "F \<subseteq> F'" using F'(1) by blast
    note ends = stop_run [OF so_far this] stop_run [OF rtranclp.rtrancl_into_rtrancl [OF so_far] this]
    show ?thesis
    proof (cases res)
      case (Inl e)
      with Inr x Cons out ends show ?thesis
        by (simp add: ProcessNext_def split: sum.split) (metis intake_step.release)
    next
      case (Inr y)
      with F'(2) have "(rec, True) \<in> F'" by simp
      with Inr \<open>_ = Inr x\<close> x Cons out ends show ?thesis
        by (simp add: ProcessNext_def split: sum.split) (metis intake_step.acknowledge)
    qed
  qed
qed (simp add: ProcessNext_def)

end
