(* ===== verification/Runner.thy ===== *)
theory Runner
  imports Plan Observe Evidence
begin

text \<open>
  The execution of a run plan (\<open>src/internal/runner\<close>): the attempts a plan stands for, the match of requirements and
  capabilities, the checks of event drafts and outcomes, and the loop that runs the attempts against a backend and numbers the
  events it delivers to a sink.

  \<^item> A backend is any program that emits drafts, sees the error of each, and ends with an outcome or an error. It
    is a tree whose branches are the answers it may get, so that every backend of the model ends; it uses its sink only until then. The poll of the context that
    comes with an emission belongs to the tree, since the caller chooses the context.
  \<^item> Of an error that a backend or a hook returns only the answer of \<open>errors.Is\<close> and \<open>errors.As\<close> matters.
  \<^item> The sink decides on each event with all that it has accepted before. \<open>json.Marshal\<close> gives the size of an event.
  \<^item> The polls of the loop are numbered by attempt and place. The time stamps inside a scenario observation repeat the time of
    the event and are not part of its record; log output goes past the model.
\<close>

section \<open>Data\<close>

definition runErr :: "string \<Rightarrow> string \<Rightarrow> string \<Rightarrow> string \<Rightarrow> go_error" where
  "runErr code stage attempt path = GoError code stage [attempt, path]"

abbreviation runner_MaxAttempts :: int where "runner_MaxAttempts \<equiv> 1280"
abbreviation MaxAttemptIDBytes :: nat where "MaxAttemptIDBytes \<equiv> 512"
abbreviation MaxResultLimitations :: nat where "MaxResultLimitations \<equiv> 1000"

record RunnerLimits =
  ul_MaxAttempts :: int
  ul_MaxEventsPerAttempt :: int
  ul_MaxEventsPerExecution :: int
  ul_MaxEventJSONBytes :: int
  ul_MaxCapabilityMismatches :: int
  ul_MaxResultLimitations :: int

definition runner_DefaultLimits :: RunnerLimits where
  "runner_DefaultLimits = \<lparr> ul_MaxAttempts = 1280, ul_MaxEventsPerAttempt = 10000, ul_MaxEventsPerExecution = 100000,
     ul_MaxEventJSONBytes = 262144, ul_MaxCapabilityMismatches = 64, ul_MaxResultLimitations = 1000 \<rparr>"

abbreviation ExecutionIntentSyntheticTest :: string where "ExecutionIntentSyntheticTest \<equiv> ''synthetic-test''"
abbreviation ExecutionIntentWorkload :: string where "ExecutionIntentWorkload \<equiv> ''workload''"

record Requirements =
  nd_Intent :: string
  nd_AllowedIsolationTiers :: "string list"
  nd_TargetExecutionRequired :: bool
  nd_SyntheticEvidenceAllowed :: bool
  nd_NetworkDenyEnforcementRequired :: bool
  nd_BrokeredNetworkRequired :: bool
  nd_ProcessEventsRequired :: bool
  nd_FilesystemEventsRequired :: bool
  nd_SyscallEventsRequired :: bool
  nd_ArtifactHashingRequired :: bool
  nd_SnapshotSupportRequired :: bool
  nd_FreshKernelRequired :: bool

definition SyntheticTestRequirements :: Requirements where
  "SyntheticTestRequirements = \<lparr> nd_Intent = ExecutionIntentSyntheticTest, nd_AllowedIsolationTiers = [IsolationTierFake],
     nd_TargetExecutionRequired = False, nd_SyntheticEvidenceAllowed = True, nd_NetworkDenyEnforcementRequired = False,
     nd_BrokeredNetworkRequired = False, nd_ProcessEventsRequired = False, nd_FilesystemEventsRequired = False,
     nd_SyscallEventsRequired = False, nd_ArtifactHashingRequired = False, nd_SnapshotSupportRequired = False,
     nd_FreshKernelRequired = False \<rparr>"

definition WorkloadRequirements :: "string list \<Rightarrow> Requirements" where
  "WorkloadRequirements tiers = \<lparr> nd_Intent = ExecutionIntentWorkload, nd_AllowedIsolationTiers = tiers,
     nd_TargetExecutionRequired = True, nd_SyntheticEvidenceAllowed = False, nd_NetworkDenyEnforcementRequired = True,
     nd_BrokeredNetworkRequired = False, nd_ProcessEventsRequired = False, nd_FilesystemEventsRequired = False,
     nd_SyscallEventsRequired = False, nd_ArtifactHashingRequired = False, nd_SnapshotSupportRequired = False,
     nd_FreshKernelRequired = False \<rparr>"

record CollectionSettings =
  cg_FilesystemRoots :: "string list"
  cg_FilesystemContents :: string
  cg_Artifacts :: "ExpectedArtifactSpec list"
  cg_LogMaxBytesPerStream :: int

record AttemptRequest =
  am_PlanDigest :: Digest
  am_RunID :: string
  am_PlanCreatedAt :: int
  am_AttemptID :: string
  am_GlobalOrdinal :: nat
  am_Revision :: string
  am_CommitID :: string
  am_TreeID :: string
  am_ObjectFormat :: string
  am_MaterializedTreeDigest :: Digest
  am_MaterializationManifestDigest :: Digest
  am_Image :: string
  am_Workdir :: string
  am_Environment :: "EnvEntry list"
  am_ResourceLimits :: ResourceLimits
  am_NetworkPolicy :: NetworkPolicy
  am_ScenarioID :: string
  am_ScenarioName :: string
  am_Shell :: string
  am_Run :: string
  am_ScenarioTimeoutMillis :: int
  am_Repetition :: nat
  am_Collection :: CollectionSettings

record EventDraft =
  df_ObservedAt :: int
  df_Source :: string
  df_Kind :: string
  df_Process :: "ProcessObservation option"
  df_Filesystem :: "FilesystemObservation option"
  df_Network :: "NetworkObservation option"
  df_Artifact :: "ArtifactObservation option"
  df_Scenario :: "ScenarioObservation option"
  df_ObserverWarning :: "ObserverWarningObservation option"
  df_ResourceLimit :: "ResourceLimitObservation option"

abbreviation AttemptStatusSucceeded :: string where "AttemptStatusSucceeded \<equiv> ''succeeded''"
abbreviation AttemptStatusFailed :: string where "AttemptStatusFailed \<equiv> ''failed''"
abbreviation AttemptStatusTimedOut :: string where "AttemptStatusTimedOut \<equiv> ''timed-out''"
abbreviation AttemptStatusResourceLimited :: string where "AttemptStatusResourceLimited \<equiv> ''resource-limited''"

record AttemptOutcome =
  oc_Status :: string
  oc_ExitCode :: "int option"
  oc_DurationMillis :: int
  oc_Limitations :: "Limitation list"

record AttemptResult =
  tr_AttemptID :: string
  tr_Revision :: string
  tr_ScenarioID :: string
  tr_Repetition :: nat
  tr_Outcome :: AttemptOutcome
  tr_FirstAcceptedSequence :: nat
  tr_LastAcceptedSequence :: nat
  tr_AcceptedEventCount :: nat
  tr_Limitations :: "Limitation list"

record ExecutionResult =
  xt_PlanDigest :: Digest
  xt_Runner :: RunnerCapabilities
  xt_Complete :: bool
  xt_Attempts :: "AttemptResult list"
  xt_TotalEmittedEvents :: nat
  xt_Limitations :: "Limitation list"

record CapabilityMismatch =
  mm_Code :: string
  mm_Required :: string
  mm_Actual :: string

section \<open>Limits, requirements and capabilities\<close>

definition runner_validateLimits :: "RunnerLimits \<Rightarrow> go_error option" where
  "runner_validateLimits l = first_error
     (\<lambda>(name, got, mx). if got \<le> 0 \<or> got > mx then Some (runErr ''invalid-limits'' ''limits'' [] name) else None)
     [(''maxAttempts'', ul_MaxAttempts l, 1280), (''maxEventsPerAttempt'', ul_MaxEventsPerAttempt l, 10000),
      (''maxEventsPerExecution'', ul_MaxEventsPerExecution l, 100000), (''maxEventJsonBytes'', ul_MaxEventJSONBytes l, 262144),
      (''maxCapabilityMismatches'', ul_MaxCapabilityMismatches l, 64), (''maxResultLimitations'', ul_MaxResultLimitations l, 1000 :: int)]"

definition knownIsolationTier :: "string \<Rightarrow> bool" where
  "knownIsolationTier tier \<longleftrightarrow>
     tier \<in> {IsolationTierFake, IsolationTierDevelopmentOnly, IsolationTierHardenedContainer, IsolationTierMicroVM}"

definition invalidBoundedText :: "string \<Rightarrow> nat \<Rightarrow> bool \<Rightarrow> bool" where
  "invalidBoundedText s maxBytes allowEmpty \<longleftrightarrow>
     \<not> allowEmpty \<and> s = [] \<or> length s > maxBytes \<or> \<not> validString s \<or> hasControl s"

definition ValidateRunnerCapabilities :: "RunnerCapabilities \<Rightarrow> go_error option" where
  "ValidateRunnerCapabilities caps =
     (let bad = (\<lambda>path. Some (runErr ''invalid-capabilities'' ''capabilities'' [] path)) in
      if invalidBoundedText (rc_Name caps) 128 False then bad ''name''
      else if invalidBoundedText (rc_Version caps) 128 False then bad ''version''
      else if \<not> knownIsolationTier (rc_IsolationTier caps) then bad ''isolationTier''
      else if rc_IsolationTier caps = IsolationTierFake \<and> rc_ExecutesTargetCode caps then bad ''executesTargetCode''
      else if rc_IsolationTier caps = IsolationTierFake \<and> \<not> rc_SyntheticEvidence caps then bad ''syntheticEvidence''
      else None)"

definition validateRequirements :: "Requirements \<Rightarrow> go_error option" where
  "validateRequirements req =
     (let bad = (\<lambda>path. Some (runErr ''invalid-requirements'' ''requirements'' [] path)) in
      if nd_Intent req \<noteq> ExecutionIntentSyntheticTest \<and> nd_Intent req \<noteq> ExecutionIntentWorkload then bad ''intent''
      else if nd_AllowedIsolationTiers req = [] then bad ''allowedIsolationTiers''
      else echeck (first_error
          (\<lambda>(i, tier). if \<not> knownIsolationTier tier then bad (''allowedIsolationTiers['' @ itoa i @ '']'') else None)
          (enumerate 0 (nd_AllowedIsolationTiers req)))
        (if nd_Intent req = ExecutionIntentSyntheticTest \<and> (nd_TargetExecutionRequired req \<or> \<not> nd_SyntheticEvidenceAllowed req)
         then bad ''synthetic-test''
         else if nd_Intent req = ExecutionIntentWorkload \<and> \<not> nd_TargetExecutionRequired req then bad ''targetExecutionRequired''
         else None))"

definition tierAllowed :: "string \<Rightarrow> string list \<Rightarrow> bool" where
  "tierAllowed tier allowed \<longleftrightarrow> list_ex (\<lambda>item. item = tier) allowed"

definition tiersString :: "string list \<Rightarrow> string" where
  "tiersString tiers = join_with '','' tiers"

definition capabilityBool :: "bool \<Rightarrow> string" where
  "capabilityBool v = (if v then ''true'' else ''false'')"

definition mismatchIf :: "bool \<Rightarrow> string \<Rightarrow> string \<Rightarrow> string \<Rightarrow> CapabilityMismatch list" where
  "mismatchIf c code required actual = (if c then [\<lparr> mm_Code = code, mm_Required = required, mm_Actual = actual \<rparr>] else [])"

definition capabilityMismatches :: "Requirements \<Rightarrow> RunnerCapabilities \<Rightarrow> CapabilityMismatch list" where
  "capabilityMismatches req caps =
     (let actual = capabilityBool (rc_ExecutesTargetCode caps) @ ''/synthetic='' @ capabilityBool (rc_SyntheticEvidence caps);
          missing = (\<lambda>required has code. mismatchIf (required \<and> \<not> has) code ''true'' ''false'')
      in mismatchIf (nd_Intent req = ExecutionIntentWorkload \<and> (\<not> rc_ExecutesTargetCode caps \<or> rc_SyntheticEvidence caps))
           ''execution-intent'' ''workload target execution'' actual
       @ mismatchIf (nd_Intent req = ExecutionIntentSyntheticTest
             \<and> (rc_ExecutesTargetCode caps \<or> \<not> rc_SyntheticEvidence caps \<or> \<not> nd_SyntheticEvidenceAllowed req))
           ''execution-intent'' ''synthetic-test without target execution'' actual
       @ mismatchIf (\<not> tierAllowed (rc_IsolationTier caps) (nd_AllowedIsolationTiers req))
           ''isolation-tier'' (tiersString (nd_AllowedIsolationTiers req)) (rc_IsolationTier caps)
       @ missing (nd_TargetExecutionRequired req) (rc_ExecutesTargetCode caps) ''target-execution''
       @ missing (nd_SyntheticEvidenceAllowed req \<and> nd_Intent req = ExecutionIntentSyntheticTest) (rc_SyntheticEvidence caps)
           ''synthetic-evidence''
       @ missing (nd_NetworkDenyEnforcementRequired req) (rc_EnforcesNetworkDeny caps) ''network-deny-enforcement''
       @ missing (nd_BrokeredNetworkRequired req) (rc_BrokeredNetwork caps) ''brokered-network''
       @ missing (nd_ProcessEventsRequired req) (rc_ProcessEventCollection caps) ''process-events''
       @ missing (nd_FilesystemEventsRequired req) (rc_FilesystemEventCollection caps) ''filesystem-events''
       @ missing (nd_SyscallEventsRequired req) (rc_SyscallEventCollection caps) ''syscall-events''
       @ missing (nd_ArtifactHashingRequired req) (rc_ArtifactHashing caps) ''artifact-hashing''
       @ missing (nd_SnapshotSupportRequired req) (rc_SnapshotSupport caps) ''snapshot-support''
       @ missing (nd_FreshKernelRequired req) (rc_FreshKernel caps) ''fresh-kernel'')"

definition MatchCapabilities :: "Requirements \<Rightarrow> RunnerCapabilities \<Rightarrow> CapabilityMismatch list result" where
  "MatchCapabilities req caps =
     rcheck (validateRequirements req)
     (rcheck (ValidateRunnerCapabilities caps) (Inr (take 64 (capabilityMismatches req caps))))"

section \<open>Attempts of a plan\<close>

definition validateRevisionPlan :: "nat \<times> RevisionPlan \<Rightarrow> go_error option" where
  "validateRevisionPlan = (\<lambda>(i, rev).
     if cr_CommitID (rv_Commit rev) = [] \<or> rv_TreeID rev = [] \<or> rv_ObjectFormat rev = [] \<or> rv_MaterializedTreeDigest rev = []
        \<or> rv_MaterializationManifestDigest rev = []
     then Some (runErr ''invalid-plan'' ''plan'' [] (''revisions['' @ itoa i @ '']'')) else None)"

text \<open>The loop over the scenarios, with the \<open>int64\<close> that counts the attempts.\<close>

fun validateScenarioPlans :: "nat \<Rightarrow> int \<Rightarrow> nat \<Rightarrow> ScenarioPlan list \<Rightarrow> go_error option" where
  "validateScenarioPlans revisions attempts i [] = None"
| "validateScenarioPlans revisions attempts i (s # ss) =
     (if sp_ID s = [] \<or> sp_Shell s = [] \<or> sp_Run s = [] \<or> sp_Repetitions s \<le> 0
      then Some (runErr ''invalid-plan'' ''plan'' [] (''scenarios['' @ itoa i @ '']''))
      else let attempts' = signed64 (attempts + signed64 (sp_Repetitions s * int revisions))
        in if attempts' > runner_MaxAttempts then Some (runErr ''invalid-plan'' ''plan'' [] ''scenarios'')
           else validateScenarioPlans revisions attempts' (Suc i) ss)"

definition validatePlanDocument :: "RunPlan \<Rightarrow> go_error option" where
  "validatePlanDocument doc =
     (let bad = (\<lambda>path. Some (runErr ''invalid-plan'' ''plan'' [] path)) in
      if rp_SchemaVersion doc \<noteq> SchemaVersionRunPlanV1Alpha1 \<or> rp_RunID doc = []
         \<or> rp_CreatedAt doc = - 62135596800 * 10 ^ 9 then bad ''identity''
      else if rp_Runner doc \<noteq> zeroRunner then Some (runErr ''invalid-plan-runner-field'' ''plan'' [] ''runner'')
      else if (case rp_ExecutionEnvironment doc of None \<Rightarrow> True | Some e \<Rightarrow> rpe_Image e = [] \<or> rpe_Workdir e = [])
      then bad ''executionEnvironment''
      else if map rv_Kind (rp_Revisions doc) \<noteq> [RevisionKindBase, RevisionKindHead] then bad ''revisions''
      else if rp_Scenarios doc = [] then bad ''scenarios''
      else echeck (first_error validateRevisionPlan (enumerate 0 (rp_Revisions doc)))
        (validateScenarioPlans (length (rp_Revisions doc)) 0 0 (rp_Scenarios doc)))"

definition collectionFromPlan :: "CollectionPlan option \<Rightarrow> CollectionSettings" where
  "collectionFromPlan c = (case c of
     None \<Rightarrow> \<lparr> cg_FilesystemRoots = [], cg_FilesystemContents = [], cg_Artifacts = [], cg_LogMaxBytesPerStream = 0 \<rparr>
   | Some p \<Rightarrow> \<lparr> cg_FilesystemRoots = col_FilesystemRoots p, cg_FilesystemContents = col_FilesystemContents p,
       cg_Artifacts = col_Artifacts p, cg_LogMaxBytesPerStream = col_LogMaxBytesPerStream p \<rparr>)"

definition attemptID :: "string \<Rightarrow> string \<Rightarrow> int \<Rightarrow> string" where
  "attemptID revision scenario rep = ''att-'' @ revision @ ''-'' @ scenario @ ''-r'' @ itoa (nat rep)"

definition attemptRequest :: "RunPlan \<Rightarrow> Digest \<Rightarrow> nat \<Rightarrow> RevisionPlan \<Rightarrow> ScenarioPlan \<Rightarrow> int \<Rightarrow> AttemptRequest" where
  "attemptRequest doc planDigest ordinal revision scenario rep =
     (let env = (case rp_ExecutionEnvironment doc of Some e \<Rightarrow> e | None \<Rightarrow> \<lparr> rpe_Image = [], rpe_ImageDigest = [], rpe_Workdir = [] \<rparr>) in
      \<lparr> am_PlanDigest = planDigest, am_RunID = rp_RunID doc, am_PlanCreatedAt = rp_CreatedAt doc,
        am_AttemptID = attemptID (rv_Kind revision) (sp_ID scenario) rep, am_GlobalOrdinal = ordinal,
        am_Revision = rv_Kind revision, am_CommitID = cr_CommitID (rv_Commit revision), am_TreeID = rv_TreeID revision,
        am_ObjectFormat = rv_ObjectFormat revision, am_MaterializedTreeDigest = rv_MaterializedTreeDigest revision,
        am_MaterializationManifestDigest = rv_MaterializationManifestDigest revision,
        am_Image = rpe_Image env, am_Workdir = rpe_Workdir env, am_Environment = rp_Environment doc,
        am_ResourceLimits = sp_ResourceLimits scenario, am_NetworkPolicy = sp_NetworkPolicy scenario,
        am_ScenarioID = sp_ID scenario, am_ScenarioName = sp_Name scenario, am_Shell = sp_Shell scenario, am_Run = sp_Run scenario,
        am_ScenarioTimeoutMillis = rsl_TimeoutMillis (sp_ResourceLimits scenario), am_Repetition = nat (rep mod 2 ^ 32),
        am_Collection = collectionFromPlan (rp_Collection doc) \<rparr>)"

text \<open>The places that the three nested loops go through, in their order, and the body of the innermost one.\<close>

definition plannedAttempts :: "RunPlan \<Rightarrow> (RevisionPlan \<times> ScenarioPlan \<times> int) list" where
  "plannedAttempts doc = concat (map (\<lambda>revision. concat (map (\<lambda>scenario.
     map (\<lambda>rep. (revision, scenario, rep)) [1..sp_Repetitions scenario]) (rp_Scenarios doc))) (rp_Revisions doc))"

fun expandLoop :: "RunPlan \<Rightarrow> Digest \<Rightarrow> nat \<Rightarrow> (RevisionPlan \<times> ScenarioPlan \<times> int) list \<Rightarrow> AttemptRequest list result" where
  "expandLoop doc planDigest ordinal [] = Inr []"
| "expandLoop doc planDigest ordinal ((revision, scenario, rep) # rest) =
     (if int (Suc ordinal) > runner_MaxAttempts then Inl (runErr ''invalid-plan'' ''attempts'' [] ''count'')
      else let i = attemptID (rv_Kind revision) (sp_ID scenario) rep
        in if length i > MaxAttemptIDBytes then Inl (runErr ''invalid-attempt'' ''attempts'' i ''attemptId'')
           else rbind (expandLoop doc planDigest (Suc ordinal) rest)
             (\<lambda>as. Inr (attemptRequest doc planDigest (Suc ordinal) revision scenario rep # as)))"

definition expandAttempts :: "RunPlan \<Rightarrow> Digest \<Rightarrow> AttemptRequest list result" where
  "expandAttempts doc planDigest =
     rcheck (validatePlanDocument doc) (expandLoop doc planDigest 0 (plannedAttempts doc))"

definition ExpandPlanDocument :: "RunPlan \<Rightarrow> Digest \<Rightarrow> AttemptRequest list result" where
  "ExpandPlanDocument doc planDigest = rcheck (validatePlanDocument doc) (expandAttempts doc planDigest)"

definition ExpandPlanAttempts :: "FrozenPlan option \<Rightarrow> AttemptRequest list result" where
  "ExpandPlanAttempts plan = (case plan of
     None \<Rightarrow> Inl (runErr ''invalid-plan'' ''plan'' [] ''plan'')
   | Some p \<Rightarrow> rcheck (validatePlanDocument (fp_doc p)) (expandAttempts (fp_doc p) (fp_digest p)))"

section \<open>Events\<close>

abbreviation eventIDDomain :: string where "eventIDDomain \<equiv> ''glassroot.dev/observation-event-id/v1'' @ [NUL]"

definition eventID :: "(string \<Rightarrow> string) \<Rightarrow> Digest \<Rightarrow> string \<Rightarrow> nat \<Rightarrow> string" where
  "eventID sha planDigest runID sequence =
     ''evt-'' @ sha (eventIDDomain @ writeString planDigest @ writeString runID @ writeU64 sequence)"

definition deterministicAttemptTime :: "AttemptRequest \<Rightarrow> int \<Rightarrow> int" where
  "deterministicAttemptTime a offsetMillis =
     am_PlanCreatedAt a + (if am_GlobalOrdinal a > 0 then signed64 (int (am_GlobalOrdinal a - 1) * 10 ^ 9) else 0)
     + signed64 (offsetMillis * 10 ^ 6)"

definition envelopeEvent :: "(string \<Rightarrow> string) \<Rightarrow> AttemptRequest \<Rightarrow> nat \<Rightarrow> EventDraft \<Rightarrow> ObservationEvent" where
  "envelopeEvent sha a sequence d =
     \<lparr> ev_ID = eventID sha (am_PlanDigest a) (am_RunID a) sequence, ev_RunID = am_RunID a, ev_Revision = am_Revision a,
       ev_ScenarioID = am_ScenarioID a, ev_Repetition = am_Repetition a, ev_SequenceNumber = int sequence,
       ev_ObservedAt = (if df_ObservedAt d = - 62135596800 * 10 ^ 9 then deterministicAttemptTime a 0 else df_ObservedAt d),
       ev_Source = df_Source d, ev_Kind = df_Kind d, ev_Process = df_Process d, ev_Filesystem = df_Filesystem d,
       ev_Network = df_Network d, ev_Artifact = df_Artifact d, ev_Scenario = df_Scenario d,
       ev_ObserverWarning = df_ObserverWarning d, ev_ResourceLimit = df_ResourceLimit d \<rparr>"

definition knownObservationSource :: "string \<Rightarrow> bool" where
  "knownObservationSource source \<longleftrightarrow> source \<in> set ObservationSources"

definition payloadMatchesKind :: "EventDraft \<Rightarrow> bool" where
  "payloadMatchesKind d \<longleftrightarrow>
     (if df_Kind d \<in> {''process-start'', ''process-exit''} then df_Process d \<noteq> None
      else if df_Kind d \<in> {''filesystem-create'', ''filesystem-read'', ''filesystem-write'', ''filesystem-delete'',
          ''filesystem-rename'', ''filesystem-chmod''} then df_Filesystem d \<noteq> None
      else if df_Kind d \<in> {''dns-query'', ''network-connection''} then df_Network d \<noteq> None
      else if df_Kind d = ''artifact-activity'' then df_Artifact d \<noteq> None
      else if df_Kind d \<in> {''scenario-started'', ''scenario-completed''} then df_Scenario d \<noteq> None
      else if df_Kind d \<in> {''observer-warning'', ''unsupported-observation''} then df_ObserverWarning d \<noteq> None
      else if df_Kind d = ''resource-limit'' then df_ResourceLimit d \<noteq> None
      else False)"

definition draftPayloads :: "EventDraft \<Rightarrow> nat" where
  "draftPayloads d = length (filter id
     [df_Process d \<noteq> None, df_Filesystem d \<noteq> None, df_Network d \<noteq> None, df_Artifact d \<noteq> None,
      df_Scenario d \<noteq> None, df_ObserverWarning d \<noteq> None, df_ResourceLimit d \<noteq> None])"

definition sizeOf :: "('a \<Rightarrow> nat) \<Rightarrow> 'a option \<Rightarrow> nat" where
  "sizeOf f x = (case x of None \<Rightarrow> 0 | Some y \<Rightarrow> f y)"

abbreviation lengths :: "string list \<Rightarrow> nat" where "lengths xs \<equiv> sum_list (map length xs)"

definition estimateDraftSize :: "EventDraft \<Rightarrow> nat" where
  "estimateDraftSize d = length (df_Source d) + length (df_Kind d) + 64
     + sizeOf (\<lambda>p. length (po_Operation p) + length (po_ExecutablePath p) + lengths (po_Arguments p)
         + sum_list (map (\<lambda>e. length (env_Name e) + length (env_Value e)) (po_Environment p))) (df_Process d)
     + sizeOf (\<lambda>f. lengths [fo_Operation f, fo_Path f, fo_OldPath f, fo_Mode f, fo_Digest f]) (df_Filesystem d)
     + sizeOf (\<lambda>n. lengths [no_Operation n, no_Protocol n, no_QueryName n, no_DestinationHost n, no_Result n]
         + lengths (no_ResolvedAddresses n)) (df_Network d)
     + sizeOf (\<lambda>a. lengths [ao_Operation a, ao_ArtifactID a, ao_Path a, ao_Digest a] + lengths (ao_SourceEventIDs a)) (df_Artifact d)
     + sizeOf (\<lambda>s. length (so_Status s) + length (so_Message s)) (df_Scenario d)
     + sizeOf (\<lambda>w. length (ow_Code w) + length (ow_Message w)
         + sum_list (map (\<lambda>l. lengths [lim_ID l, lim_Summary l, lim_Details l]) (ow_Limitations w))) (df_ObserverWarning d)
     + sizeOf (\<lambda>r. length (rl_LimitKind r) + length (rl_Unit r)) (df_ResourceLimit d)"

definition ValidateEventDraft :: "EventDraft \<Rightarrow> RunnerLimits \<Rightarrow> go_error option" where
  "ValidateEventDraft d limits =
     echeck (runner_validateLimits limits)
     (if \<not> knownObservationSource (df_Source d) then Some (runErr ''invalid-event-draft'' ''event'' [] ''source'')
      else if draftPayloads d \<noteq> 1 then Some (runErr ''invalid-event-draft'' ''event'' [] ''payload'')
      else if \<not> payloadMatchesKind d then Some (runErr ''invalid-event-draft'' ''event'' [] ''kind'')
      else if int (estimateDraftSize d) > ul_MaxEventJSONBytes limits then Some (runErr ''event-too-large'' ''event'' [] ''payload'')
      else None)"

definition validateOutcome :: "AttemptOutcome \<Rightarrow> int \<Rightarrow> go_error option" where
  "validateOutcome o' timeoutMillis =
     (let bad = (\<lambda>path. Some (runErr ''invalid-outcome'' ''attempt'' [] path)) in
      if oc_DurationMillis o' < 0 \<or> timeoutMillis > 0 \<and> oc_DurationMillis o' > timeoutMillis then bad ''durationMillis''
      else if length (oc_Limitations o') > MaxResultLimitations then bad ''limitations''
      else if list_ex (\<lambda>l. invalidBoundedText (lim_ID l) 128 False \<or> invalidBoundedText (lim_Summary l) 1024 False
          \<or> hasControl (lim_Details l)) (oc_Limitations o') then bad ''limitations''
      else if oc_Status o' = AttemptStatusSucceeded then (if oc_ExitCode o' = Some 0 then None else bad ''exitCode'')
      else if oc_Status o' = AttemptStatusFailed
      then (case oc_ExitCode o' of None \<Rightarrow> bad ''exitCode'' | Some c \<Rightarrow> if c = 0 then bad ''exitCode'' else None)
      else if oc_Status o' = AttemptStatusTimedOut \<or> oc_Status o' = AttemptStatusResourceLimited
      then (if oc_ExitCode o' = Some 0 then bad ''exitCode'' else None)
      else bad ''status'')"

section \<open>Emission\<close>

text \<open>
  The state of an execution: the number of the last event, what the sink has accepted, and the results of the attempts. The
  counters of one attempt are those of its draft sink.
\<close>

record executionState =
  xe_seq :: nat
  xe_events :: "ObservationEvent list"
  xe_attempts :: "AttemptResult list"

record attemptDraftSink =
  dk_count :: nat
  dk_firstSeq :: nat
  dk_lastSeq :: nat

definition newSink :: attemptDraftSink where
  "newSink = \<lparr> dk_count = 0, dk_firstSeq = 0, dk_lastSeq = 0 \<rparr>"

record EventSink =
  sk_size :: "ObservationEvent \<Rightarrow> nat option"
  sk_accepts :: "ObservationEvent list \<Rightarrow> ObservationEvent \<Rightarrow> bool"

definition runner_contextError :: "ctx_error option \<Rightarrow> string \<Rightarrow> string \<Rightarrow> string \<Rightarrow> string \<Rightarrow> go_error option" where
  "runner_contextError poll deadlineCode stage attempt path = map_option (\<lambda>e. case e of
     DeadlineExceeded \<Rightarrow> runErr deadlineCode stage attempt path
   | Canceled \<Rightarrow> runErr ''context-cancelled'' stage attempt path) poll"

type_synonym sink_state = "executionState \<times> attemptDraftSink"

definition emitDraft ::
  "(string \<Rightarrow> string) \<Rightarrow> EventSink \<Rightarrow> RunnerLimits \<Rightarrow> AttemptRequest \<Rightarrow> ctx_error option \<Rightarrow> EventDraft \<Rightarrow> sink_state
   \<Rightarrow> sink_state \<times> go_error option" where
  "emitDraft sha snk limits a poll d z = (case z of (st, k) \<Rightarrow>
     let i = am_AttemptID a; nextSeq = Suc (xe_seq st); event = envelopeEvent sha a nextSeq d in
     case runner_contextError poll ''attempt-timeout'' ''event'' i ''context'' of
       Some e \<Rightarrow> (z, Some e)
     | None \<Rightarrow>
       if int (dk_count k) \<ge> ul_MaxEventsPerAttempt limits \<or> int (xe_seq st) \<ge> ul_MaxEventsPerExecution limits
       then (z, Some (runErr ''event-limit'' ''event'' i ''count''))
       else (case ValidateEventDraft d limits of
         Some e \<Rightarrow> (z, Some e)
       | None \<Rightarrow> (case sk_size snk event of
           None \<Rightarrow> (z, Some (runErr ''serialization-failed'' ''event'' i ''json''))
         | Some size' \<Rightarrow>
             if int size' > ul_MaxEventJSONBytes limits then (z, Some (runErr ''event-too-large'' ''event'' i ''json''))
             else if \<not> sk_accepts snk (xe_events st) event then (z, Some (runErr ''sink-failed'' ''sink'' i ''emit''))
             else ((st\<lparr> xe_seq := nextSeq, xe_events := xe_events st @ [event] \<rparr>,
                    k\<lparr> dk_count := Suc (dk_count k), dk_firstSeq := (if dk_firstSeq k = 0 then nextSeq else dk_firstSeq k),
                       dk_lastSeq := nextSeq \<rparr>), None))))"

section \<open>Backends and hooks\<close>

datatype caught = IsCanceled | IsDeadline | IsRunnerError go_error | IsOther

datatype attempt_program =
    Return AttemptOutcome
  | Raise caught
  | EmitDraft "ctx_error option" EventDraft "go_error option \<Rightarrow> attempt_program"

primrec runProgram ::
  "(ctx_error option \<Rightarrow> EventDraft \<Rightarrow> sink_state \<Rightarrow> sink_state \<times> go_error option) \<Rightarrow> attempt_program \<Rightarrow> sink_state
   \<Rightarrow> sink_state \<times> (caught + AttemptOutcome)" where
  "runProgram em (Return out) z = (z, Inr out)"
| "runProgram em (Raise e) z = (z, Inl e)"
| "runProgram em (EmitDraft poll d k) z = (case em poll d z of (z', err) \<Rightarrow> runProgram em (k err) z')"

record Backend =
  bk_Capabilities :: "RunnerCapabilities option"
  bk_ValidatePlan :: "(Digest \<Rightarrow> AttemptRequest list \<Rightarrow> RunnerLimits \<Rightarrow> go_error option) option"
  bk_RunAttempt :: "AttemptRequest \<Rightarrow> attempt_program"

text \<open>What \<open>AbortAttempt\<close> does is ignored by the code.\<close>

record AttemptHooks =
  hk_BeforeAttempt :: "AttemptRequest \<Rightarrow> caught option"
  hk_AfterAttempt :: "AttemptRequest \<Rightarrow> AttemptOutcome \<Rightarrow> attempt_program"

definition wrapAttemptError :: "caught \<Rightarrow> AttemptRequest \<Rightarrow> go_error" where
  "wrapAttemptError e a = (case e of
     IsCanceled \<Rightarrow> runErr ''context-cancelled'' ''attempt'' (am_AttemptID a) ''context''
   | IsDeadline \<Rightarrow> runErr ''attempt-timeout'' ''attempt'' (am_AttemptID a) ''context''
   | IsRunnerError err \<Rightarrow> err
   | IsOther \<Rightarrow> runErr ''backend-failed'' ''attempt'' (am_AttemptID a) ''runner'')"

definition wrapHookError :: "caught \<Rightarrow> string \<Rightarrow> AttemptRequest \<Rightarrow> go_error" where
  "wrapHookError e stage a = (case e of
     IsCanceled \<Rightarrow> runErr ''context-cancelled'' stage (am_AttemptID a) ''context''
   | IsDeadline \<Rightarrow> runErr ''attempt-timeout'' stage (am_AttemptID a) ''context''
   | IsRunnerError err \<Rightarrow> err
   | IsOther \<Rightarrow> runErr ''backend-failed'' stage (am_AttemptID a) ''hook'')"

definition scenarioStatus :: "string \<Rightarrow> string" where
  "scenarioStatus status =
     (if status = AttemptStatusSucceeded then ''passed'' else if status = AttemptStatusFailed then ''failed''
      else if status = AttemptStatusTimedOut then ''timed-out'' else if status = AttemptStatusResourceLimited then ''incomplete''
      else ''error'')"

section \<open>Attempts\<close>

definition attemptResult :: "AttemptRequest \<Rightarrow> AttemptOutcome \<Rightarrow> attemptDraftSink \<Rightarrow> AttemptResult" where
  "attemptResult a out k = \<lparr> tr_AttemptID = am_AttemptID a, tr_Revision = am_Revision a, tr_ScenarioID = am_ScenarioID a,
     tr_Repetition = am_Repetition a, tr_Outcome = out, tr_FirstAcceptedSequence = dk_firstSeq k,
     tr_LastAcceptedSequence = dk_lastSeq k, tr_AcceptedEventCount = dk_count k, tr_Limitations = oc_Limitations out \<rparr>"

definition executeAttempt ::
  "(string \<Rightarrow> string) \<Rightarrow> EventSink \<Rightarrow> RunnerLimits \<Rightarrow> (nat \<Rightarrow> ctx_error option) \<Rightarrow> Backend \<Rightarrow> AttemptRequest \<Rightarrow> executionState
   \<Rightarrow> executionState \<times> AttemptResult result" where
  "executeAttempt sha snk limits polls backend a st =
     (case runner_contextError (polls 1) ''attempt-timeout'' ''attempt'' (am_AttemptID a) ''context'' of
        Some e \<Rightarrow> (st, Inl e)
      | None \<Rightarrow> (case runProgram (emitDraft sha snk limits a) (bk_RunAttempt backend a) (st, newSink) of
          ((st', k), Inl e) \<Rightarrow> (st', Inl (wrapAttemptError e a))
        | ((st', k), Inr out) \<Rightarrow> (case validateOutcome out (am_ScenarioTimeoutMillis a) of
            Some e \<Rightarrow> (st', Inl e)
          | None \<Rightarrow> (st', Inr (attemptResult a out k)))))"

definition scenarioDraft :: "string \<Rightarrow> string \<Rightarrow> int \<Rightarrow> int \<Rightarrow> EventDraft" where
  "scenarioDraft kind status observedAt duration =
     \<lparr> df_ObservedAt = observedAt, df_Source = ObservationSourceSandboxRuntimeObserved, df_Kind = kind, df_Process = None,
       df_Filesystem = None, df_Network = None, df_Artifact = None,
       df_Scenario = Some \<lparr> so_Status = status, so_Message = [], so_DurationMillis = duration \<rparr>,
       df_ObserverWarning = None, df_ResourceLimit = None \<rparr>"

text \<open>After the backend: the outcome as the hook leaves it, and the event that closes the scenario.\<close>

definition finishAttempt ::
  "(string \<Rightarrow> string) \<Rightarrow> EventSink \<Rightarrow> RunnerLimits \<Rightarrow> ctx_error option \<Rightarrow> AttemptRequest \<Rightarrow> AttemptOutcome \<Rightarrow> sink_state
   \<Rightarrow> executionState \<times> AttemptResult result" where
  "finishAttempt sha snk limits poll a out z =
     (case emitDraft sha snk limits a poll
        (scenarioDraft ''scenario-completed'' (scenarioStatus (oc_Status out)) (deterministicAttemptTime a (oc_DurationMillis out))
          (oc_DurationMillis out)) z of
        ((st', k'), Some e) \<Rightarrow> (st', Inl e)
      | ((st', k'), None) \<Rightarrow> (st', Inr (attemptResult a out k')))"

definition afterBackend ::
  "(string \<Rightarrow> string) \<Rightarrow> EventSink \<Rightarrow> RunnerLimits \<Rightarrow> ctx_error option \<Rightarrow> AttemptHooks option \<Rightarrow> AttemptRequest \<Rightarrow> AttemptOutcome
   \<Rightarrow> sink_state \<Rightarrow> executionState \<times> AttemptResult result" where
  "afterBackend sha snk limits poll hooks a out z =
     (case validateOutcome out (am_ScenarioTimeoutMillis a) of
        Some e \<Rightarrow> (fst z, Inl e)
      | None \<Rightarrow> (case hooks of
          None \<Rightarrow> finishAttempt sha snk limits poll a out z
        | Some h \<Rightarrow> (case runProgram (emitDraft sha snk limits a) (hk_AfterAttempt h a out) z of
            (z', Inl e) \<Rightarrow> (fst z', Inl (wrapHookError e ''after'' a))
          | (z', Inr after) \<Rightarrow> (case validateOutcome after (am_ScenarioTimeoutMillis a) of
              Some e \<Rightarrow> (fst z', Inl e)
            | None \<Rightarrow> finishAttempt sha snk limits poll a after z'))))"

definition executeAttemptWithHooks ::
  "(string \<Rightarrow> string) \<Rightarrow> EventSink \<Rightarrow> RunnerLimits \<Rightarrow> AttemptHooks option \<Rightarrow> (nat \<Rightarrow> ctx_error option) \<Rightarrow> Backend \<Rightarrow> AttemptRequest
   \<Rightarrow> executionState \<Rightarrow> executionState \<times> AttemptResult result" where
  "executeAttemptWithHooks sha snk limits hooks polls backend a st =
     (case runner_contextError (polls 1) ''attempt-timeout'' ''attempt'' (am_AttemptID a) ''context'' of
        Some e \<Rightarrow> (st, Inl e)
      | None \<Rightarrow> (case (case hooks of None \<Rightarrow> None | Some h \<Rightarrow> hk_BeforeAttempt h a) of
          Some e \<Rightarrow> (st, Inl (wrapHookError e ''before'' a))
        | None \<Rightarrow> (case emitDraft sha snk limits a (polls 2)
              (scenarioDraft ''scenario-started'' ''running'' (deterministicAttemptTime a 0) 0) (st, newSink) of
            (z, Some e) \<Rightarrow> (fst z, Inl e)
          | (z, None) \<Rightarrow> (case runProgram (emitDraft sha snk limits a) (bk_RunAttempt backend a) z of
              (z', Inl e) \<Rightarrow> (fst z', Inl (wrapAttemptError e a))
            | (z', Inr out) \<Rightarrow> afterBackend sha snk limits (polls 3) hooks a out z'))))"

section \<open>Executions\<close>

definition syntheticLimitations :: "RunnerCapabilities \<Rightarrow> Limitation list" where
  "syntheticLimitations caps = (if \<not> rc_SyntheticEvidence caps then [] else
     [\<lparr> lim_ID = ''synthetic-no-target-execution'', lim_Summary = ''No target code was executed by this runner.'', lim_Details = [] \<rparr>,
      \<lparr> lim_ID = ''synthetic-observations'',
        lim_Summary = ''All observations are synthetic test data, not observed repository behavior.'', lim_Details = [] \<rparr>])"

text \<open>The part before the first attempt, which \<open>ExecutePlan\<close> and \<open>ExecutePlanWithHooks\<close> share.\<close>

definition prepareExecution ::
  "FrozenPlan \<Rightarrow> Backend \<Rightarrow> Requirements \<Rightarrow> RunnerLimits \<Rightarrow> (RunnerCapabilities \<times> AttemptRequest list) result" where
  "prepareExecution plan backend req limits =
     rcheck (runner_validateLimits limits)
     (rcheck (validateRequirements req)
     (rcheck (validatePlanDocument (fp_doc plan))
     (rbind (expandAttempts (fp_doc plan) (fp_digest plan)) (\<lambda>attempts.
      if int (length attempts) > ul_MaxAttempts limits then Inl (runErr ''invalid-plan'' ''attempts'' [] ''count'')
      else case bk_Capabilities backend of
        None \<Rightarrow> Inl (runErr ''capabilities-failed'' ''capabilities'' [] ''runner'')
      | Some caps \<Rightarrow>
          if nd_Intent req = ExecutionIntentWorkload \<and> rc_SyntheticEvidence caps \<and> \<not> rc_ExecutesTargetCode caps
          then Inl (runErr ''synthetic-runner-not-allowed'' ''capabilities'' [] ''intent'')
          else rbind (MatchCapabilities req caps) (\<lambda>mismatches.
            if int (length mismatches) > ul_MaxCapabilityMismatches limits
            then Inl (runErr ''capability-mismatch'' ''capabilities'' [] ''mismatches'')
            else case mismatches of
              m # _ \<Rightarrow> Inl (runErr ''capability-mismatch'' ''capabilities'' [] (mm_Code m))
            | [] \<Rightarrow> rcheck (case bk_ValidatePlan backend of
                  None \<Rightarrow> None | Some validate \<Rightarrow> validate (fp_digest plan) attempts limits)
                (Inr (caps, attempts)))))))"

text \<open>The loop over the attempts; \<open>polls i\<close> are the polls of attempt number \<open>i\<close>.\<close>

fun runAttempts ::
  "((nat \<Rightarrow> ctx_error option) \<Rightarrow> AttemptRequest \<Rightarrow> executionState \<Rightarrow> executionState \<times> AttemptResult result)
   \<Rightarrow> (nat \<Rightarrow> nat \<Rightarrow> ctx_error option) \<Rightarrow> AttemptRequest list \<Rightarrow> executionState \<Rightarrow> executionState \<times> go_error option" where
  "runAttempts exec polls [] st = (st, None)"
| "runAttempts exec polls (a # as) st =
     (case runner_contextError (polls 0 0) ''run-timeout'' ''execute'' [] (am_AttemptID a) of
        Some e \<Rightarrow> (st, Some e)
      | None \<Rightarrow> (case exec (polls 0) a st of
          (st', Inl e) \<Rightarrow> (st', Some e)
        | (st', Inr r) \<Rightarrow> runAttempts exec (polls \<circ> Suc) as (st'\<lparr> xe_attempts := xe_attempts st' @ [r] \<rparr>)))"

definition startState :: executionState where
  "startState = \<lparr> xe_seq = 0, xe_events = [], xe_attempts = [] \<rparr>"

definition emptyExecution :: ExecutionResult where
  "emptyExecution = \<lparr> xt_PlanDigest = [], xt_Runner = zeroRunner, xt_Complete = False, xt_Attempts = [],
     xt_TotalEmittedEvents = 0, xt_Limitations = [] \<rparr>"

text \<open>The result, what the sink has accepted, and the error.\<close>

type_synonym execution = "ExecutionResult \<times> ObservationEvent list \<times> go_error option"

definition executeWith ::
  "((nat \<Rightarrow> ctx_error option) \<Rightarrow> AttemptRequest \<Rightarrow> executionState \<Rightarrow> executionState \<times> AttemptResult result)
   \<Rightarrow> (nat \<Rightarrow> nat \<Rightarrow> ctx_error option) \<Rightarrow> FrozenPlan \<Rightarrow> Backend \<Rightarrow> Requirements \<Rightarrow> RunnerLimits \<Rightarrow> execution" where
  "executeWith exec polls plan backend req limits =
     (case prepareExecution plan backend req limits of
        Inl e \<Rightarrow> (emptyExecution, [], Some e)
      | Inr (caps, attempts) \<Rightarrow> (case runAttempts exec polls attempts startState of
          (st, err) \<Rightarrow> (\<lparr> xt_PlanDigest = fp_digest plan, xt_Runner = caps, xt_Complete = (err = None),
            xt_Attempts = xe_attempts st, xt_TotalEmittedEvents = xe_seq st, xt_Limitations = syntheticLimitations caps \<rparr>,
            xe_events st, err)))"

text \<open>The checks of the arguments before anything else; \<open>None\<close> is a nil pointer or interface.\<close>

definition withInputs ::
  "ctx_error option \<Rightarrow> FrozenPlan option \<Rightarrow> Backend option \<Rightarrow> EventSink option \<Rightarrow> (FrozenPlan \<Rightarrow> Backend \<Rightarrow> EventSink \<Rightarrow> execution)
   \<Rightarrow> execution" where
  "withInputs poll plan backend snk run =
     (let rejected = (\<lambda>e. (emptyExecution, [], Some e)) in
      case runner_contextError poll ''context-cancelled'' ''execute'' [] ''context'' of
        Some e \<Rightarrow> rejected e
      | None \<Rightarrow> (case plan of
          None \<Rightarrow> rejected (runErr ''invalid-plan'' ''plan'' [] ''plan'')
        | Some p \<Rightarrow> (case backend of
            None \<Rightarrow> rejected (runErr ''backend-failed'' ''backend'' [] ''runner'')
          | Some b \<Rightarrow> (case snk of
              None \<Rightarrow> rejected (runErr ''sink-failed'' ''sink'' [] ''sink'')
            | Some s \<Rightarrow> run p b s))))"

definition ExecutePlan ::
  "(string \<Rightarrow> string) \<Rightarrow> EventSink option \<Rightarrow> ctx_error option \<Rightarrow> (nat \<Rightarrow> nat \<Rightarrow> ctx_error option) \<Rightarrow> FrozenPlan option
   \<Rightarrow> Backend option \<Rightarrow> Requirements \<Rightarrow> RunnerLimits \<Rightarrow> execution" where
  "ExecutePlan sha snk poll polls plan backend req limits = withInputs poll plan backend snk
     (\<lambda>p b s. executeWith (\<lambda>ps. executeAttempt sha s limits ps b) polls p b req limits)"

definition ExecutePlanWithHooks ::
  "(string \<Rightarrow> string) \<Rightarrow> EventSink option \<Rightarrow> AttemptHooks option \<Rightarrow> ctx_error option \<Rightarrow> (nat \<Rightarrow> nat \<Rightarrow> ctx_error option)
   \<Rightarrow> FrozenPlan option \<Rightarrow> Backend option \<Rightarrow> Requirements \<Rightarrow> RunnerLimits \<Rightarrow> execution" where
  "ExecutePlanWithHooks sha snk hooks poll polls plan backend req limits = withInputs poll plan backend snk
     (\<lambda>p b s. executeWith (\<lambda>ps. executeAttemptWithHooks sha s limits hooks ps b) polls p b req limits)"

end
