(* ===== verification/Runner_Facts.thy ===== *)
theory Runner_Facts
  imports Runner
begin

text \<open>
  Facts on executions. Whatever a backend does, the events that the sink accepts during an attempt are numbered without gaps,
  carry the identity of the attempt and pass the checks that normalization makes; the locale \<open>attempt_executor\<close> is what the loop
  over the attempts relies on, and both ways to execute an attempt provide it.
\<close>

section \<open>The events of an attempt\<close>

definition event_of :: "(string \<Rightarrow> string) \<Rightarrow> AttemptRequest \<Rightarrow> nat \<Rightarrow> ObservationEvent \<Rightarrow> bool" where
  "event_of sha a n e \<longleftrightarrow> ev_SequenceNumber e = int n \<and> ev_ID e = eventID sha (am_PlanDigest a) (am_RunID a) n
     \<and> ev_RunID e = am_RunID a \<and> ev_Revision e = am_Revision a \<and> ev_ScenarioID e = am_ScenarioID a
     \<and> ev_Repetition e = am_Repetition a \<and> validateSource (ev_Source e) = None \<and> validateKindPayload e = None"

definition delivers :: "(string \<Rightarrow> string) \<Rightarrow> AttemptRequest \<Rightarrow> executionState \<Rightarrow> executionState \<Rightarrow> bool" where
  "delivers sha a st st' \<longleftrightarrow> xe_attempts st' = xe_attempts st
     \<and> (\<exists>es. xe_events st' = xe_events st @ es \<and> xe_seq st' = xe_seq st + length es
          \<and> (\<forall>i<length es. event_of sha a (xe_seq st + Suc i) (es ! i)))"

text \<open>The draft sink of an attempt that began in \<open>st\<close> counts what was delivered since.\<close>

definition sink_ok :: "(string \<Rightarrow> string) \<Rightarrow> RunnerLimits \<Rightarrow> AttemptRequest \<Rightarrow> executionState \<Rightarrow> sink_state \<Rightarrow> bool" where
  "sink_ok sha limits a st z \<longleftrightarrow> delivers sha a st (fst z)
     \<and> xe_seq (fst z) = xe_seq st + dk_count (snd z)
     \<and> int (dk_count (snd z)) \<le> max 0 (ul_MaxEventsPerAttempt limits)
     \<and> int (xe_seq (fst z)) \<le> max (int (xe_seq st)) (ul_MaxEventsPerExecution limits)
     \<and> dk_firstSeq (snd z) = (if dk_count (snd z) = 0 then 0 else Suc (xe_seq st))
     \<and> dk_lastSeq (snd z) = (if dk_count (snd z) = 0 then 0 else xe_seq (fst z))"

lemma sink_ok_new: "sink_ok sha limits a st (st, newSink)"
  by (simp add: sink_ok_def delivers_def newSink_def)

lemma envelope_valid:
  assumes "ValidateEventDraft d limits = None"
  shows "event_of sha a n (envelopeEvent sha a n d)"
proof -
  have d: "df_Source d \<in> set ObservationSources" "draftPayloads d = 1" "payloadMatchesKind d"
    using assms by (auto simp: ValidateEventDraft_def result_simps knownObservationSource_def split: if_splits)
  define e where "e = envelopeEvent sha a n d"
  have e: "ev_Kind e = df_Kind d" "ev_Process e = df_Process d" "ev_Filesystem e = df_Filesystem d" "ev_Network e = df_Network d"
    "ev_Artifact e = df_Artifact d" "ev_Scenario e = df_Scenario d" "ev_ObserverWarning e = df_ObserverWarning d"
    "ev_ResourceLimit e = df_ResourceLimit d" by (simp_all add: e_def envelopeEvent_def)
  have count: "payloadCount e = 1" using d(2) by (simp add: payloadCount_def draftPayloads_def e)
  have kind: "df_Kind d \<in> set ObservationKinds"
    using d(3) unfolding payloadMatchesKind_def by (auto simp: ObservationKinds_def split: if_splits)
  have "validateKindPayload e = None"
    unfolding validateKindPayload_def requirePayload_def count e
    using kind d(3) unfolding payloadMatchesKind_def
    by (simp add: processKinds_def filesystemKinds_def networkKinds_def scenarioKinds_def warningKinds_def split: if_splits)
  with d(1) show ?thesis by (simp add: event_of_def e_def) (simp add: envelopeEvent_def validateSource_def)
qed

lemma emitDraft_cases:
  assumes "emitDraft sha snk limits a poll d (st, k) = (z', err)"
  obtains (refused) e where "z' = (st, k)" "err = Some e"
  | (accepted) "err = None" "ValidateEventDraft d limits = None"
      "int (dk_count k) < ul_MaxEventsPerAttempt limits" "int (xe_seq st) < ul_MaxEventsPerExecution limits"
      "z' = (st\<lparr> xe_seq := Suc (xe_seq st), xe_events := xe_events st @ [envelopeEvent sha a (Suc (xe_seq st)) d] \<rparr>,
             k\<lparr> dk_count := Suc (dk_count k), dk_firstSeq := (if dk_firstSeq k = 0 then Suc (xe_seq st) else dk_firstSeq k),
                dk_lastSeq := Suc (xe_seq st) \<rparr>)"
proof (cases err)
  case (Some e)
  with assms show ?thesis by (intro refused) (auto simp: emitDraft_def Let_def split: option.splits if_splits)
next
  case None
  with assms show ?thesis by (intro accepted) (auto simp: emitDraft_def Let_def split: option.splits if_splits)
qed

lemma emit_ok:
  assumes "emitDraft sha snk limits a poll d z = (z', err)" and "sink_ok sha limits a st z"
  shows "sink_ok sha limits a st z'"
proof -
  obtain st1 k where z: "z = (st1, k)" by (cases z)
  from assms(1) [unfolded z] show ?thesis
  proof (cases rule: emitDraft_cases)
    case refused
    with assms(2) z show ?thesis by simp
  next
    case accepted
    from assms(2) z obtain es where es: "xe_events st1 = xe_events st @ es" "xe_seq st1 = xe_seq st + length es"
      "\<forall>i<length es. event_of sha a (xe_seq st + Suc i) (es ! i)" "xe_attempts st1 = xe_attempts st"
      by (auto simp: sink_ok_def delivers_def)
    have "delivers sha a st (fst z')"
      unfolding delivers_def accepted(5) using es envelope_valid [OF accepted(2)]
      by (auto simp: nth_append less_Suc_eq intro!: exI [of _ "es @ [envelopeEvent sha a (Suc (xe_seq st1)) d]"])
    with assms(2) z accepted show ?thesis by (auto simp: sink_ok_def)
  qed
qed

lemma runProgram_ok:
  "runProgram (emitDraft sha snk limits a) p z = (z', out) \<Longrightarrow> sink_ok sha limits a st z \<Longrightarrow> sink_ok sha limits a st z'"
proof (induction p arbitrary: z)
  case (EmitDraft poll d k)
  obtain z1 err where e: "emitDraft sha snk limits a poll d z = (z1, err)" by fastforce
  with EmitDraft.prems(1) have "runProgram (emitDraft sha snk limits a) (k err) z1 = (z', out)" by simp
  then show ?case using EmitDraft.IH [OF rangeI] emit_ok [OF e EmitDraft.prems(2)] by blast
qed simp_all

section \<open>Attempts\<close>

text \<open>The result of an attempt accounts for the events that were delivered during it.\<close>

definition accounts :: "RunnerLimits \<Rightarrow> AttemptRequest \<Rightarrow> AttemptResult \<Rightarrow> ObservationEvent list \<Rightarrow> bool" where
  "accounts limits a r es \<longleftrightarrow> tr_AttemptID r = am_AttemptID a \<and> tr_Revision r = am_Revision a \<and> tr_ScenarioID r = am_ScenarioID a
     \<and> tr_Repetition r = am_Repetition a \<and> tr_Limitations r = oc_Limitations (tr_Outcome r)
     \<and> validateOutcome (tr_Outcome r) (am_ScenarioTimeoutMillis a) = None
     \<and> tr_AcceptedEventCount r = length es \<and> int (length es) \<le> max 0 (ul_MaxEventsPerAttempt limits)
     \<and> (es \<noteq> [] \<longrightarrow> int (tr_FirstAcceptedSequence r) = ev_SequenceNumber (hd es)
          \<and> int (tr_LastAcceptedSequence r) = ev_SequenceNumber (last es))
     \<and> (\<forall>e\<in>set es. ev_Revision e = am_Revision a \<and> ev_ScenarioID e = am_ScenarioID a \<and> ev_Repetition e = am_Repetition a)"

definition attempt_ok ::
  "(string \<Rightarrow> string) \<Rightarrow> RunnerLimits \<Rightarrow> (AttemptResult \<Rightarrow> ObservationEvent list \<Rightarrow> bool) \<Rightarrow> AttemptRequest
   \<Rightarrow> executionState \<Rightarrow> executionState \<Rightarrow> AttemptResult result \<Rightarrow> bool" where
  "attempt_ok sha limits frame a st st' res \<longleftrightarrow> xe_attempts st' = xe_attempts st
     \<and> int (xe_seq st') \<le> max (int (xe_seq st)) (ul_MaxEventsPerExecution limits)
     \<and> (\<exists>es. xe_events st' = xe_events st @ es \<and> xe_seq st' = xe_seq st + length es
          \<and> (\<forall>i<length es. event_of sha a (xe_seq st + Suc i) (es ! i))
          \<and> (\<forall>r. res = Inr r \<longrightarrow> accounts limits a r es \<and> frame r es))"

lemma attempt_ok_refl: "attempt_ok sha limits frame a st st (Inl e)"
  by (simp add: attempt_ok_def)

lemma attempt_ok_error: "sink_ok sha limits a st z \<Longrightarrow> attempt_ok sha limits frame a st (fst z) (Inl e)"
  by (auto simp: attempt_ok_def sink_ok_def delivers_def)

lemma accounts_result:
  assumes "sink_ok sha limits a st (st', k)" and "validateOutcome out (am_ScenarioTimeoutMillis a) = None"
    and "xe_events st' = xe_events st @ es" and "xe_seq st' = xe_seq st + length es"
    and "\<forall>i<length es. event_of sha a (xe_seq st + Suc i) (es ! i)"
  shows "accounts limits a (attemptResult a out k) es"
proof -
  have count: "dk_count k = length es" using assms(1,4) by (simp add: sink_ok_def)
  have "es \<noteq> [] \<Longrightarrow> ev_SequenceNumber (hd es) = int (Suc (xe_seq st)) \<and> ev_SequenceNumber (last es) = int (xe_seq st')"
    using assms(4) spec [OF assms(5), of 0] spec [OF assms(5), of "length es - 1"]
    by (auto simp: event_of_def hd_conv_nth last_conv_nth)
  moreover have "\<forall>e\<in>set es. ev_Revision e = am_Revision a \<and> ev_ScenarioID e = am_ScenarioID a \<and> ev_Repetition e = am_Repetition a"
    using assms(5) by (auto simp: event_of_def in_set_conv_nth)
  ultimately show ?thesis using assms(1,2) count by (auto simp: accounts_def attemptResult_def sink_ok_def)
qed

lemma attempt_ok_result:
  assumes "sink_ok sha limits a st (st', k)" and "validateOutcome out (am_ScenarioTimeoutMillis a) = None"
    and "\<And>es. xe_events st' = xe_events st @ es \<Longrightarrow> frame (attemptResult a out k) es"
  shows "attempt_ok sha limits frame a st st' (Inr (attemptResult a out k))"
proof -
  from assms(1) obtain es where es: "xe_events st' = xe_events st @ es" "xe_seq st' = xe_seq st + length es"
    "\<forall>i<length es. event_of sha a (xe_seq st + Suc i) (es ! i)" by (auto simp: sink_ok_def delivers_def)
  from accounts_result [OF assms(1,2) es] assms(3) [OF es(1)] es assms(1) show ?thesis
    by (auto simp: attempt_ok_def sink_ok_def delivers_def)
qed

lemma executeAttempt_ok:
  assumes "executeAttempt sha snk limits ps backend a st = (st', res)"
  shows "attempt_ok sha limits (\<lambda>_ _. True) a st st' res"
proof -
  obtain z out where run: "runProgram (emitDraft sha snk limits a) (bk_RunAttempt backend a) (st, newSink) = (z, out)" by fastforce
  obtain st1 k where z: "z = (st1, k)" by (cases z)
  have ok: "sink_ok sha limits a st (st1, k)" using runProgram_ok [OF run sink_ok_new] z by simp
  note res = attempt_ok_error [OF ok, of "\<lambda>_ _. True", unfolded fst_conv] attempt_ok_result [OF ok, of _ "\<lambda>_ _. True"]
  from assms res show ?thesis unfolding executeAttempt_def run z
    by (auto simp: attempt_ok_refl split: option.splits sum.splits)
qed

text \<open>The events of an attempt with hooks, between the two that the execution itself emits.\<close>

definition framed :: "AttemptResult \<Rightarrow> ObservationEvent list \<Rightarrow> bool" where
  "framed r es \<longleftrightarrow> 2 \<le> length es \<and> ev_Kind (hd es) = ''scenario-started'' \<and> ev_Kind (last es) = ''scenario-completed''
     \<and> map_option so_Status (ev_Scenario (last es)) = Some (scenarioStatus (oc_Status (tr_Outcome r)))"

text \<open>What the sink has accepted only grows.\<close>

lemma emit_grows:
  assumes "emitDraft sha snk limits a poll d z = (z', err)"
  shows "\<exists>es. xe_events (fst z') = xe_events (fst z) @ es"
proof -
  obtain st k where "z = (st, k)" by (cases z)
  with assms show ?thesis by simp (erule emitDraft_cases; auto)
qed

lemma run_grows:
  "runProgram (emitDraft sha snk limits a) p z = (z', out) \<Longrightarrow> \<exists>es. xe_events (fst z') = xe_events (fst z) @ es"
proof (induction p arbitrary: z)
  case (EmitDraft poll d k)
  obtain z1 err where e: "emitDraft sha snk limits a poll d z = (z1, err)" by fastforce
  with EmitDraft.prems have "runProgram (emitDraft sha snk limits a) (k err) z1 = (z', out)" by simp
  from EmitDraft.IH [OF rangeI this] emit_grows [OF e] show ?case by (metis append.assoc)
qed simp_all

lemma finishAttempt_ok:
  assumes "finishAttempt sha snk limits poll a out z = (st', res)" and "sink_ok sha limits a st z"
    and "validateOutcome out (am_ScenarioTimeoutMillis a) = None"
    and "xe_events (fst z) = xe_events st @ b # es" and "ev_Kind b = ''scenario-started''"
  shows "attempt_ok sha limits framed a st st' res"
proof -
  let ?d = "scenarioDraft ''scenario-completed'' (scenarioStatus (oc_Status out)) (deterministicAttemptTime a (oc_DurationMillis out))
    (oc_DurationMillis out)"
  obtain z' err where e: "emitDraft sha snk limits a poll ?d z = (z', err)" by fastforce
  note ok = emit_ok [OF e assms(2)]
  obtain st1 k where z: "z = (st1, k)" by (cases z)
  from e [unfolded z] show ?thesis
  proof (cases rule: emitDraft_cases)
    case (refused err')
    with assms(1) e attempt_ok_error [OF ok, of framed] show ?thesis
      by (auto simp: finishAttempt_def)
  next
    case accepted
    obtain st2 k2 where z2: "z' = (st2, k2)" by (cases z')
    have "framed (attemptResult a out k2) es'" if "xe_events st2 = xe_events st @ es'" for es'
    proof -
      from that accepted(5) z2 z assms(4)
      have "es' = b # es @ [envelopeEvent sha a (Suc (xe_seq st1)) ?d]" by auto
      with assms(5) show ?thesis by (simp add: framed_def attemptResult_def envelopeEvent_def scenarioDraft_def)
    qed
    with attempt_ok_result [OF ok [unfolded z2] assms(3)] assms(1) e z2 accepted(1) show ?thesis
      by (auto simp: finishAttempt_def)
  qed
qed

lemma afterBackend_ok:
  assumes "afterBackend sha snk limits poll hooks a out z = (st', res)" and ok: "sink_ok sha limits a st z"
    and b: "xe_events (fst z) = xe_events st @ b # es" "ev_Kind b = ''scenario-started''"
  shows "attempt_ok sha limits framed a st st' res"
proof (cases "validateOutcome out (am_ScenarioTimeoutMillis a)")
  case valid: None
  show ?thesis
  proof (cases hooks)
    case None
    with assms(1) valid have "finishAttempt sha snk limits poll a out z = (st', res)" by (simp add: afterBackend_def)
    from finishAttempt_ok [OF this ok valid b] show ?thesis .
  next
    case (Some h)
    obtain z1 after where run: "runProgram (emitDraft sha snk limits a) (hk_AfterAttempt h a out) z = (z1, after)" by fastforce
    note ok1 = runProgram_ok [OF run ok]
    from run_grows [OF run] b(1) obtain es1 where grown: "xe_events (fst z1) = xe_events st @ b # es1" by auto
    from assms(1) valid Some run attempt_ok_error [OF ok1, of framed] finishAttempt_ok [OF _ ok1 _ grown b(2)] show ?thesis
      by (auto simp: afterBackend_def split: sum.splits option.splits)
  qed
qed (use assms(1) attempt_ok_error [OF ok, of framed] in \<open>auto simp: afterBackend_def\<close>)

lemma executeAttemptWithHooks_ok:
  assumes "executeAttemptWithHooks sha snk limits hooks ps backend a st = (st', res)"
  shows "attempt_ok sha limits framed a st st' res"
proof -
  let ?d = "scenarioDraft ''scenario-started'' ''running'' (deterministicAttemptTime a 0) 0"
  obtain z err where e: "emitDraft sha snk limits a (ps 2) ?d (st, newSink) = (z, err)" by fastforce
  note ok = emit_ok [OF e sink_ok_new]
  obtain z1 out where run: "runProgram (emitDraft sha snk limits a) (bk_RunAttempt backend a) z = (z1, out)" by fastforce
  note ok1 = runProgram_ok [OF run ok]
  have finished: "attempt_ok sha limits framed a st st' res"
    if "err = None" "afterBackend sha snk limits (ps 3) hooks a out' z1 = (st', res)" for out'
  proof -
    from e that(1) obtain st1 where "xe_events (fst z) = xe_events st @ [envelopeEvent sha a (Suc (xe_seq st)) ?d]"
      by (cases rule: emitDraft_cases) auto
    with run_grows [OF run] obtain es where "xe_events (fst z1) = xe_events st @ envelopeEvent sha a (Suc (xe_seq st)) ?d # es" by auto
    from afterBackend_ok [OF that(2) ok1 this] show ?thesis by (simp add: envelopeEvent_def scenarioDraft_def)
  qed
  from assms attempt_ok_error [OF ok, of framed] attempt_ok_error [OF ok1, of framed] show ?thesis
    unfolding executeAttemptWithHooks_def
    by (auto simp: attempt_ok_refl e run finished split: option.splits sum.splits)
qed

section \<open>Executions\<close>

locale attempt_executor =
  fixes exec :: "(nat \<Rightarrow> ctx_error option) \<Rightarrow> AttemptRequest \<Rightarrow> executionState \<Rightarrow> executionState \<times> AttemptResult result"
    and sha :: "string \<Rightarrow> string" and limits :: RunnerLimits
    and frame :: "AttemptResult \<Rightarrow> ObservationEvent list \<Rightarrow> bool"
  assumes exec_ok: "exec ps a st = (st', res) \<Longrightarrow> attempt_ok sha limits frame a st st' res"
begin

text \<open>Every event of a run belongs to one of its attempts and has the next number.\<close>

lemma run_delivers:
  assumes "runAttempts exec polls as st = (st', err)"
  shows "int (xe_seq st') \<le> max (int (xe_seq st)) (ul_MaxEventsPerExecution limits)
    \<and> (\<exists>es. xe_events st' = xe_events st @ es \<and> xe_seq st' = xe_seq st + length es
        \<and> (\<forall>i<length es. \<exists>a\<in>set as. event_of sha a (xe_seq st + Suc i) (es ! i)))"
  using assms
proof (induction as arbitrary: polls st)
  case (Cons a as)
  show ?case
  proof (cases "runner_contextError (polls 0 0) ''run-timeout'' ''execute'' [] (am_AttemptID a)")
    case None
    obtain st1 res where run: "exec (polls 0) a st = (st1, res)" by fastforce
    from exec_ok [OF run] obtain es1 where one: "xe_events st1 = xe_events st @ es1" "xe_seq st1 = xe_seq st + length es1"
      "\<forall>i<length es1. event_of sha a (xe_seq st + Suc i) (es1 ! i)"
      "int (xe_seq st1) \<le> max (int (xe_seq st)) (ul_MaxEventsPerExecution limits)" by (auto simp: attempt_ok_def)
    show ?thesis
    proof (cases res)
      case (Inl e)
      with Cons.prems None run one show ?thesis by auto
    next
      case (Inr r)
      let ?st2 = "st1\<lparr> xe_attempts := xe_attempts st1 @ [r] \<rparr>"
      from Cons.prems None run Inr have "runAttempts exec (polls \<circ> Suc) as ?st2 = (st', err)" by simp
      from Cons.IH [OF this] obtain es2 where two: "xe_events st' = xe_events st1 @ es2" "xe_seq st' = xe_seq st1 + length es2"
        "\<forall>i<length es2. \<exists>b\<in>set as. event_of sha b (xe_seq st1 + Suc i) (es2 ! i)"
        "int (xe_seq st') \<le> max (int (xe_seq st1)) (ul_MaxEventsPerExecution limits)" by auto
      have "\<exists>b\<in>set (a # as). event_of sha b (xe_seq st + Suc i) ((es1 @ es2) ! i)" if "i < length (es1 @ es2)" for i
      proof (cases "i < length es1")
        case False
        with that have "i - length es1 < length es2" "xe_seq st1 + Suc (i - length es1) = xe_seq st + Suc i" using one(2) by auto
        with two(3) False show ?thesis by (auto simp: nth_append)
      qed (use one(3) in \<open>simp add: nth_append\<close>)
      with one two show ?thesis by (intro conjI exI [of _ "es1 @ es2"]) auto
    qed
  qed (use Cons.prems in simp)
qed simp

text \<open>A run without an error has a result for each attempt, and the results divide the events among them.\<close>

lemma run_complete:
  assumes "runAttempts exec polls as st = (st', None)"
  shows "\<exists>parts. list_all2 (\<lambda>a (r, es). accounts limits a r es \<and> frame r es) as parts
    \<and> xe_attempts st' = xe_attempts st @ map fst parts \<and> xe_events st' = xe_events st @ concat (map snd parts)"
  using assms
proof (induction as arbitrary: polls st)
  case (Cons a as)
  from Cons.prems obtain st1 r where run: "exec (polls 0) a st = (st1, Inr r)"
    and rest: "runAttempts exec (polls \<circ> Suc) as (st1\<lparr> xe_attempts := xe_attempts st1 @ [r] \<rparr>) = (st', None)"
    by (auto split: option.splits prod.splits sum.splits)
  from exec_ok [OF run] obtain es where one: "xe_events st1 = xe_events st @ es" "xe_attempts st1 = xe_attempts st"
    "accounts limits a r es" "frame r es" by (auto simp: attempt_ok_def)
  from Cons.IH [OF rest] obtain parts where "list_all2 (\<lambda>a (r, es). accounts limits a r es \<and> frame r es) as parts"
    "xe_attempts st' = xe_attempts st1 @ r # map fst parts" "xe_events st' = xe_events st1 @ concat (map snd parts)" by auto
  with one show ?case by (intro exI [of _ "(r, es) # parts"]) simp
qed simp

text \<open>The results that a run with an error leaves are those of its first attempts.\<close>

lemma run_partial:
  assumes "runAttempts exec polls as st = (st', err)"
  shows "\<exists>rs. xe_attempts st' = xe_attempts st @ rs \<and> map tr_AttemptID rs = map am_AttemptID (take (length rs) as)
    \<and> (err = None \<longleftrightarrow> length rs = length as)"
  using assms
proof (induction as arbitrary: polls st)
  case (Cons a as)
  show ?case
  proof (cases "\<exists>st1 r. runner_contextError (polls 0 0) ''run-timeout'' ''execute'' [] (am_AttemptID a) = None
      \<and> exec (polls 0) a st = (st1, Inr r)")
    case True
    then obtain st1 r where run: "runner_contextError (polls 0 0) ''run-timeout'' ''execute'' [] (am_AttemptID a) = None"
      "exec (polls 0) a st = (st1, Inr r)" by blast
    with Cons.prems have "runAttempts exec (polls \<circ> Suc) as (st1\<lparr> xe_attempts := xe_attempts st1 @ [r] \<rparr>) = (st', err)" by simp
    from Cons.IH [OF this] obtain rs where rs: "xe_attempts st' = xe_attempts st1 @ r # rs"
      "map tr_AttemptID rs = map am_AttemptID (take (length rs) as)" "err = None \<longleftrightarrow> length rs = length as" by auto
    have "tr_AttemptID r = am_AttemptID a" "xe_attempts st1 = xe_attempts st"
      using exec_ok [OF run(2)] by (auto simp: attempt_ok_def accounts_def)
    with rs show ?thesis by (intro exI [of _ "r # rs"]) simp
  next
    case False
    have "err \<noteq> None \<and> xe_attempts st' = xe_attempts st"
    proof (cases "runner_contextError (polls 0 0) ''run-timeout'' ''execute'' [] (am_AttemptID a)")
      case None
      obtain st1 res where run: "exec (polls 0) a st = (st1, res)" by fastforce
      with False None obtain e where "res = Inl e" by (cases res) auto
      with run None Cons.prems exec_ok [OF run] show ?thesis by (auto simp: attempt_ok_def)
    next
      case (Some e)
      with Cons.prems have "st = st'" "Some e = err" by simp_all
      then show ?thesis by blast
    qed
    then show ?thesis by (intro exI [of _ "[]"]) simp
  qed
qed simp

end

interpretation plain: attempt_executor "\<lambda>ps. executeAttempt sha snk limits ps backend" sha limits "\<lambda>_ _. True"
  by unfold_locales (rule executeAttempt_ok)

interpretation hooked: attempt_executor "\<lambda>ps. executeAttemptWithHooks sha snk limits hooks ps backend" sha limits framed
  by unfold_locales (rule executeAttemptWithHooks_ok)

section \<open>The attempts of a plan\<close>

lemma expandLoop_ok:
  assumes "expandLoop doc pd n ps = Inr as"
  shows "length as = length ps \<and> int (n + length ps) \<le> max (int n) runner_MaxAttempts
    \<and> (\<forall>i<length ps. as ! i = (case ps ! i of (revn, s, rep) \<Rightarrow> attemptRequest doc pd (n + Suc i) revn s rep))"
  using assms
proof (induction doc pd n ps arbitrary: as rule: expandLoop.induct)
  case (2 doc pd n revn s rep rest)
  from "2.prems" have n: "int (Suc n) \<le> runner_MaxAttempts" and len: "length (attemptID (rv_Kind revn) (sp_ID s) rep) \<le> MaxAttemptIDBytes"
    by (auto split: if_splits simp: Let_def)
  with "2.prems" obtain as' where as': "expandLoop doc pd (Suc n) rest = Inr as'" "as = attemptRequest doc pd (Suc n) revn s rep # as'"
    by (auto simp: Let_def result_simps)
  from "2.IH" [OF _ refl _ as'(1)] n len
  have IH: "length as' = length rest \<and> int (Suc n + length rest) \<le> max (int (Suc n)) runner_MaxAttempts
    \<and> (\<forall>i<length rest. as' ! i = (case rest ! i of (revn, s, rep) \<Rightarrow> attemptRequest doc pd (Suc n + Suc i) revn s rep))" by simp
  then show ?case using n as'(2) by (auto simp: nth_Cons' split: prod.splits)
qed simp

lemma plannedAttempts_rep: "(revn, s, rep) \<in> set (plannedAttempts doc) \<Longrightarrow> 1 \<le> rep \<and> rep \<le> int (length (plannedAttempts doc))"
proof -
  assume "(revn, s, rep) \<in> set (plannedAttempts doc)"
  then have in_plan: "revn \<in> set (rp_Revisions doc)" "s \<in> set (rp_Scenarios doc)" "1 \<le> rep" "rep \<le> sp_Repetitions s"
    by (auto simp: plannedAttempts_def)
  have one: "x \<in> set xs \<Longrightarrow> length (f x) \<le> length (concat (map f xs))" for f :: "'a \<Rightarrow> 'b list" and x xs
    by (induction xs) auto
  have "length [1..sp_Repetitions s] \<le> length (plannedAttempts doc)"
    using one [OF in_plan(2), of "\<lambda>scenario. map (\<lambda>rep. (revn, scenario, rep)) [1..sp_Repetitions scenario]"]
      one [OF in_plan(1), of "\<lambda>revision. concat (map (\<lambda>scenario. map (\<lambda>rep. (revision, scenario, rep)) [1..sp_Repetitions scenario]) (rp_Scenarios doc))"]
    by (simp add: plannedAttempts_def)
  with in_plan show ?thesis by simp
qed

lemma expanded:
  assumes "expandAttempts doc pd = Inr as"
  shows "validatePlanDocument doc = None" and "length as = length (plannedAttempts doc)" and "int (length as) \<le> runner_MaxAttempts"
    and "i < length as \<Longrightarrow> as ! i = (case plannedAttempts doc ! i of (revn, s, rep) \<Rightarrow> attemptRequest doc pd (Suc i) revn s rep)"
  using assms expandLoop_ok [of doc pd 0 "plannedAttempts doc" as] by (auto simp: expandAttempts_def result_simps)

text \<open>An attempt is identified by the text that normalization computes from its events.\<close>

lemma attempt_identity:
  assumes "expandAttempts doc pd = Inr as" and "a \<in> set as"
  obtains revn s rep where "(revn, s, rep) \<in> set (plannedAttempts doc)" "am_Revision a = rv_Kind revn" "am_ScenarioID a = sp_ID s"
    "am_Repetition a = nat rep" "am_AttemptID a = attemptID (rv_Kind revn) (sp_ID s) rep" "am_PlanDigest a = pd" "am_RunID a = rp_RunID doc"
proof -
  from assms(2) obtain i where i: "i < length as" "a = as ! i" by (auto simp: in_set_conv_nth)
  obtain revn s rep where p: "plannedAttempts doc ! i = (revn, s, rep)" by (cases "plannedAttempts doc ! i")
  have mem: "(revn, s, rep) \<in> set (plannedAttempts doc)" using i(1) p expanded(2) [OF assms(1)] by (metis nth_mem)
  have "rep mod 2 ^ 32 = rep" using plannedAttempts_rep [OF mem] expanded(2,3) [OF assms(1)] by simp
  with expanded(4) [OF assms(1) i(1)] p i(2) mem that show ?thesis by (simp add: attemptRequest_def Let_def)
qed

lemma event_attempt:
  assumes "expandAttempts doc pd = Inr as" and "a \<in> set as"
    and "ev_Revision e = am_Revision a" "ev_ScenarioID e = am_ScenarioID a" "ev_Repetition e = am_Repetition a"
  shows "attemptIDOf e = am_AttemptID a"
  by (rule attempt_identity [OF assms(1,2)]) (simp add: assms(3-5) attemptIDOf_def attemptID_def)

end
