(* ===== verification/Runner_Props.thy ===== *)
theory Runner_Props
  imports Runner_Facts Plan_Props
begin

text \<open>
  The properties of executions: which attempts a plan stands for, what the sink gets, what a result says, and which runners are
  allowed to run.
\<close>

section \<open>Attempt identifiers\<close>

lemma digits_suffix_inject:
  assumes "list_all digit_char x" "list_all digit_char y" and "s @ ''-r'' @ x = t @ ''-r'' @ y"
  shows "s = t \<and> x = y"
proof -
  have nodigit: "\<not> digit_char (CHR ''r'')" by (simp add: digit_char_def less_eq_char_def)
  have "takeWhile digit_char (rev (s @ ''-r'' @ x)) = rev x" if "list_all digit_char x" for s x
    using that nodigit takeWhile_append2 [of "rev x" digit_char "CHR ''r'' # CHR ''-'' # rev s"] by (simp add: list_all_iff)
  from this [OF assms(1), of s] this [OF assms(2), of t] assms(3) show ?thesis by (metis append_same_eq rev_is_rev_conv)
qed

lemma attemptID_inject:
  assumes "attemptID k s r = attemptID k' s' r'" and "k \<in> {RevisionKindBase, RevisionKindHead}" and "k' \<in> {RevisionKindBase, RevisionKindHead}"
    and "0 \<le> r" "0 \<le> r'"
  shows "k = k' \<and> s = s' \<and> r = r'"
proof -
  have "k = k' \<and> s @ ''-r'' @ itoa (nat r) = s' @ ''-r'' @ itoa (nat r')" using assms(1-3) by (auto simp: attemptID_def)
  with digits_suffix_inject [OF itoa_digits itoa_digits] assms(4,5) show ?thesis by (metis itoa_inject nat_eq_iff2 int_nat_eq)
qed

definition scenarioIDs :: "string \<Rightarrow> ScenarioPlan list \<Rightarrow> string list" where
  "scenarioIDs k ss = concat (map (\<lambda>s. map (\<lambda>rep. attemptID k (sp_ID s) rep) [1..sp_Repetitions s]) ss)"

lemma scenarioIDs_set: "i \<in> set (scenarioIDs k ss) \<Longrightarrow> \<exists>s\<in>set ss. \<exists>rep\<ge>1. i = attemptID k (sp_ID s) rep"
  unfolding scenarioIDs_def by auto blast

lemma scenarioIDs_distinct:
  assumes k: "k \<in> {RevisionKindBase, RevisionKindHead}"
  shows "distinct (map sp_ID ss) \<Longrightarrow> distinct (scenarioIDs k ss)"
proof (induction ss)
  case (Cons s ss)
  have "x = y" if "x \<in> {1..sp_Repetitions s}" "y \<in> {1..sp_Repetitions s}" "attemptID k (sp_ID s) x = attemptID k (sp_ID s) y" for x y
    using attemptID_inject [OF that(3) k k] that(1,2) by simp
  then have "inj_on (attemptID k (sp_ID s)) {1..sp_Repetitions s}" by (rule inj_onI)
  moreover have "attemptID k (sp_ID s) rep \<notin> set (scenarioIDs k ss)" if "1 \<le> rep" for rep
  proof
    assume "attemptID k (sp_ID s) rep \<in> set (scenarioIDs k ss)"
    then obtain s' rep' where s': "s' \<in> set ss" "1 \<le> rep'" "attemptID k (sp_ID s) rep = attemptID k (sp_ID s') rep'"
      using scenarioIDs_set by blast
    from attemptID_inject [OF s'(3) k k] that s'(2) have "sp_ID s = sp_ID s'" by simp
    with s'(1) Cons.prems show False by (auto intro: rev_image_eqI)
  qed
  moreover have "distinct (scenarioIDs k ss)" using Cons by simp
  moreover have "scenarioIDs k (s # ss) = map (attemptID k (sp_ID s)) [1..sp_Repetitions s] @ scenarioIDs k ss"
    by (simp add: scenarioIDs_def)
  ultimately show ?case by (auto simp: distinct_map)
qed (simp add: scenarioIDs_def)

lemma plan_revisions:
  assumes "validatePlanDocument doc = None"
  obtains b h where "rp_Revisions doc = [b, h]" "rv_Kind b = RevisionKindBase" "rv_Kind h = RevisionKindHead"
proof -
  have "map rv_Kind (rp_Revisions doc) = [RevisionKindBase, RevisionKindHead]"
    using assms by (auto simp: validatePlanDocument_def Let_def result_simps split: if_splits)
  with that show thesis by (auto simp: map_eq_Cons_conv)
qed

lemma plannedAttempts_ids:
  assumes "validatePlanDocument doc = None"
  shows "map (\<lambda>(revn, s, rep). attemptID (rv_Kind revn) (sp_ID s) rep) (plannedAttempts doc)
    = scenarioIDs RevisionKindBase (rp_Scenarios doc) @ scenarioIDs RevisionKindHead (rp_Scenarios doc)"
  by (rule plan_revisions [OF assms]) (simp add: plannedAttempts_def scenarioIDs_def map_concat comp_def)

lemma expanded_ids:
  assumes "expandAttempts doc pd = Inr as"
  shows "map am_AttemptID as = scenarioIDs RevisionKindBase (rp_Scenarios doc) @ scenarioIDs RevisionKindHead (rp_Scenarios doc)"
  unfolding plannedAttempts_ids [OF expanded(1) [OF assms], symmetric]
  by (rule nth_equalityI) (use expanded(2,4) [OF assms] in \<open>auto simp: attemptRequest_def Let_def split: prod.splits\<close>)

lemma expanded_distinct:
  assumes "expandAttempts doc pd = Inr as" and "distinct (map sp_ID (rp_Scenarios doc))"
  shows "distinct (map am_AttemptID as)"
proof -
  have "set (scenarioIDs RevisionKindBase (rp_Scenarios doc)) \<inter> set (scenarioIDs RevisionKindHead (rp_Scenarios doc)) = {}"
    by (auto dest!: scenarioIDs_set simp: attemptID_def)
  then show ?thesis using scenarioIDs_distinct [OF _ assms(2)] by (simp add: expanded_ids [OF assms(1)])
qed

section \<open>Planned attempts\<close>

lemma validateScenarioPlans_ok:
  assumes "\<forall>s\<in>set ss. sp_ID s \<noteq> [] \<and> sp_Shell s \<noteq> [] \<and> sp_Run s \<noteq> [] \<and> sp_Repetitions s = r"
    and "1 \<le> r" "r \<le> 10" and "0 \<le> n" and "n + 2 * r * int (length ss) \<le> 1280"
  shows "validateScenarioPlans 2 n i ss = None"
  using assms
proof (induction ss arbitrary: n i)
  case (Cons s ss)
  have more: "0 \<le> 2 * r * int (length ss)" using Cons.prems(2) by simp
  have bound: "n + 2 * r \<le> 1280" using more Cons.prems(5) by (simp add: algebra_simps)
  then have "signed64 (r * 2) = 2 * r" "signed64 (n + 2 * r) = n + 2 * r" using Cons.prems(2-4) by (simp_all add: algebra_simps)
  moreover note more
  moreover have "n + 2 * r + 2 * r * int (length ss) \<le> 1280" using Cons.prems(5) by (simp add: algebra_simps)
  ultimately show ?case using bound Cons.prems Cons.IH [of "n + 2 * r" "Suc i"] by (auto simp: Let_def simp del: signed64_id)
qed simp

lemma expandLoop_succeeds:
  assumes "int (n + length ps) \<le> runner_MaxAttempts"
    and "\<forall>(revn, s, rep)\<in>set ps. length (attemptID (rv_Kind revn) (sp_ID s) rep) \<le> MaxAttemptIDBytes"
  shows "\<exists>as. expandLoop doc pd n ps = Inr as"
  using assms
proof (induction doc pd n ps rule: expandLoop.induct)
  case (2 doc pd n revn s rep rest)
  then have "\<exists>as. expandLoop doc pd (Suc n) rest = Inr as" by auto
  with 2 show ?case by (auto simp: Let_def)
qed simp

lemma plannedAttempts_length:
  assumes "rp_Revisions doc = [b, h]" and "\<forall>s\<in>set (rp_Scenarios doc). sp_Repetitions s = r"
  shows "length (plannedAttempts doc) = 2 * length (rp_Scenarios doc) * nat r"
proof -
  have "(\<Sum>s\<leftarrow>ss. length [1..sp_Repetitions s]) = length ss * nat r" if "\<forall>s\<in>set ss. sp_Repetitions s = r" for ss
    using that by (induction ss) (simp_all add: algebra_simps)
  from this [OF assms(2)] show ?thesis unfolding plannedAttempts_def assms(1)
    by (simp add: length_concat comp_def algebra_simps del: length_upto)
qed

lemma snapshot_provenance:
  assumes "validateSourceSnapshot s k = Inr s'"
  shows "sn_TreeID s \<noteq> [] \<and> formatOf s \<noteq> [] \<and> sn_MaterializedTreeDigest s \<noteq> [] \<and> sn_MaterializationManifestDigest s \<noteq> []"
  using assms by (auto simp: validateSourceSnapshot_def result_simps modelFormatAndWidth_Inr validateObjectID_def validateDigest_def
      formatOf_def split: prod.splits)

lemma expanded_ordinal:
  assumes "expandAttempts doc pd = Inr as" and "i < length as"
  shows "am_GlobalOrdinal (as ! i) = Suc i"
  using expanded(4) [OF assms] by (cases "plannedAttempts doc ! i") (simp add: attemptRequest_def Let_def)

lemma planned_coordinates:
  assumes "expandAttempts doc pd = Inr as"
  shows "map (\<lambda>a. (am_Revision a, am_ScenarioID a, int (am_Repetition a))) as
    = map (\<lambda>(revn, s, rep). (rv_Kind revn, sp_ID s, rep)) (plannedAttempts doc)"
proof (rule nth_equalityI)
  fix i
  assume "i < length (map (\<lambda>a. (am_Revision a, am_ScenarioID a, int (am_Repetition a))) as)"
  then have i: "i < length as" by simp
  obtain revn s rep where p: "plannedAttempts doc ! i = (revn, s, rep)" by (cases "plannedAttempts doc ! i")
  then have "(revn, s, rep) \<in> set (plannedAttempts doc)" using i expanded(2) [OF assms] by (metis nth_mem)
  from plannedAttempts_rep [OF this] have "0 \<le> rep" "rep mod 2 ^ 32 = rep" using expanded(2,3) [OF assms] by simp_all
  with expanded(4) [OF assms i] i p expanded(2) [OF assms]
  show "map (\<lambda>a. (am_Revision a, am_ScenarioID a, int (am_Repetition a))) as ! i
    = map (\<lambda>(revn, s, rep). (rv_Kind revn, sp_ID s, rep)) (plannedAttempts doc) ! i"
    by (simp add: attemptRequest_def Let_def)
qed (simp add: expanded(2) [OF assms])

lemma planned_parts:
  "rp_Revisions (plannedDocument req) =
     [plannedRevision (br_BaseSource req) (commitRefForPlan (tl_Base (br_Trusted req)) (br_BaseSource req))
        (map vs_ID (vp_Scenarios (tl_EffectivePipeline (br_Trusted req)))),
      plannedRevision (br_HeadSource req) (commitRefForPlan (tl_Head (br_Trusted req)) (br_HeadSource req))
        (map vs_ID (vp_Scenarios (tl_EffectivePipeline (br_Trusted req))))]"
  "\<exists>l n as. rp_Scenarios (plannedDocument req) = scenarioPlans (tl_EffectivePipeline (br_Trusted req)) l n as"
  "rp_SchemaVersion (plannedDocument req) = SchemaVersionRunPlanV1Alpha1" "rp_RunID (plannedDocument req) = br_RunID req"
  "rp_CreatedAt (plannedDocument req) = gt_nanos (br_CreatedAt req)" "rp_Runner (plannedDocument req) = zeroRunner"
  "map_option (\<lambda>e. (rpe_Image e, rpe_Workdir e)) (rp_ExecutionEnvironment (plannedDocument req))
     = Some (vp_Image (tl_EffectivePipeline (br_Trusted req)), vp_Workdir (tl_EffectivePipeline (br_Trusted req)))"
  by (auto simp: plannedDocument_def buildDocument_def Let_def)

lemma planned_scenarios:
  assumes "pipeline_ok p"
  shows "\<forall>s\<in>set (scenarioPlans p l n as). validateIdentifier (sp_ID s) \<and> sp_Shell s \<noteq> [] \<and> sp_Run s \<noteq> []
      \<and> sp_Repetitions s = vm_Repetitions (vp_Compare p)"
    and "map sp_ID (scenarioPlans p l n as) = map vs_ID (vp_Scenarios p)"
  using assms by (auto simp: scenarioPlans_def pipeline_ok_def list_all_iff scenario_ok_def isAllowedShell_def validateRun_def
      split: if_splits)

lemma planned_document_valid:
  assumes ok: "request_ok req" and p: "pipeline_ok (tl_EffectivePipeline (br_Trusted req))"
  shows "validatePlanDocument (plannedDocument req) = None"
proof -
  let ?p = "tl_EffectivePipeline (br_Trusted req)" and ?doc = "plannedDocument req"
  obtain l n as where sc: "rp_Scenarios ?doc = scenarioPlans ?p l n as" using planned_parts(2) by blast
  have src: "validateSourceSnapshot (br_BaseSource req) RevisionKindBase = Inr (br_BaseSource req)"
    "validateSourceSnapshot (br_HeadSource req) RevisionKindHead = Inr (br_HeadSource req)"
    using ok by (simp_all add: request_ok_def)
  note prov = snapshot_provenance [OF src(1)] snapshot_provenance [OF src(2)] snapshot_commit_nonempty [OF src(1)]
    snapshot_commit_nonempty [OF src(2)] validateSourceSnapshot_ok(2) [OF src(1)] validateSourceSnapshot_ok(2) [OF src(2)]
  have size: "vp_Scenarios ?p \<noteq> []" "length (vp_Scenarios ?p) \<le> 64" "1 \<le> vm_Repetitions (vp_Compare ?p)" "vm_Repetitions (vp_Compare ?p) \<le> 10"
    using p by (simp_all add: pipeline_ok_def between_def)
  have "2 * vm_Repetitions (vp_Compare ?p) * int (length (vp_Scenarios ?p)) \<le> 2 * 10 * 64"
    using size(2-4) by (intro mult_mono) simp_all
  then have scenarios: "validateScenarioPlans 2 0 0 (scenarioPlans ?p l n as) = None"
    using planned_scenarios(1) [OF p, of l n as] size
    by (intro validateScenarioPlans_ok [where r = "vm_Repetitions (vp_Compare ?p)"])
       (auto simp: validateIdentifier_def scenarioPlans_def)
  have image: "vp_Image ?p \<noteq> []" "vp_Workdir ?p \<noteq> []"
    using p by (auto simp: pipeline_ok_def validateImmutableImage_def validateAbsoluteLexicalPath_def has_prefix_def split: if_splits)
  have env: "\<not> (case rp_ExecutionEnvironment ?doc of None \<Rightarrow> True | Some e \<Rightarrow> rpe_Image e = [] \<or> rpe_Workdir e = [])"
    using planned_parts(7) [of req] image by (auto split: option.splits)
  have identity: "br_RunID req \<noteq> []" "gt_nanos (br_CreatedAt req) \<noteq> - 62135596800 * 10 ^ 9"
    using ok by (auto simp: request_ok_def validateRunID_def normalizeCreatedAt_def time_is_zero_def Let_def split: if_splits)
  have "scenarioPlans ?p l n as \<noteq> []" using size(1) by (simp add: scenarioPlans_def)
  then show ?thesis
    unfolding validatePlanDocument_def Let_def planned_parts(1,3-6) sc
    using env scenarios [unfolded numeral_2_eq_2] identity prov
    by (simp add: plannedRevision_def revisionPlan_def commitRefForPlan_def validateRevisionPlan_def)
qed

text \<open>
  C23. What planning builds from a loaded configuration can be run. When the pipeline was loaded from the base and the plan was built for
  it, the plan passes the checks of the runner and stands for exactly one attempt per revision, scenario and repetition, with the
  base first, numbered from one; no two attempts have the same identifier.
\<close>

theorem loaded_plan_runs:
  assumes "LoadTrusted sha load ctx (Some ReadFile) q = Inr (br_Trusted req)" and "Build sha marshal ctx' req = Inr fp"
  shows "\<exists>as. ExpandPlanAttempts (Some fp) = Inr as
    \<and> map (\<lambda>a. (am_Revision a, am_ScenarioID a, int (am_Repetition a))) as
      = map (\<lambda>(revn, s, rep). (rv_Kind revn, sp_ID s, rep)) (plannedAttempts (fp_doc fp))
    \<and> length as = 2 * length (rp_Scenarios (fp_doc fp)) * nat (vm_Repetitions (vp_Compare (tl_EffectivePipeline (br_Trusted req))))
    \<and> map am_GlobalOrdinal as = [1..<Suc (length as)] \<and> distinct (map am_AttemptID as)"
proof -
  let ?p = "tl_EffectivePipeline (br_Trusted req)" and ?doc = "fp_doc fp"
  let ?r = "vm_Repetitions (vp_Compare ?p)"
  have p: "pipeline_ok ?p" using LoadTrusted_ok [OF assms(1)] ParseAndValidate_ok by metis
  note ok = Build_ok [OF assms(2)]
  have valid: "validatePlanDocument ?doc = None" unfolding ok(2) by (rule planned_document_valid [OF ok(1) p])
  obtain l n as0 where sc: "rp_Scenarios ?doc = scenarioPlans ?p l n as0" unfolding ok(2) using planned_parts(2) by blast
  obtain b h where revs: "rp_Revisions ?doc = [b, h]" "rv_Kind b = RevisionKindBase" "rv_Kind h = RevisionKindHead"
    using plan_revisions [OF valid] by blast
  have r: "1 \<le> ?r" "?r \<le> 10" "length (rp_Scenarios ?doc) \<le> 64"
    using p sc by (simp_all add: pipeline_ok_def between_def scenarioPlans_def)
  have len: "length (plannedAttempts ?doc) = 2 * length (rp_Scenarios ?doc) * nat ?r"
    using plannedAttempts_length [OF revs(1)] planned_scenarios(1) [OF p] sc by simp
  have "2 * length (rp_Scenarios ?doc) * nat ?r \<le> 2 * 64 * 10" using r by (intro mult_mono) simp_all
  then have "length (plannedAttempts ?doc) \<le> 1280" unfolding len by simp
  then have bound: "int (0 + length (plannedAttempts ?doc)) \<le> runner_MaxAttempts" by linarith
  have "length (itoa (nat rep)) \<le> 2" if "1 \<le> rep" "rep \<le> 10" for rep :: int
  proof -
    have "list_all (\<lambda>rep. length (itoa (nat rep)) \<le> 2) [1..10]" by code_simp
    with that show ?thesis by (simp add: list_all_iff)
  qed
  then have "\<forall>(revn, s, rep)\<in>set (plannedAttempts ?doc). length (attemptID (rv_Kind revn) (sp_ID s) rep) \<le> MaxAttemptIDBytes"
    using planned_scenarios(1) [OF p, of l n as0] r revs
    by (fastforce simp: plannedAttempts_def sc attemptID_def validateIdentifier_def)
  from expandLoop_succeeds [OF bound this] valid obtain as where as: "expandAttempts ?doc (fp_digest fp) = Inr as"
    by (auto simp: expandAttempts_def)
  have "distinct (map am_AttemptID as)"
    using expanded_distinct [OF as] planned_scenarios(2) [OF p] sc p by (simp add: pipeline_ok_def)
  moreover have "map am_GlobalOrdinal as = [1..<Suc (length as)]"
    by (rule nth_equalityI) (simp_all add: expanded_ordinal [OF as] del: upt_Suc)
  moreover have "map (\<lambda>a. (am_Revision a, am_ScenarioID a, int (am_Repetition a))) as
      = map (\<lambda>(revn, s, rep). (rv_Kind revn, sp_ID s, rep)) (plannedAttempts ?doc)"
    by (rule planned_coordinates [OF as])
  ultimately show ?thesis using as valid expanded(2) [OF as] len by (auto simp: ExpandPlanAttempts_def)
qed

theorem loaded_plan_runs_witness:
  "\<exists>as. ExpandPlanAttempts (Some \<lparr>fp_doc = plannedDocument planRequest, fp_json = [], fp_digest = DigestRunPlanJSON constSha []\<rparr>) = Inr as
    \<and> distinct (map am_AttemptID as)"
proof -
  have "br_Trusted planRequest = planTrusted constSha" by (simp add: planRequest_def)
  with plan_loaded [of constSha] have "LoadTrusted constSha demoLoad live (Some demoBoth) planLoad = Inr (br_Trusted planRequest)" by simp
  from loaded_plan_runs [OF this plan_built] show ?thesis by auto
qed

section \<open>Executions\<close>

lemma prepared:
  assumes "prepareExecution plan backend req limits = Inr (caps, as)"
  shows "expandAttempts (fp_doc plan) (fp_digest plan) = Inr as" and "MatchCapabilities req caps = Inr []"
    and "bk_Capabilities backend = Some caps"
proof -
  obtain as' where as': "expandAttempts (fp_doc plan) (fp_digest plan) = Inr as'"
    using assms by (cases "expandAttempts (fp_doc plan) (fp_digest plan)") (simp_all add: prepareExecution_def result_simps)
  obtain caps' where caps': "bk_Capabilities backend = Some caps'"
    using assms by (cases "bk_Capabilities backend") (simp_all add: prepareExecution_def result_simps as' split: if_splits)
  obtain ms where ms: "MatchCapabilities req caps' = Inr ms"
    using assms by (cases "MatchCapabilities req caps'")
      (simp_all add: prepareExecution_def result_simps as' caps' split: if_splits)
  have "ms = [] \<and> caps = caps' \<and> as = as'"
    using assms by (cases ms) (simp_all add: prepareExecution_def result_simps as' caps' ms split: if_splits)
  with as' ms caps' show "expandAttempts (fp_doc plan) (fp_digest plan) = Inr as" "MatchCapabilities req caps = Inr []"
    "bk_Capabilities backend = Some caps" by simp_all
qed

lemma withInputs_cases:
  assumes "withInputs poll (Some plan) (Some backend) (Some snk) run = (res, events, err)"
  obtains (rejected) e where "res = emptyExecution" "events = []" "err = Some e"
  | (run) "run plan backend snk = (res, events, err)"
proof (cases "runner_contextError poll ''context-cancelled'' ''execute'' [] ''context''")
  case None
  with assms show thesis by (intro run) (simp add: withInputs_def)
next
  case (Some e)
  with assms show thesis by (intro rejected [of e]) (simp_all add: withInputs_def)
qed

lemma executeWith_cases:
  assumes "executeWith exec polls plan backend req limits = (res, events, err)"
  obtains (rejected) e where "res = emptyExecution" "events = []" "err = Some e"
  | (run) caps as st where "prepareExecution plan backend req limits = Inr (caps, as)"
      "runAttempts exec polls as startState = (st, err)" "events = xe_events st"
      "res = \<lparr> xt_PlanDigest = fp_digest plan, xt_Runner = caps, xt_Complete = (err = None), xt_Attempts = xe_attempts st,
         xt_TotalEmittedEvents = xe_seq st, xt_Limitations = syntheticLimitations caps \<rparr>"
  using assms by (auto simp: executeWith_def split: sum.splits prod.splits)

text \<open>Both ways to execute a plan, as what a caller may get from them.\<close>

lemma execution_delivers:
  assumes "(res, events, err) \<in> {ExecutePlan sha (Some snk) poll polls (Some plan) (Some backend) req limits,
      ExecutePlanWithHooks sha (Some snk) hooks poll polls (Some plan) (Some backend) req limits}"
  obtains (rejected) e where "res = emptyExecution" "events = []" "err = Some e"
  | (run) caps as where "prepareExecution plan backend req limits = Inr (caps, as)" "xt_Runner res = caps"
      "xt_Complete res \<longleftrightarrow> err = None" "xt_TotalEmittedEvents res = length events" "xt_Limitations res = syntheticLimitations caps"
      "int (length events) \<le> max 0 (ul_MaxEventsPerExecution limits)"
      "\<forall>i<length events. \<exists>a\<in>set as. event_of sha a (Suc i) (events ! i)"
proof -
  have start: "xe_seq startState = 0" "xe_events startState = []" by (simp_all add: startState_def)
  from assms consider (nothing) e where "res = emptyExecution" "events = []" "err = Some e"
    | (plain) "executeWith (\<lambda>ps. executeAttempt sha snk limits ps backend) polls plan backend req limits = (res, events, err)"
    | (hooked) "executeWith (\<lambda>ps. executeAttemptWithHooks sha snk limits hooks ps backend) polls plan backend req limits = (res, events, err)"
    unfolding ExecutePlan_def ExecutePlanWithHooks_def by (auto elim: withInputs_cases dest!: sym [of "(res, events, err)"])
  then show thesis
  proof cases
    case plain
    then show thesis
    proof (cases rule: executeWith_cases)
      case (run caps as st)
      from plain.run_delivers [OF run(2)] run that(2) start show thesis by simp
    qed (rule that(1))
  next
    case hooked
    then show thesis
    proof (cases rule: executeWith_cases)
      case (run caps as st)
      from hooked.run_delivers [OF run(2)] run that(2) start show thesis by simp
    qed (rule that(1))
  qed (rule that(1))
qed

text \<open>
  C20. What the sink gets can be trusted. Whatever backend and hooks do, and wherever the execution stops, the events that the sink has
  accepted are numbered from one without a gap, each has the identifier of its number under this plan, belongs to an
  attempt that the plan stands for, comes from a known source and carries the one payload its kind asks for; the
  result counts exactly these events, their number is within the limit, and a result is marked complete only when there was no error.
\<close>

theorem execution_events_sound:
  assumes "(res, events, err) \<in> {ExecutePlan sha (Some snk) poll polls (Some plan) (Some backend) req limits,
      ExecutePlanWithHooks sha (Some snk) hooks poll polls (Some plan) (Some backend) req limits}"
  shows "xt_TotalEmittedEvents res = length events \<and> (xt_Complete res \<longleftrightarrow> err = None)
    \<and> int (length events) \<le> max 0 (ul_MaxEventsPerExecution limits)
    \<and> (\<forall>i<length events. ev_SequenceNumber (events ! i) = int (Suc i)
         \<and> ev_ID (events ! i) = eventID sha (fp_digest plan) (rp_RunID (fp_doc plan)) (Suc i)
         \<and> validateSource (ev_Source (events ! i)) = None \<and> validateKindPayload (events ! i) = None
         \<and> (\<exists>as. ExpandPlanAttempts (Some plan) = Inr as \<and> attemptIDOf (events ! i) \<in> am_AttemptID ` set as))"
  using assms
proof (cases rule: execution_delivers)
  case (run caps as)
  note as = prepared(1) [OF run(1)]
  have "ExpandPlanAttempts (Some plan) = Inr as" using as expanded(1) [OF as] by (simp add: ExpandPlanAttempts_def)
  moreover have "ev_SequenceNumber e = int n \<and> ev_ID e = eventID sha (fp_digest plan) (rp_RunID (fp_doc plan)) n
      \<and> validateSource (ev_Source e) = None \<and> validateKindPayload e = None \<and> attemptIDOf e \<in> am_AttemptID ` set as"
    if "a \<in> set as" "event_of sha a n e" for a n e
    using that event_attempt [OF as that(1), of e] by (auto simp: event_of_def intro: attempt_identity [OF as that(1)])
  ultimately show ?thesis using run(3,4,6,7) by meson
qed (simp add: emptyExecution_def)

lemma list_all2_member: "list_all2 P xs ys \<Longrightarrow> y \<in> set ys \<Longrightarrow> \<exists>x\<in>set xs. P x y"
  by (induction rule: list_all2_induct) auto

text \<open>The events of one key in a list of parts that each have a key of their own.\<close>

lemma filter_part:
  assumes "distinct (map f parts)" and "\<forall>p\<in>set parts. \<forall>e\<in>set (snd p). g e = f p" and "p \<in> set parts"
  shows "filter (\<lambda>e. g e = f p) (concat (map snd parts)) = snd p"
  using assms
proof (induction parts)
  case (Cons q parts)
  show ?case
  proof (cases "p = q")
    case True
    have "g e \<noteq> f q" if "x \<in> set parts" "e \<in> set (snd x)" for x e
    proof -
      have "g e = f x" using Cons.prems(2) that by simp
      moreover have "f x \<in> f ` set parts" "f q \<notin> f ` set parts" using that(1) Cons.prems(1) by simp_all
      ultimately show ?thesis by auto
    qed
    then have "filter (\<lambda>e. g e = f q) (concat (map snd parts)) = []" by (auto simp: filter_empty_conv)
    moreover have "filter (\<lambda>e. g e = f q) (snd q) = snd q" using Cons.prems(2) by simp
    ultimately show ?thesis using True by simp
  next
    case False
    with Cons.prems(3) have "f p \<in> f ` set parts" by auto
    with Cons.prems(1) have "f p \<noteq> f q" by auto
    with Cons.prems(2) have "filter (\<lambda>e. g e = f p) (snd q) = []" by (auto simp: filter_empty_conv)
    with False Cons show ?thesis by simp
  qed
qed simp

text \<open>
  C21. A complete execution accounts for everything: its results are those of the planned attempts, in order; the events divide among
  the attempts in this order; and each result names the number, the first and the last of the events delivered under its identity, of which
  the first says that the scenario started and the last that it completed, with the status of its outcome.
\<close>

theorem complete_execution_accounts:
  assumes "ExecutePlanWithHooks sha (Some snk) hooks poll polls (Some plan) (Some backend) req limits = (res, events, None)"
    and "distinct (map sp_ID (rp_Scenarios (fp_doc plan)))"
  shows "\<exists>as. ExpandPlanAttempts (Some plan) = Inr as \<and> map tr_AttemptID (xt_Attempts res) = map am_AttemptID as
    \<and> events = concat (map (\<lambda>r. filter (\<lambda>e. attemptIDOf e = tr_AttemptID r) events) (xt_Attempts res))
    \<and> (\<forall>r\<in>set (xt_Attempts res). let es = filter (\<lambda>e. attemptIDOf e = tr_AttemptID r) events in
         tr_AcceptedEventCount r = length es \<and> framed r es
         \<and> int (tr_FirstAcceptedSequence r) = ev_SequenceNumber (hd es) \<and> int (tr_LastAcceptedSequence r) = ev_SequenceNumber (last es))"
proof -
  from assms(1) obtain caps as st where run: "prepareExecution plan backend req limits = Inr (caps, as)"
    "runAttempts (\<lambda>ps. executeAttemptWithHooks sha snk limits hooks ps backend) polls as startState = (st, None)"
    "events = xe_events st" "xt_Attempts res = xe_attempts st"
    unfolding ExecutePlanWithHooks_def by (cases rule: withInputs_cases, simp) (erule executeWith_cases, auto)
  note as = prepared(1) [OF run(1)]
  from hooked.run_complete [OF run(2)] obtain parts where parts:
    "list_all2 (\<lambda>a (r, es). accounts limits a r es \<and> framed r es) as parts"
    "xt_Attempts res = map fst parts" "events = concat (map snd parts)" using run(3,4) by (auto simp: startState_def)
  have ids: "map tr_AttemptID (xt_Attempts res) = map am_AttemptID as"
    unfolding parts(2) using parts(1) by (induction rule: list_all2_induct) (auto simp: accounts_def)
  have all: "\<exists>a. accounts limits a (fst p) (snd p) \<and> framed (fst p) (snd p) \<and> (\<forall>e\<in>set (snd p). attemptIDOf e = tr_AttemptID (fst p))"
    if "p \<in> set parts" for p
  proof -
    from list_all2_member [OF parts(1) that] obtain a where a: "a \<in> set as" "accounts limits a (fst p) (snd p)" "framed (fst p) (snd p)"
      by (auto simp: case_prod_beta)
    have "attemptIDOf e = tr_AttemptID (fst p)" if "e \<in> set (snd p)" for e
      using event_attempt [OF as a(1), of e] a(2) that by (simp add: accounts_def)
    with a show ?thesis by blast
  qed
  have dist: "distinct (map (\<lambda>p. tr_AttemptID (fst p)) parts)"
    using expanded_distinct [OF as assms(2)] ids by (simp add: parts(2) comp_def)
  have own: "filter (\<lambda>e. attemptIDOf e = tr_AttemptID (fst p)) events = snd p" if "p \<in> set parts" for p
    unfolding parts(3) using filter_part [OF dist _ that] all by blast
  have "map (\<lambda>r. filter (\<lambda>e. attemptIDOf e = tr_AttemptID r) events) (xt_Attempts res) = map snd parts"
    using own by (simp add: parts(2))
  then have divided: "events = concat (map (\<lambda>r. filter (\<lambda>e. attemptIDOf e = tr_AttemptID r) events) (xt_Attempts res))"
    using parts(3) by (rule ssubst [of _ _ "\<lambda>x. events = concat x"])
  have "let es = filter (\<lambda>e. attemptIDOf e = tr_AttemptID r) events in tr_AcceptedEventCount r = length es \<and> framed r es
      \<and> int (tr_FirstAcceptedSequence r) = ev_SequenceNumber (hd es) \<and> int (tr_LastAcceptedSequence r) = ev_SequenceNumber (last es)"
    if r: "r \<in> set (xt_Attempts res)" for r
  proof -
    from r obtain p where p: "p \<in> set parts" "r = fst p" by (auto simp: parts(2))
    from all [OF p(1)] show ?thesis unfolding p(2) own [OF p(1)] Let_def by (auto simp: accounts_def framed_def)
  qed
  moreover have "ExpandPlanAttempts (Some plan) = Inr as" using as expanded(1) [OF as] by (simp add: ExpandPlanAttempts_def)
  ultimately show ?thesis using ids divided by blast
qed


definition demoOutcome :: AttemptOutcome where
  "demoOutcome = \<lparr> oc_Status = AttemptStatusSucceeded, oc_ExitCode = Some 0, oc_DurationMillis = 5, oc_Limitations = [] \<rparr>"

definition demoCaps :: RunnerCapabilities where
  "demoCaps = zeroRunner\<lparr> rc_Name := ''sandbox'', rc_Version := ''1'', rc_IsolationTier := IsolationTierMicroVM,
     rc_ExecutesTargetCode := True, rc_EnforcesNetworkDeny := True \<rparr>"

text \<open>The backend tries to report an event of a kind that does not match its payload, and goes on when it is refused.\<close>

definition demoBackend :: Backend where
  "demoBackend = \<lparr> bk_Capabilities = Some demoCaps, bk_ValidatePlan = None,
     bk_RunAttempt = (\<lambda>a. EmitDraft None (scenarioDraft ''process-start'' ''running'' 0 0) (\<lambda>_. Return demoOutcome)) \<rparr>"

definition demoSink :: EventSink where
  "demoSink = \<lparr> sk_size = (\<lambda>_. Some 500), sk_accepts = (\<lambda>_ _. True) \<rparr>"

definition demoFrozen :: FrozenPlan where
  "demoFrozen = \<lparr> fp_doc = plannedDocument planRequest, fp_json = [], fp_digest = DigestRunPlanJSON constSha [] \<rparr>"

definition demoRun :: "ExecutionResult \<times> ObservationEvent list \<times> go_error option" where
  "demoRun = ExecutePlanWithHooks constSha (Some demoSink) None None (\<lambda>_ _. None) (Some demoFrozen) (Some demoBackend)
     (WorkloadRequirements [IsolationTierMicroVM]) runner_DefaultLimits"

text \<open>Three repetitions of one scenario on two revisions; the draft that the backend emits is refused each time.\<close>

lemma demo_execution: "snd (snd demoRun) = None \<and> length (fst (snd demoRun)) = 12 \<and> distinct (map sp_ID (rp_Scenarios (fp_doc demoFrozen)))"
  by code_simp

lemma demo_ran: "demoRun = (fst demoRun, fst (snd demoRun), None)"
  by (rule prod_eqI, simp, rule prod_eqI) (simp_all add: demo_execution)

lemma demo_ways:
  "(fst demoRun, fst (snd demoRun), None) \<in> {ExecutePlan constSha (Some demoSink) None (\<lambda>_ _. None) (Some demoFrozen) (Some demoBackend)
     (WorkloadRequirements [IsolationTierMicroVM]) runner_DefaultLimits,
     ExecutePlanWithHooks constSha (Some demoSink) None None (\<lambda>_ _. None) (Some demoFrozen) (Some demoBackend)
     (WorkloadRequirements [IsolationTierMicroVM]) runner_DefaultLimits}"
  unfolding demo_ran [symmetric] by (simp add: demoRun_def)

theorem execution_events_sound_witness:
  "ev_SequenceNumber (fst (snd demoRun) ! 11) = 12 \<and> xt_Complete (fst demoRun)"
  using execution_events_sound [OF demo_ways] demo_execution by simp

theorem complete_execution_accounts_witness:
  "map tr_AttemptID (xt_Attempts (fst demoRun)) = scenarioIDs RevisionKindBase (rp_Scenarios (fp_doc demoFrozen))
     @ scenarioIDs RevisionKindHead (rp_Scenarios (fp_doc demoFrozen))"
proof -
  from complete_execution_accounts [OF demo_ran [unfolded demoRun_def], folded demoRun_def] demo_execution obtain as where
    as: "ExpandPlanAttempts (Some demoFrozen) = Inr as" "map tr_AttemptID (xt_Attempts (fst demoRun)) = map am_AttemptID as" by blast
  from as(1) have "expandAttempts (fp_doc demoFrozen) (fp_digest demoFrozen) = Inr as"
    by (auto simp: ExpandPlanAttempts_def result_simps)
  from expanded_ids [OF this] as(2) show ?thesis by simp
qed

section \<open>Runners\<close>

lemma mismatchIf_Nil: "mismatchIf c code x y = [] \<longleftrightarrow> \<not> c"
  by (simp add: mismatchIf_def)

lemma capable:
  assumes "MatchCapabilities req caps = Inr []"
  shows "capabilityMismatches req caps = []" and "validateRequirements req = None" and "ValidateRunnerCapabilities caps = None"
  using assms by (auto simp: MatchCapabilities_def result_simps)

text \<open>
  C22. Only a runner that the caller has asked for gets to run. When an execution delivers an event, finishes an attempt or ends
  without an error, the runner of its result is the one that the backend declares; target code is executed exactly when the
  intent is a workload, and then the evidence is not synthetic and the isolation is not the fake one; the tier
  is one of those allowed; each feature the requirements ask for is there (network denial, a brokered network, process,
  filesystem and system call events, artifact hashing, snapshots, a fresh kernel; target execution is asked for exactly by workloads);
  and the result says that its evidence is synthetic exactly when it is.
\<close>

theorem only_capable_runners_run:
  assumes "(res, events, err) \<in> {ExecutePlan sha (Some snk) poll polls (Some plan) (Some backend) req limits,
      ExecutePlanWithHooks sha (Some snk) hooks poll polls (Some plan) (Some backend) req limits}"
    and "events \<noteq> [] \<or> xt_Attempts res \<noteq> [] \<or> err = None"
  shows "bk_Capabilities backend = Some (xt_Runner res)
    \<and> (rc_ExecutesTargetCode (xt_Runner res) \<longleftrightarrow> nd_Intent req = ExecutionIntentWorkload)
    \<and> (rc_SyntheticEvidence (xt_Runner res) \<longleftrightarrow> nd_Intent req = ExecutionIntentSyntheticTest)
    \<and> rc_IsolationTier (xt_Runner res) \<in> set (nd_AllowedIsolationTiers req)
    \<and> (rc_IsolationTier (xt_Runner res) = IsolationTierFake \<longrightarrow> nd_Intent req = ExecutionIntentSyntheticTest)
    \<and> (nd_NetworkDenyEnforcementRequired req \<longrightarrow> rc_EnforcesNetworkDeny (xt_Runner res))
    \<and> (nd_BrokeredNetworkRequired req \<longrightarrow> rc_BrokeredNetwork (xt_Runner res))
    \<and> (nd_ProcessEventsRequired req \<longrightarrow> rc_ProcessEventCollection (xt_Runner res))
    \<and> (nd_FilesystemEventsRequired req \<longrightarrow> rc_FilesystemEventCollection (xt_Runner res))
    \<and> (nd_SyscallEventsRequired req \<longrightarrow> rc_SyscallEventCollection (xt_Runner res))
    \<and> (nd_ArtifactHashingRequired req \<longrightarrow> rc_ArtifactHashing (xt_Runner res))
    \<and> (nd_SnapshotSupportRequired req \<longrightarrow> rc_SnapshotSupport (xt_Runner res))
    \<and> (nd_FreshKernelRequired req \<longrightarrow> rc_FreshKernel (xt_Runner res))
    \<and> (nd_TargetExecutionRequired req \<longleftrightarrow> nd_Intent req = ExecutionIntentWorkload)
    \<and> (xt_Limitations res = [] \<longleftrightarrow> nd_Intent req = ExecutionIntentWorkload)"
  using assms(1)
proof (cases rule: execution_delivers)
  case (rejected e)
  with assms(2) show ?thesis by (simp add: emptyExecution_def)
next
  case (run caps as)
  note match = capable [OF prepared(2) [OF run(1)]]
  have none: "nd_Intent req = ExecutionIntentWorkload \<Longrightarrow> rc_ExecutesTargetCode caps \<and> \<not> rc_SyntheticEvidence caps"
    "nd_Intent req = ExecutionIntentSyntheticTest \<Longrightarrow> \<not> rc_ExecutesTargetCode caps \<and> rc_SyntheticEvidence caps"
    "rc_IsolationTier caps \<in> set (nd_AllowedIsolationTiers req)"
    "nd_NetworkDenyEnforcementRequired req \<Longrightarrow> rc_EnforcesNetworkDeny caps"
    "nd_BrokeredNetworkRequired req \<Longrightarrow> rc_BrokeredNetwork caps" "nd_ProcessEventsRequired req \<Longrightarrow> rc_ProcessEventCollection caps"
    "nd_FilesystemEventsRequired req \<Longrightarrow> rc_FilesystemEventCollection caps"
    "nd_SyscallEventsRequired req \<Longrightarrow> rc_SyscallEventCollection caps" "nd_ArtifactHashingRequired req \<Longrightarrow> rc_ArtifactHashing caps"
    "nd_SnapshotSupportRequired req \<Longrightarrow> rc_SnapshotSupport caps" "nd_FreshKernelRequired req \<Longrightarrow> rc_FreshKernel caps"
    using match(1) by (auto simp: capabilityMismatches_def Let_def mismatchIf_Nil tierAllowed_def list_ex_iff)
  have intent: "nd_Intent req = ExecutionIntentWorkload \<or> nd_Intent req = ExecutionIntentSyntheticTest"
    using match(2) by (auto simp: validateRequirements_def Let_def split: if_splits)
  have target: "nd_TargetExecutionRequired req \<longleftrightarrow> nd_Intent req = ExecutionIntentWorkload"
    using match(2) by (auto simp: validateRequirements_def Let_def result_simps split: if_splits)
  have fake: "rc_IsolationTier caps = IsolationTierFake \<longrightarrow> rc_SyntheticEvidence caps"
    using match(3) by (auto simp: ValidateRunnerCapabilities_def Let_def split: if_splits)
  have limited: "xt_Limitations res = [] \<longleftrightarrow> \<not> rc_SyntheticEvidence caps" using run(5) by (simp add: syntheticLimitations_def)
  from intent show ?thesis unfolding run(2) limited using none fake target prepared(3) [OF run(1)] by auto
qed

theorem only_capable_runners_run_witness:
  "rc_EnforcesNetworkDeny (xt_Runner (fst demoRun)) \<and> xt_Limitations (fst demoRun) = []"
  using only_capable_runners_run [OF demo_ways] by (simp add: WorkloadRequirements_def)

end
