(* ===== verification/Spec2Isabelle.thy ===== *)
theory Spec2Isabelle
  imports Sha256 Observe_Props Compare_Props Policy_Props Pipeline Config_Props Waiver_Props Plan_Props Application_Props Controller_Props GithubApp_Props Report_Props Outbox_Props Runner_Props
begin

text \<open>
  Glassroot compares what a program does at two revisions and reports what changed. It has two halves.

  The analysis: a trusted configuration of the base revision is planned into attempts; the attempts leave
  evidence bundles with observation events; the events are normalized into facts; the facts of both
  sides are compared into a behavioral delta; a policy turns the delta into findings; waivers of the base
  revision are applied to them; and the result is built into a report that is rendered for terminals and as
  Markdown. The GitHub App: a receiver verifies webhooks and records them in an inbox; controllers claim the
  records of its outbox, read pull requests and keep the state of pull requests, jobs, attempts and source imports
  in a store of their own; workers claim source imports from that store.

  \<^bold>\<open>Conventions.\<close> A Go struct is a record with a field per field, a set of string constants is a set of
  abbreviations, a string is a list of bytes, an error is a value of the sum type \<open>result\<close> with code, stage and
  fields (messages are dropped), a Go integer is an \<open>int\<close> or \<open>nat\<close> with the wrap-around of \<open>int64\<close> written out where values can
  reach it. A context is a function from the number of polls to its error. A database operation is a function from tables to new tables
  or an error, which leaves the tables as they were. What the program calls and does not contain is an
  argument: the hash (\<open>sha\<close>, with \<open>sha256_hex\<close> of \<open>Sha256\<close> as the instance that the program uses), \<open>json.Marshal\<close> and \<open>Unmarshal\<close>, the
  YAML parser, the reading of files of a revision, the backend and the hooks of an execution, \<open>mime.ParseMediaType\<close>, the credential broker, and the reader of pull requests. A property that
  needs the hash to tell texts apart asks for it on the finitely many texts that are hashed in its situation. An instant is an \<open>int\<close> of nanoseconds;
  \<open>unixNano\<close> is its \<open>int64\<close> with the wrap-around.

  \<^bold>\<open>Theories.\<close>
  \<^item> \<open>Prelude\<close>, \<open>GoText\<close>, \<open>GoTime\<close>, \<open>Encoding\<close>, \<open>Sha256\<close>: the parts of Go and its library that the program uses; errors,
    loops, stable sorting (the locales \<open>strict_weak_order\<close> and \<open>keyed_order\<close>), runes and white space, civil time, the byte encodings under the digests
    (\<open>prefix_code\<close>), the hash (\<open>hex_digest\<close>).
  \<^item> \<open>Model\<close>: the wire structures of \<open>src/internal/model\<close>.
  \<^item> \<open>Observe\<close> (\<open>src/internal/observe\<close>), with \<open>Observe_Digest\<close>, \<open>Observe_Facts\<close>, \<open>Observe_Props\<close>: from events to facts; paths, process
    identities, timing, semantic digests. Facts do not depend on process ids and clock origins, identities are given out once, the bytes under a digest
    determine the fact (\<open>viewed_code\<close>).
  \<^item> \<open>Compare\<close> (\<open>src/internal/compare\<close>), with \<open>Compare_Valid\<close>, \<open>Compare_Match\<close>, \<open>Compare_Scenario\<close>, \<open>Compare_Document\<close>, \<open>Compare_Facts\<close>, \<open>Compare_Props\<close>: the delta of two
    sides; every fact is accounted for once, and what was not observed is not reported as absent.
  \<^item> \<open>Policy\<close> (\<open>src/internal/policy\<close>, rules and evaluator), \<open>Policy_Facts\<close>, \<open>Policy_Props\<close>, and \<open>Pipeline\<close>, which composes comparison and evaluation: findings and the
    overall disposition.
  \<^item> \<open>Yaml\<close>, \<open>Config\<close>, \<open>Config_Validate\<close>, \<open>Config_Change\<close>, \<open>Config_Trusted\<close> (\<open>src/internal/config\<close>), with \<open>Config_Facts\<close>, \<open>Config_Change_Facts\<close>, \<open>Config_Props\<close>: parsing,
    validation and difference of pipelines (\<open>keyed_diff\<close>); what a run uses comes from the base.
  \<^item> \<open>Waiver\<close>, \<open>Waiver_Facts\<close>, \<open>Waiver_Props\<close> (\<open>src/internal/waiver\<close>) and \<open>Application\<close>, \<open>Application_Facts\<close>, \<open>Application_Props\<close>
    (\<open>src/internal/policy/application.go\<close>): waiver files and their application; only waivers of the base in force lift a finding.
  \<^item> \<open>Plan\<close>, \<open>Plan_Props\<close> (\<open>src/internal/pipeline\<close>): the run plan.
  \<^item> \<open>Runner\<close>, \<open>Runner_Facts\<close>, \<open>Runner_Props\<close> (\<open>src/internal/runner\<close>): the attempts of a plan, the match of requirements and capabilities, and the execution
    of a plan against a backend, which is any program that emits event drafts. Both ways to execute an attempt keep one contract (\<open>attempt_executor\<close>), from which
    follows what the sink gets and what the result of an execution accounts for.
  \<^item> \<open>Evidence\<close> (documents of \<open>src/internal/evidence\<close>), \<open>Display\<close>, \<open>Report\<close>, \<open>ReportRender\<close>, with \<open>Display_Facts\<close>, \<open>Report_Facts\<close>, \<open>Report_Props\<close>
    (\<open>src/internal/report\<close>): the report, bound to its inputs; both renderings keep a fixed outline (\<open>outline\<close>) and show untrusted text without loss and
    without effect.
  \<^item> \<open>GithubApp\<close>, \<open>GithubControl\<close>, \<open>GithubPayload\<close> (\<open>src/internal/githubapp\<close>), with \<open>GithubApp_Props\<close>, \<open>Payload_Facts\<close>: state machines (\<open>state_machine\<close>, \<open>ranked_machine\<close>,
    \<open>table_machine\<close>, \<open>ranked_table\<close>), signatures, headers, the scan and the projection of bodies, identities, worker assignments.
  \<^item> \<open>ControllerStore\<close>, \<open>ControllerOutbox\<close> (\<open>src/internal/githubcontrollerstore\<close>), with \<open>Controller_Facts\<close>, \<open>Controller_Runs\<close>, \<open>Controller_Props\<close>: the tables of
    the store, its transactions as the step relation \<open>store_step\<close>, its invariant \<open>store_inv\<close>, and what holds along its runs.
  \<^item> \<open>GithubInbox\<close> (\<open>src/internal/githubinbox\<close>), \<open>GithubReceiver\<close> (\<open>src/internal/githubreceiver\<close>), \<open>GithubController\<close> (\<open>src/internal/githubcontroller\<close>), with
    \<open>Inbox_Facts\<close>, \<open>Intake\<close>, \<open>Intake_Props\<close>, \<open>Outbox_Props\<close>: from a request to an acknowledged record. \<open>inbox_step\<close> is a transaction of
    the inbox; \<open>intake_step\<close> lets the receiver and any number of controllers interleave on inbox and store and stop anywhere. \<open>Lease\<close> holds the contract that
    inbox and store share as tables of leases (\<open>lease_table\<close>).

  This theory holds the property that spans comparison and evaluation.

  \<^bold>\<open>Bounds.\<close> The scan of a webhook body (\<open>scanJSON\<close>) recurses up to a bound that depends on the number of tokens (\<open>scan_bound\<close>);
  \<open>scan_defined\<close> shows that it always suffices. All other loops end by the structure of their data or by a proved measure.

  \<^bold>\<open>Not modelled.\<close> Operating system and network: the backends that run attempts in containers and their engine client, the sinks of log output, collection of artifacts, the writing and
  reading of evidence bundles, git, materialization of revisions, listeners, servers, database files and their pragmas, private keys and tokens,
  command lines. Error messages; logging; the copying of slices, which has no effect on values.
  Concurrency inside one process is the order of transactions, since every operation of a store holds its mutex.
\<close>

section \<open>From the comparison to the evaluation\<close>

text \<open>The head attempt was not observed completely; neither side shows a fact.\<close>

definition partialDoc :: TraceSetDocument where
  "partialDoc = traceDocument [demoAttempt ''base'' 1 CoverageComplete [],
     demoAttempt ''head'' 2 ''partial'' []]"

definition partialGroup :: scenarioGroup where
  "partialGroup = \<lparr>sg_id = ''s'', sg_base = demoBase, sg_head = [demoAttempt ''head'' 2 ''partial'' []]\<rparr>"

definition partialRecord :: "(string \<Rightarrow> string) \<Rightarrow> DeltaRecord" where
  "partialRecord sha = coverageRecord sha ProfileVersionV1Alpha1 partialGroup
     (mkLimitation ''scenario-coverage-limited'' ''At least one repetition has incomplete observation coverage.'')"

lemma partial_scenario: "compareScenario sha norm partialGroup = Inr ([], 0)"
proof -
  have "buildVariants (sg_base partialGroup) = []" "buildVariants (sg_head partialGroup) = []"
    by (simp_all add: partialGroup_def buildVariants_def demoBase_def demoAttempt_def)
  moreover have "orderRecord sha norm partialGroup = None"
    by (simp add: orderRecord_def stableSequences_def partialGroup_def demoBase_def)
  moreover have "matchVariants sha norm sid [] [] = \<lparr>ms_base = [], ms_head = [], ms_records = []\<rparr>" for sid
    by (simp add: matchVariants_def unionKeys_def unionAnchorKeys_def anchorsOf_def unconsumed_def)
  ultimately show ?thesis by (simp add: compareScenario_def sortedVariants_def)
qed

lemma partial_compare:
  obtains d where "compareBody sha compare_DefaultLimits live partialDoc = Inr d"
    "bd_Records d = [partialRecord sha]"
proof -
  have "validateTraceDocument partialDoc compare_DefaultLimits = None"
    by (simp add: validate_defs partialDoc_def doc_defs)
  moreover have "groupScenarios (ts_Attempts partialDoc) = [partialGroup]"
    by (simp add: groupScenarios_def addAttempt_def sortAttempts_def partialDoc_def traceDocument_def
        demoAttempt_def partialGroup_def demoBase_def)
  moreover have "snd (scenarioComparison partialGroup) = [mkLimitation ''scenario-coverage-limited''
      ''At least one repetition has incomplete observation coverage.'']"
    by (simp add: scenarioComparison_def Let_def attemptsComplete_def demoAttempt_def partialGroup_def
        demoBase_def)
  moreover have "np_Version (ts_Profile partialDoc) = ProfileVersionV1Alpha1"
    by (simp add: partialDoc_def traceDocument_def traceProfile_def)
  moreover have "dr_ID (partialRecord sha) \<noteq> []"
    by (simp add: partialRecord_def coverageRecord_def Let_def deltaRecordID_nonempty)
  ultimately show thesis
    using that
    by (cases "scenarioComparison partialGroup")
       (simp add: compareBody_def partial_scenario compare_DefaultLimits_def Let_def sortRecords_def fillID_def
          flip: partialRecord_def)
qed

text \<open>
  C9. The comparator and the evaluator fit together: a delta that the comparator returns passes every check of
  the evaluator, provided that the hash yields 64 hexadecimal digits and separates the records of this delta,
  and that record count and evidence lists are within the limits of the evaluator (the comparator does not enforce
  the limit on the evidence of one record).
\<close>

theorem comparator_delta_accepted:
  assumes "compareBody sha limits ctx doc = Inr delta"
    and "\<forall>s. isLowerHex (sha s) 64" and "distinct (map dr_ID (bd_Records delta))"
    and "1 \<le> pl_MaxScenarioIDsPerFinding pl" and "int (length (bd_Records delta)) \<le> pl_MaxDeltaRecords pl"
    and "list_all (\<lambda>r. int (length (dr_Evidence r)) \<le> pl_MaxEvidenceRefsPerFinding pl
        \<and> int (length (dr_BaseEvidence r)) \<le> pl_MaxEvidenceRefsPerFinding pl
        \<and> int (length (dr_HeadEvidence r)) \<le> pl_MaxEvidenceRefsPerFinding pl) (bd_Records delta)"
  shows "validateDelta delta pl = None"
proof -
  have v: "validateTraceDocument doc limits = None" using assms(1) by (rule compareBody_elim)
  have sum: "bd_Summary delta = summarize (bd_Records delta)" using assms(1) by (rule compareBody_elim)
  note ident = compareBody_identity [OF assms(1)]
  have ids: "dr_ID r \<noteq> []" if "r \<in> set (bd_Records delta)" for r
    using document_identified [OF assms(1) that] deltaRecordID_nonempty unfolding identified_def by metis
  have rec: "validateDeltaRecord r pl = None" if "r \<in> set (bd_Records delta)" for r
    using fitRecord_valid [OF document_fit [OF assms(1) that assms(2)] assms(4)] assms(6) that
    by (simp add: list_all_iff)
  have "validateRecords pl rs seen = None"
    if "set rs \<subseteq> set (bd_Records delta)" "distinct (map dr_ID rs)" "seen \<inter> dr_ID ` set rs = {}" for rs seen
    using that by (induction rs arbitrary: seen) (auto simp: ids rec)
  from this [of "bd_Records delta" "{}"] assms(3) have "validateRecords pl (bd_Records delta) {} = None" by simp
  moreover have "validateSummary (bd_Summary delta) (bd_Records delta) = None"
    by (simp add: sum validateSummary_def summarize_def)
  ultimately show ?thesis
    using assms(5) ident validateTraceDocument_None [OF v]
    by (simp add: validateDelta_def comparisonProfile_def)
qed

theorem comparator_delta_accepted_witness:
  "\<exists>d. compareBody (\<lambda>_. replicate 64 (CHR ''0'')) compare_DefaultLimits live partialDoc = Inr d
     \<and> length (bd_Records d) = 1 \<and> validateDelta d policy_DefaultLimits = None"
proof -
  let ?sha = "\<lambda>_. replicate 64 (CHR ''0'')"
  obtain d where d: "compareBody ?sha compare_DefaultLimits live partialDoc = Inr d"
    and recs: "bd_Records d = [partialRecord ?sha]" by (rule partial_compare)
  have hex: "\<forall>s. isLowerHex (?sha s) 64" by (simp add: isLowerHex_def list_all_iff lower_hex_char_def)
  have ev: "dr_Evidence (partialRecord ?sha) = []" "dr_BaseEvidence (partialRecord ?sha) = []"
    "dr_HeadEvidence (partialRecord ?sha) = []"
    by (simp_all add: partialRecord_def coverageRecord_def Let_def zeroRecord_def)
  have "validateDelta d policy_DefaultLimits = None"
    by (rule comparator_delta_accepted [OF d hex]) (simp_all add: recs ev policy_DefaultLimits_def)
  with d recs show ?thesis by simp
qed

end
